(* ===== verification/Prelude.thy ===== *)
theory Prelude
  imports Main "HOL-Library.Word" "HOL-Library.List_Lexorder"
begin

unbundle bit_operations_syntax

text \<open>
  What every component shares: the byte and machine-integer types, the result type of fallible
  code with the combinators of Rust's \<open>?\<close> operator, big-endian integers, decimal printing (for the
  strings the code formats), \<open>Vec\<close> operations, and the interface of a fixed-width byte codec.
\<close>

section \<open>Types\<close>

type_synonym byte = "8 word"
type_synonym bytes = "byte list"
type_synonym u32 = "32 word"
type_synonym u64 = "64 word"

text \<open>Facts that say an operation keeps its value well formed, used as introduction rules.\<close>
named_theorems wf_intros
text \<open>Sizes of encoded values.\<close>
named_theorems size_simps

section \<open>Results and early returns\<close>

text \<open>
  \<open>Result<T, E>\<close> is \<open>'e + 'a\<close> with \<open>Inl\<close> the error. \<open>r?\<close> followed by the rest of the body is
  \<open>and_then r (\<lambda>x. rest)\<close>; \<open>map_err\<close> and \<open>ok_or\<close> are the methods of that name.
\<close>

definition and_then :: "'e + 'a \<Rightarrow> ('a \<Rightarrow> 'e + 'b) \<Rightarrow> 'e + 'b" where
  "and_then r f = (case r of Inl e \<Rightarrow> Inl e | Inr x \<Rightarrow> f x)"

definition map_err :: "('e \<Rightarrow> 'f) \<Rightarrow> 'e + 'a \<Rightarrow> 'f + 'a" where
  "map_err g r = (case r of Inl e \<Rightarrow> Inl (g e) | Inr x \<Rightarrow> Inr x)"

definition ok_or :: "'e \<Rightarrow> 'a option \<Rightarrow> 'e + 'a" where
  "ok_or e m = (case m of None \<Rightarrow> Inl e | Some x \<Rightarrow> Inr x)"

fun is_ok :: "'e + 'a \<Rightarrow> bool" where
  "is_ok (Inl _) = False"
| "is_ok (Inr _) = True"

lemma and_then_simps [simp]:
  "and_then (Inl e) f = Inl e" "and_then (Inr x) f = f x"
  by (simp_all add: and_then_def)

lemma and_then_Inr_iff: "and_then r f = Inr y \<longleftrightarrow> (\<exists>x. r = Inr x \<and> f x = Inr y)"
  by (cases r) simp_all

lemma and_then_Inl_iff: "and_then r f = Inl e \<longleftrightarrow> r = Inl e \<or> (\<exists>x. r = Inr x \<and> f x = Inl e)"
  by (cases r) simp_all

lemma map_err_simps [simp]:
  "map_err g (Inl e) = Inl (g e)" "map_err g (Inr x) = Inr x"
  by (simp_all add: map_err_def)

lemma map_err_Inr_iff [simp]: "map_err g r = Inr x \<longleftrightarrow> r = Inr x"
  by (cases r) simp_all

lemma ok_or_simps [simp]: "ok_or e None = Inl e" "ok_or e (Some x) = Inr x"
  by (simp_all add: ok_or_def)

lemma ok_or_Inr_iff [simp]: "ok_or e m = Inr x \<longleftrightarrow> m = Some x"
  by (cases m) simp_all

lemma ok_or_Inl_iff [simp]: "ok_or e m = Inl e' \<longleftrightarrow> m = None \<and> e' = e"
  by (cases m) auto

lemma is_ok_iff: "is_ok r \<longleftrightarrow> (\<exists>x. r = Inr x)"
  by (cases r) simp_all

text \<open>Mapping a fallible function over an iterator and collecting into \<open>Result<Vec<_>, _>\<close>.\<close>

fun collect_results :: "('a \<Rightarrow> 'e + 'b) \<Rightarrow> 'a list \<Rightarrow> 'e + 'b list" where
  "collect_results f [] = Inr []"
| "collect_results f (x # xs) =
     and_then (f x) (\<lambda>y. and_then (collect_results f xs) (\<lambda>ys. Inr (y # ys)))"

lemma collect_results_Inr:
  "(\<And>x. x \<in> set xs \<Longrightarrow> f x = Inr (g x)) \<Longrightarrow> collect_results f xs = Inr (map g xs)"
  by (induction xs) simp_all

section \<open>Vectors\<close>

text \<open>\<open>Iterator::position\<close> and \<open>Vec::remove\<close>.\<close>

fun position :: "('a \<Rightarrow> bool) \<Rightarrow> 'a list \<Rightarrow> nat option" where
  "position p [] = None"
| "position p (x # xs) = (if p x then Some 0 else map_option Suc (position p xs))"

definition vec_remove :: "nat \<Rightarrow> 'a list \<Rightarrow> 'a list" where
  "vec_remove i xs = take i xs @ drop (Suc i) xs"

lemma position_None_iff: "position p xs = None \<longleftrightarrow> (\<forall>x \<in> set xs. \<not> p x)"
  by (induction xs) auto

lemma position_Some:
  "position p xs = Some i \<Longrightarrow> i < length xs \<and> p (xs ! i) \<and> (\<forall>j < i. \<not> p (xs ! j))"
proof (induction xs arbitrary: i)
  case Nil
  then show ?case by simp
next
  case (Cons x xs)
  then show ?case
    by (cases i) (auto split: if_splits simp: nth_Cons')
qed

lemma position_SomeE:
  assumes "x \<in> set xs" "p x"
  obtains i where "position p xs = Some i"
  using assms position_None_iff[of p xs] by (cases "position p xs") auto

lemma vec_remove_0 [simp]: "vec_remove 0 xs = tl xs"
  by (simp add: vec_remove_def drop_Suc)

lemma vec_remove_Suc [simp]: "vec_remove (Suc i) (x # xs) = x # vec_remove i xs"
  by (simp add: vec_remove_def)

lemma length_vec_remove: "i < length xs \<Longrightarrow> length (vec_remove i xs) = length xs - 1"
  by (simp add: vec_remove_def)

lemma set_vec_remove_subset: "set (vec_remove i xs) \<subseteq> set xs"
  by (auto simp: vec_remove_def dest: in_set_takeD in_set_dropD)

text \<open>Removing the first element a predicate picks, out of a list that has at most one.\<close>

lemma vec_remove_position:
  assumes "position p xs = Some i" and "\<And>x y. x \<in> set xs \<Longrightarrow> y \<in> set xs \<Longrightarrow> p x \<Longrightarrow> p y \<Longrightarrow> x = y"
    and "distinct xs"
  shows "vec_remove i xs = filter (\<lambda>x. \<not> p x) xs"
  using assms
proof (induction xs arbitrary: i)
  case Nil
  then show ?case by simp
next
  case (Cons x xs)
  show ?case
  proof (cases "p x")
    case True
    with Cons.prems have "\<forall>y \<in> set xs. \<not> p y" by auto
    with True Cons.prems(1) show ?thesis by (simp add: filter_id_conv)
  next
    case False
    with Cons.prems(1) obtain j where j: "position p xs = Some j" "i = Suc j" by auto
    from Cons.prems have "distinct xs" by simp
    with j(1) Cons.prems(2) have "vec_remove j xs = filter (\<lambda>x. \<not> p x) xs"
      by (intro Cons.IH) auto
    with False j show ?thesis by simp
  qed
qed

section \<open>Big-endian integers\<close>

text \<open>\<open>u32::to_be_bytes\<close> and \<open>u32::from_be_bytes\<close>.\<close>

definition be_bytes :: "u32 \<Rightarrow> bytes" where
  "be_bytes w = [ucast (drop_bit 24 w), ucast (drop_bit 16 w), ucast (drop_bit 8 w), ucast w]"

fun of_be_bytes :: "bytes \<Rightarrow> u32" where
  "of_be_bytes [a, b, c, d] =
     push_bit 24 (ucast a) OR push_bit 16 (ucast b) OR push_bit 8 (ucast c) OR ucast d"
| "of_be_bytes _ = 0"

lemma length_be_bytes [simp, size_simps]: "length (be_bytes w) = 4"
  by (simp add: be_bytes_def)

lemma of_be_bytes_be_bytes [simp]: "of_be_bytes (be_bytes w) = w"
proof -
  have "bit (of_be_bytes (be_bytes w)) n = bit w n" if n: "n < 32" for n
  proof -
    consider "n < 8" | "8 \<le> n" "n < 16" | "16 \<le> n" "n < 24" | "24 \<le> n" using n by linarith
    then show ?thesis
      using n by cases (auto simp: be_bytes_def bit_simps)
  qed
  then show ?thesis by (intro bit_word_eqI) simp
qed

lemma length_4_obtain:
  assumes "length bs = 4"
  obtains a b c d where "bs = [a, b, c, d]"
  using assms by (auto simp: numeral_eq_Suc length_Suc_conv)

lemma be_bytes_of_be_bytes [simp]:
  assumes "length bs = 4"
  shows "be_bytes (of_be_bytes bs) = bs"
proof -
  from assms obtain a b c d where bs: "bs = [a, b, c, d]" by (rule length_4_obtain)
  have "ucast (drop_bit 24 (of_be_bytes bs)) = a" "ucast (drop_bit 16 (of_be_bytes bs)) = b"
    "ucast (drop_bit 8 (of_be_bytes bs)) = c" "ucast (of_be_bytes bs) = d"
    unfolding bs by (rule bit_word_eqI; auto simp: bit_simps dest: bit_imp_le_length)+
  then show ?thesis by (simp add: be_bytes_def bs)
qed

lemma be_bytes_inj [simp]: "be_bytes v = be_bytes w \<longleftrightarrow> v = w"
  by (metis of_be_bytes_be_bytes)

section \<open>Checked arithmetic\<close>

text \<open>\<open>u32::checked_add\<close>, \<open>u32::saturating_sub\<close>, and the range \<open>a..b\<close> as a list.\<close>

definition checked_add :: "u32 \<Rightarrow> u32 \<Rightarrow> u32 option" where
  "checked_add a b = (if unat a + unat b < 2 ^ 32 then Some (a + b) else None)"

text \<open>For evaluation: the check on the machine words.\<close>

lemma checked_add_code [code]: "checked_add a b = (if a + b < a then None else Some (a + b))"
proof -
  have a: "unat a < 2 ^ LENGTH(32)" and b: "unat b < 2 ^ LENGTH(32)" by (rule unsigned_less)+
  show ?thesis
  proof (cases "unat a + unat b < 2 ^ 32")
    case True
    then have "unat (a + b) = unat a + unat b" by (simp add: unat_word_ariths)
    with True show ?thesis by (simp add: checked_add_def word_less_nat_alt)
  next
    case False
    then have "unat (a + b) = unat a + unat b - 2 ^ 32"
      using a b by (simp add: unat_word_ariths mod_if)
    with False a b show ?thesis by (simp add: checked_add_def word_less_nat_alt)
  qed
qed

definition saturating_sub :: "u32 \<Rightarrow> u32 \<Rightarrow> u32" where
  "saturating_sub a b = (if b \<le> a then a - b else 0)"

definition u32_range :: "u32 \<Rightarrow> u32 \<Rightarrow> u32 list" where
  "u32_range a b = map word_of_nat [unat a..<unat b]"

lemma unat_u32: "unat (a :: u32) < 2 ^ 32"
proof -
  have "unat a < 2 ^ LENGTH(32)" by (rule unsigned_less)
  then show ?thesis by simp
qed

lemma unat_of_nat_u32: "n < 2 ^ 32 \<Longrightarrow> unat (word_of_nat n :: u32) = n"
  by (simp add: unat_of_nat take_bit_nat_eq_self)

lemma checked_add_Some: "checked_add a b = Some c \<Longrightarrow> unat c = unat a + unat b"
  by (auto simp: checked_add_def unat_word_ariths split: if_splits)

lemma checked_add_1_None_iff: "checked_add a 1 = None \<longleftrightarrow> unat a = 2 ^ 32 - 1"
  using unat_u32[of a] by (auto simp: checked_add_def)

lemma checked_add_1_Some:
  "unat a + 1 < 2 ^ 32 \<Longrightarrow> checked_add a 1 = Some (a + 1) \<and> unat (a + 1) = unat a + 1"
  by (simp add: checked_add_def unat_word_ariths)

lemma unat_saturating_sub: "unat (saturating_sub a b) = unat a - unat b"
  by (auto simp: saturating_sub_def unat_sub word_le_nat_alt)

lemma length_u32_range [simp]: "length (u32_range a b) = unat b - unat a"
  by (simp add: u32_range_def)

lemma set_u32_range: "c \<in> set (u32_range a b) \<longleftrightarrow> a \<le> c \<and> c < b"
proof
  assume "c \<in> set (u32_range a b)"
  then obtain n where n: "unat a \<le> n" "n < unat b" "c = word_of_nat n" by (auto simp: u32_range_def)
  moreover from n(2) have "n < 2 ^ 32" using unat_u32[of b] by simp
  then have "unat (word_of_nat n :: u32) = n" by (rule unat_of_nat_u32)
  ultimately show "a \<le> c \<and> c < b" by (simp add: word_le_nat_alt word_less_nat_alt)
next
  assume "a \<le> c \<and> c < b"
  then have "unat c \<in> {unat a..<unat b}" by (simp add: word_le_nat_alt word_less_nat_alt)
  then show "c \<in> set (u32_range a b)" unfolding u32_range_def by (force simp: image_iff)
qed

lemma distinct_u32_range: "distinct (u32_range a b)"
proof -
  have "inj_on (word_of_nat :: nat \<Rightarrow> u32) {unat a..<unat b}"
  proof (rule inj_onI)
    fix m n assume mn: "m \<in> {unat a..<unat b}" "n \<in> {unat a..<unat b}"
      and eq: "(word_of_nat m :: u32) = word_of_nat n"
    have lt: "m < 2 ^ 32" "n < 2 ^ 32" using mn unat_u32[of b] by (auto intro: less_trans)
    have "m = unat (word_of_nat m :: u32)" by (rule unat_of_nat_u32[OF lt(1), symmetric])
    also have "\<dots> = unat (word_of_nat n :: u32)" by (simp only: eq)
    also have "\<dots> = n" by (rule unat_of_nat_u32[OF lt(2)])
    finally show "m = n" .
  qed
  then show ?thesis by (simp add: u32_range_def distinct_map)
qed

text \<open>A byte-string literal \<open>b"..."\<close>.\<close>

definition ascii :: "string \<Rightarrow> bytes" where
  "ascii s = map of_char s"

section \<open>Decimal printing\<close>

text \<open>The \<open>{}\<close> of \<open>format!\<close> on unsigned and signed integers.\<close>

definition digit_char :: "nat \<Rightarrow> char" where
  "digit_char d = char_of (48 + d)"

fun show_nat :: "nat \<Rightarrow> string" where
  "show_nat n = (if n < 10 then [digit_char n] else show_nat (n div 10) @ [digit_char (n mod 10)])"

declare show_nat.simps [simp del]

definition show_int :: "int \<Rightarrow> string" where
  "show_int i = (if i < 0 then CHR ''-'' # show_nat (nat (- i)) else show_nat (nat i))"

abbreviation show_u32 :: "u32 \<Rightarrow> string" where
  "show_u32 w \<equiv> show_nat (unat w)"

definition digits :: "char set" where
  "digits = digit_char ` {..<10}"

lemma digit_char_inj: "d < 10 \<Longrightarrow> e < 10 \<Longrightarrow> digit_char d = digit_char e \<Longrightarrow> d = e"
  by (drule arg_cong[where f = "of_char :: char \<Rightarrow> nat"])
    (simp add: digit_char_def take_bit_nat_eq_self)

lemma show_nat_digits: "set (show_nat n) \<subseteq> digits"
proof (induction n rule: show_nat.induct)
  case (1 n)
  then show ?case
    by (subst show_nat.simps) (auto simp: digits_def)
qed

lemma show_nat_nonempty [simp]: "show_nat n \<noteq> []"
  by (subst show_nat.simps) simp

lemma show_nat_inj: "show_nat m = show_nat n \<Longrightarrow> m = n"
proof (induction m arbitrary: n rule: show_nat.induct)
  case (1 m)
  have m: "show_nat m = (if m < 10 then [digit_char m] else show_nat (m div 10) @ [digit_char (m mod 10)])"
    and n: "show_nat n = (if n < 10 then [digit_char n] else show_nat (n div 10) @ [digit_char (n mod 10)])"
    by (rule show_nat.simps)+
  consider (small) "m < 10" "n < 10" | (big) "\<not> m < 10" "\<not> n < 10"
    using "1.prems" m n show_nat_nonempty[of "m div 10"] show_nat_nonempty[of "n div 10"]
    by (cases "m < 10"; cases "n < 10") (auto simp del: show_nat_nonempty)
  then show ?case
  proof cases
    case small
    with "1.prems" m n show ?thesis by (simp add: digit_char_inj)
  next
    case big
    with "1.prems" m n have "show_nat (m div 10) = show_nat (n div 10)"
      and d: "digit_char (m mod 10) = digit_char (n mod 10)" by simp_all
    with "1.IH" big have "m div 10 = n div 10" by simp
    moreover from d have "m mod 10 = n mod 10" by (intro digit_char_inj) simp_all
    ultimately show ?thesis by (metis div_mult_mod_eq)
  qed
qed

lemma minus_not_digit: "CHR ''-'' \<notin> digits"
proof
  assume "CHR ''-'' \<in> digits"
  then obtain d where "d < 10" and eq: "CHR ''-'' = digit_char d" by (auto simp: digits_def)
  from eq have "of_char (CHR ''-'') = (of_char (digit_char d) :: nat)" by simp
  with \<open>d < 10\<close> show False by (simp add: digit_char_def)
qed

lemma show_int_chars: "set (show_int i) \<subseteq> insert (CHR ''-'') digits"
  using show_nat_digits by (auto simp: show_int_def)

lemma show_int_nonempty [simp]: "show_int i \<noteq> []"
  by (simp add: show_int_def)

lemma show_int_inj: "show_int i = show_int j \<Longrightarrow> i = j"
proof -
  have no_minus: "CHR ''-'' # s \<noteq> show_nat n" for s n
    using show_nat_digits[of n] minus_not_digit by (metis list.set_intros(1) subsetD)
  assume eq: "show_int i = show_int j"
  show "i = j"
  proof (cases "i < 0"; cases "j < 0")
    assume "i < 0" "j < 0"
    with eq have "nat (- i) = nat (- j)" by (simp add: show_int_def show_nat_inj)
    with \<open>i < 0\<close> \<open>j < 0\<close> show ?thesis by simp
  next
    assume "\<not> i < 0" "\<not> j < 0"
    with eq have "nat i = nat j" by (simp add: show_int_def show_nat_inj)
    with \<open>\<not> i < 0\<close> \<open>\<not> j < 0\<close> show ?thesis by simp
  qed (use eq no_minus no_minus[symmetric] in \<open>simp_all add: show_int_def\<close>)
qed

lemma show_int_eq_iff [simp]: "show_int i = show_int j \<longleftrightarrow> i = j"
  using show_int_inj by blast

text \<open>A separator that neither part contains splits a formatted string in one way only.\<close>

lemma separator_split:
  assumes "a @ x # b = a' @ x # b'" and "x \<notin> set a" and "x \<notin> set a'"
  shows "a = a' \<and> b = b'"
  using assms
proof (induction a arbitrary: a')
  case Nil
  then show ?case by (cases a') auto
next
  case (Cons c cs)
  then show ?case by (cases a') auto
qed

section \<open>The interface of a fixed-width byte codec\<close>

text \<open>
  Several components move values through byte strings of a fixed width: ratchet headers, key pairs,
  signatures, handshakes. The contract is the same: encoding then decoding gives the value back,
  decoding succeeds only on an encoding, and exactly the strings of the right length decode.
\<close>

locale byte_codec =
  fixes enc :: "'a \<Rightarrow> bytes"
    and dec :: "bytes \<Rightarrow> 'e + 'a"
    and wf :: "'a \<Rightarrow> bool"
    and width :: nat
  assumes dec_enc: "wf x \<Longrightarrow> dec (enc x) = Inr x"
    and enc_dec: "dec b = Inr x \<Longrightarrow> wf x \<and> enc x = b"
    and dec_iff: "is_ok (dec b) \<longleftrightarrow> length b = width"
begin

lemma enc_width:
  assumes "wf x"
  shows "length (enc x) = width"
proof -
  have "is_ok (dec (enc x))" unfolding dec_enc[OF assms] by (rule is_ok.simps(2)[THEN iffD2, OF TrueI])
  then show ?thesis by (rule dec_iff[THEN iffD1])
qed

lemma enc_inj:
  assumes "wf x" "wf y" "enc x = enc y"
  shows "x = y"
proof -
  have "Inr x = (Inr y :: 'e + 'a)"
    using dec_enc[OF assms(1)] dec_enc[OF assms(2)] unfolding assms(3) by (rule trans[OF sym])
  then show ?thesis by (rule sum.inject(2)[THEN iffD1])
qed

lemma dec_inj:
  assumes "dec b = Inr x" "dec b' = Inr x"
  shows "b = b'"
  using enc_dec[OF assms(1)] enc_dec[OF assms(2)] by blast

lemma dec_wrong_width: "length b \<noteq> width \<Longrightarrow> \<exists>e. dec b = Inl e"
  using dec_iff[of b] by (cases "dec b") simp_all

lemma framing:
  assumes "wf x"
  shows "dec (take width (enc x @ rest)) = Inr x" and "drop width (enc x @ rest) = rest"
  using enc_width[OF assms] dec_enc[OF assms] by simp_all

lemma unframing:
  assumes "width \<le> length b" and "dec (take width b) = Inr x"
  shows "b = enc x @ drop width b"
proof -
  from enc_dec[OF assms(2)] have "enc x = take width b" by simp
  then show ?thesis by simp
qed

end

section \<open>Self-delimiting text\<close>

text \<open>
  Self-delimiting text, for the executable instances of the JSON libraries: every character is
  marked, and the end has a mark of its own. Integers are written with a sign and unary digits.
\<close>

fun mark :: "string \<Rightarrow> string" where
  "mark [] = ''!''"
| "mark (c # s) = CHR ''.'' # c # mark s"

fun unmark :: "string \<Rightarrow> string \<times> string" where
  "unmark (d # c # r) = (if d = CHR ''.'' then (case unmark r of (s, r) \<Rightarrow> (c # s, r)) else ([], c # r))"
| "unmark [d] = ([], [])"
| "unmark [] = ([], [])"

lemma unmark_mark [simp]: "unmark (mark s @ r) = (s, r)"
proof (induction s)
  case Nil
  show ?case by (cases r) simp_all
next
  case (Cons c s)
  then show ?case by simp
qed

lemma mark_not_Nil [simp]: "mark s \<noteq> []"
  by (cases s) simp_all

definition int_text :: "int \<Rightarrow> string" where
  "int_text i = (if i < 0 then CHR ''-'' else CHR ''+'') # replicate (nat \<bar>i\<bar>) CHR ''x''"

definition text_int :: "string \<Rightarrow> int" where
  "text_int s = (case s of [] \<Rightarrow> 0 | c # r \<Rightarrow> if c = CHR ''-'' then - int (length r) else int (length r))"

lemma text_int_text [simp]: "text_int (int_text i) = i"
  by (simp add: text_int_def int_text_def)

definition opt_text :: "string option \<Rightarrow> string" where
  "opt_text m = (case m of None \<Rightarrow> [] | Some s \<Rightarrow> CHR ''x'' # s)"

definition text_opt :: "string \<Rightarrow> string option" where
  "text_opt s = (case s of [] \<Rightarrow> None | c # r \<Rightarrow> Some r)"

lemma text_opt_text [simp]: "text_opt (opt_text m) = m"
  by (simp add: text_opt_def opt_text_def split: option.split)

end
