(* ===== verification/Primitives.thy ===== *)
theory Primitives
  imports Prelude
begin

text \<open>
  The cryptographic wrappers of \<open>im-e2ee-core/src/primitives/mod.rs\<close>: the key newtypes and the
  functions around X25519, Ed25519, HKDF-SHA256 and AES-256-GCM.

  The algorithms themselves are third-party crates. They are the fields of the record
  \<open>crypto_lib\<close>, an argument of every definition that calls them; what the code relies on is stated
  by the named predicates at the end (\<open>dh_commutes\<close>, \<open>hkdf_bounded\<close>, \<open>aead_correct\<close>, ...), which
  say what those crates document. Operating-system randomness is an argument as well: an
  infallible \<open>OsRng\<close> draw is a byte string, a \<open>getrandom\<close> draw is a byte string or a failure.
\<close>

section \<open>Errors\<close>

text \<open>
  The error type of the E2EE core (\<open>im-e2ee-core/src/errors.rs\<close>) and the messages its derived
  \<open>Display\<close> prints, which the session managers forward to their callers.
\<close>

datatype e2ee_error =
    EncryptionFailed
  | DecryptionFailed
  | HkdfExpandFailed
  | InvalidPublicKey
  | InvalidSignature
  | SignatureMismatch
  | SpkSignatureRejected
  | InvalidPreKeyId string
  | SendingChainNotInitialized
  | ReceivingChainNotInitialized
  | CounterGapExceeded u32 u32
  | DuplicateOrExpiredMessage
  | InvalidCounter string
  | MaxSkippedKeysExceeded
  | StateSerializationFailed string
  | StateDeserializationFailed
  | InvalidHeader string

fun display_e2ee_error :: "e2ee_error \<Rightarrow> string" where
  "display_e2ee_error EncryptionFailed = ''AES-GCM encryption failed''"
| "display_e2ee_error DecryptionFailed =
     ''AES-GCM decryption failed: authentication tag mismatch or corrupted data''"
| "display_e2ee_error HkdfExpandFailed = ''HKDF expand operation failed''"
| "display_e2ee_error InvalidPublicKey = ''invalid X25519 public key''"
| "display_e2ee_error InvalidSignature = ''invalid Ed25519 signature''"
| "display_e2ee_error SignatureMismatch = ''Ed25519 signature mismatch''"
| "display_e2ee_error SpkSignatureRejected =
     ''X3DH: signed pre-key signature verification rejected''"
| "display_e2ee_error (InvalidPreKeyId s) = ''invalid pre-key id: '' @ s"
| "display_e2ee_error SendingChainNotInitialized = ''sending chain not initialized''"
| "display_e2ee_error ReceivingChainNotInitialized = ''receiving chain not initialized''"
| "display_e2ee_error (CounterGapExceeded gap maximum) =
     ''counter gap '' @ show_u32 gap @ '' exceeds max skip '' @ show_u32 maximum"
| "display_e2ee_error DuplicateOrExpiredMessage = ''duplicate or expired message''"
| "display_e2ee_error (InvalidCounter s) = ''invalid counter: '' @ s"
| "display_e2ee_error MaxSkippedKeysExceeded = ''max skipped message keys limit reached''"
| "display_e2ee_error (StateSerializationFailed s) =
     ''ratchet state serialization failed: '' @ s"
| "display_e2ee_error StateDeserializationFailed =
     ''ratchet state deserialization failed: corrupted data''"
| "display_e2ee_error (InvalidHeader s) = ''invalid header format: '' @ s"

section \<open>Newtypes\<close>

datatype aes_256_key = Aes256Key (aes_key_bytes: bytes)
datatype x25519_public_key = X25519PublicKey (x_pub_bytes: bytes)
datatype x25519_private_key = X25519PrivateKey (x_priv_bytes: bytes)
datatype ed25519_public_key = Ed25519PublicKey (ed_pub_bytes: bytes)
datatype ed25519_private_key = Ed25519PrivateKey (ed_priv_bytes: bytes)
datatype aes_nonce = AesNonce (nonce_bytes: bytes)
datatype ed25519_signature = Ed25519Signature (sig_bytes: bytes)

record x25519_key_pair =
  xkp_public_key :: x25519_public_key
  xkp_private_key :: x25519_private_key

record ed25519_key_pair =
  edkp_public_key :: ed25519_public_key
  edkp_private_key :: ed25519_private_key

section \<open>The third-party algorithms\<close>

text \<open>
  \<open>x_public\<close> is \<open>PublicKey::from(&StaticSecret)\<close>, \<open>x_dh\<close> is \<open>diffie_hellman\<close>; \<open>ed_public\<close>,
  \<open>ed_sign\<close>, \<open>ed_key_valid\<close> and \<open>ed_verify\<close> are \<open>SigningKey::verifying_key\<close>, \<open>sign\<close>,
  \<open>VerifyingKey::from_bytes\<close> and \<open>verify\<close>; \<open>hkdf_expand\<close> is \<open>Hkdf::new(salt, ikm)\<close> followed by
  \<open>expand(info, n bytes)\<close>; \<open>aes_new\<close> is \<open>Aes256Gcm::new_from_slice\<close> and \<open>aes_seal\<close>/\<open>aes_open\<close> are
  \<open>encrypt\<close>/\<open>decrypt\<close> of the cipher it made.
\<close>

record crypto_lib =
  x_public :: "bytes \<Rightarrow> bytes"
  x_dh :: "bytes \<Rightarrow> bytes \<Rightarrow> bytes"
  ed_public :: "bytes \<Rightarrow> bytes"
  ed_sign :: "bytes \<Rightarrow> bytes \<Rightarrow> bytes"
  ed_key_valid :: "bytes \<Rightarrow> bool"
  ed_verify :: "bytes \<Rightarrow> bytes \<Rightarrow> bytes \<Rightarrow> bool"
  hkdf_expand :: "bytes \<Rightarrow> bytes \<Rightarrow> bytes \<Rightarrow> nat \<Rightarrow> bytes option"
  aes_new :: "bytes \<Rightarrow> bytes option"
  aes_seal :: "bytes \<Rightarrow> bytes \<Rightarrow> bytes \<Rightarrow> bytes \<Rightarrow> bytes option"
  aes_open :: "bytes \<Rightarrow> bytes \<Rightarrow> bytes \<Rightarrow> bytes \<Rightarrow> bytes option"

section \<open>Signature serialization\<close>

definition ed25519_signature_serialize :: "ed25519_signature \<Rightarrow> bytes" where
  "ed25519_signature_serialize s = sig_bytes s"

text \<open>The error is serde's \<open>invalid_length\<close> with the length found.\<close>

definition ed25519_signature_deserialize :: "bytes \<Rightarrow> nat + ed25519_signature" where
  "ed25519_signature_deserialize b =
     (if length b \<noteq> 64 then Inl (length b) else Inr (Ed25519Signature b))"

section \<open>Key generation\<close>

definition generate_x25519_keypair :: "crypto_lib \<Rightarrow> bytes \<Rightarrow> x25519_key_pair" where
  "generate_x25519_keypair C draw =
     \<lparr>xkp_public_key = X25519PublicKey (x_public C draw),
      xkp_private_key = X25519PrivateKey draw\<rparr>"

definition generate_ed25519_keypair :: "crypto_lib \<Rightarrow> bytes option \<Rightarrow> e2ee_error + ed25519_key_pair" where
  "generate_ed25519_keypair C draw = and_then (ok_or EncryptionFailed draw) (\<lambda>seed.
     Inr \<lparr>edkp_public_key = Ed25519PublicKey (ed_public C seed),
          edkp_private_key = Ed25519PrivateKey seed\<rparr>)"

definition generate_aes_256_key :: "bytes option \<Rightarrow> e2ee_error + aes_256_key" where
  "generate_aes_256_key draw = and_then (ok_or EncryptionFailed draw) (\<lambda>key. Inr (Aes256Key key))"

definition generate_nonce :: "bytes option \<Rightarrow> e2ee_error + aes_nonce" where
  "generate_nonce draw = and_then (ok_or EncryptionFailed draw) (\<lambda>nonce. Inr (AesNonce nonce))"

section \<open>X25519, Ed25519, HKDF, AES-GCM\<close>

definition x25519_dh :: "crypto_lib \<Rightarrow> x25519_private_key \<Rightarrow> x25519_public_key \<Rightarrow> e2ee_error + bytes" where
  "x25519_dh C priv pub =
     (let shared = x_dh C (x_priv_bytes priv) (x_pub_bytes pub)
      in if list_all (\<lambda>b. b = 0) shared then Inl InvalidPublicKey else Inr shared)"

definition ed25519_sign :: "crypto_lib \<Rightarrow> ed25519_private_key \<Rightarrow> bytes \<Rightarrow> e2ee_error + ed25519_signature" where
  "ed25519_sign C priv message = Inr (Ed25519Signature (ed_sign C (ed_priv_bytes priv) message))"

definition ed25519_verify ::
  "crypto_lib \<Rightarrow> ed25519_public_key \<Rightarrow> bytes \<Rightarrow> ed25519_signature \<Rightarrow> e2ee_error + unit" where
  "ed25519_verify C pub message signature =
     (if \<not> ed_key_valid C (ed_pub_bytes pub) then Inl InvalidPublicKey
      else if ed_verify C (ed_pub_bytes pub) message (sig_bytes signature) then Inr ()
      else Inl SignatureMismatch)"

definition hkdf_sha256 :: "crypto_lib \<Rightarrow> nat \<Rightarrow> bytes \<Rightarrow> bytes \<Rightarrow> bytes \<Rightarrow> e2ee_error + bytes" where
  "hkdf_sha256 C n ikm salt info = ok_or HkdfExpandFailed (hkdf_expand C ikm salt info n)"

definition aes_gcm_encrypt ::
  "crypto_lib \<Rightarrow> aes_256_key \<Rightarrow> aes_nonce \<Rightarrow> bytes \<Rightarrow> bytes \<Rightarrow> e2ee_error + bytes" where
  "aes_gcm_encrypt C key nonce plaintext aad =
     and_then (ok_or EncryptionFailed (aes_new C (aes_key_bytes key))) (\<lambda>cipher.
       ok_or EncryptionFailed (aes_seal C cipher (nonce_bytes nonce) plaintext aad))"

definition aes_gcm_decrypt ::
  "crypto_lib \<Rightarrow> aes_256_key \<Rightarrow> aes_nonce \<Rightarrow> bytes \<Rightarrow> bytes \<Rightarrow> e2ee_error + bytes" where
  "aes_gcm_decrypt C key nonce ciphertext aad =
     and_then (ok_or DecryptionFailed (aes_new C (aes_key_bytes key))) (\<lambda>cipher.
       ok_or DecryptionFailed (aes_open C cipher (nonce_bytes nonce) ciphertext aad))"

section \<open>What the code relies on\<close>

definition x25519_sizes :: "crypto_lib \<Rightarrow> bool" where
  "x25519_sizes C \<longleftrightarrow> (\<forall>a. length (x_public C a) = 32) \<and> (\<forall>a b. length (x_dh C a b) = 32)"

definition dh_commutes :: "crypto_lib \<Rightarrow> bool" where
  "dh_commutes C \<longleftrightarrow> (\<forall>a b. x_dh C a (x_public C b) = x_dh C b (x_public C a))"

text \<open>Between honestly generated keys the shared secret is never the all-zero string.\<close>

definition dh_contributory :: "crypto_lib \<Rightarrow> bool" where
  "dh_contributory C \<longleftrightarrow> (\<forall>a b. \<not> list_all (\<lambda>x. x = 0) (x_dh C a (x_public C b)))"

definition ed25519_correct :: "crypto_lib \<Rightarrow> bool" where
  "ed25519_correct C \<longleftrightarrow>
     (\<forall>seed m. ed_key_valid C (ed_public C seed) \<and> ed_verify C (ed_public C seed) m (ed_sign C seed m)
        \<and> length (ed_public C seed) = 32 \<and> length (ed_sign C seed m) = 64)"

text \<open>HKDF-SHA256 expands to at most \<open>255 * 32\<close> bytes.\<close>

definition hkdf_bounded :: "crypto_lib \<Rightarrow> bool" where
  "hkdf_bounded C \<longleftrightarrow> (\<forall>ikm salt info n.
     (n \<le> 8160 \<longrightarrow> (\<exists>okm. hkdf_expand C ikm salt info n = Some okm \<and> length okm = n)) \<and>
     (8160 < n \<longrightarrow> hkdf_expand C ikm salt info n = None))"

text \<open>A 32-byte key makes a cipher, any other length does not.\<close>

definition aes_key_sized :: "crypto_lib \<Rightarrow> bool" where
  "aes_key_sized C \<longleftrightarrow> (\<forall>k. aes_new C k = None \<longleftrightarrow> length k \<noteq> 32)"

text \<open>
  Up to the crate's plaintext limit, what was sealed opens to the same plaintext under the same
  key, nonce and associated data.
\<close>

definition aes_max :: nat where
  "aes_max = 2 ^ 36"

definition aead_correct :: "crypto_lib \<Rightarrow> bool" where
  "aead_correct C \<longleftrightarrow> aes_key_sized C \<and>
     (\<forall>key cipher nonce pt aad. aes_new C key = Some cipher \<longrightarrow> length nonce = 12 \<longrightarrow>
        length pt \<le> aes_max \<longrightarrow> length aad \<le> aes_max \<longrightarrow>
        (\<exists>ct. aes_seal C cipher nonce pt aad = Some ct \<and> aes_open C cipher nonce ct aad = Some pt))"

section \<open>Lemmas\<close>

text \<open>Well-formed newtypes have the length of the Rust array.\<close>

abbreviation wf_pub :: "x25519_public_key \<Rightarrow> bool" where
  "wf_pub k \<equiv> length (x_pub_bytes k) = 32"

abbreviation wf_nonce :: "aes_nonce \<Rightarrow> bool" where
  "wf_nonce n \<equiv> length (nonce_bytes n) = 12"

definition wf_key_pair :: "x25519_key_pair \<Rightarrow> bool" where
  "wf_key_pair kp \<longleftrightarrow>
     length (x_pub_bytes (xkp_public_key kp)) = 32 \<and> length (x_priv_bytes (xkp_private_key kp)) = 32"

text \<open>The public half is the one the private half derives.\<close>

definition derived_key_pair :: "crypto_lib \<Rightarrow> x25519_key_pair \<Rightarrow> bool" where
  "derived_key_pair C kp \<longleftrightarrow>
     xkp_public_key kp = X25519PublicKey (x_public C (x_priv_bytes (xkp_private_key kp)))"

lemma derived_generate [simp]: "derived_key_pair C (generate_x25519_keypair C draw)"
  by (simp add: derived_key_pair_def generate_x25519_keypair_def)

lemma wf_generate [wf_intros]:
  "x25519_sizes C \<Longrightarrow> length draw = 32 \<Longrightarrow> wf_key_pair (generate_x25519_keypair C draw)"
  by (simp add: wf_key_pair_def generate_x25519_keypair_def x25519_sizes_def)

lemma generate_x25519_keypair_sel [simp]:
  "xkp_public_key (generate_x25519_keypair C draw) = X25519PublicKey (x_public C draw)"
  "xkp_private_key (generate_x25519_keypair C draw) = X25519PrivateKey draw"
  by (simp_all add: generate_x25519_keypair_def)

text \<open>The interface of the 64-byte signature codec.\<close>

interpretation signature_codec:
  byte_codec ed25519_signature_serialize ed25519_signature_deserialize
    "\<lambda>s. length (sig_bytes s) = 64" 64
  by unfold_locales
    (auto simp: ed25519_signature_serialize_def ed25519_signature_deserialize_def split: if_splits)

text \<open>Both ends of a Diffie-Hellman exchange between generated keys get the same secret.\<close>

lemma x25519_dh_agree:
  assumes "dh_commutes C" "derived_key_pair C a" "derived_key_pair C b"
  shows "x25519_dh C (xkp_private_key a) (xkp_public_key b) =
    x25519_dh C (xkp_private_key b) (xkp_public_key a)"
  using assms by (auto simp: x25519_dh_def dh_commutes_def derived_key_pair_def Let_def)

lemma x25519_dh_ok:
  assumes "dh_contributory C" "derived_key_pair C b"
  shows "x25519_dh C priv (xkp_public_key b) =
    Inr (x_dh C (x_priv_bytes priv) (x_pub_bytes (xkp_public_key b)))"
  using assms by (auto simp: x25519_dh_def dh_contributory_def derived_key_pair_def Let_def)

lemma hkdf_sha256_ok:
  assumes "hkdf_bounded C" "n \<le> 8160"
  obtains okm where "hkdf_sha256 C n ikm salt info = Inr okm" "length okm = n"
  using assms by (fastforce simp: hkdf_sha256_def hkdf_bounded_def)

lemma hkdf_sha256_limit:
  "hkdf_bounded C \<Longrightarrow> is_ok (hkdf_sha256 C n ikm salt info) \<longleftrightarrow> n \<le> 8160"
  unfolding hkdf_bounded_def hkdf_sha256_def is_ok_iff ok_or_Inr_iff
  by (metis not_le option.distinct(1))

lemma hkdf_sha256_length:
  "hkdf_bounded C \<Longrightarrow> hkdf_sha256 C n ikm salt info = Inr okm \<Longrightarrow> length okm = n"
  unfolding hkdf_bounded_def hkdf_sha256_def ok_or_Inr_iff
  by (metis not_le option.distinct(1) option.inject)

lemma aes_gcm_round_trip:
  assumes "aead_correct C" "length (aes_key_bytes key) = 32" "wf_nonce nonce"
    and "length pt \<le> aes_max" "length aad \<le> aes_max"
  obtains ct where "aes_gcm_encrypt C key nonce pt aad = Inr ct"
    and "aes_gcm_decrypt C key nonce ct aad = Inr pt"
proof -
  from assms(1,2) obtain cipher where cipher: "aes_new C (aes_key_bytes key) = Some cipher"
    by (auto simp: aead_correct_def aes_key_sized_def)
  with assms obtain ct where "aes_seal C cipher (nonce_bytes nonce) pt aad = Some ct"
    "aes_open C cipher (nonce_bytes nonce) ct aad = Some pt"
    unfolding aead_correct_def by blast
  with cipher that show thesis by (simp add: aes_gcm_encrypt_def aes_gcm_decrypt_def)
qed

text \<open>The only errors of the two AEAD wrappers.\<close>

lemma aes_gcm_encrypt_error: "aes_gcm_encrypt C key nonce pt aad = Inl e \<Longrightarrow> e = EncryptionFailed"
  by (auto simp: aes_gcm_encrypt_def and_then_Inl_iff)

lemma aes_gcm_decrypt_error: "aes_gcm_decrypt C key nonce ct aad = Inl e \<Longrightarrow> e = DecryptionFailed"
  by (auto simp: aes_gcm_decrypt_def and_then_Inl_iff)

section \<open>A concrete library for evaluation\<close>

text \<open>
  An executable instance that satisfies every predicate above, used to evaluate the model on
  concrete inputs. It is not cryptography: public keys are padded secrets, and the tag of a sealed
  message is its key, nonce and associated data.
\<close>

definition pad32 :: "bytes \<Rightarrow> bytes" where
  "pad32 b = take 32 (b @ replicate 32 0)"

definition sample_seal :: "bytes \<Rightarrow> bytes \<Rightarrow> bytes \<Rightarrow> bytes \<Rightarrow> bytes option" where
  "sample_seal k n p a = Some (k @ n @ a @ p)"

definition sample_open :: "bytes \<Rightarrow> bytes \<Rightarrow> bytes \<Rightarrow> bytes \<Rightarrow> bytes option" where
  "sample_open k n c a = (let t = k @ n @ a in
     if take (length t) c = t then Some (drop (length t) c) else None)"

definition sample_crypto :: crypto_lib where
  "sample_crypto = \<lparr>
     x_public = pad32,
     x_dh = (\<lambda>a b. 1 # map2 (+) (take 31 (pad32 a)) (take 31 (pad32 b))),
     ed_public = pad32,
     ed_sign = (\<lambda>seed m. pad32 seed @ pad32 m),
     ed_key_valid = (\<lambda>_. True),
     ed_verify = (\<lambda>k m s. s = pad32 k @ pad32 m),
     hkdf_expand = (\<lambda>ikm salt info n.
       if n \<le> 8160 then Some (take n (map2 (+) (ikm @ replicate n 0) (info @ replicate n 0) @ replicate n 0))
       else None),
     aes_new = (\<lambda>k. if length k = 32 then Some k else None),
     aes_seal = sample_seal,
     aes_open = sample_open\<rparr>"

lemma length_pad32 [simp]: "length (pad32 b) = 32"
  by (simp add: pad32_def)

lemma pad32_idem [simp]: "length b = 32 \<Longrightarrow> pad32 b = b"
  by (simp add: pad32_def)

lemma map2_plus_commute: "map2 (+) xs ys = map2 (+) ys (xs :: bytes)"
  by (induction xs ys rule: list_induct2') (simp_all add: add.commute)

lemma sample_crypto_laws:
  "x25519_sizes sample_crypto" "dh_commutes sample_crypto" "dh_contributory sample_crypto"
  "ed25519_correct sample_crypto" "hkdf_bounded sample_crypto" "aead_correct sample_crypto"
  by (simp_all add: sample_crypto_def x25519_sizes_def dh_commutes_def dh_contributory_def
      ed25519_correct_def hkdf_bounded_def aead_correct_def aes_key_sized_def sample_seal_def
      sample_open_def Let_def map2_plus_commute)

end
