(* ===== verification/Ratchet_State.thy ===== *)
theory Ratchet_State
  imports Primitives
begin

text \<open>
  The types of \<open>im-e2ee-core/src/state/mod.rs\<close>: chain keys, the 52-byte message header and its wire
  format, the bounded store of skipped message keys, the ratchet state and its versioned
  persistence. The store is presented through the interface \<open>key_store\<close>, a bounded first-in
  first-out association list; the header through the interface \<open>byte_codec\<close> of the prelude.
\<close>

section \<open>Protocol keys\<close>

datatype ratchet_root_key = RatchetRootKey (root_key_bytes: bytes)
datatype chain_key = ChainKey (chain_key_bytes: bytes)
datatype message_key = MessageKey (message_key_bytes: bytes)

definition aes_key_of_message_key :: "message_key \<Rightarrow> aes_256_key" where
  "aes_key_of_message_key mk = Aes256Key (message_key_bytes mk)"

section \<open>The header and its wire format\<close>

record ratchet_header =
  hdr_ratchet_public_key :: x25519_public_key
  hdr_counter :: u32
  hdr_previous_counter :: u32
  hdr_nonce :: aes_nonce

definition encode_ratchet_header :: "ratchet_header \<Rightarrow> bytes" where
  "encode_ratchet_header h =
     x_pub_bytes (hdr_ratchet_public_key h) @ be_bytes (hdr_counter h) @
     be_bytes (hdr_previous_counter h) @ nonce_bytes (hdr_nonce h)"

definition decode_ratchet_header :: "bytes \<Rightarrow> e2ee_error + ratchet_header" where
  "decode_ratchet_header bs =
     (if length bs \<noteq> 52
      then Inl (InvalidHeader (''expected 52 bytes, got '' @ show_nat (length bs)))
      else
        (let pk_bytes = take 32 bs; rest = drop 32 bs;
             counter_bytes = take 4 rest; rest = drop 4 rest;
             prev_counter_bytes = take 4 rest; nonce_bs = drop 4 rest
         in Inr \<lparr>hdr_ratchet_public_key = X25519PublicKey pk_bytes,
                 hdr_counter = of_be_bytes counter_bytes,
                 hdr_previous_counter = of_be_bytes prev_counter_bytes,
                 hdr_nonce = AesNonce nonce_bs\<rparr>))"

definition wf_header :: "ratchet_header \<Rightarrow> bool" where
  "wf_header h \<longleftrightarrow> wf_pub (hdr_ratchet_public_key h) \<and> wf_nonce (hdr_nonce h)"

lemma decode_encode_header: "wf_header h \<Longrightarrow> decode_ratchet_header (encode_ratchet_header h) = Inr h"
  by (simp add: wf_header_def decode_ratchet_header_def encode_ratchet_header_def)

lemma encode_decode_header:
  assumes "decode_ratchet_header bs = Inr h"
  shows "wf_header h \<and> encode_ratchet_header h = bs"
proof -
  from assms have len: "length bs = 52" by (auto simp: decode_ratchet_header_def split: if_splits)
  have parts: "take 32 bs @ take 4 (drop 32 bs) @ take 4 (drop 36 bs) @ drop 40 bs = bs"
    using append_take_drop_id[of 32 bs] append_take_drop_id[of 4 "drop 32 bs"]
      append_take_drop_id[of 4 "drop 36 bs"] by simp
  from len assms parts show ?thesis
    by (auto simp: decode_ratchet_header_def wf_header_def encode_ratchet_header_def Let_def)
qed

interpretation header_codec:
  byte_codec encode_ratchet_header decode_ratchet_header wf_header 52
proof
  fix b :: bytes
  show "is_ok (decode_ratchet_header b) \<longleftrightarrow> length b = 52"
    by (simp add: decode_ratchet_header_def Let_def)
qed (simp_all add: decode_encode_header encode_decode_header)

section \<open>The store of skipped message keys\<close>

record skipped_entry =
  se_ratchet_public_key :: x25519_public_key
  se_counter :: u32
  se_message_key :: message_key

datatype skipped_key_store = SkippedKeyStore (skipped_entries: "skipped_entry list")

definition skipped_max :: nat where
  "skipped_max = 2000"

definition skipped_new :: skipped_key_store where
  "skipped_new = SkippedKeyStore []"

definition skipped_insert ::
  "skipped_key_store \<Rightarrow> x25519_public_key \<Rightarrow> u32 \<Rightarrow> message_key \<Rightarrow> (e2ee_error + unit) \<times> skipped_key_store"
where
  "skipped_insert s pk c mk =
     (let entries = skipped_entries s;
          entries = (if skipped_max \<le> length entries then vec_remove 0 entries else entries)
      in (Inr (), SkippedKeyStore (entries @
            [\<lparr>se_ratchet_public_key = pk, se_counter = c, se_message_key = mk\<rparr>])))"

definition skipped_remove ::
  "skipped_key_store \<Rightarrow> x25519_public_key \<Rightarrow> u32 \<Rightarrow> message_key option \<times> skipped_key_store"
where
  "skipped_remove s pk c =
     (case position (\<lambda>e. x_pub_bytes (se_ratchet_public_key e) = x_pub_bytes pk \<and> se_counter e = c)
             (skipped_entries s) of
        None \<Rightarrow> (None, s)
      | Some pos \<Rightarrow> (Some (se_message_key (skipped_entries s ! pos)),
                    SkippedKeyStore (vec_remove pos (skipped_entries s))))"

definition skipped_len :: "skipped_key_store \<Rightarrow> nat" where
  "skipped_len s = length (skipped_entries s)"

definition skipped_is_empty :: "skipped_key_store \<Rightarrow> bool" where
  "skipped_is_empty s \<longleftrightarrow> skipped_entries s = []"

subsection \<open>Its contract\<close>

text \<open>
  The contract clients rely on: a first-in first-out association list of at most \<open>capacity\<close>
  entries. Inserting appends, dropping the oldest entry first when full; removing returns the value
  of the first entry with the key and deletes that entry.
\<close>

locale key_store =
  fixes new :: 's
    and ins :: "'s \<Rightarrow> 'k \<Rightarrow> 'v \<Rightarrow> 's"
    and rem :: "'s \<Rightarrow> 'k \<Rightarrow> 'v option \<times> 's"
    and entries :: "'s \<Rightarrow> ('k \<times> 'v) list"
    and capacity :: nat
  assumes entries_new: "entries new = []"
    and entries_ins: "entries (ins s k v) =
      (if capacity \<le> length (entries s) then tl (entries s) else entries s) @ [(k, v)]"
    and rem_value: "fst (rem s k) = map_of (entries s) k"
    and entries_rem: "entries (snd (rem s k)) =
      (case position (\<lambda>e. fst e = k) (entries s) of
         None \<Rightarrow> entries s | Some i \<Rightarrow> vec_remove i (entries s))"
    and capacity_pos: "0 < capacity"
begin

lemma ins_bounded: "length (entries s) \<le> capacity \<Longrightarrow> length (entries (ins s k v)) \<le> capacity"
  using capacity_pos by (auto simp: entries_ins)

lemma rem_bounded: "length (entries s) \<le> capacity \<Longrightarrow> length (entries (snd (rem s k))) \<le> capacity"
  by (auto simp: entries_rem length_vec_remove dest: position_Some split: option.split)

lemma rem_subset: "set (entries (snd (rem s k))) \<subseteq> set (entries s)"
  using set_vec_remove_subset[of _ "entries s"]
  by (auto simp: entries_rem split: option.split)

lemma ins_lookup_room:
  assumes "length (entries s) < capacity" "map_of (entries s) k = None"
  shows "map_of (entries (ins s k v)) = (map_of (entries s))(k \<mapsto> v)"
  using assms by (auto simp: entries_ins map_add_def fun_eq_iff split: option.split)

lemma ins_evicts_oldest:
  assumes "length (entries s) = capacity"
  shows "entries (ins s k v) = tl (entries s) @ [(k, v)]"
  using assms by (simp add: entries_ins)

lemma rem_ins: "map_of (entries s) k = None \<Longrightarrow> fst (rem (ins s k v) k) = Some v"
proof -
  assume none: "map_of (entries s) k = None"
  then have "map_of (tl (entries s)) k = None"
    by (cases "entries s") (auto split: if_splits)
  with none show ?thesis by (simp add: rem_value entries_ins map_add_def)
qed

lemma rem_entries_filter:
  assumes "distinct (map fst (entries s))"
  shows "entries (snd (rem s k)) = filter (\<lambda>e. fst e \<noteq> k) (entries s)"
proof (cases "position (\<lambda>e. fst e = k) (entries s)")
  case None
  then have "\<forall>e \<in> set (entries s). fst e \<noteq> k" by (simp add: position_None_iff)
  then have "filter (\<lambda>e. fst e \<noteq> k) (entries s) = entries s" by (simp add: filter_id_conv)
  with None show ?thesis by (simp add: entries_rem)
next
  case (Some i)
  have "vec_remove i (entries s) = filter (\<lambda>e. fst e \<noteq> k) (entries s)"
    using assms Some by (intro vec_remove_position)
      (auto simp: distinct_map inj_on_def dest: eq_key_imp_eq_value)
  with Some show ?thesis by (simp add: entries_rem)
qed

lemma rem_distinct: "distinct (map fst (entries s)) \<Longrightarrow> distinct (map fst (entries (snd (rem s k))))"
  by (simp add: rem_entries_filter distinct_map inj_on_def)

lemma rem_twice: "distinct (map fst (entries s)) \<Longrightarrow> fst (rem (snd (rem s k)) k) = None"
  by (auto simp: rem_value rem_entries_filter map_of_eq_None_iff)

lemma rem_other:
  assumes "distinct (map fst (entries s))" "k' \<noteq> k"
  shows "map_of (entries (snd (rem s k))) k' = map_of (entries s) k'"
proof -
  have "map_of (filter (\<lambda>e. fst e \<noteq> k) es) k' = map_of es k'" for es :: "('k \<times> 'v) list"
    using assms(2) by (induction es) auto
  with assms(1) show ?thesis by (simp add: rem_entries_filter)
qed

lemma rem_lookup:
  assumes "distinct (map fst (entries s))"
  shows "map_of (entries (snd (rem s k))) k' = (if k' = k then None else map_of (entries s) k')"
  using rem_other[OF assms] rem_twice[OF assms, of k] unfolding rem_value by simp

text \<open>Inserting a whole run: the oldest entries give way, the newest \<open>capacity\<close> ones stay.\<close>

lemma entries_ins_all:
  assumes "length (entries s) \<le> capacity"
  shows "entries (fold (\<lambda>(k, v) s. ins s k v) kvs s) =
    drop (length (entries s) + length kvs - capacity) (entries s @ kvs)"
  using assms
proof (induction kvs arbitrary: s)
  case Nil
  then show ?case by simp
next
  case (Cons kv kvs)
  obtain k v where kv: "kv = (k, v)" by (cases kv)
  let ?s = "ins s k v"
  have IH: "entries (fold (\<lambda>(k, v) s. ins s k v) kvs ?s) =
      drop (length (entries ?s) + length kvs - capacity) (entries ?s @ kvs)"
    using Cons.prems by (intro Cons.IH ins_bounded)
  show ?case
  proof (cases "length (entries s) = capacity")
    case True
    with capacity_pos obtain e es where es: "entries s = e # es" by (cases "entries s") auto
    with True have "entries ?s = es @ [(k, v)]" by (simp add: entries_ins)
    moreover from True es have "capacity = Suc (length es)" by simp
    ultimately show ?thesis using IH es by (simp add: kv)
  next
    case False
    with Cons.prems have "entries ?s = entries s @ [(k, v)]" by (simp add: entries_ins)
    with IH show ?thesis by (simp add: kv)
  qed
qed

end

text \<open>The store of the code meets the contract, its entries read as an association list.\<close>

definition skipped_alist :: "skipped_key_store \<Rightarrow> ((x25519_public_key \<times> u32) \<times> message_key) list" where
  "skipped_alist s =
     map (\<lambda>e. ((se_ratchet_public_key e, se_counter e), se_message_key e)) (skipped_entries s)"

lemma length_skipped_alist [simp]: "length (skipped_alist s) = length (skipped_entries s)"
  by (simp add: skipped_alist_def)

lemma skipped_insert_result [simp]: "fst (skipped_insert s pk c mk) = Inr ()"
  by (simp add: skipped_insert_def Let_def)

lemma position_map: "position p (map f xs) = position (p \<circ> f) xs"
  by (induction xs) simp_all

lemma map_of_position:
  "map_of kvs k = map_option (\<lambda>i. snd (kvs ! i)) (position (\<lambda>e. fst e = k) kvs)"
  by (induction kvs) (auto simp: option.map_comp comp_def)

lemma skipped_position:
  "position (\<lambda>e. x_pub_bytes (se_ratchet_public_key e) = x_pub_bytes pk \<and> se_counter e = c)
     (skipped_entries s) = position (\<lambda>e. fst e = (pk, c)) (skipped_alist s)"
  by (simp add: skipped_alist_def position_map comp_def x25519_public_key.expand
      x25519_public_key.sel cong: conj_cong) (metis x25519_public_key.exhaust_sel)

lemma skipped_remove_alist:
  "fst (skipped_remove s pk c) = map_of (skipped_alist s) (pk, c)"
  "skipped_alist (snd (skipped_remove s pk c)) =
     (case position (\<lambda>e. fst e = (pk, c)) (skipped_alist s) of
        None \<Rightarrow> skipped_alist s | Some i \<Rightarrow> vec_remove i (skipped_alist s))"
  unfolding skipped_remove_def skipped_position map_of_position
  by (auto simp: skipped_alist_def vec_remove_def take_map drop_map
      split: option.split dest: position_Some)

interpretation skipped: key_store skipped_new
  "\<lambda>s k v. snd (skipped_insert s (fst k) (snd k) v)"
  "\<lambda>s k. skipped_remove s (fst k) (snd k)" skipped_alist skipped_max
proof
  fix s :: skipped_key_store and k :: "x25519_public_key \<times> u32" and v :: message_key
  show "skipped_alist (snd (skipped_insert s (fst k) (snd k) v)) =
      (if skipped_max \<le> length (skipped_alist s) then tl (skipped_alist s) else skipped_alist s) @ [(k, v)]"
    by (simp add: skipped_insert_def skipped_alist_def Let_def map_tl)
qed (simp_all add: skipped_new_def skipped_alist_def[of "SkippedKeyStore []"] skipped_remove_alist skipped_max_def)

section \<open>The ratchet state\<close>

record ratchet_state =
  rs_root_key :: ratchet_root_key
  rs_sending_chain_key :: "chain_key option"
  rs_receiving_chain_key :: "chain_key option"
  rs_send_counter :: u32
  rs_receive_counter :: u32
  rs_previous_counter :: u32
  rs_dh_key_pair :: x25519_key_pair
  rs_remote_public_key :: "x25519_public_key option"
  rs_skipped_message_keys :: skipped_key_store
  rs_local_identity_key :: x25519_public_key
  rs_remote_identity_key :: x25519_public_key

text \<open>Lengths of the fixed arrays and the bound on the store.\<close>

definition wf_store :: "skipped_key_store \<Rightarrow> bool" where
  "wf_store s \<longleftrightarrow> skipped_len s \<le> skipped_max \<and>
     (\<forall>e \<in> set (skipped_alist s). length (message_key_bytes (snd e)) = 32)"

definition wf_ratchet_state :: "ratchet_state \<Rightarrow> bool" where
  "wf_ratchet_state s \<longleftrightarrow>
     length (root_key_bytes (rs_root_key s)) = 32 \<and>
     (\<forall>ck. rs_sending_chain_key s = Some ck \<longrightarrow> length (chain_key_bytes ck) = 32) \<and>
     (\<forall>ck. rs_receiving_chain_key s = Some ck \<longrightarrow> length (chain_key_bytes ck) = 32) \<and>
     wf_key_pair (rs_dh_key_pair s) \<and>
     (\<forall>pk. rs_remote_public_key s = Some pk \<longrightarrow> wf_pub pk) \<and>
     wf_store (rs_skipped_message_keys s) \<and>
     wf_pub (rs_local_identity_key s) \<and> wf_pub (rs_remote_identity_key s)"

lemma wf_store_new [wf_intros]: "wf_store skipped_new"
  by (simp add: wf_store_def skipped_new_def skipped_len_def skipped_alist_def)

lemma wf_store_remove [wf_intros]:
  assumes "wf_store s"
  shows "wf_store (snd (skipped_remove s pk c))"
  using assms skipped.rem_bounded[of s "(pk, c)"] skipped.rem_subset[of s "(pk, c)"]
  by (auto simp: wf_store_def skipped_len_def)

lemma wf_store_removed_key:
  assumes "wf_store s" "fst (skipped_remove s pk c) = Some mk"
  shows "length (message_key_bytes mk) = 32"
  using assms by (auto simp: wf_store_def skipped_remove_alist dest!: map_of_SomeD)

section \<open>Persistence\<close>

text \<open>
  \<open>bincode\<close> is a third-party crate: its serializer and deserializer for the state are the
  parameters \<open>ser\<close> and \<open>de\<close>.
\<close>

definition state_version :: byte where
  "state_version = 1"

definition try_export_state :: "(ratchet_state \<Rightarrow> bytes option) \<Rightarrow> ratchet_state \<Rightarrow> e2ee_error + bytes" where
  "try_export_state ser state =
     and_then (ok_or (StateSerializationFailed ''bincode serialize failed'') (ser state))
       (\<lambda>payload. Inr (state_version # payload))"

definition export_state :: "(ratchet_state \<Rightarrow> bytes option) \<Rightarrow> ratchet_state \<Rightarrow> bytes" where
  "export_state ser state = (case try_export_state ser state of Inr bs \<Rightarrow> bs | Inl _ \<Rightarrow> [])"

definition restore_state :: "(bytes \<Rightarrow> ratchet_state option) \<Rightarrow> bytes \<Rightarrow> e2ee_error + ratchet_state" where
  "restore_state de bs =
     (case bs of
        [] \<Rightarrow> Inl StateDeserializationFailed
      | first # payload \<Rightarrow>
          if first = state_version
          then ok_or StateDeserializationFailed (de payload)
          else (case de bs of
                  Some state \<Rightarrow> Inr state
                | None \<Rightarrow> Inl (StateSerializationFailed
                    (''deserialization failed: unsupported or corrupted state version '' @
                     show_nat (unat first)))))"

text \<open>The deserializer reads back what the serializer wrote for this state.\<close>

definition bincode_inverse :: "('a \<Rightarrow> bytes option) \<Rightarrow> (bytes \<Rightarrow> 'a option) \<Rightarrow> 'a \<Rightarrow> bool" where
  "bincode_inverse ser de x \<longleftrightarrow> (\<exists>b. ser x = Some b \<and> de b = Some x)"

lemma restore_export:
  "bincode_inverse ser de state \<Longrightarrow> restore_state de (export_state ser state) = Inr state"
  by (auto simp: bincode_inverse_def export_state_def try_export_state_def restore_state_def)

lemma restore_versioned: "restore_state de (state_version # payload) = ok_or StateDeserializationFailed (de payload)"
  by (simp add: restore_state_def)

lemma restore_legacy:
  "b \<noteq> [] \<Longrightarrow> hd b \<noteq> state_version \<Longrightarrow> de b = Some state \<Longrightarrow> restore_state de b = Inr state"
  by (cases b) (simp_all add: restore_state_def)

end
