(* ===== verification/X3dh.thy ===== *)
theory X3dh
  imports Ratchet_State
begin

text \<open>
  The X3DH key agreement of \<open>im-e2ee-core/src/x3dh/mod.rs\<close>: key bundles, the 128-byte buffer the
  Diffie-Hellman outputs are collected in, and the two sides of the agreement. The secrets the
  functions draw are arguments; \<open>otk_draw i\<close> is the secret of the \<open>i\<close>-th one-time pre-key.
\<close>

section \<open>Constants and types\<close>

definition x3dh_info :: bytes where
  "x3dh_info = ascii ''X3DH-RootKey-v1''"

definition x3dh_salt :: bytes where
  "x3dh_salt = replicate 32 0"

definition dh_output_len :: nat where
  "dh_output_len = 32"

definition max_dh_count :: nat where
  "max_dh_count = 4"

record pre_key =
  pk_id :: u32
  pk_key :: x25519_public_key

record pre_key_bundle =
  pkb_identity_key :: x25519_public_key
  pkb_signing_key :: ed25519_public_key
  pkb_signed_pre_key :: x25519_public_key
  pkb_signed_pre_key_signature :: ed25519_signature
  pkb_one_time_pre_keys :: "pre_key list"

record pre_key_bundle_fetch =
  pkf_identity_key :: x25519_public_key
  pkf_signing_key :: ed25519_public_key
  pkf_signed_pre_key :: pre_key
  pkf_signed_pre_key_signature :: ed25519_signature
  pkf_one_time_pre_key :: "pre_key option"

record one_time_pre_key_pair =
  otk_id :: u32
  otk_key_pair :: x25519_key_pair

definition otk_pre_key :: "one_time_pre_key_pair \<Rightarrow> pre_key" where
  "otk_pre_key p = \<lparr>pk_id = otk_id p, pk_key = xkp_public_key (otk_key_pair p)\<rparr>"

record key_bundle =
  kb_spk_id :: u32
  kb_identity_key_pair :: x25519_key_pair
  kb_signing_key_pair :: ed25519_key_pair
  kb_signed_pre_key_pair :: x25519_key_pair
  kb_one_time_pre_key_pairs :: "one_time_pre_key_pair list"
  kb_bundle :: pre_key_bundle

definition kb_one_time_pre_key_pair :: "key_bundle \<Rightarrow> u32 \<Rightarrow> one_time_pre_key_pair option" where
  "kb_one_time_pre_key_pair kb i = find (\<lambda>p. otk_id p = i) (kb_one_time_pre_key_pairs kb)"

record x3dh_initiate_result =
  xi_root_key :: ratchet_root_key
  xi_ephemeral_public_key :: x25519_public_key
  xi_spk_id :: u32
  xi_otk_id :: "u32 option"

record x3dh_respond_result =
  xr_root_key :: ratchet_root_key
  xr_otk_id :: "u32 option"

section \<open>The Diffie-Hellman buffer\<close>

definition dh_copy_to_stack :: "bytes \<Rightarrow> nat \<Rightarrow> bytes \<Rightarrow> e2ee_error + bytes \<times> nat" where
  "dh_copy_to_stack buffer offset dh =
     and_then (ok_or EncryptionFailed
       (if offset + dh_output_len < 2 ^ 64 then Some (offset + dh_output_len) else None)) (\<lambda>last.
     and_then (ok_or EncryptionFailed (if last \<le> length buffer then Some () else None)) (\<lambda>_.
       Inr (take offset buffer @ dh @ drop last buffer, last)))"

definition dh_buffer_new :: bytes where
  "dh_buffer_new = replicate (dh_output_len * max_dh_count) 0"

section \<open>Key bundles\<close>

fun total_otk_count :: "u32 \<Rightarrow> (u32 \<times> u32) list \<Rightarrow> e2ee_error + u32" where
  "total_otk_count n [] = Inr n"
| "total_otk_count n ((_, count) # batches) =
     and_then (ok_or (InvalidPreKeyId ''one-time pre-key count overflow'') (checked_add n count))
       (\<lambda>n. total_otk_count n batches)"

fun otk_batch ::
  "crypto_lib \<Rightarrow> (nat \<Rightarrow> bytes) \<Rightarrow> u32 \<Rightarrow> u32 list \<Rightarrow> pre_key list \<times> one_time_pre_key_pair list \<Rightarrow>
   e2ee_error + pre_key list \<times> one_time_pre_key_pair list"
where
  "otk_batch C draw start_id [] acc = Inr acc"
| "otk_batch C draw start_id (offset # offsets) (publics, pairs) =
     and_then (ok_or (InvalidPreKeyId ''one-time pre-key id overflow'') (checked_add start_id offset)) (\<lambda>i.
       let key_pair = generate_x25519_keypair C (draw (length pairs)) in
       otk_batch C draw start_id offsets
         (publics @ [\<lparr>pk_id = i, pk_key = xkp_public_key key_pair\<rparr>],
          pairs @ [\<lparr>otk_id = i, otk_key_pair = key_pair\<rparr>]))"

fun otk_batches ::
  "crypto_lib \<Rightarrow> (nat \<Rightarrow> bytes) \<Rightarrow> (u32 \<times> u32) list \<Rightarrow> pre_key list \<times> one_time_pre_key_pair list \<Rightarrow>
   e2ee_error + pre_key list \<times> one_time_pre_key_pair list"
where
  "otk_batches C draw [] acc = Inr acc"
| "otk_batches C draw ((start_id, count) # batches) acc =
     and_then (otk_batch C draw start_id (u32_range 0 count) acc) (\<lambda>acc. otk_batches C draw batches acc)"

definition generate_key_bundle ::
  "crypto_lib \<Rightarrow> bytes \<Rightarrow> bytes option \<Rightarrow> bytes \<Rightarrow> (nat \<Rightarrow> bytes) \<Rightarrow> u32 \<Rightarrow> (u32 \<times> u32) list \<Rightarrow>
   e2ee_error + key_bundle"
where
  "generate_key_bundle C ik_draw signing_draw spk_draw otk_draw spk_id one_time_pre_keys =
     (let identity_key_pair = generate_x25519_keypair C ik_draw in
      and_then (generate_ed25519_keypair C signing_draw) (\<lambda>signing_key_pair.
      let signed_pre_key_pair = generate_x25519_keypair C spk_draw in
      and_then (ed25519_sign C (edkp_private_key signing_key_pair)
                  (x_pub_bytes (xkp_public_key signed_pre_key_pair))) (\<lambda>spk_signature.
      and_then (total_otk_count 0 one_time_pre_keys) (\<lambda>_.
      and_then (otk_batches C otk_draw one_time_pre_keys ([], [])) (\<lambda>(publics, pairs).
        Inr \<lparr>kb_spk_id = spk_id,
             kb_identity_key_pair = identity_key_pair,
             kb_signing_key_pair = signing_key_pair,
             kb_signed_pre_key_pair = signed_pre_key_pair,
             kb_one_time_pre_key_pairs = pairs,
             kb_bundle = \<lparr>pkb_identity_key = xkp_public_key identity_key_pair,
                          pkb_signing_key = edkp_public_key signing_key_pair,
                          pkb_signed_pre_key = xkp_public_key signed_pre_key_pair,
                          pkb_signed_pre_key_signature = spk_signature,
                          pkb_one_time_pre_keys = publics\<rparr>\<rparr>)))))"

definition generate_key_bundle_with_count ::
  "crypto_lib \<Rightarrow> bytes \<Rightarrow> bytes option \<Rightarrow> bytes \<Rightarrow> (nat \<Rightarrow> bytes) \<Rightarrow> u32 \<Rightarrow> u32 \<Rightarrow> e2ee_error + key_bundle"
where
  "generate_key_bundle_with_count C ik_draw signing_draw spk_draw otk_draw spk_id count =
     generate_key_bundle C ik_draw signing_draw spk_draw otk_draw spk_id [(1, count)]"

section \<open>The agreement\<close>

definition x3dh_initiate ::
  "crypto_lib \<Rightarrow> bytes \<Rightarrow> x25519_key_pair \<Rightarrow> pre_key_bundle_fetch \<Rightarrow> e2ee_error + x3dh_initiate_result"
where
  "x3dh_initiate C ephemeral_draw identity_key_pair remote =
     and_then (map_err (\<lambda>_. SpkSignatureRejected)
       (ed25519_verify C (pkf_signing_key remote) (x_pub_bytes (pk_key (pkf_signed_pre_key remote)))
          (pkf_signed_pre_key_signature remote))) (\<lambda>_.
     let ephemeral = generate_x25519_keypair C ephemeral_draw in
     and_then (x25519_dh C (xkp_private_key identity_key_pair) (pk_key (pkf_signed_pre_key remote))) (\<lambda>dh1.
     and_then (x25519_dh C (xkp_private_key ephemeral) (pkf_identity_key remote)) (\<lambda>dh2.
     and_then (x25519_dh C (xkp_private_key ephemeral) (pk_key (pkf_signed_pre_key remote))) (\<lambda>dh3.
     and_then (dh_copy_to_stack dh_buffer_new 0 dh1) (\<lambda>(buffer, offset).
     and_then (dh_copy_to_stack buffer offset dh2) (\<lambda>(buffer, offset).
     and_then (dh_copy_to_stack buffer offset dh3) (\<lambda>(buffer, offset).
     and_then (case pkf_one_time_pre_key remote of
                 Some otk \<Rightarrow>
                   and_then (x25519_dh C (xkp_private_key ephemeral) (pk_key otk)) (\<lambda>dh4.
                   and_then (dh_copy_to_stack buffer offset dh4) (\<lambda>(buffer, offset).
                     Inr (buffer, offset, Some (pk_id otk))))
               | None \<Rightarrow> Inr (buffer, offset, None)) (\<lambda>(buffer, offset, i).
     and_then (ok_or EncryptionFailed
                 (if offset \<le> length buffer then Some (take offset buffer) else None)) (\<lambda>dh_input.
     and_then (hkdf_sha256 C 32 dh_input x3dh_salt x3dh_info) (\<lambda>root_key_bytes.
       Inr \<lparr>xi_root_key = RatchetRootKey root_key_bytes,
            xi_ephemeral_public_key = xkp_public_key ephemeral,
            xi_spk_id = pk_id (pkf_signed_pre_key remote),
            xi_otk_id = i\<rparr>))))))))))"

definition x3dh_respond_inner ::
  "crypto_lib \<Rightarrow> x25519_key_pair \<Rightarrow> x25519_key_pair \<Rightarrow> (x25519_key_pair \<times> u32 option) option \<Rightarrow>
   x25519_public_key \<Rightarrow> x25519_public_key \<Rightarrow> e2ee_error + x3dh_respond_result"
where
  "x3dh_respond_inner C identity_key_pair signed_pre_key_pair one_time remote_identity remote_ephemeral =
     and_then (x25519_dh C (xkp_private_key signed_pre_key_pair) remote_identity) (\<lambda>dh1.
     and_then (x25519_dh C (xkp_private_key identity_key_pair) remote_ephemeral) (\<lambda>dh2.
     and_then (x25519_dh C (xkp_private_key signed_pre_key_pair) remote_ephemeral) (\<lambda>dh3.
     and_then (dh_copy_to_stack dh_buffer_new 0 dh1) (\<lambda>(buffer, offset).
     and_then (dh_copy_to_stack buffer offset dh2) (\<lambda>(buffer, offset).
     and_then (dh_copy_to_stack buffer offset dh3) (\<lambda>(buffer, offset).
     and_then (case one_time of
                 Some (otk_pair, i) \<Rightarrow>
                   and_then (x25519_dh C (xkp_private_key otk_pair) remote_ephemeral) (\<lambda>dh4.
                   and_then (dh_copy_to_stack buffer offset dh4) (\<lambda>(buffer, offset).
                     Inr (buffer, offset, i)))
               | None \<Rightarrow> Inr (buffer, offset, None)) (\<lambda>(buffer, offset, i).
     and_then (ok_or EncryptionFailed
                 (if offset \<le> length buffer then Some (take offset buffer) else None)) (\<lambda>dh_input.
     and_then (hkdf_sha256 C 32 dh_input x3dh_salt x3dh_info) (\<lambda>root_key_bytes.
       Inr \<lparr>xr_root_key = RatchetRootKey root_key_bytes, xr_otk_id = i\<rparr>)))))))))"

definition x3dh_respond ::
  "crypto_lib \<Rightarrow> x25519_key_pair \<Rightarrow> x25519_key_pair \<Rightarrow> one_time_pre_key_pair option \<Rightarrow>
   x25519_public_key \<Rightarrow> x25519_public_key \<Rightarrow> e2ee_error + x3dh_respond_result"
where
  "x3dh_respond C identity_key_pair signed_pre_key_pair one_time remote_identity remote_ephemeral =
     x3dh_respond_inner C identity_key_pair signed_pre_key_pair
       (map_option (\<lambda>p. (otk_key_pair p, Some (otk_id p))) one_time) remote_identity remote_ephemeral"

definition x3dh_respond_with_raw_otk ::
  "crypto_lib \<Rightarrow> x25519_key_pair \<Rightarrow> x25519_key_pair \<Rightarrow> x25519_key_pair option \<Rightarrow>
   x25519_public_key \<Rightarrow> x25519_public_key \<Rightarrow> e2ee_error + x3dh_respond_result"
where
  "x3dh_respond_with_raw_otk C identity_key_pair signed_pre_key_pair one_time remote_identity remote_ephemeral =
     x3dh_respond_inner C identity_key_pair signed_pre_key_pair
       (map_option (\<lambda>p. (p, None)) one_time) remote_identity remote_ephemeral"

section \<open>The buffer\<close>

text \<open>The buffer has room for four outputs, and collects them in order.\<close>

lemma dh_copy_append:
  assumes "length dh = 32" "32 \<le> n" "length pre + n \<le> 128"
  shows "dh_copy_to_stack (pre @ replicate n 0) (length pre) dh =
    Inr (pre @ dh @ replicate (n - 32) 0, length pre + 32)"
  using assms by (simp add: dh_copy_to_stack_def dh_output_len_def ok_or_def)

lemma dh_copies:
  assumes "length d1 = 32" "length d2 = 32" "length d3 = 32"
  shows "dh_copy_to_stack dh_buffer_new 0 d1 = Inr (d1 @ replicate 96 0, 32)"
    "dh_copy_to_stack (d1 @ replicate 96 0) 32 d2 = Inr (d1 @ d2 @ replicate 64 0, 64)"
    "dh_copy_to_stack (d1 @ d2 @ replicate 64 0) 64 d3 = Inr (d1 @ d2 @ d3 @ replicate 32 0, 96)"
    "length d4 = 32 \<Longrightarrow> dh_copy_to_stack (d1 @ d2 @ d3 @ replicate 32 0) 96 d4 = Inr (d1 @ d2 @ d3 @ d4, 128)"
  using dh_copy_append[of d1 128 "[]"] dh_copy_append[of d2 96 d1] dh_copy_append[of d3 64 "d1 @ d2"]
    dh_copy_append[of d4 32 "d1 @ d2 @ d3"] assms
  by (simp_all add: dh_buffer_new_def dh_output_len_def max_dh_count_def)

section \<open>Closed forms of the two sides\<close>

definition x3dh_secret :: "crypto_lib \<Rightarrow> bytes \<Rightarrow> bytes" where
  "x3dh_secret C input = (case hkdf_sha256 C 32 input x3dh_salt x3dh_info of Inr k \<Rightarrow> k | Inl _ \<Rightarrow> [])"

lemma x3dh_secret:
  assumes "hkdf_bounded C"
  shows "hkdf_sha256 C 32 input x3dh_salt x3dh_info = Inr (x3dh_secret C input)"
    and "length (x3dh_secret C input) = 32"
proof -
  obtain okm where "hkdf_sha256 C 32 input x3dh_salt x3dh_info = Inr okm" "length okm = 32"
    using assms by (rule hkdf_sha256_ok[of C 32]) simp
  then show "hkdf_sha256 C 32 input x3dh_salt x3dh_info = Inr (x3dh_secret C input)"
    "length (x3dh_secret C input) = 32" by (simp_all add: x3dh_secret_def)
qed

lemma x25519_dh_length: "x25519_sizes C \<Longrightarrow> x25519_dh C priv pk = Inr d \<Longrightarrow> length d = 32"
  by (auto simp: x25519_dh_def x25519_sizes_def Let_def split: if_splits)

text \<open>The fourth exchange, made when there is a one-time pre-key.\<close>

definition fourth_dh :: "crypto_lib \<Rightarrow> x25519_private_key \<Rightarrow> x25519_public_key option \<Rightarrow> bytes \<Rightarrow> bool" where
  "fourth_dh C priv pk d4 \<longleftrightarrow> (case pk of Some k \<Rightarrow> x25519_dh C priv k = Inr d4 | None \<Rightarrow> d4 = [])"

lemma x3dh_initiate_closed:
  assumes C: "hkdf_bounded C" "x25519_sizes C"
    and sig: "ed25519_verify C (pkf_signing_key remote) (x_pub_bytes (pk_key (pkf_signed_pre_key remote)))
      (pkf_signed_pre_key_signature remote) = Inr ()"
    and d: "x25519_dh C (xkp_private_key ik) (pk_key (pkf_signed_pre_key remote)) = Inr d1"
      "x25519_dh C (X25519PrivateKey draw) (pkf_identity_key remote) = Inr d2"
      "x25519_dh C (X25519PrivateKey draw) (pk_key (pkf_signed_pre_key remote)) = Inr d3"
    and d4: "fourth_dh C (X25519PrivateKey draw) (map_option pk_key (pkf_one_time_pre_key remote)) d4"
  shows "x3dh_initiate C draw ik remote = Inr
    \<lparr>xi_root_key = RatchetRootKey (x3dh_secret C (d1 @ d2 @ d3 @ d4)),
     xi_ephemeral_public_key = X25519PublicKey (x_public C draw),
     xi_spk_id = pk_id (pkf_signed_pre_key remote),
     xi_otk_id = map_option pk_id (pkf_one_time_pre_key remote)\<rparr>"
proof -
  note len = d[THEN x25519_dh_length[OF C(2)]]
  note copies = dh_copies[OF len]
  show ?thesis
  proof (cases "pkf_one_time_pre_key remote")
    case None
    with d4 have "d4 = []" by (simp add: fourth_dh_def)
    with None show ?thesis
      by (simp add: x3dh_initiate_def sig d copies len x3dh_secret(1)[OF C(1)] ok_or_def)
  next
    case (Some otk)
    with d4 have d4: "x25519_dh C (X25519PrivateKey draw) (pk_key otk) = Inr d4" by (simp add: fourth_dh_def)
    note len4 = x25519_dh_length[OF C(2) d4]
    show ?thesis
      by (simp add: x3dh_initiate_def sig d copies len Some d4 len4 x3dh_secret(1)[OF C(1)] ok_or_def)
  qed
qed

lemma x3dh_respond_inner_closed:
  assumes C: "hkdf_bounded C" "x25519_sizes C"
    and d: "x25519_dh C (xkp_private_key spk) remote_ik = Inr d1"
      "x25519_dh C (xkp_private_key ik) remote_ek = Inr d2"
      "x25519_dh C (xkp_private_key spk) remote_ek = Inr d3"
    and d4: "case one_time of Some (otk, i) \<Rightarrow> x25519_dh C (xkp_private_key otk) remote_ek = Inr d4
      | None \<Rightarrow> d4 = []"
  shows "x3dh_respond_inner C ik spk one_time remote_ik remote_ek = Inr
    \<lparr>xr_root_key = RatchetRootKey (x3dh_secret C (d1 @ d2 @ d3 @ d4)),
     xr_otk_id = (case one_time of Some (otk, i) \<Rightarrow> i | None \<Rightarrow> None)\<rparr>"
proof -
  note len = d[THEN x25519_dh_length[OF C(2)]]
  note copies = dh_copies[OF len]
  show ?thesis
  proof (cases one_time)
    case None
    with d4 have "d4 = []" by simp
    with None show ?thesis
      by (simp add: x3dh_respond_inner_def d copies len x3dh_secret(1)[OF C(1)] ok_or_def)
  next
    case (Some p)
    obtain otk i where p: "p = (otk, i)" by (cases p)
    with Some d4 have d4: "x25519_dh C (xkp_private_key otk) remote_ek = Inr d4" by simp
    note len4 = x25519_dh_length[OF C(2) d4]
    show ?thesis
      by (simp add: x3dh_respond_inner_def d copies len Some p d4 len4 x3dh_secret(1)[OF C(1)] ok_or_def)
  qed
qed

section \<open>What a generated bundle holds\<close>

definition batch_ids :: "u32 \<times> u32 \<Rightarrow> u32 list" where
  "batch_ids b = map ((+) (fst b)) (u32_range 0 (snd b))"

text \<open>A batch fits when its last identifier is a \<open>u32\<close>.\<close>

definition batch_fits :: "u32 \<times> u32 \<Rightarrow> bool" where
  "batch_fits b \<longleftrightarrow> snd b = 0 \<or> unat (fst b) + (unat (snd b) - 1) < 2 ^ 32"

lemma otk_batch_result:
  assumes "otk_batch C draw start offsets (publics, pairs) = Inr (publics', pairs')"
    and "publics = map otk_pre_key pairs" "\<forall>p \<in> set pairs. derived_key_pair C (otk_key_pair p)"
  shows "publics' = map otk_pre_key pairs' \<and> (\<forall>p \<in> set pairs'. derived_key_pair C (otk_key_pair p)) \<and>
    map otk_id pairs' = map otk_id pairs @ map ((+) start) offsets"
  using assms
proof (induction offsets arbitrary: publics pairs)
  case Nil
  then show ?case by auto
next
  case (Cons off offsets)
  let ?kp = "generate_x25519_keypair C (draw (length pairs))" and ?i = "start + off"
  from Cons.prems(1) have rest: "otk_batch C draw start offsets
      (publics @ [\<lparr>pk_id = ?i, pk_key = xkp_public_key ?kp\<rparr>],
       pairs @ [\<lparr>otk_id = ?i, otk_key_pair = ?kp\<rparr>]) = Inr (publics', pairs')"
    by (auto simp: and_then_Inr_iff ok_or_Inr_iff checked_add_def Let_def split: if_splits)
  have publics: "publics @ [\<lparr>pk_id = ?i, pk_key = xkp_public_key ?kp\<rparr>] =
      map otk_pre_key (pairs @ [\<lparr>otk_id = ?i, otk_key_pair = ?kp\<rparr>])"
    using Cons.prems(2) by (simp add: otk_pre_key_def)
  have derived: "\<forall>p \<in> set (pairs @ [\<lparr>otk_id = ?i, otk_key_pair = ?kp\<rparr>]). derived_key_pair C (otk_key_pair p)"
    using Cons.prems(3) by simp
  from Cons.IH[OF rest publics derived] show ?case by simp
qed

lemma otk_batches_result:
  assumes "otk_batches C draw batches (publics, pairs) = Inr (publics', pairs')"
    and "publics = map otk_pre_key pairs" "\<forall>p \<in> set pairs. derived_key_pair C (otk_key_pair p)"
  shows "publics' = map otk_pre_key pairs' \<and> (\<forall>p \<in> set pairs'. derived_key_pair C (otk_key_pair p)) \<and>
    map otk_id pairs' = map otk_id pairs @ concat (map batch_ids batches)"
  using assms
proof (induction batches arbitrary: publics pairs)
  case Nil
  then show ?case by auto
next
  case (Cons b batches)
  obtain start count where b: "b = (start, count)" by (cases b)
  from Cons.prems(1) b obtain publics1 pairs1 where
    one: "otk_batch C draw start (u32_range 0 count) (publics, pairs) = Inr (publics1, pairs1)"
    and rest: "otk_batches C draw batches (publics1, pairs1) = Inr (publics', pairs')"
    by (auto simp: and_then_Inr_iff)
  note one' = otk_batch_result[OF one Cons.prems(2,3)]
  from one' have "publics1 = map otk_pre_key pairs1" "\<forall>p \<in> set pairs1. derived_key_pair C (otk_key_pair p)"
    by simp_all
  from Cons.IH[OF rest this] one' show ?case by (simp add: b batch_ids_def)
qed

text \<open>When generation succeeds, and when it does not.\<close>

lemma otk_batch_ok_iff:
  "is_ok (otk_batch C draw start offsets acc) \<longleftrightarrow> (\<forall>off \<in> set offsets. unat start + unat off < 2 ^ 32)"
proof (induction offsets arbitrary: acc)
  case Nil
  then show ?case by simp
next
  case (Cons off offsets)
  obtain publics pairs where "acc = (publics, pairs)" by (cases acc)
  with Cons.IH show ?case by (simp add: checked_add_def Let_def ok_or_def)
qed

lemma batch_fits_iff: "(\<forall>off \<in> set (u32_range 0 n). unat start + unat off < 2 ^ 32) \<longleftrightarrow> batch_fits (start, n)"
proof
  assume fits: "\<forall>off \<in> set (u32_range 0 n). unat start + unat off < 2 ^ 32"
  show "batch_fits (start, n)"
  proof (cases "n = 0")
    case True
    then show ?thesis by (simp add: batch_fits_def)
  next
    case False
    then have pos: "0 < unat n" by (simp add: unat_gt_0)
    let ?l = "word_of_nat (unat n - 1) :: u32"
    have l: "unat ?l = unat n - 1" using unat_u32[of n] by (intro unat_of_nat_u32) simp
    have "?l < n" unfolding word_less_nat_alt l using pos by simp
    then have "?l \<in> set (u32_range 0 n)" by (simp add: set_u32_range)
    with fits have "unat start + unat ?l < 2 ^ 32" by blast
    then show ?thesis unfolding l by (simp add: batch_fits_def)
  qed
next
  assume "batch_fits (start, n)"
  then show "\<forall>off \<in> set (u32_range 0 n). unat start + unat off < 2 ^ 32"
    by (auto simp: batch_fits_def set_u32_range word_less_nat_alt)
qed

lemma otk_batches_ok_iff: "is_ok (otk_batches C draw batches acc) \<longleftrightarrow> (\<forall>b \<in> set batches. batch_fits b)"
proof (induction batches arbitrary: acc)
  case Nil
  then show ?case by simp
next
  case (Cons b batches)
  obtain start count where b: "b = (start, count)" by (cases b)
  show ?case
  proof (cases "otk_batch C draw start (u32_range 0 count) acc")
    case (Inl e)
    then have "\<not> is_ok (otk_batch C draw start (u32_range 0 count) acc)" by simp
    then have "\<not> batch_fits b" unfolding otk_batch_ok_iff batch_fits_iff b .
    with Inl b show ?thesis by simp
  next
    case (Inr acc')
    then have "is_ok (otk_batch C draw start (u32_range 0 count) acc)" by simp
    then have "batch_fits b" unfolding otk_batch_ok_iff batch_fits_iff b .
    with Inr b Cons.IH show ?thesis by simp
  qed
qed

lemma total_otk_count_ok_iff:
  "is_ok (total_otk_count n batches) \<longleftrightarrow> unat n + sum_list (map (unat \<circ> snd) batches) < 2 ^ 32"
proof (induction batches arbitrary: n)
  case Nil
  then show ?case using unat_u32[of n] by simp
next
  case (Cons b batches)
  obtain start count where b: "b = (start, count)" by (cases b)
  show ?case
  proof (cases "checked_add n count")
    case None
    then have "\<not> unat n + unat count < 2 ^ 32" by (simp add: checked_add_def split: if_splits)
    with None b show ?thesis by (simp add: ok_or_def)
  next
    case (Some m)
    with Cons.IH[of m] checked_add_Some[OF Some] b show ?thesis by (simp add: ok_or_def add.assoc)
  qed
qed

lemma generate_key_bundle_ok_iff:
  "is_ok (generate_key_bundle C ik sd spk otk spk_id batches) \<longleftrightarrow>
     sd \<noteq> None \<and> sum_list (map (unat \<circ> snd) batches) < 2 ^ 32 \<and> (\<forall>b \<in> set batches. batch_fits b)"
proof (cases sd)
  case None
  then show ?thesis by (simp add: generate_key_bundle_def generate_ed25519_keypair_def ok_or_def)
next
  case (Some seed)
  obtain r1 where r1: "total_otk_count 0 batches = r1" by blast
  obtain r2 where r2: "otk_batches C otk batches ([], []) = r2" by blast
  have "is_ok r1 \<longleftrightarrow> sum_list (map (unat \<circ> snd) batches) < 2 ^ 32"
    unfolding r1[symmetric] total_otk_count_ok_iff by simp
  moreover have "is_ok r2 \<longleftrightarrow> (\<forall>b \<in> set batches. batch_fits b)"
    unfolding r2[symmetric] by (rule otk_batches_ok_iff)
  ultimately show ?thesis
    using Some by (cases r1; cases r2)
      (auto simp: generate_key_bundle_def generate_ed25519_keypair_def ed25519_sign_def ok_or_def Let_def r1 r2)
qed

text \<open>What a bundle that was generated consists of.\<close>

lemma generate_key_bundle_result:
  assumes "generate_key_bundle C ik sd spk otk spk_id batches = Inr kb"
  obtains seed where "sd = Some seed" "kb_spk_id kb = spk_id"
    and "kb_identity_key_pair kb = generate_x25519_keypair C ik"
    and "kb_signed_pre_key_pair kb = generate_x25519_keypair C spk"
    and "kb_signing_key_pair kb =
      \<lparr>edkp_public_key = Ed25519PublicKey (ed_public C seed), edkp_private_key = Ed25519PrivateKey seed\<rparr>"
    and "kb_bundle kb = \<lparr>pkb_identity_key = X25519PublicKey (x_public C ik),
      pkb_signing_key = Ed25519PublicKey (ed_public C seed),
      pkb_signed_pre_key = X25519PublicKey (x_public C spk),
      pkb_signed_pre_key_signature = Ed25519Signature (ed_sign C seed (x_public C spk)),
      pkb_one_time_pre_keys = map otk_pre_key (kb_one_time_pre_key_pairs kb)\<rparr>"
    and "\<forall>p \<in> set (kb_one_time_pre_key_pairs kb). derived_key_pair C (otk_key_pair p)"
    and "map otk_id (kb_one_time_pre_key_pairs kb) = concat (map batch_ids batches)"
proof -
  from assms obtain seed publics pairs where sd: "sd = Some seed"
    and otks: "otk_batches C otk batches ([], []) = Inr (publics, pairs)"
    and kb: "kb = \<lparr>kb_spk_id = spk_id, kb_identity_key_pair = generate_x25519_keypair C ik,
      kb_signing_key_pair = \<lparr>edkp_public_key = Ed25519PublicKey (ed_public C seed),
        edkp_private_key = Ed25519PrivateKey seed\<rparr>,
      kb_signed_pre_key_pair = generate_x25519_keypair C spk, kb_one_time_pre_key_pairs = pairs,
      kb_bundle = \<lparr>pkb_identity_key = X25519PublicKey (x_public C ik),
        pkb_signing_key = Ed25519PublicKey (ed_public C seed),
        pkb_signed_pre_key = X25519PublicKey (x_public C spk),
        pkb_signed_pre_key_signature = Ed25519Signature (ed_sign C seed (x_public C spk)),
        pkb_one_time_pre_keys = publics\<rparr>\<rparr>"
    by (auto simp: generate_key_bundle_def generate_ed25519_keypair_def ed25519_sign_def
        and_then_Inr_iff ok_or_Inr_iff Let_def)
  from otk_batches_result[OF otks] that[OF sd] show thesis by (simp add: kb)
qed

section \<open>Agreement\<close>

text \<open>The bundle the server hands out: the published keys and one of the one-time pre-keys.\<close>

definition fetch_of :: "key_bundle \<Rightarrow> one_time_pre_key_pair option \<Rightarrow> pre_key_bundle_fetch" where
  "fetch_of kb otk =
     \<lparr>pkf_identity_key = pkb_identity_key (kb_bundle kb),
      pkf_signing_key = pkb_signing_key (kb_bundle kb),
      pkf_signed_pre_key = \<lparr>pk_id = kb_spk_id kb, pk_key = pkb_signed_pre_key (kb_bundle kb)\<rparr>,
      pkf_signed_pre_key_signature = pkb_signed_pre_key_signature (kb_bundle kb),
      pkf_one_time_pre_key = map_option otk_pre_key otk\<rparr>"

lemma agreement:
  assumes C: "hkdf_bounded C" "x25519_sizes C" "dh_commutes C" "dh_contributory C" "ed25519_correct C"
    and kb: "generate_key_bundle C ik_draw sd spk_draw otk_draw spk_id batches = Inr kb"
    and otk: "otk = None \<or> (\<exists>p \<in> set (kb_one_time_pre_key_pairs kb). otk = Some p)"
    and ik: "derived_key_pair C ik"
  obtains rk where "length (root_key_bytes rk) = 32"
    and "x3dh_initiate C draw ik (fetch_of kb otk) = Inr
      \<lparr>xi_root_key = rk, xi_ephemeral_public_key = X25519PublicKey (x_public C draw),
       xi_spk_id = spk_id, xi_otk_id = map_option otk_id otk\<rparr>"
    and "x3dh_respond C (kb_identity_key_pair kb) (kb_signed_pre_key_pair kb) otk
      (xkp_public_key ik) (X25519PublicKey (x_public C draw)) = Inr
      \<lparr>xr_root_key = rk, xr_otk_id = map_option otk_id otk\<rparr>"
    and "x3dh_respond_with_raw_otk C (kb_identity_key_pair kb) (kb_signed_pre_key_pair kb)
      (map_option otk_key_pair otk) (xkp_public_key ik) (X25519PublicKey (x_public C draw)) = Inr
      \<lparr>xr_root_key = rk, xr_otk_id = None\<rparr>"
proof -
  obtain seed where b: "sd = Some seed" "kb_spk_id kb = spk_id"
    "kb_identity_key_pair kb = generate_x25519_keypair C ik_draw"
    "kb_signed_pre_key_pair kb = generate_x25519_keypair C spk_draw"
    "kb_signing_key_pair kb =
      \<lparr>edkp_public_key = Ed25519PublicKey (ed_public C seed), edkp_private_key = Ed25519PrivateKey seed\<rparr>"
    "kb_bundle kb = \<lparr>pkb_identity_key = X25519PublicKey (x_public C ik_draw),
      pkb_signing_key = Ed25519PublicKey (ed_public C seed),
      pkb_signed_pre_key = X25519PublicKey (x_public C spk_draw),
      pkb_signed_pre_key_signature = Ed25519Signature (ed_sign C seed (x_public C spk_draw)),
      pkb_one_time_pre_keys = map otk_pre_key (kb_one_time_pre_key_pairs kb)\<rparr>"
    and derived: "\<forall>p \<in> set (kb_one_time_pre_key_pairs kb). derived_key_pair C (otk_key_pair p)"
    by (rule generate_key_bundle_result[OF kb])
  let ?ek = "generate_x25519_keypair C draw"
  have dh: "x25519_dh C (xkp_private_key a) (xkp_public_key b) = Inr (x_dh C (x_priv_bytes (xkp_private_key a))
      (x_pub_bytes (xkp_public_key b)))"
    "x25519_dh C (xkp_private_key b) (xkp_public_key a) = Inr (x_dh C (x_priv_bytes (xkp_private_key a))
      (x_pub_bytes (xkp_public_key b)))"
    if "derived_key_pair C a" "derived_key_pair C b" for a b
    using x25519_dh_ok[OF C(4) that(2)] x25519_dh_agree[OF C(3) that] by simp_all
  define d1 where "d1 = x_dh C (x_priv_bytes (xkp_private_key ik)) (x_public C spk_draw)"
  define d2 where "d2 = x_dh C draw (x_public C ik_draw)"
  define d3 where "d3 = x_dh C draw (x_public C spk_draw)"
  define d4 where "d4 = (case otk of None \<Rightarrow> []
    | Some p \<Rightarrow> x_dh C draw (x_pub_bytes (xkp_public_key (otk_key_pair p))))"
  let ?rk = "RatchetRootKey (x3dh_secret C (d1 @ d2 @ d3 @ d4))"
  have otk_derived: "derived_key_pair C (otk_key_pair p)" if "otk = Some p" for p
    using otk derived that by auto
  have fourth: "fourth_dh C (X25519PrivateKey draw) (map_option (\<lambda>p. xkp_public_key (otk_key_pair p)) otk) d4"
    using dh(1)[of ?ek, OF _ otk_derived]
    by (auto simp: fourth_dh_def d4_def otk_pre_key_def split: option.split)
  have fourth': "otk = None \<Longrightarrow> d4 = []" "otk = Some p \<Longrightarrow>
      x25519_dh C (xkp_private_key (otk_key_pair p)) (X25519PublicKey (x_public C draw)) = Inr d4" for p
    using dh(2)[of ?ek, OF _ otk_derived] by (auto simp: d4_def)
  have init: "x3dh_initiate C draw ik (fetch_of kb otk) = Inr
      \<lparr>xi_root_key = ?rk, xi_ephemeral_public_key = X25519PublicKey (x_public C draw),
       xi_spk_id = spk_id, xi_otk_id = map_option otk_id otk\<rparr>"
    using dh(1)[OF ik derived_generate[of C spk_draw]] dh(1)[OF derived_generate[of C draw] derived_generate[of C ik_draw]]
      dh(1)[OF derived_generate[of C draw] derived_generate[of C spk_draw]] C(5)
    by (subst x3dh_initiate_closed[OF C(1,2), of _ _ d1 _ d2 d3 d4])
      (simp_all add: fetch_of_def b fourth ed25519_correct_def ed25519_verify_def d1_def d2_def d3_def
        option.map_comp comp_def otk_pre_key_def)
  have respond: "x3dh_respond_inner C (kb_identity_key_pair kb) (kb_signed_pre_key_pair kb)
      (map_option (\<lambda>p. (otk_key_pair p, f p)) otk) (xkp_public_key ik) (X25519PublicKey (x_public C draw)) =
      Inr \<lparr>xr_root_key = ?rk, xr_otk_id = Option.bind otk f\<rparr>" for f
    using dh(2)[OF ik derived_generate[of C spk_draw]] dh(2)[OF derived_generate[of C draw] derived_generate[of C ik_draw]]
      dh(2)[OF derived_generate[of C draw] derived_generate[of C spk_draw]]
    by (subst x3dh_respond_inner_closed[OF C(1,2), where ?d1.0 = d1 and ?d2.0 = d2 and ?d3.0 = d3 and ?d4.0 = d4])
      (simp_all add: b fourth' d1_def d2_def d3_def split: option.split)
  have "length (root_key_bytes ?rk) = 32" by (simp add: x3dh_secret[OF C(1)])
  moreover have "x3dh_respond C (kb_identity_key_pair kb) (kb_signed_pre_key_pair kb) otk
      (xkp_public_key ik) (X25519PublicKey (x_public C draw)) = Inr
      \<lparr>xr_root_key = ?rk, xr_otk_id = map_option otk_id otk\<rparr>"
    unfolding x3dh_respond_def respond by (cases otk) simp_all
  moreover have "x3dh_respond_with_raw_otk C (kb_identity_key_pair kb) (kb_signed_pre_key_pair kb)
      (map_option otk_key_pair otk) (xkp_public_key ik) (X25519PublicKey (x_public C draw)) = Inr
      \<lparr>xr_root_key = ?rk, xr_otk_id = None\<rparr>"
    using respond[of "\<lambda>_. None"]
    unfolding x3dh_respond_with_raw_otk_def option.map_comp comp_def by (cases otk) simp_all
  ultimately show thesis using init by (intro that[of ?rk])
qed

end
