(* ===== verification/Ratchet.thy ===== *)
theory Ratchet
  imports Ratchet_State
begin

text \<open>
  The Double Ratchet of \<open>im-e2ee-core/src/ratchet/mod.rs\<close>: key derivation, chain initialisation, the
  Diffie-Hellman step, encryption and decryption.

  A function that takes \<open>&mut RatchetState\<close> returns its result together with the state as it is
  when the function returns, also when it returns an error: the fields it assigned before the error
  keep their new values. \<open>Option::take\<close> leaves \<open>None\<close> behind. The secret of a key pair the function
  may generate is the argument \<open>draw\<close>; the draw of the nonce, which may fail, is an option.
\<close>

section \<open>Constants\<close>

definition max_skip :: u32 where
  "max_skip = 2000"

definition info_root_key :: bytes where
  "info_root_key = ascii ''RootKey''"

definition info_sending_chain :: bytes where
  "info_sending_chain = ascii ''SendingChainKey''"

definition info_receiving_chain :: bytes where
  "info_receiving_chain = ascii ''ReceivingChainKey''"

definition info_message_keys :: bytes where
  "info_message_keys = ascii ''MessageKeys''"

definition info_chain_keys :: bytes where
  "info_chain_keys = ascii ''ChainKeys''"

section \<open>Key derivation\<close>

definition split_chain_key :: "crypto_lib \<Rightarrow> chain_key \<Rightarrow> e2ee_error + (message_key \<times> chain_key)" where
  "split_chain_key C chain_key =
     and_then (hkdf_sha256 C 32 (chain_key_bytes chain_key) [] info_message_keys) (\<lambda>msg_bytes.
     and_then (hkdf_sha256 C 32 (chain_key_bytes chain_key) [] info_chain_keys) (\<lambda>chain_bytes.
       Inr (MessageKey msg_bytes, ChainKey chain_bytes)))"

definition kdf_root_key ::
  "crypto_lib \<Rightarrow> ratchet_root_key \<Rightarrow> bytes \<Rightarrow> bytes \<Rightarrow> e2ee_error + (ratchet_root_key \<times> chain_key)"
where
  "kdf_root_key C root_key dh_output chain_info =
     (let input = root_key_bytes root_key @ dh_output in
      and_then (hkdf_sha256 C 32 input [] info_root_key) (\<lambda>root_bytes.
      and_then (hkdf_sha256 C 32 input [] chain_info) (\<lambda>chain_bytes.
        Inr (RatchetRootKey root_bytes, ChainKey chain_bytes))))"

definition chain_info_for_sender :: "x25519_public_key \<Rightarrow> x25519_public_key \<Rightarrow> bytes" where
  "chain_info_for_sender sender_id_key receiver_id_key =
     (if x_pub_bytes sender_id_key < x_pub_bytes receiver_id_key
      then info_sending_chain else info_receiving_chain)"

definition local_sending_chain_info :: "ratchet_state \<Rightarrow> bytes" where
  "local_sending_chain_info state =
     chain_info_for_sender (rs_local_identity_key state) (rs_remote_identity_key state)"

definition local_receiving_chain_info :: "ratchet_state \<Rightarrow> bytes" where
  "local_receiving_chain_info state =
     chain_info_for_sender (rs_remote_identity_key state) (rs_local_identity_key state)"

definition next_counter :: "u32 \<Rightarrow> e2ee_error + u32" where
  "next_counter counter = ok_or (InvalidCounter ''counter overflow'') (checked_add counter 1)"

definition build_ratchet_aad :: "x25519_public_key \<Rightarrow> x25519_public_key \<Rightarrow> ratchet_header \<Rightarrow> bytes" where
  "build_ratchet_aad local_id_key remote_id_key header =
     (let (first_ik, second_ik) =
        (if x_pub_bytes local_id_key < x_pub_bytes remote_id_key
         then (local_id_key, remote_id_key) else (remote_id_key, local_id_key))
      in x_pub_bytes first_ik @ x_pub_bytes second_ik @ x_pub_bytes (hdr_ratchet_public_key header) @
         be_bytes (hdr_counter header) @ be_bytes (hdr_previous_counter header))"

section \<open>Chain initialisation\<close>

definition init_sending_chain ::
  "crypto_lib \<Rightarrow> bytes \<Rightarrow> ratchet_root_key \<Rightarrow> x25519_public_key \<Rightarrow> x25519_public_key \<Rightarrow>
   e2ee_error + ratchet_state"
where
  "init_sending_chain C draw root_key local_identity_key remote_identity_key =
     and_then (hkdf_sha256 C 32 (root_key_bytes root_key) [] info_sending_chain) (\<lambda>sending.
     and_then (hkdf_sha256 C 32 (root_key_bytes root_key) [] info_receiving_chain) (\<lambda>receiving.
       let dh_key_pair = generate_x25519_keypair C draw in
       Inr \<lparr>rs_root_key = RatchetRootKey (root_key_bytes root_key),
            rs_sending_chain_key = Some (ChainKey sending),
            rs_receiving_chain_key = Some (ChainKey receiving),
            rs_send_counter = 0, rs_receive_counter = 0, rs_previous_counter = 0,
            rs_dh_key_pair = dh_key_pair,
            rs_remote_public_key = None,
            rs_skipped_message_keys = skipped_new,
            rs_local_identity_key = local_identity_key,
            rs_remote_identity_key = remote_identity_key\<rparr>))"

definition init_receiving_chain ::
  "crypto_lib \<Rightarrow> bytes \<Rightarrow> ratchet_root_key \<Rightarrow> x25519_public_key \<Rightarrow> x25519_public_key \<Rightarrow>
   e2ee_error + ratchet_state"
where
  "init_receiving_chain C draw root_key local_identity_key remote_identity_key =
     and_then (hkdf_sha256 C 32 (root_key_bytes root_key) [] info_receiving_chain) (\<lambda>sending.
     and_then (hkdf_sha256 C 32 (root_key_bytes root_key) [] info_sending_chain) (\<lambda>receiving.
       let dh_key_pair = generate_x25519_keypair C draw in
       Inr \<lparr>rs_root_key = RatchetRootKey (root_key_bytes root_key),
            rs_sending_chain_key = Some (ChainKey sending),
            rs_receiving_chain_key = Some (ChainKey receiving),
            rs_send_counter = 0, rs_receive_counter = 0, rs_previous_counter = 0,
            rs_dh_key_pair = dh_key_pair,
            rs_remote_public_key = None,
            rs_skipped_message_keys = skipped_new,
            rs_local_identity_key = local_identity_key,
            rs_remote_identity_key = remote_identity_key\<rparr>))"

section \<open>Skipping message keys\<close>

text \<open>The \<open>for\<close> loop over the skipped counters.\<close>

fun skip_loop ::
  "crypto_lib \<Rightarrow> x25519_public_key \<Rightarrow> u32 list \<Rightarrow> chain_key \<Rightarrow> skipped_key_store \<Rightarrow>
   (e2ee_error + chain_key) \<times> skipped_key_store"
where
  "skip_loop C pk [] chain store = (Inr chain, store)"
| "skip_loop C pk (counter # counters) chain store =
     (case split_chain_key C chain of
        Inl e \<Rightarrow> (Inl e, store)
      | Inr (skipped_key, chain') \<Rightarrow>
          (case skipped_insert store pk counter skipped_key of
             (Inl e, store') \<Rightarrow> (Inl e, store')
           | (Inr _, store') \<Rightarrow> skip_loop C pk counters chain' store'))"

definition skip_message_keys ::
  "crypto_lib \<Rightarrow> ratchet_state \<Rightarrow> x25519_public_key \<Rightarrow> u32 \<Rightarrow> (e2ee_error + unit) \<times> ratchet_state"
where
  "skip_message_keys C state ratchet_public_key until_counter =
     (if until_counter \<le> rs_receive_counter state then (Inr (), state)
      else
        let gap = saturating_sub until_counter (rs_receive_counter state) in
        if max_skip < gap then (Inl (CounterGapExceeded gap max_skip), state)
        else
          (case rs_receiving_chain_key state of
             None \<Rightarrow> (Inl ReceivingChainNotInitialized, state)
           | Some chain \<Rightarrow>
               let state = state\<lparr>rs_receiving_chain_key := None\<rparr> in
               (case skip_loop C ratchet_public_key
                       (u32_range (rs_receive_counter state) until_counter) chain
                       (rs_skipped_message_keys state) of
                  (Inl e, store) \<Rightarrow> (Inl e, state\<lparr>rs_skipped_message_keys := store\<rparr>)
                | (Inr chain', store) \<Rightarrow>
                    (Inr (), state\<lparr>rs_skipped_message_keys := store,
                                   rs_receiving_chain_key := Some chain',
                                   rs_receive_counter := until_counter\<rparr>))))"

section \<open>Decryption on the current chain\<close>

definition decrypt_with_current_chain ::
  "crypto_lib \<Rightarrow> ratchet_state \<Rightarrow> ratchet_header \<Rightarrow> bytes \<Rightarrow> (e2ee_error + bytes) \<times> ratchet_state"
where
  "decrypt_with_current_chain C state header ciphertext =
     (if hdr_counter header < rs_receive_counter state then (Inl DuplicateOrExpiredMessage, state)
      else
        (case skip_message_keys C state (hdr_ratchet_public_key header) (hdr_counter header) of
           (Inl e, state) \<Rightarrow> (Inl e, state)
         | (Inr _, state) \<Rightarrow>
             (case rs_receiving_chain_key state of
                None \<Rightarrow> (Inl ReceivingChainNotInitialized, state)
              | Some chain \<Rightarrow>
                  let state = state\<lparr>rs_receiving_chain_key := None\<rparr> in
                  (case split_chain_key C chain of
                     Inl e \<Rightarrow> (Inl e, state)
                   | Inr (msg_key, next_chain) \<Rightarrow>
                       let state = state\<lparr>rs_receiving_chain_key := Some next_chain\<rparr> in
                       (case next_counter (hdr_counter header) of
                          Inl e \<Rightarrow> (Inl e, state)
                        | Inr counter \<Rightarrow>
                            let state = state\<lparr>rs_receive_counter := counter\<rparr>;
                                aad = build_ratchet_aad (rs_local_identity_key state)
                                        (rs_remote_identity_key state) header
                            in (aes_gcm_decrypt C (aes_key_of_message_key msg_key)
                                  (hdr_nonce header) ciphertext aad, state))))))"

section \<open>Diffie-Hellman steps\<close>

definition prepare_initial_response_ratchet ::
  "crypto_lib \<Rightarrow> bytes \<Rightarrow> ratchet_state \<Rightarrow> x25519_public_key \<Rightarrow> (e2ee_error + unit) \<times> ratchet_state"
where
  "prepare_initial_response_ratchet C draw state remote_key =
     (let state = state\<lparr>rs_remote_public_key := Some remote_key,
                        rs_previous_counter := rs_send_counter state,
                        rs_send_counter := 0,
                        rs_dh_key_pair := generate_x25519_keypair C draw\<rparr> in
      (case x25519_dh C (xkp_private_key (rs_dh_key_pair state)) remote_key of
         Inl e \<Rightarrow> (Inl e, state)
       | Inr dh \<Rightarrow>
           (case kdf_root_key C (rs_root_key state) dh (local_sending_chain_info state) of
              Inl e \<Rightarrow> (Inl e, state)
            | Inr (root, sending_chain) \<Rightarrow>
                (Inr (), state\<lparr>rs_root_key := root,
                               rs_sending_chain_key := Some sending_chain\<rparr>))))"

definition perform_dh_ratchet ::
  "crypto_lib \<Rightarrow> bytes \<Rightarrow> ratchet_state \<Rightarrow> x25519_public_key \<Rightarrow> u32 \<Rightarrow> (e2ee_error + unit) \<times> ratchet_state"
where
  "perform_dh_ratchet C draw state new_remote_key previous_counter =
     (case (case rs_remote_public_key state of
              Some old_remote_key \<Rightarrow> skip_message_keys C state old_remote_key previous_counter
            | None \<Rightarrow> (Inr (), state)) of
        (Inl e, state) \<Rightarrow> (Inl e, state)
      | (Inr _, state) \<Rightarrow>
          let state = state\<lparr>rs_previous_counter := rs_send_counter state,
                            rs_send_counter := 0, rs_receive_counter := 0\<rparr> in
          (case x25519_dh C (xkp_private_key (rs_dh_key_pair state)) new_remote_key of
             Inl e \<Rightarrow> (Inl e, state)
           | Inr dh1 \<Rightarrow>
               (case kdf_root_key C (rs_root_key state) dh1 (local_receiving_chain_info state) of
                  Inl e \<Rightarrow> (Inl e, state)
                | Inr (root, receiving_chain) \<Rightarrow>
                    let state = state\<lparr>rs_dh_key_pair := generate_x25519_keypair C draw\<rparr> in
                    (case x25519_dh C (xkp_private_key (rs_dh_key_pair state)) new_remote_key of
                       Inl e \<Rightarrow> (Inl e, state)
                     | Inr dh2 \<Rightarrow>
                         (case kdf_root_key C root dh2 (local_sending_chain_info state) of
                            Inl e \<Rightarrow> (Inl e, state)
                          | Inr (root', sending_chain) \<Rightarrow>
                              (Inr (), state\<lparr>rs_root_key := root',
                                             rs_receiving_chain_key := Some receiving_chain,
                                             rs_sending_chain_key := Some sending_chain,
                                             rs_remote_public_key := Some new_remote_key\<rparr>))))))"

section \<open>Encryption and decryption\<close>

definition ratchet_encrypt ::
  "crypto_lib \<Rightarrow> bytes option \<Rightarrow> ratchet_state \<Rightarrow> bytes \<Rightarrow>
   (e2ee_error + (ratchet_header \<times> bytes)) \<times> ratchet_state"
where
  "ratchet_encrypt C nonce_draw state plaintext =
     (case ok_or (InvalidCounter ''send counter overflow'') (checked_add (rs_send_counter state) 1) of
        Inl e \<Rightarrow> (Inl e, state)
      | Inr next_send_counter \<Rightarrow>
          (case rs_sending_chain_key state of
             None \<Rightarrow> (Inl SendingChainNotInitialized, state)
           | Some chain \<Rightarrow>
               let state = state\<lparr>rs_sending_chain_key := None\<rparr> in
               (case split_chain_key C chain of
                  Inl e \<Rightarrow> (Inl e, state)
                | Inr (msg_key, next_chain) \<Rightarrow>
                    (case generate_nonce nonce_draw of
                       Inl e \<Rightarrow> (Inl e, state)
                     | Inr nonce \<Rightarrow>
                         let header = \<lparr>hdr_ratchet_public_key = xkp_public_key (rs_dh_key_pair state),
                                       hdr_counter = rs_send_counter state,
                                       hdr_previous_counter = rs_previous_counter state,
                                       hdr_nonce = nonce\<rparr>;
                             aad = build_ratchet_aad (rs_local_identity_key state)
                                     (rs_remote_identity_key state) header
                         in
                         (case aes_gcm_encrypt C (aes_key_of_message_key msg_key)
                                 (hdr_nonce header) plaintext aad of
                            Inl e \<Rightarrow> (Inl e, state)
                          | Inr ciphertext \<Rightarrow>
                              (Inr (header, ciphertext),
                               state\<lparr>rs_sending_chain_key := Some next_chain,
                                     rs_send_counter := next_send_counter\<rparr>))))))"

definition ratchet_decrypt ::
  "crypto_lib \<Rightarrow> bytes \<Rightarrow> ratchet_state \<Rightarrow> ratchet_header \<Rightarrow> bytes \<Rightarrow> (e2ee_error + bytes) \<times> ratchet_state"
where
  "ratchet_decrypt C draw state header ciphertext =
     (let target_counter = hdr_counter header in
      (case next_counter target_counter of
         Inl e \<Rightarrow> (Inl e, state)
       | Inr _ \<Rightarrow>
           (case skipped_remove (rs_skipped_message_keys state)
                   (hdr_ratchet_public_key header) target_counter of
              (Some msg_key, store) \<Rightarrow>
                let state = state\<lparr>rs_skipped_message_keys := store\<rparr>;
                    aad = build_ratchet_aad (rs_local_identity_key state)
                            (rs_remote_identity_key state) header
                in (aes_gcm_decrypt C (aes_key_of_message_key msg_key)
                      (hdr_nonce header) ciphertext aad, state)
            | (None, _) \<Rightarrow>
                let first_remote_key = (rs_remote_public_key state = None);
                    has_sent_before_first_remote_key = (0 < rs_send_counter state);
                    needs_ratchet = (case rs_remote_public_key state of
                        Some pk \<Rightarrow> x_pub_bytes pk \<noteq> x_pub_bytes (hdr_ratchet_public_key header)
                      | None \<Rightarrow> has_sent_before_first_remote_key)
                in
                if needs_ratchet \<and> max_skip < target_counter
                then (Inl (CounterGapExceeded target_counter max_skip), state)
                else if needs_ratchet
                then
                  (case perform_dh_ratchet C draw state (hdr_ratchet_public_key header)
                          (hdr_previous_counter header) of
                     (Inl e, state) \<Rightarrow> (Inl e, state)
                   | (Inr _, state) \<Rightarrow> decrypt_with_current_chain C state header ciphertext)
                else
                  (case decrypt_with_current_chain C state header ciphertext of
                     (Inl e, state) \<Rightarrow> (Inl e, state)
                   | (Inr plaintext, state) \<Rightarrow>
                       if first_remote_key
                       then (case prepare_initial_response_ratchet C draw state
                                    (hdr_ratchet_public_key header) of
                               (Inl e, state) \<Rightarrow> (Inl e, state)
                             | (Inr _, state) \<Rightarrow> (Inr plaintext, state))
                       else (Inr plaintext, state)))))"

end
