(* ===== verification/Host_Libs.thy ===== *)
theory Host_Libs
  imports X3dh Ratchet
begin

text \<open>
  What the three hosts of the E2EE core (UniFFI, WebAssembly, Flutter bridge) share: JSON values as
  \<open>serde_json\<close> has them, the third-party codecs as the record \<open>host_lib\<close> with what they document,
  and the interfaces of a session table.
\<close>

section \<open>JSON values\<close>

text \<open>A number is an integer or a float, whose value no code here reads.\<close>

datatype json =
    JNull
  | JBool bool
  | JInt int
  | JFloat string
  | JStr string
  | JArr "json list"
  | JObj "(string \<times> json) list"

text \<open>\<open>Value::get\<close>, indexing, and the \<open>as_\<close> methods. Indexing a missing key yields null.\<close>

fun json_get :: "json \<Rightarrow> string \<Rightarrow> json option" where
  "json_get (JObj kvs) k = map_of kvs k"
| "json_get _ k = None"

definition json_index :: "json \<Rightarrow> string \<Rightarrow> json" where
  "json_index v k = (case json_get v k of Some x \<Rightarrow> x | None \<Rightarrow> JNull)"

fun json_as_str :: "json \<Rightarrow> string option" where
  "json_as_str (JStr s) = Some s"
| "json_as_str _ = None"

fun json_as_array :: "json \<Rightarrow> json list option" where
  "json_as_array (JArr vs) = Some vs"
| "json_as_array _ = None"

fun json_as_u64 :: "json \<Rightarrow> nat option" where
  "json_as_u64 (JInt i) = (if 0 \<le> i \<and> i < 2 ^ 64 then Some (nat i) else None)"
| "json_as_u64 _ = None"

definition json_is_string :: "json \<Rightarrow> bool" where
  "json_is_string v \<longleftrightarrow> json_as_str v \<noteq> None"

definition unwrap_or :: "'a option \<Rightarrow> 'a \<Rightarrow> 'a" where
  "unwrap_or m d = (case m of Some x \<Rightarrow> x | None \<Rightarrow> d)"

lemma unwrap_or_simps [simp]: "unwrap_or (Some x) d = x" "unwrap_or None d = d"
  by (simp_all add: unwrap_or_def)

section \<open>Third-party codecs\<close>

text \<open>
  \<open>bincode\<close> for the types that are serialized, standard \<open>base64\<close>, \<open>serde_json\<close> (text to value,
  value to text, text to \<open>PreKeyBundleFetch\<close>) and SHA-256.
\<close>

record host_lib =
  bc_ser_state :: "ratchet_state \<Rightarrow> bytes option"
  bc_de_state :: "bytes \<Rightarrow> ratchet_state option"
  bc_ser_key_pair :: "x25519_key_pair \<Rightarrow> bytes option"
  bc_de_key_pair :: "bytes \<Rightarrow> x25519_key_pair option"
  bc_de_key_tuple :: "bytes \<Rightarrow> (bytes \<times> bytes) option"
  b64_encode :: "bytes \<Rightarrow> string"
  b64_decode :: "string \<Rightarrow> bytes option"
  json_parse :: "string \<Rightarrow> json option"
  json_print :: "json \<Rightarrow> string option"
  json_fetch :: "string \<Rightarrow> pre_key_bundle_fetch option"
  sha256 :: "bytes \<Rightarrow> bytes"

text \<open>
  \<open>bincode\<close> writes fixed-size arrays as their bytes, in field order, and its deserializer ignores
  what follows them: a key pair is its public and then its private key.
\<close>

definition bincode_key_pairs :: "host_lib \<Rightarrow> bool" where
  "bincode_key_pairs H \<longleftrightarrow>
     (\<forall>kp. wf_key_pair kp \<longrightarrow>
        bc_ser_key_pair H kp = Some (x_pub_bytes (xkp_public_key kp) @ x_priv_bytes (xkp_private_key kp))) \<and>
     (\<forall>b. bc_de_key_pair H b = (if length b < 64 then None
        else Some \<lparr>xkp_public_key = X25519PublicKey (take 32 b),
                   xkp_private_key = X25519PrivateKey (take 32 (drop 32 b))\<rparr>)) \<and>
     (\<forall>b. bc_de_key_tuple H b = (if length b < 64 then None else Some (take 32 b, take 32 (drop 32 b))))"

definition base64_inverse :: "host_lib \<Rightarrow> bool" where
  "base64_inverse H \<longleftrightarrow> (\<forall>b. b64_decode H (b64_encode H b) = Some b)"

definition json_inverse :: "host_lib \<Rightarrow> bool" where
  "json_inverse H \<longleftrightarrow> (\<forall>v s. json_print H v = Some s \<longrightarrow> json_parse H s = Some v)"

text \<open>The draws of \<open>generate_key_bundle\<close>: identity, signing seed, signed pre-key, one-time pre-keys.\<close>

type_synonym bundle_draws = "bytes \<times> bytes option \<times> bytes \<times> (nat \<Rightarrow> bytes)"

section \<open>The contract of a session table\<close>

text \<open>
  A host keeps sessions under string identifiers. Every operation names one session; the contract is
  that it leaves the others alone, so that what happens to the others can be dropped from a run.
\<close>

locale session_host =
  fixes step :: "'op \<Rightarrow> 'm \<Rightarrow> 'r \<times> 'm"
    and target :: "'op \<Rightarrow> string"
    and view :: "'m \<Rightarrow> string \<Rightarrow> 'v option"
    and run :: "'op list \<Rightarrow> 'm \<Rightarrow> 'm"
  assumes isolation: "k \<noteq> target op \<Longrightarrow> view (snd (step op m)) k = view m k"
    and run_Nil: "run [] m = m"
    and run_Cons: "run (op # ops) m = run ops (snd (step op m))"
begin

lemma run_others: "\<forall>op \<in> set ops. target op \<noteq> k \<Longrightarrow> view (run ops m) k = view m k"
proof (induction ops arbitrary: m)
  case Nil
  show ?case by (rule arg_cong[where f = "\<lambda>m. view m k"], rule run_Nil)
next
  case (Cons op ops)
  then have "view (run ops (snd (step op m))) k = view (snd (step op m)) k" by simp
  also have "\<dots> = view m k" using Cons.prems by (intro isolation) auto
  finally show ?case unfolding run_Cons .
qed

lemma run_append: "run (xs @ ys) m = run ys (run xs m)"
  by (induction xs arbitrary: m) (simp_all add: run_Nil run_Cons)

end

text \<open>A host whose operations on a session read nothing but that session.\<close>

locale local_session_host = session_host +
  assumes locality: "view m (target op) = view m' (target op) \<Longrightarrow> fst (step op m) = fst (step op m') \<and>
    view (snd (step op m)) (target op) = view (snd (step op m')) (target op)"
begin

text \<open>Only the operations on a session matter for it.\<close>

lemma run_filter: "view m k = view m' k \<Longrightarrow> view (run ops m) k = view (run (filter (\<lambda>op. target op = k) ops) m') k"
proof (induction ops arbitrary: m m')
  case Nil
  then show ?case by (simp add: run_Nil)
next
  case (Cons op ops)
  show ?case
  proof (cases "target op = k")
    case True
    have "view (snd (step op m)) k = view (snd (step op m')) k"
      using locality[of m op m'] Cons.prems True by simp
    from Cons.IH[OF this] True show ?thesis by (simp add: run_Cons)
  next
    case False
    have "view (snd (step op m)) k = view m' k"
      using isolation[of k op m] Cons.prems False by simp
    from Cons.IH[OF this] False show ?thesis by (simp add: run_Cons)
  qed
qed

text \<open>Operations on different sessions commute.\<close>

lemma commute:
  assumes "target op \<noteq> target op'"
  shows "fst (step op (snd (step op' m))) = fst (step op m)"
    and "view (run [op, op'] m) = view (run [op', op] m)"
proof -
  have *: "view (snd (step op' m)) (target op) = view m (target op)"
    using assms by (intro isolation)
  then show "fst (step op (snd (step op' m))) = fst (step op m)" using locality by blast
  show "view (run [op, op'] m) = view (run [op', op] m)"
  proof
    fix k
    have a: "view (run [op, op'] m) k = view (run (filter (\<lambda>x. target x = k) [op, op']) m) k"
      by (rule run_filter) (rule refl)
    have b: "view (run [op', op] m) k = view (run (filter (\<lambda>x. target x = k) [op', op]) m) k"
      by (rule run_filter) (rule refl)
    have eq: "filter (\<lambda>x. target x = k) [op, op'] = filter (\<lambda>x. target x = k) [op', op]"
      using assms by auto
    show "view (run [op, op'] m) k = view (run [op', op] m) k"
      using a unfolding eq b[symmetric] .
  qed
qed

end

section \<open>Small facts\<close>

lemma unat_byte: "unat (b :: byte) < 256"
proof -
  have "unat b < 2 ^ LENGTH(8)" by (rule unsigned_less)
  then show ?thesis by simp
qed

text \<open>The 40-byte handshake: ephemeral key, signed pre-key id, one-time pre-key id or the sentinel.\<close>

definition no_otk :: u32 where
  "no_otk = 0xFFFFFFFF"

lemma handshake_fields:
  assumes "length e = 32"
  shows "take 32 (e @ be_bytes s @ be_bytes t) = e"
    "of_be_bytes (take 4 (drop 32 (e @ be_bytes s @ be_bytes t))) = s"
    "of_be_bytes (take 4 (drop 36 (e @ be_bytes s @ be_bytes t))) = t"
    "length (e @ be_bytes s @ be_bytes t) = 40"
  using assms by simp_all

section \<open>Frames\<close>

text \<open>
  The hosts put messages on the wire as the header length, the header and the ciphertext; the
  prefix is always 52.
\<close>

definition wire_frame :: "ratchet_header \<Rightarrow> bytes \<Rightarrow> bytes" where
  "wire_frame h ct = be_bytes 52 @ encode_ratchet_header h @ ct"

lemma wire_frame_parts:
  assumes "wf_header h"
  shows "length (wire_frame h ct) = 56 + length ct" "of_be_bytes (take 4 (wire_frame h ct)) = 52"
    "decode_ratchet_header (take 52 (drop 4 (wire_frame h ct))) = Inr h" "drop 56 (wire_frame h ct) = ct"
  using header_codec.enc_width[OF assms] header_codec.dec_enc[OF assms]
  by (simp_all add: wire_frame_def)

lemma wire_frame_unique:
  assumes "56 \<le> length w" "unat (of_be_bytes (take 4 w)) = 52" "decode_ratchet_header (take 52 (drop 4 w)) = Inr h"
  shows "w = wire_frame h (drop 56 w)" "wf_header h"
proof -
  from assms(2) have "of_be_bytes (take 4 w) = 52" using word_unat_eq_iff[of "of_be_bytes (take 4 w)" 52] by simp
  then have "be_bytes 52 = take 4 w" using assms(1) be_bytes_of_be_bytes[of "take 4 w"] by simp
  moreover have "encode_ratchet_header h = take 52 (drop 4 w)" "wf_header h"
    using header_codec.enc_dec[OF assms(3)] by simp_all
  moreover have "take 4 w @ take 52 (drop 4 w) @ drop 56 w = w"
    using append_take_drop_id[of 4 w] append_take_drop_id[of 52 "drop 4 w"] by simp
  ultimately show "w = wire_frame h (drop 56 w)" "wf_header h" by (simp_all add: wire_frame_def)
qed

end
