(* ===== verification/Api_Base.thy ===== *)
theory Api_Base
  imports Prelude Host_Libs
begin

text \<open>
  What the handlers of the api-server share: its errors (\<open>api-server/src/error.rs\<close>), the response
  records of \<open>im-common/src/api.rs\<close>, and computations that access the stores one command at a time,
  so that several of them can be interleaved.
\<close>

section \<open>Errors\<close>

text \<open>The causes of the transparent variants are third-party errors and are not modelled.\<close>

datatype api_error =
    EBadRequest string
  | EUnauthorized string
  | EForbidden string
  | ENotFound string
  | ENotImplemented string
  | EConflict string
  | EUpstream string
  | ERedis
  | ESqlx
  | EReqwest
  | EIo
  | ESerde
  | EAnyhow

fun api_error_status :: "api_error \<Rightarrow> nat" where
  "api_error_status (EBadRequest _) = 400"
| "api_error_status (EUnauthorized _) = 401"
| "api_error_status (EForbidden _) = 403"
| "api_error_status (ENotFound _) = 404"
| "api_error_status (ENotImplemented _) = 501"
| "api_error_status (EConflict _) = 409"
| "api_error_status (EUpstream _) = 502"
| "api_error_status _ = 500"

section \<open>Responses\<close>

record 'a success_response =
  sr_code :: int
  sr_message :: string
  sr_data :: 'a
  sr_success :: bool
  sr_timestamp :: int

definition success_response_of :: "int \<Rightarrow> 'a \<Rightarrow> 'a success_response" where
  "success_response_of now data =
     \<lparr>sr_code = 200, sr_message = ''success'', sr_data = data, sr_success = True, sr_timestamp = now\<rparr>"

record error_response =
  er_code :: int
  er_message :: string
  er_success :: bool
  er_timestamp :: int

definition error_response_new :: "int \<Rightarrow> int \<Rightarrow> string \<Rightarrow> error_response" where
  "error_response_new now code message = \<lparr>er_code = code, er_message = message, er_success = False, er_timestamp = now\<rparr>"

section \<open>Computations\<close>

text \<open>
  A handler runs until its next access to the stores, which other handlers share; \<open>Step u k\<close> is one
  access: the stores become \<open>u w\<close>, and what the handler does next depends on the \<open>w\<close> it saw. An
  error ends the computation and leaves what was done before.
\<close>

datatype ('w, 'a) act = Ret "api_error + 'a" | Step "'w \<Rightarrow> 'w" "'w \<Rightarrow> ('w, 'a) act"

abbreviation act_ok :: "'a \<Rightarrow> ('w, 'a) act" where
  "act_ok x \<equiv> Ret (Inr x)"

abbreviation act_err :: "api_error \<Rightarrow> ('w, 'a) act" where
  "act_err e \<equiv> Ret (Inl e)"

text \<open>\<open>f(\<dots>).await?\<close> followed by the rest of the body; and the result of a call as a value.\<close>

primrec act_then :: "('w, 'a) act \<Rightarrow> ('a \<Rightarrow> ('w, 'b) act) \<Rightarrow> ('w, 'b) act" where
  "act_then (Ret r) f = (case r of Inl e \<Rightarrow> act_err e | Inr x \<Rightarrow> f x)"
| "act_then (Step u k) f = Step u (\<lambda>w. act_then (k w) f)"

primrec act_try :: "('w, 'a) act \<Rightarrow> ('w, api_error + 'a) act" where
  "act_try (Ret r) = act_ok r"
| "act_try (Step u k) = Step u (\<lambda>w. act_try (k w))"

definition act_check :: "bool \<Rightarrow> api_error \<Rightarrow> ('w, unit) act" where
  "act_check b e = (if b then act_ok () else act_err e)"

definition act_get :: "('w \<Rightarrow> 'a) \<Rightarrow> ('w, 'a) act" where
  "act_get f = Step (\<lambda>w. w) (\<lambda>w. act_ok (f w))"

text \<open>A loop over a list whose body may stop with an error.\<close>

fun act_each :: "('a \<Rightarrow> ('w, 'b) act) \<Rightarrow> 'a list \<Rightarrow> ('w, 'b list) act" where
  "act_each f [] = act_ok []"
| "act_each f (x # xs) = act_then (f x) (\<lambda>y. act_then (act_each f xs) (\<lambda>ys. act_ok (y # ys)))"

text \<open>A handler that nothing interrupts.\<close>

primrec run :: "('w, 'a) act \<Rightarrow> 'w \<Rightarrow> (api_error + 'a) \<times> 'w" where
  "run (Ret r) = (\<lambda>w. (r, w))"
| "run (Step u k) = (\<lambda>w. run (k w) (u w))"

named_theorems run_simps

lemma run_then [run_simps]:
  "run (act_then m f) w = (case run m w of (Inl e, w) \<Rightarrow> (Inl e, w) | (Inr x, w) \<Rightarrow> run (f x) w)"
  by (induction m arbitrary: w) (simp_all split: sum.split)

lemma run_try [run_simps]: "run (act_try m) w = (case run m w of (r, w) \<Rightarrow> (Inr r, w))"
  by (induction m arbitrary: w) simp_all

lemma run_check [run_simps]: "run (act_check b e) w = (if b then Inr () else Inl e, w)"
  by (simp add: act_check_def)

lemma run_get [run_simps]: "run (act_get f) w = (Inr (f w), w)"
  by (simp add: act_get_def)

lemma act_then_assoc: "act_then (act_then m f) g = act_then m (\<lambda>x. act_then (f x) g)"
  by (induction m) (simp_all add: fun_eq_iff split: sum.split)

section \<open>Handlers side by side\<close>

text \<open>
  Handlers run as tasks over the same stores; one step performs the next access of one of them, or a
  change \<open>env\<close> by somebody else, such as the passing of time.
\<close>

inductive sys_step ::
  "('w \<Rightarrow> 'w \<Rightarrow> bool) \<Rightarrow> ('w, 'a) act list \<times> 'w \<Rightarrow> ('w, 'a) act list \<times> 'w \<Rightarrow> bool"
  for env
where
  task: "i < length ts \<Longrightarrow> ts ! i = Step u k \<Longrightarrow> sys_step env (ts, w) (ts[i := k w], u w)"
| environment: "env w w' \<Longrightarrow> sys_step env (ts, w) (ts, w')"

inductive_cases sys_stepE: "sys_step env (ts, w) s"

definition sys_runs :: "('w \<Rightarrow> 'w \<Rightarrow> bool) \<Rightarrow> ('w, 'a) act list \<times> 'w \<Rightarrow> ('w, 'a) act list \<times> 'w \<Rightarrow> bool" where
  "sys_runs env = (sys_step env)\<^sup>*\<^sup>*"

text \<open>A schedule names the tasks that move, in their order.\<close>

fun schedule :: "nat list \<Rightarrow> ('w, 'a) act list \<times> 'w \<Rightarrow> ('w, 'a) act list \<times> 'w" where
  "schedule [] s = s"
| "schedule (i # is) (ts, w) =
     (if i < length ts then
        (case ts ! i of Step u k \<Rightarrow> schedule is (ts[i := k w], u w) | Ret r \<Rightarrow> schedule is (ts, w))
      else schedule is (ts, w))"

lemma schedule_runs: "sys_runs env s (schedule is s)"
proof (induction "is" s rule: schedule.induct)
  case (1 s)
  show ?case by (simp add: sys_runs_def)
next
  case (2 i "is" ts w)
  show ?case
  proof (cases "i < length ts")
    case True
    show ?thesis
    proof (cases "ts ! i")
      case (Ret r)
      with 2(1)[OF True Ret] True show ?thesis by simp
    next
      case (Step u k)
      have "sys_step env (ts, w) (ts[i := k w], u w)" using True Step by (rule sys_step.task)
      with 2(2)[OF True Step] True Step show ?thesis unfolding sys_runs_def by (simp add: converse_rtranclp_into_rtranclp)
    qed
  next
    case False
    with 2(3) show ?thesis by simp
  qed
qed

lemma schedule_append: "schedule (is @ js) s = schedule js (schedule is s)"
proof (induction "is" s rule: schedule.induct)
  case (2 i "is" ts w)
  then show ?case by (cases "i < length ts"; cases "ts ! i") simp_all
qed simp

text \<open>One task can run to its end before the others move on.\<close>

lemma schedule_alone:
  "i < length ts \<Longrightarrow> ts ! i = m \<Longrightarrow>
   \<exists>n. schedule (replicate n i) (ts, w) = (ts[i := Ret (fst (run m w))], snd (run m w))"
proof (induction m arbitrary: ts w)
  case (Ret r)
  then have "ts[i := Ret r] = ts" by (metis list_update_id)
  then have "schedule (replicate 0 i) (ts, w) = (ts[i := Ret (fst (run (Ret r) w))], snd (run (Ret r) w))" by simp
  then show ?case by blast
next
  case (Step u k)
  let ?ts = "ts[i := k w]"
  have "i < length ?ts" "?ts ! i = k w" using Step.prems by simp_all
  then obtain n where "schedule (replicate n i) (?ts, u w) = (?ts[i := Ret (fst (run (k w) (u w)))], snd (run (k w) (u w)))"
    using Step.IH[OF rangeI] by blast
  then have "schedule (replicate (Suc n) i) (ts, w) =
      (ts[i := Ret (fst (run (Step u k) w))], snd (run (Step u k) w))" using Step.prems by simp
  then show ?case by blast
qed

lemma one_after_the_other:
  "sys_runs env ([a, b], w) ([Ret (fst (run a w)), Ret (fst (run b (snd (run a w))))], snd (run b (snd (run a w))))"
proof -
  obtain n1 where n1: "schedule (replicate n1 0) ([a, b], w) = ([Ret (fst (run a w)), b], snd (run a w))"
    using schedule_alone[of 0 "[a, b]" a w] by auto
  obtain n2 where n2: "schedule (replicate n2 1) ([Ret (fst (run a w)), b], snd (run a w)) =
      ([Ret (fst (run a w)), Ret (fst (run b (snd (run a w))))], snd (run b (snd (run a w))))"
    using schedule_alone[of 1 "[Ret (fst (run a w)), b]" b "snd (run a w)"] by auto
  show ?thesis
    using schedule_runs[of env "([a, b], w)" "replicate n1 0 @ replicate n2 1"] unfolding schedule_append n1 n2 .
qed

text \<open>Three tasks of which the first waits while the others run to their ends.\<close>

lemma waiting_first:
  assumes "\<And>rest. schedule pre (a # rest, w) = (a' # rest, w)"
    and "run b w = (rb, w1)" "run c w1 = (rc, w2)" "run a' w2 = (ra, w3)"
  shows "\<exists>is. schedule is ([a, b, c], w) = ([Ret ra, Ret rb, Ret rc], w3)"
proof -
  obtain n1 where n1: "schedule (replicate n1 1) ([a', b, c], w) = ([a', Ret rb, c], w1)"
    using schedule_alone[of 1 "[a', b, c]" b w] assms(2) by auto
  obtain n2 where n2: "schedule (replicate n2 2) ([a', Ret rb, c], w1) = ([a', Ret rb, Ret rc], w2)"
    using schedule_alone[of 2 "[a', Ret rb, c]" c w1] assms(3) by auto
  obtain n3 where n3: "schedule (replicate n3 0) ([a', Ret rb, Ret rc], w2) = ([Ret ra, Ret rb, Ret rc], w3)"
    using schedule_alone[of 0 "[a', Ret rb, Ret rc]" a' w2] assms(4) by auto
  have "schedule (pre @ replicate n1 1 @ replicate n2 2 @ replicate n3 0) ([a, b, c], w) = ([Ret ra, Ret rb, Ret rc], w3)"
    unfolding schedule_append assms(1) n1 n2 n3 ..
  then show ?thesis by blast
qed

section \<open>Guarantees\<close>

text \<open>
  Whenever \<open>P\<close> holds at an access, the access changes the stores as \<open>G\<close> allows; a result satisfies
  \<open>Q\<close>. Nothing is assumed of the stores between two accesses but \<open>P\<close>.
\<close>

primrec ensures :: "('w \<Rightarrow> bool) \<Rightarrow> ('w \<Rightarrow> 'w \<Rightarrow> bool) \<Rightarrow> ('w, 'a) act \<Rightarrow> (api_error + 'a \<Rightarrow> bool) \<Rightarrow> bool" where
  "ensures P G (Ret r) = (\<lambda>Q. Q r)"
| "ensures P G (Step u k) = (\<lambda>Q. \<forall>w. P w \<longrightarrow> G w (u w) \<and> ensures P G (k w) Q)"

abbreviation guarantees :: "('w \<Rightarrow> bool) \<Rightarrow> ('w \<Rightarrow> 'w \<Rightarrow> bool) \<Rightarrow> ('w, 'a) act \<Rightarrow> bool" where
  "guarantees P G m \<equiv> ensures P G m (\<lambda>_. True)"

named_theorems ensures_intros

lemma ensures_weaken: "ensures P G m Q \<Longrightarrow> (\<And>r. Q r \<Longrightarrow> Q' r) \<Longrightarrow> ensures P G m Q'"
  by (induction m) auto

lemma ensures_mono:
  "ensures P G m Q \<Longrightarrow> (\<And>w. P' w \<Longrightarrow> P w) \<Longrightarrow> (\<And>w w'. P' w \<Longrightarrow> G w w' \<Longrightarrow> G' w w') \<Longrightarrow> ensures P' G' m Q"
  by (induction m) auto

lemma ensures_then:
  assumes "ensures P G m Q" "\<And>x. Q (Inr x) \<Longrightarrow> ensures P G (f x) R" "\<And>e. Q (Inl e) \<Longrightarrow> R (Inl e)"
  shows "ensures P G (act_then m f) R"
  using assms(1) by (induction m) (auto split: sum.split intro: assms(2,3))

lemma guarantees_then [ensures_intros]:
  "guarantees P G m \<Longrightarrow> (\<And>x. guarantees P G (f x)) \<Longrightarrow> guarantees P G (act_then m f)"
  by (rule ensures_then) auto

lemma guarantees_try [ensures_intros]: "guarantees P G m \<Longrightarrow> guarantees P G (act_try m)"
  by (induction m) auto

lemma guarantees_each [ensures_intros]: "(\<And>x. guarantees P G (f x)) \<Longrightarrow> guarantees P G (act_each f xs)"
proof (induction xs)
  case Nil
  show ?case by simp
next
  case (Cons x xs)
  show ?case unfolding act_each.simps by (intro guarantees_then Cons.IH Cons.prems) simp
qed

lemma guarantees_ret [ensures_intros]: "guarantees P G (Ret r)"
  by simp

lemma guarantees_check [ensures_intros]: "guarantees P G (act_check b e)"
  by (simp add: act_check_def)

lemma guarantees_option [ensures_intros]:
  "guarantees P G n \<Longrightarrow> (\<And>x. guarantees P G (s x)) \<Longrightarrow> guarantees P G (case m of None \<Rightarrow> n | Some x \<Rightarrow> s x)"
  by (cases m) auto

lemma guarantees_sum [ensures_intros]:
  "(\<And>x. guarantees P G (l x)) \<Longrightarrow> (\<And>x. guarantees P G (s x)) \<Longrightarrow> guarantees P G (case r of Inl x \<Rightarrow> l x | Inr x \<Rightarrow> s x)"
  by (cases r) auto

lemma guarantees_prod [ensures_intros]:
  "(\<And>x y. guarantees P G (f x y)) \<Longrightarrow> guarantees P G (case p of (x, y) \<Rightarrow> f x y)"
  by (cases p) auto

lemma guarantees_if [ensures_intros]:
  "guarantees P G a \<Longrightarrow> guarantees P G b \<Longrightarrow> guarantees P G (if c then a else b)"
  by simp

text \<open>The laws under which the tasks may be looked at one by one.\<close>

locale shared_stores =
  fixes P :: "'w \<Rightarrow> bool" and G :: "'w \<Rightarrow> 'w \<Rightarrow> bool" and env :: "'w \<Rightarrow> 'w \<Rightarrow> bool"
  assumes stays: "P w \<Longrightarrow> G w w"
    and chains: "P a \<Longrightarrow> G a b \<Longrightarrow> G b c \<Longrightarrow> G a c"
    and kept: "P w \<Longrightarrow> G w w' \<Longrightarrow> P w'"
    and allowed: "P w \<Longrightarrow> env w w' \<Longrightarrow> G w w'"
begin

lemma guarantees_get [ensures_intros]: "guarantees P G (act_get f)"
  by (simp add: act_get_def stays)

lemma step_guarantee:
  assumes "sys_step env (ts, w) (ts', w')" "P w" "\<forall>t \<in> set ts. ensures P G t Q"
  shows "G w w' \<and> (\<forall>t \<in> set ts'. ensures P G t Q)"
  using assms(1)
proof (cases rule: sys_step.cases)
  case (task i u k)
  then have "ensures P G (Step u k) Q" using assms(3) by (metis nth_mem)
  then have "G w (u w)" "ensures P G (k w) Q" using assms(2) by simp_all
  then show ?thesis using task assms(3) set_update_subset_insert[of ts i "k w"] by auto
next
  case environment
  then show ?thesis using allowed assms by simp
qed

lemma runs_guarantee:
  assumes "sys_runs env (ts, w) (ts', w')" "P w" "\<forall>t \<in> set ts. ensures P G t Q"
  shows "P w' \<and> G w w' \<and> (\<forall>t \<in> set ts'. ensures P G t Q)"
  using assms(1) unfolding sys_runs_def
proof (induction "(ts', w')" arbitrary: ts' w' rule: rtranclp_induct)
  case base
  then show ?case using assms(2,3) stays by auto
next
  case (step s)
  obtain ts1 w1 where s: "s = (ts1, w1)" by (cases s)
  from step(3)[OF s] have "P w1" "G w w1" "\<forall>t \<in> set ts1. ensures P G t Q" by auto
  moreover from step_guarantee[OF step(2)[unfolded s] this(1,3)] have "G w1 w'" "\<forall>t \<in> set ts'. ensures P G t Q"
    by simp_all
  ultimately show ?case using chains[OF assms(2)] kept by blast
qed

text \<open>What a task returns satisfies its condition.\<close>

lemma result_guarantee:
  assumes "sys_runs env (ts, w) (ts', w')" "P w" "\<forall>t \<in> set ts. ensures P G t Q" "Ret r \<in> set ts'"
  shows "Q r"
  using runs_guarantee[OF assms(1-3)] assms(4) by (metis ensures.simps(1))

lemma run_guarantee: "P w \<Longrightarrow> ensures P G m Q \<Longrightarrow> P (snd (run m w)) \<and> G w (snd (run m w)) \<and> Q (fst (run m w))"
proof (induction m arbitrary: w)
  case (Ret r)
  then show ?case by (simp add: stays)
next
  case (Step u k)
  then have g: "G w (u w)" and e: "ensures P G (k w) Q" by simp_all
  have "P (u w)" using kept[OF Step.prems(1) g] .
  from Step.IH[OF rangeI this e] chains[OF Step.prems(1) g] show ?case by auto
qed

end

section \<open>Integers of 64 bits\<close>

definition wrap_i64 :: "int \<Rightarrow> int" where
  "wrap_i64 i = (i + 2 ^ 63) mod 2 ^ 64 - 2 ^ 63"

lemma wrap_i64_id: "- (2 ^ 63) \<le> i \<Longrightarrow> i < 2 ^ 63 \<Longrightarrow> wrap_i64 i = i"
  by (simp add: wrap_i64_def)

text \<open>Division rounds towards zero.\<close>

definition trunc_div :: "int \<Rightarrow> int \<Rightarrow> int" where
  "trunc_div a b = (if a < 0 then - ((- a) div b) else a div b)"

end
