(* ===== verification/Common_Text.thy ===== *)
theory Common_Text
  imports Prelude
begin

text \<open>
  Strings as the servers use them (UTF-8 text as its bytes): trimming, ASCII case, prefixes and
  splitting; the enumerations of \<open>im-common/src/event.rs\<close> with their texts and database codes; the
  cache keys and conversation identifiers of \<open>im-common/src/keys.rs\<close>.
\<close>

section \<open>Trimming and case\<close>

text \<open>The UTF-8 encodings of the characters with the property White_Space.\<close>

definition white_spaces :: "string list" where
  "white_spaces =
     [[CHR 0x09], [CHR 0x0A], [CHR 0x0B], [CHR 0x0C], [CHR 0x0D], [CHR 0x20], [CHR 0xC2, CHR 0x85], 
      [CHR 0xC2, CHR 0xA0], [CHR 0xE1, CHR 0x9A, CHR 0x80], [CHR 0xE2, CHR 0x80, CHR 0x80], 
      [CHR 0xE2, CHR 0x80, CHR 0x81], [CHR 0xE2, CHR 0x80, CHR 0x82], [CHR 0xE2, CHR 0x80, CHR 0x83], 
      [CHR 0xE2, CHR 0x80, CHR 0x84], [CHR 0xE2, CHR 0x80, CHR 0x85], [CHR 0xE2, CHR 0x80, CHR 0x86], 
      [CHR 0xE2, CHR 0x80, CHR 0x87], [CHR 0xE2, CHR 0x80, CHR 0x88], [CHR 0xE2, CHR 0x80, CHR 0x89], 
      [CHR 0xE2, CHR 0x80, CHR 0x8A], [CHR 0xE2, CHR 0x80, CHR 0xA8], [CHR 0xE2, CHR 0x80, CHR 0xA9], 
      [CHR 0xE2, CHR 0x80, CHR 0xAF], [CHR 0xE2, CHR 0x81, CHR 0x9F], [CHR 0xE3, CHR 0x80, CHR 0x80]]"

fun starts_with :: "string \<Rightarrow> string \<Rightarrow> bool" where
  "starts_with [] s \<longleftrightarrow> True"
| "starts_with (p # ps) [] \<longleftrightarrow> False"
| "starts_with (p # ps) (c # s) \<longleftrightarrow> p = c \<and> starts_with ps s"

lemma starts_with_iff: "starts_with p s \<longleftrightarrow> (\<exists>r. s = p @ r)"
  by (induction p s rule: starts_with.induct) auto

text \<open>Removes leading members of a list of strings, none of which is empty.\<close>

function trim_front :: "string list \<Rightarrow> string \<Rightarrow> string" where
  "trim_front ws s =
     (case find (\<lambda>w. w \<noteq> [] \<and> starts_with w s) ws of
        Some w \<Rightarrow> trim_front ws (drop (length w) s)
      | None \<Rightarrow> s)"
  by pat_completeness auto
termination
  by (relation "measure (\<lambda>(ws, s). length s)")
    (auto simp: find_Some_iff starts_with_iff)

declare trim_front.simps [simp del]

definition trim_start :: "string \<Rightarrow> string" where
  "trim_start s = trim_front white_spaces s"

definition trim_end :: "string \<Rightarrow> string" where
  "trim_end s = rev (trim_front (map rev white_spaces) (rev s))"

definition trim :: "string \<Rightarrow> string" where
  "trim s = trim_end (trim_start s)"

definition is_ascii_lower :: "char \<Rightarrow> bool" where
  "is_ascii_lower c \<longleftrightarrow> (of_char c :: nat) \<in> {97..122}"

definition is_ascii_upper :: "char \<Rightarrow> bool" where
  "is_ascii_upper c \<longleftrightarrow> (of_char c :: nat) \<in> {65..90}"

definition ascii_upper :: "char \<Rightarrow> char" where
  "ascii_upper c = (if is_ascii_lower c then char_of ((of_char c :: nat) - 32) else c)"

definition ascii_lower :: "char \<Rightarrow> char" where
  "ascii_lower c = (if is_ascii_upper c then char_of ((of_char c :: nat) + 32) else c)"

definition to_ascii_uppercase :: "string \<Rightarrow> string" where
  "to_ascii_uppercase s = map ascii_upper s"

definition to_ascii_lowercase :: "string \<Rightarrow> string" where
  "to_ascii_lowercase s = map ascii_lower s"

definition eq_ignore_ascii_case :: "string \<Rightarrow> string \<Rightarrow> bool" where
  "eq_ignore_ascii_case s t \<longleftrightarrow> to_ascii_lowercase s = to_ascii_lowercase t"

definition strip_prefix :: "string \<Rightarrow> string \<Rightarrow> string option" where
  "strip_prefix p s = (if starts_with p s then Some (drop (length p) s) else None)"

definition strip_suffix :: "string \<Rightarrow> string \<Rightarrow> string option" where
  "strip_suffix p s = map_option rev (strip_prefix (rev p) (rev s))"

text \<open>\<open>split\<close> on a character; there is always a first piece.\<close>

fun split_on :: "char \<Rightarrow> string \<Rightarrow> string list" where
  "split_on x [] = [[]]"
| "split_on x (c # s) =
     (if c = x then [] # split_on x s
      else case split_on x s of [] \<Rightarrow> [[c]] | p # ps \<Rightarrow> (c # p) # ps)"

text \<open>Facts about trimming.\<close>

lemma trim_front_none: "(\<And>w. w \<in> set ws \<Longrightarrow> w \<noteq> [] \<Longrightarrow> \<not> starts_with w s) \<Longrightarrow> trim_front ws s = s"
proof -
  assume none: "\<And>w. w \<in> set ws \<Longrightarrow> w \<noteq> [] \<Longrightarrow> \<not> starts_with w s"
  then have "find (\<lambda>w. w \<noteq> [] \<and> starts_with w s) ws = None" by (auto simp: find_None_iff)
  then show ?thesis by (subst trim_front.simps) simp
qed

lemma trim_front_result: "w \<in> set ws \<Longrightarrow> w \<noteq> [] \<Longrightarrow> \<not> starts_with w (trim_front ws s)"
proof (induction ws s rule: trim_front.induct)
  case (1 ws s)
  show ?case
  proof (cases "find (\<lambda>w. w \<noteq> [] \<and> starts_with w s) ws")
    case None
    then have "trim_front ws s = s" by (subst trim_front.simps) simp
    with None 1(2,3) show ?thesis by (auto simp: find_None_iff)
  next
    case (Some v)
    then have "trim_front ws s = trim_front ws (drop (length v) s)" by (subst trim_front.simps) simp
    with 1 Some show ?thesis by simp
  qed
qed

lemma trim_front_idem [simp]: "trim_front ws (trim_front ws s) = trim_front ws s"
  by (rule trim_front_none) (rule trim_front_result)

lemma trim_front_suffix: "\<exists>p. s = p @ trim_front ws s"
proof (induction ws s rule: trim_front.induct)
  case (1 ws s)
  show ?case
  proof (cases "find (\<lambda>w. w \<noteq> [] \<and> starts_with w s) ws")
    case None
    then have "trim_front ws s = s" by (subst trim_front.simps) simp
    then show ?thesis by simp
  next
    case (Some v)
    then have eq: "trim_front ws s = trim_front ws (drop (length v) s)" by (subst trim_front.simps) simp
    from 1[OF Some] obtain p where "drop (length v) s = p @ trim_front ws (drop (length v) s)" by blast
    then have "s = (take (length v) s @ p) @ trim_front ws s"
      unfolding eq by (metis append.assoc append_take_drop_id)
    then show ?thesis by blast
  qed
qed

lemma white_spaces_nonempty: "w \<in> set white_spaces \<Longrightarrow> w \<noteq> []"
  by (auto simp: white_spaces_def)

text \<open>What ends neither way in white space is left alone.\<close>

definition trimmed :: "string \<Rightarrow> bool" where
  "trimmed s \<longleftrightarrow> (\<forall>w \<in> set white_spaces. \<not> starts_with w s \<and> \<not> starts_with (rev w) (rev s))"

lemma trim_trimmed: "trimmed s \<Longrightarrow> trim s = s"
proof -
  assume t: "trimmed s"
  then have "trim_start s = s" unfolding trim_start_def trimmed_def by (intro trim_front_none) blast
  moreover have "trim_front (map rev white_spaces) (rev s) = rev s"
    using t unfolding trimmed_def by (intro trim_front_none) auto
  ultimately show ?thesis by (simp add: trim_def trim_end_def)
qed

lemma trim_Nil [simp]: "trim [] = []"
proof -
  have "\<not> starts_with w []" if "w \<noteq> []" for w using that by (cases w) simp_all
  then show ?thesis by (intro trim_trimmed) (auto simp: trimmed_def dest: white_spaces_nonempty)
qed

lemma trim_idem [simp]: "trim (trim s) = trim s"
proof -
  let ?x = "trim_start s"
  obtain p where p: "rev ?x = p @ trim_front (map rev white_spaces) (rev ?x)" using trim_front_suffix by blast
  have "?x = trim_end ?x @ rev p" unfolding trim_end_def using arg_cong[OF p, of rev] by simp
  then have "\<not> starts_with w (trim_end ?x)" if "w \<in> set white_spaces" for w
    using trim_front_result[OF that white_spaces_nonempty[OF that], of s] unfolding trim_start_def[symmetric]
    by (metis append.assoc starts_with_iff)
  then have "trim_start (trim_end ?x) = trim_end ?x" unfolding trim_start_def[of "trim_end ?x"]
    by (intro trim_front_none) blast
  then show ?thesis by (simp add: trim_def) (simp add: trim_end_def)
qed

text \<open>Visible ASCII, which decimal numbers, UUIDs and base64 for URLs consist of, is never trimmed.\<close>

definition plain :: "string \<Rightarrow> bool" where
  "plain s \<longleftrightarrow> list_all (\<lambda>c. 33 \<le> (of_char c :: nat) \<and> (of_char c :: nat) \<le> 126) s"

lemma white_space_ends:
  assumes "w \<in> set white_spaces"
  obtains c d u v where "w = c # u" "rev w = d # v"
    "\<not> (33 \<le> (of_char c :: nat) \<and> (of_char c :: nat) \<le> 126)" "\<not> (33 \<le> (of_char d :: nat) \<and> (of_char d :: nat) \<le> 126)"
proof -
  have "\<forall>w \<in> set white_spaces. \<not> (33 \<le> (of_char (hd w) :: nat) \<and> (of_char (hd w) :: nat) \<le> 126) \<and>
      \<not> (33 \<le> (of_char (last w) :: nat) \<and> (of_char (last w) :: nat) \<le> 126)"
    by (simp add: white_spaces_def)
  moreover have "w \<noteq> []" using assms by (rule white_spaces_nonempty)
  ultimately show thesis using assms that[of "hd w" "tl w" "last w" "tl (rev w)"]
    by (metis hd_Cons_tl hd_rev rev_is_Nil_conv)
qed

lemma plain_trimmed: "plain s \<Longrightarrow> trim s = s"
proof (rule trim_trimmed, unfold trimmed_def, intro ballI conjI)
  fix w assume p: "plain s" and w: "w \<in> set white_spaces"
  obtain c d u v where wcd: "w = c # u" "rev w = d # v"
    "\<not> (33 \<le> (of_char c :: nat) \<and> (of_char c :: nat) \<le> 126)" "\<not> (33 \<le> (of_char d :: nat) \<and> (of_char d :: nat) \<le> 126)"
    using white_space_ends[OF w] .
  show "\<not> starts_with w s" using p wcd by (cases s) (auto simp: plain_def)
  have "plain (rev s)" using p by (simp add: plain_def list_all_iff)
  then show "\<not> starts_with (rev w) (rev s)" using wcd by (cases "rev s") (auto simp: plain_def)
qed

lemma plain_show_int [simp]: "plain (show_int i)"
proof -
  have "33 \<le> (of_char c :: nat) \<and> (of_char c :: nat) \<le> 126" if "c \<in> insert CHR ''-'' digits" for c
    using that by (auto simp: digits_def digit_char_def take_bit_nat_eq_self)
  then show ?thesis using show_int_chars[of i] by (auto simp: plain_def list_all_iff)
qed

section \<open>Enumerations\<close>

datatype im_event_type =
    MessageCreated | MessageRead | MessageRecalled | MessageDeleted
  | FriendRequestCreated | FriendRequestAccepted
  | MomentNew | MomentLike | MomentComment

text \<open>The serialized name (\<open>rename_all = "PascalCase"\<close>).\<close>

fun event_type_name :: "im_event_type \<Rightarrow> string" where
  "event_type_name MessageCreated = ''MessageCreated''"
| "event_type_name MessageRead = ''MessageRead''"
| "event_type_name MessageRecalled = ''MessageRecalled''"
| "event_type_name MessageDeleted = ''MessageDeleted''"
| "event_type_name FriendRequestCreated = ''FriendRequestCreated''"
| "event_type_name FriendRequestAccepted = ''FriendRequestAccepted''"
| "event_type_name MomentNew = ''MomentNew''"
| "event_type_name MomentLike = ''MomentLike''"
| "event_type_name MomentComment = ''MomentComment''"

datatype message_type = MText | MImage | MFile | MVoice | MVideo | MSystem | MAiReply

definition message_type_from_text :: "string \<Rightarrow> message_type" where
  "message_type_from_text s =
     (let t = to_ascii_uppercase (trim s) in
      if t = ''IMAGE'' then MImage
      else if t = ''FILE'' then MFile
      else if t = ''VOICE'' then MVoice
      else if t = ''VIDEO'' then MVideo
      else if t = ''SYSTEM'' then MSystem
      else if t = ''AI_REPLY'' then MAiReply
      else MText)"

fun message_type_db_code :: "message_type \<Rightarrow> int" where
  "message_type_db_code MText = 1"
| "message_type_db_code MImage = 2"
| "message_type_db_code MFile = 3"
| "message_type_db_code MVoice = 4"
| "message_type_db_code MVideo = 5"
| "message_type_db_code MSystem = 7"
| "message_type_db_code MAiReply = 6"

fun message_type_str :: "message_type \<Rightarrow> string" where
  "message_type_str MText = ''TEXT''"
| "message_type_str MImage = ''IMAGE''"
| "message_type_str MFile = ''FILE''"
| "message_type_str MVoice = ''VOICE''"
| "message_type_str MVideo = ''VIDEO''"
| "message_type_str MSystem = ''SYSTEM''"
| "message_type_str MAiReply = ''AI_REPLY''"

datatype message_status = Sent | Delivered | SRead | Recalled | Deleted

definition message_status_from_text :: "string \<Rightarrow> message_status" where
  "message_status_from_text s =
     (let t = to_ascii_uppercase (trim s) in
      if t = ''DELIVERED'' then Delivered
      else if t = ''READ'' then SRead
      else if t = ''RECALLED'' then Recalled
      else if t = ''DELETED'' then Deleted
      else Sent)"

fun message_status_db_code :: "message_status \<Rightarrow> int" where
  "message_status_db_code Sent = 1"
| "message_status_db_code Delivered = 2"
| "message_status_db_code SRead = 3"
| "message_status_db_code Recalled = 4"
| "message_status_db_code Deleted = 5"

fun message_status_str :: "message_status \<Rightarrow> string" where
  "message_status_str Sent = ''SENT''"
| "message_status_str Delivered = ''DELIVERED''"
| "message_status_str SRead = ''READ''"
| "message_status_str Recalled = ''RECALLED''"
| "message_status_str Deleted = ''DELETED''"

lemma enum_texts:
  "message_type_from_text (message_type_str t) = t" "message_status_from_text (message_status_str u) = u"
proof -
  have t: "trimmed (message_type_str t)" "to_ascii_uppercase (message_type_str t) = message_type_str t"
    by (cases t; simp add: trimmed_def white_spaces_def to_ascii_uppercase_def ascii_upper_def is_ascii_lower_def)+
  have u: "trimmed (message_status_str u)" "to_ascii_uppercase (message_status_str u) = message_status_str u"
    by (cases u; simp add: trimmed_def white_spaces_def to_ascii_uppercase_def ascii_upper_def is_ascii_lower_def)+
  show "message_type_from_text (message_type_str t) = t"
    unfolding message_type_from_text_def trim_trimmed[OF t(1)] t(2) by (cases t) simp_all
  show "message_status_from_text (message_status_str u) = u"
    unfolding message_status_from_text_def trim_trimmed[OF u(1)] u(2) by (cases u) simp_all
qed

lemma enum_codes:
  "message_type_db_code t = message_type_db_code t' \<longleftrightarrow> t = t'"
  "message_status_db_code s = message_status_db_code s' \<longleftrightarrow> s = s'"
  by (cases t; cases t'; simp) (cases s; cases s'; simp)

end
