(* ===== verification/Im_Config.thy ===== *)
theory Im_Config
  imports Common_Text
begin

text \<open>
  The configuration of the im-server (\<open>im-server/src/config.rs\<close>) read from environment variables,
  with the validation of its secrets, and the parsing of integers the server uses throughout.
\<close>

section \<open>Parsing integers\<close>

definition digit_value :: "char \<Rightarrow> nat option" where
  "digit_value c = (let n = (of_char c :: nat) in if 48 \<le> n \<and> n \<le> 57 then Some (n - 48) else None)"

fun digits_value :: "nat \<Rightarrow> string \<Rightarrow> nat option" where
  "digits_value acc [] = Some acc"
| "digits_value acc (c # s) = (case digit_value c of None \<Rightarrow> None | Some d \<Rightarrow> digits_value (acc * 10 + d) s)"

definition parse_nat :: "string \<Rightarrow> nat option" where
  "parse_nat s = (if s = [] then None else digits_value 0 s)"

text \<open>\<open>str::parse\<close> for unsigned and signed integers of a width: a sign, then digits, in range.\<close>

definition parse_unsigned :: "nat \<Rightarrow> string \<Rightarrow> nat option" where
  "parse_unsigned bits s =
     (let t = (case s of c # r \<Rightarrow> if c = CHR ''+'' then r else s | [] \<Rightarrow> s) in
      case parse_nat t of None \<Rightarrow> None | Some n \<Rightarrow> if n < 2 ^ bits then Some n else None)"

definition parse_i64 :: "string \<Rightarrow> int option" where
  "parse_i64 s =
     (case s of
        [] \<Rightarrow> None
      | c # r \<Rightarrow>
          if c = CHR ''-'' then
            (case parse_nat r of None \<Rightarrow> None | Some n \<Rightarrow> if n \<le> 2 ^ 63 then Some (- int n) else None)
          else
            (case parse_nat (if c = CHR ''+'' then r else s) of
               None \<Rightarrow> None
             | Some n \<Rightarrow> if n < 2 ^ 63 then Some (int n) else None))"

lemma digit_value_char [simp]: "d < 10 \<Longrightarrow> digit_value (digit_char d) = Some d"
  by (simp add: digit_value_def digit_char_def take_bit_nat_eq_self Let_def)

lemma digits_value_append:
  "digits_value acc (s @ t) = (case digits_value acc s of None \<Rightarrow> None | Some a \<Rightarrow> digits_value a t)"
  by (induction s arbitrary: acc) (auto split: option.split)

lemma digits_value_show: "digits_value 0 (show_nat n) = Some n"
proof (induction n rule: show_nat.induct)
  case (1 n)
  show ?case
  proof (cases "n < 10")
    case True
    then show ?thesis by (subst show_nat.simps) simp
  next
    case False
    with 1 show ?thesis by (subst show_nat.simps) (simp add: digits_value_append)
  qed
qed

lemma parse_nat_show [simp]: "parse_nat (show_nat n) = Some n"
  by (simp add: parse_nat_def digits_value_show)

lemma show_nat_hd: "show_nat n = c # r \<Longrightarrow> c \<in> digits"
  using show_nat_digits[of n] by auto

lemma sign_not_digit: "CHR ''-'' \<notin> digits" "CHR ''+'' \<notin> digits"
proof -
  have "c \<in> digits \<Longrightarrow> (of_char c :: nat) \<in> {48..57}" for c
    by (auto simp: digits_def digit_char_def take_bit_nat_eq_self)
  from this[of "CHR ''-''"] this[of "CHR ''+''"] show "CHR ''-'' \<notin> digits" "CHR ''+'' \<notin> digits" by auto
qed

text \<open>What is printed parses back.\<close>

lemma parse_i64_show: "- (2 ^ 63) \<le> i \<Longrightarrow> i < 2 ^ 63 \<Longrightarrow> parse_i64 (show_int i) = Some i"
proof (cases "i < 0")
  case True
  assume "- (2 ^ 63) \<le> i"
  then have "nat (- i) \<le> 2 ^ 63" by simp
  with True show ?thesis by (simp add: parse_i64_def show_int_def)
next
  case False
  assume "i < 2 ^ 63"
  then have small: "nat i < 2 ^ 63" using False by simp
  obtain c r where cr: "show_nat (nat i) = c # r" using show_nat_nonempty[of "nat i"] by (cases "show_nat (nat i)") auto
  then have "c \<noteq> CHR ''-''" "c \<noteq> CHR ''+''" using show_nat_hd[OF cr] sign_not_digit by auto
  with cr small False parse_nat_show[of "nat i"] show ?thesis by (simp add: parse_i64_def show_int_def)
qed

section \<open>The configuration\<close>

definition default_redis_url :: string where
  "default_redis_url = ''redis://127.0.0.1:6379/0''"
definition default_internal_secret :: string where
  "default_internal_secret = ''im-internal-secret-im-internal-secret-im-internal-secret-im''"
definition default_gateway_auth_secret :: string where
  "default_gateway_auth_secret = ''im-gateway-auth-secret-im-gateway-auth-secret-im-gateway-auth-secret''"

record app_config =
  cfg_port :: nat
  cfg_route_redis_url :: string
  cfg_auth_service_url :: string
  cfg_internal_secret :: string
  cfg_internal_max_skew_ms :: int
  cfg_gateway_user_id_header :: string
  cfg_gateway_username_header :: string
  cfg_gateway_auth_secret :: string
  cfg_gateway_auth_max_skew_ms :: int
  cfg_instance_id :: string
  cfg_internal_http_url :: string
  cfg_internal_ws_url :: string
  cfg_server_registry_key_prefix :: string
  cfg_server_lease_ttl_seconds :: nat
  cfg_server_renew_interval_ms :: nat
  cfg_route_users_key :: string
  cfg_route_lease_ttl_ms :: int
  cfg_route_renew_interval_ms :: nat
  cfg_session_heartbeat_timeout_ms :: int
  cfg_session_cleanup_interval_ms :: nat
  cfg_presence_channel :: string
  cfg_allow_query_ticket :: bool
  cfg_ws_ticket_cookie_name :: string
  cfg_ws_ticket_cookie_path :: string
  cfg_ws_ticket_cookie_same_site :: string
  cfg_ws_ticket_cookie_secure :: string
  cfg_max_payload_length :: nat
  cfg_invalid_payload_threshold :: nat
  cfg_websocket_outbound_queue_size :: nat

text \<open>The environment: the variables that are set to valid text.\<close>

type_synonym environment = "string \<Rightarrow> string option"

definition env_string :: "environment \<Rightarrow> string \<Rightarrow> string \<Rightarrow> string" where
  "env_string env key fallback =
     (case env key of Some v \<Rightarrow> if trim v \<noteq> [] then v else fallback | None \<Rightarrow> fallback)"

definition env_i64 :: "environment \<Rightarrow> string \<Rightarrow> int \<Rightarrow> int" where
  "env_i64 env key fallback =
     (case Option.bind (env key) parse_i64 of Some i \<Rightarrow> i | None \<Rightarrow> fallback)"

definition env_u64 :: "environment \<Rightarrow> string \<Rightarrow> nat \<Rightarrow> nat" where
  "env_u64 env key fallback =
     (case Option.bind (env key) (parse_unsigned 64) of Some n \<Rightarrow> n | None \<Rightarrow> fallback)"

definition env_u16 :: "environment \<Rightarrow> string \<Rightarrow> nat \<Rightarrow> nat" where
  "env_u16 env key fallback =
     (case Option.bind (env key) (parse_unsigned 16) of Some n \<Rightarrow> n | None \<Rightarrow> fallback)"

definition env_usize :: "environment \<Rightarrow> string \<Rightarrow> nat \<Rightarrow> nat" where
  "env_usize env key fallback =
     (case Option.bind (env key) (parse_unsigned 64) of Some n \<Rightarrow> n | None \<Rightarrow> fallback)"

definition env_bool :: "environment \<Rightarrow> string \<Rightarrow> bool \<Rightarrow> bool" where
  "env_bool env key fallback =
     (case env key of
        Some v \<Rightarrow> to_ascii_lowercase (trim v) \<in> {''1'', ''true'', ''yes'', ''on''}
      | None \<Rightarrow> fallback)"

definition host_name :: "environment \<Rightarrow> string" where
  "host_name env =
     (case env ''HOSTNAME'' of Some h \<Rightarrow> h
      | None \<Rightarrow> (case env ''COMPUTERNAME'' of Some h \<Rightarrow> h | None \<Rightarrow> ''im-server-rs''))"

definition default_instance_id :: "environment \<Rightarrow> nat \<Rightarrow> string" where
  "default_instance_id env port = trim (host_name env) @ '':'' @ show_nat port"

definition default_internal_url :: "environment \<Rightarrow> string \<Rightarrow> nat \<Rightarrow> string" where
  "default_internal_url env scheme port = scheme @ ''://'' @ trim (host_name env) @ '':'' @ show_nat port"

definition is_local_env_value :: "string option \<Rightarrow> bool" where
  "is_local_env_value v \<longleftrightarrow>
     to_ascii_lowercase (trim (case v of Some s \<Rightarrow> s | None \<Rightarrow> [])) \<in>
       {[], ''local'', ''dev'', ''development'', ''test''}"

definition is_local_dev_or_test :: "environment \<Rightarrow> bool" where
  "is_local_dev_or_test env =
     is_local_env_value (case env ''APP_ENV'' of Some v \<Rightarrow> Some v | None \<Rightarrow> env ''IM_ENV'')"

definition validate_secret :: "string \<Rightarrow> string \<Rightarrow> string \<Rightarrow> nat \<Rightarrow> string list \<Rightarrow> string list" where
  "validate_secret name val example min_len errors =
     (if val = [] then errors @ [name @ '' must be explicitly set'']
      else if val = example then errors @ [name @ '' must not use the example default value'']
      else if length val < min_len
      then errors @ [name @ '' must be at least '' @ show_nat min_len @ '' bytes (got '' @
                     show_nat (length val) @ '' bytes)'']
      else errors)"

definition validate_production_secrets :: "app_config \<Rightarrow> string list + unit" where
  "validate_production_secrets config =
     (let errors = validate_secret ''IM_INTERNAL_SECRET'' (cfg_internal_secret config) default_internal_secret 32 [];
          errors = validate_secret ''IM_GATEWAY_AUTH_SECRET'' (cfg_gateway_auth_secret config)
                     default_gateway_auth_secret 32 errors
      in if errors = [] then Inr () else Inl errors)"

text \<open>The process exits with the errors outside local, development and test environments.\<close>

definition config_from_env :: "environment \<Rightarrow> string list + app_config" where
  "config_from_env env =
     (let port = env_u16 env ''IM_SERVER_RS_PORT'' 8083;
          redis_url = env_string env ''REDIS_URL'' default_redis_url;
          config = \<lparr>
            cfg_port = port,
            cfg_route_redis_url = env_string env ''IM_ROUTE_REDIS_URL'' redis_url,
            cfg_auth_service_url = env_string env ''IM_AUTH_SERVICE_URL'' ''http://127.0.0.1:8084'',
            cfg_internal_secret = env_string env ''IM_INTERNAL_SECRET'' default_internal_secret,
            cfg_internal_max_skew_ms = env_i64 env ''IM_INTERNAL_MAX_SKEW_MS'' 300000,
            cfg_gateway_user_id_header = env_string env ''IM_GATEWAY_USER_ID_HEADER'' ''X-User-Id'',
            cfg_gateway_username_header = env_string env ''IM_GATEWAY_USERNAME_HEADER'' ''X-Username'',
            cfg_gateway_auth_secret = env_string env ''IM_GATEWAY_AUTH_SECRET'' default_gateway_auth_secret,
            cfg_gateway_auth_max_skew_ms = env_i64 env ''IM_GATEWAY_AUTH_MAX_SKEW_MS'' 300000,
            cfg_instance_id = env_string env ''IM_INSTANCE_ID'' (default_instance_id env port),
            cfg_internal_http_url = env_string env ''IM_INTERNAL_HTTP_URL'' (default_internal_url env ''http'' port),
            cfg_internal_ws_url = env_string env ''IM_INTERNAL_WS_URL'' (default_internal_url env ''ws'' port),
            cfg_server_registry_key_prefix = env_string env ''IM_SERVER_REGISTRY_KEY_PREFIX'' ''im:server:'',
            cfg_server_lease_ttl_seconds = env_u64 env ''IM_SERVER_LEASE_TTL_SECONDS'' 15,
            cfg_server_renew_interval_ms = env_u64 env ''IM_SERVER_RENEW_INTERVAL_MS'' 3000,
            cfg_route_users_key = env_string env ''IM_ROUTE_USERS_KEY'' ''im:route:users'',
            cfg_route_lease_ttl_ms = env_i64 env ''IM_ROUTE_LEASE_TTL_MS'' 120000,
            cfg_route_renew_interval_ms = env_u64 env ''IM_ROUTE_RENEW_INTERVAL_MS'' 30000,
            cfg_session_heartbeat_timeout_ms = env_i64 env ''IM_SESSION_HEARTBEAT_TIMEOUT_MS'' 90000,
            cfg_session_cleanup_interval_ms = env_u64 env ''IM_SESSION_CLEANUP_INTERVAL_MS'' 30000,
            cfg_presence_channel = env_string env ''IM_WS_PRESENCE_CHANNEL'' ''im:presence:broadcast'',
            cfg_allow_query_ticket = env_bool env ''IM_WEBSOCKET_ALLOW_QUERY_TICKET'' False,
            cfg_ws_ticket_cookie_name = env_string env ''IM_AUTH_COOKIE_WS_TICKET_NAME'' ''IM_WS_TICKET'',
            cfg_ws_ticket_cookie_path = env_string env ''IM_AUTH_COOKIE_WS_TICKET_PATH'' ''/websocket'',
            cfg_ws_ticket_cookie_same_site = env_string env ''IM_AUTH_COOKIE_WS_TICKET_SAME_SITE'' ''Lax'',
            cfg_ws_ticket_cookie_secure = env_string env ''IM_AUTH_COOKIE_WS_TICKET_SECURE'' ''auto'',
            cfg_max_payload_length = env_usize env ''IM_WEBSOCKET_MAX_PAYLOAD_LENGTH'' (8 * 1024),
            cfg_invalid_payload_threshold = env_usize env ''IM_WEBSOCKET_INVALID_PAYLOAD_THRESHOLD'' 3,
            cfg_websocket_outbound_queue_size = env_usize env ''IM_WEBSOCKET_OUTBOUND_QUEUE_SIZE'' 1024\<rparr>
      in if is_local_dev_or_test env then Inr config
         else (case validate_production_secrets config of Inl errors \<Rightarrow> Inl errors | Inr _ \<Rightarrow> Inr config))"

text \<open>In production a configuration that is returned has secrets of at least 32 bytes, none the example.\<close>

definition secret_ok :: "string \<Rightarrow> string \<Rightarrow> bool" where
  "secret_ok val example \<longleftrightarrow> 32 \<le> length val \<and> val \<noteq> example"

lemma validate_secret_empty: "validate_secret name val example 32 errors = [] \<longleftrightarrow> errors = [] \<and> secret_ok val example"
  by (auto simp: validate_secret_def secret_ok_def)

lemma validate_production_secrets_ok: "is_ok (validate_production_secrets config) \<longleftrightarrow>
    secret_ok (cfg_internal_secret config) default_internal_secret \<and>
    secret_ok (cfg_gateway_auth_secret config) default_gateway_auth_secret"
  by (simp add: validate_production_secrets_def validate_secret_empty Let_def)

lemma config_from_env_secrets:
  assumes "config_from_env env = Inr config" "\<not> is_local_dev_or_test env"
  shows "secret_ok (cfg_internal_secret config) default_internal_secret \<and>
    secret_ok (cfg_gateway_auth_secret config) default_gateway_auth_secret"
proof -
  from assms have "is_ok (validate_production_secrets config)"
    by (auto simp: config_from_env_def Let_def is_ok_iff split: sum.splits)
  then show ?thesis by (simp only: validate_production_secrets_ok)
qed

end
