(* ===== verification/Im_Security.thy ===== *)
theory Im_Security
  imports Im_Config Common_Text
begin

text \<open>
  Authentication between the servers: the token helpers of \<open>im-common/src/auth.rs\<close>, the errors of
  \<open>im-server/src/error.rs\<close>, and the signatures of \<open>im-server/src/security.rs\<close>. HMAC-SHA256, SHA-256,
  URL-safe base64 and the JWT decoder are third-party code: fields of \<open>auth_lib\<close>. The clock and the
  drawn nonces are arguments.
\<close>

text \<open>
  What the servers use of an HTTP header map: lookup without regard to ASCII case, values that are
  text only when they are visible ASCII, and the parts of a cookie header.
\<close>

section \<open>Header maps\<close>

text \<open>A header map: names without regard to ASCII case, the first value counts, only visible ASCII is text.\<close>

type_synonym header_map = "(string \<times> string) list"

definition visible_ascii :: "char \<Rightarrow> bool" where
  "visible_ascii c \<longleftrightarrow> (let n = (of_char c :: nat) in 32 \<le> n \<and> n < 127 \<or> n = 9)"

definition header_text :: "header_map \<Rightarrow> string \<Rightarrow> string option" where
  "header_text headers name =
     (case find (\<lambda>(k, v). eq_ignore_ascii_case k name) headers of
        Some (k, v) \<Rightarrow> if list_all visible_ascii v then Some v else None
      | None \<Rightarrow> None)"

text \<open>Looking a name up in a list that begins with another header, or with it.\<close>

lemma header_text_Cons:
  "header_text ((k, v) # hs) name =
     (if eq_ignore_ascii_case k name then (if list_all visible_ascii v then Some v else None) else header_text hs name)"
  by (simp add: header_text_def)

lemma plain_visible: "plain s \<Longrightarrow> list_all visible_ascii s"
  by (auto simp: plain_def visible_ascii_def list_all_iff Let_def)

section \<open>Cookies\<close>

fun split_once :: "char \<Rightarrow> string \<Rightarrow> (string \<times> string) option" where
  "split_once x [] = None"
| "split_once x (c # s) = (if c = x then Some ([], s) else map_option (\<lambda>(a, b). (c # a, b)) (split_once x s))"

definition cookie_part :: "string \<Rightarrow> string \<Rightarrow> string option" where
  "cookie_part name part =
     (case split_once CHR ''='' (trim part) of
        Some (k, v) \<Rightarrow> if trim k = name \<and> trim v \<noteq> [] then Some (trim v) else None
      | None \<Rightarrow> None)"

fun find_map :: "('a \<Rightarrow> 'b option) \<Rightarrow> 'a list \<Rightarrow> 'b option" where
  "find_map f [] = None"
| "find_map f (x # xs) = (case f x of Some y \<Rightarrow> Some y | None \<Rightarrow> find_map f xs)"

section \<open>Libraries\<close>

record claims =
  cl_user_id :: int
  cl_username :: string
  cl_typ :: string
  cl_jti :: "string option"
  cl_sub :: "string option"
  cl_iat :: "int option"
  cl_exp :: int

record auth_lib =
  al_hmac :: "bytes \<Rightarrow> bytes \<Rightarrow> bytes option"
  al_sha256 :: "bytes \<Rightarrow> bytes"
  al_b64url :: "bytes \<Rightarrow> string"
  al_jwt_hs512 :: "string \<Rightarrow> bytes \<Rightarrow> claims option"

section \<open>The common helpers\<close>

record identity =
  id_user_id :: int
  id_username :: string

definition parse_bearer :: "string option \<Rightarrow> string option" where
  "parse_bearer v =
     (case v of
        None \<Rightarrow> None
      | Some v \<Rightarrow>
          let token = trim v;
              token = (case Option.bind (strip_prefix [CHR 0x22] token) (strip_suffix [CHR 0x22]) of
                         Some unquoted \<Rightarrow> trim unquoted | None \<Rightarrow> token);
              token = (case strip_prefix ''Bearer '' token of Some rest \<Rightarrow> trim rest | None \<Rightarrow> token)
          in if token \<noteq> [] then Some token else None)"

definition validate_access_token :: "auth_lib \<Rightarrow> string \<Rightarrow> string \<Rightarrow> string + identity" where
  "validate_access_token A token secret =
     (if length secret < 64
      then Inl (''JWT secret must be at least 64 bytes (got '' @ show_nat (length secret) @ '' bytes)'')
      else
        and_then (ok_or ''invalid token'' (al_jwt_hs512 A token (ascii secret))) (\<lambda>claims.
          if cl_typ claims \<noteq> ''access'' then Inl ''token type is not access''
          else Inr \<lparr>id_user_id = cl_user_id claims, id_username = cl_username claims\<rparr>))"

definition base64_url :: "auth_lib \<Rightarrow> string \<Rightarrow> string" where
  "base64_url A v = al_b64url A (ascii v)"

definition hmac_sha256_base64_url :: "auth_lib \<Rightarrow> string \<Rightarrow> bytes \<Rightarrow> string + string" where
  "hmac_sha256_base64_url A secret payload =
     and_then (ok_or ''invalid hmac key: '' (al_hmac A (ascii secret) payload)) (\<lambda>mac. Inr (al_b64url A mac))"

definition constant_time_eq :: "string \<Rightarrow> string \<Rightarrow> bool" where
  "constant_time_eq left right \<longleftrightarrow> ascii left = ascii right"

definition validate_jwt_secret :: "string \<Rightarrow> string \<Rightarrow> string + unit" where
  "validate_jwt_secret name secret =
     (if secret = [] then Inl (name @ '' must not be empty'')
      else if length secret < 64
      then Inl (name @ '' must be at least 64 bytes (got '' @ show_nat (length secret) @ '' bytes)'')
      else Inr ())"

definition sign_gateway_headers ::
  "auth_lib \<Rightarrow> int \<Rightarrow> string \<Rightarrow> int \<Rightarrow> string \<Rightarrow> string \<Rightarrow> string + (string \<times> string) list"
where
  "sign_gateway_headers A now_ms nonce user_id username secret =
     (let user_b64 = base64_url A ''null''; perms_b64 = base64_url A ''null''; data_b64 = base64_url A ''null'';
          ts = show_int now_ms;
          canonical = ''userId='' @ show_int user_id @ ''&username='' @ username @ ''&user='' @ user_b64 @
            ''&perms='' @ perms_b64 @ ''&data='' @ data_b64 @ ''&ts='' @ ts @ ''&nonce='' @ nonce in
      and_then (hmac_sha256_base64_url A secret (ascii canonical)) (\<lambda>signature.
        Inr [(''X-User-Id'', show_int user_id), (''X-Username'', username), (''X-Auth-User'', user_b64),
             (''X-Auth-Perms'', perms_b64), (''X-Auth-Data'', data_b64), (''X-Auth-Ts'', ts),
             (''X-Auth-Nonce'', nonce), (''X-Auth-Sign'', signature)]))"

section \<open>Errors of the im-server\<close>

text \<open>The causes of the transparent variants are third-party errors and are not modelled.\<close>

datatype app_error =
    Api nat int string
  | BadRequest string
  | RedisError
  | JsonError
  | HttpError
  | OtherError

definition internal_auth_rejected :: app_error where
  "internal_auth_rejected = Api 401 40104 ''INTERNAL_AUTH_REJECTED''"

definition ticket_invalid :: app_error where
  "ticket_invalid = Api 401 40109 ''WS_TICKET_INVALID_OR_EXPIRED''"

definition query_ticket_not_allowed :: app_error where
  "query_ticket_not_allowed = Api 401 40110 ''WS_QUERY_TICKET_NOT_ALLOWED''"

text \<open>The HTTP status and the code and message of the body.\<close>

fun into_response :: "app_error \<Rightarrow> nat \<times> int \<times> string" where
  "into_response (Api status code message) = (status, code, message)"
| "into_response (BadRequest message) = (400, 400, message)"
| "into_response RedisError = (500, 500, ''SYSTEM_ERROR'')"
| "into_response JsonError = (400, 400, ''invalid json: '')"
| "into_response HttpError = (502, 502, ''UPSTREAM_ERROR'')"
| "into_response OtherError = (500, 500, ''SYSTEM_ERROR'')"

definition header_value :: "header_map \<Rightarrow> string \<Rightarrow> string option" where
  "header_value headers name = map_option trim (header_text headers name)"

section \<open>Signatures\<close>

definition sha256_base64_url :: "auth_lib \<Rightarrow> bytes \<Rightarrow> string" where
  "sha256_base64_url A v = al_b64url A (al_sha256 A v)"

definition sign_hmac :: "auth_lib \<Rightarrow> string \<Rightarrow> string \<Rightarrow> app_error + string" where
  "sign_hmac A secret canonical =
     and_then (ok_or (BadRequest ''invalid hmac key: '') (al_hmac A (ascii secret) (ascii canonical)))
       (\<lambda>mac. Inr (al_b64url A mac))"

definition normalize_path :: "string \<Rightarrow> string" where
  "normalize_path path =
     (let without_query = hd (split_on CHR ''?'' path) in
      if starts_with ''/'' without_query then without_query else CHR ''/'' # without_query)"

definition build_internal_canonical :: "string \<Rightarrow> string \<Rightarrow> string \<Rightarrow> string \<Rightarrow> string \<Rightarrow> string" where
  "build_internal_canonical verb path body_hash ts nonce =
     ''method='' @ to_ascii_uppercase (trim verb) @ ''&path='' @ normalize_path path @ ''&bodyHash='' @ body_hash @
     ''&ts='' @ ts @ ''&nonce='' @ nonce"

definition build_gateway_canonical ::
  "string \<Rightarrow> string \<Rightarrow> string \<Rightarrow> string \<Rightarrow> string \<Rightarrow> string \<Rightarrow> string \<Rightarrow> string"
where
  "build_gateway_canonical user_id username user perms data ts nonce =
     ''userId='' @ user_id @ ''&username='' @ username @ ''&user='' @ user @ ''&perms='' @ perms @
     ''&data='' @ data @ ''&ts='' @ ts @ ''&nonce='' @ nonce"

definition verify_hmac :: "auth_lib \<Rightarrow> string \<Rightarrow> string \<Rightarrow> string \<Rightarrow> app_error + bool" where
  "verify_hmac A secret canonical signature =
     and_then (sign_hmac A secret canonical) (\<lambda>expected. Inr (ascii expected = ascii signature))"

text \<open>\<open>checked_sub\<close> and \<open>checked_abs\<close> on \<open>i64\<close>.\<close>

definition i64_checked :: "int \<Rightarrow> int option" where
  "i64_checked i = (if - (2 ^ 63) \<le> i \<and> i < 2 ^ 63 then Some i else None)"

definition within_skew :: "int \<Rightarrow> int \<Rightarrow> int \<Rightarrow> bool" where
  "within_skew now_ms timestamp_ms allowed_skew_ms =
     (case Option.bind (i64_checked (now_ms - timestamp_ms)) (\<lambda>d. i64_checked \<bar>d\<bar>) of
        Some delta \<Rightarrow> delta \<le> allowed_skew_ms
      | None \<Rightarrow> False)"

definition or_rejected :: "'a option \<Rightarrow> app_error + 'a" where
  "or_rejected m = ok_or internal_auth_rejected m"

definition validate_internal_signature ::
  "auth_lib \<Rightarrow> int \<Rightarrow> header_map \<Rightarrow> string \<Rightarrow> string \<Rightarrow> bytes \<Rightarrow> app_config \<Rightarrow> app_error + unit"
where
  "validate_internal_signature A now_ms headers verb path body config =
     and_then (or_rejected (header_value headers ''X-Internal-Timestamp'')) (\<lambda>ts.
     and_then (or_rejected (header_value headers ''X-Internal-Nonce'')) (\<lambda>nonce.
     and_then (or_rejected (header_value headers ''X-Internal-Signature'')) (\<lambda>sign.
     and_then (or_rejected (parse_i64 ts)) (\<lambda>timestamp.
       if \<not> within_skew now_ms timestamp (cfg_internal_max_skew_ms config) then Inl internal_auth_rejected
       else
         let canonical = build_internal_canonical verb path (sha256_base64_url A body) ts nonce in
         and_then (verify_hmac A (cfg_internal_secret config) canonical sign) (\<lambda>ok.
           if ok then Inr () else Inl internal_auth_rejected)))))"

definition validate_gateway_ws_identity ::
  "auth_lib \<Rightarrow> int \<Rightarrow> header_map \<Rightarrow> app_config \<Rightarrow> app_error + int \<times> string"
where
  "validate_gateway_ws_identity A now_ms headers config =
     and_then (or_rejected (header_value headers (cfg_gateway_user_id_header config))) (\<lambda>user_id_raw.
     if trim user_id_raw = [] then Inl internal_auth_rejected
     else
     and_then (or_rejected (parse_i64 (trim user_id_raw))) (\<lambda>user_id.
     and_then (or_rejected (header_value headers (cfg_gateway_username_header config))) (\<lambda>username.
     if trim username = [] then Inl internal_auth_rejected
     else
     and_then (or_rejected (header_value headers ''X-Auth-User'')) (\<lambda>user_b64.
     and_then (or_rejected (header_value headers ''X-Auth-Perms'')) (\<lambda>perms_b64.
     and_then (or_rejected (header_value headers ''X-Auth-Data'')) (\<lambda>data_b64.
     and_then (or_rejected (header_value headers ''X-Auth-Ts'')) (\<lambda>ts.
     and_then (or_rejected (header_value headers ''X-Auth-Nonce'')) (\<lambda>nonce.
     and_then (or_rejected (header_value headers ''X-Auth-Sign'')) (\<lambda>sign.
     and_then (or_rejected (parse_i64 ts)) (\<lambda>timestamp.
       if \<not> within_skew now_ms timestamp (cfg_gateway_auth_max_skew_ms config) then Inl internal_auth_rejected
       else
         let canonical = build_gateway_canonical (show_int user_id) (trim username) user_b64 perms_b64 data_b64 ts nonce in
         and_then (verify_hmac A (cfg_gateway_auth_secret config) canonical sign) (\<lambda>ok.
           if ok then Inr (user_id, trim username) else Inl internal_auth_rejected)))))))))))"

definition internal_signature_headers ::
  "auth_lib \<Rightarrow> int \<Rightarrow> string \<Rightarrow> string \<Rightarrow> string \<Rightarrow> bytes \<Rightarrow> app_config \<Rightarrow> app_error + (string \<times> string) list"
where
  "internal_signature_headers A now_ms nonce verb path body config =
     (let ts = show_int now_ms;
          canonical = build_internal_canonical verb path (sha256_base64_url A body) ts nonce in
      and_then (sign_hmac A (cfg_internal_secret config) canonical) (\<lambda>sign.
        Inr [(''X-Internal-Timestamp'', ts), (''X-Internal-Nonce'', nonce), (''X-Internal-Signature'', sign)]))"

section \<open>Texts without spaces\<close>

text \<open>Base64 for URLs passes through headers unchanged.\<close>

definition b64url_text :: "auth_lib \<Rightarrow> bool" where
  "b64url_text A \<longleftrightarrow> (\<forall>b. plain (al_b64url A b))"

lemma header_value_plain: "plain v \<Longrightarrow> header_text hs name = Some v \<Longrightarrow> header_value hs name = Some v"
  by (simp add: header_value_def plain_trimmed)

lemmas ascii_case = eq_ignore_ascii_case_def to_ascii_lowercase_def ascii_lower_def is_ascii_upper_def

section \<open>What is accepted\<close>

lemma within_skew_iff:
  "within_skew now t skew \<longleftrightarrow> - (2 ^ 63) < now - t \<and> now - t < 2 ^ 63 \<and> \<bar>now - t\<bar> \<le> skew"
  by (auto simp: within_skew_def i64_checked_def split: option.splits bind_splits)

lemma verify_hmac_Inr:
  "verify_hmac A secret canonical sign = Inr ok \<longleftrightarrow>
     (\<exists>mac. al_hmac A (ascii secret) (ascii canonical) = Some mac \<and> ok = (ascii (al_b64url A mac) = ascii sign))"
  by (auto simp: verify_hmac_def sign_hmac_def and_then_Inr_iff)

lemma and_then_rejected: "and_then (or_rejected m) f = Inr y \<longleftrightarrow> (\<exists>x. m = Some x \<and> f x = Inr y)"
  by (cases m) (simp_all add: or_rejected_def)

lemma if_rejected: "(if P then Inl e else r) = Inr y \<longleftrightarrow> \<not> P \<and> r = Inr y"
  by simp

lemma and_then_verify:
  "and_then (verify_hmac A secret canonical sign) (\<lambda>ok. if ok then Inr x else Inl e) = Inr y \<longleftrightarrow>
     x = y \<and> (\<exists>mac. al_hmac A (ascii secret) (ascii canonical) = Some mac \<and> ascii (al_b64url A mac) = ascii sign)"
  by (auto simp: and_then_Inr_iff verify_hmac_Inr)

lemmas accepts = and_then_rejected if_rejected and_then_verify Let_def not_not

text \<open>Everything a signature binds: the accepted request and the headers of one that is.\<close>

lemma validate_internal_ok_iff:
  "validate_internal_signature A now_ms headers verb path body config = Inr () \<longleftrightarrow>
     (\<exists>ts nonce sign t mac.
        header_value headers ''X-Internal-Timestamp'' = Some ts \<and> header_value headers ''X-Internal-Nonce'' = Some nonce \<and>
        header_value headers ''X-Internal-Signature'' = Some sign \<and> parse_i64 ts = Some t \<and>
        within_skew now_ms t (cfg_internal_max_skew_ms config) \<and>
        al_hmac A (ascii (cfg_internal_secret config))
          (ascii (build_internal_canonical verb path (sha256_base64_url A body) ts nonce)) = Some mac \<and>
        ascii (al_b64url A mac) = ascii sign)"
  unfolding validate_internal_signature_def accepts by blast

lemma validate_gateway_okD:
  assumes "validate_gateway_ws_identity A now_ms headers config = Inr (uid, name)"
  obtains raw username user perms data ts nonce sign t mac where
    "header_value headers (cfg_gateway_user_id_header config) = Some raw" "parse_i64 (trim raw) = Some uid"
    "header_value headers (cfg_gateway_username_header config) = Some username" "name = trim username" "name \<noteq> []"
    "header_value headers ''X-Auth-User'' = Some user" "header_value headers ''X-Auth-Perms'' = Some perms"
    "header_value headers ''X-Auth-Data'' = Some data" "header_value headers ''X-Auth-Ts'' = Some ts"
    "header_value headers ''X-Auth-Nonce'' = Some nonce" "header_value headers ''X-Auth-Sign'' = Some sign"
    "parse_i64 ts = Some t" "within_skew now_ms t (cfg_gateway_auth_max_skew_ms config)"
    "al_hmac A (ascii (cfg_gateway_auth_secret config))
       (ascii (build_gateway_canonical (show_int uid) name user perms data ts nonce)) = Some mac"
    "ascii (al_b64url A mac) = ascii sign"
  using assms unfolding validate_gateway_ws_identity_def accepts prod.inject by blast

end
