(* ===== verification/Common_Keys.thy ===== *)
theory Common_Keys
  imports Common_Text
begin

text \<open>
  The conversation identifiers and cache keys of \<open>im-common/src/keys.rs\<close>, with the datatype of what
  the keys stand for, so that the absence of collisions is one statement. Identifiers are \<open>i64\<close>
  values, written as integers.
\<close>

section \<open>The functions\<close>

definition message_ttl_seconds :: nat where "message_ttl_seconds = 7 * 24 * 60 * 60"
definition event_ttl_seconds :: nat where "event_ttl_seconds = 7 * 24 * 60 * 60"
definition conversation_ttl_seconds :: nat where "conversation_ttl_seconds = 7 * 24 * 60 * 60"

definition cached_message_key :: "int \<Rightarrow> string" where
  "cached_message_key message_id = ''im:msg:'' @ show_int message_id"

definition conversation_messages_key :: "string \<Rightarrow> string" where
  "conversation_messages_key conversation_id = ''im:conv:'' @ conversation_id @ '':msgs''"

definition conversation_last_key :: "string \<Rightarrow> string" where
  "conversation_last_key conversation_id = ''im:conv:'' @ conversation_id @ '':last''"

definition user_conversations_key :: "int \<Rightarrow> string" where
  "user_conversations_key user_id = ''im:user:'' @ show_int user_id @ '':convs''"

definition user_unread_key :: "int \<Rightarrow> string" where
  "user_unread_key user_id = ''im:user:'' @ show_int user_id @ '':unread''"

definition read_cursor_key :: "int \<Rightarrow> string \<Rightarrow> string" where
  "read_cursor_key user_id conversation_id = ''im:read:'' @ show_int user_id @ '':'' @ conversation_id"

definition group_sequence_key :: "int \<Rightarrow> string" where
  "group_sequence_key group_id = ''im:conv:g_'' @ show_int group_id @ '':seq''"

definition group_read_sequence_key :: "int \<Rightarrow> int \<Rightarrow> string" where
  "group_read_sequence_key user_id group_id = ''im:readseq:'' @ show_int user_id @ '':g_'' @ show_int group_id"

definition pending_events_key :: string where
  "pending_events_key = ''im:pending:events''"

definition event_key :: "string \<Rightarrow> string" where
  "event_key event_id = ''im:event:'' @ event_id"

definition client_message_key :: "int \<Rightarrow> string \<Rightarrow> string \<Rightarrow> string" where
  "client_message_key sender_id conversation_id client_message_id =
     ''im:client:'' @ show_int sender_id @ '':'' @ conversation_id @ '':'' @ client_message_id"

definition db_watermark_key :: "string \<Rightarrow> string" where
  "db_watermark_key conversation_id = ''im:db:watermark:'' @ conversation_id"

definition private_conversation_id :: "int \<Rightarrow> int \<Rightarrow> string" where
  "private_conversation_id a b =
     (let left = min a b; right = max a b in ''p_'' @ show_int left @ ''_'' @ show_int right)"

definition group_conversation_id :: "int \<Rightarrow> string" where
  "group_conversation_id group_id = ''g_'' @ show_int group_id"

definition ai_auto_reply_key :: "int \<Rightarrow> string" where
  "ai_auto_reply_key user_id = ''im:ai:auto_reply:'' @ show_int user_id"

definition ai_anti_reentry_key :: "int \<Rightarrow> string \<Rightarrow> string" where
  "ai_anti_reentry_key user_id conv_id = ''im:ai:antireentry:'' @ show_int user_id @ '':'' @ conv_id"

definition ai_stream_channel :: "int \<Rightarrow> string" where
  "ai_stream_channel task_id = ''im:ai:stream:sub:'' @ show_int task_id"

definition ai_summary_cache_key :: "string \<Rightarrow> string \<Rightarrow> string" where
  "ai_summary_cache_key conv_id params_hash = ''im:ai:summary:'' @ conv_id @ '':'' @ params_hash"

definition moments_feed_prefix :: string where "moments_feed_prefix = ''moments:feed:''"
definition moments_post_prefix :: string where "moments_post_prefix = ''moments:post:''"
definition moments_likes_prefix :: string where "moments_likes_prefix = ''moments:likes:''"
definition moments_notify_prefix :: string where "moments_notify_prefix = ''moments:notify:''"

definition moments_feed_ttl :: int where "moments_feed_ttl = 7 * 24 * 3600"
definition moments_post_ttl :: int where "moments_post_ttl = 24 * 3600"
definition moments_likes_ttl :: int where "moments_likes_ttl = 24 * 3600"
definition moments_notify_ttl :: int where "moments_notify_ttl = 30 * 24 * 3600"

definition moments_feed_key :: "int \<Rightarrow> string" where
  "moments_feed_key user_id = moments_feed_prefix @ show_int user_id"

definition moments_post_key :: "int \<Rightarrow> string" where
  "moments_post_key post_id = moments_post_prefix @ show_int post_id"

definition moments_likes_key :: "int \<Rightarrow> string" where
  "moments_likes_key post_id = moments_likes_prefix @ show_int post_id"

definition moments_notify_key :: "int \<Rightarrow> string" where
  "moments_notify_key user_id = moments_notify_prefix @ show_int user_id"

section \<open>Conversation identifiers\<close>

lemma digit_code: "c \<in> digits \<Longrightarrow> (of_char c :: nat) \<in> {48..57}"
  by (auto simp: digits_def digit_char_def take_bit_nat_eq_self)

lemma underscore_not_int: "CHR ''_'' \<notin> set (show_int i)" "CHR '':'' \<notin> set (show_int i)"
  using show_int_chars[of i] digit_code[of "CHR ''_''"] digit_code[of "CHR '':''"] by auto

lemma private_conversation_id_eq:
  "private_conversation_id a b = private_conversation_id c d \<longleftrightarrow> {a, b} = {c, d}"
proof -
  have "private_conversation_id a b = private_conversation_id c d \<longleftrightarrow> min a b = min c d \<and> max a b = max c d"
  proof
    assume "private_conversation_id a b = private_conversation_id c d"
    then have "show_int (min a b) @ CHR ''_'' # show_int (max a b) = show_int (min c d) @ CHR ''_'' # show_int (max c d)"
      by (simp add: private_conversation_id_def)
    from separator_split[OF this underscore_not_int(1) underscore_not_int(1)]
    show "min a b = min c d \<and> max a b = max c d" by simp
  qed (simp add: private_conversation_id_def)
  then show ?thesis by (auto simp: doubleton_eq_iff min_def max_def split: if_splits)
qed

lemma group_conversation_id_eq [simp]: "group_conversation_id a = group_conversation_id b \<longleftrightarrow> a = b"
  by (simp add: group_conversation_id_def)

lemma private_not_group: "private_conversation_id a b \<noteq> group_conversation_id g"
  by (simp add: private_conversation_id_def group_conversation_id_def)

lemma conversation_ids_colon_free:
  "CHR '':'' \<notin> set (private_conversation_id a b)" "CHR '':'' \<notin> set (group_conversation_id g)"
  using underscore_not_int by (simp_all add: private_conversation_id_def group_conversation_id_def)

section \<open>Keys\<close>

datatype cache_key =
    KMessage int | KConvMessages string | KConvLast string | KUserConvs int | KUserUnread int
  | KReadCursor int string | KGroupSeq int | KGroupReadSeq int int | KPending | KEvent string
  | KClient int string string | KWatermark string | KAutoReply int | KAntiReentry int string
  | KStream int | KSummary string string | KFeed int | KPost int | KLikes int | KNotify int

fun key_text :: "cache_key \<Rightarrow> string" where
  "key_text (KMessage i) = cached_message_key i"
| "key_text (KConvMessages c) = conversation_messages_key c"
| "key_text (KConvLast c) = conversation_last_key c"
| "key_text (KUserConvs u) = user_conversations_key u"
| "key_text (KUserUnread u) = user_unread_key u"
| "key_text (KReadCursor u c) = read_cursor_key u c"
| "key_text (KGroupSeq g) = group_sequence_key g"
| "key_text (KGroupReadSeq u g) = group_read_sequence_key u g"
| "key_text KPending = pending_events_key"
| "key_text (KEvent e) = event_key e"
| "key_text (KClient s c m) = client_message_key s c m"
| "key_text (KWatermark c) = db_watermark_key c"
| "key_text (KAutoReply u) = ai_auto_reply_key u"
| "key_text (KAntiReentry u c) = ai_anti_reentry_key u c"
| "key_text (KStream t) = ai_stream_channel t"
| "key_text (KSummary c h) = ai_summary_cache_key c h"
| "key_text (KFeed u) = moments_feed_key u"
| "key_text (KPost p) = moments_post_key p"
| "key_text (KLikes p) = moments_likes_key p"
| "key_text (KNotify u) = moments_notify_key u"

text \<open>The conversation identifiers in a key have no colon; the other texts are arbitrary.\<close>

fun key_ok :: "cache_key \<Rightarrow> bool" where
  "key_ok (KConvMessages c) \<longleftrightarrow> CHR '':'' \<notin> set c"
| "key_ok (KConvLast c) \<longleftrightarrow> CHR '':'' \<notin> set c"
| "key_ok (KClient s c m) \<longleftrightarrow> CHR '':'' \<notin> set c"
| "key_ok (KSummary c h) \<longleftrightarrow> CHR '':'' \<notin> set c"
| "key_ok _ \<longleftrightarrow> True"

lemma colon_eq:
  assumes "CHR '':'' \<notin> set a" "CHR '':'' \<notin> set a'"
  shows "a @ CHR '':'' # b = a' @ CHR '':'' # b' \<longleftrightarrow> a = a' \<and> b = b'"
  using separator_split[OF _ assms] by blast

lemmas key_defs =
  cached_message_key_def conversation_messages_key_def conversation_last_key_def user_conversations_key_def
  user_unread_key_def read_cursor_key_def group_sequence_key_def group_read_sequence_key_def
  pending_events_key_def event_key_def client_message_key_def db_watermark_key_def ai_auto_reply_key_def
  ai_anti_reentry_key_def ai_stream_channel_def ai_summary_cache_key_def moments_feed_key_def
  moments_post_key_def moments_likes_key_def moments_notify_key_def moments_feed_prefix_def
  moments_post_prefix_def moments_likes_prefix_def moments_notify_prefix_def

text \<open>A group's sequence key against the keys of a conversation.\<close>

lemma group_colon: "CHR '':'' \<notin> set (CHR ''g'' # CHR ''_'' # show_int g)"
  using underscore_not_int by simp

lemma sequence_key_eq:
  assumes "CHR '':'' \<notin> set c"
  shows "CHR ''g'' # CHR ''_'' # show_int g @ CHR '':'' # b = c @ CHR '':'' # b' \<longleftrightarrow>
      CHR ''g'' # CHR ''_'' # show_int g = c \<and> b = b'"
    "c @ CHR '':'' # b' = CHR ''g'' # CHR ''_'' # show_int g @ CHR '':'' # b \<longleftrightarrow>
      CHR ''g'' # CHR ''_'' # show_int g = c \<and> b = b'"
  using colon_eq[OF group_colon[of g] assms, of b b'] by auto

lemma key_text_inj: "key_ok k \<Longrightarrow> key_ok k' \<Longrightarrow> key_text k = key_text k' \<longleftrightarrow> k = k'"
  by (cases k; cases k')
    (simp_all add: key_defs colon_eq sequence_key_eq underscore_not_int)

end
