(* ===== verification/Common_Events.thy ===== *)
theory Common_Events
  imports Common_Keys
begin

text \<open>
  The records of \<open>im-common/src/event.rs\<close>: messages, the envelopes of encrypted ones, read receipts and the
  events that carry them from the api-server to the database and to the im-servers. Serialization is
  derived and belongs to the JSON library.
\<close>

section \<open>Messages\<close>

record e2ee_envelope =
  ee_version :: int
  ee_alg :: string
  ee_conversation_id :: string
  ee_client_msg_id :: string
  ee_server_message_id :: "string option"
  ee_sender_user_id :: string
  ee_sender_device_id :: string
  ee_recipient_user_id :: "string option"
  ee_recipient_device_ids :: "string list"
  ee_session_id :: string
  ee_key_id :: string
  ee_key_version :: int
  ee_iv :: string
  ee_aad :: string
  ee_ciphertext :: string
  ee_created_at :: int
  ee_wire :: "string option"
  ee_handshake :: "string option"
  ee_recipient_device_id :: "string option"

record message_device_envelope =
  me_recipient_user_id :: string
  me_recipient_device_id :: string
  me_envelope :: e2ee_envelope

record message_dto =
  md_id :: string
  md_message_id :: string
  md_client_message_id :: "string option"
  md_sender_id :: string
  md_sender_name :: "string option"
  md_sender_avatar :: "string option"
  md_receiver_id :: "string option"
  md_receiver_name :: "string option"
  md_group_id :: "string option"
  md_conversation_seq :: "int option"
  md_group_name :: "string option"
  md_group_avatar :: "string option"
  md_is_group_chat :: bool
  md_is_group :: bool
  md_message_type :: string
  md_content :: "string option"
  md_media_url :: "string option"
  md_media_size :: "int option"
  md_media_name :: "string option"
  md_thumbnail_url :: "string option"
  md_duration :: "int option"
  md_location_info :: "string option"
  md_status :: string
  md_reply_to_message_id :: "string option"
  md_created_time :: string
  md_created_at :: string
  md_updated_time :: "string option"
  md_updated_at :: "string option"
  md_is_ai_generated :: "bool option"
  md_ai_provider :: "string option"
  md_ai_model :: "string option"
  md_encrypted :: "bool option"
  md_e2ee_header :: "string option"
  md_e2ee_device_id :: "string option"
  md_e2ee_sender_identity_key :: "string option"
  md_e2ee_ephemeral_key :: "string option"
  md_e2ee_envelope :: "e2ee_envelope option"

record read_receipt =
  rd_conversation_id :: string
  rd_reader_id :: string
  rd_to_user_id :: "string option"
  rd_read_at :: string
  rd_last_read_message_id :: "string option"
  rd_last_read_seq :: "int option"

section \<open>Events\<close>

text \<open>Times are milliseconds.\<close>

record im_event =
  ev_event_id :: string
  ev_event_type :: im_event_type
  ev_conversation_id :: string
  ev_message_id :: "string option"
  ev_sender_id :: "string option"
  ev_receiver_id :: "string option"
  ev_group_id :: "string option"
  ev_target_user_id :: "string option"
  ev_mentioned_user_ids :: "int list option"
  ev_group :: bool
  ev_new_status :: "string option"
  ev_payload :: "message_dto option"
  ev_device_envelopes :: "message_device_envelope list option"
  ev_read_receipt :: "read_receipt option"
  ev_timestamp :: int

text \<open>\<open>ImEvent::new\<close> with the identifier that was drawn and the clock.\<close>

definition im_event_new :: "string \<Rightarrow> int \<Rightarrow> im_event_type \<Rightarrow> string \<Rightarrow> im_event" where
  "im_event_new event_id now event_type conversation_id =
     \<lparr>ev_event_id = event_id, ev_event_type = event_type, ev_conversation_id = conversation_id, ev_message_id = None,
      ev_sender_id = None, ev_receiver_id = None, ev_group_id = None, ev_target_user_id = None,
      ev_mentioned_user_ids = None, ev_group = False, ev_new_status = None, ev_payload = None,
      ev_device_envelopes = None, ev_read_receipt = None, ev_timestamp = now\<rparr>"

end
