(* ===== verification/Common_Ids.thy ===== *)
theory Common_Ids
  imports Prelude
begin

text \<open>
  The identifier generator of \<open>im-common/src/ids.rs\<close>: one atomic 64-bit cell holds the millisecond
  and the sequence number of the last identifier; threads read it, compute the next slot and install
  it with a compare-and-exchange, and retry when another thread was faster. The clock is a sequence
  of readings, which may repeat and go backwards.
\<close>

type_synonym u16 = "16 word"

section \<open>One attempt\<close>

text \<open>\<open>u64::try_from(now_ms().max(0))\<close> on a reading of the signed clock.\<close>

definition clock_u64 :: "int \<Rightarrow> u64 option" where
  "clock_u64 now_ms =
     (let v = max now_ms 0 in if v < 2 ^ 64 then Some (word_of_int v) else None)"

definition saturating_inc :: "u64 \<Rightarrow> u64" where
  "saturating_inc w = (if w = - 1 then w else w + 1)"

definition next_slot :: "u64 \<Rightarrow> u64 \<Rightarrow> u64 \<times> u64" where
  "next_slot now current =
     (let last_ms = drop_bit 12 current;
          last_seq = current AND 0x0fff
      in if now > last_ms then (now, 0)
         else if last_seq < 0x0fff then (last_ms, saturating_inc last_seq)
         else (saturating_inc last_ms, 0))"

definition pack_slot :: "u64 \<times> u64 \<Rightarrow> u64" where
  "pack_slot slot = (case slot of (ms, seq) \<Rightarrow> push_bit 12 ms OR seq)"

definition id_of_slot :: "u16 \<Rightarrow> u64 \<times> u64 \<Rightarrow> u64" where
  "id_of_slot node_id slot =
     (case slot of (ms, seq) \<Rightarrow>
        let node = ucast node_id AND 0x03ff;
            timestamp_part = push_bit 22 (ms AND 0x1ffffffffff);
            node_part = push_bit 12 node
        in timestamp_part OR node_part OR seq)"

definition id_i64 :: "u64 \<Rightarrow> int option" where
  "id_i64 w = (if uint w < 2 ^ 63 then Some (uint w) else None)"

text \<open>
  One turn of the loop: the value that was loaded and the value of the cell at the exchange are
  separate, since other threads run in between. The result is the identifier when the loop ends.
\<close>

definition id_attempt :: "u16 \<Rightarrow> int \<Rightarrow> u64 \<Rightarrow> u64 \<Rightarrow> int option \<times> u64" where
  "id_attempt node_id now_ms current cell =
     (case clock_u64 now_ms of
        None \<Rightarrow> (None, cell)
      | Some now \<Rightarrow>
          let slot = next_slot now current in
          if cell = current then (id_i64 (id_of_slot node_id slot), pack_slot slot)
          else (None, cell))"

text \<open>The loop when no other thread runs, over the readings of the clock it consumes.\<close>

fun next_id :: "u16 \<Rightarrow> int list \<Rightarrow> u64 \<Rightarrow> int option \<times> u64" where
  "next_id node_id [] cell = (None, cell)"
| "next_id node_id (now_ms # clock) cell =
     (case id_attempt node_id now_ms cell cell of
        (Some i, cell) \<Rightarrow> (Some i, cell)
      | (None, cell) \<Rightarrow> next_id node_id clock cell)"

section \<open>Arithmetic of slots\<close>

lemma unat_u64: "unat (w :: u64) < 2 ^ 64"
proof -
  have "unat w < 2 ^ LENGTH(64)" by (rule unsigned_less)
  then show ?thesis by simp
qed

lemma mask_12: "(w :: u64) AND 0x0fff = take_bit 12 w"
proof -
  have "(0x0fff :: u64) = mask 12" by (simp add: mask_eq_exp_minus_1)
  then show ?thesis by (simp add: take_bit_eq_mask)
qed

lemma unat_slot_fields: "unat (drop_bit 12 c) = unat c div 4096" "unat ((c :: u64) AND 0x0fff) = unat c mod 4096"
proof -
  have "unat (drop_bit 12 c) = drop_bit 12 (unat c)"
    using unat_u64[of c] by (simp add: unsigned_drop_bit_eq take_bit_nat_eq_self)
  then show "unat (drop_bit 12 c) = unat c div 4096" by (simp only: drop_bit_eq_div) simp
  have "unat (c AND 0x0fff) = take_bit 12 (unat c)" by (simp add: mask_12 unsigned_take_bit_eq)
  then show "unat (c AND 0x0fff) = unat c mod 4096" by (simp only: take_bit_eq_mod) simp
qed

lemma unat_shift_or:
  assumes "unat a < 2 ^ (64 - n)" "unat b < 2 ^ n" "n < 64"
  shows "unat (push_bit n a OR (b :: u64)) = unat a * 2 ^ n + unat b"
proof -
  have "unat (push_bit n a OR b) = take_bit 64 (push_bit n (unat a)) OR unat b"
    by (simp add: unsigned_or_eq unsigned_push_bit_eq)
  also have "take_bit 64 (push_bit n (unat a)) = push_bit n (unat a)"
  proof -
    have "unat a * 2 ^ n < 2 ^ (64 - n) * 2 ^ n" using assms(1) by simp
    also have "\<dots> = 2 ^ 64" using assms(3) by (simp flip: power_add)
    finally show ?thesis by (simp add: take_bit_nat_eq_self push_bit_eq_mult)
  qed
  also have "push_bit n (unat a) OR unat b = push_bit n (unat a) + unat b"
  proof -
    have b: "take_bit n (unat b) = unat b" using assms(2) by (simp add: take_bit_nat_eq_self)
    have "\<not> bit (unat b) m" if "n \<le> m" for m
      using Bit_Operations.bit_take_bit_iff[of n "unat b" m] that b by simp
    then have "push_bit n (unat a) AND unat b = 0"
      by (intro bit_eqI) (auto simp: Bit_Operations.bit_and_iff Bit_Operations.bit_push_bit_iff)
    then show ?thesis by (simp add: disjunctive_add_eq_or)
  qed
  finally show ?thesis by (simp add: push_bit_eq_mult)
qed

lemma node_bits: "unat ((ucast (node_id :: u16) :: u64) AND 0x03ff) = unat node_id mod 1024"
proof -
  have "(0x03ff :: u64) = mask 10" by (simp add: mask_eq_exp_minus_1)
  then have "(ucast node_id :: u64) AND 0x03ff = take_bit 10 (ucast node_id)" by (simp add: take_bit_eq_mask)
  then have "unat ((ucast node_id :: u64) AND 0x03ff) = take_bit 10 (unat (ucast node_id :: u64))"
    by (simp add: unsigned_take_bit_eq)
  also have "unat (ucast node_id :: u64) = unat node_id"
  proof -
    have "unat node_id < 2 ^ LENGTH(16)" by (rule unsigned_less)
    then show ?thesis by (simp add: unsigned_ucast_eq take_bit_nat_eq_self)
  qed
  finally show ?thesis by (simp add: take_bit_eq_mod)
qed

text \<open>The value of a packed slot, and the identifier of a slot, as numbers.\<close>

definition slot_ok :: "u64 \<times> u64 \<Rightarrow> bool" where
  "slot_ok slot \<longleftrightarrow> unat (fst slot) < 2 ^ 52 \<and> unat (snd slot) < 4096"

lemma unat_pack_slot: "slot_ok slot \<Longrightarrow> unat (pack_slot slot) = unat (fst slot) * 4096 + unat (snd slot)"
  using unat_shift_or[of "fst slot" 12 "snd slot"] by (simp add: slot_ok_def pack_slot_def case_prod_beta)

lemma unat_id_of_slot:
  assumes "unat (snd slot) < 4096"
  shows "unat (id_of_slot node_id slot) =
    (unat (fst slot) mod 2 ^ 41) * 2 ^ 22 + (unat node_id mod 1024) * 4096 + unat (snd slot)"
proof -
  define ts where "ts = fst slot AND 0x1ffffffffff"
  define node where "node = (ucast node_id :: u64) AND 0x03ff"
  have "(0x1ffffffffff :: u64) = mask 41" by (simp add: mask_eq_exp_minus_1)
  then have "ts = take_bit 41 (fst slot)" by (simp add: ts_def take_bit_eq_mask)
  then have ts: "unat ts = unat (fst slot) mod 2 ^ 41" by (simp only: unsigned_take_bit_eq) (simp add: take_bit_eq_mod)
  have node: "unat node = unat node_id mod 1024" unfolding node_def by (rule node_bits)
  have low: "unat (push_bit 12 node OR snd slot) = unat node * 2 ^ 12 + unat (snd slot)"
    by (rule unat_shift_or) (use assms node in simp_all)
  have "unat (push_bit 22 ts OR (push_bit 12 node OR snd slot)) =
      unat ts * 2 ^ 22 + unat (push_bit 12 node OR snd slot)"
    by (rule unat_shift_or) (use assms node low ts in simp_all)
  moreover have "id_of_slot node_id slot = push_bit 22 ts OR (push_bit 12 node OR snd slot)"
    unfolding id_of_slot_def ts_def node_def Let_def case_prod_beta by (simp only: or.assoc)
  ultimately show ?thesis using low by (simp only: ts node) simp
qed

lemma id_i64_of_slot: "unat (snd slot) < 4096 \<Longrightarrow>
  id_i64 (id_of_slot node_id slot) = Some (int (unat (id_of_slot node_id slot)))"
proof -
  assume "unat (snd slot) < 4096"
  then have "unat (id_of_slot node_id slot) < 2 ^ 63"
    using unat_id_of_slot[of slot node_id] mod_less_divisor[of "2 ^ 41" "unat (fst slot)"]
      mod_less_divisor[of 1024 "unat node_id"]
    by simp
  then have "int (unat (id_of_slot node_id slot)) < int (2 ^ 63)" by (simp only: of_nat_less_iff)
  then show ?thesis by (simp add: id_i64_def)
qed

text \<open>The next slot as numbers: the clock when it is ahead, otherwise one more than the last.\<close>

lemma next_slot_value:
  assumes "unat now < 2 ^ 52" "unat current + 1 < 2 ^ 64"
  shows "slot_ok (next_slot now current) \<and>
    unat (pack_slot (next_slot now current)) =
      (if unat current div 4096 < unat now then unat now * 4096 else unat current + 1)"
proof -
  let ?ms = "unat current div 4096" and ?seq = "unat current mod 4096"
  have inc: "unat (saturating_inc w) = unat w + 1" if "unat w + 1 < 2 ^ 64" for w
  proof -
    have "w \<noteq> - 1"
    proof
      assume "w = - 1"
      then have "unat w = 2 ^ 64 - 1" by (simp add: unsigned_minus_1_eq_mask mask_eq_exp_minus_1)
      with that show False by simp
    qed
    then show ?thesis using that by (simp add: saturating_inc_def unat_word_ariths)
  qed
  have fields: "unat (drop_bit 12 current) = ?ms" "unat (current AND 0x0fff) = ?seq"
    by (rule unat_slot_fields)+
  have now: "now > drop_bit 12 current \<longleftrightarrow> ?ms < unat now" by (simp add: word_less_nat_alt fields)
  have seq: "current AND 0x0fff < 0x0fff \<longleftrightarrow> ?seq < 4095" by (simp add: word_less_nat_alt fields)
  have bounds: "?ms < 2 ^ 52" using unat_u64[of current] by (simp add: div_less_iff_less_mult)
  consider (clock) "?ms < unat now" | (seq) "\<not> ?ms < unat now" "?seq < 4095"
    | (carry) "\<not> ?ms < unat now" "?seq = 4095"
    using mod_less_divisor[of 4096 "unat current"] by fastforce
  then show ?thesis
  proof cases
    case clock
    then have slot: "next_slot now current = (now, 0)" using now by (simp add: next_slot_def)
    then have "slot_ok (next_slot now current)" using assms(1) by (simp add: slot_ok_def)
    with clock slot show ?thesis by (simp add: unat_pack_slot)
  next
    case seq
    then have slot: "next_slot now current = (drop_bit 12 current, saturating_inc (current AND 0x0fff))"
      using now \<open>current AND 0x0fff < 0x0fff \<longleftrightarrow> ?seq < 4095\<close> by (simp add: next_slot_def Let_def)
    have "unat (saturating_inc (current AND 0x0fff)) = ?seq + 1" using inc[of "current AND 0x0fff"] fields by simp
    with slot fields bounds seq have ok: "slot_ok (next_slot now current)" by (simp add: slot_ok_def)
    with slot seq fields \<open>unat (saturating_inc (current AND 0x0fff)) = ?seq + 1\<close> show ?thesis
      by (simp add: unat_pack_slot)
  next
    case carry
    then have slot: "next_slot now current = (saturating_inc (drop_bit 12 current), 0)"
      using now \<open>current AND 0x0fff < 0x0fff \<longleftrightarrow> ?seq < 4095\<close> by (simp add: next_slot_def Let_def)
    have ms: "unat (saturating_inc (drop_bit 12 current)) = ?ms + 1"
      using inc[of "drop_bit 12 current"] fields bounds by simp
    have "unat current = ?ms * 4096 + 4095" using carry(2) div_mult_mod_eq[of "unat current" 4096] by simp
    with assms(2) have "?ms + 1 < 2 ^ 52" by simp
    with slot ms have ok: "slot_ok (next_slot now current)" by (simp add: slot_ok_def)
    with slot carry ms \<open>unat current = ?ms * 4096 + 4095\<close> show ?thesis by (simp add: unat_pack_slot)
  qed
qed

lemma next_slot_seq: "unat (snd (next_slot now current)) < 4096"
proof -
  have seq: "unat (current AND 0x0fff) = unat current mod 4096" by (rule unat_slot_fields)
  have "unat (saturating_inc (current AND 0x0fff)) \<le> unat (current AND 0x0fff) + 1"
    by (simp add: saturating_inc_def unat_word_ariths)
  moreover have "unat (current AND 0x0fff) < 4095" if "current AND 0x0fff < 0x0fff"
    using that by (simp add: word_less_nat_alt)
  ultimately show ?thesis by (fastforce simp: next_slot_def Let_def)
qed

section \<open>Threads\<close>

text \<open>
  The cell, what each thread that is between its load and its exchange has read, and the
  identifiers that were returned, with their node, in order. A relaxed load may return an older
  value; the relation lets it return any value.
\<close>

record id_world =
  iw_cell :: u64
  iw_loaded :: "nat \<Rightarrow> (int \<times> u64) option"
  iw_issued :: "(u16 \<times> int) list"

datatype id_event =
    Read nat int u64
  | Exchange nat u16

inductive id_step :: "id_world \<Rightarrow> id_event \<Rightarrow> id_world \<Rightarrow> bool" where
  read: "id_step w (Read t now_ms current) (w\<lparr>iw_loaded := (iw_loaded w)(t \<mapsto> (now_ms, current))\<rparr>)"
| exchange: "iw_loaded w t = Some (now_ms, current) \<Longrightarrow>
    id_attempt node_id now_ms current (iw_cell w) = (r, cell) \<Longrightarrow>
    id_step w (Exchange t node_id)
      \<lparr>iw_cell = cell, iw_loaded = (iw_loaded w)(t := None),
       iw_issued = (case r of None \<Rightarrow> iw_issued w | Some i \<Rightarrow> iw_issued w @ [(node_id, i)])\<rparr>"

inductive id_trace :: "id_world \<Rightarrow> id_event list \<Rightarrow> id_world \<Rightarrow> bool" where
  stop: "id_trace w [] w"
| more: "id_trace w es w' \<Longrightarrow> id_step w' e w'' \<Longrightarrow> id_trace w (es @ [e]) w''"

inductive_cases id_step_cases: "id_step w e w'"

definition clock_below :: "nat \<Rightarrow> id_event list \<Rightarrow> bool" where
  "clock_below T es \<longleftrightarrow> (\<forall>t now_ms current. Read t now_ms current \<in> set es \<longrightarrow> now_ms < int T)"

text \<open>The identifier a node gives to a packed slot.\<close>

definition numbered :: "u16 \<Rightarrow> nat \<Rightarrow> nat" where
  "numbered node_id p = (p div 4096 mod 2 ^ 41) * 2 ^ 22 + (unat node_id mod 1024) * 4096 + p mod 4096"

lemma numbered_below:
  assumes "p < 2 ^ 53"
  shows "numbered node_id p = (p div 4096) * 4194304 + (unat node_id mod 1024) * 4096 + p mod 4096"
proof -
  have "p div 4096 mod 2 ^ 41 = p div 4096" using assms by (simp add: less_mult_imp_div_less)
  then show ?thesis by (simp add: numbered_def)
qed

lemma numbered_mono:
  assumes "p < q" "q < 2 ^ 53"
  shows "numbered node_id p < numbered node_id q"
proof -
  have eq: "(p div 4096) * 4096 + p mod 4096 = p" "(q div 4096) * 4096 + q mod 4096 = q" by simp_all
  have bounds: "p div 4096 \<le> q div 4096" "p mod 4096 < 4096" "unat node_id mod 1024 < 1024"
    using assms(1) by (simp_all add: div_le_mono)
  have "(p div 4096) * 4194304 + (unat node_id mod 1024) * 4096 + p mod 4096 <
      (q div 4096) * 4194304 + (unat node_id mod 1024) * 4096 + q mod 4096"
  proof (cases "p div 4096 = q div 4096")
    case True
    with eq assms(1) have "p mod 4096 < q mod 4096" by linarith
    with True show ?thesis by simp
  next
    case False
    with bounds show ?thesis by linarith
  qed
  then show ?thesis using assms by (simp add: numbered_below)
qed

lemma numbered_parts:
  assumes "p < 2 ^ 53"
  shows "numbered node_id p div 4194304 = p div 4096" "numbered node_id p mod 4096 = p mod 4096"
proof -
  have "unat node_id mod 1024 < 1024" "p mod 4096 < 4096" by simp_all
  moreover have "(a * 4194304 + n * 4096 + s) div 4194304 = a" if "n < 1024" "s < 4096" for a n s :: nat
    using that by (intro div_nat_eqI) simp_all
  ultimately show "numbered node_id p div 4194304 = p div 4096" unfolding numbered_below[OF assms] by blast
  have "numbered node_id p = p mod 4096 + ((p div 4096) * 1024 + unat node_id mod 1024) * 4096"
    unfolding numbered_below[OF assms] by simp
  then show "numbered node_id p mod 4096 = p mod 4096" by (simp only: mod_mult_self1 mod_mod_trivial)
qed

lemma numbered_inj:
  assumes "p < 2 ^ 53" "q < 2 ^ 53" "numbered a p = numbered b q"
  shows "p = q"
proof -
  have "p div 4096 = q div 4096" "p mod 4096 = q mod 4096"
    using numbered_parts[OF assms(1), of a] numbered_parts[OF assms(2), of b] assms(3) by simp_all
  then show ?thesis by (metis div_mult_mod_eq)
qed

lemma clock_u64_below: "now_ms < int T \<Longrightarrow> T \<le> 2 ^ 52 \<Longrightarrow>
  \<exists>now. clock_u64 now_ms = Some now \<and> (unat now < T \<or> unat now = 0)"
proof -
  assume less: "now_ms < int T" "T \<le> 2 ^ 52"
  then have "max now_ms 0 < 2 ^ 64" by simp
  moreover have "unat (word_of_int (max now_ms 0) :: u64) = nat (max now_ms 0)"
    using less by (simp add: unat_eq_nat_uint uint_word_of_int_eq take_bit_int_eq_self)
  ultimately show ?thesis using less by (auto simp: clock_u64_def Let_def)
qed

text \<open>A successful exchange moves the cell forward and returns the identifier of the new value.\<close>

lemma exchange_forward:
  assumes "id_attempt node_id now_ms current cell = (Some i, cell')" "now_ms < int T" "T \<le> 2 ^ 52"
    and "unat cell + 1 < 2 ^ 64"
  shows "current = cell \<and> unat cell < unat cell' \<and> unat cell' \<le> max (unat cell + 1) (T * 4096) \<and>
    i = int (numbered node_id (unat cell'))"
proof -
  obtain now where now: "clock_u64 now_ms = Some now" "unat now < T \<or> unat now = 0"
    using clock_u64_below[OF assms(2,3)] by blast
  let ?slot = "next_slot now current"
  from assms(1) now(1) have eq: "current = cell" and i: "id_i64 (id_of_slot node_id ?slot) = Some i"
    and cell': "cell' = pack_slot ?slot"
    by (auto simp: id_attempt_def Let_def split: if_splits)
  have "unat now < 2 ^ 52" using now(2) assms(3) by auto
  from next_slot_value[OF this, of current] assms(4) eq
  have ok: "slot_ok ?slot"
    and val: "unat cell' = (if unat cell div 4096 < unat now then unat now * 4096 else unat cell + 1)"
    unfolding cell' by auto
  have "unat cell < unat now * 4096" if "unat cell div 4096 < unat now"
    using that by (simp add: div_less_iff_less_mult)
  moreover have "unat now * 4096 \<le> T * 4096" using now(2) by auto
  ultimately have range: "unat cell < unat cell'" "unat cell' \<le> max (unat cell + 1) (T * 4096)"
    unfolding val by auto
  have parts: "unat cell' div 4096 = unat (fst ?slot)" "unat cell' mod 4096 = unat (snd ?slot)"
    using unat_pack_slot[OF ok] ok unfolding cell' slot_ok_def by simp_all
  have "i = int (unat (id_of_slot node_id ?slot))"
    using i id_i64_of_slot[of ?slot node_id] ok by (simp add: slot_ok_def)
  moreover have "unat (id_of_slot node_id ?slot) = numbered node_id (unat cell')"
    using unat_id_of_slot[of ?slot node_id] ok by (simp add: numbered_def parts slot_ok_def)
  ultimately have "i = int (numbered node_id (unat cell'))" by (simp only:)
  with eq range show ?thesis by simp
qed

lemma exchange_none: "id_attempt node_id now_ms current cell = (None, cell') \<Longrightarrow>
  now_ms < int T \<Longrightarrow> T \<le> 2 ^ 52 \<Longrightarrow> cell' = cell"
proof -
  assume a: "id_attempt node_id now_ms current cell = (None, cell')" "now_ms < int T" "T \<le> 2 ^ 52"
  obtain now where now: "clock_u64 now_ms = Some now" "unat now < T \<or> unat now = 0"
    using clock_u64_below[OF a(2,3)] by blast
  have "unat (snd (next_slot now current)) < 4096" by (rule next_slot_seq)
  with a(1) now(1) id_i64_of_slot show ?thesis by (auto simp: id_attempt_def Let_def split: if_splits)
qed

text \<open>
  The invariant of a trace: the returned identifiers number an increasing sequence of values of the
  cell, all of them after the first value and none after the present one.
\<close>

definition ids_inv :: "nat \<Rightarrow> u64 \<Rightarrow> id_world \<Rightarrow> bool" where
  "ids_inv T first w \<longleftrightarrow>
     (\<forall>t now_ms current. iw_loaded w t = Some (now_ms, current) \<longrightarrow> now_ms < int T) \<and>
     unat (iw_cell w) \<le> max (unat first) (T * 4096) + length (iw_issued w) \<and>
     (\<exists>ps. sorted_wrt (<) ps \<and> (\<forall>p \<in> set ps. p \<le> unat (iw_cell w)) \<and> length ps = length (iw_issued w) \<and>
        iw_issued w = map (\<lambda>(n, p). (n, int (numbered n p))) (zip (map fst (iw_issued w)) ps))"

lemma ids_inv_exchange:
  assumes inv: "ids_inv T first w" and loaded: "iw_loaded w t = Some (now_ms, current)"
    and attempt: "id_attempt node_id now_ms current (iw_cell w) = (r, cell)"
    and T: "T \<le> 2 ^ 52" and room: "max (unat first) (T * 4096) + length (iw_issued w) + 1 < 2 ^ 64"
  shows "ids_inv T first \<lparr>iw_cell = cell, iw_loaded = (iw_loaded w)(t := None),
       iw_issued = (case r of None \<Rightarrow> iw_issued w | Some i \<Rightarrow> iw_issued w @ [(node_id, i)])\<rparr>"
proof (cases r)
  case None
  have below: "now_ms < int T" using inv loaded unfolding ids_inv_def by blast
  have "cell = iw_cell w" using exchange_none[OF attempt[unfolded None] below T] .
  with inv None show ?thesis by (simp add: ids_inv_def)
next
  case (Some i)
  have below: "now_ms < int T" using inv loaded unfolding ids_inv_def by blast
  have le: "unat (iw_cell w) \<le> max (unat first) (T * 4096) + length (iw_issued w)"
    using inv by (simp add: ids_inv_def)
  then have "unat (iw_cell w) + 1 < 2 ^ 64" using room by linarith
  note fwd = exchange_forward[OF attempt[unfolded Some] below T this]
  obtain ps where ps: "sorted_wrt (<) ps" "\<forall>p \<in> set ps. p \<le> unat (iw_cell w)" "length ps = length (iw_issued w)"
    and issued: "iw_issued w = map (\<lambda>(n, p). (n, int (numbered n p))) (zip (map fst (iw_issued w)) ps)"
    using inv unfolding ids_inv_def by blast
  let ?ps = "ps @ [unat cell]"
  let ?issued = "iw_issued w @ [(node_id, i)]"
  have "sorted_wrt (<) ?ps \<and> (\<forall>p \<in> set ?ps. p \<le> unat cell) \<and> length ?ps = length ?issued"
    using ps fwd by (auto simp: sorted_wrt_append)
  moreover have "?issued = map (\<lambda>(n, p). (n, int (numbered n p))) (zip (map fst ?issued) ?ps)"
    using ps(3) fwd issued[symmetric] by simp
  moreover have "unat cell \<le> max (unat first) (T * 4096) + length ?issued"
    using fwd le by auto
  moreover have "\<forall>t' now_ms current. ((iw_loaded w)(t := None)) t' = Some (now_ms, current) \<longrightarrow> now_ms < int T"
    using inv by (simp add: ids_inv_def)
  ultimately show ?thesis
    unfolding ids_inv_def Some option.case id_world.select_convs by (intro conjI exI[of _ ?ps]) blast+
qed

lemma ids_inv_trace:
  assumes "id_trace w es w'" "ids_inv T first w" "clock_below T es" "T \<le> 2 ^ 52"
    and "max (unat first) (T * 4096) + length (iw_issued w) + length es < 2 ^ 64"
  shows "ids_inv T first w' \<and> length (iw_issued w') \<le> length (iw_issued w) + length es"
  using assms
proof (induction rule: id_trace.induct)
  case (stop w)
  then show ?case by simp
next
  case (more w es w' e w'')
  have IH: "ids_inv T first w'" "length (iw_issued w') \<le> length (iw_issued w) + length es"
    using more.IH more.prems by (auto simp: clock_below_def)
  from more.hyps(2) show ?case
  proof (cases rule: id_step.cases)
    case (read t now_ms current)
    have "now_ms < int T" using more.prems(2) read(1) by (auto simp: clock_below_def)
    with IH read show ?thesis by (auto simp: ids_inv_def)
  next
    case (exchange t now_ms current node_id r cell)
    have "max (unat first) (T * 4096) + length (iw_issued w') + 1 < 2 ^ 64"
      using more.prems(4) IH(2) by simp
    from ids_inv_exchange[OF IH(1) exchange(3,4) more.prems(3) this] IH(2)
    show ?thesis unfolding exchange(2) by (auto split: option.split)
  qed
qed

text \<open>What the invariant says of the identifiers while the timestamps fit 41 bits.\<close>

lemma ids_inv_unique:
  assumes inv: "ids_inv T first w" and small: "unat (iw_cell w) < 2 ^ 53"
  shows "distinct (map snd (iw_issued w))" "sorted_wrt (\<lambda>a b. fst a = fst b \<longrightarrow> snd a < snd b) (iw_issued w)"
    "\<forall>i \<in> set (map snd (iw_issued w)). 0 \<le> i \<and> i < 2 ^ 63"
proof -
  let ?ns = "map fst (iw_issued w)"
  obtain ps where ps: "sorted_wrt (<) ps" "\<forall>p \<in> set ps. p \<le> unat (iw_cell w)" "length ps = length (iw_issued w)"
    and issued: "iw_issued w = map (\<lambda>(n, p). (n, int (numbered n p))) (zip ?ns ps)"
    using inv unfolding ids_inv_def by blast
  have nth: "iw_issued w ! i = (?ns ! i, int (numbered (?ns ! i) (ps ! i)))" if "i < length ps" for i
    using that ps(3) by (subst issued) simp
  have snd_nth: "snd (iw_issued w ! i) = int (numbered (?ns ! i) (ps ! i))" if "i < length ps" for i
    using arg_cong[OF nth[OF that], of snd] by simp
  have bound: "ps ! i < 2 ^ 53" if "i < length ps" for i using that ps(2) small by (meson nth_mem order_le_less_trans)
  have less: "ps ! i < ps ! j" if "i < j" "j < length ps" for i j using sorted_wrt_nth_less[OF ps(1)] that by blast
  show "distinct (map snd (iw_issued w))" unfolding distinct_conv_nth
  proof (intro allI impI)
    fix i j assume ij: "i < length (map snd (iw_issued w))" "j < length (map snd (iw_issued w))" "i \<noteq> j"
    then have len: "i < length ps" "j < length ps" using ps(3) by simp_all
    from ij(3) less len have "ps ! i \<noteq> ps ! j" by (metis linorder_neq_iff)
    then have "numbered (?ns ! i) (ps ! i) \<noteq> numbered (?ns ! j) (ps ! j)"
      using numbered_inj[OF bound[OF len(1)] bound[OF len(2)]] by blast
    then show "map snd (iw_issued w) ! i \<noteq> map snd (iw_issued w) ! j"
      using ij snd_nth[OF len(1)] snd_nth[OF len(2)] by simp
  qed
  show "sorted_wrt (\<lambda>a b. fst a = fst b \<longrightarrow> snd a < snd b) (iw_issued w)" unfolding sorted_wrt_iff_nth_less
  proof (intro allI impI)
    fix i j assume ij: "i < j" "j < length (iw_issued w)" "fst (iw_issued w ! i) = fst (iw_issued w ! j)"
    then have len: "i < length ps" "j < length ps" using ps(3) by simp_all
    with ij have "?ns ! i = ?ns ! j" using ps(3) by simp
    then show "snd (iw_issued w ! i) < snd (iw_issued w ! j)"
      unfolding snd_nth[OF len(1)] snd_nth[OF len(2)]
      using numbered_mono[OF less[OF ij(1) len(2)] bound[OF len(2)], of "?ns ! j"] by (simp only: of_nat_less_iff)
  qed
  have "0 \<le> snd x \<and> snd x < 2 ^ 63" if x: "x \<in> set (iw_issued w)" for x
  proof -
    obtain i where i: "i < length ps" "x = iw_issued w ! i"
      using x ps(3) by (metis in_set_conv_nth)
    have "numbered n p < 2 ^ 63" if "p < 2 ^ 53" for n p
    proof -
      have "p div 4096 < 2 ^ 41" using that by (simp add: less_mult_imp_div_less)
      moreover have "unat n mod 1024 < 1024" "p mod 4096 < 4096" by simp_all
      ultimately show ?thesis unfolding numbered_below[OF that] by simp
    qed
    from this[OF bound[OF i(1)], of "?ns ! i"] have "int (numbered (?ns ! i) (ps ! i)) < int (2 ^ 63)"
      by (simp only: of_nat_less_iff)
    then show ?thesis using snd_nth[OF i(1)] i(2) by simp
  qed
  then show "\<forall>i \<in> set (map snd (iw_issued w)). 0 \<le> i \<and> i < 2 ^ 63" by auto
qed

end
