(* ===== verification/Api_Store.thy ===== *)
theory Api_Store
  imports Api_Base Api_Config Im_Security Common_Events Common_Ids
begin

text \<open>
  The stores behind the api-server and the commands it sends them: the MySQL tables (their columns
  and keys as in \<open>sql/mysql8\<close>), the Redis keys with their expiry, the route hash, the HTTP calls that
  were made, the clock. A statement, a script or a transaction is one access.
\<close>

section \<open>Rows\<close>

record user_row =
  us_id :: int
  us_username :: string
  us_password :: string
  us_nickname :: "string option"
  us_avatar :: "string option"
  us_phone :: "string option"
  us_email :: "string option"
  us_status :: int
  us_last_login_time :: "int option"
  us_gender :: "int option"
  us_birthday :: "string option"
  us_signature :: "string option"
  us_location :: "string option"
  us_created_time :: int

record friend_row =
  fr_id :: int
  fr_user_id :: int
  fr_friend_id :: int
  fr_remark :: "string option"
  fr_status :: int
  fr_created_time :: int

record friend_request_row =
  fq_id :: int
  fq_applicant_id :: int
  fq_target_user_id :: int
  fq_status :: int
  fq_apply_time :: int
  fq_apply_reason :: "string option"
  fq_handle_time :: "int option"

record member_row =
  gm_id :: int
  gm_group_id :: int
  gm_user_id :: int
  gm_nickname :: "string option"
  gm_role :: int
  gm_status :: int
  gm_join_time :: int

text \<open>The settings of a user; a column of the type \<open>JSON\<close> holds what its text means.\<close>

record settings_row =
  st_user_id :: int
  st_settings :: string
  st_push_settings :: "string option"

record push_device_row =
  pv_user_id :: int
  pv_device_id :: string
  pv_platform :: string
  pv_fcm_token :: string
  pv_app_version :: "string option"
  pv_device_model :: "string option"
  pv_os_version :: "string option"
  pv_locale :: "string option"
  pv_timezone :: "string option"
  pv_token_version :: int
  pv_last_seen_at :: int
  pv_last_token_refresh_at :: "int option"
  pv_disabled_at :: "int option"
  pv_unregister_reason :: "string option"

record device_row =
  dv_user_id :: int
  dv_device_id :: string
  dv_status :: string
  dv_identity_key :: string
  dv_signing_identity_key :: string
  dv_signed_pre_key :: string
  dv_signed_pre_key_signature :: string
  dv_last_active_at :: int

record opk_row =
  ok_id :: int
  ok_user_id :: int
  ok_device_id :: string
  ok_pre_key :: string
  ok_pre_key_id :: "int option"
  ok_signature :: "string option"
  ok_consumed :: bool
  ok_created_time :: int
  ok_consumed_time :: "int option"

record claim_row =
  ck_requester_user_id :: int
  ck_requester_device_id :: string
  ck_target_user_id :: int
  ck_target_device_id :: string
  ck_conversation_id :: string
  ck_row_id :: "int option"
  ck_pre_key_id :: "int option"
  ck_pre_key :: "string option"
  ck_created_at :: int

record session_row =
  se_session_id :: string
  se_requester_id :: int
  se_target_user_id :: int
  se_status :: string
  se_payload :: "string option"
  se_state_version :: int
  se_disabled_by :: "int option"
  se_disabled_at :: "int option"
  se_updated_time :: int

record conversation_session_row =
  cv_conversation_id :: string
  cv_session_id :: string
  cv_key_id :: string
  cv_key_version :: int
  cv_epoch :: int
  cv_created_by :: int
  cv_sender_device_id :: string
  cv_recipient_devices :: string
  cv_status :: string
  cv_needs_rotation :: bool
  cv_rotate_reason :: "string option"

record backup_row =
  bk_user_id :: int
  bk_backup :: string
  bk_salt :: string

record group_row =
  ge_group_id :: int
  ge_status :: string
  ge_enabled_by :: int

record epoch_row =
  ep_group_id :: int
  ep_epoch :: int
  ep_key_version :: int
  ep_reason :: string
  ep_created_by :: int

record sender_key_row =
  sk_group_id :: int
  sk_sender_id :: int
  sk_device_id :: string
  sk_recipient_id :: int
  sk_epoch :: int
  sk_encrypted :: string
  sk_counter :: int

text \<open>
  Messages as the database keeps them; \<open>DATETIME\<close> columns hold whole seconds. The names of the columns
  follow the insertion in \<open>background_db.rs\<close>.
\<close>

record message_row =
  mr_id :: int
  mr_sender_id :: int
  mr_receiver_id :: "int option"
  mr_group_id :: "int option"
  mr_conversation_seq :: "int option"
  mr_client_message_id :: "string option"
  mr_message_type :: int
  mr_content :: "string option"
  mr_media_url :: "string option"
  mr_media_size :: "int option"
  mr_media_name :: "string option"
  mr_thumbnail_url :: "string option"
  mr_duration :: "int option"
  mr_location_info :: "string option"
  mr_encrypted :: bool
  mr_e2ee_header :: "string option"
  mr_e2ee_device_id :: "string option"
  mr_e2ee_sender_identity_key :: "string option"
  mr_e2ee_ephemeral_key :: "string option"
  mr_e2ee_envelope_json :: "string option"
  mr_status :: int
  mr_is_group_chat :: bool
  mr_reply_to_message_id :: "int option"
  mr_created_time :: int
  mr_updated_time :: int

record delivery_row =
  dl_message_id :: int
  dl_device_id :: string
  dl_ciphertext :: string
  dl_header :: string

record private_cursor_row =
  pr_id :: int
  pr_user_id :: int
  pr_peer_user_id :: int
  pr_last_read_at :: int

record group_cursor_row =
  gr_id :: int
  gr_group_id :: int
  gr_user_id :: int
  gr_last_read_at :: int
  gr_last_read_seq :: int
  gr_last_read_message_id :: "int option"

record im_group_row =
  ig_id :: int
  ig_name :: string
  ig_avatar :: "string option"
  ig_announcement :: "string option"
  ig_owner_id :: int
  ig_type :: int
  ig_max_members :: int
  ig_member_count :: int
  ig_status :: int
  ig_created_time :: int
  ig_updated_time :: int

section \<open>The stores\<close>

text \<open>
  A Redis server for messages: texts, sorted sets and hashes of numbers, each with the time at which it
  expires. A sorted set is a list of members with their scores.
\<close>

record hot_store =
  hs_text :: "string \<Rightarrow> (string \<times> int option) option"
  hs_sorted :: "string \<Rightarrow> ((string \<times> int) list \<times> int option) option"
  hs_hash :: "string \<Rightarrow> ((string \<times> int) list \<times> int option) option"

text \<open>
  A stream with its consumer groups: entries with their numbers and payloads, and for each group the last
  number that was delivered and the entries that were delivered, with their consumer, and not acknowledged.
\<close>

record consumer_group =
  cg_last :: nat
  cg_pending :: "(nat \<times> string) list"

record event_stream =
  es_entries :: "(nat \<times> string) list"
  es_next :: nat
  es_groups :: "string \<Rightarrow> consumer_group option"

text \<open>The cache inside the process (\<open>local_cache.rs\<close>).\<close>

datatype cache_value = CBool bool | CI64_option "int option" | CI64_vec "int list"

text \<open>How a command ends: with a reply, without having reached the store, or with its reply lost.\<close>

datatype outcome = Replied | Unreached | Reply_lost

record http_post =
  hp_url :: string
  hp_headers :: "(string \<times> string) list"
  hp_body :: bytes

text \<open>
  \<open>aw_answers n\<close> is the status and the body of the answer to the n-th HTTP request,
  \<open>aw_uuid n\<close> is the n-th identifier that \<open>Uuid::new_v4\<close> draws, \<open>aw_random n\<close> the n-th random salt;
  \<open>aw_now\<close> is the clock in milliseconds, shared by the servers; \<open>aw_id_cell\<close> the cell of the generator of
  identifiers (\<open>Common_Ids\<close>). \<open>aw_trim n\<close> is how many of the n oldest entries a stream drops when its
  length is limited approximately.
\<close>

record api_world =
  aw_now :: int
  aw_outcomes :: "outcome list"
  aw_uuid :: "nat \<Rightarrow> string"
  aw_drawn :: nat
  aw_id_cell :: u64
  aw_random :: "nat \<Rightarrow> bytes"
  aw_redis :: "string \<Rightarrow> (string \<times> int) option"
  aw_routes :: "string \<Rightarrow> string \<Rightarrow> string option"
  aw_posts :: "http_post list"
  aw_answers :: "nat \<Rightarrow> int \<times> string"
  aw_users :: "user_row list"
  aw_friends :: "friend_row list"
  aw_friend_requests :: "friend_request_row list"
  aw_settings :: "settings_row list"
  aw_push_devices :: "push_device_row list"
  aw_members :: "member_row list"
  aw_devices :: "device_row list"
  aw_opks :: "opk_row list"
  aw_next_opk :: int
  aw_claims :: "claim_row list"
  aw_sessions :: "session_row list"
  aw_conversations :: "conversation_session_row list"
  aw_backups :: "backup_row list"
  aw_e2ee_groups :: "group_row list"
  aw_epochs :: "epoch_row list"
  aw_sender_keys :: "sender_key_row list"
  aw_im_groups :: "im_group_row list"
  aw_messages :: "message_row list"
  aw_deliveries :: "delivery_row list"
  aw_private_cursors :: "private_cursor_row list"
  aw_group_cursors :: "group_cursor_row list"
  aw_hot :: "string \<Rightarrow> hot_store"
  aw_streams :: "string \<Rightarrow> string \<Rightarrow> event_stream"
  aw_trim :: "nat \<Rightarrow> nat"
  aw_local :: "(string \<times> cache_value \<times> int) list"

type_synonym 'a api = "(api_world, 'a) act"

section \<open>Commands\<close>

definition next_outcome :: "api_world \<Rightarrow> outcome" where
  "next_outcome w = (case aw_outcomes w of [] \<Rightarrow> Replied | c # _ \<Rightarrow> c)"

definition outcome_used :: "api_world \<Rightarrow> api_world" where
  "outcome_used w = w\<lparr>aw_outcomes := tl (aw_outcomes w)\<rparr>"

definition command :: "api_error \<Rightarrow> (api_world \<Rightarrow> (api_error + 'a) \<times> api_world) \<Rightarrow> 'a api" where
  "command e f = Step
     (\<lambda>w. if next_outcome w = Unreached then outcome_used w else snd (f (outcome_used w)))
     (\<lambda>w. if next_outcome w = Replied then Ret (fst (f (outcome_used w))) else act_err e)"

definition sql_query :: "(api_world \<Rightarrow> 'a) \<Rightarrow> 'a api" where
  "sql_query f = command ESqlx (\<lambda>w. (Inr (f w), w))"

definition sql_execute :: "(api_world \<Rightarrow> (api_error + 'a) \<times> api_world) \<Rightarrow> 'a api" where
  "sql_execute = command ESqlx"

definition redis_command :: "(api_world \<Rightarrow> 'a \<times> api_world) \<Rightarrow> 'a api" where
  "redis_command f = command ERedis (\<lambda>w. (Inr (fst (f w)), snd (f w)))"

definition now_ms :: "int api" where
  "now_ms = act_get aw_now"

definition new_uuid :: "string api" where
  "new_uuid = Step (\<lambda>w. w\<lparr>aw_drawn := aw_drawn w + 1\<rparr>) (\<lambda>w. act_ok (aw_uuid w (aw_drawn w)))"

text \<open>\<open>NOW()\<close> in whole seconds.\<close>

definition sql_now :: "api_world \<Rightarrow> int" where
  "sql_now w = aw_now w div 1000"

text \<open>An HTTP request that is sent; only the caller reads the status, to log it.\<close>

definition http_send :: "http_post \<Rightarrow> unit api" where
  "http_send p = command EReqwest (\<lambda>w. (Inr (), w\<lparr>aw_posts := aw_posts w @ [p]\<rparr>))"

text \<open>An HTTP request whose answer is read.\<close>

definition http_fetch :: "http_post \<Rightarrow> (int \<times> string) api" where
  "http_fetch p = command EReqwest
     (\<lambda>w. (Inr (aw_answers w (length (aw_posts w))), w\<lparr>aw_posts := aw_posts w @ [p]\<rparr>))"

section \<open>Redis\<close>

definition redis_value :: "api_world \<Rightarrow> string \<Rightarrow> string option" where
  "redis_value w k = (case aw_redis w k of Some (v, expires) \<Rightarrow> if aw_now w < expires then Some v else None | None \<Rightarrow> None)"

definition redis_get :: "string \<Rightarrow> string option api" where
  "redis_get k = redis_command (\<lambda>w. (redis_value w k, w))"

text \<open>Redis refuses a time to live that is not positive.\<close>

definition redis_set_px :: "string \<Rightarrow> string \<Rightarrow> int \<Rightarrow> unit api" where
  "redis_set_px k v ttl_ms = command ERedis (\<lambda>w.
     if 0 < ttl_ms then (Inr (), w\<lparr>aw_redis := (aw_redis w)(k := Some (v, aw_now w + ttl_ms))\<rparr>)
     else (Inl ERedis, w))"

definition redis_set_ex :: "string \<Rightarrow> string \<Rightarrow> nat \<Rightarrow> unit api" where
  "redis_set_ex k v ttl_seconds = redis_set_px k v (int ttl_seconds * 1000)"

definition redis_del :: "string \<Rightarrow> unit api" where
  "redis_del k = redis_command (\<lambda>w. ((), w\<lparr>aw_redis := (aw_redis w)(k := None)\<rparr>))"

definition redis_hget :: "string \<Rightarrow> string \<Rightarrow> string option api" where
  "redis_hget h k = redis_command (\<lambda>w. (aw_routes w h k, w))"

section \<open>Tables\<close>

text \<open>A table with a key: the row of a key, the rows that are updated, and an insertion that must not repeat a key.\<close>

definition row_of :: "('r \<Rightarrow> 'k) \<Rightarrow> 'k \<Rightarrow> 'r list \<Rightarrow> 'r option" where
  "row_of key k rows = find (\<lambda>r. key r = k) rows"

definition update_where :: "('r \<Rightarrow> bool) \<Rightarrow> ('r \<Rightarrow> 'r) \<Rightarrow> 'r list \<Rightarrow> 'r list" where
  "update_where p f rows = map (\<lambda>r. if p r then f r else r) rows"

definition count_where :: "('r \<Rightarrow> bool) \<Rightarrow> 'r list \<Rightarrow> nat" where
  "count_where p rows = length (filter p rows)"

definition delete_where :: "('r \<Rightarrow> bool) \<Rightarrow> 'r list \<Rightarrow> 'r list" where
  "delete_where p rows = filter (\<lambda>r. \<not> p r) rows"

definition insert_or_update :: "('r \<Rightarrow> 'k) \<Rightarrow> 'r \<Rightarrow> ('r \<Rightarrow> 'r) \<Rightarrow> 'r list \<Rightarrow> 'r list" where
  "insert_or_update key r f rows =
     (if \<exists>s \<in> set rows. key s = key r then update_where (\<lambda>s. key s = key r) f rows else rows @ [r])"

lemma row_of_Some: "row_of key k rows = Some r \<Longrightarrow> r \<in> set rows \<and> key r = k"
  by (auto simp: row_of_def find_Some_iff in_set_conv_nth)

lemma row_of_None: "row_of key k rows = None \<longleftrightarrow> (\<forall>r \<in> set rows. key r \<noteq> k)"
  by (auto simp: row_of_def find_None_iff)

lemma row_of_simps [simp]:
  "row_of key k [] = None" "row_of key k (r # rows) = (if key r = k then Some r else row_of key k rows)"
  by (simp_all add: row_of_def)

lemma row_of_append:
  "row_of key k (xs @ ys) = (case row_of key k xs of Some r \<Rightarrow> Some r | None \<Rightarrow> row_of key k ys)"
  by (induction xs) auto

lemma row_of_update:
  assumes "\<And>r. r \<in> set rows \<Longrightarrow> p r \<Longrightarrow> key (f r) = key r"
  shows "row_of key k (update_where p f rows) = map_option (\<lambda>r. if p r then f r else r) (row_of key k rows)"
  using assms by (induction rows) (auto simp: update_where_def)

lemma row_of_distinct: "distinct (map key rows) \<Longrightarrow> r \<in> set rows \<Longrightarrow> row_of key (key r) rows = Some r"
  by (induction rows) (auto simp: image_iff)

lemma keys_update [simp]: "(\<And>r. r \<in> set rows \<Longrightarrow> p r \<Longrightarrow> key (f r) = key r) \<Longrightarrow> map key (update_where p f rows) = map key rows"
  by (auto simp: update_where_def)

lemma set_update_where: "r \<in> set (update_where p f rows) \<longleftrightarrow> (\<exists>s \<in> set rows. r = (if p s then f s else s))"
  by (auto simp: update_where_def)

lemma set_delete_where [simp]: "r \<in> set (delete_where p rows) \<longleftrightarrow> r \<in> set rows \<and> \<not> p r"
  by (auto simp: delete_where_def)

lemma count_where_pos: "0 < count_where p rows \<longleftrightarrow> (\<exists>r \<in> set rows. p r)"
  by (auto simp: count_where_def filter_empty_conv)

lemma count_where_unique: "distinct (map key rows) \<Longrightarrow> row_of key k rows = Some r \<Longrightarrow> p r \<Longrightarrow>
    count_where (\<lambda>s. key s = k \<and> p s) rows = 1"
proof (induction rows)
  case (Cons s rows)
  show ?case
  proof (cases "key s = k")
    case True
    with Cons.prems have "r = s" "filter (\<lambda>s. key s = k \<and> p s) rows = []"
      by (auto simp: filter_empty_conv image_iff)
    with Cons.prems True show ?thesis by (simp add: count_where_def)
  next
    case False
    with Cons show ?thesis by (simp add: count_where_def)
  qed
qed simp

section \<open>What commands guarantee\<close>

lemma run_command [run_simps]:
  "run (command e f) w =
     (if next_outcome w = Replied then f (outcome_used w)
      else if next_outcome w = Unreached then (Inl e, outcome_used w)
      else (Inl e, snd (f (outcome_used w))))"
  by (cases "next_outcome w"; cases "f (outcome_used w)") (simp_all add: command_def)

lemma ensures_command:
  assumes "\<And>w. P w \<Longrightarrow> G w (outcome_used w) \<and> G w (snd (f (outcome_used w)))"
    and "\<And>w. P w \<Longrightarrow> Q (fst (f (outcome_used w)))" "Q (Inl e)"
  shows "ensures P G (command e f) Q"
  using assms by (auto simp: command_def)

lemma guarantees_command:
  "(\<And>w. P w \<Longrightarrow> G w (outcome_used w) \<and> G w (snd (f (outcome_used w)))) \<Longrightarrow> guarantees P G (command e f)"
  by (rule ensures_command) auto

text \<open>Accesses that do not change what a component looks at.\<close>

locale shared_view = shared_stores P G env
  for P :: "api_world \<Rightarrow> bool" and G env +
  fixes view :: "api_world \<Rightarrow> 'v"
  assumes same: "P w \<Longrightarrow> view w' = view w \<Longrightarrow> G w w'"
    and outcomes_not_seen: "view (outcome_used w) = view w"
    and uuids_not_seen: "view (w\<lparr>aw_drawn := n\<rparr>) = view w"
    and posts_not_seen: "view (w\<lparr>aw_posts := ps\<rparr>) = view w"
begin

lemma guarantees_read [ensures_intros]: "guarantees P G (sql_query f)"
  unfolding sql_query_def by (rule guarantees_command) (simp add: same outcomes_not_seen)

lemma guarantees_hget [ensures_intros]: "guarantees P G (redis_hget h k)"
  unfolding redis_hget_def redis_command_def by (rule guarantees_command) (simp add: same outcomes_not_seen)

lemma guarantees_redis_get [ensures_intros]: "guarantees P G (redis_get k)"
  unfolding redis_get_def redis_command_def by (rule guarantees_command) (simp add: same outcomes_not_seen)

lemma guarantees_now [ensures_intros]: "guarantees P G now_ms"
  unfolding now_ms_def by (rule guarantees_get)

lemma guarantees_uuid [ensures_intros]: "guarantees P G new_uuid"
  by (simp add: new_uuid_def same uuids_not_seen)

lemma guarantees_send [ensures_intros]: "guarantees P G (http_send p)"
  unfolding http_send_def by (rule guarantees_command) (simp add: same outcomes_not_seen posts_not_seen)

lemma guarantees_execute:
  assumes "\<And>w. P w \<Longrightarrow> G w (snd (f w))"
  shows "guarantees P G (sql_execute f)"
  unfolding sql_execute_def
proof (rule guarantees_command, intro conjI)
  fix w assume P: "P w"
  show a: "G w (outcome_used w)" using P by (simp add: same outcomes_not_seen)
  from assms[OF kept[OF P a]] show "G w (snd (f (outcome_used w)))" using chains[OF P a] by blast
qed

end

section \<open>Undisturbed runs\<close>

text \<open>No command fails.\<close>

definition quiet :: "api_world \<Rightarrow> bool" where
  "quiet w \<longleftrightarrow> aw_outcomes w = []"

lemma quiet_used: "quiet w \<Longrightarrow> outcome_used w = w" "quiet w \<Longrightarrow> next_outcome w = Replied"
  by (cases w; simp add: quiet_def outcome_used_def) (simp add: quiet_def next_outcome_def)

lemma run_command_quiet [run_simps]: "quiet w \<Longrightarrow> run (command e f) w = f w"
  by (simp add: run_command quiet_used)

lemma run_query [run_simps]: "quiet w \<Longrightarrow> run (sql_query f) w = (Inr (f w), w)"
  by (simp add: sql_query_def run_command_quiet)

lemma run_execute [run_simps]: "quiet w \<Longrightarrow> run (sql_execute f) w = f w"
  by (simp add: sql_execute_def run_command_quiet)

lemma run_redis [run_simps]: "quiet w \<Longrightarrow> run (redis_command f) w = (Inr (fst (f w)), snd (f w))"
  by (simp add: redis_command_def run_command_quiet)

lemma run_redis_get [run_simps]: "quiet w \<Longrightarrow> run (redis_get k) w = (Inr (redis_value w k), w)"
  by (simp add: redis_get_def run_redis)

lemma run_hget [run_simps]: "quiet w \<Longrightarrow> run (redis_hget h k) w = (Inr (aw_routes w h k), w)"
  by (simp add: redis_hget_def run_redis)

lemma run_now [run_simps]: "run now_ms w = (Inr (aw_now w), w)"
  by (simp add: now_ms_def run_get)

lemma run_uuid [run_simps]: "run new_uuid w = (Inr (aw_uuid w (aw_drawn w)), w\<lparr>aw_drawn := aw_drawn w + 1\<rparr>)"
  by (simp add: new_uuid_def)

text \<open>A view that a computation does not change, and the silence it does not break.\<close>

locale unseen_view =
  fixes view :: "api_world \<Rightarrow> 'v"
  assumes unseen: "view (outcome_used w) = view w" "view (w\<lparr>aw_drawn := n\<rparr>) = view w" "view (w\<lparr>aw_posts := ps\<rparr>) = view w"
begin

sublocale untouched: shared_view "\<lambda>_. True" "\<lambda>w w'. view w' = view w" "\<lambda>w w'. view w' = view w" view
  by unfold_locales (simp_all add: unseen)

lemma run_untouched: "guarantees (\<lambda>_. True) (\<lambda>w w'. view w' = view w) m \<Longrightarrow> view (snd (run m w)) = view w"
  using untouched.run_guarantee[where w = w and m = m and Q = "\<lambda>_. True"] by simp

end

end
