(* ===== verification/Im_Routes.thy ===== *)
theory Im_Routes
  imports Im_Config "HOL-Library.AList"
begin

text \<open>
  The route registry of \<open>im-server/src/route.rs\<close>: for every user a hash field in Redis holds, as
  JSON, the leases of the server instances that have sessions of the user; an instance renews its
  own lease and drops the expired ones. The lock around an update is a key with a token and a time
  to live. Redis commands may fail: which ones do is an argument.
\<close>

section \<open>State and libraries\<close>

record route_lease =
  rl_session_count :: int
  rl_expires_at_epoch_ms :: int
  rl_internal_http_url :: "string option"
  rl_internal_ws_url :: "string option"

record server_node =
  sn_server_id :: string
  sn_internal_http_url :: string
  sn_internal_ws_url :: string
  sn_session_count :: int
  sn_updated_at_epoch_ms :: int
  sn_expires_at_epoch_ms :: int

text \<open>A \<open>BTreeMap\<close> as an association list; the order of its keys is only seen in the JSON.\<close>

type_synonym snapshot = "(string \<times> route_lease) list"

record route_lib =
  ro_utf8_lossy :: "string \<Rightarrow> string"
  ro_parse :: "string \<Rightarrow> snapshot option"
  ro_print :: "snapshot \<Rightarrow> string option"

record redis_faults =
  rf_hget :: bool
  rf_hset :: bool
  rf_hdel :: bool

definition no_faults :: redis_faults where
  "no_faults = \<lparr>rf_hget = False, rf_hset = False, rf_hdel = False\<rparr>"

text \<open>The fields of the hash \<open>route_users_key\<close>.\<close>

type_synonym route_users = "string \<Rightarrow> string option"

section \<open>Helpers\<close>

definition normalize_id :: "string \<Rightarrow> string option" where
  "normalize_id v = (let trimmed = trim v in if trimmed \<noteq> [] then Some trimmed else None)"

definition extract_json_object :: "route_lib \<Rightarrow> string \<Rightarrow> string option" where
  "extract_json_object L b =
     (let str = ro_utf8_lossy L b in
      case position (\<lambda>c. c = CHR 0x7B) str of
        None \<Rightarrow> None
      | Some start \<Rightarrow>
          (case position (\<lambda>c. c = CHR 0x7D) (rev str) of
             None \<Rightarrow> None
           | Some back \<Rightarrow>
               let stop = length str - 1 - back in
               if stop < start then None else Some (take (stop - start + 1) (drop start str))))"

definition session_count_i32 :: "nat \<Rightarrow> int" where
  "session_count_i32 n = (if n < 2 ^ 31 then int n else 2 ^ 31 - 1)"

definition saturating_add_i64 :: "int \<Rightarrow> int \<Rightarrow> int" where
  "saturating_add_i64 a b = max (- (2 ^ 63)) (min (2 ^ 63 - 1) (a + b))"

definition server_lease_ttl_ms :: "nat \<Rightarrow> int" where
  "server_lease_ttl_ms ttl_seconds =
     (let ttl_ms = min (2 ^ 64 - 1) (max ttl_seconds 1 * 1000) in
      if ttl_ms < 2 ^ 63 then int ttl_ms else 2 ^ 63 - 1)"

text \<open>Addition of \<open>i32\<close> values wraps (in a build without overflow checks).\<close>

definition wrap_i32 :: "int \<Rightarrow> int" where
  "wrap_i32 i = (i + 2 ^ 31) mod 2 ^ 32 - 2 ^ 31"

section \<open>The lock\<close>

text \<open>One reply to \<open>SET key token NX PX 3000\<close>; up to twenty are awaited.\<close>

datatype lock_reply = Acquired | Held | LockFailed

fun acquire_lock :: "nat \<Rightarrow> lock_reply list \<Rightarrow> bool" where
  "acquire_lock 0 replies = False"
| "acquire_lock (Suc n) [] = False"
| "acquire_lock (Suc n) (Acquired # replies) = True"
| "acquire_lock (Suc n) (_ # replies) = acquire_lock n replies"

abbreviation locked :: "lock_reply list \<Rightarrow> bool" where
  "locked replies \<equiv> acquire_lock 20 replies"

text \<open>What Redis does for them: the key with its token and expiry, and the release script.\<close>

type_synonym lock_key = "(string \<times> int) option"

definition lock_set_nx :: "int \<Rightarrow> string \<Rightarrow> lock_key \<Rightarrow> bool \<times> lock_key" where
  "lock_set_nx now token k =
     (case k of
        Some (t, expires) \<Rightarrow> if now < expires then (False, k) else (True, Some (token, now + 3000))
      | None \<Rightarrow> (True, Some (token, now + 3000)))"

definition lock_release :: "int \<Rightarrow> string \<Rightarrow> lock_key \<Rightarrow> lock_key" where
  "lock_release now token k =
     (case k of
        Some (t, expires) \<Rightarrow> if now < expires \<and> t = token then None else k
      | None \<Rightarrow> None)"

text \<open>The replies to the attempts of one instance, each at its time and perhaps failing, as long as the key is \<open>k\<close>.\<close>

definition lock_replies :: "string \<Rightarrow> lock_key \<Rightarrow> (int \<times> bool) list \<Rightarrow> lock_reply list" where
  "lock_replies token k attempts = map (\<lambda>(now, fails).
     if fails then LockFailed else if fst (lock_set_nx now token k) then Acquired else Held) attempts"

lemma refused_lock: "list_all (\<lambda>r. r \<noteq> Acquired) replies \<Longrightarrow> \<not> acquire_lock n replies"
  by (induction n replies rule: acquire_lock.induct) simp_all

section \<open>Snapshots\<close>

definition delete_route_snapshot :: "redis_faults \<Rightarrow> route_users \<Rightarrow> string \<Rightarrow> route_users" where
  "delete_route_snapshot F users user_id = (if rf_hdel F then users else users(user_id := None))"

definition load_snapshot ::
  "route_lib \<Rightarrow> redis_faults \<Rightarrow> route_users \<Rightarrow> string \<Rightarrow> int \<Rightarrow> snapshot \<times> route_users"
where
  "load_snapshot L F users user_id now =
     (case (if rf_hget F then None else users user_id) of
        None \<Rightarrow> ([], users)
      | Some b \<Rightarrow>
          (case extract_json_object L b of
             None \<Rightarrow> ([], delete_route_snapshot F users user_id)
           | Some str \<Rightarrow>
               (case ro_parse L str of
                  Some snapshot \<Rightarrow>
                    (filter (\<lambda>(inst, lease). trim inst \<noteq> [] \<and> rl_session_count lease > 0 \<and>
                        rl_expires_at_epoch_ms lease > now) snapshot, users)
                | None \<Rightarrow> ([], delete_route_snapshot F users user_id))))"

definition persist_snapshot ::
  "route_lib \<Rightarrow> redis_faults \<Rightarrow> route_users \<Rightarrow> string \<Rightarrow> snapshot \<Rightarrow> int \<Rightarrow> route_users"
where
  "persist_snapshot L F users user_id snapshot now =
     (if snapshot = [] then delete_route_snapshot F users user_id
      else
        let fresh = filter (\<lambda>(inst, lease). rl_session_count lease > 0 \<and> rl_expires_at_epoch_ms lease > now) snapshot in
        if fresh = [] then delete_route_snapshot F users user_id
        else (case ro_print L fresh of
                Some payload \<Rightarrow> if rf_hset F then users else users(user_id \<mapsto> payload)
              | None \<Rightarrow> users))"

section \<open>Operations\<close>

definition own_lease :: "app_config \<Rightarrow> nat \<Rightarrow> int \<Rightarrow> route_lease" where
  "own_lease config session_count now =
     \<lparr>rl_session_count = session_count_i32 session_count,
      rl_expires_at_epoch_ms = saturating_add_i64 now (max (cfg_route_lease_ttl_ms config) 1000),
      rl_internal_http_url = Some (cfg_internal_http_url config),
      rl_internal_ws_url = Some (cfg_internal_ws_url config)\<rparr>"

definition upsert_local_route ::
  "app_config \<Rightarrow> route_lib \<Rightarrow> redis_faults \<Rightarrow> lock_reply list \<Rightarrow> int \<Rightarrow> route_users \<Rightarrow> string \<Rightarrow> nat \<Rightarrow> route_users"
where
  "upsert_local_route config L F replies now users user_id session_count =
     (case normalize_id user_id of
        None \<Rightarrow> users
      | Some user_id \<Rightarrow>
          if \<not> locked replies then users
          else
            let (snapshot, users) = load_snapshot L F users user_id now;
                snapshot =
                  (if session_count = 0 then AList.delete (cfg_instance_id config) snapshot
                   else AList.update (cfg_instance_id config) (own_lease config session_count now) snapshot)
            in persist_snapshot L F users user_id snapshot now)"

definition remove_local_route ::
  "app_config \<Rightarrow> route_lib \<Rightarrow> redis_faults \<Rightarrow> lock_reply list \<Rightarrow> int \<Rightarrow> route_users \<Rightarrow> string \<Rightarrow> route_users"
where
  "remove_local_route config L F replies now users user_id =
     upsert_local_route config L F replies now users user_id 0"

definition get_instance_session_counts ::
  "route_lib \<Rightarrow> redis_faults \<Rightarrow> lock_reply list \<Rightarrow> int \<Rightarrow> route_users \<Rightarrow> string \<Rightarrow> (string \<times> int) list \<times> route_users"
where
  "get_instance_session_counts L F replies now users user_id =
     (case normalize_id user_id of
        None \<Rightarrow> ([], users)
      | Some user_id \<Rightarrow>
          if \<not> locked replies then ([], users)
          else
            let (snapshot, users) = load_snapshot L F users user_id now;
                users = persist_snapshot L F users user_id snapshot now
            in (map (\<lambda>(inst, lease). (inst, rl_session_count lease))
                  (filter (\<lambda>(inst, lease). rl_session_count lease > 0) snapshot), users))"

definition get_global_session_count ::
  "route_lib \<Rightarrow> redis_faults \<Rightarrow> lock_reply list \<Rightarrow> int \<Rightarrow> route_users \<Rightarrow> string \<Rightarrow> int \<times> route_users"
where
  "get_global_session_count L F replies now users user_id =
     (let (counts, users) = get_instance_session_counts L F replies now users user_id in
      (foldl (\<lambda>acc c. wrap_i32 (acc + c)) 0 (filter (\<lambda>c. c > 0) (map snd counts)), users))"

definition is_user_globally_online ::
  "route_lib \<Rightarrow> redis_faults \<Rightarrow> lock_reply list \<Rightarrow> int \<Rightarrow> route_users \<Rightarrow> string \<Rightarrow> bool \<times> route_users"
where
  "is_user_globally_online L F replies now users user_id =
     (let (count, users) = get_global_session_count L F replies now users user_id in (count > 0, users))"

text \<open>The keys of the server nodes, with the seconds they live.\<close>

type_synonym server_nodes = "string \<Rightarrow> (server_node \<times> nat) option"

definition server_node_key :: "app_config \<Rightarrow> string" where
  "server_node_key config = cfg_server_registry_key_prefix config @ cfg_instance_id config"

definition upsert_server_node :: "app_config \<Rightarrow> bool \<Rightarrow> int \<Rightarrow> server_nodes \<Rightarrow> nat \<Rightarrow> server_nodes" where
  "upsert_server_node config fails now nodes session_count =
     (let node = \<lparr>sn_server_id = cfg_instance_id config, sn_internal_http_url = cfg_internal_http_url config,
            sn_internal_ws_url = cfg_internal_ws_url config, sn_session_count = session_count_i32 session_count,
            sn_updated_at_epoch_ms = now,
            sn_expires_at_epoch_ms =
              saturating_add_i64 now (server_lease_ttl_ms (cfg_server_lease_ttl_seconds config))\<rparr> in
      if fails then nodes
      else nodes(server_node_key config \<mapsto> (node, max (cfg_server_lease_ttl_seconds config) 1)))"

definition remove_server_node :: "app_config \<Rightarrow> bool \<Rightarrow> server_nodes \<Rightarrow> server_nodes" where
  "remove_server_node config fails nodes = (if fails then nodes else nodes(server_node_key config := None))"

section \<open>The leases a hash field stands for\<close>

text \<open>The abstract view: which instances have how many sessions of a user at a time.\<close>

definition live :: "int \<Rightarrow> string \<times> route_lease \<Rightarrow> bool" where
  "live now il \<longleftrightarrow> trim (fst il) \<noteq> [] \<and> rl_session_count (snd il) > 0 \<and> rl_expires_at_epoch_ms (snd il) > now"

definition live_leases :: "route_lib \<Rightarrow> route_users \<Rightarrow> string \<Rightarrow> int \<Rightarrow> string \<Rightarrow> route_lease option" where
  "live_leases L users user_id now = map_of (fst (load_snapshot L no_faults users user_id now))"

text \<open>
  What the JSON library does for snapshots with distinct keys: it prints an object, alone in its
  text, and reads the same map back, in some order.
\<close>

definition route_json :: "route_lib \<Rightarrow> bool" where
  "route_json L \<longleftrightarrow> (\<forall>m. distinct (map fst m) \<longrightarrow>
     (\<exists>p m'. ro_print L m = Some p \<and> extract_json_object L p = Some p \<and> ro_parse L p = Some m' \<and>
        distinct (map fst m') \<and> map_of m' = map_of m))"

text \<open>Everything the hash holds was printed from a snapshot, or cannot be read.\<close>

definition stored_distinct :: "route_lib \<Rightarrow> bool" where
  "stored_distinct L \<longleftrightarrow> (\<forall>s m. ro_parse L s = Some m \<longrightarrow> distinct (map fst m))"

lemma load_snapshot_live: "fst (load_snapshot L F users u now) = filter (live now) (fst (load_snapshot L F users u now))"
proof -
  have "(\<lambda>(inst, lease). trim inst \<noteq> [] \<and> rl_session_count lease > 0 \<and> rl_expires_at_epoch_ms lease > now) = live now"
    by (auto simp: live_def fun_eq_iff)
  then show ?thesis by (auto simp: load_snapshot_def split: option.split)
qed

lemma map_of_filter_distinct:
  "distinct (map fst m) \<Longrightarrow> map_of (filter P m) k = (case map_of m k of Some v \<Rightarrow> if P (k, v) then Some v else None | None \<Rightarrow> None)"
proof (induction m)
  case Nil
  then show ?case by simp
next
  case (Cons x m)
  then have "map_of m (fst x) = None" by (simp add: map_of_eq_None_iff)
  with Cons show ?case by (cases x) (auto split: option.splits)
qed

section \<open>What the operations do to the leases\<close>

lemma normalize_id_Some: "normalize_id u = Some v \<Longrightarrow> v = trim u \<and> v \<noteq> [] \<and> normalize_id v = Some v"
  by (auto simp: normalize_id_def Let_def split: if_splits)

lemma load_no_faults:
  "load_snapshot L no_faults users u now =
     (case Option.bind (users u) (\<lambda>b. Option.bind (extract_json_object L b) (ro_parse L)) of
        Some m \<Rightarrow> (filter (live now) m, users)
      | None \<Rightarrow> ([], users(u := None)))"
  by (auto simp: load_snapshot_def no_faults_def delete_route_snapshot_def live_def fun_eq_iff
      split: option.split intro!: filter_cong)

lemma live_leases_eq:
  "live_leases L users u t = map_of
     (case Option.bind (users u) (\<lambda>b. Option.bind (extract_json_object L b) (ro_parse L)) of
        Some m \<Rightarrow> filter (live t) m | None \<Rightarrow> [])"
  by (simp add: live_leases_def load_no_faults split: option.split)

lemma persist_other: "v \<noteq> u \<Longrightarrow> persist_snapshot L F users u m now v = users v"
  by (simp add: persist_snapshot_def delete_route_snapshot_def Let_def split: option.split)

lemma load_other: "v \<noteq> u \<Longrightarrow> snd (load_snapshot L F users u now) v = users v"
  by (auto simp: load_snapshot_def delete_route_snapshot_def split: option.split)

lemma persisted_leases:
  assumes "route_json L" "distinct (map fst m)" "list_all (live now) m" "now \<le> t"
  shows "live_leases L (persist_snapshot L no_faults users u m now) u t = map_of (filter (live t) m)"
proof -
  have fresh: "filter (\<lambda>(inst, lease). rl_session_count lease > 0 \<and> rl_expires_at_epoch_ms lease > now) m = m"
    using assms(3) by (auto simp: filter_id_conv live_def list_all_iff)
  show ?thesis
  proof (cases "m = []")
    case True
    then show ?thesis by (simp add: persist_snapshot_def delete_route_snapshot_def no_faults_def live_leases_eq)
  next
    case False
    from assms(1,2) obtain p m' where p: "ro_print L m = Some p" "extract_json_object L p = Some p"
      "ro_parse L p = Some m'" "distinct (map fst m')" "map_of m' = map_of m"
      unfolding route_json_def by blast
    have "live_leases L (persist_snapshot L no_faults users u m now) u t = map_of (filter (live t) m')"
      using False p by (simp add: persist_snapshot_def fresh no_faults_def live_leases_eq)
    also have "\<dots> = map_of (filter (live t) m)"
      by (rule ext) (simp add: map_of_filter_distinct p(4,5) assms(2))
    finally show ?thesis .
  qed
qed

lemma loaded_distinct:
  assumes "stored_distinct L"
  shows "distinct (map fst (fst (load_snapshot L no_faults users u now)))"
proof (cases "Option.bind (users u) (\<lambda>b. Option.bind (extract_json_object L b) (ro_parse L))")
  case None
  then show ?thesis by (simp add: load_no_faults)
next
  case (Some m)
  with assms have "distinct (map fst m)" by (auto simp: stored_distinct_def bind_eq_Some_conv)
  with Some show ?thesis by (simp add: load_no_faults distinct_map_filter)
qed

lemma loaded_later:
  assumes "stored_distinct L" "now \<le> t"
  shows "map_of (filter (live t) (fst (load_snapshot L no_faults users u now))) = live_leases L users u t"
proof -
  have "filter (live t) (filter (live now) m) = filter (live t) m" for m
    using assms(2) by (auto simp: live_def filter_filter intro: filter_cong)
  then show ?thesis by (simp add: load_no_faults live_leases_eq split: option.split)
qed

text \<open>When a lease that was just written runs out.\<close>

definition lease_expiry :: "app_config \<Rightarrow> int \<Rightarrow> int" where
  "lease_expiry config now = saturating_add_i64 now (max (cfg_route_lease_ttl_ms config) 1000)"

lemma own_lease_live:
  "trim (cfg_instance_id config) \<noteq> [] \<Longrightarrow> 0 < n \<Longrightarrow>
     live t (cfg_instance_id config, own_lease config n now) \<longleftrightarrow> t < lease_expiry config now"
  by (simp add: live_def own_lease_def lease_expiry_def session_count_i32_def)

lemma list_all_update: "P (k, v) \<Longrightarrow> list_all P m \<Longrightarrow> list_all P (AList.update k v m)"
  by (induction m) auto

lemma list_all_delete: "list_all P m \<Longrightarrow> list_all P (AList.delete k m)"
  by (induction m) auto

lemma upsert_leases:
  assumes L: "route_json L" "stored_distinct L" and "locked replies" "trim (cfg_instance_id config) \<noteq> []"
    and u: "normalize_id u = Some u" and t: "now \<le> t" "now < lease_expiry config now"
  shows "live_leases L (upsert_local_route config L no_faults replies now users u n) u t =
    (live_leases L users u t)(cfg_instance_id config :=
       (if 0 < n \<and> t < lease_expiry config now then Some (own_lease config n now) else None))"
proof -
  let ?i = "cfg_instance_id config"
  obtain m users' where load: "load_snapshot L no_faults users u now = (m, users')" by (cases "load_snapshot L no_faults users u now")
  have m: "distinct (map fst m)" "list_all (live now) m" "map_of (filter (live t) m) = live_leases L users u t"
    using loaded_distinct[OF L(2), of users u now] loaded_later[OF L(2) t(1), of users u]
      load_snapshot_live[of L no_faults users u now] load
    by (simp_all add: list_all_iff) (metis filter_id_conv)
  define m' where "m' = (if n = 0 then AList.delete ?i m else AList.update ?i (own_lease config n now) m)"
  have "0 < n \<Longrightarrow> live now (?i, own_lease config n now)" using own_lease_live assms(4) t(2) by blast
  with m have m': "distinct (map fst m')" "list_all (live now) m'"
    unfolding m'_def by (auto simp: AList.distinct_update AList.distinct_delete list_all_update list_all_delete)
  have "live_leases L (upsert_local_route config L no_faults replies now users u n) u t = map_of (filter (live t) m')"
    using persisted_leases[OF L(1) m' t(1)] assms(3) u load
    by (simp add: upsert_local_route_def m'_def)
  also have "\<dots> = (map_of (filter (live t) m))(?i :=
       (if 0 < n \<and> t < lease_expiry config now then Some (own_lease config n now) else None))"
    unfolding map_of_filter_distinct[OF m'(1)] fun_eq_iff fun_upd_apply map_of_filter_distinct[OF m(1)]
    by (simp add: m'_def own_lease_live[OF assms(4)] AList.update_conv' AList.delete_conv')
  finally show ?thesis by (simp add: m(3))
qed

text \<open>
  Commands that fail. A write that fails leaves the field as it was; a read that fails is taken for an empty field,
  so the write after it drops the leases of the other instances.
\<close>

lemma persist_faults:
  "persist_snapshot L F users u m now \<in> {persist_snapshot L no_faults users u m now, users}"
  by (simp add: persist_snapshot_def delete_route_snapshot_def no_faults_def Let_def split: option.split)

lemma load_faults:
  assumes "\<not> rf_hget F"
  shows "fst (load_snapshot L F users u now) = fst (load_snapshot L no_faults users u now)"
    "live_leases L (snd (load_snapshot L F users u now)) u t = live_leases L users u t"
  using assms by (simp_all add: load_snapshot_def delete_route_snapshot_def no_faults_def live_leases_eq split: option.split)

lemma upsert_others_kept:
  assumes L: "route_json L" "stored_distinct L" and "locked replies" "trim (cfg_instance_id config) \<noteq> []"
    and u: "normalize_id u = Some u" and t: "now \<le> t" "now < lease_expiry config now"
    and F: "\<not> rf_hget F" and i: "i \<noteq> cfg_instance_id config"
  shows "live_leases L (upsert_local_route config L F replies now users u n) u t i = live_leases L users u t i"
proof -
  let ?i = "cfg_instance_id config"
  obtain m users' where load: "load_snapshot L F users u now = (m, users')" by (cases "load_snapshot L F users u now")
  have m: "distinct (map fst m)" "list_all (live now) m" "map_of (filter (live t) m) = live_leases L users u t"
    using loaded_distinct[OF L(2), of users u now] loaded_later[OF L(2) t(1), of users u]
      load_snapshot_live[of L F users u now] load load_faults(1)[OF F, of L users u now]
    by (simp_all add: list_all_iff) (metis filter_id_conv)
  define m' where "m' = (if n = 0 then AList.delete ?i m else AList.update ?i (own_lease config n now) m)"
  have "0 < n \<Longrightarrow> live now (?i, own_lease config n now)" using own_lease_live assms(4) t(2) by blast
  with m have m': "distinct (map fst m')" "list_all (live now) m'"
    unfolding m'_def by (auto simp: AList.distinct_update AList.distinct_delete list_all_update list_all_delete)
  have upsert: "upsert_local_route config L F replies now users u n = persist_snapshot L F users' u m' now"
    using assms(3) u load by (simp add: upsert_local_route_def m'_def)
  have "map_of (filter (live t) m') i = map_of (filter (live t) m) i"
    unfolding map_of_filter_distinct[OF m'(1)] map_of_filter_distinct[OF m(1)]
    using i by (simp add: m'_def AList.update_conv' AList.delete_conv')
  moreover have "live_leases L users' u t = live_leases L users u t"
    using load_faults(2)[OF F, of L users u now t] load by simp
  ultimately show ?thesis
    using persist_faults[of L F users' u m' now] persisted_leases[OF L(1) m' t(1), of users' u] m(3)
    by (auto simp: upsert)
qed

lemma upsert_unread:
  assumes L: "route_json L" and "locked replies" "trim (cfg_instance_id config) \<noteq> []"
    and u: "normalize_id u = Some u" and t: "now \<le> t" "now < lease_expiry config now"
    and F: "rf_hget F" "\<not> rf_hset F" "\<not> rf_hdel F" and i: "i \<noteq> cfg_instance_id config"
  shows "live_leases L (upsert_local_route config L F replies now users u n) u t i = None"
proof -
  let ?m = "if n = 0 then [] else [(cfg_instance_id config, own_lease config n now)]"
  have "upsert_local_route config L F replies now users u n = persist_snapshot L no_faults users u ?m now"
    using assms(2) u F by (simp add: upsert_local_route_def load_snapshot_def persist_snapshot_def delete_route_snapshot_def
        no_faults_def Let_def split: option.split)
  moreover have "list_all (live now) ?m" using own_lease_live[OF assms(3), of n now] t(2) by simp
  ultimately show ?thesis using persisted_leases[OF L _ _ t(1), of ?m users u] i by (simp split: if_splits)
qed

text \<open>A user of another hash field is not touched, and without the lock nothing is.\<close>

lemma upsert_other: "normalize_id u = Some u \<Longrightarrow> v \<noteq> u \<Longrightarrow> upsert_local_route config L F replies now users u n v = users v"
  by (auto simp: upsert_local_route_def persist_other load_other split: prod.split)
    (metis load_other snd_conv)

lemma upsert_unlocked: "\<not> locked replies \<Longrightarrow> upsert_local_route config L F replies now users u n = users"
  by (simp add: upsert_local_route_def split: option.split)

section \<open>The registry as the sessions see it\<close>

text \<open>
  The session tables only rely on this: writing the session count of a user makes the instance
  present for that user until the lease expires, or absent for the count zero, and leaves the
  other users alone.
\<close>

locale lease_registry =
  fixes upsert :: "'s \<Rightarrow> string \<Rightarrow> nat \<Rightarrow> int \<Rightarrow> 's"
    and present :: "'s \<Rightarrow> string \<Rightarrow> int \<Rightarrow> bool"
    and expiry :: "int \<Rightarrow> int"
    and user :: "string \<Rightarrow> bool"
  assumes present_upsert: "user u \<Longrightarrow> now \<le> t \<Longrightarrow> now < expiry now \<Longrightarrow>
      present (upsert s u n now) u t \<longleftrightarrow> 0 < n \<and> t < expiry now"
    and present_other: "user u \<Longrightarrow> u \<noteq> v \<Longrightarrow> present (upsert s u n now) v t \<longleftrightarrow> present s v t"
begin

lemma not_renewed:
  "list_all (\<lambda>(u, n). user u) counts \<Longrightarrow> v \<notin> fst ` set counts \<Longrightarrow>
     present (foldl (\<lambda>s (u, n). upsert s u n now) s counts) v t \<longleftrightarrow> present s v t"
  by (induction counts arbitrary: s) (auto simp: present_other)

lemma renewed:
  "list_all (\<lambda>(u, n). user u) counts \<Longrightarrow> distinct (map fst counts) \<Longrightarrow> (u, n) \<in> set counts \<Longrightarrow>
     now \<le> t \<Longrightarrow> now < expiry now \<Longrightarrow>
     present (foldl (\<lambda>s (u, n). upsert s u n now) s counts) u t \<longleftrightarrow> 0 < n \<and> t < expiry now"
proof (induction counts arbitrary: s)
  case Nil
  then show ?case by simp
next
  case (Cons c counts)
  obtain v m where c: "c = (v, m)" by (cases c)
  show ?case
  proof (cases "v = u")
    case True
    with Cons.prems c have "m = n" "u \<notin> fst ` set counts" by (auto simp: rev_image_eqI)
    with Cons.prems c True show ?thesis by (simp add: not_renewed present_upsert)
  next
    case False
    with Cons c show ?thesis by auto
  qed
qed

end

definition sound_registry :: "app_config \<Rightarrow> route_lib \<Rightarrow> lock_reply list \<Rightarrow> bool" where
  "sound_registry config L replies \<longleftrightarrow>
     route_json L \<and> stored_distinct L \<and> locked replies \<and> trim (cfg_instance_id config) \<noteq> []"

definition leased :: "app_config \<Rightarrow> route_lib \<Rightarrow> route_users \<Rightarrow> string \<Rightarrow> int \<Rightarrow> bool" where
  "leased config L users u t \<longleftrightarrow> live_leases L users u t (cfg_instance_id config) \<noteq> None"

interpretation registry: lease_registry
  "\<lambda>users u n now. upsert_local_route config L no_faults replies now users u n" "leased config L"
  "lease_expiry config" "\<lambda>u. sound_registry config L replies \<and> normalize_id u = Some u"
  for config L replies
proof
  show "leased config L (upsert_local_route config L no_faults replies now users u n) u t \<longleftrightarrow>
      0 < n \<and> t < lease_expiry config now"
    if "sound_registry config L replies \<and> normalize_id u = Some u" "now \<le> t" "now < lease_expiry config now"
    for u now t users n
    using upsert_leases[of L replies config u now t users n] that by (simp add: sound_registry_def leased_def)
  show "leased config L (upsert_local_route config L no_faults replies now users u n) v t \<longleftrightarrow> leased config L users v t"
    if "sound_registry config L replies \<and> normalize_id u = Some u" "u \<noteq> v" for u v users n now t
    using that upsert_other[of u v config L no_faults replies now users n]
    by (simp add: leased_def live_leases_eq)
qed

end
