(* ===== verification/Api_Auth_Types.thy ===== *)
theory Api_Auth_Types
  imports Api_Store Host_Libs Im_Routes
begin

text \<open>
  The records of \<open>api-server/src/auth_types.rs\<close> and the third-party code the api-server calls, as the
  record \<open>api_lib\<close>: cryptography, the JWT and JSON codecs, the text forms of times, the collation of
  the database. Derived readers and printers of the records are fields of it too.
\<close>

section \<open>Tokens\<close>

record token_pair =
  tp_access_token :: "string option"
  tp_refresh_token :: "string option"
  tp_expires_in_ms :: "int option"
  tp_refresh_expires_in_ms :: "int option"

record refresh_response =
  rp_expires_in_ms :: "int option"
  rp_refresh_expires_in_ms :: "int option"
  rp_authenticated :: bool

record token_parse_result =
  tr_valid :: bool
  tr_expired :: bool
  tr_error :: "string option"
  tr_user_id :: "int option"
  tr_username :: "string option"
  tr_token_type :: "string option"
  tr_jti :: "string option"
  tr_issued_at_epoch_ms :: "int option"
  tr_expires_at_epoch_ms :: "int option"
  tr_permissions :: "string list option"
  tr_remember_me :: bool

definition clear_identity :: "token_parse_result \<Rightarrow> token_parse_result" where
  "clear_identity r = r\<lparr>tr_user_id := None, tr_username := None, tr_token_type := None, tr_jti := None,
     tr_issued_at_epoch_ms := None, tr_expires_at_epoch_ms := None, tr_permissions := None\<rparr>"

text \<open>\<open>Default\<close>, with the error of a token that yields nothing.\<close>

definition token_error :: "string \<Rightarrow> token_parse_result" where
  "token_error e = \<lparr>tr_valid = False, tr_expired = False, tr_error = Some e, tr_user_id = None, tr_username = None,
     tr_token_type = None, tr_jti = None, tr_issued_at_epoch_ms = None, tr_expires_at_epoch_ms = None,
     tr_permissions = None, tr_remember_me = False\<rparr>"

record api_claims =
  jc_user_id :: int
  jc_username :: string
  jc_typ :: string
  jc_jti :: string
  jc_sub :: string
  jc_iat :: int
  jc_exp :: int
  jc_remember_me :: bool

section \<open>Users and permissions\<close>

record auth_introspect_result =
  in_valid :: bool
  in_expired :: bool
  in_user_id :: "int option"
  in_username :: "string option"
  in_issued_at_epoch_ms :: "int option"
  in_expires_at_epoch_ms :: "int option"
  in_jti :: "string option"
  in_user_info :: "(string \<times> json) list"
  in_resource_permissions :: "string list"
  in_data_scopes :: "(string \<times> json) list"

record user_resource =
  ur_user_id :: "int option"
  ur_username :: "string option"
  ur_user_info :: "(string \<times> json) list"
  ur_resource_permissions :: "string list"
  ur_data_scopes :: "(string \<times> json) list"

definition default_resource :: "int option \<Rightarrow> user_resource" where
  "default_resource user_id = \<lparr>ur_user_id = user_id, ur_username = None, ur_user_info = [],
     ur_resource_permissions = [], ur_data_scopes = []\<rparr>"

record issue_token_request =
  it_user_id :: "int option"
  it_username :: "string option"
  it_nickname :: "string option"
  it_avatar :: "string option"
  it_email :: "string option"
  it_phone :: "string option"
  it_permissions :: "string list"
  it_remember_me :: bool

record refresh_token_request =
  rq_refresh_token :: "string option"
  rq_access_token :: "string option"

record parse_token_request =
  pq_token :: "string option"
  pq_allow_expired :: "bool option"

record check_permission_request =
  cp_user_id :: "int option"
  cp_permission :: "string option"
  cp_resource :: "string option"
  cp_action :: "string option"

record permission_check_result =
  pc_user_id :: "int option"
  pc_permission :: "string option"
  pc_resource :: "string option"
  pc_action :: "string option"
  pc_granted :: bool
  pc_reason :: "string option"

record revoke_token_request =
  rv_token :: "string option"
  rv_reason :: "string option"

record token_revoke_result =
  rr_success :: bool
  rr_message :: "string option"
  rr_user_id :: "int option"
  rr_token_type :: "string option"

section \<open>Websocket tickets\<close>

record ws_ticket =
  wt_ticket :: "string option"
  wt_expires_in_ms :: "int option"

record consume_ticket_request =
  ct_ticket :: "string option"
  ct_user_id :: "int option"

record consume_ticket_result =
  tc_valid :: bool
  tc_status :: "string option"
  tc_user_id :: "int option"
  tc_username :: "string option"
  tc_error :: "string option"

section \<open>Identifiers as text\<close>

text \<open>\<open>deserialize_option_i64\<close>: a number out of range is nothing, a text that is no number an error.\<close>

fun api_option_i64 :: "json option \<Rightarrow> string + int option" where
  "api_option_i64 None = Inr None"
| "api_option_i64 (Some JNull) = Inr None"
| "api_option_i64 (Some (JInt i)) = Inr (i64_checked i)"
| "api_option_i64 (Some (JFloat _)) = Inr None"
| "api_option_i64 (Some (JStr s)) = (case parse_i64 (trim s) of Some i \<Rightarrow> Inr (Some i) | None \<Rightarrow> Inl ''invalid integer'')"
| "api_option_i64 (Some _) = Inl ''invalid integer''"

definition option_i64_as_string :: "int option \<Rightarrow> json" where
  "option_i64_as_string m = (case m of Some i \<Rightarrow> JStr (show_int i) | None \<Rightarrow> JNull)"

definition null_to_default :: "'a \<Rightarrow> 'a option \<Rightarrow> 'a" where
  "null_to_default d m = unwrap_or m d"

lemma option_i64_round_trip:
  "pred_option (\<lambda>i. - (2 ^ 63) \<le> i \<and> i < 2 ^ 63) m \<Longrightarrow> api_option_i64 (Some (option_i64_as_string m)) = Inr m"
  by (cases m) (auto simp: option_i64_as_string_def parse_i64_show plain_trimmed)

section \<open>Third-party code\<close>

text \<open>What a push carries.\<close>

datatype push_data = Push_message message_dto | Push_receipt read_receipt | Push_event im_event

record user_lease =
  ul_session_count :: int
  ul_expires_at_epoch_ms :: int
  ul_internal_http_url :: "string option"

text \<open>
  \<open>ap_access_claims now\<close> is the decoder that checks the expiry against the clock \<open>now\<close>, \<open>ap_jwt_decode\<close>
  the one that does not. \<open>ap_collate\<close> maps a text to what the collation of the database compares.
  The printers of messages, envelopes and events cannot fail; times are read and printed in milliseconds.
  \<open>ap_column_envelope\<close> is what the driver makes of a JSON column read as a text that holds an envelope,
  \<open>ap_varchar n s\<close> what a column of at most \<open>n\<close> characters keeps of \<open>s\<close>, when the database in its strict mode
  takes it; \<open>ap_chars\<close> counts the characters of a text. \<open>ap_bcrypt_hash\<close> is given a salt, \<open>ap_uuid_number\<close>
  reads a UUID as a number, \<open>ap_like\<close> matches a text with a pattern of \<open>LIKE\<close>, \<open>ap_date\<close> is what a column for
  dates keeps of a text, and \<open>ap_json_column\<close> what a JSON column gives back of a text, when they take it.
\<close>

record api_lib =
  ap_auth :: auth_lib
  ap_access_claims :: "int \<Rightarrow> string \<Rightarrow> bytes \<Rightarrow> claims option"
  ap_jwt_encode :: "api_claims \<Rightarrow> bytes \<Rightarrow> string option"
  ap_jwt_decode :: "string \<Rightarrow> bytes \<Rightarrow> api_claims option"
  ap_utf8 :: "bytes \<Rightarrow> string option"
  ap_utf8_lossy :: "string \<Rightarrow> string"
  ap_hex :: "bytes \<Rightarrow> string"
  ap_b64_encode :: "bytes \<Rightarrow> string"
  ap_b64_decode :: "string \<Rightarrow> bytes option"
  ap_json :: "string \<Rightarrow> json option"
  ap_print :: "json \<Rightarrow> string option"
  ap_rfc3339 :: "int \<Rightarrow> string"
  ap_time_text :: "int \<Rightarrow> string"
  ap_collate :: "string \<Rightarrow> string"
  ap_user_routes :: "string \<Rightarrow> (string \<times> user_lease) list option"
  ap_read_refresh :: "bytes \<Rightarrow> refresh_token_request option"
  ap_read_parse :: "bytes \<Rightarrow> parse_token_request option"
  ap_read_issue :: "bytes \<Rightarrow> issue_token_request option"
  ap_read_revoke :: "bytes \<Rightarrow> revoke_token_request option"
  ap_read_check :: "bytes \<Rightarrow> check_permission_request option"
  ap_read_consume :: "bytes \<Rightarrow> consume_ticket_request option"
  ap_read_resource :: "string \<Rightarrow> user_resource option"
  ap_print_resource :: "user_resource \<Rightarrow> string option"
  ap_parse_time :: "string \<Rightarrow> int option"
  ap_iso :: "int \<Rightarrow> string"
  ap_print_message :: "message_dto \<Rightarrow> string"
  ap_read_message :: "string \<Rightarrow> message_dto option"
  ap_print_event :: "im_event \<Rightarrow> string"
  ap_read_event :: "string \<Rightarrow> im_event option"
  ap_print_envelope :: "e2ee_envelope \<Rightarrow> string"
  ap_read_envelope :: "string \<Rightarrow> e2ee_envelope option"
  ap_print_receipt :: "read_receipt \<Rightarrow> string"
  ap_read_ids :: "string \<Rightarrow> int list option"
  ap_print_ids :: "int list \<Rightarrow> string"
  ap_column_envelope :: "string \<Rightarrow> e2ee_envelope option"
  ap_varchar :: "nat \<Rightarrow> string \<Rightarrow> string option"
  ap_chars :: "string \<Rightarrow> nat"
  ap_push_body :: "string \<Rightarrow> push_data \<Rightarrow> int list \<Rightarrow> bytes"
  ap_bcrypt_hash :: "bytes \<Rightarrow> string \<Rightarrow> string + string"
  ap_bcrypt_verify :: "string \<Rightarrow> string \<Rightarrow> bool option"
  ap_uuid_number :: "string \<Rightarrow> nat"
  ap_like :: "string \<Rightarrow> string \<Rightarrow> bool"
  ap_date :: "string \<Rightarrow> string option"
  ap_json_column :: "string \<Rightarrow> string option"

end
