(* ===== verification/Api_Auth.thy ===== *)
theory Api_Auth
  imports Api_Auth_Types
begin

text \<open>
  Who calls: \<open>api-server/src/auth.rs\<close> (the bearer token or cookie of a user), \<open>auth_helpers.rs\<close> (HMAC
  signatures between servers, cookies, small text helpers) and the check of internal signatures of
  \<open>auth_internal.rs\<close>. A handler starts with one of the two checks.
\<close>

section \<open>The caller of a user request\<close>

definition api_cookie_value :: "header_map \<Rightarrow> string \<Rightarrow> string option" where
  "api_cookie_value headers name =
     (case header_text headers ''cookie'' of
        None \<Rightarrow> None
      | Some raw \<Rightarrow> find_map (cookie_part name) (split_on CHR '';'' raw))"

definition auth_at :: "api_lib \<Rightarrow> int \<Rightarrow> auth_lib" where
  "auth_at L now = (ap_auth L)\<lparr>al_jwt_hs512 := ap_access_claims L now\<rparr>"

definition identity_from_headers :: "api_lib \<Rightarrow> int \<Rightarrow> header_map \<Rightarrow> api_config \<Rightarrow> api_error + identity" where
  "identity_from_headers L now headers config =
     (let bearer = Option.bind (header_text headers ''authorization'') (\<lambda>v. parse_bearer (Some v));
          token = (case bearer of Some t \<Rightarrow> Some t | None \<Rightarrow> api_cookie_value headers (ac_access_cookie_name config)) in
      case token of
        None \<Rightarrow> Inl (EUnauthorized ''TOKEN_EMPTY'')
      | Some token \<Rightarrow>
          (case validate_access_token (auth_at L now) token (ac_jwt_secret config) of
             Inl _ \<Rightarrow> Inl (EUnauthorized ''TOKEN_INVALID'')
           | Inr identity \<Rightarrow> Inr identity))"

definition is_gateway_whitelist :: "string \<Rightarrow> bool" where
  "is_gateway_whitelist path \<longleftrightarrow>
     list_ex (\<lambda>prefix. path = prefix \<or> starts_with (prefix @ ''/'') path)
       [''/actuator'', ''/health'', ''/ready'', ''/v3/api-docs'', ''/swagger-ui'', ''/swagger-ui.html'',
        ''/api/user/login'', ''/api/user/register'', ''/api/user/check-username'', ''/api/auth/refresh'',
        ''/api/auth/parse'']"

section \<open>Text helpers\<close>

definition normalize_bearer :: "string option \<Rightarrow> string option" where
  "normalize_bearer token =
     (case token of
        None \<Rightarrow> None
      | Some raw \<Rightarrow>
          let val = trim raw;
              val = (case Option.bind (strip_prefix [CHR 0x22] val) (strip_suffix [CHR 0x22]) of
                       Some unquoted \<Rightarrow> trim unquoted | None \<Rightarrow> val);
              val = (case strip_prefix ''Bearer '' val of Some rest \<Rightarrow> trim rest | None \<Rightarrow> val)
          in if val \<noteq> [] then Some val else None)"

definition body_text :: "api_lib \<Rightarrow> bytes \<Rightarrow> string" where
  "body_text L body = unwrap_or (normalize_bearer (ap_utf8 L body)) []"

definition optional_json :: "(bytes \<Rightarrow> 'a option) \<Rightarrow> 'a \<Rightarrow> bytes \<Rightarrow> api_error + 'a" where
  "optional_json read fallback body = (if body = [] then Inr fallback else ok_or ESerde (read body))"

definition required_json :: "(bytes \<Rightarrow> 'a option) \<Rightarrow> bytes \<Rightarrow> api_error + 'a" where
  "required_json read body = ok_or ESerde (read body)"

definition normalize_text :: "string option \<Rightarrow> string option" where
  "normalize_text raw = (case raw of Some v \<Rightarrow> if trim v \<noteq> [] then Some (trim v) else None | None \<Rightarrow> None)"

definition insert_value :: "(string \<times> json) list \<Rightarrow> string \<Rightarrow> json option \<Rightarrow> (string \<times> json) list" where
  "insert_value kvs key v = (case v of Some v \<Rightarrow> AList.update key v kvs | None \<Rightarrow> kvs)"

definition is_admin :: "api_config \<Rightarrow> issue_token_request \<Rightarrow> bool" where
  "is_admin config request \<longleftrightarrow>
     (case it_user_id request of
        None \<Rightarrow> False
      | Some user_id \<Rightarrow>
          let username = to_ascii_lowercase (trim (unwrap_or (it_username request) [])) in
          user_id \<in> set (ac_admin_user_ids config) \<or>
          username \<noteq> [] \<and> list_ex (\<lambda>configured. eq_ignore_ascii_case configured username) (ac_admin_usernames config))"

definition api_header_value :: "header_map \<Rightarrow> string \<Rightarrow> string option" where
  "api_header_value headers name =
     (case header_text headers name of Some v \<Rightarrow> if trim v \<noteq> [] then Some (trim v) else None | None \<Rightarrow> None)"

definition ttl_seconds_to_ms :: "nat \<Rightarrow> api_error + int" where
  "ttl_seconds_to_ms ttl =
     (if 2 ^ 63 \<le> ttl then Inl (EBadRequest ''ttl seconds is too large'')
      else ok_or (EBadRequest ''ttl milliseconds overflow'') (i64_checked (int ttl * 1000)))"

definition parse_ws_ticket_payload :: "string \<Rightarrow> (int \<times> string) option" where
  "parse_ws_ticket_payload payload =
     (case split_once CHR 0x0A payload of
        None \<Rightarrow> None
      | Some (user_id, username) \<Rightarrow> map_option (\<lambda>i. (i, trim username)) (parse_i64 (trim user_id)))"

section \<open>Signatures between servers\<close>

definition api_normalize_path :: "string \<Rightarrow> string" where
  "api_normalize_path path =
     (let without_query = hd (split_on CHR ''?'' path) in
      if starts_with ''/'' without_query then without_query else CHR ''/'' # without_query)"

definition internal_canonical :: "string \<Rightarrow> string \<Rightarrow> string \<Rightarrow> string \<Rightarrow> string \<Rightarrow> string" where
  "internal_canonical verb path body_hash ts nonce =
     ''method='' @ to_ascii_uppercase (trim verb) @ ''&path='' @ api_normalize_path path @ ''&bodyHash='' @ body_hash @
     ''&ts='' @ ts @ ''&nonce='' @ nonce"

definition api_sign_hmac :: "auth_lib \<Rightarrow> string \<Rightarrow> string \<Rightarrow> api_error + string" where
  "api_sign_hmac A secret canonical =
     and_then (ok_or (EBadRequest ''invalid hmac key: '') (al_hmac A (ascii secret) (ascii canonical)))
       (\<lambda>mac. Inr (al_b64url A mac))"

definition api_verify_hmac :: "auth_lib \<Rightarrow> string \<Rightarrow> string \<Rightarrow> string \<Rightarrow> api_error + bool" where
  "api_verify_hmac A secret canonical signature =
     and_then (api_sign_hmac A secret canonical) (\<lambda>expected. Inr (ascii expected = ascii signature))"

definition api_sha256_base64_url :: "auth_lib \<Rightarrow> bytes \<Rightarrow> string" where
  "api_sha256_base64_url A v = al_b64url A (al_sha256 A v)"

definition sha256_hex :: "api_lib \<Rightarrow> string \<Rightarrow> string" where
  "sha256_hex L v = ap_hex L (al_sha256 (ap_auth L) (ascii v))"

definition api_within_skew :: "int \<Rightarrow> int \<Rightarrow> int \<Rightarrow> bool" where
  "api_within_skew now timestamp_ms allowed_skew_ms =
     (case Option.bind (i64_checked (now - timestamp_ms)) (\<lambda>d. i64_checked \<bar>d\<bar>) of
        Some delta \<Rightarrow> delta \<le> allowed_skew_ms
      | None \<Rightarrow> False)"

definition header_entry :: "string \<Rightarrow> string \<Rightarrow> api_error + string \<times> string" where
  "header_entry name v = (if list_all visible_ascii v then Inr (name, v) else Inl (EBadRequest ''failed to parse header value''))"

definition api_internal_signature_headers ::
  "api_lib \<Rightarrow> int \<Rightarrow> string \<Rightarrow> string \<Rightarrow> string \<Rightarrow> bytes \<Rightarrow> api_config \<Rightarrow> api_error + (string \<times> string) list"
where
  "api_internal_signature_headers L now nonce verb path body config =
     (let ts = show_int now;
          canonical = internal_canonical verb path (api_sha256_base64_url (ap_auth L) body) ts nonce in
      and_then (api_sign_hmac (ap_auth L) (ac_internal_secret config) canonical) (\<lambda>signature.
      and_then (header_entry ''X-Internal-Timestamp'' ts) (\<lambda>h1.
      and_then (header_entry ''X-Internal-Nonce'' nonce) (\<lambda>h2.
      and_then (header_entry ''X-Internal-Signature'' signature) (\<lambda>h3. Inr [h1, h2, h3])))))"

definition or_internal_rejected :: "'a option \<Rightarrow> api_error + 'a" where
  "or_internal_rejected m = ok_or (EUnauthorized ''INTERNAL_AUTH_REJECTED'') m"

definition api_validate_internal_signature ::
  "api_lib \<Rightarrow> int \<Rightarrow> header_map \<Rightarrow> string \<Rightarrow> string \<Rightarrow> bytes \<Rightarrow> api_config \<Rightarrow> api_error + unit"
where
  "api_validate_internal_signature L now headers verb path body config =
     and_then (or_internal_rejected (case api_header_value headers ''X-Internal-Timestamp'' of
         Some v \<Rightarrow> Some v | None \<Rightarrow> api_header_value headers ''X-Internal-Ts'')) (\<lambda>ts.
     and_then (or_internal_rejected (api_header_value headers ''X-Internal-Nonce'')) (\<lambda>nonce.
     and_then (or_internal_rejected (api_header_value headers ''X-Internal-Signature'')) (\<lambda>signature.
     and_then (or_internal_rejected (parse_i64 ts)) (\<lambda>timestamp.
       if \<not> api_within_skew now timestamp (ac_internal_max_skew_ms config)
       then Inl (EUnauthorized ''INTERNAL_AUTH_REJECTED'')
       else
         let canonical = internal_canonical verb path (api_sha256_base64_url (ap_auth L) body) ts nonce in
         and_then (api_verify_hmac (ap_auth L) (ac_internal_secret config) canonical signature) (\<lambda>ok.
           if ok then Inr () else Inl (EUnauthorized ''INTERNAL_AUTH_REJECTED''))))))"

section \<open>Cookies\<close>

definition api_normalize_cookie_path :: "string \<Rightarrow> string" where
  "api_normalize_cookie_path path = (if starts_with ''/'' (trim path) then trim path else ''/'')"

definition api_normalize_same_site :: "string \<Rightarrow> string" where
  "api_normalize_same_site v = (if trim v = [] then ''Lax'' else trim v)"

definition append_cookie ::
  "header_map \<Rightarrow> string \<Rightarrow> string \<Rightarrow> int \<Rightarrow> string \<Rightarrow> string \<Rightarrow> bool \<Rightarrow> api_error + header_map"
where
  "append_cookie headers name v max_age_ms path same_site secure =
     (let max_age = (if max_age_ms \<le> 0 then - 1 else max_age_ms div 1000);
          secure_attr = (if secure then ''; Secure'' else []);
          cookie = name @ ''='' @ v @ ''; Max-Age='' @ show_int max_age @ ''; Path='' @ api_normalize_cookie_path path @
            ''; HttpOnly; SameSite='' @ api_normalize_same_site same_site @ secure_attr in
      and_then (header_entry ''set-cookie'' cookie) (\<lambda>h. Inr (headers @ [h])))"

definition expire_cookie :: "header_map \<Rightarrow> string \<Rightarrow> bool \<Rightarrow> header_map" where
  "expire_cookie headers name secure =
     (let secure_attr = (if secure then ''; Secure'' else []) in
      case header_entry ''set-cookie'' (name @ ''=; Max-Age=0; Path=/; HttpOnly; SameSite=Lax'' @ secure_attr) of
        Inr h \<Rightarrow> headers @ [h]
      | Inl _ \<Rightarrow> headers)"

definition resolve_cookie_secure :: "api_config \<Rightarrow> header_map \<Rightarrow> bool" where
  "resolve_cookie_secure config request_headers =
     (let c = to_ascii_lowercase (trim (ac_auth_cookie_secure config)) in
      if c = ''true'' then True
      else if c = ''auto'' then
        (case header_text request_headers ''x-forwarded-proto'' of
           Some v \<Rightarrow> eq_ignore_ascii_case v ''https'' | None \<Rightarrow> False)
      else False)"

definition resolve_ws_ticket_cookie_secure :: "api_config \<Rightarrow> bool" where
  "resolve_ws_ticket_cookie_secure config \<longleftrightarrow> to_ascii_lowercase (trim (ac_ws_ticket_cookie_secure config)) = ''true''"

definition append_auth_cookies ::
  "header_map \<Rightarrow> api_config \<Rightarrow> token_pair \<Rightarrow> header_map \<Rightarrow> api_error + header_map"
where
  "append_auth_cookies response_headers config pair request_headers =
     (let secure = resolve_cookie_secure config request_headers in
      and_then (case tp_access_token pair of
          Some access \<Rightarrow> append_cookie response_headers (ac_access_cookie_name config) access
            (unwrap_or (tp_expires_in_ms pair) 0) ''/'' (ac_auth_cookie_same_site config) secure
        | None \<Rightarrow> Inr response_headers) (\<lambda>response_headers.
      case tp_refresh_token pair of
        Some refresh \<Rightarrow> append_cookie response_headers (ac_refresh_cookie_name config) refresh
          (unwrap_or (tp_refresh_expires_in_ms pair) 0) ''/'' (ac_auth_cookie_same_site config) secure
      | None \<Rightarrow> Inr response_headers))"

definition expire_auth_cookies :: "header_map \<Rightarrow> api_config \<Rightarrow> header_map \<Rightarrow> header_map" where
  "expire_auth_cookies response_headers config request_headers =
     (let secure = resolve_cookie_secure config request_headers in
      expire_cookie (expire_cookie (expire_cookie response_headers (ac_access_cookie_name config) secure)
        (ac_refresh_cookie_name config) secure) (ac_ws_ticket_cookie_name config) secure)"

end
