(* ===== verification/Api_Negotiation.thy ===== *)
theory Api_Negotiation
  imports Api_Auth
begin

text \<open>
  Negotiation of end-to-end encryption between two users: \<open>e2ee/session_types.rs\<close>, \<open>session_helpers.rs\<close>
  (who takes part, how the other side is told) and \<open>session_negotiation.rs\<close> (request, accept, reject,
  disable, and two queries) of the api-server, with the reading of routes in \<open>route.rs\<close>. Every SQL
  statement, Redis command and HTTP request is one access, so handlers can interleave between them.
\<close>

section \<open>Requests and events\<close>

record session_request =
  sq_session_id :: string
  sq_identity_key :: "string option"
  sq_signed_pre_key :: "string option"
  sq_payload :: "string option"

record pending_session =
  pd_session_id :: string
  pd_requester_id :: string
  pd_requester_name :: string
  pd_target_user_id :: string
  pd_payload :: "string option"

record negotiation_push =
  np_action :: string
  np_session_id :: string
  np_requester_id :: string
  np_requester_name :: string
  np_target_user_id :: string
  np_payload :: "string option"
  np_updated_time :: "string option"
  np_state_version :: "int option"

record negotiation_status =
  ns_session_id :: string
  ns_status :: string
  ns_requester_id :: "string option"
  ns_target_user_id :: "string option"
  ns_updated_time :: "string option"
  ns_state_version :: int

definition json_opt :: "string option \<Rightarrow> json" where
  "json_opt m = (case m of Some s \<Rightarrow> JStr s | None \<Rightarrow> JNull)"

definition negotiation_push_json :: "negotiation_push \<Rightarrow> json" where
  "negotiation_push_json p = JObj [(''action'', JStr (np_action p)), (''sessionId'', JStr (np_session_id p)),
     (''requesterId'', JStr (np_requester_id p)), (''requesterName'', JStr (np_requester_name p)),
     (''targetUserId'', JStr (np_target_user_id p)), (''requestPayloadJson'', json_opt (np_payload p)),
     (''updatedTime'', json_opt (np_updated_time p)),
     (''stateVersion'', case np_state_version p of Some v \<Rightarrow> JInt v | None \<Rightarrow> JNull)]"

definition push_batch_json :: "int list \<Rightarrow> string \<Rightarrow> json \<Rightarrow> json" where
  "push_batch_json user_ids kind data =
     JObj [(''userIds'', JArr (map JInt user_ids)), (''type'', JStr kind), (''data'', data)]"

section \<open>Validation\<close>

definition quoted :: "string \<Rightarrow> string" where
  "quoted s = CHR 0x27 # s @ [CHR 0x27]"

definition validate_session_id :: "string \<Rightarrow> api_error + unit" where
  "validate_session_id session_id =
     (if session_id = [] \<or> 64 < length session_id then Inl (EBadRequest ''invalid session_id'') else Inr ())"

definition validate_optional_key :: "string option \<Rightarrow> string \<Rightarrow> api_error + unit" where
  "validate_optional_key v field_name =
     (case v of
        Some k \<Rightarrow> if k = [] \<or> 1000 < length k then Inl (EBadRequest (''invalid '' @ field_name)) else Inr ()
      | None \<Rightarrow> Inr ())"

definition is_text :: "json option \<Rightarrow> bool" where
  "is_text v \<longleftrightarrow> (case v of Some (JStr s) \<Rightarrow> trim s \<noteq> [] | _ \<Rightarrow> False)"

definition is_scalar :: "json option \<Rightarrow> bool" where
  "is_scalar v \<longleftrightarrow> is_text v \<or> (case v of Some (JInt _) \<Rightarrow> True | Some (JFloat _) \<Rightarrow> True | _ \<Rightarrow> False)"

definition validate_request_payload_json :: "api_lib \<Rightarrow> string option \<Rightarrow> api_error + unit" where
  "validate_request_payload_json L payload =
     (case payload of
        None \<Rightarrow> Inr ()
      | Some payload \<Rightarrow>
          if trim payload = [] then Inr ()
          else if 16 * 1024 < length payload then Inl (EBadRequest ''request_payload_json too large'')
          else
            (case ap_json L payload of
               None \<Rightarrow> Inl (EBadRequest ''request_payload_json is not valid JSON'')
             | Some (JObj kvs) \<Rightarrow>
                 (case find (\<lambda>f. map_of kvs f = None) [''version'', ''ephemeralPublicKey'', ''ciphertext''] of
                    Some f \<Rightarrow> Inl (EBadRequest (''request_payload_json missing required field '' @ quoted f))
                  | None \<Rightarrow>
                      (case find (\<lambda>f. \<not> is_text (map_of kvs f)) [''ephemeralPublicKey'', ''ciphertext''] of
                         Some f \<Rightarrow> Inl (EBadRequest (''request_payload_json field '' @ quoted f @ '' must be a non-empty string''))
                       | None \<Rightarrow>
                           if is_scalar (map_of kvs ''version'') then Inr ()
                           else Inl (EBadRequest (''request_payload_json field '' @ quoted ''version'' @ '' must be a non-empty scalar''))))
             | Some _ \<Rightarrow> Inl (EBadRequest ''request_payload_json must be a JSON object'')))"

section \<open>Who takes part\<close>

definition parse_session_partners :: "string \<Rightarrow> api_error + int \<times> int" where
  "parse_session_partners session_id =
     (case strip_prefix ''p_'' session_id of
        None \<Rightarrow> Inl (EBadRequest (''session_id must be in format '' @ quoted ''p_{id_a}_{id_b}''))
      | Some normalized \<Rightarrow>
          (case split_on CHR ''_'' normalized of
             [a, b] \<Rightarrow>
               and_then (ok_or (EBadRequest ''invalid user id in session_id'') (parse_i64 a)) (\<lambda>id_a.
               and_then (ok_or (EBadRequest ''invalid user id in session_id'') (parse_i64 b)) (\<lambda>id_b.
                 if id_a = id_b then Inl (EBadRequest ''session_id must reference two different users'')
                 else Inr (id_a, id_b)))
           | _ \<Rightarrow> Inl (EBadRequest (''session_id must be in format '' @ quoted ''p_{id_a}_{id_b}''))))"

definition ensure_friendship_exists :: "int \<Rightarrow> int \<Rightarrow> unit api" where
  "ensure_friendship_exists user_id peer_user_id =
     act_then (sql_query (\<lambda>w. count_where (\<lambda>r. fr_status r = 1 \<and>
         (fr_user_id r = user_id \<and> fr_friend_id r = peer_user_id \<or>
          fr_user_id r = peer_user_id \<and> fr_friend_id r = user_id)) (aw_friends w))) (\<lambda>n.
       act_check (2 \<le> n) (EForbidden ''not a friend or private conversation does not exist''))"

definition ensure_e2ee_session_participant :: "int \<Rightarrow> string \<Rightarrow> int api" where
  "ensure_e2ee_session_participant caller session_id =
     act_then (Ret (parse_session_partners session_id)) (\<lambda>(id_a, id_b).
     act_then (act_check (caller = id_a \<or> caller = id_b) (EForbidden ''not a session participant'')) (\<lambda>_.
       let peer = (if caller = id_a then id_b else id_a) in
       act_then (ensure_friendship_exists caller peer) (\<lambda>_. act_ok peer)))"

definition load_negotiation_state :: "api_lib \<Rightarrow> string \<Rightarrow> session_row option api" where
  "load_negotiation_state L session_id =
     sql_query (\<lambda>w. row_of (\<lambda>r. ap_collate L (se_session_id r)) (ap_collate L session_id) (aw_sessions w))"

text \<open>\<open>COALESCE(NULLIF(nickname, ''), username)\<close>.\<close>

definition display_name :: "user_row \<Rightarrow> string" where
  "display_name u = (case us_nickname u of Some n \<Rightarrow> if n \<noteq> [] then n else us_username u | None \<Rightarrow> us_username u)"

definition resolve_user_display_name :: "int \<Rightarrow> string option api" where
  "resolve_user_display_name user_id = sql_query (\<lambda>w. map_option display_name (row_of us_id user_id (aw_users w)))"

section \<open>Telling the other side\<close>

record user_route =
  ux_server_id :: string
  ux_internal_http_url :: string
  ux_expires_at_epoch_ms :: int

definition api_extract_json_object :: "api_lib \<Rightarrow> string \<Rightarrow> string option" where
  "api_extract_json_object L b =
     (let str = ap_utf8_lossy L b in
      case position (\<lambda>c. c = CHR 0x7B) str of
        None \<Rightarrow> None
      | Some start \<Rightarrow>
          (case position (\<lambda>c. c = CHR 0x7D) (rev str) of
             None \<Rightarrow> None
           | Some back \<Rightarrow>
               let stop = length str - 1 - back in
               if stop < start then None else Some (take (stop - start + 1) (drop start str))))"

definition parse_user_routes :: "api_lib \<Rightarrow> int \<Rightarrow> string option \<Rightarrow> api_config \<Rightarrow> user_route list" where
  "parse_user_routes L now raw config =
     (case Option.bind raw (api_extract_json_object L) of
        None \<Rightarrow> []
      | Some str \<Rightarrow>
          (case ap_user_routes L str of
             None \<Rightarrow> []
           | Some snapshot \<Rightarrow>
               List.map_filter (\<lambda>(server_id, lease).
                 if ul_session_count lease \<le> 0 \<or> ul_expires_at_epoch_ms lease \<le> now then None
                 else Some \<lparr>ux_server_id = server_id,
                   ux_internal_http_url = (case ul_internal_http_url lease of
                     Some v \<Rightarrow> if trim v \<noteq> [] then v else ac_im_server_url config | None \<Rightarrow> ac_im_server_url config),
                   ux_expires_at_epoch_ms = ul_expires_at_epoch_ms lease\<rparr>) snapshot))"

definition api_trim_end_slashes :: "string \<Rightarrow> string" where
  "api_trim_end_slashes s = rev (dropWhile (\<lambda>c. c = CHR ''/'') (rev s))"

definition signed_post :: "api_lib \<Rightarrow> api_config \<Rightarrow> string \<Rightarrow> bytes \<Rightarrow> user_route \<Rightarrow> unit api" where
  "signed_post L config path body route =
     act_then now_ms (\<lambda>now.
     act_then new_uuid (\<lambda>nonce.
     act_then (Ret (api_internal_signature_headers L now nonce ''POST'' path body config)) (\<lambda>hs.
       http_send \<lparr>hp_url = api_trim_end_slashes (ux_internal_http_url route) @ path,
         hp_headers = hs @ [(''Content-Type'', ''application/json'')], hp_body = body\<rparr>)))"

definition push_negotiation_event :: "api_lib \<Rightarrow> api_config \<Rightarrow> int \<Rightarrow> negotiation_push \<Rightarrow> unit api" where
  "push_negotiation_event L config user_id payload =
     act_then (redis_hget (ac_route_users_key config) (show_int user_id)) (\<lambda>raw.
     act_then now_ms (\<lambda>now.
       let routes = parse_user_routes L now raw config in
       if routes = [] then act_ok ()
       else
         act_then (Ret (ok_or ESerde (ap_print L
             (push_batch_json [user_id] ''E2EE_NEGOTIATION'' (negotiation_push_json payload))))) (\<lambda>body.
         act_then (act_each (signed_post L config ''/api/im/internal/push/batch'' (ascii body)) routes) (\<lambda>_.
           act_ok ()))))"

section \<open>Statements on the table\<close>

text \<open>
  An update of the row of a session that satisfies a condition; \<open>state_version\<close> is an \<open>INT\<close>, whose
  overflow is an error of the statement. The result is the number of rows that were found.
\<close>

definition sessions_update ::
  "api_lib \<Rightarrow> string \<Rightarrow> (session_row \<Rightarrow> bool) \<Rightarrow> (int \<Rightarrow> session_row \<Rightarrow> session_row) \<Rightarrow> nat api"
where
  "sessions_update L session_id p f = sql_execute (\<lambda>w.
     let hit = (\<lambda>r. ap_collate L (se_session_id r) = ap_collate L session_id \<and> p r);
         rows = update_where hit (f (sql_now w)) (aw_sessions w) in
     if list_all (\<lambda>r. se_state_version r < 2 ^ 31) rows
     then (Inr (count_where hit (aw_sessions w)), w\<lparr>aw_sessions := rows\<rparr>)
     else (Inl ESqlx, w))"

definition sessions_insert :: "api_lib \<Rightarrow> (int \<Rightarrow> session_row) \<Rightarrow> unit api" where
  "sessions_insert L new = sql_execute (\<lambda>w.
     let r = new (sql_now w) in
     if \<exists>s \<in> set (aw_sessions w). ap_collate L (se_session_id s) = ap_collate L (se_session_id r)
     then (Inl ESqlx, w)
     else (Inr (), w\<lparr>aw_sessions := aw_sessions w @ [r]\<rparr>))"

definition set_payload :: "string option \<Rightarrow> int \<Rightarrow> session_row \<Rightarrow> session_row" where
  "set_payload payload now r = r\<lparr>se_payload := payload, se_updated_time := now\<rparr>"

definition set_pending :: "int \<Rightarrow> int \<Rightarrow> string option \<Rightarrow> int \<Rightarrow> session_row \<Rightarrow> session_row" where
  "set_pending requester target payload now r = r\<lparr>se_requester_id := requester, se_target_user_id := target,
     se_status := ''pending'', se_payload := payload, se_state_version := se_state_version r + 1, se_updated_time := now\<rparr>"

definition set_status :: "string \<Rightarrow> int \<Rightarrow> session_row \<Rightarrow> session_row" where
  "set_status status now r =
     r\<lparr>se_status := status, se_state_version := se_state_version r + 1, se_updated_time := now\<rparr>"

definition set_plaintext :: "int \<Rightarrow> int \<Rightarrow> session_row \<Rightarrow> session_row" where
  "set_plaintext user_id now r = r\<lparr>se_status := ''plaintext'', se_payload := None, se_disabled_by := Some user_id,
     se_disabled_at := Some now, se_state_version := se_state_version r + 1, se_updated_time := now\<rparr>"

definition new_session :: "string \<Rightarrow> int \<Rightarrow> int \<Rightarrow> string \<Rightarrow> string option \<Rightarrow> int option \<Rightarrow> int \<Rightarrow> session_row" where
  "new_session session_id requester target status payload disabled_by now =
     \<lparr>se_session_id = session_id, se_requester_id = requester, se_target_user_id = target, se_status = status,
      se_payload = payload, se_state_version = 1, se_disabled_by = disabled_by,
      se_disabled_at = map_option (\<lambda>_. now) disabled_by, se_updated_time = now\<rparr>"

section \<open>Handlers\<close>

text \<open>The checks a handler begins with.\<close>

definition caller_of :: "api_lib \<Rightarrow> api_config \<Rightarrow> header_map \<Rightarrow> identity api" where
  "caller_of L config headers = act_then now_ms (\<lambda>now. Ret (identity_from_headers L now headers config))"

text \<open>The version and time after a change, and the name the event shows.\<close>

definition reloaded :: "api_lib \<Rightarrow> string \<Rightarrow> int \<Rightarrow> (int \<times> string option) api" where
  "reloaded L session_id fallback =
     act_then (load_negotiation_state L session_id) (\<lambda>row.
       act_ok (case row of Some r \<Rightarrow> (se_state_version r, Some (ap_rfc3339 L (se_updated_time r))) | None \<Rightarrow> (fallback, None)))"

definition shown_name :: "identity \<Rightarrow> string api" where
  "shown_name caller =
     act_then (resolve_user_display_name (id_user_id caller)) (\<lambda>name. act_ok (unwrap_or name (id_username caller)))"

definition renew_request :: "api_lib \<Rightarrow> api_config \<Rightarrow> identity \<Rightarrow> int \<Rightarrow> session_request \<Rightarrow> string api" where
  "renew_request L config caller peer request =
     act_then (sessions_update L (sq_session_id request) (\<lambda>_. True) (set_payload (sq_payload request))) (\<lambda>_.
     act_then (reloaded L (sq_session_id request) 1) (\<lambda>(version, time).
     act_then (shown_name caller) (\<lambda>name.
     act_then (act_try (push_negotiation_event L config peer
         \<lparr>np_action = ''request'', np_session_id = sq_session_id request, np_requester_id = show_int (id_user_id caller),
          np_requester_name = name, np_target_user_id = show_int peer, np_payload = sq_payload request,
          np_updated_time = time, np_state_version = Some version\<rparr>)) (\<lambda>_. act_ok ''ok''))))"

definition new_request ::
  "api_lib \<Rightarrow> api_config \<Rightarrow> identity \<Rightarrow> int \<Rightarrow> bool \<Rightarrow> session_request \<Rightarrow> string api"
where
  "new_request L config caller peer exists request =
     act_then (if exists
       then act_then (sessions_update L (sq_session_id request) (\<lambda>_. True)
              (set_pending (id_user_id caller) peer (sq_payload request))) (\<lambda>_. act_ok ())
       else sessions_insert L (new_session (sq_session_id request) (id_user_id caller) peer ''pending''
              (sq_payload request) None)) (\<lambda>_.
     act_then (reloaded L (sq_session_id request) 1) (\<lambda>(version, time).
     act_then (shown_name caller) (\<lambda>name.
     act_then (act_try (push_negotiation_event L config peer
         \<lparr>np_action = ''request'', np_session_id = sq_session_id request, np_requester_id = show_int (id_user_id caller),
          np_requester_name = name, np_target_user_id = show_int peer, np_payload = sq_payload request,
          np_updated_time = time, np_state_version = Some version\<rparr>)) (\<lambda>_. act_ok ''ok''))))"

definition request_encryption :: "api_lib \<Rightarrow> api_config \<Rightarrow> header_map \<Rightarrow> session_request \<Rightarrow> string api" where
  "request_encryption L config headers request =
     act_then (caller_of L config headers) (\<lambda>caller.
     act_then (Ret (validate_session_id (sq_session_id request))) (\<lambda>_.
     act_then (Ret (validate_optional_key (sq_identity_key request) ''identity_key'')) (\<lambda>_.
     act_then (Ret (validate_optional_key (sq_signed_pre_key request) ''signed_pre_key'')) (\<lambda>_.
     act_then (Ret (validate_request_payload_json L (sq_payload request))) (\<lambda>_.
     act_then (ensure_e2ee_session_participant (id_user_id caller) (sq_session_id request)) (\<lambda>peer.
     act_then (load_negotiation_state L (sq_session_id request)) (\<lambda>existing.
       case existing of
         None \<Rightarrow> new_request L config caller peer False request
       | Some row \<Rightarrow>
           let status = se_status row in
           if status = ''encrypted'' then act_err (EConflict ''session already encrypted; use rotate to renegotiate'')
           else if status = ''pending'' \<and> se_requester_id row = id_user_id caller
           then renew_request L config caller peer request
           else if status = ''pending'' then act_err (EConflict ''pending request already exists'')
           else if status = ''rejected'' \<or> status = ''plaintext'' then new_request L config caller peer True request
           else act_err (EConflict (''cannot request encryption in '' @ quoted status @ '' state'')))))))))"

definition pending_encryption_requests :: "api_lib \<Rightarrow> api_config \<Rightarrow> header_map \<Rightarrow> pending_session list api" where
  "pending_encryption_requests L config headers =
     act_then (caller_of L config headers) (\<lambda>caller.
     act_then (sql_query (\<lambda>w. take 20 (sort_key (\<lambda>r. - se_updated_time r)
         (filter (\<lambda>r. se_target_user_id r = id_user_id caller \<and> se_status r = ''pending'') (aw_sessions w))))) (\<lambda>rows.
       act_each (\<lambda>row.
         act_then (resolve_user_display_name (se_requester_id row)) (\<lambda>name.
           act_ok \<lparr>pd_session_id = se_session_id row, pd_requester_id = show_int (se_requester_id row),
             pd_requester_name = unwrap_or name (show_int (se_requester_id row)),
             pd_target_user_id = show_int (se_target_user_id row), pd_payload = se_payload row\<rparr>)) rows))"

definition get_encryption_status :: "api_lib \<Rightarrow> api_config \<Rightarrow> header_map \<Rightarrow> string \<Rightarrow> negotiation_status api" where
  "get_encryption_status L config headers session_id =
     act_then (caller_of L config headers) (\<lambda>caller.
     act_then (Ret (validate_session_id session_id)) (\<lambda>_.
     act_then (ensure_e2ee_session_participant (id_user_id caller) session_id) (\<lambda>_.
     act_then (load_negotiation_state L session_id) (\<lambda>row.
       act_ok (case row of
         Some r \<Rightarrow> \<lparr>ns_session_id = session_id, ns_status = se_status r, ns_requester_id = Some (show_int (se_requester_id r)),
           ns_target_user_id = Some (show_int (se_target_user_id r)),
           ns_updated_time = Some (ap_rfc3339 L (se_updated_time r)), ns_state_version = se_state_version r\<rparr>
       | None \<Rightarrow> \<lparr>ns_session_id = session_id, ns_status = ''plaintext'', ns_requester_id = None, ns_target_user_id = None,
           ns_updated_time = None, ns_state_version = 0\<rparr>)))))"

text \<open>What accepting and rejecting have in common after the status has been checked.\<close>

definition answer_request ::
  "api_lib \<Rightarrow> api_config \<Rightarrow> string \<Rightarrow> string \<Rightarrow> session_request \<Rightarrow> session_row \<Rightarrow> string api"
where
  "answer_request L config status action request row =
     act_then (sessions_update L (sq_session_id request) (\<lambda>r. se_status r = ''pending'') (set_status status)) (\<lambda>affected.
     act_then (act_check (affected = 1) (EConflict ''session state changed, retry'')) (\<lambda>_.
     act_then (reloaded L (sq_session_id request) (wrap_i32 (se_state_version row + 1))) (\<lambda>(version, time).
     act_then (act_try (push_negotiation_event L config (se_requester_id row)
         \<lparr>np_action = action, np_session_id = sq_session_id request, np_requester_id = show_int (se_requester_id row),
          np_requester_name = [], np_target_user_id = show_int (se_target_user_id row), np_payload = None,
          np_updated_time = time, np_state_version = Some version\<rparr>)) (\<lambda>_. act_ok ''ok''))))"

definition accept_encryption :: "api_lib \<Rightarrow> api_config \<Rightarrow> header_map \<Rightarrow> session_request \<Rightarrow> string api" where
  "accept_encryption L config headers request =
     act_then (caller_of L config headers) (\<lambda>caller.
     act_then (Ret (validate_session_id (sq_session_id request))) (\<lambda>_.
     act_then (Ret (validate_optional_key (sq_signed_pre_key request) ''signed_pre_key'')) (\<lambda>_.
     act_then (ensure_e2ee_session_participant (id_user_id caller) (sq_session_id request)) (\<lambda>_.
     act_then (load_negotiation_state L (sq_session_id request)) (\<lambda>row.
     act_then (Ret (ok_or (ENotFound ''session not found'') row)) (\<lambda>row.
     act_then (act_check (id_user_id caller = se_target_user_id row) (EForbidden ''only target user can accept'')) (\<lambda>_.
       let status = se_status row in
       if status = ''pending'' then answer_request L config ''encrypted'' ''accepted'' request row
       else if status = ''encrypted'' then act_err (EConflict ''session is already encrypted'')
       else act_err (EConflict (''cannot accept session in '' @ quoted status @ '' state'')))))))))"

definition reject_encryption :: "api_lib \<Rightarrow> api_config \<Rightarrow> header_map \<Rightarrow> session_request \<Rightarrow> string api" where
  "reject_encryption L config headers request =
     act_then (caller_of L config headers) (\<lambda>caller.
     act_then (Ret (validate_session_id (sq_session_id request))) (\<lambda>_.
     act_then (ensure_e2ee_session_participant (id_user_id caller) (sq_session_id request)) (\<lambda>_.
     act_then (load_negotiation_state L (sq_session_id request)) (\<lambda>row.
     act_then (Ret (ok_or (ENotFound ''session not found'') row)) (\<lambda>row.
     act_then (act_check (id_user_id caller = se_target_user_id row) (EForbidden ''only target user can reject'')) (\<lambda>_.
       let status = se_status row in
       if status = ''pending'' then answer_request L config ''rejected'' ''rejected'' request row
       else if status = ''encrypted'' then act_err (EConflict ''cannot reject an encrypted session; use disable to exit'')
       else act_err (EConflict (''cannot reject session in '' @ quoted status @ '' state''))))))))"

definition push_disabled ::
  "api_lib \<Rightarrow> api_config \<Rightarrow> identity \<Rightarrow> int \<Rightarrow> string \<Rightarrow> int \<times> string option \<Rightarrow> string api"
where
  "push_disabled L config caller peer session_id = (\<lambda>(version, time).
     act_then (shown_name caller) (\<lambda>name.
     act_then (act_try (push_negotiation_event L config peer
         \<lparr>np_action = ''disabled'', np_session_id = session_id, np_requester_id = show_int (id_user_id caller),
          np_requester_name = name, np_target_user_id = show_int peer, np_payload = None,
          np_updated_time = time, np_state_version = Some version\<rparr>)) (\<lambda>_. act_ok ''ok'')))"

definition disable_encryption :: "api_lib \<Rightarrow> api_config \<Rightarrow> header_map \<Rightarrow> session_request \<Rightarrow> string api" where
  "disable_encryption L config headers request =
     act_then (caller_of L config headers) (\<lambda>caller.
     act_then (Ret (validate_session_id (sq_session_id request))) (\<lambda>_.
     act_then (ensure_e2ee_session_participant (id_user_id caller) (sq_session_id request)) (\<lambda>peer.
     act_then (load_negotiation_state L (sq_session_id request)) (\<lambda>existing.
       let me = id_user_id caller; finish = push_disabled L config caller peer (sq_session_id request) in
       case existing of
         Some row \<Rightarrow>
           let status = se_status row in
           if status \<in> {''encrypted'', ''pending'', ''rejected''} then
             act_then (sessions_update L (sq_session_id request) (\<lambda>_. True) (set_plaintext me)) (\<lambda>affected.
             act_then (act_check (affected = 1) (EConflict ''session state changed, retry'')) (\<lambda>_.
             act_then (reloaded L (sq_session_id request) 1) finish))
           else if status = ''plaintext'' then finish (se_state_version row, None)
           else act_err (EConflict (''cannot disable session in '' @ quoted status @ '' state''))
       | None \<Rightarrow>
           act_then (sessions_insert L (new_session (sq_session_id request) me peer ''plaintext'' None (Some me))) (\<lambda>_.
           act_then (reloaded L (sq_session_id request) 1) finish)))))"

end
