(* ===== verification/Api_Keys.thy ===== *)
theory Api_Keys
  imports Api_Negotiation
begin

text \<open>
  The key directory of the api-server (\<open>e2ee/key_types.rs\<close>, \<open>key_helpers.rs\<close>, \<open>key_bundle.rs\<close>,
  \<open>key_device.rs\<close>, \<open>key_backup.rs\<close>, \<open>cleanup.rs\<close>): devices publish their keys, others claim one-time
  pre-keys, users keep an encrypted backup. A transaction is one access: it takes the locks of the
  rows it reads for update before it writes. Where a statement takes any one row, the model takes the
  first of the table.
\<close>

section \<open>Requests and answers\<close>

record pre_key_entry =
  pe_id :: int
  pe_key :: string

record pre_key_signature_entry =
  ps_id :: int
  ps_signature :: string

record upload_bundle_request =
  ub_device_id :: string
  ub_identity_key :: string
  ub_signing_identity_key :: string
  ub_signed_pre_key :: string
  ub_signed_pre_key_signature :: string
  ub_one_time_pre_keys :: "pre_key_entry list"
  ub_one_time_pre_key_signatures :: "pre_key_signature_entry list"

record bundle_dto =
  bd_user_id :: string
  bd_device_id :: string
  bd_identity_key :: string
  bd_signing_identity_key :: string
  bd_signed_pre_key :: string
  bd_signed_pre_key_signature :: string
  bd_one_time_pre_key :: "string option"
  bd_one_time_pre_key_id :: "int option"
  bd_one_time_pre_key_signature :: "string option"
  bd_opk_fallback :: bool

record opk_status_dto =
  os_device_id :: string
  os_count :: int
  os_low_watermark :: bool
  os_low_watermark_threshold :: int
  os_target_count :: int
  os_fallback_policy :: string

record refill_request =
  rf_device_id :: string
  rf_one_time_pre_keys :: "pre_key_entry list"
  rf_one_time_pre_key_signatures :: "pre_key_signature_entry list"

record device_dto =
  dd_user_id :: string
  dd_device_id :: string
  dd_identity_key :: string
  dd_signed_pre_key :: string
  dd_last_active_at :: string

section \<open>Validation\<close>

definition decode_base64_exact_len :: "api_lib \<Rightarrow> string \<Rightarrow> string \<Rightarrow> nat \<Rightarrow> api_error + unit" where
  "decode_base64_exact_len L field v expected_len =
     (if 1000 < length v then Inl (EBadRequest (''invalid '' @ field))
      else
        (case ap_b64_decode L v of
           None \<Rightarrow> Inl (EBadRequest (''invalid '' @ field))
         | Some b \<Rightarrow> if length b \<noteq> expected_len then Inl (EBadRequest (''invalid '' @ field)) else Inr ()))"

fun check_entries :: "api_lib \<Rightarrow> int list \<Rightarrow> pre_key_entry list \<Rightarrow> api_error + unit" where
  "check_entries L seen [] = Inr ()"
| "check_entries L seen (e # es) =
     (if pe_id e < 0 then Inl (EBadRequest (''invalid one_time_pre_key id='' @ show_int (pe_id e)))
      else if pe_id e \<in> set seen then Inl (EBadRequest (''duplicate one_time_pre_key id='' @ show_int (pe_id e)))
      else and_then (decode_base64_exact_len L (''one_time_pre_key id='' @ show_int (pe_id e)) (pe_key e) 32) (\<lambda>_.
        check_entries L (pe_id e # seen) es))"

definition validate_pre_key_entries :: "api_lib \<Rightarrow> pre_key_entry list \<Rightarrow> api_error + unit" where
  "validate_pre_key_entries L es =
     (if 200 < length es then Inl (EBadRequest ''too many one_time_pre_keys'') else check_entries L [] es)"

text \<open>The map of the signatures that have been checked, newest first.\<close>

fun check_signatures ::
  "api_lib \<Rightarrow> (int \<times> string) list \<Rightarrow> pre_key_signature_entry list \<Rightarrow> api_error + (int \<times> string) list"
where
  "check_signatures L by_id [] = Inr by_id"
| "check_signatures L by_id (s # ss) =
     (if ps_id s < 0 then Inl (EBadRequest (''invalid one_time_pre_key signature id='' @ show_int (ps_id s)))
      else if map_of by_id (ps_id s) \<noteq> None
      then Inl (EBadRequest (''duplicate one_time_pre_key signature id='' @ show_int (ps_id s)))
      else and_then (decode_base64_exact_len L (''one_time_pre_key signature id='' @ show_int (ps_id s)) (ps_signature s) 64)
        (\<lambda>_. check_signatures L ((ps_id s, ps_signature s) # by_id) ss))"

definition validate_one_time_pre_key_signatures ::
  "api_lib \<Rightarrow> pre_key_entry list \<Rightarrow> pre_key_signature_entry list \<Rightarrow> api_error + (int \<times> string) list"
where
  "validate_one_time_pre_key_signatures L keys signatures =
     (if length signatures \<noteq> length keys then Inl (EBadRequest ''one_time_pre_key_signatures count mismatch'')
      else
        and_then (check_signatures L [] signatures) (\<lambda>by_id.
          case find (\<lambda>e. map_of by_id (pe_id e) = None) keys of
            Some e \<Rightarrow> Inl (EBadRequest (''missing signature for one_time_pre_key id='' @ show_int (pe_id e)))
          | None \<Rightarrow> Inr by_id))"

definition validate_bundle :: "api_lib \<Rightarrow> upload_bundle_request \<Rightarrow> api_error + unit" where
  "validate_bundle L req =
     (if trim (ub_device_id req) = [] \<or> 64 < length (ub_device_id req) then Inl (EBadRequest ''invalid device_id'')
      else
        and_then (decode_base64_exact_len L ''identity_key'' (ub_identity_key req) 32) (\<lambda>_.
        and_then (decode_base64_exact_len L ''signing_identity_key'' (ub_signing_identity_key req) 32) (\<lambda>_.
        and_then (decode_base64_exact_len L ''signed_pre_key'' (ub_signed_pre_key req) 32) (\<lambda>_.
        and_then (decode_base64_exact_len L ''signed_pre_key_signature'' (ub_signed_pre_key_signature req) 64) (\<lambda>_.
        and_then (validate_pre_key_entries L (ub_one_time_pre_keys req)) (\<lambda>_.
        and_then (validate_one_time_pre_key_signatures L (ub_one_time_pre_keys req) (ub_one_time_pre_key_signatures req))
          (\<lambda>_. Inr ())))))))"

definition parse_user_id :: "string \<Rightarrow> api_error + int" where
  "parse_user_id v =
     (case parse_i64 v of
        None \<Rightarrow> Inl (EBadRequest ''invalid userId'')
      | Some user_id \<Rightarrow> if user_id \<le> 0 then Inl (EBadRequest ''invalid userId'') else Inr user_id)"

type_synonym params = "string \<Rightarrow> string option"

definition target_user_id_from_query :: "identity \<Rightarrow> params \<Rightarrow> api_error + int" where
  "target_user_id_from_query caller params =
     (case params ''userId'' of
        Some v \<Rightarrow> if trim v \<noteq> [] then parse_user_id (trim v) else Inr (id_user_id caller)
      | None \<Rightarrow> Inr (id_user_id caller))"

definition parse_private_conversation_members :: "string \<Rightarrow> (int \<times> int) option" where
  "parse_private_conversation_members conversation_id =
     (let raw = unwrap_or (strip_prefix ''p_'' conversation_id) conversation_id in
      case split_on CHR ''_'' raw of
        [l, r] \<Rightarrow> Option.bind (parse_i64 l) (\<lambda>left. map_option (\<lambda>right. (left, right)) (parse_i64 r))
      | _ \<Rightarrow> None)"

section \<open>Access\<close>

definition ensure_conversation_member :: "int \<Rightarrow> string \<Rightarrow> unit api" where
  "ensure_conversation_member user_id conversation_id =
     (case parse_private_conversation_members conversation_id of
        Some (left, right) \<Rightarrow> act_check (user_id = left \<or> user_id = right) (EForbidden ''not a conversation member'')
      | None \<Rightarrow>
          (case strip_prefix ''g_'' conversation_id of
             None \<Rightarrow> act_err (EForbidden ''not a conversation member'')
           | Some group_id_raw \<Rightarrow>
               (case parse_i64 group_id_raw of
                  None \<Rightarrow> act_err (EBadRequest ''invalid conversationId'')
                | Some group_id \<Rightarrow>
                    act_then (sql_query (\<lambda>w. count_where (\<lambda>r. gm_group_id r = group_id \<and> gm_user_id r = user_id \<and>
                        gm_status r = 1) (aw_members w))) (\<lambda>n.
                      act_check (0 < n) (EForbidden ''not a conversation member'')))))"

definition active_device :: "api_lib \<Rightarrow> int \<Rightarrow> string \<Rightarrow> device_row \<Rightarrow> bool" where
  "active_device L user_id device_id r \<longleftrightarrow>
     dv_user_id r = user_id \<and> ap_collate L (dv_device_id r) = ap_collate L device_id \<and> dv_status r = ''active''"

definition ensure_device_belongs_to_user :: "api_lib \<Rightarrow> string \<Rightarrow> int \<Rightarrow> unit api" where
  "ensure_device_belongs_to_user L device_id user_id =
     act_then (sql_query (\<lambda>w. 0 < count_where (active_device L user_id device_id) (aw_devices w))) (\<lambda>found.
       act_check found (EForbidden ''device does not belong to user''))"

section \<open>Publishing keys\<close>

definition own_opk :: "api_lib \<Rightarrow> int \<Rightarrow> string \<Rightarrow> opk_row \<Rightarrow> bool" where
  "own_opk L user_id device_id r \<longleftrightarrow> ok_user_id r = user_id \<and> ap_collate L (ok_device_id r) = ap_collate L device_id"

definition claim_on :: "api_lib \<Rightarrow> int \<Rightarrow> string \<Rightarrow> claim_row \<Rightarrow> bool" where
  "claim_on L user_id device_id r \<longleftrightarrow>
     ck_target_user_id r = user_id \<and> ap_collate L (ck_target_device_id r) = ap_collate L device_id"

text \<open>Rows are numbered by the table's counter.\<close>

fun new_opks :: "int \<Rightarrow> string \<Rightarrow> int \<Rightarrow> int \<Rightarrow> (pre_key_entry \<times> string) list \<Rightarrow> opk_row list" where
  "new_opks user_id device_id now n [] = []"
| "new_opks user_id device_id now n ((e, signature) # es) =
     \<lparr>ok_id = n, ok_user_id = user_id, ok_device_id = device_id, ok_pre_key = pe_key e, ok_pre_key_id = Some (pe_id e),
      ok_signature = Some signature, ok_consumed = False, ok_created_time = now, ok_consumed_time = None\<rparr> #
     new_opks user_id device_id now (n + 1) es"

definition insert_opks :: "int \<Rightarrow> string \<Rightarrow> (pre_key_entry \<times> string) list \<Rightarrow> api_world \<Rightarrow> api_world" where
  "insert_opks user_id device_id es w =
     w\<lparr>aw_opks := aw_opks w @ new_opks user_id device_id (sql_now w) (aw_next_opk w) es,
       aw_next_opk := aw_next_opk w + int (length es)\<rparr>"

definition with_signature :: "(int \<times> string) list \<Rightarrow> pre_key_entry \<Rightarrow> api_error + pre_key_entry \<times> string" where
  "with_signature by_id e =
     (case map_of by_id (pe_id e) of
        Some s \<Rightarrow> Inr (e, s)
      | None \<Rightarrow> Inl (EBadRequest (''missing signature for one_time_pre_key id='' @ show_int (pe_id e))))"

definition upsert_device :: "api_lib \<Rightarrow> int \<Rightarrow> upload_bundle_request \<Rightarrow> api_world \<Rightarrow> api_world" where
  "upsert_device L user_id req w =
     w\<lparr>aw_devices := insert_or_update (\<lambda>r. (dv_user_id r, ap_collate L (dv_device_id r)))
         \<lparr>dv_user_id = user_id, dv_device_id = ub_device_id req, dv_status = ''active'',
          dv_identity_key = ub_identity_key req, dv_signing_identity_key = ub_signing_identity_key req,
          dv_signed_pre_key = ub_signed_pre_key req, dv_signed_pre_key_signature = ub_signed_pre_key_signature req,
          dv_last_active_at = sql_now w\<rparr>
         (\<lambda>r. r\<lparr>dv_status := ''active'', dv_identity_key := ub_identity_key req,
           dv_signing_identity_key := ub_signing_identity_key req, dv_signed_pre_key := ub_signed_pre_key req,
           dv_signed_pre_key_signature := ub_signed_pre_key_signature req, dv_last_active_at := sql_now w\<rparr>)
         (aw_devices w)\<rparr>"

definition upload_transaction :: "api_lib \<Rightarrow> int \<Rightarrow> upload_bundle_request \<Rightarrow> (int \<times> string) list \<Rightarrow> unit api" where
  "upload_transaction L user_id req by_id = sql_execute (\<lambda>w.
     case collect_results (with_signature by_id) (ub_one_time_pre_keys req) of
       Inl e \<Rightarrow> (Inl e, w)
     | Inr es \<Rightarrow>
         let w1 = upsert_device L user_id req w;
             w2 = w1\<lparr>aw_opks := delete_where (own_opk L user_id (ub_device_id req)) (aw_opks w1)\<rparr>;
             w3 = w2\<lparr>aw_claims := delete_where (claim_on L user_id (ub_device_id req)) (aw_claims w2)\<rparr>
         in (Inr (), insert_opks user_id (ub_device_id req) es w3))"

definition upload_bundle :: "api_lib \<Rightarrow> api_config \<Rightarrow> header_map \<Rightarrow> upload_bundle_request \<Rightarrow> string api" where
  "upload_bundle L config headers request =
     act_then (caller_of L config headers) (\<lambda>caller.
     act_then (Ret (validate_bundle L request)) (\<lambda>_.
     act_then (upload_transaction L (id_user_id caller) request
         (rev (map (\<lambda>s. (ps_id s, ps_signature s)) (ub_one_time_pre_key_signatures request)))) (\<lambda>_.
       act_ok ''ok'')))"

definition opk_count :: "api_lib \<Rightarrow> int \<Rightarrow> string \<Rightarrow> api_world \<Rightarrow> int" where
  "opk_count L user_id device_id w =
     int (count_where (\<lambda>r. own_opk L user_id device_id r \<and> \<not> ok_consumed r) (aw_opks w))"

definition opk_status_of :: "string \<Rightarrow> int \<Rightarrow> opk_status_dto" where
  "opk_status_of device_id n = \<lparr>os_device_id = device_id, os_count = n, os_low_watermark = n < 20,
     os_low_watermark_threshold = 20, os_target_count = 100, os_fallback_policy = ''signed_pre_key_marked''\<rparr>"

text \<open>A parameter that must be there and not blank.\<close>

definition needed_param :: "params \<Rightarrow> string \<Rightarrow> api_error + string" where
  "needed_param params name =
     (case params name of
        Some v \<Rightarrow> if trim v \<noteq> [] then Inr v else Inl (EBadRequest (''missing '' @ name))
      | None \<Rightarrow> Inl (EBadRequest (''missing '' @ name)))"

definition opk_status :: "api_lib \<Rightarrow> api_config \<Rightarrow> header_map \<Rightarrow> params \<Rightarrow> opk_status_dto api" where
  "opk_status L config headers params =
     act_then (caller_of L config headers) (\<lambda>caller.
     act_then (Ret (needed_param params ''deviceId'')) (\<lambda>device_id.
     act_then (ensure_device_belongs_to_user L device_id (id_user_id caller)) (\<lambda>_.
     act_then (sql_query (opk_count L (id_user_id caller) device_id)) (\<lambda>n.
       act_ok (opk_status_of device_id n)))))"

definition refill_transaction ::
  "int \<Rightarrow> string \<Rightarrow> pre_key_entry list \<Rightarrow> (int \<times> string) list \<Rightarrow> unit api"
where
  "refill_transaction user_id device_id keys by_id = sql_execute (\<lambda>w.
     case collect_results (with_signature by_id) keys of
       Inl e \<Rightarrow> (Inl e, w)
     | Inr es \<Rightarrow> (Inr (), insert_opks user_id device_id es w))"

definition refill_opk :: "api_lib \<Rightarrow> api_config \<Rightarrow> header_map \<Rightarrow> refill_request \<Rightarrow> opk_status_dto api" where
  "refill_opk L config headers request =
     act_then (caller_of L config headers) (\<lambda>caller.
     act_then (act_check (rf_device_id request \<noteq> [] \<and> length (rf_device_id request) \<le> 64)
         (EBadRequest ''invalid deviceId'')) (\<lambda>_.
     act_then (ensure_device_belongs_to_user L (rf_device_id request) (id_user_id caller)) (\<lambda>_.
     act_then (Ret (validate_pre_key_entries L (rf_one_time_pre_keys request))) (\<lambda>_.
     act_then (Ret (validate_one_time_pre_key_signatures L (rf_one_time_pre_keys request)
         (rf_one_time_pre_key_signatures request))) (\<lambda>by_id.
     act_then (refill_transaction (id_user_id caller) (rf_device_id request) (rf_one_time_pre_keys request) by_id) (\<lambda>_.
     act_then (sql_query (opk_count L (id_user_id caller) (rf_device_id request))) (\<lambda>n.
       act_ok (opk_status_of (rf_device_id request) n))))))))"

definition delete_expired_opk :: "api_lib \<Rightarrow> api_config \<Rightarrow> header_map \<Rightarrow> nat api" where
  "delete_expired_opk L config headers =
     act_then (caller_of L config headers) (\<lambda>caller.
       sql_execute (\<lambda>w.
         let old = (\<lambda>r. ok_user_id r = id_user_id caller \<and> ok_consumed r \<and>
               (case ok_consumed_time r of Some t \<Rightarrow> t < sql_now w - 7 * 86400 | None \<Rightarrow> False))
         in (Inr (count_where old (aw_opks w)), w\<lparr>aw_opks := delete_where old (aw_opks w)\<rparr>)))"

section \<open>Claiming a one-time pre-key\<close>

text \<open>The unique key of the claims: requester and device, target and device, conversation.\<close>

type_synonym claim_key = "int \<times> string \<times> int \<times> string \<times> string"

definition claim_key :: "api_lib \<Rightarrow> claim_row \<Rightarrow> claim_key" where
  "claim_key L r = (ck_requester_user_id r, ap_collate L (ck_requester_device_id r), ck_target_user_id r,
     ap_collate L (ck_target_device_id r), ap_collate L (ck_conversation_id r))"

definition empty_claim :: "int \<Rightarrow> string \<Rightarrow> int \<Rightarrow> string \<Rightarrow> string \<Rightarrow> int \<Rightarrow> claim_row" where
  "empty_claim requester requester_device target target_device conversation now =
     \<lparr>ck_requester_user_id = requester, ck_requester_device_id = requester_device, ck_target_user_id = target,
      ck_target_device_id = target_device, ck_conversation_id = conversation, ck_row_id = None, ck_pre_key_id = None,
      ck_pre_key = None, ck_created_at = now\<rparr>"

text \<open>
  The transaction: insert an empty claim; if the key is free, take an unconsumed pre-key of the
  device, mark it consumed and note it in the claim. The outcome is \<open>None\<close> when the key was taken.
\<close>

definition claim_transaction :: "api_lib \<Rightarrow> (int \<Rightarrow> claim_row) \<Rightarrow> opk_row option option api" where
  "claim_transaction L new_claim = sql_execute (\<lambda>w.
     let c = new_claim (sql_now w) in
     if \<exists>r \<in> set (aw_claims w). claim_key L r = claim_key L c then (Inr None, w)
     else
       (case find (\<lambda>r. own_opk L (ck_target_user_id c) (ck_target_device_id c) r \<and> \<not> ok_consumed r) (aw_opks w) of
          None \<Rightarrow> (Inr (Some None), w\<lparr>aw_claims := aw_claims w @ [c]\<rparr>)
        | Some o' \<Rightarrow>
            (Inr (Some (Some o')),
             w\<lparr>aw_opks := update_where (\<lambda>r. ok_id r = ok_id o')
                 (\<lambda>r. r\<lparr>ok_consumed := True, ok_consumed_time := Some (sql_now w)\<rparr>) (aw_opks w),
               aw_claims := aw_claims w @ [c\<lparr>ck_row_id := Some (ok_id o'),
                 ck_pre_key_id := Some (unwrap_or (ok_pre_key_id o') 0), ck_pre_key := Some (ok_pre_key o')\<rparr>]\<rparr>)))"

definition delete_claim :: "api_lib \<Rightarrow> claim_key \<Rightarrow> unit api" where
  "delete_claim L key = sql_execute (\<lambda>w. (Inr (), w\<lparr>aw_claims := delete_where (\<lambda>r. claim_key L r = key) (aw_claims w)\<rparr>))"

definition claimed_dto :: "bundle_dto \<Rightarrow> opk_row option \<Rightarrow> bundle_dto" where
  "claimed_dto base m =
     (case m of
        Some r \<Rightarrow> base\<lparr>bd_one_time_pre_key := Some (ok_pre_key r),
          bd_one_time_pre_key_id := Some (unwrap_or (ok_pre_key_id r) 0), bd_one_time_pre_key_signature := ok_signature r\<rparr>
      | None \<Rightarrow> base\<lparr>bd_opk_fallback := True\<rparr>)"

definition repeated_dto :: "bundle_dto \<Rightarrow> claim_row option \<Rightarrow> string option \<Rightarrow> bundle_dto" where
  "repeated_dto base claim signature =
     (case claim of
        Some c \<Rightarrow> base\<lparr>bd_one_time_pre_key := ck_pre_key c, bd_one_time_pre_key_id := ck_pre_key_id c,
          bd_one_time_pre_key_signature := signature, bd_opk_fallback := (ck_pre_key c = None)\<rparr>
      | None \<Rightarrow> base)"

text \<open>The loop over the attempts: a claim whose pre-key is gone is deleted, and the claim tried again.\<close>

fun claim_attempts :: "nat \<Rightarrow> api_lib \<Rightarrow> (int \<Rightarrow> claim_row) \<Rightarrow> bundle_dto \<Rightarrow> bundle_dto api" where
  "claim_attempts 0 L new_claim base = act_err (EConflict ''pre-key claim unavailable, please retry'')"
| "claim_attempts (Suc n) L new_claim base =
     act_then (claim_transaction L new_claim) (\<lambda>outcome.
       case outcome of
         Some taken \<Rightarrow> act_ok (claimed_dto base taken)
       | None \<Rightarrow>
           let key = claim_key L (new_claim 0) in
           act_then (sql_query (\<lambda>w. row_of (claim_key L) key (aw_claims w))) (\<lambda>claim.
             case Option.bind claim ck_row_id of
               None \<Rightarrow> act_ok (repeated_dto base claim None)
             | Some row_id \<Rightarrow>
                 act_then (sql_query (\<lambda>w. row_of ok_id row_id (aw_opks w))) (\<lambda>otk.
                   case otk of
                     None \<Rightarrow> act_then (delete_claim L key) (\<lambda>_. claim_attempts n L new_claim base)
                   | Some r \<Rightarrow> act_ok (repeated_dto base claim (ok_signature r)))))"

definition base_bundle :: "int \<Rightarrow> string \<Rightarrow> device_row \<Rightarrow> bundle_dto" where
  "base_bundle target_user_id device_id d =
     \<lparr>bd_user_id = show_int target_user_id, bd_device_id = device_id, bd_identity_key = dv_identity_key d,
      bd_signing_identity_key = dv_signing_identity_key d, bd_signed_pre_key = dv_signed_pre_key d,
      bd_signed_pre_key_signature = dv_signed_pre_key_signature d, bd_one_time_pre_key = None,
      bd_one_time_pre_key_id = None, bd_one_time_pre_key_signature = None, bd_opk_fallback = False\<rparr>"

definition get_bundle :: "api_lib \<Rightarrow> api_config \<Rightarrow> header_map \<Rightarrow> params \<Rightarrow> bundle_dto api" where
  "get_bundle L config headers params =
     act_then (caller_of L config headers) (\<lambda>caller.
     act_then (Ret (ok_or (EBadRequest ''missing userId'') (params ''userId''))) (\<lambda>user_id_raw.
     act_then (Ret (parse_user_id user_id_raw)) (\<lambda>target.
     act_then (Ret (ok_or (EBadRequest ''missing deviceId'') (params ''deviceId''))) (\<lambda>device_id.
     act_then (act_check (device_id \<noteq> [] \<and> length device_id \<le> 64) (EBadRequest ''invalid deviceId'')) (\<lambda>_.
     act_then (sql_query (\<lambda>w. find (active_device L target device_id) (aw_devices w))) (\<lambda>device.
     act_then (Ret (ok_or (ENotFound ''device not found'') device)) (\<lambda>d.
     act_then (Ret (needed_param params ''conversationId'')) (\<lambda>conversation_id.
     act_then (Ret (needed_param params ''requesterDeviceId'')) (\<lambda>requester_device_id.
     act_then (act_check (length requester_device_id \<le> 64) (EBadRequest ''invalid requesterDeviceId'')) (\<lambda>_.
     act_then (ensure_conversation_member (id_user_id caller) conversation_id) (\<lambda>_.
     act_then (ensure_conversation_member target conversation_id) (\<lambda>_.
     act_then (ensure_device_belongs_to_user L device_id target) (\<lambda>_.
     act_then (ensure_device_belongs_to_user L requester_device_id (id_user_id caller)) (\<lambda>_.
       claim_attempts 2 L (empty_claim (id_user_id caller) requester_device_id target device_id conversation_id)
         (base_bundle target device_id d)))))))))))))))"

section \<open>Devices\<close>

definition device_dto_of :: "api_lib \<Rightarrow> device_row \<Rightarrow> device_dto" where
  "device_dto_of L d = \<lparr>dd_user_id = show_int (dv_user_id d), dd_device_id = dv_device_id d,
     dd_identity_key = dv_identity_key d, dd_signed_pre_key = dv_signed_pre_key d,
     dd_last_active_at = ap_time_text L (dv_last_active_at d)\<rparr>"

definition fetch_user_devices :: "api_lib \<Rightarrow> int \<Rightarrow> device_dto list api" where
  "fetch_user_devices L target_user_id =
     sql_query (\<lambda>w. map (device_dto_of L) (sort_key (\<lambda>d. - dv_last_active_at d)
       (filter (\<lambda>d. dv_user_id d = target_user_id \<and> dv_status d = ''active'') (aw_devices w))))"

definition get_devices :: "api_lib \<Rightarrow> api_config \<Rightarrow> header_map \<Rightarrow> params \<Rightarrow> device_dto list api" where
  "get_devices L config headers params =
     act_then (caller_of L config headers) (\<lambda>caller.
     act_then (Ret (target_user_id_from_query caller params)) (\<lambda>target. fetch_user_devices L target))"

definition get_devices_by_user_path :: "api_lib \<Rightarrow> api_config \<Rightarrow> header_map \<Rightarrow> int \<Rightarrow> device_dto list api" where
  "get_devices_by_user_path L config headers user_id =
     act_then (caller_of L config headers) (\<lambda>_.
     act_then (act_check (0 < user_id) (EBadRequest ''invalid userId'')) (\<lambda>_. fetch_user_devices L user_id))"

definition device_heartbeat :: "api_lib \<Rightarrow> api_config \<Rightarrow> header_map \<Rightarrow> json \<Rightarrow> string api" where
  "device_heartbeat L config headers body =
     act_then (caller_of L config headers) (\<lambda>caller.
     act_then (Ret (ok_or (EBadRequest ''missing deviceId'') (Option.bind (json_get body ''deviceId'') json_as_str)))
       (\<lambda>device_id.
     act_then (act_check (device_id \<noteq> [] \<and> length device_id \<le> 64) (EBadRequest ''invalid deviceId'')) (\<lambda>_.
     act_then (sql_execute (\<lambda>w.
         let mine = active_device L (id_user_id caller) device_id in
         (Inr (count_where mine (aw_devices w)),
          w\<lparr>aw_devices := update_where mine (\<lambda>d. d\<lparr>dv_last_active_at := sql_now w\<rparr>) (aw_devices w)\<rparr>))) (\<lambda>affected.
     act_then (act_check (affected \<noteq> 0) (ENotFound ''device not found'')) (\<lambda>_. act_ok ''ok'')))))"

definition delete_device :: "api_lib \<Rightarrow> api_config \<Rightarrow> header_map \<Rightarrow> string \<Rightarrow> string api" where
  "delete_device L config headers device_id =
     act_then (caller_of L config headers) (\<lambda>caller.
     act_then (act_check (device_id \<noteq> [] \<and> length device_id \<le> 64) (EBadRequest ''invalid device_id'')) (\<lambda>_.
     act_then (sql_execute (\<lambda>w.
         let mine = active_device L (id_user_id caller) device_id in
         if count_where mine (aw_devices w) = 0 then (Inl (ENotFound ''device not found''), w)
         else (Inr (), w\<lparr>aw_devices := update_where mine (\<lambda>d. d\<lparr>dv_status := ''deleted''\<rparr>) (aw_devices w),
                aw_opks := delete_where (own_opk L (id_user_id caller) device_id) (aw_opks w)\<rparr>))) (\<lambda>_.
       act_ok ''ok'')))"

section \<open>Backups\<close>

definition backup_upsert :: "int \<Rightarrow> string \<Rightarrow> (backup_row \<Rightarrow> backup_row) \<Rightarrow> string \<Rightarrow> unit api" where
  "backup_upsert user_id backup f salt = sql_execute (\<lambda>w.
     (Inr (), w\<lparr>aw_backups := insert_or_update bk_user_id
        \<lparr>bk_user_id = user_id, bk_backup = backup, bk_salt = salt\<rparr> f (aw_backups w)\<rparr>))"

definition draw_salt :: "api_lib \<Rightarrow> string api" where
  "draw_salt L = Step (\<lambda>w. w\<lparr>aw_drawn := aw_drawn w + 1\<rparr>) (\<lambda>w. act_ok (ap_b64_encode L (aw_random w (aw_drawn w))))"

definition get_salt :: "api_lib \<Rightarrow> api_config \<Rightarrow> header_map \<Rightarrow> json api" where
  "get_salt L config headers =
     act_then (caller_of L config headers) (\<lambda>caller.
     act_then (sql_query (\<lambda>w. row_of bk_user_id (id_user_id caller) (aw_backups w))) (\<lambda>row.
       case row of
         Some r \<Rightarrow> act_ok (JObj [(''salt'', JStr (bk_salt r))])
       | None \<Rightarrow>
           act_then (draw_salt L) (\<lambda>salt.
           act_then (backup_upsert (id_user_id caller) [] (\<lambda>r. r\<lparr>bk_salt := salt\<rparr>) salt) (\<lambda>_.
             act_ok (JObj [(''salt'', JStr salt)])))))"

definition upload_backup :: "api_lib \<Rightarrow> api_config \<Rightarrow> header_map \<Rightarrow> json \<Rightarrow> string api" where
  "upload_backup L config headers body =
     act_then (caller_of L config headers) (\<lambda>caller.
     act_then (Ret (ok_or (EBadRequest ''missing encryptedBackup'')
         (Option.bind (json_get body ''encryptedBackup'') json_as_str))) (\<lambda>backup.
     act_then (Ret (ok_or (EBadRequest ''missing salt'') (Option.bind (json_get body ''salt'') json_as_str))) (\<lambda>salt.
     act_then (act_check (backup \<noteq> [] \<and> length backup \<le> 100000) (EBadRequest ''invalid encryptedBackup'')) (\<lambda>_.
     act_then (act_check (salt \<noteq> [] \<and> length salt \<le> 64) (EBadRequest ''invalid salt'')) (\<lambda>_.
     act_then (backup_upsert (id_user_id caller) backup (\<lambda>r. r\<lparr>bk_backup := backup, bk_salt := salt\<rparr>) salt) (\<lambda>_.
       act_ok ''ok''))))))"

definition get_backup :: "api_lib \<Rightarrow> api_config \<Rightarrow> header_map \<Rightarrow> json api" where
  "get_backup L config headers =
     act_then (caller_of L config headers) (\<lambda>caller.
     act_then (sql_query (\<lambda>w. row_of bk_user_id (id_user_id caller) (aw_backups w))) (\<lambda>row.
       case row of
         Some r \<Rightarrow> act_ok (JObj [(''encryptedBackup'', JStr (bk_backup r)), (''salt'', JStr (bk_salt r))])
       | None \<Rightarrow> act_err (ENotFound ''backup not found'')))"

section \<open>Cleaning up\<close>

definition device_is_active :: "api_lib \<Rightarrow> api_world \<Rightarrow> int \<Rightarrow> string \<Rightarrow> bool" where
  "device_is_active L w user_id device_id \<longleftrightarrow> (\<exists>d \<in> set (aw_devices w). active_device L user_id device_id d)"

text \<open>One round of the daily task; each statement is an access, and an error ends the round.\<close>

definition cleanup_stale_devices :: "api_lib \<Rightarrow> unit api" where
  "cleanup_stale_devices L =
     act_then (sql_execute (\<lambda>w. (Inr (), w\<lparr>aw_devices :=
         update_where (\<lambda>d. dv_status d = ''active'' \<and> dv_last_active_at d < sql_now w - 30 * 86400)
           (\<lambda>d. d\<lparr>dv_status := ''deleted''\<rparr>) (aw_devices w)\<rparr>))) (\<lambda>_.
     act_then (sql_execute (\<lambda>w. (Inr (), w\<lparr>aw_opks :=
         delete_where (\<lambda>r. \<not> device_is_active L w (ok_user_id r) (ok_device_id r)) (aw_opks w)\<rparr>))) (\<lambda>_.
     act_then (sql_execute (\<lambda>w. (Inr (), w\<lparr>aw_opks :=
         delete_where (\<lambda>r. ok_consumed r \<and> unwrap_or (ok_consumed_time r) (ok_created_time r) < sql_now w - 7 * 86400)
           (aw_opks w)\<rparr>))) (\<lambda>_.
     act_then (sql_execute (\<lambda>w. (Inr (), w\<lparr>aw_claims :=
         delete_where (\<lambda>r. ck_created_at r < sql_now w - 7 * 86400) (aw_claims w)\<rparr>))) (\<lambda>_.
       sql_execute (\<lambda>w. (Inr (), w\<lparr>aw_sender_keys :=
         delete_where (\<lambda>r. \<not> device_is_active L w (sk_sender_id r) (sk_device_id r)) (aw_sender_keys w)\<rparr>))))))"

end
