(* ===== verification/Api_Groups.thy ===== *)
theory Api_Groups
  imports Api_Keys
begin

text \<open>
  Encryption of groups in the api-server (\<open>e2ee/group_api.rs\<close>), with the checks of
  \<open>access_control.rs\<close> and the devices of a group (\<open>key_device.rs\<close>): epochs count the changes of a
  group, members send each other their sender keys, and a key is shown only in the epoch it was sent.
\<close>

section \<open>Requests and answers\<close>

record sender_key_entry =
  en_recipient_id :: int
  en_device_id :: string
  en_encrypted :: string

record enable_group_request =
  eg_sender_keys :: "sender_key_entry list"

record push_sender_key_request =
  pk_recipient_id :: int
  pk_device_id :: string
  pk_encrypted :: string

record sender_key_dto =
  kd_sender_id :: string
  kd_device_id :: string
  kd_epoch :: int
  kd_encrypted :: string
  kd_counter :: int

record group_status_dto =
  gs_status :: string
  gs_enabled_by :: "string option"
  gs_epoch :: "int option"

section \<open>Access control\<close>

definition active_member :: "int \<Rightarrow> int \<Rightarrow> member_row \<Rightarrow> bool" where
  "active_member group_id user_id r \<longleftrightarrow> gm_group_id r = group_id \<and> gm_user_id r = user_id \<and> gm_status r = 1"

definition ensure_group_member :: "int \<Rightarrow> int \<Rightarrow> unit api" where
  "ensure_group_member group_id user_id =
     act_then (sql_query (\<lambda>w. 0 < count_where (active_member group_id user_id) (aw_members w))) (\<lambda>found.
       act_check found (EForbidden ''not a group member''))"

definition ensure_group_admin :: "int \<Rightarrow> int \<Rightarrow> unit api" where
  "ensure_group_admin group_id user_id =
     act_then (sql_query (\<lambda>w. map_option gm_role (find (active_member group_id user_id) (aw_members w)))) (\<lambda>role.
       act_check (2 \<le> unwrap_or role 0) (EForbidden ''only group admin or owner can perform this action''))"

definition ensure_friend :: "int \<Rightarrow> int \<Rightarrow> unit api" where
  "ensure_friend user_id friend_id =
     act_then (sql_query (\<lambda>w. 0 < count_where (\<lambda>r. fr_user_id r = user_id \<and> fr_friend_id r = friend_id \<and>
         fr_status r = 1) (aw_friends w))) (\<lambda>found.
       act_check found (EForbidden ''friend relationship not found''))"

fun join_comma :: "string list \<Rightarrow> string" where
  "join_comma [] = []"
| "join_comma [x] = x"
| "join_comma (x # xs) = x @ '', '' @ join_comma xs"

definition ensure_group_members_batch :: "int \<Rightarrow> int list \<Rightarrow> int list api" where
  "ensure_group_members_batch group_id user_ids =
     (if user_ids = [] then act_ok []
      else
        act_then (sql_query (\<lambda>w. map gm_user_id (filter (\<lambda>r. gm_group_id r = group_id \<and> gm_status r = 1 \<and>
            gm_user_id r \<in> set user_ids) (aw_members w)))) (\<lambda>found.
          if length found \<noteq> length user_ids
          then act_err (EForbidden (''users '' @
            join_comma (map show_int (filter (\<lambda>u. u \<notin> set found) user_ids)) @ '' are not members of group '' @
            show_int group_id))
          else act_ok found))"

definition ensure_device_exists :: "api_lib \<Rightarrow> int \<Rightarrow> string \<Rightarrow> unit api" where
  "ensure_device_exists L recipient_id device_id =
     act_then (sql_query (\<lambda>w. 0 < count_where (active_device L recipient_id device_id) (aw_devices w))) (\<lambda>found.
       act_check found (EForbidden ''recipient device is not registered''))"

definition ensure_all_devices_belong_to_recipients :: "api_lib \<Rightarrow> (int \<times> string) list \<Rightarrow> unit api" where
  "ensure_all_devices_belong_to_recipients L entries =
     (if entries = [] then act_ok ()
      else
        act_then (sql_query (\<lambda>w. count_where (\<lambda>d. \<exists>(rid, did) \<in> set entries. active_device L rid did d) (aw_devices w)))
          (\<lambda>found. act_check (found = length entries) (EForbidden ''recipient device is not registered'')))"

section \<open>Epochs\<close>

definition max_epoch :: "int \<Rightarrow> api_world \<Rightarrow> int option" where
  "max_epoch group_id w =
     (let es = map ep_epoch (filter (\<lambda>r. ep_group_id r = group_id) (aw_epochs w))
      in if es = [] then None else Some (Max (set es)))"

definition current_group_epoch :: "int \<Rightarrow> int option api" where
  "current_group_epoch group_id = sql_query (max_epoch group_id)"

definition insert_epoch :: "int \<Rightarrow> int \<Rightarrow> int \<Rightarrow> string \<Rightarrow> unit api" where
  "insert_epoch group_id epoch user_id reason = sql_execute (\<lambda>w.
     (Inr (), w\<lparr>aw_epochs := insert_or_update (\<lambda>r. (ep_group_id r, ep_epoch r))
        \<lparr>ep_group_id = group_id, ep_epoch = epoch, ep_key_version = epoch, ep_reason = reason, ep_created_by = user_id\<rparr>
        (\<lambda>r. r\<lparr>ep_reason := reason\<rparr>) (aw_epochs w)\<rparr>))"

definition next_group_epoch :: "int \<Rightarrow> int \<Rightarrow> string \<Rightarrow> int api" where
  "next_group_epoch group_id user_id reason =
     act_then (current_group_epoch group_id) (\<lambda>current.
       let new = min (unwrap_or current 0 + 1) (2 ^ 31 - 1) in
       act_then (insert_epoch group_id new user_id reason) (\<lambda>_. act_ok new))"

definition group_status :: "int \<Rightarrow> string option api" where
  "group_status group_id = sql_query (\<lambda>w. map_option ge_status (row_of ge_group_id group_id (aw_e2ee_groups w)))"

definition rotate_group_epoch_if_encrypted :: "int \<Rightarrow> int \<Rightarrow> string \<Rightarrow> int option api" where
  "rotate_group_epoch_if_encrypted group_id user_id reason =
     act_then (group_status group_id) (\<lambda>status.
       if status \<noteq> Some ''encrypted'' then act_ok None
       else act_then (next_group_epoch group_id user_id reason) (\<lambda>e. act_ok (Some e)))"

section \<open>Sender keys\<close>

definition sender_key_key :: "api_lib \<Rightarrow> sender_key_row \<Rightarrow> int \<times> int \<times> string \<times> int \<times> int" where
  "sender_key_key L r = (sk_group_id r, sk_sender_id r, ap_collate L (sk_device_id r), sk_recipient_id r, sk_epoch r)"

text \<open>A key that is sent again replaces the old one and counts; the counter is an \<open>INT\<close>.\<close>

definition store_sender_key ::
  "api_lib \<Rightarrow> int \<Rightarrow> int \<Rightarrow> int \<Rightarrow> sender_key_entry \<Rightarrow> sender_key_row list \<Rightarrow> sender_key_row list option"
where
  "store_sender_key L group_id sender_id epoch e rows =
     (let rows' = insert_or_update (sender_key_key L)
          \<lparr>sk_group_id = group_id, sk_sender_id = sender_id, sk_device_id = en_device_id e,
           sk_recipient_id = en_recipient_id e, sk_epoch = epoch, sk_encrypted = en_encrypted e, sk_counter = 0\<rparr>
          (\<lambda>r. r\<lparr>sk_encrypted := en_encrypted e, sk_counter := sk_counter r + 1\<rparr>) rows
      in if list_all (\<lambda>r. sk_counter r < 2 ^ 31) rows' then Some rows' else None)"

fun store_sender_keys ::
  "api_lib \<Rightarrow> int \<Rightarrow> int \<Rightarrow> int \<Rightarrow> sender_key_entry list \<Rightarrow> sender_key_row list \<Rightarrow> sender_key_row list option"
where
  "store_sender_keys L group_id sender_id epoch [] rows = Some rows"
| "store_sender_keys L group_id sender_id epoch (e # es) rows =
     Option.bind (store_sender_key L group_id sender_id epoch e rows) (store_sender_keys L group_id sender_id epoch es)"

definition enable_transaction :: "api_lib \<Rightarrow> int \<Rightarrow> int \<Rightarrow> int \<Rightarrow> sender_key_entry list \<Rightarrow> unit api" where
  "enable_transaction L group_id user_id epoch es = sql_execute (\<lambda>w.
     case store_sender_keys L group_id user_id epoch es (aw_sender_keys w) of
       None \<Rightarrow> (Inl ESqlx, w)
     | Some rows \<Rightarrow> (Inr (), w\<lparr>aw_e2ee_groups := insert_or_update ge_group_id
           \<lparr>ge_group_id = group_id, ge_status = ''encrypted'', ge_enabled_by = user_id\<rparr>
           (\<lambda>r. r\<lparr>ge_status := ''encrypted'', ge_enabled_by := user_id\<rparr>) (aw_e2ee_groups w), aw_sender_keys := rows\<rparr>))"

definition enable_group_encryption :: "api_lib \<Rightarrow> api_config \<Rightarrow> header_map \<Rightarrow> int \<Rightarrow> enable_group_request \<Rightarrow> string api" where
  "enable_group_encryption L config headers group_id request =
     act_then (caller_of L config headers) (\<lambda>caller.
     act_then (ensure_group_admin group_id (id_user_id caller)) (\<lambda>_.
     act_then (ensure_group_members_batch group_id (map en_recipient_id (eg_sender_keys request))) (\<lambda>_.
     act_then (ensure_all_devices_belong_to_recipients L
         (map (\<lambda>e. (en_recipient_id e, en_device_id e)) (eg_sender_keys request))) (\<lambda>_.
     act_then (next_group_epoch group_id (id_user_id caller) ''enable'') (\<lambda>epoch.
     act_then (enable_transaction L group_id (id_user_id caller) epoch (eg_sender_keys request)) (\<lambda>_. act_ok ''ok''))))))"

definition disable_group_encryption :: "api_lib \<Rightarrow> api_config \<Rightarrow> header_map \<Rightarrow> int \<Rightarrow> string api" where
  "disable_group_encryption L config headers group_id =
     act_then (caller_of L config headers) (\<lambda>caller.
     act_then (ensure_group_admin group_id (id_user_id caller)) (\<lambda>_.
     act_then (rotate_group_epoch_if_encrypted group_id (id_user_id caller) ''disable'') (\<lambda>_.
     act_then (sql_execute (\<lambda>w. (Inr (), w\<lparr>aw_e2ee_groups := update_where (\<lambda>r. ge_group_id r = group_id)
         (\<lambda>r. r\<lparr>ge_status := ''plaintext''\<rparr>) (aw_e2ee_groups w)\<rparr>))) (\<lambda>_.
     act_then (sql_execute (\<lambda>w. (Inr (), w\<lparr>aw_sender_keys :=
         delete_where (\<lambda>r. sk_group_id r = group_id) (aw_sender_keys w)\<rparr>))) (\<lambda>_. act_ok ''ok'')))))"

definition push_sender_key :: "api_lib \<Rightarrow> api_config \<Rightarrow> header_map \<Rightarrow> int \<Rightarrow> push_sender_key_request \<Rightarrow> string api" where
  "push_sender_key L config headers group_id request =
     act_then (caller_of L config headers) (\<lambda>caller.
     act_then (ensure_group_member group_id (id_user_id caller)) (\<lambda>_.
     act_then (ensure_group_member group_id (pk_recipient_id request)) (\<lambda>_.
     act_then (ensure_device_exists L (pk_recipient_id request) (pk_device_id request)) (\<lambda>_.
     act_then (group_status group_id) (\<lambda>status.
     act_then (act_check (status = Some ''encrypted'') (EConflict ''group e2ee is not enabled'')) (\<lambda>_.
     act_then (current_group_epoch group_id) (\<lambda>epoch.
     act_then (Ret (ok_or (EConflict ''group e2ee epoch missing'') epoch)) (\<lambda>epoch.
     act_then (sql_execute (\<lambda>w.
         case store_sender_key L group_id (id_user_id caller) epoch \<lparr>en_recipient_id = pk_recipient_id request,
             en_device_id = pk_device_id request, en_encrypted = pk_encrypted request\<rparr> (aw_sender_keys w) of
           None \<Rightarrow> (Inl ESqlx, w)
         | Some rows \<Rightarrow> (Inr (), w\<lparr>aw_sender_keys := rows\<rparr>))) (\<lambda>_. act_ok ''ok'')))))))))"

definition sender_key_dto_of :: "sender_key_row \<Rightarrow> sender_key_dto" where
  "sender_key_dto_of r = \<lparr>kd_sender_id = show_int (sk_sender_id r), kd_device_id = sk_device_id r, kd_epoch = sk_epoch r,
     kd_encrypted = sk_encrypted r, kd_counter = sk_counter r\<rparr>"

text \<open>Where no epoch was recorded, the newest key decides.\<close>

definition shown_epoch :: "int \<Rightarrow> int api" where
  "shown_epoch group_id =
     act_then (current_group_epoch group_id) (\<lambda>current.
       case current of
         Some e \<Rightarrow> act_ok e
       | None \<Rightarrow> sql_query (\<lambda>w.
           let es = map sk_epoch (filter (\<lambda>r. sk_group_id r = group_id) (aw_sender_keys w))
           in if es = [] then 1 else Max (set es)))"

definition get_my_sender_keys :: "api_lib \<Rightarrow> api_config \<Rightarrow> header_map \<Rightarrow> int \<Rightarrow> sender_key_dto list api" where
  "get_my_sender_keys L config headers group_id =
     act_then (caller_of L config headers) (\<lambda>caller.
     act_then (ensure_group_member group_id (id_user_id caller)) (\<lambda>_.
     act_then (shown_epoch group_id) (\<lambda>epoch.
       sql_query (\<lambda>w. map sender_key_dto_of (sort_key sk_sender_id (filter (\<lambda>r. sk_group_id r = group_id \<and>
         sk_recipient_id r = id_user_id caller \<and> sk_epoch r = epoch) (aw_sender_keys w)))))))"

definition remove_member_sender_keys :: "api_lib \<Rightarrow> api_config \<Rightarrow> header_map \<Rightarrow> int \<Rightarrow> int \<Rightarrow> string api" where
  "remove_member_sender_keys L config headers group_id user_id =
     act_then (caller_of L config headers) (\<lambda>caller.
     act_then (if id_user_id caller \<noteq> user_id then ensure_group_admin group_id (id_user_id caller) else act_ok ()) (\<lambda>_.
     act_then (rotate_group_epoch_if_encrypted group_id (id_user_id caller) ''member_remove'') (\<lambda>_.
     act_then (sql_execute (\<lambda>w. (Inr (), w\<lparr>aw_sender_keys :=
         delete_where (\<lambda>r. sk_group_id r = group_id \<and> sk_sender_id r = user_id) (aw_sender_keys w)\<rparr>))) (\<lambda>_.
       act_ok ''ok''))))"

definition get_group_status :: "api_lib \<Rightarrow> api_config \<Rightarrow> header_map \<Rightarrow> int \<Rightarrow> group_status_dto api" where
  "get_group_status L config headers group_id =
     act_then (caller_of L config headers) (\<lambda>caller.
     act_then (ensure_group_member group_id (id_user_id caller)) (\<lambda>_.
     act_then (sql_query (\<lambda>w. row_of ge_group_id group_id (aw_e2ee_groups w))) (\<lambda>row.
       case row of
         Some r \<Rightarrow> act_then (current_group_epoch group_id) (\<lambda>epoch. act_ok \<lparr>gs_status = ge_status r,
           gs_enabled_by = Some (show_int (ge_enabled_by r)), gs_epoch = epoch\<rparr>)
       | None \<Rightarrow> act_ok \<lparr>gs_status = ''plaintext'', gs_enabled_by = None, gs_epoch = None\<rparr>)))"

definition get_group_devices :: "api_lib \<Rightarrow> api_config \<Rightarrow> header_map \<Rightarrow> int \<Rightarrow> device_dto list api" where
  "get_group_devices L config headers group_id =
     act_then (caller_of L config headers) (\<lambda>caller.
     act_then (ensure_group_member group_id (id_user_id caller)) (\<lambda>_.
       sql_query (\<lambda>w. concat (map (\<lambda>m. map (device_dto_of L) (sort_key (\<lambda>d. - dv_last_active_at d)
           (filter (\<lambda>d. dv_user_id d = gm_user_id m \<and> dv_status d = ''active'') (aw_devices w))))
         (sort_key gm_user_id (filter (\<lambda>m. gm_group_id m = group_id \<and> gm_status m = 1) (aw_members w)))))))"

end
