(* ===== verification/Api_Hot.thy ===== *)
theory Api_Hot
  imports Api_Auth_Types "HOL-Library.AList" "HOL-Library.Char_ord" "HOL-Library.Product_Lexorder"
begin

text \<open>
  The commands of the Redis servers for messages and of the event streams
  (\<open>api-server/src/redis_streams.rs\<close>), the choice of the server for a conversation and the pending events
  (\<open>api-server/src/message/message_redis.rs\<close>), and the generator of identifiers on the process's cell.
\<close>

section \<open>Identifiers\<close>

text \<open>\<open>ids::next_id\<close> between two accesses of the others; the clock lies in the range of \<open>u64\<close>.\<close>

definition new_id :: "nat \<Rightarrow> int api" where
  "new_id node_id = Step
     (\<lambda>w. w\<lparr>aw_id_cell := snd (next_id (word_of_nat node_id) [aw_now w] (aw_id_cell w))\<rparr>)
     (\<lambda>w. case fst (next_id (word_of_nat node_id) [aw_now w] (aw_id_cell w)) of
            Some i \<Rightarrow> act_ok i | None \<Rightarrow> act_err EAnyhow)"

section \<open>Shards\<close>

definition fnv_offset_basis :: u64 where "fnv_offset_basis = 14695981039346656037"
definition fnv_prime :: u64 where "fnv_prime = 1099511628211"

definition fnv_hash :: "string \<Rightarrow> u64" where
  "fnv_hash key = fold (\<lambda>byte current. (current XOR ucast byte) * fnv_prime) (ascii key) fnv_offset_basis"

definition shard_index_for_key :: "string \<Rightarrow> nat \<Rightarrow> nat option" where
  "shard_index_for_key key shard_count =
     (if shard_count = 0 then None else Some (unat (fnv_hash key) mod shard_count))"

definition shard_index_for_group_id :: "int \<Rightarrow> nat \<Rightarrow> nat option" where
  "shard_index_for_group_id group_id shard_count = shard_index_for_key (group_conversation_id group_id) shard_count"

lemma shard_in_range: "shard_index_for_key key n = Some i \<Longrightarrow> i < n"
  by (auto simp: shard_index_for_key_def split: if_splits)

lemma shard_exists: "0 < n \<Longrightarrow> \<exists>i. shard_index_for_key key n = Some i \<and> i < n"
  by (auto simp: shard_index_for_key_def)

section \<open>Texts, sorted sets and hashes\<close>

definition live :: "int \<Rightarrow> ('v \<times> int option) option \<Rightarrow> 'v option" where
  "live now m = (case m of None \<Rightarrow> None
     | Some (v, None) \<Rightarrow> Some v
     | Some (v, Some expires) \<Rightarrow> if now < expires then Some v else None)"

lemma live_simps [simp]:
  "live now None = None" "live now (Some (v, None)) = Some v"
  "live now (Some (v, Some e)) = (if now < e then Some v else None)"
  by (simp_all add: live_def)

definition hot_get :: "int \<Rightarrow> hot_store \<Rightarrow> string \<Rightarrow> string option" where
  "hot_get now s k = live now (hs_text s k)"

definition hot_put :: "string \<Rightarrow> string \<Rightarrow> hot_store \<Rightarrow> hot_store" where
  "hot_put k v s = s\<lparr>hs_text := (hs_text s)(k := Some (v, None))\<rparr>"

definition hot_put_ex :: "int \<Rightarrow> string \<Rightarrow> string \<Rightarrow> nat \<Rightarrow> hot_store \<Rightarrow> hot_store" where
  "hot_put_ex now k v ttl_seconds s = s\<lparr>hs_text := (hs_text s)(k := Some (v, Some (now + int ttl_seconds * 1000)))\<rparr>"

definition hot_remove :: "string list \<Rightarrow> hot_store \<Rightarrow> hot_store" where
  "hot_remove ks s = s\<lparr>hs_text := (\<lambda>k. if k \<in> set ks then None else hs_text s k)\<rparr>"

text \<open>A write keeps the expiry of a set or hash that is still there.\<close>

definition expiry :: "int \<Rightarrow> ('v \<times> int option) option \<Rightarrow> int option" where
  "expiry now m = (if live now m = None then None else snd (the m))"

definition hot_members :: "int \<Rightarrow> hot_store \<Rightarrow> string \<Rightarrow> (string \<times> int) list" where
  "hot_members now s k = unwrap_or (live now (hs_sorted s k)) []"

definition hot_zadd :: "int \<Rightarrow> string \<Rightarrow> int \<Rightarrow> string \<Rightarrow> hot_store \<Rightarrow> hot_store" where
  "hot_zadd now k score m s =
     s\<lparr>hs_sorted := (hs_sorted s)(k := Some (AList.update m score (hot_members now s k), expiry now (hs_sorted s k)))\<rparr>"

definition hot_zrem :: "int \<Rightarrow> string \<Rightarrow> string list \<Rightarrow> hot_store \<Rightarrow> hot_store" where
  "hot_zrem now k ms s =
     s\<lparr>hs_sorted := (hs_sorted s)(k := Some (filter (\<lambda>(m, _). m \<notin> set ms) (hot_members now s k), expiry now (hs_sorted s k)))\<rparr>"

lemma live_expiry [simp]: "live now (Some (v, expiry now m)) = Some v"
  by (auto simp: expiry_def live_def split: option.splits if_splits)

lemma hot_members_simps [simp]:
  "hot_members now (hot_put k v s) = hot_members now s" "hot_members now (hot_put_ex t k v ttl s) = hot_members now s"
  "hot_members now (hot_remove ks s) = hot_members now s"
  "hot_members now (hot_zadd now k score m s) k = AList.update m score (hot_members now s k)"
  "hot_members now (hot_zrem now k ms s) k = filter (\<lambda>(m, _). m \<notin> set ms) (hot_members now s k)"
  "k' \<noteq> k \<Longrightarrow> hot_members t (hot_zadd now k score m s) k' = hot_members t s k'"
  "k' \<noteq> k \<Longrightarrow> hot_members t (hot_zrem now k ms s) k' = hot_members t s k'"
  by (auto simp: hot_members_def hot_put_def hot_put_ex_def hot_remove_def hot_zadd_def hot_zrem_def fun_eq_iff)

lemma hot_get_simps [simp]:
  "hot_get now (hot_put k v s) k' = (if k' = k then Some v else hot_get now s k')"
  "hot_get now (hot_put_ex t k v ttl s) k' =
     (if k' = k then (if now < t + int ttl * 1000 then Some v else None) else hot_get now s k')"
  "hot_get now (hot_remove ks s) k' = (if k' \<in> set ks then None else hot_get now s k')"
  "hot_get now (hot_zadd t k score m s) = hot_get now s" "hot_get now (hot_zrem t k ms s) = hot_get now s"
  by (auto simp: hot_get_def hot_put_def hot_put_ex_def hot_remove_def hot_zadd_def hot_zrem_def fun_eq_iff)

text \<open>Members by score, and by name among equal scores.\<close>

definition by_score :: "(string \<times> int) list \<Rightarrow> string list" where
  "by_score ms = map fst (sort_key (\<lambda>(m, score). (score, m)) ms)"

definition hot_fields :: "int \<Rightarrow> hot_store \<Rightarrow> string \<Rightarrow> (string \<times> int) list" where
  "hot_fields now s k = unwrap_or (live now (hs_hash s k)) []"

definition hot_hset :: "int \<Rightarrow> string \<Rightarrow> string \<Rightarrow> int \<Rightarrow> hot_store \<Rightarrow> hot_store" where
  "hot_hset now k f v s =
     s\<lparr>hs_hash := (hs_hash s)(k := Some (AList.update f v (hot_fields now s k), expiry now (hs_hash s k)))\<rparr>"

definition hot_hincr :: "int \<Rightarrow> string \<Rightarrow> string \<Rightarrow> hot_store \<Rightarrow> hot_store" where
  "hot_hincr now k f s = hot_hset now k f (unwrap_or (map_of (hot_fields now s k) f) 0 + 1) s"

definition until :: "int \<Rightarrow> nat \<Rightarrow> ('v \<times> int option) option \<Rightarrow> ('v \<times> int option) option" where
  "until now ttl_seconds m = map_option (\<lambda>v. (v, Some (now + int ttl_seconds * 1000))) (live now m)"

text \<open>\<open>EXPIRE\<close> of a sorted set and of a hash.\<close>

definition hot_expire_sorted :: "int \<Rightarrow> string \<Rightarrow> nat \<Rightarrow> hot_store \<Rightarrow> hot_store" where
  "hot_expire_sorted now k ttl s = s\<lparr>hs_sorted := (hs_sorted s)(k := until now ttl (hs_sorted s k))\<rparr>"

definition hot_expire_hash :: "int \<Rightarrow> string \<Rightarrow> nat \<Rightarrow> hot_store \<Rightarrow> hot_store" where
  "hot_expire_hash now k ttl s = s\<lparr>hs_hash := (hs_hash s)(k := until now ttl (hs_hash s k))\<rparr>"

text \<open>A command, a script or a pipeline on the server of a URL.\<close>

definition hot_command :: "string \<Rightarrow> (int \<Rightarrow> hot_store \<Rightarrow> (api_error + 'a) \<times> hot_store) \<Rightarrow> 'a api" where
  "hot_command url f = command ERedis (\<lambda>w. case f (aw_now w) (aw_hot w url) of
     (r, s) \<Rightarrow> (r, w\<lparr>aw_hot := (aw_hot w)(url := s)\<rparr>))"

definition hot_read :: "string \<Rightarrow> (int \<Rightarrow> hot_store \<Rightarrow> 'a) \<Rightarrow> 'a api" where
  "hot_read url f = command ERedis (\<lambda>w. (Inr (f (aw_now w) (aw_hot w url)), w))"

definition hot_write :: "string \<Rightarrow> (int \<Rightarrow> hot_store \<Rightarrow> hot_store) \<Rightarrow> unit api" where
  "hot_write url f = hot_command url (\<lambda>now s. (Inr (), f now s))"

section \<open>Streams\<close>

definition stream_command :: "string \<Rightarrow> string \<Rightarrow> (event_stream \<Rightarrow> (api_error + 'a) \<times> event_stream) \<Rightarrow> 'a api" where
  "stream_command url k f = command ERedis (\<lambda>w. case f (aw_streams w url k) of
     (r, st) \<Rightarrow> (r, w\<lparr>aw_streams := (aw_streams w)(url := (aw_streams w url)(k := st))\<rparr>))"

text \<open>\<open>XADD\<close> with an approximate limit: at most the entries beyond the limit are dropped.\<close>

definition append_event :: "(nat \<Rightarrow> nat) \<Rightarrow> nat \<Rightarrow> string \<Rightarrow> event_stream \<Rightarrow> event_stream" where
  "append_event trims stream_max_len payload st =
     (let entries = es_entries st @ [(es_next st, payload)];
          beyond = length entries - max stream_max_len 1
      in st\<lparr>es_entries := drop (min (trims (length entries)) beyond) entries, es_next := es_next st + 1\<rparr>)"

record stream_event =
  sv_stream_id :: nat
  sv_payload :: string

definition stream_event_of :: "event_stream \<Rightarrow> nat \<Rightarrow> stream_event" where
  "stream_event_of st n = \<lparr>sv_stream_id = n, sv_payload = unwrap_or (map_of (es_entries st) n) []\<rparr>"

definition ensure_group :: "string \<Rightarrow> string \<Rightarrow> string \<Rightarrow> unit api" where
  "ensure_group url stream group_id = stream_command url stream (\<lambda>st. (Inr (),
     case es_groups st group_id of
       None \<Rightarrow> st\<lparr>es_groups := (es_groups st)(group_id := Some \<lparr>cg_last = 0, cg_pending = []\<rparr>)\<rparr>
     | Some _ \<Rightarrow> st))"

definition consumer_name :: "(string \<Rightarrow> string option) \<Rightarrow> string \<Rightarrow> string" where
  "consumer_name env role =
     (let key = ''IM_STREAM_'' @ map (\<lambda>c. if c = CHR ''-'' then CHR ''_'' else c) (to_ascii_uppercase role) @ ''_CONSUMER_NAME''
      in case env key of
           Some v \<Rightarrow> if trim v = [] then ''api-server-rs-'' @ role else v
         | None \<Rightarrow> ''api-server-rs-'' @ role)"

text \<open>\<open>XREADGROUP\<close> from \<open>0\<close>: what the consumer was given before; from \<open>>\<close>: what nobody was given yet.\<close>

definition pending_events :: "string \<Rightarrow> string \<Rightarrow> nat \<Rightarrow> event_stream \<Rightarrow> api_error + stream_event list" where
  "pending_events group_id consumer count st = (case es_groups st group_id of
     None \<Rightarrow> Inl ERedis
   | Some g \<Rightarrow> Inr (map (stream_event_of st) (take (max count 1) (map fst (filter (\<lambda>(_, c). c = consumer) (cg_pending g))))))"

definition new_events :: "nat \<Rightarrow> event_stream \<Rightarrow> consumer_group \<Rightarrow> nat list" where
  "new_events count st g = take (max count 1) (filter (\<lambda>n. cg_last g < n) (map fst (es_entries st)))"

definition deliver_events ::
  "string \<Rightarrow> string \<Rightarrow> nat \<Rightarrow> event_stream \<Rightarrow> (api_error + stream_event list) \<times> event_stream" where
  "deliver_events group_id consumer count st = (case es_groups st group_id of
     None \<Rightarrow> (Inl ERedis, st)
   | Some g \<Rightarrow>
       let ns = new_events count st g;
           g' = \<lparr>cg_last = (if ns = [] then cg_last g else last ns), cg_pending = cg_pending g @ map (\<lambda>n. (n, consumer)) ns\<rparr>
       in (Inr (map (stream_event_of st) ns), st\<lparr>es_groups := (es_groups st)(group_id := Some g')\<rparr>))"

definition ack_events :: "string \<Rightarrow> nat list \<Rightarrow> event_stream \<Rightarrow> event_stream" where
  "ack_events group_id ns st = st\<lparr>es_groups := (es_groups st)(group_id :=
     map_option (\<lambda>g. g\<lparr>cg_pending := filter (\<lambda>(n, _). n \<notin> set ns) (cg_pending g)\<rparr>) (es_groups st group_id))\<rparr>"

definition xack :: "string \<Rightarrow> string \<Rightarrow> string \<Rightarrow> nat list \<Rightarrow> unit api" where
  "xack url stream group_id ns = stream_command url stream (\<lambda>st. (Inr (), ack_events group_id ns st))"

definition ack :: "string \<Rightarrow> string \<Rightarrow> string \<Rightarrow> nat list \<Rightarrow> unit api" where
  "ack url stream group_id stream_ids = (if stream_ids = [] then act_ok () else xack url stream group_id stream_ids)"

definition split_stale_events :: "stream_event list \<Rightarrow> nat list \<times> stream_event list" where
  "split_stale_events events =
     (map sv_stream_id (filter (\<lambda>e. sv_payload e = []) events), filter (\<lambda>e. sv_payload e \<noteq> []) events)"

text \<open>
  The loop reads what is pending until something of it has a payload; a round acknowledges at least one
  entry, so that as many rounds as there are entries are enough, and \<open>None\<close> is a loop that goes on.
\<close>

fun read_group_events :: "nat \<Rightarrow> string \<Rightarrow> string \<Rightarrow> string \<Rightarrow> string \<Rightarrow> nat \<Rightarrow> stream_event list option api" where
  "read_group_events 0 url stream group_id consumer count = act_ok None"
| "read_group_events (Suc fuel) url stream group_id consumer count =
     act_then (stream_command url stream (\<lambda>st. (pending_events group_id consumer count st, st))) (\<lambda>pending.
     let (stale_ids, ready) = split_stale_events pending in
     if pending = [] then
       act_then (stream_command url stream (deliver_events group_id consumer count)) (\<lambda>es. act_ok (Some es))
     else
       act_then (if stale_ids = [] then act_ok () else xack url stream group_id stale_ids) (\<lambda>_.
       if ready \<noteq> [] then act_ok (Some ready)
       else read_group_events fuel url stream group_id consumer count))"

section \<open>Pending events\<close>

definition pending_event_member :: "string \<Rightarrow> string \<Rightarrow> string" where
  "pending_event_member event_id conversation_id = event_id @ ''|'' @ conversation_id"

definition write_state_event :: "api_lib \<Rightarrow> string \<Rightarrow> string \<Rightarrow> im_event \<Rightarrow> unit api" where
  "write_state_event L url conversation_id event =
     act_then (hot_write url (\<lambda>now. hot_put_ex now (event_key (ev_event_id event)) (ap_print_event L event) event_ttl_seconds))
       (\<lambda>_. act_then now_ms (\<lambda>now.
     hot_write url (\<lambda>t. hot_zadd t pending_events_key now (pending_event_member (ev_event_id event) conversation_id))))"

end
