(* ===== verification/Api_Cache.thy ===== *)
theory Api_Cache
  imports Api_Groups Api_Hot
begin

text \<open>
  What the message service remembers of users, groups, friends and members: the cache inside the process
  (\<open>api-server/src/local_cache.rs\<close>), the search of identifiers that a browser has rounded
  (\<open>id_resolver.rs\<close>), and the checks that go through both caches (\<open>message/message_cache.rs\<close>). The
  locks of the keys only make fewer interleavings possible and are left out, so that the computations
  below interleave at every access.
\<close>

section \<open>The cache inside the process\<close>

definition positive_ttl_ms :: int where "positive_ttl_ms = 60 * 1000"
definition negative_ttl_ms :: int where "negative_ttl_ms = 10 * 1000"
definition max_entries :: nat where "max_entries = 100000"

type_synonym local_cache = "(string \<times> cache_value \<times> int) list"

definition cached :: "int \<Rightarrow> string \<Rightarrow> local_cache \<Rightarrow> cache_value option" where
  "cached now key cache = (case map_of cache key of
     Some (v, expires_at) \<Rightarrow> if expires_at \<le> now then None else Some v
   | None \<Rightarrow> None)"

definition drop_expired :: "int \<Rightarrow> string \<Rightarrow> local_cache \<Rightarrow> local_cache" where
  "drop_expired now key cache = (case map_of cache key of
     Some (v, expires_at) \<Rightarrow> if expires_at \<le> now then AList.delete key cache else cache
   | None \<Rightarrow> cache)"

definition cache_insert :: "int \<Rightarrow> string \<Rightarrow> cache_value \<Rightarrow> int \<Rightarrow> local_cache \<Rightarrow> local_cache" where
  "cache_insert now key v ttl cache =
     (let kept = (if max_entries \<le> length cache then
                    let alive = filter (\<lambda>(_, _, expires_at). now < expires_at) cache
                    in if max_entries \<le> length alive then [] else alive
                  else cache)
      in AList.update key (v, now + ttl) kept)"

definition get_value :: "string \<Rightarrow> cache_value option api" where
  "get_value key = Step
     (\<lambda>w. w\<lparr>aw_local := drop_expired (aw_now w) key (aw_local w)\<rparr>)
     (\<lambda>w. act_ok (cached (aw_now w) key (aw_local w)))"

definition set_value :: "string \<Rightarrow> cache_value \<Rightarrow> int \<Rightarrow> unit api" where
  "set_value key v ttl = Step
     (\<lambda>w. w\<lparr>aw_local := cache_insert (aw_now w) key v ttl (aw_local w)\<rparr>) (\<lambda>_. act_ok ())"

definition get_bool :: "string \<Rightarrow> bool option api" where
  "get_bool key = act_then (get_value key) (\<lambda>v. act_ok (case v of Some (CBool b) \<Rightarrow> Some b | _ \<Rightarrow> None))"

definition set_bool :: "string \<Rightarrow> bool \<Rightarrow> unit api" where
  "set_bool key b = set_value key (CBool b) (if b then positive_ttl_ms else negative_ttl_ms)"

definition get_i64_option :: "string \<Rightarrow> int option option api" where
  "get_i64_option key = act_then (get_value key) (\<lambda>v. act_ok (case v of Some (CI64_option m) \<Rightarrow> Some m | _ \<Rightarrow> None))"

definition set_i64_option :: "string \<Rightarrow> int option \<Rightarrow> unit api" where
  "set_i64_option key m = set_value key (CI64_option m) (if m \<noteq> None then positive_ttl_ms else negative_ttl_ms)"

definition get_i64_vec :: "string \<Rightarrow> int list option api" where
  "get_i64_vec key = act_then (get_value key) (\<lambda>v. act_ok (case v of Some (CI64_vec is) \<Rightarrow> Some is | _ \<Rightarrow> None))"

definition set_i64_vec :: "string \<Rightarrow> int list \<Rightarrow> unit api" where
  "set_i64_vec key is = set_value key (CI64_vec is) positive_ttl_ms"

section \<open>Rounded identifiers\<close>

definition js_safe_integer_max :: int where "js_safe_integer_max = 9007199254740991"
definition js_integer_rounding_window :: int where "js_integer_rounding_window = 4096"

text \<open>\<open>i64::abs\<close> of a release build, and the saturating operations.\<close>

definition i64_abs :: "int \<Rightarrow> int" where
  "i64_abs i = (if i = - (2 ^ 63) then i else \<bar>i\<bar>)"

definition i64_saturate :: "int \<Rightarrow> int" where
  "i64_saturate i = max (- (2 ^ 63)) (min (2 ^ 63 - 1) i)"

definition nearest_id :: "int \<Rightarrow> int list \<Rightarrow> int option" where
  "nearest_id candidate ids =
     (let lower = i64_saturate (candidate - js_integer_rounding_window);
          upper = i64_saturate (candidate + js_integer_rounding_window)
      in case sort_key (\<lambda>i. (\<bar>i - candidate\<bar>, i)) (filter (\<lambda>i. lower \<le> i \<and> i \<le> upper) ids) of
           [] \<Rightarrow> None | i # _ \<Rightarrow> Some i)"

text \<open>\<open>ids\<close> are the identifiers of a table that pass the filter.\<close>

definition resolve_existing_id :: "(api_world \<Rightarrow> int list) \<Rightarrow> int \<Rightarrow> int option api" where
  "resolve_existing_id ids candidate =
     act_then (sql_query (\<lambda>w. find (\<lambda>i. i = candidate) (ids w))) (\<lambda>exact.
       if exact \<noteq> None \<or> i64_abs candidate \<le> js_safe_integer_max then act_ok exact
       else sql_query (\<lambda>w. nearest_id candidate (ids w)))"

definition resolve_active_user_id :: "int \<Rightarrow> int option api" where
  "resolve_active_user_id = resolve_existing_id (\<lambda>w. map us_id (filter (\<lambda>r. us_status r = 1) (aw_users w)))"

definition resolve_active_group_id :: "int \<Rightarrow> int option api" where
  "resolve_active_group_id = resolve_existing_id (\<lambda>w. map ig_id (filter (\<lambda>r. ig_status r = 1) (aw_im_groups w)))"

definition resolve_existing_message_id :: "int \<Rightarrow> int option api" where
  "resolve_existing_message_id = resolve_existing_id (\<lambda>w. map mr_id (filter (\<lambda>r. mr_status r \<noteq> 5) (aw_messages w)))"

section \<open>Both caches\<close>

definition validation_cache_ttl_seconds :: nat where "validation_cache_ttl_seconds = 5 * 60"
definition validation_negative_cache_ttl_seconds :: nat where "validation_negative_cache_ttl_seconds = 60"
definition max_friends_preload :: nat where "max_friends_preload = 10000"

text \<open>\<open>redis.get(\<dots>).await.ok().flatten()\<close>: a failing read is a miss; a failing write is only logged.\<close>

definition redis_peek :: "string \<Rightarrow> string option api" where
  "redis_peek key = act_then (act_try (redis_get key)) (\<lambda>r. act_ok (case r of Inr (Some v) \<Rightarrow> Some v | _ \<Rightarrow> None))"

definition redis_keep :: "string \<Rightarrow> string \<Rightarrow> nat \<Rightarrow> unit api" where
  "redis_keep key v ttl_seconds = act_then (act_try (redis_set_ex key v ttl_seconds)) (\<lambda>_. act_ok ())"

definition read_cached_i64_option :: "string \<Rightarrow> int option option api" where
  "read_cached_i64_option key = act_then (redis_peek key) (\<lambda>value. case value of
     None \<Rightarrow> act_ok None
   | Some raw \<Rightarrow>
       let m = (if raw = ''none'' then None else parse_i64 raw)
       in act_then (set_i64_option key m) (\<lambda>_. act_ok (Some m)))"

definition write_cached_i64_option :: "string \<Rightarrow> int option \<Rightarrow> unit api" where
  "write_cached_i64_option key m = act_then (set_i64_option key m) (\<lambda>_.
     redis_keep key (case m of Some i \<Rightarrow> show_int i | None \<Rightarrow> ''none'')
       (if m \<noteq> None then validation_cache_ttl_seconds else validation_negative_cache_ttl_seconds))"

definition cached_resolve :: "string \<Rightarrow> int option api \<Rightarrow> int option api" where
  "cached_resolve key resolve =
     act_then (get_i64_option key) (\<lambda>c. case c of Some m \<Rightarrow> act_ok m | None \<Rightarrow>
     act_then (get_i64_option key) (\<lambda>c. case c of Some m \<Rightarrow> act_ok m | None \<Rightarrow>
     act_then (read_cached_i64_option key) (\<lambda>c. case c of Some m \<Rightarrow> act_ok m | None \<Rightarrow>
     act_then resolve (\<lambda>resolved.
     act_then (write_cached_i64_option key resolved) (\<lambda>_. act_ok resolved)))))"

definition cached_resolve_active_user_id :: "int \<Rightarrow> int option api" where
  "cached_resolve_active_user_id candidate =
     cached_resolve (''im:cache:active_user:'' @ show_int candidate) (resolve_active_user_id candidate)"

definition cached_resolve_active_group_id :: "int \<Rightarrow> int option api" where
  "cached_resolve_active_group_id candidate =
     cached_resolve (''im:cache:active_group:'' @ show_int candidate) (resolve_active_group_id candidate)"

definition read_cached_bool :: "string \<Rightarrow> bool option api" where
  "read_cached_bool key = act_then (redis_peek key) (\<lambda>value.
     let parsed = (case value of Some raw \<Rightarrow> if raw = ''1'' then Some True else if raw = ''0'' then Some False else None
                   | None \<Rightarrow> None)
     in case parsed of None \<Rightarrow> act_ok None | Some b \<Rightarrow> act_then (set_bool key b) (\<lambda>_. act_ok (Some b)))"

definition write_cached_bool :: "string \<Rightarrow> bool \<Rightarrow> unit api" where
  "write_cached_bool key b = act_then (set_bool key b) (\<lambda>_.
     redis_keep key (if b then ''1'' else ''0'')
       (if b then validation_cache_ttl_seconds else validation_negative_cache_ttl_seconds))"

text \<open>A check that both caches may answer; \<open>otherwise\<close> is what happens when neither does.\<close>

definition cached_check :: "string \<Rightarrow> api_error \<Rightarrow> unit api \<Rightarrow> unit api" where
  "cached_check key refusal otherwise =
     act_then (get_bool key) (\<lambda>c. case c of Some allowed \<Rightarrow> act_check allowed refusal | None \<Rightarrow>
     act_then (get_bool key) (\<lambda>c. case c of Some allowed \<Rightarrow> act_check allowed refusal | None \<Rightarrow>
     act_then (read_cached_bool key) (\<lambda>c. case c of Some allowed \<Rightarrow> act_check allowed refusal | None \<Rightarrow>
     otherwise)))"

section \<open>Friends\<close>

definition friend_cache_key :: "int \<Rightarrow> int \<Rightarrow> string" where
  "friend_cache_key user_id friend_id = ''im:cache:friend:'' @ show_int user_id @ '':'' @ show_int friend_id"

definition friend_preload_key :: "int \<Rightarrow> string" where
  "friend_preload_key user_id = ''im:cache:friend_preload:'' @ show_int user_id"

text \<open>The friends of a user, in the order the database happens to give them.\<close>

definition friends_of :: "int \<Rightarrow> api_world \<Rightarrow> int list" where
  "friends_of user_id w =
     take max_friends_preload (map fr_friend_id (filter (\<lambda>r. fr_user_id r = user_id \<and> fr_status r = 1) (aw_friends w)))"

definition keep_relations :: "int \<Rightarrow> int list \<Rightarrow> unit api" where
  "keep_relations user_id friend_ids =
     (if friend_ids = [] then act_ok ()
      else act_then (act_try (redis_command (\<lambda>w. ((), w\<lparr>aw_redis := fold (\<lambda>f m.
          m(friend_cache_key user_id f := Some (''1'', aw_now w + int validation_cache_ttl_seconds * 1000)))
          friend_ids (aw_redis w)\<rparr>)))) (\<lambda>_. act_ok ()))"

definition preload_friend_relations :: "int \<Rightarrow> int \<Rightarrow> bool api" where
  "preload_friend_relations user_id requested =
     act_then (get_bool (friend_preload_key user_id)) (\<lambda>preloaded.
     if preloaded = Some True then
       act_then (read_cached_bool (friend_cache_key user_id requested)) (\<lambda>r.
       let allowed = unwrap_or r False in
       act_then (if allowed then act_ok () else write_cached_bool (friend_cache_key user_id requested) False) (\<lambda>_.
       act_ok allowed))
     else
       act_then (sql_query (friends_of user_id)) (\<lambda>friend_ids.
       act_then (act_each (\<lambda>f. set_bool (friend_cache_key user_id f) True) friend_ids) (\<lambda>_.
       act_then (keep_relations user_id friend_ids) (\<lambda>_.
       act_then (set_bool (friend_preload_key user_id) True) (\<lambda>_.
       act_then (redis_keep (friend_preload_key user_id) ''1'' validation_cache_ttl_seconds) (\<lambda>_.
       let allowed = requested \<in> set friend_ids in
       act_then (if allowed then act_ok () else write_cached_bool (friend_cache_key user_id requested) False) (\<lambda>_.
       act_ok allowed)))))))"

definition validate_friend :: "int \<Rightarrow> int \<Rightarrow> unit api" where
  "validate_friend user_id friend_id =
     (let refusal = EForbidden ''friend relationship not found'' in
      cached_check (friend_cache_key user_id friend_id) refusal
        (act_then (preload_friend_relations user_id friend_id) (\<lambda>allowed. act_check allowed refusal)))"

section \<open>Members\<close>

definition member_cache_key :: "int \<Rightarrow> int \<Rightarrow> string" where
  "member_cache_key group_id user_id = ''im:cache:group_member:'' @ show_int group_id @ '':'' @ show_int user_id"

definition validate_group_member :: "int \<Rightarrow> int \<Rightarrow> unit api" where
  "validate_group_member group_id user_id =
     (let refusal = EForbidden ''group membership not found'' in
      cached_check (member_cache_key group_id user_id) refusal
        (act_then (act_try (ensure_group_member group_id user_id)) (\<lambda>r.
         act_then (write_cached_bool (member_cache_key group_id user_id) (is_ok r)) (\<lambda>_.
         act_check (is_ok r) refusal))))"

fun mentioned_after :: "int \<Rightarrow> string list \<Rightarrow> int list \<Rightarrow> api_error + int list" where
  "mentioned_after sender_id [] result = Inr result"
| "mentioned_after sender_id (raw # raws) result = (case parse_i64 (trim raw) of
     None \<Rightarrow> Inl (EBadRequest ''invalid mentioned user id'')
   | Some uid \<Rightarrow> mentioned_after sender_id raws
       (if uid \<noteq> sender_id \<and> uid \<notin> set result then result @ [uid] else result))"

definition validate_mentioned_user_ids :: "string list \<Rightarrow> int \<Rightarrow> api_error + int list" where
  "validate_mentioned_user_ids mentioned sender_id = mentioned_after sender_id mentioned []"

definition batch_validate_mentioned_members :: "int \<Rightarrow> int \<Rightarrow> string list option \<Rightarrow> int list api" where
  "batch_validate_mentioned_members group_id sender_id mentioned = (case mentioned of
     None \<Rightarrow> act_ok []
   | Some mentioned \<Rightarrow>
       act_then (Ret (validate_mentioned_user_ids mentioned sender_id)) (\<lambda>user_ids.
       if user_ids = [] then act_ok user_ids
       else
         act_then (ensure_group_members_batch group_id user_ids) (\<lambda>valid_ids.
         act_then (act_each (\<lambda>uid. act_then (set_bool (member_cache_key group_id uid) True) (\<lambda>_.
           redis_keep (member_cache_key group_id uid) ''1'' validation_cache_ttl_seconds)) valid_ids) (\<lambda>_.
         act_ok valid_ids))))"

end
