(* ===== verification/Api_Writer.thy ===== *)
theory Api_Writer
  imports Api_Hot
begin

text \<open>
  The embedded message writer: the database side (\<open>api-server/src/background_writer/background_db.rs\<close>) and
  the consumer that batches the events of a stream, writes the batches in one transaction each and only then
  acknowledges them (\<open>api-server/src/background_writer/mod.rs\<close>). The endless loop is modelled round by round.
\<close>

section \<open>Values\<close>

definition mysql_bind_limit :: nat where "mysql_bind_limit = 60000"
definition message_insert_binds :: nat where "message_insert_binds = 25"
definition message_device_envelope_insert_binds :: nat where "message_device_envelope_insert_binds = 4"
definition private_read_cursor_insert_binds :: nat where "private_read_cursor_insert_binds = 6"
definition group_read_cursor_insert_binds :: nat where "group_read_cursor_insert_binds = 8"

definition max_rows_per_statement :: "nat \<Rightarrow> nat" where
  "max_rows_per_statement bind_count_per_row = max (mysql_bind_limit div bind_count_per_row) 1"

fun chunks :: "nat \<Rightarrow> 'a list \<Rightarrow> 'a list list" where
  "chunks n [] = []"
| "chunks n (x # xs) = (if n = 0 then [] else take n (x # xs) # chunks n (drop n (x # xs)))"

definition parse_i64_trimmed :: "string \<Rightarrow> int option" where
  "parse_i64_trimmed value = parse_i64 (trim value)"

text \<open>Milliseconds; \<open>now\<close> is the clock, for a text that is no time.\<close>

definition parse_datetime :: "api_lib \<Rightarrow> int \<Rightarrow> string \<Rightarrow> int" where
  "parse_datetime L now value = unwrap_or (ap_parse_time L value) now"

text \<open>What a \<open>DATETIME\<close> column holds of a time.\<close>

definition sql_datetime :: "int \<Rightarrow> int" where
  "sql_datetime ms = (ms + 500) div 1000"

definition writer_conversation_id :: "message_dto \<Rightarrow> string" where
  "writer_conversation_id message =
     (if md_is_group_chat message then
        (case Option.bind (md_group_id message) parse_i64_trimmed of
           Some g \<Rightarrow> group_conversation_id g | None \<Rightarrow> ''g_0'')
      else private_conversation_id (unwrap_or (parse_i64_trimmed (md_sender_id message)) 0)
        (unwrap_or (Option.bind (md_receiver_id message) parse_i64_trimmed) 0))"

section \<open>Messages\<close>

text \<open>\<open>DbMessage::from_message\<close>; its times are still milliseconds.\<close>

definition db_message_of :: "api_lib \<Rightarrow> int \<Rightarrow> message_dto \<Rightarrow> message_row option" where
  "db_message_of L now message =
     (let created = parse_datetime L now (md_created_time message);
          updated = (case md_updated_time message of Some t \<Rightarrow> parse_datetime L now t | None \<Rightarrow> created)
      in case parse_i64_trimmed (md_id message) of
        None \<Rightarrow> None
      | Some message_id \<Rightarrow>
        if \<not> 0 < message_id then None
        else Some \<lparr>mr_id = message_id,
          mr_sender_id = unwrap_or (parse_i64_trimmed (md_sender_id message)) 0,
          mr_receiver_id = Option.bind (md_receiver_id message) parse_i64_trimmed,
          mr_group_id = Option.bind (md_group_id message) parse_i64_trimmed,
          mr_conversation_seq = md_conversation_seq message,
          mr_client_message_id = md_client_message_id message,
          mr_message_type = message_type_db_code (message_type_from_text (md_message_type message)),
          mr_content = md_content message,
          mr_media_url = md_media_url message,
          mr_media_size = md_media_size message,
          mr_media_name = md_media_name message,
          mr_thumbnail_url = md_thumbnail_url message,
          mr_duration = md_duration message,
          mr_location_info = md_location_info message,
          mr_encrypted = unwrap_or (md_encrypted message) False,
          mr_e2ee_header = md_e2ee_header message,
          mr_e2ee_device_id = md_e2ee_device_id message,
          mr_e2ee_sender_identity_key = md_e2ee_sender_identity_key message,
          mr_e2ee_ephemeral_key = md_e2ee_ephemeral_key message,
          mr_e2ee_envelope_json = map_option (ap_print_envelope L) (md_e2ee_envelope message),
          mr_status = message_status_db_code (message_status_from_text (md_status message)),
          mr_is_group_chat = md_is_group_chat message,
          mr_reply_to_message_id = Option.bind (md_reply_to_message_id message) parse_i64_trimmed,
          mr_created_time = created,
          mr_updated_time = updated\<rparr>)"

text \<open>The row as the columns hold it, when the database takes every value.\<close>

definition column :: "('a \<Rightarrow> 'a option) \<Rightarrow> 'a option \<Rightarrow> 'a option option" where
  "column f m = (case m of None \<Rightarrow> Some None | Some v \<Rightarrow> map_option Some (f v))"

definition stored_message :: "api_lib \<Rightarrow> message_row \<Rightarrow> message_row option" where
  "stored_message L m =
     Option.bind (column (ap_varchar L 64) (mr_client_message_id m)) (\<lambda>client.
     Option.bind (column (ap_varchar L 500) (mr_media_url m)) (\<lambda>media_url.
     Option.bind (column (ap_varchar L 255) (mr_media_name m)) (\<lambda>media_name.
     Option.bind (column (ap_varchar L 500) (mr_thumbnail_url m)) (\<lambda>thumbnail.
     Option.bind (column (ap_varchar L 64) (mr_e2ee_device_id m)) (\<lambda>device.
     if list_all (\<lambda>t. length t < 2 ^ 16) (List.map_filter id
          [mr_content m, mr_location_info m, mr_e2ee_header m, mr_e2ee_sender_identity_key m, mr_e2ee_ephemeral_key m])
     then Some (m\<lparr>mr_client_message_id := client, mr_media_url := media_url, mr_media_name := media_name,
       mr_thumbnail_url := thumbnail, mr_e2ee_device_id := device,
       mr_created_time := sql_datetime (mr_created_time m), mr_updated_time := sql_datetime (mr_updated_time m)\<rparr>)
     else None)))))"

text \<open>
  An insertion into a table with unique keys: the first key that an old row already has decides which row
  is updated instead.
\<close>

fun upsert_row :: "('r \<Rightarrow> bool) list \<Rightarrow> 'r \<Rightarrow> ('r \<Rightarrow> 'r) \<Rightarrow> 'r list \<Rightarrow> 'r list" where
  "upsert_row [] new f rows = rows @ [new]"
| "upsert_row (same_key # keys) new f rows =
     (if \<exists>r \<in> set rows. same_key r then update_where same_key f rows else upsert_row keys new f rows)"

definition same_client_key :: "api_lib \<Rightarrow> message_row \<Rightarrow> message_row \<Rightarrow> bool" where
  "same_client_key L m r \<longleftrightarrow> mr_sender_id r = mr_sender_id m \<and>
     (case (mr_client_message_id r, mr_client_message_id m) of
        (Some a, Some b) \<Rightarrow> ap_collate L a = ap_collate L b | _ \<Rightarrow> False)"

definition merge_message :: "message_row \<Rightarrow> message_row \<Rightarrow> message_row" where
  "merge_message m r = r\<lparr>mr_status := max (mr_status r) (mr_status m),
     mr_conversation_seq := (case mr_conversation_seq m of Some q \<Rightarrow> Some q | None \<Rightarrow> mr_conversation_seq r),
     mr_updated_time := max (mr_updated_time r) (mr_updated_time m)\<rparr>"

definition insert_message :: "api_lib \<Rightarrow> message_row \<Rightarrow> message_row list \<Rightarrow> message_row list" where
  "insert_message L m = upsert_row [\<lambda>r. mr_id r = mr_id m, same_client_key L m] m (merge_message m)"

text \<open>A statement per chunk; a value that does not fit fails the statement and with it the transaction.\<close>

definition insert_chunk :: "api_lib \<Rightarrow> message_row list \<Rightarrow> message_row list \<Rightarrow> message_row list option" where
  "insert_chunk L chunk rows = foldl (\<lambda>acc m. Option.bind acc (\<lambda>rows.
     map_option (\<lambda>m. insert_message L m rows) (stored_message L m))) (Some rows) chunk"

definition insert_messages :: "api_lib \<Rightarrow> int \<Rightarrow> message_dto list \<Rightarrow> message_row list \<Rightarrow> message_row list option" where
  "insert_messages L now messages rows =
     (let records = List.map_filter (db_message_of L now) messages
      in foldl (\<lambda>acc chunk. Option.bind acc (insert_chunk L chunk)) (Some rows)
           (chunks (max_rows_per_statement message_insert_binds) records))"

section \<open>Envelopes\<close>

definition delivery_of :: "api_lib \<Rightarrow> string \<times> message_device_envelope \<Rightarrow> delivery_row option" where
  "delivery_of L me = (case me of (message_id, envelope) \<Rightarrow>
     map_option (\<lambda>i. \<lparr>dl_message_id = i, dl_device_id = me_recipient_device_id envelope,
       dl_ciphertext = unwrap_or (ee_wire (me_envelope envelope)) [],
       dl_header = ap_print_envelope L (me_envelope envelope)\<rparr>) (parse_i64_trimmed message_id))"

definition insert_delivery :: "api_lib \<Rightarrow> delivery_row \<Rightarrow> delivery_row list \<Rightarrow> delivery_row list option" where
  "insert_delivery L d rows = map_option (\<lambda>device.
     upsert_row [\<lambda>r. dl_message_id r = dl_message_id d \<and> ap_collate L (dl_device_id r) = ap_collate L device]
       (d\<lparr>dl_device_id := device\<rparr>) (\<lambda>r. r\<lparr>dl_header := dl_header d\<rparr>) rows) (ap_varchar L 64 (dl_device_id d))"

definition insert_message_device_envelopes ::
  "api_lib \<Rightarrow> (string \<times> message_device_envelope) list \<Rightarrow> delivery_row list \<Rightarrow> delivery_row list option" where
  "insert_message_device_envelopes L envelopes rows =
     foldl (\<lambda>acc chunk. foldl (\<lambda>acc d. Option.bind acc (insert_delivery L d)) acc chunk) (Some rows)
       (chunks (max_rows_per_statement message_device_envelope_insert_binds) (List.map_filter (delivery_of L) envelopes))"

section \<open>Read cursors\<close>

record private_read_cursor =
  pu_cursor_id :: int
  pu_user_id :: int
  pu_peer_user_id :: int
  pu_read_at :: int

record group_read_cursor =
  gu_cursor_id :: int
  gu_group_id :: int
  gu_user_id :: int
  gu_read_at :: int
  gu_last_read_seq :: int
  gu_last_read_message_id :: "int option"

definition upsert_private_cursor :: "private_read_cursor \<Rightarrow> private_cursor_row list \<Rightarrow> private_cursor_row list" where
  "upsert_private_cursor c = upsert_row
     [\<lambda>r. pr_id r = pu_cursor_id c, \<lambda>r. pr_user_id r = pu_user_id c \<and> pr_peer_user_id r = pu_peer_user_id c]
     \<lparr>pr_id = pu_cursor_id c, pr_user_id = pu_user_id c, pr_peer_user_id = pu_peer_user_id c,
      pr_last_read_at = sql_datetime (pu_read_at c)\<rparr>
     (\<lambda>r. r\<lparr>pr_last_read_at := max (pr_last_read_at r) (sql_datetime (pu_read_at c))\<rparr>)"

definition upsert_private_read_cursors ::
  "private_read_cursor list \<Rightarrow> private_cursor_row list \<Rightarrow> private_cursor_row list" where
  "upsert_private_read_cursors cursors rows =
     fold (fold upsert_private_cursor) (chunks (max_rows_per_statement private_read_cursor_insert_binds) cursors) rows"

definition greatest_id :: "int option \<Rightarrow> int option \<Rightarrow> int option" where
  "greatest_id a b = (let g = max (unwrap_or a 0) (unwrap_or b 0) in if g = 0 then None else Some g)"

definition upsert_group_cursor :: "group_read_cursor \<Rightarrow> group_cursor_row list \<Rightarrow> group_cursor_row list" where
  "upsert_group_cursor c = upsert_row
     [\<lambda>r. gr_id r = gu_cursor_id c, \<lambda>r. gr_group_id r = gu_group_id c \<and> gr_user_id r = gu_user_id c]
     \<lparr>gr_id = gu_cursor_id c, gr_group_id = gu_group_id c, gr_user_id = gu_user_id c,
      gr_last_read_at = sql_datetime (gu_read_at c), gr_last_read_seq = gu_last_read_seq c,
      gr_last_read_message_id = gu_last_read_message_id c\<rparr>
     (\<lambda>r. r\<lparr>gr_last_read_at := max (gr_last_read_at r) (sql_datetime (gu_read_at c)),
       gr_last_read_seq := max (gr_last_read_seq r) (gu_last_read_seq c),
       gr_last_read_message_id := greatest_id (gr_last_read_message_id r) (gu_last_read_message_id c)\<rparr>)"

definition upsert_group_read_cursors ::
  "group_read_cursor list \<Rightarrow> group_cursor_row list \<Rightarrow> group_cursor_row list" where
  "upsert_group_read_cursors cursors rows =
     fold (fold upsert_group_cursor) (chunks (max_rows_per_statement group_read_cursor_insert_binds) cursors) rows"

text \<open>
  The hash tables of the coalescing as association lists; the order in which a table gives its values is
  its own, here that of the first insertion.
\<close>

definition coalesce_by :: "('c \<Rightarrow> 'k) \<Rightarrow> ('c \<Rightarrow> 'c \<Rightarrow> bool) \<Rightarrow> 'c list \<Rightarrow> 'c list" where
  "coalesce_by key newer cursors =
     map snd (foldl (\<lambda>latest c. case map_of latest (key c) of
         Some old \<Rightarrow> if newer c old then AList.update (key c) c latest else latest
       | None \<Rightarrow> latest @ [(key c, c)]) [] cursors)"

definition coalesce_private_read_cursors :: "private_read_cursor list \<Rightarrow> private_read_cursor list" where
  "coalesce_private_read_cursors =
     coalesce_by (\<lambda>c. (pu_user_id c, pu_peer_user_id c)) (\<lambda>c old. pu_read_at old < pu_read_at c)"

definition group_cursor_is_newer :: "group_read_cursor \<Rightarrow> group_read_cursor \<Rightarrow> bool" where
  "group_cursor_is_newer candidate current \<longleftrightarrow>
     gu_last_read_seq current < gu_last_read_seq candidate \<or>
     gu_last_read_seq candidate = gu_last_read_seq current \<and> gu_read_at current < gu_read_at candidate"

definition coalesce_group_read_cursors :: "group_read_cursor list \<Rightarrow> group_read_cursor list" where
  "coalesce_group_read_cursors = coalesce_by (\<lambda>c. (gu_group_id c, gu_user_id c)) group_cursor_is_newer"

section \<open>The processor\<close>

text \<open>
  What \<open>Processor\<close> keeps between two rounds; its configuration and its connections are the arguments of the
  functions. A failing function loses it, since the caller then builds a new one.
\<close>

record processor =
  pp_message_batch :: "(message_dto \<times> message_device_envelope list) list"
  pp_private_read_batch :: "private_read_cursor list"
  pp_group_read_batch :: "group_read_cursor list"
  pp_message_ack_ids :: "nat list"
  pp_private_read_ack_ids :: "nat list"
  pp_group_read_ack_ids :: "nat list"
  pp_flushed_ack_ids :: "nat list"
  pp_last_flush :: int

definition stream_group_id :: "string \<Rightarrow> event_stream_config \<Rightarrow> string" where
  "stream_group_id base_group_id stream = base_group_id @ ''-'' @ event_stream_kind_str (es_kind stream)"

definition has_pending :: "processor \<Rightarrow> bool" where
  "has_pending p \<longleftrightarrow> pp_message_batch p \<noteq> [] \<or> pp_private_read_batch p \<noteq> [] \<or> pp_group_read_batch p \<noteq> []"

definition read_batch_len :: "processor \<Rightarrow> nat" where
  "read_batch_len p = length (pp_private_read_batch p) + length (pp_group_read_batch p)"

text \<open>The greatest identifier of a batch for each conversation, and the server it is written to; a failure is only logged.\<close>

definition watermarks :: "message_dto list \<Rightarrow> (string \<times> int) list" where
  "watermarks messages = foldl (\<lambda>ws m. case parse_i64 (md_id m) of
       None \<Rightarrow> ws
     | Some i \<Rightarrow> AList.update (writer_conversation_id m)
         (case map_of ws (writer_conversation_id m) of Some j \<Rightarrow> max j i | None \<Rightarrow> i) ws) [] messages"

definition shard_watermarks :: "nat \<Rightarrow> nat \<Rightarrow> message_dto list \<Rightarrow> (string \<times> int) list" where
  "shard_watermarks shards shard messages =
     filter (\<lambda>(c, _). shard_index_for_key c shards = Some shard) (watermarks messages)"

definition write_watermarks :: "string list \<Rightarrow> message_dto list \<Rightarrow> unit api" where
  "write_watermarks hot_redis messages =
     act_then (act_each (\<lambda>shard. let ws = shard_watermarks (length hot_redis) shard messages in
       if ws = [] then act_ok ()
       else act_then (act_try (hot_write (hot_redis ! shard) (\<lambda>now s.
           fold (\<lambda>(c, i). hot_put (db_watermark_key c) (show_int i)) ws s))) (\<lambda>_. act_ok ()))
       [0..<length hot_redis]) (\<lambda>_. act_ok ())"

text \<open>A transaction that fails changes nothing.\<close>

definition store_messages ::
  "api_lib \<Rightarrow> message_dto list \<Rightarrow> (string \<times> message_device_envelope) list \<Rightarrow> unit api" where
  "store_messages L messages envelopes = sql_execute (\<lambda>w.
     case insert_messages L (aw_now w) messages (aw_messages w) of
       None \<Rightarrow> (Inl ESqlx, w)
     | Some ms \<Rightarrow>
        (case insert_message_device_envelopes L envelopes (aw_deliveries w) of
           None \<Rightarrow> (Inl ESqlx, w)
         | Some ds \<Rightarrow> (Inr (), w\<lparr>aw_messages := ms, aw_deliveries := ds\<rparr>)))"

definition flush_messages :: "api_lib \<Rightarrow> string list \<Rightarrow> processor \<Rightarrow> (bool \<times> processor) api" where
  "flush_messages L hot_redis p =
     (if pp_message_batch p = [] then act_ok (False, p)
      else
        let messages = map fst (pp_message_batch p);
            device_envelopes = concat (map (\<lambda>(m, es). map (Pair (md_id m)) es) (pp_message_batch p));
            p' = p\<lparr>pp_message_batch := [], pp_flushed_ack_ids := pp_flushed_ack_ids p @ pp_message_ack_ids p,
                   pp_message_ack_ids := []\<rparr>
        in act_then (store_messages L messages device_envelopes) (\<lambda>_.
           act_then (write_watermarks hot_redis messages) (\<lambda>_. act_ok (True, p'))))"

definition flush_read_cursors :: "processor \<Rightarrow> (bool \<times> processor) api" where
  "flush_read_cursors p =
     (if pp_private_read_batch p = [] \<and> pp_group_read_batch p = [] then act_ok (False, p)
      else act_then (sql_execute (\<lambda>w. (Inr (), w\<lparr>
          aw_private_cursors := upsert_private_read_cursors (coalesce_private_read_cursors (pp_private_read_batch p)) (aw_private_cursors w),
          aw_group_cursors := upsert_group_read_cursors (coalesce_group_read_cursors (pp_group_read_batch p)) (aw_group_cursors w)\<rparr>)))
        (\<lambda>_. act_ok (True, p\<lparr>pp_private_read_batch := [], pp_group_read_batch := [],
          pp_flushed_ack_ids := pp_flushed_ack_ids p @ pp_private_read_ack_ids p @ pp_group_read_ack_ids p,
          pp_private_read_ack_ids := [], pp_group_read_ack_ids := []\<rparr>)))"

definition flushed_now :: "bool \<Rightarrow> processor \<Rightarrow> processor api" where
  "flushed_now flushed p = (if flushed then act_then now_ms (\<lambda>now. act_ok (p\<lparr>pp_last_flush := now\<rparr>)) else act_ok p)"

definition flush_pending :: "api_lib \<Rightarrow> string list \<Rightarrow> processor \<Rightarrow> processor api" where
  "flush_pending L hot_redis p =
     act_then (flush_messages L hot_redis p) (\<lambda>(flushed_messages, p).
     act_then (flush_read_cursors p) (\<lambda>(flushed_reads, p).
     flushed_now (flushed_messages \<or> flushed_reads) p))"

definition flush_if_due :: "api_lib \<Rightarrow> api_config \<Rightarrow> string list \<Rightarrow> processor \<Rightarrow> processor api" where
  "flush_if_due L config hot_redis p =
     (if \<not> has_pending p then act_ok p
      else act_then now_ms (\<lambda>now.
        if int (ac_writer_flush_interval_ms config) \<le> now - pp_last_flush p then flush_pending L hot_redis p
        else act_ok p))"

definition apply_status :: "im_event \<Rightarrow> unit api" where
  "apply_status event = (case Option.bind (ev_message_id event) parse_i64_trimmed of
     None \<Rightarrow> act_ok ()
   | Some message_id \<Rightarrow>
       let status = (case ev_new_status event of
           Some t \<Rightarrow> message_status_from_text t
         | None \<Rightarrow> if ev_event_type event = MessageDeleted then Deleted else Recalled)
       in sql_execute (\<lambda>w. (Inr (), w\<lparr>aw_messages := update_where (\<lambda>r. mr_id r = message_id)
            (\<lambda>r. r\<lparr>mr_status := max (mr_status r) (message_status_db_code status),
              mr_updated_time := sql_datetime (ev_timestamp event)\<rparr>) (aw_messages w)\<rparr>)))"

definition enqueue_read :: "api_lib \<Rightarrow> api_config \<Rightarrow> im_event \<Rightarrow> nat \<Rightarrow> processor \<Rightarrow> processor api" where
  "enqueue_read L config event stream_id p = (case ev_read_receipt event of
     None \<Rightarrow> act_ok p
   | Some receipt \<Rightarrow> (case parse_i64_trimmed (rd_reader_id receipt) of
       None \<Rightarrow> act_ok p
     | Some reader_id \<Rightarrow>
         act_then now_ms (\<lambda>now.
         let read_at = parse_datetime L now (rd_read_at receipt) in
         case Option.bind (ev_group_id event) parse_i64_trimmed of
           Some group_id \<Rightarrow>
             act_then (new_id (ac_writer_snowflake_node_id config)) (\<lambda>cursor_id.
             act_ok (p\<lparr>pp_group_read_batch := pp_group_read_batch p @
                 [\<lparr>gu_cursor_id = cursor_id, gu_group_id = group_id, gu_user_id = reader_id, gu_read_at = read_at,
                   gu_last_read_seq = unwrap_or (rd_last_read_seq receipt) 0,
                   gu_last_read_message_id = Option.bind (rd_last_read_message_id receipt) parse_i64_trimmed\<rparr>],
               pp_group_read_ack_ids := pp_group_read_ack_ids p @ [stream_id]\<rparr>))
         | None \<Rightarrow>
             (case (case Option.bind (ev_target_user_id event) parse_i64_trimmed of
                      Some i \<Rightarrow> Some i
                    | None \<Rightarrow> Option.bind (rd_to_user_id receipt) parse_i64_trimmed) of
                None \<Rightarrow> act_ok p
              | Some peer_id \<Rightarrow>
                  act_then (new_id (ac_writer_snowflake_node_id config)) (\<lambda>cursor_id.
                  act_ok (p\<lparr>pp_private_read_batch := pp_private_read_batch p @
                      [\<lparr>pu_cursor_id = cursor_id, pu_user_id = reader_id, pu_peer_user_id = peer_id, pu_read_at = read_at\<rparr>],
                    pp_private_read_ack_ids := pp_private_read_ack_ids p @ [stream_id]\<rparr>))))))"

text \<open>\<open>process\<close>: whether the event was batched, so that its acknowledgement waits for the flush.\<close>

definition process :: "api_lib \<Rightarrow> api_config \<Rightarrow> string list \<Rightarrow> im_event \<Rightarrow> nat \<Rightarrow> processor \<Rightarrow> (bool \<times> processor) api" where
  "process L config hot_redis event stream_id p =
     (if ev_event_type event = MessageCreated then
        (case ev_payload event of
           None \<Rightarrow> act_ok (False, p)
         | Some message \<Rightarrow>
             let p = p\<lparr>pp_message_batch := pp_message_batch p @ [(message, unwrap_or (ev_device_envelopes event) [])],
                       pp_message_ack_ids := pp_message_ack_ids p @ [stream_id]\<rparr>
             in if ac_writer_batch_size config \<le> length (pp_message_batch p) then
                  act_then (flush_messages L hot_redis p) (\<lambda>(flushed, p).
                  act_then (flushed_now flushed p) (\<lambda>p. act_ok (True, p)))
                else act_ok (True, p))
      else if ev_event_type event = MessageRead then
        act_then (enqueue_read L config event stream_id p) (\<lambda>p.
        if ac_writer_batch_size config \<le> read_batch_len p then
          act_then (flush_read_cursors p) (\<lambda>(flushed, p).
          act_then (flushed_now flushed p) (\<lambda>p. act_ok (True, p)))
        else act_ok (True, p))
      else if ev_event_type event \<in> {MessageRecalled, MessageDeleted} then
        act_then (flush_pending L hot_redis p) (\<lambda>p.
        act_then (apply_status event) (\<lambda>_. act_ok (False, p)))
      else act_ok (False, p))"

section \<open>The consumer\<close>

text \<open>The events of one read, with the entries to acknowledge at once; a text that is no event is skipped.\<close>

fun process_events ::
  "api_lib \<Rightarrow> api_config \<Rightarrow> string list \<Rightarrow> stream_event list \<Rightarrow> nat list \<Rightarrow> processor \<Rightarrow> (nat list \<times> processor) api"
where
  "process_events L config hot_redis [] immediate p = act_ok (immediate, p)"
| "process_events L config hot_redis (e # es) immediate p = (case ap_read_event L (sv_payload e) of
     None \<Rightarrow> process_events L config hot_redis es immediate p
   | Some event \<Rightarrow> act_then (process L config hot_redis event (sv_stream_id e) p) (\<lambda>(batched, p).
       process_events L config hot_redis es (if batched then immediate else immediate @ [sv_stream_id e]) p))"

definition consume_round ::
  "api_lib \<Rightarrow> api_config \<Rightarrow> event_stream_config \<Rightarrow> string \<Rightarrow> nat \<Rightarrow> processor \<Rightarrow> processor option api" where
  "consume_round L config stream consumer fuel p =
     (let url = es_redis_url stream; key = es_stream_key stream;
          group_id = stream_group_id (ac_writer_group_id config) stream;
          hot_redis = hot_redis_urls_for config (es_kind stream) in
      act_then (read_group_events fuel url key group_id consumer (ac_writer_batch_size config)) (\<lambda>read.
      case read of
        None \<Rightarrow> act_ok None
      | Some events \<Rightarrow>
          act_then (process_events L config hot_redis events [] p) (\<lambda>(immediate_ack_ids, p).
          act_then (flush_if_due L config hot_redis p) (\<lambda>p.
          act_then (ack url key group_id immediate_ack_ids) (\<lambda>_.
          act_then (ack url key group_id (pp_flushed_ack_ids p)) (\<lambda>_.
          act_ok (Some (p\<lparr>pp_flushed_ack_ids := []\<rparr>))))))))"

definition new_processor :: "int \<Rightarrow> processor" where
  "new_processor now = \<lparr>pp_message_batch = [], pp_private_read_batch = [], pp_group_read_batch = [],
     pp_message_ack_ids = [], pp_private_read_ack_ids = [], pp_group_read_ack_ids = [], pp_flushed_ack_ids = [],
     pp_last_flush = now\<rparr>"

text \<open>\<open>rounds\<close> turns of the loop of \<open>connect_and_consume\<close>.\<close>

fun consume_rounds ::
  "nat \<Rightarrow> api_lib \<Rightarrow> api_config \<Rightarrow> event_stream_config \<Rightarrow> string \<Rightarrow> nat \<Rightarrow> processor \<Rightarrow> processor option api" where
  "consume_rounds 0 L config stream consumer fuel p = act_ok (Some p)"
| "consume_rounds (Suc rounds) L config stream consumer fuel p =
     act_then (consume_round L config stream consumer fuel p) (\<lambda>r. case r of
       None \<Rightarrow> act_ok None
     | Some p \<Rightarrow> consume_rounds rounds L config stream consumer fuel p)"

definition connect_and_consume ::
  "api_lib \<Rightarrow> api_config \<Rightarrow> (string \<Rightarrow> string option) \<Rightarrow> event_stream_config \<Rightarrow> nat \<Rightarrow> nat \<Rightarrow> processor option api" where
  "connect_and_consume L config env stream rounds fuel =
     act_then now_ms (\<lambda>now.
     act_then (ensure_group (es_redis_url stream) (es_stream_key stream)
        (stream_group_id (ac_writer_group_id config) stream)) (\<lambda>_.
     consume_rounds rounds L config stream
       (consumer_name env (''writer-'' @ event_stream_kind_str (es_kind stream))) fuel (new_processor now)))"

end
