(* ===== verification/Api_Message_Types.thy ===== *)
theory Api_Message_Types
  imports Api_Cache Api_Writer
begin

text \<open>
  The requests of the message service (\<open>api-server/src/message/message_types.rs\<close>), its checks of
  encrypted messages (\<open>message_e2ee.rs\<close>) and the helpers that read conversation identifiers and rows
  (\<open>message_helpers.rs\<close>). Lengths are in bytes; times printed from the database are in seconds.
\<close>

section \<open>Requests and answers\<close>

record private_device_envelope_request =
  pe_recipient_user_id :: int
  pe_recipient_device_id :: string
  pe_envelope :: e2ee_envelope

record send_private_request =
  sp_receiver_id :: int
  sp_client_message_id :: "string option"
  sp_message_type :: "string option"
  sp_content :: "string option"
  sp_media_url :: "string option"
  sp_media_size :: "int option"
  sp_media_name :: "string option"
  sp_thumbnail_url :: "string option"
  sp_duration :: "int option"
  sp_encrypted :: "bool option"
  sp_e2ee_header :: "string option"
  sp_e2ee_device_id :: "string option"
  sp_e2ee_sender_identity_key :: "string option"
  sp_e2ee_ephemeral_key :: "string option"
  sp_e2ee_envelope :: "e2ee_envelope option"
  sp_e2ee_envelopes :: "private_device_envelope_request list option"

record send_group_request =
  sg_group_id :: int
  sg_client_message_id :: "string option"
  sg_message_type :: "string option"
  sg_content :: "string option"
  sg_media_url :: "string option"
  sg_media_size :: "int option"
  sg_media_name :: "string option"
  sg_thumbnail_url :: "string option"
  sg_duration :: "int option"
  sg_mentioned_user_ids :: "string list option"
  sg_encrypted :: "bool option"
  sg_e2ee_envelope :: "e2ee_envelope option"

record history_query =
  hq_size :: "int option"
  hq_limit :: "int option"
  hq_last_message_id :: "int option"
  hq_after_message_id :: "int option"
  hq_device_id :: "string option"

record message_config =
  mc_text_enforce :: bool
  mc_text_max_length :: int

record conversation_dto =
  cd_conversation_id :: string
  cd_conversation_type :: int
  cd_target_id :: string
  cd_conversation_name :: string
  cd_conversation_avatar :: "string option"
  cd_last_message :: string
  cd_last_message_type :: string
  cd_last_message_sender_id :: "string option"
  cd_last_message_sender_name :: "string option"
  cd_last_message_time :: "string option"
  cd_unread_count :: int
  cd_is_online :: bool
  cd_is_pinned :: bool
  cd_is_muted :: bool

record group_conversation_source =
  gc_group_id :: int
  gc_name :: string
  gc_avatar :: "string option"

record build_message_input =
  bi_receiver_id :: "int option"
  bi_group_id :: "int option"
  bi_client_message_id :: "string option"
  bi_message_type :: "string option"
  bi_content :: "string option"
  bi_media_url :: "string option"
  bi_media_size :: "int option"
  bi_media_name :: "string option"
  bi_thumbnail_url :: "string option"
  bi_duration :: "int option"
  bi_encrypted :: "bool option"
  bi_e2ee_header :: "string option"
  bi_e2ee_device_id :: "string option"
  bi_e2ee_sender_identity_key :: "string option"
  bi_e2ee_ephemeral_key :: "string option"
  bi_e2ee_envelope :: "e2ee_envelope option"

record conversation_target =
  tg_conversation_id :: string
  tg_frontend_conversation_id :: string
  tg_peer_id :: "int option"
  tg_group_id :: "int option"

record db_scope =
  sc_left_id :: int
  sc_right_id :: int
  sc_group_id :: "int option"

text \<open>\<open>deserialize_i64\<close>; a number that is no \<open>i64\<close> is refused.\<close>

fun message_i64 :: "json \<Rightarrow> string + int" where
  "message_i64 (JInt i) = ok_or ''invalid integer'' (i64_checked i)"
| "message_i64 (JStr s) = ok_or ''invalid integer'' (parse_i64 (trim s))"
| "message_i64 _ = Inl ''invalid integer''"

section \<open>Encrypted messages\<close>

definition blank :: "string option \<Rightarrow> bool" where
  "blank v \<longleftrightarrow> (case v of Some t \<Rightarrow> trim t = [] | None \<Rightarrow> True)"

definition decode_base64url :: "api_lib \<Rightarrow> string \<Rightarrow> api_error + bytes" where
  "decode_base64url L v =
     (let normalized = map (\<lambda>c. if c = CHR ''-'' then CHR ''+'' else if c = CHR ''_'' then CHR ''/'' else c) v;
          rest = length normalized mod 4;
          e = EBadRequest ''invalid e2ee envelope encoding''
      in if rest = 1 then Inl e
         else ok_or e (ap_b64_decode L (if rest = 0 then normalized
            else if rest = 2 then normalized @ ''=='' else normalized @ ''='')))"

definition validate_e2ee_envelope_format :: "api_lib \<Rightarrow> e2ee_envelope \<Rightarrow> api_error + unit" where
  "validate_e2ee_envelope_format L envelope =
     (if ee_version envelope \<noteq> 2 \<or> ee_alg envelope \<noteq> ''rust-x25519-x3dh-dr-v1''
      then Inl (EBadRequest ''unsupported e2ee envelope, only rust-x25519-x3dh-dr-v1 is supported'')
      else
        and_then (ok_or (EBadRequest ''rust e2ee wire required'') (ee_wire envelope)) (\<lambda>wire.
        and_then (map_err (\<lambda>_. EBadRequest ''invalid rust e2ee wire encoding'') (decode_base64url L wire)) (\<lambda>wire_bytes.
        if length wire_bytes < 56 then Inl (EBadRequest ''rust e2ee wire too short'')
        else if unat (of_be_bytes (take 4 wire_bytes)) \<noteq> 52 then Inl (EBadRequest ''invalid rust e2ee wire header'')
        else if trim (ee_sender_device_id envelope) = [] then Inl (EBadRequest ''rust e2ee sender_device_id required'')
        else Inr ())))"

definition resolve_recipient_device_ids :: "e2ee_envelope \<Rightarrow> string list" where
  "resolve_recipient_device_ids envelope =
     (if ee_recipient_device_ids envelope = []
      then (case ee_recipient_device_id envelope of Some i \<Rightarrow> [i] | None \<Rightarrow> [])
      else ee_recipient_device_ids envelope)"

definition validate_private_e2ee_request_shape :: "send_private_request \<Rightarrow> api_error + unit" where
  "validate_private_e2ee_request_shape request =
     (if sp_e2ee_header request \<noteq> None \<or> sp_e2ee_sender_identity_key request \<noteq> None \<or>
         sp_e2ee_ephemeral_key request \<noteq> None
      then Inl (EBadRequest ''legacy e2ee payload is unsupported'')
      else if \<not> blank (sp_content request) then Inl (EBadRequest ''plaintext content forbidden in e2ee session'')
      else Inr ())"

definition private_e2ee_envelope_from_request :: "send_private_request \<Rightarrow> api_error + e2ee_envelope" where
  "private_e2ee_envelope_from_request request =
     and_then (validate_private_e2ee_request_shape request) (\<lambda>_.
       ok_or (EBadRequest ''e2ee envelope required'') (sp_e2ee_envelope request))"

record normalized_envelope =
  nv_recipient_user_id :: int
  nv_recipient_device_id :: string
  nv_envelope :: e2ee_envelope

definition to_event_dto :: "normalized_envelope \<Rightarrow> message_device_envelope" where
  "to_event_dto n = \<lparr>me_recipient_user_id = show_int (nv_recipient_user_id n),
     me_recipient_device_id = nv_recipient_device_id n, me_envelope = nv_envelope n\<rparr>"

definition push_private_device_envelope ::
  "int \<Rightarrow> int \<Rightarrow> int \<Rightarrow> string \<Rightarrow> e2ee_envelope \<Rightarrow> api_error + normalized_envelope" where
  "push_private_device_envelope sender receiver recipient recipient_device envelope =
     (let device_id = trim recipient_device in
      if recipient \<noteq> receiver \<and> recipient \<noteq> sender
      then Inl (EBadRequest ''e2ee recipient user must be sender or receiver'')
      else if device_id = [] \<or> device_id = ''unknown'' then Inl (EBadRequest ''e2ee recipient device id required'')
      else if device_id \<notin> set (resolve_recipient_device_ids envelope)
      then Inl (EBadRequest ''e2ee envelope recipient device mismatch'')
      else Inr \<lparr>nv_recipient_user_id = recipient, nv_recipient_device_id = device_id, nv_envelope = envelope\<rparr>)"

definition private_e2ee_envelopes_from_request ::
  "send_private_request \<Rightarrow> int \<Rightarrow> int \<Rightarrow> api_error + normalized_envelope list" where
  "private_e2ee_envelopes_from_request request sender receiver =
     and_then (validate_private_e2ee_request_shape request) (\<lambda>_.
     and_then
       (case sp_e2ee_envelopes request of
          Some batch \<Rightarrow>
            if sp_e2ee_envelope request \<noteq> None
            then Inl (EBadRequest ''use either e2eeEnvelope or e2eeEnvelopes, not both'')
            else if batch = [] then Inl (EBadRequest ''e2eeEnvelopes cannot be empty'')
            else collect_results (\<lambda>item. push_private_device_envelope sender receiver (pe_recipient_user_id item)
                   (pe_recipient_device_id item) (pe_envelope item)) batch
        | None \<Rightarrow>
            and_then (ok_or (EBadRequest ''e2ee envelope required'') (sp_e2ee_envelope request)) (\<lambda>envelope.
            (case resolve_recipient_device_ids envelope of
               [device_id] \<Rightarrow>
                 map_sum id (\<lambda>n. [n]) (push_private_device_envelope sender receiver
                   (unwrap_or (Option.bind (ee_recipient_user_id envelope) parse_i64_trimmed) receiver) device_id envelope)
             | _ \<Rightarrow> Inl (EBadRequest ''single e2eeEnvelope must target exactly one recipient device''))))
       (\<lambda>normalized.
          if distinct (map nv_recipient_device_id normalized) then Inr normalized
          else Inl (EBadRequest ''duplicate e2ee recipient device'')))"

definition e2ee_session_id_matches :: "string \<Rightarrow> string \<Rightarrow> api_error + unit" where
  "e2ee_session_id_matches session_id conversation_id =
     (if trim session_id = [] then Inl (EBadRequest ''e2ee envelope session_id required'')
      else if unwrap_or (strip_prefix ''p_'' session_id) session_id \<noteq>
              unwrap_or (strip_prefix ''p_'' conversation_id) conversation_id
      then Inl (EBadRequest (''e2ee envelope session_id '' @ quoted session_id @ '' does not match conversation_id '' @
        quoted conversation_id))
      else Inr ())"

text \<open>\<open>map_err\<close> around a call: the error of the caller replaces whatever went wrong, the database included.\<close>

definition act_map_err :: "api_error \<Rightarrow> 'a api \<Rightarrow> 'a api" where
  "act_map_err e m = act_then (act_try m) (\<lambda>r. Ret (map_err (\<lambda>_. e) r))"

definition unknown_device :: "string \<Rightarrow> bool" where
  "unknown_device device_id \<longleftrightarrow> trim device_id = [] \<or> trim device_id = ''unknown''"

definition validate_device_active :: "api_lib \<Rightarrow> string \<Rightarrow> unit api" where
  "validate_device_active L device_id =
     act_then (act_check (\<not> unknown_device device_id) (EBadRequest ''invalid device id'')) (\<lambda>_.
     act_then (sql_query (\<lambda>w. 0 < count_where (\<lambda>d. ap_collate L (dv_device_id d) = ap_collate L (trim device_id) \<and>
         dv_status d = ''active'') (aw_devices w))) (\<lambda>found.
     act_check found (EBadRequest (''device '' @ quoted (trim device_id) @ '' not found or not active''))))"

definition validate_device_ownership :: "api_lib \<Rightarrow> string \<Rightarrow> int \<Rightarrow> unit api" where
  "validate_device_ownership L device_id user_id =
     act_then (act_check (\<not> unknown_device device_id) (EBadRequest ''invalid device id'')) (\<lambda>_.
     act_then (sql_query (\<lambda>w. 0 < count_where (active_device L user_id (trim device_id)) (aw_devices w))) (\<lambda>found.
     act_check found (EBadRequest (''device '' @ quoted (trim device_id) @ '' not found or not active for user '' @
       show_int user_id))))"

definition validate_e2ee_envelope :: "api_lib \<Rightarrow> e2ee_envelope \<Rightarrow> string \<Rightarrow> int \<Rightarrow> int option \<Rightarrow> unit api" where
  "validate_e2ee_envelope L envelope conversation_id sender receiver =
     act_then (Ret (validate_e2ee_envelope_format L envelope)) (\<lambda>_.
     act_then (Ret (e2ee_session_id_matches (ee_session_id envelope) conversation_id)) (\<lambda>_.
     act_then (act_map_err (EBadRequest (''e2ee sender device '' @ quoted (ee_sender_device_id envelope) @
         '' does not belong to user '' @ show_int sender @ '' or is not active''))
       (validate_device_ownership L (ee_sender_device_id envelope) sender)) (\<lambda>_.
     case receiver of
       None \<Rightarrow> act_ok ()
     | Some receiver \<Rightarrow>
         let recipient_ids = resolve_recipient_device_ids envelope in
         act_then (act_check (recipient_ids \<noteq> []) (EBadRequest ''e2ee recipient device id required for private chat'')) (\<lambda>_.
         act_then (act_each (\<lambda>device_id.
             act_map_err (EBadRequest (''e2ee recipient device '' @ quoted device_id @ '' does not belong to user '' @
                 show_int receiver @ '' or is not active''))
               (validate_device_ownership L device_id receiver)) recipient_ids) (\<lambda>_. act_ok ())))))"

definition private_e2ee_enabled :: "api_lib \<Rightarrow> string \<Rightarrow> bool api" where
  "private_e2ee_enabled L conversation_id =
     (let short_id = unwrap_or (strip_prefix ''p_'' conversation_id) conversation_id in
      act_then (sql_query (\<lambda>w. find (\<lambda>r. ap_collate L (se_session_id r) \<in> {ap_collate L conversation_id, ap_collate L short_id} \<and>
          se_status r = ''encrypted'') (aw_sessions w))) (\<lambda>negotiated.
      if negotiated \<noteq> None then act_ok True
      else sql_query (\<lambda>w. 0 < count_where (\<lambda>r. ap_collate L (cv_conversation_id r) = ap_collate L conversation_id \<and>
          cv_status r = ''active'') (aw_conversations w))))"

definition group_e2ee_enabled :: "int \<Rightarrow> bool api" where
  "group_e2ee_enabled group_id =
     act_then (sql_query (\<lambda>w. map_option ge_status (row_of ge_group_id group_id (aw_e2ee_groups w)))) (\<lambda>enabled.
       act_ok (enabled = Some ''encrypted''))"

definition validate_recipient_devices_not_revoked :: "api_lib \<Rightarrow> string list \<Rightarrow> unit api" where
  "validate_recipient_devices_not_revoked L device_ids =
     act_then (act_each (\<lambda>device_id.
         if unknown_device device_id then act_ok ()
         else act_map_err (EBadRequest ''revoked e2ee recipient device'') (validate_device_active L (trim device_id))) device_ids)
       (\<lambda>_. act_ok ())"

section \<open>Conversations and rows\<close>

definition group_unread_count :: "int \<Rightarrow> int \<Rightarrow> int" where
  "group_unread_count group_seq read_seq =
     (let d = max group_seq 0 - max read_seq 0 in if i64_checked d \<noteq> None \<and> 0 < d then d else 0)"

definition extract_peer_id :: "int \<Rightarrow> message_dto \<Rightarrow> int option" where
  "extract_peer_id user_id message =
     (if md_is_group_chat message then None
      else if md_sender_id message = show_int user_id then Option.bind (md_receiver_id message) parse_i64
      else parse_i64 (md_sender_id message))"

definition conversation_id_from_message :: "message_dto \<Rightarrow> api_error + string" where
  "conversation_id_from_message message =
     (if md_is_group_chat message then
        and_then (ok_or (EBadRequest ''message groupId missing'') (md_group_id message)) (\<lambda>g.
        and_then (ok_or (EBadRequest ''invalid groupId'') (parse_i64 g)) (\<lambda>group_id. Inr (group_conversation_id group_id)))
      else
        and_then (ok_or (EBadRequest ''message receiverId missing'') (md_receiver_id message)) (\<lambda>r.
        and_then (ok_or (EBadRequest ''invalid senderId'') (parse_i64 (md_sender_id message))) (\<lambda>sender_id.
        and_then (ok_or (EBadRequest ''invalid receiverId'') (parse_i64 r)) (\<lambda>receiver_id.
          Inr (private_conversation_id sender_id receiver_id)))))"

text \<open>\<open>num_seconds\<close> drops the fraction towards zero.\<close>

definition whole_seconds :: "int \<Rightarrow> int" where
  "whole_seconds ms = (if ms < 0 then - (- ms div 1000) else ms div 1000)"

definition within_recall_window :: "api_lib \<Rightarrow> int \<Rightarrow> message_dto \<Rightarrow> bool" where
  "within_recall_window L now message = (case ap_parse_time L (md_created_time message) of
     Some created \<Rightarrow> whole_seconds (now - created) \<le> 120 | None \<Rightarrow> False)"

definition group_target :: "string \<Rightarrow> api_error + conversation_target" where
  "group_target raw = and_then (ok_or (EBadRequest ''invalid group conversation'') (parse_i64 raw)) (\<lambda>group_id.
     Inr \<lparr>tg_conversation_id = group_conversation_id group_id,
       tg_frontend_conversation_id = ''group_'' @ show_int group_id, tg_peer_id = None, tg_group_id = Some group_id\<rparr>)"

definition peer_of :: "int \<Rightarrow> string \<Rightarrow> api_error + int" where
  "peer_of user_id v =
     ok_or (EBadRequest ''invalid private conversation'')
       (if CHR ''_'' \<in> set v then find (\<lambda>i. i \<noteq> user_id) (List.map_filter parse_i64 (split_on CHR ''_'' v)) else parse_i64 v)"

definition frontend_id :: "string \<Rightarrow> string" where
  "frontend_id conversation_id = trim_front [''p_''] conversation_id"

definition parse_conversation_target :: "int \<Rightarrow> string \<Rightarrow> api_error + conversation_target" where
  "parse_conversation_target user_id raw =
     (let v = trim raw in
      case strip_prefix ''group_'' v of
        Some g \<Rightarrow> group_target g
      | None \<Rightarrow>
          (case strip_prefix ''g_'' v of
             Some g \<Rightarrow> group_target g
           | None \<Rightarrow> and_then (peer_of user_id v) (\<lambda>peer_id.
               if peer_id = user_id then Inl (EBadRequest ''cannot create conversation with yourself'')
               else Inr \<lparr>tg_conversation_id = private_conversation_id user_id peer_id,
                 tg_frontend_conversation_id = frontend_id (private_conversation_id user_id peer_id),
                 tg_peer_id = Some peer_id, tg_group_id = None\<rparr>)))"

definition parse_db_scope :: "string \<Rightarrow> api_error + db_scope" where
  "parse_db_scope conversation_id =
     (case strip_prefix ''g_'' conversation_id of
        Some g \<Rightarrow> and_then (ok_or (EBadRequest ''invalid group conversation'') (parse_i64 g)) (\<lambda>group_id.
          Inr \<lparr>sc_left_id = 0, sc_right_id = 0, sc_group_id = Some group_id\<rparr>)
      | None \<Rightarrow>
          (let e = EBadRequest ''invalid private conversation'' in
           case split_on CHR ''_'' (unwrap_or (strip_prefix ''p_'' conversation_id) conversation_id) of
             [left_id, right_id] \<Rightarrow>
               and_then (ok_or e (parse_i64 left_id)) (\<lambda>l.
               and_then (ok_or e (parse_i64 right_id)) (\<lambda>r. Inr \<lparr>sc_left_id = l, sc_right_id = r, sc_group_id = None\<rparr>))
           | _ \<Rightarrow> Inl e))"

definition row_message_type :: "int \<Rightarrow> string" where
  "row_message_type code =
     (if code = 2 then ''IMAGE'' else if code = 3 then ''FILE'' else if code = 4 then ''VOICE''
      else if code = 5 then ''VIDEO'' else if code = 6 then ''AI_REPLY'' else if code = 7 then ''SYSTEM'' else ''TEXT'')"

definition row_status :: "int \<Rightarrow> string" where
  "row_status code =
     (if code = 2 then ''DELIVERED'' else if code = 3 then ''READ'' else if code = 4 then ''RECALLED''
      else if code = 5 then ''DELETED'' else ''SENT'')"

definition message_from_row :: "api_lib \<Rightarrow> message_row \<Rightarrow> message_dto" where
  "message_from_row L r =
     \<lparr>md_id = show_int (mr_id r), md_message_id = show_int (mr_id r), md_client_message_id = mr_client_message_id r,
      md_sender_id = show_int (mr_sender_id r), md_sender_name = None, md_sender_avatar = None,
      md_receiver_id = map_option show_int (mr_receiver_id r), md_receiver_name = None,
      md_group_id = map_option show_int (mr_group_id r), md_conversation_seq = mr_conversation_seq r,
      md_group_name = None, md_group_avatar = None, md_is_group_chat = mr_is_group_chat r,
      md_is_group = mr_is_group_chat r, md_message_type = row_message_type (mr_message_type r),
      md_content = mr_content r, md_media_url = mr_media_url r, md_media_size = mr_media_size r,
      md_media_name = mr_media_name r, md_thumbnail_url = mr_thumbnail_url r, md_duration = mr_duration r,
      md_location_info = mr_location_info r, md_status = row_status (mr_status r),
      md_reply_to_message_id = map_option show_int (mr_reply_to_message_id r),
      md_created_time = ap_rfc3339 L (mr_created_time r), md_created_at = ap_rfc3339 L (mr_created_time r),
      md_updated_time = Some (ap_rfc3339 L (mr_updated_time r)), md_updated_at = Some (ap_rfc3339 L (mr_updated_time r)),
      md_is_ai_generated = None, md_ai_provider = None, md_ai_model = None,
      md_encrypted = Some (mr_encrypted r), md_e2ee_header = mr_e2ee_header r, md_e2ee_device_id = mr_e2ee_device_id r,
      md_e2ee_sender_identity_key = mr_e2ee_sender_identity_key r, md_e2ee_ephemeral_key = mr_e2ee_ephemeral_key r,
      md_e2ee_envelope = Option.bind (mr_e2ee_envelope_json r) (ap_column_envelope L)\<rparr>"

text \<open>The first conversation of each kind and identifier stays.\<close>

fun dedup_after :: "(int \<times> string) list \<Rightarrow> conversation_dto list \<Rightarrow> conversation_dto list" where
  "dedup_after seen [] = []"
| "dedup_after seen (c # cs) =
     (let k = (cd_conversation_type c, cd_conversation_id c) in
      if k \<in> set seen then dedup_after seen cs else c # dedup_after (k # seen) cs)"

definition dedup_conversations :: "conversation_dto list \<Rightarrow> conversation_dto list" where
  "dedup_conversations = dedup_after []"

definition group_conversation_from_message :: "group_conversation_source \<Rightarrow> message_dto \<Rightarrow> int \<Rightarrow> conversation_dto" where
  "group_conversation_from_message source message unread =
     \<lparr>cd_conversation_id = show_int (gc_group_id source), cd_conversation_type = 2,
      cd_target_id = show_int (gc_group_id source), cd_conversation_name = gc_name source,
      cd_conversation_avatar = gc_avatar source, cd_last_message = unwrap_or (md_content message) [],
      cd_last_message_type = md_message_type message, cd_last_message_sender_id = Some (md_sender_id message),
      cd_last_message_sender_name = md_sender_name message, cd_last_message_time = Some (md_created_time message),
      cd_unread_count = unread, cd_is_online = False, cd_is_pinned = False, cd_is_muted = False\<rparr>"

section \<open>Sequence numbers\<close>

text \<open>A number kept as a text; what cannot be read counts as absent.\<close>

definition hot_peek_i64 :: "string \<Rightarrow> string \<Rightarrow> int option api" where
  "hot_peek_i64 url key = act_then (act_try (hot_read url (\<lambda>now s. hot_get now s key))) (\<lambda>r.
     act_ok (case r of Inr (Some raw) \<Rightarrow> parse_i64 raw | _ \<Rightarrow> None))"

definition max_or_zero :: "int list \<Rightarrow> int" where
  "max_or_zero is = (if is = [] then 0 else Max (set is))"

definition stored_sequence :: "int \<Rightarrow> api_world \<Rightarrow> int" where
  "stored_sequence group_id w = max_or_zero (List.map_filter mr_conversation_seq
     (filter (\<lambda>r. mr_is_group_chat r \<and> mr_group_id r = Some group_id \<and> mr_status r \<noteq> 5) (aw_messages w)))"

definition sequence_or_stored :: "string \<Rightarrow> string \<Rightarrow> (api_world \<Rightarrow> int) \<Rightarrow> int api" where
  "sequence_or_stored url key stored =
     act_then (hot_peek_i64 url key) (\<lambda>c. case c of
       Some q \<Rightarrow> act_ok (max q 0)
     | None \<Rightarrow>
         act_then (sql_query stored) (\<lambda>q.
         act_then (if 0 < q then hot_write url (\<lambda>now. hot_put key (show_int q)) else act_ok ()) (\<lambda>_. act_ok q)))"

definition current_group_sequence :: "string \<Rightarrow> int \<Rightarrow> int api" where
  "current_group_sequence url group_id = sequence_or_stored url (group_sequence_key group_id) (stored_sequence group_id)"

definition stored_read_sequence :: "int \<Rightarrow> int \<Rightarrow> api_world \<Rightarrow> int" where
  "stored_read_sequence user_id group_id w = max_or_zero (map gr_last_read_seq
     (filter (\<lambda>r. gr_group_id r = group_id \<and> gr_user_id r = user_id) (aw_group_cursors w)))"

definition current_group_read_sequence :: "string \<Rightarrow> int \<Rightarrow> int \<Rightarrow> int api" where
  "current_group_read_sequence url user_id group_id =
     sequence_or_stored url (group_read_sequence_key user_id group_id) (stored_read_sequence user_id group_id)"

end
