(* ===== verification/Api_Message_Send.thy ===== *)
theory Api_Message_Send
  imports Api_Message_Types
begin

text \<open>
  Sending in the api-server: the two scripts that write a message to the Redis server of its conversation
  (\<open>message/message_redis.rs\<close>) and the handlers around them (\<open>message_send.rs\<close>). The reactions of the
  assistant to a private message run on their own afterwards and are not modelled. A script is one
  access; the sequence numbers it prints are below 10^14, where Lua prints them in full.
\<close>

section \<open>Events\<close>

definition new_event :: "im_event_type \<Rightarrow> string \<Rightarrow> im_event api" where
  "new_event event_type conversation_id = act_then new_uuid (\<lambda>event_id. act_then now_ms (\<lambda>now.
     act_ok (im_event_new event_id now event_type conversation_id)))"

definition build_message_created_event :: "string \<Rightarrow> message_dto \<Rightarrow> im_event api" where
  "build_message_created_event conversation_id message = act_then (new_event MessageCreated conversation_id) (\<lambda>event.
     act_ok (event\<lparr>ev_message_id := Some (md_id message), ev_sender_id := Some (md_sender_id message),
       ev_receiver_id := md_receiver_id message, ev_group_id := md_group_id message,
       ev_group := md_is_group_chat message, ev_payload := Some message\<rparr>))"

section \<open>The scripts\<close>

definition message_prefix :: string where "message_prefix = ''im:msg:''"

text \<open>The message that the client has sent under the same identifier before, while both texts are kept.\<close>

definition existing_message :: "int \<Rightarrow> string \<Rightarrow> hot_store \<Rightarrow> string option" where
  "existing_message now client_key s =
     Option.bind (hot_get now s client_key) (\<lambda>existing_id. hot_get now s (message_prefix @ existing_id))"

record script_args =
  sa_client_key :: string
  sa_id :: string
  sa_message_key :: string
  sa_conversation_id :: string
  sa_message :: string
  sa_score :: int
  sa_event_id :: string
  sa_event :: string

definition write_message :: "int \<Rightarrow> script_args \<Rightarrow> string \<Rightarrow> int \<Rightarrow> hot_store \<Rightarrow> hot_store" where
  "write_message now a message score s =
     (let s = hot_put_ex now (sa_client_key a) (sa_id a) (message_ttl_seconds * 2) s;
          s = hot_put_ex now (sa_message_key a) message message_ttl_seconds s;
          s = hot_zadd now (conversation_messages_key (sa_conversation_id a)) score (sa_id a) s;
          s = hot_expire_sorted now (conversation_messages_key (sa_conversation_id a)) conversation_ttl_seconds s
      in hot_put_ex now (conversation_last_key (sa_conversation_id a)) message conversation_ttl_seconds s)"

definition write_event :: "int \<Rightarrow> script_args \<Rightarrow> string \<Rightarrow> hot_store \<Rightarrow> hot_store" where
  "write_event now a event s =
     (let s = hot_zadd now pending_events_key (sa_score a) (pending_event_member (sa_event_id a) (sa_conversation_id a)) s
      in hot_put_ex now (event_key (sa_event_id a)) event event_ttl_seconds s)"

definition index_conversation :: "int \<Rightarrow> script_args \<Rightarrow> int \<Rightarrow> hot_store \<Rightarrow> hot_store" where
  "index_conversation now a user_id s =
     hot_expire_sorted now (user_conversations_key user_id) conversation_ttl_seconds
       (hot_zadd now (user_conversations_key user_id) (sa_score a) (sa_conversation_id a) s)"

definition private_script :: "script_args \<Rightarrow> int \<Rightarrow> int \<Rightarrow> int \<Rightarrow> hot_store \<Rightarrow> (api_error + string) \<times> hot_store" where
  "private_script a sender_id receiver_id now s =
     (case existing_message now (sa_client_key a) s of
        Some existing \<Rightarrow> (Inr existing, s)
      | None \<Rightarrow>
          (let s = write_message now a (sa_message a) (sa_score a) s;
               s = write_event now a (sa_event a) s;
               s = index_conversation now a sender_id s;
               s = index_conversation now a receiver_id s;
               s = hot_hincr now (user_unread_key receiver_id) (sa_conversation_id a) s;
               s = hot_expire_hash now (user_unread_key receiver_id) conversation_ttl_seconds s
           in (Inr (sa_message a), s)))"

text \<open>\<open>INCR\<close> keeps the expiry; a text that is no number or a number that would overflow is an error.\<close>

definition hot_incr :: "int \<Rightarrow> string \<Rightarrow> hot_store \<Rightarrow> (int \<times> hot_store) option" where
  "hot_incr now k s =
     Option.bind (case hot_get now s k of None \<Rightarrow> Some 0 | Some raw \<Rightarrow> parse_i64 raw) (\<lambda>q.
     Option.bind (i64_checked (q + 1)) (\<lambda>q.
       Some (q, s\<lparr>hs_text := (hs_text s)(k := Some (show_int q, expiry now (hs_text s k)))\<rparr>)))"

text \<open>\<open>string.gsub\<close> of a text without pattern characters.\<close>

function replace_text :: "string \<Rightarrow> string \<Rightarrow> string \<Rightarrow> string" where
  "replace_text old new s =
     (if old \<noteq> [] \<and> starts_with old s then new @ replace_text old new (drop (length old) s)
      else case s of [] \<Rightarrow> [] | c # s \<Rightarrow> c # replace_text old new s)"
  by pat_completeness auto
termination
  by (relation "measure (\<lambda>(old, new, s). length s)") (auto simp: starts_with_iff)

declare replace_text.simps [simp del]

definition sequence_placeholder :: string where
  "sequence_placeholder = [CHR 0x22] @ ''conversationSeq'' @ [CHR 0x22] @ '':null''"

definition with_sequence :: "int \<Rightarrow> string \<Rightarrow> string" where
  "with_sequence q t = replace_text sequence_placeholder
     ([CHR 0x22] @ ''conversationSeq'' @ [CHR 0x22] @ '':'' @ show_int q) t"

definition group_script :: "script_args \<Rightarrow> int \<Rightarrow> int \<Rightarrow> hot_store \<Rightarrow> (api_error + string) \<times> hot_store" where
  "group_script a group_id now s =
     (case existing_message now (sa_client_key a) s of
        Some existing \<Rightarrow> (Inr existing, s)
      | None \<Rightarrow>
          (case hot_incr now (group_sequence_key group_id) s of
             None \<Rightarrow> (Inl ERedis, s)
           | Some (q, s) \<Rightarrow>
               (let message = with_sequence q (sa_message a);
                    s = write_message now a message q s;
                    s = write_event now a (with_sequence q (sa_event a)) s
                in (Inr message, s))))"

definition client_key_of :: "int \<Rightarrow> string \<Rightarrow> int \<Rightarrow> message_dto \<Rightarrow> string" where
  "client_key_of sender_id conversation_id message_id message = (case md_client_message_id message of
     Some client_id \<Rightarrow> client_message_key sender_id conversation_id client_id
   | None \<Rightarrow> ''im:client:none:'' @ show_int message_id)"

definition script_args_of :: "api_lib \<Rightarrow> int \<Rightarrow> int \<Rightarrow> string \<Rightarrow> message_dto \<Rightarrow> im_event \<Rightarrow> int \<Rightarrow> script_args" where
  "script_args_of L message_id sender_id conversation_id message event now =
     \<lparr>sa_client_key = client_key_of sender_id conversation_id message_id message, sa_id = md_id message,
      sa_message_key = cached_message_key message_id, sa_conversation_id = conversation_id,
      sa_message = ap_print_message L message, sa_score = now, sa_event_id = ev_event_id event,
      sa_event = ap_print_event L event\<rparr>"

definition write_private_message_hot ::
  "api_lib \<Rightarrow> string \<Rightarrow> string \<Rightarrow> message_dto \<Rightarrow> im_event \<Rightarrow> message_dto api" where
  "write_private_message_hot L url conversation_id message event =
     act_then (Ret (ok_or (EBadRequest ''invalid message id'') (parse_i64 (md_id message)))) (\<lambda>message_id.
     act_then (Ret (ok_or (EBadRequest ''invalid sender id'') (parse_i64 (md_sender_id message)))) (\<lambda>sender_id.
     act_then (Ret (and_then (ok_or (EBadRequest ''message receiverId missing'') (md_receiver_id message)) (\<lambda>r.
         ok_or (EBadRequest ''invalid receiver id'') (parse_i64 r)))) (\<lambda>receiver_id.
     act_then now_ms (\<lambda>now.
     act_then (hot_command url (private_script (script_args_of L message_id sender_id conversation_id message event now)
         sender_id receiver_id)) (\<lambda>result.
     Ret (ok_or ESerde (ap_read_message L result)))))))"

definition write_group_message_hot ::
  "api_lib \<Rightarrow> string \<Rightarrow> int \<Rightarrow> string \<Rightarrow> message_dto \<Rightarrow> im_event \<Rightarrow> message_dto api" where
  "write_group_message_hot L url group_id conversation_id message event =
     act_then (Ret (ok_or (EBadRequest ''invalid message id'') (parse_i64 (md_id message)))) (\<lambda>message_id.
     act_then (Ret (ok_or (EBadRequest ''invalid sender id'') (parse_i64 (md_sender_id message)))) (\<lambda>sender_id.
     act_then now_ms (\<lambda>now.
     act_then (hot_command url (group_script (script_args_of L message_id sender_id conversation_id message event now)
         group_id)) (\<lambda>result.
     Ret (ok_or ESerde (ap_read_message L result))))))"

section \<open>Messages\<close>

definition validate_send_input ::
  "api_lib \<Rightarrow> string option \<Rightarrow> string option \<Rightarrow> string option \<Rightarrow> bool option \<Rightarrow> api_error + unit" where
  "validate_send_input L message_type content media_url encrypted =
     (if message_type_from_text (unwrap_or message_type ''TEXT'') \<in> {MText, MSystem} then
        if \<not> unwrap_or encrypted False \<and> blank content
        then Inl (EBadRequest ''message content cannot be blank'')
        else if \<not> unwrap_or encrypted False \<and> 2000 < ap_chars L (unwrap_or content [])
        then Inl (EBadRequest ''message content cannot exceed 2000 characters'')
        else Inr ()
      else if blank media_url then Inl (EBadRequest ''mediaUrl cannot be blank'')
      else Inr ())"

definition require_e2ee_payload_consistency :: "bool \<Rightarrow> bool \<Rightarrow> bool \<Rightarrow> api_error + unit" where
  "require_e2ee_payload_consistency e2ee_enabled has_e2ee_payload is_group =
     (if e2ee_enabled \<and> \<not> has_e2ee_payload
      then Inl (EBadRequest (''e2ee payload required for encrypted '' @ (if is_group then ''group'' else ''private'') @
        '' session''))
      else if has_e2ee_payload \<and> \<not> e2ee_enabled
      then Inl (EConflict (if is_group then ''group e2ee is not enabled; refresh group encryption status''
        else ''e2ee session is not encrypted; refresh session status''))
      else Inr ())"

definition message_of :: "api_lib \<Rightarrow> identity \<Rightarrow> build_message_input \<Rightarrow> int \<Rightarrow> int \<Rightarrow> message_dto" where
  "message_of L caller input i now =
     \<lparr>md_id = show_int i, md_message_id = show_int i,
      md_client_message_id = normalize_text (bi_client_message_id input),
      md_sender_id = show_int (id_user_id caller), md_sender_name = Some (id_username caller), md_sender_avatar = None,
      md_receiver_id = map_option show_int (bi_receiver_id input), md_receiver_name = None,
      md_group_id = map_option show_int (bi_group_id input), md_conversation_seq = None, md_group_name = None,
      md_group_avatar = None, md_is_group_chat = (bi_group_id input \<noteq> None), md_is_group = (bi_group_id input \<noteq> None),
      md_message_type = message_type_str (message_type_from_text (unwrap_or (bi_message_type input) ''TEXT'')),
      md_content = bi_content input, md_media_url = bi_media_url input, md_media_size = bi_media_size input,
      md_media_name = bi_media_name input, md_thumbnail_url = bi_thumbnail_url input, md_duration = bi_duration input,
      md_location_info = None, md_status = message_status_str Sent, md_reply_to_message_id = None,
      md_created_time = ap_iso L now, md_created_at = ap_iso L now, md_updated_time = None, md_updated_at = None,
      md_is_ai_generated = None, md_ai_provider = None, md_ai_model = None, md_encrypted = bi_encrypted input,
      md_e2ee_header = bi_e2ee_header input, md_e2ee_device_id = bi_e2ee_device_id input,
      md_e2ee_sender_identity_key = bi_e2ee_sender_identity_key input,
      md_e2ee_ephemeral_key = bi_e2ee_ephemeral_key input, md_e2ee_envelope = bi_e2ee_envelope input\<rparr>"

definition build_message :: "api_lib \<Rightarrow> api_config \<Rightarrow> identity \<Rightarrow> build_message_input \<Rightarrow> message_dto api" where
  "build_message L config caller input =
     act_then (new_id (ac_snowflake_node_id config)) (\<lambda>i.
     act_then now_ms (\<lambda>now. act_ok (message_of L caller input i now)))"

section \<open>Private messages\<close>

definition or_else :: "'a option \<Rightarrow> 'a option \<Rightarrow> 'a option" where
  "or_else a b = (case a of Some x \<Rightarrow> Some x | None \<Rightarrow> b)"

definition private_envelopes ::
  "api_lib \<Rightarrow> int \<Rightarrow> int \<Rightarrow> string \<Rightarrow> send_private_request \<Rightarrow> normalized_envelope list api" where
  "private_envelopes L sender receiver conversation_id request =
     act_then (Ret (private_e2ee_envelopes_from_request request sender receiver)) (\<lambda>items.
     act_then (act_each (\<lambda>item.
         act_then (validate_e2ee_envelope L (nv_envelope item) conversation_id sender (Some (nv_recipient_user_id item))) (\<lambda>_.
         validate_recipient_devices_not_revoked L [nv_recipient_device_id item])) items) (\<lambda>_.
     act_ok items))"

definition response_envelope :: "send_private_request \<Rightarrow> int \<Rightarrow> normalized_envelope list \<Rightarrow> e2ee_envelope option" where
  "response_envelope request receiver items =
     or_else (sp_e2ee_envelope request)
       (map_option nv_envelope (or_else (find (\<lambda>n. nv_recipient_user_id n = receiver) items)
         (case items of [] \<Rightarrow> None | n # _ \<Rightarrow> Some n)))"

definition private_input :: "send_private_request \<Rightarrow> int \<Rightarrow> e2ee_envelope option \<Rightarrow> build_message_input" where
  "private_input request receiver envelope =
     \<lparr>bi_receiver_id = Some receiver, bi_group_id = None, bi_client_message_id = sp_client_message_id request,
      bi_message_type = sp_message_type request, bi_content = sp_content request, bi_media_url = sp_media_url request,
      bi_media_size = sp_media_size request, bi_media_name = sp_media_name request,
      bi_thumbnail_url = sp_thumbnail_url request, bi_duration = sp_duration request,
      bi_encrypted = sp_encrypted request, bi_e2ee_header = None,
      bi_e2ee_device_id = or_else (map_option ee_sender_device_id envelope) (sp_e2ee_device_id request),
      bi_e2ee_sender_identity_key = None, bi_e2ee_ephemeral_key = None, bi_e2ee_envelope = envelope\<rparr>"

definition has_private_payload :: "send_private_request \<Rightarrow> bool" where
  "has_private_payload request \<longleftrightarrow> unwrap_or (sp_encrypted request) False \<or> sp_e2ee_envelope request \<noteq> None \<or>
     sp_e2ee_envelopes request \<noteq> None"

definition send_private ::
  "api_lib \<Rightarrow> api_config \<Rightarrow> string \<Rightarrow> identity \<Rightarrow> send_private_request \<Rightarrow> message_dto api" where
  "send_private L config url caller request =
     act_then (Ret (validate_send_input L (sp_message_type request) (sp_content request) (sp_media_url request)
       (sp_encrypted request))) (\<lambda>_.
     act_then (cached_resolve_active_user_id (sp_receiver_id request)) (\<lambda>resolved.
     act_then (Ret (ok_or (ENotFound ''user not found'') resolved)) (\<lambda>receiver.
     act_then (act_check (receiver \<noteq> id_user_id caller) (EBadRequest ''cannot send private message to self'')) (\<lambda>_.
     act_then (validate_friend (id_user_id caller) receiver) (\<lambda>_.
     let conversation_id = private_conversation_id (id_user_id caller) receiver;
         payload = has_private_payload request in
     act_then (private_e2ee_enabled L conversation_id) (\<lambda>e2ee_enabled.
     act_then (Ret (require_e2ee_payload_consistency e2ee_enabled payload False)) (\<lambda>_.
     act_then (if e2ee_enabled \<or> payload
               then private_envelopes L (id_user_id caller) receiver conversation_id request else act_ok []) (\<lambda>items.
     act_then (build_message L config caller
         (private_input request receiver (response_envelope request receiver items))) (\<lambda>message.
     act_then (build_message_created_event conversation_id message) (\<lambda>event.
     write_private_message_hot L url conversation_id message
       (if items = [] then event else event\<lparr>ev_device_envelopes := Some (map to_event_dto items)\<rparr>)))))))))))"

section \<open>Group messages\<close>

definition group_payload_checks :: "api_lib \<Rightarrow> int \<Rightarrow> int \<Rightarrow> string \<Rightarrow> send_group_request \<Rightarrow> unit api" where
  "group_payload_checks L sender group_id conversation_id request =
     act_then (act_check (message_type_from_text (unwrap_or (sg_message_type request) ''TEXT'') \<in> {MText, MSystem})
       (EBadRequest ''encrypted group media is unsupported'')) (\<lambda>_.
     act_then (Ret (ok_or (EBadRequest ''e2ee envelope required'') (sg_e2ee_envelope request))) (\<lambda>envelope.
     act_then (act_check (blank (sg_content request)) (EBadRequest ''plaintext content forbidden in e2ee session'')) (\<lambda>_.
     act_then (validate_e2ee_envelope L envelope conversation_id sender None) (\<lambda>_.
     act_then (current_group_epoch group_id) (\<lambda>epoch.
     act_then (Ret (ok_or (EConflict ''group e2ee epoch missing'') epoch)) (\<lambda>epoch.
     act_then (act_check (ee_key_version envelope = epoch) (EConflict ''group e2ee envelope epoch is stale'')) (\<lambda>_.
     validate_recipient_devices_not_revoked L (resolve_recipient_device_ids envelope))))))))"

definition group_input :: "send_group_request \<Rightarrow> int \<Rightarrow> bool \<Rightarrow> build_message_input" where
  "group_input request group_id e2ee_enabled =
     \<lparr>bi_receiver_id = None, bi_group_id = Some group_id, bi_client_message_id = sg_client_message_id request,
      bi_message_type = sg_message_type request, bi_content = sg_content request, bi_media_url = sg_media_url request,
      bi_media_size = sg_media_size request, bi_media_name = sg_media_name request,
      bi_thumbnail_url = sg_thumbnail_url request, bi_duration = sg_duration request,
      bi_encrypted = (if e2ee_enabled \<or> unwrap_or (sg_encrypted request) False then Some True else sg_encrypted request),
      bi_e2ee_header = None, bi_e2ee_device_id = map_option ee_sender_device_id (sg_e2ee_envelope request),
      bi_e2ee_sender_identity_key = None, bi_e2ee_ephemeral_key = None, bi_e2ee_envelope = sg_e2ee_envelope request\<rparr>"

definition send_group ::
  "api_lib \<Rightarrow> api_config \<Rightarrow> string \<Rightarrow> identity \<Rightarrow> send_group_request \<Rightarrow> message_dto api" where
  "send_group L config url caller request =
     act_then (Ret (validate_send_input L (sg_message_type request) (sg_content request) (sg_media_url request)
       (sg_encrypted request))) (\<lambda>_.
     act_then (cached_resolve_active_group_id (sg_group_id request)) (\<lambda>resolved.
     act_then (Ret (ok_or (ENotFound ''group not found'') resolved)) (\<lambda>group_id.
     act_then (validate_group_member group_id (id_user_id caller)) (\<lambda>_.
     act_then (batch_validate_mentioned_members group_id (id_user_id caller) (sg_mentioned_user_ids request)) (\<lambda>mentioned.
     let conversation_id = group_conversation_id group_id;
         payload = (unwrap_or (sg_encrypted request) False \<or> sg_e2ee_envelope request \<noteq> None) in
     act_then (group_e2ee_enabled group_id) (\<lambda>e2ee_enabled.
     act_then (Ret (require_e2ee_payload_consistency e2ee_enabled payload True)) (\<lambda>_.
     act_then (if e2ee_enabled \<or> payload
               then group_payload_checks L (id_user_id caller) group_id conversation_id request else act_ok ()) (\<lambda>_.
     act_then (build_message L config caller (group_input request group_id e2ee_enabled)) (\<lambda>message.
     act_then (build_message_created_event conversation_id message) (\<lambda>event.
     write_group_message_hot L url group_id conversation_id message
       (if sg_mentioned_user_ids request = None then event
        else event\<lparr>ev_mentioned_user_ids := Some (sorted_list_of_set (set (mentioned @ [id_user_id caller])))\<rparr>)))))))))))"

end
