(* ===== verification/Api_Message_Read.thy ===== *)
theory Api_Message_Read
  imports Api_Message_Send
begin

text \<open>
  Reading in the api-server (\<open>message/message_read.rs\<close>): marking a conversation as read, recalling and
  deleting a message, and the history of a conversation, which joins what the Redis server still has with
  what the database has. The servers are named by their URLs, in the order of the configuration.
\<close>

section \<open>Messages\<close>

text \<open>\<open>get(\<dots>).await.ok().flatten()\<close> on a server for messages.\<close>

definition hot_peek :: "string \<Rightarrow> string \<Rightarrow> string option api" where
  "hot_peek url key = act_then (act_try (hot_read url (\<lambda>now s. hot_get now s key))) (\<lambda>r.
     act_ok (case r of Inr v \<Rightarrow> v | Inl _ \<Rightarrow> None))"

definition load_hot_message :: "api_lib \<Rightarrow> string \<Rightarrow> int \<Rightarrow> message_dto option api" where
  "load_hot_message L url message_id = act_then (hot_peek url (cached_message_key message_id)) (\<lambda>raw. case raw of
     None \<Rightarrow> act_ok None
   | Some raw \<Rightarrow> Ret (map_sum id Some (ok_or ESerde (ap_read_message L raw))))"

definition load_message_from_db :: "api_lib \<Rightarrow> int \<Rightarrow> message_dto api" where
  "load_message_from_db L message_id =
     act_then (sql_query (\<lambda>w. row_of mr_id message_id (aw_messages w))) (\<lambda>row.
       Ret (map_sum id (message_from_row L) (ok_or (ENotFound ''message not found'') row)))"

definition load_message :: "api_lib \<Rightarrow> string \<Rightarrow> int \<Rightarrow> message_dto api" where
  "load_message L url message_id = act_then (load_hot_message L url message_id) (\<lambda>m. case m of
     Some message \<Rightarrow> act_ok message | None \<Rightarrow> load_message_from_db L message_id)"

fun load_message_from_all_hot :: "api_lib \<Rightarrow> string list \<Rightarrow> int \<Rightarrow> message_dto api" where
  "load_message_from_all_hot L [] message_id = load_message_from_db L message_id"
| "load_message_from_all_hot L (url # urls) message_id =
     act_then (load_hot_message L url message_id) (\<lambda>m. case m of
       Some message \<Rightarrow> act_ok message | None \<Rightarrow> load_message_from_all_hot L urls message_id)"

definition load_last_message :: "api_lib \<Rightarrow> string \<Rightarrow> string \<Rightarrow> message_dto option api" where
  "load_last_message L url conversation_id = act_then (hot_peek url (conversation_last_key conversation_id)) (\<lambda>raw.
     act_ok (Option.bind raw (ap_read_message L)))"

section \<open>History\<close>

text \<open>\<open>ZREVRANGE 0 (n - 1)\<close>.\<close>

definition newest_members :: "nat \<Rightarrow> (string \<times> int) list \<Rightarrow> string list" where
  "newest_members n ms = take n (rev (by_score ms))"

definition newest_hot_ids :: "string \<Rightarrow> string \<Rightarrow> nat \<Rightarrow> string list api" where
  "newest_hot_ids url conversation_id n =
     act_then (act_try (hot_read url (\<lambda>now s. newest_members n (hot_members now s (conversation_messages_key conversation_id))))) (\<lambda>r.
       act_ok (case r of Inr ids \<Rightarrow> ids | Inl _ \<Rightarrow> []))"

definition in_scope :: "db_scope \<Rightarrow> message_row \<Rightarrow> bool" where
  "in_scope scope r \<longleftrightarrow> (case sc_group_id scope of
     Some group_id \<Rightarrow> mr_is_group_chat r \<and> mr_group_id r = Some group_id
   | None \<Rightarrow> \<not> mr_is_group_chat r \<and>
       (mr_sender_id r = sc_left_id scope \<and> mr_receiver_id r = Some (sc_right_id scope) \<or>
        mr_sender_id r = sc_right_id scope \<and> mr_receiver_id r = Some (sc_left_id scope)))"

definition history_rows :: "db_scope \<Rightarrow> history_query \<Rightarrow> nat \<Rightarrow> message_row list \<Rightarrow> message_row list" where
  "history_rows scope query limit rows =
     (let visible = filter (\<lambda>r. mr_status r \<noteq> 5 \<and> in_scope scope r) rows in
      take (max limit 1)
        (case hq_after_message_id query of
           Some after \<Rightarrow> sort_key mr_id (filter (\<lambda>r. after < mr_id r) visible)
         | None \<Rightarrow> rev (sort_key mr_id (case hq_last_message_id query of
             Some before \<Rightarrow> filter (\<lambda>r. mr_id r < before) visible | None \<Rightarrow> visible))))"

definition load_history_from_db :: "api_lib \<Rightarrow> string \<Rightarrow> history_query \<Rightarrow> nat \<Rightarrow> message_dto list api" where
  "load_history_from_db L conversation_id query limit =
     act_then (Ret (parse_db_scope conversation_id)) (\<lambda>scope.
       sql_query (\<lambda>w. map (message_from_row L) (history_rows scope query limit (aw_messages w))))"

definition history_limit :: "history_query \<Rightarrow> nat" where
  "history_limit query = nat (max 1 (min 100 (unwrap_or (or_else (hq_limit query) (hq_size query)) 20)))"

definition wanted :: "history_query \<Rightarrow> int \<Rightarrow> message_dto \<Rightarrow> bool" where
  "wanted query message_id message \<longleftrightarrow> md_status message \<noteq> message_status_str Deleted \<and>
     (case hq_after_message_id query of Some after \<Rightarrow> after < message_id | None \<Rightarrow> True) \<and>
     (case hq_last_message_id query of Some before \<Rightarrow> message_id < before | None \<Rightarrow> True)"

fun load_hot_history ::
  "api_lib \<Rightarrow> string \<Rightarrow> history_query \<Rightarrow> nat \<Rightarrow> string list \<Rightarrow> message_dto list \<Rightarrow> message_dto list api" where
  "load_hot_history L url query limit [] messages = act_ok messages"
| "load_hot_history L url query limit (i # is) messages = (case parse_i64 i of
     None \<Rightarrow> load_hot_history L url query limit is messages
   | Some message_id \<Rightarrow>
       act_then (act_try (load_message L url message_id)) (\<lambda>r. case r of
         Inl _ \<Rightarrow> load_hot_history L url query limit is messages
       | Inr message \<Rightarrow>
           if \<not> wanted query message_id message then load_hot_history L url query limit is messages
           else if limit \<le> length messages + 1 then act_ok (messages @ [message])
           else load_hot_history L url query limit is (messages @ [message])))"

definition with_envelope :: "api_lib \<Rightarrow> delivery_row list \<Rightarrow> message_dto \<Rightarrow> message_dto" where
  "with_envelope L rows message =
     (if unwrap_or (md_encrypted message) False
      then message\<lparr>md_e2ee_envelope := Option.bind (parse_i64 (md_id message)) (\<lambda>i.
        map_of (rev (List.map_filter (\<lambda>r. map_option (Pair (dl_message_id r)) (ap_read_envelope L (dl_header r))) rows)) i)\<rparr>
      else message)"

definition apply_device_envelopes :: "api_lib \<Rightarrow> message_dto list \<Rightarrow> string \<Rightarrow> message_dto list api" where
  "apply_device_envelopes L messages raw_device_id =
     (let device_id = trim raw_device_id;
          ids = List.map_filter (\<lambda>m. parse_i64 (md_id m)) (filter (\<lambda>m. unwrap_or (md_encrypted m) False) messages) in
      if device_id = [] \<or> device_id = ''unknown'' then act_err (EBadRequest ''invalid deviceId'')
      else if ids = [] then act_ok messages
      else
        act_then (sql_query (\<lambda>w. filter (\<lambda>r. ap_collate L (dl_device_id r) = ap_collate L device_id \<and>
            dl_message_id r \<in> set ids) (aw_deliveries w))) (\<lambda>rows.
          act_ok (map (with_envelope L rows) messages)))"

text \<open>\<open>dedup_by\<close> keeps the first of neighbours with the same identifier.\<close>

fun dedup_neighbours :: "message_dto list \<Rightarrow> message_dto list" where
  "dedup_neighbours [] = []"
| "dedup_neighbours [m] = [m]"
| "dedup_neighbours (m # n # ms) =
     (if md_id m = md_id n then dedup_neighbours (m # ms) else m # dedup_neighbours (n # ms))"

text \<open>A stable order of falling identifiers.\<close>

definition newest_first :: "message_dto list \<Rightarrow> message_dto list" where
  "newest_first = sort_key (\<lambda>m. - unwrap_or (parse_i64 (md_id m)) 0)"

definition load_history ::
  "api_lib \<Rightarrow> string \<Rightarrow> string \<Rightarrow> history_query \<Rightarrow> string option \<Rightarrow> message_dto list api" where
  "load_history L url conversation_id query device_id =
     (let limit = history_limit query in
      act_then (newest_hot_ids url conversation_id 500) (\<lambda>hot_ids.
      act_then (load_hot_history L url query limit hot_ids []) (\<lambda>messages.
      act_then (if length messages < limit
          then act_then (load_history_from_db L conversation_id query (limit + length messages)) (\<lambda>stored.
            act_ok (messages @ stored))
          else act_ok messages) (\<lambda>messages.
      act_then (case device_id of Some d \<Rightarrow> apply_device_envelopes L messages d | None \<Rightarrow> act_ok messages) (\<lambda>messages.
      act_ok (take limit (dedup_neighbours (newest_first messages))))))))"

definition whole_history :: history_query where
  "whole_history = \<lparr>hq_size = None, hq_limit = Some 1, hq_last_message_id = None, hq_after_message_id = None,
     hq_device_id = None\<rparr>"

definition latest_message_id :: "api_lib \<Rightarrow> string \<Rightarrow> string \<Rightarrow> int option api" where
  "latest_message_id L url conversation_id =
     act_then (newest_hot_ids url conversation_id 1) (\<lambda>ids.
       case Option.bind (case ids of [] \<Rightarrow> None | i # _ \<Rightarrow> Some i) parse_i64 of
         Some i \<Rightarrow> act_ok (Some i)
       | None \<Rightarrow>
           act_then (load_history_from_db L conversation_id whole_history 1) (\<lambda>history.
             act_ok (case history of [] \<Rightarrow> None | m # _ \<Rightarrow> parse_i64 (md_id m))))"

definition private_history ::
  "api_lib \<Rightarrow> string \<Rightarrow> identity \<Rightarrow> int \<Rightarrow> history_query \<Rightarrow> message_dto list api" where
  "private_history L url caller peer query =
     act_then (cached_resolve_active_user_id peer) (\<lambda>resolved.
     act_then (Ret (ok_or (ENotFound ''user not found'') resolved)) (\<lambda>peer_id.
     act_then (validate_friend (id_user_id caller) peer_id) (\<lambda>_.
     act_then (case hq_device_id query of Some d \<Rightarrow> validate_device_ownership L d (id_user_id caller) | None \<Rightarrow> act_ok ()) (\<lambda>_.
     load_history L url (private_conversation_id (id_user_id caller) peer_id) query (hq_device_id query)))))"

definition group_history ::
  "api_lib \<Rightarrow> string \<Rightarrow> identity \<Rightarrow> int \<Rightarrow> history_query \<Rightarrow> message_dto list api" where
  "group_history L url caller candidate query =
     act_then (cached_resolve_active_group_id candidate) (\<lambda>resolved.
     act_then (Ret (ok_or (ENotFound ''group not found'') resolved)) (\<lambda>group_id.
     act_then (validate_group_member group_id (id_user_id caller)) (\<lambda>_.
     load_history L url (group_conversation_id group_id) query None)))"

section \<open>Reading\<close>

definition hot_hset_field :: "string \<Rightarrow> string \<Rightarrow> string \<Rightarrow> int \<Rightarrow> unit api" where
  "hot_hset_field url k f v = hot_write url (\<lambda>now. hot_hset now k f v)"

definition mark_group_read :: "api_lib \<Rightarrow> string \<Rightarrow> identity \<Rightarrow> conversation_target \<Rightarrow> int \<Rightarrow> unit api" where
  "mark_group_read L url caller target group_id =
     act_then (validate_group_member group_id (id_user_id caller)) (\<lambda>_.
     act_then (latest_message_id L url (tg_conversation_id target)) (\<lambda>last_id.
     act_then (current_group_sequence url group_id) (\<lambda>last_seq.
     act_then now_ms (\<lambda>now.
     let receipt = \<lparr>rd_conversation_id = tg_frontend_conversation_id target, rd_reader_id = show_int (id_user_id caller),
           rd_to_user_id = None, rd_read_at = ap_iso L now, rd_last_read_message_id = map_option show_int last_id,
           rd_last_read_seq = Some last_seq\<rparr> in
     act_then (new_event MessageRead (tg_conversation_id target)) (\<lambda>event.
     act_then (write_state_event L url (tg_conversation_id target)
       (event\<lparr>ev_group_id := Some (show_int group_id), ev_group := True, ev_read_receipt := Some receipt\<rparr>)) (\<lambda>_.
     act_then (hot_write url (\<lambda>now. hot_put_ex now (read_cursor_key (id_user_id caller) (tg_conversation_id target))
       (ap_print_receipt L receipt) conversation_ttl_seconds)) (\<lambda>_.
     hot_write url (\<lambda>now. hot_put (group_read_sequence_key (id_user_id caller) group_id) (show_int last_seq)))))))))"

definition mark_private_read :: "api_lib \<Rightarrow> string \<Rightarrow> identity \<Rightarrow> conversation_target \<Rightarrow> int \<Rightarrow> unit api" where
  "mark_private_read L url caller target peer_id =
     act_then (validate_friend (id_user_id caller) peer_id) (\<lambda>_.
     act_then (latest_message_id L url (tg_conversation_id target)) (\<lambda>last_id.
     act_then now_ms (\<lambda>now.
     let receipt = \<lparr>rd_conversation_id = tg_frontend_conversation_id target, rd_reader_id = show_int (id_user_id caller),
           rd_to_user_id = Some (show_int peer_id), rd_read_at = ap_iso L now,
           rd_last_read_message_id = map_option show_int last_id, rd_last_read_seq = None\<rparr> in
     act_then (new_event MessageRead (tg_conversation_id target)) (\<lambda>event.
     act_then (write_state_event L url (tg_conversation_id target)
       (event\<lparr>ev_target_user_id := Some (show_int peer_id), ev_read_receipt := Some receipt\<rparr>)) (\<lambda>_.
     act_then (hot_write url (\<lambda>now. hot_put_ex now (read_cursor_key (id_user_id caller) (tg_conversation_id target))
       (ap_print_receipt L receipt) conversation_ttl_seconds)) (\<lambda>_.
     hot_hset_field url (user_unread_key (id_user_id caller)) (tg_conversation_id target) 0))))))"

definition mark_read :: "api_lib \<Rightarrow> string \<Rightarrow> string \<Rightarrow> identity \<Rightarrow> string \<Rightarrow> unit api" where
  "mark_read L private_url group_url caller raw_conversation_id =
     act_then (Ret (parse_conversation_target (id_user_id caller) raw_conversation_id)) (\<lambda>target.
     case tg_group_id target of
       Some g \<Rightarrow>
         act_then (cached_resolve_active_group_id g) (\<lambda>resolved.
         act_then (Ret (ok_or (ENotFound ''group not found'') resolved)) (\<lambda>group_id.
         mark_group_read L group_url caller (target\<lparr>tg_group_id := Some group_id,
           tg_conversation_id := group_conversation_id group_id,
           tg_frontend_conversation_id := ''group_'' @ show_int group_id\<rparr>) group_id))
     | None \<Rightarrow>
         (case tg_peer_id target of
            Some p \<Rightarrow>
              act_then (cached_resolve_active_user_id p) (\<lambda>resolved.
              act_then (Ret (ok_or (ENotFound ''user not found'') resolved)) (\<lambda>peer_id.
              mark_private_read L private_url caller (target\<lparr>tg_peer_id := Some peer_id,
                tg_conversation_id := private_conversation_id (id_user_id caller) peer_id,
                tg_frontend_conversation_id := frontend_id (private_conversation_id (id_user_id caller) peer_id)\<rparr>) peer_id))
          | None \<Rightarrow> act_ok ()))"

section \<open>Recalling and deleting\<close>

definition status_event :: "message_status \<Rightarrow> message_dto \<Rightarrow> im_event \<Rightarrow> im_event" where
  "status_event status message event = event\<lparr>ev_message_id := Some (md_id message),
     ev_sender_id := Some (md_sender_id message), ev_receiver_id := md_receiver_id message,
     ev_group_id := md_group_id message, ev_group := md_is_group_chat message,
     ev_new_status := Some (md_status message), ev_payload := Some message\<rparr>"

definition apply_message_status ::
  "api_lib \<Rightarrow> string \<Rightarrow> identity \<Rightarrow> message_dto \<Rightarrow> message_status \<Rightarrow> message_dto api" where
  "apply_message_status L url caller message status =
     act_then (Ret (ok_or (EBadRequest ''invalid message id'') (parse_i64 (md_id message)))) (\<lambda>message_id.
     act_then (act_check (md_sender_id message = show_int (id_user_id caller))
       (EForbidden ''only sender can change message status'')) (\<lambda>_.
     act_then now_ms (\<lambda>now.
     act_then (act_check (status = Recalled \<longrightarrow> within_recall_window L now message)
       (EBadRequest ''only messages within 2 minutes can be recalled'')) (\<lambda>_.
     act_then now_ms (\<lambda>now.
     let message = message\<lparr>md_status := message_status_str status, md_updated_time := Some (ap_iso L now),
           md_updated_at := Some (ap_iso L now)\<rparr> in
     act_then (Ret (conversation_id_from_message message)) (\<lambda>conversation_id.
     act_then (new_event (if status = Recalled then MessageRecalled else MessageDeleted) conversation_id) (\<lambda>event.
     let message_json = ap_print_message L message in
     act_then (hot_write url (\<lambda>now. hot_put_ex now (cached_message_key message_id) message_json message_ttl_seconds)) (\<lambda>_.
     act_then (load_last_message L url conversation_id) (\<lambda>last_message.
     act_then (if (case last_message of Some m \<Rightarrow> md_id m = md_id message | None \<Rightarrow> False)
         then hot_write url (\<lambda>now. hot_put_ex now (conversation_last_key conversation_id) message_json conversation_ttl_seconds)
         else act_ok ()) (\<lambda>_.
     act_then (write_state_event L url conversation_id (status_event status message event)) (\<lambda>_.
     act_ok message)))))))))))"

text \<open>\<open>shards.get_mut(index)\<close>.\<close>

definition shard_url :: "string \<Rightarrow> string list \<Rightarrow> nat option \<Rightarrow> api_error + string" where
  "shard_url label urls index = (case index of
     Some i \<Rightarrow> if i < length urls then Inr (urls ! i) else Inl (EUpstream (label @ '' hot redis shard missing''))
   | None \<Rightarrow> Inl (EUpstream (label @ '' hot redis shard missing'')))"

definition recall_or_delete ::
  "api_lib \<Rightarrow> string list \<Rightarrow> string list \<Rightarrow> identity \<Rightarrow> int \<Rightarrow> message_status \<Rightarrow> message_dto api" where
  "recall_or_delete L private_urls group_urls caller raw_message_id status =
     act_then (resolve_existing_message_id raw_message_id) (\<lambda>resolved.
     act_then (load_message_from_all_hot L (private_urls @ group_urls) (unwrap_or resolved raw_message_id)) (\<lambda>message.
     if md_is_group_chat message then
       act_then (Ret (and_then (ok_or (EBadRequest ''message groupId missing'') (md_group_id message)) (\<lambda>g.
         ok_or (EBadRequest ''invalid groupId'') (parse_i64 g)))) (\<lambda>group_id.
       act_then (Ret (shard_url ''group'' group_urls (shard_index_for_group_id group_id (length group_urls)))) (\<lambda>url.
       apply_message_status L url caller message status))
     else
       act_then (Ret (conversation_id_from_message message)) (\<lambda>conversation_id.
       act_then (Ret (shard_url ''private'' private_urls (shard_index_for_key conversation_id (length private_urls)))) (\<lambda>url.
       apply_message_status L url caller message status))))"

end
