(* ===== verification/Api_Message_List.thy ===== *)
theory Api_Message_List
  imports Api_Message_Read "HOL-Library.List_Lexorder"
begin

text \<open>
  The list of conversations of the api-server (\<open>message/message_conversation.rs\<close>) and the routes of the
  message service (\<open>routes/message_routes.rs\<close>), which choose the Redis server of a conversation. Where
  the code keeps a hash table, the model keeps a map; the order of a tie in the database is its own.
\<close>

section \<open>Batches\<close>

type_synonym 'a by_conversation = "string \<Rightarrow> 'a option"

definition entries :: "('k \<times> 'v) list \<Rightarrow> 'k \<Rightarrow> 'v option" where
  "entries kvs = fold (\<lambda>(k, v) m. m(k := Some v)) kvs (\<lambda>_. None)"

definition batch_load_last_messages :: "api_lib \<Rightarrow> string \<Rightarrow> string list \<Rightarrow> message_dto by_conversation api" where
  "batch_load_last_messages L url conversation_ids =
     (if conversation_ids = [] then act_ok (\<lambda>_. None)
      else
        act_then (act_try (hot_read url (\<lambda>now s. map (\<lambda>c. hot_get now s (conversation_last_key c)) conversation_ids))) (\<lambda>r.
        act_ok (entries (List.map_filter (\<lambda>(c, v). map_option (Pair c) (Option.bind v (ap_read_message L)))
          (zip conversation_ids (case r of Inr values \<Rightarrow> values | Inl _ \<Rightarrow> []))))))"

text \<open>A field that is missing cannot be read as a number, and then the whole pipeline counts for nothing.\<close>

definition unread_fields :: "int \<Rightarrow> hot_store \<Rightarrow> string \<Rightarrow> string list \<Rightarrow> int list option" where
  "unread_fields now s key conversation_ids =
     those (map (map_of (hot_fields now s key)) conversation_ids)"

definition batch_load_unread_counts :: "string \<Rightarrow> int \<Rightarrow> string list \<Rightarrow> int by_conversation api" where
  "batch_load_unread_counts url user_id conversation_ids =
     (if conversation_ids = [] then act_ok (\<lambda>_. None)
      else
        act_then (act_try (hot_read url (\<lambda>now s. unread_fields now s (user_unread_key user_id) conversation_ids))) (\<lambda>r.
        act_ok (entries (zip conversation_ids (case r of Inr (Some values) \<Rightarrow> values | _ \<Rightarrow> [])))))"

definition batch_load_user_metadata ::
  "int list \<Rightarrow> (int \<Rightarrow> (string option \<times> string option \<times> string option) option) api" where
  "batch_load_user_metadata peer_ids =
     (if peer_ids = [] then act_ok (\<lambda>_. None)
      else sql_query (\<lambda>w. entries (map (\<lambda>u. (us_id u, Some (us_username u), us_nickname u, us_avatar u))
        (filter (\<lambda>u. us_id u \<in> set peer_ids) (aw_users w)))))"

definition batch_load_group_metadata :: "int list \<Rightarrow> (int \<Rightarrow> (string option \<times> string option) option) api" where
  "batch_load_group_metadata group_ids =
     (if group_ids = [] then act_ok (\<lambda>_. None)
      else sql_query (\<lambda>w. entries (map (\<lambda>g. (ig_id g, Some (ig_name g), ig_avatar g))
        (filter (\<lambda>g. ig_id g \<in> set group_ids) (aw_im_groups w)))))"

text \<open>\<open>MGET\<close> as numbers: one text that is no number spoils all of them.\<close>

definition number_texts :: "string option list \<Rightarrow> int option list option" where
  "number_texts vs = those (map (\<lambda>v. case v of None \<Rightarrow> Some None | Some raw \<Rightarrow> map_option Some (parse_i64 raw)) vs)"

definition read_numbers :: "string \<Rightarrow> string list \<Rightarrow> int option list api" where
  "read_numbers url keys = act_then (act_try (hot_read url (\<lambda>now s. map (hot_get now s) keys))) (\<lambda>r.
     act_ok (case r of Inr vs \<Rightarrow> unwrap_or (number_texts vs) [] | Inl _ \<Rightarrow> []))"

definition batch_sequences :: "string \<Rightarrow> (int \<Rightarrow> string) \<Rightarrow> (int \<Rightarrow> api_world \<Rightarrow> int) \<Rightarrow> int list \<Rightarrow> (int \<Rightarrow> int option) api" where
  "batch_sequences url key stored group_ids =
     (if group_ids = [] then act_ok (\<lambda>_. None)
      else
        act_then (read_numbers url (map key group_ids)) (\<lambda>values.
        let pairs = zip group_ids values;
            found = map (\<lambda>(g, v). (g, max (the v) 0)) (filter (\<lambda>(g, v). v \<noteq> None) pairs);
            missing = map fst (filter (\<lambda>(g, v). v = None) pairs) in
        if missing = [] then act_ok (entries found)
        else
          act_then (sql_query (\<lambda>w. filter (\<lambda>(g, q). 0 < q) (map (\<lambda>g. (g, stored g w)) missing))) (\<lambda>rows.
          act_then (if rows = [] then act_ok ()
            else act_then (act_try (hot_write url (\<lambda>now. fold (\<lambda>(g, q). hot_put (key g) (show_int q)) rows))) (\<lambda>_. act_ok ())) (\<lambda>_.
          act_ok (entries (found @ rows))))))"

definition batch_load_group_sequences :: "string \<Rightarrow> int list \<Rightarrow> (int \<Rightarrow> int option) api" where
  "batch_load_group_sequences url = batch_sequences url group_sequence_key stored_sequence"

definition batch_load_group_read_sequences :: "string \<Rightarrow> int \<Rightarrow> int list \<Rightarrow> (int \<Rightarrow> int option) api" where
  "batch_load_group_read_sequences url user_id =
     batch_sequences url (group_read_sequence_key user_id) (stored_read_sequence user_id)"

definition batch_load_last_messages_from_db :: "api_lib \<Rightarrow> string list \<Rightarrow> message_dto by_conversation api" where
  "batch_load_last_messages_from_db L conversation_ids =
     act_then (act_each (\<lambda>c. load_history_from_db L c whole_history 1) conversation_ids) (\<lambda>histories.
     act_ok (entries (List.map_filter (\<lambda>(c, ms). case ms of [] \<Rightarrow> None | m # _ \<Rightarrow> Some (c, m))
       (zip conversation_ids histories))))"

section \<open>Conversations\<close>

definition private_conversation_dto ::
  "int \<Rightarrow> (string option \<times> string option \<times> string option) option \<Rightarrow> message_dto \<Rightarrow> int \<Rightarrow> conversation_dto" where
  "private_conversation_dto peer_id metadata message unread =
     (let (username, nickname, avatar) = unwrap_or metadata (None, None, None) in
      \<lparr>cd_conversation_id = show_int peer_id, cd_conversation_type = 1, cd_target_id = show_int peer_id,
       cd_conversation_name = unwrap_or (or_else nickname username) (show_int peer_id), cd_conversation_avatar = avatar,
       cd_last_message = unwrap_or (md_content message) [], cd_last_message_type = md_message_type message,
       cd_last_message_sender_id = Some (md_sender_id message), cd_last_message_sender_name = md_sender_name message,
       cd_last_message_time = Some (md_created_time message), cd_unread_count = unread, cd_is_online = False,
       cd_is_pinned = False, cd_is_muted = False\<rparr>)"

definition group_id_of_message :: "message_dto \<Rightarrow> int" where
  "group_id_of_message message = unwrap_or (Option.bind (md_group_id message) parse_i64) 0"

text \<open>Everybody the last messages are exchanged with, in order and once.\<close>

definition peers_of :: "int \<Rightarrow> message_dto list \<Rightarrow> int list" where
  "peers_of user_id messages = sorted_list_of_set (set (List.map_filter (extract_peer_id user_id) messages))"

fun hot_conversation_list ::
  "int \<Rightarrow> message_dto by_conversation \<Rightarrow> int by_conversation \<Rightarrow>
   (int \<Rightarrow> (string option \<times> string option \<times> string option) option) \<Rightarrow> string list \<Rightarrow> conversation_dto list api" where
  "hot_conversation_list user_id lasts unread users [] = act_ok []"
| "hot_conversation_list user_id lasts unread users (c # cs) =
     (let more = hot_conversation_list user_id lasts unread users cs; n = unwrap_or (unread c) 0 in
      case lasts c of
        None \<Rightarrow> more
      | Some message \<Rightarrow>
          if md_is_group_chat message then
            act_then (batch_load_group_metadata [group_id_of_message message]) (\<lambda>metadata.
            act_then more (\<lambda>rest.
              let group_id = group_id_of_message message;
                  (name, avatar) = unwrap_or (metadata group_id) (None, None) in
              act_ok (group_conversation_from_message \<lparr>gc_group_id = group_id, gc_name = unwrap_or name (show_int group_id),
                gc_avatar = avatar\<rparr> message n # rest)))
          else
            (case extract_peer_id user_id message of
               None \<Rightarrow> more
             | Some peer_id \<Rightarrow> act_then more (\<lambda>rest.
                 act_ok (private_conversation_dto peer_id (users peer_id) message n # rest))))"

fun user_conversation_ids :: "int \<Rightarrow> string list \<Rightarrow> string list api" where
  "user_conversation_ids user_id [] = act_ok []"
| "user_conversation_ids user_id (url # urls) =
     act_then (act_try (hot_read url (\<lambda>now s. newest_members 100 (hot_members now s (user_conversations_key user_id))))) (\<lambda>r.
     act_then (user_conversation_ids user_id urls) (\<lambda>more.
     act_ok (filter (\<lambda>c. \<not> starts_with ''g_'' c) (case r of Inr cs \<Rightarrow> cs | Inl _ \<Rightarrow> []) @ more)))"

definition first_url :: "string \<Rightarrow> string list \<Rightarrow> api_error + string" where
  "first_url label urls = shard_url label urls (Some 0)"

definition hot_private_conversations :: "api_lib \<Rightarrow> string list \<Rightarrow> int \<Rightarrow> conversation_dto list api" where
  "hot_private_conversations L urls user_id =
     act_then (user_conversation_ids user_id urls) (\<lambda>ids.
     if ids = [] then act_ok []
     else
       act_then (Ret (first_url ''private'' urls)) (\<lambda>url.
       act_then (batch_load_last_messages L url ids) (\<lambda>lasts.
       act_then (batch_load_unread_counts url user_id ids) (\<lambda>unread.
       act_then (batch_load_user_metadata (peers_of user_id (List.map_filter lasts ids))) (\<lambda>users.
       hot_conversation_list user_id lasts unread users ids)))))"

fun first_of_conversation :: "api_lib \<Rightarrow> string list \<Rightarrow> message_row list \<Rightarrow> api_error + message_dto list" where
  "first_of_conversation L seen [] = Inr []"
| "first_of_conversation L seen (r # rs) =
     (let message = message_from_row L r in
      and_then (conversation_id_from_message message) (\<lambda>c.
        if c \<in> set seen then first_of_conversation L seen rs
        else and_then (first_of_conversation L (c # seen) rs) (\<lambda>ms. Inr (message # ms))))"

definition recent_private_rows :: "int \<Rightarrow> api_world \<Rightarrow> message_row list" where
  "recent_private_rows user_id w = take 300 (rev (sort_key mr_id (filter (\<lambda>r. mr_status r \<noteq> 5 \<and>
     \<not> mr_is_group_chat r \<and> (mr_sender_id r = user_id \<or> mr_receiver_id r = Some user_id)) (aw_messages w))))"

definition load_private_conversations_from_db :: "api_lib \<Rightarrow> int \<Rightarrow> conversation_dto list api" where
  "load_private_conversations_from_db L user_id =
     act_then (sql_query (recent_private_rows user_id)) (\<lambda>rows.
     act_then (Ret (first_of_conversation L [] rows)) (\<lambda>messages.
     act_then (batch_load_user_metadata (peers_of user_id messages)) (\<lambda>users.
     act_ok (List.map_filter (\<lambda>m. map_option (\<lambda>peer_id. private_conversation_dto peer_id (users peer_id) m 0)
       (extract_peer_id user_id m)) messages))))"

definition groups_of_user :: "int \<Rightarrow> api_world \<Rightarrow> im_group_row list" where
  "groups_of_user user_id w = rev (sort_key ig_updated_time (filter (\<lambda>g. ig_status g = 1 \<and>
     (\<exists>m \<in> set (aw_members w). active_member (ig_id g) user_id m)) (aw_im_groups w)))"

definition load_group_conversations :: "api_lib \<Rightarrow> string list \<Rightarrow> int \<Rightarrow> conversation_dto list api" where
  "load_group_conversations L urls user_id =
     act_then (sql_query (groups_of_user user_id)) (\<lambda>rows.
     let group_ids = map ig_id rows; ids = map group_conversation_id group_ids in
     act_then (Ret (first_url ''group'' urls)) (\<lambda>url.
     act_then (batch_load_last_messages L url ids) (\<lambda>lasts.
     act_then (batch_load_last_messages_from_db L (filter (\<lambda>c. lasts c = None) ids)) (\<lambda>stored.
     act_then (batch_load_group_sequences url group_ids) (\<lambda>sequences.
     act_then (batch_load_group_read_sequences url user_id group_ids) (\<lambda>reads.
     act_ok (List.map_filter (\<lambda>g. map_option (\<lambda>m.
         group_conversation_from_message \<lparr>gc_group_id = ig_id g, gc_name = ig_name g, gc_avatar = ig_avatar g\<rparr> m
           (group_unread_count (max (unwrap_or (sequences (ig_id g)) 0) (unwrap_or (md_conversation_seq m) 0))
             (unwrap_or (reads (ig_id g)) 0)))
         (or_else (stored (group_conversation_id (ig_id g))) (lasts (group_conversation_id (ig_id g))))) rows)))))))"

text \<open>A stable order of falling times; a conversation without a time comes last.\<close>

definition latest_conversation_first :: "conversation_dto list \<Rightarrow> conversation_dto list" where
  "latest_conversation_first cs =
     rev (sort_key (\<lambda>c. (cd_last_message_time c \<noteq> None, unwrap_or (cd_last_message_time c) [])) (rev cs))"

definition conversations :: "api_lib \<Rightarrow> string list \<Rightarrow> string list \<Rightarrow> identity \<Rightarrow> conversation_dto list api" where
  "conversations L private_urls group_urls caller =
     act_then (hot_private_conversations L private_urls (id_user_id caller)) (\<lambda>hot.
     act_then (if hot = [] then load_private_conversations_from_db L (id_user_id caller) else act_ok hot) (\<lambda>private.
     act_then (load_group_conversations L group_urls (id_user_id caller)) (\<lambda>groups.
     act_ok (latest_conversation_first (dedup_conversations (private @ groups))))))"

definition conversation_from_message :: "int \<Rightarrow> message_dto \<Rightarrow> int \<Rightarrow> conversation_dto option api" where
  "conversation_from_message user_id message unread =
     (if md_is_group_chat message then
        let group_id = group_id_of_message message in
        act_then (sql_query (\<lambda>w. row_of ig_id group_id (aw_im_groups w))) (\<lambda>row.
        act_ok (Some (group_conversation_from_message \<lparr>gc_group_id = group_id,
          gc_name = (case row of Some g \<Rightarrow> ig_name g | None \<Rightarrow> show_int group_id),
          gc_avatar = Option.bind row ig_avatar\<rparr> message unread)))
      else
        (case (if md_sender_id message = show_int user_id then md_receiver_id message else Some (md_sender_id message)) of
           None \<Rightarrow> act_ok None
         | Some peer \<Rightarrow>
             let peer_id = unwrap_or (parse_i64 peer) 0 in
             act_then (sql_query (\<lambda>w. row_of us_id peer_id (aw_users w))) (\<lambda>row.
             act_ok (Some (let d = private_conversation_dto peer_id
                 (map_option (\<lambda>u. (Some (us_username u), us_nickname u, us_avatar u)) row) message unread in
               d\<lparr>cd_conversation_id := peer, cd_target_id := peer, cd_conversation_name :=
                 unwrap_or (or_else (Option.bind row us_nickname) (map_option us_username row)) peer\<rparr>)))))"

section \<open>Routes\<close>

definition message_configuration :: message_config where
  "message_configuration = \<lparr>mc_text_enforce = True, mc_text_max_length = 2000\<rparr>"

abbreviation private_urls_of :: "api_config \<Rightarrow> string list" where
  "private_urls_of config \<equiv> hot_redis_urls_for config PrivateEvents"
abbreviation group_urls_of :: "api_config \<Rightarrow> string list" where
  "group_urls_of config \<equiv> hot_redis_urls_for config GroupEvents"

definition private_redis_for_conversation :: "api_config \<Rightarrow> string \<Rightarrow> api_error + string" where
  "private_redis_for_conversation config conversation_id =
     shard_url ''private'' (private_urls_of config)
       (shard_index_for_key conversation_id (length (private_urls_of config)))"

definition group_redis_for_group :: "api_config \<Rightarrow> int \<Rightarrow> api_error + string" where
  "group_redis_for_group config group_id =
     shard_url ''group'' (group_urls_of config) (shard_index_for_group_id group_id (length (group_urls_of config)))"

definition group_id_from_conversation :: "string \<Rightarrow> int option" where
  "group_id_from_conversation raw =
     (let v = trim raw in Option.bind (or_else (strip_prefix ''group_'' v) (strip_prefix ''g_'' v)) parse_i64)"

definition private_conversation_id_for_read :: "int \<Rightarrow> string \<Rightarrow> api_error + string" where
  "private_conversation_id_for_read user_id raw =
     (let v = trim raw in
      if starts_with ''p_'' v then Inr v
      else and_then (peer_of user_id v) (\<lambda>peer_id. Inr (private_conversation_id user_id peer_id)))"

definition private_redis_for_read :: "api_config \<Rightarrow> int \<Rightarrow> string \<Rightarrow> api_error + string" where
  "private_redis_for_read config user_id raw =
     (if group_id_from_conversation raw \<noteq> None then first_url ''private'' (private_urls_of config)
      else and_then (private_conversation_id_for_read user_id raw) (private_redis_for_conversation config))"

definition group_redis_for_read :: "api_config \<Rightarrow> string \<Rightarrow> api_error + string" where
  "group_redis_for_read config raw = (case group_id_from_conversation raw of
     Some group_id \<Rightarrow> group_redis_for_group config group_id
   | None \<Rightarrow> first_url ''group'' (group_urls_of config))"

definition send_private_route ::
  "api_lib \<Rightarrow> api_config \<Rightarrow> header_map \<Rightarrow> send_private_request \<Rightarrow> message_dto api" where
  "send_private_route L config headers request =
     act_then (caller_of L config headers) (\<lambda>caller.
     act_then (Ret (private_redis_for_conversation config
       (private_conversation_id (id_user_id caller) (sp_receiver_id request)))) (\<lambda>url.
     send_private L config url caller request))"

definition send_group_route ::
  "api_lib \<Rightarrow> api_config \<Rightarrow> header_map \<Rightarrow> send_group_request \<Rightarrow> message_dto api" where
  "send_group_route L config headers request =
     act_then (caller_of L config headers) (\<lambda>caller.
     act_then (Ret (group_redis_for_group config (sg_group_id request))) (\<lambda>url.
     send_group L config url caller request))"

definition mark_read_route :: "api_lib \<Rightarrow> api_config \<Rightarrow> header_map \<Rightarrow> string \<Rightarrow> string api" where
  "mark_read_route L config headers conversation_id =
     act_then (caller_of L config headers) (\<lambda>caller.
     act_then (Ret (private_redis_for_read config (id_user_id caller) conversation_id)) (\<lambda>private_url.
     act_then (Ret (group_redis_for_read config conversation_id)) (\<lambda>group_url.
     act_then (mark_read L private_url group_url caller conversation_id) (\<lambda>_. act_ok ''ok''))))"

definition recall_message :: "api_lib \<Rightarrow> api_config \<Rightarrow> header_map \<Rightarrow> int \<Rightarrow> message_dto api" where
  "recall_message L config headers message_id =
     act_then (caller_of L config headers) (\<lambda>caller.
     recall_or_delete L (private_urls_of config) (group_urls_of config) caller message_id Recalled)"

definition delete_message :: "api_lib \<Rightarrow> api_config \<Rightarrow> header_map \<Rightarrow> int \<Rightarrow> message_dto api" where
  "delete_message L config headers message_id =
     act_then (caller_of L config headers) (\<lambda>caller.
     recall_or_delete L (private_urls_of config) (group_urls_of config) caller message_id Deleted)"

definition conversations_route :: "api_lib \<Rightarrow> api_config \<Rightarrow> header_map \<Rightarrow> conversation_dto list api" where
  "conversations_route L config headers =
     act_then (caller_of L config headers) (\<lambda>caller.
     conversations L (private_urls_of config) (group_urls_of config) caller)"

definition private_history_route ::
  "api_lib \<Rightarrow> api_config \<Rightarrow> header_map \<Rightarrow> int \<Rightarrow> history_query \<Rightarrow> message_dto list api" where
  "private_history_route L config headers peer_id query =
     act_then (caller_of L config headers) (\<lambda>caller.
     act_then (Ret (private_redis_for_conversation config (private_conversation_id (id_user_id caller) peer_id))) (\<lambda>url.
     private_history L url caller peer_id query))"

definition group_history_route ::
  "api_lib \<Rightarrow> api_config \<Rightarrow> header_map \<Rightarrow> int \<Rightarrow> history_query \<Rightarrow> message_dto list api" where
  "group_history_route L config headers group_id query =
     act_then (caller_of L config headers) (\<lambda>caller.
     act_then (Ret (group_redis_for_group config group_id)) (\<lambda>url.
     group_history L url caller group_id query))"

end
