(* ===== verification/Api_Friends.thy ===== *)
theory Api_Friends
  imports Api_Message_List
begin

text \<open>
  Friends (\<open>social_friends.rs\<close>) with the helpers they share with the groups (\<open>social_helpers.rs\<close>) and the
  records of \<open>social_types.rs\<close>: requests, their answers, the two rows of a friendship, its cache, and the events that
  tell the other side.
\<close>

section \<open>Requests and answers\<close>

record friendship_dto =
  fd_id :: string
  fd_friend_id :: string
  fd_username :: string
  fd_nickname :: "string option"
  fd_avatar :: "string option"
  fd_remark :: "string option"
  fd_is_online :: bool
  fd_created_at :: string
  fd_create_time :: string

record friend_request_dto =
  rq_id :: string
  rq_applicant_id :: string
  rq_applicant_username :: string
  rq_applicant_nickname :: "string option"
  rq_applicant_avatar :: "string option"
  rq_target_user_id :: string
  rq_target_username :: string
  rq_target_nickname :: "string option"
  rq_target_avatar :: "string option"
  rq_reason :: "string option"
  rq_status :: string
  rq_create_time :: string
  rq_update_time :: "string option"

record add_friend_request =
  af_target_user_id :: int
  af_reason :: "string option"

record handle_friend_request =
  hf_request_id :: int

section \<open>Helpers\<close>

definition friend_cache_ttl_seconds :: nat where "friend_cache_ttl_seconds = 5 * 60"

definition normalize_optional :: "string option \<Rightarrow> string option" where
  "normalize_optional raw = (case raw of
     None \<Rightarrow> None
   | Some v \<Rightarrow> let v = trim v in if v = [] then None else Some v)"

definition query_i64 :: "(string \<Rightarrow> string option) \<Rightarrow> string \<Rightarrow> int option" where
  "query_i64 params key = Option.bind (params key) (\<lambda>v. parse_i64 (trim v))"

definition string_field :: "json \<Rightarrow> string \<Rightarrow> string option" where
  "string_field v key = normalize_optional (Option.bind (json_get v key) json_as_str)"

fun social_value_to_i64 :: "json \<Rightarrow> int option" where
  "social_value_to_i64 (JInt i) = (if - (2 ^ 63) \<le> i \<and> i < 2 ^ 63 then Some i else None)"
| "social_value_to_i64 (JStr s) = parse_i64 (trim s)"
| "social_value_to_i64 _ = None"

definition social_i64 :: "json \<Rightarrow> string + int" where
  "social_i64 v = ok_or ''invalid integer'' (social_value_to_i64 v)"

definition distinct_values :: "int list \<Rightarrow> int list" where
  "distinct_values values = rev (remdups (rev values))"

definition friend_request_status_str :: "int \<Rightarrow> string" where
  "friend_request_status_str status = (if status = 1 then ''ACCEPTED'' else if status = 2 then ''REJECTED'' else ''PENDING'')"

definition friendship_from_row :: "api_lib \<Rightarrow> friend_row \<times> user_row \<Rightarrow> friendship_dto" where
  "friendship_from_row L = (\<lambda>(f, u).
     \<lparr>fd_id = show_int (fr_id f), fd_friend_id = show_int (fr_friend_id f), fd_username = us_username u,
      fd_nickname = us_nickname u, fd_avatar = us_avatar u, fd_remark = fr_remark f, fd_is_online = False,
      fd_created_at = ap_rfc3339 L (fr_created_time f), fd_create_time = ap_rfc3339 L (fr_created_time f)\<rparr>)"

definition friend_request_from_row :: "api_lib \<Rightarrow> friend_request_row \<times> user_row \<times> user_row \<Rightarrow> friend_request_dto" where
  "friend_request_from_row L = (\<lambda>(r, applicant, target).
     \<lparr>rq_id = show_int (fq_id r), rq_applicant_id = show_int (fq_applicant_id r),
      rq_applicant_username = us_username applicant, rq_applicant_nickname = us_nickname applicant,
      rq_applicant_avatar = us_avatar applicant, rq_target_user_id = show_int (fq_target_user_id r),
      rq_target_username = us_username target, rq_target_nickname = us_nickname target,
      rq_target_avatar = us_avatar target, rq_reason = fq_apply_reason r,
      rq_status = friend_request_status_str (fq_status r), rq_create_time = ap_rfc3339 L (fq_apply_time r),
      rq_update_time = map_option (ap_rfc3339 L) (fq_handle_time r)\<rparr>)"

definition resolve_user_id_or_not_found :: "int \<Rightarrow> int api" where
  "resolve_user_id_or_not_found user_id = act_then (resolve_active_user_id user_id) (\<lambda>r.
     Ret (ok_or (ENotFound ''user not found'') r))"

definition resolve_group_id_or_not_found :: "int \<Rightarrow> int api" where
  "resolve_group_id_or_not_found group_id = act_then (resolve_active_group_id group_id) (\<lambda>r.
     Ret (ok_or (ENotFound ''group not found'') r))"

definition friends_in :: "api_world \<Rightarrow> int \<Rightarrow> int \<Rightarrow> bool" where
  "friends_in w user_id friend_id \<longleftrightarrow>
     (\<exists>r \<in> set (aw_friends w). fr_user_id r = user_id \<and> fr_friend_id r = friend_id \<and> fr_status r = 1)"

definition are_friends :: "int \<Rightarrow> int \<Rightarrow> bool api" where
  "are_friends user_id friend_id = sql_query (\<lambda>w. 0 < count_where (\<lambda>r. fr_user_id r = user_id \<and>
     fr_friend_id r = friend_id \<and> fr_status r = 1) (aw_friends w))"

text \<open>The applicant and the target of a request; its status is not read.\<close>

definition load_friend_request :: "int \<Rightarrow> (int \<times> int) api" where
  "load_friend_request request_id =
     act_then (sql_query (\<lambda>w. row_of fq_id request_id (aw_friend_requests w))) (\<lambda>row.
     Ret (ok_or (ENotFound ''friend request not found'')
       (map_option (\<lambda>r. (fq_applicant_id r, fq_target_user_id r)) row)))"

definition store_friendship :: "api_lib \<Rightarrow> int \<Rightarrow> int \<Rightarrow> int \<Rightarrow> string option \<Rightarrow> unit api" where
  "store_friendship L i user_id friend_id remark = sql_execute (\<lambda>w. case column (ap_varchar L 100) remark of
     None \<Rightarrow> (Inl ESqlx, w)
   | Some remark \<Rightarrow> (Inr (), w\<lparr>aw_friends := upsert_row
       [\<lambda>r. fr_id r = i, \<lambda>r. fr_user_id r = user_id \<and> fr_friend_id r = friend_id]
       \<lparr>fr_id = i, fr_user_id = user_id, fr_friend_id = friend_id, fr_remark = remark, fr_status = 1,
        fr_created_time = sql_now w\<rparr>
       (\<lambda>r. r\<lparr>fr_status := 1, fr_remark := or_else remark (fr_remark r)\<rparr>) (aw_friends w)\<rparr>))"

definition upsert_friendship :: "api_lib \<Rightarrow> nat \<Rightarrow> int \<Rightarrow> int \<Rightarrow> string option \<Rightarrow> unit api" where
  "upsert_friendship L node_id user_id friend_id remark =
     act_then (new_id node_id) (\<lambda>i. store_friendship L i user_id friend_id remark)"

definition cache_friendship :: "int \<Rightarrow> int \<Rightarrow> bool \<Rightarrow> unit api" where
  "cache_friendship user_id friend_id allowed =
     act_then (set_bool (friend_cache_key user_id friend_id) allowed) (\<lambda>_.
     redis_keep (friend_cache_key user_id friend_id) (if allowed then ''1'' else ''0'') friend_cache_ttl_seconds)"

text \<open>\<open>SET\<close> and \<open>EXPIRE\<close> of the event, \<open>ZADD\<close> and \<open>EXPIRE\<close> of the queue that all events wait in.\<close>

definition queue_event :: "string \<Rightarrow> string \<Rightarrow> int \<Rightarrow> string \<Rightarrow> int \<Rightarrow> hot_store \<Rightarrow> hot_store" where
  "queue_event key text score member now s =
     hot_expire_sorted now pending_events_key event_ttl_seconds
       (hot_zadd now pending_events_key score member (hot_put_ex now key text event_ttl_seconds s))"

definition write_social_event :: "api_lib \<Rightarrow> api_config \<Rightarrow> im_event \<Rightarrow> unit api" where
  "write_social_event L config event = (case private_urls_of config of
     [] \<Rightarrow> act_ok ()
   | url # _ \<Rightarrow>
       act_then now_ms (\<lambda>score.
       act_then (act_try (hot_write url (queue_event (event_key (ev_event_id event)) (ap_print_event L event) score
         (ev_event_id event @ ''|'' @ ev_conversation_id event)))) (\<lambda>_. act_ok ())))"

section \<open>Friends\<close>

definition friend_list :: "api_lib \<Rightarrow> api_config \<Rightarrow> header_map \<Rightarrow> friendship_dto list api" where
  "friend_list L config headers =
     act_then (caller_of L config headers) (\<lambda>caller.
     sql_query (\<lambda>w. map (friendship_from_row L) (List.map_filter
       (\<lambda>f. map_option (Pair f) (find (\<lambda>u. us_id u = fr_friend_id f \<and> us_status u = 1) (aw_users w)))
       (sort_key (\<lambda>f. - fr_created_time f)
         (filter (\<lambda>f. fr_user_id f = id_user_id caller \<and> fr_status f = 1) (aw_friends w))))))"

definition friend_requests :: "api_lib \<Rightarrow> api_config \<Rightarrow> header_map \<Rightarrow> friend_request_dto list api" where
  "friend_requests L config headers =
     act_then (caller_of L config headers) (\<lambda>caller.
     sql_query (\<lambda>w. map (friend_request_from_row L) (take 100 (List.map_filter
       (\<lambda>r. Option.bind (row_of us_id (fq_applicant_id r) (aw_users w)) (\<lambda>applicant.
         map_option (\<lambda>target. (r, applicant, target)) (row_of us_id (fq_target_user_id r) (aw_users w))))
       (sort_key (\<lambda>r. - fq_apply_time r) (filter (\<lambda>r. fq_target_user_id r = id_user_id caller \<or>
         fq_applicant_id r = id_user_id caller) (aw_friend_requests w)))))))"

definition insert_friend_request :: "api_lib \<Rightarrow> int \<Rightarrow> int \<Rightarrow> int \<Rightarrow> string option \<Rightarrow> unit api" where
  "insert_friend_request L i applicant target reason = sql_execute (\<lambda>w.
     case (row_of fq_id i (aw_friend_requests w), column (ap_varchar L 200) reason) of
       (None, Some reason) \<Rightarrow> (Inr (), w\<lparr>aw_friend_requests := aw_friend_requests w @
         [\<lparr>fq_id = i, fq_applicant_id = applicant, fq_target_user_id = target, fq_status = 0, fq_apply_time = sql_now w,
           fq_apply_reason = reason, fq_handle_time = None\<rparr>]\<rparr>)
     | _ \<Rightarrow> (Inl ESqlx, w))"

definition add_friend :: "api_lib \<Rightarrow> api_config \<Rightarrow> header_map \<Rightarrow> add_friend_request \<Rightarrow> bool api" where
  "add_friend L config headers request =
     act_then (caller_of L config headers) (\<lambda>caller.
     act_then (resolve_user_id_or_not_found (af_target_user_id request)) (\<lambda>target.
     act_then (act_check (target \<noteq> id_user_id caller) (EBadRequest ''cannot add yourself'')) (\<lambda>_.
     act_then (are_friends (id_user_id caller) target) (\<lambda>friends.
     if friends then act_then (cache_friendship (id_user_id caller) target True) (\<lambda>_. act_ok True)
     else
       act_then (new_id (ac_snowflake_node_id config)) (\<lambda>i.
       act_then (insert_friend_request L i (id_user_id caller) target (normalize_optional (af_reason request))) (\<lambda>_.
       act_then (new_event FriendRequestCreated (''friend_req:'' @ show_int i)) (\<lambda>event.
       act_then (write_social_event L config (event\<lparr>ev_sender_id := Some (show_int (id_user_id caller)),
         ev_target_user_id := Some (show_int target)\<rparr>)) (\<lambda>_. act_ok True))))))))"

definition set_request_status :: "int \<Rightarrow> int \<Rightarrow> unit api" where
  "set_request_status request_id status = sql_execute (\<lambda>w. (Inr (), w\<lparr>aw_friend_requests :=
     update_where (\<lambda>r. fq_id r = request_id) (\<lambda>r. r\<lparr>fq_status := status, fq_handle_time := Some (sql_now w)\<rparr>)
       (aw_friend_requests w)\<rparr>))"

definition accept_friend :: "api_lib \<Rightarrow> api_config \<Rightarrow> header_map \<Rightarrow> handle_friend_request \<Rightarrow> bool api" where
  "accept_friend L config headers request =
     act_then (caller_of L config headers) (\<lambda>caller.
     act_then (load_friend_request (hf_request_id request)) (\<lambda>(applicant, target).
     act_then (act_check (target = id_user_id caller) (EForbidden ''not request target user'')) (\<lambda>_.
     act_then (set_request_status (hf_request_id request) 1) (\<lambda>_.
     act_then (upsert_friendship L (ac_snowflake_node_id config) (id_user_id caller) applicant None) (\<lambda>_.
     act_then (upsert_friendship L (ac_snowflake_node_id config) applicant (id_user_id caller) None) (\<lambda>_.
     act_then (cache_friendship (id_user_id caller) applicant True) (\<lambda>_.
     act_then (cache_friendship applicant (id_user_id caller) True) (\<lambda>_.
     act_then (new_event FriendRequestAccepted (''friend_acc:'' @ show_int (hf_request_id request))) (\<lambda>event.
     act_then (write_social_event L config (event\<lparr>ev_sender_id := Some (show_int (id_user_id caller)),
       ev_target_user_id := Some (show_int applicant)\<rparr>)) (\<lambda>_. act_ok True))))))))))"

definition reject_friend :: "api_lib \<Rightarrow> api_config \<Rightarrow> header_map \<Rightarrow> handle_friend_request \<Rightarrow> bool api" where
  "reject_friend L config headers request =
     act_then (caller_of L config headers) (\<lambda>caller.
     act_then (load_friend_request (hf_request_id request)) (\<lambda>(applicant, target).
     act_then (act_check (target = id_user_id caller) (EForbidden ''not request target user'')) (\<lambda>_.
     act_then (set_request_status (hf_request_id request) 2) (\<lambda>_. act_ok True))))"

definition friend_param :: "(string \<Rightarrow> string option) \<Rightarrow> api_error + int" where
  "friend_param params = ok_or (EBadRequest ''friendUserId is required'')
     (or_else (query_i64 params ''friendUserId'') (query_i64 params ''friendId''))"

definition between :: "int \<Rightarrow> int \<Rightarrow> friend_row \<Rightarrow> bool" where
  "between a b r \<longleftrightarrow> fr_user_id r = a \<and> fr_friend_id r = b \<or> fr_user_id r = b \<and> fr_friend_id r = a"

definition remove_friend :: "api_lib \<Rightarrow> api_config \<Rightarrow> header_map \<Rightarrow> (string \<Rightarrow> string option) \<Rightarrow> bool api" where
  "remove_friend L config headers params =
     act_then (caller_of L config headers) (\<lambda>caller.
     act_then (Ret (friend_param params)) (\<lambda>friend_id.
     act_then (resolve_user_id_or_not_found friend_id) (\<lambda>friend_id.
     act_then (sql_execute (\<lambda>w. (Inr (), w\<lparr>aw_friends := update_where (between (id_user_id caller) friend_id)
       (\<lambda>r. r\<lparr>fr_status := 2\<rparr>) (aw_friends w)\<rparr>))) (\<lambda>_.
     act_then (cache_friendship (id_user_id caller) friend_id False) (\<lambda>_.
     act_then (cache_friendship friend_id (id_user_id caller) False) (\<lambda>_. act_ok True))))))"

text \<open>A remark that does not fit fails the statement only when there is a row for it.\<close>

definition update_friend_remark ::
  "api_lib \<Rightarrow> api_config \<Rightarrow> header_map \<Rightarrow> (string \<Rightarrow> string option) \<Rightarrow> bool api" where
  "update_friend_remark L config headers params =
     act_then (caller_of L config headers) (\<lambda>caller.
     act_then (Ret (friend_param params)) (\<lambda>friend_id.
     act_then (resolve_user_id_or_not_found friend_id) (\<lambda>friend_id.
     act_then (sql_execute (\<lambda>w.
       let hit = (\<lambda>r. fr_user_id r = id_user_id caller \<and> fr_friend_id r = friend_id \<and> fr_status r = 1) in
       case column (ap_varchar L 100) (normalize_optional (params ''remark'')) of
         None \<Rightarrow> if \<exists>r \<in> set (aw_friends w). hit r then (Inl ESqlx, w) else (Inr (), w)
       | Some remark \<Rightarrow> (Inr (), w\<lparr>aw_friends := update_where hit (\<lambda>r. r\<lparr>fr_remark := remark\<rparr>) (aw_friends w)\<rparr>))) (\<lambda>_.
     act_ok True))))"

end
