(* ===== verification/Api_Tokens.thy ===== *)
theory Api_Tokens
  imports Api_Auth "HOL-Library.Char_ord"
begin

text \<open>
  Tokens and tickets of the api-server: \<open>auth_token.rs\<close> (access and refresh tokens, their exchange and
  revocation), \<open>auth_internal.rs\<close> (the cached resource of a user, permissions, the endpoints for other
  servers) and \<open>auth_ws.rs\<close> (tickets for websockets). A Lua script is one access. The messages of the
  JWT library are left empty.
\<close>

section \<open>Keys\<close>

definition refresh_jti_key :: "int \<Rightarrow> string" where "refresh_jti_key user_id = ''auth:refresh:jti:'' @ show_int user_id"
definition user_resource_key :: "int \<Rightarrow> string" where "user_resource_key user_id = ''auth:user:'' @ show_int user_id"
definition revoked_token_key :: "string \<Rightarrow> string" where "revoked_token_key hash = ''auth:revoked:token:'' @ hash"
definition user_revoke_after_key :: "int \<Rightarrow> string" where
  "user_revoke_after_key user_id = ''auth:user:revoke_after:'' @ show_int user_id"
definition ws_ticket_key :: "string \<Rightarrow> string" where "ws_ticket_key ticket = ''auth:ws:ticket:'' @ ticket"

section \<open>Building and reading a token\<close>

definition build_token ::
  "api_lib \<Rightarrow> int \<Rightarrow> string \<Rightarrow> int \<Rightarrow> int \<Rightarrow> string \<Rightarrow> string \<Rightarrow> string \<Rightarrow> bool \<Rightarrow> api_error + string"
where
  "build_token L now secret expiration_ms user_id username typ jti remember_me =
     (if length secret < 64
      then Inl (EBadRequest (''JWT secret must be at least 64 bytes (got '' @ show_nat (length secret) @ '' bytes)''))
      else
        ok_or (EBadRequest []) (ap_jwt_encode L
          \<lparr>jc_user_id = user_id, jc_username = username, jc_typ = typ, jc_jti = jti, jc_sub = username,
           jc_iat = trunc_div now 1000, jc_exp = trunc_div (wrap_i64 (now + expiration_ms)) 1000,
           jc_remember_me = remember_me\<rparr> (ascii secret)))"

definition parse_token :: "api_lib \<Rightarrow> int \<Rightarrow> string option \<Rightarrow> string \<Rightarrow> bool \<Rightarrow> token_parse_result" where
  "parse_token L now token secret allow_expired =
     (case normalize_bearer token of
        None \<Rightarrow> token_error ''TOKEN_EMPTY''
      | Some normalized \<Rightarrow>
          (case ap_jwt_decode L normalized (ascii secret) of
             None \<Rightarrow> token_error ''TOKEN_INVALID''
           | Some claims \<Rightarrow>
               let expired = wrap_i64 (jc_exp claims * 1000) \<le> now;
                   result = \<lparr>tr_valid = \<not> expired, tr_expired = expired,
                     tr_error = (if expired then Some ''TOKEN_EXPIRED'' else None), tr_user_id = Some (jc_user_id claims),
                     tr_username = Some (jc_username claims), tr_token_type = Some (jc_typ claims),
                     tr_jti = Some (jc_jti claims), tr_issued_at_epoch_ms = Some (wrap_i64 (jc_iat claims * 1000)),
                     tr_expires_at_epoch_ms = Some (wrap_i64 (jc_exp claims * 1000)), tr_permissions = None,
                     tr_remember_me = jc_remember_me claims\<rparr>
               in if expired \<and> \<not> allow_expired then clear_identity result else result))"

definition parse_token_now :: "api_lib \<Rightarrow> string option \<Rightarrow> string \<Rightarrow> bool \<Rightarrow> token_parse_result api" where
  "parse_token_now L token secret allow_expired =
     act_then now_ms (\<lambda>now. act_ok (parse_token L now token secret allow_expired))"

section \<open>The resource of a user\<close>

definition read_user_resource :: "api_lib \<Rightarrow> int \<Rightarrow> string option \<Rightarrow> user_resource" where
  "read_user_resource L user_id raw =
     (case Option.bind raw (ap_read_resource L) of Some r \<Rightarrow> r | None \<Rightarrow> default_resource (Some user_id))"

definition get_user_resource :: "api_lib \<Rightarrow> int \<Rightarrow> user_resource api" where
  "get_user_resource L user_id =
     act_then (redis_get (user_resource_key user_id)) (\<lambda>raw. act_ok (read_user_resource L user_id raw))"

definition granted_permissions :: "api_config \<Rightarrow> issue_token_request \<Rightarrow> string list" where
  "granted_permissions config request =
     (let permissions = List.map_filter (\<lambda>p. normalize_text (Some p)) (it_permissions request) in
      if is_admin config request
      then sort (remdups (permissions @ [''admin'', ''file:delete'', ''file:read'', ''log:read'']))
      else permissions)"

definition resource_of_request :: "api_config \<Rightarrow> int \<Rightarrow> issue_token_request \<Rightarrow> user_resource" where
  "resource_of_request config user_id request =
     (let info = insert_value [] ''id'' (map_option (\<lambda>i. JStr (show_int i)) (it_user_id request));
          info = insert_value info ''username'' (map_option JStr (it_username request));
          info = insert_value info ''nickname'' (map_option JStr (it_nickname request));
          info = insert_value info ''avatar'' (map_option JStr (it_avatar request));
          info = insert_value info ''email'' (map_option JStr (it_email request));
          info = insert_value info ''phone'' (map_option JStr (it_phone request)) in
      \<lparr>ur_user_id = Some user_id, ur_username = it_username request, ur_user_info = info,
       ur_resource_permissions = granted_permissions config request, ur_data_scopes = []\<rparr>)"

definition upsert_user_resource :: "api_lib \<Rightarrow> api_config \<Rightarrow> issue_token_request \<Rightarrow> unit api" where
  "upsert_user_resource L config request =
     (case it_user_id request of
        None \<Rightarrow> act_ok ()
      | Some user_id \<Rightarrow>
          act_then (Ret (ok_or ESerde (ap_print_resource L (resource_of_request config user_id request)))) (\<lambda>raw.
            redis_set_ex (user_resource_key user_id) raw (ac_resource_cache_ttl_seconds config)))"

section \<open>Issuing and exchanging\<close>

definition issue_token_pair :: "api_lib \<Rightarrow> api_config \<Rightarrow> issue_token_request \<Rightarrow> token_pair api" where
  "issue_token_pair L config request =
     act_then (Ret (ok_or (EBadRequest ''userId is required'') (it_user_id request))) (\<lambda>user_id.
     act_then (Ret (ok_or (EBadRequest ''username is required'') (normalize_text (it_username request)))) (\<lambda>username.
     act_then (upsert_user_resource L config request) (\<lambda>_.
     act_then new_uuid (\<lambda>access_jti.
     act_then new_uuid (\<lambda>refresh_jti.
       let refresh_ms = (if it_remember_me request then ac_remember_me_refresh_expiration_ms config
                         else ac_refresh_expiration_ms config) in
       act_then now_ms (\<lambda>now1.
       act_then (Ret (build_token L now1 (ac_jwt_secret config) (ac_jwt_expiration_ms config) user_id username ''access''
           access_jti (it_remember_me request))) (\<lambda>access.
       act_then now_ms (\<lambda>now2.
       act_then (Ret (build_token L now2 (ac_refresh_secret config) refresh_ms user_id username ''refresh''
           refresh_jti (it_remember_me request))) (\<lambda>refresh.
       act_then (redis_set_px (refresh_jti_key user_id) refresh_jti refresh_ms) (\<lambda>_.
         act_ok \<lparr>tp_access_token = Some access, tp_refresh_token = Some refresh,
           tp_expires_in_ms = Some (ac_jwt_expiration_ms config), tp_refresh_expires_in_ms = Some refresh_ms\<rparr>))))))))))"

text \<open>The script that replaces the identifier of the refresh token if it is still the expected one.\<close>

definition replace_jti :: "string \<Rightarrow> string \<Rightarrow> string \<Rightarrow> int \<Rightarrow> bool api" where
  "replace_jti key expected new ttl_ms = command ERedis (\<lambda>w.
     if redis_value w key = Some expected then
       if 0 < ttl_ms then (Inr True, w\<lparr>aw_redis := (aw_redis w)(key := Some (new, aw_now w + ttl_ms))\<rparr>)
       else (Inl ERedis, w)
     else (Inr False, w))"

definition invalid_token :: api_error where
  "invalid_token = EUnauthorized ''TOKEN_INVALID''"

definition refreshed_request :: "int \<Rightarrow> string \<Rightarrow> user_resource option \<Rightarrow> bool \<Rightarrow> issue_token_request" where
  "refreshed_request user_id username resource remember_me =
     \<lparr>it_user_id = Some user_id, it_username = Some username, it_nickname = None, it_avatar = None, it_email = None,
      it_phone = None, it_permissions = (case resource of Some r \<Rightarrow> ur_resource_permissions r | None \<Rightarrow> []),
      it_remember_me = remember_me\<rparr>"

definition refresh_token_pair :: "api_lib \<Rightarrow> api_config \<Rightarrow> refresh_token_request \<Rightarrow> token_pair api" where
  "refresh_token_pair L config request =
     act_then (Ret (ok_or invalid_token (normalize_bearer (rq_refresh_token request)))) (\<lambda>refresh_token.
     act_then (parse_token_now L (Some refresh_token) (ac_refresh_secret config) True) (\<lambda>parsed.
     act_then (act_check (\<not> tr_expired parsed) (EUnauthorized ''TOKEN_EXPIRED'')) (\<lambda>_.
     act_then (act_check (tr_valid parsed \<and> tr_token_type parsed = Some ''refresh'') invalid_token) (\<lambda>_.
     act_then (Ret (ok_or invalid_token (tr_user_id parsed))) (\<lambda>user_id.
     act_then (Ret (ok_or invalid_token (tr_username parsed))) (\<lambda>username.
     act_then (Ret (ok_or invalid_token (tr_jti parsed))) (\<lambda>refresh_jti.
     act_then new_uuid (\<lambda>cas_refresh_jti.
     act_then (act_try (replace_jti (refresh_jti_key user_id) refresh_jti cas_refresh_jti (ac_refresh_expiration_ms config))) (\<lambda>ok.
     act_then (act_check (ok = Inr True) invalid_token) (\<lambda>_.
     act_then (act_try (get_user_resource L user_id)) (\<lambda>resource.
       issue_token_pair L config (refreshed_request user_id username
         (case resource of Inr r \<Rightarrow> Some r | Inl _ \<Rightarrow> None) (tr_remember_me parsed)))))))))))))"

definition api_refresh :: "api_lib \<Rightarrow> api_config \<Rightarrow> header_map \<Rightarrow> bytes \<Rightarrow> (header_map \<times> refresh_response) api" where
  "api_refresh L config headers body =
     act_then (Ret (optional_json (ap_read_refresh L) \<lparr>rq_refresh_token = None, rq_access_token = None\<rparr> body)) (\<lambda>request.
       let request = (if rq_refresh_token request = None \<or> rq_refresh_token request = Some []
             then request\<lparr>rq_refresh_token := api_cookie_value headers (ac_refresh_cookie_name config)\<rparr> else request) in
       act_then (refresh_token_pair L config request) (\<lambda>pair.
       act_then (Ret (append_auth_cookies [] config pair headers)) (\<lambda>response_headers.
         act_ok (response_headers, \<lparr>rp_expires_in_ms = tp_expires_in_ms pair,
           rp_refresh_expires_in_ms = tp_refresh_expires_in_ms pair, rp_authenticated = True\<rparr>))))"

definition api_parse :: "api_lib \<Rightarrow> api_config \<Rightarrow> header_map \<Rightarrow> bytes \<Rightarrow> token_parse_result api" where
  "api_parse L config headers body =
     act_then (Ret (optional_json (ap_read_parse L) \<lparr>pq_token = None, pq_allow_expired = None\<rparr> body)) (\<lambda>request.
       let token = (case pq_token request of Some t \<Rightarrow> Some t
             | None \<Rightarrow> api_cookie_value headers (ac_access_cookie_name config)) in
       act_then (parse_token_now L token (ac_jwt_secret config) (unwrap_or (pq_allow_expired request) False)) (\<lambda>parsed.
         case (if tr_valid parsed \<and> \<not> tr_expired parsed then tr_user_id parsed else None) of
           None \<Rightarrow> act_ok parsed
         | Some user_id \<Rightarrow>
             act_then (act_try (get_user_resource L user_id)) (\<lambda>resource.
               act_ok (parsed\<lparr>tr_permissions := Some (case resource of Inr r \<Rightarrow> ur_resource_permissions r | Inl _ \<Rightarrow> [])\<rparr>))))"

section \<open>Revocation\<close>

definition redis_exists :: "string \<Rightarrow> bool api" where
  "redis_exists k = redis_command (\<lambda>w. (redis_value w k \<noteq> None, w))"

definition is_token_revoked :: "api_lib \<Rightarrow> string \<Rightarrow> token_parse_result \<Rightarrow> bool api" where
  "is_token_revoked L token parsed =
     act_then (redis_exists (revoked_token_key (sha256_hex L token))) (\<lambda>revoked.
       if revoked then act_ok True
       else
         (case (tr_user_id parsed, tr_issued_at_epoch_ms parsed) of
            (Some user_id, Some iat) \<Rightarrow>
              act_then (redis_get (user_revoke_after_key user_id)) (\<lambda>revoke_after.
                act_ok (case Option.bind revoke_after parse_i64 of Some t \<Rightarrow> iat \<le> t | None \<Rightarrow> False))
          | _ \<Rightarrow> act_ok False))"

definition validate_access_token_result :: "api_lib \<Rightarrow> api_config \<Rightarrow> string \<Rightarrow> bool \<Rightarrow> token_parse_result api" where
  "validate_access_token_result L config token check_revoked =
     act_then (Ret (ok_or invalid_token (normalize_bearer (Some token)))) (\<lambda>normalized.
     act_then (parse_token_now L (Some normalized) (ac_jwt_secret config) False) (\<lambda>parsed.
     act_then (act_check (\<not> tr_expired parsed) (EUnauthorized ''TOKEN_EXPIRED'')) (\<lambda>_.
     act_then (act_check (tr_valid parsed) invalid_token) (\<lambda>_.
     act_then (if check_revoked then is_token_revoked L normalized parsed else act_ok False) (\<lambda>revoked.
     act_then (act_check (\<not> revoked) invalid_token) (\<lambda>_.
       case tr_user_id parsed of
         None \<Rightarrow> act_ok parsed
       | Some user_id \<Rightarrow>
           act_then (act_try (get_user_resource L user_id)) (\<lambda>resource.
             act_ok (parsed\<lparr>tr_permissions := Some (case resource of Inr r \<Rightarrow> ur_resource_permissions r | Inl _ \<Rightarrow> [])\<rparr>))))))))"

definition revoke_failure :: "string \<Rightarrow> token_revoke_result" where
  "revoke_failure m = \<lparr>rr_success = False, rr_message = Some m, rr_user_id = None, rr_token_type = None\<rparr>"

definition revoke_token :: "api_lib \<Rightarrow> api_config \<Rightarrow> revoke_token_request \<Rightarrow> token_revoke_result api" where
  "revoke_token L config request =
     (case normalize_bearer (rv_token request) of
        None \<Rightarrow> act_ok (revoke_failure ''token is required'')
      | Some token \<Rightarrow>
          act_then (parse_token_now L (Some token) (ac_jwt_secret config) True) (\<lambda>parsed.
            case tr_user_id parsed of
              None \<Rightarrow> act_ok (revoke_failure ''token parse failed'')
            | Some user_id \<Rightarrow>
                act_then (redis_set_ex (revoked_token_key (sha256_hex L token)) ''1'' (ac_revoked_token_ttl_seconds config)) (\<lambda>_.
                  act_ok \<lparr>rr_success = True, rr_message = Some (unwrap_or (rv_reason request) ''token revoked''),
                    rr_user_id = Some user_id, rr_token_type = tr_token_type parsed\<rparr>)))"

section \<open>Permissions\<close>

definition permission_result :: "check_permission_request \<Rightarrow> bool \<Rightarrow> string \<Rightarrow> permission_check_result" where
  "permission_result input granted reason =
     \<lparr>pc_user_id = cp_user_id input, pc_permission = cp_permission input, pc_resource = cp_resource input,
      pc_action = cp_action input, pc_granted = granted, pc_reason = Some reason\<rparr>"

definition permission_granted :: "string list \<Rightarrow> check_permission_request \<Rightarrow> bool" where
  "permission_granted permissions request \<longleftrightarrow>
     list_ex (\<lambda>p. p = ''*'' \<or> p = ''admin'') permissions \<or>
     (case cp_permission request of Some p \<Rightarrow> p \<in> set permissions | None \<Rightarrow> False) \<or>
     (case (cp_resource request, cp_action request) of
        (Some resource, Some action) \<Rightarrow>
          list_ex (\<lambda>p. p = trim resource @ '':'' @ trim action \<or> p = trim resource @ '':*'') permissions
      | _ \<Rightarrow> False)"

definition check_permission :: "api_lib \<Rightarrow> check_permission_request \<Rightarrow> permission_check_result api" where
  "check_permission L request =
     (case cp_user_id request of
        None \<Rightarrow> act_ok (permission_result request False ''userId is required'')
      | Some user_id \<Rightarrow>
          act_then (get_user_resource L user_id) (\<lambda>resource.
            let granted = permission_granted (ur_resource_permissions resource) request in
            act_ok (permission_result request granted (if granted then ''permission granted'' else ''permission denied''))))"

section \<open>Endpoints for other servers\<close>

text \<open>The signature is checked before anything is read.\<close>

definition signed_by_server :: "api_lib \<Rightarrow> api_config \<Rightarrow> header_map \<Rightarrow> string \<Rightarrow> string \<Rightarrow> bytes \<Rightarrow> unit api" where
  "signed_by_server L config headers verb path body =
     act_then now_ms (\<lambda>now. Ret (api_validate_internal_signature L now headers verb path body config))"

definition internal_issue_token :: "api_lib \<Rightarrow> api_config \<Rightarrow> header_map \<Rightarrow> string \<Rightarrow> bytes \<Rightarrow> token_pair api" where
  "internal_issue_token L config headers path body =
     act_then (signed_by_server L config headers ''POST'' path body) (\<lambda>_.
     act_then (Ret (required_json (ap_read_issue L) body)) (issue_token_pair L config))"

definition internal_revoke_token :: "api_lib \<Rightarrow> api_config \<Rightarrow> header_map \<Rightarrow> string \<Rightarrow> bytes \<Rightarrow> token_revoke_result api" where
  "internal_revoke_token L config headers path body =
     act_then (signed_by_server L config headers ''POST'' path body) (\<lambda>_.
     act_then (Ret (required_json (ap_read_revoke L) body)) (revoke_token L config))"

definition internal_revoke_user_tokens :: "api_lib \<Rightarrow> api_config \<Rightarrow> header_map \<Rightarrow> string \<Rightarrow> int \<Rightarrow> bytes \<Rightarrow> bool api" where
  "internal_revoke_user_tokens L config headers path user_id body =
     act_then (signed_by_server L config headers ''POST'' path body) (\<lambda>_.
     act_then now_ms (\<lambda>now.
     act_then (redis_set_ex (user_revoke_after_key user_id) (show_int now) (ac_revoked_token_ttl_seconds config)) (\<lambda>_.
     act_then (redis_del (refresh_jti_key user_id)) (\<lambda>_.
     act_then (redis_del (user_resource_key user_id)) (\<lambda>_. act_ok True)))))"

definition internal_user_resource :: "api_lib \<Rightarrow> api_config \<Rightarrow> header_map \<Rightarrow> string \<Rightarrow> int \<Rightarrow> user_resource api" where
  "internal_user_resource L config headers path user_id =
     act_then (signed_by_server L config headers ''GET'' path []) (\<lambda>_. get_user_resource L user_id)"

definition internal_validate_token :: "api_lib \<Rightarrow> api_config \<Rightarrow> header_map \<Rightarrow> string \<Rightarrow> bytes \<Rightarrow> token_parse_result api" where
  "internal_validate_token L config headers path body =
     act_then (signed_by_server L config headers ''POST'' path body) (\<lambda>_.
       validate_access_token_result L config (body_text L body) (ac_token_revocation_check_enabled config))"

definition internal_introspect :: "api_lib \<Rightarrow> api_config \<Rightarrow> header_map \<Rightarrow> string \<Rightarrow> bytes \<Rightarrow> auth_introspect_result api" where
  "internal_introspect L config headers path body =
     act_then (signed_by_server L config headers ''POST'' path body) (\<lambda>_.
     act_then (validate_access_token_result L config (body_text L body) (ac_token_revocation_check_enabled config)) (\<lambda>parsed.
     act_then (Ret (ok_or invalid_token (tr_user_id parsed))) (\<lambda>user_id.
     act_then (get_user_resource L user_id) (\<lambda>resource.
       act_ok \<lparr>in_valid = True, in_expired = False, in_user_id = Some user_id,
         in_username = (case ur_username resource of Some u \<Rightarrow> Some u | None \<Rightarrow> tr_username parsed),
         in_issued_at_epoch_ms = tr_issued_at_epoch_ms parsed, in_expires_at_epoch_ms = tr_expires_at_epoch_ms parsed,
         in_jti = tr_jti parsed, in_user_info = ur_user_info resource,
         in_resource_permissions = ur_resource_permissions resource, in_data_scopes = ur_data_scopes resource\<rparr>))))"

definition internal_check_permission ::
  "api_lib \<Rightarrow> api_config \<Rightarrow> header_map \<Rightarrow> string \<Rightarrow> bytes \<Rightarrow> permission_check_result api"
where
  "internal_check_permission L config headers path body =
     act_then (signed_by_server L config headers ''POST'' path body) (\<lambda>_.
     act_then (Ret (required_json (ap_read_check L) body)) (check_permission L))"

section \<open>Websocket tickets\<close>

definition issue_ws_ticket :: "api_lib \<Rightarrow> api_config \<Rightarrow> header_map \<Rightarrow> (header_map \<times> ws_ticket) api" where
  "issue_ws_ticket L config headers =
     act_then now_ms (\<lambda>now.
     act_then (Ret (identity_from_headers L now headers config)) (\<lambda>identity.
     act_then new_uuid (\<lambda>ticket.
     act_then (redis_set_ex (ws_ticket_key ticket) (show_int (id_user_id identity) @ [CHR 0x0A] @ id_username identity)
         (ac_ws_ticket_ttl_seconds config)) (\<lambda>_.
     act_then (Ret (ttl_seconds_to_ms (ac_ws_ticket_ttl_seconds config))) (\<lambda>ttl.
     act_then (Ret (append_cookie [] (ac_ws_ticket_cookie_name config) ticket ttl
         (api_normalize_cookie_path (ac_ws_ticket_cookie_path config)) (ac_ws_ticket_cookie_same_site config)
         (resolve_ws_ticket_cookie_secure config))) (\<lambda>response_headers.
       act_ok (response_headers, \<lparr>wt_ticket = Some ticket, wt_expires_in_ms = Some ttl\<rparr>)))))))"

definition invalid_ws_ticket :: "string \<Rightarrow> consume_ticket_result" where
  "invalid_ws_ticket e = \<lparr>tc_valid = False, tc_status = Some ''INVALID'', tc_user_id = None, tc_username = None, tc_error = Some e\<rparr>"

text \<open>The script that reads and deletes.\<close>

definition take_ticket :: "string \<Rightarrow> string option api" where
  "take_ticket key = redis_command (\<lambda>w. (redis_value w key,
     if redis_value w key = None then w else w\<lparr>aw_redis := (aw_redis w)(key := None)\<rparr>))"

definition ticket_answer :: "int \<Rightarrow> string option \<Rightarrow> consume_ticket_result" where
  "ticket_answer expected payload =
     (case payload of
        None \<Rightarrow> invalid_ws_ticket ''ticket is invalid or expired''
      | Some payload \<Rightarrow>
          (case parse_ws_ticket_payload payload of
             None \<Rightarrow> invalid_ws_ticket ''ticket payload is invalid''
           | Some (user_id, username) \<Rightarrow>
               if user_id \<noteq> expected
               then \<lparr>tc_valid = False, tc_status = Some ''USER_MISMATCH'', tc_user_id = Some user_id,
                 tc_username = Some username, tc_error = Some ''ticket userId mismatch''\<rparr>
               else \<lparr>tc_valid = True, tc_status = Some ''VALID'', tc_user_id = Some user_id,
                 tc_username = Some username, tc_error = None\<rparr>))"

definition internal_consume_ws_ticket ::
  "api_lib \<Rightarrow> api_config \<Rightarrow> header_map \<Rightarrow> string \<Rightarrow> bytes \<Rightarrow> consume_ticket_result api"
where
  "internal_consume_ws_ticket L config headers path body =
     act_then (signed_by_server L config headers ''POST'' path body) (\<lambda>_.
     act_then (Ret (required_json (ap_read_consume L) body)) (\<lambda>request.
       case (normalize_text (ct_ticket request), ct_user_id request) of
         (None, _) \<Rightarrow> act_ok (invalid_ws_ticket ''ticket is required'')
       | (Some _, None) \<Rightarrow> act_ok (invalid_ws_ticket ''userId is required'')
       | (Some ticket, Some expected) \<Rightarrow>
           act_then (take_ticket (ws_ticket_key ticket)) (\<lambda>payload. act_ok (ticket_answer expected payload))))"

end
