(* ===== verification/Api_Im_Groups.thy ===== *)
theory Api_Im_Groups
  imports Api_Friends Api_Tokens
begin

text \<open>
  Groups (\<open>social_groups.rs\<close>): who belongs to them, who owns them, the numbers up to which their members have
  read, and the epochs of encryption that their changes start. A column \<open>updated_time\<close> follows every
  statement that changes its row.
\<close>

section \<open>Answers\<close>

record group_dto =
  gd_id :: string
  gd_name :: string
  gd_group_name :: string
  gd_description :: "string option"
  gd_announcement :: "string option"
  gd_avatar :: "string option"
  gd_owner_id :: string
  gd_type :: int
  gd_max_members :: int
  gd_member_count :: int
  gd_status :: int
  gd_create_time :: string

record group_member_dto =
  gt_id :: string
  gt_group_id :: string
  gt_user_id :: string
  gt_username :: string
  gt_nickname :: "string option"
  gt_avatar :: "string option"
  gt_role :: int
  gt_join_time :: string

record group_members_response =
  gp_members :: "group_member_dto list"

definition group_from_row :: "api_lib \<Rightarrow> im_group_row \<Rightarrow> group_dto" where
  "group_from_row L g =
     \<lparr>gd_id = show_int (ig_id g), gd_name = ig_name g, gd_group_name = ig_name g, gd_description = ig_announcement g,
      gd_announcement = ig_announcement g, gd_avatar = ig_avatar g, gd_owner_id = show_int (ig_owner_id g),
      gd_type = ig_type g, gd_max_members = ig_max_members g, gd_member_count = ig_member_count g,
      gd_status = ig_status g, gd_create_time = ap_rfc3339 L (ig_created_time g)\<rparr>"

definition group_member_from_row :: "api_lib \<Rightarrow> member_row \<times> user_row \<Rightarrow> group_member_dto" where
  "group_member_from_row L = (\<lambda>(m, u).
     \<lparr>gt_id = show_int (gm_id m), gt_group_id = show_int (gm_group_id m), gt_user_id = show_int (gm_user_id m),
      gt_username = us_username u, gt_nickname = or_else (gm_nickname m) (us_nickname u), gt_avatar = us_avatar u,
      gt_role = gm_role m, gt_join_time = ap_rfc3339 L (gm_join_time m)\<rparr>)"

section \<open>Statements\<close>

definition social_redis_for_group :: "api_config \<Rightarrow> int \<Rightarrow> api_error + string" where
  "social_redis_for_group config group_id =
     shard_url ''group'' (group_urls_of config) (shard_index_for_group_id group_id (length (group_urls_of config)))"

definition touched :: "int \<Rightarrow> im_group_row \<Rightarrow> im_group_row \<Rightarrow> im_group_row" where
  "touched now old new = (if new = old then old else new\<lparr>ig_updated_time := now\<rparr>)"

definition update_groups :: "int \<Rightarrow> (im_group_row \<Rightarrow> im_group_row) \<Rightarrow> api_world \<Rightarrow> api_world" where
  "update_groups group_id f w = w\<lparr>aw_im_groups :=
     update_where (\<lambda>g. ig_id g = group_id) (\<lambda>g. touched (sql_now w) g (f g)) (aw_im_groups w)\<rparr>"

definition ensure_group_exists :: "int \<Rightarrow> unit api" where
  "ensure_group_exists group_id =
     act_then (sql_query (\<lambda>w. 0 < count_where (\<lambda>g. ig_id g = group_id \<and> ig_status g = 1) (aw_im_groups w))) (\<lambda>found.
     act_check found (ENotFound ''group not found''))"

definition ensure_group_owner :: "int \<Rightarrow> int \<Rightarrow> unit api" where
  "ensure_group_owner group_id user_id =
     act_then (sql_query (\<lambda>w. 0 < count_where (\<lambda>g. ig_id g = group_id \<and> ig_owner_id g = user_id \<and> ig_status g = 1)
       (aw_im_groups w))) (\<lambda>found.
     act_check found (EForbidden ''only group owner can operate''))"

definition upsert_member :: "int \<Rightarrow> int \<Rightarrow> int \<Rightarrow> int \<Rightarrow> int \<Rightarrow> member_row list \<Rightarrow> member_row list" where
  "upsert_member i group_id user_id role now = upsert_row
     [\<lambda>r. gm_id r = i, \<lambda>r. gm_group_id r = group_id \<and> gm_user_id r = user_id]
     \<lparr>gm_id = i, gm_group_id = group_id, gm_user_id = user_id, gm_nickname = None, gm_role = role, gm_status = 1,
      gm_join_time = now\<rparr>
     (\<lambda>r. r\<lparr>gm_status := 1, gm_role := max (gm_role r) role\<rparr>)"

definition store_member :: "int \<Rightarrow> int \<Rightarrow> int \<Rightarrow> int \<Rightarrow> unit api" where
  "store_member i group_id user_id role = sql_execute (\<lambda>w. (Inr (),
     w\<lparr>aw_members := upsert_member i group_id user_id role (sql_now w) (aw_members w)\<rparr>))"

definition add_group_member :: "nat \<Rightarrow> int \<Rightarrow> int \<Rightarrow> int \<Rightarrow> unit api" where
  "add_group_member node_id group_id user_id role =
     act_then (new_id node_id) (\<lambda>i.
     act_then (store_member i group_id user_id role) (\<lambda>_.
     act_then (rotate_group_epoch_if_encrypted group_id user_id ''member_add'') (\<lambda>_. act_ok ())))"

definition social_group_sequence :: "string \<Rightarrow> int \<Rightarrow> int api" where
  "social_group_sequence url group_id = sequence_or_stored url (group_sequence_key group_id) (stored_sequence group_id)"

definition upsert_read_cursor :: "int \<Rightarrow> int \<Rightarrow> int \<Rightarrow> int \<Rightarrow> int \<Rightarrow> group_cursor_row list \<Rightarrow> group_cursor_row list" where
  "upsert_read_cursor i group_id user_id q now = upsert_row
     [\<lambda>r. gr_id r = i, \<lambda>r. gr_group_id r = group_id \<and> gr_user_id r = user_id]
     \<lparr>gr_id = i, gr_group_id = group_id, gr_user_id = user_id, gr_last_read_at = now, gr_last_read_seq = q,
      gr_last_read_message_id = None\<rparr>
     (\<lambda>r. r\<lparr>gr_last_read_seq := max (gr_last_read_seq r) q, gr_last_read_at := now\<rparr>)"

definition initialize_group_read_sequences :: "string \<Rightarrow> nat \<Rightarrow> int \<Rightarrow> int list \<Rightarrow> unit api" where
  "initialize_group_read_sequences url node_id group_id user_ids =
     (if user_ids = [] then act_ok ()
      else
        act_then (social_group_sequence url group_id) (\<lambda>q.
        act_then (act_each (\<lambda>u. act_then (new_id node_id) (\<lambda>i. sql_execute (\<lambda>w. (Inr (),
            w\<lparr>aw_group_cursors := upsert_read_cursor i group_id u q (sql_now w) (aw_group_cursors w)\<rparr>)))) user_ids) (\<lambda>_.
        hot_write url (\<lambda>now. fold (\<lambda>u. hot_put (group_read_sequence_key u group_id) (show_int q)) user_ids))))"

definition refresh_group_member_count :: "int \<Rightarrow> unit api" where
  "refresh_group_member_count group_id = sql_execute (\<lambda>w. (Inr (), update_groups group_id
     (\<lambda>g. g\<lparr>ig_member_count := int (count_where (\<lambda>m. gm_group_id m = group_id \<and> gm_status m = 1) (aw_members w))\<rparr>) w))"

definition load_group :: "api_lib \<Rightarrow> int \<Rightarrow> group_dto api" where
  "load_group L group_id = act_then (sql_query (\<lambda>w. row_of ig_id group_id (aw_im_groups w))) (\<lambda>row.
     Ret (ok_or (ENotFound ''group not found'') (map_option (group_from_row L) row)))"

definition load_group_members :: "api_lib \<Rightarrow> int \<Rightarrow> group_member_dto list api" where
  "load_group_members L group_id = sql_query (\<lambda>w. map (group_member_from_row L) (List.map_filter
     (\<lambda>m. map_option (Pair m) (row_of us_id (gm_user_id m) (aw_users w)))
     (sort_key (\<lambda>m. (- gm_role m, gm_join_time m))
       (filter (\<lambda>m. gm_group_id m = group_id \<and> gm_status m = 1) (aw_members w)))))"

section \<open>Handlers\<close>

fun resolve_members :: "int list \<Rightarrow> int list api" where
  "resolve_members [] = act_ok []"
| "resolve_members (m # ms) = act_then (resolve_active_user_id m) (\<lambda>r.
     act_then (resolve_members ms) (\<lambda>rest. act_ok ((case r of Some i \<Rightarrow> [i] | None \<Rightarrow> []) @ rest)))"

definition member_ids_of :: "json \<Rightarrow> int list" where
  "member_ids_of payload = List.map_filter social_value_to_i64
     (unwrap_or (Option.bind (json_get payload ''memberIds'') json_as_array) [])"

definition insert_group :: "api_lib \<Rightarrow> int \<Rightarrow> string \<Rightarrow> string option \<Rightarrow> string option \<Rightarrow> int \<Rightarrow> int \<Rightarrow> unit api" where
  "insert_group L i name avatar announcement owner members = sql_execute (\<lambda>w.
     case (row_of ig_id i (aw_im_groups w), ap_varchar L 100 name, column (ap_varchar L 500) avatar,
         column (ap_varchar L 65535) announcement) of
       (None, Some name, Some avatar, Some announcement) \<Rightarrow> (Inr (), w\<lparr>aw_im_groups := aw_im_groups w @
         [\<lparr>ig_id = i, ig_name = name, ig_avatar = avatar, ig_announcement = announcement, ig_owner_id = owner, ig_type = 1,
           ig_max_members = 500, ig_member_count = members, ig_status = 1, ig_created_time = sql_now w,
           ig_updated_time = sql_now w\<rparr>]\<rparr>)
     | _ \<Rightarrow> (Inl ESqlx, w))"

definition create_group :: "api_lib \<Rightarrow> api_config \<Rightarrow> header_map \<Rightarrow> json \<Rightarrow> group_dto api" where
  "create_group L config headers payload =
     act_then (caller_of L config headers) (\<lambda>caller.
     act_then (Ret (ok_or (EBadRequest ''group name is required'')
       (or_else (string_field payload ''groupName'') (string_field payload ''name'')))) (\<lambda>name.
     let node_id = ac_snowflake_node_id config in
     act_then (new_id node_id) (\<lambda>group_id.
     act_then (resolve_members (member_ids_of payload)) (\<lambda>resolved.
     let member_ids = distinct_values (id_user_id caller # resolved) in
     act_then (act_check (length member_ids < 2 ^ 31) (EBadRequest ''group member count is too large'')) (\<lambda>_.
     act_then (insert_group L group_id name (string_field payload ''avatar'')
       (or_else (string_field payload ''announcement'') (string_field payload ''description'')) (id_user_id caller)
       (int (length member_ids))) (\<lambda>_.
     act_then (act_each (\<lambda>m. add_group_member node_id group_id m (if m = id_user_id caller then 3 else 1)) member_ids) (\<lambda>_.
     act_then (Ret (social_redis_for_group config group_id)) (\<lambda>url.
     act_then (initialize_group_read_sequences url node_id group_id member_ids) (\<lambda>_.
     load_group L group_id)))))))))"

definition user_groups :: "api_lib \<Rightarrow> api_config \<Rightarrow> header_map \<Rightarrow> int \<Rightarrow> group_dto list api" where
  "user_groups L config headers user_id =
     act_then (caller_of L config headers) (\<lambda>caller.
     let effective_user_id = (if user_id = id_user_id caller then user_id else id_user_id caller) in
     sql_query (\<lambda>w. map (group_from_row L) (groups_of_user effective_user_id w)))"

definition search_groups :: "api_lib \<Rightarrow> api_config \<Rightarrow> header_map \<Rightarrow> (string \<Rightarrow> string option) \<Rightarrow> group_dto list api" where
  "search_groups L config headers params =
     act_then (caller_of L config headers) (\<lambda>caller.
     act_then (Ret (ok_or (EBadRequest ''search keyword is required'') (normalize_optional (params ''q'')))) (\<lambda>keyword.
     sql_query (\<lambda>w. map (group_from_row L) (take 20 (sort_key (\<lambda>g. - ig_member_count g)
       (filter (\<lambda>g. ig_status g = 1 \<and> ap_like L (''%'' @ keyword @ ''%'') (ig_name g)) (aw_im_groups w)))))))"

definition group_members :: "api_lib \<Rightarrow> api_config \<Rightarrow> header_map \<Rightarrow> bytes \<Rightarrow> group_members_response api" where
  "group_members L config headers body =
     act_then (caller_of L config headers) (\<lambda>caller.
     act_then (Ret (ok_or ESerde (Option.bind (ap_utf8 L body) (ap_json L)))) (\<lambda>payload.
     act_then (Ret (ok_or (EBadRequest ''groupId is required'') (social_value_to_i64 (json_index payload ''groupId'')))) (\<lambda>group_id.
     act_then (resolve_group_id_or_not_found group_id) (\<lambda>group_id.
     act_then (ensure_group_member group_id (id_user_id caller)) (\<lambda>_.
     act_then (load_group_members L group_id) (\<lambda>members. act_ok \<lparr>gp_members = members\<rparr>))))))"

definition join_group :: "api_lib \<Rightarrow> api_config \<Rightarrow> header_map \<Rightarrow> int \<Rightarrow> bool api" where
  "join_group L config headers group_id =
     act_then (caller_of L config headers) (\<lambda>caller.
     act_then (resolve_group_id_or_not_found group_id) (\<lambda>group_id.
     act_then (ensure_group_exists group_id) (\<lambda>_.
     act_then (add_group_member (ac_snowflake_node_id config) group_id (id_user_id caller) 1) (\<lambda>_.
     act_then (Ret (social_redis_for_group config group_id)) (\<lambda>url.
     act_then (initialize_group_read_sequences url (ac_snowflake_node_id config) group_id [id_user_id caller]) (\<lambda>_.
     act_then (refresh_group_member_count group_id) (\<lambda>_. act_ok True)))))))"

fun add_members :: "nat \<Rightarrow> int \<Rightarrow> int list \<Rightarrow> int list api" where
  "add_members node_id group_id [] = act_ok []"
| "add_members node_id group_id (m # ms) = act_then (resolve_active_user_id m) (\<lambda>r. case r of
     None \<Rightarrow> add_members node_id group_id ms
   | Some u \<Rightarrow> act_then (add_group_member node_id group_id u 1) (\<lambda>_.
       act_then (add_members node_id group_id ms) (\<lambda>us. act_ok (u # us))))"

definition add_group_members :: "api_lib \<Rightarrow> api_config \<Rightarrow> header_map \<Rightarrow> int \<Rightarrow> json \<Rightarrow> bool api" where
  "add_group_members L config headers group_id payload =
     act_then (caller_of L config headers) (\<lambda>caller.
     act_then (resolve_group_id_or_not_found group_id) (\<lambda>group_id.
     act_then (ensure_group_member group_id (id_user_id caller)) (\<lambda>_.
     act_then (act_check (member_ids_of payload \<noteq> []) (EBadRequest ''memberIds is required'')) (\<lambda>_.
     act_then (add_members (ac_snowflake_node_id config) group_id (member_ids_of payload)) (\<lambda>added.
     if added = [] then act_ok True
     else
       act_then (Ret (social_redis_for_group config group_id)) (\<lambda>url.
       act_then (initialize_group_read_sequences url (ac_snowflake_node_id config) group_id added) (\<lambda>_.
       act_then (refresh_group_member_count group_id) (\<lambda>_. act_ok True))))))))"

definition leave_transaction :: "int \<Rightarrow> int \<Rightarrow> unit api" where
  "leave_transaction group_id user_id = sql_execute (\<lambda>w. (Inr (), w\<lparr>
     aw_members := update_where (\<lambda>r. gm_group_id r = group_id \<and> gm_user_id r = user_id) (\<lambda>r. r\<lparr>gm_status := 0\<rparr>) (aw_members w),
     aw_sender_keys := delete_where (\<lambda>r. sk_group_id r = group_id \<and> sk_sender_id r = user_id) (aw_sender_keys w)\<rparr>))"

definition leave_group :: "api_lib \<Rightarrow> api_config \<Rightarrow> header_map \<Rightarrow> int \<Rightarrow> bool api" where
  "leave_group L config headers group_id =
     act_then (caller_of L config headers) (\<lambda>caller.
     act_then (resolve_group_id_or_not_found group_id) (\<lambda>group_id.
     act_then (leave_transaction group_id (id_user_id caller)) (\<lambda>_.
     act_then (rotate_group_epoch_if_encrypted group_id (id_user_id caller) ''member_remove'') (\<lambda>_.
     act_then (refresh_group_member_count group_id) (\<lambda>_. act_ok True)))))"

definition dismiss_group :: "api_lib \<Rightarrow> api_config \<Rightarrow> header_map \<Rightarrow> int \<Rightarrow> bool api" where
  "dismiss_group L config headers group_id =
     act_then (caller_of L config headers) (\<lambda>caller.
     act_then (resolve_group_id_or_not_found group_id) (\<lambda>group_id.
     act_then (ensure_group_owner group_id (id_user_id caller)) (\<lambda>_.
     act_then (sql_execute (\<lambda>w. (Inr (), update_groups group_id (\<lambda>g. g\<lparr>ig_status := 0\<rparr>) w))) (\<lambda>_.
     act_then (sql_execute (\<lambda>w. (Inr (), w\<lparr>aw_sender_keys :=
       delete_where (\<lambda>r. sk_group_id r = group_id) (aw_sender_keys w)\<rparr>))) (\<lambda>_. act_ok True)))))"

definition change_group ::
  "api_lib \<Rightarrow> string option \<Rightarrow> string option \<Rightarrow> string option \<Rightarrow> im_group_row \<Rightarrow> im_group_row option" where
  "change_group L name announcement avatar g = (case (column (ap_varchar L 100) name,
       column (ap_varchar L 65535) announcement, column (ap_varchar L 500) avatar) of
     (Some name, Some announcement, Some avatar) \<Rightarrow> Some (g\<lparr>ig_name := unwrap_or name (ig_name g),
       ig_announcement := or_else announcement (ig_announcement g), ig_avatar := or_else avatar (ig_avatar g)\<rparr>)
   | _ \<Rightarrow> None)"

definition update_group :: "api_lib \<Rightarrow> api_config \<Rightarrow> header_map \<Rightarrow> int \<Rightarrow> json \<Rightarrow> group_dto api" where
  "update_group L config headers group_id payload =
     act_then (caller_of L config headers) (\<lambda>caller.
     act_then (resolve_group_id_or_not_found group_id) (\<lambda>group_id.
     act_then (ensure_group_owner group_id (id_user_id caller)) (\<lambda>_.
     let name = or_else (string_field payload ''groupName'') (string_field payload ''name'');
         announcement = or_else (string_field payload ''description'') (string_field payload ''announcement'');
         avatar = string_field payload ''avatar'' in
     act_then (sql_execute (\<lambda>w.
       if \<exists>g \<in> set (aw_im_groups w). ig_id g = group_id \<and> change_group L name announcement avatar g = None
       then (Inl ESqlx, w)
       else (Inr (), update_groups group_id (\<lambda>g. unwrap_or (change_group L name announcement avatar g) g) w))) (\<lambda>_.
     load_group L group_id))))"

definition internal_group_member_ids :: "api_lib \<Rightarrow> api_config \<Rightarrow> header_map \<Rightarrow> string \<Rightarrow> int \<Rightarrow> int list api" where
  "internal_group_member_ids L config headers path group_id =
     act_then (signed_by_server L config headers ''GET'' path []) (\<lambda>_.
     act_then (resolve_group_id_or_not_found group_id) (\<lambda>group_id.
     sql_query (\<lambda>w. map gm_user_id (filter (\<lambda>m. gm_group_id m = group_id \<and> gm_status m = 1) (aw_members w)))))"

end
