(* ===== verification/Api_Users.thy ===== *)
theory Api_Users
  imports Api_Im_Groups
begin

text \<open>
  Accounts (\<open>user_handlers.rs\<close>, \<open>user_helpers.rs\<close>, \<open>user_types.rs\<close>): registration, login, profile, password,
  verification codes and deletion, and the settings and requests as records. Search, presence and settings follow in
  \<open>Api_Settings\<close>; uploading an avatar works on files and is left out.
  Texts that are not ASCII are given by their bytes in UTF-8.
\<close>

section \<open>Messages\<close>

definition text_of_bytes :: "nat list \<Rightarrow> string" where "text_of_bytes = map char_of"

definition wrong_credentials :: string where
  "wrong_credentials = text_of_bytes
     [231, 148, 168, 230, 136, 183, 229, 144, 141, 230, 136, 150, 229, 175, 134, 231, 160, 129, 233, 148,
      153, 232, 175, 175]"
definition logged_in :: string where
  "logged_in = text_of_bytes [231, 153, 187, 229, 189, 149, 230, 136, 144, 229, 138, 159]"
definition username_taken :: string where
  "username_taken = text_of_bytes
     [231, 148, 168, 230, 136, 183, 229, 144, 141, 229, 183, 178, 229, 173, 152, 229, 156, 168]"
definition hashing_failed :: string where
  "hashing_failed = text_of_bytes
     [229, 175, 134, 231, 160, 129, 229, 138, 160, 229, 175, 134, 229, 164, 177, 232, 180, 165, 58, 32]"
definition no_such_user :: string where
  "no_such_user = text_of_bytes [231, 148, 168, 230, 136, 183, 228, 184, 141, 229, 173, 152, 229, 156, 168]"
definition nickname_too_long :: string where
  "nickname_too_long = text_of_bytes
     [230, 152, 181, 231, 167, 176, 233, 149, 191, 229, 186, 166, 228, 184, 141, 232, 131, 189, 232, 182,
      133, 232, 191, 135, 32, 50, 48, 32, 228, 184, 170, 229, 173, 151, 231, 172, 166]"
definition signature_too_long :: string where
  "signature_too_long = text_of_bytes
     [228, 184, 170, 230, 128, 167, 231, 173, 190, 229, 144, 141, 233, 149, 191, 229, 186, 166, 228, 184,
      141, 232, 131, 189, 232, 182, 133, 232, 191, 135, 32, 50, 48, 48, 32, 228, 184, 170, 229, 173, 151,
      231, 172, 166]"
definition empty_request :: string where
  "empty_request = text_of_bytes [232, 175, 183, 230, 177, 130, 228, 189, 147, 228, 184, 186, 231, 169, 186]"
definition wrong_password :: string where
  "wrong_password = text_of_bytes [229, 175, 134, 231, 160, 129, 233, 148, 153, 232, 175, 175]"
definition bad_username :: string where
  "bad_username = text_of_bytes
     [231, 148, 168, 230, 136, 183, 229, 144, 141, 229, 143, 170, 232, 131, 189, 229, 140, 133, 229, 144,
      171, 51, 45, 50, 48, 228, 189, 141, 229, 173, 151, 230, 175, 141, 227, 128, 129, 230, 149, 176, 229,
      173, 151, 229, 146, 140, 228, 184, 139, 229, 136, 146, 231, 186, 191]"
definition bad_password :: string where
  "bad_password = text_of_bytes
     [229, 175, 134, 231, 160, 129, 233, 156, 128, 228, 184, 186, 56, 45, 54, 52, 228, 189, 141, 239, 188,
      140, 228, 184, 148, 229, 140, 133, 229, 144, 171, 229, 173, 151, 230, 175, 141, 229, 146, 140, 230,
      149, 176, 229, 173, 151]"
definition bad_kind :: string where
  "bad_kind = text_of_bytes
     [230, 151, 160, 230, 149, 136, 231, 154, 132, 232, 174, 190, 231, 189, 174, 229, 136, 134, 231, 177,
      187]"

section \<open>Requests and answers\<close>

record privacy_settings =
  ps_read_receipt :: bool
  ps_online_status :: bool
  ps_stranger_add :: bool
  ps_moments_visible :: bool

record message_settings =
  ms_notification :: bool
  ms_sound :: bool

record user_settings =
  uo_privacy :: privacy_settings
  uo_message :: message_settings

record login_request =
  lr_username :: string
  lr_password :: string
  lr_remember_me :: bool

record register_request =
  rr_username :: string
  rr_password :: string
  rr_nickname :: "string option"
  rr_email :: "string option"
  rr_phone :: "string option"

record update_profile_request =
  up_nickname :: "string option"
  up_avatar :: "string option"
  up_email :: "string option"
  up_phone :: "string option"
  up_gender :: "int option"
  up_birthday :: "string option"
  up_signature :: "string option"
  up_location :: "string option"

record change_password_request =
  cw_current_password :: string
  cw_new_password :: string

record code_target_request =
  ct_target :: string

record bind_phone_request =
  bp_phone :: string
  bp_code :: string

record bind_email_request =
  be_email :: string
  be_code :: string

record delete_account_request =
  da_password :: string

record search_query =
  sq_keyword :: string
  sq_type :: string

record user_dto =
  ud_id :: string
  ud_username :: string
  ud_nickname :: string
  ud_avatar :: "string option"
  ud_email :: "string option"
  ud_phone :: "string option"
  ud_status :: string
  ud_last_login_time :: "string option"
  ud_create_time :: "string option"

record user_auth_response =
  ua_success :: bool
  ua_message :: string
  ua_user :: user_dto
  ua_token :: "string option"
  ua_refresh_token :: "string option"
  ua_expires_in_ms :: "int option"
  ua_refresh_expires_in_ms :: "int option"
  ua_permissions :: "string list"

record user_record =
  ue_id :: int
  ue_username :: string
  ue_password :: string
  ue_nickname :: "string option"
  ue_avatar :: "string option"
  ue_email :: "string option"
  ue_phone :: "string option"
  ue_status :: int
  ue_last_login_time :: "int option"
  ue_created_time :: "int option"

definition user_to_dto :: "api_lib \<Rightarrow> user_record \<Rightarrow> user_dto" where
  "user_to_dto L u =
     \<lparr>ud_id = show_int (ue_id u), ud_username = ue_username u,
      ud_nickname = (case ue_nickname u of Some n \<Rightarrow> if trim n \<noteq> [] then n else ue_username u | None \<Rightarrow> ue_username u),
      ud_avatar = ue_avatar u, ud_email = ue_email u, ud_phone = ue_phone u, ud_status = ''offline'',
      ud_last_login_time = map_option (ap_time_text L) (ue_last_login_time u),
      ud_create_time = map_option (ap_time_text L) (ue_created_time u)\<rparr>"

definition default_search_type :: string where "default_search_type = ''username''"

definition default_settings :: user_settings where
  "default_settings =
     \<lparr>uo_privacy = \<lparr>ps_read_receipt = True, ps_online_status = True, ps_stranger_add = True, ps_moments_visible = True\<rparr>,
      uo_message = \<lparr>ms_notification = True, ms_sound = True\<rparr>\<rparr>"

section \<open>Settings as JSON\<close>

text \<open>A structure is read from an object or from an array of its fields; other fields of an object are ignored.\<close>

fun struct_fields :: "string list \<Rightarrow> json \<Rightarrow> json option list" where
  "struct_fields names (JObj kvs) = map (map_of kvs) names"
| "struct_fields names (JArr vs) = (if length vs = length names then map Some vs else [])"
| "struct_fields names _ = []"

fun json_bool :: "json option \<Rightarrow> bool option" where
  "json_bool (Some (JBool b)) = Some b"
| "json_bool _ = None"

definition read_privacy :: "json option \<Rightarrow> privacy_settings option" where
  "read_privacy m = Option.bind m (\<lambda>v.
     case map json_bool (struct_fields [''readReceipt'', ''onlineStatus'', ''strangerAdd'', ''momentsVisible''] v) of
       [Some a, Some b, Some c, Some d] \<Rightarrow>
         Some \<lparr>ps_read_receipt = a, ps_online_status = b, ps_stranger_add = c, ps_moments_visible = d\<rparr>
     | _ \<Rightarrow> None)"

definition read_message_settings :: "json option \<Rightarrow> message_settings option" where
  "read_message_settings m = Option.bind m (\<lambda>v. case map json_bool (struct_fields [''notification'', ''sound''] v) of
     [Some a, Some b] \<Rightarrow> Some \<lparr>ms_notification = a, ms_sound = b\<rparr> | _ \<Rightarrow> None)"

definition read_settings :: "json \<Rightarrow> user_settings option" where
  "read_settings v = (case struct_fields [''privacy'', ''message''] v of
     [p, m] \<Rightarrow> Option.bind (read_privacy p) (\<lambda>p. map_option (\<lambda>m. \<lparr>uo_privacy = p, uo_message = m\<rparr>) (read_message_settings m))
   | _ \<Rightarrow> None)"

definition settings_json :: "user_settings \<Rightarrow> json" where
  "settings_json s = JObj
     [(''privacy'', JObj [(''readReceipt'', JBool (ps_read_receipt (uo_privacy s))),
        (''onlineStatus'', JBool (ps_online_status (uo_privacy s))),
        (''strangerAdd'', JBool (ps_stranger_add (uo_privacy s))),
        (''momentsVisible'', JBool (ps_moments_visible (uo_privacy s)))]),
      (''message'', JObj [(''notification'', JBool (ms_notification (uo_message s))),
        (''sound'', JBool (ms_sound (uo_message s)))])]"

text \<open>The keys of an object are distinct; where a field is new it stands last.\<close>

fun merge_json :: "json \<Rightarrow> json \<Rightarrow> json" and merge_fields :: "(string \<times> json) list \<Rightarrow> (string \<times> json) list \<Rightarrow> (string \<times> json) list" where
  "merge_json (JObj base) (JObj patch) = JObj (merge_fields base patch)"
| "merge_json base patch = patch"
| "merge_fields base [] = base"
| "merge_fields base ((k, v) # patch) = merge_fields (case map_of base k of
     Some b \<Rightarrow> AList.update k (merge_json b v) base | None \<Rightarrow> base @ [(k, v)]) patch"

section \<open>Checks\<close>

definition is_ascii_alphabetic :: "char \<Rightarrow> bool" where
  "is_ascii_alphabetic c \<longleftrightarrow> (let n = of_char c :: nat in 65 \<le> n \<and> n \<le> 90 \<or> 97 \<le> n \<and> n \<le> 122)"

definition ascii_digit :: "char \<Rightarrow> bool" where
  "ascii_digit c \<longleftrightarrow> (let n = of_char c :: nat in 48 \<le> n \<and> n \<le> 57)"

definition normalize_username :: "string \<Rightarrow> api_error + string" where
  "normalize_username raw =
     (let username = to_ascii_lowercase (trim raw) in
      if length username < 3 \<or> 20 < length username \<or>
        \<not> (\<forall>c \<in> set username. is_ascii_alphabetic c \<or> ascii_digit c \<or> c = CHR ''_'')
      then Inl (EBadRequest bad_username) else Inr username)"

definition validate_password :: "string \<Rightarrow> api_error + unit" where
  "validate_password password =
     (if length password < 8 \<or> 64 < length password \<or> \<not> (\<exists>c \<in> set password. is_ascii_alphabetic c) \<or>
        \<not> (\<exists>c \<in> set password. ascii_digit c)
      then Inl (EBadRequest bad_password) else Inr ())"

definition validate_phone :: "string \<Rightarrow> api_error + unit" where
  "validate_phone phone =
     (let v = trim phone in
      if length v < 6 \<or> 20 < length v \<or> \<not> (\<forall>c \<in> set v. ascii_digit c \<or> c = CHR ''+'')
      then Inl (EBadRequest ''invalid phone'') else Inr ())"

definition validate_email :: "string \<Rightarrow> api_error + unit" where
  "validate_email email =
     (let v = trim email in
      if length v < 5 \<or> 128 < length v \<or> CHR ''@'' \<notin> set v \<or> starts_with ''@'' v
      then Inl (EBadRequest ''invalid email'') else Inr ())"

definition validate_code :: "string \<Rightarrow> api_error + unit" where
  "validate_code code =
     (let v = trim code in if v = [] \<or> 16 < length v then Inl (EBadRequest ''invalid verification code'') else Inr ())"

definition verify_password :: "api_lib \<Rightarrow> string \<Rightarrow> string \<Rightarrow> bool" where
  "verify_password L raw stored =
     (if starts_with ''$2'' stored then unwrap_or (ap_bcrypt_verify L raw stored) False else raw = stored)"

definition hash_password :: "api_lib \<Rightarrow> string \<Rightarrow> string \<Rightarrow> string api" where
  "hash_password L complaint password = Step (\<lambda>w. w\<lparr>aw_drawn := aw_drawn w + 1\<rparr>)
     (\<lambda>w. case ap_bcrypt_hash L (aw_random w (aw_drawn w)) password of
        Inr h \<Rightarrow> act_ok h | Inl err \<Rightarrow> act_err (EBadRequest (complaint @ err)))"

section \<open>Users\<close>

definition user_from_row :: "user_row \<Rightarrow> user_record" where
  "user_from_row r =
     \<lparr>ue_id = us_id r, ue_username = us_username r, ue_password = us_password r, ue_nickname = us_nickname r,
      ue_avatar = us_avatar r, ue_email = us_email r, ue_phone = us_phone r, ue_status = us_status r,
      ue_last_login_time = us_last_login_time r, ue_created_time = Some (us_created_time r)\<rparr>"

text \<open>The users with status 1 that satisfy a condition, at most 20.\<close>

definition select_users :: "(user_row \<Rightarrow> bool) \<Rightarrow> api_world \<Rightarrow> user_record list" where
  "select_users p w = map user_from_row (take 20 (filter (\<lambda>r. us_status r = 1 \<and> p r) (aw_users w)))"

definition first_user :: "(user_row \<Rightarrow> bool) \<Rightarrow> user_record option api" where
  "first_user p = sql_query (\<lambda>w. case select_users p w of [] \<Rightarrow> None | u # _ \<Rightarrow> Some u)"

definition load_user_by_username :: "api_lib \<Rightarrow> string \<Rightarrow> user_record option api" where
  "load_user_by_username L username = first_user (\<lambda>r. ap_collate L (us_username r) = ap_collate L username)"

definition load_user_by_id :: "int \<Rightarrow> user_record option api" where
  "load_user_by_id user_id = first_user (\<lambda>r. us_id r = user_id)"

definition update_users :: "(user_row \<Rightarrow> bool) \<Rightarrow> (user_row \<Rightarrow> user_row option) \<Rightarrow> unit api" where
  "update_users p f = sql_execute (\<lambda>w.
     if \<exists>r \<in> set (aw_users w). p r \<and> f r = None then (Inl ESqlx, w)
     else (Inr (), w\<lparr>aw_users := update_where p (\<lambda>r. the (f r)) (aw_users w)\<rparr>))"

definition issue_token :: "api_lib \<Rightarrow> api_config \<Rightarrow> user_record \<Rightarrow> bool \<Rightarrow> token_pair api" where
  "issue_token L config user remember_me = issue_token_pair L config
     \<lparr>it_user_id = Some (ue_id user), it_username = Some (ue_username user), it_nickname = ue_nickname user,
      it_avatar = ue_avatar user, it_email = ue_email user, it_phone = ue_phone user, it_permissions = [],
      it_remember_me = remember_me\<rparr>"

text \<open>Who a user name and a password belong to.\<close>

definition authenticate :: "api_lib \<Rightarrow> string \<Rightarrow> string \<Rightarrow> user_record api" where
  "authenticate L username password =
     act_then (load_user_by_username L username) (\<lambda>row.
     act_then (Ret (ok_or (EUnauthorized wrong_credentials)
       (case row of Some u \<Rightarrow> if ue_status u = 1 then Some u else None | None \<Rightarrow> None))) (\<lambda>user.
     act_then (act_check (verify_password L password (ue_password user)) (EUnauthorized wrong_credentials)) (\<lambda>_.
     act_ok user)))"

definition login :: "api_lib \<Rightarrow> api_config \<Rightarrow> login_request \<Rightarrow> (header_map \<times> user_auth_response) api" where
  "login L config request =
     act_then (Ret (normalize_username (lr_username request))) (\<lambda>username.
     act_then (act_check (lr_password request \<noteq> []) (EUnauthorized wrong_credentials)) (\<lambda>_.
     act_then (authenticate L username (lr_password request)) (\<lambda>user.
     act_then (issue_token L config user (lr_remember_me request)) (\<lambda>pair.
     act_then (sql_execute (\<lambda>w. (Inr (), w\<lparr>aw_users := update_where (\<lambda>r. us_id r = ue_id user)
       (\<lambda>r. r\<lparr>us_last_login_time := Some (sql_now w)\<rparr>) (aw_users w)\<rparr>))) (\<lambda>_.
     act_then (Ret (append_auth_cookies [] config pair [])) (\<lambda>headers.
     act_ok (headers, \<lparr>ua_success = True, ua_message = logged_in, ua_user = user_to_dto L user,
       ua_token = tp_access_token pair, ua_refresh_token = tp_refresh_token pair,
       ua_expires_in_ms = tp_expires_in_ms pair, ua_refresh_expires_in_ms = tp_refresh_expires_in_ms pair,
       ua_permissions = []\<rparr>)))))))"

text \<open>The user name and the identifier are keys of the table.\<close>

definition insert_user ::
  "api_lib \<Rightarrow> int \<Rightarrow> string \<Rightarrow> string \<Rightarrow> string \<Rightarrow> string option \<Rightarrow> string option \<Rightarrow> unit api" where
  "insert_user L i username password nickname email phone = sql_execute (\<lambda>w.
     case (ap_varchar L 50 username, ap_varchar L 255 password, ap_varchar L 100 nickname,
         column (ap_varchar L 100) email, column (ap_varchar L 20) phone) of
       (Some username, Some password, Some nickname, Some email, Some phone) \<Rightarrow>
         if \<exists>r \<in> set (aw_users w). us_id r = i \<or> ap_collate L (us_username r) = ap_collate L username then (Inl ESqlx, w)
         else (Inr (), w\<lparr>aw_users := aw_users w @
           [\<lparr>us_id = i, us_username = username, us_password = password, us_nickname = Some nickname, us_avatar = None,
             us_phone = phone, us_email = email, us_status = 1, us_last_login_time = None, us_gender = None,
             us_birthday = None, us_signature = None, us_location = None, us_created_time = sql_now w\<rparr>]\<rparr>)
     | _ \<Rightarrow> (Inl ESqlx, w))"

definition register :: "api_lib \<Rightarrow> api_config \<Rightarrow> register_request \<Rightarrow> user_dto api" where
  "register L config request =
     act_then (Ret (normalize_username (rr_username request))) (\<lambda>username.
     act_then (Ret (validate_password (rr_password request))) (\<lambda>_.
     let nickname = unwrap_or (normalize_optional (rr_nickname request)) username;
         email = normalize_optional (rr_email request);
         phone = normalize_optional (rr_phone request) in
     act_then (sql_query (\<lambda>w. count_where (\<lambda>r. ap_collate L (us_username r) = ap_collate L username) (aw_users w))) (\<lambda>existing.
     act_then (act_check (existing = 0) (EConflict username_taken)) (\<lambda>_.
     act_then (hash_password L hashing_failed (rr_password request)) (\<lambda>hash.
     act_then (new_id (ac_snowflake_node_id config)) (\<lambda>user_id.
     act_then (insert_user L user_id username hash nickname email phone) (\<lambda>_.
     act_then now_ms (\<lambda>now.
     act_ok \<lparr>ud_id = show_int user_id, ud_username = username, ud_nickname = nickname, ud_avatar = None,
       ud_email = email, ud_phone = phone, ud_status = ''offline'', ud_last_login_time = None,
       ud_create_time = Some (ap_iso L now)\<rparr>))))))))"

definition logout :: "api_config \<Rightarrow> header_map \<times> string" where
  "logout config = (expire_auth_cookies [] config [], ''ok'')"

definition offline :: string where "offline = ''ok''"

definition get_profile :: "api_lib \<Rightarrow> api_config \<Rightarrow> header_map \<Rightarrow> user_dto api" where
  "get_profile L config headers =
     act_then (caller_of L config headers) (\<lambda>caller.
     act_then (load_user_by_id (id_user_id caller)) (\<lambda>row.
     Ret (ok_or (ENotFound no_such_user) (map_option (user_to_dto L) row))))"

text \<open>The text columns of a user that a request changes, and what the database makes of them.\<close>

definition profile_columns :: "api_lib \<Rightarrow> update_profile_request \<Rightarrow> user_row \<Rightarrow> user_row option" where
  "profile_columns L p r =
     (case (column (ap_varchar L 100) (up_nickname p), column (ap_varchar L 500) (up_avatar p),
        column (ap_varchar L 100) (up_email p), column (ap_varchar L 20) (up_phone p),
        column (ap_date L) (up_birthday p), column (ap_varchar L 200) (up_signature p),
        column (ap_varchar L 100) (up_location p)) of
      (Some nickname, Some avatar, Some email, Some phone, Some birthday, Some signature, Some location) \<Rightarrow>
        Some (r\<lparr>us_nickname := or_else nickname (us_nickname r), us_avatar := or_else avatar (us_avatar r),
          us_email := or_else email (us_email r), us_phone := or_else phone (us_phone r),
          us_gender := or_else (up_gender p) (us_gender r), us_birthday := or_else birthday (us_birthday r),
          us_signature := or_else signature (us_signature r), us_location := or_else location (us_location r)\<rparr>)
    | _ \<Rightarrow> None)"

definition check_optional :: "('a \<Rightarrow> api_error + unit) \<Rightarrow> 'a option \<Rightarrow> api_error + unit" where
  "check_optional f m = (case m of Some x \<Rightarrow> f x | None \<Rightarrow> Inr ())"

definition no_change :: "update_profile_request \<Rightarrow> bool" where
  "no_change p \<longleftrightarrow> up_nickname p = None \<and> up_avatar p = None \<and> up_email p = None \<and> up_phone p = None \<and> up_gender p = None \<and>
     up_birthday p = None \<and> up_signature p = None \<and> up_location p = None"

definition update_profile :: "api_lib \<Rightarrow> api_config \<Rightarrow> header_map \<Rightarrow> update_profile_request \<Rightarrow> bool api" where
  "update_profile L config headers p =
     act_then (caller_of L config headers) (\<lambda>caller.
     act_then (Ret (check_optional (\<lambda>n. if 20 < ap_chars L n then Inl (EBadRequest nickname_too_long) else Inr ())
       (up_nickname p))) (\<lambda>_.
     act_then (Ret (check_optional (\<lambda>n. if 200 < ap_chars L n then Inl (EBadRequest signature_too_long) else Inr ())
       (up_signature p))) (\<lambda>_.
     act_then (Ret (check_optional validate_email (up_email p))) (\<lambda>_.
     act_then (Ret (check_optional validate_phone (up_phone p))) (\<lambda>_.
     act_then (act_check (\<not> no_change p) (EBadRequest empty_request)) (\<lambda>_.
     act_then (update_users (\<lambda>r. us_id r = id_user_id caller \<and> us_status r = 1) (profile_columns L p)) (\<lambda>_.
     act_ok True)))))))"

section \<open>Passwords and codes\<close>

definition change_password :: "api_lib \<Rightarrow> api_config \<Rightarrow> header_map \<Rightarrow> change_password_request \<Rightarrow> bool api" where
  "change_password L config headers request =
     act_then (caller_of L config headers) (\<lambda>caller.
     act_then (load_user_by_id (id_user_id caller)) (\<lambda>row.
     act_then (Ret (ok_or (ENotFound ''user not found'') row)) (\<lambda>user.
     act_then (act_check (verify_password L (cw_current_password request) (ue_password user))
       (EUnauthorized ''current password is incorrect'')) (\<lambda>_.
     act_then (Ret (validate_password (cw_new_password request))) (\<lambda>_.
     act_then (hash_password L ''password hash failed: '' (cw_new_password request)) (\<lambda>hash.
     act_then (update_users (\<lambda>r. us_id r = id_user_id caller)
       (\<lambda>r. map_option (\<lambda>h. r\<lparr>us_password := h\<rparr>) (ap_varchar L 255 hash))) (\<lambda>_.
     act_ok True)))))))"

definition verification_code_key :: "int \<Rightarrow> string \<Rightarrow> string \<Rightarrow> string" where
  "verification_code_key user_id kind target = ''im:code:'' @ show_int user_id @ '':'' @ kind @ '':'' @ target"

definition six_digits :: "nat \<Rightarrow> string" where
  "six_digits n = replicate (6 - length (show_nat n)) (CHR ''0'') @ show_nat n"

definition generate_verification_code :: "api_lib \<Rightarrow> string api" where
  "generate_verification_code L = act_then new_uuid (\<lambda>u. act_ok (six_digits (ap_uuid_number L u mod 1000000)))"

definition send_code :: "api_lib \<Rightarrow> int \<Rightarrow> string \<Rightarrow> string \<Rightarrow> string api" where
  "send_code L user_id kind target =
     act_then (generate_verification_code L) (\<lambda>code.
     act_then (act_try (redis_set_ex (verification_code_key user_id kind (trim target)) code 300)) (\<lambda>_. act_ok code))"

definition verify_and_consume_code :: "int \<Rightarrow> string \<Rightarrow> string \<Rightarrow> string \<Rightarrow> unit api" where
  "verify_and_consume_code user_id kind target code =
     (let key = verification_code_key user_id kind target in
      act_then (act_try (redis_get key)) (\<lambda>stored.
      if stored = Inr (Some code) then act_then (act_try (redis_del key)) (\<lambda>_. act_ok ())
      else act_err (EBadRequest ''verification code is incorrect or expired'')))"

definition send_phone_code :: "api_lib \<Rightarrow> api_config \<Rightarrow> header_map \<Rightarrow> code_target_request \<Rightarrow> string api" where
  "send_phone_code L config headers request =
     act_then (caller_of L config headers) (\<lambda>caller.
     act_then (Ret (validate_phone (ct_target request))) (\<lambda>_.
     send_code L (id_user_id caller) ''phone'' (ct_target request)))"

definition bind_phone :: "api_lib \<Rightarrow> api_config \<Rightarrow> header_map \<Rightarrow> bind_phone_request \<Rightarrow> bool api" where
  "bind_phone L config headers request =
     act_then (caller_of L config headers) (\<lambda>caller.
     act_then (Ret (validate_phone (bp_phone request))) (\<lambda>_.
     act_then (Ret (validate_code (bp_code request))) (\<lambda>_.
     act_then (verify_and_consume_code (id_user_id caller) ''phone'' (trim (bp_phone request)) (trim (bp_code request))) (\<lambda>_.
     act_then (update_users (\<lambda>r. us_id r = id_user_id caller \<and> us_status r = 1)
       (\<lambda>r. map_option (\<lambda>v. r\<lparr>us_phone := Some v\<rparr>) (ap_varchar L 20 (trim (bp_phone request))))) (\<lambda>_.
     act_ok True)))))"

definition send_email_code :: "api_lib \<Rightarrow> api_config \<Rightarrow> header_map \<Rightarrow> code_target_request \<Rightarrow> string api" where
  "send_email_code L config headers request =
     act_then (caller_of L config headers) (\<lambda>caller.
     act_then (Ret (validate_email (ct_target request))) (\<lambda>_.
     send_code L (id_user_id caller) ''email'' (ct_target request)))"

definition bind_email :: "api_lib \<Rightarrow> api_config \<Rightarrow> header_map \<Rightarrow> bind_email_request \<Rightarrow> bool api" where
  "bind_email L config headers request =
     act_then (caller_of L config headers) (\<lambda>caller.
     act_then (Ret (validate_email (be_email request))) (\<lambda>_.
     act_then (Ret (validate_code (be_code request))) (\<lambda>_.
     act_then (verify_and_consume_code (id_user_id caller) ''email'' (trim (be_email request)) (trim (be_code request))) (\<lambda>_.
     act_then (update_users (\<lambda>r. us_id r = id_user_id caller \<and> us_status r = 1)
       (\<lambda>r. map_option (\<lambda>v. r\<lparr>us_email := Some v\<rparr>) (ap_varchar L 100 (trim (be_email request))))) (\<lambda>_.
     act_ok True)))))"

section \<open>Deletion\<close>

definition delete_transaction :: "int \<Rightarrow> int \<Rightarrow> unit api" where
  "delete_transaction user_id now = sql_execute (\<lambda>w. (Inr (), w\<lparr>
     aw_users := update_where (\<lambda>r. us_id r = user_id)
       (\<lambda>r. r\<lparr>us_status := 0, us_last_login_time := Some (sql_datetime now)\<rparr>) (aw_users w),
     aw_friends := update_where (\<lambda>r. fr_user_id r = user_id \<or> fr_friend_id r = user_id) (\<lambda>r. r\<lparr>fr_status := 2\<rparr>) (aw_friends w),
     aw_members := update_where (\<lambda>r. gm_user_id r = user_id) (\<lambda>r. r\<lparr>gm_status := 0\<rparr>) (aw_members w),
     aw_im_groups := update_where (\<lambda>g. ig_owner_id g = user_id)
       (\<lambda>g. touched (sql_now w) g (g\<lparr>ig_status := 0\<rparr>)) (aw_im_groups w)\<rparr>))"

definition delete_account ::
  "api_lib \<Rightarrow> api_config \<Rightarrow> header_map \<Rightarrow> delete_account_request \<Rightarrow> (header_map \<times> bool) api" where
  "delete_account L config headers request =
     act_then (caller_of L config headers) (\<lambda>caller.
     act_then (load_user_by_id (id_user_id caller)) (\<lambda>row.
     act_then (Ret (ok_or (ENotFound no_such_user) row)) (\<lambda>user.
     act_then (act_check (verify_password L (da_password request) (ue_password user)) (EUnauthorized wrong_password)) (\<lambda>_.
     act_then now_ms (\<lambda>now.
     act_then (delete_transaction (id_user_id caller) now) (\<lambda>_.
     act_then (act_try (redis_del (''user_settings:'' @ show_int (id_user_id caller)))) (\<lambda>_.
     act_then (act_try (redis_del (''user_token:'' @ show_int (id_user_id caller)))) (\<lambda>_.
     act_ok (expire_auth_cookies [] config headers, True)))))))))"

end
