(* ===== verification/Api_Settings.thy ===== *)
theory Api_Settings
  imports Api_Users
begin

text \<open>
  Settings of a user (\<open>user_handlers.rs\<close>), search and presence (with \<open>user_helpers.rs\<close>), and the devices and
  settings for push notifications (\<open>push_handlers.rs\<close>, \<open>push_types.rs\<close>). A transaction is one access. Columns that
  hold JSON give back a text that the database has written anew (\<open>ap_json_column\<close>).
\<close>

section \<open>Search and presence\<close>

definition search :: "api_lib \<Rightarrow> search_query \<Rightarrow> user_dto list api" where
  "search L query = (case normalize_optional (Some (sq_keyword query)) of
     None \<Rightarrow> act_ok []
   | Some keyword \<Rightarrow>
       let like = ap_like L (''%'' @ keyword @ ''%'');
           like_opt = (\<lambda>m. case m of Some s \<Rightarrow> like s | None \<Rightarrow> False) in
       sql_query (\<lambda>w. map (user_to_dto L) (select_users
         (if eq_ignore_ascii_case (sq_type query) ''phone'' then (\<lambda>r. like_opt (us_phone r))
          else if eq_ignore_ascii_case (sq_type query) ''email'' then (\<lambda>r. like_opt (us_email r))
          else (\<lambda>r. like (us_username r) \<or> like_opt (us_nickname r))) w)))"

definition id_text :: "json \<Rightarrow> string option" where
  "id_text item = (case item of JStr s \<Rightarrow> Some s
     | JInt i \<Rightarrow> if - (2 ^ 63) \<le> i \<and> i < 2 ^ 63 then Some (show_int i) else None | _ \<Rightarrow> None)"

definition parse_status_ids :: "api_lib \<Rightarrow> bytes \<Rightarrow> api_error + string list" where
  "parse_status_ids L body =
     (if body = [] then Inr []
      else and_then (ok_or ESerde (Option.bind (ap_utf8 L body) (ap_json L))) (\<lambda>v. case json_as_array v of
        None \<Rightarrow> Inr []
      | Some items \<Rightarrow> Inr (filter (\<lambda>i. trim i \<noteq> []) (List.map_filter id_text items))))"

text \<open>\<open>read\<close> is what the answer is read as: a code, a message and data; the status is looked at after it.\<close>

definition signed_internal_post ::
  "api_lib \<Rightarrow> api_config \<Rightarrow> (string \<Rightarrow> (int \<times> string \<times> 'a option) option) \<Rightarrow> string \<Rightarrow> bytes \<Rightarrow> 'a api" where
  "signed_internal_post L config read path body =
     act_then now_ms (\<lambda>now.
     act_then new_uuid (\<lambda>nonce.
     act_then (Ret (api_internal_signature_headers L now nonce ''POST'' path body config)) (\<lambda>hs.
     act_then (http_fetch \<lparr>hp_url = api_trim_end_slashes (ac_im_server_url config) @ path,
       hp_headers = hs @ [(''Content-Type'', ''application/json'')], hp_body = body\<rparr>) (\<lambda>(status, text).
     act_then (Ret (ok_or EReqwest (read text))) (\<lambda>(code, message, data).
     act_then (act_check (200 \<le> status \<and> status < 300 \<and> code = 200) (EUpstream message)) (\<lambda>_.
     Ret (ok_or (EUpstream ''upstream response missing data'') data)))))))"

definition read_upstream :: "api_lib \<Rightarrow> (json \<Rightarrow> 'a option) \<Rightarrow> string \<Rightarrow> (int \<times> string \<times> 'a option) option" where
  "read_upstream L read text =
     Option.bind (ap_json L text) (\<lambda>v. case struct_fields [''code'', ''message'', ''data''] v of
       [Some (JInt code), Some (JStr message), data] \<Rightarrow>
         if code < - (2 ^ 31) \<or> 2 ^ 31 \<le> code then None
         else (case data of None \<Rightarrow> Some (code, message, None)
           | Some JNull \<Rightarrow> Some (code, message, None)
           | Some d \<Rightarrow> map_option (\<lambda>x. (code, message, Some x)) (read d))
     | _ \<Rightarrow> None)"

definition read_status_map :: "json \<Rightarrow> (string \<rightharpoonup> bool) option" where
  "read_status_map v = (case v of
     JObj kvs \<Rightarrow> if list_all (\<lambda>(_, b). json_bool (Some b) \<noteq> None) kvs
       then Some (\<lambda>k. Option.bind (map_of (rev kvs) k) (\<lambda>b. json_bool (Some b))) else None
   | _ \<Rightarrow> None)"

definition api_online_status :: "api_lib \<Rightarrow> api_config \<Rightarrow> bytes \<Rightarrow> (string \<rightharpoonup> bool) api" where
  "api_online_status L config body =
     act_then (Ret (parse_status_ids L body)) (\<lambda>user_ids.
     if user_ids = [] then act_ok Map.empty
     else
       act_then (Ret (ok_or ESerde (ap_print L (JArr (map JStr user_ids))))) (\<lambda>text.
       act_then (act_try (signed_internal_post L config (read_upstream L read_status_map) ''/api/im/online-status''
         (ascii text))) (\<lambda>r. case r of
           Inr status \<Rightarrow> act_ok status
         | Inl _ \<Rightarrow> act_ok (\<lambda>i. if i \<in> set user_ids then Some False else None))))"

definition heartbeat :: "api_lib \<Rightarrow> api_config \<Rightarrow> header_map \<Rightarrow> bytes \<Rightarrow> (string \<rightharpoonup> bool) api" where
  "heartbeat L config headers body =
     act_then (caller_of L config headers) (\<lambda>caller.
     act_then (act_try (signed_internal_post L config (read_upstream L Some)
       (''/api/im/heartbeat/'' @ show_int (id_user_id caller)) [])) (\<lambda>_.
     api_online_status L config body))"

definition online_status :: "api_lib \<Rightarrow> api_config \<Rightarrow> header_map \<Rightarrow> bytes \<Rightarrow> (string \<rightharpoonup> bool) api" where
  "online_status L config headers body =
     act_then (caller_of L config headers) (\<lambda>_. api_online_status L config body)"

section \<open>Settings of a user\<close>

definition stored_settings :: "int \<Rightarrow> string option api" where
  "stored_settings user_id = sql_query (\<lambda>w. map_option st_settings (row_of st_user_id user_id (aw_settings w)))"

definition store_settings :: "api_lib \<Rightarrow> int \<Rightarrow> string \<Rightarrow> unit api" where
  "store_settings L user_id text = sql_execute (\<lambda>w. case ap_json_column L text of
     None \<Rightarrow> (Inl ESqlx, w)
   | Some text \<Rightarrow> (Inr (), w\<lparr>aw_settings := insert_or_update st_user_id
       \<lparr>st_user_id = user_id, st_settings = text, st_push_settings = None\<rparr> (\<lambda>r. r\<lparr>st_settings := text\<rparr>)
       (aw_settings w)\<rparr>))"

definition settings :: "api_lib \<Rightarrow> api_config \<Rightarrow> header_map \<Rightarrow> user_settings api" where
  "settings L config headers =
     act_then (caller_of L config headers) (\<lambda>caller.
     act_then (stored_settings (id_user_id caller)) (\<lambda>stored. case stored of
       Some raw \<Rightarrow> act_ok (unwrap_or (Option.bind (ap_json L raw) read_settings) default_settings)
     | None \<Rightarrow>
         act_then (Ret (ok_or ESerde (ap_print L (settings_json default_settings)))) (\<lambda>raw.
         act_then (store_settings L (id_user_id caller) raw) (\<lambda>_. act_ok default_settings))))"

text \<open>\<open>kind\<close> of the settings is merged with the change; what is no object stays as it is.\<close>

definition patched_settings :: "string \<Rightarrow> json \<Rightarrow> json \<Rightarrow> json" where
  "patched_settings kind payload base = (case base of
     JObj obj \<Rightarrow> JObj (case map_of obj kind of
         Some existing \<Rightarrow> AList.update kind (merge_json existing payload) obj
       | None \<Rightarrow> obj @ [(kind, payload)])
   | _ \<Rightarrow> base)"

definition update_settings :: "api_lib \<Rightarrow> api_config \<Rightarrow> header_map \<Rightarrow> string \<Rightarrow> json \<Rightarrow> bool api" where
  "update_settings L config headers kind payload =
     act_then (caller_of L config headers) (\<lambda>caller.
     act_then (act_check (kind \<in> {''privacy'', ''message'', ''general''}) (EBadRequest bad_kind)) (\<lambda>_.
     act_then (stored_settings (id_user_id caller)) (\<lambda>existing.
     let base = (case existing of
         Some text \<Rightarrow> unwrap_or (ap_json L text) (settings_json default_settings)
       | None \<Rightarrow> settings_json default_settings) in
     act_then (Ret (ok_or ESerde (ap_print L (patched_settings kind payload base)))) (\<lambda>text.
     act_then (store_settings L (id_user_id caller) text) (\<lambda>_.
     act_then (act_try (redis_set_ex (''user_settings:'' @ show_int (id_user_id caller)) text 3600)) (\<lambda>_.
     act_ok True))))))"

section \<open>Devices and settings for push notifications\<close>

definition default_messages_channel :: string where "default_messages_channel = ''im-messages''"
definition default_friend_events_channel :: string where "default_friend_events_channel = ''im-social''"
definition default_system_channel :: string where "default_system_channel = ''im-system''"
definition max_device_id_len :: nat where "max_device_id_len = 128"
definition max_token_len :: nat where "max_token_len = 2048"
definition max_simple_field_len :: nat where "max_simple_field_len = 128"
definition max_muted_conversations :: nat where "max_muted_conversations = 1024"

record register_device_request =
  rv_device_id :: string
  rv_platform :: string
  rv_fcm_token :: string
  rv_app_version :: string
  rv_device_model :: string
  rv_os_version :: string
  rv_locale :: string
  rv_timezone :: string

record unregister_device_request =
  uv_device_id :: string
  uv_fcm_token :: "string option"
  uv_reason :: "string option"

record update_device_token_request =
  tv_device_id :: string
  tv_old_token :: "string option"
  tv_new_token :: string

record register_device_response =
  dr_device_id :: string
  dr_registered :: bool
  dr_token_version :: int

record update_device_token_response =
  tr_updated :: bool
  tr_token_version :: int

record android_channel_policy =
  cp_messages :: string
  cp_friend_events :: string
  cp_system :: string

record push_settings =
  pu_enabled :: bool
  pu_sound_enabled :: bool
  pu_show_preview :: bool
  pu_muted_conversation_ids :: "string list"
  pu_android_channel_policy :: android_channel_policy

definition normalize_platform :: "string \<Rightarrow> api_error + string" where
  "normalize_platform raw = (let v = to_ascii_uppercase (trim raw) in
     if v = ''ANDROID'' \<or> v = ''IOS'' then Inr v else Inl (EBadRequest ''platform must be ANDROID or IOS''))"

definition push_device_id :: "string \<Rightarrow> api_error + string" where
  "push_device_id raw = (let v = trim raw in
     if v = [] \<or> max_device_id_len < length v then Inl (EBadRequest ''invalid deviceId'') else Inr v)"

definition normalize_required_token :: "string \<Rightarrow> api_error + string" where
  "normalize_required_token raw = (let v = trim raw in
     if v = [] \<or> max_token_len < length v then Inl (EBadRequest ''invalid token'') else Inr v)"

definition normalize_token :: "string option \<Rightarrow> api_error + string" where
  "normalize_token raw = (case raw of None \<Rightarrow> Inr []
   | Some raw \<Rightarrow> let v = trim raw in
       if v = [] then Inr [] else if max_token_len < length v then Inl (EBadRequest ''invalid token'') else Inr v)"

definition normalize_reason :: "string option \<Rightarrow> api_error + string" where
  "normalize_reason raw = (let v = trim (unwrap_or raw ''LOGOUT'') in
     if v = [] \<or> 32 < length v then Inl (EBadRequest ''invalid reason'') else Inr (to_ascii_uppercase v))"

definition normalize_optional_text :: "string option \<Rightarrow> nat \<Rightarrow> api_error + string" where
  "normalize_optional_text raw max_len = (case raw of None \<Rightarrow> Inr []
   | Some raw \<Rightarrow> let v = trim raw in if max_len < length v then Inl (EBadRequest ''field too long'') else Inr v)"

definition normalize_channel :: "string option \<Rightarrow> string \<Rightarrow> api_error + string" where
  "normalize_channel raw fallback = (let v = trim (unwrap_or raw fallback) in
     if v = [] \<or> 64 < length v then Inl (EBadRequest ''invalid channel policy'') else Inr v)"

definition normalize_register_request :: "register_device_request \<Rightarrow> api_error + register_device_request" where
  "normalize_register_request request =
     and_then (normalize_platform (rv_platform request)) (\<lambda>platform.
     and_then (push_device_id (rv_device_id request)) (\<lambda>device_id.
     and_then (normalize_required_token (rv_fcm_token request)) (\<lambda>fcm_token.
     and_then (normalize_optional_text (Some (rv_app_version request)) max_simple_field_len) (\<lambda>app_version.
     and_then (normalize_optional_text (Some (rv_device_model request)) max_simple_field_len) (\<lambda>device_model.
     and_then (normalize_optional_text (Some (rv_os_version request)) max_simple_field_len) (\<lambda>os_version.
     and_then (normalize_optional_text (Some (rv_locale request)) 32) (\<lambda>locale.
     and_then (normalize_optional_text (Some (rv_timezone request)) 64) (\<lambda>timezone.
     Inr \<lparr>rv_device_id = device_id, rv_platform = platform, rv_fcm_token = fcm_token, rv_app_version = app_version,
       rv_device_model = device_model, rv_os_version = os_version, rv_locale = locale, rv_timezone = timezone\<rparr>))))))))"

fun normalize_each :: "('a \<Rightarrow> 'e + 'b) \<Rightarrow> 'a list \<Rightarrow> 'e + 'b list" where
  "normalize_each f [] = Inr []"
| "normalize_each f (x # xs) = and_then (f x) (\<lambda>y. and_then (normalize_each f xs) (\<lambda>ys. Inr (y # ys)))"

definition normalize_push_settings :: "push_settings \<Rightarrow> api_error + push_settings" where
  "normalize_push_settings request =
     (if max_muted_conversations < length (pu_muted_conversation_ids request)
      then Inl (EBadRequest ''mutedConversationIds too large'')
      else
        and_then (normalize_each (\<lambda>v. normalize_optional_text (Some v) max_simple_field_len) (pu_muted_conversation_ids request)) (\<lambda>muted.
        let policy = pu_android_channel_policy request in
        and_then (normalize_channel (Some (cp_messages policy)) default_messages_channel) (\<lambda>messages.
        and_then (normalize_channel (Some (cp_friend_events policy)) default_friend_events_channel) (\<lambda>friend_events.
        and_then (normalize_channel (Some (cp_system policy)) default_system_channel) (\<lambda>system.
        Inr \<lparr>pu_enabled = pu_enabled request, pu_sound_enabled = pu_sound_enabled request,
          pu_show_preview = pu_show_preview request, pu_muted_conversation_ids = filter (\<lambda>v. v \<noteq> []) muted,
          pu_android_channel_policy = \<lparr>cp_messages = messages, cp_friend_events = friend_events, cp_system = system\<rparr>\<rparr>)))))"

definition default_push_settings :: push_settings where
  "default_push_settings = \<lparr>pu_enabled = True, pu_sound_enabled = True, pu_show_preview = True, pu_muted_conversation_ids = [],
     pu_android_channel_policy = \<lparr>cp_messages = default_messages_channel, cp_friend_events = default_friend_events_channel,
       cp_system = default_system_channel\<rparr>\<rparr>"

definition policy_json :: "android_channel_policy \<Rightarrow> json" where
  "policy_json p = JObj [(''messages'', JStr (cp_messages p)), (''friendEvents'', JStr (cp_friend_events p)),
     (''system'', JStr (cp_system p))]"

definition push_settings_json :: "push_settings \<Rightarrow> json" where
  "push_settings_json s = JObj [(''enabled'', JBool (pu_enabled s)), (''soundEnabled'', JBool (pu_sound_enabled s)),
     (''showPreview'', JBool (pu_show_preview s)),
     (''mutedConversationIds'', JArr (map JStr (pu_muted_conversation_ids s))),
     (''androidChannelPolicy'', policy_json (pu_android_channel_policy s))]"

definition parse_push_settings_value :: "json \<Rightarrow> api_error + push_settings" where
  "parse_push_settings_value v =
     (let flag = (\<lambda>k. unwrap_or (json_bool (json_get v k)) True);
          policy = unwrap_or (json_get v ''androidChannelPolicy'') (policy_json (pu_android_channel_policy default_push_settings));
          channel = (\<lambda>k fallback. unwrap_or (Option.bind (json_get policy k) json_as_str) fallback) in
      normalize_push_settings
        \<lparr>pu_enabled = flag ''enabled'', pu_sound_enabled = flag ''soundEnabled'', pu_show_preview = flag ''showPreview'',
         pu_muted_conversation_ids = unwrap_or (map_option (List.map_filter json_as_str)
           (Option.bind (json_get v ''mutedConversationIds'') json_as_array)) [],
         pu_android_channel_policy = \<lparr>cp_messages = channel ''messages'' default_messages_channel,
           cp_friend_events = channel ''friendEvents'' default_friend_events_channel,
           cp_system = channel ''system'' default_system_channel\<rparr>\<rparr>)"

definition owned_device :: "api_lib \<Rightarrow> int \<Rightarrow> string \<Rightarrow> push_device_row \<Rightarrow> bool" where
  "owned_device L user_id device_id r \<longleftrightarrow> pv_user_id r = user_id \<and> ap_collate L (pv_device_id r) = ap_collate L device_id"

definition load_push_device_for_update :: "api_lib \<Rightarrow> int \<Rightarrow> string \<Rightarrow> api_world \<Rightarrow> push_device_row option" where
  "load_push_device_for_update L user_id device_id w = find (owned_device L user_id device_id) (aw_push_devices w)"

definition next_token_version :: "push_device_row option \<Rightarrow> string \<Rightarrow> int" where
  "next_token_version existing token = (case existing of
     Some r \<Rightarrow> if pv_fcm_token r = token then max (pv_token_version r) 1 else min (pv_token_version r + 1) (2 ^ 63 - 1)
   | None \<Rightarrow> 1)"

text \<open>What the columns keep of a request.\<close>

definition device_columns :: "api_lib \<Rightarrow> register_device_request \<Rightarrow> register_device_request option" where
  "device_columns L d =
     (case (ap_varchar L 128 (rv_device_id d), ap_varchar L 16 (rv_platform d), ap_varchar L 2048 (rv_fcm_token d),
        ap_varchar L 64 (rv_app_version d), ap_varchar L 128 (rv_device_model d), ap_varchar L 64 (rv_os_version d),
        ap_varchar L 32 (rv_locale d), ap_varchar L 64 (rv_timezone d)) of
      (Some device_id, Some platform, Some token, Some app, Some model, Some os, Some locale, Some timezone) \<Rightarrow>
        Some \<lparr>rv_device_id = device_id, rv_platform = platform, rv_fcm_token = token, rv_app_version = app,
          rv_device_model = model, rv_os_version = os, rv_locale = locale, rv_timezone = timezone\<rparr>
    | _ \<Rightarrow> None)"

definition put_device ::
  "api_lib \<Rightarrow> int \<Rightarrow> register_device_request \<Rightarrow> int \<Rightarrow> int \<Rightarrow> push_device_row list \<Rightarrow> push_device_row list" where
  "put_device L user_id d version now rows =
     upsert_row [owned_device L user_id (rv_device_id d)]
       \<lparr>pv_user_id = user_id, pv_device_id = rv_device_id d, pv_platform = rv_platform d, pv_fcm_token = rv_fcm_token d,
        pv_app_version = Some (rv_app_version d), pv_device_model = Some (rv_device_model d),
        pv_os_version = Some (rv_os_version d), pv_locale = Some (rv_locale d), pv_timezone = Some (rv_timezone d),
        pv_token_version = version, pv_last_seen_at = now, pv_last_token_refresh_at = Some now, pv_disabled_at = None,
        pv_unregister_reason = None\<rparr>
       (\<lambda>r. r\<lparr>pv_platform := rv_platform d, pv_fcm_token := rv_fcm_token d, pv_app_version := Some (rv_app_version d),
          pv_device_model := Some (rv_device_model d), pv_os_version := Some (rv_os_version d),
          pv_locale := Some (rv_locale d), pv_timezone := Some (rv_timezone d), pv_token_version := version,
          pv_last_seen_at := now, pv_last_token_refresh_at := Some now, pv_disabled_at := None,
          pv_unregister_reason := None\<rparr>) rows"

definition upsert_push_device :: "api_lib \<Rightarrow> int \<Rightarrow> register_device_request \<Rightarrow> int api" where
  "upsert_push_device L user_id device = sql_execute (\<lambda>w.
     let version = next_token_version (load_push_device_for_update L user_id (rv_device_id device) w) (rv_fcm_token device) in
     case device_columns L device of
       None \<Rightarrow> (Inl ESqlx, w)
     | Some d \<Rightarrow> (Inr version, w\<lparr>aw_push_devices := put_device L user_id d version (sql_now w) (aw_push_devices w)\<rparr>))"

definition register_device ::
  "api_lib \<Rightarrow> api_config \<Rightarrow> header_map \<Rightarrow> register_device_request \<Rightarrow> register_device_response api" where
  "register_device L config headers request =
     act_then (caller_of L config headers) (\<lambda>caller.
     act_then (Ret (normalize_register_request request)) (\<lambda>device.
     act_then (upsert_push_device L (id_user_id caller) device) (\<lambda>version.
     act_ok \<lparr>dr_device_id = rv_device_id device, dr_registered = True, dr_token_version = version\<rparr>)))"

definition unregister_device :: "api_lib \<Rightarrow> api_config \<Rightarrow> header_map \<Rightarrow> unregister_device_request \<Rightarrow> bool api" where
  "unregister_device L config headers request =
     act_then (caller_of L config headers) (\<lambda>caller.
     act_then (Ret (push_device_id (uv_device_id request))) (\<lambda>device_id.
     act_then (Ret (normalize_token (uv_fcm_token request))) (\<lambda>token.
     act_then (Ret (normalize_reason (uv_reason request))) (\<lambda>reason.
     act_then (sql_execute (\<lambda>w.
       let hit = (\<lambda>r. owned_device L (id_user_id caller) device_id r \<and>
         (token = [] \<or> ap_collate L (pv_fcm_token r) = ap_collate L token)) in
       case ap_varchar L 32 reason of
         None \<Rightarrow> if \<exists>r \<in> set (aw_push_devices w). hit r then (Inl ESqlx, w) else (Inr (), w)
       | Some reason \<Rightarrow> (Inr (), w\<lparr>aw_push_devices := update_where hit
           (\<lambda>r. r\<lparr>pv_disabled_at := Some (sql_now w), pv_unregister_reason := Some reason\<rparr>) (aw_push_devices w)\<rparr>))) (\<lambda>_.
     act_ok True)))))"

definition rotate_token :: "api_lib \<Rightarrow> int \<Rightarrow> string \<Rightarrow> string \<Rightarrow> int api" where
  "rotate_token L user_id device_id token = sql_execute (\<lambda>w.
     let existing = load_push_device_for_update L user_id device_id w; version = next_token_version existing token in
     case existing of
       Some _ \<Rightarrow> (case ap_varchar L 2048 token of
           None \<Rightarrow> (Inl ESqlx, w)
         | Some token \<Rightarrow> (Inr version, w\<lparr>aw_push_devices := update_where (owned_device L user_id device_id)
             (\<lambda>r. r\<lparr>pv_fcm_token := token, pv_token_version := version, pv_last_seen_at := sql_now w,
                pv_last_token_refresh_at := Some (sql_now w), pv_disabled_at := None\<rparr>) (aw_push_devices w)\<rparr>))
     | None \<Rightarrow> (case (ap_varchar L 128 device_id, ap_varchar L 2048 token) of
           (Some device_id, Some token) \<Rightarrow> (Inr version, w\<lparr>aw_push_devices := aw_push_devices w @
             [\<lparr>pv_user_id = user_id, pv_device_id = device_id, pv_platform = ''ANDROID'', pv_fcm_token = token,
               pv_app_version = None, pv_device_model = None, pv_os_version = None, pv_locale = None,
               pv_timezone = None, pv_token_version = version, pv_last_seen_at = sql_now w,
               pv_last_token_refresh_at = Some (sql_now w), pv_disabled_at = None, pv_unregister_reason = None\<rparr>]\<rparr>)
         | _ \<Rightarrow> (Inl ESqlx, w)))"

text \<open>An old token that is not the stored one is only logged.\<close>

definition update_device_token ::
  "api_lib \<Rightarrow> api_config \<Rightarrow> header_map \<Rightarrow> update_device_token_request \<Rightarrow> update_device_token_response api" where
  "update_device_token L config headers request =
     act_then (caller_of L config headers) (\<lambda>caller.
     act_then (Ret (push_device_id (tv_device_id request))) (\<lambda>device_id.
     act_then (Ret (normalize_token (tv_old_token request))) (\<lambda>old_token.
     act_then (Ret (normalize_required_token (tv_new_token request))) (\<lambda>new_token.
     act_then (rotate_token L (id_user_id caller) device_id new_token) (\<lambda>version.
     act_ok \<lparr>tr_updated = True, tr_token_version = version\<rparr>)))))"

definition load_push_settings :: "api_lib \<Rightarrow> int \<Rightarrow> push_settings api" where
  "load_push_settings L user_id =
     act_then (sql_query (\<lambda>w. Option.bind (row_of st_user_id user_id (aw_settings w)) st_push_settings)) (\<lambda>raw. case raw of
       None \<Rightarrow> act_ok default_push_settings
     | Some raw \<Rightarrow> Ret (and_then (ok_or ESerde (ap_json L raw)) parse_push_settings_value))"

definition get_push_settings :: "api_lib \<Rightarrow> api_config \<Rightarrow> header_map \<Rightarrow> push_settings api" where
  "get_push_settings L config headers =
     act_then (caller_of L config headers) (\<lambda>caller. load_push_settings L (id_user_id caller))"

text \<open>A row that is new has the empty object as its other settings.\<close>

definition update_push_settings :: "api_lib \<Rightarrow> api_config \<Rightarrow> header_map \<Rightarrow> push_settings \<Rightarrow> bool api" where
  "update_push_settings L config headers request =
     act_then (caller_of L config headers) (\<lambda>caller.
     act_then (Ret (normalize_push_settings request)) (\<lambda>settings.
     act_then (Ret (ok_or ESerde (ap_print L (push_settings_json settings)))) (\<lambda>payload.
     act_then (sql_execute (\<lambda>w. case ap_json_column L payload of
         None \<Rightarrow> (Inl ESqlx, w)
       | Some text \<Rightarrow> (Inr (), w\<lparr>aw_settings := insert_or_update st_user_id
           \<lparr>st_user_id = id_user_id caller, st_settings = ''{}'', st_push_settings = Some text\<rparr>
           (\<lambda>r. r\<lparr>st_push_settings := Some text\<rparr>) (aw_settings w)\<rparr>))) (\<lambda>_.
     act_ok True))))"

end
