(* ===== verification/Api_Ghost.thy ===== *)
theory Api_Ghost
  imports Api_Store
begin

text \<open>
  Handlers side by side, with a history: a state \<open>s\<close> that the program does not have and that only grows
  records what the stores forget. A task is traced when, whatever the others do to stores and history,
  each of its accesses can be recorded so that the invariant \<open>I s w\<close> holds again, and what it returns
  satisfies a condition on the history from then on.
\<close>

primrec traced ::
  "('s \<Rightarrow> 'w \<Rightarrow> bool) \<Rightarrow> ('s \<Rightarrow> 's \<Rightarrow> bool) \<Rightarrow> ('w, 'a) act \<Rightarrow> (api_error + 'a \<Rightarrow> 's \<Rightarrow> bool) \<Rightarrow> 's \<Rightarrow> bool"
where
  "traced I le (Ret r) = (\<lambda>Q s. Q r s)"
| "traced I le (Step u k) = (\<lambda>Q s. \<forall>s1 w. le s s1 \<and> I s1 w \<longrightarrow>
     (\<exists>s2. le s1 s2 \<and> I s2 (u w) \<and> traced I le (k w) Q s2))"

lemma traced_weaken: "traced I le m Q s \<Longrightarrow> (\<And>r s. Q r s \<Longrightarrow> Q' r s) \<Longrightarrow> traced I le m Q' s"
proof (induction m arbitrary: s)
  case (Step u k)
  show ?case
    unfolding traced.simps
  proof (intro allI impI)
    fix s1 w assume "le s s1 \<and> I s1 w"
    with Step.prems(1) obtain s2 where "le s1 s2" "I s2 (u w)" "traced I le (k w) Q s2" by auto
    with Step.IH[OF rangeI, of w s2] Step.prems(2) show "\<exists>s2. le s1 s2 \<and> I s2 (u w) \<and> traced I le (k w) Q' s2" by blast
  qed
qed simp

definition lasting :: "('s \<Rightarrow> 's \<Rightarrow> bool) \<Rightarrow> ('r \<Rightarrow> 's \<Rightarrow> bool) \<Rightarrow> bool" where
  "lasting le Q \<longleftrightarrow> (\<forall>r s s'. Q r s \<longrightarrow> le s s' \<longrightarrow> Q r s')"

locale history =
  fixes I :: "'s \<Rightarrow> 'w \<Rightarrow> bool" and le :: "'s \<Rightarrow> 's \<Rightarrow> bool" and env :: "'w \<Rightarrow> 'w \<Rightarrow> bool"
  assumes now: "le s s"
    and later: "le a b \<Longrightarrow> le b c \<Longrightarrow> le a c"
    and environment: "I s w \<Longrightarrow> env w w' \<Longrightarrow> I s w'"
begin

lemma traced_later: "lasting le Q \<Longrightarrow> traced I le m Q s \<Longrightarrow> le s s' \<Longrightarrow> traced I le m Q s'"
proof (cases m)
  case (Ret r)
  assume "lasting le Q" "traced I le m Q s" "le s s'"
  with Ret show ?thesis by (auto simp: lasting_def)
next
  case (Step u k)
  assume "traced I le m Q s" "le s s'"
  with Step show ?thesis using later by simp
qed

lemma traced_then:
  assumes "traced I le m Q s" "\<And>x s1. le s s1 \<Longrightarrow> Q (Inr x) s1 \<Longrightarrow> traced I le (f x) R s1"
    and "\<And>e s1. Q (Inl e) s1 \<Longrightarrow> R (Inl e) s1"
  shows "traced I le (act_then m f) R s"
  using assms(1,2)
proof (induction m arbitrary: s)
  case (Ret r)
  then show ?case using now assms(3) by (cases r) auto
next
  case (Step u k)
  have "\<exists>s2. le s1 s2 \<and> I s2 (u w) \<and> traced I le (act_then (k w) f) R s2" if s1: "le s s1" "I s1 w" for s1 w
  proof -
    from Step.prems(1) s1 obtain s2 where s2: "le s1 s2" "I s2 (u w)" "traced I le (k w) Q s2" by auto
    have "traced I le (act_then (k w) f) R s2"
      using Step.IH[OF rangeI s2(3)] Step.prems(2) later[OF later[OF s1(1) s2(1)]] by blast
    with s2 show ?thesis by blast
  qed
  then show ?case by simp
qed

text \<open>What is known of the history is known afterwards; the result of a call as a value.\<close>

lemma traced_knowing:
  "traced I le m Q s \<Longrightarrow> (\<And>a b. K a \<Longrightarrow> le a b \<Longrightarrow> K b) \<Longrightarrow> K s \<Longrightarrow> traced I le m (\<lambda>r s. Q r s \<and> K s) s"
proof (induction m arbitrary: s)
  case (Step u k)
  show ?case
    unfolding traced.simps
  proof (intro allI impI)
    fix s1 w assume s1: "le s s1 \<and> I s1 w"
    with Step.prems(1) obtain s2 where s2: "le s1 s2" "I s2 (u w)" "traced I le (k w) Q s2" by auto
    moreover have "K s2" using Step.prems(2,3) s1 s2(1) later by blast
    ultimately show "\<exists>s2. le s1 s2 \<and> I s2 (u w) \<and> traced I le (k w) (\<lambda>r s. Q r s \<and> K s) s2"
      using Step.IH[OF rangeI, of w s2] Step.prems(2) by blast
  qed
qed simp

lemma traced_try: "traced I le m Q s \<Longrightarrow> traced I le (act_try m) (\<lambda>r s. \<exists>r'. r = Inr r' \<and> Q r' s) s"
proof (induction m arbitrary: s)
  case (Step u k)
  then show ?case by (simp add: range_eqI) blast
qed simp

text \<open>A computation that keeps the invariant whatever the history is.\<close>

lemma traced_while:
  assumes "ensures P (\<lambda>w w'. \<forall>s. I s w \<longrightarrow> I s w') m Q" "\<And>s w. I s w \<Longrightarrow> P w"
  shows "traced I le m (\<lambda>r _. Q r) s"
  using assms(1)
proof (induction m arbitrary: s)
  case (Step u k)
  then show ?case using now assms(2) by (simp add: range_eqI) blast
qed simp

lemma traced_after:
  assumes "ensures (\<lambda>_. True) (\<lambda>w w'. \<forall>s. I s w \<longrightarrow> I s w') m Q"
    and "\<And>x s1. le s s1 \<Longrightarrow> Q (Inr x) \<Longrightarrow> traced I le (f x) R s1" "\<And>e s1. R (Inl e) s1"
  shows "traced I le (act_then m f) R s"
  by (rule traced_then[OF traced_while[OF assms(1)]]) (use assms(2,3) in auto)

lemma runs_traced:
  assumes "sys_runs env (ts, w) (ts', w')" "I s w"
    and "list_all2 (\<lambda>t Q. lasting le Q \<and> traced I le t Q s) ts Qs"
  shows "\<exists>s'. le s s' \<and> I s' w' \<and> list_all2 (\<lambda>t Q. lasting le Q \<and> traced I le t Q s') ts' Qs"
  using assms(1) unfolding sys_runs_def
proof (induction "(ts', w')" arbitrary: ts' w' rule: rtranclp_induct)
  case base
  then show ?case using assms(2,3) now by blast
next
  case (step mid)
  obtain ts1 w1 where mid: "mid = (ts1, w1)" by (cases mid)
  from step(3)[OF mid] obtain s1 where s1: "le s s1" "I s1 w1"
    and all: "list_all2 (\<lambda>t Q. lasting le Q \<and> traced I le t Q s1) ts1 Qs" by blast
  from step(2)[unfolded mid] show ?case
  proof (cases rule: sys_step.cases)
    case (task i u k)
    have "traced I le (Step u k) (Qs ! i) s1" using list_all2_nthD[OF all task(3)] task(4) by simp
    from this[simplified, rule_format, OF conjI[OF now s1(2)]]
    obtain s2 where s2: "le s1 s2" "I s2 (u w1)" "traced I le (k w1) (Qs ! i) s2" by blast
    have "list_all2 (\<lambda>t Q. lasting le Q \<and> traced I le t Q s2) ts' Qs"
    proof (rule list_all2_all_nthI)
      show "length ts' = length Qs" using task all by (simp add: list_all2_lengthD)
      fix j assume j: "j < length ts'"
      then have "lasting le (Qs ! j)" "traced I le (ts1 ! j) (Qs ! j) s1"
        using all task by (auto dest: list_all2_nthD)
      with j task s2 show "lasting le (Qs ! j) \<and> traced I le (ts' ! j) (Qs ! j) s2"
        by (cases "j = i") (auto intro: traced_later)
    qed
    with s1(1) s2 task show ?thesis using later by blast
  next
    case environment
    with s1 all show ?thesis using history.environment[OF history_axioms] by blast
  qed
qed

end

text \<open>One command that is recorded in the history.\<close>

lemma traced_command:
  assumes "\<And>s1 w. I s1 w \<Longrightarrow> I s1 (outcome_used w)" "\<And>s1. le s1 s1"
    and "\<And>s1 w. le s s1 \<Longrightarrow> I s1 w \<Longrightarrow> \<exists>s2. le s1 s2 \<and> I s2 (snd (f w)) \<and> Q (fst (f w)) s2" "\<And>s1. Q (Inl e) s1"
  shows "traced I le (command e f) Q s"
  unfolding command_def traced.simps
proof (intro allI impI)
  fix s1 w assume s1: "le s s1 \<and> I s1 w"
  then have used: "le s1 s1" "I s1 (outcome_used w)" using assms(1,2) by blast+
  from assms(3)[OF conjunct1[OF s1] used(2)] obtain s2
    where "le s1 s2" "I s2 (snd (f (outcome_used w)))" "Q (fst (f (outcome_used w))) s2" by blast
  with used assms(4) show "\<exists>s2. le s1 s2 \<and>
      I s2 (if next_outcome w = Unreached then outcome_used w else snd (f (outcome_used w))) \<and>
      traced I le (if next_outcome w = Replied then Ret (fst (f (outcome_used w))) else act_err e) Q s2"
    by (cases "next_outcome w") (simp_all, blast+)
qed

text \<open>Checks that end a computation.\<close>

lemma known_then:
  "(\<And>x. r = Inr x \<Longrightarrow> traced I le (f x) R s) \<Longrightarrow> (\<And>e. R (Inl e) s) \<Longrightarrow> traced I le (act_then (Ret r) f) R s"
  by (cases r) simp_all

lemma checked_then:
  "(b \<Longrightarrow> traced I le (f ()) R s) \<Longrightarrow> (\<And>e. R (Inl e) s) \<Longrightarrow> traced I le (act_then (act_check b e) f) R s"
  by (simp add: act_check_def)

end
