(* ===== verification/Api_Social_Views.thy ===== *)
theory Api_Social_Views
  imports Api_Friends Api_Ghost
begin

text \<open>
  Rules for the handlers of friends, groups and accounts. A part of the stores that the caches, the tokens, the
  servers for messages and the identifiers do not touch: what the handlers of friends, groups and accounts do besides their own statements does not change it.
\<close>

locale social_view = unseen_view view for view :: "api_world \<Rightarrow> 'v" +
  assumes caches_unseen: "view (w\<lparr>aw_local := l\<rparr>) = view w" "view (w\<lparr>aw_redis := r\<rparr>) = view w"
    "view (w\<lparr>aw_hot := h\<rparr>) = view w" "view (w\<lparr>aw_id_cell := c\<rparr>) = view w"
begin

lemma same_command: "(\<And>w. view (snd (f w)) = view w) \<Longrightarrow> guarantees (\<lambda>_. True) (\<lambda>w w'. view w' = view w) (command e f)"
  by (rule guarantees_command) (simp add: unseen)

lemma same_redis [ensures_intros]:
  "guarantees (\<lambda>_. True) (\<lambda>w w'. view w' = view w) (redis_set_ex k v n)"
  "guarantees (\<lambda>_. True) (\<lambda>w w'. view w' = view w) (redis_del k)"
  unfolding redis_set_ex_def redis_set_px_def redis_del_def redis_command_def
  by (rule same_command, simp add: caches_unseen)+

lemma same_hot [ensures_intros]:
  "guarantees (\<lambda>_. True) (\<lambda>w w'. view w' = view w) (hot_command url f)"
  "guarantees (\<lambda>_. True) (\<lambda>w w'. view w' = view w) (hot_write url g)"
  "guarantees (\<lambda>_. True) (\<lambda>w w'. view w' = view w) (hot_read url h)"
  unfolding hot_write_def hot_command_def hot_read_def
  by (rule same_command, simp add: caches_unseen case_prod_beta)+

lemma same_local [ensures_intros]:
  "guarantees (\<lambda>_. True) (\<lambda>w w'. view w' = view w) (new_id n)"
  "guarantees (\<lambda>_. True) (\<lambda>w w'. view w' = view w) (set_bool k b)"
  by (simp_all add: new_id_def set_bool_def set_value_def caches_unseen split: option.split)

lemma same_parts [ensures_intros]:
  "guarantees (\<lambda>_. True) (\<lambda>w w'. view w' = view w) (caller_of L config headers)"
  "guarantees (\<lambda>_. True) (\<lambda>w w'. view w' = view w) (new_event t c)"
  "guarantees (\<lambda>_. True) (\<lambda>w w'. view w' = view w) (cache_friendship u v b)"
  "guarantees (\<lambda>_. True) (\<lambda>w w'. view w' = view w) (are_friends u v)"
  "guarantees (\<lambda>_. True) (\<lambda>w w'. view w' = view w) (resolve_existing_id ids i)"
  unfolding caller_of_def new_event_def cache_friendship_def redis_keep_def resolve_existing_id_def are_friends_def
  by (intro ensures_intros)+

lemma same_event [ensures_intros]: "guarantees (\<lambda>_. True) (\<lambda>w w'. view w' = view w) (write_social_event L config e)"
  by (cases "private_urls_of config") (simp_all add: write_social_event_def, intro ensures_intros)

lemma same_resolved [ensures_intros]:
  "guarantees (\<lambda>_. True) (\<lambda>w w'. view w' = view w) (resolve_user_id_or_not_found u)"
  "guarantees (\<lambda>_. True) (\<lambda>w w'. view w' = view w) (resolve_group_id_or_not_found g)"
  unfolding resolve_user_id_or_not_found_def resolve_group_id_or_not_found_def resolve_active_user_id_def
    resolve_active_group_id_def
  by (intro ensures_intros)+

end

section \<open>With a history\<close>

text \<open>The users for whom the headers of a request can speak.\<close>

definition callers :: "api_lib \<Rightarrow> api_config \<Rightarrow> header_map \<Rightarrow> int set" where
  "callers L config headers = {id_user_id c | c now. identity_from_headers L now headers config = Inr c}"

locale social_history = social_view view + history I le env
  for view :: "api_world \<Rightarrow> 'v" and I :: "'s \<Rightarrow> api_world \<Rightarrow> bool" and le env +
  assumes view_only: "view w' = view w \<Longrightarrow> I s w \<Longrightarrow> I s w'"
begin

lemma unseen_keeps: "guarantees (\<lambda>_. True) (\<lambda>w w'. view w' = view w) m \<Longrightarrow>
    guarantees (\<lambda>_. True) (\<lambda>w w'. \<forall>s. I s w \<longrightarrow> I s w') m"
  by (erule ensures_mono) (use view_only in blast)+

text \<open>A computation that goes on after accesses which leave the view alone.\<close>

lemma unseen_then:
  assumes "guarantees (\<lambda>_. True) (\<lambda>w w'. view w' = view w) m" "\<And>x s1. le s s1 \<Longrightarrow> traced I le (f x) (\<lambda>_ _. True) s1"
  shows "traced I le (act_then m f) (\<lambda>_ _. True) s"
  by (rule traced_after[OF unseen_keeps[OF assms(1)]]) (simp_all add: assms(2))

lemma unseen_follows: "guarantees (\<lambda>_. True) (\<lambda>w w'. view w' = view w) m \<Longrightarrow> traced I le m (\<lambda>_ _. True) s"
  by (rule traced_weaken[OF traced_while[OF unseen_keeps]]) simp_all

lemma follows_then:
  "traced I le m (\<lambda>_ _. True) s \<Longrightarrow> (\<And>x s1. le s s1 \<Longrightarrow> traced I le (f x) (\<lambda>_ _. True) s1) \<Longrightarrow>
   traced I le (act_then m f) (\<lambda>_ _. True) s"
  by (rule traced_then) simp_all

lemma caller_after:
  assumes "\<And>c s1. le s s1 \<Longrightarrow> id_user_id c \<in> callers L config headers \<Longrightarrow> traced I le (f c) (\<lambda>_ _. True) s1"
  shows "traced I le (act_then (caller_of L config headers) f) (\<lambda>_ _. True) s"
proof (rule traced_after)
  show "ensures (\<lambda>_. True) (\<lambda>w w'. \<forall>s. I s w \<longrightarrow> I s w') (caller_of L config headers)
      (\<lambda>r. \<forall>c. r = Inr c \<longrightarrow> id_user_id c \<in> callers L config headers)"
    unfolding caller_of_def
    by (rule ensures_then[OF unseen_keeps[OF untouched.guarantees_now]]) (auto simp: callers_def)
qed (use assms in auto)

lemma resolve_after:
  "(\<And>v s1. le s s1 \<Longrightarrow> traced I le (f v) (\<lambda>_ _. True) s1) \<Longrightarrow>
   traced I le (act_then (resolve_user_id_or_not_found u) f) (\<lambda>_ _. True) s"
  "(\<And>v s1. le s s1 \<Longrightarrow> traced I le (f v) (\<lambda>_ _. True) s1) \<Longrightarrow>
   traced I le (act_then (resolve_group_id_or_not_found g) f) (\<lambda>_ _. True) s"
  by (rule unseen_then[OF same_resolved(1)], blast) (rule unseen_then[OF same_resolved(2)])

text \<open>A statement that keeps the invariant for every history.\<close>

lemma kept_statement:
  assumes "\<And>s w. I s w \<Longrightarrow> I s (snd (f w))"
  shows "traced I le (sql_execute f) (\<lambda>_ _. True) s"
  unfolding sql_execute_def
proof (rule traced_command)
  show "I s1 (outcome_used w)" if "I s1 w" for s1 w by (rule view_only[OF _ that]) (rule unseen)
qed (use assms now in blast)+

end

end
