(* ===== verification/Api_Negotiation_Rules.thy ===== *)
theory Api_Negotiation_Rules
  imports Api_Negotiation
begin

text \<open>
  The state machine the negotiation handlers implement together, however their accesses interleave:
  the rules by which the row of a session changes, the proof that every access of every handler
  follows them, and the machine over statuses and versions that they refine.
\<close>

section \<open>The rules\<close>

abbreviation session_key :: "api_lib \<Rightarrow> session_row \<Rightarrow> string" where
  "session_key L r \<equiv> ap_collate L (se_session_id r)"

definition partners :: "session_row \<Rightarrow> int \<Rightarrow> int \<Rightarrow> bool" where
  "partners r x y \<longleftrightarrow> (\<exists>a b. parse_session_partners (se_session_id r) = Inr (a, b) \<and> a \<noteq> b \<and> {x, y} = {a, b})"

inductive session_step :: "session_row option \<Rightarrow> session_row option \<Rightarrow> bool" where
  opened: "partners r x y \<Longrightarrow> r = new_session sid x y status payload disabled_by now \<Longrightarrow>
    (status, disabled_by) \<in> {(''pending'', None), (''plaintext'', Some x)} \<Longrightarrow> session_step None (Some r)"
| refreshed: "session_step (Some r) (Some (set_payload payload now r))"
| proposed: "partners r x y \<Longrightarrow> se_state_version r + 1 < 2 ^ 31 \<Longrightarrow> session_step (Some r) (Some (set_pending x y payload now r))"
| answered: "se_status r = ''pending'' \<Longrightarrow> status = ''encrypted'' \<or> status = ''rejected'' \<Longrightarrow>
    se_state_version r + 1 < 2 ^ 31 \<Longrightarrow> session_step (Some r) (Some (set_status status now r))"
| disabled: "partners r x y \<Longrightarrow> se_state_version r + 1 < 2 ^ 31 \<Longrightarrow> session_step (Some r) (Some (set_plaintext x now r))"

inductive_cases session_stepE: "session_step m m'"

definition session_ok :: "session_row \<Rightarrow> bool" where
  "session_ok r \<longleftrightarrow> partners r (se_requester_id r) (se_target_user_id r) \<and> 1 \<le> se_state_version r \<and>
     se_state_version r < 2 ^ 31 \<and> se_status r \<in> {''pending'', ''encrypted'', ''rejected'', ''plaintext''}"

lemmas session_sets = set_payload_def set_pending_def set_status_def set_plaintext_def

lemma session_set_fields [simp]:
  "se_session_id (set_payload p now r) = se_session_id r" "se_session_id (set_pending x y p now r) = se_session_id r"
  "se_session_id (set_status st now r) = se_session_id r" "se_session_id (set_plaintext x now r) = se_session_id r"
  "se_state_version (set_payload p now r) = se_state_version r"
  "se_state_version (set_pending x y p now r) = se_state_version r + 1"
  "se_state_version (set_status st now r) = se_state_version r + 1"
  "se_state_version (set_plaintext x now r) = se_state_version r + 1"
  "se_status (set_payload p now r) = se_status r" "se_status (set_pending x y p now r) = ''pending''"
  "se_status (set_status st now r) = st" "se_status (set_plaintext x now r) = ''plaintext''"
  "se_requester_id (set_payload p now r) = se_requester_id r" "se_requester_id (set_pending x y p now r) = x"
  "se_requester_id (set_status st now r) = se_requester_id r" "se_requester_id (set_plaintext x now r) = se_requester_id r"
  "se_target_user_id (set_payload p now r) = se_target_user_id r" "se_target_user_id (set_pending x y p now r) = y"
  "se_target_user_id (set_status st now r) = se_target_user_id r"
  "se_target_user_id (set_plaintext x now r) = se_target_user_id r"
  by (simp_all add: session_sets)

lemma partners_cong: "se_session_id r = se_session_id s \<Longrightarrow> partners r = partners s"
  by (simp add: partners_def fun_eq_iff)

lemma partners_set [simp]:
  "partners (set_payload p now r) = partners r" "partners (set_pending x y p now r) = partners r"
  "partners (set_status st now r) = partners r" "partners (set_plaintext x now r) = partners r"
  by (rule partners_cong, simp)+

text \<open>A row that follows the rules stays well-formed, keeps its session and never goes back in version.\<close>

lemma step_ok: "session_step m m' \<Longrightarrow> pred_option session_ok m \<Longrightarrow> pred_option session_ok m'"
proof (induction rule: session_step.induct)
  case (opened r x y sid status payload disabled_by now)
  then show ?case by (auto simp: session_ok_def new_session_def)
qed (auto simp: session_ok_def)

lemma step_session: "session_step (Some r) m' \<Longrightarrow> \<exists>r'. m' = Some r' \<and> se_session_id r' = se_session_id r"
  by (erule session_stepE) auto

text \<open>What is the same as long as the version is.\<close>

definition state_of :: "session_row \<Rightarrow> string \<times> int \<times> int \<times> int option \<times> int option" where
  "state_of r = (se_status r, se_requester_id r, se_target_user_id r, se_disabled_by r, se_disabled_at r)"

lemma step_version:
  assumes "session_step (Some r) (Some r')"
  shows "se_state_version r \<le> se_state_version r' \<and> (se_state_version r' = se_state_version r \<longrightarrow> state_of r' = state_of r)"
  using assms by (rule session_stepE) (auto simp: session_sets state_of_def)

lemma steps_row:
  assumes "session_step\<^sup>*\<^sup>* m m'" "m = Some r"
  shows "\<exists>r'. m' = Some r' \<and> se_session_id r' = se_session_id r \<and> se_state_version r \<le> se_state_version r' \<and>
    (se_state_version r' = se_state_version r \<longrightarrow> state_of r' = state_of r)"
  using assms(1)
proof (induction rule: rtranclp_induct)
  case base
  with assms(2) show ?case by simp
next
  case (step m1 m2)
  then obtain r1 where r1: "m1 = Some r1" "se_session_id r1 = se_session_id r" "se_state_version r \<le> se_state_version r1"
    "se_state_version r1 = se_state_version r \<longrightarrow> state_of r1 = state_of r" by blast
  from step_session[OF step(2)[unfolded r1(1)]] obtain r2 where r2: "m2 = Some r2" "se_session_id r2 = se_session_id r1"
    by blast
  from step_version[OF step(2)[unfolded r1(1) r2(1)]] r1 r2 show ?case by auto
qed

lemma steps_ok: "session_step\<^sup>*\<^sup>* m m' \<Longrightarrow> pred_option session_ok m \<Longrightarrow> pred_option session_ok m'"
  by (induction rule: rtranclp_induct) (auto dest: step_ok)

text \<open>
  The machine that the users see: the status, requester and target of a session, who disabled it last, and its
  version. It is opened at version 1, and every change adds one.
\<close>

type_synonym session_view = "string \<times> int \<times> int \<times> int option \<times> int"

definition view_of :: "session_row \<Rightarrow> session_view" where
  "view_of r = (se_status r, se_requester_id r, se_target_user_id r, se_disabled_by r, se_state_version r)"

inductive allowed_change :: "session_view option \<Rightarrow> session_view option \<Rightarrow> bool" where
  asked: "allowed_change None (Some (''pending'', x, y, None, 1))"
| declined: "allowed_change None (Some (''plaintext'', x, y, Some x, 1))"
| asked_again: "{x', y'} = {x, y} \<Longrightarrow>
    allowed_change (Some (status, x, y, d, v)) (Some (''pending'', x', y', d, v + 1))"
| accepted: "allowed_change (Some (''pending'', x, y, d, v)) (Some (''encrypted'', x, y, d, v + 1))"
| rejected: "allowed_change (Some (''pending'', x, y, d, v)) (Some (''rejected'', x, y, d, v + 1))"
| switched_off: "z \<in> {x, y} \<Longrightarrow>
    allowed_change (Some (status, x, y, d, v)) (Some (''plaintext'', x, y, Some z, v + 1))"

inductive_cases encryptedE: "allowed_change m (Some (''encrypted'', x, y, d, v))"

lemma partners_same: "partners r x' y' \<Longrightarrow> partners r x y \<Longrightarrow> {x', y'} = {x, y} \<and> x' \<in> {x, y}"
  unfolding partners_def by (metis Inr_inject insertI1 prod.inject)

lemma step_allowed:
  assumes "session_step m m'" "pred_option session_ok m"
  shows "map_option view_of m' = map_option view_of m \<or> allowed_change (map_option view_of m) (map_option view_of m')"
  using assms
proof (induction rule: session_step.induct)
  case (opened r x y sid status payload disabled_by now)
  then show ?case by (auto simp: new_session_def view_of_def intro: allowed_change.intros)
next
  case (proposed r x y payload now)
  then have "{x, y} = {se_requester_id r, se_target_user_id r}"
    using partners_same[of r x y] unfolding session_ok_def option.pred_inject by blast
  from allowed_change.asked_again[OF this] show ?case by (simp add: view_of_def set_pending_def)
next
  case (answered r status now)
  show ?case
    using answered(2) by (elim disjE) (simp_all add: view_of_def set_status_def answered(1) allowed_change.intros)
next
  case (disabled r x y now)
  then have "x \<in> {se_requester_id r, se_target_user_id r}"
    using partners_same[of r x y] unfolding session_ok_def option.pred_inject by blast
  from allowed_change.switched_off[OF this] show ?case by (simp add: view_of_def set_plaintext_def)
qed (simp add: view_of_def set_payload_def)

lemma steps_allowed:
  assumes "session_step\<^sup>*\<^sup>* m m'" "pred_option session_ok m"
  shows "allowed_change\<^sup>*\<^sup>* (map_option view_of m) (map_option view_of m')"
  using assms(1)
proof (induction rule: rtranclp_induct)
  case (step m1 m2)
  from step_allowed[OF step(2) steps_ok[OF step(1) assms(2)]] step.IH show ?case
    by (auto intro: rtranclp.rtrancl_into_rtrancl)
qed simp

text \<open>A session that has become encrypted was pending just before, between the same users.\<close>

lemma changes_encrypted:
  assumes "allowed_change\<^sup>*\<^sup>* m (Some (''encrypted'', x, y, d, v))"
  shows "m = Some (''encrypted'', x, y, d, v) \<or> allowed_change\<^sup>*\<^sup>* m (Some (''pending'', x, y, d, v - 1))"
  using assms by (cases rule: rtranclp.cases) (auto elim: encryptedE)

section \<open>The table\<close>

definition sessions_ok :: "api_lib \<Rightarrow> api_world \<Rightarrow> bool" where
  "sessions_ok L w \<longleftrightarrow> distinct (map (session_key L) (aw_sessions w)) \<and> (\<forall>r \<in> set (aw_sessions w). session_ok r)"

abbreviation session_at :: "api_lib \<Rightarrow> api_world \<Rightarrow> string \<Rightarrow> session_row option" where
  "session_at L w k \<equiv> row_of (session_key L) k (aw_sessions w)"

definition sessions_change :: "api_lib \<Rightarrow> api_world \<Rightarrow> api_world \<Rightarrow> bool" where
  "sessions_change L w w' \<longleftrightarrow> (sessions_ok L w \<longrightarrow> sessions_ok L w') \<and>
     (\<forall>k. session_step\<^sup>*\<^sup>* (session_at L w k) (session_at L w' k))"

text \<open>Anybody else may change anything but the table.\<close>

definition sessions_env :: "api_world \<Rightarrow> api_world \<Rightarrow> bool" where
  "sessions_env w w' \<longleftrightarrow> aw_sessions w' = aw_sessions w"

interpretation negotiation: shared_view "sessions_ok L" "sessions_change L" sessions_env aw_sessions for L
proof unfold_locales
  show "sessions_change L w w" for w by (simp add: sessions_change_def)
  show "sessions_change L a b \<Longrightarrow> sessions_change L b c \<Longrightarrow> sessions_change L a c" for a b c
    unfolding sessions_change_def by (metis rtranclp_trans)
  show "sessions_ok L w \<Longrightarrow> sessions_change L w w' \<Longrightarrow> sessions_ok L w'" for w w' by (simp add: sessions_change_def)
  show same: "aw_sessions w' = aw_sessions w \<Longrightarrow> sessions_change L w w'" for w w'
    by (simp add: sessions_change_def sessions_ok_def)
  show "sessions_env w w' \<Longrightarrow> sessions_change L w w'" for w w' by (simp add: sessions_env_def same)
qed (simp_all add: outcome_used_def)

text \<open>
  The collation of the database does not take two session identifiers of different users for one: it
  distinguishes digits and signs.
\<close>

definition collation_ok :: "api_lib \<Rightarrow> bool" where
  "collation_ok L \<longleftrightarrow> (\<forall>s t p q. ap_collate L s = ap_collate L t \<longrightarrow> parse_session_partners s = Inr p \<longrightarrow>
     parse_session_partners t = Inr q \<longrightarrow> p = q)"

definition session_users :: "string \<Rightarrow> int \<Rightarrow> int \<Rightarrow> bool" where
  "session_users session_id x y \<longleftrightarrow>
     (\<exists>a b. parse_session_partners session_id = Inr (a, b) \<and> a \<noteq> b \<and> (x, y) \<in> {(a, b), (b, a)})"

lemma session_users_sym: "session_users sid x y \<Longrightarrow> session_users sid y x"
  by (auto simp: session_users_def)

lemma parse_partners_distinct: "parse_session_partners sid = Inr (a, b) \<Longrightarrow> a \<noteq> b"
  by (auto simp: parse_session_partners_def and_then_Inr_iff split: option.splits list.splits if_splits)

lemma session_users_partners:
  assumes "collation_ok L" "session_users sid x y" "session_ok r" "session_key L r = ap_collate L sid"
  shows "partners r x y"
proof -
  obtain a b where sid: "parse_session_partners sid = Inr (a, b)" "a \<noteq> b" "{x, y} = {a, b}"
    using assms(2) by (auto simp: session_users_def)
  obtain q where "parse_session_partners (se_session_id r) = Inr q"
    using assms(3) by (auto simp: session_ok_def partners_def)
  with assms(1,4) sid(1) have "parse_session_partners (se_session_id r) = Inr (a, b)"
    unfolding collation_ok_def by metis
  with sid(2,3) show ?thesis unfolding partners_def by blast
qed


section \<open>Every access follows the rules\<close>

abbreviation follows :: "api_lib \<Rightarrow> 'a api \<Rightarrow> bool" where
  "follows L m \<equiv> guarantees (sessions_ok L) (sessions_change L) m"

lemma update_follows:
  assumes "\<And>r now. session_ok r \<Longrightarrow> session_key L r = ap_collate L sid \<Longrightarrow> p r \<Longrightarrow>
    se_state_version (f now r) < 2 ^ 31 \<Longrightarrow> session_step (Some r) (Some (f now r))"
  shows "follows L (sessions_update L sid p f)"
  unfolding sessions_update_def
proof (rule negotiation.guarantees_execute)
  fix w assume ok: "sessions_ok L w"
  define hit where "hit = (\<lambda>r. session_key L r = ap_collate L sid \<and> p r)"
  define rows where "rows = update_where hit (f (sql_now w)) (aw_sessions w)"
  have "sessions_change L w (w\<lparr>aw_sessions := rows\<rparr>)" if small: "list_all (\<lambda>r. se_state_version r < 2 ^ 31) rows"
  proof -
    have step: "session_step (Some r) (Some (f (sql_now w) r))" if "r \<in> set (aw_sessions w)" "hit r" for r
    proof (rule assms)
      have "f (sql_now w) r \<in> set rows" using that unfolding rows_def by (auto simp: set_update_where)
      with small show "se_state_version (f (sql_now w) r) < 2 ^ 31" by (simp add: list_all_iff)
    qed (use that ok in \<open>auto simp: hit_def sessions_ok_def\<close>)
    have key: "session_key L (f (sql_now w) r) = session_key L r" if "r \<in> set (aw_sessions w)" "hit r" for r
      using step_session[OF step[OF that]] by auto
    have "session_ok r" if r: "r \<in> set rows" for r
    proof -
      from r obtain s where s: "s \<in> set (aw_sessions w)" "r = (if hit s then f (sql_now w) s else s)"
        unfolding rows_def by (auto simp: set_update_where)
      moreover have "session_ok s" using ok s(1) by (simp add: sessions_ok_def)
      ultimately show ?thesis using step_ok[OF step[OF s(1)]] by (cases "hit s") auto
    qed
    moreover have "distinct (map (session_key L) rows)"
      unfolding rows_def using ok key by (simp add: sessions_ok_def)
    moreover have "session_step\<^sup>*\<^sup>* (session_at L w k) (row_of (session_key L) k rows)" for k
    proof (cases "session_at L w k")
      case None
      then show ?thesis unfolding rows_def by (simp add: row_of_update key)
    next
      case (Some r)
      with row_of_Some[OF Some] step show ?thesis unfolding rows_def by (auto simp: row_of_update key)
    qed
    ultimately show ?thesis by (simp add: sessions_change_def sessions_ok_def)
  qed
  then show "sessions_change L w (snd (let hit = (\<lambda>r. session_key L r = ap_collate L sid \<and> p r);
      rows = update_where hit (f (sql_now w)) (aw_sessions w) in
      if list_all (\<lambda>r. se_state_version r < 2 ^ 31) rows
      then (Inr (count_where hit (aw_sessions w)), w\<lparr>aw_sessions := rows\<rparr>) else (Inl ESqlx, w)))"
    using negotiation.stays[OF ok] by (simp add: Let_def hit_def rows_def)
qed

lemma new_session_ok:
  "partners (new_session sid x y status payload disabled_by now) x y \<Longrightarrow>
   (status, disabled_by) \<in> {(''pending'', None), (''plaintext'', Some x)} \<Longrightarrow>
   session_ok (new_session sid x y status payload disabled_by now)"
  by (auto simp: session_ok_def new_session_def)

lemma insert_follows:
  assumes "session_users sid x y" "(status, disabled_by) \<in> {(''pending'', None), (''plaintext'', Some x)}"
  shows "follows L (sessions_insert L (new_session sid x y status payload disabled_by))"
  unfolding sessions_insert_def
proof (rule negotiation.guarantees_execute)
  fix w assume ok: "sessions_ok L w"
  define r where "r = new_session sid x y status payload disabled_by (sql_now w)"
  have users: "partners r x y" using assms(1) by (auto simp: partners_def session_users_def r_def new_session_def)
  have "sessions_change L w (w\<lparr>aw_sessions := aw_sessions w @ [r]\<rparr>)"
    if new: "\<not> (\<exists>s \<in> set (aw_sessions w). session_key L s = session_key L r)"
  proof -
    have none: "session_at L w (session_key L r) = None" using new by (simp add: row_of_None)
    have "session_ok r" unfolding r_def by (rule new_session_ok) (use users assms(2) in \<open>simp_all add: r_def\<close>)
    moreover have "distinct (map (session_key L) (aw_sessions w @ [r]))"
      using ok new by (auto simp: sessions_ok_def image_iff)
    moreover have "session_step\<^sup>*\<^sup>* (session_at L w k) (row_of (session_key L) k (aw_sessions w @ [r]))" for k
      using session_step.opened[OF users r_def assms(2)] none by (auto simp: row_of_append split: option.split)
    ultimately show ?thesis using ok by (auto simp: sessions_change_def sessions_ok_def)
  qed
  then show "sessions_change L w (snd (let r = new_session sid x y status payload disabled_by (sql_now w) in
      if \<exists>s \<in> set (aw_sessions w). session_key L s = session_key L r then (Inl ESqlx, w)
      else (Inr (), w\<lparr>aw_sessions := aw_sessions w @ [r]\<rparr>)))"
    using negotiation.stays[OF ok] by (simp add: Let_def r_def)
qed

lemma push_follows [ensures_intros]: "follows L (push_negotiation_event L config user_id payload)"
  unfolding push_negotiation_event_def signed_post_def Let_def by (intro ensures_intros)

lemma reloaded_follows [ensures_intros]: "follows L (reloaded L sid fallback)"
  unfolding reloaded_def load_negotiation_state_def by (intro ensures_intros)

lemma name_follows [ensures_intros]: "follows L (shown_name caller)"
  unfolding shown_name_def resolve_user_display_name_def by (intro ensures_intros)

lemma load_follows [ensures_intros]: "follows L (load_negotiation_state L sid)"
  unfolding load_negotiation_state_def by (intro ensures_intros)

lemma caller_follows [ensures_intros]: "follows L (caller_of L config headers)"
  unfolding caller_of_def by (intro ensures_intros)

lemma refresh_follows [ensures_intros]: "follows L (sessions_update L sid p (set_payload payload))"
  by (rule update_follows) (rule session_step.refreshed)

lemma answer_follows [ensures_intros]:
  "status = ''encrypted'' \<or> status = ''rejected'' \<Longrightarrow> follows L (answer_request L config status action request row)"
  unfolding answer_request_def by (intro ensures_intros update_follows) (auto intro!: session_step.answered)

lemma pending_follows:
  "collation_ok L \<Longrightarrow> session_users sid x y \<Longrightarrow> follows L (sessions_update L sid p (set_pending x y payload))"
  by (rule update_follows) (auto intro!: session_step.proposed session_users_partners)

lemma plaintext_follows:
  "collation_ok L \<Longrightarrow> session_users sid x y \<Longrightarrow> follows L (sessions_update L sid p (set_plaintext x))"
  by (rule update_follows) (auto intro!: session_step.disabled session_users_partners)

lemma participant_users:
  "ensures (sessions_ok L) (sessions_change L) (ensure_e2ee_session_participant caller sid)
     (\<lambda>res. \<forall>peer. res = Inr peer \<longrightarrow> session_users sid caller peer)"
proof (cases "parse_session_partners sid")
  case (Inl e)
  then show ?thesis by (simp add: ensure_e2ee_session_participant_def)
next
  case (Inr p)
  obtain a b where p: "p = (a, b)" by (cases p)
  have users: "caller = a \<or> caller = b \<Longrightarrow> session_users sid caller (if caller = a then b else a)"
    using Inr p parse_partners_distinct by (auto simp: session_users_def)
  have friends: "follows L (ensure_friendship_exists x y)" for x y
    unfolding ensure_friendship_exists_def by (intro ensures_intros)
  show ?thesis
  proof (cases "caller = a \<or> caller = b")
    case True
    have "ensures (sessions_ok L) (sessions_change L)
        (act_then (ensure_friendship_exists caller (if caller = a then b else a)) (\<lambda>_. act_ok (if caller = a then b else a)))
        (\<lambda>res. \<forall>peer. res = Inr peer \<longrightarrow> session_users sid caller peer)"
      by (rule ensures_then[OF friends]) (use users[OF True] in auto)
    with True Inr p show ?thesis by (simp add: ensure_e2ee_session_participant_def act_check_def Let_def)
  qed (use Inr p in \<open>auto simp: ensure_e2ee_session_participant_def act_check_def\<close>)
qed

lemma participant_then:
  assumes "\<And>peer. session_users sid caller peer \<Longrightarrow> follows L (f peer)"
  shows "follows L (act_then (ensure_e2ee_session_participant caller sid) f)"
  by (rule ensures_then[OF participant_users]) (use assms in auto)

lemma renew_follows [ensures_intros]: "follows L (renew_request L config caller peer request)"
  unfolding renew_request_def by (intro ensures_intros)

lemma new_request_follows:
  assumes "collation_ok L" "session_users (sq_session_id request) (id_user_id caller) peer"
  shows "follows L (new_request L config caller peer exists request)"
  unfolding new_request_def
  by (intro ensures_intros insert_follows pending_follows assms) (simp_all add: assms)

lemma push_disabled_follows [ensures_intros]: "follows L (push_disabled L config caller peer sid vt)"
  unfolding push_disabled_def by (intro ensures_intros)

lemma request_follows: "collation_ok L \<Longrightarrow> follows L (request_encryption L config headers request)"
  unfolding request_encryption_def Let_def
  by (intro ensures_intros participant_then new_request_follows)

lemma accept_follows: "follows L (accept_encryption L config headers request)"
  unfolding accept_encryption_def Let_def by (intro ensures_intros participant_then) simp

lemma reject_follows: "follows L (reject_encryption L config headers request)"
  unfolding reject_encryption_def Let_def by (intro ensures_intros participant_then) simp

lemma disable_follows: "collation_ok L \<Longrightarrow> follows L (disable_encryption L config headers request)"
  unfolding disable_encryption_def Let_def
  by (intro ensures_intros participant_then plaintext_follows insert_follows) (simp_all add: session_users_sym)

text \<open>The handlers that may run side by side.\<close>

definition negotiation_task :: "api_lib \<Rightarrow> api_config \<Rightarrow> string api \<Rightarrow> bool" where
  "negotiation_task L config t \<longleftrightarrow> (\<exists>headers request. t \<in> {request_encryption L config headers request,
     accept_encryption L config headers request, reject_encryption L config headers request,
     disable_encryption L config headers request})"

lemma task_follows: "collation_ok L \<Longrightarrow> negotiation_task L config t \<Longrightarrow> follows L t"
  unfolding negotiation_task_def using request_follows accept_follows reject_follows disable_follows by blast

end
