(* ===== verification/Api_Samples.thy ===== *)
theory Api_Samples
  imports Api_Negotiation_Rules Prelude
begin

text \<open>
  An executable instance of the third-party code of the api-server, a configuration and a store, for
  the witnesses: tokens in self-delimiting text, and access tokens that are the name of their user.
\<close>

section \<open>Tokens\<close>

definition secret_text :: "bytes \<Rightarrow> string" where
  "secret_text secret = map (\<lambda>b. char_of (unat b)) secret"

lemma secret_text_inj: "secret_text a = secret_text b \<longleftrightarrow> a = b"
proof -
  have "inj (\<lambda>b :: byte. char_of (unat b) :: char)"
  proof (rule injI)
    fix x y :: byte
    assume "(char_of (unat x) :: char) = char_of (unat y)"
    then have "(of_char (char_of (unat x) :: char) :: nat) = of_char (char_of (unat y) :: char)" by simp
    then have "unat x mod 256 = unat y mod 256" by (simp add: take_bit_eq_mod)
    moreover have "unat x < 256" "unat y < 256" by (rule unat_byte)+
    ultimately show "x = y" by (simp add: word_unat_eq_iff)
  qed
  then show ?thesis by (simp add: secret_text_def inj_map_eq_map)
qed

definition claims_text :: "api_claims \<Rightarrow> string" where
  "claims_text c = mark (int_text (jc_user_id c)) @ mark (jc_username c) @ mark (jc_typ c) @ mark (jc_jti c) @
     mark (jc_sub c) @ mark (int_text (jc_iat c)) @ mark (int_text (jc_exp c)) @
     mark (if jc_remember_me c then ''T'' else [])"

definition text_claims :: "string \<Rightarrow> api_claims" where
  "text_claims t =
     (let (u, t) = unmark t; (name, t) = unmark t; (typ, t) = unmark t; (jti, t) = unmark t; (sub, t) = unmark t;
          (iat, t) = unmark t; (ex, t) = unmark t; (rem, t) = unmark t in
      \<lparr>jc_user_id = text_int u, jc_username = name, jc_typ = typ, jc_jti = jti, jc_sub = sub, jc_iat = text_int iat,
       jc_exp = text_int ex, jc_remember_me = (rem = ''T'')\<rparr>)"

lemma text_claims_text [simp]: "text_claims (claims_text c) = c"
proof -
  have "unmark (mark s) = (s, [])" for s using unmark_mark[of s "[]"] by simp
  then show ?thesis by (simp add: text_claims_def claims_text_def)
qed

definition sample_user :: "string \<Rightarrow> int option" where
  "sample_user token = (if token = ''alice'' then Some 1 else if token = ''bob'' then Some 2
     else if token = ''carol'' then Some 3 else None)"

definition sample_api_auth :: auth_lib where
  "sample_api_auth = \<lparr>al_hmac = (\<lambda>k m. Some (k @ m)), al_sha256 = (\<lambda>m. m),
     al_b64url = (\<lambda>b. show_nat (length b)), al_jwt_hs512 = (\<lambda>_ _. None)\<rparr>"

section \<open>The libraries\<close>

definition sample_api :: api_lib where
  "sample_api =
     \<lparr>ap_auth = sample_api_auth,
      ap_access_claims = (\<lambda>now token secret. map_option (\<lambda>u. \<lparr>cl_user_id = u, cl_username = token, cl_typ = ''access'',
        cl_jti = None, cl_sub = None, cl_iat = None, cl_exp = now\<rparr>) (sample_user token)),
      ap_jwt_encode = (\<lambda>c secret. Some (mark (secret_text secret) @ claims_text c)),
      ap_jwt_decode = (\<lambda>t secret. case unmark t of (s, r) \<Rightarrow> if s = secret_text secret then Some (text_claims r) else None),
      ap_utf8 = (\<lambda>b. Some (secret_text b)),
      ap_utf8_lossy = (\<lambda>s. s),
      ap_hex = secret_text,
      ap_b64_encode = secret_text,
      ap_b64_decode = (\<lambda>s. Some (ascii s)),
      ap_json = (\<lambda>s. None),
      ap_print = (\<lambda>_. Some ''{}''),
      ap_rfc3339 = int_text,
      ap_time_text = int_text,
      ap_collate = (\<lambda>s. s),
      ap_user_routes = (\<lambda>_. Some []),
      ap_read_refresh = (\<lambda>_. None),
      ap_read_parse = (\<lambda>_. None),
      ap_read_issue = (\<lambda>_. None),
      ap_read_revoke = (\<lambda>_. None),
      ap_read_check = (\<lambda>_. None),
      ap_read_consume = (\<lambda>_. None),
      ap_read_resource = (\<lambda>_. None),
      ap_print_resource = (\<lambda>_. Some []),
      ap_parse_time = parse_i64,
      ap_iso = int_text,
      ap_print_message = (\<lambda>_. []),
      ap_read_message = (\<lambda>_. None),
      ap_print_event = (\<lambda>_. []),
      ap_read_event = (\<lambda>_. None),
      ap_print_envelope = (\<lambda>_. []),
      ap_read_envelope = (\<lambda>_. None),
      ap_print_receipt = (\<lambda>_. []),
      ap_read_ids = (\<lambda>_. None),
      ap_print_ids = (\<lambda>_. []),
      ap_column_envelope = (\<lambda>_. None),
      ap_varchar = (\<lambda>n s. if length s \<le> n then Some s else None),
      ap_chars = length,
      ap_push_body = (\<lambda>_ _ _. []),
      ap_bcrypt_hash = (\<lambda>salt p. Inr (''$2'' @ p)),
      ap_bcrypt_verify = (\<lambda>p h. Some (h = ''$2'' @ p)),
      ap_uuid_number = length,
      ap_like = (\<lambda>pattern s. s = pattern),
      ap_date = Some,
      ap_json_column = Some\<rparr>"

lemma sample_collation: "collation_ok sample_api" "ap_collate sample_api s = s"
  by (auto simp: collation_ok_def sample_api_def)

section \<open>The configuration\<close>

definition sample_api_config :: api_config where
  "sample_api_config = api_config_read (\<lambda>_. None)"

lemma sample_api_config_fields:
  "ac_jwt_secret sample_api_config = api_default_jwt_secret"
  "ac_refresh_secret sample_api_config = api_default_refresh_secret"
  "ac_internal_secret sample_api_config = api_default_internal_secret"
  "ac_access_cookie_name sample_api_config = ''IM_ACCESS_TOKEN''"
  "ac_route_users_key sample_api_config = ''im:route:users''"
  "ac_internal_max_skew_ms sample_api_config = 300000"
  "ac_jwt_expiration_ms sample_api_config = 86400000"
  "ac_refresh_expiration_ms sample_api_config = 604800000"
  "ac_remember_me_refresh_expiration_ms sample_api_config = 2592000000"
  "ac_ws_ticket_ttl_seconds sample_api_config = 30"
  "ac_revoked_token_ttl_seconds sample_api_config = 86400"
  "ac_resource_cache_ttl_seconds sample_api_config = 604800"
  "ac_token_revocation_check_enabled sample_api_config = True"
  "ac_admin_user_ids sample_api_config = []" "ac_admin_usernames sample_api_config = []"
  by (simp_all only: sample_api_config_def api_config_read_def Let_def api_config.select_convs)
    (simp_all add: env_string_def api_env_i64_def env_bool_def api_env_u64_def api_env_unsigned_def parse_csv_def
      List.map_filter_def)

definition bearer :: "string \<Rightarrow> header_map" where
  "bearer name = [(''authorization'', ''Bearer '' @ name)]"

lemma bearer_identity:
  assumes "name \<in> {''alice'', ''bob'', ''carol''}"
  shows "identity_from_headers sample_api now (bearer name) sample_api_config =
    Inr \<lparr>id_user_id = the (sample_user name), id_username = name\<rparr>"
proof -
  have t: "trim (''Bearer '' @ name) = ''Bearer '' @ name" "trim name = name" "list_all visible_ascii (''Bearer '' @ name)"
    using assms by (auto simp: visible_ascii_def intro!: trim_trimmed, auto simp: trimmed_def white_spaces_def)
  have "header_text (bearer name) ''authorization'' = Some (''Bearer '' @ name)"
    using t(3) by (simp add: bearer_def header_text_Cons ascii_case)
  moreover have "parse_bearer (Some (''Bearer '' @ name)) = Some name"
    unfolding parse_bearer_def Let_def option.case t(1) using assms by (auto simp: strip_prefix_def t(2))
  moreover have "64 \<le> length api_default_jwt_secret" by (simp add: api_default_jwt_secret_def)
  ultimately show ?thesis
    using assms by (auto simp: identity_from_headers_def validate_access_token_def auth_at_def sample_api_config_fields
        sample_api_def sample_user_def)
qed

section \<open>A store\<close>

definition empty_hot :: hot_store where
  "empty_hot = \<lparr>hs_text = (\<lambda>_. None), hs_sorted = (\<lambda>_. None), hs_hash = (\<lambda>_. None)\<rparr>"

definition empty_stream :: event_stream where
  "empty_stream = \<lparr>es_entries = [], es_next = 1, es_groups = (\<lambda>_. None)\<rparr>"

definition empty_world :: "int \<Rightarrow> api_world" where
  "empty_world now = \<lparr>aw_now = now, aw_outcomes = [], aw_uuid = show_nat, aw_drawn = 0, aw_id_cell = 0, aw_random = (\<lambda>_. []),
     aw_redis = (\<lambda>_. None), aw_routes = (\<lambda>_ _. None), aw_posts = [], aw_answers = (\<lambda>_. (200, [])), aw_users = [],
     aw_friends = [], aw_friend_requests = [], aw_settings = [], aw_push_devices = [], aw_members = [],
     aw_devices = [], aw_opks = [], aw_next_opk = 1, aw_claims = [], aw_sessions = [], aw_conversations = [],
     aw_backups = [], aw_e2ee_groups = [], aw_epochs = [], aw_sender_keys = [],
     aw_im_groups = [], aw_messages = [], aw_deliveries = [], aw_private_cursors = [], aw_group_cursors = [],
     aw_hot = (\<lambda>_. empty_hot), aw_streams = (\<lambda>_ _. empty_stream), aw_trim = (\<lambda>_. 0), aw_local = []\<rparr>"

definition friends_world :: api_world where
  "friends_world = (empty_world 1700000000000)\<lparr>aw_friends :=
     [\<lparr>fr_id = 1, fr_user_id = 1, fr_friend_id = 2, fr_remark = None, fr_status = 1, fr_created_time = 0\<rparr>,
      \<lparr>fr_id = 2, fr_user_id = 2, fr_friend_id = 1, fr_remark = None, fr_status = 1, fr_created_time = 0\<rparr>]\<rparr>"

end
