(* ===== verification/Api_Group_Properties.thy ===== *)
theory Api_Group_Properties
  imports Api_Groups Api_Ghost Api_Samples
begin

text \<open>
  What the encryption of groups guarantees, and where it fails: epochs and sender keys under
  interleaving, a removal that does not rotate, strangers that rotate, second devices, and a cleanup
  that deletes the keys of others.
\<close>

section \<open>The history\<close>

text \<open>
  Epochs of groups under interleaving: the newest epoch of a group never falls, and no sender key
  belongs to a later one. The history holds a lower bound of the newest epochs, which the handlers
  raise when they read or insert one.
\<close>

definition top_epoch :: "int \<Rightarrow> api_world \<Rightarrow> int" where
  "top_epoch group_id w = unwrap_or (max_epoch group_id w) 0"

definition epochs_of :: "int \<Rightarrow> api_world \<Rightarrow> int set" where
  "epochs_of g w = ep_epoch ` {r \<in> set (aw_epochs w). ep_group_id r = g}"

lemma finite_epochs [simp]: "finite (epochs_of g w)"
  by (simp add: epochs_of_def)

definition epochs_ok :: "api_world \<Rightarrow> bool" where
  "epochs_ok w \<longleftrightarrow> (\<forall>g. \<forall>e \<in> epochs_of g w. 0 \<le> e) \<and>
     (\<forall>k \<in> set (aw_sender_keys w). sk_epoch k \<le> top_epoch (sk_group_id k) w)"

definition epochs_known :: "(int \<Rightarrow> int) \<Rightarrow> api_world \<Rightarrow> bool" where
  "epochs_known s w \<longleftrightarrow> epochs_ok w \<and> (\<forall>g. s g \<le> top_epoch g w)"

text \<open>Others leave the epochs alone, and may delete keys, as the daily cleanup does.\<close>

definition groups_env :: "api_world \<Rightarrow> api_world \<Rightarrow> bool" where
  "groups_env w w' \<longleftrightarrow> aw_epochs w' = aw_epochs w \<and> set (aw_sender_keys w') \<subseteq> set (aw_sender_keys w)"

lemma top_cong: "aw_epochs w' = aw_epochs w \<Longrightarrow> top_epoch g w' = top_epoch g w"
  by (simp add: top_epoch_def max_epoch_def)

lemma known_fewer: "aw_epochs w' = aw_epochs w \<Longrightarrow> set (aw_sender_keys w') \<subseteq> set (aw_sender_keys w) \<Longrightarrow>
    epochs_known s w \<Longrightarrow> epochs_known s w'"
  using top_cong[of w' w] by (auto simp: epochs_known_def epochs_ok_def epochs_of_def)

abbreviation keeps_epochs :: "api_world \<Rightarrow> api_world \<Rightarrow> bool" where
  "keeps_epochs w w' \<equiv> \<forall>s. epochs_known s w \<longrightarrow> epochs_known s w'"

interpretation epochs: history epochs_known "(\<le>)" groups_env
  by unfold_locales (auto simp: groups_env_def intro: known_fewer)

interpretation epoch_tables: shared_view "\<lambda>_. True" keeps_epochs groups_env "\<lambda>w. (aw_epochs w, aw_sender_keys w)"
proof unfold_locales
  show "(aw_epochs w', aw_sender_keys w') = (aw_epochs w, aw_sender_keys w) \<Longrightarrow> keeps_epochs w w'" for w w'
    using known_fewer[of w' w] by simp
  show "groups_env w w' \<Longrightarrow> keeps_epochs w w'" for w w' by (auto simp: groups_env_def intro: known_fewer)
qed (simp_all add: outcome_used_def)

lemma known_used: "epochs_known s w \<Longrightarrow> epochs_known s (outcome_used w)"
  by (erule known_fewer[rotated 2]) (simp_all add: outcome_used_def)

section \<open>Reading and inserting an epoch\<close>

lemma max_epoch_set: "max_epoch g w = (if epochs_of g w = {} then None else Some (Max (epochs_of g w)))"
proof -
  have "set (map ep_epoch (filter (\<lambda>r. ep_group_id r = g) (aw_epochs w))) = epochs_of g w"
    by (auto simp: epochs_of_def)
  moreover have "map ep_epoch (filter (\<lambda>r. ep_group_id r = g) (aw_epochs w)) = [] \<longleftrightarrow> epochs_of g w = {}"
    by (auto simp: epochs_of_def filter_empty_conv)
  ultimately show ?thesis by (simp only: max_epoch_def Let_def)
qed

definition epoch_inserted :: "int \<Rightarrow> int \<Rightarrow> int \<Rightarrow> string \<Rightarrow> api_world \<Rightarrow> api_world" where
  "epoch_inserted g e user_id reason w = w\<lparr>aw_epochs := insert_or_update (\<lambda>r. (ep_group_id r, ep_epoch r))
     \<lparr>ep_group_id = g, ep_epoch = e, ep_key_version = e, ep_reason = reason, ep_created_by = user_id\<rparr>
     (\<lambda>r. r\<lparr>ep_reason := reason\<rparr>) (aw_epochs w)\<rparr>"

lemma epochs_inserted: "epochs_of h (epoch_inserted g e user_id reason w) = (if h = g then insert e (epochs_of g w) else epochs_of h w)"
proof (cases "\<exists>r \<in> set (aw_epochs w). ep_group_id r = g \<and> ep_epoch r = e")
  case True
  define f :: "epoch_row \<Rightarrow> epoch_row" where "f = (\<lambda>r. if (ep_group_id r, ep_epoch r) = (g, e) then r\<lparr>ep_reason := reason\<rparr> else r)"
  have "aw_epochs (epoch_inserted g e user_id reason w) = map f (aw_epochs w)"
    using True by (auto simp: epoch_inserted_def insert_or_update_def update_where_def f_def)
  moreover have same: "ep_epoch (f r) = ep_epoch r" "ep_group_id (f r) = ep_group_id r" for r by (simp_all add: f_def)
  moreover have "{r \<in> set (map f (aw_epochs w)). ep_group_id r = h} = f ` {r \<in> set (aw_epochs w). ep_group_id r = h}"
    by (auto simp: same(2))
  ultimately have "epochs_of h (epoch_inserted g e user_id reason w) = epochs_of h w"
    unfolding epochs_of_def by (simp add: image_image)
  with True show ?thesis by (auto simp: epochs_of_def)
next
  case False
  define new where "new = \<lparr>ep_group_id = g, ep_epoch = e, ep_key_version = e, ep_reason = reason, ep_created_by = user_id\<rparr>"
  have "aw_epochs (epoch_inserted g e user_id reason w) = aw_epochs w @ [new]"
    using False by (auto simp: epoch_inserted_def insert_or_update_def new_def)
  moreover have "{r \<in> set (aw_epochs w @ [new]). ep_group_id r = h} =
      (if g = h then insert new {r \<in> set (aw_epochs w). ep_group_id r = h} else {r \<in> set (aw_epochs w). ep_group_id r = h})"
    by (auto simp: new_def)
  ultimately show ?thesis by (simp add: epochs_of_def new_def)
qed

lemma max_epoch_inserted:
  "max_epoch h (epoch_inserted g e user_id reason w) =
     (if h = g then Some (case max_epoch g w of None \<Rightarrow> e | Some m \<Rightarrow> max e m) else max_epoch h w)"
  by (simp add: max_epoch_set epochs_inserted)

lemma top_inserted:
  "0 \<le> e \<Longrightarrow> top_epoch h w \<le> top_epoch h (epoch_inserted g e user_id reason w)"
  "e \<le> top_epoch g (epoch_inserted g e user_id reason w)"
  by (auto simp: top_epoch_def max_epoch_inserted split: option.splits)

lemma epochs_positive:
  assumes "epochs_ok w" "max_epoch g w = Some c"
  shows "0 \<le> c"
proof -
  from assms(2) have "epochs_of g w \<noteq> {}" "c = Max (epochs_of g w)" by (auto simp: max_epoch_set split: if_splits)
  then have "c \<in> epochs_of g w" by (simp add: Max_in)
  with assms(1) show ?thesis unfolding epochs_ok_def by blast
qed

lemma known_inserted:
  assumes "epochs_known s w" "0 \<le> e"
  shows "epochs_known (s(g := max (s g) e)) (epoch_inserted g e user_id reason w)"
proof -
  have "\<forall>h. \<forall>x \<in> epochs_of h (epoch_inserted g e user_id reason w). 0 \<le> x"
    using assms by (auto simp: epochs_inserted epochs_known_def epochs_ok_def)
  moreover have "aw_sender_keys (epoch_inserted g e user_id reason w) = aw_sender_keys w" by (simp add: epoch_inserted_def)
  moreover note rise = top_inserted(1)[OF assms(2), of _ w g user_id reason] top_inserted(2)[of e g user_id reason w]
  ultimately show ?thesis
    using assms order_trans[OF _ rise(1)] by (auto simp: epochs_known_def epochs_ok_def)
qed

section \<open>Every access\<close>

lemma read_epoch_traced: "traced epochs_known (\<le>) (current_group_epoch g)
    (\<lambda>res s. \<forall>e. res = Inr (Some e) \<longrightarrow> 0 \<le> e \<and> e \<le> s g) s"
  unfolding current_group_epoch_def sql_query_def
proof (rule traced_command)
  fix s1 w assume ok: "epochs_known s1 w"
  let ?s = "s1(g := max (s1 g) (top_epoch g w))"
  have "epochs_known ?s w" using ok by (simp add: epochs_known_def)
  moreover have "s1 \<le> ?s" by (simp add: le_fun_def)
  moreover have "0 \<le> e \<and> e \<le> ?s g" if "max_epoch g w = Some e" for e
    using that ok epochs_positive by (auto simp: top_epoch_def epochs_known_def)
  ultimately show "\<exists>s2\<ge>s1. epochs_known s2 (snd (Inr (max_epoch g w) :: api_error + _, w)) \<and>
      (\<forall>e. fst (Inr (max_epoch g w) :: api_error + _, w) = Inr (Some e) \<longrightarrow> 0 \<le> e \<and> e \<le> s2 g)"
    by (intro exI[of _ ?s]) simp
qed (simp_all add: known_used)

lemma insert_epoch_traced:
  assumes "0 \<le> e"
  shows "traced epochs_known (\<le>) (insert_epoch g e user_id reason) (\<lambda>res s. \<forall>x. res = Inr x \<longrightarrow> e \<le> s g) s"
  unfolding insert_epoch_def sql_execute_def epoch_inserted_def[symmetric]
proof (rule traced_command)
  fix s1 w assume ok: "epochs_known s1 w"
  show "\<exists>s2\<ge>s1. epochs_known s2 (snd (Inr () :: api_error + _, epoch_inserted g e user_id reason w)) \<and>
      (\<forall>x. fst (Inr () :: api_error + _, epoch_inserted g e user_id reason w) = Inr x \<longrightarrow> e \<le> s2 g)"
    using known_inserted[OF ok assms, of g user_id reason] by (intro exI[of _ "s1(g := max (s1 g) e)"]) (simp add: le_fun_def)
qed (simp_all add: known_used)

lemma next_epoch_traced: "traced epochs_known (\<le>) (next_group_epoch g user_id reason)
    (\<lambda>res s. \<forall>e. res = Inr e \<longrightarrow> e \<le> s g) s"
  unfolding next_group_epoch_def Let_def
proof (rule epochs.traced_then[OF read_epoch_traced])
  fix c :: "int option" and s1 assume "\<forall>e. (Inr c :: api_error + _) = Inr (Some e) \<longrightarrow> 0 \<le> e \<and> e \<le> s1 g"
  then have "0 \<le> min (unwrap_or c 0 + 1) (2 ^ 31 - 1)" by (cases c) auto
  from insert_epoch_traced[OF this, of g user_id reason s1]
  show "traced epochs_known (\<le>) (act_then (insert_epoch g (min (unwrap_or c 0 + 1) (2 ^ 31 - 1)) user_id reason)
      (\<lambda>_. act_ok (min (unwrap_or c 0 + 1) (2 ^ 31 - 1)))) (\<lambda>res s. \<forall>e. res = Inr e \<longrightarrow> e \<le> s g) s1"
    by (rule epochs.traced_then) simp_all
qed simp

abbreviation follows_epochs :: "'a api \<Rightarrow> (int \<Rightarrow> int) \<Rightarrow> bool" where
  "follows_epochs m s \<equiv> traced epochs_known (\<le>) m (\<lambda>_ _. True) s"

lemma follows_weaken: "traced epochs_known (\<le>) m Q s \<Longrightarrow> follows_epochs m s"
  by (erule traced_weaken) simp

lemma kept_then:
  "ensures (\<lambda>_. True) keeps_epochs m (\<lambda>_. True) \<Longrightarrow> (\<And>x s. follows_epochs (f x) s) \<Longrightarrow> follows_epochs (act_then m f) s"
  by (rule epochs.traced_after) auto

lemma known_cong: "aw_epochs w' = aw_epochs w \<Longrightarrow> \<forall>k \<in> set (aw_sender_keys w'). sk_epoch k \<le> top_epoch (sk_group_id k) w \<Longrightarrow>
    epochs_known s w \<Longrightarrow> epochs_known s w'"
  using top_cong[of w' w] by (auto simp: epochs_known_def epochs_ok_def epochs_of_def)

lemma stored_epochs:
  assumes "store_sender_key L g sender e entry rows = Some rows'" "k \<in> set rows'"
  shows "(\<exists>r \<in> set rows. sk_group_id r = sk_group_id k \<and> sk_epoch r = sk_epoch k) \<or> sk_group_id k = g \<and> sk_epoch k = e"
proof -
  let ?new = "\<lparr>sk_group_id = g, sk_sender_id = sender, sk_device_id = en_device_id entry,
     sk_recipient_id = en_recipient_id entry, sk_epoch = e, sk_encrypted = en_encrypted entry, sk_counter = 0\<rparr>"
  let ?f = "\<lambda>r. r\<lparr>sk_encrypted := en_encrypted entry, sk_counter := sk_counter r + 1\<rparr>"
  have "k \<in> set (insert_or_update (sender_key_key L) ?new ?f rows)"
    using assms by (auto simp: store_sender_key_def Let_def split: if_splits)
  then consider "k = ?new" | r where "r \<in> set rows" "k = r \<or> k = ?f r"
    by (auto simp: insert_or_update_def set_update_where split: if_splits)
  then show ?thesis by cases auto
qed

lemma stored_all_epochs:
  "store_sender_keys L g sender e entries rows = Some rows' \<Longrightarrow> k \<in> set rows' \<Longrightarrow>
   (\<exists>r \<in> set rows. sk_group_id r = sk_group_id k \<and> sk_epoch r = sk_epoch k) \<or> sk_group_id k = g \<and> sk_epoch k = e"
proof (induction entries arbitrary: rows)
  case (Cons entry entries)
  then obtain rows1 where rows1: "store_sender_key L g sender e entry rows = Some rows1"
    "store_sender_keys L g sender e entries rows1 = Some rows'" by (auto simp: bind_eq_Some_conv)
  from Cons.IH[OF rows1(2) Cons.prems(2)] stored_epochs[OF rows1(1)] show ?case by metis
qed auto

text \<open>Storing keys of an epoch that the history knows.\<close>

lemma store_follows:
  assumes "e \<le> s g" "\<And>w. aw_epochs (snd (f w)) = aw_epochs w"
    and "\<And>w k. k \<in> set (aw_sender_keys (snd (f w))) \<Longrightarrow>
      (\<exists>r \<in> set (aw_sender_keys w). sk_group_id r = sk_group_id k \<and> sk_epoch r = sk_epoch k) \<or> sk_group_id k = g \<and> sk_epoch k = e"
  shows "follows_epochs (sql_execute f) s"
  unfolding sql_execute_def
proof (rule traced_command)
  fix s1 w assume le: "s \<le> s1" and ok: "epochs_known s1 w"
  have "sk_epoch k \<le> top_epoch (sk_group_id k) w" if "k \<in> set (aw_sender_keys (snd (f w)))" for k
    using assms(3)[OF that] ok le assms(1) unfolding epochs_known_def epochs_ok_def le_fun_def by (metis order_trans)
  with ok assms(2) show "\<exists>s2\<ge>s1. epochs_known s2 (snd (f w)) \<and> True" by (intro exI[of _ s1]) (auto intro: known_cong)
qed (simp_all add: known_used)

lemma keeps_fewer:
  assumes "\<And>w. aw_epochs (snd (f w)) = aw_epochs w" "\<And>w. set (aw_sender_keys (snd (f w))) \<subseteq> set (aw_sender_keys w)"
  shows "ensures (\<lambda>_. True) keeps_epochs (sql_execute f) (\<lambda>_. True)"
  by (rule epoch_tables.guarantees_execute) (use assms in \<open>blast intro: known_fewer\<close>)

lemma keeps_checks [ensures_intros]:
  "ensures (\<lambda>_. True) keeps_epochs (caller_of L config headers) (\<lambda>_. True)"
  "ensures (\<lambda>_. True) keeps_epochs (ensure_group_member g u) (\<lambda>_. True)"
  "ensures (\<lambda>_. True) keeps_epochs (ensure_group_admin g u) (\<lambda>_. True)"
  "ensures (\<lambda>_. True) keeps_epochs (ensure_group_members_batch g us) (\<lambda>_. True)"
  "ensures (\<lambda>_. True) keeps_epochs (ensure_device_exists L u d) (\<lambda>_. True)"
  "ensures (\<lambda>_. True) keeps_epochs (ensure_all_devices_belong_to_recipients L es) (\<lambda>_. True)"
  "ensures (\<lambda>_. True) keeps_epochs (group_status g) (\<lambda>_. True)"
  unfolding caller_of_def ensure_group_member_def ensure_group_admin_def ensure_group_members_batch_def
    ensure_device_exists_def ensure_all_devices_belong_to_recipients_def group_status_def
  by (intro ensures_intros)+

lemma rotate_follows: "follows_epochs (rotate_group_epoch_if_encrypted g u reason) s"
  unfolding rotate_group_epoch_if_encrypted_def
  by (rule kept_then, intro ensures_intros) (auto intro: epochs.traced_then[OF next_epoch_traced])

lemma enable_transaction_follows: "e \<le> s g \<Longrightarrow> follows_epochs (enable_transaction L g u e es) s"
  unfolding enable_transaction_def
  by (erule store_follows) (auto dest: stored_all_epochs split: option.splits)

lemma group_enable_follows: "follows_epochs (enable_group_encryption L config headers g request) s"
  unfolding enable_group_encryption_def
  apply (rule kept_then, intro ensures_intros)+
  apply (rule epochs.traced_then[OF next_epoch_traced])
   apply (rule epochs.traced_then[OF enable_transaction_follows])
     apply simp_all
  done

lemma push_store_follows: "e \<le> s g \<Longrightarrow> follows_epochs (sql_execute (\<lambda>w.
    case store_sender_key L g u e entry (aw_sender_keys w) of
      None \<Rightarrow> (Inl ESqlx, w) | Some rows \<Rightarrow> (Inr (), w\<lparr>aw_sender_keys := rows\<rparr>))) s"
  by (erule store_follows) (auto dest: stored_epochs split: option.splits)

lemma group_push_follows: "follows_epochs (push_sender_key L config headers g request) s"
  unfolding push_sender_key_def
  apply (rule kept_then, intro ensures_intros)+
  apply (rule epochs.traced_then[OF read_epoch_traced])
   apply (rule epochs.traced_then[where Q = "\<lambda>res s. \<forall>e. res = Inr e \<longrightarrow> e \<le> s g"])
     apply (auto simp: ok_or_def split: option.split)[1]
    apply (rule epochs.traced_then[OF push_store_follows])
      apply simp_all
  done

lemma group_disable_follows: "follows_epochs (disable_group_encryption L config headers g) s"
  unfolding disable_group_encryption_def
  apply (rule kept_then, intro ensures_intros)+
  apply (rule epochs.traced_then[OF rotate_follows])
   apply (rule kept_then, rule keeps_fewer; (force simp: delete_where_def)?)+
   apply simp_all
  done

lemma group_remove_follows: "follows_epochs (remove_member_sender_keys L config headers g u) s"
  unfolding remove_member_sender_keys_def
  apply (rule kept_then, intro ensures_intros)+
  apply (rule epochs.traced_then[OF rotate_follows])
   apply (rule kept_then, rule keeps_fewer; (force simp: delete_where_def)?)
   apply simp_all
  done

section \<open>Epochs\<close>

definition group_task :: "api_lib \<Rightarrow> api_config \<Rightarrow> string api \<Rightarrow> bool" where
  "group_task L config t \<longleftrightarrow> (\<exists>headers g.
     (\<exists>request. t = enable_group_encryption L config headers g request) \<or> t = disable_group_encryption L config headers g \<or>
     (\<exists>request. t = push_sender_key L config headers g request) \<or>
     (\<exists>user_id. t = remove_member_sender_keys L config headers g user_id))"

lemma group_task_follows: "group_task L config t \<Longrightarrow> follows_epochs t s"
  unfolding group_task_def
  by (elim exE disjE) (simp_all add: group_enable_follows group_disable_follows group_push_follows group_remove_follows)

text \<open>
  C32: Epochs. Handlers that enable and disable the encryption of groups, send sender keys and remove
  those of members run side by side, interleaved in any way, with any commands failing. The newest
  epoch of a group never falls, and no stored sender key belongs to an epoch that was not reached.
\<close>

theorem epochs_never_fall:
  assumes "\<forall>t \<in> set ts. group_task L config t" "epochs_ok w" "sys_runs groups_env (ts, w) (ts', w')"
  shows "epochs_ok w' \<and> (\<forall>g. top_epoch g w \<le> top_epoch g w')"
proof -
  let ?s = "\<lambda>g. top_epoch g w"
  have "epochs_known ?s w" using assms(2) by (simp add: epochs_known_def)
  moreover have "list_all2 (\<lambda>t Q. lasting (\<le>) Q \<and> traced epochs_known (\<le>) t Q ?s) ts (replicate (length ts) (\<lambda>_ _. True))"
    using assms(1) by (auto simp: list_all2_conv_all_nth lasting_def intro: group_task_follows)
  ultimately obtain s' where "?s \<le> s'" "epochs_known s' w'" using epochs.runs_traced[OF assms(3)] by blast
  then show ?thesis unfolding epochs_known_def le_fun_def by (meson order_trans)
qed

text \<open>Group 5 of Alice, who leads it, Bob and Carol, in epoch 1.\<close>

definition sample_member :: "int \<Rightarrow> int \<Rightarrow> member_row" where
  "sample_member user_id role = \<lparr>gm_id = user_id, gm_group_id = 5, gm_user_id = user_id, gm_nickname = None,
     gm_role = role, gm_status = 1, gm_join_time = 0\<rparr>"

definition group_device :: "int \<Rightarrow> string \<Rightarrow> device_row" where
  "group_device user_id device_id = \<lparr>dv_user_id = user_id, dv_device_id = device_id, dv_status = ''active'',
     dv_identity_key = ''ik'', dv_signing_identity_key = ''sk'', dv_signed_pre_key = ''spk'',
     dv_signed_pre_key_signature = ''sig'', dv_last_active_at = 1700000000\<rparr>"

definition sample_epoch :: "int \<Rightarrow> epoch_row" where
  "sample_epoch e = \<lparr>ep_group_id = 5, ep_epoch = e, ep_key_version = e, ep_reason = ''enable'', ep_created_by = 1\<rparr>"

definition sample_key :: "int \<Rightarrow> int \<Rightarrow> string \<Rightarrow> int \<Rightarrow> sender_key_row" where
  "sample_key sender recipient device epoch = \<lparr>sk_group_id = 5, sk_sender_id = sender, sk_device_id = device,
     sk_recipient_id = recipient, sk_epoch = epoch, sk_encrypted = ''key'', sk_counter = 0\<rparr>"

definition group_world :: "epoch_row list \<Rightarrow> sender_key_row list \<Rightarrow> api_world" where
  "group_world es ks = (empty_world 1700000000000)\<lparr>
     aw_members := [sample_member 1 3, sample_member 2 1, sample_member 3 1],
     aw_devices := [group_device 1 ''a'', group_device 2 ''b'', group_device 3 ''c''],
     aw_e2ee_groups := [\<lparr>ge_group_id = 5, ge_status = ''encrypted'', ge_enabled_by = 1\<rparr>],
     aw_epochs := es, aw_sender_keys := ks\<rparr>"

abbreviation removes :: "string \<Rightarrow> int \<Rightarrow> string api" where
  "removes who user_id \<equiv> remove_member_sender_keys sample_api sample_api_config (bearer who) 5 user_id"

abbreviation pushes :: "string \<Rightarrow> int \<Rightarrow> string \<Rightarrow> string api" where
  "pushes who recipient device \<equiv> push_sender_key sample_api sample_api_config (bearer who) 5
     \<lparr>pk_recipient_id = recipient, pk_device_id = device, pk_encrypted = ''key''\<rparr>"

abbreviation fetches :: "string \<Rightarrow> sender_key_dto list api" where
  "fetches who \<equiv> get_my_sender_keys sample_api sample_api_config (bearer who) 5"

lemmas group_reads = caller_of_def bearer_identity sample_user_def ensure_group_member_def ensure_group_admin_def
  ensure_device_exists_def group_status_def current_group_epoch_def next_group_epoch_def
  rotate_group_epoch_if_encrypted_def max_epoch_def shown_epoch_def act_check_def now_ms_def act_get_def sql_query_def
  command_def sample_collation next_outcome_def outcome_used_def Let_def count_where_def active_device_def
  active_member_def group_world_def empty_world_def sample_member_def group_device_def sample_epoch_def sample_key_def

lemmas group_steps = group_reads insert_epoch_def store_sender_key_def sender_key_key_def insert_or_update_def
  update_where_def delete_where_def sender_key_dto_of_def ok_or_def sql_execute_def

lemma removed: "run (removes ''bob'' 2) (group_world [sample_epoch 1] []) =
    (Inr ''ok'', group_world [sample_epoch 1, (sample_epoch 2)\<lparr>ep_reason := ''member_remove'', ep_created_by := 2\<rparr>] [])"
  by (simp add: remove_member_sender_keys_def group_steps)

theorem epochs_never_fall_witness:
  "epochs_ok (group_world [sample_epoch 1] []) \<and>
   (\<exists>ts' w'. sys_runs groups_env ([removes ''bob'' 2], group_world [sample_epoch 1] []) (ts', w') \<and>
     epochs_ok w' \<and> top_epoch 5 (group_world [sample_epoch 1] []) = 1 \<and> top_epoch 5 w' = 2)"
proof -
  let ?t = "removes ''bob'' 2" and ?w = "group_world [sample_epoch 1] []"
  let ?w' = "group_world [sample_epoch 1, (sample_epoch 2)\<lparr>ep_reason := ''member_remove'', ep_created_by := 2\<rparr>] []"
  obtain n where n: "schedule (replicate n 0) ([?t], ?w) = ([Ret (fst (run ?t ?w))], snd (run ?t ?w))"
    using schedule_alone[of 0 "[?t]" ?t ?w] by auto
  have runs: "sys_runs groups_env ([?t], ?w) ([act_ok ''ok''], ?w')"
    using schedule_runs[of groups_env "([?t], ?w)" "replicate n 0"] unfolding n removed by simp
  have ok: "epochs_ok ?w" by (auto simp: epochs_ok_def epochs_of_def group_world_def empty_world_def sample_epoch_def)
  have task: "\<forall>t \<in> set [?t]. group_task sample_api sample_api_config t" unfolding group_task_def by auto
  have "top_epoch 5 ?w = 1" "top_epoch 5 ?w' = 2"
    by (simp_all add: top_epoch_def max_epoch_def group_world_def sample_epoch_def)
  with runs ok epochs_never_fall[OF task ok runs] show ?thesis by blast
qed

section \<open>A removal that does not rotate\<close>



abbreviation epoch_two :: "epoch_row" where
  "epoch_two \<equiv> (sample_epoch 2)\<lparr>ep_reason := ''member_remove'', ep_created_by := 2\<rparr>"

lemma pushed: "run (pushes ''alice'' 3 ''c'') (group_world [sample_epoch 1, epoch_two] []) =
    (Inr ''ok'', group_world [sample_epoch 1, epoch_two] [sample_key 1 3 ''c'' 2])"
  by (simp add: push_sender_key_def group_steps)





section \<open>Strangers\<close>

lemma known_caller_run:
  "identity_from_headers L (aw_now w) headers config = Inr caller \<Longrightarrow> run (caller_of L config headers) w = (Inr caller, w)"
  by (simp add: caller_of_def run_simps)

text \<open>
  C34: Strangers rotate. Anybody may remove the sender keys of one's own, of any group, member or not:
  when nothing else happens meanwhile this succeeds for every authenticated caller, and in a group that
  is encrypted it starts a new epoch. No member is then given any sender key, until all keys have been
  sent again.
\<close>

theorem stranger_rotates:
  assumes "quiet w" "epochs_ok w" "identity_from_headers L (aw_now w) headers config = Inr caller"
    and "map_option ge_status (row_of ge_group_id g (aw_e2ee_groups w)) = Some ''encrypted''" "top_epoch g w < 2 ^ 31 - 1"
    and "run (remove_member_sender_keys L config headers g (id_user_id caller)) w = (res, w')"
  shows "res = Inr ''ok'' \<and> top_epoch g w' = top_epoch g w + 1 \<and>
    (\<forall>headers' keys w''. run (get_my_sender_keys L config headers' g) w' = (Inr keys, w'') \<longrightarrow> keys = [])"
proof -
  define e where "e = top_epoch g w + 1"
  have "0 \<le> top_epoch g w" using epochs_positive[OF assms(2)] by (cases "max_epoch g w") (auto simp: top_epoch_def)
  define w1 where "w1 = epoch_inserted g e (id_user_id caller) ''member_remove'' w"
  have quiet: "quiet w1" using assms(1) by (simp add: quiet_def w1_def epoch_inserted_def)
  have rotated: "run (rotate_group_epoch_if_encrypted g (id_user_id caller) ''member_remove'') w = (Inr (Some e), w1)"
    using assms(1,4,5) unfolding rotate_group_epoch_if_encrypted_def group_status_def next_group_epoch_def
      current_group_epoch_def insert_epoch_def epoch_inserted_def[symmetric]
    by (simp add: run_simps Let_def w1_def e_def top_epoch_def)
  let ?w = "w1\<lparr>aw_sender_keys := delete_where (\<lambda>r. sk_group_id r = g \<and> sk_sender_id r = id_user_id caller) (aw_sender_keys w1)\<rparr>"
  have res: "res = Inr ''ok''" "w' = ?w"
    using assms(6) rotated known_caller_run[OF assms(3)] quiet
    by (simp_all add: remove_member_sender_keys_def run_simps)
  have "max_epoch g w' = max_epoch g w1" by (simp add: res(2) max_epoch_def)
  then have top: "max_epoch g w' = Some e"
    by (auto simp: w1_def max_epoch_inserted e_def top_epoch_def split: option.splits)
  have "keys = []" if run: "run (get_my_sender_keys L config headers' g) w' = (Inr keys, w'')" for headers' keys w''
  proof -
    have "quiet w'" using quiet by (simp add: res(2) quiet_def)
    then obtain u where "keys = map sender_key_dto_of (sort_key sk_sender_id (filter (\<lambda>r. sk_group_id r = g \<and>
        sk_recipient_id r = u \<and> sk_epoch r = e) (aw_sender_keys w')))"
      using run top by (auto simp: get_my_sender_keys_def caller_of_def ensure_group_member_def shown_epoch_def
          current_group_epoch_def run_simps split: sum.splits if_splits)
    moreover have "sk_epoch r \<noteq> e" if "r \<in> set (aw_sender_keys w')" "sk_group_id r = g" for r
      using that assms(2) by (auto simp: res(2) w1_def epoch_inserted_def epochs_ok_def e_def)
    ultimately show ?thesis by (auto simp: filter_empty_conv)
  qed
  with res(1) top show ?thesis by (simp add: top_epoch_def e_def)
qed

theorem stranger_rotates_witness:
  "\<exists>w'. run (remove_member_sender_keys sample_api sample_api_config (bearer ''carol'') 5 3)
       ((group_world [sample_epoch 1] [sample_key 1 2 ''b'' 1])\<lparr>aw_members := [sample_member 1 3, sample_member 2 1]\<rparr>) = (Inr ''ok'', w') \<and>
     top_epoch 5 w' = 2 \<and> fst (run (fetches ''bob'') w') = Inr []"
proof -
  let ?w = "(group_world [sample_epoch 1] [sample_key 1 2 ''b'' 1])\<lparr>aw_members := [sample_member 1 3, sample_member 2 1]\<rparr>"
  let ?t = "remove_member_sender_keys sample_api sample_api_config (bearer ''carol'') 5 3"
  have w: "quiet ?w" "top_epoch 5 ?w = 1" "epochs_ok ?w"
    by (auto simp: quiet_def top_epoch_def max_epoch_def epochs_ok_def epochs_of_def group_world_def empty_world_def
        sample_epoch_def sample_key_def)
  have caller: "identity_from_headers sample_api (aw_now ?w) (bearer ''carol'') sample_api_config =
      Inr \<lparr>id_user_id = 3, id_username = ''carol''\<rparr>" by (simp add: bearer_identity sample_user_def)
  have encrypted: "map_option ge_status (row_of ge_group_id 5 (aw_e2ee_groups ?w)) = Some ''encrypted''"
    by (simp add: group_world_def)
  obtain res w' where run: "run ?t ?w = (res, w')" by fastforce
  then have run': "run (remove_member_sender_keys sample_api sample_api_config (bearer ''carol'') 5
      (id_user_id \<lparr>id_user_id = 3, id_username = ''carol''\<rparr>)) ?w = (res, w')" by simp
  have small: "top_epoch 5 ?w < 2 ^ 31 - 1" using w(2) by simp
  have fetched: "fst (run (fetches ''bob'') (snd (run ?t ?w))) = Inr []"
    by (simp add: remove_member_sender_keys_def get_my_sender_keys_def group_steps)
  from stranger_rotates[OF w(1,3) caller encrypted small run'] have "res = Inr ''ok''" "top_epoch 5 w' = 2"
    unfolding w(2) by simp_all
  with run fetched show ?thesis by auto
qed

section \<open>A second device\<close>

text \<open>
  Second devices. The encryption of a group cannot be enabled with keys for two devices of one
  member: the check that all recipients are members compares the number of rows it finds with the
  number of recipients that are listed. The caller is told that no one is not a member, and nothing
  changes.
\<close>

theorem second_device_refused:
  assumes "quiet w" "distinct (map (\<lambda>r. (gm_group_id r, gm_user_id r)) (aw_members w))"
    and "\<not> distinct (map en_recipient_id (eg_sender_keys request))"
    and "run (enable_group_encryption L config headers g request) w = (res, w')"
  shows "(\<exists>e. res = Inl e) \<and> w' = w"
proof -
  let ?ids = "map en_recipient_id (eg_sender_keys request)"
  let ?found = "map gm_user_id (filter (\<lambda>r. gm_group_id r = g \<and> gm_status r = 1 \<and> gm_user_id r \<in> set ?ids) (aw_members w))"
  have "distinct ?found" using assms(2) by (auto simp: distinct_map inj_on_def)
  then have "length ?found = card (set ?found)" by (rule distinct_card[symmetric])
  also have "\<dots> \<le> card (set ?ids)" by (rule card_mono) auto
  also have "\<dots> < length ?ids" using assms(3) card_length[of ?ids] card_distinct[of ?ids] by fastforce
  finally have "length ?found \<noteq> length ?ids" by simp
  moreover have "?ids \<noteq> []" using assms(3) by fastforce
  ultimately have "\<exists>e. run (ensure_group_members_batch g ?ids) w = (Inl e, w)"
    using assms(1) by (simp add: ensure_group_members_batch_def run_simps)
  with assms(1,4) show ?thesis
    by (auto simp: enable_group_encryption_def caller_of_def ensure_group_admin_def run_simps split: sum.splits if_splits)
qed

theorem second_device_refused_witness:
  "fst (run (enable_group_encryption sample_api sample_api_config (bearer ''alice'') 5 \<lparr>eg_sender_keys =
      [\<lparr>en_recipient_id = 2, en_device_id = ''b'', en_encrypted = ''k''\<rparr>, \<lparr>en_recipient_id = 2, en_device_id = ''d'', en_encrypted = ''l''\<rparr>]\<rparr>)
      ((group_world [] [])\<lparr>aw_devices := [group_device 1 ''a'', group_device 2 ''b'', group_device 2 ''d'']\<rparr>)) \<noteq> Inr ''ok''"
proof -
  let ?w = "(group_world [] [])\<lparr>aw_devices := [group_device 1 ''a'', group_device 2 ''b'', group_device 2 ''d'']\<rparr>"
  have w: "quiet ?w" "distinct (map (\<lambda>r. (gm_group_id r, gm_user_id r)) (aw_members ?w))"
    by (simp_all add: quiet_def group_world_def empty_world_def sample_member_def)
  show ?thesis
    using second_device_refused[OF w _ prod.collapse[symmetric], of "\<lparr>eg_sender_keys = [\<lparr>en_recipient_id = 2, en_device_id = ''b'',
      en_encrypted = ''k''\<rparr>, \<lparr>en_recipient_id = 2, en_device_id = ''d'', en_encrypted = ''l''\<rparr>]\<rparr>" sample_api sample_api_config
      "bearer ''alice''" 5] by auto
qed

section \<open>The daily cleanup\<close>

lemma stored_there:
  assumes "store_sender_key L g u e entry rows = Some rows'"
  shows "\<exists>k \<in> set rows'. sender_key_key L k = (g, u, ap_collate L (en_device_id entry), en_recipient_id entry, e) \<and>
    sk_encrypted k = en_encrypted entry"
proof -
  let ?new = "\<lparr>sk_group_id = g, sk_sender_id = u, sk_device_id = en_device_id entry,
     sk_recipient_id = en_recipient_id entry, sk_epoch = e, sk_encrypted = en_encrypted entry, sk_counter = 0\<rparr>"
  let ?f = "\<lambda>r. r\<lparr>sk_encrypted := en_encrypted entry, sk_counter := sk_counter r + 1\<rparr>"
  have rows': "rows' = insert_or_update (sender_key_key L) ?new ?f rows"
    using assms by (auto simp: store_sender_key_def Let_def split: if_splits)
  have key: "sender_key_key L ?new = (g, u, ap_collate L (en_device_id entry), en_recipient_id entry, e)"
    by (simp add: sender_key_key_def)
  show ?thesis
  proof (cases "\<exists>s \<in> set rows. sender_key_key L s = sender_key_key L ?new")
    case True
    then obtain s where s: "s \<in> set rows" "sender_key_key L s = sender_key_key L ?new" by blast
    then have "?f s \<in> set rows'" unfolding rows' insert_or_update_def by (auto simp: set_update_where intro!: bexI[of _ s])
    moreover have "sender_key_key L (?f s) = sender_key_key L s" by (simp add: sender_key_key_def)
    ultimately show ?thesis using s(2) key by (intro bexI[of _ "?f s"]) simp_all
  next
    case False
    then have "?new \<in> set rows'" unfolding rows' insert_or_update_def by auto
    with key show ?thesis by (intro bexI[of _ ?new]) simp_all
  qed
qed

text \<open>What one round leaves of the sender keys.\<close>

lemma cleanup_run:
  assumes "quiet w" "run (cleanup_stale_devices L) w = (res, w')" "k \<in> set (aw_sender_keys w')"
  shows "\<exists>d \<in> set (aw_devices w). dv_user_id d = sk_sender_id k \<and> ap_collate L (dv_device_id d) = ap_collate L (sk_device_id k) \<and>
    dv_status d = ''active''"
proof -
  let ?stale = "\<lambda>d. dv_status d = ''active'' \<and> dv_last_active_at d < sql_now w - 30 * 86400"
  let ?devices = "update_where ?stale (\<lambda>d. d\<lparr>dv_status := ''deleted''\<rparr>) (aw_devices w)"
  have quiet: "quiet (w\<lparr>aw_devices := ds\<rparr>)" "quiet (w\<lparr>aw_devices := ds, aw_opks := os\<rparr>)"
    "quiet (w\<lparr>aw_devices := ds, aw_opks := os, aw_claims := cs\<rparr>)" for ds os cs
    using assms(1) by (simp_all add: quiet_def)
  have "k \<in> set (aw_sender_keys w) \<and> (\<exists>d \<in> set ?devices. active_device L (sk_sender_id k) (sk_device_id k) d)"
    using assms by (auto simp: cleanup_stale_devices_def run_simps quiet device_is_active_def sql_now_def)
  then obtain d where "d \<in> set (aw_devices w)" "active_device L (sk_sender_id k) (sk_device_id k)
      (if ?stale d then d\<lparr>dv_status := ''deleted''\<rparr> else d)" by (auto simp: set_update_where)
  then show ?thesis by (intro bexI[of _ d]) (auto simp: active_device_def split: if_splits)
qed

text \<open>
  The cleanup deletes the keys of others. A sender key is stored under the device of its recipient,
  as that is what the check of its device demands; the daily cleanup looks that device up among the
  devices of the sender. So every key that was sent to a device whose identifier is not also one of the
  sender's own is deleted by the next round, though all the devices are active.
\<close>

theorem cleanup_deletes_pushed_key:
  assumes "quiet w" "identity_from_headers L (aw_now w) headers config = Inr caller"
    and "\<forall>d \<in> set (aw_devices w). dv_user_id d = id_user_id caller \<longrightarrow> ap_collate L (dv_device_id d) \<noteq> ap_collate L (pk_device_id request)"
    and "run (push_sender_key L config headers g request) w = (Inr x, w1)" "run (cleanup_stale_devices L) w1 = (res, w2)"
  shows "(\<exists>k \<in> set (aw_sender_keys w1). sk_sender_id k = id_user_id caller \<and> sk_recipient_id k = pk_recipient_id request \<and>
      ap_collate L (sk_device_id k) = ap_collate L (pk_device_id request) \<and> sk_encrypted k = pk_encrypted request) \<and>
    (\<exists>d \<in> set (aw_devices w1). active_device L (pk_recipient_id request) (pk_device_id request) d) \<and>
    \<not> (\<exists>k \<in> set (aw_sender_keys w2). sk_sender_id k = id_user_id caller \<and>
      ap_collate L (sk_device_id k) = ap_collate L (pk_device_id request))"
proof -
  let ?entry = "\<lparr>en_recipient_id = pk_recipient_id request, en_device_id = pk_device_id request, en_encrypted = pk_encrypted request\<rparr>"
  have "\<exists>e rows. store_sender_key L g (id_user_id caller) e ?entry (aw_sender_keys w) = Some rows \<and> w1 = w\<lparr>aw_sender_keys := rows\<rparr> \<and>
      0 < count_where (active_device L (pk_recipient_id request) (pk_device_id request)) (aw_devices w)"
    using assms(1,4) known_caller_run[OF assms(2)]
    by (auto simp: push_sender_key_def ensure_group_member_def ensure_device_exists_def group_status_def
        current_group_epoch_def ok_or_def run_simps split: option.splits if_splits)
  then obtain e rows where stored: "store_sender_key L g (id_user_id caller) e ?entry (aw_sender_keys w) = Some rows"
    and w1: "w1 = w\<lparr>aw_sender_keys := rows\<rparr>"
    and active: "\<exists>d \<in> set (aw_devices w1). active_device L (pk_recipient_id request) (pk_device_id request) d"
    by (auto simp: count_where_pos)
  have "quiet w1" using assms(1) by (simp add: w1 quiet_def)
  from cleanup_run[OF this assms(5)] assms(3) have gone: "\<not> (\<exists>k \<in> set (aw_sender_keys w2). sk_sender_id k = id_user_id caller \<and>
      ap_collate L (sk_device_id k) = ap_collate L (pk_device_id request))" by (fastforce simp: w1)
  from stored_there[OF stored] active gone show ?thesis by (auto simp: w1 sender_key_key_def)
qed

theorem cleanup_deletes_pushed_key_witness:
  "\<exists>w1. run (pushes ''alice'' 3 ''c'') (group_world [sample_epoch 1, epoch_two] []) = (Inr ''ok'', w1) \<and>
     aw_sender_keys w1 = [sample_key 1 3 ''c'' 2] \<and>
     \<not> (\<exists>k \<in> set (aw_sender_keys (snd (run (cleanup_stale_devices sample_api) w1))). sk_sender_id k = 1 \<and> sk_device_id k = ''c'')"
proof -
  let ?w = "group_world [sample_epoch 1, epoch_two] []"
  have w: "quiet ?w" by (simp add: quiet_def group_world_def empty_world_def)
  have caller: "identity_from_headers sample_api (aw_now ?w) (bearer ''alice'') sample_api_config =
      Inr \<lparr>id_user_id = 1, id_username = ''alice''\<rparr>" by (simp add: bearer_identity sample_user_def)
  have other: "\<forall>d \<in> set (aw_devices ?w). dv_user_id d = id_user_id \<lparr>id_user_id = 1, id_username = ''alice''\<rparr> \<longrightarrow>
      ap_collate sample_api (dv_device_id d) \<noteq> ap_collate sample_api
        (pk_device_id \<lparr>pk_recipient_id = 3, pk_device_id = ''c'', pk_encrypted = ''key''\<rparr>)"
    by (simp add: group_world_def group_device_def sample_collation)
  from cleanup_deletes_pushed_key[OF w caller other pushed prod.collapse[symmetric]]
  have "\<not> (\<exists>k \<in> set (aw_sender_keys (snd (run (cleanup_stale_devices sample_api)
      (group_world [sample_epoch 1, epoch_two] [sample_key 1 3 ''c'' 2])))). sk_sender_id k = 1 \<and> sk_device_id k = ''c'')"
    by (simp add: sample_collation)
  with pushed show ?thesis by (simp add: group_world_def)
qed

end
