(* ===== verification/Api_Im_Group_Properties.thy ===== *)
theory Api_Im_Group_Properties
  imports Api_Im_Groups Api_Social_Views Api_Group_Properties
begin

text \<open>
  What the handlers of groups guarantee: only its owner changes what a group shows or dismisses it; and a role
  that was given once is never taken back.
\<close>

text \<open>
  The rules behind the ownership of groups under interleaving: a history of the groups and their owners, and what
  every access of the handlers of groups does to what the members see of a group.
\<close>

section \<open>The history\<close>

text \<open>What a group shows of itself, and who owns it.\<close>

type_synonym group_face = "int \<times> string \<times> string option \<times> string option \<times> int \<times> int"

definition group_face :: "im_group_row \<Rightarrow> group_face" where
  "group_face g = (ig_id g, ig_name g, ig_announcement g, ig_avatar g, ig_owner_id g, ig_status g)"

definition faces :: "api_world \<Rightarrow> group_face set" where
  "faces w = group_face ` set (aw_im_groups w)"

definition ownership :: "im_group_row \<Rightarrow> int \<times> int" where
  "ownership g = (ig_id g, ig_owner_id g)"

text \<open>
  \<open>old\<close> are the groups at the beginning and \<open>changers\<close> the users that may change theirs: the other groups of
  the beginning look as they did.
\<close>

definition groups_logged :: "group_face set \<Rightarrow> int set \<Rightarrow> (int \<times> int) set \<Rightarrow> api_world \<Rightarrow> bool" where
  "groups_logged old changers s w \<longleftrightarrow> s = ownership ` set (aw_im_groups w) \<and> distinct (map ig_id (aw_im_groups w)) \<and>
     fst ` old \<subseteq> fst ` s \<and>
     (\<forall>g \<in> set (aw_im_groups w). group_face g \<in> old \<or> ig_id g \<notin> fst ` old \<or> ig_owner_id g \<in> changers)"

definition groups_same :: "api_world \<Rightarrow> api_world \<Rightarrow> bool" where
  "groups_same w w' \<longleftrightarrow> aw_im_groups w' = aw_im_groups w"

lemma logged_same: "aw_im_groups w' = aw_im_groups w \<Longrightarrow> groups_logged old changers s w \<Longrightarrow> groups_logged old changers s w'"
  unfolding groups_logged_def by (elim conjE) simp

interpretation group_log: social_history aw_im_groups "groups_logged old changers" "(\<subseteq>)" groups_same for old changers
  by unfold_locales (auto simp: groups_same_def outcome_used_def intro: logged_same)

abbreviation owned :: "group_face set \<Rightarrow> int set \<Rightarrow> 'a api \<Rightarrow> (int \<times> int) set \<Rightarrow> bool" where
  "owned old changers m s \<equiv> traced (groups_logged old changers) (\<subseteq>) m (\<lambda>_ _. True) s"

lemma groups_used: "groups_logged old changers s w \<Longrightarrow> groups_logged old changers s (outcome_used w)"
  by (rule logged_same) (simp_all add: outcome_used_def)

section \<open>Statements on groups\<close>

text \<open>An update of one group that keeps its number and its owner, and what it shows unless its owner may change it.\<close>

lemma changed_logged:
  assumes ok: "groups_logged old changers s w"
    and same: "\<And>g. ig_id (f g) = ig_id g" "\<And>g. ig_owner_id (f g) = ig_owner_id g"
    and face: "\<And>g. g \<in> set (aw_im_groups w) \<Longrightarrow> ig_id g = gid \<Longrightarrow> group_face (f g) = group_face g \<or> ig_owner_id g \<in> changers"
  shows "groups_logged old changers s (update_groups gid f w)"
proof -
  let ?h = "\<lambda>g. if ig_id g = gid then touched (sql_now w) g (f g) else g"
  define rs where "rs = map ?h (aw_im_groups w)"
  have rows: "aw_im_groups (update_groups gid f w) = rs" by (simp add: rs_def update_groups_def update_where_def)
  have keep: "ig_id (?h g) = ig_id g" "ig_owner_id (?h g) = ig_owner_id g" for g by (simp_all add: touched_def same)
  have shown: "group_face (?h g) = group_face g \<or> group_face (?h g) = group_face (f g) \<and> ig_id g = gid" for g
    by (simp add: touched_def group_face_def)
  have "ownership (?h g) = ownership g" for g by (simp add: ownership_def keep)
  then have owners: "ownership ` set rs = ownership ` set (aw_im_groups w)" unfolding rs_def by (simp only: set_map image_image)
  have ids: "map ig_id rs = map ig_id (aw_im_groups w)" by (simp add: rs_def keep)
  have "\<forall>g \<in> set rs. group_face g \<in> old \<or> ig_id g \<notin> fst ` old \<or> ig_owner_id g \<in> changers"
  proof
    fix g' assume "g' \<in> set rs"
    then obtain g where g: "g \<in> set (aw_im_groups w)" "g' = ?h g" unfolding rs_def by auto
    then have "group_face g \<in> old \<or> ig_id g \<notin> fst ` old \<or> ig_owner_id g \<in> changers"
      using ok by (simp add: groups_logged_def)
    then show "group_face g' \<in> old \<or> ig_id g' \<notin> fst ` old \<or> ig_owner_id g' \<in> changers"
      using shown[of g] face[OF g(1)] unfolding g(2) keep by metis
  qed
  with ok show ?thesis unfolding groups_logged_def rows owners ids by blast
qed

lemma recounted: "owned old changers (refresh_group_member_count gid) s"
  unfolding refresh_group_member_count_def
  by (rule group_log.kept_statement, simp, rule changed_logged) (simp_all add: group_face_def)

lemma owner_traced: "traced (groups_logged old changers) (\<subseteq>) (ensure_group_owner gid u) (\<lambda>r s. r = Inr () \<longrightarrow> (gid, u) \<in> s) s"
  unfolding ensure_group_owner_def sql_query_def
proof (rule group_log.traced_then)
  let ?found = "\<lambda>w. 0 < count_where (\<lambda>g. ig_id g = gid \<and> ig_owner_id g = u \<and> ig_status g = 1) (aw_im_groups w)"
  show "traced (groups_logged old changers) (\<subseteq>) (command ESqlx (\<lambda>w. (Inr (?found w), w)))
      (\<lambda>r s. r = Inr True \<longrightarrow> (gid, u) \<in> s) s"
  proof (rule traced_command, goal_cases)
    case (3 s1 w)
    have "(gid, u) \<in> s1" if "?found w"
      using 3(2) that by (auto simp: groups_logged_def ownership_def count_where_pos)
    with 3(2) show ?case by (intro exI[of _ s1]) simp
  qed (simp_all add: groups_used)
qed (auto simp: act_check_def)

text \<open>A statement on a group whose owner may change it.\<close>

lemma owner_changes:
  assumes "(gid, u) \<in> s" "u \<in> changers"
    and "\<And>g. ig_id (f g) = ig_id g" "\<And>g. ig_owner_id (f g) = ig_owner_id g"
    and "\<And>w. snd (h w) = w \<or> snd (h w) = update_groups gid f w"
  shows "owned old changers (sql_execute h) s"
  unfolding sql_execute_def
proof (rule traced_command)
  fix s1 w assume s1: "s \<subseteq> s1" and ok: "groups_logged old changers s1 w"
  have "ig_owner_id g = u" if "g \<in> set (aw_im_groups w)" "ig_id g = gid" for g
  proof -
    have "(gid, u) \<in> ownership ` set (aw_im_groups w)" "distinct (map ig_id (aw_im_groups w))"
      using assms(1) s1 ok by (auto simp: groups_logged_def)
    with that show ?thesis by (auto simp: ownership_def distinct_map dest: inj_onD)
  qed
  then have "groups_logged old changers s1 (update_groups gid f w)"
    using assms(2) by (intro changed_logged[OF ok assms(3,4)]) auto
  with ok assms(5)[of w] have "groups_logged old changers s1 (snd (h w))" by (elim disjE) simp_all
  then show "\<exists>s2. s1 \<subseteq> s2 \<and> groups_logged old changers s2 (snd (h w)) \<and> True" by blast
qed (simp_all add: groups_used)

lemma inserted: "owned old changers (insert_group L i name avatar announcement u n) s"
  unfolding insert_group_def sql_execute_def
proof (rule traced_command, goal_cases)
  case (3 s1 w)
  have stays: ?case if "snd (case (row_of ig_id i (aw_im_groups w), ap_varchar L 100 name, column (ap_varchar L 500) avatar,
         column (ap_varchar L 65535) announcement) of
       (None, Some name, Some avatar, Some announcement) \<Rightarrow> (Inr (), w\<lparr>aw_im_groups := aw_im_groups w @
         [\<lparr>ig_id = i, ig_name = name, ig_avatar = avatar, ig_announcement = announcement, ig_owner_id = u, ig_type = 1,
           ig_max_members = 500, ig_member_count = n, ig_status = 1, ig_created_time = sql_now w,
           ig_updated_time = sql_now w\<rparr>]\<rparr>)
     | _ \<Rightarrow> (Inl ESqlx, w)) = w"
    unfolding that using 3(2) by blast
  show ?case
  proof (cases "row_of ig_id i (aw_im_groups w) = None \<and> ap_varchar L 100 name \<noteq> None \<and>
      column (ap_varchar L 500) avatar \<noteq> None \<and> column (ap_varchar L 65535) announcement \<noteq> None")
    case False
    then show ?thesis by (intro stays) (auto split: option.split)
  next
    case True
    then obtain a b c where cols: "row_of ig_id i (aw_im_groups w) = None" "ap_varchar L 100 name = Some a"
      "column (ap_varchar L 500) avatar = Some b" "column (ap_varchar L 65535) announcement = Some c" by auto
    let ?g = "\<lparr>ig_id = i, ig_name = a, ig_avatar = b, ig_announcement = c, ig_owner_id = u, ig_type = 1,
      ig_max_members = 500, ig_member_count = n, ig_status = 1, ig_created_time = sql_now w, ig_updated_time = sql_now w\<rparr>"
    have new: "i \<notin> ig_id ` set (aw_im_groups w)" using cols(1) by (auto simp: row_of_None)
    moreover have "fst ` ownership ` set (aw_im_groups w) = ig_id ` set (aw_im_groups w)"
      by (simp add: image_image ownership_def)
    ultimately have "i \<notin> fst ` old" using 3(2) unfolding groups_logged_def by blast
    then have "groups_logged old changers (insert (i, u) s1) (w\<lparr>aw_im_groups := aw_im_groups w @ [?g]\<rparr>)"
      using 3(2) new by (auto simp: groups_logged_def ownership_def)
    then show ?thesis using cols by (intro exI[of _ "insert (i, u) s1"]) auto
  qed
qed (simp_all add: groups_used)

section \<open>The handlers\<close>

abbreviation leaves_groups :: "'a api \<Rightarrow> bool" where
  "leaves_groups m \<equiv> guarantees (\<lambda>_. True) (\<lambda>w w'. aw_im_groups w' = aw_im_groups w) m"

lemma members_leave_groups [ensures_intros]:
  "leaves_groups (store_member i g u role)" "leaves_groups (leave_transaction g u)" "leaves_groups (group_status g)"
  "leaves_groups (next_group_epoch g u reason)" "leaves_groups (rotate_group_epoch_if_encrypted g u reason)"
  "leaves_groups (add_group_member n g u role)" "leaves_groups (ensure_group_member g u)"
  "leaves_groups (ensure_group_exists g)" "leaves_groups (load_group L g)" "leaves_groups (load_group_members L g)"
proof -
  show store: "leaves_groups (store_member i g u role)" for i g u role
    unfolding store_member_def sql_execute_def by (rule group_log.same_command) simp
  show "leaves_groups (leave_transaction g u)"
    unfolding leave_transaction_def sql_execute_def by (rule group_log.same_command) simp
  have insert: "leaves_groups (insert_epoch g e u reason)" for g e u reason
    unfolding insert_epoch_def sql_execute_def by (rule group_log.same_command) simp
  show status: "leaves_groups (group_status g)" for g unfolding group_status_def by (intro ensures_intros)
  show epoch: "leaves_groups (next_group_epoch g u reason)" for g u reason
    unfolding next_group_epoch_def current_group_epoch_def Let_def by (intro ensures_intros insert)
  show rotate: "leaves_groups (rotate_group_epoch_if_encrypted g u reason)" for g u reason
    unfolding rotate_group_epoch_if_encrypted_def by (intro ensures_intros status epoch)
  show "leaves_groups (add_group_member n g u role)"
    unfolding add_group_member_def by (intro ensures_intros store rotate)
  show "leaves_groups (ensure_group_member g u)" "leaves_groups (ensure_group_exists g)" "leaves_groups (load_group L g)"
    "leaves_groups (load_group_members L g)"
    unfolding ensure_group_member_def ensure_group_exists_def load_group_def load_group_members_def
    by (intro ensures_intros)+
qed

lemma resolved_leave_groups [ensures_intros]:
  "leaves_groups (resolve_active_user_id u)" "leaves_groups (resolve_members us)" "leaves_groups (add_members n g us)"
proof -
  show u: "leaves_groups (resolve_active_user_id u)" for u
    unfolding resolve_active_user_id_def by (intro ensures_intros)
  show "leaves_groups (resolve_members us)" by (induction us) (simp_all, intro ensures_intros u)
  show "leaves_groups (add_members n g us)" by (induction us) (simp_all, intro ensures_intros u)
qed

lemma sequences_leave_groups [ensures_intros]: "leaves_groups (initialize_group_read_sequences url n g us)"
proof -
  have cursor: "leaves_groups (sql_execute (\<lambda>w. (Inr (), w\<lparr>aw_group_cursors := f w\<rparr>)))" for f
    unfolding sql_execute_def by (rule group_log.same_command) simp
  show ?thesis
    unfolding initialize_group_read_sequences_def social_group_sequence_def sequence_or_stored_def hot_peek_i64_def
    by (intro ensures_intros cursor)
qed

lemma readers_owned:
  "owned old changers (user_groups L config headers u) s"
  "owned old changers (search_groups L config headers params) s"
  "owned old changers (group_members L config headers body) s"
  "owned old changers (internal_group_member_ids L config headers path g) s"
  unfolding user_groups_def search_groups_def group_members_def internal_group_member_ids_def Let_def signed_by_server_def
  by (rule group_log.unseen_follows, intro ensures_intros)+

lemma joined_owned: "owned old changers (join_group L config headers g) s"
  unfolding join_group_def
  apply (intro group_log.caller_after group_log.resolve_after group_log.unseen_then[OF members_leave_groups(8)]
      group_log.unseen_then[OF members_leave_groups(6)] known_then group_log.unseen_then[OF sequences_leave_groups] TrueI)
  apply (rule group_log.follows_then[OF recounted], simp)
  done

lemma added_owned: "owned old changers (add_group_members L config headers g payload) s"
proof -
  have counted: "owned old changers (if added = [] then act_ok True
     else
       act_then (Ret (social_redis_for_group config g)) (\<lambda>url.
       act_then (initialize_group_read_sequences url n g added) (\<lambda>_.
       act_then (refresh_group_member_count g) (\<lambda>_. act_ok True)))) s" for g n added s
    by (cases "added = []", simp, simp only: if_False)
      (intro known_then group_log.unseen_then[OF sequences_leave_groups] group_log.follows_then[OF recounted] TrueI, simp)
  show ?thesis
    unfolding add_group_members_def
    by (intro group_log.caller_after group_log.resolve_after group_log.unseen_then[OF members_leave_groups(7)]
        checked_then group_log.unseen_then[OF resolved_leave_groups(3)] counted TrueI)
qed

lemma left_owned: "owned old changers (leave_group L config headers g) s"
  unfolding leave_group_def
  by (intro group_log.caller_after group_log.resolve_after group_log.unseen_then[OF members_leave_groups(2)]
      group_log.unseen_then[OF members_leave_groups(5)] group_log.follows_then[OF recounted] TrueI) simp

lemma created_owned: "owned old changers (create_group L config headers payload) s"
  unfolding create_group_def Let_def
  by (intro group_log.caller_after known_then group_log.unseen_then[OF group_log.same_local(1)]
      group_log.unseen_then[OF resolved_leave_groups(2)] checked_then group_log.follows_then[OF inserted] TrueI,
      rule group_log.unseen_follows) (intro ensures_intros)

lemma owner_check_then:
  assumes "\<And>s1. s \<subseteq> s1 \<Longrightarrow> (g, u) \<in> s1 \<Longrightarrow> owned old changers (f ()) s1"
  shows "owned old changers (act_then (ensure_group_owner g u) f) s"
  by (rule group_log.traced_then[OF owner_traced]) (use assms in auto)

lemma changed_owned:
  assumes "callers L config headers \<subseteq> changers"
  shows "owned old changers (dismiss_group L config headers g) s"
    and "owned old changers (update_group L config headers g payload) s"
proof -
  have keys: "owned old changers (sql_execute (\<lambda>w. (Inr (), w\<lparr>aw_sender_keys := f w\<rparr>))) s" for f s
    by (rule group_log.unseen_follows) (unfold sql_execute_def, rule group_log.same_command, simp)
  have dismissed: "owned old changers (sql_execute (\<lambda>w. (Inr (), update_groups g (\<lambda>g. g\<lparr>ig_status := 0\<rparr>) w))) s"
    if "(g, u) \<in> s" "u \<in> changers" for g u s
    by (rule owner_changes[OF that, where f = "\<lambda>g. g\<lparr>ig_status := 0\<rparr>"]) simp_all
  show "owned old changers (dismiss_group L config headers g) s"
    unfolding dismiss_group_def
    apply (intro group_log.caller_after group_log.resolve_after owner_check_then)
    apply (rule group_log.follows_then[OF dismissed], assumption, use assms in blast)
    apply (rule group_log.follows_then[OF keys], simp)
    done
  have updated: "owned old changers (sql_execute (\<lambda>w.
       if \<exists>g \<in> set (aw_im_groups w). ig_id g = gid \<and> change_group L name announcement avatar g = None
       then (Inl ESqlx, w)
       else (Inr (), update_groups gid (\<lambda>g. unwrap_or (change_group L name announcement avatar g) g) w))) s"
    if "(gid, u) \<in> s" "u \<in> changers" for gid u s name announcement avatar
    by (rule owner_changes[OF that, where f = "\<lambda>g. unwrap_or (change_group L name announcement avatar g) g"])
      (auto simp: change_group_def unwrap_or_def split: option.splits)
  show "owned old changers (update_group L config headers g payload) s"
    unfolding update_group_def Let_def
    apply (intro group_log.caller_after group_log.resolve_after owner_check_then)
    apply (rule group_log.follows_then[OF updated], assumption, use assms in blast)
    apply (rule group_log.unseen_follows, intro ensures_intros)
    done
qed

datatype group_call =
    User_groups header_map int
  | Search_groups header_map "string \<Rightarrow> string option"
  | Group_members header_map bytes
  | Member_ids header_map string int
  | Create_group header_map json
  | Join_group header_map int
  | Add_members header_map int json
  | Leave_group header_map int
  | Dismiss_group header_map int
  | Update_group header_map int json

primrec social_group_task :: "api_lib \<Rightarrow> api_config \<Rightarrow> group_call \<Rightarrow> unit api" where
  "social_group_task L config (User_groups hs u) = act_then (user_groups L config hs u) (\<lambda>_. act_ok ())"
| "social_group_task L config (Search_groups hs ps) = act_then (search_groups L config hs ps) (\<lambda>_. act_ok ())"
| "social_group_task L config (Group_members hs b) = act_then (group_members L config hs b) (\<lambda>_. act_ok ())"
| "social_group_task L config (Member_ids hs p g) = act_then (internal_group_member_ids L config hs p g) (\<lambda>_. act_ok ())"
| "social_group_task L config (Create_group hs p) = act_then (create_group L config hs p) (\<lambda>_. act_ok ())"
| "social_group_task L config (Join_group hs g) = act_then (join_group L config hs g) (\<lambda>_. act_ok ())"
| "social_group_task L config (Add_members hs g p) = act_then (add_group_members L config hs g p) (\<lambda>_. act_ok ())"
| "social_group_task L config (Leave_group hs g) = act_then (leave_group L config hs g) (\<lambda>_. act_ok ())"
| "social_group_task L config (Dismiss_group hs g) = act_then (dismiss_group L config hs g) (\<lambda>_. act_ok ())"
| "social_group_task L config (Update_group hs g p) = act_then (update_group L config hs g p) (\<lambda>_. act_ok ())"

section \<open>Owners\<close>

text \<open>The users for whom a call may change a group.\<close>

fun call_changers :: "api_lib \<Rightarrow> api_config \<Rightarrow> group_call \<Rightarrow> int set" where
  "call_changers L config (Dismiss_group hs g) = callers L config hs"
| "call_changers L config (Update_group hs g p) = callers L config hs"
| "call_changers L config _ = {}"

lemma task_owned: "call_changers L config call \<subseteq> changers \<Longrightarrow> owned old changers (social_group_task L config call) s"
  by (cases call) (auto intro!: group_log.follows_then readers_owned created_owned joined_owned added_owned left_owned
      changed_owned)

text \<open>
  C15: Ownership. However the handlers of groups interleave, with any commands failing, every group keeps its
  identifier and its owner, and its name, announcement, picture and status stay as they are unless its owner calls to
  change or dismiss a group.
\<close>

theorem only_owner_changes_group:
  assumes runs: "sys_runs groups_same (map (social_group_task L config) calls, w) (ts', w')"
    and start: "distinct (map ig_id (aw_im_groups w))" "g \<in> set (aw_im_groups w)"
  shows "\<exists>g' \<in> set (aw_im_groups w'). ig_id g' = ig_id g \<and> ig_owner_id g' = ig_owner_id g \<and>
    (ig_owner_id g \<notin> (\<Union>call \<in> set calls. call_changers L config call) \<longrightarrow> group_face g' = group_face g)"
proof -
  let ?changers = "\<Union>call \<in> set calls. call_changers L config call"
  let ?I = "groups_logged (faces w) ?changers" and ?s = "ownership ` set (aw_im_groups w)"
  have face: "fst (group_face g) = ig_id g" for g by (simp add: group_face_def)
  have inv: "?I ?s w" using start(1) by (auto simp: groups_logged_def faces_def image_image ownership_def group_face_def)
  have all: "list_all2 (\<lambda>t Q. lasting (\<subseteq>) Q \<and> traced ?I (\<subseteq>) t Q ?s)
      (map (social_group_task L config) calls) (replicate (length calls) (\<lambda>_ _. True))"
  proof (rule list_all2_all_nthI)
    fix n assume n: "n < length (map (social_group_task L config) calls)"
    then have "call_changers L config (calls ! n) \<subseteq> ?changers" using nth_mem by fastforce
    then have "owned (faces w) ?changers (social_group_task L config (calls ! n)) ?s" by (rule task_owned)
    with n show "lasting (\<subseteq>) (replicate (length calls) (\<lambda>_ _. True) ! n) \<and>
        traced ?I (\<subseteq>) (map (social_group_task L config) calls ! n) (replicate (length calls) (\<lambda>_ _. True) ! n) ?s"
      by (simp only: length_map nth_map nth_replicate) (simp only: lasting_def simp_thms)
  qed (simp only: length_map length_replicate)
  obtain s' where s': "?s \<subseteq> s'" "?I s' w'" using group_log.runs_traced[OF runs inv all] by (elim exE conjE)
  have "ownership g \<in> ownership ` set (aw_im_groups w')" using s' start(2) unfolding groups_logged_def by blast
  then obtain g' where g': "g' \<in> set (aw_im_groups w')" "ig_id g' = ig_id g" "ig_owner_id g' = ig_owner_id g"
    by (auto simp: ownership_def)
  have "ig_id g \<in> fst ` faces w" using start(2) face by (force simp: faces_def image_image)
  with s'(2) g' have "group_face g' \<in> faces w \<or> ig_owner_id g \<in> ?changers" unfolding groups_logged_def by metis
  moreover have "group_face g' = group_face g" if old: "group_face g' \<in> faces w"
  proof -
    obtain h where h: "h \<in> set (aw_im_groups w)" "group_face g' = group_face h"
      using old unfolding faces_def by blast
    then have "ig_id h = ig_id g" using face[of g'] face[of h] g'(2) by simp
    then have "h = g" using start h(1) by (auto simp: distinct_map dest: inj_onD)
    with h show ?thesis by simp
  qed
  ultimately show ?thesis using g' by blast
qed

text \<open>Group 5 belongs to Alice; Bob tries to dismiss it.\<close>

definition owned_group :: im_group_row where
  "owned_group = \<lparr>ig_id = 5, ig_name = ''g'', ig_avatar = None, ig_announcement = None, ig_owner_id = 1, ig_type = 1,
     ig_max_members = 500, ig_member_count = 2, ig_status = 1, ig_created_time = 0, ig_updated_time = 0\<rparr>"

definition owned_world :: api_world where
  "owned_world = (empty_world 1700000000000)\<lparr>aw_im_groups := [owned_group]\<rparr>"

lemma bearer_callers: "name \<in> {''alice'', ''bob'', ''carol''} \<Longrightarrow>
    callers sample_api sample_api_config (bearer name) = {the (sample_user name)}"
  by (auto simp: callers_def bearer_identity)

theorem only_owner_changes_group_witness:
  "\<exists>ts' w'. sys_runs groups_same ([social_group_task sample_api sample_api_config (Dismiss_group (bearer ''bob'') 5)], owned_world)
     (ts', w') \<and> (\<exists>g' \<in> set (aw_im_groups w'). ig_id g' = 5 \<and> ig_status g' = 1)"
proof -
  let ?c = "Dismiss_group (bearer ''bob'') 5"
  let ?t = "social_group_task sample_api sample_api_config ?c"
  obtain n where n: "schedule (replicate n 0) ([?t], owned_world) = ([Ret (fst (run ?t owned_world))], snd (run ?t owned_world))"
    using schedule_alone[of 0 "[?t]" ?t owned_world] by auto
  have runs: "sys_runs groups_same (map (social_group_task sample_api sample_api_config) [?c], owned_world)
      ([Ret (fst (run ?t owned_world))], snd (run ?t owned_world))"
    using schedule_runs[of groups_same "([?t], owned_world)" "replicate n 0"] unfolding n by simp
  have start: "distinct (map ig_id (aw_im_groups owned_world))" "owned_group \<in> set (aw_im_groups owned_world)"
    by (simp_all add: owned_world_def)
  have "ig_owner_id owned_group \<notin> (\<Union>call \<in> set [?c]. call_changers sample_api sample_api_config call)"
    by (simp add: bearer_callers sample_user_def owned_group_def)
  with only_owner_changes_group[OF runs start] show ?thesis
    using runs by (auto simp: group_face_def owned_group_def)
qed

section \<open>Roles\<close>

definition roles_kept :: "api_world \<Rightarrow> api_world \<Rightarrow> bool" where
  "roles_kept w w' \<longleftrightarrow> (\<forall>r \<in> set (aw_members w). \<exists>r' \<in> set (aw_members w'). gm_group_id r' = gm_group_id r \<and>
     gm_user_id r' = gm_user_id r \<and> gm_role r \<le> gm_role r')"

lemma roles_kept_refl [simp]: "roles_kept w w" by (auto simp: roles_kept_def)

lemma roles_kept_same: "aw_members w' = aw_members w \<Longrightarrow> roles_kept w w'" by (auto simp: roles_kept_def)

lemma roles_kept_trans: "roles_kept a b \<Longrightarrow> roles_kept b c \<Longrightarrow> roles_kept a c"
  unfolding roles_kept_def
proof
  fix r assume ab: "\<forall>r \<in> set (aw_members a). \<exists>r' \<in> set (aw_members b). gm_group_id r' = gm_group_id r \<and>
      gm_user_id r' = gm_user_id r \<and> gm_role r \<le> gm_role r'"
    and bc: "\<forall>r \<in> set (aw_members b). \<exists>r' \<in> set (aw_members c). gm_group_id r' = gm_group_id r \<and>
      gm_user_id r' = gm_user_id r \<and> gm_role r \<le> gm_role r'"
    and r: "r \<in> set (aw_members a)"
  from ab r obtain r1 where r1: "r1 \<in> set (aw_members b)" "gm_group_id r1 = gm_group_id r" "gm_user_id r1 = gm_user_id r"
    "gm_role r \<le> gm_role r1" by blast
  from bc r1(1) obtain r2 where "r2 \<in> set (aw_members c)" "gm_group_id r2 = gm_group_id r1" "gm_user_id r2 = gm_user_id r1"
    "gm_role r1 \<le> gm_role r2" by blast
  with r1 show "\<exists>r' \<in> set (aw_members c). gm_group_id r' = gm_group_id r \<and> gm_user_id r' = gm_user_id r \<and>
      gm_role r \<le> gm_role r'" by (intro bexI[of _ r2]) auto
qed

interpretation member_table: social_view aw_members
  by unfold_locales (simp_all add: outcome_used_def)

interpretation roles: shared_view "\<lambda>_. True" roles_kept roles_kept aw_members
  by unfold_locales (auto simp: outcome_used_def intro: roles_kept_trans roles_kept_same)

lemma members_unseen: "guarantees (\<lambda>_. True) (\<lambda>w w'. aw_members w' = aw_members w) m \<Longrightarrow> guarantees (\<lambda>_. True) roles_kept m"
  by (erule ensures_mono) (simp_all add: roles_kept_same)

lemmas roles_unseen [ensures_intros] =
  member_table.same_redis[THEN members_unseen] member_table.same_hot[THEN members_unseen]
  member_table.same_local[THEN members_unseen] member_table.same_parts[THEN members_unseen]
  member_table.same_resolved[THEN members_unseen]

definition kept_role :: "member_row list \<Rightarrow> member_row list \<Rightarrow> bool" where
  "kept_role rows rows' \<longleftrightarrow> (\<forall>r \<in> set rows. \<exists>r' \<in> set rows'. gm_group_id r' = gm_group_id r \<and>
     gm_user_id r' = gm_user_id r \<and> gm_role r \<le> gm_role r')"

lemma kept_update:
  assumes "\<And>r. gm_group_id (f r) = gm_group_id r" "\<And>r. gm_user_id (f r) = gm_user_id r" "\<And>r. gm_role r \<le> gm_role (f r)"
  shows "kept_role rows (update_where p f rows)"
  unfolding kept_role_def
proof
  fix r assume "r \<in> set rows"
  then have "(if p r then f r else r) \<in> set (update_where p f rows)" by (auto simp: update_where_def)
  then show "\<exists>r' \<in> set (update_where p f rows). gm_group_id r' = gm_group_id r \<and> gm_user_id r' = gm_user_id r \<and>
      gm_role r \<le> gm_role r'" by (rule bexI[rotated]) (simp add: assms)
qed

lemma kept_upsert:
  assumes "\<And>r. gm_group_id (f r) = gm_group_id r" "\<And>r. gm_user_id (f r) = gm_user_id r" "\<And>r. gm_role r \<le> gm_role (f r)"
  shows "kept_role rows (upsert_row keys new f rows)"
proof (induction keys)
  case Nil
  show ?case by (auto simp: kept_role_def)
next
  case (Cons k keys)
  then show ?case using kept_update[OF assms] by simp
qed

lemma roles_statement:
  assumes "\<And>w. kept_role (aw_members w) (aw_members (snd (h w)))"
  shows "guarantees (\<lambda>_. True) roles_kept (sql_execute h)"
  by (rule roles.guarantees_execute) (use assms in \<open>simp add: roles_kept_def kept_role_def\<close>)

lemma roles_members [ensures_intros]:
  "guarantees (\<lambda>_. True) roles_kept (store_member i g u role)"
  "guarantees (\<lambda>_. True) roles_kept (leave_transaction g u)"
  unfolding store_member_def leave_transaction_def upsert_member_def
  by (rule roles_statement, simp del: upsert_row.simps add: kept_upsert kept_update)+

lemma roles_others [ensures_intros]:
  "guarantees (\<lambda>_. True) roles_kept (insert_epoch g e u reason)"
  "guarantees (\<lambda>_. True) roles_kept (insert_group L i name avatar announcement u n)"
  "guarantees (\<lambda>_. True) roles_kept (refresh_group_member_count g)"
  unfolding insert_epoch_def insert_group_def refresh_group_member_count_def sql_execute_def
  by (rule members_unseen, rule member_table.same_command, simp add: update_groups_def split: option.split)+

lemma roles_parts [ensures_intros]:
  "guarantees (\<lambda>_. True) roles_kept (rotate_group_epoch_if_encrypted g u reason)"
  "guarantees (\<lambda>_. True) roles_kept (add_group_member n g u role)"
  "guarantees (\<lambda>_. True) roles_kept (initialize_group_read_sequences url n g us)"
  "guarantees (\<lambda>_. True) roles_kept (resolve_members us)"
  "guarantees (\<lambda>_. True) roles_kept (add_members n g us)"
proof -
  show rotate: "guarantees (\<lambda>_. True) roles_kept (rotate_group_epoch_if_encrypted g u reason)" for g u reason
    unfolding rotate_group_epoch_if_encrypted_def group_status_def next_group_epoch_def current_group_epoch_def Let_def
    by (intro ensures_intros)
  show add: "guarantees (\<lambda>_. True) roles_kept (add_group_member n g u role)" for n g u role
    unfolding add_group_member_def by (intro ensures_intros rotate)
  have cursor: "guarantees (\<lambda>_. True) roles_kept (sql_execute (\<lambda>w. (Inr (), w\<lparr>aw_group_cursors := f w\<rparr>)))" for f
    unfolding sql_execute_def by (rule members_unseen, rule member_table.same_command) simp
  show "guarantees (\<lambda>_. True) roles_kept (initialize_group_read_sequences url n g us)"
    unfolding initialize_group_read_sequences_def social_group_sequence_def sequence_or_stored_def hot_peek_i64_def
    by (intro ensures_intros cursor)
  have resolve: "guarantees (\<lambda>_. True) roles_kept (resolve_active_user_id u)" for u
    unfolding resolve_active_user_id_def by (intro ensures_intros)
  show "guarantees (\<lambda>_. True) roles_kept (resolve_members us)"
    by (induction us) (simp_all, intro ensures_intros resolve)
  show "guarantees (\<lambda>_. True) roles_kept (add_members n g us)"
    by (induction us) (simp_all, intro ensures_intros resolve add)
qed

lemma roles_statements [ensures_intros]:
  "guarantees (\<lambda>_. True) roles_kept (sql_execute (\<lambda>w. (Inr (), update_groups g (f w) w)))"
  "guarantees (\<lambda>_. True) roles_kept (sql_execute (\<lambda>w. (Inr (), w\<lparr>aw_sender_keys := k w\<rparr>)))"
  "guarantees (\<lambda>_. True) roles_kept (sql_execute (\<lambda>w. if c w then (Inl ESqlx, w) else (Inr (), update_groups g (f w) w)))"
  unfolding sql_execute_def
  by (rule members_unseen, rule member_table.same_command, simp add: update_groups_def)+

lemma roles_handlers [ensures_intros]:
  "guarantees (\<lambda>_. True) roles_kept (user_groups L config hs u)"
  "guarantees (\<lambda>_. True) roles_kept (search_groups L config hs ps)"
  "guarantees (\<lambda>_. True) roles_kept (group_members L config hs b)"
  "guarantees (\<lambda>_. True) roles_kept (internal_group_member_ids L config hs p g)"
  "guarantees (\<lambda>_. True) roles_kept (create_group L config hs payload)"
  "guarantees (\<lambda>_. True) roles_kept (join_group L config hs g)"
  "guarantees (\<lambda>_. True) roles_kept (add_group_members L config hs g payload)"
  "guarantees (\<lambda>_. True) roles_kept (leave_group L config hs g)"
  "guarantees (\<lambda>_. True) roles_kept (dismiss_group L config hs g)"
  "guarantees (\<lambda>_. True) roles_kept (update_group L config hs g payload)"
  unfolding user_groups_def search_groups_def group_members_def internal_group_member_ids_def create_group_def
    join_group_def add_group_members_def leave_group_def dismiss_group_def update_group_def ensure_group_owner_def
    ensure_group_exists_def ensure_group_member_def load_group_def load_group_members_def signed_by_server_def Let_def
  by (intro ensures_intros)+

lemma roles_task: "guarantees (\<lambda>_. True) roles_kept (social_group_task L config call)"
  by (cases call; simp only: social_group_task.simps; intro ensures_intros)

text \<open>
  However the handlers of groups interleave, with any commands failing, nobody loses the role that they had in a
  group: whoever led a group and left or was removed is an administrator again as soon as they join it.
\<close>

theorem roles_never_fall:
  assumes "sys_runs roles_kept (map (social_group_task L config) calls, w) (ts', w')" "r \<in> set (aw_members w)"
  shows "\<exists>r' \<in> set (aw_members w'). gm_group_id r' = gm_group_id r \<and> gm_user_id r' = gm_user_id r \<and> gm_role r \<le> gm_role r'"
proof -
  have "roles_kept w w'"
    using roles.runs_guarantee[OF assms(1), where Q = "\<lambda>_. True"] roles_task by (simp add: roles_task)
  with assms(2) show ?thesis by (simp add: roles_kept_def)
qed

text \<open>Alice, who leads group 5, leaves it.\<close>

theorem roles_never_fall_witness:
  "\<exists>ts' w'. sys_runs roles_kept ([social_group_task sample_api sample_api_config (Leave_group (bearer ''alice'') 5)],
      (group_world [] [])\<lparr>aw_im_groups := [owned_group]\<rparr>) (ts', w') \<and>
    (\<exists>r' \<in> set (aw_members w'). gm_group_id r' = 5 \<and> gm_user_id r' = 1 \<and> 3 \<le> gm_role r')"
proof -
  let ?c = "Leave_group (bearer ''alice'') 5" and ?w = "(group_world [] [])\<lparr>aw_im_groups := [owned_group]\<rparr>"
  let ?t = "social_group_task sample_api sample_api_config ?c"
  obtain n where n: "schedule (replicate n 0) ([?t], ?w) = ([Ret (fst (run ?t ?w))], snd (run ?t ?w))"
    using schedule_alone[of 0 "[?t]" ?t ?w] by auto
  have runs: "sys_runs roles_kept (map (social_group_task sample_api sample_api_config) [?c], ?w)
      ([Ret (fst (run ?t ?w))], snd (run ?t ?w))"
    using schedule_runs[of roles_kept "([?t], ?w)" "replicate n 0"] unfolding n by simp
  have "sample_member 1 3 \<in> set (aw_members ?w)" by (simp add: group_world_def)
  from roles_never_fall[OF runs this] runs show ?thesis by (auto simp: sample_member_def)
qed

end
