(* ===== verification/Common_Properties.thy ===== *)
theory Common_Properties
  imports Common_Ids Common_Keys
begin

text \<open>What the common library guarantees: identifiers never repeat, the generator returns, keys do not collide.\<close>

section \<open>Identifiers\<close>

lemma id_attempt_alone:
  assumes "now_ms < 2 ^ 63"
  shows "\<exists>i c. id_attempt node_id now_ms cell cell = (Some i, c)"
    "fst (id_attempt node_id now_ms current cell) = None \<longleftrightarrow> cell \<noteq> current"
proof -
  have "max now_ms 0 < 2 ^ 64" using assms by simp
  then obtain now where now: "clock_u64 now_ms = Some now" by (simp add: clock_u64_def Let_def)
  have i: "id_i64 (id_of_slot node_id (next_slot now c)) = Some (int (unat (id_of_slot node_id (next_slot now c))))" for c
    by (rule id_i64_of_slot) (rule next_slot_seq)
  show "\<exists>i c. id_attempt node_id now_ms cell cell = (Some i, c)"
    using now i by (simp add: id_attempt_def Let_def)
  show "fst (id_attempt node_id now_ms current cell) = None \<longleftrightarrow> cell \<noteq> current"
    using now i by (simp add: id_attempt_def Let_def)
qed

text \<open>
  C8: Identifiers never repeat. For every interleaving of threads, whatever values their relaxed
  loads return, and every clock that stays below a bound of \<open>T\<close> milliseconds (it may stand still or go
  backwards), the identifiers returned are distinct, non-negative 64-bit values, and those of one node
  increase in the order they are returned, as long as the first value of the cell or 4096 \<open>T\<close>, whichever is
  larger, plus the number of loads and exchanges is below \<open>2 ^ 53\<close>: the timestamp then fits its 41 bits
  (until September 2039).
\<close>

theorem ids_never_repeat:
  assumes "id_trace w es w'" "iw_issued w = []" "iw_loaded w = Map.empty" "clock_below T es"
    and "max (unat (iw_cell w)) (T * 4096) + length es < 2 ^ 53"
  shows "distinct (map snd (iw_issued w')) \<and>
    (\<forall>i \<in> set (map snd (iw_issued w')). 0 \<le> i \<and> i < 2 ^ 63) \<and>
    sorted_wrt (\<lambda>a b. fst a = fst b \<longrightarrow> snd a < snd b) (iw_issued w')"
proof -
  have T: "T \<le> 2 ^ 52" using assms(5) by simp
  have start: "ids_inv T (iw_cell w) w" using assms(2,3) by (simp add: ids_inv_def)
  have "max (unat (iw_cell w)) (T * 4096) + length (iw_issued w) + length es < 2 ^ 64"
    using assms(2,5) by simp
  from ids_inv_trace[OF assms(1) start assms(4) T this]
  have inv: "ids_inv T (iw_cell w) w'" and len: "length (iw_issued w') \<le> length es"
    using assms(2) by simp_all
  have "unat (iw_cell w') \<le> max (unat (iw_cell w)) (T * 4096) + length (iw_issued w')"
    using inv by (simp add: ids_inv_def)
  with len assms(5) have "unat (iw_cell w') < 2 ^ 53" by linarith
  from ids_inv_unique[OF inv this] show ?thesis by blast
qed

definition sample_ids :: id_world where
  "sample_ids = \<lparr>iw_cell = 0, iw_loaded = Map.empty, iw_issued = []\<rparr>"

text \<open>Two threads read the same value; the second exchange fails and is retried.\<close>

theorem ids_never_repeat_witness:
  "\<exists>w'. id_trace sample_ids [Read 0 5 0, Read 1 5 0, Exchange 0 1, Exchange 1 1] w' \<and>
     distinct (map snd (iw_issued w'))"
proof -
  let ?w1 = "sample_ids\<lparr>iw_loaded := [0 \<mapsto> (5, 0)]\<rparr>"
  let ?w2 = "sample_ids\<lparr>iw_loaded := [0 \<mapsto> (5, 0), 1 \<mapsto> (5, 0)]\<rparr>"
  have "id_step sample_ids (Read 0 5 0) ?w1"
    using id_step.read[of sample_ids 0 5 0] by (simp add: sample_ids_def)
  note 1 = this
  have 2: "id_step ?w1 (Read 1 5 0) ?w2"
    using id_step.read[of ?w1 1 5 0] by (simp add: sample_ids_def fun_upd_twist)
  obtain r3 c3 where a3: "id_attempt 1 5 0 (iw_cell ?w2) = (r3, c3)" by fastforce
  obtain w3 where 3: "id_step ?w2 (Exchange 0 1) w3" "iw_loaded w3 1 = Some (5, 0)"
    using id_step.exchange[OF _ a3, of 0] by (fastforce simp: sample_ids_def)
  obtain r4 c4 where a4: "id_attempt 1 5 0 (iw_cell w3) = (r4, c4)" by fastforce
  obtain w4 where 4: "id_step w3 (Exchange 1 1) w4"
    using id_step.exchange[OF 3(2) a4] by blast
  have trace: "id_trace sample_ids [Read 0 5 0, Read 1 5 0, Exchange 0 1, Exchange 1 1] w4"
    using id_trace.more[OF id_trace.more[OF id_trace.more[OF id_trace.more[OF id_trace.stop 1] 2] 3(1)] 4] by simp
  have "clock_below 6 [Read 0 5 0, Read 1 5 0, Exchange 0 1, Exchange 1 1]"
    by (auto simp: clock_below_def)
  with ids_never_repeat[OF trace, of 6] trace show ?thesis by (auto simp: sample_ids_def)
qed

text \<open>
  The bound is sharp up to two milliseconds: a thread that asks at millisecond 1 and \<open>2 ^ 41\<close> milliseconds later
  is given the same identifier twice.
\<close>

lemma ids_repeat_later:
  "\<exists>es w'. id_trace sample_ids es w' \<and> clock_below (2 ^ 41 + 2) es \<and> length es = 4 \<and>
     \<not> distinct (map snd (iw_issued w'))"
proof -
  let ?e1 = "Read 0 1 0" and ?e3 = "Read 0 (2 ^ 41 + 1) 4096"
  have now: "clock_u64 1 = Some 1" "clock_u64 (2 ^ 41 + 1) = Some (2 ^ 41 + 1)" by code_simp+
  have a1: "id_attempt 1 1 0 0 = (Some 4198400, 4096)" by code_simp
  have a2: "id_attempt 1 (2 ^ 41 + 1) 4096 4096 = (Some 4198400, 9007199254745088)" by code_simp
  define w1 where "w1 = sample_ids\<lparr>iw_loaded := [0 \<mapsto> (1, 0)]\<rparr>"
  define w2 where "w2 = \<lparr>iw_cell = 4096, iw_loaded = Map.empty, iw_issued = [(1, 4198400)]\<rparr>"
  define w3 where "w3 = w2\<lparr>iw_loaded := [0 \<mapsto> (2 ^ 41 + 1, 4096)]\<rparr>"
  define w4 where "w4 = \<lparr>iw_cell = 9007199254745088, iw_loaded = Map.empty, iw_issued = [(1, 4198400), (1, 4198400)]\<rparr>"
  have 1: "id_step sample_ids ?e1 w1"
    using id_step.read[of sample_ids 0 1 0] by (simp add: sample_ids_def w1_def)
  have 2: "id_step w1 (Exchange 0 1) w2"
    using id_step.exchange[of w1 0 1 0 1 "Some 4198400" 4096] a1 by (simp add: sample_ids_def w1_def w2_def)
  have 3: "id_step w2 ?e3 w3"
    using id_step.read[of w2 0 "2 ^ 41 + 1" 4096] by (simp add: w2_def w3_def)
  have 4: "id_step w3 (Exchange 0 1) w4"
    using id_step.exchange[of w3 0 "2 ^ 41 + 1" 4096 1 "Some 4198400" 9007199254745088] a2
    by (simp add: w2_def w3_def w4_def)
  have "id_trace sample_ids [?e1, Exchange 0 1, ?e3, Exchange 0 1] w4"
    using id_trace.more[OF id_trace.more[OF id_trace.more[OF id_trace.more[OF id_trace.stop 1] 2] 3] 4] by simp
  moreover have "clock_below (2 ^ 41 + 2) [?e1, Exchange 0 1, ?e3, Exchange 0 1]"
    by (auto simp: clock_below_def)
  moreover have "\<not> distinct (map snd (iw_issued w4))" by (simp add: w4_def)
  ultimately show ?thesis by (intro exI[of _ "[?e1, Exchange 0 1, ?e3, Exchange 0 1]"] exI[of _ w4]) simp
qed

text \<open>
  C40: The generator returns. Alone, it returns at the first turn, whatever the cell holds and
  whatever a clock in the range of i64 says; with other threads, a turn fails only when another
  thread has changed the cell since it was loaded, so some thread always makes progress.
\<close>

theorem next_id_returns:
  assumes "now_ms < 2 ^ 63"
  shows "(\<exists>i cell'. next_id node_id (now_ms # clock) cell = (Some i, cell')) \<and>
    (fst (id_attempt node_id now_ms current cell) = None \<longleftrightarrow> cell \<noteq> current)"
  using id_attempt_alone[OF assms, of node_id cell] id_attempt_alone(2)[OF assms, of node_id current cell]
  by (auto split: option.split)

theorem next_id_returns_witness:
  "\<exists>i cell'. next_id 7 [1700000000000] 0 = (Some i, cell')"
  using next_id_returns[of 1700000000000 7 "[]" 0] by simp

section \<open>Keys\<close>

text \<open>
  Cache keys do not collide. Two keys have the same text only if they are the same kind of key
  for the same arguments, provided the conversation identifiers in them contain no colon, as those
  the library makes do; and two private conversations have the same identifier exactly when they
  have the same two users, never that of a group.
\<close>

theorem cache_keys_distinct:
  assumes "key_ok k" "key_ok k'"
  shows "(key_text k = key_text k' \<longleftrightarrow> k = k') \<and>
    (private_conversation_id a b = private_conversation_id c d \<longleftrightarrow> {a, b} = {c, d}) \<and>
    private_conversation_id a b \<noteq> group_conversation_id g \<and>
    CHR '':'' \<notin> set (private_conversation_id a b) \<and> CHR '':'' \<notin> set (group_conversation_id g)"
  by (intro conjI key_text_inj[OF assms] private_conversation_id_eq private_not_group conversation_ids_colon_free)

theorem cache_keys_distinct_witness:
  "key_text (KClient 1 (private_conversation_id 2 1) ''m:1'') \<noteq> key_text (KClient 1 (private_conversation_id 1 3) ''m:1'')"
proof -
  let ?k = "KClient 1 (private_conversation_id 2 1) ''m:1''" and ?k' = "KClient 1 (private_conversation_id 1 3) ''m:1''"
  have "key_ok ?k" "key_ok ?k'" by (simp_all add: conversation_ids_colon_free)
  note distinct = cache_keys_distinct[OF this, of 2 1 1 3]
  have "(2 :: int) \<in> {2, 1}" "(2 :: int) \<notin> {1, 3}" by simp_all
  then have "{2, 1 :: int} \<noteq> {1, 3}" by blast
  with distinct have "?k \<noteq> ?k'" by (simp only: cache_key.inject) blast
  with distinct show ?thesis by blast
qed

end
