(* ===== verification/Api_User_Properties.thy ===== *)
theory Api_User_Properties
  imports Api_Settings Api_Im_Group_Properties Common_Properties
begin

text \<open>
  What accounts guarantee: tokens, a new password and a deletion are had only for the password of the account; and
  who has registered can log in. The settings for push notifications read back as they were stored.
\<close>

section \<open>Passwords\<close>

text \<open>No active account that satisfies a condition has the password.\<close>

definition no_account :: "api_lib \<Rightarrow> (user_row \<Rightarrow> bool) \<Rightarrow> string \<Rightarrow> api_world \<Rightarrow> bool" where
  "no_account L p password w \<longleftrightarrow> (\<forall>r \<in> set (aw_users w). us_status r = 1 \<longrightarrow> p r \<longrightarrow> \<not> verify_password L password (us_password r))"

text \<open>The tables that accounts and their deletion change, and the store of tokens.\<close>

definition account_tables ::
  "api_world \<Rightarrow> user_row list \<times> friend_row list \<times> member_row list \<times> im_group_row list \<times> (string \<Rightarrow> (string \<times> int) option)" where
  "account_tables w = (aw_users w, aw_friends w, aw_members w, aw_im_groups w, aw_redis w)"

interpretation account_view: unseen_view account_tables
  by unfold_locales (simp_all add: account_tables_def outcome_used_def)

abbreviation accounts_kept :: "(api_world \<Rightarrow> bool) \<Rightarrow> 'a api \<Rightarrow> (api_error + 'a \<Rightarrow> bool) \<Rightarrow> bool" where
  "accounts_kept P m Q \<equiv> ensures P (\<lambda>w w'. account_tables w' = account_tables w) m Q"

lemma first_user_refused:
  "accounts_kept (no_account L p password) (first_user p)
     (\<lambda>r. \<forall>u. r = Inr (Some u) \<longrightarrow> \<not> verify_password L password (ue_password u))"
  unfolding first_user_def sql_query_def
proof (rule ensures_command, goal_cases)
  case (2 w)
  then have "\<not> verify_password L password (ue_password u)" if "u \<in> set (select_users p w)" for u
    using that by (auto simp: no_account_def select_users_def user_from_row_def dest!: in_set_takeD)
  moreover have "aw_users (outcome_used w) = aw_users w" by (simp add: outcome_used_def)
  ultimately show ?case by (auto simp: select_users_def split: list.splits)
qed (simp_all add: account_view.unseen)

text \<open>What comes after the check of a password is not reached.\<close>

lemma password_refused:
  "accounts_kept (no_account L p password) (act_then (first_user p) (\<lambda>row. act_then (Ret (ok_or e (c row))) (\<lambda>user.
     act_then (act_check (verify_password L password (ue_password user)) e') (f user)))) (\<lambda>r. \<not> is_ok r)"
  if "\<And>row u. c row = Some u \<Longrightarrow> row = Some u"
proof (rule ensures_then[OF first_user_refused])
  fix row assume row: "\<forall>u. Inr row = (Inr (Some u) :: api_error + user_record option) \<longrightarrow> \<not> verify_password L password (ue_password u)"
  show "accounts_kept (no_account L p password) (act_then (Ret (ok_or e (c row))) (\<lambda>user.
      act_then (act_check (verify_password L password (ue_password user)) e') (f user))) (\<lambda>r. \<not> is_ok r)"
    using row that[of row] by (cases "c row") (auto simp: ok_or_def act_check_def)
qed simp

lemma caller_refused:
  assumes "\<And>c. id_user_id c \<in> callers L config headers \<Longrightarrow> accounts_kept P (f c) Q" "\<And>e. Q (Inl e)"
  shows "accounts_kept P (act_then (caller_of L config headers) f) Q"
proof (rule ensures_then)
  show "accounts_kept P (caller_of L config headers) (\<lambda>r. \<forall>c. r = Inr c \<longrightarrow> id_user_id c \<in> callers L config headers)"
    by (auto simp: caller_of_def now_ms_def act_get_def callers_def)
qed (use assms in auto)

text \<open>
  C16: A login, a change of password and a deletion that do not come with the password of an active account they
  are meant for are refused and change neither accounts, friends, members and groups nor tokens, whatever happens
  between their accesses.
\<close>

theorem password_needed:
  "accounts_kept (no_account L (\<lambda>r. ap_collate L (us_username r) = ap_collate L (to_ascii_lowercase (trim (lr_username request))))
     (lr_password request)) (login L config request) (\<lambda>r. \<not> is_ok r) \<and>
   accounts_kept (no_account L (\<lambda>r. us_id r \<in> callers L config headers) (cw_current_password change))
     (change_password L config headers change) (\<lambda>r. \<not> is_ok r) \<and>
   accounts_kept (no_account L (\<lambda>r. us_id r \<in> callers L config headers) (da_password deletion))
     (delete_account L config headers deletion) (\<lambda>r. \<not> is_ok r)"
proof (intro conjI)
  have weaker: "no_account L (\<lambda>r. us_id r = id_user_id c) password w"
    if "id_user_id c \<in> callers L config headers" "no_account L (\<lambda>r. us_id r \<in> callers L config headers) password w"
    for c :: identity and password w
    using that by (auto simp: no_account_def)
  have row: "accounts_kept (no_account L (\<lambda>r. us_id r \<in> callers L config headers) password)
      (act_then (load_user_by_id (id_user_id c)) (\<lambda>row. act_then (Ret (ok_or e row)) (\<lambda>user.
       act_then (act_check (verify_password L password (ue_password user)) e') (f user)))) (\<lambda>r. \<not> is_ok r)"
    if "id_user_id c \<in> callers L config headers" for c :: identity and password e e' and f :: "user_record \<Rightarrow> unit \<Rightarrow> 'z api"
    unfolding load_user_by_id_def
    by (rule ensures_mono[OF password_refused]) (use weaker[OF that] in auto)
  show "accounts_kept (no_account L (\<lambda>r. us_id r \<in> callers L config headers) (cw_current_password change))
      (change_password L config headers change) (\<lambda>r. \<not> is_ok r)"
    unfolding change_password_def by (rule caller_refused, erule row) simp
  show "accounts_kept (no_account L (\<lambda>r. us_id r \<in> callers L config headers) (da_password deletion))
      (delete_account L config headers deletion) (\<lambda>r. \<not> is_ok r)"
    unfolding delete_account_def by (rule caller_refused, erule row) simp
  show "accounts_kept (no_account L (\<lambda>r. ap_collate L (us_username r) = ap_collate L (to_ascii_lowercase (trim (lr_username request))))
      (lr_password request)) (login L config request) (\<lambda>r. \<not> is_ok r)"
  proof (cases "normalize_username (lr_username request)")
    case (Inr name)
    then have name: "name = to_ascii_lowercase (trim (lr_username request))"
      by (auto simp: normalize_username_def Let_def split: if_splits)
    have "accounts_kept (no_account L (\<lambda>r. ap_collate L (us_username r) = ap_collate L name) (lr_password request))
        (authenticate L name (lr_password request)) (\<lambda>r. \<not> is_ok r)"
      unfolding authenticate_def load_user_by_username_def by (rule password_refused) (auto split: option.splits if_splits)
    then show ?thesis
      unfolding login_def Inr by (auto simp: act_check_def name[symmetric] intro: ensures_then)
  qed (simp add: login_def)
qed

text \<open>A change of password leaves every token as it is.\<close>

interpretation token_view: unseen_view aw_redis
  by unfold_locales (simp_all add: outcome_used_def)

lemma tokens_outlive_password: "guarantees (\<lambda>_. True) (\<lambda>w w'. aw_redis w' = aw_redis w) (change_password L config headers request)"
proof -
  have "guarantees (\<lambda>_. True) (\<lambda>w w'. aw_redis w' = aw_redis w) (update_users p f)" for p f
    unfolding update_users_def by (rule token_view.untouched.guarantees_execute) simp
  then show ?thesis
    unfolding change_password_def caller_of_def load_user_by_id_def first_user_def hash_password_def
    by (intro ensures_intros) (simp split: sum.split)+
qed

section \<open>Registration\<close>

definition bcrypt_ok :: "api_lib \<Rightarrow> bool" where
  "bcrypt_ok L \<longleftrightarrow> (\<forall>salt password h. ap_bcrypt_hash L salt password = Inr h \<longrightarrow>
     starts_with ''$2'' h \<and> ap_bcrypt_verify L password h = Some True)"

definition columns_exact :: "api_lib \<Rightarrow> bool" where
  "columns_exact L \<longleftrightarrow> (\<forall>n s s'. ap_varchar L n s = Some s' \<longrightarrow> s' = s)"

lemma user_inserted:
  assumes "quiet w" "run (insert_user L i name h nick email phone) w = (Inr u, w1)"
  shows "\<exists>row. quiet w1 \<and> aw_users w1 = aw_users w @ [row] \<and> us_id row = i \<and> us_status row = 1 \<and>
    ap_varchar L 50 name = Some (us_username row) \<and> ap_varchar L 255 h = Some (us_password row) \<and>
    (\<forall>r \<in> set (aw_users w). ap_collate L (us_username r) \<noteq> ap_collate L (us_username row))"
  using assms(2) by (auto simp: insert_user_def run_execute[OF assms(1)] quiet_def[of "w\<lparr>aw_users := us\<rparr>" for us]
      assms(1)[unfolded quiet_def] split: option.splits if_splits)

text \<open>What a registration leaves behind.\<close>

lemma registered:
  assumes "quiet w" "run (register L config request) w = (Inr dto, w1)"
  shows "\<exists>name salt h i row. normalize_username (rr_username request) = Inr name \<and>
    ap_bcrypt_hash L salt (rr_password request) = Inr h \<and> ud_id dto = show_int i \<and>
    quiet w1 \<and> aw_users w1 = aw_users w @ [row] \<and> us_id row = i \<and> us_status row = 1 \<and>
    ap_varchar L 50 name = Some (us_username row) \<and> ap_varchar L 255 h = Some (us_password row) \<and>
    (\<forall>r \<in> set (aw_users w). ap_collate L (us_username r) \<noteq> ap_collate L (us_username row))"
proof -
  let ?pw = "rr_password request" and ?salt = "aw_random w (aw_drawn w)" and ?n = "ac_snowflake_node_id config"
  let ?w = "w\<lparr>aw_drawn := aw_drawn w + 1\<rparr>"
  have run: "run (register L config request) w = (Inr dto, w1)" using assms(2) .
  obtain name where name: "normalize_username (rr_username request) = Inr name"
    using run by (cases "normalize_username (rr_username request)") (simp_all add: register_def)
  obtain u where pw: "validate_password ?pw = Inr u"
    using run name by (cases "validate_password ?pw") (simp_all add: register_def)
  have free: "count_where (\<lambda>r. ap_collate L (us_username r) = ap_collate L name) (aw_users w) = 0"
    using run name pw by (simp add: register_def Let_def run_then run_query[OF assms(1)] act_check_def split: if_splits)
  obtain h where h: "ap_bcrypt_hash L ?salt ?pw = Inr h"
    using run name pw free
    by (cases "ap_bcrypt_hash L ?salt ?pw")
      (simp_all add: register_def Let_def run_then run_query[OF assms(1)] act_check_def hash_password_def)
  obtain i cell where i: "next_id (word_of_nat ?n) [aw_now w] (aw_id_cell w) = (Some i, cell)"
    using run name pw free h
    by (cases "next_id (word_of_nat ?n) [aw_now w] (aw_id_cell w)"; cases "fst (next_id (word_of_nat ?n) [aw_now w] (aw_id_cell w))")
      (simp_all add: register_def Let_def run_then run_query[OF assms(1)] act_check_def hash_password_def new_id_def del: next_id.simps)
  let ?nick = "unwrap_or (normalize_optional (rr_nickname request)) name"
  let ?email = "normalize_optional (rr_email request)" and ?phone = "normalize_optional (rr_phone request)"
  let ?w2 = "?w\<lparr>aw_id_cell := cell\<rparr>"
  have q: "quiet ?w2" using assms(1) by (simp add: quiet_def)
  have rest: "run (act_then (insert_user L i name h ?nick ?email ?phone) (\<lambda>_. act_then now_ms (\<lambda>now.
     act_ok \<lparr>ud_id = show_int i, ud_username = name, ud_nickname = ?nick, ud_avatar = None,
       ud_email = ?email, ud_phone = ?phone, ud_status = ''offline'', ud_last_login_time = None,
       ud_create_time = Some (ap_iso L now)\<rparr>))) ?w2 = (Inr dto, w1)"
    using run name pw free h i
    by (simp add: register_def Let_def run_then run_query[OF assms(1)] act_check_def hash_password_def new_id_def del: next_id.simps)
  obtain u w3 where w3: "run (insert_user L i name h ?nick ?email ?phone) ?w2 = (Inr u, w3)"
    using rest by (cases "run (insert_user L i name h ?nick ?email ?phone) ?w2"; cases "fst (run (insert_user L i name h ?nick ?email ?phone) ?w2)")
      (simp_all add: run_then)
  with rest have end_: "w1 = w3" "ud_id dto = show_int i" by (auto simp: run_then run_now)
  show ?thesis using user_inserted[OF q w3] name h unfolding end_ by auto
qed

text \<open>
  C20: Who has registered can log in: right after a registration that succeeded, its user name and its password
  belong to the account that the registration answered with.
\<close>

theorem registered_can_log_in:
  assumes "quiet w" "run (register L config request) w = (Inr dto, w1)"
    and library: "bcrypt_ok L" "columns_exact L"
  shows "\<exists>name user. normalize_username (rr_username request) = Inr name \<and>
    run (authenticate L name (rr_password request)) w1 = (Inr user, w1) \<and>
    ue_username user = name \<and> show_int (ue_id user) = ud_id dto"
proof -
  obtain name salt h i row where r: "normalize_username (rr_username request) = Inr name"
    "ap_bcrypt_hash L salt (rr_password request) = Inr h" "ud_id dto = show_int i" "quiet w1"
    "aw_users w1 = aw_users w @ [row]" "us_id row = i" "us_status row = 1"
    "ap_varchar L 50 name = Some (us_username row)" "ap_varchar L 255 h = Some (us_password row)"
    "\<forall>r \<in> set (aw_users w). ap_collate L (us_username r) \<noteq> ap_collate L (us_username row)"
    using registered[OF assms(1,2)] by blast
  have columns: "us_username row = name" "us_password row = h" using r(8,9) library(2) by (auto simp: columns_exact_def)
  have "filter (\<lambda>r. us_status r = 1 \<and> ap_collate L (us_username r) = ap_collate L name) (aw_users w1) = [row]"
    using r(5,7,10) columns by (auto simp: filter_empty_conv)
  then have found: "select_users (\<lambda>r. ap_collate L (us_username r) = ap_collate L name) w1 = [user_from_row row]"
    by (simp add: select_users_def)
  have "verify_password L (rr_password request) (us_password row)"
    using library(1) r(2) columns by (simp add: verify_password_def bcrypt_ok_def unwrap_or_def)
  then have "run (authenticate L name (rr_password request)) w1 = (Inr (user_from_row row), w1)"
    by (simp add: authenticate_def load_user_by_username_def first_user_def run_then run_query[OF r(4)] found ok_or_def
        user_from_row_def r(7) act_check_def)
  with r(1,3,6) columns show ?thesis by (auto simp: user_from_row_def)
qed

definition sample_registration :: register_request where
  "sample_registration = \<lparr>rr_username = ''dave'', rr_password = ''secret12'', rr_nickname = None, rr_email = None, rr_phone = None\<rparr>"

lemma sample_name: "normalize_username ''dave'' = Inr ''dave''"
proof -
  have "trim ''dave'' = ''dave''" by (rule trim_trimmed) (simp add: trimmed_def white_spaces_def)
  moreover have "to_ascii_lowercase ''dave'' = ''dave''" by code_simp
  ultimately show ?thesis by (simp add: normalize_username_def Let_def is_ascii_alphabetic_def)
qed

lemma sample_registered: "\<exists>dto w1. run (register sample_api sample_api_config sample_registration) (empty_world 1700000000000) = (Inr dto, w1)"
proof -
  have pw: "validate_password ''secret12'' = Inr ()"
    by (simp add: validate_password_def is_ascii_alphabetic_def ascii_digit_def)
  have q: "quiet (empty_world 1700000000000)" by (simp add: quiet_def empty_world_def)
  obtain i cell where i: "id_attempt (word_of_nat (ac_snowflake_node_id sample_api_config)) 1700000000000 0 0 = (Some i, cell)"
    using id_attempt_alone(1)[of 1700000000000 "word_of_nat (ac_snowflake_node_id sample_api_config)" 0] by auto
  then have nid: "next_id (word_of_nat (ac_snowflake_node_id sample_api_config)) [1700000000000] 0 = (Some i, cell)" by simp
  define w where "w = empty_world 1700000000000"
  have w: "quiet w" "aw_users w = []" "aw_now w = 1700000000000" "aw_id_cell w = 0"
    by (simp_all add: w_def quiet_def empty_world_def)
  have q: "quiet (w\<lparr>aw_drawn := n, aw_id_cell := c\<rparr>)" for n c using w(1) by (simp add: quiet_def)
  have "\<exists>dto w1. run (register sample_api sample_api_config sample_registration) w = (Inr dto, w1)"
    by (simp add: register_def sample_registration_def sample_name pw Let_def run_then run_query[OF w(1)] w(2-4) count_where_def
        act_check_def hash_password_def new_id_def nid insert_user_def run_execute[OF q] sample_api_def column_def
        normalize_optional_def unwrap_or_def run_now del: next_id.simps)
  then show ?thesis by (simp add: w_def)
qed

theorem registered_can_log_in_witness:
  "\<exists>w1 user. run (authenticate sample_api ''dave'' ''secret12'') w1 = (Inr user, w1) \<and> ue_username user = ''dave''"
proof -
  obtain dto w1 where run: "run (register sample_api sample_api_config sample_registration) (empty_world 1700000000000) = (Inr dto, w1)"
    using sample_registered by blast
  have q: "quiet (empty_world 1700000000000)" by (simp add: quiet_def empty_world_def)
  have library: "bcrypt_ok sample_api" "columns_exact sample_api"
    by (simp_all add: bcrypt_ok_def columns_exact_def sample_api_def)
  show ?thesis
    using registered_can_log_in[OF q run library] by (auto simp: sample_registration_def sample_name)
qed

section \<open>Settings for push notifications\<close>

text \<open>JSON values that differ in the order of the members of objects only.\<close>

inductive same_json :: "json \<Rightarrow> json \<Rightarrow> bool" where
  same: "same_json v v"
| objects: "(\<And>k. rel_option same_json (map_of kvs k) (map_of kvs' k)) \<Longrightarrow> same_json (JObj kvs) (JObj kvs')"
| arrays: "list_all2 same_json vs vs' \<Longrightarrow> same_json (JArr vs) (JArr vs')"
  monos option.rel_mono list_all2_mono

inductive_cases same_objE: "same_json (JObj kvs) v"
inductive_cases same_arrE: "same_json (JArr vs) v"
inductive_cases same_strE: "same_json (JStr s) v"
inductive_cases same_boolE: "same_json (JBool b) v"

definition json_columns_ok :: "api_lib \<Rightarrow> bool" where
  "json_columns_ok L \<longleftrightarrow> (\<forall>v text stored. ap_print L v = Some text \<longrightarrow> ap_json_column L text = Some stored \<longrightarrow>
     (\<exists>v'. ap_json L stored = Some v' \<and> same_json v v'))"

lemma same_field: "same_json (JObj kvs) v \<Longrightarrow> rel_option same_json (map_of kvs k) (json_get v k)"
  by (erule same_objE) (auto intro: option.rel_refl same_json.same)

lemma same_texts: "same_json (JArr (map JStr ss)) v \<Longrightarrow> \<exists>vs. v = JArr vs \<and> List.map_filter json_as_str vs = ss"
proof (erule same_arrE)
  fix vs assume "v = JArr vs" "list_all2 same_json (map JStr ss) vs"
  moreover from this(2) have "vs = map JStr ss"
    by (induction ss arbitrary: vs) (auto simp: list_all2_Cons1 elim: same_strE)
  ultimately show ?thesis by (simp add: List.map_filter_def comp_def)
qed (simp add: List.map_filter_def comp_def)

lemma push_settings_same:
  assumes "same_json (push_settings_json s) v"
  shows "parse_push_settings_value v = normalize_push_settings s"
proof -
  have get: "rel_option same_json (json_get (push_settings_json s) k) (json_get v k)" for k
    using same_field[OF assms[unfolded push_settings_json_def]] by (simp only: push_settings_json_def json_get.simps)
  have str: "json_as_str v' = Some t" if "same_json (JStr t) v'" for t v' using that by (auto elim: same_strE)
  have flags: "json_bool (json_get v ''enabled'') = Some (pu_enabled s)" "json_bool (json_get v ''soundEnabled'') = Some (pu_sound_enabled s)"
    "json_bool (json_get v ''showPreview'') = Some (pu_show_preview s)"
    using get[of "''enabled''"] get[of "''soundEnabled''"] get[of "''showPreview''"]
    by (auto simp: push_settings_json_def option_rel_Some1 elim: same_boolE)
  obtain muted where muted: "json_get v ''mutedConversationIds'' = Some (JArr muted)"
    "List.map_filter json_as_str muted = pu_muted_conversation_ids s"
    using get[of "''mutedConversationIds''"] by (auto simp: push_settings_json_def option_rel_Some1 dest: same_texts)
  obtain policy where policy: "json_get v ''androidChannelPolicy'' = Some policy"
    "same_json (policy_json (pu_android_channel_policy s)) policy"
    using get[of "''androidChannelPolicy''"] by (auto simp: push_settings_json_def option_rel_Some1)
  have channel: "rel_option same_json (json_get (policy_json (pu_android_channel_policy s)) k) (json_get policy k)" for k
    using same_field[OF policy(2)[unfolded policy_json_def]] by (simp only: policy_json_def json_get.simps)
  have channels: "Option.bind (json_get policy ''messages'') json_as_str = Some (cp_messages (pu_android_channel_policy s))"
    "Option.bind (json_get policy ''friendEvents'') json_as_str = Some (cp_friend_events (pu_android_channel_policy s))"
    "Option.bind (json_get policy ''system'') json_as_str = Some (cp_system (pu_android_channel_policy s))"
    using channel[of "''messages''"] channel[of "''friendEvents''"] channel[of "''system''"]
    by (auto simp: policy_json_def option_rel_Some1 dest: str)
  show ?thesis
    by (cases s; cases "pu_android_channel_policy s")
      (use flags muted policy(1) channels in \<open>simp add: parse_push_settings_value_def Let_def\<close>)
qed

lemma optional_text_again: "normalize_optional_text (Some v) n = Inr t \<Longrightarrow> normalize_optional_text (Some t) n = Inr t"
  by (auto simp: normalize_optional_text_def Let_def split: if_splits)

lemma channel_again: "normalize_channel (Some v) f = Inr t \<Longrightarrow> normalize_channel (Some t) f' = Inr t"
  by (auto simp: normalize_channel_def Let_def split: if_splits)

lemma each_again:
  "normalize_each (\<lambda>v. normalize_optional_text (Some v) n) vs = Inr ts \<Longrightarrow>
   normalize_each (\<lambda>v. normalize_optional_text (Some v) n) (filter (\<lambda>v. v \<noteq> []) ts) = Inr (filter (\<lambda>v. v \<noteq> []) ts) \<and>
   length ts = length vs"
  by (induction vs arbitrary: ts) (fastforce simp: and_then_Inr_iff dest: optional_text_again)+

lemma push_settings_again:
  assumes "normalize_push_settings s = Inr t"
  shows "normalize_push_settings t = Inr t"
proof -
  obtain muted messages friend_events system where
    muted: "length (pu_muted_conversation_ids s) \<le> max_muted_conversations"
      "normalize_each (\<lambda>v. normalize_optional_text (Some v) max_simple_field_len) (pu_muted_conversation_ids s) = Inr muted"
    and channels: "normalize_channel (Some (cp_messages (pu_android_channel_policy s))) default_messages_channel = Inr messages"
      "normalize_channel (Some (cp_friend_events (pu_android_channel_policy s))) default_friend_events_channel = Inr friend_events"
      "normalize_channel (Some (cp_system (pu_android_channel_policy s))) default_system_channel = Inr system"
    and t: "t = \<lparr>pu_enabled = pu_enabled s, pu_sound_enabled = pu_sound_enabled s,
      pu_show_preview = pu_show_preview s, pu_muted_conversation_ids = filter (\<lambda>v. v \<noteq> []) muted,
      pu_android_channel_policy = \<lparr>cp_messages = messages, cp_friend_events = friend_events, cp_system = system\<rparr>\<rparr>"
    using assms unfolding normalize_push_settings_def
    by (auto simp: and_then_Inr_iff Let_def not_less split: if_splits)
  have "length (filter (\<lambda>v. v \<noteq> []) muted) \<le> max_muted_conversations"
    using muted(1) each_again[OF muted(2)] length_filter_le[of "\<lambda>v. v \<noteq> []" muted] by linarith
  then show ?thesis
    using each_again[OF muted(2)] channels[THEN channel_again] by (simp add: t normalize_push_settings_def)
qed

lemma stored_row:
  "row_of key (key r) (insert_or_update key r f rows) =
   Some (case row_of key (key r) rows of None \<Rightarrow> r | Some old \<Rightarrow> f old)"
  if "\<And>x. key (f x) = key x"
proof (cases "row_of key (key r) rows")
  case None
  then show ?thesis using row_of_None[of key "key r" rows] by (auto simp: insert_or_update_def row_of_append)
next
  case (Some old)
  with that show ?thesis using row_of_Some[OF Some] by (auto simp: insert_or_update_def row_of_update)
qed

text \<open>
  What \<open>PUT\<close> stores for push notifications is what \<open>GET\<close> gives back: the request with its texts trimmed and the
  empty conversation ids left out, whatever else is in the row, as long as the database gives a JSON column
  back as the value that was written, up to the order of the members of an object.
\<close>

lemma push_settings_stored:
  assumes "quiet w" and columns: "json_columns_ok L"
    and caller: "identity_from_headers L (aw_now w) headers config = Inr caller"
    and run: "run (update_push_settings L config headers s) w = (Inr True, w1)"
  shows "\<exists>t. normalize_push_settings s = Inr t \<and> run (get_push_settings L config headers) w1 = (Inr t, w1)"
proof -
  note who = known_caller_run[OF caller]
  obtain t where t: "normalize_push_settings s = Inr t"
    using run who by (cases "normalize_push_settings s") (auto simp: update_push_settings_def run_then)
  obtain payload where payload: "ap_print L (push_settings_json t) = Some payload"
    using run who t by (cases "ap_print L (push_settings_json t)") (auto simp: update_push_settings_def run_then)
  obtain col where col: "ap_json_column L payload = Some col"
    using run who t payload
    by (cases "ap_json_column L payload") (auto simp: update_push_settings_def run_then run_execute[OF assms(1)])
  have w1: "w1 = w\<lparr>aw_settings := insert_or_update st_user_id
      \<lparr>st_user_id = id_user_id caller, st_settings = ''{}'', st_push_settings = Some col\<rparr>
      (\<lambda>r. r\<lparr>st_push_settings := Some col\<rparr>) (aw_settings w)\<rparr>"
    using run who t payload col by (auto simp: update_push_settings_def run_then run_execute[OF assms(1)])
  have "quiet w1" using assms(1) by (simp add: w1 quiet_def)
  have stored: "Option.bind (row_of st_user_id (id_user_id caller) (aw_settings w1)) st_push_settings = Some col"
    using stored_row[of st_user_id "\<lambda>r. r\<lparr>st_push_settings := Some col\<rparr>"
        "\<lparr>st_user_id = id_user_id caller, st_settings = ''{}'', st_push_settings = Some col\<rparr>" "aw_settings w"]
    by (simp add: w1 split: option.splits)
  obtain v where v: "ap_json L col = Some v" "same_json (push_settings_json t) v"
    using columns payload col unfolding json_columns_ok_def by blast
  have "identity_from_headers L (aw_now w1) headers config = Inr caller" using caller by (simp add: w1)
  note who1 = known_caller_run[OF this]
  show ?thesis
    using t push_settings_again[OF t] push_settings_same[OF v(2)] stored v(1) who1
    by (simp add: get_push_settings_def load_push_settings_def run_then run_query[OF \<open>quiet w1\<close>] ok_or_def)
qed

end
