(* ===== verification/Api_Friend_Properties.thy ===== *)
theory Api_Friend_Properties
  imports Api_Social_Views Api_Samples Common_Properties
begin

text \<open>
  What the handlers of friends guarantee: no friendship without a request that its target has answered, however
  requests, answers and removals interleave; and what an answer makes of a request that was answered before.
\<close>

text \<open>
  The rules behind friendships under interleaving: a history of the requests that were made and of those
  that their targets have answered, the invariant that ties the rows of friends to it, and what every access of
  the handlers of friends does to it.
\<close>

section \<open>The history\<close>

type_synonym request_key = "int \<times> int \<times> int"

definition request_key :: "friend_request_row \<Rightarrow> request_key" where
  "request_key q = (fq_id q, fq_applicant_id q, fq_target_user_id q)"

definition answered :: "friend_request_row \<Rightarrow> bool" where
  "answered q \<longleftrightarrow> fq_handle_time q \<noteq> None"

definition answered_keys :: "api_world \<Rightarrow> request_key set" where
  "answered_keys w = request_key ` {q \<in> set (aw_friend_requests w). answered q}"

text \<open>The two users of a row, and of a request.\<close>

definition row_pair :: "friend_row \<Rightarrow> int set" where
  "row_pair r = {fr_user_id r, fr_friend_id r}"

definition key_pair :: "request_key \<Rightarrow> int set" where
  "key_pair = (\<lambda>(_, a, t). {a, t})"

text \<open>
  The history: the requests that were made and the answers. The rules say which pairs were there before, which
  requests may be made, answered and accepted.
\<close>

type_synonym friend_log = "request_key set \<times> request_key set"

record friend_rules =
  old_pairs :: "int set set"
  may_ask :: "request_key set"
  may_answer :: "request_key set"
  may_accept :: "request_key set"

definition log_of :: "api_world \<Rightarrow> friend_log" where
  "log_of w = (request_key ` set (aw_friend_requests w), answered_keys w)"

definition log_grows :: "friend_log \<Rightarrow> friend_log \<Rightarrow> bool" where
  "log_grows s s' \<longleftrightarrow> fst s \<subseteq> fst s' \<and> snd s \<subseteq> snd s'"

definition accepted_pairs :: "friend_rules \<Rightarrow> friend_log \<Rightarrow> int set set" where
  "accepted_pairs R s = key_pair ` (fst s \<inter> may_accept R)"

lemma accepted_grow: "log_grows s s' \<Longrightarrow> accepted_pairs R s \<subseteq> accepted_pairs R s'"
  by (auto simp: log_grows_def accepted_pairs_def)

definition logged :: "friend_rules \<Rightarrow> friend_log \<Rightarrow> api_world \<Rightarrow> bool" where
  "logged R s w \<longleftrightarrow> s = log_of w \<and> distinct (map fq_id (aw_friend_requests w)) \<and>
     row_pair ` set (aw_friends w) \<subseteq> old_pairs R \<union> accepted_pairs R s \<and> fst s \<subseteq> may_ask R \<and> snd s \<subseteq> may_answer R"

lemma loggedD:
  assumes "logged R s w"
  shows "s = log_of w" "row_pair ` set (aw_friends w) \<subseteq> old_pairs R \<union> accepted_pairs R s"
    "fst s \<subseteq> may_ask R" "snd s \<subseteq> may_answer R"
  using assms unfolding logged_def by - (elim conjE, assumption)+

text \<open>What happens elsewhere: rows of friends may change or go, and requests stay as they are.\<close>

definition friends_env :: "api_world \<Rightarrow> api_world \<Rightarrow> bool" where
  "friends_env w w' \<longleftrightarrow> aw_friend_requests w' = aw_friend_requests w \<and>
     row_pair ` set (aw_friends w') \<subseteq> row_pair ` set (aw_friends w)"

lemma logged_pairs:
  assumes "logged R s w" "aw_friend_requests w' = aw_friend_requests w"
    and "row_pair ` set (aw_friends w') \<subseteq> row_pair ` set (aw_friends w) \<union> accepted_pairs R s"
  shows "logged R s w'"
proof -
  have "answered_keys w' = answered_keys w" using assms(2) by (simp add: answered_keys_def)
  moreover have "row_pair ` set (aw_friends w) \<union> accepted_pairs R s \<subseteq> old_pairs R \<union> accepted_pairs R s"
    using loggedD(2)[OF assms(1)] by (simp only: Un_subset_iff Un_upper2 simp_thms)
  then have "row_pair ` set (aw_friends w') \<subseteq> old_pairs R \<union> accepted_pairs R s" by (rule subset_trans[OF assms(3)])
  ultimately show ?thesis using assms(1,2) unfolding logged_def log_of_def by (elim conjE) simp
qed

lemma logged_env: "friends_env w w' \<Longrightarrow> logged R s w \<Longrightarrow> logged R s w'"
  by (rule logged_pairs) (auto simp only: friends_env_def)

interpretation friend_log: social_history "\<lambda>w. (aw_friend_requests w, aw_friends w)" "logged R" log_grows friends_env for R
proof unfold_locales
  show "(aw_friend_requests w', aw_friends w') = (aw_friend_requests w, aw_friends w) \<Longrightarrow> logged R s w \<Longrightarrow>
      logged R s w'" for w w' s
    by (rule logged_env[of w w']) (simp_all add: friends_env_def)
qed (auto simp: log_grows_def outcome_used_def intro: logged_env)

lemma logged_used: "logged R s w \<Longrightarrow> logged R s (outcome_used w)"
  by (erule logged_env[rotated]) (simp add: friends_env_def outcome_used_def)

abbreviation befriends :: "friend_rules \<Rightarrow> 'a api \<Rightarrow> friend_log \<Rightarrow> bool" where
  "befriends R m s \<equiv> traced (logged R) log_grows m (\<lambda>_ _. True) s"

section \<open>The statements\<close>

lemma image_update_where: "(\<And>r. g (f r) = g r) \<Longrightarrow> g ` set (update_where p f rows) = g ` set rows"
proof -
  assume "\<And>r. g (f r) = g r"
  then have "g \<circ> (\<lambda>r. if p r then f r else r) = g" by auto
  then show ?thesis by (simp only: update_where_def set_map image_comp)
qed

lemma load_traced: "traced (logged R) log_grows (load_friend_request i)
    (\<lambda>r s. \<forall>a t. r = Inr (a, t) \<longrightarrow> (i, a, t) \<in> fst s) s"
  unfolding load_friend_request_def sql_query_def
proof (rule friend_log.traced_then)
  show "traced (logged R) log_grows (command ESqlx (\<lambda>w. (Inr (row_of fq_id i (aw_friend_requests w)), w)))
    (\<lambda>r s. \<forall>q. r = Inr (Some q) \<longrightarrow> request_key q \<in> fst s \<and> fq_id q = i) s"
  proof (rule traced_command)
    fix s1 w assume "logged R s1 w"
    then show "\<exists>s2. log_grows s1 s2 \<and> logged R s2 (snd (Inr (row_of fq_id i (aw_friend_requests w)), w)) \<and>
        (\<forall>q. fst (Inr (row_of fq_id i (aw_friend_requests w)), w) = Inr (Some q) \<longrightarrow> request_key q \<in> fst s2 \<and> fq_id q = i)"
      by (intro exI[of _ s1]) (auto simp: log_grows_def logged_def log_of_def dest!: row_of_Some)
  qed (simp_all add: logged_used log_grows_def)
qed (auto simp: ok_or_def request_key_def split: option.split)

lemma answer_traced:
  assumes "(i, a, t) \<in> fst s" "(i, a, t) \<in> may_answer R"
  shows "traced (logged R) log_grows (set_request_status i st) (\<lambda>r s. r = Inr () \<longrightarrow> (i, a, t) \<in> fst s) s"
  unfolding set_request_status_def sql_execute_def
proof (rule traced_command)
  fix s1 w assume le: "log_grows s s1" and ok: "logged R s1 w"
  let ?rows = "update_where (\<lambda>r. fq_id r = i) (\<lambda>r. r\<lparr>fq_status := st, fq_handle_time := Some (sql_now w)\<rparr>) (aw_friend_requests w)"
  let ?w = "w\<lparr>aw_friend_requests := ?rows\<rparr>"
  have ids: "distinct (map fq_id (aw_friend_requests w))" and s1: "s1 = log_of w" using ok by (simp_all add: logged_def)
  obtain q where q: "q \<in> set (aw_friend_requests w)" "request_key q = (i, a, t)"
    using assms(1) le ok by (auto simp: logged_def log_of_def log_grows_def)
  have only: "request_key r = (i, a, t)" if "r \<in> set (aw_friend_requests w)" "fq_id r = i" for r
    using that q ids by (auto simp: request_key_def distinct_map dest: inj_onD)
  have keys: "request_key ` set ?rows = request_key ` set (aw_friend_requests w)"
    by (rule image_update_where) (simp add: request_key_def)
  have ans: "answered_keys ?w = insert (i, a, t) (answered_keys w)"
  proof (intro equalityI subsetI)
    fix k assume "k \<in> answered_keys ?w"
    then obtain r where r: "r \<in> set (aw_friend_requests w)" "k = request_key r" "fq_id r = i \<or> answered r"
      by (auto simp: answered_keys_def set_update_where request_key_def split: if_splits)
    with only show "k \<in> insert (i, a, t) (answered_keys w)" by (auto simp: answered_keys_def)
  next
    fix k assume "k \<in> insert (i, a, t) (answered_keys w)"
    then obtain r where r: "r \<in> set (aw_friend_requests w)" "k = request_key r" "r = q \<or> answered r"
      using q by (auto simp: answered_keys_def)
    let ?r = "if fq_id r = i then r\<lparr>fq_status := st, fq_handle_time := Some (sql_now w)\<rparr> else r"
    have "?r \<in> set ?rows" using r(1) by (auto simp: set_update_where)
    moreover have "answered ?r" "request_key ?r = k"
      using r q(2) by (auto simp: answered_def request_key_def)
    ultimately show "k \<in> answered_keys ?w" unfolding answered_keys_def by force
  qed
  have "logged R (log_of ?w) ?w"
    using ok[unfolded s1] assms(2) keys by (simp add: logged_def log_of_def ans accepted_pairs_def)
  moreover have "log_grows s1 (log_of ?w)" using ok by (auto simp: log_grows_def logged_def log_of_def ans keys)
  ultimately show "\<exists>s2. log_grows s1 s2 \<and> logged R s2 (snd (Inr (), ?w)) \<and>
      (fst (Inr (), ?w) = Inr () \<longrightarrow> (i, a, t) \<in> fst s2)"
    using q by (intro exI[of _ "log_of ?w"]) (simp add: log_of_def keys, metis image_eqI)
qed (simp_all add: logged_used log_grows_def)

lemma upserted_image:
  assumes "\<And>r. g (f r) = g r"
  shows "g ` set (upsert_row keys new f rows) \<subseteq> insert (g new) (g ` set rows)"
  by (induction keys) (auto simp: image_update_where[of g f] assms)

lemma upserted_pairs: "row_pair ` set (upsert_row keys new (\<lambda>r. r\<lparr>fr_status := 1, fr_remark := f r\<rparr>) rows) \<subseteq>
    insert (row_pair new) (row_pair ` set rows)"
  by (rule upserted_image) (simp add: row_pair_def)

lemma store_befriends:
  assumes "{u, v} \<in> accepted_pairs R s"
  shows "befriends R (store_friendship L i u v remark) s"
  unfolding store_friendship_def sql_execute_def
proof (rule traced_command, goal_cases)
  case (3 s1 w)
  then have pair: "{u, v} \<in> accepted_pairs R s1" using assms accepted_grow by blast
  let ?keys = "[\<lambda>r. fr_id r = i, \<lambda>r. fr_user_id r = u \<and> fr_friend_id r = v]"
  show ?case
  proof (intro exI conjI TrueI)
    show "log_grows s1 s1" by (simp add: log_grows_def)
    show "logged R s1 (snd (case column (ap_varchar L 100) remark of None \<Rightarrow> (Inl ESqlx, w)
     | Some remark \<Rightarrow> (Inr (), w\<lparr>aw_friends := upsert_row ?keys
         \<lparr>fr_id = i, fr_user_id = u, fr_friend_id = v, fr_remark = remark, fr_status = 1, fr_created_time = sql_now w\<rparr>
         (\<lambda>r. r\<lparr>fr_status := 1, fr_remark := or_else remark (fr_remark r)\<rparr>) (aw_friends w)\<rparr>)))"
    proof (cases "column (ap_varchar L 100) remark")
      case (Some rem)
      let ?new = "\<lparr>fr_id = i, fr_user_id = u, fr_friend_id = v, fr_remark = rem, fr_status = 1, fr_created_time = sql_now w\<rparr>"
      have new: "row_pair ?new = {u, v}" by (simp add: row_pair_def)
      have "row_pair ` set (upsert_row ?keys ?new (\<lambda>r. r\<lparr>fr_status := 1, fr_remark := or_else rem (fr_remark r)\<rparr>) (aw_friends w))
          \<subseteq> insert {u, v} (row_pair ` set (aw_friends w))"
        using upserted_pairs[of ?keys ?new "\<lambda>r. or_else rem (fr_remark r)" "aw_friends w"] unfolding new .
      also have "\<dots> \<subseteq> row_pair ` set (aw_friends w) \<union> accepted_pairs R s1" using pair by blast
      finally have "row_pair ` set (upsert_row ?keys ?new
          (\<lambda>r. r\<lparr>fr_status := 1, fr_remark := or_else rem (fr_remark r)\<rparr>) (aw_friends w))
          \<subseteq> row_pair ` set (aw_friends w) \<union> accepted_pairs R s1" .
      then show ?thesis unfolding Some by (intro logged_pairs[OF 3(2)]) (simp_all del: upsert_row.simps)
    qed (use 3(2) in simp)
  qed
qed (simp_all add: logged_used log_grows_def)

lemma same_log: "logged R s w \<Longrightarrow> \<exists>s2. log_grows s s2 \<and> logged R s2 w"
  by (rule exI[of _ s]) (simp add: log_grows_def)

lemma insert_request_befriends: "(i, a, t) \<in> may_ask R \<Longrightarrow> befriends R (insert_friend_request L i a t reason) s"
  unfolding insert_friend_request_def sql_execute_def
proof (rule traced_command, goal_cases)
  case (3 s1 w)
  note asked = 3(1) and ok = 3(3)
  show ?case
  proof (cases "row_of fq_id i (aw_friend_requests w)")
    case None
    show ?thesis
    proof (cases "column (ap_varchar L 200) reason")
      case (Some reason')
      let ?w = "w\<lparr>aw_friend_requests := aw_friend_requests w @ [\<lparr>fq_id = i, fq_applicant_id = a, fq_target_user_id = t,
        fq_status = 0, fq_apply_time = sql_now w, fq_apply_reason = reason', fq_handle_time = None\<rparr>]\<rparr>"
      have ans: "answered_keys ?w = answered_keys w" by (auto simp: answered_keys_def answered_def)
      have "logged R (log_of ?w) ?w"
        using ok asked None by (auto simp: logged_def log_of_def accepted_pairs_def ans row_of_None request_key_def)
      moreover have "log_grows s1 (log_of ?w)" using ok by (auto simp: log_grows_def logged_def log_of_def ans)
      ultimately show ?thesis using None Some by (intro exI[of _ "log_of ?w"]) simp
    qed (use None same_log[OF ok] in simp)
  qed (use same_log[OF ok] in simp)
qed (simp_all add: logged_used log_grows_def)

lemma fewer_friends:
  assumes "\<And>w. aw_friend_requests (snd (f w)) = aw_friend_requests w"
    and "\<And>w. row_pair ` set (aw_friends (snd (f w))) \<subseteq> row_pair ` set (aw_friends w)"
  shows "befriends R (sql_execute f) s"
proof (rule friend_log.kept_statement)
  show "logged R s (snd (f w))" if "logged R s w" for s w
    using logged_env[of w "snd (f w)"] that assms[of w] by (simp add: friends_env_def)
qed

section \<open>The handlers\<close>

lemma upsert_befriends: "{u, v} \<in> accepted_pairs R s \<Longrightarrow> befriends R (upsert_friendship L n u v remark) s"
  unfolding upsert_friendship_def
  by (rule friend_log.unseen_then[OF friend_log.same_local(1)], rule store_befriends) (use accepted_grow in blast)

lemma add_befriends:
  assumes "\<And>i a t. a \<in> callers L config headers \<Longrightarrow> (i, a, t) \<in> may_ask R"
  shows "befriends R (add_friend L config headers request) s"
  unfolding add_friend_def
proof (intro friend_log.caller_after friend_log.resolve_after checked_then TrueI)
  fix c s1 target s2
  assume c: "id_user_id c \<in> callers L config headers"
  show "befriends R (act_then (are_friends (id_user_id c) target) (\<lambda>friends.
     if friends then act_then (cache_friendship (id_user_id c) target True) (\<lambda>_. act_ok True)
     else
       act_then (new_id (ac_snowflake_node_id config)) (\<lambda>i.
       act_then (insert_friend_request L i (id_user_id c) target (normalize_optional (af_reason request))) (\<lambda>_.
       act_then (new_event FriendRequestCreated (''friend_req:'' @ show_int i)) (\<lambda>event.
       act_then (write_social_event L config (event\<lparr>ev_sender_id := Some (show_int (id_user_id c)),
         ev_target_user_id := Some (show_int target)\<rparr>)) (\<lambda>_. act_ok True)))))) s2"
  proof (rule friend_log.unseen_then[OF friend_log.same_parts(4)], split if_split, intro conjI impI)
    fix s3
    show "befriends R (act_then (cache_friendship (id_user_id c) target True) (\<lambda>_. act_ok True)) s3"
      by (rule friend_log.unseen_follows) (intro ensures_intros)
  next
    fix s3
    show "befriends R (act_then (new_id (ac_snowflake_node_id config)) (\<lambda>i.
       act_then (insert_friend_request L i (id_user_id c) target (normalize_optional (af_reason request))) (\<lambda>_.
       act_then (new_event FriendRequestCreated (''friend_req:'' @ show_int i)) (\<lambda>event.
       act_then (write_social_event L config (event\<lparr>ev_sender_id := Some (show_int (id_user_id c)),
         ev_target_user_id := Some (show_int target)\<rparr>)) (\<lambda>_. act_ok True))))) s3"
      by (rule friend_log.unseen_then[OF friend_log.same_local(1)], rule friend_log.follows_then[OF insert_request_befriends[OF assms[OF c]]],
          rule friend_log.unseen_follows) (intro ensures_intros)
  qed
qed

text \<open>What follows an answer.\<close>

lemma made_friends:
  assumes "(i, a, t) \<in> fst s" "(i, a, t) \<in> may_accept R"
  shows "befriends R
    (act_then (upsert_friendship L n t a None) (\<lambda>_. act_then (upsert_friendship L n a t None) (\<lambda>_.
     act_then (cache_friendship t a True) (\<lambda>_. act_then (cache_friendship a t True) (\<lambda>_.
     act_then (new_event FriendRequestAccepted c) (\<lambda>event. act_then (write_social_event L config (g event)) (\<lambda>_.
     act_ok True)))))) ) s"
proof -
  have pair: "{t, a} \<in> accepted_pairs R s1 \<and> {a, t} \<in> accepted_pairs R s1" if "log_grows s s1" for s1
    using assms that by (force simp: accepted_pairs_def key_pair_def log_grows_def insert_commute)
  show ?thesis
  proof (rule friend_log.follows_then[OF upsert_befriends])
    show "{t, a} \<in> accepted_pairs R s" using pair[of s] by (simp add: log_grows_def)
    fix s1 assume "log_grows s s1"
    then have p: "{a, t} \<in> accepted_pairs R s1" using pair by blast
    show "befriends R (act_then (upsert_friendship L n a t None) (\<lambda>_.
      act_then (cache_friendship t a True) (\<lambda>_. act_then (cache_friendship a t True) (\<lambda>_.
      act_then (new_event FriendRequestAccepted c) (\<lambda>event. act_then (write_social_event L config (g event)) (\<lambda>_.
      act_ok True)))))) s1"
      by (rule friend_log.follows_then[OF upsert_befriends[OF p]], rule friend_log.unseen_follows) (intro ensures_intros)
  qed
qed

lemma answer_befriends:
  assumes "\<And>a t. t \<in> callers L config headers \<Longrightarrow> (hf_request_id request, a, t) \<in> may_answer R"
  shows "(\<And>a t. t \<in> callers L config headers \<Longrightarrow> (hf_request_id request, a, t) \<in> may_accept R) \<Longrightarrow>
      befriends R (accept_friend L config headers request) s"
    and "befriends R (reject_friend L config headers request) s"
proof -
  let ?i = "hf_request_id request"
  have answer: "befriends R (act_then (caller_of L config headers) (\<lambda>caller.
     act_then (load_friend_request ?i) (\<lambda>(applicant, target).
     act_then (act_check (target = id_user_id caller) (EForbidden ''not request target user'')) (\<lambda>_.
     act_then (set_request_status ?i st) (\<lambda>_. rest caller applicant))))) s"
    if rest: "\<And>c a s1. id_user_id c \<in> callers L config headers \<Longrightarrow> (?i, a, id_user_id c) \<in> fst s1 \<Longrightarrow> befriends R (rest c a) s1"
    for st and rest :: "identity \<Rightarrow> int \<Rightarrow> bool api"
  proof (rule friend_log.caller_after, rule friend_log.traced_then[OF load_traced], clarify)
    fix c :: identity and s1 s2 :: friend_log and a t :: int
    assume c: "id_user_id c \<in> callers L config headers"
      and known: "\<forall>a' t'. Inr (a, t) = Inr (a', t') \<longrightarrow> (?i, a', t') \<in> fst s2"
    show "befriends R (act_then (act_check (t = id_user_id c) (EForbidden ''not request target user'')) (\<lambda>_.
       act_then (set_request_status ?i st) (\<lambda>_. rest c a))) s2"
    proof (rule checked_then)
      assume t: "t = id_user_id c"
      show "befriends R (act_then (set_request_status ?i st) (\<lambda>_. rest c a)) s2"
        by (rule friend_log.traced_then[OF answer_traced[of ?i a t]])
          (use known c t rest assms in auto)
    qed simp
  qed simp
  show "befriends R (accept_friend L config headers request) s"
    if "\<And>a t. t \<in> callers L config headers \<Longrightarrow> (hf_request_id request, a, t) \<in> may_accept R"
    unfolding accept_friend_def by (rule answer) (rule made_friends, use that in auto)
  show "befriends R (reject_friend L config headers request) s"
    unfolding reject_friend_def by (rule answer) simp
qed

lemma change_befriends:
  "befriends R (remove_friend L config headers params) s"
  "befriends R (update_friend_remark L config headers params) s"
  "befriends R (friend_list L config headers) s"
  "befriends R (friend_requests L config headers) s"
proof -
  have marked: "row_pair ` set (update_where p (\<lambda>r. r\<lparr>fr_status := 2\<rparr>) rows) \<subseteq> row_pair ` set rows" 
    "row_pair ` set (update_where p (\<lambda>r. r\<lparr>fr_remark := m\<rparr>) rows) \<subseteq> row_pair ` set rows" for p m rows
    by (simp_all add: image_update_where row_pair_def)
  have removed: "befriends R (sql_execute (\<lambda>w. (Inr (), w\<lparr>aw_friends := update_where p
      (\<lambda>r. r\<lparr>fr_status := 2\<rparr>) (aw_friends w)\<rparr>))) s" for p s
    by (rule fewer_friends) (simp_all add: marked)
  have remarked: "befriends R (sql_execute (\<lambda>w. let hit = p in case m of
        None \<Rightarrow> if \<exists>r \<in> set (aw_friends w). hit r then (Inl ESqlx, w) else (Inr (), w)
      | Some remark \<Rightarrow> (Inr (), w\<lparr>aw_friends := update_where hit (\<lambda>r. r\<lparr>fr_remark := remark\<rparr>) (aw_friends w)\<rparr>))) s" for p m s
    by (cases m) (rule fewer_friends, simp_all add: Let_def marked)+
  show "befriends R (remove_friend L config headers params) s"
    unfolding remove_friend_def
    by (intro friend_log.caller_after known_then friend_log.resolve_after friend_log.follows_then[OF removed] TrueI, rule friend_log.unseen_follows)
      (intro ensures_intros)
  show "befriends R (update_friend_remark L config headers params) s"
    unfolding update_friend_remark_def
    by (intro friend_log.caller_after known_then friend_log.resolve_after friend_log.follows_then[OF remarked] TrueI) simp
  show "befriends R (friend_list L config headers) s" "befriends R (friend_requests L config headers) s"
    unfolding friend_list_def friend_requests_def
    by (rule friend_log.caller_after, rule friend_log.unseen_follows, rule friend_log.untouched.guarantees_read)+
qed

section \<open>Consent\<close>

datatype friend_call =
    List_friends header_map
  | List_requests header_map
  | Add_friend header_map add_friend_request
  | Accept_friend header_map handle_friend_request
  | Reject_friend header_map handle_friend_request
  | Remove_friend header_map "string \<Rightarrow> string option"
  | Set_remark header_map "string \<Rightarrow> string option"

primrec friend_task :: "api_lib \<Rightarrow> api_config \<Rightarrow> friend_call \<Rightarrow> unit api" where
  "friend_task L config (List_friends hs) = act_then (friend_list L config hs) (\<lambda>_. act_ok ())"
| "friend_task L config (List_requests hs) = act_then (friend_requests L config hs) (\<lambda>_. act_ok ())"
| "friend_task L config (Add_friend hs r) = act_then (add_friend L config hs r) (\<lambda>_. act_ok ())"
| "friend_task L config (Accept_friend hs r) = act_then (accept_friend L config hs r) (\<lambda>_. act_ok ())"
| "friend_task L config (Reject_friend hs r) = act_then (reject_friend L config hs r) (\<lambda>_. act_ok ())"
| "friend_task L config (Remove_friend hs ps) = act_then (remove_friend L config hs ps) (\<lambda>_. act_ok ())"
| "friend_task L config (Set_remark hs ps) = act_then (update_friend_remark L config hs ps) (\<lambda>_. act_ok ())"

text \<open>
  The requests that a call may make, accept and reject, as identifier, applicant and target: those of a user for
  whom its headers speak.
\<close>

fun asks :: "api_lib \<Rightarrow> api_config \<Rightarrow> friend_call \<Rightarrow> request_key set" where
  "asks L config (Add_friend hs r) = {(i, a, t) | i a t. a \<in> callers L config hs}"
| "asks L config _ = {}"

fun accepts :: "api_lib \<Rightarrow> api_config \<Rightarrow> friend_call \<Rightarrow> request_key set" where
  "accepts L config (Accept_friend hs r) = {(hf_request_id r, a, t) | a t. t \<in> callers L config hs}"
| "accepts L config _ = {}"

fun rejects :: "api_lib \<Rightarrow> api_config \<Rightarrow> friend_call \<Rightarrow> request_key set" where
  "rejects L config (Reject_friend hs r) = {(hf_request_id r, a, t) | a t. t \<in> callers L config hs}"
| "rejects L config _ = {}"

lemma task_befriends:
  assumes "asks L config call \<subseteq> may_ask R" "accepts L config call \<subseteq> may_accept R"
    and "accepts L config call \<union> rejects L config call \<subseteq> may_answer R"
  shows "befriends R (friend_task L config call) s"
proof -
  have "traced (logged R) log_grows (act_then m (\<lambda>_. act_ok ())) (\<lambda>_ _. True) s" if "befriends R m s" for m :: "'c api"
    using that by (auto intro!: friend_log.follows_then)
  then show ?thesis
    using assms by (cases call) (auto intro!: friend_log.follows_then change_befriends add_befriends answer_befriends)
qed

text \<open>
  C14: Consent. However requests, answers, removals and readers interleave, with any commands failing and rows of friends
  changing or going elsewhere, two users who had no row of friends have one afterwards only if there is a request of one of them to the other and a call
  of its target that accepts it. A request is made only by a call of its applicant, and answered only by a call
  of its target that accepts or rejects it.
\<close>

theorem friendship_needs_consent:
  assumes runs: "sys_runs friends_env (map (friend_task L config) calls, w) (ts', w')"
    and start: "distinct (map fq_id (aw_friend_requests w))"
  shows "(\<forall>pair \<in> row_pair ` set (aw_friends w') - row_pair ` set (aw_friends w).
      \<exists>q \<in> set (aw_friend_requests w'). pair = {fq_applicant_id q, fq_target_user_id q} \<and>
        (\<exists>call \<in> set calls. request_key q \<in> accepts L config call)) \<and>
    request_key ` set (aw_friend_requests w') \<subseteq>
      request_key ` set (aw_friend_requests w) \<union> (\<Union>call \<in> set calls. asks L config call) \<and>
    answered_keys w' \<subseteq>
      answered_keys w \<union> (\<Union>call \<in> set calls. accepts L config call \<union> rejects L config call)"
proof -
  define R where "R = \<lparr>old_pairs = row_pair ` set (aw_friends w),
    may_ask = request_key ` set (aw_friend_requests w) \<union> (\<Union>call \<in> set calls. asks L config call),
    may_answer = answered_keys w \<union> (\<Union>call \<in> set calls. accepts L config call \<union> rejects L config call),
    may_accept = (\<Union>call \<in> set calls. accepts L config call)\<rparr>"
  have inv: "logged R (log_of w) w" using start by (auto simp: logged_def log_of_def R_def)
  have "befriends R (friend_task L config call) s" if "call \<in> set calls" for call s
    by (rule task_befriends) (use that in \<open>auto simp: R_def\<close>)
  then have "list_all2 (\<lambda>t Q. lasting log_grows Q \<and> traced (logged R) log_grows t Q (log_of w))
      (map (friend_task L config) calls) (replicate (length calls) (\<lambda>_ _. True))"
    by (auto simp: list_all2_conv_all_nth lasting_def)
  from friend_log.runs_traced[OF runs inv this] obtain s' where s': "logged R s' w'" by blast
  have "\<exists>q \<in> set (aw_friend_requests w'). pair = {fq_applicant_id q, fq_target_user_id q} \<and>
        (\<exists>call \<in> set calls. request_key q \<in> accepts L config call)"
    if "pair \<in> row_pair ` set (aw_friends w') - row_pair ` set (aw_friends w)" for pair
  proof -
    have "pair \<in> accepted_pairs R (log_of w')" using s' that unfolding logged_def R_def friend_rules.simps by blast
    then obtain k where k: "k \<in> request_key ` set (aw_friend_requests w')" "pair = key_pair k"
        "\<exists>call \<in> set calls. k \<in> accepts L config call"
      unfolding accepted_pairs_def log_of_def R_def by auto
    then obtain q where "q \<in> set (aw_friend_requests w')" "k = request_key q" by blast
    with k show ?thesis by (intro bexI[of _ q]) (simp_all add: key_pair_def request_key_def)
  qed
  moreover have "request_key ` set (aw_friend_requests w') \<subseteq> may_ask R" "answered_keys w' \<subseteq> may_answer R"
    using loggedD(3,4)[OF s'] unfolding loggedD(1)[OF s'] by (simp_all add: log_of_def)
  ultimately show ?thesis unfolding R_def friend_rules.simps by blast
qed

text \<open>Alice asks Bob, and Bob accepts.\<close>

definition asked_world :: api_world where
  "asked_world = (empty_world 1700000000000)\<lparr>aw_friend_requests :=
     [\<lparr>fq_id = 5, fq_applicant_id = 1, fq_target_user_id = 2, fq_status = 0, fq_apply_time = 0, fq_apply_reason = None,
       fq_handle_time = None\<rparr>]\<rparr>"

abbreviation bob_accepts :: friend_call where
  "bob_accepts \<equiv> Accept_friend (bearer ''bob'') \<lparr>hf_request_id = 5\<rparr>"

theorem friendship_needs_consent_witness:
  "\<exists>ts' w'. sys_runs friends_env ([friend_task sample_api sample_api_config bob_accepts], asked_world) (ts', w') \<and>
     answered_keys w' \<subseteq> accepts sample_api sample_api_config bob_accepts"
proof -
  let ?t = "friend_task sample_api sample_api_config bob_accepts"
  obtain n where n: "schedule (replicate n 0) ([?t], asked_world) = ([Ret (fst (run ?t asked_world))], snd (run ?t asked_world))"
    using schedule_alone[of 0 "[?t]" ?t asked_world] by auto
  have runs: "sys_runs friends_env (map (friend_task sample_api sample_api_config) [bob_accepts], asked_world)
      ([Ret (fst (run ?t asked_world))], snd (run ?t asked_world))"
    using schedule_runs[of friends_env "([?t], asked_world)" "replicate n 0"] unfolding n by simp
  have start: "distinct (map fq_id (aw_friend_requests asked_world))" by (simp add: asked_world_def)
  have none: "answered_keys asked_world = {}" by (simp add: answered_keys_def asked_world_def answered_def)
  show ?thesis using runs friendship_needs_consent[OF runs start] unfolding none by auto
qed

section \<open>An answer that is given again\<close>

text \<open>What follows the statements on friends neither fails when no command does nor changes friends.\<close>

abbreviation calmly :: "'a api \<Rightarrow> (api_error + 'a \<Rightarrow> bool) \<Rightarrow> bool" where
  "calmly m Q \<equiv> ensures quiet (\<lambda>w w'. quiet w' \<and> aw_friends w' = aw_friends w) m Q"

interpretation calm: shared_stores quiet "\<lambda>w w'. quiet w' \<and> aw_friends w' = aw_friends w" "\<lambda>w w'. w' = w"
  by unfold_locales auto

lemma calm_command:
  "(\<And>w. quiet w \<Longrightarrow> quiet (snd (f w)) \<and> aw_friends (snd (f w)) = aw_friends w \<and> Q (fst (f w))) \<Longrightarrow> calmly (command e f) Q"
  by (simp add: command_def quiet_used)

lemma calm_then:
  "calmly m is_ok \<Longrightarrow> (\<And>x. calmly (f x) Q) \<Longrightarrow> calmly (act_then m f) Q"
  by (rule ensures_then[where Q = is_ok]) auto

lemma calm_try: "calmly m (\<lambda>_. True) \<Longrightarrow> calmly (act_try m) is_ok"
  by (induction m) auto

lemma calm_parts:
  "calmly (cache_friendship u v b) is_ok" "calmly (new_event t c) is_ok" "calmly (write_social_event L config event) is_ok"
proof -
  have put: "calmly (set_bool k b) is_ok" "calmly now_ms is_ok" "calmly new_uuid is_ok" for k b
    by (simp_all add: set_bool_def set_value_def now_ms_def act_get_def new_uuid_def quiet_def)
  have ex: "calmly (redis_set_ex k v n) (\<lambda>_. True)" "calmly (hot_write url f) (\<lambda>_. True)" for k v n url f
    unfolding redis_set_ex_def redis_set_px_def hot_write_def hot_command_def
    by (rule calm_command, simp add: quiet_def)+
  have ok: "calmly (act_ok x) is_ok" for x :: 'b by simp
  show "calmly (cache_friendship u v b) is_ok"
    unfolding cache_friendship_def redis_keep_def by (intro calm_then put calm_try ex) simp
  show "calmly (new_event t c) is_ok" unfolding new_event_def by (intro calm_then put) simp
  show "calmly (write_social_event L config event) is_ok"
    by (cases "private_urls_of config") (simp_all add: write_social_event_def, intro calm_then put calm_try ex, simp)
qed

lemma calm_run: "calmly m is_ok \<Longrightarrow> quiet w \<Longrightarrow>
    \<exists>x w1. run m w = (Inr x, w1) \<and> quiet w1 \<and> aw_friends w1 = aw_friends w"
  using calm.run_guarantee[of w m is_ok] by (cases "run m w"; cases "fst (run m w)") auto

lemma row_restored:
  assumes "\<exists>r \<in> set rows. fr_user_id r = u \<and> fr_friend_id r = v" "\<forall>r \<in> set rows. fr_id r \<noteq> i"
  shows "upsert_row [\<lambda>r. fr_id r = i, \<lambda>r. fr_user_id r = u \<and> fr_friend_id r = v] new f rows =
    update_where (\<lambda>r. fr_user_id r = u \<and> fr_friend_id r = v) f rows"
  using assms by auto

text \<open>The next identifiers that the generator gives to a server that runs alone, while the clock stands.\<close>

fun ids_from :: "nat \<Rightarrow> int \<Rightarrow> u64 \<Rightarrow> nat \<Rightarrow> int list" where
  "ids_from node_id t cell 0 = []"
| "ids_from node_id t cell (Suc n) = (case next_id (word_of_nat node_id) [t] cell of
     (Some i, cell) \<Rightarrow> i # ids_from node_id t cell n
   | (None, cell) \<Rightarrow> [])"

definition restored :: "int \<Rightarrow> int \<Rightarrow> friend_row list \<Rightarrow> friend_row list" where
  "restored u v = update_where (\<lambda>r. fr_user_id r = u \<and> fr_friend_id r = v) (\<lambda>r. r\<lparr>fr_status := 1\<rparr>)"

lemma rows_updated:
  "(\<exists>r \<in> set (update_where p f rows). Q r) \<longleftrightarrow> (\<exists>r \<in> set rows. Q (if p r then f r else r))"
  "(\<forall>r \<in> set (update_where p f rows). Q r) \<longleftrightarrow> (\<forall>r \<in> set rows. Q (if p r then f r else r))"
  by (simp_all only: update_where_def set_map bex_simps ball_simps)

lemma restored_friends: "\<exists>r \<in> set rows. fr_user_id r = u \<and> fr_friend_id r = v \<Longrightarrow>
    \<exists>r \<in> set (restored u v rows). fr_user_id r = u \<and> fr_friend_id r = v \<and> fr_status r = 1"
  unfolding restored_def rows_updated by auto

lemma restored_rows:
  "(\<exists>r \<in> set (restored u v rows). fr_user_id r = a \<and> fr_friend_id r = b) \<longleftrightarrow> (\<exists>r \<in> set rows. fr_user_id r = a \<and> fr_friend_id r = b)"
  "(\<forall>r \<in> set (restored u v rows). fr_id r \<notin> A) \<longleftrightarrow> (\<forall>r \<in> set rows. fr_id r \<notin> A)"
  unfolding restored_def rows_updated by auto

lemma restored_still: "\<exists>r \<in> set rows. fr_user_id r = a \<and> fr_friend_id r = b \<and> fr_status r = 1 \<Longrightarrow>
    \<exists>r \<in> set (restored u v rows). fr_user_id r = a \<and> fr_friend_id r = b \<and> fr_status r = 1"
  unfolding restored_def rows_updated by auto

lemma run_restored:
  assumes "quiet w" "aw_now w < 2 ^ 63" "\<exists>r \<in> set (aw_friends w). fr_user_id r = u \<and> fr_friend_id r = v"
    and fresh: "\<forall>r \<in> set (aw_friends w). fr_id r \<notin> set (ids_from n (aw_now w) (aw_id_cell w) (Suc m))"
  shows "\<exists>w'. run (upsert_friendship L n u v None) w = (Inr (), w') \<and> quiet w' \<and> aw_now w' = aw_now w \<and>
    aw_friends w' = restored u v (aw_friends w) \<and>
    set (ids_from n (aw_now w) (aw_id_cell w') m) \<subseteq> set (ids_from n (aw_now w) (aw_id_cell w) (Suc m))"
proof -
  obtain i cell where i: "next_id (word_of_nat n) [aw_now w] (aw_id_cell w) = (Some i, cell)"
    using id_attempt_alone(1)[OF assms(2), of "word_of_nat n" "aw_id_cell w"] by auto
  let ?w = "w\<lparr>aw_id_cell := cell\<rparr>"
  have q: "quiet ?w" using assms(1) by (simp add: quiet_def)
  have ids: "ids_from n (aw_now w) (aw_id_cell w) (Suc m) = i # ids_from n (aw_now w) cell m"
    using i by (simp del: next_id.simps)
  then have other: "\<forall>r \<in> set (aw_friends w). fr_id r \<noteq> i" using fresh by auto
  have "run (upsert_friendship L n u v None) w = run (store_friendship L i u v None) ?w"
    by (simp add: upsert_friendship_def new_id_def i del: next_id.simps)
  also have "\<dots> = (Inr (), ?w\<lparr>aw_friends := restored u v (aw_friends w)\<rparr>)"
    by (simp add: store_friendship_def column_def or_else_def restored_def run_execute[OF q]
        row_restored[OF assms(3) other] del: upsert_row.simps)
  finally show ?thesis using q ids by (simp add: quiet_def subset_insertI)
qed

text \<open>
  Accepting a request makes its applicant and its target friends in both directions, whatever became of the
  request before: also one that was rejected, and one whose friendship was removed since, so that
  whoever was once asked can restore a friendship that the other has ended.
\<close>

theorem old_request_accepted:
  assumes "quiet w" "aw_now w < 2 ^ 63"
    and caller: "identity_from_headers L (aw_now w) headers config = Inr caller"
    and asked: "row_of fq_id (hf_request_id request) (aw_friend_requests w) = Some q" "fq_target_user_id q = id_user_id caller"
    and rows: "\<exists>r \<in> set (aw_friends w). fr_user_id r = id_user_id caller \<and> fr_friend_id r = fq_applicant_id q"
      "\<exists>r \<in> set (aw_friends w). fr_user_id r = fq_applicant_id q \<and> fr_friend_id r = id_user_id caller"
    and fresh: "\<forall>r \<in> set (aw_friends w).
      fr_id r \<notin> set (ids_from (ac_snowflake_node_id config) (aw_now w) (aw_id_cell w) 2)"
  shows "\<exists>w'. run (accept_friend L config headers request) w = (Inr True, w') \<and>
    friends_in w' (id_user_id caller) (fq_applicant_id q) \<and> friends_in w' (fq_applicant_id q) (id_user_id caller)"
proof -
  let ?u = "id_user_id caller" and ?v = "fq_applicant_id q" and ?n = "ac_snowflake_node_id config"
  define w1 where "w1 = w\<lparr>aw_friend_requests := update_where (\<lambda>r. fq_id r = hf_request_id request)
    (\<lambda>r. r\<lparr>fq_status := 1, fq_handle_time := Some (sql_now w)\<rparr>) (aw_friend_requests w)\<rparr>"
  have w1: "quiet w1" "aw_now w1 = aw_now w" "aw_friends w1 = aw_friends w" "aw_id_cell w1 = aw_id_cell w"
    using assms(1) by (simp_all add: w1_def quiet_def)
  have fresh1: "\<forall>r \<in> set (aw_friends w). fr_id r \<notin> set (ids_from ?n (aw_now w) (aw_id_cell w) (Suc (Suc 0)))"
    using fresh by (simp only: numeral_2_eq_2)
  obtain w2 where w2: "run (upsert_friendship L ?n ?u ?v None) w1 = (Inr (), w2)" "quiet w2" "aw_now w2 = aw_now w"
    "aw_friends w2 = restored ?u ?v (aw_friends w)"
    "set (ids_from ?n (aw_now w) (aw_id_cell w2) (Suc 0)) \<subseteq> set (ids_from ?n (aw_now w) (aw_id_cell w) (Suc (Suc 0)))"
    using run_restored[OF w1(1), of ?u ?v ?n "Suc 0" L] assms(2) rows(1) fresh1 unfolding w1(2-4) by blast
  have fresh2: "\<forall>r \<in> set (aw_friends w). fr_id r \<notin> set (ids_from ?n (aw_now w) (aw_id_cell w2) (Suc 0))"
    using fresh1 w2(5) by blast
  obtain w3 where w3: "run (upsert_friendship L ?n ?v ?u None) w2 = (Inr (), w3)" "quiet w3"
    "aw_friends w3 = restored ?v ?u (restored ?u ?v (aw_friends w))"
    using run_restored[OF w2(2), of ?v ?u ?n 0 L] assms(2) rows(2) fresh2 unfolding w2(3,4) restored_rows by blast
  let ?rest = "act_then (cache_friendship ?u ?v True) (\<lambda>_. act_then (cache_friendship ?v ?u True) (\<lambda>_.
     act_then (new_event FriendRequestAccepted (''friend_acc:'' @ show_int (hf_request_id request))) (\<lambda>event.
     act_then (write_social_event L config (event\<lparr>ev_sender_id := Some (show_int ?u),
       ev_target_user_id := Some (show_int ?v)\<rparr>)) (\<lambda>_. act_ok True))))"
  have "calmly ?rest (\<lambda>r. r = Inr True)" by (intro calm_then calm_parts) simp
  from calm.run_guarantee[OF w3(2) this] obtain w4 where w4: "run ?rest w3 = (Inr True, w4)" "aw_friends w4 = aw_friends w3"
    by (metis prod.collapse)
  have "run (accept_friend L config headers request) w = run ?rest w3"
    unfolding accept_friend_def
    by (simp add: run_then caller_of_def run_now caller load_friend_request_def run_query[OF assms(1)] asked ok_or_def
        act_check_def set_request_status_def run_execute[OF assms(1)] w1_def[symmetric] w2(1) w3(1))
  with w4 restored_friends[OF rows(1)] restored_still restored_friends[of "restored ?u ?v (aw_friends w)" ?v ?u]
  show ?thesis using rows(2) unfolding friends_in_def w3(3) restored_rows by (metis w3(3))
qed

text \<open>Bob has rejected Alice's request, or Alice has ended the friendship; Bob accepts the request again.\<close>

definition ended_world :: "int \<Rightarrow> api_world" where
  "ended_world status = (empty_world 1700000000000)\<lparr>
     aw_friend_requests := [\<lparr>fq_id = 5, fq_applicant_id = 1, fq_target_user_id = 2, fq_status = status, fq_apply_time = 0,
       fq_apply_reason = None, fq_handle_time = Some 1\<rparr>],
     aw_friends := [\<lparr>fr_id = 6, fr_user_id = 1, fr_friend_id = 2, fr_remark = None, fr_status = 2, fr_created_time = 0\<rparr>,
       \<lparr>fr_id = 7, fr_user_id = 2, fr_friend_id = 1, fr_remark = None, fr_status = 2, fr_created_time = 0\<rparr>]\<rparr>"

lemma sample_ids_from: "ids_from (ac_snowflake_node_id sample_api_config) 1700000000000 0 2 =
    [7130316800000086016, 7130316800000086017]"
proof -
  have node: "ac_snowflake_node_id sample_api_config = 21"
    by (simp_all only: sample_api_config_def api_config_read_def Let_def api_config.select_convs)
      (simp_all add: api_env_u16_def api_env_unsigned_def)
  have "id_attempt 21 1700000000000 0 0 = (Some 7130316800000086016, 6963200000000000)"
    "id_attempt 21 1700000000000 6963200000000000 6963200000000000 = (Some 7130316800000086017, 6963200000000001)"
    by code_simp+
  then show ?thesis by (simp add: numeral_2_eq_2 node)
qed

theorem old_request_accepted_witness:
  "\<not> friends_in (ended_world 2) 1 2 \<and>
   (\<exists>w'. run (accept_friend sample_api sample_api_config (bearer ''bob'') \<lparr>hf_request_id = 5\<rparr>) (ended_world 2) = (Inr True, w') \<and>
     friends_in w' 1 2 \<and> friends_in w' 2 1)"
proof -
  let ?w = "ended_world 2" and ?q = "\<lparr>fq_id = 5, fq_applicant_id = 1, fq_target_user_id = 2, fq_status = 2,
    fq_apply_time = 0, fq_apply_reason = None, fq_handle_time = Some 1\<rparr>"
  have w: "quiet ?w" "aw_now ?w < 2 ^ 63" "aw_id_cell ?w = 0" "aw_now ?w = 1700000000000"
    by (simp_all add: ended_world_def empty_world_def quiet_def)
  have who: "identity_from_headers sample_api (aw_now ?w) (bearer ''bob'') sample_api_config =
      Inr \<lparr>id_user_id = 2, id_username = ''bob''\<rparr>"
    by (simp add: bearer_identity sample_user_def)
  have asked: "row_of fq_id (hf_request_id \<lparr>hf_request_id = 5\<rparr>) (aw_friend_requests ?w) = Some ?q"
    "fq_target_user_id ?q = 2" "fq_applicant_id ?q = 1"
    by (simp_all add: ended_world_def)
  have fresh: "\<forall>r \<in> set (aw_friends ?w).
      fr_id r \<notin> set (ids_from (ac_snowflake_node_id sample_api_config) (aw_now ?w) (aw_id_cell ?w) 2)"
    unfolding w(3,4) sample_ids_from by (simp add: ended_world_def)
  have "\<not> friends_in ?w 1 2" "\<exists>r \<in> set (aw_friends ?w). fr_user_id r = 2 \<and> fr_friend_id r = 1"
    "\<exists>r \<in> set (aw_friends ?w). fr_user_id r = 1 \<and> fr_friend_id r = 2"
    by (simp_all add: friends_in_def ended_world_def)
  then show ?thesis
    using old_request_accepted[OF w(1,2) who asked(1) _ _ _ fresh] unfolding asked(2,3) identity.select_convs by blast
qed

end
