(* ===== verification/Api_Dispatcher.thy ===== *)
theory Api_Dispatcher
  imports Api_Cache Api_Writer
begin

text \<open>
  The push dispatcher of the api-server (\<open>push_dispatcher.rs\<close>): it reads the streams of events like the writer
  does, finds out whom an event concerns and on which im-servers they are connected, and sends each server one
  signed batch per 500 users. The locks of the cache are left out; the requests of one event are sent one
  after the other, in an order that the code leaves open. Members of groups are cached on the Redis server of the
  routes, whose keys no other part uses; they are kept with the texts of \<open>aw_redis\<close>.
\<close>

definition group_members_cache_ttl_seconds :: nat where "group_members_cache_ttl_seconds = 5 * 60"
definition internal_push_batch_size :: nat where "internal_push_batch_size = 500"

section \<open>Whom an event concerns\<close>

record push_plan =
  pl_kind :: string
  pl_data :: push_data
  pl_user_ids :: "int list"

definition parse_i64_option :: "string option \<Rightarrow> int option" where
  "parse_i64_option v = Option.bind v (\<lambda>s. parse_i64 (trim s))"

definition distinct_ids :: "int option list \<Rightarrow> int list" where
  "distinct_ids values = rev (remdups (rev (List.map_filter id values)))"

definition either :: "'a option \<Rightarrow> 'a option \<Rightarrow> 'a option" where
  "either a b = (case a of Some x \<Rightarrow> Some x | None \<Rightarrow> b)"

definition load_active_members :: "int \<Rightarrow> int list api" where
  "load_active_members group_id = sql_query (\<lambda>w. distinct_ids (map (\<lambda>r. Some (gm_user_id r))
     (filter (\<lambda>r. gm_group_id r = group_id \<and> gm_status r = 1) (aw_members w))))"

definition members_cache_key :: "int \<Rightarrow> string" where
  "members_cache_key group_id = ''im:cache:group_members:'' @ show_int group_id"

definition load_group_members_cached :: "api_lib \<Rightarrow> int \<Rightarrow> int list api" where
  "load_group_members_cached L group_id =
     (let key = members_cache_key group_id in
      act_then (get_i64_vec key) (\<lambda>c. case c of Some members \<Rightarrow> act_ok members | None \<Rightarrow>
      act_then (get_i64_vec key) (\<lambda>c. case c of Some members \<Rightarrow> act_ok members | None \<Rightarrow>
      act_then (redis_peek key) (\<lambda>cached. case Option.bind cached (ap_read_ids L) of
        Some members \<Rightarrow> act_then (set_i64_vec key members) (\<lambda>_. act_ok members)
      | None \<Rightarrow>
          act_then (load_active_members group_id) (\<lambda>members.
          act_then (set_i64_vec key members) (\<lambda>_.
          act_then (redis_keep key (ap_print_ids L members) group_members_cache_ttl_seconds) (\<lambda>_.
          act_ok members)))))))"

text \<open>The people of a message: the members of its group, or its sender and its receiver.\<close>

definition message_people :: "api_lib \<Rightarrow> im_event \<Rightarrow> message_dto \<Rightarrow> int list option api" where
  "message_people L event message =
     (if ev_group event \<or> md_is_group_chat message then
        (case either (parse_i64_option (ev_group_id event)) (parse_i64_option (md_group_id message)) of
           None \<Rightarrow> act_ok None
         | Some group_id \<Rightarrow> act_then (load_group_members_cached L group_id) (\<lambda>members. act_ok (Some members)))
      else
        act_ok (Some (distinct_ids
          [either (parse_i64_option (ev_sender_id event)) (parse_i64_option (Some (md_sender_id message))),
           either (parse_i64_option (ev_receiver_id event)) (parse_i64_option (md_receiver_id message))])))"

definition receipt_people :: "api_lib \<Rightarrow> im_event \<Rightarrow> read_receipt \<Rightarrow> int list option api" where
  "receipt_people L event receipt =
     (if ev_group event then
        (case parse_i64_option (ev_group_id event) of
           None \<Rightarrow> act_ok None
         | Some group_id \<Rightarrow> act_then (load_group_members_cached L group_id) (\<lambda>members. act_ok (Some members)))
      else
        act_ok (Some (distinct_ids
          [parse_i64_option (Some (rd_reader_id receipt)),
           either (parse_i64_option (ev_target_user_id event)) (parse_i64_option (rd_to_user_id receipt))])))"

definition plan :: "string \<Rightarrow> push_data \<Rightarrow> int list option \<Rightarrow> push_plan option" where
  "plan kind data people = map_option (\<lambda>user_ids. \<lparr>pl_kind = kind, pl_data = data, pl_user_ids = user_ids\<rparr>) people"

definition friend_plan :: "string \<Rightarrow> im_event \<Rightarrow> push_plan option" where
  "friend_plan kind event = plan kind (Push_event event) (map_option (\<lambda>u. [u]) (parse_i64_option (ev_target_user_id event)))"

definition build_push :: "api_lib \<Rightarrow> im_event \<Rightarrow> push_plan option api" where
  "build_push L event = (case ev_event_type event of
     MessageCreated \<Rightarrow> (case ev_payload event of
         None \<Rightarrow> act_ok None
       | Some message \<Rightarrow> act_then (message_people L event message) (\<lambda>people.
           act_ok (plan ''MESSAGE'' (Push_message message) people)))
   | MessageRead \<Rightarrow> (case ev_read_receipt event of
         None \<Rightarrow> act_ok None
       | Some receipt \<Rightarrow> act_then (receipt_people L event receipt) (\<lambda>people.
           act_ok (plan ''READ_RECEIPT'' (Push_receipt receipt) people)))
   | MessageRecalled \<Rightarrow> (case ev_payload event of
         None \<Rightarrow> act_ok None
       | Some message \<Rightarrow> act_then (message_people L event message) (\<lambda>people.
           act_ok (plan ''MESSAGE_STATUS_CHANGED'' (Push_message message) people)))
   | MessageDeleted \<Rightarrow> (case ev_payload event of
         None \<Rightarrow> act_ok None
       | Some message \<Rightarrow> act_then (message_people L event message) (\<lambda>people.
           act_ok (plan ''MESSAGE_STATUS_CHANGED'' (Push_message message) people)))
   | FriendRequestCreated \<Rightarrow> act_ok (friend_plan ''FRIEND_REQUEST'' event)
   | FriendRequestAccepted \<Rightarrow> act_ok (friend_plan ''FRIEND_ACCEPTED'' event)
   | MomentNew \<Rightarrow> act_ok None
   | MomentLike \<Rightarrow> act_ok None
   | MomentComment \<Rightarrow> act_ok None)"

section \<open>Where they are connected\<close>

record cached_routes =
  cr_routes :: "user_route list"
  cr_cached_at_ms :: int

type_synonym route_cache = "(string \<times> cached_routes) list"

definition valid_at :: "cached_routes \<Rightarrow> int \<Rightarrow> int \<Rightarrow> bool" where
  "valid_at c now ttl_ms \<longleftrightarrow> now - cr_cached_at_ms c \<le> ttl_ms \<and> (\<forall>r \<in> set (cr_routes c). now < ux_expires_at_epoch_ms r)"

definition cached_route :: "route_cache \<Rightarrow> int \<Rightarrow> int \<Rightarrow> int \<Rightarrow> user_route list option" where
  "cached_route cache now ttl_ms user_id =
     (case map_of cache (show_int user_id) of
        Some c \<Rightarrow> if valid_at c now ttl_ms then Some (cr_routes c) else None
      | None \<Rightarrow> None)"

definition remember_routes :: "int \<Rightarrow> int \<times> user_route list \<Rightarrow> route_cache \<Rightarrow> route_cache" where
  "remember_routes now = (\<lambda>(user_id, routes) cache.
     if routes = [] then AList.delete (show_int user_id) cache
     else AList.update (show_int user_id) \<lparr>cr_routes = routes, cr_cached_at_ms = now\<rparr> cache)"

definition routes_for_users ::
  "api_lib \<Rightarrow> api_config \<Rightarrow> route_cache \<Rightarrow> int list \<Rightarrow> ((int \<Rightarrow> user_route list option) \<times> route_cache) api" where
  "routes_for_users L config cache user_ids =
     act_then now_ms (\<lambda>now.
     let ttl_ms = max (ac_route_cache_ttl_ms config) 100;
         hits = List.map_filter (\<lambda>u. map_option (Pair u) (cached_route cache now ttl_ms u)) user_ids;
         misses = filter (\<lambda>u. cached_route cache now ttl_ms u = None) user_ids in
     act_then (if misses = [] then act_ok []
       else redis_command (\<lambda>w. (map (\<lambda>u. aw_routes w (ac_route_users_key config) (show_int u)) misses, w))) (\<lambda>raws.
     act_then now_ms (\<lambda>read_at.
     let found = map (\<lambda>(u, raw). (u, parse_user_routes L read_at raw config)) (zip misses raws);
         cache = fold (remember_routes now) found cache;
         cache = (if max (ac_push_dispatcher_batch_size config) 1000 * 10 < length cache
                  then filter (\<lambda>(_, c). valid_at c now ttl_ms) cache else cache) in
     act_ok (map_of (hits @ found), cache))))"

section \<open>Batches\<close>

record route_batch =
  rb_route :: user_route
  rb_user_ids :: "int list"

definition batch_key :: "user_route \<Rightarrow> string" where
  "batch_key route = ux_server_id route @ [CHR 0x00] @ ux_internal_http_url route"

definition add_to_batch :: "int \<Rightarrow> user_route \<Rightarrow> (string \<times> route_batch) list \<Rightarrow> (string \<times> route_batch) list" where
  "add_to_batch user_id route batches =
     (case map_of batches (batch_key route) of
        None \<Rightarrow> batches @ [(batch_key route, \<lparr>rb_route = route, rb_user_ids = [user_id]\<rparr>)]
      | Some b \<Rightarrow> AList.update (batch_key route) (b\<lparr>rb_user_ids := rb_user_ids b @ [user_id]\<rparr>) batches)"

definition batches_of :: "(int \<Rightarrow> user_route list option) \<Rightarrow> int list \<Rightarrow> route_batch list" where
  "batches_of routes user_ids =
     map snd (fold (\<lambda>u batches. fold (add_to_batch u) (unwrap_or (routes u) []) batches) user_ids [])"

definition send_internal_push_batch ::
  "api_lib \<Rightarrow> api_config \<Rightarrow> user_route \<Rightarrow> string \<Rightarrow> push_data \<Rightarrow> int list \<Rightarrow> unit api" where
  "send_internal_push_batch L config route kind data user_ids =
     (if user_ids = [] then act_ok ()
      else signed_post L config ''/api/im/internal/push/batch'' (ap_push_body L kind data user_ids) route)"

definition push_batches :: "route_batch list \<Rightarrow> (user_route \<times> int list) list" where
  "push_batches batches =
     concat (map (\<lambda>b. map (Pair (rb_route b)) (chunks internal_push_batch_size (rb_user_ids b))) batches)"

definition dispatch_event :: "api_lib \<Rightarrow> api_config \<Rightarrow> route_cache \<Rightarrow> im_event \<Rightarrow> route_cache api" where
  "dispatch_event L config cache event =
     act_then (build_push L event) (\<lambda>p. case p of
       None \<Rightarrow> act_ok cache
     | Some push \<Rightarrow>
         act_then (routes_for_users L config cache (pl_user_ids push)) (\<lambda>(routes, cache).
         act_then (act_each (\<lambda>(route, user_ids).
             act_try (send_internal_push_batch L config route (pl_kind push) (pl_data push) user_ids))
           (push_batches (batches_of routes (pl_user_ids push)))) (\<lambda>_.
         act_ok cache)))"

section \<open>Rounds\<close>

definition dispatcher_group_id :: "api_config \<Rightarrow> event_stream_config \<Rightarrow> string" where
  "dispatcher_group_id config stream = ac_push_dispatcher_group_id config @ ''-'' @ event_stream_kind_str (es_kind stream)"

fun dispatch_events :: "api_lib \<Rightarrow> api_config \<Rightarrow> stream_event list \<Rightarrow> nat list \<Rightarrow> route_cache \<Rightarrow> (nat list \<times> route_cache) api" where
  "dispatch_events L config [] ack_ids cache = act_ok (ack_ids, cache)"
| "dispatch_events L config (e # es) ack_ids cache =
     act_then (case ap_read_event L (sv_payload e) of
       None \<Rightarrow> act_ok cache
     | Some event \<Rightarrow> act_then (act_try (dispatch_event L config cache event)) (\<lambda>r.
         act_ok (case r of Inr cache \<Rightarrow> cache | Inl _ \<Rightarrow> cache))) (\<lambda>cache.
     dispatch_events L config es (ack_ids @ [sv_stream_id e]) cache)"

definition dispatch_round ::
  "api_lib \<Rightarrow> api_config \<Rightarrow> event_stream_config \<Rightarrow> string \<Rightarrow> nat \<Rightarrow> route_cache \<Rightarrow> route_cache option api" where
  "dispatch_round L config stream consumer fuel cache =
     (let url = es_redis_url stream; key = es_stream_key stream; group_id = dispatcher_group_id config stream in
      act_then (read_group_events fuel url key group_id consumer (ac_push_dispatcher_batch_size config)) (\<lambda>read.
      case read of
        None \<Rightarrow> act_ok None
      | Some events \<Rightarrow>
          act_then (dispatch_events L config events [] cache) (\<lambda>(ack_ids, cache).
          act_then (ack url key group_id ack_ids) (\<lambda>_. act_ok (Some cache)))))"

text \<open>\<open>rounds\<close> turns of the loop of \<open>connect_and_consume\<close>.\<close>

fun dispatch_rounds ::
  "nat \<Rightarrow> api_lib \<Rightarrow> api_config \<Rightarrow> event_stream_config \<Rightarrow> string \<Rightarrow> nat \<Rightarrow> route_cache \<Rightarrow> route_cache option api" where
  "dispatch_rounds 0 L config stream consumer fuel cache = act_ok (Some cache)"
| "dispatch_rounds (Suc rounds) L config stream consumer fuel cache =
     act_then (dispatch_round L config stream consumer fuel cache) (\<lambda>r. case r of
       None \<Rightarrow> act_ok None
     | Some cache \<Rightarrow> dispatch_rounds rounds L config stream consumer fuel cache)"

definition connect_and_dispatch ::
  "api_lib \<Rightarrow> api_config \<Rightarrow> (string \<Rightarrow> string option) \<Rightarrow> event_stream_config \<Rightarrow> nat \<Rightarrow> nat \<Rightarrow> route_cache option api" where
  "connect_and_dispatch L config env stream rounds fuel =
     act_then (ensure_group (es_redis_url stream) (es_stream_key stream) (dispatcher_group_id config stream)) (\<lambda>_.
     dispatch_rounds rounds L config stream
       (consumer_name env (''push-dispatcher-'' @ event_stream_kind_str (es_kind stream))) fuel [])"

end
