(* ===== verification/Api_Publisher.thy ===== *)
theory Api_Publisher
  imports Api_Hot
begin

text \<open>
  The embedded event publisher (\<open>api-server/src/background_publisher.rs\<close>): it moves the pending events of a
  Redis server for messages to the event streams. The endless loop, the pauses and the count of the backlog,
  which is only logged, are not modelled.
\<close>

section \<open>Sources\<close>

datatype pending_source_kind = Shared_hot | Private_hot | Group_hot

type_synonym pending_event_source = "pending_source_kind \<times> string"

definition push_pending_event_source ::
  "pending_source_kind \<Rightarrow> string \<Rightarrow> pending_event_source list \<Rightarrow> pending_event_source list" where
  "push_pending_event_source kind redis_url sources =
     (if redis_url \<in> snd ` set sources then sources else sources @ [(kind, redis_url)])"

definition pending_event_sources :: "api_config \<Rightarrow> pending_event_source list" where
  "pending_event_sources config =
     fold (push_pending_event_source Group_hot) (ac_group_hot_redis_urls config)
       (fold (\<lambda>redis_url. push_pending_event_source
            (if redis_url \<in> set (ac_group_hot_redis_urls config) then Shared_hot else Private_hot) redis_url)
          (ac_private_hot_redis_urls config) [])"

section \<open>One round\<close>

record pending_event =
  pe_event_id :: string
  pe_event_key :: string
  pe_stream_event_id :: string
  pe_conversation_id :: string
  pe_payload :: string

definition event_stream_kind_of :: "im_event \<Rightarrow> event_stream_kind" where
  "event_stream_kind_of event =
     (if ev_group event \<or> ev_group_id event \<noteq> None \<or>
         (case ev_payload event of Some message \<Rightarrow> md_is_group_chat message | None \<Rightarrow> False)
      then GroupEvents else PrivateEvents)"

definition remove_stale_events :: "string \<Rightarrow> string list \<Rightarrow> string list \<Rightarrow> unit api" where
  "remove_stale_events url event_ids event_keys =
     (if event_ids = [] \<and> event_keys = [] then act_ok ()
      else hot_write url (\<lambda>now s.
        (let s = (if event_keys = [] then s else hot_remove event_keys s)
         in if event_ids = [] then s else hot_zrem now pending_events_key event_ids s)))"

definition append_all :: "api_config \<Rightarrow> event_stream_config \<Rightarrow> pending_event list \<Rightarrow> unit api" where
  "append_all config stream events = command ERedis (\<lambda>w.
     (Inr (), w\<lparr>aw_streams := (aw_streams w)(es_redis_url stream := (aw_streams w (es_redis_url stream))(es_stream_key stream :=
        fold (\<lambda>e. append_event (aw_trim w) (ac_event_stream_max_len config) (pe_payload e)) events
          (aw_streams w (es_redis_url stream) (es_stream_key stream))))\<rparr>))"

definition publish :: "api_config \<Rightarrow> event_stream_config \<Rightarrow> string \<Rightarrow> pending_event list \<Rightarrow> nat api" where
  "publish config stream hot_url events =
     (if events = [] then act_ok 0
      else act_then (append_all config stream events) (\<lambda>_.
        act_then (remove_stale_events hot_url (map pe_event_id events) (map pe_event_key events)) (\<lambda>_.
        act_ok (length events))))"

text \<open>A member of the queue with what was found under its key.\<close>

definition member_event_key :: "string \<Rightarrow> string" where
  "member_event_key member = event_key (hd (split_on (CHR ''|'') member))"

definition due_event :: "api_lib \<Rightarrow> string \<times> string option \<Rightarrow> (pending_event \<times> event_stream_kind) option" where
  "due_event L mp = (case mp of
     (member, Some payload) \<Rightarrow> (case ap_read_event L payload of
         Some event \<Rightarrow> Some (\<lparr>pe_event_id = member, pe_event_key = member_event_key member,
             pe_stream_event_id = ev_event_id event, pe_conversation_id = ev_conversation_id event, pe_payload = payload\<rparr>,
             event_stream_kind_of event)
       | None \<Rightarrow> None)
   | (member, None) \<Rightarrow> None)"

definition of_kind :: "event_stream_kind \<Rightarrow> (pending_event \<times> event_stream_kind) list \<Rightarrow> pending_event list" where
  "of_kind kind es = map fst (filter (\<lambda>(_, k). k = kind) es)"

definition publish_due_events :: "api_lib \<Rightarrow> api_config \<Rightarrow> string \<Rightarrow> nat api" where
  "publish_due_events L config hot_url =
     act_then now_ms (\<lambda>now.
     act_then (hot_read hot_url (\<lambda>t s. take (max (ac_publisher_batch_size config) 1)
       (by_score (filter (\<lambda>(_, score). score \<le> now) (hot_members t s pending_events_key))))) (\<lambda>event_ids.
     if event_ids = [] then act_ok 0
     else
       act_then (hot_read hot_url (\<lambda>t s. map (\<lambda>m. hot_get t s (member_event_key m)) event_ids)) (\<lambda>payloads.
       let found = zip event_ids payloads;
           due = List.map_filter (due_event L) found;
           stale = filter (\<lambda>mp. due_event L mp = None) found
       in act_then (remove_stale_events hot_url (map fst stale)
              (map (\<lambda>mp. member_event_key (fst mp)) (filter (\<lambda>mp. snd mp \<noteq> None) stale))) (\<lambda>_.
          act_then (publish config (private_event_stream config) hot_url (of_kind PrivateEvents due)) (\<lambda>n.
          act_then (publish config (group_event_stream config) hot_url (of_kind GroupEvents due)) (\<lambda>m.
          act_ok (n + m)))))))"

end
