(* ===== verification/Api_Pipeline_Rules.thy ===== *)
theory Api_Pipeline_Rules
  imports Api_Publisher Api_Writer Api_Ghost
begin

text \<open>
  The way of a message from the queue of pending events over an event stream into the database, under
  publishers and writers that run side by side. The history records what was read from a stream, which
  messages the database holds and which payloads were appended.
\<close>

section \<open>What is kept\<close>

text \<open>The message that an entry creates, and the keys of the rows; rows are never removed.\<close>

definition created :: "api_lib \<Rightarrow> string \<Rightarrow> message_dto option" where
  "created L payload = (case ap_read_event L payload of
     Some event \<Rightarrow> if ev_event_type event = MessageCreated then ev_payload event else None
   | None \<Rightarrow> None)"

type_synonym row_key = "int \<times> int \<times> string option"

definition row_key_of :: "message_row \<Rightarrow> row_key" where
  "row_key_of r = (mr_id r, mr_sender_id r, mr_client_message_id r)"

definition row_keys :: "api_world \<Rightarrow> row_key set" where
  "row_keys w = row_key_of ` set (aw_messages w)"

text \<open>
  A message is recorded when there is a row with its identifier, or one of the same sender with the same
  client identifier; one whose identifier is no positive number is not to be recorded.
\<close>

definition recorded :: "api_lib \<Rightarrow> row_key set \<Rightarrow> message_dto \<Rightarrow> bool" where
  "recorded L ks m \<longleftrightarrow> (\<forall>i. parse_i64_trimmed (md_id m) = Some i \<and> 0 < i \<longrightarrow>
     (\<exists>j u c. (j, u, c) \<in> ks \<and> (j = i \<or> u = unwrap_or (parse_i64_trimmed (md_sender_id m)) 0 \<and>
        (\<exists>a b d. c = Some a \<and> md_client_message_id m = Some b \<and> ap_varchar L 64 b = Some d \<and>
           ap_collate L a = ap_collate L d))))"

definition writer_group :: "api_config \<Rightarrow> event_stream_config \<Rightarrow> string" where
  "writer_group config x = stream_group_id (ac_writer_group_id config) x"

definition stream_of :: "api_world \<Rightarrow> event_stream_config \<Rightarrow> event_stream" where
  "stream_of w x = aw_streams w (es_redis_url x) (es_stream_key x)"

definition acked :: "event_stream \<Rightarrow> string \<Rightarrow> nat \<Rightarrow> bool" where
  "acked st g n \<longleftrightarrow> (\<exists>cg. es_groups st g = Some cg \<and> n \<le> cg_last cg \<and> n \<notin> fst ` set (cg_pending cg))"

definition stream_ok :: "event_stream \<Rightarrow> string \<Rightarrow> bool" where
  "stream_ok st g \<longleftrightarrow> 0 < es_next st \<and> sorted_wrt (<) (map fst (es_entries st)) \<and>
     (\<forall>n \<in> fst ` set (es_entries st). 0 < n \<and> n < es_next st) \<and>
     (\<forall>cg. es_groups st g = Some cg \<longrightarrow> cg_last cg < es_next st \<and> (\<forall>n \<in> fst ` set (cg_pending cg). n \<le> cg_last cg))"

text \<open>What is acknowledged is recorded.\<close>

definition acked_recorded :: "api_lib \<Rightarrow> row_key set \<Rightarrow> event_stream \<Rightarrow> string \<Rightarrow> bool" where
  "acked_recorded L ks st g \<longleftrightarrow>
     (\<forall>(n, p) \<in> set (es_entries st). acked st g n \<longrightarrow> (\<forall>m. created L p = Some m \<longrightarrow> recorded L ks m))"

text \<open>A pending event with its payload, and the stream it belongs to.\<close>

definition queued :: "api_world \<Rightarrow> string \<Rightarrow> string \<Rightarrow> string \<Rightarrow> bool" where
  "queued w url m p \<longleftrightarrow> m \<in> fst ` set (hot_members (aw_now w) (aw_hot w url) pending_events_key) \<and>
     hot_get (aw_now w) (aw_hot w url) (member_event_key m) = Some p"

definition destination :: "api_lib \<Rightarrow> api_config \<Rightarrow> string \<Rightarrow> event_stream_config" where
  "destination L config p = (case ap_read_event L p of
     Some event \<Rightarrow> (case event_stream_kind_of event of
         PrivateEvents \<Rightarrow> private_event_stream config | GroupEvents \<Rightarrow> group_event_stream config)
   | None \<Rightarrow> private_event_stream config)"

lemma recorded_more: "recorded L ks m \<Longrightarrow> ks \<subseteq> ks' \<Longrightarrow> recorded L ks' m"
  unfolding recorded_def by blast

lemma writer_groups_distinct:
  "x \<in> set (event_streams config) \<Longrightarrow> y \<in> set (event_streams config) \<Longrightarrow>
   writer_group config x = writer_group config y \<Longrightarrow> x = y"
  by (auto simp: event_streams_def writer_group_def stream_group_id_def private_event_stream_def group_event_stream_def)

section \<open>What the others may do\<close>

text \<open>
  Others append to a stream and shorten it, add rows, and leave the queue alone; \<open>b\<close> says that nothing is
  dropped from the streams and that no pending event expires.
\<close>

definition stream_goes_on :: "bool \<Rightarrow> string \<Rightarrow> event_stream \<Rightarrow> event_stream \<Rightarrow> bool" where
  "stream_goes_on b g st st' \<longleftrightarrow> (stream_ok st g \<longrightarrow> stream_ok st' g) \<and> es_next st \<le> es_next st' \<and>
     es_groups st' g = es_groups st g \<and>
     (\<forall>(n, p) \<in> set (es_entries st'). (n, p) \<in> set (es_entries st) \<or> es_next st \<le> n) \<and>
     (b \<longrightarrow> set (es_entries st) \<subseteq> set (es_entries st'))"

definition others_keep :: "api_config \<Rightarrow> bool \<Rightarrow> (string \<times> string \<times> string) set \<Rightarrow> api_world \<Rightarrow> api_world \<Rightarrow> bool" where
  "others_keep config b Q w w' \<longleftrightarrow> row_keys w \<subseteq> row_keys w' \<and>
     (\<forall>x \<in> set (event_streams config). stream_goes_on b (writer_group config x) (stream_of w x) (stream_of w' x)) \<and>
     (b \<longrightarrow> (aw_trim w = (\<lambda>_. 0) \<longrightarrow> aw_trim w' = (\<lambda>_. 0)) \<and> (\<forall>(url, m, p) \<in> Q. queued w url m p \<longrightarrow> queued w' url m p))"

lemma goes_on_refl: "stream_goes_on b g st st"
  by (auto simp: stream_goes_on_def)

lemma goes_on_trans:
  assumes a: "stream_goes_on b g st st1" and c: "stream_goes_on b g st1 st2"
  shows "stream_goes_on b g st st2"
proof -
  have "\<forall>(n, p) \<in> set (es_entries st2). (n, p) \<in> set (es_entries st) \<or> es_next st \<le> n"
  proof (clarify)
    fix n p assume n: "(n, p) \<in> set (es_entries st2)" "\<not> es_next st \<le> n"
    then have "(n, p) \<in> set (es_entries st1)" using a c by (auto simp: stream_goes_on_def)
    with n(2) a show "(n, p) \<in> set (es_entries st)" by (auto simp: stream_goes_on_def)
  qed
  with a c show ?thesis unfolding stream_goes_on_def by (auto intro: order_trans)
qed

lemma others_refl: "others_keep config b Q w w"
  by (auto simp: others_keep_def goes_on_refl)

lemma others_trans: "others_keep config b Q w w1 \<Longrightarrow> others_keep config b Q w1 w2 \<Longrightarrow> others_keep config b Q w w2"
  unfolding others_keep_def by (blast intro: goes_on_trans)

lemma acked_goes_on:
  assumes "stream_ok st g" "stream_goes_on b g st st'" "acked_recorded L ks st g" "ks \<subseteq> ks'"
  shows "acked_recorded L ks' st' g"
  unfolding acked_recorded_def
proof (clarify)
  fix n p m assume n: "(n, p) \<in> set (es_entries st')" "acked st' g n" "created L p = Some m"
  then have acked: "acked st g n" using assms(2) by (simp add: acked_def stream_goes_on_def)
  then have "n < es_next st" using assms(1) by (auto simp: acked_def stream_ok_def)
  then have "(n, p) \<in> set (es_entries st)" using assms(2) n(1) by (auto simp: stream_goes_on_def)
  with assms(3) acked n(3) have "recorded L ks m" by (auto simp: acked_recorded_def)
  then show "recorded L ks' m" using assms(4) by (rule recorded_more)
qed

section \<open>The history\<close>

record pipeline_log =
  lg_known :: "(event_stream_config \<times> nat \<times> string) set"
  lg_done :: "message_dto set"
  lg_appended :: "(event_stream_config \<times> string) set"

definition log_later :: "pipeline_log \<Rightarrow> pipeline_log \<Rightarrow> bool" where
  "log_later s s' \<longleftrightarrow> lg_known s \<subseteq> lg_known s' \<and> lg_done s \<subseteq> lg_done s' \<and> lg_appended s \<subseteq> lg_appended s'"

definition known_in :: "event_stream \<Rightarrow> nat \<Rightarrow> string \<Rightarrow> bool" where
  "known_in st n p \<longleftrightarrow> n < es_next st \<and> (\<forall>q. (n, q) \<in> set (es_entries st) \<longrightarrow> q = p)"

definition pipeline ::
  "api_lib \<Rightarrow> api_config \<Rightarrow> bool \<Rightarrow> (string \<times> string \<times> string) set \<Rightarrow> pipeline_log \<Rightarrow> api_world \<Rightarrow> bool"
where
  "pipeline L config b Q s w \<longleftrightarrow>
     (\<forall>x \<in> set (event_streams config).
        stream_ok (stream_of w x) (writer_group config x) \<and>
        acked_recorded L (row_keys w) (stream_of w x) (writer_group config x) \<and>
        (\<forall>n p. (x, n, p) \<in> lg_known s \<longrightarrow> known_in (stream_of w x) n p) \<and>
        (b \<longrightarrow> (\<forall>p. (x, p) \<in> lg_appended s \<longrightarrow> (\<exists>n. (n, p) \<in> set (es_entries (stream_of w x)))))) \<and>
     (\<forall>m \<in> lg_done s. recorded L (row_keys w) m) \<and>
     (b \<longrightarrow> aw_trim w = (\<lambda>_. 0) \<and> (\<forall>(url, m, p) \<in> Q. queued w url m p \<or> (destination L config p, p) \<in> lg_appended s))"

lemma known_goes_on: "known_in st n p \<Longrightarrow> stream_goes_on b g st st' \<Longrightarrow> known_in st' n p"
  unfolding known_in_def stream_goes_on_def by fastforce

lemma pipeline_others:
  assumes I: "pipeline L config b Q s w" and keep: "others_keep config b Q w w'"
  shows "pipeline L config b Q s w'"
  unfolding pipeline_def
proof (intro conjI ballI impI allI)
  fix x assume x: "x \<in> set (event_streams config)"
  have go: "stream_goes_on b (writer_group config x) (stream_of w x) (stream_of w' x)" and ks: "row_keys w \<subseteq> row_keys w'"
    using keep x by (auto simp: others_keep_def)
  have ok: "stream_ok (stream_of w x) (writer_group config x)"
    "acked_recorded L (row_keys w) (stream_of w x) (writer_group config x)" using I x by (auto simp: pipeline_def)
  show "stream_ok (stream_of w' x) (writer_group config x)" using go ok(1) by (simp add: stream_goes_on_def)
  show "acked_recorded L (row_keys w') (stream_of w' x) (writer_group config x)" using acked_goes_on[OF ok(1) go ok(2) ks] .
  fix n p assume "(x, n, p) \<in> lg_known s"
  then have "known_in (stream_of w x) n p" using I x by (auto simp: pipeline_def)
  then show "known_in (stream_of w' x) n p" using go by (rule known_goes_on)
next
  fix x p assume x: "x \<in> set (event_streams config)" and b: "b" and p: "(x, p) \<in> lg_appended s"
  have "stream_goes_on b (writer_group config x) (stream_of w x) (stream_of w' x)" using keep x by (auto simp: others_keep_def)
  moreover obtain n where "(n, p) \<in> set (es_entries (stream_of w x))" using I x b p unfolding pipeline_def by blast
  ultimately show "\<exists>n. (n, p) \<in> set (es_entries (stream_of w' x))" using b by (auto simp: stream_goes_on_def)
next
  fix m assume "m \<in> lg_done s"
  then show "recorded L (row_keys w') m" using I keep recorded_more by (auto simp: pipeline_def others_keep_def)
next
  assume b: "b"
  then show "aw_trim w' = (\<lambda>_. 0)" using I keep by (auto simp: pipeline_def others_keep_def)
  fix e assume e: "e \<in> Q"
  obtain url m p where [simp]: "e = (url, m, p)" by (cases e)
  have "queued w url m p \<or> (destination L config p, p) \<in> lg_appended s" using I b e unfolding pipeline_def by auto
  moreover have "queued w url m p \<longrightarrow> queued w' url m p" using keep b e unfolding others_keep_def by auto
  ultimately show "case e of (url, m, p) \<Rightarrow> queued w' url m p \<or> (destination L config p, p) \<in> lg_appended s" by auto
qed

lemma pipeline_known:
  "pipeline L config b Q s w \<Longrightarrow> (x \<in> set (event_streams config) \<Longrightarrow> \<forall>(n, p) \<in> K. known_in (stream_of w x) n p) \<Longrightarrow>
   pipeline L config b Q (s\<lparr>lg_known := lg_known s \<union> {x} \<times> K\<rparr>) w"
  unfolding pipeline_def by auto

interpretation flow: history "pipeline L config b Q" log_later "others_keep config b Q" for L config b Q
  by unfold_locales (auto simp: log_later_def intro: pipeline_others)

interpretation kept: shared_stores "\<lambda>_. True" "others_keep config b Q" "others_keep config b Q" for config b Q
  by unfold_locales (auto simp: others_refl intro: others_trans)

abbreviation keeps :: "api_config \<Rightarrow> bool \<Rightarrow> (string \<times> string \<times> string) set \<Rightarrow> 'a api \<Rightarrow> bool" where
  "keeps config b Q m \<equiv> guarantees (\<lambda>_. True) (others_keep config b Q) m"

lemma keeps_traced:
  "keeps config b Q m \<Longrightarrow> traced (pipeline L config b Q) log_later m (\<lambda>_ _. True) s"
  by (rule traced_weaken[OF flow.traced_while[where P = "\<lambda>_. True" and Q = "\<lambda>_. True"]])
    (auto elim!: ensures_mono intro: pipeline_others)


section \<open>Steps that leave the pipeline alone\<close>

lemma pipeline_views [simp]:
  "stream_of (outcome_used w) x = stream_of w x" "row_keys (outcome_used w) = row_keys w"
  "queued (outcome_used w) = queued w" "aw_trim (outcome_used w) = aw_trim w"
  "stream_of (w\<lparr>aw_id_cell := c\<rparr>) x = stream_of w x" "row_keys (w\<lparr>aw_id_cell := c\<rparr>) = row_keys w"
  "queued (w\<lparr>aw_id_cell := c\<rparr>) = queued w"
  "stream_of (w\<lparr>aw_hot := h\<rparr>) x = stream_of w x" "row_keys (w\<lparr>aw_hot := h\<rparr>) = row_keys w"
  "stream_of (w\<lparr>aw_messages := ms\<rparr>) x = stream_of w x" "queued (w\<lparr>aw_messages := ms\<rparr>) = queued w"
  "stream_of (w\<lparr>aw_deliveries := ds\<rparr>) x = stream_of w x" "queued (w\<lparr>aw_deliveries := ds\<rparr>) = queued w"
  "row_keys (w\<lparr>aw_deliveries := ds\<rparr>) = row_keys w"
  "stream_of (w\<lparr>aw_private_cursors := pc\<rparr>) x = stream_of w x" "queued (w\<lparr>aw_private_cursors := pc\<rparr>) = queued w"
  "row_keys (w\<lparr>aw_private_cursors := pc\<rparr>) = row_keys w"
  "stream_of (w\<lparr>aw_group_cursors := gc\<rparr>) x = stream_of w x" "queued (w\<lparr>aw_group_cursors := gc\<rparr>) = queued w"
  "row_keys (w\<lparr>aw_group_cursors := gc\<rparr>) = row_keys w"
  "queued (w\<lparr>aw_streams := ss\<rparr>) = queued w" "row_keys (w\<lparr>aw_streams := ss\<rparr>) = row_keys w"
  by (simp_all add: outcome_used_def stream_of_def row_keys_def queued_def fun_eq_iff)

lemma pipeline_used [simp]: "pipeline L config b Q s (outcome_used w) = pipeline L config b Q s w"
  by (simp add: pipeline_def)

lemma others_used [simp]:
  "others_keep config b Q w (outcome_used w)" "others_keep config b Q (outcome_used w) w' = others_keep config b Q w w'"
  by (simp_all add: others_keep_def goes_on_refl)

lemma keeps_command: "(\<And>w. others_keep config b Q w (snd (f w))) \<Longrightarrow> keeps config b Q (command e f)"
proof (rule guarantees_command, intro conjI)
  fix w
  assume "\<And>w. others_keep config b Q w (snd (f w))"
  then show "others_keep config b Q w (snd (f (outcome_used w)))" by (metis others_used(2))
qed simp

lemma keeps_reads [ensures_intros]:
  "keeps config b Q now_ms" "keeps config b Q (hot_read url f)" "keeps config b Q (sql_query g)" "keeps config b Q (new_id node)"
  unfolding now_ms_def act_get_def hot_read_def sql_query_def new_id_def
  by (auto intro!: keeps_command simp: others_refl split: option.split)
    (auto simp: others_keep_def goes_on_refl)

definition queue_safe :: "(int \<Rightarrow> hot_store \<Rightarrow> hot_store) \<Rightarrow> bool" where
  "queue_safe f \<longleftrightarrow> (\<forall>now s. hs_sorted (f now s) = hs_sorted s \<and> (\<forall>e. hs_text (f now s) (event_key e) = hs_text s (event_key e)))"

lemma queued_safe: "queue_safe f \<Longrightarrow> queued (w\<lparr>aw_hot := (aw_hot w)(url := f (aw_now w) (aw_hot w url))\<rparr>) u m p = queued w u m p"
  by (auto simp: queued_def queue_safe_def hot_members_def hot_get_def member_event_key_def)

lemma keeps_hot_write: "queue_safe f \<Longrightarrow> keeps config b Q (hot_write url f)"
  unfolding hot_write_def hot_command_def
  by (rule keeps_command) (auto simp: others_keep_def goes_on_refl queued_safe)

lemma keeps_watermarks [ensures_intros]: "keeps config b Q (write_watermarks hot_redis messages)"
proof -
  have "queue_safe (\<lambda>now. fold (\<lambda>(c, i). hot_put (db_watermark_key c) (show_int i)) ws)" for ws
  proof (induction ws)
    case (Cons x ws)
    have "hs_sorted (hot_put (db_watermark_key c) v s) = hs_sorted s"
      "hs_text (hot_put (db_watermark_key c) v s) (event_key e) = hs_text s (event_key e)" for c v s e
      by (simp_all add: hot_put_def db_watermark_key_def event_key_def)
    with Cons show ?case by (cases x) (simp add: queue_safe_def)
  qed (simp add: queue_safe_def)
  then show ?thesis
    unfolding write_watermarks_def Let_def
    by (intro ensures_intros keeps_hot_write)
qed

lemma keeps_execute:
  assumes "\<And>w. row_keys w \<subseteq> row_keys (snd (f w))"
    and "\<And>w. aw_streams (snd (f w)) = aw_streams w \<and> aw_hot (snd (f w)) = aw_hot w \<and> aw_now (snd (f w)) = aw_now w \<and> aw_trim (snd (f w)) = aw_trim w"
  shows "keeps config b Q (sql_execute f)"
  unfolding sql_execute_def
  by (rule keeps_command) (use assms in \<open>auto simp: others_keep_def stream_of_def queued_def goes_on_refl\<close>)

lemma keys_update_where: "(\<And>r. row_key_of (f r) = row_key_of r) \<Longrightarrow> row_key_of ` set (update_where p f rows) = row_key_of ` set rows"
  unfolding update_where_def set_map image_image by (rule image_cong) auto

lemma status_key [simp]: "row_key_of (r\<lparr>mr_status := a, mr_updated_time := t\<rparr>) = row_key_of r"
  by (simp add: row_key_of_def)

lemma keeps_status [ensures_intros]: "keeps config b Q (apply_status event)"
  unfolding apply_status_def Let_def
  by (intro ensures_intros keeps_execute) (simp_all add: row_keys_def keys_update_where)

lemma keeps_cursors [ensures_intros]: "keeps config b Q (flush_read_cursors p)"
  unfolding flush_read_cursors_def
  by (intro ensures_intros keeps_execute) (auto simp: row_keys_def)

lemma keeps_flushed [ensures_intros]: "keeps config b Q (flushed_now f p)"
  unfolding flushed_now_def by (intro ensures_intros)

section \<open>Rows\<close>

lemma upsert_keys:
  assumes "\<And>r. row_key_of (f r) = row_key_of r"
  shows "row_key_of ` set rows \<subseteq> row_key_of ` set (upsert_row keys new f rows)"
    and "row_key_of ` set (upsert_row keys new f rows) \<subseteq> insert (row_key_of new) (row_key_of ` set rows)"
    and "row_key_of new \<in> row_key_of ` set (upsert_row keys new f rows) \<or> (\<exists>c \<in> set keys. \<exists>r \<in> set rows. c r)"
  by (induction keys) (auto simp: keys_update_where assms)

lemma merge_key [simp]: "row_key_of (merge_message m r) = row_key_of r"
  by (simp add: merge_message_def row_key_of_def)

lemma insert_message_keys:
  "row_key_of ` set rows \<subseteq> row_key_of ` set (insert_message L m rows)"
  unfolding insert_message_def by (rule upsert_keys) simp

lemma stored_fields:
  "stored_message L m = Some r \<Longrightarrow> mr_id r = mr_id m \<and> mr_sender_id r = mr_sender_id m \<and>
     (\<forall>c. mr_client_message_id r = Some c \<longrightarrow> (\<exists>d. mr_client_message_id m = Some d \<and> ap_varchar L 64 d = Some c))"
proof -
  assume "stored_message L m = Some r"
  then obtain client media_url media_name thumbnail device where c: "column (ap_varchar L 64) (mr_client_message_id m) = Some client"
    and r: "r = m\<lparr>mr_client_message_id := client, mr_media_url := media_url, mr_media_name := media_name,
       mr_thumbnail_url := thumbnail, mr_e2ee_device_id := device,
       mr_created_time := sql_datetime (mr_created_time m), mr_updated_time := sql_datetime (mr_updated_time m)\<rparr>"
    unfolding stored_message_def bind_eq_Some_conv by (auto split: if_splits)
  from c have "\<forall>c. client = Some c \<longrightarrow> (\<exists>d. mr_client_message_id m = Some d \<and> ap_varchar L 64 d = Some c)"
    by (cases "mr_client_message_id m") (auto simp: column_def)
  then show ?thesis by (simp add: r)
qed

lemma inserted_recorded:
  assumes row: "db_message_of L now m = Some row" and stored: "stored_message L row = Some r"
  shows "recorded L (row_key_of ` set (insert_message L r rows)) m"
  unfolding recorded_def
proof (intro allI impI)
  fix i assume i: "parse_i64_trimmed (md_id m) = Some i \<and> 0 < i"
  have f: "mr_id row = i" "mr_sender_id row = unwrap_or (parse_i64_trimmed (md_sender_id m)) 0"
    "mr_client_message_id row = md_client_message_id m"
    using row i by (auto simp: db_message_of_def Let_def split: option.splits if_splits)
  note s = stored_fields[OF stored]
  have "row_key_of r \<in> row_key_of ` set (insert_message L r rows) \<or>
      (\<exists>c \<in> set [\<lambda>q. mr_id q = mr_id r, same_client_key L r]. \<exists>q \<in> set rows. c q)"
    unfolding insert_message_def by (rule upsert_keys(3)) simp
  then consider "row_key_of r \<in> row_key_of ` set (insert_message L r rows)"
    | q where "q \<in> set rows" "mr_id q = mr_id r" | q where "q \<in> set rows" "same_client_key L r q" by auto
  then show "\<exists>j u c. (j, u, c) \<in> row_key_of ` set (insert_message L r rows) \<and> (j = i \<or>
      u = unwrap_or (parse_i64_trimmed (md_sender_id m)) 0 \<and>
      (\<exists>a b d. c = Some a \<and> md_client_message_id m = Some b \<and> ap_varchar L 64 b = Some d \<and> ap_collate L a = ap_collate L d))"
  proof cases
    case 1
    then show ?thesis using s f by (auto simp: row_key_of_def)
  next
    case 2
    then have "row_key_of q \<in> row_key_of ` set (insert_message L r rows)" using insert_message_keys by blast
    with 2 s f show ?thesis by (auto simp: row_key_of_def)
  next
    case 3
    then have k: "row_key_of q \<in> row_key_of ` set (insert_message L r rows)" using insert_message_keys by blast
    from 3 obtain a d where a: "mr_client_message_id q = Some a" "mr_client_message_id r = Some d" "ap_collate L a = ap_collate L d"
      "mr_sender_id q = mr_sender_id r" by (auto simp: same_client_key_def split: option.splits)
    with s f obtain b where "md_client_message_id m = Some b" "ap_varchar L 64 b = Some d" by auto
    with a k s f(2) show ?thesis
      by (intro exI[of _ "mr_id q"] exI[of _ "mr_sender_id q"] exI[of _ "mr_client_message_id q"]) (auto simp: row_key_of_def)
  qed
qed

lemma insert_chunk_simps:
  "insert_chunk L [] rows = Some rows"
  "insert_chunk L (m # ms) rows = Option.bind (stored_message L m) (\<lambda>r. insert_chunk L ms (insert_message L r rows))"
proof -
  have none: "foldl (\<lambda>acc m. Option.bind acc (\<lambda>rows. map_option (\<lambda>m. insert_message L m rows) (stored_message L m))) None ms = None" for ms
    by (induction ms) auto
  show "insert_chunk L [] rows = Some rows" by (simp add: insert_chunk_def)
  show "insert_chunk L (m # ms) rows = Option.bind (stored_message L m) (\<lambda>r. insert_chunk L ms (insert_message L r rows))"
    by (cases "stored_message L m") (simp_all add: insert_chunk_def none)
qed

lemma insert_chunk_append: "insert_chunk L (xs @ ys) rows = Option.bind (insert_chunk L xs rows) (insert_chunk L ys)"
  by (induction xs arbitrary: rows) (auto simp: insert_chunk_simps Option.bind_assoc)

lemma concat_chunks: "0 < n \<Longrightarrow> concat (chunks n xs) = xs"
  by (induction n xs rule: chunks.induct) (auto simp flip: append_assoc)

text \<open>The statements of a transaction are one insertion of all the records.\<close>

lemma insert_messages_records:
  "insert_messages L now messages rows = insert_chunk L (List.map_filter (db_message_of L now) messages) rows"
proof -
  have "foldl (\<lambda>acc chunk. Option.bind acc (insert_chunk L chunk)) (Some rows) cs = insert_chunk L (concat cs) rows" for cs
  proof (induction cs rule: rev_induct)
    case (snoc c cs)
    then show ?case by (simp add: insert_chunk_append)
  qed (simp add: insert_chunk_simps)
  moreover have "0 < max_rows_per_statement message_insert_binds" by (simp add: max_rows_per_statement_def)
  ultimately show ?thesis by (simp add: insert_messages_def concat_chunks)
qed

lemma chunk_keys: "insert_chunk L ms rows = Some rows' \<Longrightarrow> row_key_of ` set rows \<subseteq> row_key_of ` set rows'"
proof (induction ms arbitrary: rows)
  case (Cons m ms)
  then obtain r where "stored_message L m = Some r" "insert_chunk L ms (insert_message L r rows) = Some rows'"
    by (auto simp: insert_chunk_simps bind_eq_Some_conv)
  from subset_trans[OF insert_message_keys Cons.IH[OF this(2)]] show ?case .
qed (simp add: insert_chunk_simps)

lemma insert_messages_keys:
  "insert_messages L now messages rows = Some rows' \<Longrightarrow> row_key_of ` set rows \<subseteq> row_key_of ` set rows'"
  unfolding insert_messages_records by (rule chunk_keys)

lemma insert_messages_recorded:
  assumes "insert_messages L now messages rows = Some rows'" "m \<in> set messages"
  shows "recorded L (row_key_of ` set rows') m"
proof (cases "db_message_of L now m")
  case None
  then show ?thesis by (auto simp: recorded_def db_message_of_def Let_def split: option.splits if_splits)
next
  case (Some row)
  then have "row \<in> set (List.map_filter (db_message_of L now) messages)"
    using assms(2) by (force simp: List.map_filter_def)
  then obtain pre post where split: "List.map_filter (db_message_of L now) messages = pre @ row # post"
    by (meson split_list)
  then obtain r mid where r: "stored_message L row = Some r" "insert_chunk L post (insert_message L r mid) = Some rows'"
    using assms(1) unfolding insert_messages_records split insert_chunk_append
    by (auto simp: insert_chunk_simps bind_eq_Some_conv)
  from inserted_recorded[OF Some r(1)] chunk_keys[OF r(2)] show ?thesis by (rule recorded_more)
qed

end
