(* ===== verification/Api_Dispatcher_Properties.thy ===== *)
theory Api_Dispatcher_Properties
  imports Api_Dispatcher Api_Pipeline_Rules
begin

text \<open>
  What the push dispatcher guarantees: each im-server is sent each of its users once per event and route, in the
  order of the event; and an entry of the stream is acknowledged whether its pushes arrived or not.
\<close>

section \<open>Batches by server\<close>

text \<open>The users in the batch of a server; the key of a batch is that of its route.\<close>

definition users_of :: "string \<Rightarrow> (string \<times> route_batch) list \<Rightarrow> int list" where
  "users_of k batches = (case map_of batches k of Some b \<Rightarrow> rb_user_ids b | None \<Rightarrow> [])"

definition batches_ok :: "(string \<times> route_batch) list \<Rightarrow> bool" where
  "batches_ok batches \<longleftrightarrow> distinct (map fst batches) \<and>
     (\<forall>(k, b) \<in> set batches. batch_key (rb_route b) = k \<and> rb_user_ids b \<noteq> [])"

lemma batches_ok_simps [simp]: "batches_ok []" "users_of k [] = []"
  by (simp_all add: batches_ok_def users_of_def)

lemma update_entries: "(k', v') \<in> set (AList.update k v al) \<Longrightarrow> (k', v') = (k, v) \<or> (k', v') \<in> set al"
  by (induction al) (auto split: if_splits)

lemma add_to_batch_users: "users_of k (add_to_batch u r batches) = users_of k batches @ (if batch_key r = k then [u] else [])"
  by (auto simp: add_to_batch_def users_of_def AList.update_conv' map_add_def split: option.split)

lemma add_to_batch_ok:
  assumes "batches_ok batches"
  shows "batches_ok (add_to_batch u r batches)"
proof (cases "map_of batches (batch_key r)")
  case None
  then have "batch_key r \<notin> set (map fst batches)" by (simp add: map_of_eq_None_iff)
  with assms None show ?thesis by (auto simp: batches_ok_def add_to_batch_def)
next
  case (Some b)
  then have "batch_key (rb_route b) = batch_key r" using assms map_of_SomeD[OF Some] by (auto simp: batches_ok_def)
  with assms Some show ?thesis
    by (auto simp: batches_ok_def add_to_batch_def AList.distinct_update dest!: update_entries)
qed

lemma add_routes:
  "batches_ok batches \<Longrightarrow> batches_ok (fold (add_to_batch u) routes batches) \<and>
   users_of k (fold (add_to_batch u) routes batches) = users_of k batches @ map (\<lambda>_. u) (filter (\<lambda>r. batch_key r = k) routes)"
  by (induction routes arbitrary: batches) (simp_all add: add_to_batch_ok add_to_batch_users)

text \<open>Each user as often as one of its routes leads to the server.\<close>

definition due :: "(int \<Rightarrow> user_route list option) \<Rightarrow> string \<Rightarrow> int list \<Rightarrow> int list" where
  "due routes k us = concat (map (\<lambda>u. map (\<lambda>_. u) (filter (\<lambda>r. batch_key r = k) (unwrap_or (routes u) []))) us)"

lemma add_users:
  "batches_ok batches \<Longrightarrow>
   batches_ok (fold (\<lambda>u. fold (add_to_batch u) (unwrap_or (routes u) [])) us batches) \<and>
   users_of k (fold (\<lambda>u. fold (add_to_batch u) (unwrap_or (routes u) [])) us batches) = users_of k batches @ due routes k us"
  by (induction us arbitrary: batches) (simp_all add: add_routes due_def)

section \<open>Pieces\<close>

lemma chunk_sizes: "ys \<in> set (chunks n xs) \<Longrightarrow> ys \<noteq> [] \<and> length ys \<le> n"
  by (induction n xs rule: chunks.induct) (auto split: if_splits simp: take_Cons')

lemma internal_push_batch_size_pos: "0 < internal_push_batch_size"
  by (simp add: internal_push_batch_size_def)

lemma pushes_of_server:
  "concat (map snd (filter (\<lambda>(r, _). batch_key r = k) (push_batches bs))) =
   concat (map rb_user_ids (filter (\<lambda>b. batch_key (rb_route b) = k) bs))"
proof (induction bs)
  case (Cons b bs)
  have "concat (map snd (filter (\<lambda>(r, _). batch_key r = k) (map (Pair (rb_route b)) (chunks internal_push_batch_size xs)))) =
      (if batch_key (rb_route b) = k then xs else [])" for xs
    by (simp add: filter_map comp_def concat_chunks[OF internal_push_batch_size_pos])
  from Cons this[of "rb_user_ids b"] show ?case by (simp add: push_batches_def del: map_map)
qed (simp add: push_batches_def)

lemma batch_of_server: "batches_ok batches \<Longrightarrow>
    concat (map rb_user_ids (filter (\<lambda>b. batch_key (rb_route b) = k) (map snd batches))) = users_of k batches"
proof (induction batches)
  case (Cons p batches)
  obtain k' b where p: "p = (k', b)" by (cases p)
  have ok: "batches_ok batches" "batch_key (rb_route b) = k'" "k' \<notin> set (map fst batches)"
    using Cons.prems by (auto simp: batches_ok_def p)
  have gone: "map_of batches k' = None" using ok(3) by (simp add: map_of_eq_None_iff)
  with Cons.IH[OF ok(1)] ok(2) show ?case
    by (cases "k = k'") (simp_all add: p users_of_def del: concat_eq_Nil_conv)
qed simp

text \<open>
  C19: Each im-server is sent, over all the requests made for an event, exactly the users that are connected to
  it, each as often as one of its routes names the server and in the order of the event; no request is empty
  and none has more than 500 users.
\<close>

theorem pushes_exact:
  "concat (map snd (filter (\<lambda>(r, _). batch_key r = k) (push_batches (batches_of routes us)))) = due routes k us \<and>
   list_all (\<lambda>(_, ids). ids \<noteq> [] \<and> length ids \<le> internal_push_batch_size) (push_batches (batches_of routes us))"
proof
  show "concat (map snd (filter (\<lambda>(r, _). batch_key r = k) (push_batches (batches_of routes us)))) = due routes k us"
    unfolding pushes_of_server unfolding batches_of_def
    using add_users[of "[]" routes us k] by (simp add: batch_of_server)
  show "list_all (\<lambda>(_, ids). ids \<noteq> [] \<and> length ids \<le> internal_push_batch_size) (push_batches (batches_of routes us))"
    by (auto simp: push_batches_def list_all_iff dest: chunk_sizes)
qed

section \<open>Acknowledgements\<close>

text \<open>
  Every entry that the dispatcher has read is acknowledged, whatever happened to it: an entry that cannot be
  read, whose members or routes could not be loaded or whose requests failed is not delivered again.
\<close>

lemma failed_pushes_acknowledged:
  "ensures (\<lambda>_. True) (\<lambda>_ _. True) (dispatch_events L config es ids cache)
     (\<lambda>r. \<exists>cache'. r = Inr (ids @ map sv_stream_id es, cache'))"
proof (induction es arbitrary: ids cache)
  case (Cons e es)
  let ?one = "case ap_read_event L (sv_payload e) of
       None \<Rightarrow> act_ok cache
     | Some event \<Rightarrow> act_then (act_try (dispatch_event L config cache event)) (\<lambda>r.
         act_ok (case r of Inr cache \<Rightarrow> cache | Inl _ \<Rightarrow> cache))"
  have tried: "ensures (\<lambda>_. True) (\<lambda>_ _. True) (act_try m) is_ok" for m :: "route_cache api"
    by (induction m) auto
  have "ensures (\<lambda>_. True) (\<lambda>_ _. True) ?one is_ok"
    by (cases "ap_read_event L (sv_payload e)") (auto intro: ensures_then[OF tried])
  then have "ensures (\<lambda>_. True) (\<lambda>_ _. True)
      (act_then ?one (\<lambda>cache. dispatch_events L config es (ids @ [sv_stream_id e]) cache))
      (\<lambda>r. \<exists>cache'. r = Inr ((ids @ [sv_stream_id e]) @ map sv_stream_id es, cache'))"
    by (rule ensures_then) (rule Cons.IH, simp)
  then show ?case by simp
qed simp

end
