(* ===== verification/Api_Hot_Rules.thy ===== *)
theory Api_Hot_Rules
  imports Api_Message_Read
begin

text \<open>
  A Redis server for messages over time: the scripts that write messages, changes of their status and
  whatever else happens to other keys. What the scripts know a message by stays as long as they kept it,
  and the numbers of a group's messages follow each other.
\<close>

section \<open>Keys\<close>

definition anonymous_key :: "int \<Rightarrow> string" where
  "anonymous_key message_id = ''im:client:none:'' @ show_int message_id"

text \<open>The texts that only the scripts and the changes of status write.\<close>

definition kept_key :: "string \<Rightarrow> bool" where
  "kept_key k \<longleftrightarrow> (\<exists>i. k = cached_message_key i) \<or> (\<exists>u c m. CHR '':'' \<notin> set c \<and> k = client_message_key u c m) \<or>
     (\<exists>i. k = anonymous_key i) \<or> (\<exists>g. k = group_sequence_key g)"

definition args_ok :: "script_args \<Rightarrow> bool" where
  "args_ok a \<longleftrightarrow> CHR '':'' \<notin> set (sa_conversation_id a) \<and>
     (\<exists>i u m. sa_id a = show_int i \<and> sa_message_key a = cached_message_key i \<and>
        (sa_client_key a = client_message_key u (sa_conversation_id a) m \<or> sa_client_key a = anonymous_key i))"

lemma args_message_key: "args_ok a \<Longrightarrow> sa_message_key a = message_prefix @ sa_id a"
  by (auto simp: args_ok_def message_prefix_def cached_message_key_def)

lemma none_not_int: "show_int i \<noteq> CHR ''n'' # t" "CHR ''n'' # t \<noteq> show_int i"
proof -
  have "CHR ''n'' \<notin> set (show_int i)" using show_int_chars[of i] digit_code[of "CHR ''n''"] by auto
  then show "show_int i \<noteq> CHR ''n'' # t" "CHR ''n'' # t \<noteq> show_int i" by (metis list.set_intros(1))+
qed

lemma anonymous_not_client: "anonymous_key i \<noteq> client_message_key u c m"
proof
  assume "anonymous_key i = client_message_key u c m"
  then have "''none'' @ CHR '':'' # show_int i = show_int u @ CHR '':'' # (c @ CHR '':'' # m)"
    by (simp add: anonymous_key_def client_message_key_def)
  then have "''none'' = show_int u" by (rule separator_split[THEN conjunct1]) (use underscore_not_int in auto)
  then show False using none_not_int(2)[of "''one''" u] by simp
qed

lemma key_kinds:
  "cached_message_key i \<noteq> client_message_key u c m" "cached_message_key i \<noteq> anonymous_key j"
  "cached_message_key i \<noteq> conversation_last_key d" "cached_message_key i \<noteq> event_key e"
  "client_message_key u c m \<noteq> conversation_last_key d" "client_message_key u c m \<noteq> event_key e"
  "anonymous_key i \<noteq> conversation_last_key d" "anonymous_key i \<noteq> event_key e"
  "group_sequence_key g \<noteq> cached_message_key i" "group_sequence_key g \<noteq> client_message_key u c m"
  "group_sequence_key g \<noteq> anonymous_key i" "group_sequence_key g \<noteq> event_key e"
  by (simp_all add: key_defs anonymous_key_def)

lemma sequence_not_last: "CHR '':'' \<notin> set c \<Longrightarrow> group_sequence_key g \<noteq> conversation_last_key c"
  using sequence_key_eq(1)[of c g "''seq''" "''last''"] by (simp add: group_sequence_key_def conversation_last_key_def)

lemma group_sequence_eq: "group_sequence_key g = group_sequence_key h \<longleftrightarrow> g = h"
  using key_text_inj[of "KGroupSeq g" "KGroupSeq h"] by simp

section \<open>The scripts on texts\<close>

lemma hot_expire_text [simp]:
  "hs_text (hot_expire_sorted t k ttl s) = hs_text s" "hs_text (hot_expire_hash t k ttl s) = hs_text s"
  "hs_text (hot_zadd t k score m s) = hs_text s" "hs_text (hot_hincr t k f s) = hs_text s"
  by (simp_all add: hot_expire_sorted_def hot_expire_hash_def hot_zadd_def hot_hincr_def hot_hset_def)

lemma hot_put_text [simp]:
  "hs_text (hot_put_ex t k v ttl s) = (hs_text s)(k := Some (v, Some (t + int ttl * 1000)))"
  "hs_text (hot_put k v s) = (hs_text s)(k := Some (v, None))"
  by (simp_all add: hot_put_ex_def hot_put_def)

lemma write_message_text:
  "hs_text (write_message t a m score s) = (hs_text s)
     (sa_client_key a := Some (sa_id a, Some (t + int (message_ttl_seconds * 2) * 1000)),
      sa_message_key a := Some (m, Some (t + int message_ttl_seconds * 1000)),
      conversation_last_key (sa_conversation_id a) := Some (m, Some (t + int conversation_ttl_seconds * 1000)))"
  by (simp add: write_message_def Let_def)

lemma write_event_text:
  "hs_text (write_event t a e s) = (hs_text s)(event_key (sa_event_id a) := Some (e, Some (t + int event_ttl_seconds * 1000)))"
  by (simp add: write_event_def Let_def)

lemma index_text [simp]: "hs_text (index_conversation t a u s) = hs_text s"
  by (simp add: index_conversation_def)

text \<open>What one of the two scripts does to the texts, when it does not find the message.\<close>

definition written :: "int \<Rightarrow> script_args \<Rightarrow> string \<Rightarrow> string \<Rightarrow> (string \<Rightarrow> (string \<times> int option) option) \<Rightarrow>
    string \<Rightarrow> (string \<times> int option) option" where
  "written t a m e texts = texts
     (sa_client_key a := Some (sa_id a, Some (t + int (message_ttl_seconds * 2) * 1000)),
      sa_message_key a := Some (m, Some (t + int message_ttl_seconds * 1000)),
      conversation_last_key (sa_conversation_id a) := Some (m, Some (t + int conversation_ttl_seconds * 1000)),
      event_key (sa_event_id a) := Some (e, Some (t + int event_ttl_seconds * 1000)))"

lemma private_script_texts:
  "existing_message t (sa_client_key a) s = None \<Longrightarrow>
   hs_text (snd (private_script a u v t s)) = written t a (sa_message a) (sa_event a) (hs_text s)"
  by (simp add: private_script_def Let_def written_def write_message_text write_event_text)

lemma private_script_found:
  "existing_message t (sa_client_key a) s = Some m \<Longrightarrow> private_script a u v t s = (Inr m, s)"
  by (simp add: private_script_def)

lemma group_script_found:
  "existing_message t (sa_client_key a) s = Some m \<Longrightarrow> group_script a g t s = (Inr m, s)"
  by (simp add: group_script_def)

lemma hot_incr_Some:
  assumes "hot_incr t k s = Some (q, s')"
  shows "s' = s\<lparr>hs_text := (hs_text s)(k := Some (show_int q, expiry t (hs_text s k)))\<rparr>" "q < 2 ^ 63" "- (2 ^ 63) \<le> q"
  using assms by (auto simp: hot_incr_def i64_checked_def split: Option.bind_splits option.splits if_splits)

lemma group_script_texts:
  assumes "existing_message t (sa_client_key a) s = None" "hot_incr t (group_sequence_key g) s = Some (q, s')"
  shows "hs_text (snd (group_script a g t s)) = written t a (with_sequence q (sa_message a)) (with_sequence q (sa_event a))
    ((hs_text s)(group_sequence_key g := Some (show_int q, expiry t (hs_text s (group_sequence_key g)))))"
  using assms(1) hot_incr_Some(1)[OF assms(2)]
  by (simp add: group_script_def assms(2) Let_def written_def write_message_text write_event_text)

lemma group_script_refused:
  assumes "existing_message t (sa_client_key a) s = None" "hot_incr t (group_sequence_key g) s = None"
  shows "group_script a g t s = (Inl ERedis, s)"
  using assms by (simp add: group_script_def)

lemma written_kept:
  assumes "args_ok a" "kept_key k" "k \<noteq> sa_client_key a" "k \<noteq> sa_message_key a"
  shows "written t a m e texts k = texts k"
proof -
  have c: "CHR '':'' \<notin> set (sa_conversation_id a)" using assms(1) by (auto simp: args_ok_def)
  have "k \<noteq> conversation_last_key (sa_conversation_id a)" "k \<noteq> event_key (sa_event_id a)"
    using assms(2) key_kinds sequence_not_last[OF c] unfolding kept_key_def by metis+
  with assms(3,4) show ?thesis by (simp add: written_def)
qed

section \<open>Runs\<close>

text \<open>The message that a group script adds, with its number.\<close>

definition accepted :: "int \<Rightarrow> script_args \<Rightarrow> int \<Rightarrow> hot_store \<Rightarrow> (int \<times> string \<times> int) list" where
  "accepted g a t s =
     (if existing_message t (sa_client_key a) s \<noteq> None then []
      else case hot_incr t (group_sequence_key g) s of Some (q, _) \<Rightarrow> [(g, sa_id a, q)] | None \<Rightarrow> [])"

inductive hot_run :: "int \<times> hot_store \<Rightarrow> (int \<times> string \<times> int) list \<Rightarrow> int \<times> hot_store \<Rightarrow> bool" for x0 where
  start: "hot_run x0 [] x0"
| later: "hot_run x0 tr (t, s) \<Longrightarrow> t \<le> t' \<Longrightarrow> hot_run x0 tr (t', s)"
| alone: "hot_run x0 tr (t, s) \<Longrightarrow> args_ok a \<Longrightarrow> hot_run x0 tr (t, snd (private_script a u v t s))"
| grouped: "hot_run x0 tr (t, s) \<Longrightarrow> args_ok a \<Longrightarrow>
    hot_run x0 (tr @ accepted g a t s) (t, snd (group_script a g t s))"
| restated: "hot_run x0 tr (t, s) \<Longrightarrow> hot_run x0 tr (t, hot_put_ex t (cached_message_key i) m message_ttl_seconds s)"
| other: "hot_run x0 tr (t, s) \<Longrightarrow> (\<And>k. kept_key k \<Longrightarrow> hs_text s' k = hs_text s k) \<Longrightarrow> hot_run x0 tr (t, s')"

lemmas hot_run_induct = hot_run.induct[split_format (complete)]

text \<open>What a server may do to the kept texts of a run, one text at a time.\<close>

lemma run_text:
  assumes "hot_run (t0, s0) tr (t, s)"
    and start: "P t0 s0"
    and later: "\<And>t t' s. P t s \<Longrightarrow> t0 \<le> t \<Longrightarrow> t \<le> t' \<Longrightarrow> P t' s"
    and same: "\<And>t s s'. P t s \<Longrightarrow> (\<And>k. kept_key k \<Longrightarrow> hs_text s' k = hs_text s k) \<Longrightarrow> P t s'"
    and wrote: "\<And>t s s' a m e. P t s \<Longrightarrow> t0 \<le> t \<Longrightarrow> args_ok a \<Longrightarrow> existing_message t (sa_client_key a) s = None \<Longrightarrow>
        (\<And>k. kept_key k \<Longrightarrow> (\<forall>g. k \<noteq> group_sequence_key g) \<Longrightarrow> hs_text s' k = written t a m e (hs_text s) k) \<Longrightarrow> P t s'"
    and restate: "\<And>t s i m. P t s \<Longrightarrow> t0 \<le> t \<Longrightarrow> P t (hot_put_ex t (cached_message_key i) m message_ttl_seconds s)"
  shows "P t s \<and> t0 \<le> t"
  using assms(1)
proof (induction tr t s rule: hot_run_induct)
  case start
  show ?case using assms(2) by simp
next
  case (later tr t s t')
  then show ?case using assms(3) by force
next
  case (alone tr t s a u v)
  show ?case
  proof (cases "existing_message t (sa_client_key a) s")
    case None
    with wrote[of t s a] alone private_script_texts[OF None, of u v] show ?thesis by metis
  next
    case (Some m)
    then show ?thesis using alone by (simp add: private_script_found)
  qed
next
  case (grouped tr t s a g)
  show ?case
  proof (cases "existing_message t (sa_client_key a) s")
    case None
    show ?thesis
    proof (cases "hot_incr t (group_sequence_key g) s")
      case (Some p)
      obtain q s1 where p: "p = (q, s1)" by (cases p)
      let ?s = "snd (group_script a g t s)"
      have "hs_text ?s k = written t a (with_sequence q (sa_message a)) (with_sequence q (sa_event a)) (hs_text s) k"
        if "\<forall>g. k \<noteq> group_sequence_key g" for k
        using that group_script_texts[OF None Some[unfolded p]] by (simp add: written_def)
      with wrote[of t s a ?s] grouped None show ?thesis by blast
    qed (use grouped None in \<open>simp add: group_script_refused\<close>)
  next
    case (Some m)
    then show ?thesis using grouped by (simp add: group_script_found)
  qed
next
  case (restated tr t s i m)
  then show ?case using restate by simp
next
  case (other tr t s s')
  then show ?case using same by metis
qed

section \<open>Repeated messages\<close>

text \<open>The message of a client identifier is kept.\<close>

definition message_kept :: "int \<Rightarrow> script_args \<Rightarrow> hot_store \<Rightarrow> bool" where
  "message_kept t0 a s \<longleftrightarrow>
     hs_text s (sa_client_key a) = Some (sa_id a, Some (t0 + int (message_ttl_seconds * 2) * 1000)) \<and>
     (\<exists>m e. hs_text s (sa_message_key a) = Some (m, Some e) \<and> t0 + int message_ttl_seconds * 1000 \<le> e)"

lemma message_kept_found:
  assumes "message_kept t0 a s" "args_ok a" "t < t0 + int message_ttl_seconds * 1000"
  shows "\<exists>m. existing_message t (sa_client_key a) s = Some m \<and> hot_get t s (sa_message_key a) = Some m"
  using assms args_message_key[OF assms(2)]
  by (auto simp: message_kept_def existing_message_def hot_get_def message_ttl_seconds_def)

lemma kept_keys: "args_ok a \<Longrightarrow> kept_key (sa_client_key a)" "args_ok a \<Longrightarrow> kept_key (sa_message_key a)"
  "args_ok a \<Longrightarrow> sa_client_key a \<noteq> sa_message_key b" if "args_ok b" for b
  using that unfolding args_ok_def kept_key_def by (metis key_kinds(1,2))+

lemma not_sequence_keys: "args_ok a \<Longrightarrow> sa_client_key a \<noteq> group_sequence_key g" "args_ok a \<Longrightarrow> sa_message_key a \<noteq> group_sequence_key g"
  unfolding args_ok_def by (metis key_kinds(9-11))+

lemma message_kept_run:
  assumes a: "args_ok a" and run: "hot_run (t0, s0) tr (t, s)" and start: "message_kept t0 a s0"
  shows "t < t0 + int message_ttl_seconds * 1000 \<Longrightarrow> message_kept t0 a s"
proof -
  let ?P = "\<lambda>t s. t < t0 + int message_ttl_seconds * 1000 \<longrightarrow> message_kept t0 a s"
  have "?P t s \<and> t0 \<le> t" using run
  proof (rule run_text[where P = ?P], goal_cases)
    case 1
    then show ?case using start by simp
  next
    case (2 t t' s)
    then show ?case by simp
  next
    case (3 t s s')
    then show ?case using kept_keys(1,2)[OF a a] by (simp add: message_kept_def)
  next
    case (4 t s s' b m e)
    show ?case
    proof
      assume t: "t < t0 + int message_ttl_seconds * 1000"
      then have kept: "message_kept t0 a s" using 4(1) by simp
      have other: "sa_client_key b \<noteq> sa_client_key a"
        using message_kept_found[OF kept a t] 4(4) by auto
      have c: "hs_text s' (sa_client_key a) = hs_text s (sa_client_key a)"
        using 4(5)[of "sa_client_key a"] written_kept[OF 4(3), of "sa_client_key a"] kept_keys[OF 4(3) a] kept_keys(1)[OF a a]
          other not_sequence_keys[OF a] by metis
      have "hs_text s' (sa_message_key a) = hs_text s (sa_message_key a) \<or>
          hs_text s' (sa_message_key a) = Some (m, Some (t + int message_ttl_seconds * 1000))"
      proof (cases "sa_message_key a = sa_message_key b")
        case True
        have k: "kept_key (sa_message_key b)" "\<forall>g. sa_message_key b \<noteq> group_sequence_key g"
          using kept_keys(2)[OF 4(3) 4(3)] not_sequence_keys[OF 4(3)] by auto
        have "sa_message_key b \<noteq> conversation_last_key (sa_conversation_id b)" "sa_message_key b \<noteq> event_key (sa_event_id b)"
          using 4(3) unfolding args_ok_def by (metis key_kinds(3,4))+
        then show ?thesis using 4(5)[OF k] True by (simp add: written_def)
      next
        case False
        then show ?thesis
          using 4(5)[of "sa_message_key a"] written_kept[OF 4(3), of "sa_message_key a"] kept_keys(2)[OF a a]
            kept_keys(3)[OF a 4(3)] not_sequence_keys[OF a] by metis
      qed
      with c kept 4(2) show "message_kept t0 a s'" by (auto simp: message_kept_def)
    qed
  next
    case (5 t s i m)
    have "sa_client_key a \<noteq> cached_message_key i" using a unfolding args_ok_def by (metis key_kinds(1,2))
    with 5 show ?case by (auto simp: message_kept_def)
  qed
  then show "t < t0 + int message_ttl_seconds * 1000 \<Longrightarrow> message_kept t0 a s" by simp
qed

lemma written_is_kept:
  assumes "args_ok a" "hs_text s' = written t a m e texts"
  shows "message_kept t a s'"
proof -
  have "sa_client_key a \<noteq> sa_message_key a" using kept_keys(3)[OF assms(1) assms(1)] .
  moreover have "sa_client_key a \<noteq> conversation_last_key d" "sa_client_key a \<noteq> event_key x"
    "sa_message_key a \<noteq> conversation_last_key d" "sa_message_key a \<noteq> event_key x" for d x
    using assms(1) key_kinds unfolding args_ok_def by metis+
  ultimately show ?thesis by (simp add: message_kept_def assms(2) written_def)
qed

section \<open>Numbers of a group\<close>

definition numbers_of :: "int \<Rightarrow> (int \<times> string \<times> int) list \<Rightarrow> int list" where
  "numbers_of g tr = map (\<lambda>(_, _, q). q) (filter (\<lambda>(h, _, _). h = g) tr)"

text \<open>The number that the server keeps for a group.\<close>

definition group_number :: "int \<Rightarrow> hot_store \<Rightarrow> int option" where
  "group_number g s = (case hs_text s (group_sequence_key g) of
     Some (raw, None) \<Rightarrow> parse_i64 raw | _ \<Rightarrow> None)"

lemma hot_incr_number:
  assumes "hs_text s k = Some (raw, None)" "parse_i64 raw = Some n" "hot_incr t k s = Some (q, s')"
  shows "q = n + 1" "parse_i64 (show_int q) = Some q" "hs_text s' = (hs_text s)(k := Some (show_int (n + 1), None))"
proof -
  have get: "hot_get t s k = Some raw" using assms(1) by (simp add: hot_get_def)
  with assms(2,3) show q: "q = n + 1" by (auto simp: hot_incr_def i64_checked_def split: Option.bind_splits if_splits)
  show "parse_i64 (show_int q) = Some q" using hot_incr_Some(2,3)[OF assms(3)] by (simp add: parse_i64_show)
  show "hs_text s' = (hs_text s)(k := Some (show_int (n + 1), None))"
    using hot_incr_Some(1)[OF assms(3)] q assms(1) by (simp add: expiry_def)
qed

lemma number_unwritten: "args_ok a \<Longrightarrow> written t a m e texts (group_sequence_key g) = texts (group_sequence_key g)"
proof -
  assume a: "args_ok a"
  then have c: "CHR '':'' \<notin> set (sa_conversation_id a)" by (auto simp: args_ok_def)
  show ?thesis using not_sequence_keys[OF a] sequence_not_last[OF c] key_kinds(12)
    unfolding written_def by (metis fun_upd_other)
qed

lemma numbers_run:
  assumes "hot_run (t0, s0) tr (t, s)" "group_number g s0 = Some n"
  shows "group_number g s = Some (n + int (length (numbers_of g tr))) \<and>
    numbers_of g tr = map (\<lambda>i. n + 1 + int i) [0..<length (numbers_of g tr)]"
  using assms(1)
proof (induction tr t s rule: hot_run_induct)
  case start
  show ?case using assms(2) by (simp add: numbers_of_def)
next
  case (later tr t s t')
  then show ?case by simp
next
  case (alone tr t s a u v)
  have "hs_text (snd (private_script a u v t s)) (group_sequence_key g) = hs_text s (group_sequence_key g)"
  proof (cases "existing_message t (sa_client_key a) s")
    case None
    then show ?thesis using private_script_texts[OF None] number_unwritten[OF alone(2)] by simp
  qed (simp add: private_script_found)
  with alone(3) show ?case by (simp add: group_number_def)
next
  case (grouped tr t s a h)
  note IH = grouped(3)
  show ?case
  proof (cases "existing_message t (sa_client_key a) s")
    case None
    show ?thesis
    proof (cases "hot_incr t (group_sequence_key h) s")
      case (Some p)
      obtain q s1 where p: "p = (q, s1)" by (cases p)
      note incr = Some[unfolded p]
      let ?s = "snd (group_script a h t s)" and ?l = "length (numbers_of g tr)"
      have tr: "accepted h a t s = [(h, sa_id a, q)]" using None incr by (simp add: accepted_def)
      have seqtext: "hs_text ?s (group_sequence_key g) =
          (if h = g then Some (show_int q, expiry t (hs_text s (group_sequence_key h))) else hs_text s (group_sequence_key g))"
        using group_script_texts[OF None incr] number_unwritten[OF grouped(2)] group_sequence_eq by simp
      show ?thesis
      proof (cases "h = g")
        case False
        then show ?thesis using IH tr seqtext by (simp add: numbers_of_def group_number_def)
      next
        case True
        obtain raw where raw: "hs_text s (group_sequence_key g) = Some (raw, None)" "parse_i64 raw = Some (n + int ?l)"
          using IH by (auto simp: group_number_def split: option.splits prod.splits)
        note q = hot_incr_number[OF raw incr[unfolded True]]
        have nums: "numbers_of g (tr @ accepted h a t s) = numbers_of g tr @ [n + 1 + int ?l]"
          using tr True q(1) by (simp add: numbers_of_def)
        have "group_number g ?s = Some (n + 1 + int ?l)"
          using seqtext True q(1,2) raw(1) by (simp add: group_number_def expiry_def)
        moreover have "numbers_of g tr @ [n + 1 + int ?l] = map (\<lambda>i. n + 1 + int i) [0..<Suc ?l]" using IH by simp
        ultimately show ?thesis unfolding nums by (simp add: algebra_simps)
      qed
    qed (use grouped None in \<open>simp add: group_script_refused accepted_def\<close>)
  next
    case (Some m)
    then show ?thesis using grouped by (simp add: group_script_found accepted_def)
  qed
next
  case (restated tr t s i m)
  then show ?case using key_kinds(9)[of g i] by (simp add: group_number_def)
next
  case (other tr t s s')
  have "kept_key (group_sequence_key g)" by (auto simp: kept_key_def)
  with other show ?case by (simp add: group_number_def)
qed

end
