(* ===== verification/Api_Message_Rules.thy ===== *)
theory Api_Message_Rules
  imports Api_Hot_Rules Api_Message_List Api_Ghost
begin

text \<open>
  What the handlers of messages may do to the Redis servers for messages, at each of their accesses and
  whatever happens between two of them; and undisturbed runs of the handlers.
\<close>

section \<open>Accesses that leave the messages alone\<close>

interpretation hot_servers: unseen_view aw_hot
  by unfold_locales (simp_all add: outcome_used_def)

abbreviation hot_still :: "'a api \<Rightarrow> bool" where
  "hot_still \<equiv> guarantees (\<lambda>_. True) (\<lambda>w w'. aw_hot w' = aw_hot w)"

lemma still_value [ensures_intros]: "hot_still (get_value k)" "hot_still (set_value k v ttl)"
  by (simp_all add: get_value_def set_value_def)

lemma still_redis [ensures_intros]: "(\<And>w. aw_hot (snd (f w)) = aw_hot w) \<Longrightarrow> hot_still (redis_command f)"
  unfolding redis_command_def by (rule guarantees_command) (simp add: outcome_used_def)

lemma still_set [ensures_intros]: "hot_still (redis_set_px k v ttl)" "hot_still (redis_set_ex k v n)"
  unfolding redis_set_ex_def redis_set_px_def by (rule guarantees_command; simp add: outcome_used_def)+

lemma still_id [ensures_intros]: "hot_still (new_id node)"
  by (auto simp: new_id_def split: option.splits)

lemma still_keep [ensures_intros]: "hot_still (keep_relations u fs)"
  unfolding keep_relations_def by (intro ensures_intros) simp

lemmas cache_defs = get_bool_def set_bool_def get_i64_option_def set_i64_option_def redis_peek_def redis_keep_def
  read_cached_i64_option_def write_cached_i64_option_def read_cached_bool_def write_cached_bool_def

lemma still_cache [ensures_intros]:
  "hot_still (get_bool k)" "hot_still (set_bool k b)" "hot_still (get_i64_option k)" "hot_still (set_i64_option k m)"
  "hot_still (redis_peek k)" "hot_still (redis_keep k v n)" "hot_still (read_cached_i64_option k)"
  "hot_still (write_cached_i64_option k m)" "hot_still (read_cached_bool k)" "hot_still (write_cached_bool k b)"
  unfolding cache_defs Let_def by (intro ensures_intros)+

lemma still_resolve [ensures_intros]:
  "hot_still (cached_resolve_active_user_id i)" "hot_still (cached_resolve_active_group_id i)"
  "hot_still (resolve_existing_message_id i)"
  unfolding cached_resolve_active_user_id_def cached_resolve_active_group_id_def cached_resolve_def
    resolve_active_user_id_def resolve_active_group_id_def resolve_existing_message_id_def resolve_existing_id_def
  by (intro ensures_intros)+

lemma still_member [ensures_intros]: "hot_still (ensure_group_member g u)" "hot_still (ensure_group_members_batch g us)"
  unfolding ensure_group_member_def ensure_group_members_batch_def by (intro ensures_intros)+

lemma still_checks [ensures_intros]:
  "hot_still (validate_friend u f)" "hot_still (validate_group_member g u)"
  "hot_still (batch_validate_mentioned_members g u ms)"
  unfolding validate_friend_def validate_group_member_def batch_validate_mentioned_members_def preload_friend_relations_def
    cached_check_def Let_def
  by (intro ensures_intros)+

lemma still_envelope [ensures_intros]:
  "hot_still (validate_device_active L d)" "hot_still (validate_device_ownership L d u)"
  "hot_still (validate_e2ee_envelope L e c u v)" "hot_still (validate_recipient_devices_not_revoked L ds)"
proof -
  show a: "hot_still (validate_device_active L d)" "hot_still (validate_device_ownership L d u)" for d u
    unfolding validate_device_active_def validate_device_ownership_def by (intro ensures_intros)+
  show "hot_still (validate_e2ee_envelope L e c u v)" "hot_still (validate_recipient_devices_not_revoked L ds)"
    unfolding validate_e2ee_envelope_def validate_recipient_devices_not_revoked_def act_map_err_def Let_def
    by (intro ensures_intros a)+
qed

lemma still_build [ensures_intros]:
  "hot_still (build_message L config caller input)" "hot_still (new_event t c)" "hot_still (build_message_created_event c m)"
  unfolding build_message_def new_event_def build_message_created_event_def by (intro ensures_intros)+

lemma still_epoch [ensures_intros]: "hot_still (current_group_epoch g)" "hot_still (group_e2ee_enabled g)" "hot_still (private_e2ee_enabled L c)"
  unfolding current_group_epoch_def group_e2ee_enabled_def private_e2ee_enabled_def Let_def by (intro ensures_intros)+

lemma still_group_payload [ensures_intros]: "hot_still (group_payload_checks L u g c request)"
  unfolding group_payload_checks_def by (intro ensures_intros)

lemma still_envelopes [ensures_intros]: "hot_still (private_envelopes L u v c request)"
  unfolding private_envelopes_def by (intro ensures_intros)

lemma still_hot_read [ensures_intros]: "hot_still (hot_read url f)"
  unfolding hot_read_def by (rule guarantees_command) (simp add: outcome_used_def)

section \<open>What a message carries into an encrypted conversation\<close>

lemma ensures_try: "ensures P G m Q \<Longrightarrow> (\<And>r. Q r \<Longrightarrow> R (Inr r)) \<Longrightarrow> ensures P G (act_try m) R"
  by (induction m) auto

text \<open>Where an error ends the computation, a condition on its values is enough.\<close>

abbreviation yields :: "(api_world \<Rightarrow> bool) \<Rightarrow> (api_world \<Rightarrow> api_world \<Rightarrow> bool) \<Rightarrow> 'a api \<Rightarrow> ('a \<Rightarrow> bool) \<Rightarrow> bool" where
  "yields P G m Q \<equiv> ensures P G m (\<lambda>r. \<forall>x. r = Inr x \<longrightarrow> Q x)"

lemma yields_then: "yields P G m Q \<Longrightarrow> (\<And>x. Q x \<Longrightarrow> yields P G (f x) R) \<Longrightarrow> yields P G (act_then m f) R"
  by (rule ensures_then[where Q = "\<lambda>r. \<forall>x. r = Inr x \<longrightarrow> Q x"]) auto

lemma guarantees_yields_then: "yields P G m Q \<Longrightarrow> (\<And>x. Q x \<Longrightarrow> guarantees P G (f x)) \<Longrightarrow> guarantees P G (act_then m f)"
  by (rule ensures_then[where Q = "\<lambda>r. \<forall>x. r = Inr x \<longrightarrow> Q x"]) auto

lemma yields_ret: "(\<And>x. r = Inr x \<Longrightarrow> Q x) \<Longrightarrow> yields P G (Ret r) Q"
  by simp

lemma yields_check: "(b \<Longrightarrow> Q ()) \<Longrightarrow> yields P G (act_check b e) Q"
  by (simp add: act_check_def)

lemma yields_any: "guarantees P G m \<Longrightarrow> yields P G m (\<lambda>_. True)"
  by simp

lemma yields_each:
  assumes "\<And>x. yields P G (f x) (\<lambda>_. Q x)"
  shows "yields P G (act_each f xs) (\<lambda>_. \<forall>x \<in> set xs. Q x)"
proof (induction xs)
  case Nil
  show ?case by simp
next
  case (Cons x xs)
  show ?case unfolding act_each.simps
    by (rule yields_then[OF assms], rule yields_then[OF Cons]) simp
qed

definition private_adds :: "(script_args \<Rightarrow> bool) \<Rightarrow> api_world \<Rightarrow> api_world \<Rightarrow> bool" where
  "private_adds S w w' \<longleftrightarrow> aw_hot w' = aw_hot w \<or>
     (\<exists>url a u v. S a \<and> aw_hot w' = (aw_hot w)(url := snd (private_script a u v (aw_now w) (aw_hot w url))))"

definition group_adds :: "(script_args \<Rightarrow> bool) \<Rightarrow> api_world \<Rightarrow> api_world \<Rightarrow> bool" where
  "group_adds S w w' \<longleftrightarrow> aw_hot w' = aw_hot w \<or>
     (\<exists>url a g. S a \<and> aw_hot w' = (aw_hot w)(url := snd (group_script a g (aw_now w) (aw_hot w url))))"

lemma still_adds: "hot_still m \<Longrightarrow> guarantees P (private_adds S) m" "hot_still m \<Longrightarrow> guarantees P (group_adds S) m"
  by (erule ensures_mono; simp add: private_adds_def group_adds_def)+

lemma private_script_adds: "S a \<Longrightarrow> guarantees P (private_adds S) (hot_command url (private_script a u v))"
  unfolding hot_command_def by (rule guarantees_command) (force simp: private_adds_def outcome_used_def case_prod_beta)

lemma group_script_adds: "S a \<Longrightarrow> guarantees P (group_adds S) (hot_command url (group_script a g))"
  unfolding hot_command_def by (rule guarantees_command) (force simp: group_adds_def outcome_used_def case_prod_beta)

text \<open>The envelope of a message whose text is blank, in the format of the encryption library.\<close>

definition sealed :: "api_lib \<Rightarrow> message_dto \<Rightarrow> bool" where
  "sealed L m \<longleftrightarrow> blank (md_content m) \<and>
     (\<exists>e. md_e2ee_envelope m = Some e \<and> is_ok (validate_e2ee_envelope_format L e))"

definition sealed_in :: "api_lib \<Rightarrow> string \<Rightarrow> (message_dto \<Rightarrow> bool) \<Rightarrow> script_args \<Rightarrow> bool" where
  "sealed_in L c Q a \<longleftrightarrow> (sa_conversation_id a = c \<longrightarrow> (\<exists>m. sa_message a = ap_print_message L m \<and> sealed L m \<and> Q m))"

lemma envelope_format:
  "yields P G (validate_e2ee_envelope L e c u v) (\<lambda>_. is_ok (validate_e2ee_envelope_format L e))"
  if "\<And>w. P w \<Longrightarrow> G w w" "\<And>w w'. aw_hot w' = aw_hot w \<Longrightarrow> G w w'"
proof -
  have still: "hot_still (validate_e2ee_envelope L e c u v)" by (rule still_envelope)
  show ?thesis
  proof (cases "is_ok (validate_e2ee_envelope_format L e)")
    case True
    then show ?thesis using ensures_mono[OF still, of P G] that by auto
  next
    case False
    then obtain x where "validate_e2ee_envelope_format L e = Inl x" by (cases "validate_e2ee_envelope_format L e") auto
    then show ?thesis by (simp add: validate_e2ee_envelope_def)
  qed
qed

lemma collected_nonempty: "collect_results f xs = Inr ys \<Longrightarrow> xs \<noteq> [] \<Longrightarrow> ys \<noteq> []"
  by (cases xs) (auto simp: and_then_Inr_iff)

lemma one_collected: "map_sum id (\<lambda>n. [n]) r = Inr ys \<Longrightarrow> ys \<noteq> []"
  by (cases r) auto

lemma one_device: "(case ds of [] \<Rightarrow> Inl e | [d] \<Rightarrow> f d | d # _ # _ \<Rightarrow> Inl e) = Inr ys \<Longrightarrow> \<exists>d. f d = Inr ys"
  by (auto split: list.splits)

lemma pushed_envelope: "push_private_device_envelope u v r d e = Inr n \<Longrightarrow> nv_envelope n = e"
  by (auto simp: push_private_device_envelope_def Let_def split: if_splits)

lemma pushed_one:
  "map_sum id (\<lambda>n. [n]) (push_private_device_envelope u v r d e) = Inr items \<Longrightarrow> e \<in> nv_envelope ` set items"
  by (cases "push_private_device_envelope u v r d e") (auto dest: pushed_envelope)

text \<open>What the request of an encrypted private message looks like.\<close>

lemma private_request_envelopes:
  assumes "private_e2ee_envelopes_from_request request u v = Inr items"
  shows "blank (sp_content request)" "items \<noteq> []"
    "sp_e2ee_envelope request = Some e \<Longrightarrow> e \<in> nv_envelope ` set items"
proof -
  from assms have shape: "validate_private_e2ee_request_shape request = Inr ()"
    unfolding private_e2ee_envelopes_from_request_def by (auto simp: and_then_Inr_iff)
  then show "blank (sp_content request)" by (auto simp: validate_private_e2ee_request_shape_def split: if_splits)
  show "items \<noteq> []" using assms shape
    by (auto simp: private_e2ee_envelopes_from_request_def and_then_Inr_iff split: option.splits if_splits
        dest!: collected_nonempty one_collected one_device)
  show "e \<in> nv_envelope ` set items" if "sp_e2ee_envelope request = Some e"
    using assms shape that
    by (auto simp: private_e2ee_envelopes_from_request_def and_then_Inr_iff split: option.splits if_splits
        dest!: one_device pushed_one)
qed

lemma response_from_items:
  assumes "items \<noteq> []" "\<And>e. sp_e2ee_envelope request = Some e \<Longrightarrow> e \<in> nv_envelope ` set items"
  shows "\<exists>e \<in> nv_envelope ` set items. response_envelope request v items = Some e"
  using assms by (cases items) (auto simp: response_envelope_def or_else_def find_Some_iff split: option.splits)

section \<open>The gates\<close>

text \<open>The negotiation table says that the conversation is encrypted.\<close>

definition negotiated :: "api_lib \<Rightarrow> string \<Rightarrow> api_world \<Rightarrow> bool" where
  "negotiated L c w \<longleftrightarrow> (\<exists>r \<in> set (aw_sessions w). se_status r = ''encrypted'' \<and>
     ap_collate L (se_session_id r) \<in> {ap_collate L c, ap_collate L (unwrap_or (strip_prefix ''p_'' c) c)})"

lemma yields_query:
  "(\<And>w. P (outcome_used w) = P w) \<Longrightarrow> (\<And>w w'. aw_hot w' = aw_hot w \<Longrightarrow> G w w') \<Longrightarrow>
   (\<And>w. P w \<Longrightarrow> Q (f w)) \<Longrightarrow> yields P G (sql_query f) Q"
  unfolding sql_query_def by (rule ensures_command) (auto simp: outcome_used_def)

lemma private_gate_open:
  "yields (negotiated L c) (private_adds S) (private_e2ee_enabled L c) (\<lambda>b. b)"
  unfolding private_e2ee_enabled_def Let_def
proof (rule yields_then[where Q = "\<lambda>m. m \<noteq> None"], rule yields_query)
  fix w assume "negotiated L c w"
  then show "find (\<lambda>r. ap_collate L (se_session_id r)
      \<in> {ap_collate L c, ap_collate L (unwrap_or (strip_prefix ''p_'' c) c)} \<and> se_status r = ''encrypted'') (aw_sessions w) \<noteq> None"
    by (auto simp: negotiated_def find_None_iff)
qed (auto simp: negotiated_def outcome_used_def private_adds_def)

lemma private_envelopes_sealed:
  "yields P (private_adds S) (private_envelopes L u v c request)
     (\<lambda>items. blank (sp_content request) \<and>
        (\<exists>e. response_envelope request v items = Some e \<and> is_ok (validate_e2ee_envelope_format L e)))"
  unfolding private_envelopes_def
proof (rule yields_then[where Q = "\<lambda>items. private_e2ee_envelopes_from_request request u v = Inr items"], simp)
  fix items assume items: "private_e2ee_envelopes_from_request request u v = Inr items"
  note facts = private_request_envelopes[OF items]
  obtain e where e: "e \<in> nv_envelope ` set items" "response_envelope request v items = Some e"
    using response_from_items[OF facts(2), of request v] facts(3) by blast
  show "yields P (private_adds S) (act_then (act_each (\<lambda>item.
      act_then (validate_e2ee_envelope L (nv_envelope item) c u (Some (nv_recipient_user_id item)))
        (\<lambda>_. validate_recipient_devices_not_revoked L [nv_recipient_device_id item])) items) (\<lambda>_. act_ok items))
    (\<lambda>items. blank (sp_content request) \<and>
        (\<exists>e. response_envelope request v items = Some e \<and> is_ok (validate_e2ee_envelope_format L e)))"
  proof (rule yields_then[OF yields_each[where Q = "\<lambda>n. is_ok (validate_e2ee_envelope_format L (nv_envelope n))"]])
    fix n
    show "yields P (private_adds S) (act_then (validate_e2ee_envelope L (nv_envelope n) c u (Some (nv_recipient_user_id n)))
        (\<lambda>_. validate_recipient_devices_not_revoked L [nv_recipient_device_id n]))
      (\<lambda>_. is_ok (validate_e2ee_envelope_format L (nv_envelope n)))"
      by (rule yields_then[OF envelope_format ensures_weaken[OF still_adds(1)[OF still_envelope(4)]]])
        (simp_all add: private_adds_def)
  next
    assume "\<forall>n \<in> set items. is_ok (validate_e2ee_envelope_format L (nv_envelope n))"
    with e facts(1) show "yields P (private_adds S) (act_ok items) (\<lambda>items. blank (sp_content request) \<and>
        (\<exists>e. response_envelope request v items = Some e \<and> is_ok (validate_e2ee_envelope_format L e)))"
      by auto
  qed
qed

lemma built_message:
  "yields P (private_adds S) (build_message L config caller input) (\<lambda>m. \<exists>i now. m = message_of L caller input i now)"
  "yields P (group_adds S) (build_message L config caller input) (\<lambda>m. \<exists>i now. m = message_of L caller input i now)"
proof -
  have now: "hot_still now_ms" by (rule hot_servers.untouched.guarantees_now)
  show "yields P (private_adds S) (build_message L config caller input) (\<lambda>m. \<exists>i now. m = message_of L caller input i now)"
    unfolding build_message_def
    by (rule yields_then[OF yields_any[OF still_adds(1)[OF still_id]]], rule yields_then[OF yields_any[OF still_adds(1)[OF now]]])
      auto
  show "yields P (group_adds S) (build_message L config caller input) (\<lambda>m. \<exists>i now. m = message_of L caller input i now)"
    unfolding build_message_def
    by (rule yields_then[OF yields_any[OF still_adds(2)[OF still_id]]], rule yields_then[OF yields_any[OF still_adds(2)[OF now]]])
      auto
qed

lemma write_private_adds:
  assumes "\<And>a. sa_conversation_id a = c \<Longrightarrow> sa_message a = ap_print_message L m \<Longrightarrow> S a"
  shows "guarantees P (private_adds S) (write_private_message_hot L url c m event)"
  unfolding write_private_message_hot_def
  by (intro guarantees_then guarantees_ret still_adds(1) private_script_adds assms ensures_intros; simp add: script_args_of_def)

lemma write_group_adds:
  assumes "\<And>a. sa_conversation_id a = c \<Longrightarrow> sa_message a = ap_print_message L m \<Longrightarrow> S a"
  shows "guarantees P (group_adds S) (write_group_message_hot L url g c m event)"
  unfolding write_group_message_hot_def
  by (intro guarantees_then guarantees_ret still_adds(2) group_script_adds assms ensures_intros; simp add: script_args_of_def)

lemma private_gate:
  "guarantees (negotiated L c) (private_adds (sealed_in L c (\<lambda>_. True))) (send_private L config url caller request)"
  unfolding send_private_def Let_def
proof (rule guarantees_then[OF guarantees_ret], rule guarantees_then[OF still_adds(1)[OF still_resolve(1)]],
    rule guarantees_then[OF guarantees_ret], rule guarantees_then[OF guarantees_check],
    rule guarantees_then[OF still_adds(1)[OF still_checks(1)]], goal_cases)
  case (1 _ _ receiver _ _)
  let ?c = "private_conversation_id (id_user_id caller) receiver"
  let ?S = "sealed_in L c (\<lambda>_. True)"
  show ?case
  proof (cases "?c = c")
    case False
    then show ?thesis
      by (intro guarantees_then guarantees_ret guarantees_if still_adds(1)[OF still_epoch(3)]
          still_adds(1)[OF still_envelopes] still_adds(1)[OF still_build(1)] still_adds(1)[OF still_build(3)]
          write_private_adds; simp add: sealed_in_def)
  next
    case True
    show ?thesis
      unfolding True
    proof (rule guarantees_yields_then[OF private_gate_open], rule guarantees_then[OF guarantees_ret], goal_cases)
      case (1 enabled _)
      then have enabled: "enabled \<or> has_private_payload request" by simp
      show ?case
        unfolding if_P[OF enabled]
      proof (rule guarantees_yields_then[OF private_envelopes_sealed], elim conjE exE)
        fix items e
        assume items: "blank (sp_content request)" "response_envelope request receiver items = Some e"
          "is_ok (validate_e2ee_envelope_format L e)"
        show "guarantees (negotiated L c) (private_adds ?S)
          (act_then (build_message L config caller (private_input request receiver (response_envelope request receiver items)))
             (\<lambda>message. act_then (build_message_created_event c message) (\<lambda>event.
                write_private_message_hot L url c message
                 (if items = [] then event else event\<lparr>ev_device_envelopes := Some (map to_event_dto items)\<rparr>))))"
        proof (rule guarantees_yields_then[OF built_message(1)], rule guarantees_then[OF still_adds(1)[OF still_build(3)]],
            rule write_private_adds, elim exE)
          fix m i now and a :: script_args
          assume "m = message_of L caller (private_input request receiver (response_envelope request receiver items)) i now"
            and a: "sa_message a = ap_print_message L m"
          then have "sealed L m" using items by (simp add: sealed_def message_of_def private_input_def)
          with a show "?S a" by (auto simp: sealed_in_def)
        qed
      qed
    qed
  qed
qed

text \<open>The group is encrypted, in its epoch \<open>e\<close>.\<close>

definition group_encrypted :: "int \<Rightarrow> int \<Rightarrow> api_world \<Rightarrow> bool" where
  "group_encrypted g e w \<longleftrightarrow> map_option ge_status (row_of ge_group_id g (aw_e2ee_groups w)) = Some ''encrypted'' \<and>
     max_epoch g w = Some e"

definition of_epoch :: "int \<Rightarrow> message_dto \<Rightarrow> bool" where
  "of_epoch e m \<longleftrightarrow> md_encrypted m = Some True \<and> map_option ee_key_version (md_e2ee_envelope m) = Some e"

lemma group_gate_open: "yields (group_encrypted g e) (group_adds S) (group_e2ee_enabled g) (\<lambda>b. b)"
  unfolding group_e2ee_enabled_def
  by (rule yields_then[where Q = "\<lambda>s. s = Some ''encrypted''", OF yields_query])
    (auto simp: group_encrypted_def outcome_used_def max_epoch_def group_adds_def)

lemma group_payload_sealed:
  "yields (group_encrypted g e) (group_adds S) (group_payload_checks L u g c request)
     (\<lambda>_. blank (sg_content request) \<and> (\<exists>env. sg_e2ee_envelope request = Some env \<and> ee_key_version env = e \<and>
        is_ok (validate_e2ee_envelope_format L env)))"
  unfolding group_payload_checks_def
proof (rule yields_then[OF yields_check[where Q = "\<lambda>_. True"]], simp,
    rule yields_then[OF yields_ret[where Q = "\<lambda>env. sg_e2ee_envelope request = Some env"]], simp,
    rule yields_then[OF yields_check[where Q = "\<lambda>_. blank (sg_content request)"]], assumption)
  fix env
  let ?R = "blank (sg_content request) \<and> (\<exists>env. sg_e2ee_envelope request = Some env \<and> ee_key_version env = e \<and>
        is_ok (validate_e2ee_envelope_format L env))"
  let ?rest = "\<lambda>epoch. act_then (Ret (ok_or (EConflict ''group e2ee epoch missing'') epoch)) (\<lambda>epoch.
       act_then (act_check (ee_key_version env = epoch) (EConflict ''group e2ee envelope epoch is stale'')) (\<lambda>_.
         validate_recipient_devices_not_revoked L (resolve_recipient_device_ids env)))"
  assume env: "sg_e2ee_envelope request = Some env" and content: "blank (sg_content request)"
  have same: "aw_hot w' = aw_hot w \<Longrightarrow> group_adds S w w'" for w w' by (simp add: group_adds_def)
  have epoch: "yields (group_encrypted g e) (group_adds S) (current_group_epoch g) (\<lambda>m. m = Some e)"
    unfolding current_group_epoch_def
    by (rule yields_query) (auto simp: group_encrypted_def outcome_used_def max_epoch_def group_adds_def)
  have rest: "yields (group_encrypted g e) (group_adds S) (?rest (Some e)) (\<lambda>_. ?R)"
    if format: "is_ok (validate_e2ee_envelope_format L env)"
  proof (rule yields_then[OF yields_ret[where Q = "\<lambda>i. i = e"]], simp, hypsubst, rule yields_then[OF yields_check], assumption)
    assume "ee_key_version env = e"
    with env content format have R: ?R by blast
    show "yields (group_encrypted g e) (group_adds S)
        (validate_recipient_devices_not_revoked L (resolve_recipient_device_ids env)) (\<lambda>_. ?R)"
      by (rule ensures_weaken[OF still_adds(2)[OF still_envelope(4)]]) (rule allI, rule impI, rule R)
  qed
  show "yields (group_encrypted g e) (group_adds S)
      (act_then (validate_e2ee_envelope L env c u None) (\<lambda>_. act_then (current_group_epoch g) ?rest)) (\<lambda>_. ?R)"
  proof (rule yields_then[OF envelope_format[OF same same]])
    assume format: "is_ok (validate_e2ee_envelope_format L env)"
    show "yields (group_encrypted g e) (group_adds S) (act_then (current_group_epoch g) ?rest) (\<lambda>_. ?R)"
      by (rule yields_then[OF epoch]) (simp only: rest[OF format])
  qed auto
qed

lemma group_gate:
  "guarantees (group_encrypted g e) (group_adds (sealed_in L (group_conversation_id g) (of_epoch e)))
     (send_group L config url caller request)"
  unfolding send_group_def Let_def
proof (rule guarantees_then[OF guarantees_ret], rule guarantees_then[OF still_adds(2)[OF still_resolve(2)]],
    rule guarantees_then[OF guarantees_ret], rule guarantees_then[OF still_adds(2)[OF still_checks(2)]],
    rule guarantees_then[OF still_adds(2)[OF still_checks(3)]], goal_cases)
  case (1 _ _ group_id _ mentioned)
  let ?S = "sealed_in L (group_conversation_id g) (of_epoch e)"
  show ?case
  proof (cases "group_id = g")
    case False
    then show ?thesis
      by (intro guarantees_then guarantees_ret guarantees_if still_adds(2)[OF still_epoch(2)]
          still_adds(2)[OF still_group_payload] still_adds(2)[OF still_build(1)] still_adds(2)[OF still_build(3)]
          write_group_adds; simp add: sealed_in_def)
  next
    case True
    show ?thesis
      unfolding True
    proof (rule guarantees_yields_then[OF group_gate_open], rule guarantees_then[OF guarantees_ret], goal_cases)
      case (1 enabled _)
      then have enabled: "enabled \<or> unwrap_or (sg_encrypted request) False \<or> sg_e2ee_envelope request \<noteq> None" "enabled"
        by simp_all
      show ?case
        unfolding if_P[OF enabled(1)]
      proof (rule guarantees_yields_then[OF group_payload_sealed], elim conjE exE)
        fix env
        assume checked: "blank (sg_content request)" "sg_e2ee_envelope request = Some env" "ee_key_version env = e"
          "is_ok (validate_e2ee_envelope_format L env)"
        show "guarantees (group_encrypted g e) (group_adds ?S)
          (act_then (build_message L config caller (group_input request g enabled)) (\<lambda>message.
           act_then (build_message_created_event (group_conversation_id g) message) (\<lambda>event.
             write_group_message_hot L url g (group_conversation_id g) message
              (if sg_mentioned_user_ids request = None then event
               else event\<lparr>ev_mentioned_user_ids :=
                 Some (sorted_list_of_set (set (mentioned @ [id_user_id caller])))\<rparr>))))"
        proof (rule guarantees_yields_then[OF built_message(2)], rule guarantees_then[OF still_adds(2)[OF still_build(3)]],
            rule write_group_adds, elim exE)
          fix m i now and a :: script_args
          assume "m = message_of L caller (group_input request g enabled) i now" and a: "sa_message a = ap_print_message L m"
          then have "sealed L m" "of_epoch e m"
            using checked enabled(2) by (simp_all add: sealed_def of_epoch_def message_of_def group_input_def)
          with a show "?S a" by (auto simp: sealed_in_def)
        qed
      qed
    qed
  qed
qed

section \<open>Who changes a message\<close>

text \<open>What a user may do to a message at a time; a recall is late from the 121st second on.\<close>

definition may_change :: "api_lib \<Rightarrow> int \<Rightarrow> int \<Rightarrow> message_status \<Rightarrow> message_dto \<Rightarrow> bool" where
  "may_change L t user_id status m \<longleftrightarrow> md_sender_id m = show_int user_id \<and>
     (status = Recalled \<longrightarrow> (\<exists>created. ap_parse_time L (md_created_time m) = Some created \<and> t - created < 121000))"

text \<open>The identifiers that a request for \<open>i\<close> may be taken for.\<close>

definition taken_for :: "int \<Rightarrow> int \<Rightarrow> bool" where
  "taken_for i j \<longleftrightarrow> j = i \<or> js_safe_integer_max < i64_abs i \<and> \<bar>j - i\<bar> \<le> js_integer_rounding_window"

definition unchangeable :: "api_lib \<Rightarrow> int \<Rightarrow> int \<Rightarrow> message_status \<Rightarrow> int \<Rightarrow> api_world \<Rightarrow> bool" where
  "unchangeable L t user_id status i w \<longleftrightarrow> t \<le> aw_now w \<and>
     (\<forall>url j raw m. taken_for i j \<longrightarrow> hot_get (aw_now w) (aw_hot w url) (cached_message_key j) = Some raw \<longrightarrow>
        ap_read_message L raw = Some m \<longrightarrow> \<not> may_change L t user_id status m) \<and>
     (\<forall>r \<in> set (aw_messages w). taken_for i (mr_id r) \<longrightarrow> \<not> may_change L t user_id status (message_from_row L r))"

lemma window_closed:
  assumes "\<not> may_change L t u Recalled m" "md_sender_id m = show_int u" "t \<le> now"
  shows "\<not> within_recall_window L now m"
proof -
  have "whole_seconds d \<le> 120 \<longleftrightarrow> d < 121000" for d by (auto simp: whole_seconds_def)
  with assms show ?thesis by (auto simp: may_change_def within_recall_window_def split: option.split)
qed

abbreviation stays :: "api_world \<Rightarrow> api_world \<Rightarrow> bool" where
  "stays w w' \<equiv> aw_hot w' = aw_hot w"

lemma stays_any: "hot_still m \<Longrightarrow> guarantees P stays m"
  by (erule ensures_mono) simp_all

lemma yields_now: "(\<And>w. P w \<Longrightarrow> Q (aw_now w)) \<Longrightarrow> yields P stays now_ms Q"
  by (simp add: now_ms_def act_get_def)

lemma yields_hot_read:
  "(\<And>w. P w \<Longrightarrow> Q (f (aw_now w) (aw_hot w url))) \<Longrightarrow> yields P stays (hot_read url f) Q"
  unfolding hot_read_def by (rule ensures_command) (simp_all add: outcome_used_def)

lemma unchangeable_refused:
  assumes "\<not> may_change L t (id_user_id caller) status m"
  shows "guarantees (unchangeable L t (id_user_id caller) status i) stays (apply_message_status L url caller m status)"
  unfolding apply_message_status_def
proof (rule guarantees_then[OF guarantees_ret],
    rule guarantees_yields_then[OF yields_check[where Q = "\<lambda>_. md_sender_id m = show_int (id_user_id caller)"]], assumption,
    rule guarantees_yields_then[OF yields_now[where Q = "\<lambda>now. t \<le> now"]], simp add: unchangeable_def)
  fix now assume "md_sender_id m = show_int (id_user_id caller)" "t \<le> now"
  then have "\<not> (status = Recalled \<longrightarrow> within_recall_window L now m)"
    using window_closed assms by (auto simp: may_change_def)
  then show "guarantees (unchangeable L t (id_user_id caller) status i) stays
     (act_then (act_check (status = Recalled \<longrightarrow> within_recall_window L now m)
       (EBadRequest ''only messages within 2 minutes can be recalled'')) f)" for f :: "unit \<Rightarrow> message_dto api"
    by (simp add: act_check_def)
qed

lemma find_equal: "find (\<lambda>j. j = i) xs = None \<or> find (\<lambda>j. j = i) xs = Some i"
  by (induction xs) auto

lemma taken_resolved: "- (2 ^ 63) \<le> i \<Longrightarrow> i < 2 ^ 63 \<Longrightarrow> yields P stays (resolve_existing_message_id i) (\<lambda>m. \<forall>j. m = Some j \<longrightarrow> taken_for i j)"
  unfolding resolve_existing_message_id_def resolve_existing_id_def
proof (rule yields_then[where Q = "\<lambda>m. m = None \<or> m = Some i"], goal_cases)
  case 1
  show ?case
    unfolding sql_query_def
    by (rule ensures_command) (simp add: outcome_used_def, metis (no_types) find_equal fst_conv sum.inject(2), simp)
next
  case (2 exact)
  then have i: "- (2 ^ 63) \<le> i" "i < 2 ^ 63" by simp_all
  have "nearest_id i ids = Some j \<Longrightarrow> \<bar>j - i\<bar> \<le> js_integer_rounding_window" for ids j
  proof -
    assume "nearest_id i ids = Some j"
    then obtain js where js: "sort_key (\<lambda>j. (\<bar>j - i\<bar>, j)) (filter (\<lambda>j. i64_saturate (i - js_integer_rounding_window) \<le> j \<and>
        j \<le> i64_saturate (i + js_integer_rounding_window)) ids) = j # js"
      by (auto simp: nearest_id_def Let_def split: list.splits)
    then have "j \<in> set (sort_key (\<lambda>j. (\<bar>j - i\<bar>, j)) (filter (\<lambda>j. i64_saturate (i - js_integer_rounding_window) \<le> j \<and>
        j \<le> i64_saturate (i + js_integer_rounding_window)) ids))" by simp
    then show ?thesis
      using i by (auto simp: i64_saturate_def js_integer_rounding_window_def)
  qed
  then show ?case using 2(3)
    by (auto simp: taken_for_def sql_query_def outcome_used_def intro!: ensures_command)
qed

lemma mapped_ok: "map_sum id f (ok_or e x) = Inr y \<longleftrightarrow> (\<exists>z. x = Some z \<and> y = f z)"
  by (cases x) auto

lemma hot_message_fixed:
  assumes "taken_for i j"
  shows "yields (unchangeable L t u status i) stays (load_hot_message L url j)
    (\<lambda>x. \<forall>m. x = Some m \<longrightarrow> \<not> may_change L t u status m)"
proof -
  let ?P = "unchangeable L t u status i"
  let ?Q = "\<lambda>raw. \<forall>v m. raw = Some v \<longrightarrow> ap_read_message L v = Some m \<longrightarrow> \<not> may_change L t u status m"
  have peek: "yields ?P stays (hot_peek url (cached_message_key j)) ?Q"
    unfolding hot_peek_def
  proof (rule yields_then[where Q = "\<lambda>r. \<forall>raw. r = Inr raw \<longrightarrow> ?Q raw"])
    have "yields ?P stays (hot_read url (\<lambda>now s. hot_get now s (cached_message_key j))) ?Q"
      by (rule yields_hot_read) (use assms in \<open>auto simp: unchangeable_def\<close>)
    then show "yields ?P stays (act_try (hot_read url (\<lambda>now s. hot_get now s (cached_message_key j))))
        (\<lambda>r. \<forall>raw. r = Inr raw \<longrightarrow> ?Q raw)"
      by (rule ensures_try) simp
  qed (auto split: sum.split)
  show ?thesis
    unfolding load_hot_message_def by (rule yields_then[OF peek]) (auto simp: mapped_ok split: option.split)
qed

lemma stored_message_fixed:
  assumes "taken_for i j"
  shows "yields (unchangeable L t u status i) stays (load_message_from_db L j) (\<lambda>m. \<not> may_change L t u status m)"
  unfolding load_message_from_db_def
proof (rule yields_then[where Q = "\<lambda>row. \<forall>r. row = Some r \<longrightarrow> \<not> may_change L t u status (message_from_row L r)"])
  show "yields (unchangeable L t u status i) stays (sql_query (\<lambda>w. row_of mr_id j (aw_messages w)))
     (\<lambda>row. \<forall>r. row = Some r \<longrightarrow> \<not> may_change L t u status (message_from_row L r))"
    unfolding sql_query_def
    by (rule ensures_command) (use assms in \<open>auto simp: outcome_used_def unchangeable_def dest!: row_of_Some\<close>)
qed (auto simp: mapped_ok)

lemma loaded_fixed:
  assumes "taken_for i j"
  shows "yields (unchangeable L t u status i) stays (load_message_from_all_hot L urls j) (\<lambda>m. \<not> may_change L t u status m)"
proof (induction urls)
  case Nil
  show ?case by (simp only: load_message_from_all_hot.simps stored_message_fixed[OF assms])
next
  case (Cons url urls)
  show ?case
    unfolding load_message_from_all_hot.simps
    by (rule yields_then[OF hot_message_fixed[OF assms]]) (use Cons in \<open>auto split: option.split\<close>)
qed

lemma change_guard:
  assumes "- (2 ^ 63) \<le> i" "i < 2 ^ 63"
  shows "guarantees (unchangeable L t (id_user_id caller) status i) stays
    (recall_or_delete L private_urls group_urls caller i status)"
  unfolding recall_or_delete_def
proof (rule guarantees_yields_then[OF taken_resolved[OF assms]], goal_cases)
  case (1 resolved)
  then have "taken_for i (unwrap_or resolved i)" by (cases resolved) (simp_all add: taken_for_def)
  from loaded_fixed[OF this] show ?case
    by (rule guarantees_yields_then) (intro guarantees_if guarantees_then guarantees_ret unchangeable_refused)
qed

end
