(* ===== verification/Ffi_Session.thy ===== *)
theory Ffi_Session
  imports Host_Libs
begin

text \<open>
  The UniFFI session manager of \<open>im-e2ee-ffi/src/session/mod.rs\<close>: a table of ratchet states behind a
  read-write lock, each state behind a mutex. A poisoned lock is a flag of the state. Every
  operation returns its result and the manager; the creating operations are split where the code
  gives up the lock, so that their interleaving can be stated.
\<close>

section \<open>Errors\<close>

datatype session_error =
    SessionNotFound string
  | SessionAlreadyExists string
  | InvalidStateData string
  | CryptoError string

fun display_session_error :: "session_error \<Rightarrow> string" where
  "display_session_error (SessionNotFound s) = ''session not found: '' @ s"
| "display_session_error (SessionAlreadyExists s) = ''session already exists: '' @ s"
| "display_session_error (InvalidStateData s) = ''invalid session state data: '' @ s"
| "display_session_error (CryptoError s) = ''crypto error: '' @ s"

definition session_error_of :: "e2ee_error \<Rightarrow> session_error" where
  "session_error_of e =
     (case e of
        StateSerializationFailed _ \<Rightarrow> InvalidStateData (display_e2ee_error e)
      | StateDeserializationFailed \<Rightarrow> InvalidStateData (display_e2ee_error e)
      | _ \<Rightarrow> CryptoError (display_e2ee_error e))"

section \<open>Decoding\<close>

definition is_valid_x25519_keypair :: "crypto_lib \<Rightarrow> x25519_key_pair \<Rightarrow> bool" where
  "is_valid_x25519_keypair C kp \<longleftrightarrow>
     x_public C (x_priv_bytes (xkp_private_key kp)) = x_pub_bytes (xkp_public_key kp)"

definition ffi_decode_keypair :: "crypto_lib \<Rightarrow> host_lib \<Rightarrow> bytes \<Rightarrow> session_error + x25519_key_pair" where
  "ffi_decode_keypair C H bytes =
     (let legacy =
        (case bc_de_key_tuple H bytes of
           Some (priv_bytes, pub_bytes) \<Rightarrow>
             let kp = \<lparr>xkp_public_key = X25519PublicKey pub_bytes, xkp_private_key = X25519PrivateKey priv_bytes\<rparr>
             in if is_valid_x25519_keypair C kp then Inr kp
                else Inl (InvalidStateData ''keypair validation failed'')
         | None \<Rightarrow> Inl (InvalidStateData ''keypair validation failed''))
      in case bc_de_key_pair H bytes of
           Some kp \<Rightarrow> if is_valid_x25519_keypair C kp then Inr kp else legacy
         | None \<Rightarrow> legacy)"

definition ffi_decode_public_key :: "bytes \<Rightarrow> session_error + x25519_public_key" where
  "ffi_decode_public_key b =
     (if length b \<noteq> 32
      then Inl (InvalidStateData (''public key has wrong length: expected 32, got '' @ show_nat (length b)))
      else Inr (X25519PublicKey b))"

definition ffi_serialize_keypair_base64 :: "host_lib \<Rightarrow> x25519_key_pair \<Rightarrow> session_error + string" where
  "ffi_serialize_keypair_base64 H kp =
     and_then (ok_or (InvalidStateData ''failed to serialize key pair'') (bc_ser_key_pair H kp))
       (\<lambda>b. Inr (b64_encode H b))"

section \<open>Key bundles as JSON\<close>

text \<open>The text of a library's own error is not modelled: the message stops before it.\<close>

definition ffi_otk_pair_json :: "host_lib \<Rightarrow> one_time_pre_key_pair \<Rightarrow> session_error + json" where
  "ffi_otk_pair_json H pair =
     and_then (ffi_serialize_keypair_base64 H (otk_key_pair pair)) (\<lambda>key_pair_bincode.
       Inr (JObj [(''id'', JInt (int (unat (otk_id pair)))),
                  (''keyPairBincode'', JStr key_pair_bincode),
                  (''publicKey'', JStr (b64_encode H (x_pub_bytes (xkp_public_key (otk_key_pair pair)))))]))"

definition public_pre_key_json :: "host_lib \<Rightarrow> pre_key \<Rightarrow> json" where
  "public_pre_key_json H k =
     JObj [(''id'', JInt (int (unat (pk_id k)))), (''key'', JStr (b64_encode H (x_pub_bytes (pk_key k))))]"

definition public_bundle_json :: "host_lib \<Rightarrow> key_bundle \<Rightarrow> json" where
  "public_bundle_json H kb =
     JObj [(''identityKey'', JStr (b64_encode H (x_pub_bytes (pkb_identity_key (kb_bundle kb))))),
           (''signingKey'', JStr (b64_encode H (ed_pub_bytes (pkb_signing_key (kb_bundle kb))))),
           (''signedPreKey'',
              JObj [(''id'', JInt (int (unat (kb_spk_id kb)))),
                    (''key'', JStr (b64_encode H (x_pub_bytes (pkb_signed_pre_key (kb_bundle kb)))))]),
           (''signedPreKeySignature'',
              JStr (b64_encode H (sig_bytes (pkb_signed_pre_key_signature (kb_bundle kb))))),
           (''oneTimePreKeys'', JArr (map (public_pre_key_json H) (pkb_one_time_pre_keys (kb_bundle kb))))]"

definition ffi_generate_pre_key_bundle_json ::
  "crypto_lib \<Rightarrow> host_lib \<Rightarrow> bundle_draws \<Rightarrow> u32 \<Rightarrow> u32 \<Rightarrow> u32 \<Rightarrow> session_error + string"
where
  "ffi_generate_pre_key_bundle_json C H draws spk_id otk_start_id otk_count =
     (let (ik_draw, signing_draw, spk_draw, otk_draw) = draws;
          otk_batches = (if otk_count = 0 then [] else [(otk_start_id, otk_count)]) in
      and_then (map_err session_error_of
        (generate_key_bundle C ik_draw signing_draw spk_draw otk_draw spk_id otk_batches)) (\<lambda>key_bundle.
      and_then (collect_results (ffi_otk_pair_json H) (kb_one_time_pre_key_pairs key_bundle)) (\<lambda>pairs.
      and_then (ffi_serialize_keypair_base64 H (kb_identity_key_pair key_bundle)) (\<lambda>identity_pair.
      and_then (ffi_serialize_keypair_base64 H (kb_signed_pre_key_pair key_bundle)) (\<lambda>signed_pair.
        ok_or (InvalidStateData ''failed to serialize key bundle JSON'')
          (json_print H
             (JObj [(''version'', JInt 2),
                    (''identityKeyPairBincode'', JStr identity_pair),
                    (''signedPreKeyPairBincode'', JStr signed_pair),
                    (''oneTimePreKeyPairs'', JArr pairs),
                    (''publicBundle'', public_bundle_json H key_bundle)])))))))"

section \<open>The manager\<close>

record guarded_state =
  gs_poisoned :: bool
  gs_state :: ratchet_state

record session_manager =
  sm_poisoned :: bool
  sm_sessions :: "string \<Rightarrow> guarded_state option"

definition sm_new :: session_manager where
  "sm_new = \<lparr>sm_poisoned = False, sm_sessions = Map.empty\<rparr>"

definition internal_lock_error :: session_error where
  "internal_lock_error = CryptoError ''internal lock error''"

text \<open>The read-locked check and the write-locked insertion of the creating operations.\<close>

definition sm_check_absent :: "session_manager \<Rightarrow> string \<Rightarrow> string \<Rightarrow> session_error + unit" where
  "sm_check_absent m session_id message =
     (if sm_poisoned m then Inl internal_lock_error
      else if sm_sessions m session_id \<noteq> None then Inl (SessionAlreadyExists message)
      else Inr ())"

definition sm_insert_absent ::
  "session_manager \<Rightarrow> string \<Rightarrow> string \<Rightarrow> ratchet_state \<Rightarrow> (session_error + unit) \<times> session_manager"
where
  "sm_insert_absent m session_id message state =
     (if sm_poisoned m then (Inl internal_lock_error, m)
      else if sm_sessions m session_id \<noteq> None then (Inl (SessionAlreadyExists message), m)
      else (Inr (), m\<lparr>sm_sessions := (sm_sessions m)(session_id \<mapsto>
                        \<lparr>gs_poisoned = False, gs_state = state\<rparr>)\<rparr>))"

definition handshake_bytes :: "x3dh_initiate_result \<Rightarrow> bytes" where
  "handshake_bytes result =
     x_pub_bytes (xi_ephemeral_public_key result) @ be_bytes (xi_spk_id result) @
     be_bytes (unwrap_or (xi_otk_id result) no_otk)"

text \<open>What the creating operations compute between the two locks.\<close>

definition ffi_outbound_state ::
  "crypto_lib \<Rightarrow> host_lib \<Rightarrow> bytes \<Rightarrow> bytes \<Rightarrow> bytes \<Rightarrow> string \<Rightarrow>
   session_error + x3dh_initiate_result \<times> ratchet_state"
where
  "ffi_outbound_state C H ephemeral_draw ratchet_draw identity_key_pair_bincode remote_bundle_json =
     and_then (ffi_decode_keypair C H identity_key_pair_bincode) (\<lambda>ikp.
     and_then (ok_or (CryptoError ''failed to parse remote bundle JSON'') (json_fetch H remote_bundle_json)) (\<lambda>fetch.
     and_then (map_err session_error_of (x3dh_initiate C ephemeral_draw ikp fetch)) (\<lambda>result.
     and_then (map_err session_error_of
        (init_sending_chain C ratchet_draw (xi_root_key result) (xkp_public_key ikp) (pkf_identity_key fetch))) (\<lambda>state.
       Inr (result, state)))))"

definition ffi_inbound_state ::
  "crypto_lib \<Rightarrow> host_lib \<Rightarrow> bytes \<Rightarrow> bytes \<Rightarrow> bytes \<Rightarrow> bytes option \<Rightarrow> bytes \<Rightarrow> bytes \<Rightarrow>
   session_error + ratchet_state"
where
  "ffi_inbound_state C H ratchet_draw identity_bincode signed_pre_key_bincode otk_bincode
     remote_identity_bytes remote_ephemeral_bytes =
     and_then (ffi_decode_keypair C H identity_bincode) (\<lambda>ikp.
     and_then (ffi_decode_keypair C H signed_pre_key_bincode) (\<lambda>spkp.
     and_then (case otk_bincode of
                 None \<Rightarrow> Inr None
               | Some b \<Rightarrow> and_then (ffi_decode_keypair C H b) (\<lambda>kp. Inr (Some kp))) (\<lambda>otk_pair.
     and_then (ffi_decode_public_key remote_identity_bytes) (\<lambda>remote_ik.
     and_then (ffi_decode_public_key remote_ephemeral_bytes) (\<lambda>remote_ek.
     and_then (map_err session_error_of
        (x3dh_respond_with_raw_otk C ikp spkp otk_pair remote_ik remote_ek)) (\<lambda>result.
       map_err session_error_of
         (init_receiving_chain C ratchet_draw (xr_root_key result) (xkp_public_key ikp) remote_ik)))))))"

definition ffi_create_outbound_session ::
  "crypto_lib \<Rightarrow> host_lib \<Rightarrow> bytes \<Rightarrow> bytes \<Rightarrow> session_manager \<Rightarrow> string \<Rightarrow> bytes \<Rightarrow> string \<Rightarrow>
   (session_error + bytes) \<times> session_manager"
where
  "ffi_create_outbound_session C H ephemeral_draw ratchet_draw m session_id identity_bincode remote_bundle_json =
     (case sm_check_absent m session_id session_id of
        Inl e \<Rightarrow> (Inl e, m)
      | Inr _ \<Rightarrow>
          (case ffi_outbound_state C H ephemeral_draw ratchet_draw identity_bincode remote_bundle_json of
             Inl e \<Rightarrow> (Inl e, m)
           | Inr (result, state) \<Rightarrow>
               (case sm_insert_absent m session_id session_id state of
                  (Inl e, m) \<Rightarrow> (Inl e, m)
                | (Inr _, m) \<Rightarrow> (Inr (handshake_bytes result), m))))"

definition ffi_create_inbound_session ::
  "crypto_lib \<Rightarrow> host_lib \<Rightarrow> bytes \<Rightarrow> session_manager \<Rightarrow> string \<Rightarrow> bytes \<Rightarrow> bytes \<Rightarrow> bytes option \<Rightarrow>
   bytes \<Rightarrow> bytes \<Rightarrow> (session_error + unit) \<times> session_manager"
where
  "ffi_create_inbound_session C H ratchet_draw m session_id identity_bincode signed_pre_key_bincode
     otk_bincode remote_identity_bytes remote_ephemeral_bytes =
     (case sm_check_absent m session_id session_id of
        Inl e \<Rightarrow> (Inl e, m)
      | Inr _ \<Rightarrow>
          (case ffi_inbound_state C H ratchet_draw identity_bincode signed_pre_key_bincode otk_bincode
                  remote_identity_bytes remote_ephemeral_bytes of
             Inl e \<Rightarrow> (Inl e, m)
           | Inr state \<Rightarrow> sm_insert_absent m session_id session_id state))"

section \<open>Using a session\<close>

text \<open>The read lock, the lookup and the mutex, in the order the code takes them.\<close>

definition sm_lock :: "session_manager \<Rightarrow> string \<Rightarrow> session_error + ratchet_state" where
  "sm_lock m session_id =
     (if sm_poisoned m then Inl internal_lock_error
      else case sm_sessions m session_id of
             None \<Rightarrow> Inl (SessionNotFound session_id)
           | Some g \<Rightarrow> if gs_poisoned g then Inl internal_lock_error else Inr (gs_state g))"

definition sm_write_back :: "session_manager \<Rightarrow> string \<Rightarrow> ratchet_state \<Rightarrow> session_manager" where
  "sm_write_back m session_id state =
     m\<lparr>sm_sessions := (sm_sessions m)(session_id \<mapsto> \<lparr>gs_poisoned = False, gs_state = state\<rparr>)\<rparr>"

definition ffi_encrypt ::
  "crypto_lib \<Rightarrow> bytes option \<Rightarrow> session_manager \<Rightarrow> string \<Rightarrow> bytes \<Rightarrow>
   (session_error + bytes) \<times> session_manager"
where
  "ffi_encrypt C nonce_draw m session_id plaintext =
     (case sm_lock m session_id of
        Inl e \<Rightarrow> (Inl e, m)
      | Inr state \<Rightarrow>
          (case ratchet_encrypt C nonce_draw state plaintext of
             (Inl e, state) \<Rightarrow> (Inl (session_error_of e), sm_write_back m session_id state)
           | (Inr (header, ciphertext), state) \<Rightarrow>
               (Inr (be_bytes 52 @ encode_ratchet_header header @ ciphertext),
                sm_write_back m session_id state)))"

definition ffi_parse_wire :: "bytes \<Rightarrow> session_error + ratchet_header \<times> bytes" where
  "ffi_parse_wire encrypted =
     (if length encrypted < 4
      then Inl (CryptoError ''encrypted message too short: missing header length prefix'')
      else
        let header_len = unat (of_be_bytes (take 4 encrypted)) in
        if header_len \<noteq> 52
        then Inl (CryptoError (''invalid header length: expected 52, got '' @ show_nat header_len))
        else if length encrypted < 4 + header_len
        then Inl (CryptoError ''encrypted message truncated: incomplete header'')
        else
          and_then (map_err (\<lambda>e. CryptoError (''failed to decode ratchet header: '' @ display_e2ee_error e))
            (decode_ratchet_header (take header_len (drop 4 encrypted)))) (\<lambda>header.
            Inr (header, drop (4 + header_len) encrypted)))"

definition ffi_decrypt ::
  "crypto_lib \<Rightarrow> bytes \<Rightarrow> session_manager \<Rightarrow> string \<Rightarrow> bytes \<Rightarrow>
   (session_error + bytes) \<times> session_manager"
where
  "ffi_decrypt C draw m session_id encrypted =
     (case ffi_parse_wire encrypted of
        Inl e \<Rightarrow> (Inl e, m)
      | Inr (header, ciphertext) \<Rightarrow>
          (case sm_lock m session_id of
             Inl e \<Rightarrow> (Inl e, m)
           | Inr state \<Rightarrow>
               let (r, state) = ratchet_decrypt C draw state header ciphertext
               in (map_err session_error_of r, sm_write_back m session_id state)))"

definition ffi_export_session :: "host_lib \<Rightarrow> session_manager \<Rightarrow> string \<Rightarrow> session_error + bytes" where
  "ffi_export_session H m session_id =
     and_then (sm_lock m session_id) (\<lambda>state. map_err session_error_of (try_export_state (bc_ser_state H) state))"

definition restore_exists_message :: string where
  "restore_exists_message = ''session already exists; remove it before restore''"

definition ffi_restore_session ::
  "host_lib \<Rightarrow> session_manager \<Rightarrow> string \<Rightarrow> bytes \<Rightarrow> (session_error + unit) \<times> session_manager"
where
  "ffi_restore_session H m session_id state_bincode =
     (case sm_check_absent m session_id restore_exists_message of
        Inl e \<Rightarrow> (Inl e, m)
      | Inr _ \<Rightarrow>
          (case restore_state (bc_de_state H) state_bincode of
             Inl e \<Rightarrow> (Inl (session_error_of e), m)
           | Inr state \<Rightarrow> sm_insert_absent m session_id restore_exists_message state))"

definition ffi_remove_session :: "session_manager \<Rightarrow> string \<Rightarrow> session_manager" where
  "ffi_remove_session m session_id =
     (if sm_poisoned m then m
      else m\<lparr>sm_sessions := (sm_sessions m)(session_id := None)\<rparr>)"

section \<open>Runs of operations\<close>

datatype ffi_op =
    FCreateOutbound (ffi_target: string) bytes bytes bytes string
  | FCreateInbound (ffi_target: string) bytes bytes bytes "bytes option" bytes bytes
  | FEncrypt (ffi_target: string) "bytes option" bytes
  | FDecrypt (ffi_target: string) bytes bytes
  | FExport (ffi_target: string)
  | FRestore (ffi_target: string) bytes
  | FRemove (ffi_target: string)

text \<open>A result is an error, some bytes, or nothing.\<close>

fun ffi_step ::
  "crypto_lib \<Rightarrow> host_lib \<Rightarrow> ffi_op \<Rightarrow> session_manager \<Rightarrow> (session_error + bytes) \<times> session_manager"
where
  "ffi_step C H (FCreateOutbound k ed rd ik bundle) m = ffi_create_outbound_session C H ed rd m k ik bundle"
| "ffi_step C H (FCreateInbound k rd ik spk otk rik rek) m =
     map_prod (map_sum id (\<lambda>_. [])) id (ffi_create_inbound_session C H rd m k ik spk otk rik rek)"
| "ffi_step C H (FEncrypt k nonce pt) m = ffi_encrypt C nonce m k pt"
| "ffi_step C H (FDecrypt k draw wire) m = ffi_decrypt C draw m k wire"
| "ffi_step C H (FExport k) m = (ffi_export_session H m k, m)"
| "ffi_step C H (FRestore k b) m = map_prod (map_sum id (\<lambda>_. [])) id (ffi_restore_session H m k b)"
| "ffi_step C H (FRemove k) m = (Inr [], ffi_remove_session m k)"

fun ffi_run :: "crypto_lib \<Rightarrow> host_lib \<Rightarrow> ffi_op list \<Rightarrow> session_manager \<Rightarrow> session_manager" where
  "ffi_run C H [] m = m"
| "ffi_run C H (op # ops) m = ffi_run C H ops (snd (ffi_step C H op m))"

definition ffi_view :: "session_manager \<Rightarrow> string \<Rightarrow> (bool \<times> guarded_state option) option" where
  "ffi_view m k = Some (sm_poisoned m, sm_sessions m k)"

lemmas ffi_op_defs =
  ffi_create_outbound_session_def ffi_create_inbound_session_def ffi_encrypt_def ffi_decrypt_def
  ffi_export_session_def ffi_restore_session_def ffi_remove_session_def sm_check_absent_def
  sm_insert_absent_def sm_write_back_def

text \<open>Reading the session is all an operation needs of the table.\<close>

lemma sm_lock_view: "ffi_view m k = ffi_view m' k \<Longrightarrow> sm_lock m k = sm_lock m' k"
  by (simp add: ffi_view_def sm_lock_def)

lemma ffi_step_view:
  "ffi_view (snd (ffi_step C H op m)) k =
     (if k = ffi_target op then ffi_view (snd (ffi_step C H op m)) (ffi_target op) else ffi_view m k)"
  by (cases op)
    (auto simp: ffi_op_defs ffi_view_def Let_def split: sum.split prod.split)

lemma ffi_step_local:
  assumes "ffi_view m (ffi_target op) = ffi_view m' (ffi_target op)"
  shows "fst (ffi_step C H op m) = fst (ffi_step C H op m') \<and>
    ffi_view (snd (ffi_step C H op m)) (ffi_target op) = ffi_view (snd (ffi_step C H op m')) (ffi_target op)"
  using assms sm_lock_view[OF assms]
  by (cases op)
    (auto simp: ffi_op_defs ffi_view_def Let_def split: sum.split prod.split)

interpretation ffi_host:
  local_session_host "ffi_step C H" ffi_target ffi_view "ffi_run C H" for C H
proof
  show "ffi_view (snd (ffi_step C H op m)) k = ffi_view m k" if "k \<noteq> ffi_target op" for k op m
    using ffi_step_view[of C H op m k] that by simp
qed (simp_all, rule ffi_step_local)

section \<open>Lemmas\<close>

text \<open>The wire format.\<close>

lemma ffi_parse_wire_frame: "wf_header h \<Longrightarrow> ffi_parse_wire (wire_frame h ct) = Inr (h, ct)"
  by (simp add: ffi_parse_wire_def wire_frame_parts Let_def)

lemma ffi_parse_wire_Inr:
  assumes "ffi_parse_wire w = Inr (h, ct)"
  shows "w = wire_frame h ct \<and> wf_header h"
proof -
  from assms have "56 \<le> length w" "unat (of_be_bytes (take 4 w)) = 52"
    "decode_ratchet_header (take 52 (drop 4 w)) = Inr h" "ct = drop 56 w"
    by (auto simp: ffi_parse_wire_def Let_def and_then_Inr_iff split: if_splits)
  with wire_frame_unique[of w h] show ?thesis by simp
qed

lemma ffi_parse_wire_ok_iff:
  "is_ok (ffi_parse_wire w) \<longleftrightarrow> 56 \<le> length w \<and> unat (of_be_bytes (take 4 w)) = 52"
proof -
  have "is_ok (and_then (map_err f (decode_ratchet_header (take 52 (drop 4 w)))) (\<lambda>h. Inr (h, drop 56 w)))"
    if "56 \<le> length w" for f :: "e2ee_error \<Rightarrow> session_error"
    using that header_codec.dec_iff[of "take 52 (drop 4 w)"]
    by (cases "decode_ratchet_header (take 52 (drop 4 w))") simp_all
  then show ?thesis by (auto simp: ffi_parse_wire_def Let_def)
qed

text \<open>Key pairs.\<close>

lemma key_pair_collapse [simp]:
  "\<lparr>xkp_public_key = xkp_public_key kp, xkp_private_key = xkp_private_key kp\<rparr> = (kp :: x25519_key_pair)"
  by (cases kp) simp

lemma valid_iff_derived: "is_valid_x25519_keypair C kp \<longleftrightarrow> derived_key_pair C kp"
  by (auto simp: is_valid_x25519_keypair_def derived_key_pair_def x25519_public_key.expand)

lemma ffi_decode_keypair_valid: "ffi_decode_keypair C H b = Inr kp \<Longrightarrow> derived_key_pair C kp"
  unfolding valid_iff_derived[symmetric]
  by (auto simp: ffi_decode_keypair_def Let_def split: option.splits if_splits)

lemma ffi_decode_keypair_core:
  assumes "bincode_key_pairs H" "wf_key_pair kp" "derived_key_pair C kp"
  shows "\<exists>b. bc_ser_key_pair H kp = Some b \<and> ffi_decode_keypair C H b = Inr kp"
  using assms
  by (auto simp: bincode_key_pairs_def ffi_decode_keypair_def wf_key_pair_def valid_iff_derived)

lemma ffi_decode_keypair_legacy:
  assumes "bincode_key_pairs H" "wf_key_pair kp" "derived_key_pair C kp"
    and "x_public C (x_pub_bytes (xkp_public_key kp)) \<noteq> x_priv_bytes (xkp_private_key kp)"
  shows "ffi_decode_keypair C H (x_priv_bytes (xkp_private_key kp) @ x_pub_bytes (xkp_public_key kp)) = Inr kp"
  using assms
  by (simp add: bincode_key_pairs_def ffi_decode_keypair_def wf_key_pair_def valid_iff_derived[symmetric])
    (simp add: is_valid_x25519_keypair_def)

text \<open>Handshakes.\<close>

lemma handshake_bytes_inj:
  assumes "wf_pub (xi_ephemeral_public_key r)" "wf_pub (xi_ephemeral_public_key r')"
  shows "handshake_bytes r = handshake_bytes r' \<longleftrightarrow>
    xi_ephemeral_public_key r = xi_ephemeral_public_key r' \<and> xi_spk_id r = xi_spk_id r' \<and>
    unwrap_or (xi_otk_id r) no_otk = unwrap_or (xi_otk_id r') no_otk"
  using assms by (auto simp: handshake_bytes_def x25519_public_key.expand)

text \<open>The creating operations.\<close>

lemma sm_insert_absent_existing:
  "sm_sessions m k = Some g \<Longrightarrow> \<exists>e. sm_insert_absent m k msg state = (Inl e, m)"
  by (simp add: sm_insert_absent_def)

lemma ffi_create_existing:
  assumes "\<not> sm_poisoned m" "sm_sessions m k = Some g"
  shows "ffi_create_outbound_session C H ed rd m k ik bundle = (Inl (SessionAlreadyExists k), m)"
    "ffi_create_inbound_session C H rd m k ik spk otk rik rek = (Inl (SessionAlreadyExists k), m)"
    "ffi_restore_session H m k b = (Inl (SessionAlreadyExists restore_exists_message), m)"
  using assms
  by (simp_all add: ffi_create_outbound_session_def ffi_create_inbound_session_def ffi_restore_session_def
      sm_check_absent_def)

lemma ffi_create_error:
  "ffi_create_outbound_session C H ed rd m k ik bundle = (Inl e, m') \<Longrightarrow> m' = m"
  "ffi_create_inbound_session C H rd m k ik spk otk rik rek = (Inl e, m') \<Longrightarrow> m' = m"
  "ffi_restore_session H m k b = (Inl e, m') \<Longrightarrow> m' = m"
  by (auto simp: ffi_op_defs split: sum.splits if_splits prod.splits)

section \<open>Concurrent creations\<close>

text \<open>
  Threads that create a session check the table, give up the lock, compute a state and come back to
  insert it; threads that use or remove a session run in between. A trace lists the insertions with
  their outcome.
\<close>

datatype table_event =
    Inserted string bool
  | Used string
  | Removed string

inductive table_step :: "session_manager \<Rightarrow> table_event \<Rightarrow> session_manager \<Rightarrow> bool" where
  insertion: "sm_insert_absent m k msg state = (r, m') \<Longrightarrow> table_step m (Inserted k (is_ok r)) m'"
| use: "sm_lock m k = Inr state \<Longrightarrow> table_step m (Used k) (sm_write_back m k state')"
| removal: "table_step m (Removed k) (ffi_remove_session m k)"

inductive table_trace :: "session_manager \<Rightarrow> table_event list \<Rightarrow> session_manager \<Rightarrow> bool" where
  stop: "table_trace m [] m"
| more: "table_step m e m' \<Longrightarrow> table_trace m' es m'' \<Longrightarrow> table_trace m (e # es) m''"

inductive_cases table_step_cases: "table_step m e m'"
inductive_simps table_trace_simps [simp]: "table_trace m [] m'" "table_trace m (e # es) m'"

lemma table_step_present:
  assumes "table_step m e m'" "sm_sessions m k \<noteq> None" "e \<noteq> Removed k"
  shows "sm_sessions m' k \<noteq> None \<and> e \<noteq> Inserted k True"
  using assms
  by (elim table_step_cases)
    (auto simp: sm_insert_absent_def sm_write_back_def ffi_remove_session_def split: if_splits)

lemma table_step_inserted:
  assumes "table_step m (Inserted k True) m'"
  shows "sm_sessions m k = None \<and> sm_sessions m' k \<noteq> None"
  using assms by (elim table_step_cases) (auto simp: sm_insert_absent_def split: if_splits)

lemma table_trace_present:
  assumes "table_trace m es m'" "sm_sessions m k \<noteq> None" "Removed k \<notin> set es"
  shows "Inserted k True \<notin> set es"
  using assms
proof (induction es arbitrary: m)
  case Nil
  then show ?case by simp
next
  case (Cons e es)
  then obtain m1 where step: "table_step m e m1" and rest: "table_trace m1 es m'" by auto
  from table_step_present[OF step Cons.prems(2)] Cons.prems(3) have "sm_sessions m1 k \<noteq> None" "e \<noteq> Inserted k True"
    by auto
  with Cons.IH[OF rest] Cons.prems(3) show ?case by simp
qed

lemma table_trace_once:
  assumes "table_trace m es m'" "Removed k \<notin> set es"
  shows "count_list es (Inserted k True) \<le> 1"
  using assms
proof (induction es arbitrary: m)
  case Nil
  then show ?case by simp
next
  case (Cons e es)
  then obtain m1 where step: "table_step m e m1" and rest: "table_trace m1 es m'" by auto
  show ?case
  proof (cases "e = Inserted k True")
    case True
    with step table_step_inserted have "sm_sessions m1 k \<noteq> None" by blast
    from table_trace_present[OF rest this] Cons.prems(2) True show ?thesis by simp
  next
    case False
    with Cons.IH[OF rest] Cons.prems(2) show ?thesis by simp
  qed
qed

end
