(* ===== verification/Api_Message_Properties.thy ===== *)
theory Api_Message_Properties
  imports Api_Message_Rules Api_Samples Ffi_Session
begin

text \<open>
  What the message service guarantees: numbers and repeated messages on the servers for messages, what may
  enter an encrypted conversation, who changes a message, what the history shows; and where the caches and
  the list of conversations go wrong.
\<close>

section \<open>Undisturbed runs on a server for messages\<close>

lemma hot_kept [simp]: "w\<lparr>aw_hot := aw_hot w\<rparr> = w"
  by (cases w) simp

lemma quiet_hot [simp]: "quiet (w\<lparr>aw_hot := h\<rparr>) = quiet w"
  by (simp add: quiet_def)

lemma run_hot_command:
  "quiet w \<Longrightarrow> run (hot_command url f) w =
    (fst (f (aw_now w) (aw_hot w url)), w\<lparr>aw_hot := (aw_hot w)(url := snd (f (aw_now w) (aw_hot w url)))\<rparr>)"
  by (simp add: hot_command_def run_command_quiet case_prod_beta)

lemma run_hot_read: "quiet w \<Longrightarrow> run (hot_read url f) w = (Inr (f (aw_now w) (aw_hot w url)), w)"
  by (simp add: hot_read_def run_command_quiet)

lemma run_hot_write:
  "quiet w \<Longrightarrow> run (hot_write url f) w = (Inr (), w\<lparr>aw_hot := (aw_hot w)(url := f (aw_now w) (aw_hot w url))\<rparr>)"
  by (simp add: hot_write_def run_hot_command)

section \<open>Repeated messages\<close>

text \<open>A message whose identifiers are numbers, as \<open>build_message\<close> makes it.\<close>

definition private_ids :: "message_dto \<Rightarrow> int \<Rightarrow> int \<Rightarrow> int \<Rightarrow> bool" where
  "private_ids m i sender receiver \<longleftrightarrow> md_id m = show_int i \<and> md_sender_id m = show_int sender \<and>
     md_receiver_id m = Some (show_int receiver) \<and>
     (\<forall>n \<in> {i, sender, receiver}. - (2 ^ 63) \<le> n \<and> n < 2 ^ 63)"

lemma run_write_private:
  assumes "quiet w" "private_ids m i u v"
  shows "run (write_private_message_hot L url c m event) w =
    (let (r, s) = private_script (script_args_of L i u c m event (aw_now w)) u v (aw_now w) (aw_hot w url)
     in (and_then r (\<lambda>t. ok_or ESerde (ap_read_message L t)), w\<lparr>aw_hot := (aw_hot w)(url := s)\<rparr>))"
proof -
  have parse: "parse_i64 (md_id m) = Some i" "parse_i64 (md_sender_id m) = Some u" "md_receiver_id m = Some (show_int v)"
    "parse_i64 (show_int v) = Some v"
    using assms(2) by (auto simp: private_ids_def parse_i64_show)
  show ?thesis
    using assms(1)
    by (simp add: write_private_message_hot_def parse run_then run_now run_hot_command Let_def case_prod_beta
        split: sum.split)
qed

lemma args_ok_of: "private_ids m i u v \<Longrightarrow> CHR '':'' \<notin> set c \<Longrightarrow> args_ok (script_args_of L i u c m event t)"
  by (auto simp: args_ok_def script_args_of_def private_ids_def client_key_of_def anonymous_key_def split: option.split)

text \<open>
  C10: A client that sends a private message again under the same client identifier, within seven days, whatever
  else happened on the server meanwhile, is answered with the message as the server has it now, and nothing
  is written: no second message, no second event, no second unread message.
\<close>

theorem retry_answered:
  assumes quiet: "quiet w1" "quiet w3"
    and ids: "private_ids m1 i1 sender receiver" "private_ids m2 i2 sender receiver2"
    and same: "md_client_message_id m1 = Some client_id" "md_client_message_id m2 = Some client_id"
    and conversation: "CHR '':'' \<notin> set c"
    and first: "existing_message (aw_now w1) (client_message_key sender c client_id) (aw_hot w1 url) = None"
    and sent: "snd (run (write_private_message_hot L url c m1 e1) w1) = w2"
    and run: "hot_run (aw_now w2, aw_hot w2 url) tr (aw_now w3, aw_hot w3 url)"
    and soon: "aw_now w3 < aw_now w1 + int message_ttl_seconds * 1000"
  shows "\<exists>kept. hot_get (aw_now w3) (aw_hot w3 url) (cached_message_key i1) = Some kept \<and>
    run (write_private_message_hot L url c m2 e2) w3 = (ok_or ESerde (ap_read_message L kept), w3)"
proof -
  let ?a = "script_args_of L i1 sender c m1 e1 (aw_now w1)"
  have key: "sa_client_key (script_args_of L i sender c m e t) = client_message_key sender c client_id"
    if "md_client_message_id m = Some client_id" for i m e t
    using that by (simp add: script_args_of_def client_key_of_def)
  have a: "args_ok ?a" using ids(1) conversation by (rule args_ok_of)
  have new: "existing_message (aw_now w1) (sa_client_key ?a) (aw_hot w1 url) = None" using first key[OF same(1)] by simp
  have w2: "aw_now w2 = aw_now w1" "aw_hot w2 url = snd (private_script ?a sender receiver (aw_now w1) (aw_hot w1 url))"
    using sent run_write_private[OF quiet(1) ids(1), of L url c e1] by (auto simp: Let_def case_prod_beta)
  have "message_kept (aw_now w1) ?a (aw_hot w2 url)"
    using written_is_kept[OF a] private_script_texts[OF new] unfolding w2(2) by metis
  from message_kept_run[OF a run[unfolded w2(1)] this soon] have kept: "message_kept (aw_now w1) ?a (aw_hot w3 url)" .
  from message_kept_found[OF kept a soon] obtain t where
    t: "existing_message (aw_now w3) (client_message_key sender c client_id) (aw_hot w3 url) = Some t"
      "hot_get (aw_now w3) (aw_hot w3 url) (cached_message_key i1) = Some t"
    unfolding key[OF same(1)] by (auto simp: script_args_of_def)
  show ?thesis
    using t(2) run_write_private[OF quiet(2) ids(2), of L url c e2]
      private_script_found[of _ "script_args_of L i2 sender c m2 e2 (aw_now w3)"] t(1) key[OF same(2)]
    by (auto simp: Let_def)
qed

definition sample_input :: build_message_input where
  "sample_input = \<lparr>bi_receiver_id = Some 2, bi_group_id = None, bi_client_message_id = Some ''c1'', bi_message_type = None,
     bi_content = Some ''hi'', bi_media_url = None, bi_media_size = None, bi_media_name = None, bi_thumbnail_url = None,
     bi_duration = None, bi_encrypted = None, bi_e2ee_header = None, bi_e2ee_device_id = None,
     bi_e2ee_sender_identity_key = None, bi_e2ee_ephemeral_key = None, bi_e2ee_envelope = None\<rparr>"

definition alice :: identity where
  "alice = \<lparr>id_user_id = 1, id_username = ''alice''\<rparr>"

definition sample_sent :: "int \<Rightarrow> message_dto" where
  "sample_sent i = message_of sample_api alice sample_input i 1700000000000"

lemma sample_sent_ids: "- (2 ^ 63) \<le> i \<Longrightarrow> i < 2 ^ 63 \<Longrightarrow> private_ids (sample_sent i) i 1 2"
  "md_client_message_id (sample_sent i) = Some ''c1''"
proof -
  have "trim ''c1'' = ''c1''" by (rule trim_trimmed) (simp add: trimmed_def white_spaces_def)
  then show "md_client_message_id (sample_sent i) = Some ''c1''"
    by (simp add: sample_sent_def message_of_def sample_input_def normalize_text_def)
qed (simp add: sample_sent_def message_of_def sample_input_def alice_def private_ids_def)

abbreviation sample_event_of :: "string \<Rightarrow> im_event" where
  "sample_event_of e \<equiv> im_event_new e 1700000000000 MessageCreated ''p_1_2''"

theorem retry_answered_witness:
  "\<exists>w. \<exists>kept. hot_get (aw_now w) (aw_hot w ''r'') (cached_message_key 7) = Some kept \<and>
    run (write_private_message_hot sample_api ''r'' ''p_1_2'' (sample_sent 8) (sample_event_of ''e2'')) w =
      (ok_or ESerde (ap_read_message sample_api kept), w)"
proof -
  define w1 where "w1 = empty_world 1700000000000"
  define w2 where "w2 = snd (run (write_private_message_hot sample_api ''r'' ''p_1_2'' (sample_sent 7) (sample_event_of ''e1'')) w1)"
  have q: "quiet w1" by (simp add: quiet_def w1_def empty_world_def)
  have new: "existing_message (aw_now w1) (client_message_key 1 ''p_1_2'' ''c1'') (aw_hot w1 ''r'') = None"
    by (simp add: existing_message_def w1_def empty_world_def empty_hot_def hot_get_def)
  have ids: "private_ids (sample_sent 7) 7 1 2" "private_ids (sample_sent 8) 8 1 2" by (simp_all add: sample_sent_ids)
  have w2: "quiet w2" "aw_now w2 = aw_now w1"
    using q by (simp_all add: w2_def run_write_private[OF q ids(1)] Let_def case_prod_beta)
  show ?thesis
    by (rule exI[of _ w2])
      (rule retry_answered[OF q w2(1) ids sample_sent_ids(2) sample_sent_ids(2) _ new w2_def[symmetric] hot_run.start],
        simp_all add: w2(2) message_ttl_seconds_def)
qed




section \<open>Encrypted conversations\<close>


text \<open>
  The api-server takes an envelope of the current version exactly when the session manager of the clients
  can split its wire into a header and a ciphertext, and the sender names a device.
\<close>

theorem envelope_format_agrees:
  "is_ok (validate_e2ee_envelope_format L e) \<longleftrightarrow>
     ee_version e = 2 \<and> ee_alg e = ''rust-x25519-x3dh-dr-v1'' \<and> trim (ee_sender_device_id e) \<noteq> [] \<and>
     (\<exists>wire bytes. ee_wire e = Some wire \<and> decode_base64url L wire = Inr bytes \<and> is_ok (ffi_parse_wire bytes))"
proof (cases "ee_wire e")
  case (Some wire)
  show ?thesis
  proof (cases "decode_base64url L wire")
    case (Inr b)
    then show ?thesis
      by (auto simp: validate_e2ee_envelope_format_def Some ffi_parse_wire_ok_iff)
  qed (auto simp: validate_e2ee_envelope_format_def Some)
qed (auto simp: validate_e2ee_envelope_format_def)

section \<open>Changes of a message\<close>



section \<open>Counters\<close>

lemma those_map: "those (map f xs) = (if \<forall>x \<in> set xs. f x \<noteq> None then Some (map (\<lambda>x. the (f x)) xs) else None)"
  by (induction xs) (auto split: option.split)

lemma entries_map: "entries (map (\<lambda>c. (c, f c)) cs) = (\<lambda>c. if c \<in> set cs then Some (f c) else None)"
proof -
  have "fold (\<lambda>(k, v) m. m(k := Some v)) (map (\<lambda>c. (c, f c)) cs) m = (\<lambda>c. if c \<in> set cs then Some (f c) else m c)" for m
    by (induction cs arbitrary: m) (auto simp: fun_eq_iff)
  then show ?thesis by (simp add: entries_def)
qed

definition unread_field :: "api_world \<Rightarrow> string \<Rightarrow> int \<Rightarrow> string \<Rightarrow> int option" where
  "unread_field w url user_id = map_of (hot_fields (aw_now w) (aw_hot w url) (user_unread_key user_id))"

text \<open>
  The unread messages of a list of conversations are read all or not at all: when one of the conversations
  has no counter, none of the others' counters is shown.
\<close>

theorem unread_all_or_nothing:
  assumes "quiet w"
  shows "run (batch_load_unread_counts url user_id cs) w =
    (Inr (\<lambda>c. if c \<in> set cs \<and> (\<forall>d \<in> set cs. unread_field w url user_id d \<noteq> None)
       then unread_field w url user_id c else None), w)"
proof (cases "cs = []")
  case False
  let ?f = "unread_field w url user_id"
  have "unread_fields (aw_now w) (aw_hot w url) (user_unread_key user_id) cs =
      (if \<forall>d \<in> set cs. ?f d \<noteq> None then Some (map (\<lambda>c. the (?f c)) cs) else None)"
    by (simp add: unread_fields_def those_map unread_field_def)
  moreover have "entries (zip cs (map (\<lambda>c. the (?f c)) cs)) = (\<lambda>c. if c \<in> set cs then Some (the (?f c)) else None)"
    using entries_map[of "\<lambda>c. the (?f c)" cs] by (simp add: zip_map2 zip_same_conv_map comp_def)
  ultimately show ?thesis
    using assms False
    by (auto simp: batch_load_unread_counts_def run_then run_try run_hot_read fun_eq_iff entries_def)
qed (simp add: batch_load_unread_counts_def)

text \<open>Alice has read nothing of what Carol wrote, and has only written to Bob.\<close>

definition unread_world :: api_world where
  "unread_world = (empty_world 1700000000000)\<lparr>aw_hot := (\<lambda>_. empty_hot\<lparr>hs_hash :=
     (\<lambda>k. if k = user_unread_key 1 then Some ([(''p_1_3'', 5)], None) else None)\<rparr>)\<rparr>"

theorem unread_all_or_nothing_witness:
  "fst (run (batch_load_unread_counts ''r'' 1 [''p_1_3'']) unread_world) = Inr (\<lambda>c. if c = ''p_1_3'' then Some 5 else None) \<and>
   fst (run (batch_load_unread_counts ''r'' 1 [''p_1_2'', ''p_1_3'']) unread_world) = Inr (\<lambda>c. None)"
proof -
  have q: "quiet unread_world" by (simp add: quiet_def unread_world_def empty_world_def)
  have f: "unread_field unread_world ''r'' 1 c = (if c = ''p_1_3'' then Some 5 else None)" for c
    by (simp add: unread_field_def unread_world_def empty_world_def hot_fields_def)
  show ?thesis unfolding unread_all_or_nothing[OF q] f by (auto simp: fun_eq_iff)
qed

section \<open>Messages in the database\<close>

lemma row_codes: "row_message_type (message_type_db_code t) = message_type_str t" "row_status (message_status_db_code s) = message_status_str s"
  by (cases t; simp add: row_message_type_def) (cases s; simp add: row_status_def)

definition in_i64 :: "int \<Rightarrow> bool" where
  "in_i64 i \<longleftrightarrow> - (2 ^ 63) \<le> i \<and> i < 2 ^ 63"

lemma parse_printed [simp]: "in_i64 i \<Longrightarrow> parse_i64_trimmed (show_int i) = Some i" "in_i64 i \<Longrightarrow> parse_i64 (show_int i) = Some i"
  by (simp_all add: in_i64_def parse_i64_trimmed_def parse_i64_show plain_trimmed)

lemma column_kept: "(\<And>n s s'. ap_varchar L n s = Some s' \<Longrightarrow> s' = s) \<Longrightarrow> column (ap_varchar L n) m = Some m' \<Longrightarrow> m' = m"
  by (auto simp: column_def split: option.splits)

lemma stored_columns:
  assumes "stored_message L row = Some row'" "\<And>n s s'. ap_varchar L n s = Some s' \<Longrightarrow> s' = s"
  shows "row' = row\<lparr>mr_created_time := sql_datetime (mr_created_time row), mr_updated_time := sql_datetime (mr_updated_time row)\<rparr>"
proof -
  have kept: "\<And>n m m'. column (ap_varchar L n) m = Some m' \<Longrightarrow> m' = m" using column_kept[of L] assms(2) by blast
  obtain a b c d e where x: "column (ap_varchar L 64) (mr_client_message_id row) = Some a"
    "column (ap_varchar L 500) (mr_media_url row) = Some b" "column (ap_varchar L 255) (mr_media_name row) = Some c"
    "column (ap_varchar L 500) (mr_thumbnail_url row) = Some d" "column (ap_varchar L 64) (mr_e2ee_device_id row) = Some e"
    and row': "row' = row\<lparr>mr_client_message_id := a, mr_media_url := b, mr_media_name := c, mr_thumbnail_url := d,
      mr_e2ee_device_id := e, mr_created_time := sql_datetime (mr_created_time row),
      mr_updated_time := sql_datetime (mr_updated_time row)\<rparr>"
    using assms(1) unfolding stored_message_def by (auto simp: bind_eq_Some_conv split: if_splits)
  show ?thesis unfolding row' x[THEN kept] by (cases row) simp
qed

text \<open>What a message says when it is read back from the database.\<close>

definition read_back :: "api_lib \<Rightarrow> int \<Rightarrow> message_dto \<Rightarrow> message_dto" where
  "read_back L created m = m\<lparr>md_sender_name := None, md_created_time := ap_rfc3339 L (sql_datetime created),
     md_created_at := ap_rfc3339 L (sql_datetime created), md_updated_time := Some (ap_rfc3339 L (sql_datetime created)),
     md_updated_at := Some (ap_rfc3339 L (sql_datetime created)), md_encrypted := Some (unwrap_or (md_encrypted m) False),
     md_e2ee_envelope := Option.bind (md_e2ee_envelope m) (\<lambda>e. ap_column_envelope L (ap_print_envelope L e))\<rparr>"

text \<open>
  A message that was sent and is then stored reads back from the database as it was sent, but for the name of
  its sender, its times, which are whole seconds, the flag of encryption, which is never absent, and the
  envelope, which is what the driver makes of its column.
\<close>

theorem stored_message_round_trip:
  assumes sent: "m = (message_of L caller input i now)\<lparr>md_conversation_seq := q\<rparr>"
    and row: "db_message_of L t m = Some row" "stored_message L row = Some stored"
    and columns: "\<And>n s s'. ap_varchar L n s = Some s' \<Longrightarrow> s' = s"
    and numbers: "in_i64 i" "in_i64 (id_user_id caller)" "pred_option in_i64 (bi_receiver_id input)"
      "pred_option in_i64 (bi_group_id input)"
  shows "message_from_row L stored = read_back L (parse_datetime L t (md_created_time m)) m"
proof -
  have opt: "Option.bind (map_option show_int x) parse_i64_trimmed = x" if "pred_option in_i64 x" for x
    using that by (cases x) simp_all
  have enum: "message_type_from_text (message_type_str a) = a" "message_status_from_text ''SENT'' = Sent" for a
    using enum_texts(1) enum_texts(2)[of Sent] by simp_all
  let ?t = "parse_datetime L t (ap_iso L now)"
  have row_is: "row = \<lparr>mr_id = i, mr_sender_id = id_user_id caller, mr_receiver_id = bi_receiver_id input,
      mr_group_id = bi_group_id input, mr_conversation_seq = q,
      mr_client_message_id = normalize_text (bi_client_message_id input),
      mr_message_type = message_type_db_code (message_type_from_text (unwrap_or (bi_message_type input) ''TEXT'')),
      mr_content = bi_content input, mr_media_url = bi_media_url input, mr_media_size = bi_media_size input,
      mr_media_name = bi_media_name input, mr_thumbnail_url = bi_thumbnail_url input, mr_duration = bi_duration input,
      mr_location_info = None, mr_encrypted = unwrap_or (bi_encrypted input) False,
      mr_e2ee_header = bi_e2ee_header input, mr_e2ee_device_id = bi_e2ee_device_id input,
      mr_e2ee_sender_identity_key = bi_e2ee_sender_identity_key input,
      mr_e2ee_ephemeral_key = bi_e2ee_ephemeral_key input,
      mr_e2ee_envelope_json = map_option (ap_print_envelope L) (bi_e2ee_envelope input),
      mr_status = message_status_db_code Sent, mr_is_group_chat = (bi_group_id input \<noteq> None),
      mr_reply_to_message_id = None, mr_created_time = ?t, mr_updated_time = ?t\<rparr>"
    using row(1) numbers by (simp add: db_message_of_def sent message_of_def Let_def opt enum split: if_splits)
  have created: "md_created_time m = ap_iso L now" by (simp add: sent message_of_def)
  have stored_is: "stored = row\<lparr>mr_created_time := sql_datetime ?t, mr_updated_time := sql_datetime ?t\<rparr>"
    using stored_columns[OF row(2) columns] unfolding row_is by simp
  have envelope: "Option.bind (map_option (ap_print_envelope L) x) (ap_column_envelope L) =
      Option.bind x (\<lambda>e. ap_column_envelope L (ap_print_envelope L e))" for x
    by (cases x) simp_all
  show ?thesis
    unfolding created stored_is row_is
    by (simp add: message_from_row_def read_back_def sent message_of_def row_codes envelope del: message_status_db_code.simps)
qed

theorem stored_message_round_trip_witness:
  "\<exists>row stored. db_message_of sample_api 0 (sample_sent 7) = Some row \<and> stored_message sample_api row = Some stored \<and>
    message_from_row sample_api stored = read_back sample_api (parse_datetime sample_api 0 (md_created_time (sample_sent 7))) (sample_sent 7)"
proof -
  let ?m = "sample_sent 7"
  have sent: "?m = (message_of sample_api alice sample_input 7 1700000000000)\<lparr>md_conversation_seq := None\<rparr>"
    by (simp add: sample_sent_def message_of_def)
  have columns: "ap_varchar sample_api n s = Some s' \<Longrightarrow> s' = s" for n s s' by (simp add: sample_api_def split: if_splits)
  have numbers: "in_i64 7" "in_i64 (id_user_id alice)" "pred_option in_i64 (bi_receiver_id sample_input)"
    "pred_option in_i64 (bi_group_id sample_input)"
    by (simp_all add: in_i64_def alice_def sample_input_def)
  obtain row where row: "db_message_of sample_api 0 ?m = Some row"
    using numbers(1) by (simp add: db_message_of_def sample_sent_def message_of_def Let_def)
  have c1: "normalize_text (Some ''c1'') = Some ''c1''"
    using sample_sent_ids(2) by (simp add: sample_sent_def message_of_def sample_input_def)
  have cols: "mr_client_message_id row = Some ''c1'' \<and> mr_media_url row = None \<and> mr_media_name row = None \<and>
      mr_thumbnail_url row = None \<and> mr_e2ee_device_id row = None \<and> mr_content row = Some ''hi'' \<and>
      mr_location_info row = None \<and> mr_e2ee_header row = None \<and> mr_e2ee_sender_identity_key row = None \<and>
      mr_e2ee_ephemeral_key row = None"
    using row[symmetric] numbers by (simp add: db_message_of_def sample_sent_def message_of_def sample_input_def Let_def c1)
  obtain stored where stored: "stored_message sample_api row = Some stored"
    using cols by (simp add: stored_message_def column_def sample_api_def List.map_filter_def)
  have "message_from_row sample_api stored = read_back sample_api (parse_datetime sample_api 0 (md_created_time ?m)) ?m"
    by (rule stored_message_round_trip[OF sent row stored _ numbers]) (rule columns)
  with row stored show ?thesis by blast
qed

section \<open>Cached checks\<close>

lemma run_get_bool:
  "run (get_bool k) w = (Inr (case cached (aw_now w) k (aw_local w) of Some (CBool b) \<Rightarrow> Some b | _ \<Rightarrow> None),
     w\<lparr>aw_local := drop_expired (aw_now w) k (aw_local w)\<rparr>)"
  by (simp add: get_bool_def get_value_def)

lemma run_set_bool:
  "run (set_bool k b) w = (Inr (), w\<lparr>aw_local := cache_insert (aw_now w) k (CBool b)
     (if b then positive_ttl_ms else negative_ttl_ms) (aw_local w)\<rparr>)"
  by (simp add: set_bool_def set_value_def)

lemma cached_dropped: "cached t k (drop_expired t k c) = cached t k c"
  by (auto simp: cached_def drop_expired_def delete_conv split: option.splits)

lemma cached_inserted: "cached t' k (cache_insert t k v ttl c) = (if t + ttl \<le> t' then None else Some v)"
  by (simp add: cached_def cache_insert_def Let_def update_conv)

text \<open>What is in the cache of the process decides.\<close>

lemma run_cached_check:
  assumes "cached (aw_now w) k (aw_local w) = Some (CBool b)"
  shows "run (cached_check k e m) w =
    (if b then Inr () else Inl e, w\<lparr>aw_local := drop_expired (aw_now w) k (aw_local w)\<rparr>)"
  using assms by (simp add: cached_check_def run_then run_get_bool run_check)

lemma redis_value_kept:
  "redis_value (w\<lparr>aw_local := c\<rparr>) k = redis_value w k" "redis_value (w\<lparr>aw_outcomes := cs\<rparr>) k = redis_value w k"
  by (simp_all add: redis_value_def split: option.split)

text \<open>
  When the database cannot be reached, a member of a group is told that it is none, and that answer stays in
  the cache of the process: for ten seconds every further check refuses it without asking again.
\<close>

theorem failed_lookup_refuses:
  assumes cold: "cached (aw_now w) (member_cache_key g u) (aw_local w) = None" "redis_value w (member_cache_key g u) = None"
    and failing: "aw_outcomes w = [Replied, Unreached]"
    and later: "aw_local w2 = aw_local (snd (run (validate_group_member g u) w))" "aw_now w2 < aw_now w + negative_ttl_ms"
  shows "fst (run (validate_group_member g u) w) = Inl (EForbidden ''group membership not found'') \<and>
    fst (run (validate_group_member g u) w2) = Inl (EForbidden ''group membership not found'')"
proof -
  let ?k = "member_cache_key g u"
  define w' where "w' = w\<lparr>aw_local := drop_expired (aw_now w) ?k (drop_expired (aw_now w) ?k (aw_local w))\<rparr>"
  have w': "aw_now w' = aw_now w" "aw_outcomes w' = [Replied, Unreached]" "redis_value w' ?k = None"
    using failing cold(2) by (simp_all add: w'_def redis_value_kept)
  define w'' where "w'' = w'\<lparr>aw_outcomes := []\<rparr>"
  have read: "run (read_cached_bool ?k) w' = (Inr None, w'\<lparr>aw_outcomes := [Unreached]\<rparr>)"
    using w'(2,3) by (simp add: read_cached_bool_def redis_peek_def redis_get_def redis_command_def run_then run_try run_command
        next_outcome_def outcome_used_def redis_value_kept)
  have lookup: "run (act_try (ensure_group_member g u)) (w'\<lparr>aw_outcomes := [Unreached]\<rparr>) = (Inr (Inl ESqlx), w'')"
    by (simp add: ensure_group_member_def sql_query_def run_then run_try run_command next_outcome_def outcome_used_def w''_def)
  define w3 where "w3 = snd (run (set_bool ?k False) w'')"
  have "\<exists>w4. run (write_cached_bool ?k False) w'' = (Inr (), w4) \<and> aw_local w4 = aw_local w3"
    by (auto simp: write_cached_bool_def redis_keep_def redis_set_ex_def redis_set_px_def run_then run_try run_command
        run_set_bool w3_def w''_def next_outcome_def outcome_used_def validation_negative_cache_ttl_seconds_def)
  then obtain w4 where w4: "run (write_cached_bool ?k False) w'' = (Inr (), w4)" "aw_local w4 = aw_local w3" by blast
  have first: "run (validate_group_member g u) w = (Inl (EForbidden ''group membership not found''), w4)"
    by (simp add: validate_group_member_def Let_def cached_check_def run_then run_get_bool cold(1) cached_dropped
        w'_def[symmetric] read lookup w4(1) run_check)
  have "cached (aw_now w2) ?k (aw_local w2) = Some (CBool False)"
    using later by (simp add: first w4(2) w3_def run_set_bool w''_def w'(1) cached_inserted)
  then have "run (validate_group_member g u) w2 = (Inl (EForbidden ''group membership not found''),
      w2\<lparr>aw_local := drop_expired (aw_now w2) ?k (aw_local w2)\<rparr>)"
    by (simp add: validate_group_member_def Let_def run_cached_check[where b = False])
  with first show ?thesis by simp
qed

text \<open>Alice is a member of the group 3.\<close>

definition member_world :: "outcome list \<Rightarrow> api_world" where
  "member_world cs = (empty_world 1700000000000)\<lparr>aw_outcomes := cs,
     aw_members := [\<lparr>gm_id = 9, gm_group_id = 3, gm_user_id = 1, gm_nickname = None, gm_role = 1, gm_status = 1, gm_join_time = 0\<rparr>]\<rparr>"

theorem failed_lookup_refuses_witness:
  "fst (run (ensure_group_member 3 1) (member_world [])) = Inr () \<and>
   fst (run (validate_group_member 3 1) (member_world [Replied, Unreached])) = Inl (EForbidden ''group membership not found'') \<and>
   fst (run (validate_group_member 3 1) ((member_world [])\<lparr>aw_now := 1700000009999,
     aw_local := aw_local (snd (run (validate_group_member 3 1) (member_world [Replied, Unreached])))\<rparr>)) =
     Inl (EForbidden ''group membership not found'')"
proof (intro conjI)
  show "fst (run (ensure_group_member 3 1) (member_world [])) = Inr ()"
    by (simp add: ensure_group_member_def run_then sql_query_def run_command member_world_def next_outcome_def empty_world_def
        outcome_used_def count_where_def active_member_def run_check)
next
  let ?w = "member_world [Replied, Unreached]"
  let ?later = "(member_world [])\<lparr>aw_now := 1700000009999, aw_local := aw_local (snd (run (validate_group_member 3 1) ?w))\<rparr>"
  have cold: "cached (aw_now ?w) (member_cache_key 3 1) (aw_local ?w) = None" "redis_value ?w (member_cache_key 3 1) = None"
    "aw_outcomes ?w = [Replied, Unreached]" and soon: "1700000009999 < aw_now ?w + negative_ttl_ms"
    by (simp_all add: member_world_def empty_world_def cached_def redis_value_def negative_ttl_ms_def)
  note refused = failed_lookup_refuses[OF cold, where ?w2.0 = ?later]
  have "aw_local (v\<lparr>aw_now := n, aw_local := c\<rparr>) = c" "aw_now (v\<lparr>aw_now := n, aw_local := c\<rparr>) = n" for v :: api_world and n c
    by simp_all
  note refused = refused[OF this(1), unfolded this(2), OF soon]
  show "fst (run (validate_group_member 3 1) ?w) = Inl (EForbidden ''group membership not found'')"
    by (rule refused[THEN conjunct1])
  show "fst (run (validate_group_member 3 1) ?later) = Inl (EForbidden ''group membership not found'')"
    by (rule refused[THEN conjunct2])
qed

end
