(* ===== verification/Api_Negotiation_Properties.thy ===== *)
theory Api_Negotiation_Properties
  imports Api_Samples
begin

text \<open>
  What the negotiation of encryption guarantees to its clients: the versions they compare, who can
  accept, and two schedules in which a stale answer takes effect.
\<close>

section \<open>Versions\<close>

text \<open>
  C29: Versions count the changes. Requests, acceptances, rejections and withdrawals by any users run side by side,
  their database accesses interleaved in any way with each other and with everything else, and any command may fail
  or lose its reply. A session then moves along \<open>allowed_change\<close> only: it is opened at version 1, pending or as
  plaintext; a request makes it pending between the same two users; only a pending session becomes encrypted or
  rejected, and it keeps its requester and target; one of the two users makes it plaintext. Each of these adds
  exactly one to the version. A session is never deleted and never changes its identifier, and as long as its
  version is the same, its status, its requester and target and the record of who disabled it are the same. A
  session that has become encrypted was pending, between the same requester and target, at the version just before.
\<close>

theorem negotiation_versions:
  assumes "collation_ok L" "\<forall>t \<in> set ts. negotiation_task L config t" "sessions_ok L w"
    and "sys_runs sessions_env (ts, w) (ts', w')"
  shows "sessions_ok L w' \<and>
    (\<forall>k. allowed_change\<^sup>*\<^sup>* (map_option view_of (session_at L w k)) (map_option view_of (session_at L w' k))) \<and>
    (\<forall>k r. session_at L w k = Some r \<longrightarrow>
      (\<exists>r'. session_at L w' k = Some r' \<and> se_session_id r' = se_session_id r \<and>
        se_state_version r \<le> se_state_version r' \<and>
        (se_state_version r' = se_state_version r \<longrightarrow> state_of r' = state_of r))) \<and>
    (\<forall>k x y d v. map_option view_of (session_at L w' k) = Some (''encrypted'', x, y, d, v) \<longrightarrow>
      map_option view_of (session_at L w k) = Some (''encrypted'', x, y, d, v) \<or>
      allowed_change\<^sup>*\<^sup>* (map_option view_of (session_at L w k)) (Some (''pending'', x, y, d, v - 1)))"
proof -
  have tasks: "\<forall>t \<in> set ts. follows L t" using assms(1,2) task_follows by blast
  have change: "sessions_ok L w'" "sessions_change L w w'"
    using negotiation.runs_guarantee[OF assms(4,3) tasks] by simp_all
  then have steps: "session_step\<^sup>*\<^sup>* (session_at L w k) (session_at L w' k)" for k by (simp add: sessions_change_def)
  have "pred_option session_ok (session_at L w k)" for k
    using assms(3) row_of_Some[of "session_key L" k "aw_sessions w"]
    by (cases "session_at L w k") (auto simp: sessions_ok_def)
  note allowed = steps_allowed[OF steps this]
  show ?thesis
    by (intro conjI allI impI change(1) allowed steps_row[OF steps] changes_encrypted) (use allowed in \<open>metis+\<close>)
qed

text \<open>A session whose request is accepted while nothing else happens.\<close>

definition befriended :: "api_world \<Rightarrow> int \<Rightarrow> int \<Rightarrow> bool" where
  "befriended w x y \<longleftrightarrow> 2 \<le> count_where (\<lambda>r. fr_status r = 1 \<and>
     (fr_user_id r = x \<and> fr_friend_id r = y \<or> fr_user_id r = y \<and> fr_friend_id r = x)) (aw_friends w)"

definition sample_session :: "string \<Rightarrow> session_row" where
  "sample_session status = \<lparr>se_session_id = ''p_1_2'', se_requester_id = 1, se_target_user_id = 2,
     se_status = status, se_payload = None, se_state_version = 1, se_disabled_by = None, se_disabled_at = None,
     se_updated_time = 1700000000\<rparr>"

definition session_world :: "string \<Rightarrow> api_world" where
  "session_world status = friends_world\<lparr>aw_sessions := [sample_session status]\<rparr>"

definition plain_request :: session_request where
  "plain_request = \<lparr>sq_session_id = ''p_1_2'', sq_identity_key = None, sq_signed_pre_key = None, sq_payload = None\<rparr>"

lemma sample_partners: "parse_session_partners ''p_1_2'' = Inr (1, 2)"
  by (simp add: parse_session_partners_def strip_prefix_def parse_i64_def parse_nat_def digit_value_def)

lemma session_world_ok: "status \<in> {''pending'', ''rejected''} \<Longrightarrow> sessions_ok sample_api (session_world status)"
  by (auto simp: sessions_ok_def session_world_def sample_session_def session_ok_def partners_def sample_partners)

lemmas world_simps = session_world_def friends_world_def empty_world_def sample_session_def plain_request_def

lemmas handler_steps = caller_of_def bearer_identity sample_user_def validate_session_id_def validate_optional_key_def
  validate_request_payload_json_def ensure_e2ee_session_participant_def ensure_friendship_exists_def sample_partners
  act_check_def load_negotiation_state_def now_ms_def act_get_def sql_query_def command_def sample_collation
  next_outcome_def outcome_used_def Let_def count_where_def

lemmas update_steps = sessions_update_def sql_execute_def update_where_def reloaded_def push_negotiation_event_def
  redis_hget_def redis_command_def parse_user_routes_def push_disabled_def new_request_def shown_name_def
  resolve_user_display_name_def sql_now_def session_sets

abbreviation bob_accepts :: "string api" where
  "bob_accepts \<equiv> accept_encryption sample_api sample_api_config (bearer ''bob'') plain_request"

abbreviation alice_accepts :: "string api" where
  "alice_accepts \<equiv> accept_encryption sample_api sample_api_config (bearer ''alice'') plain_request"

abbreviation alice_disables :: "string api" where
  "alice_disables \<equiv> disable_encryption sample_api sample_api_config (bearer ''alice'') plain_request"

abbreviation bob_requests :: "string api" where
  "bob_requests \<equiv> request_encryption sample_api sample_api_config (bearer ''bob'') plain_request"

abbreviation alice_requests :: "string api" where
  "alice_requests \<equiv> request_encryption sample_api sample_api_config (bearer ''alice'') plain_request"

lemma accepted_alone: "run bob_accepts (session_world ''pending'') =
    (Inr ''ok'', (session_world ''pending'')\<lparr>aw_sessions := [set_status ''encrypted'' 1700000000 (sample_session ''pending'')]\<rparr>)"
  by (simp add: accept_encryption_def answer_request_def handler_steps world_simps update_steps)

theorem negotiation_versions_witness:
  "collation_ok sample_api \<and> sessions_ok sample_api (session_world ''pending'') \<and>
   (\<exists>ts' w'. sys_runs sessions_env ([bob_accepts], session_world ''pending'') (ts', w') \<and> sessions_ok sample_api w' \<and>
     map se_status (aw_sessions w') = [''encrypted''])"
proof -
  obtain n where n: "schedule (replicate n 0) ([bob_accepts], session_world ''pending'') =
      ([Ret (fst (run bob_accepts (session_world ''pending'')))], snd (run bob_accepts (session_world ''pending'')))"
    using schedule_alone[of 0 "[bob_accepts]" bob_accepts "session_world ''pending''"] by auto
  let ?w = "snd (run bob_accepts (session_world ''pending''))"
  have runs: "sys_runs sessions_env ([bob_accepts], session_world ''pending'')
      ([Ret (fst (run bob_accepts (session_world ''pending'')))], ?w)"
    using schedule_runs[of sessions_env "([bob_accepts], session_world ''pending'')" "replicate n 0"] n by simp
  have task: "\<forall>t \<in> set [bob_accepts]. negotiation_task sample_api sample_api_config t"
    by (auto simp: negotiation_task_def)
  have ok: "sessions_ok sample_api (session_world ''pending'')" by (simp add: session_world_ok)
  have "sessions_ok sample_api ?w" using negotiation_versions[OF sample_collation(1) task ok runs] by blast
  moreover have "map se_status (aw_sessions ?w) = [''encrypted'']" by (simp add: accepted_alone)
  ultimately show ?thesis using runs ok sample_collation(1) by (intro conjI exI)
qed

section \<open>Accepting\<close>

interpretation session_table: unseen_view aw_sessions
  by unfold_locales (simp_all add: outcome_used_def)

lemma participant_run:
  assumes "quiet w"
  shows "run (ensure_e2ee_session_participant caller sid) w = (res, w') \<Longrightarrow> w' = w \<and>
    (\<forall>peer. res = Inr peer \<longleftrightarrow> session_users sid caller peer \<and> befriended w caller peer)"
proof (cases "parse_session_partners sid")
  case (Inr p)
  assume r: "run (ensure_e2ee_session_participant caller sid) w = (res, w')"
  obtain a b where p: "p = (a, b)" by (cases p)
  have "a \<noteq> b" using Inr p parse_partners_distinct by blast
  with r Inr p assms show ?thesis
    by (auto simp: ensure_e2ee_session_participant_def ensure_friendship_exists_def run_simps Let_def
        session_users_def befriended_def split: if_splits)
qed (auto simp: ensure_e2ee_session_participant_def session_users_def)

definition may_answer :: "api_lib \<Rightarrow> api_config \<Rightarrow> header_map \<Rightarrow> string \<Rightarrow> api_world \<Rightarrow> session_row \<Rightarrow> bool" where
  "may_answer L config headers sid w r \<longleftrightarrow>
     (\<exists>caller peer. identity_from_headers L (aw_now w) headers config = Inr caller \<and> sid \<noteq> [] \<and> length sid \<le> 64 \<and>
        session_users sid (id_user_id caller) peer \<and> befriended w (id_user_id caller) peer \<and>
        session_at L w (ap_collate L sid) = Some r \<and> se_status r = ''pending'' \<and>
        se_target_user_id r = id_user_id caller \<and> se_state_version r + 1 < 2 ^ 31)"

lemma push_unseen: "aw_sessions (snd (run (push_negotiation_event L config u p) w)) = aw_sessions w"
  by (rule session_table.run_untouched) (unfold push_negotiation_event_def signed_post_def Let_def, intro ensures_intros)

lemma answer_run:
  assumes "quiet w" "sessions_ok L w" "session_at L w (ap_collate L (sq_session_id request)) = Some r" "se_status r = ''pending''"
    and "run (answer_request L config status action request r) w = (res, w')"
  shows "(res = Inr ''ok'' \<longleftrightarrow> se_state_version r + 1 < 2 ^ 31) \<and>
    (\<forall>k. session_at L w' k = (if res = Inr ''ok'' \<and> k = ap_collate L (sq_session_id request)
       then map_option (set_status status (sql_now w)) (session_at L w k) else session_at L w k))"
proof -
  let ?key = "ap_collate L (sq_session_id request)"
  define hit where "hit = (\<lambda>s. session_key L s = ?key \<and> se_status s = ''pending'')"
  define rows where "rows = update_where hit (set_status status (sql_now w)) (aw_sessions w)"
  have r: "r \<in> set (aw_sessions w)" "session_key L r = ?key" using row_of_Some[OF assms(3)] by auto
  have same: "s = r" if "s \<in> set (aw_sessions w)" "session_key L s = ?key" for s
    using row_of_distinct[of "session_key L" "aw_sessions w" s] assms(2,3) that by (simp add: sessions_ok_def)
  have ok: "list_all (\<lambda>s. se_state_version s < 2 ^ 31) rows \<longleftrightarrow> se_state_version r + 1 < 2 ^ 31"
  proof
    assume "list_all (\<lambda>s. se_state_version s < 2 ^ 31) rows"
    moreover have "set_status status (sql_now w) r \<in> set rows"
      using r assms(4) by (auto simp: rows_def set_update_where hit_def)
    ultimately have "se_state_version (set_status status (sql_now w) r) < 2 ^ 31" unfolding list_all_iff by blast
    then show "se_state_version r + 1 < 2 ^ 31" by simp
  next
    assume small: "se_state_version r + 1 < 2 ^ 31"
    show "list_all (\<lambda>s. se_state_version s < 2 ^ 31) rows"
      unfolding list_all_iff rows_def
    proof
      fix s assume "s \<in> set (update_where hit (set_status status (sql_now w)) (aw_sessions w))"
      then obtain t where t: "t \<in> set (aw_sessions w)" "s = (if hit t then set_status status (sql_now w) t else t)"
        by (auto simp: set_update_where)
      show "se_state_version s < 2 ^ 31"
      proof (cases "hit t")
        case True
        with same[OF t(1)] t(2) small show ?thesis by (simp add: hit_def)
      next
        case False
        with t assms(2) show ?thesis by (simp add: sessions_ok_def session_ok_def)
      qed
    qed
  qed
  have one: "count_where hit (aw_sessions w) = 1"
    unfolding hit_def using assms(2-4) by (intro count_where_unique) (simp_all add: sessions_ok_def)
  have moved: "row_of (session_key L) k rows = (if k = ?key then map_option (set_status status (sql_now w)) (session_at L w k)
      else session_at L w k)" for k
  proof -
    have "row_of (session_key L) k rows =
        map_option (\<lambda>s. if hit s then set_status status (sql_now w) s else s) (session_at L w k)"
      unfolding rows_def by (rule row_of_update) simp
    then show ?thesis using assms(3,4) row_of_Some[of "session_key L" k "aw_sessions w"]
      by (cases "session_at L w k") (auto simp: hit_def)
  qed
  let ?w = "w\<lparr>aw_sessions := rows\<rparr>"
  have quiet': "quiet ?w" using assms(1) by (simp add: quiet_def)
  have update: "run (sessions_update L (sq_session_id request) (\<lambda>r. se_status r = ''pending'') (set_status status)) w =
      (if se_state_version r + 1 < 2 ^ 31 then (Inr 1, ?w) else (Inl ESqlx, w))"
    using assms(1) ok one by (simp add: sessions_update_def run_execute Let_def hit_def[symmetric] rows_def[symmetric])
  show ?thesis
  proof (cases "se_state_version r + 1 < 2 ^ 31")
    case False
    with assms(5) update show ?thesis by (auto simp: answer_request_def run_then)
  next
    case True
    obtain v t where reload: "run (reloaded L (sq_session_id request) (wrap_i32 (se_state_version r + 1))) ?w = (Inr (v, t), ?w)"
      using quiet' by (cases "session_at L ?w ?key") (auto simp: reloaded_def load_negotiation_state_def run_simps)
    have "\<exists>u p. run (answer_request L config status action request r) w = (Inr ''ok'', snd (run (push_negotiation_event L config u p) ?w))"
      unfolding answer_request_def using True
      by (simp add: run_then run_try run_check update reload split: prod.split) (metis snd_conv)
    with assms(5) have "res = Inr ''ok'' \<and> aw_sessions w' = rows" by (auto simp: push_unseen)
    with True moved show ?thesis by simp
  qed
qed

text \<open>
  C31: Who can accept. When nothing else happens meanwhile, accepting succeeds exactly when the caller
  is authenticated, the session names the caller and a mutual friend, a request is pending for that
  session and the caller is its target; then the session becomes encrypted with the next version.
  In every other case the table is unchanged. In particular a requester cannot accept alone.
\<close>

theorem accept_exact:
  assumes "quiet w" "sessions_ok L w"
    and "run (accept_encryption L config headers request) w = (res, w')"
  shows "(res = Inr ''ok'' \<longleftrightarrow>
      validate_optional_key (sq_signed_pre_key request) ''signed_pre_key'' = Inr () \<and>
      (\<exists>r. may_answer L config headers (sq_session_id request) w r)) \<and>
    (\<forall>k. session_at L w' k = (if res = Inr ''ok'' \<and> k = ap_collate L (sq_session_id request)
       then map_option (set_status ''encrypted'' (sql_now w)) (session_at L w k) else session_at L w k))"
proof -
  let ?sid = "sq_session_id request"
  note run = assms(3)[unfolded accept_encryption_def caller_of_def]
  have checked: "validate_session_id ?sid = Inr () \<longleftrightarrow> ?sid \<noteq> [] \<and> length ?sid \<le> 64"
    by (auto simp: validate_session_id_def)
  define p where "p = (\<lambda>c. fst (run (ensure_e2ee_session_participant c ?sid) w))"
  have p: "run (ensure_e2ee_session_participant c ?sid) w = (p c, w)"
    "p c = Inr peer \<longleftrightarrow> session_users ?sid c peer \<and> befriended w c peer" for c peer
    using participant_run[OF assms(1), of c ?sid "p c" "snd (run (ensure_e2ee_session_participant c ?sid) w)"]
    by (simp_all add: p_def prod_eq_iff)
  show ?thesis
  proof (cases "\<exists>caller peer r. identity_from_headers L (aw_now w) headers config = Inr caller \<and> validate_session_id ?sid = Inr () \<and>
      validate_optional_key (sq_signed_pre_key request) ''signed_pre_key'' = Inr () \<and> p (id_user_id caller) = Inr peer \<and>
      session_at L w (ap_collate L ?sid) = Some r \<and> se_target_user_id r = id_user_id caller \<and> se_status r = ''pending''")
    case True
    then obtain caller peer r where ok: "identity_from_headers L (aw_now w) headers config = Inr caller"
      "validate_session_id ?sid = Inr ()" "validate_optional_key (sq_signed_pre_key request) ''signed_pre_key'' = Inr ()"
      "p (id_user_id caller) = Inr peer" "session_at L w (ap_collate L ?sid) = Some r"
      "se_target_user_id r = id_user_id caller" "se_status r = ''pending''" by blast
    have answer: "run (answer_request L config ''encrypted'' ''accepted'' request r) w = (res, w')"
      using run ok p(1) assms(1) by (simp add: run_simps load_negotiation_state_def)
    have "may_answer L config headers ?sid w r' \<longleftrightarrow> r' = r \<and> se_state_version r + 1 < 2 ^ 31" for r'
      using ok p(2) checked unfolding may_answer_def by auto
    with answer_run[OF assms(1,2) ok(5,7) answer] ok(3) show ?thesis by auto
  next
    case False
    have "res \<noteq> Inr ''ok'' \<and> w' = w"
      using run p(1) assms(1) False
      by (auto simp: run_simps load_negotiation_state_def Let_def split: sum.splits option.splits if_splits)
    moreover have "\<not> (validate_optional_key (sq_signed_pre_key request) ''signed_pre_key'' = Inr () \<and>
        may_answer L config headers ?sid w r)" for r
      using False by (auto simp: may_answer_def p(2) checked)
    ultimately show ?thesis by simp
  qed
qed

lemma session_world_quiet: "quiet (session_world status)"
  by (simp add: quiet_def world_simps)

theorem accept_exact_witness:
  "fst (run bob_accepts (session_world ''pending'')) = Inr ''ok'' \<and>
   fst (run alice_accepts (session_world ''pending'')) \<noteq> Inr ''ok'' \<and>
   (\<exists>r. may_answer sample_api sample_api_config (bearer ''bob'') ''p_1_2'' (session_world ''pending'') r) \<and>
   \<not> (\<exists>r. may_answer sample_api sample_api_config (bearer ''alice'') ''p_1_2'' (session_world ''pending'') r)"
proof -
  have ok: "sessions_ok sample_api (session_world ''pending'')" by (simp add: session_world_ok)
  have alice: "fst (run alice_accepts (session_world ''pending'')) \<noteq> Inr ''ok''"
    by (simp add: accept_encryption_def handler_steps world_simps)
  note exact = accept_exact[OF session_world_quiet ok prod.collapse[symmetric], THEN conjunct1]
  have key: "validate_optional_key (sq_signed_pre_key plain_request) ''signed_pre_key'' = Inr ()"
    "sq_session_id plain_request = ''p_1_2''" by (simp_all add: plain_request_def validate_optional_key_def)
  from exact[of sample_api_config "bearer ''bob''" plain_request] exact[of sample_api_config "bearer ''alice''" plain_request]
  show ?thesis unfolding key using alice accepted_alone by simp
qed

section \<open>Answers that come too late\<close>

text \<open>After its three reads an acceptance, or a request, waits with the row it saw.\<close>

lemma accept_waits:
  "schedule [0, 0, 0] (bob_accepts # rest, session_world ''pending'') =
   (answer_request sample_api sample_api_config ''encrypted'' ''accepted'' plain_request (sample_session ''pending'') # rest,
    session_world ''pending'')"
  by (simp add: accept_encryption_def handler_steps world_simps)

lemma request_waits:
  "schedule [0, 0, 0] (alice_requests # rest, session_world ''rejected'') =
   (new_request sample_api sample_api_config \<lparr>id_user_id = 1, id_username = ''alice''\<rparr> 2 True plain_request # rest,
    session_world ''rejected'')"
  by (simp add: request_encryption_def handler_steps world_simps)

definition session_with :: "string \<Rightarrow> session_row list \<Rightarrow> api_world" where
  "session_with status rows = (session_world status)\<lparr>aw_sessions := rows\<rparr>"

definition sample_row :: "int \<Rightarrow> int \<Rightarrow> string \<Rightarrow> int \<Rightarrow> int option \<Rightarrow> session_row" where
  "sample_row x y status version disabled_by = \<lparr>se_session_id = ''p_1_2'', se_requester_id = x, se_target_user_id = y,
     se_status = status, se_payload = None, se_state_version = version, se_disabled_by = disabled_by,
     se_disabled_at = map_option (\<lambda>_. 1700000000) disabled_by, se_updated_time = 1700000000\<rparr>"

lemmas run_steps = handler_steps world_simps update_steps session_with_def sample_row_def

lemma disable_alone: "run alice_disables (session_world ''pending'') =
    (Inr ''ok'', session_with ''pending'' [sample_row 1 2 ''plaintext'' 2 (Some 1)])"
  by (simp add: disable_encryption_def run_steps)

lemma bob_requests_alone:
  "run bob_requests (session_with ''pending'' [sample_row 1 2 ''plaintext'' 2 (Some 1)]) =
    (Inr ''ok'', session_with ''pending'' [sample_row 2 1 ''pending'' 3 (Some 1)])"
  "run bob_requests (session_world ''rejected'') = (Inr ''ok'', session_with ''rejected'' [sample_row 2 1 ''pending'' 2 None])"
  by (simp_all add: request_encryption_def run_steps)

lemma late_answer:
  "run (answer_request sample_api sample_api_config ''encrypted'' ''accepted'' plain_request (sample_session ''pending''))
     (session_with ''pending'' [sample_row 2 1 ''pending'' 3 (Some 1)]) =
   (Inr ''ok'', session_with ''pending'' [sample_row 2 1 ''encrypted'' 4 (Some 1)])"
  by (simp add: answer_request_def run_steps)

lemma alice_accepts_alone:
  "run alice_accepts (session_with ''rejected'' [sample_row 2 1 ''pending'' 2 None]) =
   (Inr ''ok'', session_with ''rejected'' [sample_row 2 1 ''encrypted'' 3 None])"
  by (simp add: accept_encryption_def answer_request_def run_steps)

lemma late_request:
  "run (new_request sample_api sample_api_config \<lparr>id_user_id = 1, id_username = ''alice''\<rparr> 2 True plain_request)
     (session_with ''rejected'' [sample_row 2 1 ''encrypted'' 3 None]) =
   (Inr ''ok'', session_with ''rejected'' [sample_row 1 2 ''pending'' 4 None])"
  by (simp add: run_steps)

text \<open>
  Late answers. The updates of \<open>accept\<close> and \<open>request\<close> do not check the version they were decided
  on. Bob's acceptance of Alice's request, overtaken by Alice withdrawing it and Bob asking himself,
  encrypts the session in which Bob is the requester and Alice, the target, accepted nothing. And
  Alice's request for a rejected session, overtaken by Bob's request and its acceptance, turns the
  encrypted session back to pending. All the calls report success.
\<close>
theorem late_answers:
  "(\<exists>is. schedule is ([bob_accepts, alice_disables, bob_requests], session_world ''pending'') =
      (replicate 3 (act_ok ''ok''), session_with ''pending'' [sample_row 2 1 ''encrypted'' 4 (Some 1)])) \<and>
   (\<exists>is. schedule is ([alice_requests, bob_requests, alice_accepts], session_world ''rejected'') =
      (replicate 3 (act_ok ''ok''), session_with ''rejected'' [sample_row 1 2 ''pending'' 4 None]))"
  using waiting_first[OF accept_waits disable_alone bob_requests_alone(1) late_answer]
    waiting_first[OF request_waits bob_requests_alone(2) alice_accepts_alone late_request]
  by (simp add: numeral_3_eq_3)

end
