(* ===== verification/Api_Key_Rules.thy ===== *)
theory Api_Key_Rules
  imports Api_Keys Api_Ghost
begin

text \<open>
  Who was given which one-time pre-key. The history is a map from the numbers of pre-key rows to the
  claimant that was given the row, and the key it holds. Rows and claims come and go; every access of
  the handlers of the key directory keeps to the history or adds a row to it that nobody had.
\<close>

type_synonym given = "int \<Rightarrow> (claim_key \<times> string) option"

definition given_row :: "api_lib \<Rightarrow> given \<Rightarrow> opk_row \<Rightarrow> bool" where
  "given_row L own r \<longleftrightarrow>
     (\<forall>requester device target target_device conversation k.
        own (ok_id r) = Some ((requester, device, target, target_device, conversation), k) \<longrightarrow>
        ok_consumed r \<and> ok_pre_key r = k \<and> ok_user_id r = target \<and> ap_collate L (ok_device_id r) = target_device)"

definition given_claim :: "api_lib \<Rightarrow> given \<Rightarrow> claim_row \<Rightarrow> bool" where
  "given_claim L own c \<longleftrightarrow>
     (case ck_row_id c of
        None \<Rightarrow> ck_pre_key c = None
      | Some n \<Rightarrow> \<exists>k. ck_pre_key c = Some k \<and> own n = Some (claim_key L c, k))"

definition assigned :: "api_lib \<Rightarrow> given \<Rightarrow> api_world \<Rightarrow> bool" where
  "assigned L own w \<longleftrightarrow> distinct (map ok_id (aw_opks w)) \<and>
     (\<forall>r \<in> set (aw_opks w). ok_id r < aw_next_opk w \<and> given_row L own r) \<and>
     (\<forall>n \<in> dom own. n < aw_next_opk w) \<and> (\<forall>c \<in> set (aw_claims w). given_claim L own c)"

definition keys_env :: "api_world \<Rightarrow> api_world \<Rightarrow> bool" where
  "keys_env w w' \<longleftrightarrow> aw_opks w' = aw_opks w \<and> aw_next_opk w' = aw_next_opk w \<and> aw_claims w' = aw_claims w"

lemma assigned_same: "aw_opks w' = aw_opks w \<Longrightarrow> aw_next_opk w' = aw_next_opk w \<Longrightarrow> aw_claims w' = aw_claims w \<Longrightarrow>
    assigned L own w' \<longleftrightarrow> assigned L own w"
  by (simp add: assigned_def)

lemma assigned_used [simp]: "assigned L own (outcome_used w) \<longleftrightarrow> assigned L own w"
  by (rule assigned_same) (simp_all add: outcome_used_def)

abbreviation keeps_keys :: "api_lib \<Rightarrow> api_world \<Rightarrow> api_world \<Rightarrow> bool" where
  "keeps_keys L w w' \<equiv> \<forall>own. assigned L own w \<longrightarrow> assigned L own w'"

interpretation keys: history "assigned L" "(\<subseteq>\<^sub>m)" keys_env for L
  by unfold_locales (simp, erule (1) map_le_trans, simp add: keys_env_def assigned_def)

interpretation key_tables: shared_view "\<lambda>_. True" "keeps_keys L" keys_env "\<lambda>w. (aw_opks w, aw_next_opk w, aw_claims w)" for L
proof unfold_locales
  show same: "(aw_opks w', aw_next_opk w', aw_claims w') = (aw_opks w, aw_next_opk w, aw_claims w) \<Longrightarrow> keeps_keys L w w'" for w w'
    unfolding assigned_def by simp
  show "keys_env w w' \<Longrightarrow> keeps_keys L w w'" for w w' by (simp add: keys_env_def same)
qed (simp_all add: outcome_used_def)

abbreviation keeps :: "api_lib \<Rightarrow> 'a api \<Rightarrow> bool" where
  "keeps L m \<equiv> guarantees (\<lambda>_. True) (keeps_keys L) m"

section \<open>Accesses that give nothing away\<close>

lemma assigned_fewer:
  assumes "assigned L own w" "aw_next_opk w' = aw_next_opk w" "distinct (map ok_id (aw_opks w'))"
    and "set (aw_opks w') \<subseteq> set (aw_opks w)" "set (aw_claims w') \<subseteq> set (aw_claims w)"
  shows "assigned L own w'"
  using assms by (auto simp: assigned_def)

lemma distinct_deleted: "distinct (map f xs) \<Longrightarrow> distinct (map f (delete_where p xs))"
  by (simp add: delete_where_def distinct_map_filter)

lemma new_opks_rows:
  "map ok_id (new_opks user_id device_id now n es) = map (\<lambda>i. n + int i) [0..<length es]"
  "r \<in> set (new_opks user_id device_id now n es) \<Longrightarrow> n \<le> ok_id r \<and> ok_id r < n + int (length es)"
proof (induction user_id device_id now n es rule: new_opks.induct)
  case (2 user_id device_id now n e signature es)
  { case 1
    from 2(1) show ?case by (simp add: map_upt_Suc del: upt_Suc)
  next
    case 2
    with "2.IH"(2) show ?case by fastforce }
qed simp_all

lemma assigned_insert:
  assumes "assigned L own w"
  shows "assigned L own (insert_opks user_id device_id es w)"
proof -
  let ?new = "new_opks user_id device_id (sql_now w) (aw_next_opk w) es"
  have none: "own n = None" if "aw_next_opk w \<le> n" for n 
    using assms that by (cases "own n") (force simp: assigned_def dom_def)+
  have fresh: "own (ok_id r) = None" "ok_id r < aw_next_opk w + int (length es)" "\<forall>s \<in> set (aw_opks w). ok_id s \<noteq> ok_id r"
    if "r \<in> set ?new" for r
    using new_opks_rows(2)[OF that] assms none by (auto simp: assigned_def)
  have "distinct (map ok_id ?new)" by (simp add: new_opks_rows(1) distinct_map inj_on_def)
  moreover have "given_row L own r" if "r \<in> set ?new" for r using fresh(1)[OF that] by (simp add: given_row_def)
  moreover have "n < aw_next_opk w + int (length es)" if "own n \<noteq> None" for n using none[of n] that by fastforce
  ultimately show ?thesis using assms fresh unfolding assigned_def insert_opks_def by auto
qed

lemma keeps_delete_claim [ensures_intros]: "keeps L (delete_claim L' key)"
  unfolding delete_claim_def
  by (rule key_tables.guarantees_execute) (auto intro!: assigned_fewer simp: assigned_def)

lemma keeps_refill: "keeps L (refill_transaction user_id device_id es by_id)"
  unfolding refill_transaction_def
  by (rule key_tables.guarantees_execute) (auto intro: assigned_insert split: sum.split)

lemma keeps_upload: "keeps L (upload_transaction L' user_id req by_id)"
  unfolding upload_transaction_def
proof (rule key_tables.guarantees_execute, intro allI impI)
  fix w own assume ok: "assigned L own w"
  let ?w = "upsert_device L' user_id req w"
  let ?w3 = "?w\<lparr>aw_opks := delete_where (own_opk L' user_id (ub_device_id req)) (aw_opks w),
    aw_claims := delete_where (claim_on L' user_id (ub_device_id req)) (aw_claims w)\<rparr>"
  have "assigned L own ?w3"
    using ok by (rule assigned_fewer) (use ok in \<open>auto simp: upsert_device_def assigned_def distinct_deleted\<close>)
  then have "assigned L own (insert_opks user_id (ub_device_id req) es ?w3)" for es by (rule assigned_insert)
  with ok show "assigned L own (snd (case collect_results (with_signature by_id) (ub_one_time_pre_keys req) of
      Inl e \<Rightarrow> (Inl e, w)
    | Inr es \<Rightarrow>
        let w1 = upsert_device L' user_id req w;
            w2 = w1\<lparr>aw_opks := delete_where (own_opk L' user_id (ub_device_id req)) (aw_opks w1)\<rparr>;
            w3 = w2\<lparr>aw_claims := delete_where (claim_on L' user_id (ub_device_id req)) (aw_claims w2)\<rparr>
        in (Inr (), insert_opks user_id (ub_device_id req) es w3)))"
    by (auto simp: Let_def upsert_device_def split: sum.split)
qed

lemma keeps_caller [ensures_intros]: "keeps L (caller_of L' config headers)"
  unfolding caller_of_def by (intro ensures_intros)

lemma keeps_device [ensures_intros]: "keeps L (ensure_device_belongs_to_user L' device_id user_id)"
  unfolding ensure_device_belongs_to_user_def by (intro ensures_intros)

lemma keeps_member [ensures_intros]: "keeps L (ensure_conversation_member user_id conversation_id)"
  unfolding ensure_conversation_member_def Let_def by (intro ensures_intros)

text \<open>Commands that delete rows, or none.\<close>

lemma keeps_drop:
  assumes "\<And>w. aw_next_opk (snd (g w)) = aw_next_opk w" "\<And>w. \<exists>p. aw_opks (snd (g w)) = filter p (aw_opks w)"
    and "\<And>w. \<exists>p. aw_claims (snd (g w)) = filter p (aw_claims w)"
  shows "keeps L (sql_execute g)"
proof (rule key_tables.guarantees_execute, intro allI impI)
  fix w own assume ok: "assigned L own w"
  from ok assms(1) show "assigned L own (snd (g w))"
  proof (rule assigned_fewer)
    show "distinct (map ok_id (aw_opks (snd (g w))))"
      using ok assms(2)[of w] by (auto simp: assigned_def distinct_map_filter)
  qed (use assms(2,3)[of w] in auto)
qed

lemma some_filter: "\<exists>p. xs = filter p xs" "\<exists>p. filter q xs = filter p xs"
  by (auto intro: exI[of _ "\<lambda>_. True"])

lemmas drop_simps = Let_def delete_where_def some_filter

lemma keeps_expired: "keeps L (delete_expired_opk L' config headers)"
  unfolding delete_expired_opk_def by (intro ensures_intros keeps_drop) (simp_all add: drop_simps)

lemma keeps_delete_device: "keeps L (delete_device L' config headers device_id)"
  unfolding delete_device_def by (intro ensures_intros keeps_drop) (simp_all add: drop_simps)

lemma keeps_cleanup: "keeps L (cleanup_stale_devices L')"
  unfolding cleanup_stale_devices_def by (intro ensures_intros keeps_drop) (simp_all add: drop_simps)

lemma keeps_upload_bundle: "keeps L (upload_bundle L' config headers request)"
  unfolding upload_bundle_def by (intro ensures_intros keeps_upload)

lemma keeps_refill_opk: "keeps L (refill_opk L' config headers request)"
  unfolding refill_opk_def by (intro ensures_intros keeps_refill)

section \<open>Claims\<close>

text \<open>What is known of a claimant: who the request says it is, and what it asks for.\<close>

definition claimant :: "api_lib \<Rightarrow> api_config \<Rightarrow> header_map \<Rightarrow> params \<Rightarrow> claim_key \<Rightarrow> bool" where
  "claimant L config headers params key \<longleftrightarrow>
     (\<exists>now caller target user_id device_id requester_device conversation.
        identity_from_headers L now headers config = Inr caller \<and> params ''userId'' = Some user_id \<and>
        parse_user_id user_id = Inr target \<and> params ''deviceId'' = Some device_id \<and>
        params ''requesterDeviceId'' = Some requester_device \<and> params ''conversationId'' = Some conversation \<and>
        key = (id_user_id caller, ap_collate L requester_device, target, ap_collate L device_id, ap_collate L conversation))"

definition dto_given :: "(claim_key \<Rightarrow> bool) \<Rightarrow> api_error + bundle_dto \<Rightarrow> given \<Rightarrow> bool" where
  "dto_given who res own \<longleftrightarrow>
     (\<forall>dto k. res = Inr dto \<longrightarrow> bd_one_time_pre_key dto = Some k \<longrightarrow> (\<exists>n key. who key \<and> own n = Some (key, k)))"

lemma dto_given_error [simp]: "dto_given who (Inl e) own"
  by (simp add: dto_given_def)

lemma dto_given_none: "bd_one_time_pre_key dto = None \<Longrightarrow> dto_given who (Inr dto) own"
  by (simp add: dto_given_def)

lemma dto_given_some: "who key \<Longrightarrow> own n = Some (key, k) \<Longrightarrow> bd_one_time_pre_key dto = Some k \<Longrightarrow> dto_given who (Inr dto) own"
  unfolding dto_given_def by (metis option.inject sum.inject(2))

lemma grown: "own \<subseteq>\<^sub>m own' \<Longrightarrow> own n = Some p \<Longrightarrow> own' n = Some p"
  by (metis map_le_def domI)

lemma lasting_given: "lasting (\<subseteq>\<^sub>m) (dto_given who)"
  unfolding lasting_def dto_given_def by (blast dest: grown)

lemma claim_is_given:
  assumes "assigned L own w" "c \<in> set (aw_claims w)"
  shows "ck_pre_key c = Some k \<Longrightarrow> \<exists>n. own n = Some (claim_key L c, k)"
    and "ck_row_id c = None \<Longrightarrow> ck_pre_key c = None"
  using assms by (force simp: assigned_def given_claim_def split: option.splits)+

lemma assigned_claim:
  assumes "assigned L own w" "r \<in> set (aw_opks w)" "\<not> ok_consumed r" "given_claim L own' c"
    and own': "own' = own(ok_id r \<mapsto> (key, ok_pre_key r))"
    and key: "\<exists>x y z. key = (x, y, ok_user_id r, ap_collate L (ok_device_id r), z)"
  shows "own \<subseteq>\<^sub>m own' \<and> assigned L own' (w\<lparr>aw_opks := update_where (\<lambda>s. ok_id s = ok_id r)
      (\<lambda>s. s\<lparr>ok_consumed := True, ok_consumed_time := Some t\<rparr>) (aw_opks w), aw_claims := aw_claims w @ [c]\<rparr>)"
proof -
  have free: "own (ok_id r) = None"
  proof (cases "own (ok_id r)")
    case (Some p)
    obtain a b c d e k where p: "p = ((a, b, c, d, e), k)" by (metis surj_pair)
    have "given_row L own r" using assms(1,2) by (simp add: assigned_def)
    with Some p assms(3) show ?thesis unfolding given_row_def by blast
  qed
  then have le: "own \<subseteq>\<^sub>m own'" unfolding own' by (auto simp: map_le_def)
  have same: "s = r" if "s \<in> set (aw_opks w)" "ok_id s = ok_id r" for s
    using that assms(1,2) by (auto simp: assigned_def distinct_map dest: inj_onD)
  have rows: "given_row L own' (if ok_id s = ok_id r then s\<lparr>ok_consumed := True, ok_consumed_time := Some t\<rparr> else s)"
    if s: "s \<in> set (aw_opks w)" for s
  proof (cases "ok_id s = ok_id r")
    case True
    with same[OF s] key show ?thesis by (auto simp: given_row_def own')
  next
    case False
    moreover have "given_row L own s" using s assms(1) by (simp add: assigned_def)
    ultimately show ?thesis by (simp add: given_row_def own')
  qed
  have claims: "given_claim L own' d" if "d \<in> set (aw_claims w)" for d
  proof -
    have "given_claim L own d" using that assms(1) by (simp add: assigned_def)
    then show ?thesis unfolding given_claim_def by (cases "ck_row_id d") (simp, force dest: grown[OF le])
  qed
  have "map ok_id (update_where (\<lambda>s. ok_id s = ok_id r) (\<lambda>s. s\<lparr>ok_consumed := True, ok_consumed_time := Some t\<rparr>) (aw_opks w))
      = map ok_id (aw_opks w)" by simp
  moreover have "ok_id r < aw_next_opk w" using assms(1,2) by (simp add: assigned_def)
  moreover have "\<forall>n \<in> dom own'. n < aw_next_opk w" using assms(1,2) by (auto simp: assigned_def own')
  ultimately show ?thesis using le rows claims assms(1,4) unfolding assigned_def by (auto simp: set_update_where)
qed

text \<open>The transaction and what follows it.\<close>

lemma claim_transaction_traced:
  assumes "\<And>t. claim_key L (new_claim t) = key" "\<And>t. ck_row_id (new_claim t) = None" "\<And>t. ck_pre_key (new_claim t) = None"
  shows "traced (assigned L) (\<subseteq>\<^sub>m) (claim_transaction L new_claim)
    (\<lambda>res own. \<forall>r. res = Inr (Some (Some r)) \<longrightarrow> (\<exists>n. own n = Some (key, ok_pre_key r))) own"
  unfolding claim_transaction_def sql_execute_def
proof (rule traced_command)
  fix own1 w assume ok: "assigned L own1 w"
  let ?c = "new_claim (sql_now w)"
  let ?p = "\<lambda>r. own_opk L (ck_target_user_id ?c) (ck_target_device_id ?c) r \<and> \<not> ok_consumed r"
  let ?f = "\<lambda>w. let c = new_claim (sql_now w) in
     if \<exists>r \<in> set (aw_claims w). claim_key L r = claim_key L c then (Inr None, w)
     else
       (case find (\<lambda>r. own_opk L (ck_target_user_id c) (ck_target_device_id c) r \<and> \<not> ok_consumed r) (aw_opks w) of
          None \<Rightarrow> (Inr (Some None), w\<lparr>aw_claims := aw_claims w @ [c]\<rparr>)
        | Some o' \<Rightarrow>
            (Inr (Some (Some o')),
             w\<lparr>aw_opks := update_where (\<lambda>r. ok_id r = ok_id o')
                 (\<lambda>r. r\<lparr>ok_consumed := True, ok_consumed_time := Some (sql_now w)\<rparr>) (aw_opks w),
               aw_claims := aw_claims w @ [c\<lparr>ck_row_id := Some (ok_id o'),
                 ck_pre_key_id := Some (unwrap_or (ok_pre_key_id o') 0), ck_pre_key := Some (ok_pre_key o')\<rparr>]\<rparr>))"
  show "\<exists>own2. own1 \<subseteq>\<^sub>m own2 \<and> assigned L own2 (snd (?f w)) \<and>
      (\<forall>r. fst (?f w) = Inr (Some (Some r)) \<longrightarrow> (\<exists>n. own2 n = Some (key, ok_pre_key r)))"
  proof (cases "\<exists>r \<in> set (aw_claims w). claim_key L r = claim_key L ?c")
    case True
    then show ?thesis using ok by (auto simp: Let_def intro!: exI[of _ own1])
  next
    case free: False
    show ?thesis
    proof (cases "find ?p (aw_opks w)")
      case None
      have "assigned L own1 (w\<lparr>aw_claims := aw_claims w @ [?c]\<rparr>)"
        using ok assms(2,3) by (simp add: assigned_def given_claim_def)
      with None free show ?thesis by (auto simp: Let_def intro!: exI[of _ own1])
    next
      case (Some r)
      then have r: "r \<in> set (aw_opks w)" "?p r" by (auto simp: find_Some_iff)
      let ?own = "own1(ok_id r \<mapsto> (key, ok_pre_key r))"
      let ?d = "?c\<lparr>ck_row_id := Some (ok_id r), ck_pre_key_id := Some (unwrap_or (ok_pre_key_id r) 0),
        ck_pre_key := Some (ok_pre_key r)\<rparr>"
      have "claim_key L ?d = key" using assms(1)[of "sql_now w"] by (simp add: claim_key_def)
      then have "given_claim L ?own ?d" by (simp add: given_claim_def)
      moreover have "\<exists>x y z. key = (x, y, ok_user_id r, ap_collate L (ok_device_id r), z)"
        using r(2) assms(1)[of "sql_now w"] by (auto simp: claim_key_def own_opk_def)
      ultimately have "own1 \<subseteq>\<^sub>m ?own \<and> assigned L ?own (snd (?f w))"
        using assigned_claim[OF ok r(1), of ?own ?d key "sql_now w"] r(2) Some free by (simp add: Let_def)
      moreover have "?own (ok_id r) = Some (key, ok_pre_key q)" if "fst (?f w) = Inr (Some (Some q))" for q
        using that Some free by (simp add: Let_def)
      ultimately show ?thesis by (intro exI[of _ ?own]) blast
    qed
  qed
qed simp_all

text \<open>A claim that was there before: what it says was given, or is tried again.\<close>

definition claim_given :: "claim_key \<Rightarrow> claim_row option \<Rightarrow> given \<Rightarrow> bool" where
  "claim_given key claim own \<longleftrightarrow> (\<forall>c k. claim = Some c \<longrightarrow> ck_pre_key c = Some k \<longrightarrow> (\<exists>n. own n = Some (key, k)))"

lemma claim_given_later: "claim_given key claim own \<Longrightarrow> own \<subseteq>\<^sub>m own' \<Longrightarrow> claim_given key claim own'"
  unfolding claim_given_def by (blast dest: grown)

lemma repeated_given:
  assumes "who key" "bd_one_time_pre_key base = None" "claim_given key claim own"
  shows "dto_given who (Inr (repeated_dto base claim signature)) own"
proof (cases claim)
  case None
  with assms(2) show ?thesis by (simp add: repeated_dto_def dto_given_none)
next
  case (Some c)
  show ?thesis
  proof (cases "ck_pre_key c")
    case None
    with Some show ?thesis by (simp add: repeated_dto_def dto_given_none)
  next
    case key: (Some k)
    with Some assms(3) obtain n where "own n = Some (key, k)" unfolding claim_given_def by blast
    with Some key assms(1) show ?thesis
      by (intro dto_given_some[of who key own n k]) (simp_all add: repeated_dto_def)
  qed
qed

lemma claimed_given:
  assumes "who key" "bd_one_time_pre_key base = None" "\<forall>r. taken = Some r \<longrightarrow> (\<exists>n. own n = Some (key, ok_pre_key r))"
  shows "dto_given who (Inr (claimed_dto base taken)) own"
proof (cases taken)
  case None
  with assms(2) show ?thesis by (simp add: claimed_dto_def dto_given_none)
next
  case (Some r)
  with assms(3) obtain n where "own n = Some (key, ok_pre_key r)" by blast
  with Some assms(1) show ?thesis
    by (intro dto_given_some[of who key own n "ok_pre_key r"]) (simp_all add: claimed_dto_def)
qed

lemma read_claim_traced:
  "traced (assigned L) (\<subseteq>\<^sub>m) (sql_query (\<lambda>w. row_of (claim_key L) key (aw_claims w)))
     (\<lambda>res own. \<forall>claim. res = Inr claim \<longrightarrow> claim_given key claim own) own"
  unfolding sql_query_def
proof (rule traced_command)
  fix own1 w assume ok: "assigned L own1 w"
  have "claim_given key (row_of (claim_key L) key (aw_claims w)) own1"
    unfolding claim_given_def using claim_is_given(1)[OF ok] row_of_Some by fast
  with ok show "\<exists>own2. own1 \<subseteq>\<^sub>m own2 \<and> assigned L own2 (snd (Inr (row_of (claim_key L) key (aw_claims w)) :: api_error + _, w)) \<and>
      (\<forall>claim. fst (Inr (row_of (claim_key L) key (aw_claims w)) :: api_error + _, w) = Inr claim \<longrightarrow> claim_given key claim own2)"
    by (intro exI[of _ own1]) simp
qed simp_all

lemma repeat_traced:
  assumes "who key" "bd_one_time_pre_key base = None"
    and retry: "\<And>own. traced (assigned L) (\<subseteq>\<^sub>m) retry (dto_given who) own"
  shows "traced (assigned L) (\<subseteq>\<^sub>m) (act_then (sql_query (\<lambda>w. row_of (claim_key L) key (aw_claims w))) (\<lambda>claim.
      case Option.bind claim ck_row_id of
        None \<Rightarrow> act_ok (repeated_dto base claim None)
      | Some row_id \<Rightarrow>
          act_then (sql_query (\<lambda>w. row_of ok_id row_id (aw_opks w))) (\<lambda>otk.
            case otk of
              None \<Rightarrow> act_then (delete_claim L key) (\<lambda>_. retry)
            | Some r \<Rightarrow> act_ok (repeated_dto base claim (ok_signature r))))) (dto_given who) own"
proof (rule keys.traced_then[OF read_claim_traced])
  fix claim own1 assume "\<forall>c. (Inr claim :: api_error + _) = Inr c \<longrightarrow> claim_given key c own1"
  then have given: "claim_given key claim own1" by blast
  have again: "traced (assigned L) (\<subseteq>\<^sub>m) (act_then (delete_claim L key) (\<lambda>_. retry)) (dto_given who) own" for own
    by (rule keys.traced_after[where Q = "\<lambda>_. True"]) (intro ensures_intros, rule retry, simp)
  have "traced (assigned L) (\<subseteq>\<^sub>m) (act_then (sql_query (\<lambda>w. row_of ok_id row_id (aw_opks w))) (\<lambda>otk.
      case otk of
        None \<Rightarrow> act_then (delete_claim L key) (\<lambda>_. retry)
      | Some r \<Rightarrow> act_ok (repeated_dto base claim (ok_signature r)))) (dto_given who) own1" for row_id
    by (rule keys.traced_after[where Q = "\<lambda>_. True"])
      (intro ensures_intros, auto split: option.split intro!: again repeated_given assms claim_given_later[OF given])
  with repeated_given[where who = who and key = key, OF assms(1,2) given] show "traced (assigned L) (\<subseteq>\<^sub>m) (case Option.bind claim ck_row_id of
        None \<Rightarrow> act_ok (repeated_dto base claim None)
      | Some row_id \<Rightarrow>
          act_then (sql_query (\<lambda>w. row_of ok_id row_id (aw_opks w))) (\<lambda>otk.
            case otk of
              None \<Rightarrow> act_then (delete_claim L key) (\<lambda>_. retry)
            | Some r \<Rightarrow> act_ok (repeated_dto base claim (ok_signature r)))) (dto_given who) own1"
    by (cases "Option.bind claim ck_row_id") simp_all
qed simp

lemma attempts_traced:
  assumes "\<And>t. claim_key L (new_claim t) = key" "\<And>t. ck_row_id (new_claim t) = None" "\<And>t. ck_pre_key (new_claim t) = None"
    and "who key" "bd_one_time_pre_key base = None"
  shows "traced (assigned L) (\<subseteq>\<^sub>m) (claim_attempts n L new_claim base) (dto_given who) own"
proof (induction n arbitrary: own)
  case 0
  show ?case by simp
next
  case (Suc n)
  note repeat = repeat_traced[OF assms(4,5) Suc.IH]
  show ?case
    unfolding claim_attempts.simps Let_def assms(1)
    by (rule keys.traced_then[OF claim_transaction_traced[OF assms(1-3)]])
      (auto split: option.split intro: repeat claimed_given[where who = who and key = key, OF assms(4,5)])
qed

section \<open>Requests\<close>

text \<open>What a request for a bundle does before the claim only reads.\<close>

lemma caller_known: "ensures (\<lambda>_. True) (keeps_keys L) (caller_of L' config headers)
    (\<lambda>r. \<forall>c. r = Inr c \<longrightarrow> (\<exists>now. identity_from_headers L' now headers config = Inr c))"
  unfolding caller_of_def by (rule ensures_then[OF key_tables.guarantees_now]) auto

lemma needed_param_Inr: "needed_param params name = Inr v \<Longrightarrow> params name = Some v"
  by (auto simp: needed_param_def split: option.splits if_splits)

lemma get_bundle_traced: "traced (assigned L) (\<subseteq>\<^sub>m) (get_bundle L config headers params)
    (dto_given (claimant L config headers params)) own"
  unfolding get_bundle_def
  apply (rule keys.traced_after[OF caller_known])
  apply (rule known_then)+
  apply (rule checked_then)
  apply (rule keys.traced_after[where Q = "\<lambda>_. True"], intro ensures_intros)
  apply (rule known_then)+
  apply (rule checked_then)
  apply (rule keys.traced_after[where Q = "\<lambda>_. True"], intro ensures_intros)+
  apply (rule attempts_traced)
  apply (simp_all add: base_bundle_def empty_claim_def claim_key_def claimant_def)
  apply (blast dest: needed_param_Inr)
  done

end
