(* ===== verification/Api_Key_Properties.thy ===== *)
theory Api_Key_Properties
  imports Api_Key_Rules Api_Samples
begin

text \<open>
  What the key directory promises to those who start a conversation: a one-time pre-key goes to one
  claimant, and asking again gives the same answer.
\<close>

section \<open>One claimant for a pre-key\<close>

text \<open>A task is a request for a bundle, or something else that touches the pre-keys.\<close>

abbreviation silently :: "'a api \<Rightarrow> bundle_dto option api" where
  "silently m \<equiv> act_then m (\<lambda>_. act_ok None)"

fun key_task :: "api_lib \<Rightarrow> api_config \<Rightarrow> (header_map \<times> params) option \<Rightarrow> bundle_dto option api \<Rightarrow> bool" where
  "key_task L config (Some (headers, params)) t \<longleftrightarrow> t = act_then (get_bundle L config headers params) (\<lambda>d. act_ok (Some d))"
| "key_task L config None t \<longleftrightarrow>
     (\<exists>headers request. t = silently (upload_bundle L config headers request)) \<or>
     (\<exists>headers request. t = silently (refill_opk L config headers request)) \<or>
     (\<exists>headers. t = silently (delete_expired_opk L config headers)) \<or>
     (\<exists>headers device_id. t = silently (delete_device L config headers device_id)) \<or>
     t = silently (cleanup_stale_devices L)"

fun task_given :: "api_lib \<Rightarrow> api_config \<Rightarrow> (header_map \<times> params) option \<Rightarrow> api_error + bundle_dto option \<Rightarrow> given \<Rightarrow> bool" where
  "task_given L config (Some (headers, params)) res own \<longleftrightarrow>
     (\<forall>d. res = Inr (Some d) \<longrightarrow> dto_given (claimant L config headers params) (Inr d) own)"
| "task_given L config None res own \<longleftrightarrow> True"

lemma task_given_lasting: "lasting (\<subseteq>\<^sub>m) (task_given L config request)"
  using lasting_given unfolding lasting_def by (cases request) auto

lemma silent_traced:
  assumes "keeps L m"
  shows "traced (assigned L) (\<subseteq>\<^sub>m) (silently m) (\<lambda>_ _. True) own"
  by (rule keys.traced_after[where Q = "\<lambda>_. True"]) (use assms in auto)

lemma key_task_traced: "key_task L config request t \<Longrightarrow> traced (assigned L) (\<subseteq>\<^sub>m) t (task_given L config request) own"
proof (induction L config request t rule: key_task.induct)
  case (1 L config headers params t)
  show ?case
    unfolding 1[unfolded key_task.simps]
    by (rule keys.traced_then[OF get_bundle_traced]) auto
next
  case (2 L config t)
  have "task_given L config None = (\<lambda>_ _. True)" by (simp add: fun_eq_iff)
  with 2 show ?case
    by (auto intro: silent_traced keeps_upload_bundle keeps_refill_opk keeps_expired keeps_delete_device keeps_cleanup)
qed

text \<open>
  C27: One claimant for a pre-key. Requests for bundles, uploads, refills, deletions and the daily
  cleanup run side by side, interleaved in any way with each other and with everything that leaves the
  pre-keys alone; any command may fail or lose its reply. There is a single assignment of the rows of
  pre-keys to claimants, extending any assignment the stores had at the start, such that every answer
  with a one-time pre-key is for a row assigned to the claimant that asked: no row is ever given to
  two users, devices or conversations, even after claims or rows have been deleted and published
  again. A row that is assigned is consumed, holds the key that was given, and belongs to the device
  that was asked for.
\<close>

theorem pre_keys_given_once:
  assumes "list_all2 (key_task L config) requests ts" "assigned L own w" "sys_runs keys_env (ts, w) (ts', w')"
  shows "\<exists>own'. own \<subseteq>\<^sub>m own' \<and> assigned L own' w' \<and>
    (\<forall>i headers params dto k. i < length ts' \<and> requests ! i = Some (headers, params) \<and> ts' ! i = act_ok (Some dto) \<and>
       bd_one_time_pre_key dto = Some k \<longrightarrow> (\<exists>n key. claimant L config headers params key \<and> own' n = Some (key, k)))"
proof -
  let ?Q = "\<lambda>t Q own. lasting (\<subseteq>\<^sub>m) Q \<and> traced (assigned L) (\<subseteq>\<^sub>m) t Q own"
  have start: "list_all2 (\<lambda>t Q. ?Q t Q own) ts (map (task_given L config) requests)"
    using assms(1) by (auto simp: list_all2_conv_all_nth intro: task_given_lasting key_task_traced)
  from keys.runs_traced[OF assms(3,2) start] obtain own' where own': "own \<subseteq>\<^sub>m own'" "assigned L own' w'"
    "list_all2 (\<lambda>t Q. ?Q t Q own') ts' (map (task_given L config) requests)" by blast
  have "\<exists>n key. claimant L config headers params key \<and> own' n = Some (key, k)"
    if "i < length ts'" "requests ! i = Some (headers, params)" "ts' ! i = act_ok (Some dto)" "bd_one_time_pre_key dto = Some k"
    for i headers params dto k
    using list_all2_nthD[OF own'(3) that(1)] list_all2_lengthD[OF own'(3)] that by (simp add: dto_given_def)
  with own'(1,2) show ?thesis by blast
qed

text \<open>Alice and Carol, at the same time, for the only pre-key of Bob's device.\<close>

definition sample_device :: "int \<Rightarrow> string \<Rightarrow> device_row" where
  "sample_device user_id device_id = \<lparr>dv_user_id = user_id, dv_device_id = device_id, dv_status = ''active'',
     dv_identity_key = ''ik'', dv_signing_identity_key = ''sk'', dv_signed_pre_key = ''spk'',
     dv_signed_pre_key_signature = ''sig'', dv_last_active_at = 1700000000\<rparr>"

definition sample_opk :: "int \<Rightarrow> string \<Rightarrow> opk_row" where
  "sample_opk n k = \<lparr>ok_id = n, ok_user_id = 2, ok_device_id = ''b'', ok_pre_key = k, ok_pre_key_id = Some n,
     ok_signature = Some ''s'', ok_consumed = False, ok_created_time = 1699999999, ok_consumed_time = None\<rparr>"

definition keys_world :: "opk_row list \<Rightarrow> api_world" where
  "keys_world rows = (empty_world 1700000000000)\<lparr>aw_devices := [sample_device 1 ''a'', sample_device 2 ''b'', sample_device 3 ''c''],
     aw_opks := rows, aw_next_opk := 10\<rparr>"

definition ask_bob :: "string \<Rightarrow> string \<Rightarrow> params" where
  "ask_bob device conversation = [''userId'' \<mapsto> ''2'', ''deviceId'' \<mapsto> ''b'', ''requesterDeviceId'' \<mapsto> device,
     ''conversationId'' \<mapsto> conversation]"

abbreviation alice_asks :: "string \<Rightarrow> bundle_dto api" where
  "alice_asks conversation \<equiv> get_bundle sample_api sample_api_config (bearer ''alice'') (ask_bob ''a'' conversation)"

abbreviation carol_asks :: "string \<Rightarrow> bundle_dto api" where
  "carol_asks conversation \<equiv> get_bundle sample_api sample_api_config (bearer ''carol'') (ask_bob ''c'' conversation)"

lemma sample_conversations:
  "parse_private_conversation_members ''p_1_2'' = Some (1, 2)" "parse_private_conversation_members ''p_2_3'' = Some (2, 3)"
  "parse_private_conversation_members ''1_2'' = Some (1, 2)" "parse_private_conversation_members ''p_01_2'' = Some (1, 2)"
  "parse_private_conversation_members ''p_2_1'' = Some (2, 1)"
  by (simp_all add: parse_private_conversation_members_def strip_prefix_def parse_i64_def parse_nat_def digit_value_def)

lemma sample_user_id: "parse_user_id ''2'' = Inr 2"
  by (simp add: parse_user_id_def parse_i64_def parse_nat_def digit_value_def)

lemma sample_trims:
  "trim ''p_1_2'' = ''p_1_2''" "trim ''p_2_3'' = ''p_2_3''" "trim ''1_2'' = ''1_2''" "trim ''p_01_2'' = ''p_01_2''"
  "trim ''p_2_1'' = ''p_2_1''" "trim ''a'' = ''a''" "trim ''c'' = ''c''"
  by (simp_all add: trim_trimmed trimmed_def white_spaces_def)

lemmas ask_steps = caller_of_def bearer_identity sample_user_def ask_bob_def needed_param_def ok_or_def
  ensure_conversation_member_def ensure_device_belongs_to_user_def sample_conversations sample_user_id sample_trims
  act_check_def now_ms_def act_get_def sql_query_def sql_execute_def command_def sample_collation
  next_outcome_def outcome_used_def Let_def count_where_def keys_world_def empty_world_def sample_device_def sample_opk_def
  active_device_def base_bundle_def empty_claim_def numeral_2_eq_2

lemmas claim_steps = claim_transaction_def claim_key_def own_opk_def update_where_def claimed_dto_def repeated_dto_def
  sql_now_def

definition bob_bundle :: "(string \<times> int) option \<Rightarrow> bundle_dto" where
  "bob_bundle m = \<lparr>bd_user_id = ''2'', bd_device_id = ''b'', bd_identity_key = ''ik'', bd_signing_identity_key = ''sk'',
     bd_signed_pre_key = ''spk'', bd_signed_pre_key_signature = ''sig'', bd_one_time_pre_key = map_option fst m,
     bd_one_time_pre_key_id = map_option snd m, bd_one_time_pre_key_signature = map_option (\<lambda>_. ''s'') m,
     bd_opk_fallback = (m = None)\<rparr>"

lemma show_two: "show_int 2 = ''2''"
  by code_simp

lemma alice_gets:
  "run (alice_asks ''p_1_2'') (keys_world [sample_opk 7 ''k'']) = (Inr (bob_bundle (Some (''k'', 7))),
     (keys_world [(sample_opk 7 ''k'')\<lparr>ok_consumed := True, ok_consumed_time := Some 1700000000\<rparr>])
       \<lparr>aw_claims := [(empty_claim 1 ''a'' 2 ''b'' ''p_1_2'' 1700000000)
          \<lparr>ck_row_id := Some 7, ck_pre_key_id := Some 7, ck_pre_key := Some ''k''\<rparr>]\<rparr>)"
  by (simp add: get_bundle_def ask_steps claim_steps bob_bundle_def show_two)

lemma carol_gets_none:
  "fst (run (carol_asks ''p_2_3'') ((keys_world [(sample_opk 7 ''k'')\<lparr>ok_consumed := True, ok_consumed_time := Some 1700000000\<rparr>])
       \<lparr>aw_claims := [(empty_claim 1 ''a'' 2 ''b'' ''p_1_2'' 1700000000)
          \<lparr>ck_row_id := Some 7, ck_pre_key_id := Some 7, ck_pre_key := Some ''k''\<rparr>]\<rparr>)) = Inr (bob_bundle None)"
  by (simp add: get_bundle_def ask_steps claim_steps bob_bundle_def show_two)

lemma run_then_ok: "fst (run m w) = Inr x \<Longrightarrow> run (act_then m (\<lambda>d. act_ok (f d))) w = (Inr (f x), snd (run m w))"
  by (cases "run m w") (simp add: run_then)

theorem pre_keys_given_once_witness:
  "\<exists>ts' w' own'. sys_runs keys_env ([act_then (alice_asks ''p_1_2'') (\<lambda>d. act_ok (Some d)),
       act_then (carol_asks ''p_2_3'') (\<lambda>d. act_ok (Some d))], keys_world [sample_opk 7 ''k'']) (ts', w') \<and>
     ts' = [act_ok (Some (bob_bundle (Some (''k'', 7)))), act_ok (Some (bob_bundle None))] \<and>
     assigned sample_api own' w' \<and>
     (\<exists>n key. claimant sample_api sample_api_config (bearer ''alice'') (ask_bob ''a'' ''p_1_2'') key \<and> own' n = Some (key, ''k''))"
proof -
  let ?a = "act_then (alice_asks ''p_1_2'') (\<lambda>d. act_ok (Some d))"
  let ?c = "act_then (carol_asks ''p_2_3'') (\<lambda>d. act_ok (Some d))"
  let ?w = "keys_world [sample_opk 7 ''k'']"
  let ?ra = "act_ok (Some (bob_bundle (Some (''k'', 7)))) :: bundle_dto option api"
    and ?rc = "act_ok (Some (bob_bundle None)) :: bundle_dto option api"
  have a: "run ?a ?w = (Inr (Some (bob_bundle (Some (''k'', 7)))), snd (run (alice_asks ''p_1_2'') ?w))"
    by (rule run_then_ok) (simp add: alice_gets)
  have c: "fst (run ?c (snd (run ?a ?w))) = Inr (Some (bob_bundle None))"
    unfolding a by (subst run_then_ok[where x = "bob_bundle None"]) (simp_all add: alice_gets carol_gets_none)
  have runs: "sys_runs keys_env ([?a, ?c], ?w) ([?ra, ?rc], snd (run ?c (snd (run ?a ?w))))"
    using one_after_the_other[of keys_env ?a ?c ?w] a c by simp
  have tasks: "list_all2 (key_task sample_api sample_api_config)
      [Some (bearer ''alice'', ask_bob ''a'' ''p_1_2''), Some (bearer ''carol'', ask_bob ''c'' ''p_2_3'')] [?a, ?c]" by simp
  have ok: "assigned sample_api Map.empty ?w"
    by (simp add: assigned_def given_row_def keys_world_def empty_world_def sample_opk_def)
  obtain own' where own': "assigned sample_api own' (snd (run ?c (snd (run ?a ?w))))"
    "\<forall>i headers params dto k. i < length [?ra, ?rc] \<and>
       [Some (bearer ''alice'', ask_bob ''a'' ''p_1_2''), Some (bearer ''carol'', ask_bob ''c'' ''p_2_3'')] ! i = Some (headers, params) \<and>
       [?ra, ?rc] ! i = act_ok (Some dto) \<and> bd_one_time_pre_key dto = Some k \<longrightarrow>
       (\<exists>n key. claimant sample_api sample_api_config headers params key \<and> own' n = Some (key, k))"
    using pre_keys_given_once[OF tasks ok runs] by (elim exE conjE) (rule that)
  from own'(2)[rule_format, of 0 "bearer ''alice''" "ask_bob ''a'' ''p_1_2''" "bob_bundle (Some (''k'', 7))" "''k''"]
  have "\<exists>n key. claimant sample_api sample_api_config (bearer ''alice'') (ask_bob ''a'' ''p_1_2'') key \<and> own' n = Some (key, ''k'')"
    by (simp add: bob_bundle_def)
  with runs own'(1) show ?thesis by blast
qed

section \<open>Asking again\<close>

text \<open>What the checks before the claim depend on.\<close>

definition bundle_checks ::
  "api_lib \<Rightarrow> api_config \<Rightarrow> header_map \<Rightarrow> params \<Rightarrow> api_world \<Rightarrow> ((int \<Rightarrow> claim_row) \<times> bundle_dto) \<Rightarrow> bool"
where
  "bundle_checks L config headers params w = (\<lambda>(new_claim, base).
     \<exists>caller target device_id d conversation requester_device.
       identity_from_headers L (aw_now w) headers config = Inr caller \<and>
       (\<exists>raw. params ''userId'' = Some raw \<and> parse_user_id raw = Inr target) \<and>
       params ''deviceId'' = Some device_id \<and> device_id \<noteq> [] \<and> length device_id \<le> 64 \<and>
       find (active_device L target device_id) (aw_devices w) = Some d \<and>
       needed_param params ''conversationId'' = Inr conversation \<and>
       needed_param params ''requesterDeviceId'' = Inr requester_device \<and> length requester_device \<le> 64 \<and>
       fst (run (ensure_conversation_member (id_user_id caller) conversation) w) = Inr () \<and>
       fst (run (ensure_conversation_member target conversation) w) = Inr () \<and>
       fst (run (ensure_device_belongs_to_user L device_id target) w) = Inr () \<and>
       fst (run (ensure_device_belongs_to_user L requester_device (id_user_id caller)) w) = Inr () \<and>
       new_claim = empty_claim (id_user_id caller) requester_device target device_id conversation \<and>
       base = base_bundle target device_id d)"

lemma member_run: "quiet w \<Longrightarrow> run (ensure_conversation_member u c) w = (fst (run (ensure_conversation_member u c) w), w)"
  by (auto simp: ensure_conversation_member_def run_simps split: option.split prod.split)

lemma device_run: "quiet w \<Longrightarrow> run (ensure_device_belongs_to_user L d u) w = (fst (run (ensure_device_belongs_to_user L d u) w), w)"
  by (auto simp: ensure_device_belongs_to_user_def run_simps)

lemma get_bundle_run:
  assumes "quiet w"
  shows "run (get_bundle L config headers params) w = (Inr dto, w') \<longleftrightarrow>
    (\<exists>new_claim base. bundle_checks L config headers params w (new_claim, base) \<and>
      run (claim_attempts 2 L new_claim base) w = (Inr dto, w'))"
proof -
  define m where "m = (\<lambda>u c. fst (run (ensure_conversation_member u c) w))"
  define d where "d = (\<lambda>x u. fst (run (ensure_device_belongs_to_user L x u) w))"
  have m: "run (ensure_conversation_member u c) w = (m u c, w)" for u c using member_run[OF assms] by (simp add: m_def)
  have d: "run (ensure_device_belongs_to_user L x u) w = (d x u, w)" for x u using device_run[OF assms] by (simp add: d_def)
  show ?thesis
    using assms unfolding get_bundle_def bundle_checks_def caller_of_def
    by (auto simp: run_simps m d ok_or_def split: sum.splits option.splits if_splits)
qed

text \<open>The claim of a key, with what belongs to it, answers a request.\<close>

definition answers :: "api_lib \<Rightarrow> claim_key \<Rightarrow> bundle_dto \<Rightarrow> api_world \<Rightarrow> bundle_dto \<Rightarrow> bool" where
  "answers L key base w dto \<longleftrightarrow>
     (\<exists>c. row_of (claim_key L) key (aw_claims w) = Some c \<and>
       (case ck_row_id c of
          None \<Rightarrow> dto = repeated_dto base (Some c) None
        | Some n \<Rightarrow> \<exists>r. row_of ok_id n (aw_opks w) = Some r \<and> dto = repeated_dto base (Some c) (ok_signature r)))"

lemma answers_run:
  assumes "quiet w" "\<And>t. claim_key L (new_claim t) = key" "answers L key base w dto"
  shows "run (claim_attempts (Suc n) L new_claim base) w = (Inr dto, w)"
proof -
  obtain c where c: "row_of (claim_key L) key (aw_claims w) = Some c" using assms(3) unfolding answers_def by blast
  then have taken: "\<exists>r \<in> set (aw_claims w). claim_key L r = key" using row_of_Some by fast
  have "run (claim_transaction L new_claim) w = (Inr None, w)"
    using assms(1) taken by (simp add: claim_transaction_def run_simps Let_def assms(2))
  with assms c show ?thesis by (auto simp: run_simps Let_def answers_def split: option.splits)
qed

definition claimed_only :: "api_world \<Rightarrow> api_world \<Rightarrow> bool" where
  "claimed_only w w' \<longleftrightarrow> (\<exists>opks claims. w' = w\<lparr>aw_opks := opks, aw_claims := claims\<rparr>)"

lemma claimed_quiet: "claimed_only w w' \<Longrightarrow> quiet w \<Longrightarrow> quiet w'"
  by (auto simp: claimed_only_def quiet_def)

lemma claimed_same: "claimed_only w w"
  unfolding claimed_only_def by (rule exI[of _ "aw_opks w"], rule exI[of _ "aw_claims w"]) simp

lemma claimed_trans: "claimed_only a b \<Longrightarrow> claimed_only b c \<Longrightarrow> claimed_only a c"
  unfolding claimed_only_def by (elim exE, simp, blast)

lemma checks_after:
  assumes "claimed_only w w'" "quiet w"
  shows "bundle_checks L config headers params w' = bundle_checks L config headers params w"
proof -
  have quiet: "quiet w'" using claimed_quiet[OF assms] .
  have "fst (run (ensure_conversation_member u c) w') = fst (run (ensure_conversation_member u c) w)" for u c
    using assms quiet by (auto simp: ensure_conversation_member_def run_simps claimed_only_def split: option.split prod.split)
  moreover have "fst (run (ensure_device_belongs_to_user L x u) w') = fst (run (ensure_device_belongs_to_user L x u) w)" for x u
    using assms quiet by (auto simp: ensure_device_belongs_to_user_def run_simps claimed_only_def)
  moreover have "aw_now w' = aw_now w" "aw_devices w' = aw_devices w" using assms(1) by (auto simp: claimed_only_def)
  ultimately show ?thesis unfolding bundle_checks_def by simp
qed

lemma transaction_answers:
  assumes "quiet w" "distinct (map ok_id (aw_opks w))" "\<not> (\<exists>r \<in> set (aw_claims w). claim_key L r = claim_key L (empty_claim u rd tu td cv 0))"
    and "run (claim_transaction L (empty_claim u rd tu td cv)) w = (res, w')"
  shows "\<exists>taken. res = Inr (Some taken) \<and> claimed_only w w' \<and>
    answers L (claim_key L (empty_claim u rd tu td cv 0)) (base_bundle tu td d) w' (claimed_dto (base_bundle tu td d) taken)"
proof -
  let ?c = "empty_claim u rd tu td cv (sql_now w)"
  have key: "claim_key L ?c = claim_key L (empty_claim u rd tu td cv 0)" by (simp add: claim_key_def empty_claim_def)
  have free: "row_of (claim_key L) (claim_key L ?c) (aw_claims w) = None" using assms(3) by (auto simp: row_of_None key)
  let ?p = "\<lambda>r. own_opk L tu td r \<and> \<not> ok_consumed r"
  have fields: "ck_target_user_id ?c = tu" "ck_target_device_id ?c = td" "ck_row_id ?c = None" "ck_pre_key ?c = None"
    "ck_pre_key_id ?c = None" by (simp_all add: empty_claim_def)
  note run = assms(4)[unfolded claim_transaction_def run_execute[OF assms(1)] Let_def fields]
  show ?thesis
  proof (cases "find ?p (aw_opks w)")
    case None
    then have res: "res = Inr (Some None)" "w' = w\<lparr>aw_claims := aw_claims w @ [?c]\<rparr>" using run assms(3) by (simp_all add: key)
    have "row_of (claim_key L) (claim_key L ?c) (aw_claims w') = Some ?c" using free by (simp add: res(2) row_of_append)
    then have "answers L (claim_key L ?c) (base_bundle tu td d) w' (claimed_dto (base_bundle tu td d) None)"
      by (simp add: answers_def fields claimed_dto_def repeated_dto_def base_bundle_def)
    moreover have "claimed_only w w'" unfolding claimed_only_def res(2) by (rule exI[of _ "aw_opks w"]) (simp, blast)
    ultimately show ?thesis unfolding key using res(1) by blast
  next
    case (Some r)
    let ?f = "\<lambda>s. s\<lparr>ok_consumed := True, ok_consumed_time := Some (sql_now w)\<rparr>"
    let ?rows = "update_where (\<lambda>s. ok_id s = ok_id r) ?f (aw_opks w)"
    let ?d = "?c\<lparr>ck_row_id := Some (ok_id r), ck_pre_key_id := Some (unwrap_or (ok_pre_key_id r) 0), ck_pre_key := Some (ok_pre_key r)\<rparr>"
    from Some have res: "res = Inr (Some (Some r))" "w' = w\<lparr>aw_opks := ?rows, aw_claims := aw_claims w @ [?d]\<rparr>"
      using run assms(3) by (simp_all add: key)
    have "claim_key L ?d = claim_key L ?c" by (simp add: claim_key_def)
    then have c: "row_of (claim_key L) (claim_key L ?c) (aw_claims w') = Some ?d" using free by (simp add: res(2) row_of_append)
    have "r \<in> set (aw_opks w)" using Some by (auto simp: find_Some_iff)
    then have "row_of ok_id (ok_id r) (aw_opks w) = Some r" using assms(2) by (rule row_of_distinct[rotated])
    then have "row_of ok_id (ok_id r) (aw_opks w') = Some (?f r)" by (simp add: res(2) row_of_update)
    with c have "answers L (claim_key L ?c) (base_bundle tu td d) w' (claimed_dto (base_bundle tu td d) (Some r))"
      by (simp add: answers_def fields claimed_dto_def repeated_dto_def base_bundle_def)
    moreover have "claimed_only w w'" unfolding claimed_only_def res(2) by blast
    ultimately show ?thesis unfolding key using res(1) by blast
  qed
qed

lemma run_answers:
  assumes "quiet w" "distinct (map ok_id (aw_opks w))"
    and "run (claim_attempts n L (empty_claim u rd tu td cv) (base_bundle tu td d)) w = (Inr dto, w')"
  shows "answers L (claim_key L (empty_claim u rd tu td cv 0)) (base_bundle tu td d) w' dto \<and> claimed_only w w'"
  using assms
proof (induction n arbitrary: w)
  case (Suc n)
  let ?new = "empty_claim u rd tu td cv" and ?base = "base_bundle tu td d"
  define key where "key = claim_key L (?new 0)"
  have key: "claim_key L (?new t) = key" for t by (simp add: key_def claim_key_def empty_claim_def)
  have "answers L key ?base w' dto \<and> claimed_only w w'"
  proof (cases "\<exists>r \<in> set (aw_claims w). claim_key L r = key")
    case True
    then have taken: "run (claim_transaction L ?new) w = (Inr None, w)"
      using Suc.prems(1) by (simp add: claim_transaction_def run_simps Let_def key)
    from True obtain c where c: "row_of (claim_key L) key (aw_claims w) = Some c"
      by (cases "row_of (claim_key L) key (aw_claims w)") (auto simp: row_of_None)
    show ?thesis
    proof (cases "\<exists>n. ck_row_id c = Some n \<and> row_of ok_id n (aw_opks w) = None")
      case False
      note run = Suc.prems(3)[unfolded claim_attempts.simps, simplified run_then taken, simplified,
          unfolded Let_def key run_then run_query[OF Suc.prems(1)] c]
      show ?thesis
      proof (cases "ck_row_id c")
        case None
        with run c show ?thesis by (simp add: answers_def claimed_same)
      next
        case (Some m)
        with False obtain r where "row_of ok_id m (aw_opks w) = Some r" by fastforce
        with Some run c show ?thesis by (simp add: answers_def claimed_same run_then run_query[OF Suc.prems(1)])
      qed
    next
      case True
      let ?w = "w\<lparr>aw_claims := delete_where (\<lambda>r. claim_key L r = key) (aw_claims w)\<rparr>"
      from True obtain m where m: "ck_row_id c = Some m" "row_of ok_id m (aw_opks w) = None" by blast
      have "run (claim_attempts n L ?new ?base) ?w = (Inr dto, w')"
        using Suc.prems(3) unfolding claim_attempts.simps
        by (simp add: taken run_then run_query[OF Suc.prems(1)] Let_def key c m delete_claim_def run_execute[OF Suc.prems(1)])
      moreover have "quiet ?w" "distinct (map ok_id (aw_opks ?w))" using Suc.prems(1,2) by (simp_all add: quiet_def)
      moreover have "claimed_only w ?w" unfolding claimed_only_def by (rule exI[of _ "aw_opks w"]) (simp, blast)
      ultimately show ?thesis using Suc.IH[of ?w, folded key_def] claimed_trans by blast
    qed
  next
    case False
    obtain res w1 where t: "run (claim_transaction L ?new) w = (res, w1)" by fastforce
    from transaction_answers[OF Suc.prems(1,2) False[unfolded key_def] t, of d, folded key_def] obtain taken where taken: "res = Inr (Some taken)"
      "claimed_only w w1" "answers L key ?base w1 (claimed_dto ?base taken)" by blast
    with t Suc.prems(3) show ?thesis by (simp add: run_simps)
  qed
  then show ?case by (simp add: key_def)
qed simp

text \<open>
  Asking again. When nothing else happens meanwhile, a request for a bundle that was answered is
  answered in the same way when it is repeated, and the second request changes nothing: no further
  pre-key is spent, whether the first answer held a one-time pre-key, fell back to the signed one, or
  replaced a claim whose row had gone.
\<close>

theorem get_bundle_repeats:
  assumes "quiet w" "distinct (map ok_id (aw_opks w))"
    and "run (get_bundle L config headers params) w = (Inr dto, w')"
  shows "run (get_bundle L config headers params) w' = (Inr dto, w')"
proof -
  from assms(3)[unfolded get_bundle_run[OF assms(1)]] obtain new base where
    checks: "bundle_checks L config headers params w (new, base)" and run: "run (claim_attempts 2 L new base) w = (Inr dto, w')"
    by blast
  then obtain u rd tu td cv d where new: "new = empty_claim u rd tu td cv" "base = base_bundle tu td d"
    unfolding bundle_checks_def by blast
  from run_answers[OF assms(1,2) run[unfolded new]] have
    a: "answers L (claim_key L (empty_claim u rd tu td cv 0)) base w' dto" and only: "claimed_only w w'" by (simp_all add: new)
  have quiet: "quiet w'" using claimed_quiet[OF only assms(1)] .
  have "run (claim_attempts (Suc 1) L new base) w' = (Inr dto, w')"
    unfolding new(1) by (rule answers_run[OF quiet _ a]) (simp add: claim_key_def empty_claim_def)
  with checks checks_after[OF only assms(1)] show ?thesis
    unfolding get_bundle_run[OF quiet] by (auto simp: numeral_2_eq_2)
qed

theorem get_bundle_repeats_witness:
  "\<exists>w'. run (alice_asks ''p_1_2'') (keys_world [sample_opk 7 ''k'', sample_opk 8 ''l'']) = (Inr (bob_bundle (Some (''k'', 7))), w') \<and>
     run (alice_asks ''p_1_2'') w' = (Inr (bob_bundle (Some (''k'', 7))), w')"
proof -
  let ?w = "keys_world [sample_opk 7 ''k'', sample_opk 8 ''l'']"
  have w: "quiet ?w" "distinct (map ok_id (aw_opks ?w))"
    by (simp_all add: quiet_def keys_world_def empty_world_def sample_opk_def)
  have "fst (run (alice_asks ''p_1_2'') ?w) = Inr (bob_bundle (Some (''k'', 7)))"
    by (simp add: get_bundle_def ask_steps claim_steps bob_bundle_def show_two)
  then have "run (alice_asks ''p_1_2'') ?w = (Inr (bob_bundle (Some (''k'', 7))), snd (run (alice_asks ''p_1_2'') ?w))"
    by (simp add: prod_eq_iff)
  from this get_bundle_repeats[OF w this] show ?thesis by blast
qed

end
