(* ===== verification/Api_Conversations.thy ===== *)
theory Api_Conversations
  imports Api_Groups
begin

text \<open>
  Key sessions of conversations in the api-server: \<open>e2ee/session_crud.rs\<close> with the checks of recipient
  devices in \<open>session_helpers.rs\<close>. A session is the metadata of one conversation: its identifiers, its
  key version and epoch, and the devices it was made for. The maps of devices are read in the order of
  their rows, so of several possible refusals the model names the first. Identifiers that are drawn
  are taken to be new.
\<close>

section \<open>Requests and answers\<close>

record create_session_request =
  cr_conversation_id :: string
  cr_recipient_user_ids :: "string list"
  cr_recipient_device_ids :: "string list"
  cr_sender_device_id :: string

datatype rotate_reason = MemberAdded | MemberRemoved | DeviceRevoked | Manual | KeyCompromised

fun rotate_reason_str :: "rotate_reason \<Rightarrow> string" where
  "rotate_reason_str MemberAdded = ''member_added''"
| "rotate_reason_str MemberRemoved = ''member_removed''"
| "rotate_reason_str DeviceRevoked = ''device_revoked''"
| "rotate_reason_str Manual = ''manual''"
| "rotate_reason_str KeyCompromised = ''key_compromised''"

record session_metadata =
  sm_conversation_id :: string
  sm_session_id :: string
  sm_key_id :: string
  sm_key_version :: int
  sm_epoch :: int
  sm_sender_device_id :: string
  sm_recipient_device_ids :: "string list"
  sm_status :: string
  sm_needs_rotation :: bool

definition validate_conversation_id :: "string \<Rightarrow> api_error + unit" where
  "validate_conversation_id v =
     (if trim v = [] \<or> 128 < length v then Inl (EBadRequest ''invalid conversationId'') else Inr ())"

section \<open>Who may receive\<close>

definition fetch_device_owners :: "api_lib \<Rightarrow> string list \<Rightarrow> (string \<times> int) list api" where
  "fetch_device_owners L device_ids =
     (if device_ids = [] then act_ok []
      else
        act_then (sql_query (\<lambda>w. filter (\<lambda>d. dv_status d = ''active'' \<and>
            ap_collate L (dv_device_id d) \<in> set (map (ap_collate L) device_ids)) (aw_devices w))) (\<lambda>rows.
          if length rows \<noteq> length device_ids
          then act_err (EBadRequest (''devices not found or not active: '' @
            join_comma (filter (\<lambda>d. d \<notin> set (map dv_device_id rows)) device_ids)))
          else act_ok (AList.clearjunk (rev (map (\<lambda>d. (dv_device_id d, dv_user_id d)) rows)))))"

definition ensure_sender_device_belongs_to_user :: "api_lib \<Rightarrow> string \<Rightarrow> int \<Rightarrow> unit api" where
  "ensure_sender_device_belongs_to_user L device_id user_id =
     act_then (sql_query (\<lambda>w. 0 < count_where (active_device L user_id device_id) (aw_devices w))) (\<lambda>found.
       act_check found (EForbidden ''sender device does not belong to current user''))"

definition fetch_group_member_ids :: "int \<Rightarrow> int list api" where
  "fetch_group_member_ids group_id =
     sql_query (\<lambda>w. map gm_user_id (filter (\<lambda>r. gm_group_id r = group_id \<and> gm_status r = 1) (aw_members w)))"

fun parse_user_ids :: "string list \<Rightarrow> api_error + int list" where
  "parse_user_ids [] = Inr []"
| "parse_user_ids (s # ss) =
     (if trim s = [] then parse_user_ids ss
      else
        (case parse_i64 (trim s) of
           None \<Rightarrow> Inl (EBadRequest (''invalid userId: '' @ trim s))
         | Some i \<Rightarrow> and_then (parse_user_ids ss) (\<lambda>is. Inr (i # is))))"

text \<open>The first element that fails a check decides the error.\<close>

definition each_passes :: "('a \<Rightarrow> api_error option) \<Rightarrow> 'a list \<Rightarrow> api_error + unit" where
  "each_passes f xs = (case List.map_filter f xs of [] \<Rightarrow> Inr () | e # _ \<Rightarrow> Inl e)"

definition named_owner :: "int list \<Rightarrow> string \<times> int \<Rightarrow> api_error option" where
  "named_owner ids = (\<lambda>(device_id, owner).
     if ids = [] \<or> owner \<in> set ids then None
     else Some (EForbidden (''device '' @ device_id @ '' belongs to user '' @ show_int owner @
       '' which is not in recipientUserIds'')))"

definition private_recipients :: "int \<Rightarrow> int \<Rightarrow> int list \<Rightarrow> (string \<times> int) list \<Rightarrow> api_error + unit" where
  "private_recipients caller other ids owners =
     and_then (each_passes (\<lambda>u. if u = other then None
         else Some (EForbidden (''user '' @ show_int u @ '' is not a member of this private conversation''))) ids) (\<lambda>_.
     and_then (each_passes (\<lambda>(device_id, owner).
         if owner = other then None
         else if owner = caller
         then Some (EForbidden (''cannot add own device '' @ device_id @ '' as recipient in private conversation''))
         else Some (EForbidden (''device '' @ device_id @ '' belongs to user '' @ show_int owner @
           '' who is not a conversation member''))) owners) (\<lambda>_.
       each_passes (named_owner ids) owners))"

definition group_recipients :: "int \<Rightarrow> int list \<Rightarrow> int list \<Rightarrow> (string \<times> int) list \<Rightarrow> api_error + unit" where
  "group_recipients group_id members ids owners =
     and_then (each_passes (\<lambda>u. if u \<in> set members then None
         else Some (EForbidden (''user '' @ show_int u @ '' is not a member of group '' @ show_int group_id))) ids) (\<lambda>_.
     and_then (each_passes (\<lambda>(device_id, owner).
         if owner \<in> set members then None
         else Some (EForbidden (''device '' @ device_id @ '' belongs to user '' @ show_int owner @
           '' who is not a member of group '' @ show_int group_id))) owners) (\<lambda>_.
       each_passes (named_owner ids) owners))"

definition ensure_recipient_devices_authorized ::
  "string \<Rightarrow> int \<Rightarrow> string list \<Rightarrow> (string \<times> int) list \<Rightarrow> unit api"
where
  "ensure_recipient_devices_authorized conversation_id caller user_ids owners =
     act_then (Ret (parse_user_ids user_ids)) (\<lambda>ids.
       case parse_private_conversation_members conversation_id of
         Some (left, right) \<Rightarrow> Ret (private_recipients caller (if caller = left then right else left) ids owners)
       | None \<Rightarrow>
           (case strip_prefix ''g_'' conversation_id of
              Some raw \<Rightarrow>
                act_then (Ret (ok_or (EBadRequest ''invalid conversationId'') (parse_i64 raw))) (\<lambda>group_id.
                act_then (fetch_group_member_ids group_id) (\<lambda>members. Ret (group_recipients group_id members ids owners)))
            | None \<Rightarrow> act_err (EBadRequest ''invalid conversationId'')))"

section \<open>Handlers\<close>

text \<open>A JSON array of texts, and nothing else.\<close>

definition json_strings :: "json \<Rightarrow> string list option" where
  "json_strings j =
     (case j of
        JArr js \<Rightarrow> if list_all (\<lambda>v. json_as_str v \<noteq> None) js then Some (map (\<lambda>v. the (json_as_str v)) js) else None
      | _ \<Rightarrow> None)"

definition row_to_metadata :: "api_lib \<Rightarrow> conversation_session_row \<Rightarrow> session_metadata" where
  "row_to_metadata L r =
     \<lparr>sm_conversation_id = cv_conversation_id r, sm_session_id = cv_session_id r, sm_key_id = cv_key_id r,
      sm_key_version = cv_key_version r, sm_epoch = cv_epoch r, sm_sender_device_id = cv_sender_device_id r,
      sm_recipient_device_ids = unwrap_or (Option.bind (ap_json L (cv_recipient_devices r)) json_strings) [],
      sm_status = cv_status r, sm_needs_rotation = cv_needs_rotation r\<rparr>"

abbreviation conversation_key :: "api_lib \<Rightarrow> conversation_session_row \<Rightarrow> string" where
  "conversation_key L r \<equiv> ap_collate L (cv_conversation_id r)"

definition get_conversation_session :: "api_lib \<Rightarrow> api_config \<Rightarrow> header_map \<Rightarrow> string \<Rightarrow> session_metadata api" where
  "get_conversation_session L config headers conversation_id =
     act_then (caller_of L config headers) (\<lambda>caller.
     act_then (Ret (validate_conversation_id conversation_id)) (\<lambda>_.
     act_then (ensure_conversation_member (id_user_id caller) conversation_id) (\<lambda>_.
     act_then (sql_query (\<lambda>w. find (\<lambda>r. conversation_key L r = ap_collate L conversation_id \<and> cv_status r = ''active'')
         (aw_conversations w))) (\<lambda>row.
       Ret (map_sum id (row_to_metadata L) (ok_or (ENotFound ''e2ee session not found'') row))))))"

text \<open>The insertion or replacement of a session; versions and epochs are \<open>INT\<close>s.\<close>

definition upsert_conversation ::
  "api_lib \<Rightarrow> int \<Rightarrow> create_session_request \<Rightarrow> string \<Rightarrow> string \<Rightarrow> string \<Rightarrow> unit api"
where
  "upsert_conversation L user_id request session_id key_id devices = sql_execute (\<lambda>w.
     let rows = insert_or_update (conversation_key L)
       \<lparr>cv_conversation_id = cr_conversation_id request, cv_session_id = session_id, cv_key_id = key_id,
        cv_key_version = 1, cv_epoch = 1, cv_created_by = user_id, cv_sender_device_id = cr_sender_device_id request,
        cv_recipient_devices = devices, cv_status = ''active'', cv_needs_rotation = False, cv_rotate_reason = None\<rparr>
       (\<lambda>r. r\<lparr>cv_session_id := session_id, cv_key_id := key_id, cv_key_version := cv_key_version r + 1,
         cv_epoch := cv_epoch r + 1, cv_sender_device_id := cr_sender_device_id request, cv_recipient_devices := devices,
         cv_status := ''active'', cv_needs_rotation := False\<rparr>) (aw_conversations w) in
     if list_all (\<lambda>r. cv_key_version r < 2 ^ 31 \<and> cv_epoch r < 2 ^ 31) rows
     then (Inr (), w\<lparr>aw_conversations := rows\<rparr>) else (Inl ESqlx, w))"

definition create_session :: "api_lib \<Rightarrow> api_config \<Rightarrow> header_map \<Rightarrow> create_session_request \<Rightarrow> session_metadata api" where
  "create_session L config headers request =
     act_then (caller_of L config headers) (\<lambda>caller.
     act_then (Ret (validate_conversation_id (cr_conversation_id request))) (\<lambda>_.
     act_then (act_check (trim (cr_sender_device_id request) \<noteq> [] \<and> length (cr_sender_device_id request) \<le> 64)
         (EBadRequest ''invalid senderDeviceId'')) (\<lambda>_.
     act_then (act_check (cr_recipient_device_ids request \<noteq> []) (EBadRequest ''recipientDeviceIds required'')) (\<lambda>_.
     act_then (ensure_conversation_member (id_user_id caller) (cr_conversation_id request)) (\<lambda>_.
     act_then (ensure_sender_device_belongs_to_user L (cr_sender_device_id request) (id_user_id caller)) (\<lambda>_.
     act_then (fetch_device_owners L (cr_recipient_device_ids request)) (\<lambda>owners.
     act_then (ensure_recipient_devices_authorized (cr_conversation_id request) (id_user_id caller)
         (cr_recipient_user_ids request) owners) (\<lambda>_.
     act_then new_uuid (\<lambda>session_id.
     act_then new_uuid (\<lambda>key_id.
     act_then (Ret (ok_or ESerde (ap_print L (JArr (map JStr (cr_recipient_device_ids request)))))) (\<lambda>devices.
     act_then (upsert_conversation L (id_user_id caller) request session_id key_id devices) (\<lambda>_.
       get_conversation_session L config headers (cr_conversation_id request)))))))))))))"

definition rotate_conversation_session ::
  "api_lib \<Rightarrow> api_config \<Rightarrow> header_map \<Rightarrow> string \<Rightarrow> rotate_reason \<Rightarrow> session_metadata api"
where
  "rotate_conversation_session L config headers conversation_id reason =
     act_then (caller_of L config headers) (\<lambda>caller.
     act_then (Ret (validate_conversation_id conversation_id)) (\<lambda>_.
     act_then (ensure_conversation_member (id_user_id caller) conversation_id) (\<lambda>_.
     act_then new_uuid (\<lambda>key_id.
     act_then (sql_execute (\<lambda>w.
         let hit = (\<lambda>r. conversation_key L r = ap_collate L conversation_id \<and> cv_status r = ''active'');
             rows = update_where hit (\<lambda>r. r\<lparr>cv_key_id := key_id, cv_key_version := cv_key_version r + 1,
               cv_epoch := cv_epoch r + 1, cv_rotate_reason := Some (rotate_reason_str reason),
               cv_needs_rotation := False\<rparr>) (aw_conversations w) in
         if list_all (\<lambda>r. cv_key_version r < 2 ^ 31 \<and> cv_epoch r < 2 ^ 31) rows
         then (Inr (count_where hit (aw_conversations w)), w\<lparr>aw_conversations := rows\<rparr>) else (Inl ESqlx, w))) (\<lambda>affected.
     act_then (act_check (affected \<noteq> 0) (ENotFound ''e2ee session not found'')) (\<lambda>_.
       get_conversation_session L config headers conversation_id))))))"

end
