(* ===== verification/Api_Token_Rules.thy ===== *)
theory Api_Token_Rules
  imports Api_Tokens Api_Ghost
begin

text \<open>
  What is used only once: a Redis key with a value that some task takes away, such as a ticket or the
  identifier of a refresh token. The history says which task took it. Once it is taken it does not come
  back, because the identifiers that are drawn later differ from it.
\<close>

section \<open>The history\<close>

type_synonym taker = "nat option"

definition unused :: "string \<Rightarrow> api_world \<Rightarrow> bool" where
  "unused k w \<longleftrightarrow> (\<forall>n \<ge> aw_drawn w. aw_uuid w n \<noteq> k)"

text \<open>\<open>p\<close> tells the value that is used once from the others the key may have.\<close>

definition spent :: "string \<Rightarrow> (string \<Rightarrow> bool) \<Rightarrow> string \<Rightarrow> taker \<Rightarrow> api_world \<Rightarrow> bool" where
  "spent key p k own w \<longleftrightarrow> unused k w \<and> (own \<noteq> None \<longrightarrow> (\<forall>v e. aw_redis w key = Some (v, e) \<longrightarrow> \<not> p v))"

definition taken_later :: "taker \<Rightarrow> taker \<Rightarrow> bool" where
  "taken_later own own' \<longleftrightarrow> own = None \<or> own' = own"

text \<open>Others may let time pass, let keys expire, and change keys to values that are not used once.\<close>

definition tokens_env :: "string \<Rightarrow> (string \<Rightarrow> bool) \<Rightarrow> api_world \<Rightarrow> api_world \<Rightarrow> bool" where
  "tokens_env key p w w' \<longleftrightarrow> aw_uuid w' = aw_uuid w \<and> aw_drawn w \<le> aw_drawn w' \<and>
     (\<forall>v e. aw_redis w' key = Some (v, e) \<longrightarrow> p v \<longrightarrow> aw_redis w key = Some (v, e))"

lemma spent_unused: "spent key p k own w \<Longrightarrow> unused k w"
  by (simp add: spent_def)

lemma unused_None: "spent key p k None w \<longleftrightarrow> unused k w"
  by (simp add: spent_def)

abbreviation keeps_spent :: "string \<Rightarrow> (string \<Rightarrow> bool) \<Rightarrow> string \<Rightarrow> api_world \<Rightarrow> api_world \<Rightarrow> bool" where
  "keeps_spent key p k w w' \<equiv> \<forall>own. spent key p k own w \<longrightarrow> spent key p k own w'"

lemma keeps_env: "tokens_env key p w w' \<Longrightarrow> keeps_spent key p k w w'"
  by (auto simp: tokens_env_def spent_def unused_def)

interpretation once: history "spent key p k" taken_later "tokens_env key p" for key p k
  by unfold_locales (auto simp: taken_later_def dest: keeps_env)

interpretation once_stores: shared_stores "unused k" "keeps_spent key p k" "tokens_env key p" for key p k
proof unfold_locales
  show "unused k w \<Longrightarrow> keeps_spent key p k w w' \<Longrightarrow> unused k w'" for w w' by (metis unused_None)
qed (auto dest: keeps_env)

abbreviation harmless :: "string \<Rightarrow> (string \<Rightarrow> bool) \<Rightarrow> string \<Rightarrow> 'a api \<Rightarrow> bool" where
  "harmless key p k m \<equiv> guarantees (unused k) (keeps_spent key p k) m"

section \<open>Commands\<close>

lemma spent_used [simp]: "spent key p k own (outcome_used w) \<longleftrightarrow> spent key p k own w"
  by (simp add: spent_def unused_def outcome_used_def)

lemma unused_used [simp]: "unused k (outcome_used w) \<longleftrightarrow> unused k w"
  by (simp add: unused_def outcome_used_def)

lemma harmless_command:
  assumes "\<And>w. keeps_spent key p k w (snd (f w))"
  shows "harmless key p k (command e f)"
  by (rule guarantees_command) (use assms in auto)

lemma harmless_redis: "(\<And>w. keeps_spent key p k w (snd (f w))) \<Longrightarrow> harmless key p k (redis_command f)"
  unfolding redis_command_def by (rule harmless_command) simp

lemma harmless_reads [ensures_intros]:
  "harmless key p k (redis_get h)" "harmless key p k (redis_exists h)" "harmless key p k now_ms"
  unfolding redis_get_def redis_exists_def now_ms_def act_get_def by (auto intro: harmless_redis)

lemma harmless_del [ensures_intros]: "harmless key p k (redis_del h)"
  unfolding redis_del_def by (rule harmless_redis) (auto simp: spent_def unused_def)

lemma harmless_set_px: "h = key \<Longrightarrow> \<not> p v \<Longrightarrow> harmless key p k (redis_set_px h v ttl)"
    "h \<noteq> key \<Longrightarrow> harmless key p k (redis_set_px h v ttl)"
  unfolding redis_set_px_def by (rule harmless_command; auto simp: spent_def unused_def)+

lemma harmless_set_ex: "h \<noteq> key \<Longrightarrow> harmless key p k (redis_set_ex h v ttl)"
  by (simp add: redis_set_ex_def harmless_set_px)

lemma new_uuid_new: "ensures (unused k) (keeps_spent key p k) new_uuid (\<lambda>r. \<forall>u. r = Inr u \<longrightarrow> u \<noteq> k)"
  by (auto simp: new_uuid_def spent_def unused_def)

text \<open>A draw, followed by something that is harmless with an identifier other than the one used once.\<close>

lemma harmless_draw:
  assumes "\<And>u. u \<noteq> k \<Longrightarrow> harmless key p k (f u)"
  shows "harmless key p k (act_then new_uuid f)"
  by (rule ensures_then[OF new_uuid_new]) (use assms in auto)

text \<open>A harmless computation satisfies every condition on the history.\<close>

lemma harmless_traced: "harmless key p k m \<Longrightarrow> traced (spent key p k) taken_later m (\<lambda>_ _. True) own"
  by (rule once.traced_while[where P = "unused k"]) (auto dest: spent_unused)

lemma after_harmless:
  assumes "harmless key p k m" "\<And>x own'. taken_later own own' \<Longrightarrow> traced (spent key p k) taken_later (f x) R own'"
    and "\<And>e own. R (Inl e) own"
  shows "traced (spent key p k) taken_later (act_then m f) R own"
  by (rule once.traced_then[OF harmless_traced[OF assms(1)]]) (use assms(2,3) in auto)

section \<open>Names of keys\<close>

lemma key_prefixes:
  "ws_ticket_key t \<noteq> refresh_jti_key u" "ws_ticket_key t \<noteq> user_resource_key u" "ws_ticket_key t \<noteq> revoked_token_key h"
  "ws_ticket_key t \<noteq> user_revoke_after_key u" "refresh_jti_key v \<noteq> user_resource_key u"
  "refresh_jti_key v \<noteq> revoked_token_key h" "refresh_jti_key v \<noteq> user_revoke_after_key u"
  by (simp_all add: ws_ticket_key_def refresh_jti_key_def user_resource_key_def revoked_token_key_def user_revoke_after_key_def)

lemmas other_keys = key_prefixes key_prefixes[symmetric]

lemma ws_ticket_key_inj [simp]: "ws_ticket_key a = ws_ticket_key b \<longleftrightarrow> a = b"
  by (simp add: ws_ticket_key_def)

lemma refresh_jti_key_inj [simp]: "refresh_jti_key a = refresh_jti_key b \<longleftrightarrow> a = b"
  by (simp add: refresh_jti_key_def)

text \<open>The task that takes the value away.\<close>

lemma traced_take:
  assumes "\<And>w. keeps_spent key p k w (snd (f w))" "\<not> won (Inl e)"
    and "\<And>w. won (fst (f w)) \<Longrightarrow> (\<exists>v e. aw_redis w key = Some (v, e) \<and> p v) \<and> (\<forall>v e. aw_redis (snd (f w)) key = Some (v, e) \<longrightarrow> \<not> p v)"
  shows "traced (spent key p k) taken_later (command e f) (\<lambda>r own. won r \<longrightarrow> own = Some i) own"
proof (rule traced_command)
  fix own1 w assume ok: "spent key p k own1 w"
  show "\<exists>own2. taken_later own1 own2 \<and> spent key p k own2 (snd (f w)) \<and> (won (fst (f w)) \<longrightarrow> own2 = Some i)"
  proof (cases "won (fst (f w))")
    case True
    from assms(3)[OF this] ok have "own1 = None" by (auto simp: spent_def)
    moreover have "unused k (snd (f w))" using assms(1) ok spent_unused by blast
    ultimately show ?thesis using assms(3)[OF True] by (auto simp: taken_later_def spent_def intro!: exI[of _ "Some i"])
  next
    case False
    with ok assms(1) show ?thesis by (auto simp: taken_later_def)
  qed
qed (use assms(2) in \<open>auto simp: taken_later_def\<close>)

section \<open>The handlers\<close>

locale single_use =
  fixes key :: string and p :: "string \<Rightarrow> bool" and k :: string
  assumes other_identifier: "v \<noteq> k \<Longrightarrow> refresh_jti_key u = key \<Longrightarrow> \<not> p v"
    and other_ticket: "t \<noteq> k \<Longrightarrow> ws_ticket_key t \<noteq> key"
    and other_key: "user_resource_key u \<noteq> key" "revoked_token_key h \<noteq> key" "user_revoke_after_key u \<noteq> key"
begin

abbreviation quietly :: "'a api \<Rightarrow> bool" where
  "quietly m \<equiv> harmless key p k m"

lemma signed [ensures_intros]: "quietly (signed_by_server L config headers verb path body)"
  unfolding signed_by_server_def by (intro ensures_intros)

lemma parse [ensures_intros]: "quietly (parse_token_now L token secret allow_expired)"
  unfolding parse_token_now_def by (intro ensures_intros)

lemma resource [ensures_intros]: "quietly (get_user_resource L user_id)"
  unfolding get_user_resource_def by (intro ensures_intros)

lemma set_other [ensures_intros]:
  "quietly (redis_set_ex (user_resource_key u) v ttl)" "quietly (redis_set_ex (revoked_token_key h) v ttl)"
  "quietly (redis_set_ex (user_revoke_after_key u) v ttl)"
  using other_key by (simp_all add: harmless_set_ex)

lemma set_identifier: "v \<noteq> k \<Longrightarrow> quietly (redis_set_px (refresh_jti_key u) v ttl)"
  using other_identifier by (cases "refresh_jti_key u = key") (auto intro: harmless_set_px)

lemma upsert [ensures_intros]: "quietly (upsert_user_resource L config request)"
  unfolding upsert_user_resource_def by (intro ensures_intros)

lemma issue_tokens [ensures_intros]: "quietly (issue_token_pair L config request)"
  unfolding issue_token_pair_def Let_def by (intro ensures_intros harmless_draw set_identifier)

lemma issue_ticket [ensures_intros]: "quietly (issue_ws_ticket L config headers)"
  unfolding issue_ws_ticket_def
  by (intro ensures_intros harmless_draw harmless_set_ex other_ticket)

lemma revoked [ensures_intros]: "quietly (is_token_revoked L token parsed)"
  unfolding is_token_revoked_def by (intro ensures_intros)

lemma validate [ensures_intros]: "quietly (validate_access_token_result L config token check_revoked)"
  unfolding validate_access_token_result_def by (intro ensures_intros)

lemma check [ensures_intros]: "quietly (check_permission L request)"
  unfolding check_permission_def Let_def by (intro ensures_intros)

lemma revoke [ensures_intros]: "quietly (revoke_token L config request)"
  unfolding revoke_token_def by (intro ensures_intros)

lemma endpoints [ensures_intros]:
  "quietly (internal_issue_token L config headers path body)" "quietly (internal_revoke_token L config headers path body)"
  "quietly (internal_revoke_user_tokens L config headers path user_id body)"
  "quietly (internal_user_resource L config headers path user_id)" "quietly (internal_validate_token L config headers path body)"
  "quietly (internal_introspect L config headers path body)" "quietly (internal_check_permission L config headers path body)"
  "quietly (api_parse L config headers body)"
  unfolding internal_issue_token_def internal_revoke_token_def internal_revoke_user_tokens_def internal_user_resource_def
    internal_validate_token_def internal_introspect_def internal_check_permission_def api_parse_def Let_def
  by (intro ensures_intros)+

lemma replace [ensures_intros]: "v \<noteq> k \<Longrightarrow> quietly (replace_jti (refresh_jti_key u) e v ttl)"
  unfolding replace_jti_def using other_identifier
  by (intro harmless_command) (auto simp: spent_def unused_def)

lemma refresh_pair: "quietly (refresh_token_pair L config request)"
  unfolding refresh_token_pair_def by (intro ensures_intros harmless_draw)

lemma take: "quietly (take_ticket h)"
  unfolding take_ticket_def by (rule harmless_redis) (auto simp: spent_def unused_def)

lemmas exchanges [ensures_intros] = refresh_pair take

lemma refresh [ensures_intros]: "quietly (api_refresh L config headers body)"
  unfolding api_refresh_def Let_def by (intro ensures_intros)

lemma consume [ensures_intros]: "quietly (internal_consume_ws_ticket L config headers path body)"
  unfolding internal_consume_ws_ticket_def by (intro ensures_intros)

end

interpretation ticket_use: single_use "ws_ticket_key t" "\<lambda>_. True" t for t
  by unfold_locales (use other_keys in auto)

interpretation jti_use: single_use "refresh_jti_key u" "(=) j" j for u j
  by unfold_locales (use other_keys in auto)

section \<open>Taking a ticket\<close>

text \<open>The ticket a request asks for.\<close>

definition asked_ticket :: "api_lib \<Rightarrow> bytes \<Rightarrow> string option" where
  "asked_ticket L body = Option.bind (ap_read_consume L body) (\<lambda>request. normalize_text (ct_ticket request))"

lemma take_ticket_traced:
  "traced (spent (ws_ticket_key t) (\<lambda>_. True) t) taken_later (take_ticket (ws_ticket_key t))
     (\<lambda>r own. (\<exists>v. r = Inr (Some v)) \<longrightarrow> own = Some i) own"
  unfolding take_ticket_def redis_command_def
  by (rule traced_take) (auto simp: spent_def unused_def redis_value_def split: option.splits)

lemma consume_traced:
  assumes "asked_ticket L body = Some t"
  shows "traced (spent (ws_ticket_key t) (\<lambda>_. True) t) taken_later (internal_consume_ws_ticket L config headers path body)
     (\<lambda>r own. (\<exists>x. r = Inr x \<and> tc_valid x) \<longrightarrow> own = Some i) own"
proof -
  obtain request where request: "required_json (ap_read_consume L) body = Inr request" "normalize_text (ct_ticket request) = Some t"
    using assms by (auto simp: asked_ticket_def required_json_def ok_or_def bind_eq_Some_conv)
  show ?thesis
    unfolding internal_consume_ws_ticket_def
    by (rule after_harmless[OF ticket_use.signed])
      (auto simp: request ticket_answer_def invalid_ws_ticket_def split: option.split
         intro: once.traced_then[OF take_ticket_traced])
qed

section \<open>Exchanging a refresh token\<close>

text \<open>The claims of the refresh token that a request presents, in its body or as a cookie.\<close>

definition presented_token :: "api_lib \<Rightarrow> api_config \<Rightarrow> header_map \<Rightarrow> bytes \<Rightarrow> string option" where
  "presented_token L config headers body =
     (case optional_json (ap_read_refresh L) \<lparr>rq_refresh_token = None, rq_access_token = None\<rparr> body of
        Inl _ \<Rightarrow> None
      | Inr request \<Rightarrow>
          if rq_refresh_token request = None \<or> rq_refresh_token request = Some []
          then api_cookie_value headers (ac_refresh_cookie_name config) else rq_refresh_token request)"

definition presented_claims :: "api_lib \<Rightarrow> api_config \<Rightarrow> header_map \<Rightarrow> bytes \<Rightarrow> api_claims option" where
  "presented_claims L config headers body =
     Option.bind (normalize_bearer (presented_token L config headers body)) (\<lambda>token.
       Option.bind (normalize_bearer (Some token)) (\<lambda>token. ap_jwt_decode L token (ascii (ac_refresh_secret config))))"

lemma replace_traced:
  "v \<noteq> j \<Longrightarrow> traced (spent (refresh_jti_key u) ((=) j) j) taken_later (replace_jti (refresh_jti_key u) j v ttl)
     (\<lambda>r own. r = Inr True \<longrightarrow> own = Some i) own"
  unfolding replace_jti_def
  by (rule traced_take[where won = "\<lambda>r. r = Inr True"]) (auto simp: spent_def unused_def redis_value_def split: option.splits if_splits)

lemma parsed_identity:
  "Option.bind (normalize_bearer token) (\<lambda>t. ap_jwt_decode L t (ascii secret)) = Some c \<Longrightarrow>
   tr_user_id (parse_token L now token secret True) = Some (jc_user_id c) \<and>
   tr_jti (parse_token L now token secret True) = Some (jc_jti c)"
  by (auto simp: parse_token_def bind_eq_Some_conv Let_def)

text \<open>An answer that the history credits to task \<open>i\<close>.\<close>

abbreviation credited :: "nat \<Rightarrow> api_error + 'a \<Rightarrow> taker \<Rightarrow> bool" where
  "credited i r own \<equiv> (\<exists>x. r = Inr x) \<longrightarrow> own = Some i"

lemma credited_traced:
  "harmless key p k m \<Longrightarrow> traced (spent key p k) taken_later m (credited i) (Some i)"
  by (rule traced_weaken[OF once.traced_knowing[OF harmless_traced, where K = "\<lambda>own. own = Some i"]])
    (auto simp: taken_later_def)

lemma act_then_ok: "act_then (act_ok x) f = f x"
  by simp

lemma check_traced:
  "(b \<Longrightarrow> traced I le (f ()) Q s) \<Longrightarrow> Q (Inl e) s \<Longrightarrow> traced I le (act_then (act_check b e) f) Q s"
  by (simp add: act_check_def)

lemma ok_or_traced:
  "(\<And>x. m = Some x \<Longrightarrow> traced I le (f x) Q s) \<Longrightarrow> Q (Inl e) s \<Longrightarrow> traced I le (act_then (Ret (ok_or e m)) f) Q s"
  by (cases m) (simp_all add: ok_or_def)

lemma refresh_pair_traced:
  assumes token: "normalize_bearer (rq_refresh_token request) = Some token"
    and claims: "Option.bind (normalize_bearer (Some token)) (\<lambda>t. ap_jwt_decode L t (ascii (ac_refresh_secret config))) = Some c"
  shows "traced (spent (refresh_jti_key (jc_user_id c)) ((=) (jc_jti c)) (jc_jti c)) taken_later
     (refresh_token_pair L config request) (credited i) own"
proof -
  note parsed = parsed_identity[OF claims]
  have exchange: "traced (spent (refresh_jti_key (jc_user_id c)) ((=) (jc_jti c)) (jc_jti c)) taken_later
      (act_then (act_try (replace_jti (refresh_jti_key (jc_user_id c)) (jc_jti c) new ttl)) (\<lambda>ok.
       act_then (act_check (ok = Inr True) invalid_token) (\<lambda>_. rest))) (credited i) own"
    if "new \<noteq> jc_jti c" "harmless (refresh_jti_key (jc_user_id c)) ((=) (jc_jti c)) (jc_jti c) rest"
    for new ttl own and rest :: "token_pair api"
    by (rule once.traced_then[OF once.traced_try[OF replace_traced[OF that(1), where i = i]]])
      (auto simp: act_check_def intro: credited_traced that(2))
  have draw: "traced (spent (refresh_jti_key (jc_user_id c)) ((=) (jc_jti c)) (jc_jti c)) taken_later
      (act_then new_uuid f) (credited i) own"
    if "\<And>new own. new \<noteq> jc_jti c \<Longrightarrow>
      traced (spent (refresh_jti_key (jc_user_id c)) ((=) (jc_jti c)) (jc_jti c)) taken_later (f new) (credited i) own"
    for f :: "string \<Rightarrow> token_pair api" and own
    by (rule once.traced_then[OF once.traced_while[OF new_uuid_new]]) (auto dest: spent_unused intro: that)
  show ?thesis
    unfolding refresh_token_pair_def token parse_token_now_def act_then_assoc act_then_ok
    by (intro ok_or_traced after_harmless[OF harmless_reads(3)] check_traced draw)
      (auto simp: parsed intro!: exchange jti_use.resource jti_use.issue_tokens guarantees_then guarantees_try)
qed

lemma refresh_traced:
  assumes "presented_claims L config headers body = Some c"
  shows "traced (spent (refresh_jti_key (jc_user_id c)) ((=) (jc_jti c)) (jc_jti c)) taken_later
     (api_refresh L config headers body) (credited i) own"
proof (cases "optional_json (ap_read_refresh L) \<lparr>rq_refresh_token = None, rq_access_token = None\<rparr> body")
  case (Inr request)
  define filled where "filled = (if rq_refresh_token request = None \<or> rq_refresh_token request = Some []
      then request\<lparr>rq_refresh_token := api_cookie_value headers (ac_refresh_cookie_name config)\<rparr> else request)"
  have "presented_token L config headers body = rq_refresh_token filled"
    by (simp add: presented_token_def Inr filled_def)
  then obtain token where token: "normalize_bearer (rq_refresh_token filled) = Some token"
    "Option.bind (normalize_bearer (Some token)) (\<lambda>t. ap_jwt_decode L t (ascii (ac_refresh_secret config))) = Some c"
    using assms by (auto simp: presented_claims_def bind_eq_Some_conv)
  show ?thesis
    unfolding api_refresh_def Inr act_then.simps sum.case Let_def filled_def[symmetric]
    by (rule once.traced_then[OF refresh_pair_traced[OF token]]) (auto split: sum.split)
qed (simp add: api_refresh_def)

end
