(* ===== verification/Im_Sessions.thy ===== *)
theory Im_Sessions
  imports Im_Routes Host_Libs
begin

text \<open>
  The session service of \<open>im-server/src/service\<close>: the websocket sessions of this instance, indexed
  by session and by user, their outbound queues and heartbeats, the presence events, and the upkeep
  of the route registry. An operation sees one reading of the clock and one pattern of Redis
  failures, the record \<open>im_env\<close>. The session of an identifier is an \<open>Arc\<close> that outlives its entry
  in the table, so the entries stay in \<open>im_entries\<close> and \<open>im_sessions\<close> holds the keys of the table.
\<close>

section \<open>State\<close>

text \<open>Websocket messages; the payload of a close frame is never looked at.\<close>

datatype ws_message = WText string | WBinary bytes | WPing bytes | WPong bytes | WClose

text \<open>A session, with the bounded channel its sender feeds (oldest message first) and the watch flag.\<close>

record session_entry =
  se_user_id :: string
  se_queue :: "ws_message list"
  se_capacity :: nat
  se_receiver :: bool
  se_shutdown :: bool
  se_last_heartbeat_ms :: int

record presence_event =
  pe_user_id :: string
  pe_status :: string
  pe_last_seen :: string
  pe_event_time :: int
  pe_source_instance_id :: string

text \<open>\<open>HashMap\<close>s and \<open>HashSet\<close>s are lists without duplicates, in some order.\<close>

record im_state =
  im_entries :: "string \<Rightarrow> session_entry option"
  im_sessions :: "string list"
  im_user_sessions :: "(string \<times> string list) list"
  im_routes :: route_users
  im_nodes :: server_nodes
  im_published :: "presence_event list"

record im_env =
  en_config :: app_config
  en_lib :: route_lib
  en_faults :: redis_faults
  en_locks :: "lock_reply list"
  en_node_fails :: bool
  en_publish_fails :: bool
  en_now_ms :: int
  en_now_iso :: string
  en_to_string :: "json \<Rightarrow> string option"
  en_presence :: "presence_event \<Rightarrow> string option"
  en_parse_presence :: "string \<Rightarrow> presence_event option"

section \<open>Channels\<close>

datatype try_send_error = Full | Closed

definition try_send :: "string \<Rightarrow> ws_message \<Rightarrow> im_state \<Rightarrow> try_send_error + im_state" where
  "try_send session_id msg s =
     (case im_entries s session_id of
        None \<Rightarrow> Inl Closed
      | Some e \<Rightarrow>
          if \<not> se_receiver e then Inl Closed
          else if se_capacity e \<le> length (se_queue e) then Inl Full
          else Inr (s\<lparr>im_entries := (im_entries s)(session_id \<mapsto> e\<lparr>se_queue := se_queue e @ [msg]\<rparr>)\<rparr>))"

text \<open>\<open>send_close\<close> and \<open>send_ws_message\<close> only log a failure.\<close>

definition try_send_ignored :: "string \<Rightarrow> ws_message \<Rightarrow> im_state \<Rightarrow> im_state" where
  "try_send_ignored session_id msg s = (case try_send session_id msg s of Inl _ \<Rightarrow> s | Inr s' \<Rightarrow> s')"

definition send_close :: "string \<Rightarrow> im_state \<Rightarrow> im_state" where
  "send_close session_id s = try_send_ignored session_id WClose s"

definition serialize_ws_envelope :: "im_env \<Rightarrow> string \<Rightarrow> json \<Rightarrow> string option" where
  "serialize_ws_envelope E ws_type data =
     en_to_string E (JObj [(''type'', JStr ws_type), (''data'', data), (''timestamp'', JInt (en_now_ms E))])"

fun deliver_envelope_to_sessions ::
  "string list \<Rightarrow> string \<Rightarrow> string list \<Rightarrow> im_state \<Rightarrow> bool \<times> string list \<times> im_state"
where
  "deliver_envelope_to_sessions [] envelope slow s = (False, slow, s)"
| "deliver_envelope_to_sessions (session # sessions) envelope slow s =
     (case try_send session (WText envelope) s of
        Inr s' \<Rightarrow>
          (case deliver_envelope_to_sessions sessions envelope slow s' of (_, slow', s'') \<Rightarrow> (True, slow', s''))
      | Inl _ \<Rightarrow> deliver_envelope_to_sessions sessions envelope (slow @ [session]) s)"

section \<open>Looking sessions up\<close>

definition local_session_ids :: "im_state \<Rightarrow> string \<Rightarrow> string list" where
  "local_session_ids s user_id = unwrap_or (map_of (im_user_sessions s) (trim user_id)) []"

definition local_sessions :: "im_state \<Rightarrow> string \<Rightarrow> string list" where
  "local_sessions s user_id = filter (\<lambda>i. i \<in> set (im_sessions s)) (local_session_ids s user_id)"

definition local_user_counts :: "im_state \<Rightarrow> (string \<times> nat) list" where
  "local_user_counts s = map (\<lambda>(user_id, ids). (user_id, length ids)) (im_user_sessions s)"

definition total_session_count :: "im_state \<Rightarrow> nat" where
  "total_session_count s = length (im_sessions s)"

definition find_session_entry :: "im_state \<Rightarrow> string \<Rightarrow> session_entry option" where
  "find_session_entry s session_id =
     (if trim session_id \<in> set (im_sessions s) then im_entries s (trim session_id) else None)"

section \<open>Routes and presence\<close>

definition refresh_route_for_user :: "im_env \<Rightarrow> string \<Rightarrow> im_state \<Rightarrow> im_state" where
  "refresh_route_for_user E user_id s =
     s\<lparr>im_routes := upsert_local_route (en_config E) (en_lib E) (en_faults E) (en_locks E) (en_now_ms E)
         (im_routes s) user_id (length (local_sessions s user_id))\<rparr>"

definition remove_route :: "im_env \<Rightarrow> string \<Rightarrow> im_state \<Rightarrow> im_state" where
  "remove_route E user_id s =
     s\<lparr>im_routes := remove_local_route (en_config E) (en_lib E) (en_faults E) (en_locks E) (en_now_ms E)
         (im_routes s) user_id\<rparr>"

definition refresh_server_node :: "im_env \<Rightarrow> im_state \<Rightarrow> im_state" where
  "refresh_server_node E s =
     s\<lparr>im_nodes := upsert_server_node (en_config E) (en_node_fails E) (en_now_ms E) (im_nodes s)
         (total_session_count s)\<rparr>"

definition unregister_server_node :: "im_env \<Rightarrow> im_state \<Rightarrow> im_state" where
  "unregister_server_node E s = s\<lparr>im_nodes := remove_server_node (en_config E) (en_node_fails E) (im_nodes s)\<rparr>"

definition publish_presence :: "im_env \<Rightarrow> string \<Rightarrow> string \<Rightarrow> im_state \<Rightarrow> im_state" where
  "publish_presence E user_id status s =
     (case normalize_id user_id of
        None \<Rightarrow> s
      | Some user_id \<Rightarrow>
          let event = \<lparr>pe_user_id = user_id, pe_status = status, pe_last_seen = en_now_iso E,
                pe_event_time = en_now_ms E, pe_source_instance_id = cfg_instance_id (en_config E)\<rparr> in
          (case en_presence E event of
             None \<Rightarrow> s
           | Some payload \<Rightarrow> if en_publish_fails E then s else s\<lparr>im_published := im_published s @ [event]\<rparr>))"

section \<open>Removing a session\<close>

text \<open>
  The two tables have a lock each, so a removal is two steps: the entry leaves \<open>sessions\<close> and is
  told to shut down, then its identifier leaves the set of the user.
\<close>

definition remove_entry :: "string \<Rightarrow> im_state \<Rightarrow> string option \<times> im_state" where
  "remove_entry session_id s =
     (if session_id \<notin> set (im_sessions s) then (None, s)
      else case im_entries s session_id of
        None \<Rightarrow> (None, s)
      | Some e \<Rightarrow>
          (Some (se_user_id e),
           s\<lparr>im_sessions := removeAll session_id (im_sessions s),
             im_entries := (im_entries s)(session_id \<mapsto> e\<lparr>se_shutdown := True\<rparr>)\<rparr>))"

definition remove_user_id :: "string \<Rightarrow> string \<Rightarrow> im_state \<Rightarrow> bool \<times> im_state" where
  "remove_user_id user_id session_id s =
     (case map_of (im_user_sessions s) user_id of
        None \<Rightarrow> (False, s)
      | Some ids \<Rightarrow>
          let ids = removeAll session_id ids in
          (ids \<noteq> [],
           s\<lparr>im_user_sessions :=
              if ids = [] then AList.delete user_id (im_user_sessions s)
              else AList.update user_id ids (im_user_sessions s)\<rparr>))"

definition remove_session_local :: "string \<Rightarrow> im_state \<Rightarrow> (string \<times> bool) option \<times> im_state" where
  "remove_session_local session_id s =
     (case remove_entry session_id s of
        (None, s) \<Rightarrow> (None, s)
      | (Some user_id, s) \<Rightarrow>
          (case remove_user_id user_id session_id s of (has_sessions, s) \<Rightarrow> (Some (user_id, has_sessions), s)))"

definition drop_session_silently :: "im_env \<Rightarrow> string \<Rightarrow> im_state \<Rightarrow> bool \<times> im_state" where
  "drop_session_silently E session_id s =
     (case remove_session_local session_id s of
        (None, s) \<Rightarrow> (False, s)
      | (Some (user_id, has_sessions), s) \<Rightarrow>
          let s = (if has_sessions then refresh_route_for_user E user_id s else remove_route E user_id s) in
          (True, refresh_server_node E s))"

definition drop_all :: "im_env \<Rightarrow> string list \<Rightarrow> im_state \<Rightarrow> im_state" where
  "drop_all E session_ids s = foldl (\<lambda>s i. snd (drop_session_silently E i s)) s session_ids"

section \<open>Pushing\<close>

definition push_to_all :: "im_env \<Rightarrow> string \<Rightarrow> json \<Rightarrow> im_state \<Rightarrow> bool \<times> im_state" where
  "push_to_all E ws_type data s =
     (if im_sessions s = [] then (False, s)
      else case serialize_ws_envelope E ws_type data of
        None \<Rightarrow> (False, s)
      | Some envelope \<Rightarrow>
          (case deliver_envelope_to_sessions (im_sessions s) envelope [] s of
             (delivered, slow, s) \<Rightarrow> (delivered, drop_all E slow s)))"

definition broadcast_presence_locally ::
  "im_env \<Rightarrow> string \<Rightarrow> string \<Rightarrow> string option \<Rightarrow> im_state \<Rightarrow> im_state"
where
  "broadcast_presence_locally E user_id status last_seen s =
     snd (push_to_all E ''ONLINE_STATUS''
       (JObj [(''lastSeen'', JStr (unwrap_or last_seen (en_now_iso E))), (''status'', JStr status),
              (''userId'', JStr user_id)]) s)"

fun deliver_to_users ::
  "int list \<Rightarrow> string \<Rightarrow> nat \<Rightarrow> string list \<Rightarrow> im_state \<Rightarrow> nat \<times> string list \<times> im_state"
where
  "deliver_to_users [] envelope delivered slow s = (delivered, slow, s)"
| "deliver_to_users (user_id # user_ids) envelope delivered slow s =
     (let sessions = local_sessions s (show_int user_id) in
      if sessions = [] then deliver_to_users user_ids envelope delivered slow s
      else case deliver_envelope_to_sessions sessions envelope slow s of (any, slow, s) \<Rightarrow>
        deliver_to_users user_ids envelope (if any then min (delivered + 1) (2 ^ 64 - 1) else delivered) slow s)"

definition push_to_users :: "im_env \<Rightarrow> int list \<Rightarrow> string \<Rightarrow> json \<Rightarrow> im_state \<Rightarrow> nat \<times> im_state" where
  "push_to_users E user_ids ws_type data s =
     (if user_ids = [] then (0, s)
      else case serialize_ws_envelope E ws_type data of
        None \<Rightarrow> (0, s)
      | Some envelope \<Rightarrow>
          (case deliver_to_users user_ids envelope 0 [] s of
             (delivered, slow, s) \<Rightarrow> (delivered, drop_all E slow s)))"

definition push_to_user :: "im_env \<Rightarrow> int \<Rightarrow> string \<Rightarrow> json \<Rightarrow> im_state \<Rightarrow> bool \<times> im_state" where
  "push_to_user E user_id ws_type data s =
     (case push_to_users E [user_id] ws_type data s of (n, s) \<Rightarrow> (0 < n, s))"

section \<open>Registering and unregistering\<close>

definition new_entry :: "im_env \<Rightarrow> string \<Rightarrow> nat \<Rightarrow> session_entry" where
  "new_entry E user_id capacity =
     \<lparr>se_user_id = user_id, se_queue = [], se_capacity = capacity, se_receiver = True, se_shutdown = False,
      se_last_heartbeat_ms = en_now_ms E\<rparr>"

text \<open>Both tables under both locks; says whether the user had no session here.\<close>

definition register_local :: "im_env \<Rightarrow> string \<Rightarrow> string \<Rightarrow> nat \<Rightarrow> im_state \<Rightarrow> bool \<times> im_state" where
  "register_local E session_id user_id capacity s =
     (let ids = unwrap_or (map_of (im_user_sessions s) user_id) [] in
      (ids = [],
       s\<lparr>im_user_sessions := AList.update user_id (List.insert session_id ids) (im_user_sessions s),
         im_sessions := List.insert session_id (im_sessions s),
         im_entries := (im_entries s)(session_id \<mapsto> new_entry E user_id capacity)\<rparr>))"

definition register_announce :: "im_env \<Rightarrow> string \<Rightarrow> bool \<Rightarrow> im_state \<Rightarrow> im_state" where
  "register_announce E user_id first_local s =
     (let s = refresh_server_node E (refresh_route_for_user E user_id s) in
      if first_local
      then publish_presence E user_id ''ONLINE'' (broadcast_presence_locally E user_id ''ONLINE'' None s)
      else s)"

definition register_session :: "im_env \<Rightarrow> string \<Rightarrow> string \<Rightarrow> nat \<Rightarrow> im_state \<Rightarrow> im_state" where
  "register_session E session_id user_id capacity s =
     (case register_local E session_id user_id capacity s of
        (first_local, s) \<Rightarrow> register_announce E user_id first_local s)"

definition unregister_announce :: "im_env \<Rightarrow> string \<Rightarrow> bool \<Rightarrow> im_state \<Rightarrow> im_state" where
  "unregister_announce E user_id user_has_sessions s =
     refresh_server_node E
       (if user_has_sessions then refresh_route_for_user E user_id s
        else publish_presence E user_id ''OFFLINE''
          (broadcast_presence_locally E user_id ''OFFLINE'' None (remove_route E user_id s)))"

definition unregister_session :: "im_env \<Rightarrow> string \<Rightarrow> im_state \<Rightarrow> bool \<times> im_state" where
  "unregister_session E session_id s =
     (case remove_session_local session_id s of
        (None, s) \<Rightarrow> (False, s)
      | (Some (user_id, user_has_sessions), s) \<Rightarrow> (True, unregister_announce E user_id user_has_sessions s))"

section \<open>Requests about users\<close>

text \<open>Closing a session: a close frame if it is still registered, then its removal.\<close>

definition close_session :: "im_env \<Rightarrow> im_state \<Rightarrow> string \<Rightarrow> im_state" where
  "close_session E s session_id =
     snd (unregister_session E session_id
       (case find_session_entry s session_id of Some e \<Rightarrow> send_close (trim session_id) s | None \<Rightarrow> s))"

definition user_offline :: "im_env \<Rightarrow> string \<Rightarrow> im_state \<Rightarrow> bool \<times> im_state" where
  "user_offline E user_id s =
     (case normalize_id user_id of
        None \<Rightarrow> (False, s)
      | Some user_id \<Rightarrow>
          let sessions = local_session_ids s user_id in
          if sessions = [] then (False, remove_route E user_id s)
          else (True, foldl (close_session E) s sessions))"

definition store_heartbeat :: "int \<Rightarrow> im_state \<Rightarrow> string \<Rightarrow> im_state" where
  "store_heartbeat now s session_id =
     s\<lparr>im_entries := (im_entries s)(session_id := map_option (se_last_heartbeat_ms_update (\<lambda>_. now)) (im_entries s session_id))\<rparr>"

definition touch_user_heartbeat :: "im_env \<Rightarrow> string \<Rightarrow> im_state \<Rightarrow> bool \<times> im_state" where
  "touch_user_heartbeat E user_id s =
     (case normalize_id user_id of
        None \<Rightarrow> (False, s)
      | Some user_id \<Rightarrow>
          let entries = local_sessions s user_id in
          if entries = [] then (False, remove_route E user_id s)
          else (True, refresh_route_for_user E user_id (foldl (store_heartbeat (en_now_ms E)) s entries)))"

definition refresh_session_heartbeat :: "im_env \<Rightarrow> string \<Rightarrow> string \<Rightarrow> im_state \<Rightarrow> bool \<times> im_state" where
  "refresh_session_heartbeat E user_id session_id s =
     (case find_session_entry s session_id of
        None \<Rightarrow> (False, s)
      | Some e \<Rightarrow>
          if se_user_id e \<noteq> trim user_id then (False, s)
          else (True, refresh_route_for_user E (se_user_id e) (store_heartbeat (en_now_ms E) s (trim session_id))))"

fun check_users_online_status ::
  "im_env \<Rightarrow> string list \<Rightarrow> (string \<times> bool) list \<Rightarrow> im_state \<Rightarrow> (string \<times> bool) list \<times> im_state"
where
  "check_users_online_status E [] status s = (status, s)"
| "check_users_online_status E (raw # user_ids) status s =
     (case normalize_id raw of
        None \<Rightarrow> check_users_online_status E user_ids status s
      | Some user_id \<Rightarrow>
          if local_sessions s user_id \<noteq> []
          then check_users_online_status E user_ids (AList.update user_id True status) s
          else (case is_user_globally_online (en_lib E) (en_faults E) (en_locks E) (en_now_ms E) (im_routes s) user_id of
                  (online, routes) \<Rightarrow>
                    check_users_online_status E user_ids (AList.update user_id online status) (s\<lparr>im_routes := routes\<rparr>)))"

section \<open>Rounds of the background tasks\<close>

definition renew_routes :: "im_env \<Rightarrow> im_state \<Rightarrow> im_state" where
  "renew_routes E s =
     s\<lparr>im_routes := foldl (\<lambda>routes (user_id, count). upsert_local_route (en_config E) (en_lib E) (en_faults E)
         (en_locks E) (en_now_ms E) routes user_id count) (im_routes s) (local_user_counts s)\<rparr>"

definition stale_sessions :: "im_env \<Rightarrow> im_state \<Rightarrow> string list" where
  "stale_sessions E s =
     (let timeout = max (cfg_session_heartbeat_timeout_ms (en_config E)) 1000 in
      filter (\<lambda>i. case im_entries s i of
          Some e \<Rightarrow> max (- (2 ^ 63)) (min (2 ^ 63 - 1) (en_now_ms E - se_last_heartbeat_ms e)) > timeout
        | None \<Rightarrow> False) (im_sessions s))"

definition cleanup_stale_sessions :: "im_env \<Rightarrow> im_state \<Rightarrow> im_state" where
  "cleanup_stale_sessions E s = foldl (close_session E) s (stale_sessions E s)"

definition presence_message :: "im_env \<Rightarrow> string \<Rightarrow> im_state \<Rightarrow> im_state" where
  "presence_message E payload s =
     (case en_parse_presence E payload of
        None \<Rightarrow> s
      | Some event \<Rightarrow>
          if pe_source_instance_id event \<noteq> cfg_instance_id (en_config E)
          then broadcast_presence_locally E (pe_user_id event) (pe_status event) (Some (pe_last_seen event)) s
          else s)"

end
