(* ===== verification/Im_Samples.thy ===== *)
theory Im_Samples
  imports Im_Sessions Prelude
begin

text \<open>
  Executable instances of what the im-server takes from its libraries: snapshots of leases as
  self-delimiting text, and the configuration of an empty environment.
\<close>

fun show_leases :: "snapshot \<Rightarrow> string" where
  "show_leases [] = []"
| "show_leases ((k, l) # m) =
     mark k @ mark (int_text (rl_session_count l)) @ mark (int_text (rl_expires_at_epoch_ms l)) @
     mark (opt_text (rl_internal_http_url l)) @ mark (opt_text (rl_internal_ws_url l)) @ show_leases m"

fun parse_leases :: "nat \<Rightarrow> string \<Rightarrow> snapshot" where
  "parse_leases 0 t = []"
| "parse_leases (Suc n) t =
     (if t = [] then [] else
        let (k, t) = unmark t; (count, t) = unmark t; (expires, t) = unmark t; (http, t) = unmark t; (ws, t) = unmark t
        in (k, \<lparr>rl_session_count = text_int count, rl_expires_at_epoch_ms = text_int expires,
                rl_internal_http_url = text_opt http, rl_internal_ws_url = text_opt ws\<rparr>) # parse_leases n t)"

lemma parse_show_leases: "length m \<le> n \<Longrightarrow> parse_leases n (show_leases m) = m"
proof (induction m arbitrary: n)
  case Nil
  then show ?case by (cases n) simp_all
next
  case (Cons x m)
  then show ?case by (cases x; cases n) simp_all
qed

lemma show_leases_length: "length m \<le> length (show_leases m)"
proof (induction m)
  case (Cons x m)
  obtain k l where "x = (k, l)" by (cases x)
  then have "length (show_leases (x # m)) \<ge> length (mark k) + length (show_leases m)" by simp
  moreover have "mark k \<noteq> []" by (rule mark_not_Nil)
  ultimately show ?case using Cons by (cases "mark k") simp_all
qed simp

definition sample_route_lib :: route_lib where
  "sample_route_lib =
     \<lparr>ro_utf8_lossy = (\<lambda>s. s),
      ro_parse = (\<lambda>s. let t = tl (butlast s); m = parse_leases (length t) t in
         if distinct (map fst m) then Some m else None),
      ro_print = (\<lambda>m. Some (CHR 0x7B # show_leases m @ [CHR 0x7D]))\<rparr>"

lemma sample_extract: "extract_json_object sample_route_lib (CHR 0x7B # s @ [CHR 0x7D]) = Some (CHR 0x7B # s @ [CHR 0x7D])"
  by (simp add: extract_json_object_def sample_route_lib_def Let_def)

lemma sample_route_json: "route_json sample_route_lib" "stored_distinct sample_route_lib"
proof -
  show "route_json sample_route_lib"
    unfolding route_json_def
  proof (intro allI impI)
    fix m :: snapshot
    assume m: "distinct (map fst m)"
    let ?p = "CHR 0x7B # show_leases m @ [CHR 0x7D]"
    have "ro_print sample_route_lib m = Some ?p" "ro_parse sample_route_lib ?p = Some m"
      using m by (simp_all add: sample_route_lib_def parse_show_leases[OF show_leases_length])
    with m sample_extract show "\<exists>p m'. ro_print sample_route_lib m = Some p \<and>
        extract_json_object sample_route_lib p = Some p \<and> ro_parse sample_route_lib p = Some m' \<and>
        distinct (map fst m') \<and> map_of m' = map_of m" by blast
  qed
  show "stored_distinct sample_route_lib"
    by (auto simp: stored_distinct_def sample_route_lib_def Let_def split: if_splits)
qed

text \<open>The configuration of an empty environment.\<close>

definition sample_config :: app_config where
  "sample_config = (case config_from_env (\<lambda>_. None) of Inr c \<Rightarrow> c | Inl _ \<Rightarrow> undefined)"

lemma sample_config_from: "config_from_env (\<lambda>_. None) = Inr sample_config"
  by (simp add: sample_config_def config_from_env_def is_local_dev_or_test_def is_local_env_value_def
      to_ascii_lowercase_def Let_def)

lemma sample_config_fields:
  "cfg_gateway_user_id_header sample_config = ''X-User-Id''"
  "cfg_gateway_username_header sample_config = ''X-Username''"
  "cfg_gateway_auth_max_skew_ms sample_config = 300000" "cfg_internal_max_skew_ms sample_config = 300000"
  "cfg_gateway_auth_secret sample_config = default_gateway_auth_secret"
  "cfg_route_lease_ttl_ms sample_config = 120000"
  "cfg_invalid_payload_threshold sample_config = 3" "cfg_max_payload_length sample_config = 8192"
  by (simp_all add: sample_config_def config_from_env_def is_local_dev_or_test_def is_local_env_value_def
      to_ascii_lowercase_def Let_def env_string_def env_i64_def env_usize_def)

end
