(* ===== verification/Im_Security_Properties.thy ===== *)
theory Im_Security_Properties
  imports Im_Security Im_Samples
begin

text \<open>What the signatures between the servers guarantee, and what they do not.\<close>

section \<open>Samples\<close>

text \<open>A keyed sum as the authentication code, printed in decimal.\<close>

definition sample_auth :: auth_lib where
  "sample_auth = \<lparr>al_hmac = (\<lambda>k m. Some [sum_list k + sum_list m]), al_sha256 = (\<lambda>b. [sum_list b]),
     al_b64url = (\<lambda>b. concat (map (\<lambda>w. show_nat (unat w)) b)), al_jwt_hs512 = (\<lambda>_ _. None)\<rparr>"

lemma plain_concat: "plain (concat xss) \<longleftrightarrow> list_all plain xss"
  by (induction xss) (auto simp: plain_def)

lemma plain_show_nat [simp]: "plain (show_nat n)"
  using plain_show_int[of "int n"] by (simp add: show_int_def)

lemma sample_auth_text: "b64url_text sample_auth"
  by (simp add: b64url_text_def sample_auth_def plain_concat list_all_iff)

section \<open>Internal requests\<close>

lemma internal_headers:
  assumes "internal_signature_headers A t nonce verb path body config = Inr hs" "b64url_text A" "plain nonce"
  obtains mac where "al_hmac A (ascii (cfg_internal_secret config))
      (ascii (build_internal_canonical verb path (sha256_base64_url A body) (show_int t) nonce)) = Some mac"
    "header_value hs ''X-Internal-Timestamp'' = Some (show_int t)" "header_value hs ''X-Internal-Nonce'' = Some nonce"
    "header_value hs ''X-Internal-Signature'' = Some (al_b64url A mac)"
proof -
  from assms(1) obtain mac where mac: "al_hmac A (ascii (cfg_internal_secret config))
      (ascii (build_internal_canonical verb path (sha256_base64_url A body) (show_int t) nonce)) = Some mac"
    and hs: "hs = [(''X-Internal-Timestamp'', show_int t), (''X-Internal-Nonce'', nonce),
      (''X-Internal-Signature'', al_b64url A mac)]"
    by (auto simp: internal_signature_headers_def sign_hmac_def and_then_Inr_iff Let_def)
  have "plain (al_b64url A mac)" using assms(2) by (simp add: b64url_text_def)
  with assms(3) have "header_value hs ''X-Internal-Timestamp'' = Some (show_int t)"
    "header_value hs ''X-Internal-Nonce'' = Some nonce" "header_value hs ''X-Internal-Signature'' = Some (al_b64url A mac)"
    unfolding hs
    by (intro header_value_plain; simp add: header_text_Cons ascii_case plain_visible)+
  with mac show thesis by (rule that)
qed

lemma signed_accepted:
  assumes "internal_signature_headers A t nonce verb path body config = Inr hs" "b64url_text A" "plain nonce"
    and "- (2 ^ 63) \<le> t" "t < 2 ^ 63" "within_skew now t (cfg_internal_max_skew_ms config)"
    and "normalize_path path' = normalize_path path"
    and "to_ascii_uppercase (trim verb') = to_ascii_uppercase (trim verb)"
  shows "validate_internal_signature A now hs verb' path' body config = Inr ()"
proof -
  obtain mac where mac: "al_hmac A (ascii (cfg_internal_secret config))
      (ascii (build_internal_canonical verb path (sha256_base64_url A body) (show_int t) nonce)) = Some mac"
    and hs: "header_value hs ''X-Internal-Timestamp'' = Some (show_int t)" "header_value hs ''X-Internal-Nonce'' = Some nonce"
      "header_value hs ''X-Internal-Signature'' = Some (al_b64url A mac)"
    using internal_headers[OF assms(1-3)] .
  have canonical: "build_internal_canonical verb' path' h ts n = build_internal_canonical verb path h ts n" for h ts n
    using assms(7,8) by (simp add: build_internal_canonical_def)
  show ?thesis
    unfolding validate_internal_ok_iff canonical using hs mac assms(6) parse_i64_show[OF assms(4,5)] by blast
qed

text \<open>
  C37: Signed internal requests. The headers one server signs are accepted by another with the same
  secret for the same body, path (without its query) and verb (without regard to case), as long
  as the clocks agree within the allowed skew. Whatever is accepted carries the authentication code
  of exactly these values under the secret. Nothing is remembered: an accepted request is accepted
  again at every time within the skew.
\<close>

theorem internal_signature_round_trip:
  assumes "internal_signature_headers A t nonce verb path body config = Inr hs" "b64url_text A" "plain nonce"
    and "- (2 ^ 63) \<le> t" "t < 2 ^ 63" "within_skew now t (cfg_internal_max_skew_ms config)"
    and "normalize_path path' = normalize_path path"
    and "to_ascii_uppercase (trim verb') = to_ascii_uppercase (trim verb)"
  shows "validate_internal_signature A now hs verb' path' body config = Inr () \<and>
    (validate_internal_signature A now1 headers m p b config = Inr () \<longleftrightarrow>
      (\<exists>ts nonce sign t mac.
        header_value headers ''X-Internal-Timestamp'' = Some ts \<and> header_value headers ''X-Internal-Nonce'' = Some nonce \<and>
        header_value headers ''X-Internal-Signature'' = Some sign \<and> parse_i64 ts = Some t \<and>
        within_skew now1 t (cfg_internal_max_skew_ms config) \<and>
        al_hmac A (ascii (cfg_internal_secret config))
          (ascii (build_internal_canonical m p (sha256_base64_url A b) ts nonce)) = Some mac \<and>
        ascii (al_b64url A mac) = ascii sign)) \<and>
    (\<forall>now2. within_skew now2 t (cfg_internal_max_skew_ms config) \<longrightarrow>
      validate_internal_signature A now2 hs verb' path' body config = Inr ())"
  using signed_accepted[OF assms] signed_accepted[OF assms(1-5) _ assms(7,8)] validate_internal_ok_iff by blast

theorem internal_signature_round_trip_witness:
  "\<exists>hs. internal_signature_headers sample_auth 1700000000000 ''n1'' ''POST'' ''/api/im/online-status'' [91, 93] sample_config = Inr hs \<and>
     validate_internal_signature sample_auth 1700000000500 hs ''post'' ''/api/im/online-status?x=1'' [91, 93] sample_config = Inr ()"
proof -
  obtain hs where hs: "internal_signature_headers sample_auth 1700000000000 ''n1'' ''POST'' ''/api/im/online-status'' [91, 93]
      sample_config = Inr hs"
    by (simp add: internal_signature_headers_def sign_hmac_def sample_auth_def Let_def)
  have n: "plain ''n1''" by (simp add: plain_def)
  have skew: "within_skew 1700000000500 1700000000000 (cfg_internal_max_skew_ms sample_config)"
    by (simp add: within_skew_iff sample_config_fields)
  have path: "normalize_path ''/api/im/online-status?x=1'' = normalize_path ''/api/im/online-status''"
    by (simp add: normalize_path_def)
  have "plain ''post''" "plain ''POST''" by (simp_all add: plain_def)
  then have verb: "to_ascii_uppercase (trim ''post'') = to_ascii_uppercase (trim ''POST'')"
    by (simp only: plain_trimmed) code_simp
  have range: "- (2 ^ 63) \<le> (1700000000000 :: int)" "(1700000000000 :: int) < 2 ^ 63" by simp_all
  from internal_signature_round_trip[OF hs sample_auth_text n range skew path verb, THEN conjunct1] hs
  show ?thesis by blast
qed

section \<open>Gateway identities\<close>

lemma gateway_headers:
  assumes "sign_gateway_headers A t nonce uid name secret = Inr hs" "b64url_text A" "plain nonce"
  obtains mac where "al_hmac A (ascii secret) (ascii (build_gateway_canonical (show_int uid) name (base64_url A ''null'')
      (base64_url A ''null'') (base64_url A ''null'') (show_int t) nonce)) = Some mac"
    "header_value hs ''X-User-Id'' = Some (show_int uid)"
    "header_value hs ''X-Username'' = (if list_all visible_ascii name then Some (trim name) else None)"
    "header_value hs ''X-Auth-User'' = Some (base64_url A ''null'')"
    "header_value hs ''X-Auth-Perms'' = Some (base64_url A ''null'')"
    "header_value hs ''X-Auth-Data'' = Some (base64_url A ''null'')"
    "header_value hs ''X-Auth-Ts'' = Some (show_int t)" "header_value hs ''X-Auth-Nonce'' = Some nonce"
    "header_value hs ''X-Auth-Sign'' = Some (al_b64url A mac)"
proof -
  from assms(1) obtain mac where mac: "al_hmac A (ascii secret) (ascii (build_gateway_canonical (show_int uid) name
      (base64_url A ''null'') (base64_url A ''null'') (base64_url A ''null'') (show_int t) nonce)) = Some mac"
    and hs: "hs = [(''X-User-Id'', show_int uid), (''X-Username'', name), (''X-Auth-User'', base64_url A ''null''),
             (''X-Auth-Perms'', base64_url A ''null''), (''X-Auth-Data'', base64_url A ''null''), (''X-Auth-Ts'', show_int t),
             (''X-Auth-Nonce'', nonce), (''X-Auth-Sign'', al_b64url A mac)]"
    by (auto simp: sign_gateway_headers_def hmac_sha256_base64_url_def and_then_Inr_iff Let_def build_gateway_canonical_def)
  have p: "plain (al_b64url A b)" for b using assms(2) by (simp add: b64url_text_def)
  have "header_value hs ''X-User-Id'' = Some (show_int uid)"
    "header_value hs ''X-Auth-User'' = Some (base64_url A ''null'')"
    "header_value hs ''X-Auth-Perms'' = Some (base64_url A ''null'')"
    "header_value hs ''X-Auth-Data'' = Some (base64_url A ''null'')"
    "header_value hs ''X-Auth-Ts'' = Some (show_int t)" "header_value hs ''X-Auth-Nonce'' = Some nonce"
    "header_value hs ''X-Auth-Sign'' = Some (al_b64url A mac)"
    unfolding hs base64_url_def
    by (intro header_value_plain; simp add: header_text_Cons ascii_case plain_visible p assms(3))+
  moreover have "header_value hs ''X-Username'' = (if list_all visible_ascii name then Some (trim name) else None)"
    unfolding hs by (simp add: header_value_def header_text_Cons ascii_case)
  ultimately show thesis using mac by (intro that)
qed

text \<open>
  Gateway identities. A username that is visible ASCII without outer white space passes: the
  headers the API server signs give the im-server exactly the user identifier and name, within the
  skew. A username that is not visible ASCII is always refused, although its signature is genuine;
  one with outer white space is accepted only if the authentication code of the trimmed name is the
  same, because the signature covers the name as it is and the check recomputes it trimmed.
\<close>

theorem gateway_identity_round_trip:
  assumes "sign_gateway_headers A t nonce uid name (cfg_gateway_auth_secret config) = Inr hs"
    and "b64url_text A" "plain nonce"
    and "- (2 ^ 63) \<le> t" "t < 2 ^ 63" "- (2 ^ 63) \<le> uid" "uid < 2 ^ 63"
    and "cfg_gateway_user_id_header config = ''X-User-Id''" "cfg_gateway_username_header config = ''X-Username''"
    and "within_skew now t (cfg_gateway_auth_max_skew_ms config)"
  shows "(list_all visible_ascii name \<and> trim name = name \<and> name \<noteq> [] \<longrightarrow>
      validate_gateway_ws_identity A now hs config = Inr (uid, name)) \<and>
    (\<not> list_all visible_ascii name \<longrightarrow> \<not> is_ok (validate_gateway_ws_identity A now hs config)) \<and>
    (list_all visible_ascii name \<and> trim name \<noteq> name \<and> is_ok (validate_gateway_ws_identity A now hs config) \<longrightarrow>
      map_option (\<lambda>mac. ascii (al_b64url A mac)) (al_hmac A (ascii (cfg_gateway_auth_secret config))
        (ascii (build_gateway_canonical (show_int uid) (trim name) (base64_url A ''null'') (base64_url A ''null'')
          (base64_url A ''null'') (show_int t) nonce))) =
      map_option (\<lambda>mac. ascii (al_b64url A mac)) (al_hmac A (ascii (cfg_gateway_auth_secret config))
        (ascii (build_gateway_canonical (show_int uid) name (base64_url A ''null'') (base64_url A ''null'')
          (base64_url A ''null'') (show_int t) nonce))))"
proof -
  obtain mac where mac: "al_hmac A (ascii (cfg_gateway_auth_secret config)) (ascii (build_gateway_canonical (show_int uid)
      name (base64_url A ''null'') (base64_url A ''null'') (base64_url A ''null'') (show_int t) nonce)) = Some mac"
    and hs: "header_value hs ''X-User-Id'' = Some (show_int uid)"
      "header_value hs ''X-Username'' = (if list_all visible_ascii name then Some (trim name) else None)"
      "header_value hs ''X-Auth-User'' = Some (base64_url A ''null'')"
      "header_value hs ''X-Auth-Perms'' = Some (base64_url A ''null'')"
      "header_value hs ''X-Auth-Data'' = Some (base64_url A ''null'')"
      "header_value hs ''X-Auth-Ts'' = Some (show_int t)" "header_value hs ''X-Auth-Nonce'' = Some nonce"
      "header_value hs ''X-Auth-Sign'' = Some (al_b64url A mac)"
    using gateway_headers[OF assms(1-3)] .
  have parse: "trim (show_int uid) = show_int uid" "show_int uid \<noteq> []" "parse_i64 (show_int uid) = Some uid"
    "parse_i64 (show_int t) = Some t"
    using plain_trimmed[OF plain_show_int] parse_i64_show assms(4-7) by simp_all
  note vals = hs[folded assms(8,9)]
  have "validate_gateway_ws_identity A now hs config = Inr (uid, name)"
    if "list_all visible_ascii name" "trim name = name" "name \<noteq> []"
    using that vals parse mac assms(10)
    by (simp add: validate_gateway_ws_identity_def or_rejected_def verify_hmac_def sign_hmac_def Let_def)
  moreover have "list_all visible_ascii name \<and> (\<exists>m'. al_hmac A (ascii (cfg_gateway_auth_secret config))
      (ascii (build_gateway_canonical (show_int uid) (trim name) (base64_url A ''null'') (base64_url A ''null'')
        (base64_url A ''null'') (show_int t) nonce)) = Some m' \<and> ascii (al_b64url A m') = ascii (al_b64url A mac))"
    if "validate_gateway_ws_identity A now hs config = Inr (u, n)" for u n
    using that by (rule validate_gateway_okD) (use vals parse in \<open>auto split: if_splits\<close>)
  ultimately show ?thesis unfolding is_ok_iff using mac by fastforce
qed

theorem gateway_identity_round_trip_witness:
  "\<exists>hs. sign_gateway_headers sample_auth 1700000000000 ''n1'' 7 ''alice'' default_gateway_auth_secret = Inr hs \<and>
     validate_gateway_ws_identity sample_auth 1700000000500 hs sample_config = Inr (7, ''alice'')"
proof -
  obtain hs where hs: "sign_gateway_headers sample_auth 1700000000000 ''n1'' 7 ''alice''
      (cfg_gateway_auth_secret sample_config) = Inr hs"
    by (simp add: sign_gateway_headers_def hmac_sha256_base64_url_def sample_auth_def Let_def)
  have n: "plain ''n1''" "plain ''alice''" by (simp_all add: plain_def)
  have skew: "within_skew 1700000000500 1700000000000 (cfg_gateway_auth_max_skew_ms sample_config)"
    by (simp add: within_skew_iff sample_config_fields)
  from gateway_identity_round_trip[OF hs sample_auth_text n(1) _ _ _ _ sample_config_fields(1,2) skew]
    plain_visible[OF n(2)] plain_trimmed[OF n(2)] hs
  show ?thesis by (auto simp: sample_config_fields)
qed

end
