(* ===== verification/Api_Token_Properties.thy ===== *)
theory Api_Token_Properties
  imports Api_Token_Rules Api_Samples Im_Security_Properties
begin

text \<open>
  What the token and ticket handlers promise while they run side by side: a ticket opens one websocket
  and a refresh token is exchanged once; what revocation covers; and that both servers read the same
  signatures.
\<close>

section \<open>The handlers as tasks\<close>

datatype token_call =
    Issue_ticket header_map
  | Consume_ticket header_map string bytes
  | Refresh_tokens header_map bytes
  | Parse_token header_map bytes
  | Issue_tokens header_map string bytes
  | Revoke_token header_map string bytes
  | Revoke_user_tokens header_map string int bytes
  | Validate_token header_map string bytes
  | Introspect header_map string bytes
  | Check_permission header_map string bytes
  | User_resource header_map string int

datatype token_answer = Ticket_consumed consume_ticket_result | Tokens_refreshed "header_map \<times> refresh_response" | Done

abbreviation finish :: "('a \<Rightarrow> token_answer) \<Rightarrow> 'a api \<Rightarrow> token_answer api" where
  "finish f m \<equiv> act_then m (\<lambda>x. act_ok (f x))"

primrec token_task :: "api_lib \<Rightarrow> api_config \<Rightarrow> token_call \<Rightarrow> token_answer api" where
  "token_task L config (Issue_ticket hs) = finish (\<lambda>_. Done) (issue_ws_ticket L config hs)"
| "token_task L config (Consume_ticket hs path body) = finish Ticket_consumed (internal_consume_ws_ticket L config hs path body)"
| "token_task L config (Refresh_tokens hs body) = finish Tokens_refreshed (api_refresh L config hs body)"
| "token_task L config (Parse_token hs body) = finish (\<lambda>_. Done) (api_parse L config hs body)"
| "token_task L config (Issue_tokens hs path body) = finish (\<lambda>_. Done) (internal_issue_token L config hs path body)"
| "token_task L config (Revoke_token hs path body) = finish (\<lambda>_. Done) (internal_revoke_token L config hs path body)"
| "token_task L config (Revoke_user_tokens hs path u body) = finish (\<lambda>_. Done) (internal_revoke_user_tokens L config hs path u body)"
| "token_task L config (Validate_token hs path body) = finish (\<lambda>_. Done) (internal_validate_token L config hs path body)"
| "token_task L config (Introspect hs path body) = finish (\<lambda>_. Done) (internal_introspect L config hs path body)"
| "token_task L config (Check_permission hs path body) = finish (\<lambda>_. Done) (internal_check_permission L config hs path body)"
| "token_task L config (User_resource hs path u) = finish (\<lambda>_. Done) (internal_user_resource L config hs path u)"

context single_use
begin

lemma task: "quietly (token_task L config call)"
  by (cases call) (simp_all add: ensures_intros)

text \<open>The history names one winner.\<close>

lemma one_winner:
  assumes runs: "sys_runs (tokens_env key p) (map (token_task L config) calls, w) (ts', w')" and start: "unused k w"
    and traced: "\<And>n own. n < length calls \<Longrightarrow> wins (calls ! n) \<Longrightarrow>
      traced (spent key p k) taken_later (token_task L config (calls ! n)) (\<lambda>r own. won r \<longrightarrow> own = Some n) own"
    and i: "i < length calls" "wins (calls ! i)" "ts' ! i = Ret r" "won r"
    and j: "j < length calls" "wins (calls ! j)" "ts' ! j = Ret r'" "won r'"
  shows "i = j"
proof -
  define Q where "Q n = (\<lambda>r own. wins (calls ! n) \<longrightarrow> won r \<longrightarrow> own = Some n)" for n
  let ?ok = "\<lambda>own t Q. lasting taken_later Q \<and> traced (spent key p k) taken_later t Q own"
  have "lasting taken_later (Q n)" for n by (auto simp: lasting_def Q_def taken_later_def)
  moreover have "traced (spent key p k) taken_later (token_task L config (calls ! n)) (Q n) None" if "n < length calls" for n
    using traced[OF that] traced_weaken[OF harmless_traced[OF task]] by (cases "wins (calls ! n)") (auto simp: Q_def)
  ultimately have "list_all2 (?ok None) (map (token_task L config) calls) (map Q [0..<length calls])"
    by (simp add: list_all2_conv_all_nth)
  from once.runs_traced[OF runs _ this] start obtain own where "list_all2 (?ok own) ts' (map Q [0..<length calls])"
    by (auto simp: unused_None)
  then have "Q n r own" if "n < length calls" "ts' ! n = Ret r" for n r
    using list_all2_nthD2[of "?ok own" ts' "map Q [0..<length calls]" n] that by simp
  from this[OF i(1,3)] this[OF j(1,3)] i j show ?thesis by (simp add: Q_def)
qed

end

section \<open>Tickets\<close>

text \<open>
  C30: A ticket is consumed once. Requests of every kind that issue, consume, exchange, validate and
  revoke run side by side, interleaved in any way, while time passes and other programs change anything
  but this ticket; commands may fail or lose their replies. When one request is answered that a ticket
  is valid, every other request that names the same ticket is refused.
\<close>

theorem ticket_once:
  assumes "sys_runs (tokens_env (ws_ticket_key t) (\<lambda>_. True)) (map (token_task L config) calls, w) (ts', w')"
    and "unused t w" "i < length calls" "calls ! i = Consume_ticket hs path body" "asked_ticket L body = Some t"
    and "ts' ! i = act_ok (Ticket_consumed x)" "tc_valid x"
  shows "\<forall>j hs path body y. j < length calls \<and> j \<noteq> i \<and> calls ! j = Consume_ticket hs path body \<and>
    asked_ticket L body = Some t \<and> ts' ! j = act_ok (Ticket_consumed y) \<longrightarrow> \<not> tc_valid y"
proof -
  let ?wins = "\<lambda>call. \<exists>hs path body. call = Consume_ticket hs path body \<and> asked_ticket L body = Some t"
  let ?won = "\<lambda>r. \<exists>x. r = Inr (Ticket_consumed x) \<and> tc_valid x"
  have traced: "traced (spent (ws_ticket_key t) (\<lambda>_. True) t) taken_later (token_task L config (calls ! n))
      (\<lambda>r own. ?won r \<longrightarrow> own = Some n) own" if "?wins (calls ! n)" for n own
  proof -
    from that obtain hs path body where call: "calls ! n = Consume_ticket hs path body" "asked_ticket L body = Some t" by blast
    show ?thesis
      unfolding call(1) token_task.simps by (rule once.traced_then[OF consume_traced[OF call(2), where i = n]]) auto
  qed
  note winner = ticket_use.one_winner[OF assms(1,2), where wins = ?wins and won = ?won, OF traced assms(3) _ assms(6)]
  show ?thesis using winner assms(4,5,7) by blast
qed

section \<open>Refresh tokens\<close>

text \<open>
  C28: A refresh token is exchanged once. In the same setting, when one request is answered with new
  tokens, every other request that presents a refresh token with the same user and identifier, in its
  body or as a cookie, gets none, whatever is issued, revoked or exchanged in between.
\<close>

theorem refresh_once:
  assumes "sys_runs (tokens_env (refresh_jti_key (jc_user_id c)) ((=) (jc_jti c))) (map (token_task L config) calls, w) (ts', w')"
    and "unused (jc_jti c) w" "i < length calls" "calls ! i = Refresh_tokens hs body"
    and "presented_claims L config hs body = Some c" "ts' ! i = act_ok x"
  shows "\<forall>j hs body c'. j < length calls \<and> j \<noteq> i \<and> calls ! j = Refresh_tokens hs body \<and>
    presented_claims L config hs body = Some c' \<and> jc_user_id c' = jc_user_id c \<and> jc_jti c' = jc_jti c \<longrightarrow>
    \<not> (\<exists>y. ts' ! j = act_ok y)"
proof -
  let ?wins = "\<lambda>call. \<exists>hs body c'. call = Refresh_tokens hs body \<and> presented_claims L config hs body = Some c' \<and>
    jc_user_id c' = jc_user_id c \<and> jc_jti c' = jc_jti c"
  let ?won = "\<lambda>r :: api_error + token_answer. \<exists>x. r = Inr x"
  have traced: "traced (spent (refresh_jti_key (jc_user_id c)) ((=) (jc_jti c)) (jc_jti c)) taken_later
      (token_task L config (calls ! n)) (\<lambda>r own. ?won r \<longrightarrow> own = Some n) own" if "?wins (calls ! n)" for n own
  proof -
    from that obtain hs body c' where call: "calls ! n = Refresh_tokens hs body" "presented_claims L config hs body = Some c'"
      "jc_user_id c' = jc_user_id c" "jc_jti c' = jc_jti c" by blast
    show ?thesis
      unfolding call(1) token_task.simps
      by (rule once.traced_then[OF refresh_traced[OF call(2), where i = n, unfolded call(3,4)]]) auto
  qed
  note winner = jti_use.one_winner[OF assms(1,2), where wins = ?wins and won = ?won, OF traced assms(3) _ assms(6)]
  show ?thesis using winner assms(4,5) by blast
qed

section \<open>Samples\<close>

text \<open>Requests are the ticket or token they are about; every signature reads \<open>sig\<close>.\<close>

definition sample_claims :: api_claims where
  "sample_claims = \<lparr>jc_user_id = 1, jc_username = ''alice'', jc_typ = ''refresh'', jc_jti = ''j'', jc_sub = ''alice'',
     jc_iat = 1699999000, jc_exp = 1700600000, jc_remember_me = False\<rparr>"

definition token_lib :: api_lib where
  "token_lib = sample_api\<lparr>ap_auth := sample_api_auth\<lparr>al_b64url := \<lambda>_. ''sig''\<rparr>,
     ap_read_consume := \<lambda>b. Some \<lparr>ct_ticket = Some (secret_text b), ct_user_id = Some 1\<rparr>,
     ap_read_refresh := \<lambda>b. Some \<lparr>rq_refresh_token = Some (secret_text b), rq_access_token = None\<rparr>,
     ap_jwt_encode := \<lambda>c secret. Some (jc_typ c), ap_jwt_decode := \<lambda>t secret. if t = ''r'' then Some sample_claims else None\<rparr>"

definition signed_request :: header_map where
  "signed_request = [(''X-Internal-Timestamp'', ''1700000000000''), (''X-Internal-Nonce'', ''n''),
     (''X-Internal-Signature'', ''sig'')]"

lemma sample_verify: "api_verify_hmac (ap_auth token_lib) secret canonical ''sig'' = Inr True"
  by (simp add: api_verify_hmac_def api_sign_hmac_def token_lib_def sample_api_auth_def ok_or_def)

lemma api_header_value_plain:
  "header_text hs name = Some v \<Longrightarrow> plain v \<Longrightarrow> v \<noteq> [] \<Longrightarrow> api_header_value hs name = Some v"
  by (simp add: api_header_value_def plain_trimmed)

lemma signed_headers:
  "api_header_value signed_request ''X-Internal-Timestamp'' = Some ''1700000000000''"
  "api_header_value signed_request ''X-Internal-Nonce'' = Some ''n''"
  "api_header_value signed_request ''X-Internal-Signature'' = Some ''sig''"
proof -
  have t: "plain ''1700000000000''" "plain ''n''" "plain ''sig''" by (simp_all add: plain_def)
  show "api_header_value signed_request ''X-Internal-Timestamp'' = Some ''1700000000000''"
    by (rule api_header_value_plain[OF _ t(1)]) (simp_all add: signed_request_def header_text_Cons ascii_case visible_ascii_def)
  show "api_header_value signed_request ''X-Internal-Nonce'' = Some ''n''"
    by (rule api_header_value_plain[OF _ t(2)]) (simp_all add: signed_request_def header_text_Cons ascii_case visible_ascii_def)
  show "api_header_value signed_request ''X-Internal-Signature'' = Some ''sig''"
    by (rule api_header_value_plain[OF _ t(3)]) (simp_all add: signed_request_def header_text_Cons ascii_case visible_ascii_def)
qed

lemma sample_signature:
  assumes "ap_auth L = ap_auth token_lib" "\<bar>now - 1700000000000\<bar> \<le> 300000"
  shows "api_validate_internal_signature L now signed_request verb path body sample_api_config = Inr ()"
proof -
  have "parse_i64 ''1700000000000'' = Some 1700000000000" by (simp add: parse_i64_def parse_nat_def digit_value_def)
  moreover have "i64_checked (now - 1700000000000) = Some (now - 1700000000000)"
    "i64_checked \<bar>now - 1700000000000\<bar> = Some \<bar>now - 1700000000000\<bar>" using assms(2) by (auto simp: i64_checked_def)
  ultimately show ?thesis
    using assms unfolding api_validate_internal_signature_def signed_headers or_internal_rejected_def
    by (simp add: ok_or_def Let_def sample_verify api_within_skew_def sample_api_config_fields)
qed

definition ticket_world :: api_world where
  "ticket_world = (empty_world 1700000000000)\<lparr>aw_redis :=
     [ws_ticket_key ''t'' \<mapsto> (show_int 1 @ [CHR 0x0A] @ ''alice'', 1700000030000)], aw_uuid := \<lambda>_. ''u''\<rparr>"

abbreviation consume_sample :: token_call where
  "consume_sample \<equiv> Consume_ticket signed_request ''/api/auth/internal/ws-ticket/consume'' (ascii ''t'')"

lemma sample_texts: "secret_text (ascii ''t'') = ''t''" "secret_text (ascii ''r'') = ''r''"
  by code_simp+

lemma sample_asked: "asked_ticket token_lib (ascii ''t'') = Some ''t''"
proof -
  have "trim ''t'' = ''t''" by (simp add: plain_trimmed plain_def)
  then show ?thesis by (simp add: asked_ticket_def token_lib_def sample_texts normalize_text_def)
qed

lemma ticket_world_quiet: "quiet ticket_world" "aw_now ticket_world = 1700000000000"
  by (simp_all add: ticket_world_def empty_world_def quiet_def)

lemma sample_payload: "ticket_answer 1 (Some (show_int 1 @ [CHR 0x0A] @ ''alice'')) =
    \<lparr>tc_valid = True, tc_status = Some ''VALID'', tc_user_id = Some 1, tc_username = Some ''alice'', tc_error = None\<rparr>"
proof -
  have "show_int 1 = ''1''" by code_simp
  moreover have "trim ''1'' = ''1''" "trim ''alice'' = ''alice''" by (simp_all add: plain_trimmed plain_def)
  ultimately have "parse_ws_ticket_payload (show_int 1 @ [CHR 0x0A] @ ''alice'') = Some (1, ''alice'')"
    by (simp add: parse_ws_ticket_payload_def parse_i64_def parse_nat_def digit_value_def)
  then show ?thesis by (simp add: ticket_answer_def)
qed

lemma consume_run: "fst (run (token_task token_lib sample_api_config consume_sample) ticket_world) = Inr (Ticket_consumed
    \<lparr>tc_valid = True, tc_status = Some ''VALID'', tc_user_id = Some 1, tc_username = Some ''alice'', tc_error = None\<rparr>)"
proof -
  have read: "required_json (ap_read_consume token_lib) (ascii ''t'') = Inr \<lparr>ct_ticket = Some ''t'', ct_user_id = Some 1\<rparr>"
    by (simp add: required_json_def ok_or_def token_lib_def sample_texts)
  have name: "normalize_text (Some ''t'') = Some ''t''" by (simp add: normalize_text_def plain_trimmed plain_def)
  have there: "redis_value ticket_world (ws_ticket_key ''t'') = Some (show_int 1 @ [CHR 0x0A] @ ''alice'')"
    by (simp add: redis_value_def ticket_world_def empty_world_def)
  show ?thesis
    using ticket_world_quiet
    by (simp add: internal_consume_ws_ticket_def signed_by_server_def run_simps sample_signature read name take_ticket_def there
        sample_payload del: append_Cons append_Nil)
qed

lemma two_returned:
  obtains r w' where "sys_runs env ([a, b], w) ([Ret (fst (run a w)), Ret r], w')"
  using one_after_the_other by (rule that)

theorem ticket_once_witness:
  "\<exists>ts' w' x r. sys_runs (tokens_env (ws_ticket_key ''t'') (\<lambda>_. True))
      (map (token_task token_lib sample_api_config) [consume_sample, consume_sample], ticket_world) (ts', w') \<and>
     ts' = [act_ok (Ticket_consumed x), Ret r] \<and> tc_valid x \<and> \<not> (\<exists>y. r = Inr (Ticket_consumed y) \<and> tc_valid y)"
proof -
  define x where "x = \<lparr>tc_valid = True, tc_status = Some ''VALID'', tc_user_id = Some 1, tc_username = Some ''alice'', tc_error = None\<rparr>"
  let ?a = "token_task token_lib sample_api_config consume_sample"
  obtain r w' where runs: "sys_runs (tokens_env (ws_ticket_key ''t'') (\<lambda>_. True)) (map (token_task token_lib sample_api_config)
      [consume_sample, consume_sample], ticket_world) ([act_ok (Ticket_consumed x), Ret r], w')"
    unfolding list.map x_def consume_run[symmetric] by (rule two_returned)
  have unused: "unused ''t'' ticket_world" by (simp add: unused_def ticket_world_def)
  have valid: "tc_valid x" by (simp add: x_def)
  have "\<not> tc_valid y" if "r = Inr (Ticket_consumed y)" for y
    by (rule ticket_once[OF runs unused, of 0, THEN spec[of _ 1], THEN spec, THEN spec, THEN spec, THEN spec, THEN mp])
      (use sample_asked valid that in \<open>auto simp del: token_task.simps\<close>)
  with runs valid show ?thesis by blast
qed

definition refresh_world :: api_world where
  "refresh_world = (empty_world 1700000000000)\<lparr>aw_redis := [refresh_jti_key 1 \<mapsto> (''j'', 1700600000000)], aw_uuid := \<lambda>_. ''u''\<rparr>"

abbreviation refresh_sample :: token_call where
  "refresh_sample \<equiv> Refresh_tokens [] (ascii ''r'')"

lemma sample_bearers: "normalize_bearer (Some ''r'') = Some ''r''" "normalize_text (Some ''alice'') = Some ''alice''"
  by (simp_all add: normalize_bearer_def normalize_text_def plain_trimmed plain_def strip_prefix_def)

lemma sample_request: "optional_json (ap_read_refresh token_lib) d (ascii ''r'') = Inr \<lparr>rq_refresh_token = Some ''r'', rq_access_token = None\<rparr>"
proof -
  have "ascii ''r'' \<noteq> []" by (simp add: ascii_def)
  then show ?thesis by (simp add: optional_json_def ok_or_def token_lib_def sample_texts)
qed

lemma sample_presented: "presented_claims token_lib sample_api_config [] (ascii ''r'') = Some sample_claims"
  by (simp add: presented_claims_def presented_token_def sample_request sample_bearers) (simp add: token_lib_def)

lemma sample_refresh_token: "parse_token token_lib 1700000000000 (Some ''r'') secret True = \<lparr>tr_valid = True, tr_expired = False,
   tr_error = None, tr_user_id = Some 1, tr_username = Some ''alice'', tr_token_type = Some ''refresh'', tr_jti = Some ''j'',
   tr_issued_at_epoch_ms = Some 1699999000000, tr_expires_at_epoch_ms = Some 1700600000000, tr_permissions = None,
   tr_remember_me = False\<rparr>"
  unfolding parse_token_def sample_bearers by (simp add: token_lib_def sample_claims_def wrap_i64_def)

lemma sample_new_token: "64 \<le> length secret \<Longrightarrow> build_token token_lib now secret e u name typ jti rem = Inr typ"
  by (simp add: build_token_def token_lib_def ok_or_def)

lemma sample_secrets: "64 \<le> length api_default_jwt_secret" "64 \<le> length api_default_refresh_secret"
  by (simp_all add: api_default_jwt_secret_def api_default_refresh_secret_def)

lemma pair_run: "fst (run (refresh_token_pair token_lib sample_api_config \<lparr>rq_refresh_token = Some ''r'', rq_access_token = None\<rparr>) refresh_world) =
   Inr \<lparr>tp_access_token = Some ''access'', tp_refresh_token = Some ''refresh'', tp_expires_in_ms = Some 86400000,
     tp_refresh_expires_in_ms = Some 604800000\<rparr>"
proof -
  have "ap_print_resource token_lib r = Some []" "ap_read_resource token_lib x = None" for r x
    by (simp_all add: token_lib_def sample_api_def)
  then show ?thesis
    by (simp add: refresh_token_pair_def sample_bearers parse_token_now_def sample_refresh_token ok_or_def act_check_def
        now_ms_def act_get_def refresh_world_def empty_world_def new_uuid_def replace_jti_def command_def next_outcome_def
        outcome_used_def redis_value_def sample_api_config_fields get_user_resource_def redis_get_def redis_command_def
        issue_token_pair_def refreshed_request_def upsert_user_resource_def redis_set_ex_def redis_set_px_def
        sample_new_token sample_secrets)
qed

lemma cookie_fields: "ac_refresh_cookie_name sample_api_config = ''IM_REFRESH_TOKEN''"
  "ac_auth_cookie_same_site sample_api_config = ''Lax''"
  by (simp_all only: sample_api_config_def api_config_read_def Let_def api_config.select_convs) (simp_all add: env_string_def)

lemma visible_append: "list_all visible_ascii (a @ b) \<longleftrightarrow> list_all visible_ascii a \<and> list_all visible_ascii b"
  by (rule list_all_append)

lemma visible_int: "list_all visible_ascii (show_int i)"
  by (rule plain_visible) (rule plain_show_int)

lemma sample_cookies: "\<exists>hs. append_auth_cookies [] sample_api_config \<lparr>tp_access_token = Some ''access'', tp_refresh_token = Some ''refresh'',
    tp_expires_in_ms = Some 86400000, tp_refresh_expires_in_ms = Some 604800000\<rparr> [] = Inr hs"
proof -
  have site: "trim ''Lax'' = ''Lax''" "trim ''/'' = ''/''" by (simp_all add: plain_trimmed plain_def)
  have cookie: "\<exists>hs'. append_cookie hs name v ms ''/'' ''Lax'' secure = Inr hs'"
    if "list_all visible_ascii name" "list_all visible_ascii v" for hs name v ms secure
    using that by (simp add: append_cookie_def header_entry_def visible_int api_normalize_cookie_path_def
        api_normalize_same_site_def site) (simp add: visible_ascii_def Let_def)
  have names: "list_all visible_ascii ''IM_ACCESS_TOKEN''" "list_all visible_ascii ''access''"
    "list_all visible_ascii ''IM_REFRESH_TOKEN''" "list_all visible_ascii ''refresh''" by (simp_all add: visible_ascii_def)
  obtain h1 where "append_cookie [] ''IM_ACCESS_TOKEN'' ''access'' 86400000 ''/'' ''Lax'' (resolve_cookie_secure sample_api_config []) = Inr h1"
    using cookie[OF names(1,2)] by blast
  moreover obtain h2 where "append_cookie h1 ''IM_REFRESH_TOKEN'' ''refresh'' 604800000 ''/'' ''Lax'' (resolve_cookie_secure sample_api_config []) = Inr h2"
    using cookie[OF names(3,4)] by blast
  ultimately show ?thesis by (simp add: append_auth_cookies_def cookie_fields sample_api_config_fields Let_def)
qed

lemma refresh_run: "\<exists>x. fst (run (token_task token_lib sample_api_config refresh_sample) refresh_world) = Inr x"
  using sample_cookies pair_run
  by (auto simp: api_refresh_def sample_request run_then split: prod.splits sum.splits)

theorem refresh_once_witness:
  "\<exists>x e w'. sys_runs (tokens_env (refresh_jti_key 1) ((=) ''j''))
      (map (token_task token_lib sample_api_config) [refresh_sample, refresh_sample], refresh_world)
      ([act_ok x, act_err e], w')"
proof -
  let ?a = "token_task token_lib sample_api_config refresh_sample"
  obtain x where x: "fst (run ?a refresh_world) = Inr x" using refresh_run by blast
  obtain r w' where runs: "sys_runs (tokens_env (refresh_jti_key (jc_user_id sample_claims)) ((=) (jc_jti sample_claims)))
      (map (token_task token_lib sample_api_config) [refresh_sample, refresh_sample], refresh_world) ([act_ok x, Ret r], w')"
    unfolding list.map x[symmetric] by (rule two_returned)
  have unused: "unused (jc_jti sample_claims) refresh_world" by (simp add: unused_def refresh_world_def sample_claims_def)
  have "\<not> (\<exists>y. [act_ok x, Ret r] ! 1 = (act_ok y :: token_answer api))"
    by (rule refresh_once[OF runs unused, of 0, THEN spec[of _ 1], THEN spec, THEN spec, THEN spec, THEN mp])
      (use sample_presented in \<open>auto simp del: token_task.simps\<close>)
  then obtain e where "r = Inl e" by (cases r) auto
  with runs show ?thesis by (auto simp: sample_claims_def simp del: token_task.simps)
qed

section \<open>What a token says\<close>

text \<open>
  What is relied on of the JWT library: what it encodes with a key it decodes with the key, to a text
  without quotes, spaces or prefix.
\<close>

definition jwt_ok :: "api_lib \<Rightarrow> bool" where
  "jwt_ok L \<longleftrightarrow> (\<forall>c key token. ap_jwt_encode L c key = Some token \<longrightarrow>
     ap_jwt_decode L token key = Some c \<and> normalize_bearer (Some token) = Some token)"

definition token_says :: "int \<Rightarrow> int \<Rightarrow> int \<Rightarrow> string \<Rightarrow> string \<Rightarrow> string \<Rightarrow> bool \<Rightarrow> bool \<Rightarrow> token_parse_result" where
  "token_says issued expires user_id username typ jti remember_me expired =
     \<lparr>tr_valid = \<not> expired, tr_expired = expired, tr_error = (if expired then Some ''TOKEN_EXPIRED'' else None),
      tr_user_id = Some user_id, tr_username = Some username, tr_token_type = Some typ, tr_jti = Some jti,
      tr_issued_at_epoch_ms = Some (issued div 1000 * 1000), tr_expires_at_epoch_ms = Some (expires div 1000 * 1000),
      tr_permissions = None, tr_remember_me = remember_me\<rparr>"

lemma whole_seconds:
  assumes "0 \<le> (t :: int)" "t < 2 ^ 63"
  shows "trunc_div (wrap_i64 t) 1000 = t div 1000" "wrap_i64 (t div 1000 * 1000) = t div 1000 * 1000"
proof -
  show "trunc_div (wrap_i64 t) 1000 = t div 1000" using assms by (simp add: wrap_i64_id trunc_div_def)
  have "t div 1000 * 1000 \<le> t" by linarith
  moreover have "0 \<le> t div 1000 * 1000" using assms(1) by (simp add: pos_imp_zdiv_nonneg_iff)
  ultimately
  show "wrap_i64 (t div 1000 * 1000) = t div 1000 * 1000" using assms(2) by (intro wrap_i64_id) simp_all
qed

lemma built_token:
  assumes "jwt_ok L" "build_token L issued secret lifetime user_id username typ jti remember_me = Inr token"
    and "0 \<le> issued" "issued < 2 ^ 63" "0 \<le> issued + lifetime" "issued + lifetime < 2 ^ 63"
  shows "64 \<le> length secret \<and> normalize_bearer (Some token) = Some token \<and>
    parse_token L now (Some token) secret allow_expired =
     (let expired = (issued + lifetime) div 1000 * 1000 \<le> now;
          result = token_says issued (issued + lifetime) user_id username typ jti remember_me expired in
      if expired \<and> \<not> allow_expired then clear_identity result else result)"
proof -
  let ?claims = "\<lparr>jc_user_id = user_id, jc_username = username, jc_typ = typ, jc_jti = jti, jc_sub = username,
    jc_iat = issued div 1000, jc_exp = (issued + lifetime) div 1000, jc_remember_me = remember_me\<rparr>"
  have "trunc_div issued 1000 = issued div 1000" using assms(3) by (simp add: trunc_div_def)
  with assms(2) have long: "64 \<le> length secret" and encoded: "ap_jwt_encode L ?claims (ascii secret) = Some token"
    by (auto simp: build_token_def ok_or_def whole_seconds[OF assms(5,6)] split: if_splits option.splits)
  with assms(1) have "ap_jwt_decode L token (ascii secret) = Some ?claims" "normalize_bearer (Some token) = Some token"
    by (auto simp: jwt_ok_def)
  with long show ?thesis
    by (simp add: parse_token_def token_says_def whole_seconds[OF assms(3,4)] whole_seconds[OF assms(5,6)] Let_def)
qed

text \<open>
  C36: A token says what it was built with. What was encoded under a secret of 64 bytes or more is read
  back under the secret: the user, name, kind, identifier, and the times of issue and expiry cut to
  whole seconds. It is valid exactly until the second in which it expires, so that a token that lives
  less than a second may be expired when it is issued; an expired token names nobody unless the reader
  asks for expired ones.
\<close>

theorem token_round_trip:
  assumes "jwt_ok L" "build_token L issued secret lifetime user_id username typ jti remember_me = Inr token"
    and "0 \<le> issued" "issued < 2 ^ 63" "0 \<le> issued + lifetime" "issued + lifetime < 2 ^ 63"
  shows "parse_token L now (Some token) secret True =
      token_says issued (issued + lifetime) user_id username typ jti remember_me ((issued + lifetime) div 1000 * 1000 \<le> now) \<and>
    (tr_valid (parse_token L now (Some token) secret False) \<longleftrightarrow> now < (issued + lifetime) div 1000 * 1000) \<and>
    (now < (issued + lifetime) div 1000 * 1000 \<longrightarrow>
      parse_token L now (Some token) secret False = parse_token L now (Some token) secret True) \<and>
    ((issued + lifetime) div 1000 * 1000 \<le> now \<longrightarrow> tr_expired (parse_token L now (Some token) secret False) \<and>
      tr_user_id (parse_token L now (Some token) secret False) = None)"
  using built_token[OF assms] by (auto simp: Let_def token_says_def clear_identity_def)

definition alice_claims :: api_claims where
  "alice_claims = \<lparr>jc_user_id = 1, jc_username = ''alice'', jc_typ = ''access'', jc_jti = ''j'', jc_sub = ''alice'',
     jc_iat = 1700000000, jc_exp = 1700086400, jc_remember_me = False\<rparr>"

definition jwt_lib :: api_lib where
  "jwt_lib = token_lib\<lparr>ap_jwt_encode := \<lambda>c key. if c = alice_claims \<and> key = ascii api_default_jwt_secret then Some ''r'' else None,
     ap_jwt_decode := \<lambda>t key. if t = ''r'' \<and> key = ascii api_default_jwt_secret then Some alice_claims else None\<rparr>"

lemma jwt_lib_ok: "jwt_ok jwt_lib"
  by (simp add: jwt_ok_def jwt_lib_def sample_bearers)

lemma alice_token:
  assumes "1700000000000 \<le> issued" "issued < 1700000001000"
  shows "build_token jwt_lib issued api_default_jwt_secret 86400000 1 ''alice'' ''access'' ''j'' False = Inr ''r''"
proof -
  have "issued div 1000 = 1700000000" "(issued + 86400000) div 1000 = 1700086400" using assms by linarith+
  with assms sample_secrets show ?thesis
    by (simp add: build_token_def jwt_lib_def alice_claims_def trunc_div_def wrap_i64_id ok_or_def)
qed

theorem token_round_trip_witness:
  "tr_user_id (parse_token jwt_lib 1700086399999 (Some ''r'') api_default_jwt_secret False) = Some 1 \<and>
   tr_expired (parse_token jwt_lib 1700086400000 (Some ''r'') api_default_jwt_secret False)"
  using token_round_trip[OF jwt_lib_ok alice_token[of 1700000000999], of 1700086399999]
    token_round_trip[OF jwt_lib_ok alice_token[of 1700000000999], of 1700086400000]
  by (simp add: token_says_def)

section \<open>Revocation\<close>

lemma quiet_redis [simp]: "quiet (w\<lparr>aw_redis := r\<rparr>) \<longleftrightarrow> quiet w"
  by (simp add: quiet_def)

lemma resource_not_revocation: "user_resource_key u \<noteq> user_revoke_after_key v"
proof
  assume "user_resource_key u = user_revoke_after_key v"
  then have "CHR ''r'' \<in> set (show_int u)" by (auto simp: user_resource_key_def user_revoke_after_key_def)
  then have "CHR ''r'' \<in> digits" using show_int_chars[of u] by auto
  then obtain d where "d < 10" "CHR ''r'' = digit_char d" by (auto simp: digits_def)
  then have "of_char (CHR ''r'') = (of_char (digit_char d) :: nat)" by simp
  with \<open>d < 10\<close> show False by (simp add: digit_char_def)
qed

lemma run_set_ex: "quiet w \<Longrightarrow> run (redis_set_ex k v ttl) w =
    (if 0 < ttl then (Inr (), w\<lparr>aw_redis := (aw_redis w)(k := Some (v, aw_now w + int ttl * 1000))\<rparr>) else (Inl ERedis, w))"
  by (simp add: redis_set_ex_def redis_set_px_def run_command_quiet)

lemma run_del: "quiet w \<Longrightarrow> run (redis_del k) w = (Inr (), w\<lparr>aw_redis := (aw_redis w)(k := None)\<rparr>)"
  by (simp add: redis_del_def run_redis)

lemma run_signed: "run (signed_by_server L config headers verb path body) w =
    (api_validate_internal_signature L (aw_now w) headers verb path body config, w)"
  by (simp add: signed_by_server_def run_then run_now)

lemma revocation_recorded:
  assumes "run (internal_revoke_user_tokens L config headers path user_id body) w = (Inr True, w1)" "quiet w"
  shows "aw_redis w1 (user_revoke_after_key user_id) =
    Some (show_int (aw_now w), aw_now w + int (ac_revoked_token_ttl_seconds config) * 1000)"
proof -
  have "refresh_jti_key user_id \<noteq> user_revoke_after_key user_id" "user_resource_key user_id \<noteq> user_revoke_after_key user_id"
    by (rule key_prefixes(7) resource_not_revocation)+
  moreover have "0 < ac_revoked_token_ttl_seconds config" "api_validate_internal_signature L (aw_now w) headers ''POST'' path body config = Inr ()"
    using assms by (auto simp: internal_revoke_user_tokens_def run_then run_signed run_now run_set_ex split: sum.splits if_splits)
  then have "run (internal_revoke_user_tokens L config headers path user_id body) w = (Inr True, w\<lparr>aw_redis := (aw_redis w)
      (user_revoke_after_key user_id := Some (show_int (aw_now w), aw_now w + int (ac_revoked_token_ttl_seconds config) * 1000),
       refresh_jti_key user_id := None, user_resource_key user_id := None)\<rparr>)"
    using assms(2) by (simp add: internal_revoke_user_tokens_def run_then run_signed run_now run_set_ex run_del)
  ultimately show ?thesis using assms(1) by auto
qed

text \<open>
  C35: What the revocation of a user covers. When the revocation of all tokens of a user has been
  answered, and until its record expires, an access token of the user is refused exactly when the whole
  second in which it was issued does not begin after the revocation; another token that has not expired
  and is not revoked itself is accepted, with the permissions that the cache has for the user. So
  tokens that are issued after the revocation, but in the same second, are refused too.
\<close>

theorem revocation_covers:
  assumes revoked: "run (internal_revoke_user_tokens L config headers path user_id body) w = (Inr True, w1)"
    and later: "aw_redis w2 (user_revoke_after_key user_id) = aw_redis w1 (user_revoke_after_key user_id)"
      "aw_now w2 < aw_now w + int (ac_revoked_token_ttl_seconds config) * 1000" "quiet w" "quiet w2"
    and token: "jwt_ok L" "build_token L issued (ac_jwt_secret config) lifetime user_id username ''access'' jti remember_me = Inr token"
      "0 \<le> issued" "issued < 2 ^ 63" "0 \<le> issued + lifetime" "issued + lifetime < 2 ^ 63"
      "aw_now w2 < (issued + lifetime) div 1000 * 1000"
    and here: "redis_value w2 (revoked_token_key (sha256_hex L token)) = None" "- (2 ^ 63) \<le> aw_now w" "aw_now w < 2 ^ 63"
  shows "fst (run (validate_access_token_result L config token True) w2) =
    (if issued div 1000 * 1000 \<le> aw_now w then Inl (EUnauthorized ''TOKEN_INVALID'')
     else Inr ((token_says issued (issued + lifetime) user_id username ''access'' jti remember_me False)
       \<lparr>tr_permissions := Some (ur_resource_permissions (read_user_resource L user_id (redis_value w2 (user_resource_key user_id))))\<rparr>))"
proof -
  have parsed: "parse_token L (aw_now w2) (Some token) (ac_jwt_secret config) False =
      token_says issued (issued + lifetime) user_id username ''access'' jti remember_me False"
    and name: "normalize_bearer (Some token) = Some token"
    using built_token[OF token(1-6)] token(7) by (auto simp: Let_def)
  have "redis_value w2 (user_revoke_after_key user_id) = Some (show_int (aw_now w))"
    using revocation_recorded[OF revoked later(3)] later(1,2) by (simp add: redis_value_def)
  then show ?thesis
    using later(4) here parsed parse_i64_show[OF here(2,3)]
    by (simp add: validate_access_token_result_def name parse_token_now_def is_token_revoked_def run_simps ok_or_def
        redis_exists_def token_says_def get_user_resource_def invalid_token_def Let_def)
qed

definition revoked_at :: "int \<Rightarrow> api_world" where
  "revoked_at now = (empty_world now)\<lparr>aw_redis := [user_revoke_after_key 1 \<mapsto> (show_int 1700000000500, 1700086400500)]\<rparr>"

lemma sample_revocation:
  "run (internal_revoke_user_tokens jwt_lib sample_api_config signed_request ''/revoke'' 1 []) (empty_world 1700000000500) =
   (Inr True, snd (run (internal_revoke_user_tokens jwt_lib sample_api_config signed_request ''/revoke'' 1 []) (empty_world 1700000000500)))"
  by (simp add: internal_revoke_user_tokens_def run_then run_signed run_now run_set_ex run_del empty_world_def quiet_def
      sample_api_config_fields sample_signature jwt_lib_def)

theorem revocation_covers_witness:
  "fst (run (validate_access_token_result jwt_lib sample_api_config ''r'' True) (revoked_at 1700000000950)) =
    Inl (EUnauthorized ''TOKEN_INVALID'') \<and>
   build_token jwt_lib 1700000000900 api_default_jwt_secret 86400000 1 ''alice'' ''access'' ''j'' False = Inr ''r''"
proof -
  have built: "build_token jwt_lib 1700000000900 (ac_jwt_secret sample_api_config) 86400000 1 ''alice'' ''access'' ''j'' False = Inr ''r''"
    unfolding sample_api_config_fields by (rule alice_token) simp_all
  have revoked: "aw_redis (snd (run (internal_revoke_user_tokens jwt_lib sample_api_config signed_request ''/revoke'' 1 [])
      (empty_world 1700000000500))) (user_revoke_after_key 1) = Some (show_int 1700000000500, 1700086400500)"
    using revocation_recorded[OF sample_revocation]
    by (simp add: quiet_def empty_world_def sample_api_config_fields)
  have "revoked_token_key h \<noteq> user_revoke_after_key 1" for h
    by (simp add: revoked_token_key_def user_revoke_after_key_def)
  then have other: "redis_value (revoked_at now) (revoked_token_key h) = None" for now h
    by (simp add: redis_value_def revoked_at_def empty_world_def)
  have "fst (run (validate_access_token_result jwt_lib sample_api_config ''r'' True) (revoked_at 1700000000950)) =
    Inl (EUnauthorized ''TOKEN_INVALID'')"
    using revocation_covers[OF sample_revocation _ _ _ _ jwt_lib_ok built, of "revoked_at 1700000000950"] other
    by (simp add: revoked) (simp add: revoked_at_def empty_world_def quiet_def sample_api_config_fields)
  with built show ?thesis by (simp add: sample_api_config_fields)
qed

section \<open>Both servers\<close>

text \<open>The servers are configured alike.\<close>

definition same_secrets :: "api_config \<Rightarrow> app_config \<Rightarrow> bool" where
  "same_secrets a c \<longleftrightarrow> ac_internal_secret a = cfg_internal_secret c \<and> ac_internal_max_skew_ms a = cfg_internal_max_skew_ms c"

lemma same_checks:
  "api_normalize_path = normalize_path" "internal_canonical = build_internal_canonical"
  "api_sha256_base64_url = sha256_base64_url" "api_within_skew = within_skew"
  by (simp_all add: fun_eq_iff api_normalize_path_def normalize_path_def internal_canonical_def build_internal_canonical_def
      api_sha256_base64_url_def sha256_base64_url_def api_within_skew_def within_skew_def)

lemma api_validate_ok_iff:
  "api_validate_internal_signature L now headers verb path body config = Inr () \<longleftrightarrow>
     (\<exists>ts nonce sign t mac.
        (case api_header_value headers ''X-Internal-Timestamp'' of Some v \<Rightarrow> Some v
         | None \<Rightarrow> api_header_value headers ''X-Internal-Ts'') = Some ts \<and>
        api_header_value headers ''X-Internal-Nonce'' = Some nonce \<and>
        api_header_value headers ''X-Internal-Signature'' = Some sign \<and> parse_i64 ts = Some t \<and>
        within_skew now t (ac_internal_max_skew_ms config) \<and>
        al_hmac (ap_auth L) (ascii (ac_internal_secret config))
          (ascii (build_internal_canonical verb path (sha256_base64_url (ap_auth L) body) ts nonce)) = Some mac \<and>
        ascii (al_b64url (ap_auth L) mac) = ascii sign)"
proof -
  have rejected: "and_then (or_internal_rejected m) f = Inr y \<longleftrightarrow> (\<exists>x. m = Some x \<and> f x = Inr y)" for m and f :: "'a \<Rightarrow> api_error + 'b" and y
    by (cases m) (simp_all add: or_internal_rejected_def ok_or_def)
  have verify: "and_then (api_verify_hmac A secret canonical sign) (\<lambda>ok. if ok then Inr () else Inl e) = Inr () \<longleftrightarrow>
      (\<exists>mac. al_hmac A (ascii secret) (ascii canonical) = Some mac \<and> ascii (al_b64url A mac) = ascii sign)"
    for A secret canonical sign and e :: api_error
    by (auto simp: and_then_Inr_iff api_verify_hmac_def api_sign_hmac_def ok_or_def split: option.splits)
  show ?thesis
    unfolding api_validate_internal_signature_def rejected verify if_rejected not_not Let_def same_checks by blast
qed

text \<open>
  The servers read each other's signatures. Configured alike, the api-server and the im-server sign
  an internal request with the same headers, and the headers one of them signs are accepted by both.
  Any request whose three headers are there and not empty is accepted by the api-server exactly when
  the im-server accepts it; the api-server also reads an older name of the time header and refuses
  empty values that the im-server would compare.
\<close>

theorem servers_agree:
  assumes "same_secrets a c" "b64url_text (ap_auth L)" "\<And>b. al_b64url (ap_auth L) b \<noteq> []"
    and "plain nonce" "nonce \<noteq> []" "- (2 ^ 63) \<le> t" "t < 2 ^ 63"
  shows "(api_internal_signature_headers L t nonce verb path body a = Inr hs \<longleftrightarrow>
      internal_signature_headers (ap_auth L) t nonce verb path body c = Inr hs) \<and>
    (api_internal_signature_headers L t nonce verb path body a = Inr hs \<and> within_skew now t (ac_internal_max_skew_ms a) \<longrightarrow>
      api_validate_internal_signature L now hs verb path body a = Inr () \<and>
      validate_internal_signature (ap_auth L) now hs verb path body c = Inr ()) \<and>
    ((\<forall>name \<in> {''X-Internal-Timestamp'', ''X-Internal-Nonce'', ''X-Internal-Signature''}. api_header_value headers name \<noteq> None) \<longrightarrow>
      (api_validate_internal_signature L now1 headers verb' path' body' a = Inr () \<longleftrightarrow>
       validate_internal_signature (ap_auth L) now1 headers verb' path' body' c = Inr ()))"
proof (intro conjI impI)
  have visible: "list_all visible_ascii (al_b64url (ap_auth L) mac)" "list_all visible_ascii nonce" for mac
    using assms(2,4) by (auto simp: b64url_text_def intro: plain_visible)
  show signed: "api_internal_signature_headers L t nonce verb path body a = Inr hs \<longleftrightarrow>
      internal_signature_headers (ap_auth L) t nonce verb path body c = Inr hs"
    using assms(1) by (auto simp: api_internal_signature_headers_def internal_signature_headers_def Let_def same_checks
        api_sign_hmac_def sign_hmac_def header_entry_def visible visible_int same_secrets_def and_then_Inr_iff)
  have same: "api_validate_internal_signature L now headers verb path body a = Inr () \<longleftrightarrow>
      validate_internal_signature (ap_auth L) now headers verb path body c = Inr ()"
    if "\<forall>name \<in> {''X-Internal-Timestamp'', ''X-Internal-Nonce'', ''X-Internal-Signature''}. api_header_value headers name \<noteq> None"
    for headers now verb path body
  proof -
    have text_of: "api_header_value headers name = header_value headers name" if "api_header_value headers name \<noteq> None" for name
      using that by (auto simp: api_header_value_def header_value_def split: option.splits if_splits)
    from that obtain ts where ts: "api_header_value headers ''X-Internal-Timestamp'' = Some ts" by auto
    show ?thesis
      using that assms(1) text_of ts
      unfolding api_validate_ok_iff validate_internal_ok_iff by (simp add: same_secrets_def)
  qed
  then show "api_validate_internal_signature L now1 headers verb' path' body' a = Inr () \<longleftrightarrow>
       validate_internal_signature (ap_auth L) now1 headers verb' path' body' c = Inr ()"
    if "\<forall>name \<in> {''X-Internal-Timestamp'', ''X-Internal-Nonce'', ''X-Internal-Signature''}. api_header_value headers name \<noteq> None"
    using that .
  assume hs: "api_internal_signature_headers L t nonce verb path body a = Inr hs \<and> within_skew now t (ac_internal_max_skew_ms a)"
  then have im: "internal_signature_headers (ap_auth L) t nonce verb path body c = Inr hs" using signed by blast
  show accepted: "validate_internal_signature (ap_auth L) now hs verb path body c = Inr ()"
    using signed_accepted[OF im assms(2,4,6,7), of now path verb] hs assms(1) by (simp add: same_secrets_def)
  have "header_value hs name = Some v \<Longrightarrow> v \<noteq> [] \<Longrightarrow> api_header_value hs name \<noteq> None" for name v
    by (auto simp: api_header_value_def header_value_def split: option.splits)
  moreover have "header_value hs ''X-Internal-Timestamp'' = Some (show_int t)" "header_value hs ''X-Internal-Nonce'' = Some nonce"
    "\<exists>mac. header_value hs ''X-Internal-Signature'' = Some (al_b64url (ap_auth L) mac)"
    using internal_headers[OF im assms(2,4)] by blast+
  ultimately have "\<forall>name \<in> {''X-Internal-Timestamp'', ''X-Internal-Nonce'', ''X-Internal-Signature''}. api_header_value hs name \<noteq> None"
    using assms(3,5) by auto
  from same[OF this] accepted show "api_validate_internal_signature L now hs verb path body a = Inr ()" by blast
qed

lemma sample_internal_secret: "cfg_internal_secret sample_config = default_internal_secret"
  by (simp add: sample_config_def config_from_env_def is_local_dev_or_test_def is_local_env_value_def
      to_ascii_lowercase_def Let_def env_string_def env_i64_def env_usize_def)

theorem servers_agree_witness:
  "\<exists>hs. api_internal_signature_headers token_lib 1700000000000 ''n'' ''POST'' ''/api/im/push'' [] sample_api_config = Inr hs \<and>
     api_validate_internal_signature token_lib 1700000000500 hs ''POST'' ''/api/im/push'' [] sample_api_config = Inr () \<and>
     validate_internal_signature (ap_auth token_lib) 1700000000500 hs ''POST'' ''/api/im/push'' [] sample_config = Inr ()"
proof -
  have lib: "same_secrets sample_api_config sample_config" "b64url_text (ap_auth token_lib)" "al_b64url (ap_auth token_lib) b \<noteq> []"
    "plain ''n''" for b
    by (simp_all add: same_secrets_def sample_api_config_fields sample_config_fields sample_internal_secret
        api_default_internal_secret_def default_internal_secret_def b64url_text_def token_lib_def plain_def)
  have "\<exists>hs. internal_signature_headers (ap_auth token_lib) 1700000000000 ''n'' ''POST'' ''/api/im/push'' [] sample_config = Inr hs"
    by (simp add: internal_signature_headers_def sign_hmac_def token_lib_def sample_api_auth_def ok_or_def Let_def)
  moreover have "within_skew 1700000000500 1700000000000 (ac_internal_max_skew_ms sample_api_config)"
    by (simp add: within_skew_iff sample_api_config_fields)
  ultimately show ?thesis
    using servers_agree[OF lib, of 1700000000000 "''POST''" "''/api/im/push''" "[]" _ 1700000000500] by auto
qed

end
