(* ===== verification/Api_Writer_Rules.thy ===== *)
theory Api_Writer_Rules
  imports Api_Pipeline_Rules
begin

text \<open>
  Every access of a writer keeps the pipeline: what it reads is recorded as known, what it stores as done,
  and it acknowledges an entry when the message of the entry is done.
\<close>

section \<open>Entries\<close>

lemma entry_payload:
  assumes "stream_ok st g" "(n, p) \<in> set (es_entries st)"
  shows "sv_payload (stream_event_of st n) = p"
proof -
  have "distinct (map fst (es_entries st))"
    using assms(1) strict_sorted_iff[of "map fst (es_entries st)"] by (simp add: stream_ok_def)
  with assms(2) show ?thesis by (simp add: stream_event_of_def)
qed

lemma event_known: "stream_ok st g \<Longrightarrow> n < es_next st \<Longrightarrow> known_in st n (sv_payload (stream_event_of st n))"
  using entry_payload unfolding known_in_def by blast

lemma delivered_interval:
  assumes "sorted_wrt (<) (ns :: nat list)" "n \<in> set ns" "a < n" "take c (filter (\<lambda>n. a < n) ns) \<noteq> []"
    and "n \<le> last (take c (filter (\<lambda>n. a < n) ns))"
  shows "n \<in> set (take c (filter (\<lambda>n. a < n) ns))"
proof (rule ccontr)
  let ?fs = "filter (\<lambda>n. a < n) ns"
  assume "n \<notin> set (take c ?fs)"
  moreover have "n \<in> set (take c ?fs @ drop c ?fs)" unfolding append_take_drop_id using assms(2,3) by simp
  then have "n \<in> set (take c ?fs) \<union> set (drop c ?fs)" by (simp only: set_append)
  ultimately have "n \<in> set (drop c ?fs)" by blast
  moreover have "sorted_wrt (<) (take c ?fs @ drop c ?fs)" using assms(1) by (simp add: sorted_wrt_filter)
  moreover have "last (take c ?fs) \<in> set (take c ?fs)" using assms(4) by (rule last_in_set)
  ultimately have "last (take c ?fs) < n" unfolding sorted_wrt_append by blast
  with assms(5) show False by simp
qed

lemma deliver_ok:
  assumes ok: "stream_ok st g" and rec: "acked_recorded L ks st g" and d: "deliver_events g consumer count st = (r, st')"
  shows "stream_ok st' g" "acked_recorded L ks st' g"
    and "\<And>es. r = Inr es \<Longrightarrow> \<exists>ns. es = map (stream_event_of st) ns \<and> (\<forall>n \<in> set ns. n < es_next st)"
proof -
  have "(stream_ok st' g \<and> acked_recorded L ks st' g) \<and>
      (\<forall>es. r = Inr es \<longrightarrow> (\<exists>ns. es = map (stream_event_of st) ns \<and> (\<forall>n \<in> set ns. n < es_next st)))"
  proof (cases "es_groups st g")
    case None
    with ok rec d show ?thesis by (auto simp: deliver_events_def)
  next
    case (Some cg)
    define ns where "ns = new_events count st cg"
    define cg' where "cg' = \<lparr>cg_last = (if ns = [] then cg_last cg else last ns), cg_pending = cg_pending cg @ map (\<lambda>n. (n, consumer)) ns\<rparr>"
    have st': "st' = st\<lparr>es_groups := (es_groups st)(g := Some cg')\<rparr>" and r: "r = Inr (map (stream_event_of st) ns)"
      using d unfolding deliver_events_def Some option.case Let_def ns_def[symmetric] cg'_def[symmetric] by simp_all
    have sub: "set ns \<subseteq> {n \<in> fst ` set (es_entries st). cg_last cg < n}"
      unfolding ns_def new_events_def by (rule subset_trans[OF set_take_subset]) auto
    have next': "\<forall>n \<in> set ns. n < es_next st" using sub ok by (auto simp: stream_ok_def)
    have last: "cg_last cg \<le> cg_last cg'" "\<forall>n \<in> set ns. n \<le> cg_last cg'"
    proof -
      have "sorted_wrt (<) ns"
        using ok unfolding ns_def new_events_def stream_ok_def
        by (metis append_take_drop_id sorted_wrt_append sorted_wrt_filter)
      then have "n \<le> last ns" if "n \<in> set ns" for n
        using that by (induction ns) (auto simp: less_imp_le)
      then show "\<forall>n \<in> set ns. n \<le> cg_last cg'" by (auto simp: cg'_def)
      show "cg_last cg \<le> cg_last cg'" using sub by (cases "ns = []") (auto simp: cg'_def less_imp_le dest: last_in_set)
    qed
    have "cg_last cg' < es_next st"
      using ok Some next' by (cases "ns = []") (auto simp: cg'_def stream_ok_def)
    moreover have "\<forall>n \<in> fst ` set (cg_pending cg'). n \<le> cg_last cg'"
    proof -
      have "\<forall>n \<in> fst ` set (cg_pending cg). n \<le> cg_last cg" using ok Some by (auto simp: stream_ok_def)
      then show ?thesis using last by (auto simp: cg'_def)
    qed
    ultimately have ok': "stream_ok st' g" using ok by (auto simp: st' stream_ok_def)
    have "acked st g n" if n: "(n, p) \<in> set (es_entries st)" "acked st' g n" for n p
    proof -
      have np: "n \<le> cg_last cg'" "n \<notin> fst ` set (cg_pending cg)" "n \<notin> set ns"
        using n(2) by (auto simp: acked_def st' cg'_def image_Un image_image)
      have "n \<le> cg_last cg"
      proof (rule ccontr)
        assume less: "\<not> n \<le> cg_last cg"
        then have "ns \<noteq> []" "n \<le> last ns" using np(1) by (auto simp: cg'_def split: if_splits)
        moreover have "n \<in> set (map fst (es_entries st))" using n(1) by force
        ultimately have "n \<in> set ns"
          using delivered_interval[of "map fst (es_entries st)" n "cg_last cg" "max count 1"] ok less
          unfolding ns_def new_events_def stream_ok_def by simp
        with np(3) show False by simp
      qed
      with np Some show ?thesis by (auto simp: acked_def)
    qed
    with rec have "acked_recorded L ks st' g" by (auto simp: acked_recorded_def st')
    with ok' next' r show ?thesis by blast
  qed
  then show "stream_ok st' g" "acked_recorded L ks st' g"
    "\<And>es. r = Inr es \<Longrightarrow> \<exists>ns. es = map (stream_event_of st) ns \<and> (\<forall>n \<in> set ns. n < es_next st)" by blast+
qed

lemma ack_ok:
  assumes ok: "stream_ok st g" and rec: "acked_recorded L ks st g"
    and ns: "\<And>n p m. n \<in> set ns \<Longrightarrow> (n, p) \<in> set (es_entries st) \<Longrightarrow> created L p = Some m \<Longrightarrow> recorded L ks m"
  shows "stream_ok (ack_events g ns st) g" "acked_recorded L ks (ack_events g ns st) g"
proof -
  show "stream_ok (ack_events g ns st) g" using ok by (force simp: stream_ok_def ack_events_def)
  have e: "es_entries (ack_events g ns st) = es_entries st" by (simp add: ack_events_def)
  have a: "acked st g n \<or> n \<in> set ns" if "acked (ack_events g ns st) g n" for n
    using that by (auto simp: acked_def ack_events_def) force
  show "acked_recorded L ks (ack_events g ns st) g"
    unfolding acked_recorded_def e
  proof (clarify)
    fix n p m assume n: "(n, p) \<in> set (es_entries st)" "acked (ack_events g ns st) g n" "created L p = Some m"
    from a[OF n(2)] show "recorded L ks m"
    proof
      assume "acked st g n"
      with rec n show ?thesis by (auto simp: acked_recorded_def)
    qed (rule ns[OF _ n(1,3)])
  qed
qed

section \<open>Accesses to a stream\<close>

lemma pipeline_stream:
  assumes I: "pipeline L config b Q s w" and x: "x \<in> set (event_streams config)"
    and ok: "stream_ok st' (writer_group config x)" "acked_recorded L (row_keys w) st' (writer_group config x)"
    and same: "es_entries st' = es_entries (stream_of w x)" "es_next st' = es_next (stream_of w x)"
      "\<And>g. g \<noteq> writer_group config x \<Longrightarrow> es_groups st' g = es_groups (stream_of w x) g"
  shows "pipeline L config b Q s (w\<lparr>aw_streams := (aw_streams w)(es_redis_url x := (aw_streams w (es_redis_url x))(es_stream_key x := st'))\<rparr>)"
    (is "pipeline L config b Q s ?w")
proof -
  have y: "stream_ok (stream_of ?w y) (writer_group config y)" "acked_recorded L (row_keys w) (stream_of ?w y) (writer_group config y)"
    "es_entries (stream_of ?w y) = es_entries (stream_of w y)" "es_next (stream_of ?w y) = es_next (stream_of w y)"
    if "y \<in> set (event_streams config)" for y
  proof -
    have Iy: "stream_ok (stream_of w y) (writer_group config y)" "acked_recorded L (row_keys w) (stream_of w y) (writer_group config y)"
      using I that by (auto simp: pipeline_def)
    consider "y = x" | "y \<noteq> x" "es_redis_url y = es_redis_url x" "es_stream_key y = es_stream_key x"
      | "stream_of ?w y = stream_of w y"
      by (cases "es_redis_url y = es_redis_url x"; cases "es_stream_key y = es_stream_key x"; cases "y = x") (simp_all add: stream_of_def)
    then have "stream_ok (stream_of ?w y) (writer_group config y) \<and> acked_recorded L (row_keys w) (stream_of ?w y) (writer_group config y) \<and>
      es_entries (stream_of ?w y) = es_entries (stream_of w y) \<and> es_next (stream_of ?w y) = es_next (stream_of w y)"
    proof cases
      case 1
      then show ?thesis using ok same by (simp add: stream_of_def)
    next
      case 2
      then have g: "es_groups st' (writer_group config y) = es_groups (stream_of w y) (writer_group config y)"
        using same(3) writer_groups_distinct[OF that x] by (auto simp: stream_of_def)
      have "stream_of ?w y = st'" "stream_of w y = stream_of w x" using 2 by (simp_all add: stream_of_def)
      with g Iy same(1,2) show ?thesis unfolding stream_ok_def acked_recorded_def acked_def by simp
    next
      case 3
      with Iy show ?thesis by simp
    qed
    then show "stream_ok (stream_of ?w y) (writer_group config y)" "acked_recorded L (row_keys w) (stream_of ?w y) (writer_group config y)"
      "es_entries (stream_of ?w y) = es_entries (stream_of w y)" "es_next (stream_of ?w y) = es_next (stream_of w y)" by blast+
  qed
  from I show ?thesis unfolding pipeline_def by (simp add: y known_in_def)
qed

text \<open>A command on the writer's group of a stream.\<close>

lemma traced_stream:
  assumes x: "x \<in> set (event_streams config)" and err: "\<And>s. R (Inl ERedis) s"
    and step: "\<And>s1 w st. log_later s s1 \<Longrightarrow> pipeline L config b Q s1 w \<Longrightarrow> st = stream_of w x \<Longrightarrow>
      stream_ok (snd (f st)) (writer_group config x) \<and> acked_recorded L (row_keys w) (snd (f st)) (writer_group config x) \<and>
      es_entries (snd (f st)) = es_entries st \<and> es_next (snd (f st)) = es_next st \<and>
      (\<forall>g. g \<noteq> writer_group config x \<longrightarrow> es_groups (snd (f st)) g = es_groups st g) \<and>
      (\<exists>K. (\<forall>(n, p) \<in> K. known_in st n p) \<and> R (fst (f st)) (s1\<lparr>lg_known := lg_known s1 \<union> {x} \<times> K\<rparr>))"
  shows "traced (pipeline L config b Q) log_later (stream_command (es_redis_url x) (es_stream_key x) f) R s"
  unfolding stream_command_def
proof (rule traced_command)
  fix s1 w assume s1: "log_later s s1" "pipeline L config b Q s1 w"
  define st where "st = stream_of w x"
  note step = step[OF s1 st_def]
  then obtain K where K: "\<forall>(n, p) \<in> K. known_in st n p" "R (fst (f st)) (s1\<lparr>lg_known := lg_known s1 \<union> {x} \<times> K\<rparr>)" by blast
  let ?s = "s1\<lparr>lg_known := lg_known s1 \<union> {x} \<times> K\<rparr>"
  let ?w = "w\<lparr>aw_streams := (aw_streams w)(es_redis_url x := (aw_streams w (es_redis_url x))(es_stream_key x := snd (f st)))\<rparr>"
  have "pipeline L config b Q ?s w" using s1(2) K(1) unfolding st_def by (rule pipeline_known)
  then have "pipeline L config b Q ?s ?w" using x step unfolding st_def by (intro pipeline_stream) auto
  moreover have "log_later s1 ?s" by (auto simp: log_later_def)
  moreover have "aw_streams w (es_redis_url x) (es_stream_key x) = st" by (simp add: st_def stream_of_def)
  ultimately show "\<exists>s2. log_later s1 s2 \<and>
      pipeline L config b Q s2 (snd (case f (aw_streams w (es_redis_url x) (es_stream_key x)) of
        (r, st) \<Rightarrow> (r, w\<lparr>aw_streams := (aw_streams w)(es_redis_url x := (aw_streams w (es_redis_url x))(es_stream_key x := st))\<rparr>))) \<and>
      R (fst (case f (aw_streams w (es_redis_url x) (es_stream_key x)) of
        (r, st) \<Rightarrow> (r, w\<lparr>aw_streams := (aw_streams w)(es_redis_url x := (aw_streams w (es_redis_url x))(es_stream_key x := st))\<rparr>))) s2"
    using K(2) by (cases "f st") auto
qed (auto simp: log_later_def err)

definition settled :: "api_lib \<Rightarrow> pipeline_log \<Rightarrow> event_stream_config \<Rightarrow> nat \<Rightarrow> bool" where
  "settled L s x n \<longleftrightarrow> (\<exists>p. (x, n, p) \<in> lg_known s \<and> (\<forall>m. created L p = Some m \<longrightarrow> m \<in> lg_done s))"

lemma settled_later: "settled L s x n \<Longrightarrow> log_later s s' \<Longrightarrow> settled L s' x n"
  by (auto simp: settled_def log_later_def)

lemma traced_xack:
  assumes x: "x \<in> set (event_streams config)" and ns: "\<And>n. n \<in> set ns \<Longrightarrow> settled L s x n"
  shows "traced (pipeline L config b Q) log_later
    (xack (es_redis_url x) (es_stream_key x) (writer_group config x) ns) (\<lambda>_ _. True) s"
  unfolding xack_def
proof (rule traced_stream[OF x])
  fix s1 w st assume s1: "log_later s s1" and I: "pipeline L config b Q s1 w" and st: "st = stream_of w x"
  have p: "stream_ok st (writer_group config x)" "acked_recorded L (row_keys w) st (writer_group config x)"
    using I x by (auto simp: pipeline_def st)
  have "recorded L (row_keys w) m" if m: "n \<in> set ns" "(n, p) \<in> set (es_entries st)" "created L p = Some m" for n p m
  proof -
    from settled_later[OF ns[OF m(1)] s1] obtain q where q: "(x, n, q) \<in> lg_known s1" "created L q = Some m \<longrightarrow> m \<in> lg_done s1"
      by (auto simp: settled_def)
    have "known_in st n q" using I x q(1) by (auto simp: pipeline_def st)
    then have "p = q" using m(2) by (auto simp: known_in_def)
    with q(2) m(3) I show ?thesis by (auto simp: pipeline_def)
  qed
  note ack = ack_ok[OF p this]
  show "stream_ok (snd (Inr (), ack_events (writer_group config x) ns st)) (writer_group config x) \<and>
      acked_recorded L (row_keys w) (snd (Inr (), ack_events (writer_group config x) ns st)) (writer_group config x) \<and>
      es_entries (snd (Inr (), ack_events (writer_group config x) ns st)) = es_entries st \<and>
      es_next (snd (Inr (), ack_events (writer_group config x) ns st)) = es_next st \<and>
      (\<forall>g. g \<noteq> writer_group config x \<longrightarrow> es_groups (snd (Inr (), ack_events (writer_group config x) ns st)) g = es_groups st g) \<and>
      (\<exists>K. (\<forall>(n, p) \<in> K. known_in st n p) \<and> True)"
    using ack by (auto simp: ack_events_def)
qed simp

lemma traced_ack:
  assumes "x \<in> set (event_streams config)" "\<And>n. n \<in> set ns \<Longrightarrow> settled L s x n"
  shows "traced (pipeline L config b Q) log_later
    (ack (es_redis_url x) (es_stream_key x) (writer_group config x) ns) (\<lambda>_ _. True) s"
  unfolding ack_def by (auto intro: traced_xack[OF assms])


section \<open>Reading\<close>

lemma pending_known:
  assumes "stream_ok st g" "pending_events g consumer count st = Inr es"
  shows "\<exists>ns. es = map (stream_event_of st) ns \<and> (\<forall>n \<in> set ns. n < es_next st)"
proof -
  obtain cg where cg: "es_groups st g = Some cg"
    and es: "es = map (stream_event_of st) (take (max count 1) (map fst (filter (\<lambda>(_, c). c = consumer) (cg_pending cg))))"
    using assms(2) by (auto simp: pending_events_def split: option.splits)
  have "n < es_next st" if "n \<in> set (take (max count 1) (map fst (filter (\<lambda>(_, c). c = consumer) (cg_pending cg))))" for n
  proof -
    have "n \<in> fst ` set (cg_pending cg)" using set_take_subset that by fastforce
    then show ?thesis using assms(1) cg by (fastforce simp: stream_ok_def)
  qed
  with es show ?thesis by blast
qed

abbreviation all_known :: "pipeline_log \<Rightarrow> event_stream_config \<Rightarrow> stream_event list \<Rightarrow> bool" where
  "all_known s x es \<equiv> \<forall>e \<in> set es. (x, sv_stream_id e, sv_payload e) \<in> lg_known s"

lemma events_known:
  assumes "stream_ok st g" "\<exists>ns. es = map (stream_event_of st) ns \<and> (\<forall>n \<in> set ns. n < es_next st)"
  shows "\<exists>K. (\<forall>(n, p) \<in> K. known_in st n p) \<and> all_known (s\<lparr>lg_known := lg_known s \<union> {x} \<times> K\<rparr>) x es"
proof (intro exI conjI)
  let ?K = "(\<lambda>e. (sv_stream_id e, sv_payload e)) ` set es"
  show "\<forall>(n, p) \<in> ?K. known_in st n p"
  proof -
    have id: "sv_stream_id (stream_event_of st n) = n" for n by (simp add: stream_event_of_def)
    from assms show ?thesis by (auto simp: id event_known)
  qed
qed auto

lemma deliver_traced:
  assumes x: "x \<in> set (event_streams config)"
  shows "traced (pipeline L config b Q) log_later
    (stream_command (es_redis_url x) (es_stream_key x) (deliver_events (writer_group config x) consumer count))
    (\<lambda>r s. \<forall>es. r = Inr es \<longrightarrow> all_known s x es) s"
proof (rule traced_stream[OF x])
  fix s1 w st assume I: "pipeline L config b Q s1 w" and st: "st = stream_of w x"
  have p: "stream_ok st (writer_group config x)" "acked_recorded L (row_keys w) st (writer_group config x)" using I x by (auto simp: pipeline_def st)
  obtain r st' where d: "deliver_events (writer_group config x) consumer count st = (r, st')" by fastforce
  note ok = deliver_ok[OF p d]
  have same: "es_entries st' = es_entries st" "es_next st' = es_next st" "\<And>h. h \<noteq> (writer_group config x) \<Longrightarrow> es_groups st' h = es_groups st h"
    using d by (auto simp: deliver_events_def Let_def split: option.splits)
  have K: "\<exists>K. (\<forall>(n, p) \<in> K. known_in st n p) \<and>
      (\<forall>es. r = Inr es \<longrightarrow> all_known (s1\<lparr>lg_known := lg_known s1 \<union> {x} \<times> K\<rparr>) x es)"
    using events_known[OF p(1) ok(3)] by (cases r) (simp_all, blast)
  from ok(1,2) same K show "stream_ok (snd (deliver_events (writer_group config x) consumer count st)) (writer_group config x) \<and>
      acked_recorded L (row_keys w) (snd (deliver_events (writer_group config x) consumer count st)) (writer_group config x) \<and>
      es_entries (snd (deliver_events (writer_group config x) consumer count st)) = es_entries st \<and>
      es_next (snd (deliver_events (writer_group config x) consumer count st)) = es_next st \<and>
      (\<forall>h. h \<noteq> (writer_group config x) \<longrightarrow> es_groups (snd (deliver_events (writer_group config x) consumer count st)) h = es_groups st h) \<and>
      (\<exists>K. (\<forall>(n, p) \<in> K. known_in st n p) \<and>
        (\<forall>es. fst (deliver_events (writer_group config x) consumer count st) = Inr es \<longrightarrow>
          all_known (s1\<lparr>lg_known := lg_known s1 \<union> {x} \<times> K\<rparr>) x es))"
    by (simp add: d)
qed simp

lemma pending_traced:
  assumes x: "x \<in> set (event_streams config)"
  shows "traced (pipeline L config b Q) log_later
    (stream_command (es_redis_url x) (es_stream_key x) (\<lambda>st. (pending_events (writer_group config x) consumer count st, st)))
    (\<lambda>r s. \<forall>es. r = Inr es \<longrightarrow> all_known s x es) s"
proof (rule traced_stream[OF x])
  fix s1 w st assume I: "pipeline L config b Q s1 w" and st: "st = stream_of w x"
  have p: "stream_ok st (writer_group config x)" "acked_recorded L (row_keys w) st (writer_group config x)" using I x by (auto simp: pipeline_def st)
  have "\<exists>K. (\<forall>(n, p) \<in> K. known_in st n p) \<and>
      (\<forall>es. pending_events (writer_group config x) consumer count st = Inr es \<longrightarrow> all_known (s1\<lparr>lg_known := lg_known s1 \<union> {x} \<times> K\<rparr>) x es)"
    using events_known[OF p(1) pending_known[OF p(1)]] by (cases "pending_events (writer_group config x) consumer count st") (simp_all, blast)
  with p show "stream_ok (snd (pending_events (writer_group config x) consumer count st, st)) (writer_group config x) \<and>
      acked_recorded L (row_keys w) (snd (pending_events (writer_group config x) consumer count st, st)) (writer_group config x) \<and>
      es_entries (snd (pending_events (writer_group config x) consumer count st, st)) = es_entries st \<and>
      es_next (snd (pending_events (writer_group config x) consumer count st, st)) = es_next st \<and>
      (\<forall>h. h \<noteq> (writer_group config x) \<longrightarrow> es_groups (snd (pending_events (writer_group config x) consumer count st, st)) h = es_groups st h) \<and>
      (\<exists>K. (\<forall>(n, p) \<in> K. known_in st n p) \<and>
        (\<forall>es. fst (pending_events (writer_group config x) consumer count st, st) = Inr es \<longrightarrow>
          all_known (s1\<lparr>lg_known := lg_known s1 \<union> {x} \<times> K\<rparr>) x es))"
    by simp
qed simp

lemma stale_settled:
  assumes "ap_read_event L [] = None" "all_known s x es" "n \<in> set (fst (split_stale_events es))"
  shows "settled L s x n"
  using assms unfolding split_stale_events_def settled_def created_def by force

lemma read_traced:
  assumes x: "x \<in> set (event_streams config)" and empty: "ap_read_event L [] = None"
  shows "traced (pipeline L config b Q) log_later
    (read_group_events fuel (es_redis_url x) (es_stream_key x) (writer_group config x) consumer count)
    (\<lambda>r s. \<forall>es. r = Inr (Some es) \<longrightarrow> all_known s x es) s"
proof (induction fuel arbitrary: s)
  case (Suc fuel)
  let ?g = "writer_group config x"
  have acked: "traced (pipeline L config b Q) log_later
      (act_then (if fst (split_stale_events es) = [] then act_ok () else
          xack (es_redis_url x) (es_stream_key x) ?g (fst (split_stale_events es)))
        (\<lambda>_. if snd (split_stale_events es) \<noteq> [] then act_ok (Some (snd (split_stale_events es)))
          else read_group_events fuel (es_redis_url x) (es_stream_key x) ?g consumer count))
      (\<lambda>r s. \<forall>es. r = Inr (Some es) \<longrightarrow> all_known s x es) s"
    if known: "all_known s x es" for s es
  proof (rule flow.traced_then[where Q = "\<lambda>_ s. all_known s x es"])
    show "traced (pipeline L config b Q) log_later
        (if fst (split_stale_events es) = [] then act_ok () else
          xack (es_redis_url x) (es_stream_key x) ?g (fst (split_stale_events es))) (\<lambda>_ s. all_known s x es) s"
    proof (cases "fst (split_stale_events es) = []")
      case False
      have "traced (pipeline L config b Q) log_later (xack (es_redis_url x) (es_stream_key x) ?g (fst (split_stale_events es)))
          (\<lambda>r s'. True \<and> all_known s' x es) s"
        by (rule flow.traced_knowing[OF traced_xack[OF x stale_settled[OF empty known]]]) (use known in \<open>auto simp: log_later_def\<close>)
      with False show ?thesis by simp
    qed (use known in simp)
    fix s1 assume "all_known s1 x es"
    moreover have "set (snd (split_stale_events es)) \<subseteq> set es" by (auto simp: split_stale_events_def)
    ultimately show "traced (pipeline L config b Q) log_later
        (if snd (split_stale_events es) \<noteq> [] then act_ok (Some (snd (split_stale_events es)))
          else read_group_events fuel (es_redis_url x) (es_stream_key x) ?g consumer count)
        (\<lambda>r s. \<forall>es. r = Inr (Some es) \<longrightarrow> all_known s x es) s1"
      using Suc.IH by auto
  qed simp
  show ?case
    unfolding read_group_events.simps Let_def prod.case_eq_if
  proof (rule flow.traced_then[OF pending_traced[OF x]])
    fix es s1 assume "\<forall>es'. Inr es = (Inr es' :: api_error + stream_event list) \<longrightarrow> all_known s1 x es'"
    then have known: "all_known s1 x es" by simp
    show "traced (pipeline L config b Q) log_later
        (if es = [] then act_then (stream_command (es_redis_url x) (es_stream_key x) (deliver_events ?g consumer count)) (\<lambda>es. act_ok (Some es))
         else act_then (if fst (split_stale_events es) = [] then act_ok () else
          xack (es_redis_url x) (es_stream_key x) ?g (fst (split_stale_events es)))
        (\<lambda>_. if snd (split_stale_events es) \<noteq> [] then act_ok (Some (snd (split_stale_events es)))
          else read_group_events fuel (es_redis_url x) (es_stream_key x) ?g consumer count))
        (\<lambda>r s. \<forall>es. r = Inr (Some es) \<longrightarrow> all_known s x es) s1"
      using acked[OF known] by (auto intro: flow.traced_then[OF deliver_traced[OF x]])
  qed simp
qed simp


section \<open>The processor\<close>

text \<open>
  The entries of the processor: those to acknowledge are settled, and those of its batch are entries of
  messages in the batch.
\<close>

definition batched :: "api_lib \<Rightarrow> pipeline_log \<Rightarrow> event_stream_config \<Rightarrow> processor \<Rightarrow> nat \<Rightarrow> bool" where
  "batched L s x p n \<longleftrightarrow> (\<exists>q. (x, n, q) \<in> lg_known s \<and> (\<forall>m. created L q = Some m \<longrightarrow> m \<in> fst ` set (pp_message_batch p)))"

definition processor_ok :: "api_lib \<Rightarrow> pipeline_log \<Rightarrow> event_stream_config \<Rightarrow> processor \<Rightarrow> bool" where
  "processor_ok L s x p \<longleftrightarrow>
     (\<forall>n \<in> set (pp_flushed_ack_ids p @ pp_private_read_ack_ids p @ pp_group_read_ack_ids p). settled L s x n) \<and>
     (\<forall>n \<in> set (pp_message_ack_ids p). batched L s x p n)"

lemma known_later: "(x, n, q) \<in> lg_known s \<Longrightarrow> log_later s s' \<Longrightarrow> (x, n, q) \<in> lg_known s'"
  by (auto simp: log_later_def)

lemma processor_later: "processor_ok L s x p \<Longrightarrow> log_later s s' \<Longrightarrow> processor_ok L s' x p"
proof -
  assume ok: "processor_ok L s x p" and later: "log_later s s'"
  have b: "batched L s' x p n" if "batched L s x p n" for n
  proof -
    from that obtain q where "(x, n, q) \<in> lg_known s" "\<forall>m. created L q = Some m \<longrightarrow> m \<in> fst ` set (pp_message_batch p)"
      unfolding batched_def by blast
    then show ?thesis using known_later[OF _ later] unfolding batched_def by blast
  qed
  show "processor_ok L s' x p"
    unfolding processor_ok_def
    by (intro conjI ballI) (use ok in \<open>auto simp: processor_ok_def intro: settled_later[OF _ later] b\<close>)
qed

lemma processor_clock [simp]: "processor_ok L s x (p\<lparr>pp_last_flush := t\<rparr>) = processor_ok L s x p"
  by (simp add: processor_ok_def batched_def)

abbreviation leaves_ok ::
  "api_lib \<Rightarrow> api_config \<Rightarrow> bool \<Rightarrow> (string \<times> string \<times> string) set \<Rightarrow> event_stream_config \<Rightarrow> pipeline_log \<Rightarrow> 'a api \<Rightarrow> ('a \<Rightarrow> processor) \<Rightarrow> bool"
where
  "leaves_ok L config b Q x s m get \<equiv>
     traced (pipeline L config b Q) log_later m (\<lambda>r s. \<forall>y. r = Inr y \<longrightarrow> processor_ok L s x (get y)) s"

lemma store_traced:
  "traced (pipeline L config b Q) log_later (store_messages L messages envelopes)
     (\<lambda>r s. r = Inr () \<longrightarrow> set messages \<subseteq> lg_done s) s"
  unfolding store_messages_def sql_execute_def
proof (rule traced_command)
  fix s1 w assume I: "pipeline L config b Q s1 w"
  let ?f = "\<lambda>w. case insert_messages L (aw_now w) messages (aw_messages w) of None \<Rightarrow> (Inl ESqlx, w)
     | Some ms \<Rightarrow> (case insert_message_device_envelopes L envelopes (aw_deliveries w) of None \<Rightarrow> (Inl ESqlx, w)
         | Some ds \<Rightarrow> (Inr (), w\<lparr>aw_messages := ms, aw_deliveries := ds\<rparr>))"
  have failed: "\<exists>s2. log_later s1 s2 \<and> pipeline L config b Q s2 (snd (?f w)) \<and> (fst (?f w) = Inr () \<longrightarrow> set messages \<subseteq> lg_done s2)"
    if "?f w = (Inl ESqlx, w)"
    using I unfolding that by (auto simp: log_later_def)
  show "\<exists>s2. log_later s1 s2 \<and> pipeline L config b Q s2 (snd (?f w)) \<and> (fst (?f w) = Inr () \<longrightarrow> set messages \<subseteq> lg_done s2)"
  proof (cases "insert_messages L (aw_now w) messages (aw_messages w)")
    case None
    then show ?thesis by (intro failed) simp
  next
    case ms: (Some ms)
    show ?thesis
    proof (cases "insert_message_device_envelopes L envelopes (aw_deliveries w)")
      case None
      with ms show ?thesis by (intro failed) simp
    next
      case ds: (Some ds)
      have f: "?f w = (Inr (), w\<lparr>aw_messages := ms, aw_deliveries := ds\<rparr>)" by (simp only: ms ds option.case)
    let ?w = "w\<lparr>aw_messages := ms, aw_deliveries := ds\<rparr>"
    have keys: "row_keys ?w = row_key_of ` set ms" by (simp add: row_keys_def)
    have "others_keep config b Q w ?w"
      using insert_messages_keys[OF ms] by (auto simp: others_keep_def goes_on_refl keys row_keys_def)
    then have "pipeline L config b Q s1 ?w" using I by (rule pipeline_others[rotated])
    then have "pipeline L config b Q (s1\<lparr>lg_done := lg_done s1 \<union> set messages\<rparr>) ?w"
      using insert_messages_recorded[OF ms] unfolding pipeline_def keys by auto
    then show ?thesis unfolding f by (intro exI[of _ "s1\<lparr>lg_done := lg_done s1 \<union> set messages\<rparr>"]) (auto simp: log_later_def)
    qed
  qed
qed (auto simp: log_later_def)

lemma flush_messages_traced:
  assumes "processor_ok L s x p"
  shows "leaves_ok L config b Q x s (flush_messages L hot_redis p) snd"
proof (cases "pp_message_batch p = []")
  case True
  then show ?thesis using assms by (simp add: flush_messages_def)
next
  case False
  define p' where "p' = p\<lparr>pp_message_batch := [], pp_flushed_ack_ids := pp_flushed_ack_ids p @ pp_message_ack_ids p,
      pp_message_ack_ids := []\<rparr>"
  have ok: "processor_ok L s1 x p'" if later: "log_later s s1" and stored: "fst ` set (pp_message_batch p) \<subseteq> lg_done s1" for s1
  proof -
    have "processor_ok L s1 x p" using assms later by (rule processor_later)
    moreover have "settled L s1 x n" if "batched L s1 x p n" for n
      using that stored unfolding batched_def settled_def by blast
    ultimately show ?thesis by (auto simp: processor_ok_def p'_def)
  qed
  have "leaves_ok L config b Q x s1 (act_then (write_watermarks hot_redis ms) (\<lambda>_. act_ok (True, p'))) snd"
    if "processor_ok L s1 x p'" for s1 ms
    by (rule flow.traced_then[OF keeps_traced[OF keeps_watermarks]]) (use that in \<open>auto intro: processor_later\<close>)
  with ok show ?thesis
    using False unfolding flush_messages_def Let_def p'_def[symmetric]
    by (auto intro!: flow.traced_then[OF store_traced])
qed

lemma flush_cursors_traced:
  assumes "processor_ok L s x p"
  shows "leaves_ok L config b Q x s (flush_read_cursors p) snd"
proof (cases "pp_private_read_batch p = [] \<and> pp_group_read_batch p = []")
  case True
  then show ?thesis using assms by (simp add: flush_read_cursors_def)
next
  case False
  have "keeps config b Q (sql_execute (\<lambda>w. (Inr (), w\<lparr>
          aw_private_cursors := upsert_private_read_cursors (coalesce_private_read_cursors (pp_private_read_batch p)) (aw_private_cursors w),
          aw_group_cursors := upsert_group_read_cursors (coalesce_group_read_cursors (pp_group_read_batch p)) (aw_group_cursors w)\<rparr>)))"
    by (rule keeps_execute) (auto simp: row_keys_def)
  then have "leaves_ok L config b Q x s (act_then (sql_execute (\<lambda>w. (Inr (), w\<lparr>
          aw_private_cursors := upsert_private_read_cursors (coalesce_private_read_cursors (pp_private_read_batch p)) (aw_private_cursors w),
          aw_group_cursors := upsert_group_read_cursors (coalesce_group_read_cursors (pp_group_read_batch p)) (aw_group_cursors w)\<rparr>)))
        (\<lambda>_. act_ok (True, p\<lparr>pp_private_read_batch := [], pp_group_read_batch := [],
          pp_flushed_ack_ids := pp_flushed_ack_ids p @ pp_private_read_ack_ids p @ pp_group_read_ack_ids p,
          pp_private_read_ack_ids := [], pp_group_read_ack_ids := []\<rparr>))) snd"
    by (rule flow.traced_then[OF keeps_traced])
      (use assms processor_later[OF assms] in \<open>auto simp: processor_ok_def batched_def\<close>)
  with False show ?thesis by (simp only: flush_read_cursors_def if_False)
qed

lemma flushed_now_traced: "processor_ok L s x p \<Longrightarrow> leaves_ok L config b Q x s (flushed_now f p) (\<lambda>p. p)"
  unfolding flushed_now_def
  by (auto intro!: flow.traced_then[OF keeps_traced[OF keeps_reads(1)]] intro: processor_later)

lemma flush_pending_traced: "processor_ok L s x p \<Longrightarrow> leaves_ok L config b Q x s (flush_pending L hot_redis p) (\<lambda>p. p)"
  unfolding flush_pending_def
  by (intro flow.traced_then[OF flush_messages_traced] flow.traced_then[OF flush_cursors_traced])
    (auto intro!: flow.traced_then[OF flush_cursors_traced] flushed_now_traced)

lemma flush_due_traced: "processor_ok L s x p \<Longrightarrow> leaves_ok L config b Q x s (flush_if_due L config hot_redis p) (\<lambda>p. p)"
  unfolding flush_if_due_def
  by (auto intro!: flow.traced_then[OF keeps_traced[OF keeps_reads(1)]] flush_pending_traced intro: processor_later)


section \<open>Events\<close>

abbreviation process_ok :: "api_lib \<Rightarrow> event_stream_config \<Rightarrow> nat \<Rightarrow> api_error + bool \<times> processor \<Rightarrow> pipeline_log \<Rightarrow> bool" where
  "process_ok L x n r s \<equiv> \<forall>batched p. r = Inr (batched, p) \<longrightarrow> processor_ok L s x p \<and> (\<not> batched \<longrightarrow> settled L s x n)"

lemma no_message_settled: "(x, n, q) \<in> lg_known s \<Longrightarrow> created L q = None \<Longrightarrow> settled L s x n"
  by (auto simp: settled_def)

lemma enqueue_traced:
  assumes ok: "processor_ok L s x p" and n: "(x, n, q) \<in> lg_known s" "created L q = None"
  shows "leaves_ok L config b Q x s (enqueue_read L config event n p) (\<lambda>p. p)"
proof -
  have settled: "settled L s1 x n" if "log_later s s1" for s1
    using no_message_settled known_later[OF n(1) that] n(2) by blast
  have more: "processor_ok L s1 x (p\<lparr>pp_group_read_batch := gs, pp_group_read_ack_ids := pp_group_read_ack_ids p @ [n]\<rparr>)"
    "processor_ok L s1 x (p\<lparr>pp_private_read_batch := ps, pp_private_read_ack_ids := pp_private_read_ack_ids p @ [n]\<rparr>)"
    if "log_later s s1" for s1 gs ps
    using processor_later[OF ok that] settled[OF that] by (auto simp: processor_ok_def batched_def)
  have later: "log_later s s2" if "log_later s s1" "log_later s1 s2" for s1 s2
    using that by (rule flow.later)
  show ?thesis
    unfolding enqueue_read_def Let_def
    by (auto split: option.split intro!: flow.traced_then[OF keeps_traced[OF keeps_reads(1)]]
        flow.traced_then[OF keeps_traced[OF keeps_reads(4)]] ok; blast intro: more later processor_later[OF ok])
qed

lemma process_traced:
  assumes ok: "processor_ok L s x p" and n: "(x, n, q) \<in> lg_known s" and q: "ap_read_event L q = Some event"
  shows "traced (pipeline L config b Q) log_later (process L config hot_redis event n p) (process_ok L x n) s"
proof -
  have flushed: "traced (pipeline L config b Q) log_later
      (act_then m (\<lambda>(f, p). act_then (flushed_now f p) (\<lambda>p. act_ok (True, p)))) (process_ok L x n) s"
    if "leaves_ok L config b Q x s m snd" for m :: "(bool \<times> processor) api" and s
    by (rule flow.traced_then[OF that]) (auto intro!: flow.traced_then[OF flushed_now_traced])
  show ?thesis
  proof (cases "ev_event_type event")
    case MessageCreated
    show ?thesis
    proof (cases "ev_payload event")
      case None
      with MessageCreated ok n q show ?thesis by (auto simp: process_def created_def intro: no_message_settled)
    next
      case (Some message)
      define p' where "p' = p\<lparr>pp_message_batch := pp_message_batch p @ [(message, unwrap_or (ev_device_envelopes event) [])],
          pp_message_ack_ids := pp_message_ack_ids p @ [n]\<rparr>"
      have "batched L s x p' k" if "batched L s x p k" for k
        using that unfolding batched_def p'_def by fastforce
      moreover have "batched L s x p' n" using n q MessageCreated Some by (auto simp: batched_def p'_def created_def)
      ultimately have ok': "processor_ok L s x p'" using ok by (auto simp: processor_ok_def p'_def)
      have "process L config hot_redis event n p =
          (if ac_writer_batch_size config \<le> length (pp_message_batch p') then
             act_then (flush_messages L hot_redis p') (\<lambda>(f, p). act_then (flushed_now f p) (\<lambda>p. act_ok (True, p)))
           else act_ok (True, p'))"
        by (simp add: process_def MessageCreated Some p'_def)
      with ok' flushed[OF flush_messages_traced[OF ok']] show ?thesis by simp
    qed
  next
    case MessageRead
    then have "created L q = None" using q by (simp add: created_def)
    from enqueue_traced[OF ok n this] flushed[OF flush_cursors_traced] show ?thesis
      using MessageRead unfolding process_def by (auto intro!: flow.traced_then)
  next
    case MessageRecalled
    then have c: "created L q = None" using q by (simp add: created_def)
    have "traced (pipeline L config b Q) log_later (act_then (apply_status event) (\<lambda>_. act_ok (False, p))) (process_ok L x n) s1"
      if "log_later s s1" "processor_ok L s1 x p" for s1 p
      by (rule flow.traced_then[OF keeps_traced[OF keeps_status]])
        (use that n c in \<open>auto intro: processor_later no_message_settled known_later flow.later\<close>)
    then show ?thesis using MessageRecalled unfolding process_def by (auto intro!: flow.traced_then[OF flush_pending_traced[OF ok]])
  next
    case MessageDeleted
    then have c: "created L q = None" using q by (simp add: created_def)
    have "traced (pipeline L config b Q) log_later (act_then (apply_status event) (\<lambda>_. act_ok (False, p))) (process_ok L x n) s1"
      if "log_later s s1" "processor_ok L s1 x p" for s1 p
      by (rule flow.traced_then[OF keeps_traced[OF keeps_status]])
        (use that n c in \<open>auto intro: processor_later no_message_settled known_later flow.later\<close>)
    then show ?thesis using MessageDeleted unfolding process_def by (auto intro!: flow.traced_then[OF flush_pending_traced[OF ok]])
  qed (use ok n q in \<open>auto simp: process_def created_def intro: no_message_settled\<close>)
qed

lemma process_events_traced:
  "processor_ok L s x p \<Longrightarrow> all_known s x es \<Longrightarrow> (\<forall>n \<in> set immediate. settled L s x n) \<Longrightarrow>
   traced (pipeline L config b Q) log_later (process_events L config hot_redis es immediate p)
     (\<lambda>r s. \<forall>ns p. r = Inr (ns, p) \<longrightarrow> processor_ok L s x p \<and> (\<forall>n \<in> set ns. settled L s x n)) s"
proof (induction es arbitrary: s immediate p)
  case (Cons e es)
  show ?case
  proof (cases "ap_read_event L (sv_payload e)")
    case None
    with Cons show ?thesis by simp
  next
    case (Some event)
    have e: "(x, sv_stream_id e, sv_payload e) \<in> lg_known s" using Cons.prems(2) by simp
    have "traced (pipeline L config b Q) log_later
        (act_then (process L config hot_redis event (sv_stream_id e) p) (\<lambda>(batched, p).
          process_events L config hot_redis es (if batched then immediate else immediate @ [sv_stream_id e]) p))
        (\<lambda>r s. \<forall>ns p. r = Inr (ns, p) \<longrightarrow> processor_ok L s x p \<and> (\<forall>n \<in> set ns. settled L s x n)) s"
    proof (rule flow.traced_then[OF process_traced[OF Cons.prems(1) e Some]], goal_cases)
      case (1 r s1)
      obtain batched p1 where r: "r = (batched, p1)" by (cases r)
      have known: "all_known s1 x es" using Cons.prems(2) known_later[OF _ 1(1)] by auto
      have settled: "\<forall>n \<in> set (if batched then immediate else immediate @ [sv_stream_id e]). settled L s1 x n"
        using Cons.prems(3) settled_later[OF _ 1(1)] 1(2) r by auto
      have "processor_ok L s1 x p1" using 1(2) r by simp
      from Cons.IH[OF this known settled] show ?case by (simp add: r)
    qed simp
    with Some show ?thesis by simp
  qed
qed simp

section \<open>Rounds\<close>

lemma consume_round_traced:
  assumes x: "x \<in> set (event_streams config)" and empty: "ap_read_event L [] = None" and ok: "processor_ok L s x p"
  shows "traced (pipeline L config b Q) log_later (consume_round L config x consumer fuel p)
     (\<lambda>r s. \<forall>p. r = Inr (Some p) \<longrightarrow> processor_ok L s x p) s"
proof -
  let ?hot = "hot_redis_urls_for config (es_kind x)"
  have finish: "traced (pipeline L config b Q) log_later
      (act_then (ack (es_redis_url x) (es_stream_key x) (writer_group config x) ns) (\<lambda>_.
       act_then (ack (es_redis_url x) (es_stream_key x) (writer_group config x) (pp_flushed_ack_ids p)) (\<lambda>_.
       act_ok (Some (p\<lparr>pp_flushed_ack_ids := []\<rparr>))))) (\<lambda>r s. \<forall>p. r = Inr (Some p) \<longrightarrow> processor_ok L s x p) s"
    if ok: "processor_ok L s x p" and ns: "\<forall>n \<in> set ns. settled L s x n" for s p ns
  proof (rule flow.traced_then[OF traced_ack[OF x]], goal_cases)
    case (2 _ s1)
    have ok1: "processor_ok L s1 x p" using ok 2(1) by (rule processor_later)
    show ?case
    proof (rule flow.traced_then[OF traced_ack[OF x]], goal_cases)
      case (2 _ s2)
      with ok1 have "processor_ok L s2 x p" by (blast intro: processor_later)
      then show ?case by (auto simp: processor_ok_def batched_def)
    qed (use ok1 in \<open>auto simp: processor_ok_def\<close>)
  qed (use ns in auto)
  show ?thesis
    unfolding consume_round_def Let_def writer_group_def[symmetric]
  proof (rule flow.traced_then[OF read_traced[OF x empty]], goal_cases)
    case (1 read s1)
    show ?case
    proof (cases read)
      case (Some events)
      have known: "all_known s1 x events" using 1(2) Some by simp
      show ?thesis
        unfolding Some option.case
      proof (rule flow.traced_then[OF process_events_traced[OF processor_later[OF ok 1(1)] known]], goal_cases)
        case (2 r s2)
        then obtain ns p1 where r: "r = (ns, p1)" "processor_ok L s2 x p1" "\<forall>n \<in> set ns. settled L s2 x n" by (cases r) auto
        show ?case
          unfolding r(1) prod.case
        proof (rule flow.traced_then[OF flush_due_traced[OF r(2)]], goal_cases)
          case (1 p2 s3)
          then show ?case using settled_later r(3) by (intro finish) auto
        qed simp
      qed auto
    qed simp
  qed simp
qed

lemma consume_rounds_traced:
  assumes x: "x \<in> set (event_streams config)" and empty: "ap_read_event L [] = None"
  shows "processor_ok L s x p \<Longrightarrow>
    traced (pipeline L config b Q) log_later (consume_rounds rounds L config x consumer fuel p) (\<lambda>_ _. True) s"
proof (induction rounds arbitrary: s p)
  case (Suc rounds)
  show ?case
    unfolding consume_rounds.simps
    by (rule flow.traced_then[OF consume_round_traced[OF x empty Suc.prems]]) (auto split: option.split intro: Suc.IH)
qed simp

lemma ensure_ok: 
  assumes ok: "stream_ok st g" and rec: "acked_recorded L ks st g" and "es_groups st g = None"
  shows "stream_ok (st\<lparr>es_groups := (es_groups st)(g := Some \<lparr>cg_last = 0, cg_pending = []\<rparr>)\<rparr>) g"
    "acked_recorded L ks (st\<lparr>es_groups := (es_groups st)(g := Some \<lparr>cg_last = 0, cg_pending = []\<rparr>)\<rparr>) g"
  using ok rec by (auto simp: stream_ok_def acked_recorded_def acked_def)


lemma ensure_traced:
  assumes x: "x \<in> set (event_streams config)"
  shows "traced (pipeline L config b Q) log_later
    (ensure_group (es_redis_url x) (es_stream_key x) (writer_group config x)) (\<lambda>_ _. True) s"
  unfolding ensure_group_def
proof (rule traced_stream[OF x])
  fix s1 w st assume I: "pipeline L config b Q s1 w" and st: "st = stream_of w x"
  let ?st = "st\<lparr>es_groups := (es_groups st)(writer_group config x := Some \<lparr>cg_last = 0, cg_pending = []\<rparr>)\<rparr>"
  let ?st' = "case es_groups st (writer_group config x) of None \<Rightarrow> ?st | Some _ \<Rightarrow> st"
  have p: "stream_ok st (writer_group config x)" "acked_recorded L (row_keys w) st (writer_group config x)"
    using I x by (auto simp: pipeline_def st)
  have ok: "stream_ok ?st' (writer_group config x)" "acked_recorded L (row_keys w) ?st' (writer_group config x)"
    using p ensure_ok[OF p] by (simp_all split: option.split)
  have same: "es_entries ?st' = es_entries st" "es_next ?st' = es_next st" "\<And>g. g \<noteq> writer_group config x \<Longrightarrow> es_groups ?st' g = es_groups st g"
    by (simp_all split: option.split)
  show "stream_ok (snd (Inr (), ?st')) (writer_group config x) \<and>
      acked_recorded L (row_keys w) (snd (Inr (), ?st')) (writer_group config x) \<and>
      es_entries (snd (Inr (), ?st')) = es_entries st \<and> es_next (snd (Inr (), ?st')) = es_next st \<and>
      (\<forall>g. g \<noteq> writer_group config x \<longrightarrow> es_groups (snd (Inr (), ?st')) g = es_groups st g) \<and>
      (\<exists>K. (\<forall>(n, p) \<in> K. known_in st n p) \<and> True)"
    unfolding snd_conv using ok same by (intro conjI allI impI exI[of _ "{}"]) simp_all
qed simp

lemma new_processor_ok: "processor_ok L s x (new_processor now)"
  by (simp add: processor_ok_def new_processor_def)

theorem writer_traced:
  assumes "x \<in> set (event_streams config)" "ap_read_event L [] = None"
  shows "traced (pipeline L config b Q) log_later (connect_and_consume L config env x rounds fuel) (\<lambda>_ _. True) s"
  unfolding connect_and_consume_def writer_group_def[symmetric]
  by (rule flow.traced_then[OF keeps_traced[OF keeps_reads(1)]])
    (auto intro!: flow.traced_then[OF ensure_traced[OF assms(1)]] consume_rounds_traced[OF assms] new_processor_ok)

end
