(* ===== verification/Api_Publisher_Rules.thy ===== *)
theory Api_Publisher_Rules
  imports Api_Pipeline_Rules
begin

text \<open>
  Every access of a publisher keeps the pipeline: what it takes from the queue it has appended to the stream
  of the event before, or it found no event under its key.
\<close>

section \<open>Appending\<close>

lemma append_goes_on: "(b \<longrightarrow> trims = (\<lambda>_. 0)) \<Longrightarrow> stream_goes_on b g st (append_event trims k p st)"
proof -
  assume trims: "b \<longrightarrow> trims = (\<lambda>_. 0)"
  define d where "d = min (trims (length (es_entries st @ [(es_next st, p)]))) (length (es_entries st @ [(es_next st, p)]) - max k 1)"
  have st': "append_event trims k p st = st\<lparr>es_entries := drop d (es_entries st @ [(es_next st, p)]), es_next := es_next st + 1\<rparr>"
    by (simp only: append_event_def Let_def d_def)
  have sub: "set (drop d (es_entries st @ [(es_next st, p)])) \<subseteq> insert (es_next st, p) (set (es_entries st))"
    using set_drop_subset[of d "es_entries st @ [(es_next st, p)]"] by auto
  have "stream_ok (append_event trims k p st) g" if ok: "stream_ok st g"
  proof -
    have "sorted_wrt (<) (map fst (es_entries st @ [(es_next st, p)]))"
      using ok by (auto simp: stream_ok_def sorted_wrt_append)
    then have "sorted_wrt (<) (map fst (drop d (es_entries st @ [(es_next st, p)])))"
      by (metis append_take_drop_id map_append sorted_wrt_append)
    moreover have "0 < n \<and> n < es_next st + 1" if "n \<in> fst ` set (drop d (es_entries st @ [(es_next st, p)]))" for n
      using that sub ok unfolding stream_ok_def by fastforce
    ultimately show ?thesis using ok unfolding st' stream_ok_def by auto
  qed
  moreover have "b \<longrightarrow> d = 0" using trims by (simp add: d_def)
  ultimately show ?thesis using sub by (auto simp: stream_goes_on_def st')
qed

lemma fold_goes_on:
  "(b \<longrightarrow> trims = (\<lambda>_. 0)) \<Longrightarrow> stream_goes_on b g st (fold (\<lambda>e. append_event trims k (f e)) es st)"
  by (induction es arbitrary: st) (auto intro: goes_on_refl goes_on_trans append_goes_on)

lemma fold_appended:
  "trims = (\<lambda>_. 0) \<Longrightarrow> e \<in> set es \<Longrightarrow> \<exists>n. (n, f e) \<in> set (es_entries (fold (\<lambda>e. append_event trims k (f e)) es st))"
proof (induction es arbitrary: st)
  case (Cons x xs)
  show ?case
  proof (cases "e = x")
    case True
    have "(es_next st, f x) \<in> set (es_entries (append_event trims k (f x) st))"
      using Cons.prems(1) by (simp add: append_event_def)
    moreover have "stream_goes_on True g (append_event trims k (f x) st)
        (fold (\<lambda>e. append_event trims k (f e)) xs (append_event trims k (f x) st))" for g
      by (rule fold_goes_on) (simp add: Cons.prems(1))
    ultimately show ?thesis using True by (auto simp: stream_goes_on_def)
  next
    case False
    with Cons show ?thesis by simp
  qed
qed simp

lemma append_all_traced:
  assumes x: "x \<in> set (event_streams config)"
  shows "traced (pipeline L config b Q) log_later (append_all config x events)
     (\<lambda>r s. r = Inr () \<longrightarrow> (\<forall>e \<in> set events. (x, pe_payload e) \<in> lg_appended s)) s"
  unfolding append_all_def
proof (rule traced_command)
  fix s1 w assume I: "pipeline L config b Q s1 w"
  define st where "st = fold (\<lambda>e. append_event (aw_trim w) (ac_event_stream_max_len config) (pe_payload e)) events (stream_of w x)"
  define w' where "w' = w\<lparr>aw_streams := (aw_streams w)(es_redis_url x := (aw_streams w (es_redis_url x))(es_stream_key x := st))\<rparr>"
  define s2 where "s2 = s1\<lparr>lg_appended := lg_appended s1 \<union> {x} \<times> pe_payload ` set events\<rparr>"
  have trim: "b \<longrightarrow> aw_trim w = (\<lambda>_. 0)" using I by (auto simp: pipeline_def)
  have streams: "stream_of w' y = (if es_redis_url y = es_redis_url x \<and> es_stream_key y = es_stream_key x then st else stream_of w y)" for y
    by (auto simp: w'_def stream_of_def)
  have goes: "stream_goes_on b g (stream_of w y) (stream_of w' y)" for g y
  proof (cases "es_redis_url y = es_redis_url x \<and> es_stream_key y = es_stream_key x")
    case True
    then have "stream_of w y = stream_of w x" by (simp add: stream_of_def)
    with True fold_goes_on[OF trim] show ?thesis by (simp add: streams st_def)
  next
    case False
    then have "stream_of w' y = stream_of w y" by (auto simp: streams)
    then show ?thesis by (simp add: goes_on_refl)
  qed
  have same: "row_keys w' = row_keys w" "queued w' = queued w" "aw_trim w' = aw_trim w" by (simp_all add: w'_def)
  have "others_keep config b Q w w'" using goes same by (auto simp: others_keep_def)
  then have I': "pipeline L config b Q s1 w'" using I by (rule pipeline_others[rotated])
  have "\<exists>n. (n, p) \<in> set (es_entries (stream_of w' x))" if "b" "p \<in> pe_payload ` set events" for p
    using that trim fold_appended[where trims = "aw_trim w" and es = events and f = pe_payload]
    by (auto simp: streams st_def)
  then have "pipeline L config b Q s2 w'" using I' unfolding pipeline_def s2_def by auto
  moreover have "log_later s1 s2" by (auto simp: log_later_def s2_def)
  moreover have "\<forall>e \<in> set events. (x, pe_payload e) \<in> lg_appended s2" by (auto simp: s2_def)
  ultimately show "\<exists>s2. log_later s1 s2 \<and> pipeline L config b Q s2 (snd (Inr (), w\<lparr>aw_streams := (aw_streams w)(es_redis_url x :=
        (aw_streams w (es_redis_url x))(es_stream_key x :=
          fold (\<lambda>e. append_event (aw_trim w) (ac_event_stream_max_len config) (pe_payload e)) events
            (aw_streams w (es_redis_url x) (es_stream_key x))))\<rparr>)) \<and>
      (fst (Inr (), w\<lparr>aw_streams := (aw_streams w)(es_redis_url x := (aw_streams w (es_redis_url x))(es_stream_key x :=
          fold (\<lambda>e. append_event (aw_trim w) (ac_event_stream_max_len config) (pe_payload e)) events
            (aw_streams w (es_redis_url x) (es_stream_key x))))\<rparr>) = (Inr () :: api_error + unit) \<longrightarrow>
        (\<forall>e \<in> set events. (x, pe_payload e) \<in> lg_appended s2))"
    unfolding w'_def st_def stream_of_def fst_conv snd_conv by blast
qed (auto simp: log_later_def)

section \<open>Removing\<close>

lemma pipeline_queue:
  assumes "pipeline L config b Q s w" "\<And>x. stream_of w' x = stream_of w x" "row_keys w' = row_keys w" "aw_trim w' = aw_trim w"
    and "\<And>u m p. b \<Longrightarrow> (u, m, p) \<in> Q \<Longrightarrow> queued w' u m p \<or> (destination L config p, p) \<in> lg_appended s"
  shows "pipeline L config b Q s w'"
  using assms by (simp add: pipeline_def) blast

lemma queued_kept:
  assumes "queued w url m p" "m \<notin> set ids" "member_event_key m \<notin> set ks"
  shows "queued (w\<lparr>aw_hot := (aw_hot w)(url := (let s = (if ks = [] then aw_hot w url else hot_remove ks (aw_hot w url))
      in if ids = [] then s else hot_zrem (aw_now w) pending_events_key ids s))\<rparr>) url m p"
  using assms by (cases "ks = []"; cases "ids = []") (auto simp: queued_def image_iff)

abbreviation removable ::
  "api_lib \<Rightarrow> api_config \<Rightarrow> (string \<times> string \<times> string) set \<Rightarrow> string \<Rightarrow> string list \<Rightarrow> string list \<Rightarrow> pipeline_log \<Rightarrow> bool"
where
  "removable L config Q url ids ks s \<equiv> \<forall>m p. (url, m, p) \<in> Q \<and> (m \<in> set ids \<or> member_event_key m \<in> set ks) \<longrightarrow>
     (destination L config p, p) \<in> lg_appended s"

lemma remove_traced:
  assumes gone: "b \<longrightarrow> removable L config Q url ids ks s"
  shows "traced (pipeline L config b Q) log_later (remove_stale_events url ids ks) (\<lambda>_ _. True) s"
proof (cases "ids = [] \<and> ks = []")
  case False
  have "traced (pipeline L config b Q) log_later
      (hot_write url (\<lambda>now s. (let s = (if ks = [] then s else hot_remove ks s)
        in if ids = [] then s else hot_zrem now pending_events_key ids s))) (\<lambda>_ _. True) s"
    unfolding hot_write_def hot_command_def
  proof (rule traced_command)
    fix s1 w assume s1: "log_later s s1" and I: "pipeline L config b Q s1 w"
    define w' where "w' = w\<lparr>aw_hot := (aw_hot w)(url := (let s = (if ks = [] then aw_hot w url else hot_remove ks (aw_hot w url))
      in if ids = [] then s else hot_zrem (aw_now w) pending_events_key ids s))\<rparr>"
    have gone1: "b \<longrightarrow> removable L config Q url ids ks s1" using gone s1 unfolding log_later_def by blast
    have "queued w' u m p \<or> (destination L config p, p) \<in> lg_appended s1" if b: "b" and e: "(u, m, p) \<in> Q" for u m p
    proof -
      have q: "queued w u m p \<or> (destination L config p, p) \<in> lg_appended s1" using I b e unfolding pipeline_def by auto
      show ?thesis
      proof (cases "u = url")
        case True
        then show ?thesis using q queued_kept[where w = w and url = url and m = m and p = p and ids = ids and ks = ks] gone1 b e
          unfolding w'_def by blast
      next
        case False
        then have "queued w' u m p = queued w u m p" by (simp add: queued_def w'_def)
        with q show ?thesis by simp
      qed
    qed
    then have "pipeline L config b Q s1 w'" by (rule pipeline_queue[OF I, rotated 3]) (simp_all add: w'_def)
    moreover have "log_later s1 s1" by (simp add: log_later_def)
    ultimately show "\<exists>s2. log_later s1 s2 \<and> pipeline L config b Q s2 (snd (case (Inr (),
          let s = if ks = [] then aw_hot w url else hot_remove ks (aw_hot w url)
          in if ids = [] then s else hot_zrem (aw_now w) pending_events_key ids s) of
        (r, s) \<Rightarrow> (r, w\<lparr>aw_hot := (aw_hot w)(url := s)\<rparr>))) \<and> True"
      unfolding w'_def by auto
  qed (auto simp: log_later_def)
  with False show ?thesis by (simp add: remove_stale_events_def)
qed (simp add: remove_stale_events_def)

section \<open>A round\<close>

text \<open>What was found under a key, as far as the pending events of \<open>Q\<close> are concerned.\<close>

definition found_ok ::
  "api_lib \<Rightarrow> api_config \<Rightarrow> (string \<times> string \<times> string) set \<Rightarrow> string \<Rightarrow> pipeline_log \<Rightarrow> string \<times> string option \<Rightarrow> bool"
where
  "found_ok L config Q url s mp \<longleftrightarrow> (\<forall>m p. (url, m, p) \<in> Q \<and> member_event_key m = member_event_key (fst mp) \<longrightarrow>
     snd mp = Some p \<or> (destination L config p, p) \<in> lg_appended s)"

lemma found_later: "found_ok L config Q url s mp \<Longrightarrow> log_later s s' \<Longrightarrow> found_ok L config Q url s' mp"
  unfolding found_ok_def log_later_def by blast

lemma fetch_traced:
  "traced (pipeline L config b Q) log_later (hot_read url (\<lambda>t s. map (\<lambda>m. hot_get t s (member_event_key m)) ids))
     (\<lambda>r s. \<forall>payloads. r = Inr payloads \<longrightarrow> b \<longrightarrow> (\<forall>mp \<in> set (zip ids payloads). found_ok L config Q url s mp)) s"
  unfolding hot_read_def
proof (rule traced_command)
  fix s1 w assume I: "pipeline L config b Q s1 w"
  let ?payloads = "map (\<lambda>m. hot_get (aw_now w) (aw_hot w url) (member_event_key m)) ids"
  have "found_ok L config Q url s1 mp" if b: "b" and mp: "mp \<in> set (zip ids ?payloads)" for mp
  proof -
    have snd: "snd mp = hot_get (aw_now w) (aw_hot w url) (member_event_key (fst mp))"
      using mp by (auto simp: in_set_zip)
    show ?thesis
      unfolding found_ok_def
    proof (intro allI impI)
      fix m p assume e: "(url, m, p) \<in> Q \<and> member_event_key m = member_event_key (fst mp)"
      then have "queued w url m p \<or> (destination L config p, p) \<in> lg_appended s1" using I b unfolding pipeline_def by auto
      then show "snd mp = Some p \<or> (destination L config p, p) \<in> lg_appended s1"
        using e snd by (auto simp: queued_def)
    qed
  qed
  moreover have "log_later s1 s1" by (simp add: log_later_def)
  ultimately show "\<exists>s2. log_later s1 s2 \<and> pipeline L config b Q s2 (snd (Inr ?payloads, w)) \<and>
      (\<forall>payloads. fst (Inr ?payloads :: api_error + string option list, w) = Inr payloads \<longrightarrow> b \<longrightarrow>
        (\<forall>mp \<in> set (zip ids payloads). found_ok L config Q url s2 mp))"
    using I by auto
qed (auto simp: log_later_def)

text \<open>An event that is due came from a member of the queue with its payload.\<close>

lemma due_event_found:
  "due_event L mp = Some (e, k) \<Longrightarrow> \<exists>event. ap_read_event L (pe_payload e) = Some event \<and> event_stream_kind_of event = k \<and>
     mp = (pe_event_id e, Some (pe_payload e)) \<and> pe_event_key e = member_event_key (pe_event_id e)"
  by (auto simp: due_event_def split: prod.splits option.splits)

lemma of_kind_found:
  "e \<in> set (of_kind k (List.map_filter (due_event L) found)) \<Longrightarrow>
   \<exists>event. ap_read_event L (pe_payload e) = Some event \<and> event_stream_kind_of event = k \<and>
     (pe_event_id e, Some (pe_payload e)) \<in> set found \<and> pe_event_key e = member_event_key (pe_event_id e)"
  unfolding of_kind_def List.map_filter_def by (force dest: due_event_found)

lemma publish_traced:
  assumes x: "x \<in> set (event_streams config)"
    and found: "b \<longrightarrow> (\<forall>mp \<in> set found. found_ok L config Q url s mp)"
    and events: "\<And>e. e \<in> set events \<Longrightarrow> destination L config (pe_payload e) = x \<and>
      (pe_event_id e, Some (pe_payload e)) \<in> set found \<and> pe_event_key e = member_event_key (pe_event_id e)"
  shows "traced (pipeline L config b Q) log_later (publish config x url events) (\<lambda>_ _. True) s"
proof (cases "events = []")
  case False
  have "removable L config Q url (map pe_event_id events) (map pe_event_key events) s1"
    if b: "b" and later: "log_later s s1" and appended: "\<forall>e \<in> set events. (x, pe_payload e) \<in> lg_appended s1" for s1
  proof (intro allI impI)
    fix m p assume m: "(url, m, p) \<in> Q \<and> (m \<in> set (map pe_event_id events) \<or> member_event_key m \<in> set (map pe_event_key events))"
    then obtain e where e: "e \<in> set events" "member_event_key m = member_event_key (pe_event_id e)"
      using events by fastforce
    have "found_ok L config Q url s1 (pe_event_id e, Some (pe_payload e))"
      using found b events[OF e(1)] found_later later by blast
    then have "p = pe_payload e \<or> (destination L config p, p) \<in> lg_appended s1" using m e(2) by (auto simp: found_ok_def)
    then show "(destination L config p, p) \<in> lg_appended s1" using appended events[OF e(1)] e(1) by auto
  qed
  then have "traced (pipeline L config b Q) log_later
      (act_then (append_all config x events) (\<lambda>_.
        act_then (remove_stale_events url (map pe_event_id events) (map pe_event_key events)) (\<lambda>_. act_ok (length events))))
      (\<lambda>_ _. True) s"
    by (intro flow.traced_then[OF append_all_traced[OF x]] flow.traced_then[OF remove_traced]) auto
  with False show ?thesis by (simp add: publish_def)
qed (simp add: publish_def)

theorem publisher_traced:
  assumes readable: "\<And>u m p. (u, m, p) \<in> Q \<Longrightarrow> ap_read_event L p \<noteq> None"
  shows "traced (pipeline L config b Q) log_later (publish_due_events L config url) (\<lambda>_ _. True) s"
proof -
  have publish: "traced (pipeline L config b Q) log_later
      (act_then (publish config (private_event_stream config) url (of_kind PrivateEvents (List.map_filter (due_event L) found))) (\<lambda>n.
       act_then (publish config (group_event_stream config) url (of_kind GroupEvents (List.map_filter (due_event L) found))) (\<lambda>m.
       act_ok (n + m)))) (\<lambda>_ _. True) s"
    if found: "b \<longrightarrow> (\<forall>mp \<in> set found. found_ok L config Q url s mp)" for found s
  proof (rule flow.traced_then[OF publish_traced[where x = "private_event_stream config", OF _ found]], goal_cases)
    case (2 e)
    then show ?case using of_kind_found[OF 2] by (auto simp: destination_def)
  next
    case (3 n s1)
    have found1: "b \<longrightarrow> (\<forall>mp \<in> set found. found_ok L config Q url s1 mp)" using found found_later 3(1) by blast
    show ?case
    proof (rule flow.traced_then[OF publish_traced[where x = "group_event_stream config", OF _ found1]], goal_cases)
      case (2 e)
      then show ?case using of_kind_found[OF 2] by (auto simp: destination_def)
    qed (auto simp: event_streams_def)
  qed (auto simp: event_streams_def)
  have stale: "removable L config Q url (map fst (filter (\<lambda>mp. due_event L mp = None) found))
      (map (\<lambda>mp. member_event_key (fst mp)) (filter (\<lambda>mp. snd mp \<noteq> None) (filter (\<lambda>mp. due_event L mp = None) found))) s"
    if found: "\<forall>mp \<in> set found. found_ok L config Q url s mp" for found s
  proof (intro allI impI)
    fix m p assume m: "(url, m, p) \<in> Q \<and> (m \<in> set (map fst (filter (\<lambda>mp. due_event L mp = None) found)) \<or>
      member_event_key m \<in> set (map (\<lambda>mp. member_event_key (fst mp)) (filter (\<lambda>mp. snd mp \<noteq> None) (filter (\<lambda>mp. due_event L mp = None) found))))"
    then obtain mp where mp: "mp \<in> set found" "due_event L mp = None" "member_event_key m = member_event_key (fst mp)" by auto
    obtain event where "ap_read_event L p = Some event" using readable m by blast
    then have "snd mp \<noteq> Some p" using mp(2) by (cases mp) (auto simp: due_event_def)
    with found mp(1,3) m show "(destination L config p, p) \<in> lg_appended s" by (auto simp: found_ok_def)
  qed
  have round: "traced (pipeline L config b Q) log_later
      (act_then (remove_stale_events url (map fst (filter (\<lambda>mp. due_event L mp = None) found))
          (map (\<lambda>mp. member_event_key (fst mp)) (filter (\<lambda>mp. snd mp \<noteq> None) (filter (\<lambda>mp. due_event L mp = None) found)))) (\<lambda>_.
       act_then (publish config (private_event_stream config) url (of_kind PrivateEvents (List.map_filter (due_event L) found))) (\<lambda>n.
       act_then (publish config (group_event_stream config) url (of_kind GroupEvents (List.map_filter (due_event L) found))) (\<lambda>m.
       act_ok (n + m))))) (\<lambda>_ _. True) s"
    if found: "b \<longrightarrow> (\<forall>mp \<in> set found. found_ok L config Q url s mp)" for found s
  proof (rule flow.traced_then[OF remove_traced], goal_cases)
    case 1
    show ?case by (intro impI) (rule stale, use found in blast)
  next
    case (2 _ s1)
    then show ?case by (intro publish) (use found found_later in blast)
  qed simp
  show ?thesis
    unfolding publish_due_events_def Let_def
  proof (rule flow.traced_then[OF keeps_traced[OF keeps_reads(1)]], goal_cases)
    case (1 now s1)
    show ?case
    proof (rule flow.traced_then[OF keeps_traced[OF keeps_reads(2)]], goal_cases)
      case (1 ids s2)
      show ?case
      proof (cases "ids = []")
        case False
        show ?thesis
          unfolding if_not_P[OF False]
          by (rule flow.traced_then[OF fetch_traced]) (rule round, auto)
      qed simp
    qed simp
  qed simp
qed

end
