(* ===== verification/Api_Pipeline_Properties.thy ===== *)
theory Api_Pipeline_Properties
  imports Api_Writer_Rules Api_Publisher_Rules Api_Samples
begin

text \<open>What the publishers and the writers guarantee together, and where the writing of messages fails.\<close>

section \<open>Publishers and writers side by side\<close>

text \<open>The tasks of the background, with their results dropped.\<close>

definition writer_task ::
  "api_lib \<Rightarrow> api_config \<Rightarrow> (string \<Rightarrow> string option) \<Rightarrow> event_stream_config \<Rightarrow> nat \<Rightarrow> nat \<Rightarrow> unit api" where
  "writer_task L config env stream rounds fuel =
     act_then (connect_and_consume L config env stream rounds fuel) (\<lambda>_. act_ok ())"

definition publisher_task :: "api_lib \<Rightarrow> api_config \<Rightarrow> string \<Rightarrow> unit api" where
  "publisher_task L config url = act_then (publish_due_events L config url) (\<lambda>_. act_ok ())"

definition background_task :: "api_lib \<Rightarrow> api_config \<Rightarrow> unit api \<Rightarrow> bool" where
  "background_task L config t \<longleftrightarrow>
     (\<exists>env rounds fuel. \<exists>x \<in> set (event_streams config). t = writer_task L config env x rounds fuel) \<or>
     (\<exists>url. t = publisher_task L config url)"

definition empty_log :: pipeline_log where
  "empty_log = \<lparr>lg_known = {}, lg_done = {}, lg_appended = {}\<rparr>"

lemma background_traced:
  assumes "background_task L config t" "ap_read_event L [] = None" "\<And>u m p. (u, m, p) \<in> Q \<Longrightarrow> ap_read_event L p \<noteq> None"
  shows "traced (pipeline L config b Q) log_later t (\<lambda>_ _. True) s"
  using assms unfolding background_task_def writer_task_def publisher_task_def
  by (auto intro!: flow.traced_then[OF writer_traced] flow.traced_then[OF publisher_traced])

lemma pipeline_runs:
  assumes run: "sys_runs (others_keep config b Q) (ts, w) (ts', w')" and tasks: "\<forall>t \<in> set ts. background_task L config t"
    and I: "pipeline L config b Q empty_log w" and empty: "ap_read_event L [] = None"
    and readable: "\<And>u m p. (u, m, p) \<in> Q \<Longrightarrow> ap_read_event L p \<noteq> None"
  obtains s where "pipeline L config b Q s w'"
proof -
  have "list_all2 (\<lambda>t Q'. lasting log_later Q' \<and> traced (pipeline L config b Q) log_later t Q' empty_log)
      ts (replicate (length ts) (\<lambda>_ _. True))"
    using tasks background_traced[OF _ empty readable] by (auto simp: list_all2_conv_all_nth lasting_def)
  from flow.runs_traced[OF run I this] that show ?thesis by blast
qed

definition streams_start_ok :: "api_lib \<Rightarrow> api_config \<Rightarrow> api_world \<Rightarrow> bool" where
  "streams_start_ok L config w \<longleftrightarrow> (\<forall>x \<in> set (event_streams config).
     stream_ok (stream_of w x) (writer_group config x) \<and>
     acked_recorded L (row_keys w) (stream_of w x) (writer_group config x))"

text \<open>
  C17: Publishers and writers of any number run side by side, commands fail or lose their replies, others append to
  the streams, shorten them and add rows: whenever a writer's group has acknowledged an entry that is still
  in its stream, the message the entry creates is in the database, under its identifier or under the
  client identifier of its sender.
\<close>

theorem acknowledged_is_stored:
  assumes run: "sys_runs (others_keep config False {}) (ts, w) (ts', w')"
    and tasks: "\<forall>t \<in> set ts. background_task L config t" and start: "streams_start_ok L config w"
    and empty: "ap_read_event L [] = None"
    and x: "x \<in> set (event_streams config)" and entry: "(n, p) \<in> set (es_entries (stream_of w' x))"
    and acked: "acked (stream_of w' x) (writer_group config x) n" and created: "created L p = Some m"
  shows "recorded L (row_keys w') m"
proof -
  have "pipeline L config False {} empty_log w" using start by (auto simp: pipeline_def streams_start_ok_def empty_log_def)
  then obtain s where "pipeline L config False {} s w'" by (rule pipeline_runs[OF run tasks _ empty]) auto
  then have "acked_recorded L (row_keys w') (stream_of w' x) (writer_group config x)" using x by (auto simp: pipeline_def)
  with entry acked created show ?thesis by (auto simp: acked_recorded_def)
qed


section \<open>A run\<close>

definition sample_message :: message_dto where
  "sample_message = \<lparr>md_id = ''7'', md_message_id = ''7'', md_client_message_id = Some ''c'', md_sender_id = ''1'',
     md_sender_name = Some ''alice'', md_sender_avatar = None, md_receiver_id = Some ''2'', md_receiver_name = None,
     md_group_id = None, md_conversation_seq = None, md_group_name = None, md_group_avatar = None,
     md_is_group_chat = False, md_is_group = False, md_message_type = ''TEXT'', md_content = Some ''hi'',
     md_media_url = None, md_media_size = None, md_media_name = None, md_thumbnail_url = None, md_duration = None,
     md_location_info = None, md_status = ''SENT'', md_reply_to_message_id = None, md_created_time = ''1000'',
     md_created_at = ''1000'', md_updated_time = None, md_updated_at = None, md_is_ai_generated = None,
     md_ai_provider = None, md_ai_model = None, md_encrypted = None, md_e2ee_header = None, md_e2ee_device_id = None,
     md_e2ee_sender_identity_key = None, md_e2ee_ephemeral_key = None, md_e2ee_envelope = None\<rparr>"

definition sample_event :: im_event where
  "sample_event = (im_event_new ''e'' 1000 MessageCreated ''p_1_2'')\<lparr>ev_payload := Some sample_message\<rparr>"

definition pipeline_api :: api_lib where
  "pipeline_api = sample_api\<lparr>ap_read_event := (\<lambda>t. if t = ''E'' then Some sample_event else None)\<rparr>"






lemma pipeline_api_reads: "ap_read_event pipeline_api [] = None" "ap_read_event pipeline_api ''E'' = Some sample_event"
  by (simp_all add: pipeline_api_def)

text \<open>A publisher and then a writer, on a queue with one event.\<close>

abbreviation sample_publisher :: "unit api" where
  "sample_publisher \<equiv> publisher_task pipeline_api sample_api_config ''redis''"

abbreviation sample_writer :: "unit api" where
  "sample_writer \<equiv> writer_task pipeline_api sample_api_config (\<lambda>_. None) (private_event_stream sample_api_config) 1 1"

lemma sample_tasks: "\<forall>t \<in> set [sample_publisher, sample_writer]. background_task pipeline_api sample_api_config t"
  by (auto simp: background_task_def event_streams_def)




definition sample_row :: message_row where
  "sample_row = \<lparr>mr_id = 7, mr_sender_id = 1, mr_receiver_id = Some 2, mr_group_id = None, mr_conversation_seq = None,
     mr_client_message_id = Some ''c'', mr_message_type = 1, mr_content = Some ''hi'', mr_media_url = None,
     mr_media_size = None, mr_media_name = None, mr_thumbnail_url = None, mr_duration = None, mr_location_info = None,
     mr_encrypted = False, mr_e2ee_header = None, mr_e2ee_device_id = None, mr_e2ee_sender_identity_key = None,
     mr_e2ee_ephemeral_key = None, mr_e2ee_envelope_json = None, mr_status = 1, mr_is_group_chat = False,
     mr_reply_to_message_id = None, mr_created_time = 1, mr_updated_time = 1\<rparr>"

definition stored_world :: api_world where
  "stored_world = (empty_world 2000)\<lparr>aw_messages := [sample_row],
     aw_streams := (\<lambda>_ _. empty_stream\<lparr>es_entries := [(1, ''E'')], es_next := 2,
       es_groups := (\<lambda>_. Some \<lparr>cg_last = 1, cg_pending = []\<rparr>)\<rparr>)\<rparr>"

lemma number_text: "parse_i64_trimmed (show_int i) = Some i" if "- (2 ^ 63) \<le> i" "i < 2 ^ 63"
  using that by (simp add: parse_i64_trimmed_def parse_i64_show plain_trimmed)

lemma sample_numbers: "parse_i64_trimmed ''7'' = Some 7" "parse_i64_trimmed ''1'' = Some 1" "parse_i64_trimmed ''2'' = Some 2"
proof -
  have "show_int 7 = ''7''" "show_int 1 = ''1''" "show_int 2 = ''2''" by code_simp+
  with number_text[of 7] number_text[of 1] number_text[of 2] show "parse_i64_trimmed ''7'' = Some 7"
    "parse_i64_trimmed ''1'' = Some 1" "parse_i64_trimmed ''2'' = Some 2" by simp_all
qed

lemma stored_world_ok: "streams_start_ok pipeline_api config stored_world"
  by (auto simp: streams_start_ok_def stream_of_def stream_ok_def acked_recorded_def stored_world_def empty_stream_def
      created_def pipeline_api_reads sample_event_def im_event_new_def recorded_def row_keys_def row_key_of_def
      sample_row_def sample_message_def sample_numbers split: if_splits)

lemma acknowledged_is_stored_witness: "recorded pipeline_api (row_keys stored_world) sample_message"
proof (rule acknowledged_is_stored[where config = sample_api_config and x = "private_event_stream sample_api_config"
      and n = 1 and p = "''E''" and ts = "[sample_writer]" and w = stored_world and w' = stored_world and ts' = "[sample_writer]"])
  show "sys_runs (others_keep sample_api_config False {}) ([sample_writer], stored_world) ([sample_writer], stored_world)"
    by (simp add: sys_runs_def)
  show "streams_start_ok pipeline_api sample_api_config stored_world" by (rule stored_world_ok)
qed (use sample_tasks in \<open>auto simp: pipeline_api_reads event_streams_def stream_of_def stored_world_def acked_def
    created_def sample_event_def im_event_new_def\<close>)

section \<open>Redelivered and reordered messages\<close>

lemma merge_idem: "merge_message r (merge_message r q) = merge_message r q" "merge_message r r = r"
  by (auto simp: merge_message_def split: option.splits)

lemma merge_id [simp]: "mr_id (merge_message r q) = mr_id q"
  by (simp add: merge_message_def)

lemma insert_by_id:
  assumes "\<forall>q \<in> set rows. same_client_key L r q \<longrightarrow> mr_id q = mr_id r"
  shows "row_of mr_id k (insert_message L r rows) =
    (if k = mr_id r then Some (case row_of mr_id k rows of None \<Rightarrow> r | Some q \<Rightarrow> merge_message r q) else row_of mr_id k rows)"
proof (cases "\<exists>q \<in> set rows. mr_id q = mr_id r")
  case True
  have m: "row_of mr_id k (update_where (\<lambda>q. mr_id q = mr_id r) (merge_message r) rows) =
      map_option (\<lambda>q. if mr_id q = mr_id r then merge_message r q else q) (row_of mr_id k rows)"
    by (rule row_of_update) simp
  have i: "insert_message L r rows = update_where (\<lambda>q. mr_id q = mr_id r) (merge_message r) rows"
    using True by (simp add: insert_message_def)
  show ?thesis
  proof (cases "row_of mr_id k rows")
    case None
    then have "k \<noteq> mr_id r" using True by (auto simp: row_of_None)
    then show ?thesis by (simp add: i m None)
  next
    case (Some q)
    then have "mr_id q = k" by (auto dest: row_of_Some)
    with Some show ?thesis by (auto simp: i m)
  qed
next
  case False
  with assms have "\<not> (\<exists>q \<in> set rows. same_client_key L r q)" by blast
  with False have "insert_message L r rows = rows @ [r]" by (auto simp: insert_message_def)
  moreover have "row_of mr_id (mr_id r) rows = None" using False by (auto simp: row_of_None)
  ultimately show ?thesis by (auto simp: row_of_append split: option.split)
qed

text \<open>No client identifier is used for two messages.\<close>

definition no_reuse :: "api_lib \<Rightarrow> message_row set \<Rightarrow> bool" where
  "no_reuse L R \<longleftrightarrow> (\<forall>r \<in> R. \<forall>q \<in> R. same_client_key L r q \<longrightarrow> mr_id q = mr_id r)"

lemma no_reuse_keys: "no_reuse L R \<Longrightarrow> row_key_of ` R' \<subseteq> row_key_of ` R \<Longrightarrow> no_reuse L R'"
proof -
  assume reuse: "no_reuse L R" and keys: "row_key_of ` R' \<subseteq> row_key_of ` R"
  have "mr_id q = mr_id r" if h: "r \<in> R'" "q \<in> R'" "same_client_key L r q" for r q
  proof -
    obtain r' q' where rq: "r' \<in> R" "q' \<in> R" "row_key_of r' = row_key_of r" "row_key_of q' = row_key_of q"
      using keys h(1,2) by (metis (no_types, lifting) image_iff image_subset_iff)
    then have "same_client_key L r' q'" using h(3) by (auto simp: same_client_key_def row_key_of_def)
    with reuse rq show ?thesis by (auto simp: no_reuse_def row_key_of_def)
  qed
  then show ?thesis by (auto simp: no_reuse_def)
qed

lemma inserted_keys: "row_key_of ` set (insert_message L r rows) \<subseteq> insert (row_key_of r) (row_key_of ` set rows)"
  unfolding insert_message_def by (rule upsert_keys(2)) simp

text \<open>After an insertion of records the row of an identifier is decided by its one record.\<close>

lemma inserted_rows:
  "no_reuse L (set rows \<union> set rs) \<Longrightarrow> (\<forall>a \<in> set rs. \<forall>b \<in> set rs. mr_id a = mr_id b \<longrightarrow> a = b) \<Longrightarrow>
   (\<forall>r \<in> set rs. row_of mr_id (mr_id r) (fold (insert_message L) rs rows) =
      Some (case row_of mr_id (mr_id r) rows of None \<Rightarrow> r | Some q \<Rightarrow> merge_message r q)) \<and>
   (\<forall>k. k \<notin> mr_id ` set rs \<longrightarrow> row_of mr_id k (fold (insert_message L) rs rows) = row_of mr_id k rows)"
proof (induction rs arbitrary: rows)
  case (Cons r rs)
  let ?rows = "insert_message L r rows"
  have "no_reuse L (set ?rows \<union> set rs)"
    by (rule no_reuse_keys[OF Cons.prems(1)]) (use inserted_keys[of L r rows] in auto)
  then have IH: "\<forall>a \<in> set rs. row_of mr_id (mr_id a) (fold (insert_message L) rs ?rows) =
        Some (case row_of mr_id (mr_id a) ?rows of None \<Rightarrow> a | Some q \<Rightarrow> merge_message a q)"
    "\<forall>k. k \<notin> mr_id ` set rs \<longrightarrow> row_of mr_id k (fold (insert_message L) rs ?rows) = row_of mr_id k ?rows"
    using Cons by simp_all
  have r: "row_of mr_id k ?rows =
      (if k = mr_id r then Some (case row_of mr_id k rows of None \<Rightarrow> r | Some q \<Rightarrow> merge_message r q) else row_of mr_id k rows)" for k
    by (rule insert_by_id) (use Cons.prems(1) in \<open>auto simp: no_reuse_def\<close>)
  have "row_of mr_id (mr_id a) (fold (insert_message L) rs ?rows) =
      Some (case row_of mr_id (mr_id a) rows of None \<Rightarrow> a | Some q \<Rightarrow> merge_message a q)" if a: "a \<in> set (r # rs)" for a
  proof (cases "a \<in> set rs")
    case True
    show ?thesis
    proof (cases "mr_id a = mr_id r")
      case same: True
      then have "a = r" using Cons.prems(2) a by auto
      with True IH(1) r show ?thesis by (auto simp: merge_idem split: option.split)
    next
      case False
      with True IH(1) r show ?thesis by auto
    qed
  next
    case False
    then have "a = r" "mr_id r \<notin> mr_id ` set rs" using a Cons.prems(2) by auto
    then show ?thesis using IH(2) r by auto
  qed
  then show ?case using IH(2) r by auto
qed simp

lemma insert_chunk_fold:
  "insert_chunk L recs rows = Some rows' \<Longrightarrow>
   \<exists>rs. map (stored_message L) recs = map Some rs \<and> rows' = fold (insert_message L) rs rows"
proof (induction recs arbitrary: rows)
  case (Cons m recs)
  then obtain r where r: "stored_message L m = Some r" "insert_chunk L recs (insert_message L r rows) = Some rows'"
    by (auto simp: insert_chunk_simps bind_eq_Some_conv)
  from Cons.IH[OF r(2)] obtain rs where "map (stored_message L) recs = map Some rs"
    "rows' = fold (insert_message L) rs (insert_message L r rows)" by blast
  with r(1) show ?case by (intro exI[of _ "r # rs"]) simp
qed (simp add: insert_chunk_simps)

definition stored_rows :: "api_lib \<Rightarrow> int \<Rightarrow> message_dto list \<Rightarrow> message_row set" where
  "stored_rows L now messages = {r. \<exists>m \<in> set messages. \<exists>row. db_message_of L now m = Some row \<and> stored_message L row = Some r}"

lemma stored_rows_set:
  assumes "map (stored_message L) (List.map_filter (db_message_of L now) messages) = map Some rs"
  shows "set rs = stored_rows L now messages"
proof -
  have "Some ` set rs = stored_message L ` set (List.map_filter (db_message_of L now) messages)"
    using assms by (metis list.set_map)
  then have "r \<in> set rs \<longleftrightarrow> (\<exists>row \<in> set (List.map_filter (db_message_of L now) messages). stored_message L row = Some r)" for r
    by (metis (no_types, lifting) image_iff option.inject)
  moreover have "row \<in> set (List.map_filter (db_message_of L now) messages) \<longleftrightarrow> (\<exists>m \<in> set messages. db_message_of L now m = Some row)" for row
    by (force simp: List.map_filter_def)
  ultimately show ?thesis unfolding stored_rows_def by blast
qed

text \<open>
  C18: Batches that hold the same messages leave the same rows, however often and in whichever order the
  stream delivered them, when no client identifier was used for two messages and an identifier stands for
  one message.
\<close>

theorem redelivery_converges:
  assumes a: "insert_messages L now ms rows = Some a" and b: "insert_messages L now ms' rows = Some b"
    and same: "set ms = set ms'" and reuse: "no_reuse L (set rows \<union> stored_rows L now ms)"
    and one: "\<forall>q \<in> stored_rows L now ms. \<forall>r \<in> stored_rows L now ms. mr_id q = mr_id r \<longrightarrow> q = r"
  shows "row_of mr_id k a = row_of mr_id k b"
proof -
  from insert_chunk_fold[OF a[unfolded insert_messages_records]] obtain rs
    where rs: "set rs = stored_rows L now ms" "a = fold (insert_message L) rs rows" using stored_rows_set by blast
  from insert_chunk_fold[OF b[unfolded insert_messages_records]] obtain rs'
    where rs': "set rs' = stored_rows L now ms'" "b = fold (insert_message L) rs' rows" using stored_rows_set by blast
  have set': "set rs' = set rs" using rs(1) rs'(1) same by (simp add: stored_rows_def)
  note A = inserted_rows[of L rows rs] and B = inserted_rows[of L rows rs']
  show ?thesis
  proof (cases "k \<in> mr_id ` set rs")
    case True
    then obtain r where "r \<in> set rs" "k = mr_id r" by blast
    with A B reuse one rs rs' set' show ?thesis by simp
  next
    case False
    with A B reuse one rs rs' set' show ?thesis by simp
  qed
qed


lemma sample_record:
  "db_message_of pipeline_api now sample_message = Some (sample_row\<lparr>mr_created_time := 1000, mr_updated_time := 1000\<rparr>)"
  "stored_message pipeline_api (sample_row\<lparr>mr_created_time := 1000, mr_updated_time := 1000\<rparr>) = Some sample_row"
proof -
  have number: "parse_i64 ''1000'' = Some 1000"
  proof -
    have "show_int 1000 = ''1000''" by code_simp
    then show ?thesis using parse_i64_show[of 1000] by simp
  qed
  show "db_message_of pipeline_api now sample_message = Some (sample_row\<lparr>mr_created_time := 1000, mr_updated_time := 1000\<rparr>)"
    by (simp add: db_message_of_def sample_message_def parse_datetime_def pipeline_api_def sample_api_def number sample_numbers
        sample_row_def message_type_from_text_def message_status_from_text_def to_ascii_uppercase_def ascii_upper_def
        is_ascii_lower_def trim_trimmed trimmed_def white_spaces_def)
  show "stored_message pipeline_api (sample_row\<lparr>mr_created_time := 1000, mr_updated_time := 1000\<rparr>) = Some sample_row"
    by (simp add: stored_message_def sample_row_def column_def pipeline_api_def sample_api_def List.map_filter_def sql_datetime_def)
qed

lemma sample_inserted: "insert_messages pipeline_api now [sample_message] [] = Some [sample_row]"
  "insert_messages pipeline_api now [sample_message, sample_message] [] = Some [sample_row]"
  by (simp_all add: insert_messages_records List.map_filter_def sample_record insert_chunk_simps insert_message_def
      update_where_def merge_idem)

theorem redelivery_converges_witness:
  "\<exists>a b. insert_messages pipeline_api 0 [sample_message, sample_message] [] = Some a \<and>
     insert_messages pipeline_api 0 [sample_message] [] = Some b \<and> row_of mr_id 7 a = row_of mr_id 7 b \<and>
     row_of mr_id 7 b = Some sample_row"
proof -
  obtain a b where ab: "insert_messages pipeline_api 0 [sample_message, sample_message] [] = Some a"
    "insert_messages pipeline_api 0 [sample_message] [] = Some b" using sample_inserted by blast
  have "row_of mr_id 7 a = row_of mr_id 7 b"
    by (rule redelivery_converges[OF ab]) (auto simp: no_reuse_def stored_rows_def sample_record)
  moreover have "b = [sample_row]" using ab(2) sample_inserted(1)[of 0] by simp
  then have "row_of mr_id 7 b = Some sample_row" by (simp add: sample_row_def)
  ultimately show ?thesis using ab by blast
qed

section \<open>Where the writing fails\<close>

text \<open>
  A message whose sender used its client identifier before, in whichever conversation, is not stored: the
  insertion succeeds, so that its event is acknowledged, and updates the older message instead. The check
  on sending compares client identifiers within a conversation only.
\<close>

theorem reused_client_id_lost:
  assumes m: "db_message_of L now m = Some written" "stored_message L written = Some r"
    and new: "\<forall>q \<in> set rows. mr_id q \<noteq> mr_id r" and reused: "\<exists>q \<in> set rows. same_client_key L r q"
  shows "\<exists>rows'. insert_messages L now [m] rows = Some rows' \<and> map mr_id rows' = map mr_id rows \<and>
    map mr_content rows' = map mr_content rows \<and> mr_id r \<notin> set (map mr_id rows')"
proof -
  let ?rows = "update_where (same_client_key L r) (merge_message r) rows"
  have "insert_messages L now [m] rows = Some (insert_message L r rows)"
    by (simp add: insert_messages_records List.map_filter_def m insert_chunk_simps)
  moreover have "insert_message L r rows = ?rows" using new reused by (auto simp: insert_message_def)
  moreover have ids: "map mr_id ?rows = map mr_id rows" by simp
  moreover have "map mr_content ?rows = map mr_content rows" by (auto simp: update_where_def merge_message_def)
  moreover have "mr_id r \<notin> set (map mr_id ?rows)" unfolding ids using new by auto
  ultimately show ?thesis by metis
qed

lemma reused_client_id_lost_witness:
  "\<exists>rows'. insert_messages pipeline_api 0 [sample_message] [sample_row\<lparr>mr_id := 5, mr_receiver_id := Some 3\<rparr>] = Some rows' \<and>
    map mr_id rows' = map mr_id [sample_row\<lparr>mr_id := 5, mr_receiver_id := Some 3\<rparr>] \<and>
    map mr_content rows' = map mr_content [sample_row\<lparr>mr_id := 5, mr_receiver_id := Some 3\<rparr>] \<and>
    mr_id sample_row \<notin> set (map mr_id rows')"
  by (rule reused_client_id_lost[OF sample_record]) (simp_all add: sample_row_def same_client_key_def)

text \<open>A batch with a message that the database refuses.\<close>

definition refused :: "api_lib \<Rightarrow> message_dto \<Rightarrow> bool" where
  "refused L m \<longleftrightarrow> (\<exists>c. md_client_message_id m = Some c \<and> ap_varchar L 64 c = None) \<and>
     (\<exists>i. parse_i64_trimmed (md_id m) = Some i \<and> 0 < i)"

lemma refused_batch:
  assumes "refused L m" "m \<in> set ms"
  shows "insert_messages L now ms rows = None"
proof -
  from assms(1) obtain row where row: "db_message_of L now m = Some row" and "mr_client_message_id row = md_client_message_id m"
    by (auto simp: refused_def db_message_of_def Let_def)
  then have no: "stored_message L row = None" using assms(1) by (auto simp: refused_def stored_message_def column_def)
  have "row \<in> set (List.map_filter (db_message_of L now) ms)" using row assms(2) by (force simp: List.map_filter_def)
  then obtain pre post where "List.map_filter (db_message_of L now) ms = pre @ row # post" by (meson split_list)
  then show ?thesis unfolding insert_messages_records
    by (cases "insert_chunk L pre rows") (simp_all add: insert_chunk_append insert_chunk_simps no)
qed

text \<open>
  The state of a writer whose stream has such a message pending for its consumer: the stream does not change,
  and what the writer holds is nothing but that message.
\<close>

definition stuck_stream :: "api_lib \<Rightarrow> string \<Rightarrow> string \<Rightarrow> event_stream \<Rightarrow> nat \<Rightarrow> message_dto \<Rightarrow> bool" where
  "stuck_stream L g consumer st n m \<longleftrightarrow> refused L m \<and>
     (\<exists>cg p. es_groups st g = Some cg \<and> map fst (filter (\<lambda>(_, c). c = consumer) (cg_pending cg)) = [n] \<and>
        map_of (es_entries st) n = Some p \<and> p \<noteq> [] \<and> created L p = Some m)"

abbreviation unmoved :: "event_stream_config \<Rightarrow> event_stream \<Rightarrow> 'a api \<Rightarrow> (api_error + 'a \<Rightarrow> bool) \<Rightarrow> bool" where
  "unmoved x st m Q \<equiv> ensures (\<lambda>w. stream_of w x = st)
     (\<lambda>w w'. aw_streams w' = aw_streams w \<and> aw_messages w' = aw_messages w) m Q"

definition only_refused :: "message_dto \<Rightarrow> processor \<Rightarrow> bool" where
  "only_refused m p \<longleftrightarrow> fst ` set (pp_message_batch p) \<subseteq> {m} \<and> pp_flushed_ack_ids p = [] \<and>
     pp_private_read_batch p = [] \<and> pp_group_read_batch p = []"

lemma unmoved_command:
  "(\<And>w. stream_of w x = st \<Longrightarrow> aw_streams (snd (f w)) = aw_streams w \<and> aw_messages (snd (f w)) = aw_messages w \<and> Q (fst (f w))) \<Longrightarrow>
   Q (Inl e) \<Longrightarrow> unmoved x st (command e f) Q"
  by (rule ensures_command) (auto simp: outcome_used_def stream_of_def)

lemma refused_flush:
  assumes "refused L m" "only_refused m p"
  shows "unmoved x st (flush_messages L hot p) (\<lambda>r. \<forall>f p'. r = Inr (f, p') \<longrightarrow> p' = p \<and> pp_message_batch p = [])"
proof (cases "pp_message_batch p = []")
  case False
  then obtain m' where "m' \<in> fst ` set (pp_message_batch p)" by (cases "pp_message_batch p") auto
  then have "m \<in> fst ` set (pp_message_batch p)" using assms(2) by (auto simp: only_refused_def)
  then have no: "insert_messages L now (map fst (pp_message_batch p)) rows = None" for now rows
    by (intro refused_batch[OF assms(1)]) simp
  have "unmoved x st (store_messages L (map fst (pp_message_batch p)) es) (\<lambda>r. r \<noteq> Inr ())" for es
    unfolding store_messages_def sql_execute_def by (rule unmoved_command) (auto simp: no)
  from ensures_then[OF this, where R = "\<lambda>r. \<forall>f p'. r = Inr (f, p') \<longrightarrow> p' = p \<and> pp_message_batch p = []"]
  show ?thesis using False unfolding flush_messages_def Let_def by simp
qed (simp add: flush_messages_def)

lemma refused_flush_pending:
  assumes "refused L m" "only_refused m p"
  shows "unmoved x st (flush_pending L hot p) (\<lambda>r. \<forall>p'. r = Inr p' \<longrightarrow> only_refused m p')"
proof -
  have "flush_read_cursors p = act_ok (False, p)" using assms(2) by (simp add: flush_read_cursors_def only_refused_def)
  then show ?thesis
    unfolding flush_pending_def
    by (intro ensures_then[OF refused_flush[OF assms]])
      (auto simp: flushed_now_def now_ms_def act_get_def only_refused_def assms(2)[unfolded only_refused_def])
qed


lemma unmoved_now: "unmoved x st now_ms (\<lambda>_. True)"
  by (simp add: now_ms_def act_get_def)

lemma refused_process:
  assumes "refused L m" "only_refused m p" and q: "created L q = Some m" "ap_read_event L q = Some event"
  shows "unmoved x st (process L config hot event n p) (\<lambda>r. \<forall>f p'. r = Inr (f, p') \<longrightarrow> f \<and> only_refused m p')"
proof -
  have e: "ev_event_type event = MessageCreated" "ev_payload event = Some m"
    using q by (auto simp: created_def split: if_splits)
  define p' where "p' = p\<lparr>pp_message_batch := pp_message_batch p @ [(m, unwrap_or (ev_device_envelopes event) [])],
      pp_message_ack_ids := pp_message_ack_ids p @ [n]\<rparr>"
  have ok: "only_refused m p'" and full: "pp_message_batch p' \<noteq> []" using assms(2) by (auto simp: only_refused_def p'_def)
  have "process L config hot event n p =
      (if ac_writer_batch_size config \<le> length (pp_message_batch p') then
         act_then (flush_messages L hot p') (\<lambda>(f, p). act_then (flushed_now f p) (\<lambda>p. act_ok (True, p)))
       else act_ok (True, p'))"
    by (simp add: process_def e p'_def)
  moreover have "unmoved x st (act_then (flush_messages L hot p') (\<lambda>(f, p). act_then (flushed_now f p) (\<lambda>p. act_ok (True, p))))
      (\<lambda>r. \<forall>f p'. r = Inr (f, p') \<longrightarrow> f \<and> only_refused m p')"
    by (rule ensures_then[OF refused_flush[OF assms(1) ok]]) (use full in auto)
  ultimately show ?thesis using ok by simp
qed

lemma refused_round:
  assumes stuck: "stuck_stream L (writer_group config x) consumer st n m" and ok: "only_refused m p"
  shows "unmoved x st (consume_round L config x consumer fuel p)
    (\<lambda>r. \<forall>p'. r = Inr (Some p') \<longrightarrow> only_refused m p')"
proof -
  let ?g = "writer_group config x" and ?hot = "hot_redis_urls_for config (es_kind x)"
  obtain cg q where cg: "es_groups st ?g = Some cg" "map fst (filter (\<lambda>(_, c). c = consumer) (cg_pending cg)) = [n]"
    and q: "map_of (es_entries st) n = Some q" "q \<noteq> []" "created L q = Some m" and m: "refused L m"
    using stuck by (auto simp: stuck_stream_def)
  obtain event where event: "ap_read_event L q = Some event" using q(3) by (auto simp: created_def split: option.splits)
  let ?e = "\<lparr>sv_stream_id = n, sv_payload = q\<rparr>"
  have pending: "pending_events ?g consumer count st = Inr [?e]" for count
    by (simp add: pending_events_def cg stream_event_of_def q(1) max_def)
  have read: "unmoved x st (read_group_events fuel (es_redis_url x) (es_stream_key x) ?g consumer count)
      (\<lambda>r. \<forall>es. r = Inr (Some es) \<longrightarrow> es = [?e])" for count
  proof (cases fuel)
    case (Suc k)
    have "unmoved x st (stream_command (es_redis_url x) (es_stream_key x) (\<lambda>st. (pending_events ?g consumer count st, st)))
        (\<lambda>r. \<forall>es. r = Inr es \<longrightarrow> es = [?e])"
      unfolding stream_command_def by (rule unmoved_command) (auto simp: stream_of_def pending)
    then show ?thesis unfolding Suc read_group_events.simps
      by (rule ensures_then) (simp_all add: split_stale_events_def q(2))
  qed simp
  have process: "unmoved x st (process_events L config ?hot [?e] [] p)
      (\<lambda>r. \<forall>ns p'. r = Inr (ns, p') \<longrightarrow> ns = [] \<and> only_refused m p')"
    using ensures_then[OF refused_process[OF m ok q(3) event]] event by (auto intro!: ensures_then[OF refused_process[OF m ok q(3) event]])
  have due: "unmoved x st (flush_if_due L config ?hot p) (\<lambda>r. \<forall>p'. r = Inr p' \<longrightarrow> only_refused m p')" if "only_refused m p" for p
    unfolding flush_if_due_def using that
    by (auto intro!: ensures_then[OF unmoved_now] refused_flush_pending[OF m])
  show ?thesis
    unfolding consume_round_def Let_def writer_group_def[symmetric]
  proof (rule ensures_then[OF read], goal_cases)
    case (1 r)
    show ?case
    proof (cases r)
      case (Some es)
      with 1 have es: "es = [?e]" by simp
      show ?thesis
        unfolding Some option.case es
      proof (rule ensures_then[OF process], goal_cases)
        case (1 y)
        then obtain p1 where y: "y = ([], p1)" "only_refused m p1" by (cases y) auto
        then show ?case by (auto intro!: ensures_then[OF due] simp: ack_def only_refused_def)
      qed simp
    qed simp
  qed simp
qed

text \<open>
  A client identifier that is longer than its column stops a writer for good: no length is checked on the
  way, the database refuses the batch, and while the entry is what the consumer has pending, no round
  of the writer changes the stream or stores a message. The entry is neither acknowledged nor passed over.
\<close>

theorem refused_message_blocks_writer:
  assumes "stuck_stream L (writer_group config x) consumer st n m"
  shows "ensures (\<lambda>w. stream_of w x = st) (\<lambda>w w'. aw_streams w' = aw_streams w \<and> aw_messages w' = aw_messages w)
    (consume_rounds rounds L config x consumer fuel (new_processor now)) (\<lambda>_. True)"
proof -
  have "unmoved x st (consume_rounds rounds L config x consumer fuel p) (\<lambda>_. True)" if "only_refused m p" for p
    using that
  proof (induction rounds arbitrary: p)
    case (Suc rounds)
    show ?case
      unfolding consume_rounds.simps
      by (rule ensures_then[OF refused_round[OF assms Suc.prems]]) (auto split: option.split intro: Suc.IH)
  qed simp
  then show ?thesis by (simp add: only_refused_def new_processor_def)
qed


definition long_message :: message_dto where
  "long_message = sample_message\<lparr>md_client_message_id := Some (replicate 65 (CHR ''c''))\<rparr>"

definition long_api :: api_lib where
  "long_api = sample_api\<lparr>ap_read_event := (\<lambda>t. if t = ''E'' then Some (sample_event\<lparr>ev_payload := Some long_message\<rparr>) else None)\<rparr>"

definition long_stream :: event_stream where
  "long_stream = \<lparr>es_entries = [(1, ''E''), (2, ''next'')], es_next = 3,
     es_groups = (\<lambda>_. Some \<lparr>cg_last = 1, cg_pending = [(1, ''writer'')]\<rparr>)\<rparr>"

lemma refused_message_blocks_writer_witness:
  "ensures (\<lambda>w. stream_of w (private_event_stream sample_api_config) = long_stream)
    (\<lambda>w w'. aw_streams w' = aw_streams w \<and> aw_messages w' = aw_messages w)
    (consume_rounds 1000 long_api sample_api_config (private_event_stream sample_api_config) ''writer'' 1000 (new_processor 0)) (\<lambda>_. True)"
  by (rule refused_message_blocks_writer[where n = 1 and m = long_message])
    (auto simp: stuck_stream_def refused_def long_stream_def long_message_def long_api_def sample_api_def created_def
      sample_event_def im_event_new_def sample_message_def sample_numbers)

section \<open>Read cursors\<close>

text \<open>When a user has read a conversation, as the table tells it.\<close>

definition private_read_at :: "private_cursor_row list \<Rightarrow> int \<times> int \<Rightarrow> int option" where
  "private_read_at rows k = map_option pr_last_read_at (row_of (\<lambda>r. (pr_user_id r, pr_peer_user_id r)) k rows)"

definition fresh_cursors :: "private_read_cursor list \<Rightarrow> private_cursor_row list \<Rightarrow> bool" where
  "fresh_cursors cs rows \<longleftrightarrow> distinct (map pu_cursor_id cs) \<and> pu_cursor_id ` set cs \<inter> pr_id ` set rows = {}"

definition later_read :: "int option \<Rightarrow> int \<Rightarrow> int option" where
  "later_read old t = Some (case old of None \<Rightarrow> sql_datetime t | Some s \<Rightarrow> max s (sql_datetime t))"

abbreviation cursor_key :: "private_read_cursor \<Rightarrow> int \<times> int" where
  "cursor_key c \<equiv> (pu_user_id c, pu_peer_user_id c)"

lemma upsert_cursor_read:
  assumes "pu_cursor_id c \<notin> pr_id ` set rows"
  shows "private_read_at (upsert_private_cursor c rows) k =
      (if k = cursor_key c then later_read (private_read_at rows k) (pu_read_at c) else private_read_at rows k)"
    and "pr_id ` set (upsert_private_cursor c rows) \<subseteq> insert (pu_cursor_id c) (pr_id ` set rows)"
proof -
  let ?same = "\<lambda>r. pr_user_id r = pu_user_id c \<and> pr_peer_user_id r = pu_peer_user_id c"
  let ?f = "\<lambda>r. r\<lparr>pr_last_read_at := max (pr_last_read_at r) (sql_datetime (pu_read_at c))\<rparr>"
  let ?new = "\<lparr>pr_id = pu_cursor_id c, pr_user_id = pu_user_id c, pr_peer_user_id = pu_peer_user_id c,
      pr_last_read_at = sql_datetime (pu_read_at c)\<rparr>"
  let ?key = "\<lambda>r. (pr_user_id r, pr_peer_user_id r)"
  have u: "upsert_private_cursor c rows = (if \<exists>r \<in> set rows. ?same r then update_where ?same ?f rows else rows @ [?new])"
  proof -
    have "\<not> (\<exists>r \<in> set rows. pr_id r = pu_cursor_id c)" using assms by force
    then show ?thesis by (auto simp: upsert_private_cursor_def)
  qed
  have upd: "row_of ?key k (update_where ?same ?f rows) = map_option (\<lambda>r. if ?same r then ?f r else r) (row_of ?key k rows)"
    by (rule row_of_update) simp
  show "private_read_at (upsert_private_cursor c rows) k =
      (if k = cursor_key c then later_read (private_read_at rows k) (pu_read_at c) else private_read_at rows k)"
  proof (cases "\<exists>r \<in> set rows. ?same r")
    case True
    then have "row_of ?key (cursor_key c) rows \<noteq> None" by (auto simp: row_of_None)
    then show ?thesis using True upd row_of_Some[of ?key k rows]
      by (cases "row_of ?key k rows") (auto simp: private_read_at_def u later_read_def)
  next
    case False
    then have "row_of ?key (cursor_key c) rows = None" by (auto simp: row_of_None)
    then show ?thesis using False
      by (auto simp: private_read_at_def u later_read_def row_of_append split: option.split)
  qed
  show "pr_id ` set (upsert_private_cursor c rows) \<subseteq> insert (pu_cursor_id c) (pr_id ` set rows)"
    by (auto simp: u set_update_where split: if_splits)
qed

lemma upsert_cursors_read:
  "fresh_cursors cs rows \<Longrightarrow> private_read_at (fold upsert_private_cursor cs rows) k =
     foldl later_read (private_read_at rows k) (map pu_read_at (filter (\<lambda>c. cursor_key c = k) cs))"
proof (induction cs arbitrary: rows)
  case (Cons c cs)
  have new: "pu_cursor_id c \<notin> pr_id ` set rows" using Cons.prems by (auto simp: fresh_cursors_def)
  have "fresh_cursors cs (upsert_private_cursor c rows)"
  proof -
    have "pu_cursor_id ` set cs \<inter> insert (pu_cursor_id c) (pr_id ` set rows) = {}" "distinct (map pu_cursor_id cs)"
      using Cons.prems by (auto simp: fresh_cursors_def)
    with upsert_cursor_read(2)[OF new] show ?thesis unfolding fresh_cursors_def by blast
  qed
  from Cons.IH[OF this] upsert_cursor_read(1)[OF new, of k] show ?case by simp
qed simp

lemma upsert_all: "upsert_private_read_cursors cs rows = fold upsert_private_cursor cs rows"
proof -
  have "fold (fold f) xss = fold f (concat xss)" for f :: "private_read_cursor \<Rightarrow> private_cursor_row list \<Rightarrow> private_cursor_row list" and xss
    by (induction xss) auto
  moreover have "0 < max_rows_per_statement private_read_cursor_insert_binds" by (simp add: max_rows_per_statement_def)
  ultimately show ?thesis by (simp add: upsert_private_read_cursors_def concat_chunks)
qed

lemma later_read_mono: "later_read (later_read old s) t = later_read old (max s t)"
  by (auto simp: later_read_def sql_datetime_def max_def split: option.split)

text \<open>The greatest time of a conversation decides.\<close>

lemma foldl_later: "foldl later_read old (s # ts) = later_read old (foldl max s ts)"
proof (induction ts arbitrary: s)
  case (Cons t ts)
  have "foldl later_read old (s # t # ts) = foldl later_read (later_read old (max s t)) ts" by (simp add: later_read_mono)
  also have "\<dots> = foldl later_read old (max s t # ts)" by simp
  finally show ?case using Cons.IH by simp
qed simp


definition greatest_time :: "('c \<Rightarrow> 'k) \<Rightarrow> ('c \<Rightarrow> int) \<Rightarrow> 'c list \<Rightarrow> 'k \<Rightarrow> int option" where
  "greatest_time key at cs k = (case map at (filter (\<lambda>c. key c = k) cs) of [] \<Rightarrow> None | s # ts \<Rightarrow> Some (foldl max s ts))"

lemma greatest_time_snoc:
  "greatest_time key at (cs @ [c]) k =
     (if key c = k then Some (case greatest_time key at cs k of None \<Rightarrow> at c | Some t \<Rightarrow> max t (at c)) else greatest_time key at cs k)"
  by (auto simp: greatest_time_def split: list.split)

text \<open>What coalescing keeps of each key: one cursor with the greatest time.\<close>

lemma coalesced:
  fixes key :: "'c \<Rightarrow> 'k" and at :: "'c \<Rightarrow> int"
  defines "step \<equiv> (\<lambda>latest c. case map_of latest (key c) of
      Some old \<Rightarrow> if at old < at c then AList.update (key c) c latest else latest
    | None \<Rightarrow> latest @ [(key c, c)])"
  shows "distinct (map fst (foldl step [] cs)) \<and> (\<forall>(k, c) \<in> set (foldl step [] cs). key c = k \<and> c \<in> set cs) \<and>
    (\<forall>k. map_option at (map_of (foldl step [] cs) k) = greatest_time key at cs k)"
proof (induction cs rule: rev_induct)
  case (snoc c cs)
  let ?latest = "foldl step [] cs"
  have IH: "distinct (map fst ?latest)" "\<And>k d. (k, d) \<in> set ?latest \<Longrightarrow> key d = k \<and> d \<in> set cs"
    "\<And>k. map_option at (map_of ?latest k) = greatest_time key at cs k" using snoc by auto
  show ?case
  proof (cases "map_of ?latest (key c)")
    case None
    then have step': "foldl step [] (cs @ [c]) = ?latest @ [(key c, c)]" by (simp add: step_def)
    have "key c \<notin> set (map fst ?latest)" using None by (simp add: map_of_eq_None_iff)
    moreover have "map_option at (map_of (?latest @ [(key c, c)]) k) = greatest_time key at (cs @ [c]) k" for k
      using None IH(3)[of k] by (cases "k = key c"; cases "map_of ?latest k") (auto simp: greatest_time_snoc map_add_def)
    ultimately show ?thesis using IH unfolding step' by auto
  next
    case (Some old)
    define l where "l = (if at old < at c then AList.update (key c) c ?latest else ?latest)"
    have step': "foldl step [] (cs @ [c]) = l" using Some by (simp add: step_def l_def)
    have dist: "distinct (map fst l)" using IH(1) by (simp add: l_def distinct_update)
    have of: "map_of l k = (if k = key c \<and> at old < at c then Some c else map_of ?latest k)" for k
      by (simp add: l_def update_conv')
    have "key d = k \<and> d \<in> set (cs @ [c])" if "(k, d) \<in> set l" for k d
    proof -
      have "map_of l k = Some d" using that dist by simp
      then show ?thesis using IH(2) by (auto simp: of split: if_splits dest: map_of_SomeD)
    qed
    moreover have "map_option at (map_of l k) = greatest_time key at (cs @ [c]) k" for k
    proof (cases "k = key c")
      case True
      have "greatest_time key at cs (key c) = Some (at old)" using Some IH(3)[of "key c"] by simp
      with Some True show ?thesis by (auto simp: of greatest_time_snoc max_def)
    next
      case False
      with IH(3)[of k] show ?thesis by (simp add: of greatest_time_snoc)
    qed
    ultimately show ?thesis using dist unfolding step' by auto
  qed
qed (simp add: greatest_time_def)

lemma coalesced_filter:
  assumes "distinct (map fst l)" "\<And>k c. (k, c) \<in> set l \<Longrightarrow> key c = k"
  shows "filter (\<lambda>c. key c = k) (map snd l) = (case map_of l k of None \<Rightarrow> [] | Some c \<Rightarrow> [c])"
  using assms
proof (induction l)
  case (Cons x l)
  obtain j d where x: "x = (j, d)" by (cases x)
  have d: "key d = j" using Cons.prems(2)[of j d] by (simp add: x)
  have none: "map_of l j = None" using Cons.prems(1) by (simp add: x map_of_eq_None_iff)
  have "filter (\<lambda>c. key c = k) (map snd l) = (case map_of l k of None \<Rightarrow> [] | Some c \<Rightarrow> [c])"
    by (rule Cons.IH) (use Cons.prems in auto)
  then show ?case using none by (auto simp: x d)
qed simp

lemma distinct_values:
  assumes "distinct (map fst l)" "\<And>k c. (k, c) \<in> set l \<Longrightarrow> key c = k"
  shows "distinct (map snd l)"
proof -
  have "map fst l = map key (map snd l)" using assms(2) by auto
  with assms(1) show ?thesis by (simp only: distinct_map)
qed

text \<open>
  Writing the coalesced cursors of a batch leaves the same times of reading as writing all of them one
  after the other, when the identifiers of the cursors are fresh.
\<close>

theorem coalescing_private_cursors:
  assumes fresh: "fresh_cursors cs rows"
  shows "private_read_at (upsert_private_read_cursors (coalesce_private_read_cursors cs) rows) k =
    private_read_at (upsert_private_read_cursors cs rows) k"
proof -
  define l where "l = foldl (\<lambda>latest c. case map_of latest (cursor_key c) of
      Some old \<Rightarrow> if pu_read_at old < pu_read_at c then AList.update (cursor_key c) c latest else latest
    | None \<Rightarrow> latest @ [(cursor_key c, c)]) [] cs"
  have co: "coalesce_private_read_cursors cs = map snd l"
    by (simp add: coalesce_private_read_cursors_def coalesce_by_def l_def)
  have l: "distinct (map fst l)" "\<And>k c. (k, c) \<in> set l \<Longrightarrow> cursor_key c = k \<and> c \<in> set cs"
    "\<And>k. map_option pu_read_at (map_of l k) = greatest_time cursor_key pu_read_at cs k"
    using coalesced[where key = cursor_key and at = pu_read_at and cs = cs] unfolding l_def by auto
  have d: "distinct (map snd l)" by (rule distinct_values[OF l(1), where key = cursor_key]) (use l(2) in blast)
  have sub: "set (map snd l) \<subseteq> set cs" using l(2) by auto
  have "inj_on pu_cursor_id (set cs)" using fresh by (simp add: fresh_cursors_def distinct_map)
  then have "inj_on pu_cursor_id (set (map snd l))" using sub by (rule inj_on_subset)
  then have "distinct (map pu_cursor_id (map snd l))" using d by (simp only: distinct_map)
  then have "fresh_cursors (map snd l) rows"
    using fresh sub unfolding fresh_cursors_def by blast
  note A = upsert_cursors_read[OF this, of k] and B = upsert_cursors_read[OF fresh, of k]
  have f: "map pu_read_at (filter (\<lambda>c. cursor_key c = k) (map snd l)) =
      (case greatest_time cursor_key pu_read_at cs k of None \<Rightarrow> [] | Some t \<Rightarrow> [t])"
    using coalesced_filter[OF l(1), where key = cursor_key and k = k] l(2) l(3)[of k, symmetric]
    by (cases "map_of l k") auto
  show ?thesis
    unfolding upsert_all co A B f
    by (cases "map pu_read_at (filter (\<lambda>c. cursor_key c = k) cs)")
      (simp_all only: greatest_time_def foldl_later list.case option.case foldl_Nil)
qed

definition two_reads :: "private_read_cursor list" where
  "two_reads = [\<lparr>pu_cursor_id = 1, pu_user_id = 1, pu_peer_user_id = 2, pu_read_at = 1000\<rparr>,
     \<lparr>pu_cursor_id = 2, pu_user_id = 1, pu_peer_user_id = 2, pu_read_at = 5000\<rparr>]"

lemma coalescing_private_cursors_witness:
  "private_read_at (upsert_private_read_cursors (coalesce_private_read_cursors two_reads) []) (1, 2) =
    private_read_at (upsert_private_read_cursors two_reads []) (1, 2)"
  by (rule coalescing_private_cursors) (simp add: fresh_cursors_def two_reads_def)

text \<open>Cursors of groups are coalesced by their sequence number, and the time of the one that is dropped is lost.\<close>

definition group_read_time :: "group_cursor_row list \<Rightarrow> int \<times> int \<Rightarrow> (int \<times> int) option" where
  "group_read_time rows k = map_option (\<lambda>r. (gr_last_read_seq r, gr_last_read_at r)) (row_of (\<lambda>r. (gr_group_id r, gr_user_id r)) k rows)"

definition older_cursor :: group_read_cursor where
  "older_cursor = \<lparr>gu_cursor_id = 1, gu_group_id = 10, gu_user_id = 20, gu_read_at = 1000, gu_last_read_seq = 5,
     gu_last_read_message_id = Some 500\<rparr>"

definition newer_cursor :: group_read_cursor where
  "newer_cursor = \<lparr>gu_cursor_id = 2, gu_group_id = 10, gu_user_id = 20, gu_read_at = 61000, gu_last_read_seq = 3,
     gu_last_read_message_id = Some 300\<rparr>"

lemma group_coalescing_loses_time:
  "group_read_time (upsert_group_read_cursors [newer_cursor, older_cursor] []) (10, 20) = Some (5, 61)"
  "group_read_time (upsert_group_read_cursors (coalesce_group_read_cursors [newer_cursor, older_cursor]) []) (10, 20) = Some (5, 1)"
  by (simp_all add: upsert_group_read_cursors_def coalesce_group_read_cursors_def coalesce_by_def group_cursor_is_newer_def
      older_cursor_def newer_cursor_def max_rows_per_statement_def mysql_bind_limit_def group_read_cursor_insert_binds_def
      upsert_group_cursor_def group_read_time_def update_where_def sql_datetime_def greatest_id_def)

end
