(* ===== verification/Ratchet_Facts.thy ===== *)
theory Ratchet_Facts
  imports Ratchet
begin

text \<open>
  The functional behaviour of the ratchet operations: closed forms of the key chain and of the
  skipping loop, what each operation keeps of a well-formed state on every branch, which errors
  leave the state alone, and the cases of \<open>ratchet_decrypt\<close> on a receiver that follows a chain.
\<close>

section \<open>Key chains\<close>

definition hkdf32 :: "crypto_lib \<Rightarrow> bytes \<Rightarrow> bytes \<Rightarrow> bytes" where
  "hkdf32 C ikm info = (case hkdf_sha256 C 32 ikm [] info of Inr okm \<Rightarrow> okm | Inl _ \<Rightarrow> [])"

definition msg_key :: "crypto_lib \<Rightarrow> chain_key \<Rightarrow> message_key" where
  "msg_key C ck = MessageKey (hkdf32 C (chain_key_bytes ck) info_message_keys)"

definition next_chain :: "crypto_lib \<Rightarrow> chain_key \<Rightarrow> chain_key" where
  "next_chain C ck = ChainKey (hkdf32 C (chain_key_bytes ck) info_chain_keys)"

definition chain_at :: "crypto_lib \<Rightarrow> chain_key \<Rightarrow> nat \<Rightarrow> chain_key" where
  "chain_at C ck n = (next_chain C ^^ n) ck"

definition next_root :: "crypto_lib \<Rightarrow> ratchet_root_key \<Rightarrow> bytes \<Rightarrow> ratchet_root_key" where
  "next_root C rk dh = RatchetRootKey (hkdf32 C (root_key_bytes rk @ dh) info_root_key)"

definition root_chain :: "crypto_lib \<Rightarrow> ratchet_root_key \<Rightarrow> bytes \<Rightarrow> bytes \<Rightarrow> chain_key" where
  "root_chain C rk dh info = ChainKey (hkdf32 C (root_key_bytes rk @ dh) info)"

lemma hkdf32:
  assumes "hkdf_bounded C"
  shows "hkdf_sha256 C 32 ikm [] info = Inr (hkdf32 C ikm info)" and "length (hkdf32 C ikm info) = 32"
proof -
  obtain okm where "hkdf_sha256 C 32 ikm [] info = Inr okm" "length okm = 32"
    using assms by (rule hkdf_sha256_ok[of C 32]) simp
  then show "hkdf_sha256 C 32 ikm [] info = Inr (hkdf32 C ikm info)" "length (hkdf32 C ikm info) = 32"
    by (simp_all add: hkdf32_def)
qed

lemma split_chain_key_ok: "hkdf_bounded C \<Longrightarrow> split_chain_key C ck = Inr (msg_key C ck, next_chain C ck)"
  by (simp add: split_chain_key_def hkdf32 msg_key_def next_chain_def)

lemma kdf_root_key_ok:
  "hkdf_bounded C \<Longrightarrow> kdf_root_key C rk dh info = Inr (next_root C rk dh, root_chain C rk dh info)"
  by (simp add: kdf_root_key_def hkdf32 next_root_def root_chain_def Let_def)

lemmas derive_ok = split_chain_key_ok kdf_root_key_ok

lemma derived_sizes [size_simps]:
  assumes "hkdf_bounded C"
  shows "length (message_key_bytes (msg_key C ck)) = 32" "length (chain_key_bytes (next_chain C ck)) = 32"
    "length (root_key_bytes (next_root C rk dh)) = 32" "length (chain_key_bytes (root_chain C rk dh info)) = 32"
  using assms by (simp_all add: hkdf32 msg_key_def next_chain_def next_root_def root_chain_def)

lemma chain_at_0 [simp]: "chain_at C ck 0 = ck"
  by (simp add: chain_at_def)

lemma chain_at_Suc: "chain_at C ck (Suc n) = next_chain C (chain_at C ck n)"
  by (simp add: chain_at_def)

lemma chain_at_next: "chain_at C (next_chain C ck) n = chain_at C ck (Suc n)"
  by (simp add: chain_at_def funpow_swap1)

lemma chain_at_add: "chain_at C (chain_at C ck m) n = chain_at C ck (m + n)"
  by (simp add: chain_at_def funpow_add add.commute[of m n])

section \<open>Counters and associated data\<close>

lemma next_counter_ok: "unat c + 1 < 2 ^ 32 \<Longrightarrow> next_counter c = Inr (c + 1)"
  by (simp add: next_counter_def checked_add_1_Some)

lemma next_counter_overflow: "unat c = 2 ^ 32 - 1 \<Longrightarrow> next_counter c = Inl (InvalidCounter ''counter overflow'')"
  by (simp add: next_counter_def checked_add_1_None_iff[THEN iffD2])

lemma next_counter_Inr: "next_counter c = Inr d \<longleftrightarrow> unat c + 1 < 2 ^ 32 \<and> d = c + 1"
  by (auto simp: next_counter_def checked_add_def split: if_splits)

text \<open>The associated data does not depend on which party builds it.\<close>

lemma build_ratchet_aad_swap: "build_ratchet_aad a b h = build_ratchet_aad b a h"
  by (cases "x_pub_bytes a" "x_pub_bytes b" rule: linorder_cases)
    (auto simp: build_ratchet_aad_def Let_def)

lemma length_build_ratchet_aad:
  "wf_pub a \<Longrightarrow> wf_pub b \<Longrightarrow> wf_pub (hdr_ratchet_public_key h) \<Longrightarrow> length (build_ratchet_aad a b h) = 104"
  by (simp add: build_ratchet_aad_def Let_def)

section \<open>The skipping loop\<close>

text \<open>The entries one run of the loop inserts.\<close>

fun skipped_run ::
  "crypto_lib \<Rightarrow> x25519_public_key \<Rightarrow> u32 list \<Rightarrow> chain_key \<Rightarrow>
   ((x25519_public_key \<times> u32) \<times> message_key) list"
where
  "skipped_run C pk [] ck = []"
| "skipped_run C pk (c # cs) ck = ((pk, c), msg_key C ck) # skipped_run C pk cs (next_chain C ck)"

lemma length_skipped_run [simp]: "length (skipped_run C pk cs ck) = length cs"
  by (induction cs arbitrary: ck) simp_all

lemma skipped_run_keys: "map fst (skipped_run C pk cs ck) = map (Pair pk) cs"
  by (induction cs arbitrary: ck) simp_all

lemma skipped_run_nth:
  "i < length cs \<Longrightarrow> skipped_run C pk cs ck ! i = ((pk, cs ! i), msg_key C (chain_at C ck i))"
proof (induction cs arbitrary: ck i)
  case Nil
  then show ?case by simp
next
  case (Cons c cs)
  then show ?case by (cases i) (simp_all add: chain_at_next)
qed

lemma skip_loop_closed:
  assumes "hkdf_bounded C"
  shows "skip_loop C pk cs ck store =
    (Inr (chain_at C ck (length cs)),
     fold (\<lambda>(k, v) s. snd (skipped_insert s (fst k) (snd k) v)) (skipped_run C pk cs ck) store)"
  using assms
proof (induction cs arbitrary: ck store)
  case Nil
  then show ?case by simp
next
  case (Cons c cs)
  obtain store' where ins: "skipped_insert store pk c (msg_key C ck) = (Inr (), store')"
    by (metis prod.collapse skipped_insert_result)
  with Cons show ?case by (simp add: split_chain_key_ok chain_at_next)
qed

text \<open>
  What the loop leaves in the store: the run is appended, and of the whole the newest
  \<open>skipped_max\<close> entries stay.
\<close>

lemma skip_loop_store:
  assumes "hkdf_bounded C" "skipped_len store \<le> skipped_max"
  shows "skipped_alist (snd (skip_loop C pk cs ck store)) =
    drop (skipped_len store + length cs - skipped_max) (skipped_alist store @ skipped_run C pk cs ck)"
  using skipped.entries_ins_all[of store "skipped_run C pk cs ck"] assms
  by (simp add: skip_loop_closed skipped_len_def)

lemma u32_range_nth: "i < unat b - unat a \<Longrightarrow> u32_range a b ! i = word_of_nat (unat a + i)"
  by (simp add: u32_range_def)

lemma skipped_run_lookup:
  "map_of (skipped_run C pk (u32_range a b) ck) (pk', c) =
     (if pk' = pk \<and> a \<le> c \<and> c < b then Some (msg_key C (chain_at C ck (unat c - unat a))) else None)"
proof (cases "pk' = pk \<and> a \<le> c \<and> c < b")
  case True
  then have bounds: "unat a \<le> unat c" "unat c < unat b"
    by (simp_all add: word_le_nat_alt word_less_nat_alt)
  let ?i = "unat c - unat a" and ?run = "skipped_run C pk (u32_range a b) ck"
  have i: "?i < unat b - unat a" using bounds by simp
  have "u32_range a b ! ?i = c" using bounds by (simp add: u32_range_nth[OF i])
  with i have "?run ! ?i = ((pk, c), msg_key C (chain_at C ck ?i))" by (simp add: skipped_run_nth)
  moreover have "?run ! ?i \<in> set ?run" using i by (intro nth_mem) simp
  ultimately have "((pk, c), msg_key C (chain_at C ck ?i)) \<in> set ?run" by simp
  moreover have "distinct (map fst ?run)"
    by (simp add: skipped_run_keys distinct_map distinct_u32_range inj_on_def)
  ultimately show ?thesis using True by simp
next
  case False
  then have "(pk', c) \<notin> fst ` set (skipped_run C pk (u32_range a b) ck)"
    unfolding set_map[symmetric] skipped_run_keys by (auto simp: set_u32_range)
  then show ?thesis unfolding if_not_P[OF False] by (simp add: map_of_eq_None_iff)
qed

section \<open>Skipping\<close>

text \<open>The three ways \<open>skip_message_keys\<close> can go when HKDF works.\<close>

lemma skip_message_keys_behind: "u \<le> rs_receive_counter st \<Longrightarrow> skip_message_keys C st pk u = (Inr (), st)"
  by (simp add: skip_message_keys_def)

lemma skip_message_keys_gap:
  "rs_receive_counter st < u \<Longrightarrow> max_skip < u - rs_receive_counter st \<Longrightarrow>
   skip_message_keys C st pk u = (Inl (CounterGapExceeded (u - rs_receive_counter st) max_skip), st)"
  by (simp add: skip_message_keys_def saturating_sub_def Let_def not_le less_imp_le)

lemma skip_message_keys_ahead:
  assumes "hkdf_bounded C" "rs_receive_counter st < u" "u - rs_receive_counter st \<le> max_skip"
    and "rs_receiving_chain_key st = Some ck"
  shows "skip_message_keys C st pk u =
    (Inr (), st\<lparr>rs_skipped_message_keys :=
                 snd (skip_loop C pk (u32_range (rs_receive_counter st) u) ck (rs_skipped_message_keys st)),
               rs_receiving_chain_key := Some (chain_at C ck (unat u - unat (rs_receive_counter st))),
               rs_receive_counter := u\<rparr>)"
  using assms
  by (simp add: skip_message_keys_def saturating_sub_def Let_def not_le[symmetric] skip_loop_closed)

lemmas skip_message_keys_cases = skip_message_keys_behind skip_message_keys_gap skip_message_keys_ahead

text \<open>Every error of skipping but the HKDF ones leaves the state as it was.\<close>

lemma skip_message_keys_error_state:
  assumes "hkdf_bounded C" "skip_message_keys C st pk u = (Inl e, st')"
  shows "st' = st"
  using assms
  by (auto simp: skip_message_keys_def Let_def skip_loop_closed split: if_splits option.splits)

section \<open>Well-formed states\<close>

lemma skipped_run_sizes:
  "hkdf_bounded C \<Longrightarrow> e \<in> set (skipped_run C pk cs ck) \<Longrightarrow> length (message_key_bytes (snd e)) = 32"
  by (induction cs arbitrary: ck) (auto simp: size_simps)

lemma chain_at_size:
  assumes "hkdf_bounded C" "length (chain_key_bytes ck) = 32"
  shows "length (chain_key_bytes (chain_at C ck n)) = 32"
  using assms by (cases n) (simp_all add: chain_at_Suc size_simps)

lemma wf_store_skip_loop:
  assumes "hkdf_bounded C" "wf_store s"
  shows "wf_store (snd (skip_loop C pk cs ck s))"
proof -
  let ?s = "snd (skip_loop C pk cs ck s)"
  have alist: "skipped_alist ?s = drop (skipped_len s + length cs - skipped_max)
      (skipped_alist s @ skipped_run C pk cs ck)"
    using assms by (simp add: skip_loop_store wf_store_def)
  then have "skipped_len ?s \<le> skipped_max"
    unfolding skipped_len_def length_skipped_alist[symmetric]
    by (simp add: skipped_len_def)
  moreover have "set (skipped_alist ?s) \<subseteq> set (skipped_alist s) \<union> set (skipped_run C pk cs ck)"
    unfolding alist by (auto dest: in_set_dropD)
  ultimately show ?thesis
    using assms skipped_run_sizes by (fastforce simp: wf_store_def)
qed

lemma skip_message_keys_wf [wf_intros]:
  assumes "hkdf_bounded C" "wf_ratchet_state st"
  shows "wf_ratchet_state (snd (skip_message_keys C st pk u))"
proof -
  have "wf_store (snd (skip_loop C pk cs ck (rs_skipped_message_keys st)))" for cs ck
    using assms by (simp add: wf_store_skip_loop wf_ratchet_state_def)
  with assms show ?thesis
    by (auto simp: skip_message_keys_def Let_def skip_loop_closed wf_ratchet_state_def chain_at_size
        split: option.split)
qed

lemma decrypt_with_current_chain_wf [wf_intros]:
  assumes "hkdf_bounded C" "wf_ratchet_state st"
  shows "wf_ratchet_state (snd (decrypt_with_current_chain C st h ct))"
proof -
  obtain r st1 where skip: "skip_message_keys C st (hdr_ratchet_public_key h) (hdr_counter h) = (r, st1)"
    by fastforce
  with skip_message_keys_wf[OF assms, of "hdr_ratchet_public_key h" "hdr_counter h"]
  have "wf_ratchet_state st1" by simp
  with assms skip show ?thesis
    by (auto simp: decrypt_with_current_chain_def Let_def wf_ratchet_state_def split_chain_key_ok size_simps
        split: sum.split option.split)
qed

lemma prepare_initial_response_ratchet_wf [wf_intros]:
  assumes "hkdf_bounded C" "x25519_sizes C" "length draw = 32" "wf_ratchet_state st" "wf_pub pk"
  shows "wf_ratchet_state (snd (prepare_initial_response_ratchet C draw st pk))"
  using assms wf_generate[of C draw]
  by (auto simp: prepare_initial_response_ratchet_def Let_def wf_ratchet_state_def kdf_root_key_ok
      size_simps split: sum.split)

lemma perform_dh_ratchet_wf [wf_intros]:
  assumes "hkdf_bounded C" "x25519_sizes C" "length draw = 32" "wf_ratchet_state st" "wf_pub pk"
  shows "wf_ratchet_state (snd (perform_dh_ratchet C draw st pk prev))"
proof -
  obtain r st1 where skip: "(case rs_remote_public_key st of
      Some old \<Rightarrow> skip_message_keys C st old prev | None \<Rightarrow> (Inr (), st)) = (r, st1)"
    by fastforce
  moreover have "wf_ratchet_state (snd (case rs_remote_public_key st of
      Some old \<Rightarrow> skip_message_keys C st old prev | None \<Rightarrow> (Inr (), st)))"
    using assms by (auto intro: wf_intros split: option.split)
  ultimately have "wf_ratchet_state st1" by simp
  with assms wf_generate[of C draw] show ?thesis
    by (auto simp: perform_dh_ratchet_def skip Let_def wf_ratchet_state_def kdf_root_key_ok size_simps
        split: sum.split)
qed

lemma ratchet_encrypt_wf [wf_intros]:
  assumes "hkdf_bounded C" "wf_ratchet_state st"
  shows "wf_ratchet_state (snd (ratchet_encrypt C nd st pt))"
  using assms
  by (auto simp: ratchet_encrypt_def Let_def wf_ratchet_state_def split_chain_key_ok size_simps
      split: sum.split option.split)

lemma ratchet_decrypt_wf [wf_intros]:
  assumes "hkdf_bounded C" "x25519_sizes C" "length draw = 32" "wf_ratchet_state st" "wf_header h"
  shows "wf_ratchet_state (snd (ratchet_decrypt C draw st h ct))"
proof -
  have pk: "wf_pub (hdr_ratchet_public_key h)" using assms by (simp add: wf_header_def)
  obtain k store where rem: "skipped_remove (rs_skipped_message_keys st)
      (hdr_ratchet_public_key h) (hdr_counter h) = (k, store)" by fastforce
  have store: "wf_ratchet_state (st\<lparr>rs_skipped_message_keys := store\<rparr>)"
    using assms(4) wf_store_remove[of "rs_skipped_message_keys st" "hdr_ratchet_public_key h" "hdr_counter h"]
    by (simp add: wf_ratchet_state_def rem)
  obtain r1 st1 where dh: "perform_dh_ratchet C draw st (hdr_ratchet_public_key h)
      (hdr_previous_counter h) = (r1, st1)" by fastforce
  with perform_dh_ratchet_wf[OF assms(1-4) pk, of "hdr_previous_counter h"]
  have st1: "wf_ratchet_state st1" by simp
  obtain r2 st2 where dec: "decrypt_with_current_chain C st h ct = (r2, st2)" by fastforce
  with decrypt_with_current_chain_wf[OF assms(1,4), of h ct] have st2: "wf_ratchet_state st2" by simp
  obtain r3 st3 where prep: "prepare_initial_response_ratchet C draw st2 (hdr_ratchet_public_key h) = (r3, st3)"
    by fastforce
  with prepare_initial_response_ratchet_wf[OF assms(1-3) st2 pk] have "wf_ratchet_state st3" by simp
  with st2 store assms decrypt_with_current_chain_wf[OF assms(1) st1, of h ct] st1 show ?thesis
    by (auto simp: ratchet_decrypt_def Let_def rem dh dec prep split: sum.split option.split)
qed

lemma init_sending_chain_wf:
  assumes "hkdf_bounded C" "x25519_sizes C" "length draw = 32" "length (root_key_bytes rk) = 32"
    "wf_pub l" "wf_pub r"
  obtains st where "init_sending_chain C draw rk l r = Inr st" "wf_ratchet_state st"
  using assms wf_generate[of C draw] that
  by (auto simp: init_sending_chain_def hkdf32 wf_ratchet_state_def Let_def wf_store_new)

lemma init_receiving_chain_wf:
  assumes "hkdf_bounded C" "x25519_sizes C" "length draw = 32" "length (root_key_bytes rk) = 32"
    "wf_pub l" "wf_pub r"
  obtains st where "init_receiving_chain C draw rk l r = Inr st" "wf_ratchet_state st"
  using assms wf_generate[of C draw] that
  by (auto simp: init_receiving_chain_def hkdf32 wf_ratchet_state_def Let_def wf_store_new)

end
