(* ===== verification/Ratchet_Delivery.thy ===== *)
theory Ratchet_Delivery
  imports Ratchet_Facts "HOL-Library.Multiset"
begin

text \<open>
  Delivery of the messages of one sending chain: a receiver that follows the chain decrypts them in
  whatever order they arrive, each once. The invariant \<open>follows_chain\<close> ties the receiver's chain key
  and its skipped keys to the sender's chain; the counters whose keys are kept are \<open>pending\<close>.
\<close>

section \<open>A receiver that follows a chain\<close>

definition follows_chain :: "crypto_lib \<Rightarrow> chain_key \<Rightarrow> x25519_public_key \<Rightarrow> ratchet_state \<Rightarrow> bool" where
  "follows_chain C ck pk R \<longleftrightarrow>
     rs_remote_public_key R = Some pk \<and>
     rs_receiving_chain_key R = Some (chain_at C ck (unat (rs_receive_counter R))) \<and>
     distinct (map fst (skipped_alist (rs_skipped_message_keys R))) \<and>
     (\<forall>c k. map_of (skipped_alist (rs_skipped_message_keys R)) (pk, c) = Some k \<longrightarrow>
        c < rs_receive_counter R \<and> k = msg_key C (chain_at C ck (unat c)))"

definition pending :: "x25519_public_key \<Rightarrow> ratchet_state \<Rightarrow> u32 set" where
  "pending pk R = {c. map_of (skipped_alist (rs_skipped_message_keys R)) (pk, c) \<noteq> None}"

text \<open>The ciphertext opens to the plaintext under the key the chain has for the header's counter.\<close>

definition opens ::
  "crypto_lib \<Rightarrow> chain_key \<Rightarrow> x25519_public_key \<Rightarrow> x25519_public_key \<Rightarrow> ratchet_header \<Rightarrow> bytes \<Rightarrow> bytes \<Rightarrow> bool"
where
  "opens C ck l r h ct pt \<longleftrightarrow>
     aes_gcm_decrypt C (aes_key_of_message_key (msg_key C (chain_at C ck (unat (hdr_counter h)))))
       (hdr_nonce h) ct (build_ratchet_aad l r h) = Inr pt"

lemma opens_swap: "opens C ck l r h ct pt \<longleftrightarrow> opens C ck r l h ct pt"
  by (simp add: opens_def build_ratchet_aad_swap[of l r])

text \<open>The store when the receiver runs ahead, if there is room.\<close>

lemma skip_loop_room:
  assumes "hkdf_bounded C" "skipped_len s + (unat b - unat a) \<le> skipped_max"
  shows "skipped_alist (snd (skip_loop C pk (u32_range a b) ck s)) =
    skipped_alist s @ skipped_run C pk (u32_range a b) ck"
  using assms by (simp add: skip_loop_store)

section \<open>The three cases of decryption on the chain\<close>

text \<open>A message whose key was kept.\<close>

lemma decrypt_kept:
  assumes "follows_chain C ck pk R" "hdr_ratchet_public_key h = pk" "hdr_counter h \<in> pending pk R"
    and "opens C ck (rs_local_identity_key R) (rs_remote_identity_key R) h ct pt"
    and "unat (hdr_counter h) + 1 < 2 ^ 32"
  obtains R' where "ratchet_decrypt C draw R h ct = (Inr pt, R')" "follows_chain C ck pk R'"
    and "pending pk R' = pending pk R - {hdr_counter h}"
    and "rs_receive_counter R' = rs_receive_counter R"
    and "skipped_len (rs_skipped_message_keys R') \<le> skipped_len (rs_skipped_message_keys R)"
    and "rs_local_identity_key R' = rs_local_identity_key R"
    and "rs_remote_identity_key R' = rs_remote_identity_key R"
proof -
  let ?S = "rs_skipped_message_keys R" and ?c = "hdr_counter h"
  from assms(3) obtain k where k: "map_of (skipped_alist ?S) (pk, ?c) = Some k"
    by (auto simp: pending_def)
  obtain store where rem: "skipped_remove ?S pk ?c = (Some k, store)"
    using skipped_remove_alist(1)[of ?S pk ?c] k by (cases "skipped_remove ?S pk ?c") simp
  let ?R = "R\<lparr>rs_skipped_message_keys := store\<rparr>"
  have distinct: "distinct (map fst (skipped_alist ?S))"
    and key: "k = msg_key C (chain_at C ck (unat ?c))"
    using assms(1) k by (auto simp: follows_chain_def)
  have alist: "skipped_alist store = filter (\<lambda>e. fst e \<noteq> (pk, ?c)) (skipped_alist ?S)"
    using skipped.rem_entries_filter[OF distinct, of "(pk, ?c)"] by (simp add: rem)
  have lookup: "map_of (skipped_alist store) x =
      (if x = (pk, ?c) then None else map_of (skipped_alist ?S) x)" for x
    using skipped.rem_lookup[OF distinct, of "(pk, ?c)" x] by (simp add: rem)
  have "ratchet_decrypt C draw R h ct = (Inr pt, ?R)"
    using assms(2,4,5) rem key by (simp add: ratchet_decrypt_def next_counter_ok opens_def)
  moreover have "follows_chain C ck pk ?R"
    using assms(1) skipped.rem_distinct[OF distinct, of "(pk, ?c)"]
    by (auto simp: follows_chain_def lookup rem split: if_splits)
  moreover have "pending pk ?R = pending pk R - {?c}"
    by (auto simp: pending_def lookup split: if_splits)
  moreover have "skipped_len store \<le> skipped_len ?S"
    using arg_cong[OF alist, of length] by (simp add: skipped_len_def)
      (metis alist length_filter_le length_skipped_alist)
  ultimately show thesis by (intro that[of ?R]) simp_all
qed

text \<open>A message at or ahead of the receive counter.\<close>

lemma decrypt_ahead:
  assumes C: "hkdf_bounded C" and R: "follows_chain C ck pk R" and pk: "hdr_ratchet_public_key h = pk"
    and ahead: "rs_receive_counter R \<le> hdr_counter h" and gap: "hdr_counter h - rs_receive_counter R \<le> max_skip"
    and room: "skipped_len (rs_skipped_message_keys R) +
      (unat (hdr_counter h) - unat (rs_receive_counter R)) \<le> skipped_max"
    and opens: "opens C ck (rs_local_identity_key R) (rs_remote_identity_key R) h ct pt"
    and bound: "unat (hdr_counter h) + 1 < 2 ^ 32"
  obtains R' where "ratchet_decrypt C draw R h ct = (Inr pt, R')" "follows_chain C ck pk R'"
    and "pending pk R' = pending pk R \<union> {c. rs_receive_counter R \<le> c \<and> c < hdr_counter h}"
    and "rs_receive_counter R' = hdr_counter h + 1"
    and "skipped_len (rs_skipped_message_keys R') =
      skipped_len (rs_skipped_message_keys R) + (unat (hdr_counter h) - unat (rs_receive_counter R))"
    and "rs_local_identity_key R' = rs_local_identity_key R"
    and "rs_remote_identity_key R' = rs_remote_identity_key R"
    and "hdr_counter h = rs_receive_counter R \<longrightarrow> rs_skipped_message_keys R' = rs_skipped_message_keys R"
proof -
  let ?S = "rs_skipped_message_keys R" and ?c = "hdr_counter h" and ?n = "rs_receive_counter R"
  let ?ck = "chain_at C ck (unat ?n)"
  let ?S' = "snd (skip_loop C pk (u32_range ?n ?c) ?ck ?S)"
  from R have facts: "rs_remote_public_key R = Some pk" "rs_receiving_chain_key R = Some ?ck"
    "distinct (map fst (skipped_alist ?S))"
    and keys: "\<And>c k. map_of (skipped_alist ?S) (pk, c) = Some k \<Longrightarrow>
      c < ?n \<and> k = msg_key C (chain_at C ck (unat c))"
    by (auto simp: follows_chain_def)
  have le: "unat ?n \<le> unat ?c" using ahead by (simp add: word_le_nat_alt)
  have succ: "unat (?c + 1) = unat ?c + 1" using bound by (simp add: checked_add_1_Some)
  have absent: "map_of (skipped_alist ?S) (pk, c) = None" if "?n \<le> c" for c
    using keys[of c] that by (cases "map_of (skipped_alist ?S) (pk, c)") (auto simp: not_le[symmetric])
  have alist: "skipped_alist ?S' = skipped_alist ?S @ skipped_run C pk (u32_range ?n ?c) ?ck"
    using C room by (rule skip_loop_room)
  let ?R1 = "R\<lparr>rs_skipped_message_keys := ?S', rs_receiving_chain_key := Some (chain_at C ck (unat ?c)),
               rs_receive_counter := ?c\<rparr>"
  have skip: "skip_message_keys C R pk ?c = (Inr (), ?R1)"
  proof (cases "?c = ?n")
    case True
    have "u32_range ?n ?n = []" by (simp add: u32_range_def)
    with True facts show ?thesis by (simp add: skip_message_keys_behind)
  next
    case False
    with ahead have "?n < ?c" by simp
    from skip_message_keys_ahead[OF C this gap facts(2), of pk] show ?thesis
      using le by (simp add: chain_at_add)
  qed
  let ?R' = "?R1\<lparr>rs_receiving_chain_key := Some (chain_at C ck (unat (?c + 1))), rs_receive_counter := ?c + 1\<rparr>"
  have "fst (skipped_remove ?S pk ?c) = None"
    using absent[OF ahead] by (simp add: skipped_remove_alist)
  then obtain st where rem: "skipped_remove ?S pk ?c = (None, st)" by (cases "skipped_remove ?S pk ?c") simp
  have current: "decrypt_with_current_chain C R h ct = (Inr pt, ?R')"
    using opens skip ahead pk bound succ
    by (simp add: decrypt_with_current_chain_def not_less split_chain_key_ok[OF C] next_counter_ok
        opens_def chain_at_Suc)
  have result: "ratchet_decrypt C draw R h ct = (Inr pt, ?R')"
    using facts(1) pk rem bound current
    by (simp add: ratchet_decrypt_def next_counter_ok Let_def)
  have lookup: "map_of (skipped_alist ?S') (pk, c) =
      (if ?n \<le> c \<and> c < ?c then Some (msg_key C (chain_at C ck (unat c)))
       else map_of (skipped_alist ?S) (pk, c))" for c
    using absent[of c]
    by (auto simp: alist map_add_def skipped_run_lookup chain_at_add word_le_nat_alt split: option.split)
  have new: "fst ` set (skipped_alist ?S) \<inter> Pair pk ` set (u32_range ?n ?c) = {}"
  proof -
    have "(pk, c) \<notin> fst ` set (skipped_alist ?S)" if "c \<in> set (u32_range ?n ?c)" for c
      using absent[of c] that by (simp add: set_u32_range map_of_eq_None_iff)
    then show ?thesis unfolding disjoint_iff image_iff by auto
  qed
  have "follows_chain C ck pk ?R'"
    unfolding follows_chain_def
  proof (intro conjI allI impI)
    show "distinct (map fst (skipped_alist (rs_skipped_message_keys ?R')))"
      using facts(3) new
      by (simp add: alist skipped_run_keys distinct_map distinct_u32_range inj_on_def)
    fix c k assume "map_of (skipped_alist (rs_skipped_message_keys ?R')) (pk, c) = Some k"
    then have "c < ?c \<or> c < ?n" and k: "k = msg_key C (chain_at C ck (unat c))"
      using keys[of c] by (auto simp: lookup split: if_splits)
    with le succ show "c < rs_receive_counter ?R'" "k = msg_key C (chain_at C ck (unat c))"
      by (auto simp: word_less_nat_alt)
  qed (use facts in simp_all)
  moreover have "pending pk ?R' = pending pk R \<union> {c. ?n \<le> c \<and> c < ?c}"
    by (auto simp: pending_def lookup)
  moreover have "skipped_len (rs_skipped_message_keys ?R') = skipped_len ?S + (unat ?c - unat ?n)"
    using arg_cong[OF alist, of length] by (simp add: skipped_len_def)
  moreover have "?c = ?n \<longrightarrow> rs_skipped_message_keys ?R' = ?S"
    by (simp add: u32_range_def)
  ultimately show thesis using result by (intro that[of ?R']) simp_all
qed

text \<open>A message that was decrypted already: the state does not change.\<close>

lemma decrypt_again:
  assumes "follows_chain C ck pk R" "hdr_ratchet_public_key h = pk"
    and "hdr_counter h < rs_receive_counter R" "hdr_counter h \<notin> pending pk R"
  shows "ratchet_decrypt C draw R h ct = (Inl DuplicateOrExpiredMessage, R)"
proof -
  have "fst (skipped_remove (rs_skipped_message_keys R) pk (hdr_counter h)) = None"
    using assms(4) by (simp add: pending_def skipped_remove_alist)
  then obtain st where rem: "skipped_remove (rs_skipped_message_keys R) pk (hdr_counter h) = (None, st)"
    by (cases "skipped_remove (rs_skipped_message_keys R) pk (hdr_counter h)") simp
  have "unat (hdr_counter h) + 1 < 2 ^ 32"
    using assms(3) unat_u32[of "rs_receive_counter R"] by (simp add: word_less_nat_alt)
  with assms rem show ?thesis
    by (simp add: ratchet_decrypt_def next_counter_ok follows_chain_def decrypt_with_current_chain_def)
qed

section \<open>Delivery in any order\<close>

text \<open>Runs of the two operations, the state threaded through.\<close>

fun decrypt_all ::
  "crypto_lib \<Rightarrow> ratchet_state \<Rightarrow> (bytes \<times> ratchet_header \<times> bytes) list \<Rightarrow>
   (e2ee_error + bytes) list \<times> ratchet_state"
where
  "decrypt_all C R [] = ([], R)"
| "decrypt_all C R ((draw, h, ct) # ms) =
     (let (r, R') = ratchet_decrypt C draw R h ct; (rs, R'') = decrypt_all C R' ms in (r # rs, R''))"

fun encrypt_all ::
  "crypto_lib \<Rightarrow> ratchet_state \<Rightarrow> (bytes option \<times> bytes) list \<Rightarrow>
   (e2ee_error + ratchet_header \<times> bytes) list \<times> ratchet_state"
where
  "encrypt_all C S [] = ([], S)"
| "encrypt_all C S ((nonce, pt) # ms) =
     (let (r, S') = ratchet_encrypt C nonce S pt; (rs, S'') = encrypt_all C S' ms in (r # rs, S''))"

text \<open>
  A message the receiver can decrypt in its present state: its key is kept, or it lies ahead and
  the store has room for the keys up to it.
\<close>

definition deliverable ::
  "crypto_lib \<Rightarrow> chain_key \<Rightarrow> x25519_public_key \<Rightarrow> ratchet_state \<Rightarrow> (ratchet_header \<times> bytes) \<times> bytes \<Rightarrow> bool"
where
  "deliverable C ck pk R m \<longleftrightarrow> (case m of ((h, ct), pt) \<Rightarrow>
     hdr_ratchet_public_key h = pk \<and> unat (hdr_counter h) + 1 < 2 ^ 32 \<and>
     opens C ck (rs_local_identity_key R) (rs_remote_identity_key R) h ct pt \<and>
     (hdr_counter h \<in> pending pk R \<or>
      rs_receive_counter R \<le> hdr_counter h \<and>
      skipped_len (rs_skipped_message_keys R) +
        (unat (hdr_counter h) - unat (rs_receive_counter R)) \<le> skipped_max))"

abbreviation msg_counter :: "(ratchet_header \<times> bytes) \<times> bytes \<Rightarrow> u32" where
  "msg_counter m \<equiv> hdr_counter (fst (fst m))"

lemma max_skip_bound: "(a :: u32) \<le> b \<Longrightarrow> unat b - unat a \<le> skipped_max \<Longrightarrow> b - a \<le> max_skip"
  by (simp add: word_le_nat_alt unat_sub max_skip_def skipped_max_def)

text \<open>Decrypting one deliverable message keeps the others deliverable.\<close>

lemma deliver_one:
  assumes C: "hkdf_bounded C" and R: "follows_chain C ck pk R" and m: "deliverable C ck pk R ((h, ct), pt)"
  obtains R' where "ratchet_decrypt C draw R h ct = (Inr pt, R')" "follows_chain C ck pk R'"
    and "\<And>m'. deliverable C ck pk R m' \<Longrightarrow> msg_counter m' \<noteq> hdr_counter h \<Longrightarrow> deliverable C ck pk R' m'"
proof (cases "hdr_counter h \<in> pending pk R")
  case True
  with m decrypt_kept[OF R, of h ct pt draw] obtain R' where R':
    "ratchet_decrypt C draw R h ct = (Inr pt, R')" "follows_chain C ck pk R'"
    "pending pk R' = pending pk R - {hdr_counter h}" "rs_receive_counter R' = rs_receive_counter R"
    "skipped_len (rs_skipped_message_keys R') \<le> skipped_len (rs_skipped_message_keys R)"
    "rs_local_identity_key R' = rs_local_identity_key R" "rs_remote_identity_key R' = rs_remote_identity_key R"
    by (auto simp: deliverable_def)
  show thesis
  proof (rule that[OF R'(1,2)])
    fix m' assume m': "deliverable C ck pk R m'" and neq: "msg_counter m' \<noteq> hdr_counter h"
    obtain h' ct' pt' where eq: "m' = ((h', ct'), pt')" by (metis prod.exhaust)
    with neq have "hdr_counter h' \<noteq> hdr_counter h" by simp
    with m' show "deliverable C ck pk R' m'"
      unfolding deliverable_def eq prod.case R'(3,4,6,7) using R'(5) by (meson DiffI add_le_mono1 le_trans singletonD)
  qed
next
  case False
  with m have ahead: "rs_receive_counter R \<le> hdr_counter h"
    and room: "skipped_len (rs_skipped_message_keys R) +
      (unat (hdr_counter h) - unat (rs_receive_counter R)) \<le> skipped_max"
    and h: "hdr_ratchet_public_key h = pk" "unat (hdr_counter h) + 1 < 2 ^ 32"
      "opens C ck (rs_local_identity_key R) (rs_remote_identity_key R) h ct pt"
    by (auto simp: deliverable_def)
  from room have gap: "hdr_counter h - rs_receive_counter R \<le> max_skip"
    using ahead by (intro max_skip_bound) simp_all
  obtain R' where R':
    "ratchet_decrypt C draw R h ct = (Inr pt, R')" "follows_chain C ck pk R'"
    "pending pk R' = pending pk R \<union> {c. rs_receive_counter R \<le> c \<and> c < hdr_counter h}"
    "rs_receive_counter R' = hdr_counter h + 1"
    "skipped_len (rs_skipped_message_keys R') =
      skipped_len (rs_skipped_message_keys R) + (unat (hdr_counter h) - unat (rs_receive_counter R))"
    "rs_local_identity_key R' = rs_local_identity_key R" "rs_remote_identity_key R' = rs_remote_identity_key R"
    "hdr_counter h = rs_receive_counter R \<longrightarrow> rs_skipped_message_keys R' = rs_skipped_message_keys R"
    by (rule decrypt_ahead[OF C R h(1) ahead gap room h(3,2), of draw])
  have succ: "unat (hdr_counter h + 1) = unat (hdr_counter h) + 1"
    using h(2) by (simp add: checked_add_1_Some)
  show thesis
  proof (rule that[OF R'(1,2)])
    fix m' assume m': "deliverable C ck pk R m'" and neq: "msg_counter m' \<noteq> hdr_counter h"
    obtain h' ct' pt' where eq: "m' = ((h', ct'), pt')" by (metis prod.exhaust)
    let ?c' = "hdr_counter h'" and ?c = "hdr_counter h" and ?n = "rs_receive_counter R"
      and ?len = "skipped_len (rs_skipped_message_keys R)"
    from neq eq have neq': "?c' \<noteq> ?c" by simp
    from m' have h': "hdr_ratchet_public_key h' = pk" "unat ?c' + 1 < 2 ^ 32"
      "opens C ck (rs_local_identity_key R) (rs_remote_identity_key R) h' ct' pt'"
      and where': "?c' \<in> pending pk R \<or> ?n \<le> ?c' \<and> ?len + (unat ?c' - unat ?n) \<le> skipped_max"
      by (simp_all add: deliverable_def eq)
    have "?c' \<in> pending pk R' \<or>
        ?c + 1 \<le> ?c' \<and> ?len + (unat ?c - unat ?n) + (unat ?c' - unat (?c + 1)) \<le> skipped_max"
    proof (cases "?c' \<in> pending pk R \<or> ?c' < ?c")
      case True
      with where' R'(3) show ?thesis by blast
    next
      case False
      with neq' have "?c < ?c'" by (metis linorder_less_linear)
      then have "unat ?c < unat ?c'" by (simp add: word_less_nat_alt)
      moreover from ahead have "unat ?n \<le> unat ?c" by (simp add: word_le_nat_alt)
      moreover from False where' have "?len + (unat ?c' - unat ?n) \<le> skipped_max" by blast
      ultimately have "unat ?c + 1 \<le> unat ?c' \<and>
          ?len + (unat ?c - unat ?n) + (unat ?c' - (unat ?c + 1)) \<le> skipped_max" by linarith
      then show ?thesis unfolding word_le_nat_alt succ by blast
    qed
    then show "deliverable C ck pk R' m'"
      unfolding deliverable_def eq R'(4-7) prod.case using h' by simp
  qed
qed

lemma deliver_all:
  assumes "hkdf_bounded C" "follows_chain C ck pk R" "\<forall>m \<in> set xs. deliverable C ck pk R m"
    and "distinct (map msg_counter xs)" "length draws = length xs"
  shows "fst (decrypt_all C R (zip draws (map fst xs))) = map (\<lambda>m. Inr (snd m)) xs"
  using assms
proof (induction xs arbitrary: R draws)
  case Nil
  then show ?case by simp
next
  case (Cons x xs)
  obtain h ct pt where x: "x = ((h, ct), pt)" by (metis prod.exhaust)
  from Cons.prems(5) obtain draw ds where draws: "draws = draw # ds" "length ds = length xs"
    by (cases draws) auto
  from Cons.prems(1-3) x deliver_one[of C ck pk R h ct pt draw] obtain R' where
    R': "ratchet_decrypt C draw R h ct = (Inr pt, R')" "follows_chain C ck pk R'"
      "\<And>m'. deliverable C ck pk R m' \<Longrightarrow> msg_counter m' \<noteq> hdr_counter h \<Longrightarrow> deliverable C ck pk R' m'"
    by auto
  have "\<forall>m \<in> set xs. deliverable C ck pk R' m"
    using Cons.prems(3,4) x by (auto intro!: R'(3) simp: image_iff)
  with Cons.IH[OF Cons.prems(1) R'(2) _ _ draws(2)] Cons.prems(4)
  have "fst (decrypt_all C R' (zip ds (map fst xs))) = map (\<lambda>m. Inr (snd m)) xs" by simp
  with R'(1) show ?case by (simp add: draws x Let_def case_prod_unfold)
qed

section \<open>The sender's side\<close>

definition sends_on :: "crypto_lib \<Rightarrow> chain_key \<Rightarrow> ratchet_state \<Rightarrow> bool" where
  "sends_on C ck S \<longleftrightarrow>
     rs_sending_chain_key S = Some (chain_at C ck (unat (rs_send_counter S))) \<and>
     wf_pub (xkp_public_key (rs_dh_key_pair S)) \<and>
     wf_pub (rs_local_identity_key S) \<and> wf_pub (rs_remote_identity_key S)"

text \<open>A nonce that was drawn and a plaintext within the limit of the AEAD.\<close>

definition sendable :: "bytes option \<times> bytes \<Rightarrow> bool" where
  "sendable m \<longleftrightarrow> (\<exists>n. fst m = Some n \<and> length n = 12) \<and> length (snd m) \<le> aes_max"

lemma encrypt_on_chain:
  assumes "hkdf_bounded C" "aead_correct C" "sends_on C ck S" "sendable (nd, pt)"
    and "unat (rs_send_counter S) + 1 < 2 ^ 32"
  obtains h ct where
    "ratchet_encrypt C nd S pt = (Inr (h, ct),
       S\<lparr>rs_sending_chain_key := Some (chain_at C ck (unat (rs_send_counter S + 1))),
         rs_send_counter := rs_send_counter S + 1\<rparr>)"
    and "hdr_ratchet_public_key h = xkp_public_key (rs_dh_key_pair S)"
    and "hdr_counter h = rs_send_counter S" "hdr_previous_counter h = rs_previous_counter S"
    and "opens C ck (rs_local_identity_key S) (rs_remote_identity_key S) h ct pt"
    and "sends_on C ck (S\<lparr>rs_sending_chain_key := Some (chain_at C ck (unat (rs_send_counter S + 1))),
         rs_send_counter := rs_send_counter S + 1\<rparr>)"
proof -
  let ?n = "rs_send_counter S" and ?ck = "chain_at C ck (unat (rs_send_counter S))"
  from assms(4) obtain n where n: "nd = Some n" "length n = 12" "length pt \<le> aes_max"
    by (auto simp: sendable_def)
  define h where "h = \<lparr>hdr_ratchet_public_key = xkp_public_key (rs_dh_key_pair S), hdr_counter = ?n,
      hdr_previous_counter = rs_previous_counter S, hdr_nonce = AesNonce n\<rparr>"
  let ?aad = "build_ratchet_aad (rs_local_identity_key S) (rs_remote_identity_key S) h"
  have "length ?aad \<le> aes_max"
    using assms(3) by (simp add: length_build_ratchet_aad sends_on_def h_def aes_max_def)
  moreover have "length (aes_key_bytes (aes_key_of_message_key (msg_key C ?ck))) = 32"
    using assms(1) by (simp add: aes_key_of_message_key_def size_simps)
  ultimately obtain ct where ct: "aes_gcm_encrypt C (aes_key_of_message_key (msg_key C ?ck)) (AesNonce n) pt ?aad = Inr ct"
    "aes_gcm_decrypt C (aes_key_of_message_key (msg_key C ?ck)) (AesNonce n) ct ?aad = Inr pt"
    using aes_gcm_round_trip[OF assms(2), of _ "AesNonce n" pt ?aad] n by auto
  have succ: "unat (?n + 1) = Suc (unat ?n)" using assms(5) by (simp add: checked_add_1_Some)
  have "ratchet_encrypt C nd S pt = (Inr (h, ct),
       S\<lparr>rs_sending_chain_key := Some (chain_at C ck (unat (?n + 1))), rs_send_counter := ?n + 1\<rparr>)"
    using assms(3,5) ct(1) succ
    by (simp add: ratchet_encrypt_def checked_add_1_Some sends_on_def split_chain_key_ok[OF assms(1)]
        generate_nonce_def n(1) h_def[symmetric] Let_def chain_at_Suc) 
  moreover have "opens C ck (rs_local_identity_key S) (rs_remote_identity_key S) h ct pt"
    using ct(2) by (simp add: opens_def h_def)
  ultimately show thesis
    using assms(3) by (intro that[of h ct]) (simp_all add: h_def sends_on_def)
qed

text \<open>
  The messages a run of encryptions on one chain puts out: they are numbered consecutively, carry
  the sender's ratchet key, and each opens to its plaintext under the chain's key for its number.
\<close>

definition chain_run ::
  "crypto_lib \<Rightarrow> chain_key \<Rightarrow> ratchet_state \<Rightarrow> bytes list \<Rightarrow> (ratchet_header \<times> bytes) list \<Rightarrow> bool"
where
  "chain_run C ck S pts outs \<longleftrightarrow> length outs = length pts \<and>
     map (\<lambda>m. unat (hdr_counter (fst m))) outs =
       [unat (rs_send_counter S)..<unat (rs_send_counter S) + length pts] \<and>
     (\<forall>m \<in> set outs. hdr_ratchet_public_key (fst m) = xkp_public_key (rs_dh_key_pair S) \<and>
        hdr_previous_counter (fst m) = rs_previous_counter S) \<and>
     (\<forall>(m, pt) \<in> set (zip outs pts).
        opens C ck (rs_local_identity_key S) (rs_remote_identity_key S) (fst m) (snd m) pt)"

lemma chain_run_Cons:
  assumes "hdr_ratchet_public_key h = xkp_public_key (rs_dh_key_pair S)" "hdr_counter h = rs_send_counter S"
    and "hdr_previous_counter h = rs_previous_counter S"
    and "opens C ck (rs_local_identity_key S) (rs_remote_identity_key S) h ct pt"
    and "unat (rs_send_counter S) + 1 < 2 ^ 32"
    and "chain_run C ck (S\<lparr>rs_sending_chain_key := k, rs_send_counter := rs_send_counter S + 1\<rparr>) pts outs"
  shows "chain_run C ck S (pt # pts) ((h, ct) # outs)"
proof -
  have "unat (rs_send_counter S + 1) = Suc (unat (rs_send_counter S))"
    using assms(5) by (simp add: checked_add_1_Some)
  with assms(6) have "map (\<lambda>m. unat (hdr_counter (fst m))) outs =
      [Suc (unat (rs_send_counter S))..<Suc (unat (rs_send_counter S)) + length pts]"
    unfolding chain_run_def by simp
  moreover have "[unat (rs_send_counter S)..<unat (rs_send_counter S) + length (pt # pts)] =
      unat (rs_send_counter S) # [Suc (unat (rs_send_counter S))..<Suc (unat (rs_send_counter S)) + length pts]"
    by (subst upt_conv_Cons) simp_all
  ultimately show ?thesis
    using assms unfolding chain_run_def by (simp del: upt_Suc)
qed

lemma encrypt_all_on_chain:
  assumes "hkdf_bounded C" "aead_correct C" "sends_on C ck S" "\<forall>m \<in> set ms. sendable m"
    and "unat (rs_send_counter S) + length ms < 2 ^ 32"
  shows "\<exists>outs. encrypt_all C S ms = (map Inr outs,
       S\<lparr>rs_sending_chain_key := Some (chain_at C ck (unat (rs_send_counter S) + length ms)),
         rs_send_counter := rs_send_counter S + word_of_nat (length ms)\<rparr>) \<and>
     chain_run C ck S (map snd ms) outs"
  using assms(3-5)
proof (induction ms arbitrary: S)
  case Nil
  then have "S\<lparr>rs_sending_chain_key := Some (chain_at C ck (unat (rs_send_counter S)))\<rparr> = S"
    by (simp add: sends_on_def)
  then show ?case by (simp add: chain_run_def)
next
  case (Cons m ms)
  let ?n = "rs_send_counter S"
  obtain nd pt where m: "m = (nd, pt)" by (cases m)
  let ?S = "S\<lparr>rs_sending_chain_key := Some (chain_at C ck (unat (?n + 1))), rs_send_counter := ?n + 1\<rparr>"
  have bound: "unat ?n + 1 < 2 ^ 32" and sendable: "sendable (nd, pt)"
    using Cons.prems(2,3) m by simp_all
  from bound have succ: "unat (?n + 1) = unat ?n + 1" by (simp add: checked_add_1_Some)
  obtain h ct where one: "ratchet_encrypt C nd S pt = (Inr (h, ct), ?S)"
    "hdr_ratchet_public_key h = xkp_public_key (rs_dh_key_pair S)"
    "hdr_counter h = ?n" "hdr_previous_counter h = rs_previous_counter S"
    "opens C ck (rs_local_identity_key S) (rs_remote_identity_key S) h ct pt" "sends_on C ck ?S"
    by (rule encrypt_on_chain[OF assms(1,2) Cons.prems(1) sendable bound])
  have "\<forall>m \<in> set ms. sendable m" "unat (rs_send_counter ?S) + length ms < 2 ^ 32"
    using Cons.prems(2,3) succ by simp_all
  from Cons.IH[OF one(6) this] obtain outs where
    outs: "encrypt_all C ?S ms = (map Inr outs,
       ?S\<lparr>rs_sending_chain_key := Some (chain_at C ck (unat (?n + 1) + length ms)),
         rs_send_counter := ?n + 1 + word_of_nat (length ms)\<rparr>)"
    and run: "chain_run C ck ?S (map snd ms) outs" by auto
  have "chain_run C ck S (pt # map snd ms) ((h, ct) # outs)"
    by (rule chain_run_Cons[OF one(2-5) bound run])
  moreover have "encrypt_all C S (m # ms) = (map Inr ((h, ct) # outs),
      S\<lparr>rs_sending_chain_key := Some (chain_at C ck (unat ?n + length (m # ms))),
        rs_send_counter := ?n + word_of_nat (length (m # ms))\<rparr>)"
    using one(1) outs succ by (simp add: m ac_simps)
  ultimately show ?case using m by (intro exI[of _ "(h, ct) # outs"]) simp
qed

section \<open>The delivery theorem\<close>

text \<open>The two ends of a chain in step: the receiver has taken as many messages as were sent.\<close>

definition in_step :: "crypto_lib \<Rightarrow> chain_key \<Rightarrow> ratchet_state \<Rightarrow> ratchet_state \<Rightarrow> bool" where
  "in_step C ck S R \<longleftrightarrow> sends_on C ck S \<and>
     follows_chain C ck (xkp_public_key (rs_dh_key_pair S)) R \<and>
     rs_receive_counter R = rs_send_counter S \<and>
     rs_local_identity_key R = rs_remote_identity_key S \<and>
     rs_remote_identity_key R = rs_local_identity_key S"

lemma in_step_deliverable:
  assumes "in_step C ck S R" "skipped_len (rs_skipped_message_keys R) + length pts \<le> skipped_max"
    and "unat (rs_send_counter S) + length pts < 2 ^ 32" "chain_run C ck S pts outs"
    and "m \<in> set (zip outs pts)"
  shows "deliverable C ck (xkp_public_key (rs_dh_key_pair S)) R m"
proof -
  obtain h ct pt where m: "m = ((h, ct), pt)" by (metis prod.exhaust)
  with assms(5) have out: "(h, ct) \<in> set outs" by (metis set_zip_leftD)
  have "unat (hdr_counter h) \<in> set (map (\<lambda>m. unat (hdr_counter (fst m))) outs)"
    using out by force
  then have "unat (rs_send_counter S) \<le> unat (hdr_counter h)"
    "unat (hdr_counter h) < unat (rs_send_counter S) + length pts"
    using assms(4) unfolding chain_run_def by auto
  moreover have "opens C ck (rs_local_identity_key S) (rs_remote_identity_key S) h ct pt"
    using assms(4,5) m by (fastforce simp: chain_run_def)
  then have "opens C ck (rs_local_identity_key R) (rs_remote_identity_key R) h ct pt"
    using assms(1) by (simp add: in_step_def opens_swap)
  moreover have "hdr_ratchet_public_key h = xkp_public_key (rs_dh_key_pair S)"
    using assms(4) out by (fastforce simp: chain_run_def)
  moreover from calculation(1,2) have "skipped_len (rs_skipped_message_keys R) +
      (unat (hdr_counter h) - unat (rs_send_counter S)) \<le> skipped_max"
    using assms(2) by linarith
  ultimately show ?thesis
    using assms(1,3) unfolding m deliverable_def in_step_def word_le_nat_alt prod.case by auto
qed

lemma distinct_counters:
  assumes "chain_run C ck S pts outs" "mset xs \<subseteq># mset (zip outs pts)"
  shows "distinct (map msg_counter xs)"
proof -
  have len: "length outs = length pts" and "distinct (map (\<lambda>m. unat (hdr_counter (fst m))) outs)"
    using assms(1) by (simp_all add: chain_run_def)
  then have "distinct (map (\<lambda>m. hdr_counter (fst m)) (map fst (zip outs pts)))"
    by (simp add: distinct_map inj_on_def)
  then have "distinct (map msg_counter (zip outs pts))" by (simp add: comp_def)
  moreover obtain ys where "mset (zip outs pts) = mset (xs @ ys)"
    using assms(2) by (metis ex_mset mset_append subset_mset.le_iff_add)
  then have "mset (map msg_counter (zip outs pts)) = mset (map msg_counter (xs @ ys))"
    unfolding mset_map by simp
  ultimately have "distinct (map msg_counter (xs @ ys))"
    using mset_eq_imp_distinct_iff by blast
  then show ?thesis by simp
qed

lemma delivery:
  assumes "hkdf_bounded C" "aead_correct C" "in_step C ck S R" "\<forall>m \<in> set ms. sendable m"
    and "unat (rs_send_counter S) + length ms < 2 ^ 32"
    and "skipped_len (rs_skipped_message_keys R) + length ms \<le> skipped_max"
  obtains outs where "fst (encrypt_all C S ms) = map Inr outs" "length outs = length ms"
    and "\<And>xs draws. mset xs \<subseteq># mset (zip outs (map snd ms)) \<Longrightarrow> length draws = length xs \<Longrightarrow>
      fst (decrypt_all C R (zip draws (map fst xs))) = map (\<lambda>m. Inr (snd m)) xs"
proof -
  have S: "sends_on C ck S" and R: "follows_chain C ck (xkp_public_key (rs_dh_key_pair S)) R"
    using assms(3) by (simp_all add: in_step_def)
  from encrypt_all_on_chain[OF assms(1,2) S assms(4,5)] obtain outs where
    outs: "fst (encrypt_all C S ms) = map Inr outs" and run: "chain_run C ck S (map snd ms) outs"
    by auto
  have len: "length (map snd ms) = length ms" by simp
  show thesis
  proof (rule that[OF outs])
    show "length outs = length ms" using run by (simp add: chain_run_def)
  next
    fix xs and draws :: "bytes list"
    assume sub: "mset xs \<subseteq># mset (zip outs (map snd ms))" and draws: "length draws = length xs"
    have "\<forall>m \<in> set xs. deliverable C ck (xkp_public_key (rs_dh_key_pair S)) R m"
    proof
      fix m assume "m \<in> set xs"
      with set_mset_mono[OF sub] have "m \<in> set (zip outs (map snd ms))" unfolding set_mset_mset by (rule subsetD)
      then show "deliverable C ck (xkp_public_key (rs_dh_key_pair S)) R m"
        by (rule in_step_deliverable[OF assms(3) assms(6,5)[folded len] run])
    qed
    from deliver_all[OF assms(1) R this distinct_counters[OF run sub] draws]
    show "fst (decrypt_all C R (zip draws (map fst xs))) = map (\<lambda>m. Inr (snd m)) xs" .
  qed
qed

end
