(* ===== verification/Ratchet_Channel.thy ===== *)
theory Ratchet_Channel
  imports Ratchet_Delivery
begin

text \<open>
  One direction of a conversation: a sender, a receiver and the messages between them that have not
  been delivered. The invariant \<open>channel\<close> says that the undelivered messages are exactly those the
  receiver can still open: their key is in its store, or they lie ahead on the chain it reads, or
  they are on the sender's new chain, which the receiver has not seen yet.
\<close>

section \<open>The invariant\<close>

type_synonym message = "ratchet_header \<times> bytes \<times> bytes"

abbreviation pub :: "ratchet_state \<Rightarrow> x25519_public_key" where
  "pub S \<equiv> xkp_public_key (rs_dh_key_pair S)"

definition mkey :: "message \<Rightarrow> x25519_public_key \<times> u32" where
  "mkey m = (hdr_ratchet_public_key (fst m), hdr_counter (fst m))"

text \<open>Where the chain the receiver reads ends: \<open>ahead\<close> says that the sender has a newer one.\<close>

definition limit :: "ratchet_state \<Rightarrow> bool \<Rightarrow> u32" where
  "limit S ahead = (if ahead then rs_previous_counter S else rs_send_counter S)"

definition expected ::
  "ratchet_state \<Rightarrow> ratchet_state \<Rightarrow> bool \<Rightarrow> x25519_public_key option \<Rightarrow> (x25519_public_key \<times> u32) list"
where
  "expected S R ahead cur =
     map fst (skipped_alist (rs_skipped_message_keys R)) @
     (case cur of None \<Rightarrow> []
      | Some pk \<Rightarrow> map (Pair pk) (u32_range (rs_receive_counter R) (limit S ahead))) @
     (if ahead then map (Pair (pub S)) (u32_range 0 (rs_send_counter S)) else [])"

text \<open>\<open>hist\<close> gives the first key of every chain the sender has used, by its ratchet key.\<close>

type_synonym chains = "x25519_public_key \<Rightarrow> chain_key option"

definition sender_ok :: "crypto_lib \<Rightarrow> chains \<Rightarrow> ratchet_state \<Rightarrow> bool" where
  "sender_ok C hist S \<longleftrightarrow> (\<exists>ck. hist (pub S) = Some ck \<and>
     rs_sending_chain_key S = Some (chain_at C ck (unat (rs_send_counter S))))"

definition reader_ok ::
  "crypto_lib \<Rightarrow> chains \<Rightarrow> ratchet_state \<Rightarrow> u32 \<Rightarrow> x25519_public_key option \<Rightarrow> bool"
where
  "reader_ok C hist R lim cur \<longleftrightarrow> (\<forall>pk. cur = Some pk \<longrightarrow> rs_receive_counter R \<le> lim \<and>
     (\<exists>ck. hist pk = Some ck \<and>
        rs_receiving_chain_key R = Some (chain_at C ck (unat (rs_receive_counter R)))))"

definition store_ok :: "crypto_lib \<Rightarrow> chains \<Rightarrow> skipped_key_store \<Rightarrow> bool" where
  "store_ok C hist s \<longleftrightarrow> (\<forall>((pk, c), k) \<in> set (skipped_alist s).
     \<exists>ck. hist pk = Some ck \<and> k = msg_key C (chain_at C ck (unat c)))"

definition message_ok ::
  "crypto_lib \<Rightarrow> chains \<Rightarrow> ratchet_state \<Rightarrow> x25519_public_key \<Rightarrow> x25519_public_key \<Rightarrow> message \<Rightarrow> bool"
where
  "message_ok C hist S l r m \<longleftrightarrow> (case m of (h, ct, pt) \<Rightarrow>
     (\<exists>ck. hist (hdr_ratchet_public_key h) = Some ck \<and> opens C ck l r h ct pt) \<and>
     unat (hdr_counter h) + 1 < 2 ^ 32 \<and>
     (hdr_ratchet_public_key h = pub S \<longrightarrow>
        hdr_counter h < rs_send_counter S \<and> hdr_previous_counter h = rs_previous_counter S))"

definition channel ::
  "crypto_lib \<Rightarrow> chains \<Rightarrow> ratchet_state \<Rightarrow> ratchet_state \<Rightarrow> bool \<Rightarrow> x25519_public_key option \<Rightarrow>
   message multiset \<Rightarrow> bool"
where
  "channel C hist S R ahead cur net \<longleftrightarrow>
     sender_ok C hist S \<and> reader_ok C hist R (limit S ahead) cur \<and>
     store_ok C hist (rs_skipped_message_keys R) \<and>
     (ahead \<longleftrightarrow> cur \<noteq> Some (pub S)) \<and>
     distinct (expected S R ahead cur) \<and>
     image_mset mkey net = mset (expected S R ahead cur) \<and>
     (\<forall>m \<in># net. message_ok C hist S (rs_local_identity_key R) (rs_remote_identity_key R) m)"

lemma channelI:
  assumes "sender_ok C hist S" "reader_ok C hist R (limit S ahead) cur"
    and "store_ok C hist (rs_skipped_message_keys R)" "ahead \<longleftrightarrow> cur \<noteq> Some (pub S)"
    and "distinct (expected S R ahead cur)" "image_mset mkey net = mset (expected S R ahead cur)"
    and "\<And>m. m \<in># net \<Longrightarrow> message_ok C hist S (rs_local_identity_key R) (rs_remote_identity_key R) m"
  shows "channel C hist S R ahead cur net"
  unfolding channel_def using assms by blast

lemma channelD:
  assumes "channel C hist S R ahead cur net"
  shows "sender_ok C hist S" "reader_ok C hist R (limit S ahead) cur"
    "store_ok C hist (rs_skipped_message_keys R)" "ahead \<longleftrightarrow> cur \<noteq> Some (pub S)"
    "distinct (expected S R ahead cur)" "image_mset mkey net = mset (expected S R ahead cur)"
    "m \<in># net \<Longrightarrow> message_ok C hist S (rs_local_identity_key R) (rs_remote_identity_key R) m"
  using assms unfolding channel_def by blast+

text \<open>The invariant reads the sender's half of one state and the receiver's half of the other.\<close>

lemma channel_frame:
  assumes "channel C hist S R ahead cur net"
    and "pub S' = pub S" "rs_sending_chain_key S' = rs_sending_chain_key S"
    and "rs_send_counter S' = rs_send_counter S" "rs_previous_counter S' = rs_previous_counter S"
    and "rs_skipped_message_keys R' = rs_skipped_message_keys R"
    and "rs_receiving_chain_key R' = rs_receiving_chain_key R"
    and "rs_receive_counter R' = rs_receive_counter R"
    and "rs_local_identity_key R' = rs_local_identity_key R"
    and "rs_remote_identity_key R' = rs_remote_identity_key R"
  shows "channel C hist S' R' ahead cur net"
  using assms(1)
  unfolding channel_def sender_ok_def reader_ok_def message_ok_def expected_def limit_def assms(2-) .

text \<open>All undelivered messages fit into the receiver's store.\<close>

lemma channel_size:
  assumes "channel C hist S R ahead cur net"
  shows "size net = length (expected S R ahead cur)"
proof -
  have "size (image_mset mkey net) = size (mset (expected S R ahead cur))"
    using assms by (simp add: channel_def)
  then show ?thesis by simp
qed

lemma channel_expected:
  assumes "channel C hist S R ahead cur net" "m \<in># net"
  shows "mkey m \<in> set (expected S R ahead cur)"
proof -
  have "mkey m \<in># image_mset mkey net" using assms(2) by simp
  with assms(1) show ?thesis by (simp add: channel_def)
qed

lemma mset_minus_msg: "m \<in># net \<Longrightarrow> image_mset mkey (net - {#m#}) = image_mset mkey net - {#mkey m#}"
  by (simp add: image_mset_Diff)

lemma u32_range_empty [simp]: "u32_range a a = []"
  by (simp add: u32_range_def)

lemma u32_range_append: "a \<le> b \<Longrightarrow> b \<le> c \<Longrightarrow> u32_range a c = u32_range a b @ u32_range b c"
proof -
  assume "a \<le> b" "b \<le> c"
  then have "unat a \<le> unat b" "unat b \<le> unat c" by (simp_all add: word_le_nat_alt)
  then have "[unat a..<unat c] = [unat a..<unat b] @ [unat b..<unat c]"
    by (metis le_add_diff_inverse upt_add_eq_append)
  then show ?thesis by (simp add: u32_range_def)
qed

lemma u32_range_one: "unat a + 1 < 2 ^ 32 \<Longrightarrow> u32_range a (a + 1) = [a]"
  by (simp add: u32_range_def checked_add_1_Some upt_rec)

lemma u32_succ_le:
  "unat (a :: u32) + 1 < 2 ^ 32 \<Longrightarrow> a \<le> a + 1" "unat a + 1 < 2 ^ 32 \<Longrightarrow> a + 1 \<le> b \<longleftrightarrow> a < b"
  using checked_add_1_Some[of a] by (simp_all add: word_le_nat_alt word_less_nat_alt Suc_le_eq)

lemma u32_range_split:
  assumes "a \<le> c" "c < b" "unat c + 1 < 2 ^ 32"
  shows "u32_range a b = u32_range a c @ c # u32_range (c + 1) b"
proof -
  have "u32_range c b = u32_range c (c + 1) @ u32_range (c + 1) b"
    using assms by (intro u32_range_append) (simp_all add: u32_succ_le)
  with assms u32_range_append[of a c b] show ?thesis by (simp add: u32_range_one)
qed

lemma u32_range_snoc: "a \<le> b \<Longrightarrow> unat b + 1 < 2 ^ 32 \<Longrightarrow> u32_range a (b + 1) = u32_range a b @ [b]"
  using u32_range_append[of a b "b + 1"] by (simp add: u32_succ_le u32_range_one)

section \<open>Sending\<close>

lemma expected_send:
  assumes "ahead \<longleftrightarrow> cur \<noteq> Some (pub S)" "unat (rs_send_counter S) + 1 < 2 ^ 32"
    and "\<not> ahead \<longrightarrow> rs_receive_counter R \<le> rs_send_counter S"
  shows "expected (S\<lparr>rs_sending_chain_key := k, rs_send_counter := rs_send_counter S + 1\<rparr>) R ahead cur =
    expected S R ahead cur @ [(pub S, rs_send_counter S)]"
  using assms by (cases ahead) (simp_all add: expected_def limit_def u32_range_snoc split: option.split)

lemma channel_send:
  assumes C: "hkdf_bounded C" "aead_correct C" and ch: "channel C hist S R ahead cur net"
    and m: "sendable (nd, pt)" "unat (rs_send_counter S) + 1 < 2 ^ 32"
    and ids: "rs_local_identity_key R = rs_remote_identity_key S"
      "rs_remote_identity_key R = rs_local_identity_key S"
    and wf: "wf_pub (pub S)" "wf_pub (rs_local_identity_key S)" "wf_pub (rs_remote_identity_key S)"
  shows "\<exists>h ct k. ratchet_encrypt C nd S pt =
      (Inr (h, ct), S\<lparr>rs_sending_chain_key := k, rs_send_counter := rs_send_counter S + 1\<rparr>) \<and>
    channel C hist (S\<lparr>rs_sending_chain_key := k, rs_send_counter := rs_send_counter S + 1\<rparr>) R
      ahead cur (add_mset (h, ct, pt) net)"
proof -
  from ch obtain ck where ck: "hist (pub S) = Some ck"
    "rs_sending_chain_key S = Some (chain_at C ck (unat (rs_send_counter S)))"
    by (auto simp: channel_def sender_ok_def)
  let ?n = "rs_send_counter S"
  have sends: "sends_on C ck S" using ck wf by (simp add: sends_on_def)
  let ?S = "S\<lparr>rs_sending_chain_key := Some (chain_at C ck (unat (?n + 1))), rs_send_counter := ?n + 1\<rparr>"
  obtain h ct where enc: "ratchet_encrypt C nd S pt = (Inr (h, ct), ?S)"
    and h: "hdr_ratchet_public_key h = pub S" "hdr_counter h = ?n" "hdr_previous_counter h = rs_previous_counter S"
    and opens: "opens C ck (rs_local_identity_key S) (rs_remote_identity_key S) h ct pt"
    by (rule encrypt_on_chain[OF C sends m])
  have mkey: "mkey (h, ct, pt) = (pub S, ?n)" using h by (simp add: mkey_def)
  have ahead: "ahead \<longleftrightarrow> cur \<noteq> Some (pub S)"
    and keys: "image_mset mkey net = mset (expected S R ahead cur)"
    and msgs: "\<forall>m \<in># net. message_ok C hist S (rs_local_identity_key R) (rs_remote_identity_key R) m"
    and reader: "reader_ok C hist R (limit S ahead) cur"
    using ch unfolding channel_def by blast+
  have le: "\<not> ahead \<longrightarrow> rs_receive_counter R \<le> ?n"
    using reader ahead by (auto simp: reader_ok_def limit_def)
  have exp: "expected ?S R ahead cur = expected S R ahead cur @ [(pub S, ?n)]"
    by (rule expected_send[OF ahead m(2) le])
  have new: "(pub S, ?n) \<notin> set (expected S R ahead cur)"
  proof
    assume "(pub S, ?n) \<in> set (expected S R ahead cur)"
    then have "(pub S, ?n) \<in># image_mset mkey net" by (simp add: keys)
    then obtain m where "m \<in># net" "mkey m = (pub S, ?n)" by auto
    with msgs show False by (cases m) (auto simp: message_ok_def mkey_def)
  qed
  have "channel C hist ?S R ahead cur (add_mset (h, ct, pt) net)"
  proof (rule channelI)
    show "sender_ok C hist ?S" using ck(1) by (simp add: sender_ok_def)
    show "reader_ok C hist R (limit ?S ahead) cur"
      using reader le order_trans[OF _ u32_succ_le(1)[OF m(2)]]
      by (cases ahead) (auto simp: reader_ok_def limit_def)
    show "store_ok C hist (rs_skipped_message_keys R)" by (rule channelD(3)[OF ch])
    show "ahead \<longleftrightarrow> cur \<noteq> Some (pub ?S)" using ahead by simp
    show "distinct (expected ?S R ahead cur)" unfolding exp using new channelD(5)[OF ch] by simp
    show "image_mset mkey (add_mset (h, ct, pt) net) = mset (expected ?S R ahead cur)"
      unfolding exp using keys by (simp add: mkey)
    show "message_ok C hist ?S (rs_local_identity_key R) (rs_remote_identity_key R) x"
      if "x \<in># add_mset (h, ct, pt) net" for x
      using that msgs h opens ck(1) m(2) ids opens_swap u32_succ_le(2)[OF m(2), of "?n + 1"]
      by (auto simp: message_ok_def intro: less_trans)
  qed
  with enc show ?thesis by blast
qed

section \<open>Receiving\<close>

lemma remove_key:
  assumes "distinct (map fst es)" "k \<in> set (map fst es)"
  shows "map fst (filter (\<lambda>e. fst e \<noteq> k) es) = remove1 k (map fst es)"
  using assms by (simp add: distinct_remove1_removeAll removeAll_filter_not_eq filter_map comp_def)
    (metis (mono_tags, lifting) filter_cong)

text \<open>A message whose key is in the store, from whatever chain.\<close>

lemma channel_kept:
  assumes ch: "channel C hist S R ahead cur net" and mem: "(h, ct, pt) \<in># net"
    and kept: "mkey (h, ct, pt) \<in> fst ` set (skipped_alist (rs_skipped_message_keys R))"
  shows "\<exists>s. ratchet_decrypt C draw R h ct = (Inr pt, R\<lparr>rs_skipped_message_keys := s\<rparr>) \<and>
    channel C hist S (R\<lparr>rs_skipped_message_keys := s\<rparr>) ahead cur (net - {#(h, ct, pt)#})"
proof -
  let ?S = "rs_skipped_message_keys R" and ?pk = "hdr_ratchet_public_key h" and ?c = "hdr_counter h"
  have distinct: "distinct (map fst (skipped_alist ?S))"
    using channelD(5)[OF ch] by (simp add: expected_def)
  from channelD(7)[OF ch mem] obtain ck where ck: "hist ?pk = Some ck"
    "opens C ck (rs_local_identity_key R) (rs_remote_identity_key R) h ct pt"
    and bound: "unat ?c + 1 < 2 ^ 32" by (auto simp: message_ok_def)
  from kept obtain k where k: "((?pk, ?c), k) \<in> set (skipped_alist ?S)" by (auto simp: mkey_def)
  with channelD(3)[OF ch] ck(1) have key: "k = msg_key C (chain_at C ck (unat ?c))"
    by (auto simp: store_ok_def)
  from k distinct have "map_of (skipped_alist ?S) (?pk, ?c) = Some k" by simp
  then obtain s where rem: "skipped_remove ?S ?pk ?c = (Some k, s)"
    using skipped_remove_alist(1)[of ?S ?pk ?c] by (cases "skipped_remove ?S ?pk ?c") simp
  let ?R = "R\<lparr>rs_skipped_message_keys := s\<rparr>"
  have alist: "skipped_alist s = filter (\<lambda>e. fst e \<noteq> (?pk, ?c)) (skipped_alist ?S)"
    using skipped.rem_entries_filter[OF distinct, of "(?pk, ?c)"] by (simp add: rem)
  have keys: "map fst (skipped_alist s) = remove1 (mkey (h, ct, pt)) (map fst (skipped_alist ?S))"
    unfolding alist mkey_def fst_conv using distinct kept by (intro remove_key) (simp_all add: mkey_def)
  have exp: "expected S ?R ahead cur = remove1 (mkey (h, ct, pt)) (expected S R ahead cur)"
    using kept by (simp add: expected_def keys remove1_append split: option.split)
  have "channel C hist S ?R ahead cur (net - {#(h, ct, pt)#})"
  proof (rule channelI)
    show "reader_ok C hist ?R (limit S ahead) cur" using channelD(2)[OF ch] by (simp add: reader_ok_def)
    show "store_ok C hist (rs_skipped_message_keys ?R)"
      using channelD(3)[OF ch] by (auto simp: store_ok_def alist)
    show "distinct (expected S ?R ahead cur)" unfolding exp using channelD(5)[OF ch] by simp
    show "image_mset mkey (net - {#(h, ct, pt)#}) = mset (expected S ?R ahead cur)"
      unfolding exp mset_minus_msg[OF mem] channelD(6)[OF ch] by simp
    show "message_ok C hist S (rs_local_identity_key ?R) (rs_remote_identity_key ?R) m"
      if "m \<in># net - {#(h, ct, pt)#}" for m
      using channelD(7)[OF ch in_diffD[OF that]] by simp
  qed (use channelD[OF ch] in blast)+
  moreover have "ratchet_decrypt C draw R h ct = (Inr pt, ?R)"
    using ck(2) bound rem key by (simp add: ratchet_decrypt_def next_counter_ok opens_def)
  ultimately show ?thesis by blast
qed

text \<open>Skipping to a counter when the store has room for every key on the way.\<close>

lemma skip_to:
  assumes C: "hkdf_bounded C" and "rs_receive_counter R \<le> u"
    and ck: "rs_receiving_chain_key R = Some (chain_at C ck (unat (rs_receive_counter R)))"
    and room: "skipped_len (rs_skipped_message_keys R) + (unat u - unat (rs_receive_counter R)) \<le> skipped_max"
  shows "\<exists>s. skip_message_keys C R pk u = (Inr (), R\<lparr>rs_skipped_message_keys := s,
        rs_receiving_chain_key := Some (chain_at C ck (unat u)), rs_receive_counter := u\<rparr>) \<and>
    skipped_alist s = skipped_alist (rs_skipped_message_keys R) @
      skipped_run C pk (u32_range (rs_receive_counter R) u) (chain_at C ck (unat (rs_receive_counter R)))"
proof (cases "u = rs_receive_counter R")
  case True
  have same: "R\<lparr>rs_receiving_chain_key := Some (chain_at C ck (unat (rs_receive_counter R)))\<rparr> = R"
    using ck by simp
  show ?thesis unfolding True
    by (intro exI[of _ "rs_skipped_message_keys R"]) (simp add: skip_message_keys_behind same)
next
  case False
  with assms(2) have lt: "rs_receive_counter R < u" by simp
  have gap: "u - rs_receive_counter R \<le> max_skip"
    using room assms(2) by (intro max_skip_bound) simp_all
  have "unat (rs_receive_counter R) + (unat u - unat (rs_receive_counter R)) = unat u"
    using assms(2) by (simp add: word_le_nat_alt)
  with skip_message_keys_ahead[OF C lt gap ck, of pk] skip_loop_room[OF C room] show ?thesis
    by (auto simp: chain_at_add)
qed

lemma skipped_run_mem:
  assumes "((pk', c), k) \<in> set (skipped_run C pk (u32_range a b) (chain_at C ck (unat a)))"
  shows "pk' = pk \<and> k = msg_key C (chain_at C ck (unat c))"
proof -
  have "distinct (map fst (skipped_run C pk (u32_range a b) (chain_at C ck (unat a))))"
    by (simp add: skipped_run_keys distinct_map distinct_u32_range inj_on_def)
  with assms have look: "map_of (skipped_run C pk (u32_range a b) (chain_at C ck (unat a))) (pk', c) = Some k"
    by simp
  then show ?thesis
    unfolding skipped_run_lookup by (auto simp: chain_at_add word_le_nat_alt split: if_splits)
qed

lemma store_ok_append:
  assumes "store_ok C hist s" "hist pk = Some ck"
    and "skipped_alist s' = skipped_alist s @ skipped_run C pk (u32_range a b) (chain_at C ck (unat a))"
  shows "store_ok C hist s'"
  using assms by (auto simp: store_ok_def dest: skipped_run_mem)

text \<open>A message on the chain the receiver reads.\<close>

lemma channel_current:
  assumes C: "hkdf_bounded C" and ch: "channel C hist S R ahead (Some pk) net" and mem: "(h, ct, pt) \<in># net"
    and pk: "hdr_ratchet_public_key h = pk"
    and new: "mkey (h, ct, pt) \<notin> fst ` set (skipped_alist (rs_skipped_message_keys R))"
    and room: "size net \<le> skipped_max"
  shows "\<exists>s k n. decrypt_with_current_chain C R h ct = (Inr pt, R\<lparr>rs_skipped_message_keys := s,
        rs_receiving_chain_key := k, rs_receive_counter := n\<rparr>) \<and>
    channel C hist S (R\<lparr>rs_skipped_message_keys := s, rs_receiving_chain_key := k, rs_receive_counter := n\<rparr>)
      ahead (Some pk) (net - {#(h, ct, pt)#})"
proof -
  let ?S = "rs_skipped_message_keys R" and ?c = "hdr_counter h" and ?n = "rs_receive_counter R"
  let ?rest = "if ahead then map (Pair (pub S)) (u32_range 0 (rs_send_counter S)) else []"
  have exp: "expected S R ahead (Some pk) =
      map fst (skipped_alist ?S) @ map (Pair pk) (u32_range ?n (limit S ahead)) @ ?rest"
    by (simp add: expected_def)
  from channelD(2)[OF ch] obtain ck where ck: "hist pk = Some ck"
    "rs_receiving_chain_key R = Some (chain_at C ck (unat ?n))" by (auto simp: reader_ok_def)
  from channelD(7)[OF ch mem] pk ck(1)
  have opens: "opens C ck (rs_local_identity_key R) (rs_remote_identity_key R) h ct pt"
    and bound: "unat ?c + 1 < 2 ^ 32" by (auto simp: message_ok_def)
  have "(pk, ?c) \<notin> set ?rest" using channelD(4)[OF ch] by auto
  with channel_expected[OF ch mem] new have range: "?n \<le> ?c" "?c < limit S ahead"
    by (auto simp: exp mkey_def pk set_u32_range)
  have "length (expected S R ahead (Some pk)) \<le> skipped_max" using channel_size[OF ch] room by simp
  then have "skipped_len ?S + (unat (limit S ahead) - unat ?n) \<le> skipped_max"
    by (simp add: exp skipped_len_def)
  moreover have "unat ?c \<le> unat (limit S ahead)" using range(2) by (simp add: word_less_nat_alt)
  ultimately have room': "skipped_len ?S + (unat ?c - unat ?n) \<le> skipped_max" by linarith
  from skip_to[OF C range(1) ck(2) room', of pk] obtain s where
    skip: "skip_message_keys C R pk ?c = (Inr (), R\<lparr>rs_skipped_message_keys := s,
        rs_receiving_chain_key := Some (chain_at C ck (unat ?c)), rs_receive_counter := ?c\<rparr>)"
    and alist: "skipped_alist s = skipped_alist ?S @
        skipped_run C pk (u32_range ?n ?c) (chain_at C ck (unat ?n))" by blast
  let ?R = "R\<lparr>rs_skipped_message_keys := s,
        rs_receiving_chain_key := Some (chain_at C ck (Suc (unat ?c))), rs_receive_counter := ?c + 1\<rparr>"
  have "decrypt_with_current_chain C R h ct = (Inr pt, ?R)"
    using opens skip range(1) pk bound
    by (simp add: decrypt_with_current_chain_def not_less split_chain_key_ok[OF C] next_counter_ok
        opens_def chain_at_Suc)
  moreover have "channel C hist S ?R ahead (Some pk) (net - {#(h, ct, pt)#})"
  proof (rule channelI)
    show "reader_ok C hist ?R (limit S ahead) (Some pk)"
      using ck(1) range(2) bound u32_succ_le(2)[OF bound] checked_add_1_Some[OF bound]
      by (simp add: reader_ok_def)
    show "store_ok C hist (rs_skipped_message_keys ?R)"
      using store_ok_append[OF channelD(3)[OF ch] ck(1) alist] by simp
    have exp': "expected S ?R ahead (Some pk) = map fst (skipped_alist ?S) @
        map (Pair pk) (u32_range ?n ?c) @ map (Pair pk) (u32_range (?c + 1) (limit S ahead)) @ ?rest"
      by (simp add: expected_def alist skipped_run_keys)
    have split: "expected S R ahead (Some pk) = map fst (skipped_alist ?S) @
        map (Pair pk) (u32_range ?n ?c) @ (pk, ?c) # map (Pair pk) (u32_range (?c + 1) (limit S ahead)) @ ?rest"
      by (simp add: exp u32_range_split[OF range bound])
    show "distinct (expected S ?R ahead (Some pk))"
      using channelD(5)[OF ch] unfolding exp' split by simp
    show "image_mset mkey (net - {#(h, ct, pt)#}) = mset (expected S ?R ahead (Some pk))"
      unfolding mset_minus_msg[OF mem] channelD(6)[OF ch] unfolding exp' split by (simp add: mkey_def pk)
    show "message_ok C hist S (rs_local_identity_key ?R) (rs_remote_identity_key ?R) m"
      if "m \<in># net - {#(h, ct, pt)#}" for m
      using channelD(7)[OF ch in_diffD[OF that]] by simp
  qed (use channelD[OF ch] in blast)+
  ultimately show ?thesis by blast
qed

section \<open>A new chain\<close>

text \<open>
  The sender has a newer chain: the receiver keeps the keys it has not used of the chain it reads,
  and then reads the new one from its start.
\<close>

lemma channel_switch:
  assumes C: "hkdf_bounded C" and ch: "channel C hist S R True cur net" and room: "size net \<le> skipped_max"
  shows "\<exists>s k n. (case cur of Some old \<Rightarrow> skip_message_keys C R old (rs_previous_counter S)
                   | None \<Rightarrow> (Inr (), R)) =
      (Inr (), R\<lparr>rs_skipped_message_keys := s, rs_receiving_chain_key := k, rs_receive_counter := n\<rparr>) \<and>
    (\<forall>R'. rs_skipped_message_keys R' = s \<longrightarrow> rs_receive_counter R' = 0 \<longrightarrow>
       rs_receiving_chain_key R' = hist (pub S) \<longrightarrow>
       rs_local_identity_key R' = rs_local_identity_key R \<longrightarrow>
       rs_remote_identity_key R' = rs_remote_identity_key R \<longrightarrow>
       channel C hist S R' False (Some (pub S)) net) \<and>
    (\<forall>c < rs_send_counter S. (pub S, c) \<notin> fst ` set (skipped_alist s))"
proof -
  let ?S = "rs_skipped_message_keys R" and ?n = "rs_receive_counter R" and ?lim = "rs_previous_counter S"
  have "\<exists>s k n. (case cur of Some old \<Rightarrow> skip_message_keys C R old ?lim | None \<Rightarrow> (Inr (), R)) =
      (Inr (), R\<lparr>rs_skipped_message_keys := s, rs_receiving_chain_key := k, rs_receive_counter := n\<rparr>) \<and>
      map fst (skipped_alist s) = map fst (skipped_alist ?S) @
        (case cur of None \<Rightarrow> [] | Some old \<Rightarrow> map (Pair old) (u32_range ?n ?lim)) \<and> store_ok C hist s"
  proof (cases cur)
    case None
    then show ?thesis
      using channelD(3)[OF ch]
      by (intro exI[of _ ?S] exI[of _ "rs_receiving_chain_key R"] exI[of _ ?n]) simp
  next
    case (Some old)
    from channelD(2)[OF ch] Some obtain ck where le: "?n \<le> ?lim" and ck: "hist old = Some ck"
      "rs_receiving_chain_key R = Some (chain_at C ck (unat ?n))"
      by (auto simp: reader_ok_def limit_def)
    have "length (expected S R True cur) \<le> skipped_max" using channel_size[OF ch] room by simp
    then have "skipped_len ?S + (unat ?lim - unat ?n) \<le> skipped_max"
      by (simp add: expected_def limit_def Some skipped_len_def)
    from skip_to[OF C le ck(2) this, of old] obtain s where
      "skip_message_keys C R old ?lim = (Inr (), R\<lparr>rs_skipped_message_keys := s,
        rs_receiving_chain_key := Some (chain_at C ck (unat ?lim)), rs_receive_counter := ?lim\<rparr>)"
      and alist: "skipped_alist s = skipped_alist ?S @
        skipped_run C old (u32_range ?n ?lim) (chain_at C ck (unat ?n))" by blast
    with Some store_ok_append[OF channelD(3)[OF ch] ck(1) alist] show ?thesis
      by (intro exI[of _ s] exI[of _ "Some (chain_at C ck (unat ?lim))"] exI[of _ ?lim])
        (simp add: skipped_run_keys)
  qed
  then obtain s k n where skip: "(case cur of Some old \<Rightarrow> skip_message_keys C R old ?lim
      | None \<Rightarrow> (Inr (), R)) =
      (Inr (), R\<lparr>rs_skipped_message_keys := s, rs_receiving_chain_key := k, rs_receive_counter := n\<rparr>)"
    and keys: "map fst (skipped_alist s) = map fst (skipped_alist ?S) @
        (case cur of None \<Rightarrow> [] | Some old \<Rightarrow> map (Pair old) (u32_range ?n ?lim))"
    and store: "store_ok C hist s" by blast
  have "channel C hist S R' False (Some (pub S)) net"
    if R': "rs_skipped_message_keys R' = s" "rs_receive_counter R' = 0"
      "rs_receiving_chain_key R' = hist (pub S)" "rs_local_identity_key R' = rs_local_identity_key R"
      "rs_remote_identity_key R' = rs_remote_identity_key R" for R'
  proof -
    have exp: "expected S R' False (Some (pub S)) = expected S R True cur"
      by (simp add: expected_def R' keys limit_def split: option.split)
    show ?thesis
    proof (rule channelI)
      show "reader_ok C hist R' (limit S False) (Some (pub S))"
        using channelD(1)[OF ch] by (auto simp: reader_ok_def sender_ok_def R')
    qed (use channelD[OF ch] store in \<open>simp_all add: exp R'\<close>)
  qed
  moreover have "expected S R True cur =
      map fst (skipped_alist s) @ map (Pair (pub S)) (u32_range 0 (rs_send_counter S))"
    by (simp add: expected_def keys limit_def split: option.split)
  with channelD(5)[OF ch]
  have disjoint: "set (map fst (skipped_alist s)) \<inter> Pair (pub S) ` set (u32_range 0 (rs_send_counter S)) = {}" by simp
  have "(pub S, c) \<notin> fst ` set (skipped_alist s)" if lt: "c < rs_send_counter S" for c
  proof
    assume "(pub S, c) \<in> fst ` set (skipped_alist s)"
    moreover have "(pub S, c) \<in> Pair (pub S) ` set (u32_range 0 (rs_send_counter S))"
      using lt by (intro imageI) (simp add: set_u32_range)
    ultimately show False using disjoint unfolding set_map by blast
  qed
  ultimately show ?thesis using skip by blast
qed

text \<open>The sender starts a new chain under a ratchet key it has not used.\<close>

lemma channel_new_chain:
  assumes ch: "channel C hist S R False cur net" and new: "hist (pub S') = None"
    and S': "rs_previous_counter S' = rs_send_counter S" "rs_send_counter S' = 0"
      "rs_sending_chain_key S' = Some ck"
  shows "channel C (hist(pub S' \<mapsto> ck)) S' R True cur net"
proof (rule channelI)
  have cur: "cur = Some (pub S)" using channelD(4)[OF ch] by simp
  have old: "hist (pub S) \<noteq> None" using channelD(1)[OF ch] by (auto simp: sender_ok_def)
  with new have neq: "pub S \<noteq> pub S'" by auto
  show "sender_ok C (hist(pub S' \<mapsto> ck)) S'" by (simp add: sender_ok_def S')
  show "True \<longleftrightarrow> cur \<noteq> Some (pub S')" using cur neq by simp
  show "reader_ok C (hist(pub S' \<mapsto> ck)) R (limit S' True) cur"
    using channelD(2)[OF ch] neq by (simp add: reader_ok_def limit_def S' cur)
  show "store_ok C (hist(pub S' \<mapsto> ck)) (rs_skipped_message_keys R)"
    using channelD(3)[OF ch] new by (fastforce simp: store_ok_def)
  have exp: "expected S' R True cur = expected S R False cur"
    by (simp add: expected_def limit_def S' split: option.split)
  show "distinct (expected S' R True cur)" "image_mset mkey net = mset (expected S' R True cur)"
    unfolding exp using channelD(5,6)[OF ch] by blast+
  show "message_ok C (hist(pub S' \<mapsto> ck)) S' (rs_local_identity_key R) (rs_remote_identity_key R) m"
    if "m \<in># net" for m
    using channelD(7)[OF ch that] new by (auto simp: message_ok_def)
qed

end
