(* ===== verification/Ratchet_Conversation.thy ===== *)
theory Ratchet_Conversation
  imports Ratchet_Channel
begin

text \<open>
  A whole conversation. Two parties send and receive in any interleaving, the network reorders and
  loses messages in both directions, and the parties take Diffie-Hellman steps whenever the code
  does. At every moment one party is \<open>ahead\<close>: it has taken the last Diffie-Hellman step and its peer
  has not seen its new key yet. The invariant \<open>paired\<close> relates the two states; every operation of
  the code keeps it, and every message that is delivered decrypts to what was sent.
\<close>

section \<open>The relation of the two states\<close>

definition dh_of :: "crypto_lib \<Rightarrow> ratchet_state \<Rightarrow> ratchet_state \<Rightarrow> bytes" where
  "dh_of C P Q = x_dh C (x_priv_bytes (xkp_private_key (rs_dh_key_pair P))) (x_pub_bytes (pub Q))"

definition peers :: "crypto_lib \<Rightarrow> ratchet_state \<Rightarrow> ratchet_state \<Rightarrow> bool" where
  "peers C P Q \<longleftrightarrow>
     rs_local_identity_key Q = rs_remote_identity_key P \<and>
     rs_remote_identity_key Q = rs_local_identity_key P \<and>
     wf_pub (rs_local_identity_key P) \<and> wf_pub (rs_remote_identity_key P) \<and>
     derived_key_pair C (rs_dh_key_pair P) \<and> derived_key_pair C (rs_dh_key_pair Q)"

text \<open>\<open>Q\<close> is ahead of \<open>P\<close>.\<close>

definition paired ::
  "crypto_lib \<Rightarrow> chains \<Rightarrow> chains \<Rightarrow> ratchet_state \<Rightarrow> ratchet_state \<Rightarrow>
   message multiset \<Rightarrow> message multiset \<Rightarrow> bool"
where
  "paired C histP histQ P Q netP netQ \<longleftrightarrow> peers C P Q \<and>
     channel C histP P Q False (Some (pub P)) netP \<and>
     channel C histQ Q P True (rs_remote_public_key P) netQ \<and>
     rs_remote_public_key Q = Some (pub P) \<and>
     (rs_remote_public_key P = None \<longrightarrow> 0 < rs_send_counter P) \<and>
     rs_root_key Q = next_root C (rs_root_key P) (dh_of C P Q) \<and>
     histQ (pub Q) = Some (root_chain C (rs_root_key P) (dh_of C P Q) (local_sending_chain_info Q))"

text \<open>Before the responder has received anything.\<close>

definition initial ::
  "crypto_lib \<Rightarrow> chains \<Rightarrow> ratchet_state \<Rightarrow> ratchet_state \<Rightarrow> message multiset \<Rightarrow> bool"
where
  "initial C histA A B netA \<longleftrightarrow> peers C A B \<and>
     channel C histA A B False (Some (pub A)) netA \<and>
     rs_root_key A = rs_root_key B \<and>
     rs_remote_public_key A = None \<and> rs_remote_public_key B = None \<and> rs_send_counter B = 0 \<and>
     skipped_alist (rs_skipped_message_keys A) = [] \<and> skipped_alist (rs_skipped_message_keys B) = []"

lemma peers_sym: "peers C P Q \<Longrightarrow> peers C Q P"
  unfolding peers_def by metis

lemma peers_send:
  assumes "x25519_sizes C" "peers C P Q"
  shows "rs_local_identity_key Q = rs_remote_identity_key P"
    "rs_remote_identity_key Q = rs_local_identity_key P" "wf_pub (pub P)"
    "wf_pub (rs_local_identity_key P)" "wf_pub (rs_remote_identity_key P)"
  using assms unfolding peers_def derived_key_pair_def x25519_sizes_def by simp_all

lemma dh_of_swap:
  assumes "dh_commutes C" "derived_key_pair C (rs_dh_key_pair P)" "derived_key_pair C (rs_dh_key_pair Q)"
  shows "dh_of C P Q = dh_of C Q P"
  using assms by (simp add: dh_of_def dh_commutes_def derived_key_pair_def)

lemma info_swap:
  "peers C P Q \<Longrightarrow> local_receiving_chain_info P = local_sending_chain_info Q"
  by (simp add: peers_def local_receiving_chain_info_def local_sending_chain_info_def)

section \<open>Sending\<close>

lemma paired_send_behind:
  assumes C: "hkdf_bounded C" "aead_correct C" "x25519_sizes C" and inv: "paired C histP histQ P Q netP netQ"
    and m: "sendable (nd, pt)" "unat (rs_send_counter P) + 1 < 2 ^ 32"
  shows "\<exists>h ct P'. ratchet_encrypt C nd P pt = (Inr (h, ct), P') \<and>
    paired C histP histQ P' Q (add_mset (h, ct, pt) netP) netQ \<and> pub P' = pub P"
proof -
  from inv have peers: "peers C P Q" and ch: "channel C histP P Q False (Some (pub P)) netP"
    by (simp_all add: paired_def)
  from channel_send[OF C(1,2) ch m peers_send[OF C(3) peers]] obtain h ct k where
    enc: "ratchet_encrypt C nd P pt =
      (Inr (h, ct), P\<lparr>rs_sending_chain_key := k, rs_send_counter := rs_send_counter P + 1\<rparr>)"
    and ch': "channel C histP (P\<lparr>rs_sending_chain_key := k, rs_send_counter := rs_send_counter P + 1\<rparr>) Q
      False (Some (pub P)) (add_mset (h, ct, pt) netP)" by blast
  let ?P = "P\<lparr>rs_sending_chain_key := k, rs_send_counter := rs_send_counter P + 1\<rparr>"
  have "channel C histQ Q ?P True (rs_remote_public_key P) netQ"
    by (rule channel_frame[of C histQ Q P]) (use inv in \<open>simp_all add: paired_def\<close>)
  moreover have "0 < rs_send_counter P + 1"
    using checked_add_1_Some[OF m(2)] by (simp add: word_less_nat_alt)
  ultimately have "paired C histP histQ ?P Q (add_mset (h, ct, pt) netP) netQ"
    using inv ch' by (simp add: paired_def peers_def dh_of_def)
  with enc show ?thesis by fastforce
qed

lemma paired_send_ahead:
  assumes C: "hkdf_bounded C" "aead_correct C" "x25519_sizes C" and inv: "paired C histP histQ P Q netP netQ"
    and m: "sendable (nd, pt)" "unat (rs_send_counter Q) + 1 < 2 ^ 32"
  shows "\<exists>h ct Q'. ratchet_encrypt C nd Q pt = (Inr (h, ct), Q') \<and>
    paired C histP histQ P Q' netP (add_mset (h, ct, pt) netQ) \<and> pub Q' = pub Q"
proof -
  from inv have peers: "peers C P Q" and ch: "channel C histQ Q P True (rs_remote_public_key P) netQ"
    by (simp_all add: paired_def)
  from channel_send[OF C(1,2) ch m peers_send[OF C(3) peers_sym[OF peers]]] obtain h ct k where
    enc: "ratchet_encrypt C nd Q pt =
      (Inr (h, ct), Q\<lparr>rs_sending_chain_key := k, rs_send_counter := rs_send_counter Q + 1\<rparr>)"
    and ch': "channel C histQ (Q\<lparr>rs_sending_chain_key := k, rs_send_counter := rs_send_counter Q + 1\<rparr>) P
      True (rs_remote_public_key P) (add_mset (h, ct, pt) netQ)" by blast
  let ?Q = "Q\<lparr>rs_sending_chain_key := k, rs_send_counter := rs_send_counter Q + 1\<rparr>"
  have "channel C histP P ?Q False (Some (pub P)) netP"
    by (rule channel_frame[of C histP P Q]) (use inv in \<open>simp_all add: paired_def\<close>)
  then have "paired C histP histQ P ?Q netP (add_mset (h, ct, pt) netQ)"
    using inv ch' by (simp add: paired_def peers_def dh_of_def local_sending_chain_info_def)
  with enc show ?thesis by fastforce
qed

lemma initial_send:
  assumes C: "hkdf_bounded C" "aead_correct C" "x25519_sizes C" and inv: "initial C hist A B net"
    and m: "sendable (nd, pt)" "unat (rs_send_counter A) + 1 < 2 ^ 32"
  shows "\<exists>h ct A'. ratchet_encrypt C nd A pt = (Inr (h, ct), A') \<and>
    initial C hist A' B (add_mset (h, ct, pt) net) \<and> pub A' = pub A"
proof -
  from inv have peers: "peers C A B" and ch: "channel C hist A B False (Some (pub A)) net"
    by (simp_all add: initial_def)
  from channel_send[OF C(1,2) ch m peers_send[OF C(3) peers]] obtain h ct k where
    enc: "ratchet_encrypt C nd A pt =
      (Inr (h, ct), A\<lparr>rs_sending_chain_key := k, rs_send_counter := rs_send_counter A + 1\<rparr>)"
    and ch': "channel C hist (A\<lparr>rs_sending_chain_key := k, rs_send_counter := rs_send_counter A + 1\<rparr>) B
      False (Some (pub A)) (add_mset (h, ct, pt) net)" by blast
  then have "initial C hist (A\<lparr>rs_sending_chain_key := k, rs_send_counter := rs_send_counter A + 1\<rparr>) B
      (add_mset (h, ct, pt) net)"
    using inv by (simp add: initial_def peers_def)
  with enc show ?thesis by fastforce
qed

section \<open>Receiving\<close>

text \<open>The receiver's fields a message without Diffie-Hellman step changes.\<close>

abbreviation upd ::
  "ratchet_state \<Rightarrow> skipped_key_store \<Rightarrow> chain_key option \<Rightarrow> u32 \<Rightarrow> ratchet_state"
where
  "upd R s k n \<equiv> R\<lparr>rs_skipped_message_keys := s, rs_receiving_chain_key := k, rs_receive_counter := n\<rparr>"

lemma channel_kept_upd:
  assumes "channel C hist S R ahead cur net" "(h, ct, pt) \<in># net"
    and "mkey (h, ct, pt) \<in> fst ` set (skipped_alist (rs_skipped_message_keys R))"
  shows "\<exists>s k n. ratchet_decrypt C draw R h ct = (Inr pt, upd R s k n) \<and>
    channel C hist S (upd R s k n) ahead cur (net - {#(h, ct, pt)#})"
proof -
  from channel_kept[OF assms, of draw] obtain s where
    "ratchet_decrypt C draw R h ct = (Inr pt, R\<lparr>rs_skipped_message_keys := s\<rparr>)"
    "channel C hist S (R\<lparr>rs_skipped_message_keys := s\<rparr>) ahead cur (net - {#(h, ct, pt)#})" by blast
  moreover have "R\<lparr>rs_skipped_message_keys := s\<rparr> =
      upd R s (rs_receiving_chain_key R) (rs_receive_counter R)" by simp
  ultimately show ?thesis by metis
qed

lemma not_kept:
  assumes "mkey (h, ct, pt) \<notin> fst ` set (skipped_alist s)"
  obtains st where "skipped_remove s (hdr_ratchet_public_key h) (hdr_counter h) = (None, st)"
proof -
  have "fst (skipped_remove s (hdr_ratchet_public_key h) (hdr_counter h)) = None"
    using assms by (simp add: skipped_remove_alist mkey_def map_of_eq_None_iff)
  with that show thesis by (cases "skipped_remove s (hdr_ratchet_public_key h) (hdr_counter h)") simp
qed

text \<open>No Diffie-Hellman step: the key is kept, or the message is on the chain that is read.\<close>

lemma decrypt_no_ratchet:
  assumes C: "hkdf_bounded C" and ch: "channel C hist S R ahead cur net" and mem: "(h, ct, pt) \<in># net"
    and room: "size net \<le> skipped_max" and remote: "rs_remote_public_key R = cur" "cur \<noteq> None"
    and chain: "mkey (h, ct, pt) \<in> fst ` set (skipped_alist (rs_skipped_message_keys R)) \<or>
      cur = Some (hdr_ratchet_public_key h)"
  shows "\<exists>s k n. ratchet_decrypt C draw R h ct = (Inr pt, upd R s k n) \<and>
    channel C hist S (upd R s k n) ahead cur (net - {#(h, ct, pt)#})"
proof (cases "mkey (h, ct, pt) \<in> fst ` set (skipped_alist (rs_skipped_message_keys R))")
  case True
  from channel_kept_upd[OF ch mem this] show ?thesis .
next
  case False
  with chain have cur: "cur = Some (hdr_ratchet_public_key h)" by blast
  from False obtain st where rem: "skipped_remove (rs_skipped_message_keys R)
      (hdr_ratchet_public_key h) (hdr_counter h) = (None, st)" by (rule not_kept)
  have bound: "unat (hdr_counter h) + 1 < 2 ^ 32" using channelD(7)[OF ch mem] by (simp add: message_ok_def)
  from channel_current[OF C ch[unfolded cur] mem refl False room] obtain s k n where
    "decrypt_with_current_chain C R h ct = (Inr pt, upd R s k n)"
    "channel C hist S (upd R s k n) ahead cur (net - {#(h, ct, pt)#})"
    unfolding cur by blast
  with remote cur rem bound show ?thesis
    by (fastforce simp: ratchet_decrypt_def next_counter_ok Let_def)
qed

text \<open>To the party that is ahead.\<close>

lemma paired_deliver_to_ahead:
  assumes C: "hkdf_bounded C" and inv: "paired C histP histQ P Q netP netQ"
    and mem: "(h, ct, pt) \<in># netP" and room: "size netP \<le> skipped_max"
  shows "\<exists>Q'. ratchet_decrypt C draw Q h ct = (Inr pt, Q') \<and> pub Q' = pub Q \<and>
    paired C histP histQ P Q' (netP - {#(h, ct, pt)#}) netQ"
proof -
  from inv have ch: "channel C histP P Q False (Some (pub P)) netP"
    and remote: "rs_remote_public_key Q = Some (pub P)"
    by (simp_all add: paired_def)
  have "mkey (h, ct, pt) \<in> fst ` set (skipped_alist (rs_skipped_message_keys Q)) \<or>
      Some (pub P) = Some (hdr_ratchet_public_key h)"
    using channel_expected[OF ch mem] by (auto simp: expected_def mkey_def)
  from decrypt_no_ratchet[OF C ch mem room remote _ this] obtain s k n where
    dec: "ratchet_decrypt C draw Q h ct = (Inr pt, upd Q s k n)"
    and ch': "channel C histP P (upd Q s k n) False (Some (pub P)) (netP - {#(h, ct, pt)#})" by blast
  have "channel C histQ (upd Q s k n) P True (rs_remote_public_key P) netQ"
    by (rule channel_frame[of C histQ Q P]) (use inv in \<open>simp_all add: paired_def\<close>)
  with inv ch' have "paired C histP histQ P (upd Q s k n) (netP - {#(h, ct, pt)#}) netQ"
    by (simp add: paired_def peers_def dh_of_def local_sending_chain_info_def)
  with dec show ?thesis by fastforce
qed

text \<open>To the party that is behind, on a chain it knows.\<close>

lemma paired_deliver_to_behind_old:
  assumes C: "hkdf_bounded C" and inv: "paired C histP histQ P Q netP netQ"
    and mem: "(h, ct, pt) \<in># netQ" and room: "size netQ \<le> skipped_max"
    and known: "mkey (h, ct, pt) \<in> fst ` set (skipped_alist (rs_skipped_message_keys P)) \<or>
      rs_remote_public_key P = Some (hdr_ratchet_public_key h)"
  shows "\<exists>P'. ratchet_decrypt C draw P h ct = (Inr pt, P') \<and> pub P' = pub P \<and>
    paired C histP histQ P' Q netP (netQ - {#(h, ct, pt)#})"
proof -
  from inv have ch: "channel C histQ Q P True (rs_remote_public_key P) netQ" by (simp add: paired_def)
  have "\<exists>s k n. ratchet_decrypt C draw P h ct = (Inr pt, upd P s k n) \<and>
      channel C histQ Q (upd P s k n) True (rs_remote_public_key P) (netQ - {#(h, ct, pt)#})"
  proof (cases "rs_remote_public_key P = None")
    case True
    with known have "mkey (h, ct, pt) \<in> fst ` set (skipped_alist (rs_skipped_message_keys P))" by simp
    from channel_kept_upd[OF ch mem this] show ?thesis .
  next
    case False
    from decrypt_no_ratchet[OF C ch mem room refl False known] show ?thesis .
  qed
  then obtain s k n where dec: "ratchet_decrypt C draw P h ct = (Inr pt, upd P s k n)"
    and ch': "channel C histQ Q (upd P s k n) True (rs_remote_public_key P) (netQ - {#(h, ct, pt)#})"
    by blast
  have "channel C histP (upd P s k n) Q False (Some (pub P)) netP"
    by (rule channel_frame[of C histP P Q]) (use inv in \<open>simp_all add: paired_def\<close>)
  with inv ch' have "paired C histP histQ (upd P s k n) Q netP (netQ - {#(h, ct, pt)#})"
    by (simp add: paired_def peers_def dh_of_def)
  with dec show ?thesis by fastforce
qed

text \<open>The Diffie-Hellman step of the party that is behind puts it ahead.\<close>

lemma paired_dh_ratchet:
  assumes C: "hkdf_bounded C" "dh_commutes C" "dh_contributory C"
    and inv: "paired C histP histQ P Q netP netQ" and room: "size netQ \<le> skipped_max"
    and new: "histP (X25519PublicKey (x_public C draw)) = None"
  shows "\<exists>P' ck. perform_dh_ratchet C draw P (pub Q) (rs_previous_counter Q) = (Inr (), P') \<and>
    pub P' = X25519PublicKey (x_public C draw) \<and>
    paired C histQ (histP(pub P' \<mapsto> ck)) Q P' netQ netP \<and>
    (\<forall>c < rs_send_counter Q. (pub Q, c) \<notin> fst ` set (skipped_alist (rs_skipped_message_keys P')))"
proof -
  let ?kp = "generate_x25519_keypair C draw"
  from inv have peers: "peers C P Q" and chP: "channel C histP P Q False (Some (pub P)) netP"
    and chQ: "channel C histQ Q P True (rs_remote_public_key P) netQ"
    and remote: "rs_remote_public_key Q = Some (pub P)"
    and root: "rs_root_key Q = next_root C (rs_root_key P) (dh_of C P Q)"
    and hist: "histQ (pub Q) = Some (root_chain C (rs_root_key P) (dh_of C P Q) (local_sending_chain_info Q))"
    by (simp_all add: paired_def)
  from peers have derived: "derived_key_pair C (rs_dh_key_pair P)" "derived_key_pair C (rs_dh_key_pair Q)"
    by (simp_all add: peers_def)
  from channel_switch[OF C(1) chQ room] obtain s k n where
    skip: "(case rs_remote_public_key P of Some old \<Rightarrow> skip_message_keys C P old (rs_previous_counter Q)
      | None \<Rightarrow> (Inr (), P)) = (Inr (), upd P s k n)"
    and switch: "\<And>R'. rs_skipped_message_keys R' = s \<Longrightarrow> rs_receive_counter R' = 0 \<Longrightarrow>
       rs_receiving_chain_key R' = histQ (pub Q) \<Longrightarrow>
       rs_local_identity_key R' = rs_local_identity_key P \<Longrightarrow>
       rs_remote_identity_key R' = rs_remote_identity_key P \<Longrightarrow>
       channel C histQ Q R' False (Some (pub Q)) netQ"
    and absent: "\<forall>c < rs_send_counter Q. (pub Q, c) \<notin> fst ` set (skipped_alist s)" by blast
  define dh2 where "dh2 = x_dh C draw (x_pub_bytes (pub Q))"
  let ?ck = "root_chain C (rs_root_key Q) dh2 (local_sending_chain_info P)"
  define P' where "P' = P\<lparr>rs_skipped_message_keys := s,
    rs_previous_counter := rs_send_counter P, rs_send_counter := 0, rs_receive_counter := 0,
    rs_dh_key_pair := ?kp, rs_root_key := next_root C (rs_root_key Q) dh2,
    rs_receiving_chain_key := histQ (pub Q), rs_sending_chain_key := Some ?ck,
    rs_remote_public_key := Some (pub Q)\<rparr>"
  have pub': "pub P' = X25519PublicKey (x_public C draw)" by (simp add: P'_def)
  have dh: "x25519_dh C priv (pub Q) = Inr (x_dh C (x_priv_bytes priv) (x_pub_bytes (pub Q)))" for priv
    using C(3) derived(2) by (rule x25519_dh_ok)
  have info: "local_receiving_chain_info P = local_sending_chain_info Q" by (rule info_swap[OF peers])
  have step: "perform_dh_ratchet C draw P (pub Q) (rs_previous_counter Q) = (Inr (), P')"
    unfolding perform_dh_ratchet_def skip
    using info hist root
    by (simp add: Let_def dh kdf_root_key_ok[OF C(1)] P'_def dh2_def dh_of_def
        local_receiving_chain_info_def local_sending_chain_info_def)
  have "channel C histQ Q P' False (Some (pub Q)) netQ"
    by (rule switch) (simp_all add: P'_def)
  moreover have "channel C (histP(pub P' \<mapsto> ?ck)) P' Q True (rs_remote_public_key Q) netP"
    unfolding remote using new pub' by (intro channel_new_chain[OF chP]) (simp_all add: P'_def)
  moreover have dh2: "dh_of C Q P' = dh2"
  proof -
    have "derived_key_pair C (rs_dh_key_pair P')" by (simp add: P'_def)
    from dh_of_swap[OF C(2) derived(2) this] show ?thesis by (simp add: dh_of_def dh2_def P'_def)
  qed
  moreover have "peers C Q P'" using peers_sym[OF peers] by (simp add: peers_def P'_def)
  moreover have "local_sending_chain_info P' = local_sending_chain_info P"
    by (simp add: local_sending_chain_info_def P'_def)
  ultimately have "paired C histQ (histP(pub P' \<mapsto> ?ck)) Q P' netQ netP"
    using remote by (simp add: paired_def) (simp add: P'_def)
  with step pub' absent show ?thesis by (fastforce simp: P'_def)
qed

text \<open>To the party that is behind, on the new chain of its peer.\<close>

lemma ratchet_decrypt_new_chain:
  assumes "mkey (h, ct, pt) \<notin> fst ` set (skipped_alist (rs_skipped_message_keys P))"
    and "unat (hdr_counter h) + 1 < 2 ^ 32" "hdr_counter h \<le> max_skip"
    and "rs_remote_public_key P \<noteq> Some (hdr_ratchet_public_key h)"
    and "rs_remote_public_key P = None \<longrightarrow> 0 < rs_send_counter P"
    and "perform_dh_ratchet C draw P (hdr_ratchet_public_key h) (hdr_previous_counter h) = (Inr (), P')"
  shows "ratchet_decrypt C draw P h ct = decrypt_with_current_chain C P' h ct"
proof -
  from assms(1) obtain st where "skipped_remove (rs_skipped_message_keys P)
      (hdr_ratchet_public_key h) (hdr_counter h) = (None, st)" by (rule not_kept)
  moreover have "case rs_remote_public_key P of
      Some pk \<Rightarrow> x_pub_bytes pk \<noteq> x_pub_bytes (hdr_ratchet_public_key h)
    | None \<Rightarrow> 0 < rs_send_counter P"
    using assms(4,5) by (auto split: option.split simp: x25519_public_key.expand)
  moreover have "\<not> max_skip < hdr_counter h" using assms(3) by simp
  ultimately show ?thesis
    using assms(2,6) by (simp add: ratchet_decrypt_def next_counter_ok Let_def)
qed

lemma paired_deliver_to_behind_new:
  assumes C: "hkdf_bounded C" "dh_commutes C" "dh_contributory C"
    and inv: "paired C histP histQ P Q netP netQ" and mem: "(h, ct, pt) \<in># netQ"
    and room: "size netQ \<le> skipped_max" and new: "histP (X25519PublicKey (x_public C draw)) = None"
    and unknown: "mkey (h, ct, pt) \<notin> fst ` set (skipped_alist (rs_skipped_message_keys P))"
      "rs_remote_public_key P \<noteq> Some (hdr_ratchet_public_key h)"
  shows "\<exists>P' ck. ratchet_decrypt C draw P h ct = (Inr pt, P') \<and>
    pub P' = X25519PublicKey (x_public C draw) \<and>
    paired C histQ (histP(pub P' \<mapsto> ck)) Q P' (netQ - {#(h, ct, pt)#}) netP"
proof -
  from inv have ch: "channel C histQ Q P True (rs_remote_public_key P) netQ"
    and none: "rs_remote_public_key P = None \<longrightarrow> 0 < rs_send_counter P" by (simp_all add: paired_def)
  have pk: "hdr_ratchet_public_key h = pub Q" and lt: "hdr_counter h < rs_send_counter Q"
    using channel_expected[OF ch mem] unknown
    by (auto simp: expected_def mkey_def set_u32_range split: option.splits)
  from channelD(7)[OF ch mem] pk have bound: "unat (hdr_counter h) + 1 < 2 ^ 32"
    and prev: "hdr_previous_counter h = rs_previous_counter Q" by (simp_all add: message_ok_def)
  have "length (expected Q P True (rs_remote_public_key P)) \<le> skipped_max"
    using channel_size[OF ch] room by simp
  then have "unat (rs_send_counter Q) \<le> skipped_max" by (simp add: expected_def)
  then have small: "hdr_counter h \<le> max_skip"
    using lt by (simp add: word_le_nat_alt word_less_nat_alt skipped_max_def max_skip_def)
  from paired_dh_ratchet[OF C inv room new] obtain P1 ck where
    step: "perform_dh_ratchet C draw P (pub Q) (rs_previous_counter Q) = (Inr (), P1)"
    and pub1: "pub P1 = X25519PublicKey (x_public C draw)"
    and inv1: "paired C histQ (histP(pub P1 \<mapsto> ck)) Q P1 netQ netP"
    and absent: "\<forall>c < rs_send_counter Q. (pub Q, c) \<notin> fst ` set (skipped_alist (rs_skipped_message_keys P1))"
    by blast
  have dec: "ratchet_decrypt C draw P h ct = decrypt_with_current_chain C P1 h ct"
    by (rule ratchet_decrypt_new_chain[OF unknown(1) bound small unknown(2) none])
      (simp add: pk prev step)
  from inv1 have ch1: "channel C histQ Q P1 False (Some (pub Q)) netQ" by (simp add: paired_def)
  have "mkey (h, ct, pt) \<notin> fst ` set (skipped_alist (rs_skipped_message_keys P1))"
    using absent lt by (simp add: mkey_def pk)
  from channel_current[OF C(1) ch1 mem pk this room] obtain s k n where
    cur: "decrypt_with_current_chain C P1 h ct = (Inr pt, upd P1 s k n)"
    and ch2: "channel C histQ Q (upd P1 s k n) False (Some (pub Q)) (netQ - {#(h, ct, pt)#})" by blast
  have "channel C (histP(pub P1 \<mapsto> ck)) (upd P1 s k n) Q True (rs_remote_public_key Q) netP"
    by (rule channel_frame[of _ _ P1 Q]) (use inv1 in \<open>simp only: paired_def\<close>, simp_all)
  with inv1 ch2 have "paired C histQ (histP(pub P1 \<mapsto> ck)) Q (upd P1 s k n) (netQ - {#(h, ct, pt)#}) netP"
    by (simp add: paired_def peers_def dh_of_def local_sending_chain_info_def)
  with dec cur pub1 show ?thesis by fastforce
qed

text \<open>The first message the responder receives.\<close>

lemma initial_deliver:
  assumes C: "hkdf_bounded C" "dh_commutes C" "dh_contributory C"
    and inv: "initial C hist A B net" and mem: "(h, ct, pt) \<in># net" and room: "size net \<le> skipped_max"
  shows "\<exists>B' ck. ratchet_decrypt C draw B h ct = (Inr pt, B') \<and>
    pub B' = X25519PublicKey (x_public C draw) \<and>
    paired C hist [pub B' \<mapsto> ck] A B' (net - {#(h, ct, pt)#}) {#}"
proof -
  let ?kp = "generate_x25519_keypair C draw"
  from inv have peers: "peers C A B" and ch: "channel C hist A B False (Some (pub A)) net"
    and facts: "rs_root_key A = rs_root_key B" "rs_remote_public_key A = None"
      "rs_remote_public_key B = None" "rs_send_counter B = 0"
      "skipped_alist (rs_skipped_message_keys A) = []" "skipped_alist (rs_skipped_message_keys B) = []"
    by (simp_all add: initial_def)
  from peers have derived: "derived_key_pair C (rs_dh_key_pair A)" by (simp add: peers_def)
  have new: "mkey (h, ct, pt) \<notin> fst ` set (skipped_alist (rs_skipped_message_keys B))"
    by (simp add: facts)
  have pk: "hdr_ratchet_public_key h = pub A" and lt: "hdr_counter h < rs_send_counter A"
    using channel_expected[OF ch mem] by (auto simp: expected_def mkey_def facts limit_def set_u32_range)
  from channelD(7)[OF ch mem] have bound: "unat (hdr_counter h) + 1 < 2 ^ 32" by (simp add: message_ok_def)
  from channel_current[OF C(1) ch mem pk new room] obtain s k n where
    cur: "decrypt_with_current_chain C B h ct = (Inr pt, upd B s k n)"
    and ch1: "channel C hist A (upd B s k n) False (Some (pub A)) (net - {#(h, ct, pt)#})" by blast
  define dh where "dh = x_dh C draw (x_pub_bytes (pub A))"
  let ?ck = "root_chain C (rs_root_key B) dh (local_sending_chain_info B)"
  define B' where "B' = (upd B s k n)\<lparr>rs_remote_public_key := Some (pub A),
    rs_previous_counter := 0, rs_send_counter := 0, rs_dh_key_pair := ?kp,
    rs_root_key := next_root C (rs_root_key B) dh, rs_sending_chain_key := Some ?ck\<rparr>"
  have pub': "pub B' = X25519PublicKey (x_public C draw)" by (simp add: B'_def)
  have dh_ok: "x25519_dh C priv (pub A) = Inr (x_dh C (x_priv_bytes priv) (x_pub_bytes (pub A)))" for priv
    using C(3) derived by (rule x25519_dh_ok)
  have "prepare_initial_response_ratchet C draw (upd B s k n) (pub A) = (Inr (), B')"
    by (simp add: prepare_initial_response_ratchet_def Let_def dh_ok kdf_root_key_ok[OF C(1)] B'_def
        dh_def facts local_sending_chain_info_def)
  moreover from new obtain st where "skipped_remove (rs_skipped_message_keys B)
      (hdr_ratchet_public_key h) (hdr_counter h) = (None, st)" by (rule not_kept)
  ultimately have dec: "ratchet_decrypt C draw B h ct = (Inr pt, B')"
    using cur bound pk facts by (simp add: ratchet_decrypt_def next_counter_ok Let_def)
  have dh: "dh_of C A B' = dh"
  proof -
    have "derived_key_pair C (rs_dh_key_pair B')" by (simp add: B'_def)
    from dh_of_swap[OF C(2) derived this] show ?thesis by (simp add: dh_of_def dh_def B'_def)
  qed
  have "channel C [pub B' \<mapsto> ?ck] B' A True None {#}"
    by (rule channelI)
      (simp_all add: sender_ok_def reader_ok_def store_ok_def expected_def facts B'_def)
  moreover have "channel C hist A B' False (Some (pub A)) (net - {#(h, ct, pt)#})"
    by (rule channel_frame[OF ch1]) (simp_all add: B'_def)
  moreover have "0 < rs_send_counter A" using lt by (rule le_less_trans[rotated]) simp
  moreover have "peers C A B'" using peers by (simp add: peers_def B'_def)
  ultimately have "paired C hist [pub B' \<mapsto> ?ck] A B' (net - {#(h, ct, pt)#}) {#}"
    by (simp add: paired_def facts dh) (simp add: B'_def local_sending_chain_info_def)
  with dec pub' show ?thesis by blast
qed

section \<open>Runs\<close>

datatype party = Alice | Bob

fun peer :: "party \<Rightarrow> party" where
  "peer Alice = Bob"
| "peer Bob = Alice"

lemma peer_peer [simp]: "peer (peer p) = p"
  by (cases p) simp_all

lemma peer_neq [simp]: "peer p \<noteq> p" "p \<noteq> peer p"
  by (cases p; simp)+

lemma party_cases: "p = q \<or> p = peer q"
  by (cases p; cases q) simp_all

text \<open>
  The states of the two parties, the messages each has sent and the network has not delivered, and
  the ratchet public keys that have been drawn.
\<close>

record conversation =
  cv_state :: "party \<Rightarrow> ratchet_state"
  cv_net :: "party \<Rightarrow> message multiset"
  cv_used :: "x25519_public_key set"

text \<open>The responder may send once it has received something.\<close>

definition may_send :: "conversation \<Rightarrow> party \<Rightarrow> bool" where
  "may_send c p \<longleftrightarrow>
     (p = Bob \<longrightarrow> rs_remote_public_key (cv_state c Bob) \<noteq> None) \<and> size (cv_net c p) < skipped_max"

definition do_send :: "crypto_lib \<Rightarrow> party \<Rightarrow> bytes option \<Rightarrow> bytes \<Rightarrow> conversation \<Rightarrow> conversation" where
  "do_send C p nonce pt c =
     (let (r, S) = ratchet_encrypt C nonce (cv_state c p) pt
      in c\<lparr>cv_state := (cv_state c)(p := S),
           cv_net := (case r of
              Inr (h, ct) \<Rightarrow> (cv_net c)(p := add_mset (h, ct, pt) (cv_net c p))
            | Inl _ \<Rightarrow> cv_net c)\<rparr>)"

definition do_deliver :: "crypto_lib \<Rightarrow> party \<Rightarrow> bytes \<Rightarrow> message \<Rightarrow> conversation \<Rightarrow> conversation" where
  "do_deliver C p draw m c =
     (case m of (h, ct, pt) \<Rightarrow>
        c\<lparr>cv_state := (cv_state c)
            (peer p := snd (ratchet_decrypt C draw (cv_state c (peer p)) h ct)),
          cv_net := (cv_net c)(p := cv_net c p - {#m#}),
          cv_used := insert (X25519PublicKey (x_public C draw)) (cv_used c)\<rparr>)"

inductive conv_step :: "crypto_lib \<Rightarrow> conversation \<Rightarrow> conversation \<Rightarrow> bool" for C where
  send: "may_send c p \<Longrightarrow> sendable (nonce, pt) \<Longrightarrow>
    unat (rs_send_counter (cv_state c p)) + 1 < 2 ^ 32 \<Longrightarrow> conv_step C c (do_send C p nonce pt c)"
| deliver: "m \<in># cv_net c p \<Longrightarrow> X25519PublicKey (x_public C draw) \<notin> cv_used c \<Longrightarrow>
    conv_step C c (do_deliver C p draw m c)"

inductive_cases conv_step_cases: "conv_step C c c'"

definition starts ::
  "crypto_lib \<Rightarrow> ratchet_root_key \<Rightarrow> x25519_public_key \<Rightarrow> x25519_public_key \<Rightarrow> bytes \<Rightarrow> bytes \<Rightarrow>
   conversation \<Rightarrow> bool"
where
  "starts C rk ia ib drawA drawB c \<longleftrightarrow>
     init_sending_chain C drawA rk ia ib = Inr (cv_state c Alice) \<and>
     init_receiving_chain C drawB rk ib ia = Inr (cv_state c Bob) \<and>
     cv_net c = (\<lambda>_. {#}) \<and> X25519PublicKey (x_public C drawA) \<in> cv_used c"

text \<open>The invariant of a run.\<close>

definition conversation_ok :: "crypto_lib \<Rightarrow> conversation \<Rightarrow> bool" where
  "conversation_ok C c \<longleftrightarrow> (\<forall>p. size (cv_net c p) \<le> skipped_max) \<and>
     ((\<exists>hist. dom hist \<subseteq> cv_used c \<and> cv_net c Bob = {#} \<and>
         initial C hist (cv_state c Alice) (cv_state c Bob) (cv_net c Alice)) \<or>
      (\<exists>q histP histQ. dom histP \<subseteq> cv_used c \<and> dom histQ \<subseteq> cv_used c \<and>
         paired C histP histQ (cv_state c (peer q)) (cv_state c q) (cv_net c (peer q)) (cv_net c q)))"

lemma starts_initial:
  assumes C: "hkdf_bounded C" and wf: "wf_pub ia" "wf_pub ib" and st: "starts C rk ia ib drawA drawB c"
  shows "conversation_ok C c"
proof -
  from st obtain A B where A: "init_sending_chain C drawA rk ia ib = Inr A" "cv_state c Alice = A"
    and B: "init_receiving_chain C drawB rk ib ia = Inr B" "cv_state c Bob = B"
    and net: "cv_net c = (\<lambda>_. {#})" and used: "X25519PublicKey (x_public C drawA) \<in> cv_used c"
    by (auto simp: starts_def)
  define ck where "ck = ChainKey (hkdf32 C (root_key_bytes rk) info_sending_chain)"
  have new: "skipped_alist skipped_new = []" by (simp add: skipped_alist_def skipped_new_def)
  have "initial C [pub A \<mapsto> ck] A B {#}"
    unfolding initial_def
  proof (intro conjI)
    show "peers C A B"
      using A(1) B(1) wf by (auto simp: init_sending_chain_def init_receiving_chain_def hkdf32[OF C] Let_def peers_def)
    show "channel C [pub A \<mapsto> ck] A B False (Some (pub A)) {#}"
    proof (rule channelI)
      show "sender_ok C [pub A \<mapsto> ck] A"
        using A(1) by (auto simp: init_sending_chain_def hkdf32[OF C] Let_def sender_ok_def ck_def)
      show "reader_ok C [pub A \<mapsto> ck] B (limit A False) (Some (pub A))"
        using B(1) by (auto simp: init_receiving_chain_def hkdf32[OF C] Let_def reader_ok_def ck_def)
      have stores: "skipped_alist (rs_skipped_message_keys B) = []" "rs_send_counter A = 0" "rs_receive_counter B = 0"
        using A(1) B(1) new
        by (auto simp: init_sending_chain_def init_receiving_chain_def hkdf32[OF C] Let_def)
      show "store_ok C [pub A \<mapsto> ck] (rs_skipped_message_keys B)" by (simp add: store_ok_def stores)
      show "distinct (expected A B False (Some (pub A)))"
        "image_mset mkey {#} = mset (expected A B False (Some (pub A)))"
        by (simp_all add: expected_def limit_def stores)
    qed simp_all
  qed (use A(1) B(1) new in
    \<open>auto simp: init_sending_chain_def init_receiving_chain_def hkdf32[OF C] Let_def\<close>)
  moreover have "pub A = X25519PublicKey (x_public C drawA)"
    using A(1) by (auto simp: init_sending_chain_def hkdf32[OF C] Let_def)
  ultimately have "dom [pub A \<mapsto> ck] \<subseteq> cv_used c \<and> cv_net c Bob = {#} \<and>
      initial C [pub A \<mapsto> ck] (cv_state c Alice) (cv_state c Bob) (cv_net c Alice)"
    using used A(2) B(2) net by simp
  moreover have "\<forall>p. size (cv_net c p) \<le> skipped_max" by (simp add: net)
  ultimately show ?thesis unfolding conversation_ok_def by blast
qed

text \<open>The facts about the library that a run relies on.\<close>

definition crypto_ok :: "crypto_lib \<Rightarrow> bool" where
  "crypto_ok C \<longleftrightarrow> hkdf_bounded C \<and> aead_correct C \<and> x25519_sizes C \<and> dh_commutes C \<and> dh_contributory C"

lemma crypto_okD:
  assumes "crypto_ok C"
  shows "hkdf_bounded C" "aead_correct C" "x25519_sizes C" "dh_commutes C" "dh_contributory C"
  using assms by (simp_all add: crypto_ok_def)

lemma do_send_result:
  assumes "ratchet_encrypt C nonce (cv_state c p) pt = (Inr (h, ct), S)"
  shows "do_send C p nonce pt c = c\<lparr>cv_state := (cv_state c)(p := S),
    cv_net := (cv_net c)(p := add_mset (h, ct, pt) (cv_net c p))\<rparr>"
  by (simp add: do_send_def assms)

lemma do_deliver_result:
  assumes "ratchet_decrypt C draw (cv_state c (peer p)) h ct = (r, S)"
  shows "do_deliver C p draw (h, ct, pt) c = c\<lparr>cv_state := (cv_state c)(peer p := S),
    cv_net := (cv_net c)(p := cv_net c p - {#(h, ct, pt)#}),
    cv_used := insert (X25519PublicKey (x_public C draw)) (cv_used c)\<rparr>"
  by (simp add: do_deliver_def assms)

lemma conversation_initialI:
  assumes "\<And>p. size (cv_net c p) \<le> skipped_max" "dom hist \<subseteq> cv_used c" "cv_net c Bob = {#}"
    and "initial C hist (cv_state c Alice) (cv_state c Bob) (cv_net c Alice)"
  shows "conversation_ok C c"
  unfolding conversation_ok_def using assms by blast

lemma conversation_pairedI:
  assumes "\<And>p. size (cv_net c p) \<le> skipped_max" "dom histP \<subseteq> cv_used c" "dom histQ \<subseteq> cv_used c"
    and "paired C histP histQ (cv_state c (peer q)) (cv_state c q) (cv_net c (peer q)) (cv_net c q)"
  shows "conversation_ok C c"
  unfolding conversation_ok_def using assms by blast

lemma conversation_send_step:
  assumes C: "crypto_ok C" and ok: "conversation_ok C c" and may: "may_send c p"
    and m: "sendable (nonce, pt)" "unat (rs_send_counter (cv_state c p)) + 1 < 2 ^ 32"
  shows "is_ok (fst (ratchet_encrypt C nonce (cv_state c p) pt)) \<and> conversation_ok C (do_send C p nonce pt c)"
proof -
  note C = crypto_okD[OF C]
  have size: "size (cv_net c p') \<le> skipped_max" for p' using ok by (simp add: conversation_ok_def)
  have room: "size (cv_net c p) < skipped_max" using may by (simp add: may_send_def)
  from ok consider
      (start) hist where "dom hist \<subseteq> cv_used c" "cv_net c Bob = {#}"
        "initial C hist (cv_state c Alice) (cv_state c Bob) (cv_net c Alice)"
    | (on) q histP histQ where "dom histP \<subseteq> cv_used c" "dom histQ \<subseteq> cv_used c"
        "paired C histP histQ (cv_state c (peer q)) (cv_state c q) (cv_net c (peer q)) (cv_net c q)"
    unfolding conversation_ok_def by blast
  then show ?thesis
  proof cases
    case start
    with may have p: "p = Alice" by (cases p) (simp_all add: may_send_def initial_def)
    from initial_send[OF C(1-3) start(3) m[unfolded p]] obtain h ct S where
      enc: "ratchet_encrypt C nonce (cv_state c Alice) pt = (Inr (h, ct), S)"
      and inv: "initial C hist S (cv_state c Bob) (add_mset (h, ct, pt) (cv_net c Alice))" by blast
    have "conversation_ok C (do_send C p nonce pt c)"
      unfolding p do_send_result[OF enc]
      by (rule conversation_initialI[of _ hist]) (use start inv size room p in auto)
    with enc p show ?thesis by simp
  next
    case on
    show ?thesis
    proof (cases "p = q")
      case True
      from paired_send_ahead[OF C(1-3) on(3) m[unfolded True]] obtain h ct S where
        enc: "ratchet_encrypt C nonce (cv_state c q) pt = (Inr (h, ct), S)"
        and inv: "paired C histP histQ (cv_state c (peer q)) S (cv_net c (peer q))
          (add_mset (h, ct, pt) (cv_net c q))" by blast
      have "conversation_ok C (do_send C p nonce pt c)"
        unfolding True do_send_result[OF enc]
        by (rule conversation_pairedI[of _ histP histQ _ q]) (use on inv size room True in auto)
      with enc True show ?thesis by simp
    next
      case False
      then have p: "p = peer q" using party_cases by blast
      from paired_send_behind[OF C(1-3) on(3) m[unfolded p]] obtain h ct S where
        enc: "ratchet_encrypt C nonce (cv_state c (peer q)) pt = (Inr (h, ct), S)"
        and inv: "paired C histP histQ S (cv_state c q) (add_mset (h, ct, pt) (cv_net c (peer q)))
          (cv_net c q)" by blast
      have "conversation_ok C (do_send C p nonce pt c)"
        unfolding p do_send_result[OF enc]
        by (rule conversation_pairedI[of _ histP histQ _ q]) (use on inv size room p in auto)
      with enc p show ?thesis by simp
    qed
  qed
qed

lemma size_after: "size (net - {#m#}) \<le> size net"
  by (simp add: size_mset_mono)

lemma dom_fresh: "dom hist \<subseteq> used \<Longrightarrow> k \<notin> used \<Longrightarrow> hist k = None"
  by blast

text \<open>The general case of a delivery, both parties having received something or sent first.\<close>

lemma paired_deliver_to_behind:
  assumes C: "crypto_ok C" and inv: "paired C histP histQ P Q netP netQ"
    and mem: "(h, ct, pt) \<in># netQ" and room: "size netQ \<le> skipped_max"
    and new: "histP (X25519PublicKey (x_public C draw)) = None"
  shows "\<exists>P'. ratchet_decrypt C draw P h ct = (Inr pt, P') \<and>
    (paired C histP histQ P' Q netP (netQ - {#(h, ct, pt)#}) \<or>
     (\<exists>ck. paired C histQ (histP(X25519PublicKey (x_public C draw) \<mapsto> ck)) Q P' (netQ - {#(h, ct, pt)#}) netP))"
proof (cases "mkey (h, ct, pt) \<in> fst ` set (skipped_alist (rs_skipped_message_keys P)) \<or>
      rs_remote_public_key P = Some (hdr_ratchet_public_key h)")
  case True
  from paired_deliver_to_behind_old[OF crypto_okD(1)[OF C] inv mem room True, of draw] show ?thesis by blast
next
  case False
  then have "mkey (h, ct, pt) \<notin> fst ` set (skipped_alist (rs_skipped_message_keys P))"
    "rs_remote_public_key P \<noteq> Some (hdr_ratchet_public_key h)" by simp_all
  from paired_deliver_to_behind_new[OF crypto_okD(1,4,5)[OF C] inv mem room new this] show ?thesis by metis
qed

lemma conversation_deliver_step:
  assumes C: "crypto_ok C" and ok: "conversation_ok C c" and mem: "(h, ct, pt) \<in># cv_net c p"
    and new: "X25519PublicKey (x_public C draw) \<notin> cv_used c"
  shows "fst (ratchet_decrypt C draw (cv_state c (peer p)) h ct) = Inr pt \<and>
    conversation_ok C (do_deliver C p draw (h, ct, pt) c)"
proof -
  let ?k = "X25519PublicKey (x_public C draw)"
  have size: "size (cv_net c p') \<le> skipped_max" for p' using ok by (simp add: conversation_ok_def)
  have size': "size (cv_net c p - {#(h, ct, pt)#}) \<le> skipped_max"
    using size_after size[of p] by (rule le_trans)
  from ok consider
      (start) hist where "dom hist \<subseteq> cv_used c" "cv_net c Bob = {#}"
        "initial C hist (cv_state c Alice) (cv_state c Bob) (cv_net c Alice)"
    | (on) q histP histQ where "dom histP \<subseteq> cv_used c" "dom histQ \<subseteq> cv_used c"
        "paired C histP histQ (cv_state c (peer q)) (cv_state c q) (cv_net c (peer q)) (cv_net c q)"
    unfolding conversation_ok_def by blast
  then show ?thesis
  proof cases
    case start
    with mem have p: "p = Alice" by (cases p) simp_all
    from initial_deliver[OF crypto_okD(1,4,5)[OF C] start(3) mem[unfolded p] size] obtain S ck where
      dec: "ratchet_decrypt C draw (cv_state c Bob) h ct = (Inr pt, S)"
      and pub: "pub S = ?k"
      and inv: "paired C hist [pub S \<mapsto> ck] (cv_state c Alice) S (cv_net c Alice - {#(h, ct, pt)#}) {#}"
      by blast
    from dec have dec': "ratchet_decrypt C draw (cv_state c (peer p)) h ct = (Inr pt, S)" by (simp add: p)
    have "conversation_ok C (do_deliver C p draw (h, ct, pt) c)"
      unfolding do_deliver_result[OF dec']
      by (rule conversation_pairedI[of _ hist "[pub S \<mapsto> ck]" _ Bob])
        (use start inv size size' p pub in \<open>auto split: if_splits\<close>)
    with dec' show ?thesis by simp
  next
    case on
    show ?thesis
    proof (cases "p = q")
      case True
      from paired_deliver_to_behind[OF C on(3) mem[unfolded True] size dom_fresh[OF on(1) new]] obtain S where
        dec: "ratchet_decrypt C draw (cv_state c (peer p)) h ct = (Inr pt, S)"
        and inv: "paired C histP histQ S (cv_state c q) (cv_net c (peer q)) (cv_net c q - {#(h, ct, pt)#}) \<or>
          (\<exists>ck. paired C histQ (histP(?k \<mapsto> ck)) (cv_state c q) S (cv_net c q - {#(h, ct, pt)#}) (cv_net c (peer q)))"
        unfolding True by blast
      from inv have "conversation_ok C (do_deliver C p draw (h, ct, pt) c)"
      proof (elim disjE exE)
        assume "paired C histP histQ S (cv_state c q) (cv_net c (peer q)) (cv_net c q - {#(h, ct, pt)#})"
        with on size size' True show ?thesis
          unfolding do_deliver_result[OF dec] by (intro conversation_pairedI[of _ histP histQ _ q]) auto
      next
        fix ck assume "paired C histQ (histP(?k \<mapsto> ck)) (cv_state c q) S (cv_net c q - {#(h, ct, pt)#}) (cv_net c (peer q))"
        with on size size' True show ?thesis
          unfolding do_deliver_result[OF dec]
          by (intro conversation_pairedI[of _ histQ "histP(?k \<mapsto> ck)" _ "peer q"]) auto
      qed
      with dec show ?thesis by simp
    next
      case False
      then have p: "p = peer q" using party_cases by blast
      from paired_deliver_to_ahead[OF crypto_okD(1)[OF C] on(3) mem[unfolded p] size, of draw] obtain S where
        dec: "ratchet_decrypt C draw (cv_state c (peer p)) h ct = (Inr pt, S)"
        and inv: "paired C histP histQ (cv_state c (peer q)) S (cv_net c (peer q) - {#(h, ct, pt)#}) (cv_net c q)"
        unfolding p by auto
      have "conversation_ok C (do_deliver C p draw (h, ct, pt) c)"
        unfolding do_deliver_result[OF dec]
        by (rule conversation_pairedI[of _ histP histQ _ q]) (use on inv size size' p in auto)
      with dec show ?thesis by simp
    qed
  qed
qed

lemma conversation_step:
  assumes "crypto_ok C" "conv_step C c c'" "conversation_ok C c"
  shows "conversation_ok C c'"
  using assms(2)
proof (elim conv_step_cases, goal_cases)
  case (1 p nonce pt)
  with conversation_send_step[OF assms(1,3)] show ?case by simp
next
  case (2 m p draw)
  obtain h ct pt where "m = (h, ct, pt)" by (cases m)
  with 2 conversation_deliver_step[OF assms(1,3)] show ?case by simp
qed

lemma conversation_run:
  assumes "crypto_ok C" "(conv_step C)\<^sup>*\<^sup>* c c'" "conversation_ok C c"
  shows "conversation_ok C c'"
  using assms(2,3) by induction (auto intro: conversation_step[OF assms(1)])

end
