(* ===== verification/Ratchet_Failures.thy ===== *)
theory Ratchet_Failures
  imports Ratchet_Delivery
begin

text \<open>
  The error paths of the ratchet: which errors leave the state as it was, and what the others leave
  behind. A refused counter gap changes nothing; a message that fails authentication has already
  moved the receiver's state, and an encryption that fails has already taken the sending chain.
\<close>

section \<open>Refused counter gaps\<close>

lemma skip_gap_error:
  assumes "hkdf_bounded C" "skip_message_keys C R pk u = (Inl (CounterGapExceeded g m), R')"
  shows "R' = R \<and> m = max_skip \<and> max_skip < g \<and> g = u - rs_receive_counter R"
proof -
  from assms have "R' = R" by (rule skip_message_keys_error_state)
  with assms show ?thesis
    by (auto simp: skip_message_keys_def Let_def skip_loop_closed saturating_sub_def split: if_splits option.splits)
qed

lemma current_gap_error:
  assumes "hkdf_bounded C" "decrypt_with_current_chain C R h ct = (Inl (CounterGapExceeded g m), R')"
  shows "R' = R \<and> m = max_skip \<and> max_skip < g \<and> g = hdr_counter h - rs_receive_counter R"
proof (cases "skip_message_keys C R (hdr_ratchet_public_key h) (hdr_counter h)")
  case (Pair r R1)
  show ?thesis
  proof (cases r)
    case (Inl e)
    with assms(2) Pair have "e = CounterGapExceeded g m" "R1 = R'"
      by (auto simp: decrypt_with_current_chain_def split: if_splits)
    with Pair Inl assms(1) show ?thesis by (auto dest: skip_gap_error)
  next
    case (Inr u)
    with assms Pair show ?thesis
      by (auto simp: decrypt_with_current_chain_def Let_def next_counter_def ok_or_def
          split_chain_key_ok dest: aes_gcm_decrypt_error split: if_splits option.splits)
  qed
qed

lemma dh_gap_error:
  assumes "hkdf_bounded C" "perform_dh_ratchet C draw R pk prev = (Inl (CounterGapExceeded g m), R')"
  shows "R' = R \<and> m = max_skip \<and> max_skip < g"
proof (cases "rs_remote_public_key R")
  case None
  with assms show ?thesis
    by (auto simp: perform_dh_ratchet_def Let_def x25519_dh_def kdf_root_key_ok split: sum.splits if_splits)
next
  case (Some old)
  obtain r R1 where skip: "skip_message_keys C R old prev = (r, R1)" by fastforce
  show ?thesis
  proof (cases r)
    case (Inl e)
    with assms(2) Some skip have "e = CounterGapExceeded g m" "R1 = R'"
      by (auto simp: perform_dh_ratchet_def)
    with skip Inl assms(1) show ?thesis by (auto dest: skip_gap_error)
  next
    case (Inr u)
    with assms Some skip show ?thesis
      by (auto simp: perform_dh_ratchet_def Let_def x25519_dh_def kdf_root_key_ok split: sum.splits if_splits)
  qed
qed

lemma dh_receive_counter:
  "perform_dh_ratchet C draw R pk prev = (Inr u, R') \<Longrightarrow> rs_receive_counter R' = 0"
  by (auto simp: perform_dh_ratchet_def Let_def split: sum.splits prod.splits option.splits)

lemma decrypt_gap_error:
  assumes C: "hkdf_bounded C" and dec: "ratchet_decrypt C draw R h ct = (Inl (CounterGapExceeded g m), R')"
  shows "R' = R \<and> m = max_skip \<and> max_skip < g"
proof -
  obtain k st where rem: "skipped_remove (rs_skipped_message_keys R)
      (hdr_ratchet_public_key h) (hdr_counter h) = (k, st)" by fastforce
  obtain r1 R1 where dh: "perform_dh_ratchet C draw R (hdr_ratchet_public_key h)
      (hdr_previous_counter h) = (r1, R1)" by fastforce
  obtain r2 R2 where cur: "decrypt_with_current_chain C R h ct = (r2, R2)" by fastforce
  obtain c where counter: "next_counter (hdr_counter h) = Inr c" 
    using dec by (cases "next_counter (hdr_counter h)")
      (auto simp: ratchet_decrypt_def Let_def next_counter_def ok_or_def split: option.splits)
  define needs where "needs \<longleftrightarrow> (case rs_remote_public_key R of
      Some pk \<Rightarrow> x_pub_bytes pk \<noteq> x_pub_bytes (hdr_ratchet_public_key h)
    | None \<Rightarrow> 0 < rs_send_counter R)"
  have k: "k = None"
    using dec counter rem
    by (cases k) (auto simp: ratchet_decrypt_def Let_def dest: aes_gcm_decrypt_error)
  show ?thesis
  proof (cases needs)
    case True
    show ?thesis
    proof (cases "max_skip < hdr_counter h")
      case True
      with \<open>needs\<close> dec counter rem k show ?thesis
        by (auto simp: ratchet_decrypt_def Let_def needs_def)
    next
      case False
      show ?thesis
      proof (cases r1)
        case (Inl e)
        with \<open>needs\<close> False dec counter rem k dh have "e = CounterGapExceeded g m" "R1 = R'"
          by (auto simp: ratchet_decrypt_def Let_def needs_def)
        with dh Inl C show ?thesis by (auto dest: dh_gap_error)
      next
        case (Inr u)
        with \<open>needs\<close> False dec counter rem k dh
        have "decrypt_with_current_chain C R1 h ct = (Inl (CounterGapExceeded g m), R')"
          by (auto simp: ratchet_decrypt_def Let_def needs_def)
        from current_gap_error[OF C this] dh_receive_counter dh Inr False show ?thesis by auto
      qed
    qed
  next
    case False
    show ?thesis
    proof (cases r2)
      case (Inl e)
      with False dec counter rem k cur have "e = CounterGapExceeded g m" "R2 = R'"
        by (auto simp: ratchet_decrypt_def Let_def needs_def)
      with cur Inl C show ?thesis by (auto dest: current_gap_error)
    next
      case (Inr pt)
      with False dec counter rem k cur C show ?thesis
        by (auto simp: ratchet_decrypt_def Let_def needs_def prepare_initial_response_ratchet_def
            x25519_dh_def kdf_root_key_ok split: if_splits sum.splits)
    qed
  qed
qed

section \<open>A message that fails authentication\<close>

text \<open>
  A header with a ratchet key the receiver has not seen takes the receiver through a
  Diffie-Hellman step, whatever the ciphertext is: the root key, the ratchet key pair and the
  remote key are replaced before the ciphertext is authenticated.
\<close>

lemma skip_keeps:
  "rs_root_key (snd (skip_message_keys C R pk u)) = rs_root_key R"
  "rs_remote_public_key (snd (skip_message_keys C R pk u)) = rs_remote_public_key R"
  "rs_dh_key_pair (snd (skip_message_keys C R pk u)) = rs_dh_key_pair R"
  "rs_send_counter (snd (skip_message_keys C R pk u)) = rs_send_counter R"
  by (auto simp: skip_message_keys_def Let_def split: option.split prod.split sum.split)

lemma current_keeps:
  "rs_root_key (snd (decrypt_with_current_chain C R h ct)) = rs_root_key R"
  "rs_remote_public_key (snd (decrypt_with_current_chain C R h ct)) = rs_remote_public_key R"
  "rs_dh_key_pair (snd (decrypt_with_current_chain C R h ct)) = rs_dh_key_pair R"
  using skip_keeps[of C R "hdr_ratchet_public_key h" "hdr_counter h"]
  by (auto simp: decrypt_with_current_chain_def Let_def split: option.split prod.split sum.split)

lemma forged_header:
  assumes C: "hkdf_bounded C" and remote: "rs_remote_public_key R = Some pk"
    and pk: "x_pub_bytes (hdr_ratchet_public_key h) \<noteq> x_pub_bytes pk"
    and unknown: "map_of (skipped_alist (rs_skipped_message_keys R))
      (hdr_ratchet_public_key h, hdr_counter h) = None"
    and bounds: "hdr_counter h \<le> max_skip" "hdr_previous_counter h \<le> rs_receive_counter R"
    and dh: "x25519_dh C (xkp_private_key (rs_dh_key_pair R)) (hdr_ratchet_public_key h) = Inr dh1"
      "x25519_dh C (X25519PrivateKey draw) (hdr_ratchet_public_key h) = Inr dh2"
  shows "rs_remote_public_key (snd (ratchet_decrypt C draw R h ct)) = Some (hdr_ratchet_public_key h)"
    and "rs_root_key (snd (ratchet_decrypt C draw R h ct)) = next_root C (next_root C (rs_root_key R) dh1) dh2"
    and "rs_dh_key_pair (snd (ratchet_decrypt C draw R h ct)) = generate_x25519_keypair C draw"
proof -
  have "unat max_skip = 2000" by (simp add: max_skip_def)
  with bounds(1) have counter: "unat (hdr_counter h) + 1 < 2 ^ 32" by (simp add: word_le_nat_alt)
  have "fst (skipped_remove (rs_skipped_message_keys R) (hdr_ratchet_public_key h) (hdr_counter h)) = None"
    using unknown by (simp add: skipped_remove_alist)
  then obtain st where rem: "skipped_remove (rs_skipped_message_keys R)
      (hdr_ratchet_public_key h) (hdr_counter h) = (None, st)"
    by (cases "skipped_remove (rs_skipped_message_keys R) (hdr_ratchet_public_key h) (hdr_counter h)") simp
  have small: "\<not> max_skip < hdr_counter h" using bounds(1) by simp
  obtain R1 where R1: "perform_dh_ratchet C draw R (hdr_ratchet_public_key h) (hdr_previous_counter h) = (Inr (), R1)"
    "rs_remote_public_key R1 = Some (hdr_ratchet_public_key h)"
    "rs_root_key R1 = next_root C (next_root C (rs_root_key R) dh1) dh2"
    "rs_dh_key_pair R1 = generate_x25519_keypair C draw"
    by (simp add: perform_dh_ratchet_def remote skip_message_keys_behind[OF bounds(2)] Let_def dh
        kdf_root_key_ok[OF C])
  have "ratchet_decrypt C draw R h ct = decrypt_with_current_chain C R1 h ct"
    using pk remote by (simp add: ratchet_decrypt_def next_counter_ok[OF counter] rem Let_def small R1(1))
  then show "rs_remote_public_key (snd (ratchet_decrypt C draw R h ct)) = Some (hdr_ratchet_public_key h)"
    "rs_root_key (snd (ratchet_decrypt C draw R h ct)) = next_root C (next_root C (rs_root_key R) dh1) dh2"
    "rs_dh_key_pair (snd (ratchet_decrypt C draw R h ct)) = generate_x25519_keypair C draw"
    by (simp_all add: current_keeps R1)
qed

text \<open>A failed attempt on a kept key uses the key up.\<close>

lemma kept_key_spent:
  assumes R: "follows_chain C ck pk R" and h: "hdr_ratchet_public_key h = pk" "hdr_counter h \<in> pending pk R"
    and bound: "unat (hdr_counter h) + 1 < 2 ^ 32"
    and dec: "ratchet_decrypt C draw R h ct = (r, R')"
  shows "follows_chain C ck pk R' \<and> rs_receive_counter R' = rs_receive_counter R \<and>
    pending pk R' = pending pk R - {hdr_counter h}"
proof -
  let ?S = "rs_skipped_message_keys R" and ?c = "hdr_counter h"
  from h obtain k where k: "map_of (skipped_alist ?S) (pk, ?c) = Some k" by (auto simp: pending_def)
  obtain store where rem: "skipped_remove ?S pk ?c = (Some k, store)"
    using skipped_remove_alist(1)[of ?S pk ?c] k by (cases "skipped_remove ?S pk ?c") simp
  have distinct: "distinct (map fst (skipped_alist ?S))" using R by (simp add: follows_chain_def)
  have lookup: "map_of (skipped_alist store) x =
      (if x = (pk, ?c) then None else map_of (skipped_alist ?S) x)" for x
    using skipped.rem_lookup[OF distinct, of "(pk, ?c)" x] by (simp add: rem)
  from dec have R': "R' = R\<lparr>rs_skipped_message_keys := store\<rparr>"
    using h(1) rem bound by (simp add: ratchet_decrypt_def next_counter_ok Let_def)
  have "follows_chain C ck pk R'"
    using R skipped.rem_distinct[OF distinct, of "(pk, ?c)"]
    by (auto simp: R' follows_chain_def lookup rem split: if_splits)
  moreover have "pending pk R' = pending pk R - {?c}"
    by (auto simp: R' pending_def lookup split: if_splits)
  ultimately show ?thesis by (simp add: R')
qed

section \<open>Replays\<close>

lemma replay:
  assumes C: "hkdf_bounded C" and R: "follows_chain C ck pk R" and m: "deliverable C ck pk R ((h, ct), pt)"
    and dec: "ratchet_decrypt C draw R h ct = (r, R')"
  shows "ratchet_decrypt C draw' R' h ct' = (Inl DuplicateOrExpiredMessage, R')"
proof -
  from m have h: "hdr_ratchet_public_key h = pk" "unat (hdr_counter h) + 1 < 2 ^ 32"
    "opens C ck (rs_local_identity_key R) (rs_remote_identity_key R) h ct pt" by (auto simp: deliverable_def)
  have "follows_chain C ck pk R' \<and> hdr_counter h < rs_receive_counter R' \<and> hdr_counter h \<notin> pending pk R'"
  proof (cases "hdr_counter h \<in> pending pk R")
    case True
    from R True have "hdr_counter h < rs_receive_counter R" by (auto simp: pending_def follows_chain_def)
    with kept_key_spent[OF R h(1) True h(2) dec] show ?thesis by simp
  next
    case False
    with m have ahead: "rs_receive_counter R \<le> hdr_counter h"
      and room: "skipped_len (rs_skipped_message_keys R) +
        (unat (hdr_counter h) - unat (rs_receive_counter R)) \<le> skipped_max" by (auto simp: deliverable_def)
    from room have gap: "hdr_counter h - rs_receive_counter R \<le> max_skip"
      using ahead by (intro max_skip_bound) simp_all
    have succ: "hdr_counter h < hdr_counter h + 1"
      using checked_add_1_Some[OF h(2)] by (simp add: word_less_nat_alt)
    show ?thesis
    proof (rule decrypt_ahead[OF C R h(1) ahead gap room h(3,2), of draw])
      fix R1 assume R1: "ratchet_decrypt C draw R h ct = (Inr pt, R1)" "follows_chain C ck pk R1"
        "pending pk R1 = pending pk R \<union> {c. rs_receive_counter R \<le> c \<and> c < hdr_counter h}"
        "rs_receive_counter R1 = hdr_counter h + 1"
      from R1(1) dec have "R1 = R'" by simp
      with R1 False succ show ?thesis by simp
    qed
  qed
  with h(1) show ?thesis using decrypt_again by blast
qed

section \<open>An encryption that fails\<close>

lemma encrypt_no_nonce:
  assumes "hkdf_bounded C" "unat (rs_send_counter S) + 1 < 2 ^ 32" "rs_sending_chain_key S = Some ck"
  shows "ratchet_encrypt C None S pt = (Inl EncryptionFailed, S\<lparr>rs_sending_chain_key := None\<rparr>)"
  using assms by (simp add: ratchet_encrypt_def checked_add_1_Some split_chain_key_ok generate_nonce_def ok_or_def)

lemma encrypt_no_chain:
  "unat (rs_send_counter S) + 1 < 2 ^ 32 \<Longrightarrow> rs_sending_chain_key S = None \<Longrightarrow>
   ratchet_encrypt C nd S pt = (Inl SendingChainNotInitialized, S)"
  by (simp add: ratchet_encrypt_def checked_add_1_Some)

lemma encrypt_exhausted:
  "unat (rs_send_counter S) = 2 ^ 32 - 1 \<Longrightarrow>
   ratchet_encrypt C nd S pt = (Inl (InvalidCounter ''send counter overflow''), S)"
  using checked_add_1_None_iff[of "rs_send_counter S"] by (simp add: ratchet_encrypt_def)

lemma decrypt_exhausted:
  "unat (hdr_counter h) = 2 ^ 32 - 1 \<Longrightarrow>
   ratchet_decrypt C draw R h ct = (Inl (InvalidCounter ''counter overflow''), R)"
  by (simp add: ratchet_decrypt_def next_counter_overflow)

end
