(* ===== verification/E2ee_Properties.thy ===== *)
theory E2ee_Properties
  imports Ratchet_Conversation Ratchet_Failures X3dh
begin

text \<open>
  The properties of the E2EE core: the theorems about whole sessions, deliveries, replays, refused
  and forged messages, key bundles and persistence, each applied at a concrete input of the
  executable library \<open>sample_crypto\<close>.
\<close>

section \<open>Concrete parties\<close>

fun the_ok :: "'e + 'a \<Rightarrow> 'a" where
  "the_ok (Inr x) = x"
| "the_ok (Inl e) = undefined"

definition sample_ia :: x25519_public_key where "sample_ia = X25519PublicKey (replicate 32 1)"
definition sample_ib :: x25519_public_key where "sample_ib = X25519PublicKey (replicate 32 2)"
definition sample_root :: ratchet_root_key where "sample_root = RatchetRootKey (replicate 32 9)"

definition sample_alice :: ratchet_state where
  "sample_alice = the_ok (init_sending_chain sample_crypto (replicate 32 3) sample_root sample_ia sample_ib)"

definition sample_bob :: ratchet_state where
  "sample_bob = the_ok (init_receiving_chain sample_crypto (replicate 32 4) sample_root sample_ib sample_ia)"

definition sample_nonce :: "bytes option" where "sample_nonce = Some (replicate 12 7)"

definition sample_sent :: "(ratchet_header \<times> bytes) \<times> ratchet_state" where
  "sample_sent = map_prod the_ok id (ratchet_encrypt sample_crypto sample_nonce sample_alice [1, 2, 3])"

definition sample_start :: conversation where
  "sample_start = \<lparr>cv_state = (\<lambda>p. case p of Alice \<Rightarrow> sample_alice | Bob \<Rightarrow> sample_bob),
     cv_net = (\<lambda>_. {#}), cv_used = {X25519PublicKey (replicate 32 3)}\<rparr>"

lemma sample_crypto_ok: "crypto_ok sample_crypto"
  by (simp add: crypto_ok_def sample_crypto_laws)

lemma sample_init:
  "init_sending_chain sample_crypto (replicate 32 3) sample_root sample_ia sample_ib = Inr sample_alice"
  "init_receiving_chain sample_crypto (replicate 32 4) sample_root sample_ib sample_ia = Inr sample_bob"
  unfolding sample_alice_def sample_bob_def init_sending_chain_def init_receiving_chain_def
  by (simp_all add: hkdf32[OF sample_crypto_laws(5)] Let_def)

lemma sample_public: "x_public sample_crypto (replicate 32 b) = replicate 32 b"
  by (simp add: sample_crypto_def)

lemma sample_starts:
  "starts sample_crypto sample_root sample_ia sample_ib (replicate 32 3) (replicate 32 4) sample_start"
  unfolding starts_def sample_start_def by (simp add: sample_init sample_public)

lemma sample_encrypt:
  "ratchet_encrypt sample_crypto sample_nonce sample_alice [1, 2, 3] = (Inr (fst sample_sent), snd sample_sent)"
proof -
  have "is_ok (fst (ratchet_encrypt sample_crypto sample_nonce sample_alice [1, 2, 3]))" by code_simp
  then show ?thesis
    by (cases "ratchet_encrypt sample_crypto sample_nonce sample_alice [1, 2, 3]";
        cases "fst (ratchet_encrypt sample_crypto sample_nonce sample_alice [1, 2, 3])")
      (simp_all add: sample_sent_def)
qed

lemma sample_sendable: "sendable (sample_nonce, [1, 2, 3])"
  by (simp add: sendable_def sample_nonce_def aes_max_def)

lemma sample_counters: "rs_send_counter sample_alice = 0" "rs_receive_counter sample_bob = 0"
  by code_simp+

definition sample_later :: conversation where
  "sample_later = do_send sample_crypto Alice sample_nonce [1, 2, 3] sample_start"

lemma sample_run: "(conv_step sample_crypto)\<^sup>*\<^sup>* sample_start sample_later"
proof (rule r_into_rtranclp)
  show "conv_step sample_crypto sample_start sample_later"
    unfolding sample_later_def
    by (rule conv_step.send)
      (simp_all add: may_send_def sample_start_def skipped_max_def sample_sendable sample_counters)
qed

lemma sample_in_flight: "(fst (fst sample_sent), snd (fst sample_sent), [1, 2, 3]) \<in># cv_net sample_later Alice"
  by (simp add: sample_later_def do_send_def sample_start_def sample_encrypt split: prod.split)

lemma sample_later_bob: "cv_state sample_later Bob = sample_bob" "cv_used sample_later = {X25519PublicKey (replicate 32 3)}"
  by (simp_all add: sample_later_def do_send_def sample_start_def split: prod.split)

lemma sample_fresh: "X25519PublicKey (x_public sample_crypto (replicate 32 5)) \<notin> cv_used sample_later"
  unfolding sample_later_bob sample_public by simp

section \<open>Sessions\<close>

text \<open>
  C1: Two parties whose ratchets start from the same X3DH root key and each other's identity keys
  exchange messages in any interleaving, the network reordering and losing them in both directions,
  with at most 2000 undelivered messages per direction and a fresh ratchet key at every step: every
  message in flight decrypts to the plaintext that was sent, in every state a run can reach.
\<close>

theorem session_delivery:
  assumes "crypto_ok C" "wf_pub ia" "wf_pub ib" "starts C rk ia ib drawA drawB c"
    and "(conv_step C)\<^sup>*\<^sup>* c c'" "(h, ct, pt) \<in># cv_net c' p"
    and "X25519PublicKey (x_public C draw) \<notin> cv_used c'"
  shows "fst (ratchet_decrypt C draw (cv_state c' (peer p)) h ct) = Inr pt"
  using conversation_deliver_step[OF assms(1) conversation_run[OF assms(1,5) starts_initial[OF _ assms(2-4)]] assms(6,7)]
    crypto_okD(1)[OF assms(1)] by blast

theorem session_delivery_witness:
  "fst (ratchet_decrypt sample_crypto (replicate 32 5) sample_bob (fst (fst sample_sent)) (snd (fst sample_sent))) =
     Inr [1, 2, 3]"
  using session_delivery[OF sample_crypto_ok _ _ sample_starts sample_run sample_in_flight sample_fresh]
  by (simp add: sample_ia_def sample_ib_def sample_later_bob)

text \<open>
  C2: In every state a run reaches, a party that may send (the responder once it has received
  something) and has a nonce encrypts without an error, up to the last counter.
\<close>

theorem session_sending:
  assumes "crypto_ok C" "wf_pub ia" "wf_pub ib" "starts C rk ia ib drawA drawB c"
    and "(conv_step C)\<^sup>*\<^sup>* c c'" "may_send c' p" "sendable (nonce, pt)"
    and "unat (rs_send_counter (cv_state c' p)) + 1 < 2 ^ 32"
  shows "is_ok (fst (ratchet_encrypt C nonce (cv_state c' p) pt))"
  using conversation_send_step[OF assms(1) conversation_run[OF assms(1,5) starts_initial[OF _ assms(2-4)]] assms(6-8)]
    crypto_okD(1)[OF assms(1)] by blast

theorem session_sending_witness:
  "is_ok (fst (ratchet_encrypt sample_crypto sample_nonce (cv_state sample_start Alice) [1, 2, 3]))"
  by (rule session_sending[OF sample_crypto_ok _ _ sample_starts rtranclp.rtrancl_refl _ sample_sendable])
    (simp_all add: sample_ia_def sample_ib_def may_send_def sample_start_def skipped_max_def sample_counters)

section \<open>Key agreement\<close>

definition sample_bundle :: key_bundle where
  "sample_bundle = the_ok (generate_key_bundle sample_crypto (replicate 32 2) (Some (replicate 32 6))
     (replicate 32 7) (\<lambda>i. replicate 32 (word_of_nat (10 + i))) 1 [(100, 2)])"

definition sample_otk :: one_time_pre_key_pair where
  "sample_otk = kb_one_time_pre_key_pairs sample_bundle ! 1"

definition sample_ik :: x25519_key_pair where
  "sample_ik = generate_x25519_keypair sample_crypto (replicate 32 1)"

lemma sample_bundle_ok:
  "generate_key_bundle sample_crypto (replicate 32 2) (Some (replicate 32 6))
     (replicate 32 7) (\<lambda>i. replicate 32 (word_of_nat (10 + i))) 1 [(100, 2)] = Inr sample_bundle"
proof -
  have "is_ok (generate_key_bundle sample_crypto (replicate 32 2) (Some (replicate 32 6))
     (replicate 32 7) (\<lambda>i. replicate 32 (word_of_nat (10 + i))) 1 [(100, 2)])"
    unfolding generate_key_bundle_ok_iff by (simp add: batch_fits_def)
  then show ?thesis unfolding sample_bundle_def
    by (cases "generate_key_bundle sample_crypto (replicate 32 2) (Some (replicate 32 6))
     (replicate 32 7) (\<lambda>i. replicate 32 (word_of_nat (10 + i))) 1 [(100, 2)]") simp_all
qed

lemma sample_otk_mem: "sample_otk \<in> set (kb_one_time_pre_key_pairs sample_bundle)"
proof -
  have "length (map otk_id (kb_one_time_pre_key_pairs sample_bundle)) = length (concat (map batch_ids [(100, 2)]))"
    using generate_key_bundle_result[OF sample_bundle_ok] by metis
  then have "length (kb_one_time_pre_key_pairs sample_bundle) = 2"
    by (simp add: batch_ids_def)
  then show ?thesis by (simp add: sample_otk_def)
qed

text \<open>
  C3: X3DH agreement. From a bundle the responder generated, with or without one of its one-time
  pre-keys, the initiator and the responder derive the same 32-byte root key; both report the
  one-time pre-key that was used, and the raw variant derives the same key without an identifier.
\<close>

theorem x3dh_agreement:
  assumes "crypto_ok C" "ed25519_correct C"
    and "generate_key_bundle C ik_draw sd spk_draw otk_draw spk_id batches = Inr kb"
    and "otk = None \<or> (\<exists>p \<in> set (kb_one_time_pre_key_pairs kb). otk = Some p)" "derived_key_pair C ik"
  shows "\<exists>rk. length (root_key_bytes rk) = 32 \<and>
    x3dh_initiate C draw ik (fetch_of kb otk) = Inr
      \<lparr>xi_root_key = rk, xi_ephemeral_public_key = X25519PublicKey (x_public C draw),
       xi_spk_id = spk_id, xi_otk_id = map_option otk_id otk\<rparr> \<and>
    x3dh_respond C (kb_identity_key_pair kb) (kb_signed_pre_key_pair kb) otk
      (xkp_public_key ik) (X25519PublicKey (x_public C draw)) = Inr
      \<lparr>xr_root_key = rk, xr_otk_id = map_option otk_id otk\<rparr> \<and>
    x3dh_respond_with_raw_otk C (kb_identity_key_pair kb) (kb_signed_pre_key_pair kb)
      (map_option otk_key_pair otk) (xkp_public_key ik) (X25519PublicKey (x_public C draw)) = Inr
      \<lparr>xr_root_key = rk, xr_otk_id = None\<rparr>"
  using agreement[OF crypto_okD(1,3,4,5)[OF assms(1)] assms(2-5), of draw] by metis

theorem x3dh_agreement_witness:
  "\<exists>rk. x3dh_initiate sample_crypto (replicate 32 8) sample_ik (fetch_of sample_bundle (Some sample_otk)) = Inr
      \<lparr>xi_root_key = rk, xi_ephemeral_public_key = X25519PublicKey (replicate 32 8),
       xi_spk_id = 1, xi_otk_id = Some (otk_id sample_otk)\<rparr> \<and>
    x3dh_respond sample_crypto (kb_identity_key_pair sample_bundle) (kb_signed_pre_key_pair sample_bundle)
      (Some sample_otk) (xkp_public_key sample_ik) (X25519PublicKey (replicate 32 8)) = Inr
      \<lparr>xr_root_key = rk, xr_otk_id = Some (otk_id sample_otk)\<rparr>"
  using x3dh_agreement[OF sample_crypto_ok sample_crypto_laws(4) sample_bundle_ok _ derived_generate,
      of "Some sample_otk" "replicate 32 8" "replicate 32 1"] sample_otk_mem
  unfolding sample_public sample_ik_def by auto

text \<open>
  C4: A bundle whose signed pre-key does not carry a valid signature of its signing key is refused,
  before any key is derived from it; and no other error is reported as a refused signature.
\<close>

theorem x3dh_bad_signature:
  assumes "x3dh_initiate C draw ik remote = r"
  shows "r = Inl SpkSignatureRejected \<longleftrightarrow>
    \<not> is_ok (ed25519_verify C (pkf_signing_key remote) (x_pub_bytes (pk_key (pkf_signed_pre_key remote)))
        (pkf_signed_pre_key_signature remote))"
  using assms
  by (cases "ed25519_verify C (pkf_signing_key remote) (x_pub_bytes (pk_key (pkf_signed_pre_key remote)))
        (pkf_signed_pre_key_signature remote)")
    (auto simp: x3dh_initiate_def Let_def and_then_def x25519_dh_def dh_copy_to_stack_def hkdf_sha256_def
      ok_or_def split: sum.splits option.splits if_splits prod.splits)

theorem x3dh_bad_signature_witness:
  "x3dh_initiate sample_crypto (replicate 32 8) sample_ik
     ((fetch_of sample_bundle None)\<lparr>pkf_signed_pre_key_signature := Ed25519Signature []\<rparr>) =
     Inl SpkSignatureRejected"
  using x3dh_bad_signature[OF refl, of sample_crypto "replicate 32 8" sample_ik
      "(fetch_of sample_bundle None)\<lparr>pkf_signed_pre_key_signature := Ed25519Signature []\<rparr>"]
  by (simp add: ed25519_verify_def sample_crypto_def pad32_def)

text \<open>
  Generating a bundle succeeds exactly when the signing seed could be drawn, the one-time
  pre-key count fits 32 bits and no identifier of a batch overflows; then the one-time pre-keys
  have the requested identifiers in order, the published list is the public half of the private
  one, and the signature on the signed pre-key verifies.
\<close>

theorem key_bundle_generation:
  assumes "ed25519_correct C"
  shows "(is_ok (generate_key_bundle C ik sd spk otk spk_id batches) \<longleftrightarrow>
      sd \<noteq> None \<and> sum_list (map (unat \<circ> snd) batches) < 2 ^ 32 \<and> (\<forall>b \<in> set batches. batch_fits b)) \<and>
    (\<forall>kb. generate_key_bundle C ik sd spk otk spk_id batches = Inr kb \<longrightarrow>
      kb_spk_id kb = spk_id \<and>
      map otk_id (kb_one_time_pre_key_pairs kb) = concat (map batch_ids batches) \<and>
      pkb_one_time_pre_keys (kb_bundle kb) = map otk_pre_key (kb_one_time_pre_key_pairs kb) \<and>
      ed25519_verify C (pkb_signing_key (kb_bundle kb)) (x_pub_bytes (pkb_signed_pre_key (kb_bundle kb)))
        (pkb_signed_pre_key_signature (kb_bundle kb)) = Inr ())"
  unfolding generate_key_bundle_ok_iff
  by (auto elim!: generate_key_bundle_result)
    (use assms in \<open>simp add: ed25519_verify_def ed25519_correct_def\<close>)

theorem key_bundle_generation_witness:
  "map otk_id (kb_one_time_pre_key_pairs sample_bundle) = [100, 101]"
  using key_bundle_generation[OF sample_crypto_laws(4), THEN conjunct2, rule_format, OF sample_bundle_ok]
  by (simp add: batch_ids_def u32_range_def upt_rec)

section \<open>Delivery, replay, gaps\<close>

text \<open>The sample states written out, and a receiver in step with the sample sender.\<close>

definition sample_chain :: chain_key where
  "sample_chain = ChainKey (hkdf32 sample_crypto (root_key_bytes sample_root) info_sending_chain)"

lemma sample_alice_eq:
  "sample_alice = \<lparr>rs_root_key = sample_root, rs_sending_chain_key = Some sample_chain,
     rs_receiving_chain_key = Some (ChainKey (hkdf32 sample_crypto (root_key_bytes sample_root) info_receiving_chain)),
     rs_send_counter = 0, rs_receive_counter = 0, rs_previous_counter = 0,
     rs_dh_key_pair = generate_x25519_keypair sample_crypto (replicate 32 3), rs_remote_public_key = None,
     rs_skipped_message_keys = skipped_new, rs_local_identity_key = sample_ia,
     rs_remote_identity_key = sample_ib\<rparr>"
  unfolding sample_alice_def init_sending_chain_def
  by (simp add: hkdf32[OF sample_crypto_laws(5)] Let_def sample_chain_def)

lemma sample_bob_eq:
  "sample_bob = \<lparr>rs_root_key = sample_root,
     rs_sending_chain_key = Some (ChainKey (hkdf32 sample_crypto (root_key_bytes sample_root) info_receiving_chain)),
     rs_receiving_chain_key = Some sample_chain,
     rs_send_counter = 0, rs_receive_counter = 0, rs_previous_counter = 0,
     rs_dh_key_pair = generate_x25519_keypair sample_crypto (replicate 32 4), rs_remote_public_key = None,
     rs_skipped_message_keys = skipped_new, rs_local_identity_key = sample_ib,
     rs_remote_identity_key = sample_ia\<rparr>"
  unfolding sample_bob_def init_receiving_chain_def
  by (simp add: hkdf32[OF sample_crypto_laws(5)] Let_def sample_chain_def)

definition sample_reader :: ratchet_state where
  "sample_reader = sample_bob\<lparr>rs_remote_public_key := Some (X25519PublicKey (replicate 32 3))\<rparr>"

lemmas sample_states = sample_alice_eq sample_bob_eq sample_reader_def

lemma skipped_alist_new [simp]: "skipped_alist skipped_new = []" "skipped_len skipped_new = 0"
  by (simp_all add: skipped_alist_def skipped_new_def skipped_len_def)

lemma sample_pub: "pub sample_alice = X25519PublicKey (replicate 32 3)"
  by (simp only: sample_alice_eq generate_x25519_keypair_sel sample_public ratchet_state.simps)

lemma sample_follows: "follows_chain sample_crypto sample_chain (X25519PublicKey (replicate 32 3)) sample_reader"
  by (simp add: follows_chain_def sample_states)

lemma in_step_sample: "in_step sample_crypto sample_chain sample_alice sample_reader"
  unfolding in_step_def sample_pub sends_on_def
  by (simp add: sample_follows) (simp add: sample_states sample_ia_def sample_ib_def)

lemma sample_wf: "wf_ratchet_state sample_alice" "wf_ratchet_state sample_reader"
  using wf_generate[OF sample_crypto_laws(1), of "replicate 32 3"]
    wf_generate[OF sample_crypto_laws(1), of "replicate 32 4"] wf_store_new
  by (simp_all add: wf_ratchet_state_def sample_states sample_ia_def sample_ib_def sample_root_def
      hkdf32[OF sample_crypto_laws(5)] sample_chain_def)

text \<open>
  Replay protection. After a message of the chain was decrypted, decrypting it (or any other
  ciphertext with its counter) again is refused as a duplicate and leaves the state unchanged.
\<close>

theorem replay_refused:
  assumes "hkdf_bounded C" "follows_chain C ck pk R" "deliverable C ck pk R ((h, ct), pt)"
    and "ratchet_decrypt C draw R h ct = (r, R')"
  shows "ratchet_decrypt C draw' R' h ct' = (Inl DuplicateOrExpiredMessage, R')"
  by (rule replay[OF assms])

theorem replay_refused_witness:
  "snd (ratchet_decrypt sample_crypto [] (snd (ratchet_decrypt sample_crypto []
     sample_reader (fst (fst sample_sent)) (snd (fst sample_sent)))) (fst (fst sample_sent)) []) =
   snd (ratchet_decrypt sample_crypto [] sample_reader (fst (fst sample_sent)) (snd (fst sample_sent)))"
proof -
  let ?h = "fst (fst sample_sent)" and ?ct = "snd (fst sample_sent)"
  obtain h ct where enc: "ratchet_encrypt sample_crypto sample_nonce sample_alice [1, 2, 3] = (Inr (h, ct),
       sample_alice\<lparr>rs_sending_chain_key := Some (chain_at sample_crypto sample_chain (unat (rs_send_counter sample_alice + 1))),
         rs_send_counter := rs_send_counter sample_alice + 1\<rparr>)"
    and h: "hdr_ratchet_public_key h = pub sample_alice" "hdr_counter h = rs_send_counter sample_alice"
    and opens: "opens sample_crypto sample_chain (rs_local_identity_key sample_alice)
      (rs_remote_identity_key sample_alice) h ct [1, 2, 3]"
    by (rule encrypt_on_chain[OF sample_crypto_laws(5,6) _ sample_sendable, of sample_chain sample_alice])
      (use in_step_sample in \<open>simp_all add: in_step_def sample_counters\<close>)
  have eq: "?h = h" "?ct = ct" using enc unfolding sample_encrypt by simp_all
  have "opens sample_crypto sample_chain (rs_local_identity_key sample_reader)
      (rs_remote_identity_key sample_reader) h ct [1, 2, 3]"
    using opens opens_swap in_step_sample by (simp add: in_step_def)
  then have "deliverable sample_crypto sample_chain (X25519PublicKey (replicate 32 3)) sample_reader ((h, ct), [1, 2, 3])"
    using h unfolding sample_pub by (simp add: deliverable_def sample_counters) (simp add: sample_states)
  from replay_refused[OF sample_crypto_laws(5) sample_follows this, of "[]"] show ?thesis
    unfolding eq by (metis prod.collapse snd_conv)
qed

text \<open>
  C21: Encryption and decryption keep a well-formed state well formed, whatever message arrives and
  whether they succeed or fail: keys keep their lengths and the store of skipped keys never holds
  more than 2000 entries.
\<close>

theorem ratchet_state_invariant:
  assumes "hkdf_bounded C" "x25519_sizes C" "wf_ratchet_state st"
  shows "wf_ratchet_state (snd (ratchet_encrypt C nonce st pt)) \<and>
    (length draw = 32 \<longrightarrow> wf_header h \<longrightarrow>
      wf_ratchet_state (snd (ratchet_decrypt C draw st h ct)) \<and>
      length (skipped_entries (rs_skipped_message_keys (snd (ratchet_decrypt C draw st h ct)))) \<le> 2000)"
proof (intro conjI impI)
  show "wf_ratchet_state (snd (ratchet_encrypt C nonce st pt))"
    using assms(1,3) by (rule ratchet_encrypt_wf)
  assume "length draw = 32" "wf_header h"
  with assms show "wf_ratchet_state (snd (ratchet_decrypt C draw st h ct))" by (intro ratchet_decrypt_wf)
  then show "length (skipped_entries (rs_skipped_message_keys (snd (ratchet_decrypt C draw st h ct)))) \<le> 2000"
    by (simp add: wf_ratchet_state_def wf_store_def skipped_len_def skipped_max_def)
qed

theorem ratchet_state_invariant_witness:
  "wf_ratchet_state (snd (ratchet_encrypt sample_crypto None sample_alice [1]))"
  using ratchet_state_invariant[OF sample_crypto_laws(5,1) sample_wf(1)] by blast

definition sample_header :: "u32 \<Rightarrow> ratchet_header" where
  "sample_header c = \<lparr>hdr_ratchet_public_key = X25519PublicKey (replicate 32 3), hdr_counter = c,
     hdr_previous_counter = 0, hdr_nonce = AesNonce (replicate 12 7)\<rparr>"

text \<open>
  A message whose counter lies more than 2000 ahead is refused with the gap, and refusing it
  leaves the receiver's state exactly as it was: no key is derived or dropped.
\<close>

theorem gap_refused_unchanged:
  assumes "hkdf_bounded C" "ratchet_decrypt C draw R h ct = (Inl (CounterGapExceeded g m), R')"
  shows "R' = R \<and> m = 2000 \<and> 2000 < g"
  using decrypt_gap_error[OF assms] by (simp add: max_skip_def)

theorem gap_refused_unchanged_witness:
  "ratchet_decrypt sample_crypto [] sample_reader (sample_header 3000) [] =
     (Inl (CounterGapExceeded 3000 2000), sample_reader)"
proof -
  obtain R' where "ratchet_decrypt sample_crypto [] sample_reader (sample_header 3000) [] =
      (Inl (CounterGapExceeded 3000 2000), R')"
    by (simp add: ratchet_decrypt_def next_counter_def checked_add_code ok_or_def sample_header_def sample_states
        skipped_remove_def skipped_new_def Let_def decrypt_with_current_chain_def skip_message_keys_def
        saturating_sub_def max_skip_def)
  with gap_refused_unchanged[OF sample_crypto_laws(5) this] show ?thesis by simp
qed

text \<open>
  C38: The counters cannot wrap. At the last counter encryption fails with an invalid-counter error,
  and a header with the last counter is refused; neither changes the state.
\<close>

theorem counters_never_wrap:
  "(unat (rs_send_counter S) = 2 ^ 32 - 1 \<longrightarrow>
      ratchet_encrypt C nonce S pt = (Inl (InvalidCounter ''send counter overflow''), S)) \<and>
   (unat (hdr_counter h) = 2 ^ 32 - 1 \<longrightarrow>
      ratchet_decrypt C draw S h ct = (Inl (InvalidCounter ''counter overflow''), S))"
  using encrypt_exhausted decrypt_exhausted by blast

theorem counters_never_wrap_witness:
  "ratchet_decrypt sample_crypto [] sample_reader (sample_header 4294967295) [] =
     (Inl (InvalidCounter ''counter overflow''), sample_reader)"
  using counters_never_wrap[of sample_reader sample_crypto None "[]" "sample_header 4294967295" "[]" "[]"]
  by (simp add: sample_header_def)

section \<open>Encodings and persistence\<close>

text \<open>
  The 52-byte header encoding: every header with the lengths of its arrays survives a round
  trip, exactly the strings of 52 bytes decode, and only to the header they encode.
\<close>

theorem header_round_trip:
  "(wf_header h \<longrightarrow> decode_ratchet_header (encode_ratchet_header h) = Inr h \<and>
      length (encode_ratchet_header h) = 52) \<and>
   (is_ok (decode_ratchet_header bs) \<longleftrightarrow> length bs = 52) \<and>
   (decode_ratchet_header bs = Inr h' \<longrightarrow> wf_header h' \<and> encode_ratchet_header h' = bs)"
  using header_codec.dec_enc header_codec.enc_width header_codec.dec_iff header_codec.enc_dec by blast

theorem header_round_trip_witness:
  "decode_ratchet_header (encode_ratchet_header (sample_header 258)) = Inr (sample_header 258) \<and>
   drop 32 (take 36 (encode_ratchet_header (sample_header 258))) = [0, 0, 1, 2]"
proof
  show "decode_ratchet_header (encode_ratchet_header (sample_header 258)) = Inr (sample_header 258)"
    using header_round_trip[of "sample_header 258"] by (simp add: wf_header_def sample_header_def)
  show "drop 32 (take 36 (encode_ratchet_header (sample_header 258))) = [0, 0, 1, 2]"
    by code_simp
qed

text \<open>
  Exporting a state and restoring it gives the state back, when the serializer is inverted by
  the deserializer on it; a versioned payload the deserializer rejects is reported as corrupted.
\<close>

theorem export_restore:
  assumes "bincode_inverse ser de state"
  shows "restore_state de (export_state ser state) = Inr state \<and>
    (de payload = None \<longrightarrow> restore_state de (state_version # payload) = Inl StateDeserializationFailed)"
  using restore_export[OF assms] by (simp add: restore_versioned ok_or_def)

theorem export_restore_witness:
  "restore_state (\<lambda>b. if b = [42] then Some sample_alice else None)
     (export_state (\<lambda>_. Some [42]) sample_alice) = Inr sample_alice"
  using export_restore[of "\<lambda>_. Some [42]" "\<lambda>b. if b = [42] then Some sample_alice else None" sample_alice]
  by (simp add: bincode_inverse_def)

text \<open>
  The legacy format, which has no version byte, is misread when its first byte (the first byte
  of the root key) happens to be the version number: the state is decoded from the rest.
\<close>

theorem legacy_state_misread:
  assumes "de bs = Some state" "bs = state_version # rest" "de rest = None"
  shows "restore_state de bs = Inl StateDeserializationFailed"
  using assms by (simp add: restore_state_def ok_or_def)

theorem legacy_state_misread_witness:
  "restore_state (\<lambda>b. if b = [1, 42] then Some sample_alice else None) [1, 42] = Inl StateDeserializationFailed"
  by (rule legacy_state_misread[where rest = "[42]" and state = sample_alice]) (simp_all add: state_version_def)

section \<open>What failures leave behind\<close>

text \<open>
  An encryption for which no nonce could be drawn has already taken the sending chain: it
  fails, and every later encryption fails as well because the chain is gone.
\<close>

theorem nonce_failure_loses_chain:
  assumes "hkdf_bounded C" "unat (rs_send_counter S) + 1 < 2 ^ 32" "rs_sending_chain_key S = Some ck"
    and "ratchet_encrypt C None S pt = (r, S')"
  shows "r = Inl EncryptionFailed \<and> ratchet_encrypt C nonce S' pt' = (Inl SendingChainNotInitialized, S')"
proof -
  from assms have "r = Inl EncryptionFailed" "S' = S\<lparr>rs_sending_chain_key := None\<rparr>"
    by (simp_all add: encrypt_no_nonce)
  with assms(2) show ?thesis by (simp add: encrypt_no_chain)
qed

theorem nonce_failure_loses_chain_witness:
  "fst (ratchet_encrypt sample_crypto sample_nonce (snd (ratchet_encrypt sample_crypto None sample_alice [1])) [1]) =
     Inl SendingChainNotInitialized"
  using nonce_failure_loses_chain[OF sample_crypto_laws(5), of sample_alice sample_chain "[1]"
      "fst (ratchet_encrypt sample_crypto None sample_alice [1])"
      "snd (ratchet_encrypt sample_crypto None sample_alice [1])" sample_nonce "[1]"]
  by (simp add: sample_counters) (simp add: sample_states)

text \<open>
  One unauthenticated header moves the receiver to another session state. A header with any
  ratchet key the receiver has not seen, whatever its ciphertext, replaces the remote key, the root
  key and the receiver's ratchet key pair before the ciphertext is authenticated.
\<close>

theorem forged_header_moves_state:
  assumes "hkdf_bounded C" "rs_remote_public_key R = Some pk"
    and "x_pub_bytes (hdr_ratchet_public_key h) \<noteq> x_pub_bytes pk"
    and "map_of (skipped_alist (rs_skipped_message_keys R)) (hdr_ratchet_public_key h, hdr_counter h) = None"
    and "hdr_counter h \<le> max_skip" "hdr_previous_counter h \<le> rs_receive_counter R"
    and "x25519_dh C (xkp_private_key (rs_dh_key_pair R)) (hdr_ratchet_public_key h) = Inr dh1"
    and "x25519_dh C (X25519PrivateKey draw) (hdr_ratchet_public_key h) = Inr dh2"
    and "ratchet_decrypt C draw R h ct = (r, R')"
  shows "rs_remote_public_key R' = Some (hdr_ratchet_public_key h) \<and>
    rs_root_key R' = next_root C (next_root C (rs_root_key R) dh1) dh2 \<and>
    rs_dh_key_pair R' = generate_x25519_keypair C draw"
  using forged_header[OF assms(1-8)] assms(9) by (metis snd_conv)

theorem forged_header_moves_state_witness:
  "rs_remote_public_key (snd (ratchet_decrypt sample_crypto (replicate 32 5)
      sample_reader ((sample_header 0)\<lparr>hdr_ratchet_public_key := X25519PublicKey (replicate 32 6)\<rparr>) [])) =
     Some (X25519PublicKey (replicate 32 6))"
proof -
  let ?h = "(sample_header 0)\<lparr>hdr_ratchet_public_key := X25519PublicKey (replicate 32 6)\<rparr>"
  obtain r R' where dec: "ratchet_decrypt sample_crypto (replicate 32 5) sample_reader ?h [] = (r, R')" by fastforce
  have dh: "x25519_dh sample_crypto priv (X25519PublicKey (replicate 32 6)) =
      Inr (x_dh sample_crypto (x_priv_bytes priv) (replicate 32 6))" for priv
    using x25519_dh_ok[OF sample_crypto_laws(3) derived_generate, of priv "replicate 32 6"]
    unfolding generate_x25519_keypair_sel sample_public by simp
  have "rs_remote_public_key R' = Some (hdr_ratchet_public_key ?h) \<and>
    rs_root_key R' = next_root sample_crypto (next_root sample_crypto (rs_root_key sample_reader)
      (x_dh sample_crypto (x_priv_bytes (xkp_private_key (rs_dh_key_pair sample_reader))) (replicate 32 6)))
      (x_dh sample_crypto (replicate 32 5) (replicate 32 6)) \<and>
    rs_dh_key_pair R' = generate_x25519_keypair sample_crypto (replicate 32 5)"
    by (rule forged_header_moves_state[OF sample_crypto_laws(5) _ _ _ _ _ _ _ dec,
        where pk = "X25519PublicKey (replicate 32 3)"])
      (simp_all add: sample_header_def max_skip_def dh, simp_all add: sample_states)
  with dec show ?thesis by (simp add: sample_header_def)
qed

text \<open>
  A forged ciphertext under the header of a message whose key is kept uses the key up: the
  genuine message is refused as a duplicate afterwards.
\<close>

theorem forged_ciphertext_spends_key:
  assumes "follows_chain C ck pk R" "hdr_ratchet_public_key h = pk" "hdr_counter h \<in> pending pk R"
    and "unat (hdr_counter h) + 1 < 2 ^ 32" "ratchet_decrypt C draw R h forged = (r, R')"
  shows "ratchet_decrypt C draw' R' h genuine = (Inl DuplicateOrExpiredMessage, R')"
proof -
  have "hdr_counter h < rs_receive_counter R" using assms(1,3) by (auto simp: pending_def follows_chain_def)
  with kept_key_spent[OF assms] assms(2) decrypt_again show ?thesis by fastforce
qed

definition sample_keeper :: ratchet_state where
  "sample_keeper = sample_reader\<lparr>rs_receive_counter := 1,
     rs_receiving_chain_key := Some (chain_at sample_crypto sample_chain 1),
     rs_skipped_message_keys := SkippedKeyStore [\<lparr>se_ratchet_public_key = X25519PublicKey (replicate 32 3),
       se_counter = 0, se_message_key = msg_key sample_crypto sample_chain\<rparr>]\<rparr>"

theorem forged_ciphertext_spends_key_witness:
  "fst (ratchet_decrypt sample_crypto [] (snd (ratchet_decrypt sample_crypto [] sample_keeper (sample_header 0) []))
     (sample_header 0) [1]) = Inl DuplicateOrExpiredMessage"
proof -
  have "follows_chain sample_crypto sample_chain (X25519PublicKey (replicate 32 3)) sample_keeper"
    by (simp add: follows_chain_def sample_keeper_def skipped_alist_def sample_reader_def)
  from forged_ciphertext_spends_key[OF this, of "sample_header 0" "[]" "[]"
      "fst (ratchet_decrypt sample_crypto [] sample_keeper (sample_header 0) [])"
      "snd (ratchet_decrypt sample_crypto [] sample_keeper (sample_header 0) [])" "[]" "[1]"]
  show ?thesis by (simp add: sample_header_def pending_def sample_keeper_def skipped_alist_def)
qed

text \<open>
  The store of skipped keys is first in, first out: inserting into a full store drops the
  oldest entry, whichever were looked up, and a key that was inserted is found until then; a key
  that was removed is gone.
\<close>

theorem skipped_store_fifo:
  assumes "distinct (map fst (skipped_alist s))"
  shows "(skipped_len s = skipped_max \<longrightarrow>
      skipped_alist (snd (skipped_insert s pk c mk)) = tl (skipped_alist s) @ [((pk, c), mk)]) \<and>
    (map_of (skipped_alist s) (pk, c) = None \<longrightarrow>
      fst (skipped_remove (snd (skipped_insert s pk c mk)) pk c) = Some mk) \<and>
    fst (skipped_remove (snd (skipped_remove s pk c)) pk c) = None"
  using skipped.ins_evicts_oldest[of s "(pk, c)" mk] skipped.rem_ins[of s "(pk, c)" mk]
    skipped.rem_twice[OF assms, of "(pk, c)"]
  by (simp add: skipped_len_def)

theorem skipped_store_fifo_witness:
  "fst (skipped_remove (snd (skipped_insert skipped_new (X25519PublicKey [3]) 7 (MessageKey [1])))
     (X25519PublicKey [3]) 7) = Some (MessageKey [1])"
  using skipped_store_fifo[of skipped_new "X25519PublicKey [3]" 7 "MessageKey [1]"] by simp

end
