(* ===== verification/Ffi_Properties.thy ===== *)
theory Ffi_Properties
  imports Ffi_Session Host_Libs E2ee_Properties
begin

text \<open>
  What the UniFFI session manager guarantees: a session created from a handshake is the peer of the
  one that created the handshake, messages pass between two managers, sessions are isolated from
  each other and never overwritten, and the decoders accept exactly what they should.
\<close>

section \<open>Sample codecs\<close>

text \<open>
  An executable instance of the third-party codecs, used by the concrete instances of the
  properties of the hosts: text is bytes written as characters, and a key pair is its two keys.
\<close>

definition text_of :: "bytes \<Rightarrow> string" where
  "text_of b = map (\<lambda>w. char_of (unat w)) b"

definition bytes_of :: "string \<Rightarrow> bytes" where
  "bytes_of s = map (\<lambda>c. word_of_nat (of_char c)) s"

lemma bytes_of_text_of [simp]: "bytes_of (text_of b) = b"
proof -
  have "word_of_nat (of_char (char_of (unat w) :: char)) = w" for w :: byte
  proof -
    have "unat w < 256" using unsigned_less[of w] by simp
    then show ?thesis by (simp add: take_bit_nat_eq_self)
  qed
  then show ?thesis by (simp add: bytes_of_def text_of_def o_def)
qed

definition sample_host :: host_lib where
  "sample_host = \<lparr>
     bc_ser_state = (\<lambda>_. None),
     bc_de_state = (\<lambda>_. None),
     bc_ser_key_pair = (\<lambda>kp. Some (x_pub_bytes (xkp_public_key kp) @ x_priv_bytes (xkp_private_key kp))),
     bc_de_key_pair = (\<lambda>b. if length b < 64 then None
       else Some \<lparr>xkp_public_key = X25519PublicKey (take 32 b), xkp_private_key = X25519PrivateKey (take 32 (drop 32 b))\<rparr>),
     bc_de_key_tuple = (\<lambda>b. if length b < 64 then None else Some (take 32 b, take 32 (drop 32 b))),
     b64_encode = text_of,
     b64_decode = (\<lambda>s. Some (bytes_of s)),
     json_parse = (\<lambda>_. None),
     json_print = (\<lambda>_. None),
     json_fetch = (\<lambda>_. Some (fetch_of sample_bundle (Some sample_otk))),
     sha256 = pad32\<rparr>"

lemma sample_host_laws: "bincode_key_pairs sample_host" "base64_inverse sample_host"
  by (simp_all add: bincode_key_pairs_def base64_inverse_def sample_host_def)

lemma sample_host_fetch: "json_fetch sample_host s = Some (fetch_of sample_bundle (Some sample_otk))"
  by (simp add: sample_host_def)

text \<open>A key pair as a host stores it.\<close>

definition stored :: "x25519_key_pair \<Rightarrow> bytes" where
  "stored kp = x_pub_bytes (xkp_public_key kp) @ x_priv_bytes (xkp_private_key kp)"

section \<open>Establishing a session\<close>

lemma init_chains_ok:
  assumes "hkdf_bounded C"
  shows "is_ok (init_sending_chain C d rk a b)" "is_ok (init_receiving_chain C d rk a b)"
  using assms by (simp_all add: init_sending_chain_def init_receiving_chain_def hkdf32 Let_def)

lemma is_ok_obtain:
  assumes "is_ok r"
  obtains x where "r = Inr x"
  using assms by (cases r) simp_all

lemma ffi_established:
  assumes C: "crypto_ok C" "ed25519_correct C"
    and kb: "generate_key_bundle C ik_draw sd spk_draw otk_draw spk_id batches = Inr kb"
    and otk: "otk = None \<or> (\<exists>p \<in> set (kb_one_time_pre_key_pairs kb). otk = Some p)"
    and fetch: "json_fetch H bundle = Some (fetch_of kb otk)"
    and keys: "ffi_decode_keypair C H a_bytes = Inr ikA"
      "ffi_decode_keypair C H b_bytes = Inr (kb_identity_key_pair kb)"
      "ffi_decode_keypair C H spk_bytes = Inr (kb_signed_pre_key_pair kb)"
      "case otk of None \<Rightarrow> otk_bytes = None
       | Some p \<Rightarrow> \<exists>b. otk_bytes = Some b \<and> ffi_decode_keypair C H b = Inr (otk_key_pair p)"
    and A: "\<not> sm_poisoned mA" "sm_sessions mA kA = None"
    and B: "\<not> sm_poisoned mB" "sm_sessions mB kB = None"
  obtains hs mA' mB' rk stA stB where
    "ffi_create_outbound_session C H ed rdA mA kA a_bytes bundle = (Inr hs, mA')"
    and "length hs = 40" "of_be_bytes (take 4 (drop 32 hs)) = spk_id"
    and "of_be_bytes (take 4 (drop 36 hs)) = unwrap_or (map_option otk_id otk) no_otk"
    and "ffi_create_inbound_session C H rdB mB kB b_bytes spk_bytes otk_bytes
      (x_pub_bytes (xkp_public_key ikA)) (take 32 hs) = (Inr (), mB')"
    and "sm_lock mA' kA = Inr stA" "sm_lock mB' kB = Inr stB"
    and "init_sending_chain C rdA rk (xkp_public_key ikA) (xkp_public_key (kb_identity_key_pair kb)) = Inr stA"
    and "init_receiving_chain C rdB rk (xkp_public_key (kb_identity_key_pair kb)) (xkp_public_key ikA) = Inr stB"
proof -
  have derived: "derived_key_pair C ikA" by (rule ffi_decode_keypair_valid[OF keys(1)])
  have bundle_ik: "pkb_identity_key (kb_bundle kb) = xkp_public_key (kb_identity_key_pair kb)"
    by (rule generate_key_bundle_result[OF kb]) simp
  have sizes: "wf_pub (xkp_public_key ikA)" "length (x_public C ed) = 32"
    using derived crypto_okD(3)[OF C(1)] by (simp_all add: derived_key_pair_def x25519_sizes_def)
  obtain rk where
    init: "x3dh_initiate C ed ikA (fetch_of kb otk) = Inr
      \<lparr>xi_root_key = rk, xi_ephemeral_public_key = X25519PublicKey (x_public C ed),
       xi_spk_id = spk_id, xi_otk_id = map_option otk_id otk\<rparr>"
    and respond: "x3dh_respond_with_raw_otk C (kb_identity_key_pair kb) (kb_signed_pre_key_pair kb)
      (map_option otk_key_pair otk) (xkp_public_key ikA) (X25519PublicKey (x_public C ed)) = Inr
      \<lparr>xr_root_key = rk, xr_otk_id = None\<rparr>"
    by (rule agreement[OF crypto_okD(1,3,4,5)[OF C(1)] C(2) kb otk derived])
  obtain stA where stA: "init_sending_chain C rdA rk (xkp_public_key ikA)
      (xkp_public_key (kb_identity_key_pair kb)) = Inr stA"
    using init_chains_ok(1)[OF crypto_okD(1)[OF C(1)]] by (rule is_ok_obtain)
  obtain stB where stB: "init_receiving_chain C rdB rk (xkp_public_key (kb_identity_key_pair kb))
      (xkp_public_key ikA) = Inr stB"
    using init_chains_ok(2)[OF crypto_okD(1)[OF C(1)]] by (rule is_ok_obtain)
  let ?r = "\<lparr>xi_root_key = rk, xi_ephemeral_public_key = X25519PublicKey (x_public C ed),
       xi_spk_id = spk_id, xi_otk_id = map_option otk_id otk\<rparr>"
  have out: "ffi_outbound_state C H ed rdA a_bytes bundle = Inr (?r, stA)"
    using keys(1) fetch init stA bundle_ik by (simp add: ffi_outbound_state_def ok_or_def fetch_of_def)
  have hs: "handshake_bytes ?r = x_public C ed @ be_bytes spk_id @ be_bytes (unwrap_or (map_option otk_id otk) no_otk)"
    by (simp add: handshake_bytes_def)
  have otk_pair: "(case otk_bytes of None \<Rightarrow> Inr None
      | Some b \<Rightarrow> and_then (ffi_decode_keypair C H b) (\<lambda>kp. Inr (Some kp))) = Inr (map_option otk_key_pair otk)"
    using keys(4) by (auto split: option.splits)
  have inb: "ffi_inbound_state C H rdB b_bytes spk_bytes otk_bytes
      (x_pub_bytes (xkp_public_key ikA)) (take 32 (handshake_bytes ?r)) = Inr stB"
    using keys(2,3) otk_pair respond stB sizes
    by (simp add: ffi_inbound_state_def ffi_decode_public_key_def hs)
  let ?mA = "mA\<lparr>sm_sessions := (sm_sessions mA)(kA \<mapsto> \<lparr>gs_poisoned = False, gs_state = stA\<rparr>)\<rparr>"
  let ?mB = "mB\<lparr>sm_sessions := (sm_sessions mB)(kB \<mapsto> \<lparr>gs_poisoned = False, gs_state = stB\<rparr>)\<rparr>"
  show thesis
  proof (rule that)
    show "ffi_create_outbound_session C H ed rdA mA kA a_bytes bundle = (Inr (handshake_bytes ?r), ?mA)"
      using A out by (simp add: ffi_create_outbound_session_def sm_check_absent_def sm_insert_absent_def)
    show "ffi_create_inbound_session C H rdB mB kB b_bytes spk_bytes otk_bytes
      (x_pub_bytes (xkp_public_key ikA)) (take 32 (handshake_bytes ?r)) = (Inr (), ?mB)"
      using B inb by (simp add: ffi_create_inbound_session_def sm_check_absent_def sm_insert_absent_def)
    show "length (handshake_bytes ?r) = 40" "of_be_bytes (take 4 (drop 32 (handshake_bytes ?r))) = spk_id"
      "of_be_bytes (take 4 (drop 36 (handshake_bytes ?r))) = unwrap_or (map_option otk_id otk) no_otk"
      unfolding hs using sizes(2) by simp_all
  qed (use A B stA stB in \<open>simp_all add: sm_lock_def\<close>)
qed

text \<open>The two states a handshake creates begin a conversation.\<close>

lemma first_message:
  assumes C: "crypto_ok C" and wf: "wf_pub ia" "wf_pub ib"
    and A: "init_sending_chain C rdA rk ia ib = Inr A" and B: "init_receiving_chain C rdB rk ib ia = Inr B"
    and m: "sendable (nonce, pt)"
  obtains h ct A' where "ratchet_encrypt C nonce A pt = (Inr (h, ct), A')" "wf_header h"
    and "x_public C draw \<noteq> x_public C rdA \<longrightarrow> fst (ratchet_decrypt C draw B h ct) = Inr pt"
proof -
  define c where "c = \<lparr>cv_state = (\<lambda>p. case p of Alice \<Rightarrow> A | Bob \<Rightarrow> B), cv_net = (\<lambda>_. {#}),
    cv_used = {X25519PublicKey (x_public C rdA)}\<rparr>"
  have ok: "conversation_ok C c"
    by (rule starts_initial[OF crypto_okD(1)[OF C] wf, of rk rdA rdB]) (simp add: starts_def c_def A B)
  have state: "A = \<lparr>rs_root_key = rk, rs_sending_chain_key = rs_sending_chain_key A,
      rs_receiving_chain_key = rs_receiving_chain_key A, rs_send_counter = 0, rs_receive_counter = 0,
      rs_previous_counter = 0, rs_dh_key_pair = generate_x25519_keypair C rdA, rs_remote_public_key = None,
      rs_skipped_message_keys = skipped_new, rs_local_identity_key = ia, rs_remote_identity_key = ib\<rparr>"
    using A by (cases rk) (auto simp: init_sending_chain_def hkdf32[OF crypto_okD(1)[OF C]] Let_def)
  have counter: "rs_send_counter A = 0" "rs_previous_counter A = 0"
    "rs_dh_key_pair A = generate_x25519_keypair C rdA"
    by (subst state, simp)+
  have may: "may_send c Alice" by (simp add: may_send_def c_def skipped_max_def)
  have bound: "unat (rs_send_counter (cv_state c Alice)) + 1 < 2 ^ 32" by (simp add: c_def counter)
  note sent = conversation_send_step[OF C ok may m bound]
  then obtain h ct A' where enc: "ratchet_encrypt C nonce A pt = (Inr (h, ct), A')"
    by (cases "ratchet_encrypt C nonce A pt"; cases "fst (ratchet_encrypt C nonce A pt)") (auto simp: c_def)
  have hdr: "hdr_ratchet_public_key h = X25519PublicKey (x_public C rdA)" "length (nonce_bytes (hdr_nonce h)) = 12"
    using enc m counter
    by (auto simp: ratchet_encrypt_def Let_def generate_nonce_def sendable_def ok_or_def
        split: sum.splits option.splits if_splits)
  have "wf_header h" using hdr crypto_okD(3)[OF C] by (simp add: wf_header_def x25519_sizes_def)
  moreover have "fst (ratchet_decrypt C draw B h ct) = Inr pt" if "x_public C draw \<noteq> x_public C rdA"
  proof -
    have cA: "cv_state c Alice = A" by (simp add: c_def)
    note sent' = conjunct2[OF sent, unfolded do_send_result[OF enc[folded cA]]]
    from conversation_deliver_step[OF C sent', of h ct pt Alice draw] that
    show ?thesis by (simp add: c_def)
  qed
  ultimately show thesis using enc by (intro that) blast+
qed

section \<open>Properties\<close>

text \<open>
  C5: From a bundle Bob generated and published, Alice creates an outbound session; the first 32
  bytes of the 40-byte handshake and the pre-keys it names are all Bob needs to create the inbound
  session. The first message Alice encrypts then decrypts at Bob's manager to the plaintext, for
  any tables of other sessions the two managers hold.
\<close>

theorem ffi_first_message:
  assumes "crypto_ok C" "ed25519_correct C"
    and "generate_key_bundle C ik_draw sd spk_draw otk_draw spk_id batches = Inr kb"
    and "otk = None \<or> (\<exists>p \<in> set (kb_one_time_pre_key_pairs kb). otk = Some p)"
    and "json_fetch H bundle = Some (fetch_of kb otk)"
    and "ffi_decode_keypair C H a_bytes = Inr ikA"
    and "ffi_decode_keypair C H b_bytes = Inr (kb_identity_key_pair kb)"
    and "ffi_decode_keypair C H spk_bytes = Inr (kb_signed_pre_key_pair kb)"
    and "case otk of None \<Rightarrow> otk_bytes = None
      | Some p \<Rightarrow> \<exists>b. otk_bytes = Some b \<and> ffi_decode_keypair C H b = Inr (otk_key_pair p)"
    and "\<not> sm_poisoned mA" "sm_sessions mA kA = None" "\<not> sm_poisoned mB" "sm_sessions mB kB = None"
    and "sendable (nonce, pt)" "x_public C draw \<noteq> x_public C rdA"
  shows "\<exists>hs mA' mB' w mA''.
    ffi_create_outbound_session C H ed rdA mA kA a_bytes bundle = (Inr hs, mA') \<and>
    length hs = 40 \<and> of_be_bytes (take 4 (drop 32 hs)) = spk_id \<and>
    of_be_bytes (take 4 (drop 36 hs)) = unwrap_or (map_option otk_id otk) no_otk \<and>
    ffi_create_inbound_session C H rdB mB kB b_bytes spk_bytes otk_bytes
      (x_pub_bytes (xkp_public_key ikA)) (take 32 hs) = (Inr (), mB') \<and>
    ffi_encrypt C nonce mA' kA pt = (Inr w, mA'') \<and>
    fst (ffi_decrypt C draw mB' kB w) = Inr pt"
proof -
  obtain hs mA' mB' rk stA stB where
    out: "ffi_create_outbound_session C H ed rdA mA kA a_bytes bundle = (Inr hs, mA')"
      "length hs = 40" "of_be_bytes (take 4 (drop 32 hs)) = spk_id"
      "of_be_bytes (take 4 (drop 36 hs)) = unwrap_or (map_option otk_id otk) no_otk"
    and inb: "ffi_create_inbound_session C H rdB mB kB b_bytes spk_bytes otk_bytes
      (x_pub_bytes (xkp_public_key ikA)) (take 32 hs) = (Inr (), mB')"
    and lock: "sm_lock mA' kA = Inr stA" "sm_lock mB' kB = Inr stB"
    and start: "init_sending_chain C rdA rk (xkp_public_key ikA) (xkp_public_key (kb_identity_key_pair kb)) = Inr stA"
      "init_receiving_chain C rdB rk (xkp_public_key (kb_identity_key_pair kb)) (xkp_public_key ikA) = Inr stB"
    by (rule ffi_established[OF assms(1-13)])
  have derived: "derived_key_pair C ikA" "derived_key_pair C (kb_identity_key_pair kb)"
    by (rule ffi_decode_keypair_valid[OF assms(6)], rule ffi_decode_keypair_valid[OF assms(7)])
  have wf: "wf_pub (xkp_public_key ikA)" "wf_pub (xkp_public_key (kb_identity_key_pair kb))"
    using derived crypto_okD(3)[OF assms(1)] by (simp_all add: derived_key_pair_def x25519_sizes_def)
  obtain h ct A' where enc: "ratchet_encrypt C nonce stA pt = (Inr (h, ct), A')" "wf_header h"
    and dec: "x_public C draw \<noteq> x_public C rdA \<longrightarrow> fst (ratchet_decrypt C draw stB h ct) = Inr pt"
    by (rule first_message[OF assms(1) wf start assms(14), where draw = draw])
  have "ffi_encrypt C nonce mA' kA pt = (Inr (wire_frame h ct), sm_write_back mA' kA A')"
    using lock(1) enc(1) by (simp add: ffi_encrypt_def wire_frame_def)
  moreover have "fst (ffi_decrypt C draw mB' kB (wire_frame h ct)) = Inr pt"
    using lock(2) dec assms(15)
    by (cases "ratchet_decrypt C draw stB h ct") (simp add: ffi_decrypt_def ffi_parse_wire_frame[OF enc(2)])
  ultimately show ?thesis using out inb by blast
qed

text \<open>The sample parties' key pairs decode from what a host stored.\<close>

lemma sample_stored:
  assumes "length draw = 32"
  shows "ffi_decode_keypair sample_crypto sample_host (stored (generate_x25519_keypair sample_crypto draw)) =
    Inr (generate_x25519_keypair sample_crypto draw)"
  using assms
  by (simp add: ffi_decode_keypair_def sample_host_def stored_def is_valid_x25519_keypair_def
      generate_x25519_keypair_def sample_crypto_def)

lemma sample_bundle_keys:
  "kb_identity_key_pair sample_bundle = generate_x25519_keypair sample_crypto (replicate 32 2)"
  "kb_signed_pre_key_pair sample_bundle = generate_x25519_keypair sample_crypto (replicate 32 7)"
  by (rule generate_key_bundle_result[OF sample_bundle_ok], simp)+

lemma sample_otk_pair: "otk_key_pair sample_otk = generate_x25519_keypair sample_crypto (replicate 32 11)"
  unfolding sample_otk_def by code_simp

theorem ffi_first_message_witness:
  "\<exists>hs mA w mA'.
    ffi_create_outbound_session sample_crypto sample_host (replicate 32 8) (replicate 32 3) sm_new ''b''
      (stored sample_ik) ''bundle'' = (Inr hs, mA) \<and>
    ffi_encrypt sample_crypto sample_nonce mA ''b'' [1, 2, 3] = (Inr w, mA') \<and>
    fst (ffi_decrypt sample_crypto (replicate 32 5)
      (snd (ffi_create_inbound_session sample_crypto sample_host (replicate 32 4) sm_new ''a''
        (stored (kb_identity_key_pair sample_bundle)) (stored (kb_signed_pre_key_pair sample_bundle))
        (Some (stored (otk_key_pair sample_otk))) (x_pub_bytes (xkp_public_key sample_ik)) (take 32 hs)))
      ''a'' w) = Inr [1, 2, 3]"
proof -
  have keys: "ffi_decode_keypair sample_crypto sample_host (stored sample_ik) = Inr sample_ik"
    "ffi_decode_keypair sample_crypto sample_host (stored (kb_identity_key_pair sample_bundle)) =
      Inr (kb_identity_key_pair sample_bundle)"
    "ffi_decode_keypair sample_crypto sample_host (stored (kb_signed_pre_key_pair sample_bundle)) =
      Inr (kb_signed_pre_key_pair sample_bundle)"
    "ffi_decode_keypair sample_crypto sample_host (stored (otk_key_pair sample_otk)) = Inr (otk_key_pair sample_otk)"
    unfolding sample_ik_def sample_bundle_keys sample_otk_pair by (rule sample_stored, simp)+
  have fresh: "x_public sample_crypto (replicate 32 5) \<noteq> x_public sample_crypto (replicate 32 3)"
    unfolding sample_public by simp
  have otk: "Some sample_otk = None \<or> (\<exists>p \<in> set (kb_one_time_pre_key_pairs sample_bundle). Some sample_otk = Some p)"
    using sample_otk_mem by blast
  show ?thesis
    using ffi_first_message[OF sample_crypto_ok sample_crypto_laws(4) sample_bundle_ok otk sample_host_fetch keys(1-3) _
        _ _ _ _ sample_sendable fresh, of "Some (stored (otk_key_pair sample_otk))" sm_new "''b''" sm_new "''a''"
        "replicate 32 8" "''bundle''" "replicate 32 4"] keys(4)
    by (force simp: sm_new_def)
qed

text \<open>
  No operation that creates a session replaces one. When a session of that name exists, creating
  or restoring it is refused, and every refusal and every other error of these operations leaves
  the manager exactly as it was.
\<close>

theorem ffi_never_overwrites:
  assumes "\<not> sm_poisoned m"
  shows "(sm_sessions m k \<noteq> None \<longrightarrow>
      ffi_create_outbound_session C H ed rd m k ik bundle = (Inl (SessionAlreadyExists k), m) \<and>
      ffi_create_inbound_session C H rd m k ik spk otk rik rek = (Inl (SessionAlreadyExists k), m) \<and>
      ffi_restore_session H m k b = (Inl (SessionAlreadyExists restore_exists_message), m)) \<and>
    (\<not> is_ok (fst (ffi_create_outbound_session C H ed rd m k ik bundle)) \<longrightarrow>
      snd (ffi_create_outbound_session C H ed rd m k ik bundle) = m) \<and>
    (\<not> is_ok (fst (ffi_create_inbound_session C H rd m k ik spk otk rik rek)) \<longrightarrow>
      snd (ffi_create_inbound_session C H rd m k ik spk otk rik rek) = m) \<and>
    (\<not> is_ok (fst (ffi_restore_session H m k b)) \<longrightarrow> snd (ffi_restore_session H m k b) = m)"
proof (intro conjI impI)
  have keep: "\<not> is_ok (fst p) \<Longrightarrow> (\<And>e m'. p = (Inl e, m') \<Longrightarrow> m' = m) \<Longrightarrow> snd p = m"
    for p :: "('e + 'a) \<times> session_manager" and m
    by (cases p; cases "fst p") auto
  show "\<not> is_ok (fst (ffi_create_outbound_session C H ed rd m k ik bundle)) \<Longrightarrow>
      snd (ffi_create_outbound_session C H ed rd m k ik bundle) = m"
    by (rule keep) (simp_all, rule ffi_create_error)
  show "\<not> is_ok (fst (ffi_create_inbound_session C H rd m k ik spk otk rik rek)) \<Longrightarrow>
      snd (ffi_create_inbound_session C H rd m k ik spk otk rik rek) = m"
    by (rule keep) (simp_all, rule ffi_create_error)
  show "\<not> is_ok (fst (ffi_restore_session H m k b)) \<Longrightarrow> snd (ffi_restore_session H m k b) = m"
    by (rule keep) (simp_all, rule ffi_create_error)
qed (use assms in \<open>auto simp: ffi_create_existing\<close>)

theorem ffi_never_overwrites_witness:
  "ffi_restore_session sample_host (sm_write_back sm_new ''a'' sample_bob) ''a'' [1] =
     (Inl (SessionAlreadyExists restore_exists_message), sm_write_back sm_new ''a'' sample_bob)"
  using ffi_never_overwrites[of "sm_write_back sm_new ''a'' sample_bob" "''a''"]
  by (simp add: sm_write_back_def sm_new_def)

text \<open>
  Sessions are isolated. After any sequence of operations, what a session holds is what the
  operations on that session alone leave, and the operations that follow return the same results
  whatever else was done in between.
\<close>

theorem ffi_isolation:
  "ffi_view (ffi_run C H ops m) k = ffi_view (ffi_run C H (filter (\<lambda>op. ffi_target op = k) ops) m) k \<and>
   (ffi_target op = k \<longrightarrow>
      fst (ffi_step C H op (ffi_run C H ops m)) =
      fst (ffi_step C H op (ffi_run C H (filter (\<lambda>op. ffi_target op = k) ops) m)))"
  using ffi_host.run_filter[of m k m C H ops, OF refl] ffi_host.locality by blast

theorem ffi_isolation_witness:
  "fst (ffi_step sample_crypto sample_host (FExport ''a'')
     (ffi_run sample_crypto sample_host [FRemove ''a'', FRemove ''b''] sm_new)) = Inl (SessionNotFound ''a'')"
  using ffi_isolation[of sample_crypto sample_host "[FRemove ''a'', FRemove ''b'']" sm_new "''a''" "FExport ''a''"]
  by (simp add: ffi_export_session_def sm_lock_def ffi_remove_session_def sm_new_def)

text \<open>
  The wire format. A string of bytes parses exactly when it begins with the prefix 52 and holds
  a whole header, the frame of every well-formed header and ciphertext parses back to them, and
  only the frame of what was parsed parses to it.
\<close>

theorem ffi_wire_format:
  "(is_ok (ffi_parse_wire w) \<longleftrightarrow> 56 \<le> length w \<and> unat (of_be_bytes (take 4 w)) = 52) \<and>
   (wf_header h \<longrightarrow> ffi_parse_wire (wire_frame h ct) = Inr (h, ct)) \<and>
   (ffi_parse_wire w = Inr (h', ct') \<longrightarrow> w = wire_frame h' ct' \<and> wf_header h')"
  using ffi_parse_wire_ok_iff ffi_parse_wire_frame ffi_parse_wire_Inr by blast

theorem ffi_wire_format_witness:
  "ffi_parse_wire (wire_frame (sample_header 258) [1, 2]) = Inr (sample_header 258, [1, 2])"
  using ffi_wire_format[of "[]" "sample_header 258" "[1, 2]"] by (simp add: wf_header_def sample_header_def)

text \<open>
  A key pair that decodes is one whose public key belongs to its private key. Every such pair
  decodes from the core format, and from the legacy format (private key first) unless that reads
  as a valid pair in the core format too; a key that is not 32 bytes long is refused.
\<close>

theorem ffi_key_decoding:
  assumes "bincode_key_pairs H" "wf_key_pair kp" "derived_key_pair C kp"
  shows "(\<exists>b. bc_ser_key_pair H kp = Some b \<and> ffi_decode_keypair C H b = Inr kp) \<and>
    (x_public C (x_pub_bytes (xkp_public_key kp)) \<noteq> x_priv_bytes (xkp_private_key kp) \<longrightarrow>
      ffi_decode_keypair C H (x_priv_bytes (xkp_private_key kp) @ x_pub_bytes (xkp_public_key kp)) = Inr kp) \<and>
    (ffi_decode_keypair C H b' = Inr kp' \<longrightarrow> derived_key_pair C kp') \<and>
    (is_ok (ffi_decode_public_key b') \<longleftrightarrow> length b' = 32)"
  using ffi_decode_keypair_core[OF assms] ffi_decode_keypair_legacy[OF assms] ffi_decode_keypair_valid
  by (auto simp: ffi_decode_public_key_def)

theorem ffi_key_decoding_witness:
  "\<exists>b. bc_ser_key_pair sample_host sample_ik = Some b \<and> ffi_decode_keypair sample_crypto sample_host b = Inr sample_ik"
proof -
  have "wf_key_pair sample_ik" unfolding sample_ik_def
    by (rule wf_generate[OF sample_crypto_laws(1)]) simp
  with ffi_key_decoding[OF sample_host_laws(1), of sample_ik sample_crypto "[]"] show ?thesis
    by (simp add: sample_ik_def)
qed

text \<open>
  Creation under concurrency. However the insertions of threads that create or restore a
  session interleave with each other and with the use of sessions, at most one of them succeeds for
  a name that nobody removes, and none when the session existed.
\<close>

theorem ffi_created_once:
  assumes "table_trace m es m'" "Removed k \<notin> set es"
  shows "count_list es (Inserted k True) \<le> 1 \<and> (sm_sessions m k \<noteq> None \<longrightarrow> Inserted k True \<notin> set es)"
  using table_trace_once[OF assms] table_trace_present[OF assms(1) _ assms(2)] by blast

theorem ffi_created_once_witness:
  "count_list [Inserted ''a'' True, Inserted ''a'' False] (Inserted ''a'' True) \<le> 1"
proof -
  let ?m = "sm_write_back sm_new ''a'' sample_bob"
  have "table_step sm_new (Inserted ''a'' (is_ok (Inr () :: session_error + unit))) ?m"
    by (rule table_step.insertion[where msg = "''a''" and state = sample_bob])
      (simp add: sm_insert_absent_def sm_new_def sm_write_back_def)
  moreover have "table_step ?m (Inserted ''a'' (is_ok (Inl (SessionAlreadyExists ''a'') :: session_error + unit))) ?m"
    by (rule table_step.insertion[where msg = "''a''" and state = sample_bob])
      (simp add: sm_insert_absent_def sm_new_def sm_write_back_def)
  ultimately have "table_trace sm_new [Inserted ''a'' True, Inserted ''a'' False] ?m" by auto
  from ffi_created_once[OF this, of "''a''"] show ?thesis by simp
qed

text \<open>
  The handshake writes a missing one-time pre-key as the identifier 0xFFFFFFFF, which is also an
  identifier the generator hands out: two handshakes agree exactly when the ephemeral key and the
  signed pre-key do and the one-time pre-keys do up to that identifier, so the responder cannot
  tell whether the last identifier or no one-time pre-key was used.
\<close>

theorem ffi_handshake_ambiguous:
  assumes "wf_pub (xi_ephemeral_public_key r)" "wf_pub (xi_ephemeral_public_key r')"
  shows "(handshake_bytes r = handshake_bytes r' \<longleftrightarrow>
      xi_ephemeral_public_key r = xi_ephemeral_public_key r' \<and> xi_spk_id r = xi_spk_id r' \<and>
      unwrap_or (xi_otk_id r) no_otk = unwrap_or (xi_otk_id r') no_otk) \<and>
    batch_fits (no_otk, 1) \<and> batch_ids (no_otk, 1) = [no_otk]"
proof -
  have "batch_ids (no_otk, 1) = [no_otk]" by code_simp
  then show ?thesis using handshake_bytes_inj[OF assms] by (simp add: batch_fits_def no_otk_def)
qed

theorem ffi_handshake_ambiguous_witness:
  "handshake_bytes \<lparr>xi_root_key = sample_root, xi_ephemeral_public_key = sample_ia, xi_spk_id = 1, xi_otk_id = None\<rparr> =
   handshake_bytes \<lparr>xi_root_key = sample_root, xi_ephemeral_public_key = sample_ia, xi_spk_id = 1,
     xi_otk_id = Some 0xFFFFFFFF\<rparr>"
  using ffi_handshake_ambiguous[of "\<lparr>xi_root_key = sample_root, xi_ephemeral_public_key = sample_ia,
      xi_spk_id = 1, xi_otk_id = None\<rparr>" "\<lparr>xi_root_key = sample_root, xi_ephemeral_public_key = sample_ia,
      xi_spk_id = 1, xi_otk_id = Some 0xFFFFFFFF\<rparr>"]
  by (simp add: sample_ia_def no_otk_def)

end
