(* ===== verification/Wasm_Session.thy ===== *)
theory Wasm_Session
  imports Ffi_Session
begin

text \<open>
  The WebAssembly session manager of \<open>im-e2ee-wasm/src/session.rs\<close>: a plain table of ratchet states,
  single-threaded, errors as the strings the code throws into JavaScript. The text a library adds to
  a message of its own error is not modelled: the message stops before it.
\<close>

section \<open>Decoding and key bundles\<close>

definition wasm_is_valid_keypair :: "crypto_lib \<Rightarrow> x25519_key_pair \<Rightarrow> bool" where
  "wasm_is_valid_keypair C kp \<longleftrightarrow>
     x_public C (x_priv_bytes (xkp_private_key kp)) = x_pub_bytes (xkp_public_key kp)"

definition wasm_decode_keypair :: "crypto_lib \<Rightarrow> host_lib \<Rightarrow> bytes \<Rightarrow> string + x25519_key_pair" where
  "wasm_decode_keypair C H b =
     (let legacy =
        (case bc_de_key_tuple H b of
           Some (priv_bytes, pub_bytes) \<Rightarrow>
             let kp = \<lparr>xkp_public_key = X25519PublicKey pub_bytes, xkp_private_key = X25519PrivateKey priv_bytes\<rparr>
             in if wasm_is_valid_keypair C kp then Inr kp
                else Inl ''invalid keypair: corrupted or unknown format''
         | None \<Rightarrow> Inl ''invalid keypair: corrupted or unknown format'')
      in case bc_de_key_pair H b of
           Some kp \<Rightarrow> if wasm_is_valid_keypair C kp then Inr kp else legacy
         | None \<Rightarrow> legacy)"

definition wasm_decode_public_key :: "bytes \<Rightarrow> string + x25519_public_key" where
  "wasm_decode_public_key b =
     (if length b \<noteq> 32 then Inl ''invalid public key length'' else Inr (X25519PublicKey b))"

definition to_js_error :: "e2ee_error \<Rightarrow> string" where
  "to_js_error e = display_e2ee_error e"

definition wasm_serialize_keypair_base64 :: "host_lib \<Rightarrow> x25519_key_pair \<Rightarrow> string + string" where
  "wasm_serialize_keypair_base64 H kp =
     and_then (ok_or ''failed to serialize key pair: '' (bc_ser_key_pair H kp)) (\<lambda>b. Inr (b64_encode H b))"

definition wasm_otk_pair_json :: "host_lib \<Rightarrow> one_time_pre_key_pair \<Rightarrow> string + json" where
  "wasm_otk_pair_json H pair =
     and_then (wasm_serialize_keypair_base64 H (otk_key_pair pair)) (\<lambda>key_pair_bincode.
       Inr (JObj [(''id'', JInt (int (unat (otk_id pair)))),
                  (''keyPairBincode'', JStr key_pair_bincode),
                  (''publicKey'', JStr (b64_encode H (x_pub_bytes (xkp_public_key (otk_key_pair pair)))))]))"

definition wasm_generate_pre_key_bundle_json ::
  "crypto_lib \<Rightarrow> host_lib \<Rightarrow> bundle_draws \<Rightarrow> u32 \<Rightarrow> u32 \<Rightarrow> u32 \<Rightarrow> string + string"
where
  "wasm_generate_pre_key_bundle_json C H draws spk_id otk_start_id otk_count =
     (let (ik_draw, signing_draw, spk_draw, otk_draw) = draws;
          otk_batches = (if otk_count = 0 then [] else [(otk_start_id, otk_count)]) in
      and_then (map_err to_js_error
        (generate_key_bundle C ik_draw signing_draw spk_draw otk_draw spk_id otk_batches)) (\<lambda>key_bundle.
      and_then (collect_results (wasm_otk_pair_json H) (kb_one_time_pre_key_pairs key_bundle)) (\<lambda>pairs.
      and_then (wasm_serialize_keypair_base64 H (kb_identity_key_pair key_bundle)) (\<lambda>identity_pair.
      and_then (wasm_serialize_keypair_base64 H (kb_signed_pre_key_pair key_bundle)) (\<lambda>signed_pair.
        ok_or ''failed to serialize key bundle JSON: ''
          (json_print H
             (JObj [(''version'', JInt 2),
                    (''identityKeyPairBincode'', JStr identity_pair),
                    (''signedPreKeyPairBincode'', JStr signed_pair),
                    (''oneTimePreKeyPairs'', JArr pairs),
                    (''publicBundle'', public_bundle_json H key_bundle)])))))))"

section \<open>The manager\<close>

record wasm_session_manager =
  wm_sessions :: "string \<Rightarrow> ratchet_state option"

definition wasm_new :: wasm_session_manager where
  "wasm_new = \<lparr>wm_sessions = Map.empty\<rparr>"

definition wm_insert :: "wasm_session_manager \<Rightarrow> string \<Rightarrow> ratchet_state \<Rightarrow> wasm_session_manager" where
  "wm_insert m session_id state = m\<lparr>wm_sessions := (wm_sessions m)(session_id \<mapsto> state)\<rparr>"

text \<open>What the creating operations compute before they insert.\<close>

definition wasm_outbound_state ::
  "crypto_lib \<Rightarrow> host_lib \<Rightarrow> bytes \<Rightarrow> bytes \<Rightarrow> bytes \<Rightarrow> string \<Rightarrow> string + x3dh_initiate_result \<times> ratchet_state"
where
  "wasm_outbound_state C H ephemeral_draw ratchet_draw identity_bincode remote_bundle_json =
     and_then (wasm_decode_keypair C H identity_bincode) (\<lambda>ikp.
     and_then (ok_or ''invalid bundle JSON: '' (json_fetch H remote_bundle_json)) (\<lambda>fetch.
     and_then (map_err to_js_error (x3dh_initiate C ephemeral_draw ikp fetch)) (\<lambda>result.
     and_then (map_err to_js_error
        (init_sending_chain C ratchet_draw (xi_root_key result) (xkp_public_key ikp) (pkf_identity_key fetch)))
       (\<lambda>state. Inr (result, state)))))"

definition wasm_inbound_state ::
  "crypto_lib \<Rightarrow> host_lib \<Rightarrow> bytes \<Rightarrow> bytes \<Rightarrow> bytes \<Rightarrow> bytes option \<Rightarrow> bytes \<Rightarrow> bytes \<Rightarrow> string + ratchet_state"
where
  "wasm_inbound_state C H ratchet_draw identity_bincode signed_pre_key_bincode otk_bincode
     remote_identity_bytes remote_ephemeral_bytes =
     and_then (wasm_decode_keypair C H identity_bincode) (\<lambda>ikp.
     and_then (wasm_decode_keypair C H signed_pre_key_bincode) (\<lambda>spkp.
     and_then (case otk_bincode of
                 None \<Rightarrow> Inr None
               | Some b \<Rightarrow> and_then (wasm_decode_keypair C H b) (\<lambda>kp. Inr (Some kp))) (\<lambda>otk_pair.
     and_then (wasm_decode_public_key remote_identity_bytes) (\<lambda>remote_ik.
     and_then (wasm_decode_public_key remote_ephemeral_bytes) (\<lambda>remote_ek.
     and_then (map_err to_js_error
        (x3dh_respond_with_raw_otk C ikp spkp otk_pair remote_ik remote_ek)) (\<lambda>result.
       map_err to_js_error
         (init_receiving_chain C ratchet_draw (xr_root_key result) (xkp_public_key ikp) remote_ik)))))))"

definition wasm_create_outbound_session ::
  "crypto_lib \<Rightarrow> host_lib \<Rightarrow> bytes \<Rightarrow> bytes \<Rightarrow> wasm_session_manager \<Rightarrow> string \<Rightarrow> bytes \<Rightarrow> string \<Rightarrow>
   (string + bytes) \<times> wasm_session_manager"
where
  "wasm_create_outbound_session C H ephemeral_draw ratchet_draw m session_id identity_bincode remote_bundle_json =
     (case wasm_outbound_state C H ephemeral_draw ratchet_draw identity_bincode remote_bundle_json of
        Inl e \<Rightarrow> (Inl e, m)
      | Inr (result, state) \<Rightarrow>
          let m = wm_insert m session_id state in
          (Inr (x_pub_bytes (xi_ephemeral_public_key result) @ be_bytes (xi_spk_id result) @
                be_bytes (unwrap_or (xi_otk_id result) 0xFFFFFFFF)), m))"

definition wasm_create_inbound_session ::
  "crypto_lib \<Rightarrow> host_lib \<Rightarrow> bytes \<Rightarrow> wasm_session_manager \<Rightarrow> string \<Rightarrow> bytes \<Rightarrow> bytes \<Rightarrow> bytes option \<Rightarrow>
   bytes \<Rightarrow> bytes \<Rightarrow> (string + unit) \<times> wasm_session_manager"
where
  "wasm_create_inbound_session C H ratchet_draw m session_id identity_bincode signed_pre_key_bincode
     otk_bincode remote_identity_bytes remote_ephemeral_bytes =
     (case wasm_inbound_state C H ratchet_draw identity_bincode signed_pre_key_bincode otk_bincode
             remote_identity_bytes remote_ephemeral_bytes of
        Inl e \<Rightarrow> (Inl e, m)
      | Inr state \<Rightarrow> (Inr (), wm_insert m session_id state))"

definition wasm_get :: "wasm_session_manager \<Rightarrow> string \<Rightarrow> string + ratchet_state" where
  "wasm_get m session_id = ok_or ''session not found'' (wm_sessions m session_id)"

definition wasm_encrypt ::
  "crypto_lib \<Rightarrow> bytes option \<Rightarrow> wasm_session_manager \<Rightarrow> string \<Rightarrow> bytes \<Rightarrow>
   (string + bytes) \<times> wasm_session_manager"
where
  "wasm_encrypt C nonce_draw m session_id plaintext =
     (case wasm_get m session_id of
        Inl e \<Rightarrow> (Inl e, m)
      | Inr state \<Rightarrow>
          (case ratchet_encrypt C nonce_draw state plaintext of
             (Inl e, state) \<Rightarrow> (Inl (to_js_error e), wm_insert m session_id state)
           | (Inr (header, ciphertext), state) \<Rightarrow>
               (Inr (be_bytes 52 @ encode_ratchet_header header @ ciphertext), wm_insert m session_id state)))"

definition wasm_parse_wire :: "bytes \<Rightarrow> string + ratchet_header \<times> bytes" where
  "wasm_parse_wire encrypted =
     (if length encrypted < 4 then Inl ''encrypted data too short''
      else
        let header_len = unat (of_be_bytes (take 4 encrypted)) in
        if header_len \<noteq> 52 then Inl ''invalid header length: expected 52''
        else if length encrypted < 4 + header_len then Inl ''encrypted data truncated''
        else
          and_then (map_err (\<lambda>e. ''invalid header: '' @ display_e2ee_error e)
            (decode_ratchet_header (take header_len (drop 4 encrypted)))) (\<lambda>header.
            Inr (header, drop (4 + header_len) encrypted)))"

definition wasm_decrypt ::
  "crypto_lib \<Rightarrow> bytes \<Rightarrow> wasm_session_manager \<Rightarrow> string \<Rightarrow> bytes \<Rightarrow>
   (string + bytes) \<times> wasm_session_manager"
where
  "wasm_decrypt C draw m session_id encrypted =
     (case wasm_parse_wire encrypted of
        Inl e \<Rightarrow> (Inl e, m)
      | Inr (header, ciphertext) \<Rightarrow>
          (case wasm_get m session_id of
             Inl e \<Rightarrow> (Inl e, m)
           | Inr state \<Rightarrow>
               let (r, state) = ratchet_decrypt C draw state header ciphertext
               in (map_err to_js_error r, wm_insert m session_id state)))"

definition wasm_export_session :: "host_lib \<Rightarrow> wasm_session_manager \<Rightarrow> string \<Rightarrow> string + bytes" where
  "wasm_export_session H m session_id =
     and_then (wasm_get m session_id) (\<lambda>state. map_err to_js_error (try_export_state (bc_ser_state H) state))"

definition wasm_restore_session ::
  "host_lib \<Rightarrow> wasm_session_manager \<Rightarrow> string \<Rightarrow> bytes \<Rightarrow> (string + unit) \<times> wasm_session_manager"
where
  "wasm_restore_session H m session_id state_bincode =
     (if wm_sessions m session_id \<noteq> None
      then (Inl ''session already exists; remove it before restore'', m)
      else case map_err to_js_error (restore_state (bc_de_state H) state_bincode) of
             Inl e \<Rightarrow> (Inl e, m)
           | Inr state \<Rightarrow> (Inr (), wm_insert m session_id state))"

definition wasm_remove_session :: "wasm_session_manager \<Rightarrow> string \<Rightarrow> wasm_session_manager" where
  "wasm_remove_session m session_id = m\<lparr>wm_sessions := (wm_sessions m)(session_id := None)\<rparr>"

section \<open>Runs\<close>

text \<open>The operations and their arguments are those of the UniFFI manager.\<close>

fun wasm_step ::
  "crypto_lib \<Rightarrow> host_lib \<Rightarrow> ffi_op \<Rightarrow> wasm_session_manager \<Rightarrow> (string + bytes) \<times> wasm_session_manager"
where
  "wasm_step C H (FCreateOutbound k ed rd ik bundle) m = wasm_create_outbound_session C H ed rd m k ik bundle"
| "wasm_step C H (FCreateInbound k rd ik spk otk rik rek) m =
     map_prod (map_sum id (\<lambda>_. [])) id (wasm_create_inbound_session C H rd m k ik spk otk rik rek)"
| "wasm_step C H (FEncrypt k nonce pt) m = wasm_encrypt C nonce m k pt"
| "wasm_step C H (FDecrypt k draw wire) m = wasm_decrypt C draw m k wire"
| "wasm_step C H (FExport k) m = (wasm_export_session H m k, m)"
| "wasm_step C H (FRestore k b) m = map_prod (map_sum id (\<lambda>_. [])) id (wasm_restore_session H m k b)"
| "wasm_step C H (FRemove k) m = (Inr [], wasm_remove_session m k)"

fun wasm_run :: "crypto_lib \<Rightarrow> host_lib \<Rightarrow> ffi_op list \<Rightarrow> wasm_session_manager \<Rightarrow> wasm_session_manager" where
  "wasm_run C H [] m = m"
| "wasm_run C H (op # ops) m = wasm_run C H ops (snd (wasm_step C H op m))"

lemmas wasm_op_defs =
  wasm_create_outbound_session_def wasm_create_inbound_session_def wasm_encrypt_def wasm_decrypt_def
  wasm_export_session_def wasm_restore_session_def wasm_remove_session_def wm_insert_def

lemma wasm_get_view: "wm_sessions m k = wm_sessions m' k \<Longrightarrow> wasm_get m k = wasm_get m' k"
  by (simp add: wasm_get_def)

lemma wasm_step_others:
  "k \<noteq> ffi_target op \<Longrightarrow> wm_sessions (snd (wasm_step C H op m)) k = wm_sessions m k"
  by (cases op) (auto simp: wasm_op_defs Let_def split: sum.split prod.split)

lemma wasm_step_local:
  assumes "wm_sessions m (ffi_target op) = wm_sessions m' (ffi_target op)"
  shows "fst (wasm_step C H op m) = fst (wasm_step C H op m') \<and>
    wm_sessions (snd (wasm_step C H op m)) (ffi_target op) = wm_sessions (snd (wasm_step C H op m')) (ffi_target op)"
  using assms wasm_get_view[OF assms]
  by (cases op) (simp_all add: wasm_op_defs Let_def split: sum.split prod.split)

interpretation wasm_host:
  local_session_host "wasm_step C H" ffi_target wm_sessions "wasm_run C H" for C H
proof
  show "wm_sessions (snd (wasm_step C H op m)) k = wm_sessions m k" if "k \<noteq> ffi_target op" for k op m
    using that by (rule wasm_step_others)
qed (simp_all, rule wasm_step_local)

section \<open>The two managers\<close>

text \<open>
  What a manager holds, for one whose locks are not poisoned, is a table of states; and a result of
  one corresponds to a result of the other when both are errors or both the same value.
\<close>

definition table_of :: "session_manager \<Rightarrow> wasm_session_manager" where
  "table_of m = \<lparr>wm_sessions = (\<lambda>k. map_option gs_state (sm_sessions m k))\<rparr>"

definition sound :: "session_manager \<Rightarrow> bool" where
  "sound m \<longleftrightarrow> \<not> sm_poisoned m \<and> (\<forall>k g. sm_sessions m k = Some g \<longrightarrow> \<not> gs_poisoned g)"

definition value_of :: "'e + 'a \<Rightarrow> 'a option" where
  "value_of r = (case r of Inl _ \<Rightarrow> None | Inr x \<Rightarrow> Some x)"

lemma value_of_simps [simp]: "value_of (Inl e) = None" "value_of (Inr x) = Some x"
  by (simp_all add: value_of_def)

lemma value_of_and_then [simp]: "value_of (and_then r f) = Option.bind (value_of r) (\<lambda>x. value_of (f x))"
  by (cases r) simp_all

lemma value_of_map_err [simp]: "value_of (map_err g r) = value_of r"
  by (cases r) simp_all

lemma value_of_ok_or [simp]: "value_of (ok_or e m) = m"
  by (cases m) simp_all

lemma value_of_map_sum [simp]: "value_of (map_sum id f r) = map_option f (value_of r)"
  by (cases r) simp_all

lemma value_of_is_ok: "is_ok r \<longleftrightarrow> value_of r \<noteq> None"
  by (cases r) simp_all

text \<open>An operation that creates a session under a name that is taken.\<close>

fun creates_over :: "ffi_op \<Rightarrow> session_manager \<Rightarrow> bool" where
  "creates_over (FCreateOutbound k _ _ _ _) m \<longleftrightarrow> sm_sessions m k \<noteq> None"
| "creates_over (FCreateInbound k _ _ _ _ _ _) m \<longleftrightarrow> sm_sessions m k \<noteq> None"
| "creates_over _ m \<longleftrightarrow> False"

lemma wasm_decode_keypair_value: "value_of (wasm_decode_keypair C H b) = value_of (ffi_decode_keypair C H b)"
  by (simp add: wasm_decode_keypair_def ffi_decode_keypair_def wasm_is_valid_keypair_def
      is_valid_x25519_keypair_def Let_def split: option.split prod.split)

lemma wasm_decode_public_key_value: "value_of (wasm_decode_public_key b) = value_of (ffi_decode_public_key b)"
  by (simp add: wasm_decode_public_key_def ffi_decode_public_key_def)

lemma wasm_parse_wire_value: "value_of (wasm_parse_wire w) = value_of (ffi_parse_wire w)"
  by (simp add: wasm_parse_wire_def ffi_parse_wire_def Let_def)

lemma wasm_outbound_value:
  "value_of (wasm_outbound_state C H ed rd ik bundle) = value_of (ffi_outbound_state C H ed rd ik bundle)"
  by (simp add: wasm_outbound_state_def ffi_outbound_state_def wasm_decode_keypair_value)

lemma wasm_inbound_value:
  "value_of (wasm_inbound_state C H rd ik spk otk rik rek) = value_of (ffi_inbound_state C H rd ik spk otk rik rek)"
proof -
  have "value_of (case otk of None \<Rightarrow> Inr None | Some b \<Rightarrow> and_then (wasm_decode_keypair C H b) (\<lambda>kp. Inr (Some kp))) =
    value_of (case otk of None \<Rightarrow> Inr None | Some b \<Rightarrow> and_then (ffi_decode_keypair C H b) (\<lambda>kp. Inr (Some kp)))"
    by (cases otk) (simp_all add: wasm_decode_keypair_value)
  then show ?thesis
    by (simp add: wasm_inbound_state_def ffi_inbound_state_def wasm_decode_keypair_value
        wasm_decode_public_key_value)
qed

text \<open>One step, operation by operation.\<close>

lemma sound_lock:
  assumes "sound m"
  shows "sm_lock m k = (case wm_sessions (table_of m) k of None \<Rightarrow> Inl (SessionNotFound k) | Some state \<Rightarrow> Inr state)"
    "wasm_get (table_of m) k =
      (case wm_sessions (table_of m) k of None \<Rightarrow> Inl ''session not found'' | Some state \<Rightarrow> Inr state)"
  using assms by (auto simp: sound_def sm_lock_def table_of_def wasm_get_def split: option.split)

lemma table_write_back: "table_of (sm_write_back m k state) = wm_insert (table_of m) k state"
  by (auto simp: table_of_def sm_write_back_def wm_insert_def)

lemma table_new [simp]: "table_of sm_new = wasm_new" "sound sm_new"
  by (simp_all add: table_of_def sm_new_def wasm_new_def sound_def)

lemma sound_write_back: "sound m \<Longrightarrow> sound (sm_write_back m k state)"
  by (auto simp: sound_def sm_write_back_def)

text \<open>What corresponding steps leave: the same value or two errors, corresponding tables, sound locks.\<close>

definition agrees ::
  "('e + 'a) \<times> session_manager \<Rightarrow> ('f + 'a) \<times> wasm_session_manager \<Rightarrow> bool"
where
  "agrees f w \<longleftrightarrow> value_of (fst w) = value_of (fst f) \<and> snd w = table_of (snd f) \<and> sound (snd f)"

lemma agrees_map:
  "agrees f w \<Longrightarrow> agrees (map_prod (map_sum id g) id f) (map_prod (map_sum id g) id w)"
  by (cases f; cases w) (simp add: agrees_def)

lemma insert_absent_agrees:
  assumes "sound m" "sm_sessions m k = None"
  shows "sm_insert_absent m k msg state = (Inr (), sm_write_back m k state)" "sm_check_absent m k msg = Inr ()"
  using assms by (simp_all add: sound_def sm_insert_absent_def sm_write_back_def sm_check_absent_def)

lemma value_of_cases:
  assumes "value_of r = value_of s"
  obtains (error) e f where "r = Inl e" "s = Inl f" | (ok) x where "r = Inr x" "s = Inr x"
  using assms by (cases r; cases s) auto

lemma outbound_agrees:
  assumes "sound m" "sm_sessions m k = None"
  shows "agrees (ffi_create_outbound_session C H ed rd m k ik bundle)
    (wasm_create_outbound_session C H ed rd (table_of m) k ik bundle)"
  by (rule value_of_cases[OF wasm_outbound_value[of C H ed rd ik "bundle"]])
    (use assms in \<open>auto simp: agrees_def ffi_create_outbound_session_def wasm_create_outbound_session_def
      insert_absent_agrees table_write_back sound_write_back handshake_bytes_def no_otk_def split: prod.split\<close>)

lemma inbound_agrees:
  assumes "sound m" "sm_sessions m k = None"
  shows "agrees (ffi_create_inbound_session C H rd m k ik spk otk rik rek)
    (wasm_create_inbound_session C H rd (table_of m) k ik spk otk rik rek)"
  by (rule value_of_cases[OF wasm_inbound_value[of C H rd ik spk otk rik rek]])
    (use assms in \<open>auto simp: agrees_def ffi_create_inbound_session_def wasm_create_inbound_session_def
      insert_absent_agrees table_write_back sound_write_back\<close>)

lemma encrypt_agrees:
  "sound m \<Longrightarrow> agrees (ffi_encrypt C nonce m k pt) (wasm_encrypt C nonce (table_of m) k pt)"
  by (auto simp: agrees_def ffi_encrypt_def wasm_encrypt_def sound_lock table_write_back sound_write_back
      split: option.split sum.split prod.split)

lemma decrypt_agrees:
  "sound m \<Longrightarrow> agrees (ffi_decrypt C draw m k w) (wasm_decrypt C draw (table_of m) k w)"
  by (rule value_of_cases[OF wasm_parse_wire_value[of w]])
    (auto simp: agrees_def ffi_decrypt_def wasm_decrypt_def sound_lock table_write_back sound_write_back
      split: option.split prod.split)

lemma export_agrees:
  "sound m \<Longrightarrow> agrees (ffi_export_session H m k, m) (wasm_export_session H (table_of m) k, table_of m)"
  by (auto simp: agrees_def ffi_export_session_def wasm_export_session_def sound_lock split: option.split)

lemma restore_agrees:
  assumes "sound m"
  shows "agrees (ffi_restore_session H m k b) (wasm_restore_session H (table_of m) k b)"
proof (cases "sm_sessions m k")
  case None
  with assms show ?thesis
    by (cases "restore_state (bc_de_state H) b")
      (simp_all add: agrees_def ffi_restore_session_def wasm_restore_session_def insert_absent_agrees
        table_write_back sound_write_back, simp_all add: table_of_def)
next
  case (Some g)
  with assms have "ffi_restore_session H m k b = (Inl (SessionAlreadyExists restore_exists_message), m)"
    by (intro ffi_create_existing) (simp_all add: sound_def)
  with Some assms show ?thesis by (simp add: agrees_def wasm_restore_session_def) (simp add: table_of_def)
qed

lemma remove_agrees:
  assumes "sound m"
  shows "agrees (Inr [], ffi_remove_session m k) (Inr [], wasm_remove_session (table_of m) k)"
  using assms by (auto simp: agrees_def ffi_remove_session_def wasm_remove_session_def sound_def table_of_def)

lemma step_agrees:
  assumes "sound m" "\<not> creates_over op m"
  shows "agrees (ffi_step C H op m) (wasm_step C H op (table_of m))"
  using assms
  by (cases op) (simp_all add: outbound_agrees inbound_agrees[THEN agrees_map] encrypt_agrees decrypt_agrees
      export_agrees restore_agrees[THEN agrees_map] remove_agrees)

section \<open>Runs of the two managers\<close>

fun ffi_results :: "crypto_lib \<Rightarrow> host_lib \<Rightarrow> ffi_op list \<Rightarrow> session_manager \<Rightarrow> bytes option list" where
  "ffi_results C H [] m = []"
| "ffi_results C H (op # ops) m =
     (let (r, m) = ffi_step C H op m in value_of r # ffi_results C H ops m)"

fun wasm_results :: "crypto_lib \<Rightarrow> host_lib \<Rightarrow> ffi_op list \<Rightarrow> wasm_session_manager \<Rightarrow> bytes option list" where
  "wasm_results C H [] m = []"
| "wasm_results C H (op # ops) m =
     (let (r, m) = wasm_step C H op m in value_of r # wasm_results C H ops m)"

fun ever_creates_over :: "crypto_lib \<Rightarrow> host_lib \<Rightarrow> ffi_op list \<Rightarrow> session_manager \<Rightarrow> bool" where
  "ever_creates_over C H [] m \<longleftrightarrow> False"
| "ever_creates_over C H (op # ops) m \<longleftrightarrow>
     creates_over op m \<or> ever_creates_over C H ops (snd (ffi_step C H op m))"

lemma run_agrees:
  "sound m \<Longrightarrow> \<not> ever_creates_over C H ops m \<Longrightarrow>
   wasm_results C H ops (table_of m) = ffi_results C H ops m \<and>
   wasm_run C H ops (table_of m) = table_of (ffi_run C H ops m)"
proof (induction ops arbitrary: m)
  case Nil
  then show ?case by simp
next
  case (Cons op ops)
  obtain r m1 where f: "ffi_step C H op m = (r, m1)" by fastforce
  obtain s w1 where w: "wasm_step C H op (table_of m) = (s, w1)" by fastforce
  from Cons.prems have "agrees (r, m1) (s, w1)" unfolding f[symmetric] w[symmetric]
    by (intro step_agrees) simp_all
  then have "value_of s = value_of r" "w1 = table_of m1" "sound m1" by (simp_all add: agrees_def)
  with Cons.IH[of m1] Cons.prems(2) f w show ?case by simp
qed

text \<open>Creating over an existing session: what was there is gone.\<close>

lemma wasm_create_overwrites:
  "wasm_create_outbound_session C H ed rd m k ik bundle = (Inr hs, m') \<Longrightarrow>
     \<exists>result state. wasm_outbound_state C H ed rd ik bundle = Inr (result, state) \<and> m' = wm_insert m k state"
  "wasm_create_inbound_session C H rd m k ik spk otk rik rek = (Inr u, m') \<Longrightarrow>
     \<exists>state. wasm_inbound_state C H rd ik spk otk rik rek = Inr state \<and> m' = wm_insert m k state"
  by (auto simp: wasm_create_outbound_session_def wasm_create_inbound_session_def Let_def split: sum.splits)

end
