(* ===== verification/Wasm_Properties.thy ===== *)
theory Wasm_Properties
  imports Wasm_Session Ffi_Properties
begin

text \<open>
  The WebAssembly manager against the UniFFI manager: a refinement for every run that never creates
  a session under a name that is taken, and what happens when it does.
\<close>

text \<open>
  C6: Refinement. For every sequence of operations that creates no session under a name already
  taken, the WebAssembly manager returns a value exactly where the UniFFI manager (with unpoisoned
  locks) does, the same one, and ends with the same table of ratchet states.
\<close>

theorem wasm_refines_ffi:
  assumes "sound m" "\<not> ever_creates_over C H ops m"
  shows "wasm_results C H ops (table_of m) = ffi_results C H ops m \<and>
    wasm_run C H ops (table_of m) = table_of (ffi_run C H ops m)"
  using assms by (rule run_agrees)

text \<open>A first run of a manager: create a session, encrypt, encrypt under a name that does not exist.\<close>

definition sample_ops :: "ffi_op list" where
  "sample_ops =
     [FCreateOutbound ''b'' (replicate 32 8) (replicate 32 3) (stored sample_ik) ''bundle'',
      FEncrypt ''b'' sample_nonce [1, 2, 3], FEncrypt ''c'' sample_nonce [1]]"

theorem wasm_refines_ffi_witness:
  "wasm_results sample_crypto sample_host sample_ops wasm_new =
     ffi_results sample_crypto sample_host sample_ops sm_new"
proof -
  have "\<not> ever_creates_over sample_crypto sample_host sample_ops sm_new"
    by (simp add: sample_ops_def sm_new_def)
  from wasm_refines_ffi[OF table_new(2) this] show ?thesis by simp
qed

text \<open>
  Creating a session in the WebAssembly manager replaces the session of that name: the result
  and the table after it are the same whatever session was there, so the session is lost without an
  error, where the UniFFI manager refuses. An error leaves the table as it was.
\<close>

theorem wasm_creation_overwrites:
  assumes "wasm_create_outbound_session C H ed rd (wm_insert m k old) k ik bndl = (r, m')"
    and "wasm_create_inbound_session C H rd' (wm_insert m k old) k ik' spk otk rik rek = (r', m'')"
  shows "(is_ok r \<longrightarrow> wasm_create_outbound_session C H ed rd m k ik bndl = (r, m')) \<and>
    (is_ok r' \<longrightarrow> wasm_create_inbound_session C H rd' m k ik' spk otk rik rek = (r', m'')) \<and>
    (\<not> is_ok r \<longrightarrow> m' = wm_insert m k old) \<and> (\<not> is_ok r' \<longrightarrow> m'' = wm_insert m k old)"
  using assms
  by (auto simp: wasm_create_outbound_session_def wasm_create_inbound_session_def wm_insert_def Let_def
      split: sum.splits)

theorem wasm_creation_overwrites_witness:
  "snd (wasm_create_outbound_session sample_crypto sample_host (replicate 32 8) (replicate 32 3)
      (wm_insert wasm_new ''b'' sample_bob) ''b'' (stored sample_ik) ''bundle'') =
   snd (wasm_create_outbound_session sample_crypto sample_host (replicate 32 8) (replicate 32 3)
      wasm_new ''b'' (stored sample_ik) ''bundle'')"
proof -
  let ?o = "\<lambda>m. wasm_create_outbound_session sample_crypto sample_host (replicate 32 8) (replicate 32 3)
      m ''b'' (stored sample_ik) ''bundle''"
  let ?i = "wasm_create_inbound_session sample_crypto sample_host [] (wm_insert wasm_new ''b'' sample_bob) ''b'' [] [] None [] []"
  obtain r m' where o: "?o (wm_insert wasm_new ''b'' sample_bob) = (r, m')" by fastforce
  obtain r' m'' where i: "?i = (r', m'')" by fastforce
  have "is_ok r"
  proof -
    have "ffi_decode_keypair sample_crypto sample_host (stored sample_ik) = Inr sample_ik"
      unfolding sample_ik_def by (rule sample_stored) simp
    then have key: "wasm_decode_keypair sample_crypto sample_host (stored sample_ik) = Inr sample_ik"
      using wasm_decode_keypair_value[of sample_crypto sample_host "stored sample_ik"]
      by (cases "wasm_decode_keypair sample_crypto sample_host (stored sample_ik)") simp_all
    obtain rk where x: "x3dh_initiate sample_crypto (replicate 32 8) sample_ik (fetch_of sample_bundle (Some sample_otk)) =
      Inr \<lparr>xi_root_key = rk, xi_ephemeral_public_key = X25519PublicKey (replicate 32 8),
       xi_spk_id = 1, xi_otk_id = Some (otk_id sample_otk)\<rparr>"
      using agreement[OF sample_crypto_laws(5,1,2,3,4) sample_bundle_ok, of "Some sample_otk" sample_ik "replicate 32 8"]
        sample_otk_mem
      unfolding sample_public by (auto simp: sample_ik_def)
    obtain st where "init_sending_chain sample_crypto (replicate 32 3) rk (xkp_public_key sample_ik)
        (pkf_identity_key (fetch_of sample_bundle (Some sample_otk))) = Inr st"
      using init_chains_ok(1)[OF sample_crypto_laws(5)] by (rule is_ok_obtain)
    with o key x show ?thesis
      by (auto simp: wasm_create_outbound_session_def wasm_outbound_state_def sample_host_fetch Let_def)
  qed
  with wasm_creation_overwrites[OF o i] o show ?thesis by simp
qed

end
