(* ===== verification/Bridge.thy ===== *)
theory Bridge
  imports Host_Libs
begin

text \<open>
  The Flutter bridge of \<open>im-flutter-bridge/src/api/e2ee.rs\<close>. Its functions keep no table: every call
  takes the serialized ratchet state and returns the next one, raw bytes in the low-level
  functions, JSON with base64 fields in the high-level ones. The code's own names that the core has
  too carry the prefix \<open>bridge\<close>.
\<close>

section \<open>Errors and codecs\<close>

text \<open>An \<open>anyhow\<close> error: its contexts, outermost first, then the core's message if it caused it.\<close>

type_synonym chain = "string list"

definition context_of :: "string \<Rightarrow> e2ee_error + 'a \<Rightarrow> chain + 'a" where
  "context_of msg r = map_err (\<lambda>e. [msg, display_e2ee_error e]) r"

definition context_none :: "string \<Rightarrow> 'a option \<Rightarrow> chain + 'a" where
  "context_none msg m = ok_or [msg] m"

record bridge_otk_pair =
  bo_id :: u32
  bo_key_pair :: x25519_key_pair

record bridge_key_bundle =
  bb_spk_id :: u32
  bb_identity_key_pair :: x25519_key_pair
  bb_signing_public_key :: ed25519_public_key
  bb_signing_private_key_bytes :: bytes
  bb_signed_pre_key_pair :: x25519_key_pair
  bb_otk_pairs :: "bridge_otk_pair list"
  bb_bundle :: pre_key_bundle

record bridge_x3dh_initiate_result =
  bi_state :: bytes
  bi_ephemeral_public_key :: bytes
  bi_spk_id :: u32
  bi_otk_id :: "u32 option"

record bridge_x3dh_respond_result =
  br_state :: bytes
  br_otk_id :: "u32 option"

text \<open>The further \<open>bincode\<close> instances of the bridge, and \<open>Value::to_string\<close>, which cannot fail.\<close>

record bridge_lib =
  bl_host :: host_lib
  bl_ser_bundle :: "pre_key_bundle \<Rightarrow> bytes option"
  bl_de_bundle :: "bytes \<Rightarrow> pre_key_bundle option"
  bl_de_fetch :: "bytes \<Rightarrow> pre_key_bundle_fetch option"
  bl_ser_key_bundle :: "bridge_key_bundle \<Rightarrow> bytes option"
  bl_ser_initiate :: "bridge_x3dh_initiate_result \<Rightarrow> bytes option"
  bl_ser_respond :: "bridge_x3dh_respond_result \<Rightarrow> bytes option"
  bl_show :: "json \<Rightarrow> string"

abbreviation bl_b64 :: "bridge_lib \<Rightarrow> bytes \<Rightarrow> string" where
  "bl_b64 B \<equiv> b64_encode (bl_host B)"

section \<open>Keys and bundles in JSON\<close>

definition decode_base64_32 :: "host_lib \<Rightarrow> string \<Rightarrow> string \<Rightarrow> chain + bytes" where
  "decode_base64_32 H val label =
     and_then (context_none (''invalid '' @ label @ '' base64'') (b64_decode H val)) (\<lambda>b.
       if length b \<noteq> 32 then Inl [label @ '' must be 32 bytes, got '' @ show_nat (length b)] else Inr b)"

text \<open>The loop over the array, from an index on.\<close>

fun json_bytes_from :: "string \<Rightarrow> nat \<Rightarrow> json list \<Rightarrow> chain + bytes" where
  "json_bytes_from label idx [] = Inr []"
| "json_bytes_from label idx (item # items) =
     and_then (context_none (label @ ''['' @ show_nat idx @ ''] must be a byte'') (json_as_u64 item)) (\<lambda>b.
       if b > 255 then Inl [label @ ''['' @ show_nat idx @ ''] must be in 0..=255'']
       else and_then (json_bytes_from label (idx + 1) items) (\<lambda>bs. Inr (word_of_nat b # bs)))"

definition json_key_bytes :: "host_lib \<Rightarrow> json \<Rightarrow> string \<Rightarrow> chain + bytes" where
  "json_key_bytes H val label =
     (case json_as_str val of
        Some str \<Rightarrow> decode_base64_32 H str label
      | None \<Rightarrow>
          and_then (context_none (label @ '' must be base64 string or byte array'') (json_as_array val)) (\<lambda>array.
            if length array \<noteq> 32 then Inl [label @ '' must be 32 bytes, got '' @ show_nat (length array)]
            else json_bytes_from label 0 array))"

definition json_pre_key :: "host_lib \<Rightarrow> json \<Rightarrow> string \<Rightarrow> chain + pre_key" where
  "json_pre_key H val label =
     and_then (context_none (label @ ''.id is required'') (json_as_u64 (json_index val ''id''))) (\<lambda>i.
       if i > 4294967295 then Inl [label @ ''.id out of range'']
       else and_then (json_key_bytes H (json_index val ''key'') (label @ ''.key'')) (\<lambda>key.
         Inr \<lparr>pk_id = word_of_nat i, pk_key = X25519PublicKey key\<rparr>))"

text \<open>\<open>value["k"].as_str().unwrap_or("")\<close> and the base64 under it.\<close>

definition json_text :: "json \<Rightarrow> string \<Rightarrow> string" where
  "json_text v k = unwrap_or (json_as_str (json_index v k)) []"

definition json_base64 :: "host_lib \<Rightarrow> json \<Rightarrow> string \<Rightarrow> string \<Rightarrow> chain + bytes" where
  "json_base64 H v k msg = context_none msg (b64_decode H (json_text v k))"

definition parse_remote_bundle_json :: "host_lib \<Rightarrow> string \<Rightarrow> chain + pre_key_bundle_fetch" where
  "parse_remote_bundle_json H bundle_json =
     and_then (context_none ''failed to parse remote bundle JSON'' (json_parse H bundle_json)) (\<lambda>val.
     and_then (case json_get val ''one_time_pre_key'' of
                 Some v \<Rightarrow> if v \<noteq> JNull
                           then and_then (json_pre_key H v ''one_time_pre_key'') (\<lambda>k. Inr (Some k))
                           else Inr None
               | None \<Rightarrow> Inr None) (\<lambda>one_time_pre_key.
     and_then (json_base64 H val ''signed_pre_key_signature'' ''invalid signed_pre_key_signature base64'') (\<lambda>sig.
       if length sig \<noteq> 64
       then Inl [''signed_pre_key_signature must be 64 bytes, got '' @ show_nat (length sig)]
       else
         and_then (json_key_bytes H (json_index val ''identity_key'') ''identity_key'') (\<lambda>identity.
         and_then (json_key_bytes H (json_index val ''signing_key'') ''signing_key'') (\<lambda>signing.
         and_then (json_pre_key H (json_index val ''signed_pre_key'') ''signed_pre_key'') (\<lambda>signed.
           Inr \<lparr>pkf_identity_key = X25519PublicKey identity, pkf_signing_key = Ed25519PublicKey signing,
                pkf_signed_pre_key = signed, pkf_signed_pre_key_signature = Ed25519Signature sig,
                pkf_one_time_pre_key = one_time_pre_key\<rparr>))))))"

section \<open>The wire\<close>

definition ratchet_header_len :: nat where
  "ratchet_header_len = 52"

definition wire_prefix_size :: nat where
  "wire_prefix_size = 4"

definition encode_wire :: "bytes \<Rightarrow> chain + bytes" where
  "encode_wire header_and_ciphertext =
     (if length header_and_ciphertext < ratchet_header_len
      then Inl [''ratchet payload too short: expected at least '' @ show_nat ratchet_header_len @
                '' bytes, got '' @ show_nat (length header_and_ciphertext)]
      else Inr (be_bytes (word_of_nat ratchet_header_len) @ header_and_ciphertext))"

definition decode_wire :: "bytes \<Rightarrow> chain + bytes" where
  "decode_wire wire =
     (if length wire < ratchet_header_len
      then Inl [''wire too short: expected at least '' @ show_nat ratchet_header_len @
                '' bytes, got '' @ show_nat (length wire)]
      else if length wire \<ge> wire_prefix_size + ratchet_header_len \<and>
              unat (of_be_bytes (take wire_prefix_size wire)) = ratchet_header_len
      then Inr (drop wire_prefix_size wire)
      else Inr wire)"

section \<open>Key bundles\<close>

definition bridge_otk :: "one_time_pre_key_pair \<Rightarrow> bridge_otk_pair" where
  "bridge_otk otk = \<lparr>bo_id = otk_id otk,
     bo_key_pair = \<lparr>xkp_public_key = X25519PublicKey (x_pub_bytes (xkp_public_key (otk_key_pair otk))),
                    xkp_private_key = X25519PrivateKey (x_priv_bytes (xkp_private_key (otk_key_pair otk)))\<rparr>\<rparr>"

definition bridge_generate_key_bundle :: "crypto_lib \<Rightarrow> bridge_lib \<Rightarrow> bundle_draws \<Rightarrow> u32 \<Rightarrow> chain + bytes" where
  "bridge_generate_key_bundle C B draws otk_count =
     (let (ik_draw, signing_draw, spk_draw, otk_draw) = draws in
      and_then (context_of ''failed to generate key bundle''
        (generate_key_bundle_with_count C ik_draw signing_draw spk_draw otk_draw 1 otk_count)) (\<lambda>key_bundle.
      let identity_pk = x_pub_bytes (xkp_public_key (kb_identity_key_pair key_bundle));
          identity_sk = x_priv_bytes (xkp_private_key (kb_identity_key_pair key_bundle));
          signing_pk = ed_pub_bytes (edkp_public_key (kb_signing_key_pair key_bundle));
          signing_sk = ed_priv_bytes (edkp_private_key (kb_signing_key_pair key_bundle));
          spk_pk = x_pub_bytes (xkp_public_key (kb_signed_pre_key_pair key_bundle));
          spk_sk = x_priv_bytes (xkp_private_key (kb_signed_pre_key_pair key_bundle));
          otk_pairs = map bridge_otk (kb_one_time_pre_key_pairs key_bundle) in
      and_then (context_none ''failed to serialize PreKeyBundle'' (bl_ser_bundle B (kb_bundle key_bundle))) (\<lambda>bundle_bytes.
      and_then (context_none ''failed to deserialize PreKeyBundle'' (bl_de_bundle B bundle_bytes)) (\<lambda>bundle.
        context_none ''failed to serialize key bundle''
          (bl_ser_key_bundle B
            \<lparr>bb_spk_id = kb_spk_id key_bundle,
             bb_identity_key_pair = \<lparr>xkp_public_key = X25519PublicKey identity_pk, xkp_private_key = X25519PrivateKey identity_sk\<rparr>,
             bb_signing_public_key = Ed25519PublicKey signing_pk,
             bb_signing_private_key_bytes = signing_sk,
             bb_signed_pre_key_pair = \<lparr>xkp_public_key = X25519PublicKey spk_pk, xkp_private_key = X25519PrivateKey spk_sk\<rparr>,
             bb_otk_pairs = otk_pairs,
             bb_bundle = bundle\<rparr>)))))"

text \<open>The loop that collects the two arrays of one-time pre-keys.\<close>

fun bridge_otk_json :: "host_lib \<Rightarrow> one_time_pre_key_pair list \<Rightarrow> chain + json list \<times> json list" where
  "bridge_otk_json H [] = Inr ([], [])"
| "bridge_otk_json H (otk # otks) =
     and_then (context_none ''failed to serialize OTK pair'' (bc_ser_key_pair H (otk_key_pair otk))) (\<lambda>b.
     and_then (bridge_otk_json H otks) (\<lambda>(pairs, publics).
       Inr (JObj [(''id'', JInt (int (unat (otk_id otk)))), (''key_pair_bincode'', JStr (b64_encode H b))] # pairs,
            JObj [(''id'', JInt (int (unat (otk_id otk)))),
                  (''key'', JStr (b64_encode H (x_pub_bytes (xkp_public_key (otk_key_pair otk)))))] # publics)))"

definition bridge_generate_key_bundle_json :: "crypto_lib \<Rightarrow> bridge_lib \<Rightarrow> bundle_draws \<Rightarrow> u32 \<Rightarrow> chain + string" where
  "bridge_generate_key_bundle_json C B draws otk_count =
     (let (ik_draw, signing_draw, spk_draw, otk_draw) = draws; H = bl_host B; b64 = (\<lambda>b. JStr (b64_encode H b)) in
      and_then (context_of ''failed to generate key bundle''
        (generate_key_bundle_with_count C ik_draw signing_draw spk_draw otk_draw 1 otk_count)) (\<lambda>key_bundle.
      and_then (context_none ''failed to serialize identity key pair''
        (bc_ser_key_pair H (kb_identity_key_pair key_bundle))) (\<lambda>identity_bytes.
      and_then (context_none ''failed to serialize signed pre-key pair''
        (bc_ser_key_pair H (kb_signed_pre_key_pair key_bundle))) (\<lambda>signed_bytes.
      and_then (bridge_otk_json H (kb_one_time_pre_key_pairs key_bundle)) (\<lambda>(otk_pairs, one_time_pre_keys).
        Inr (bl_show B (JObj
          [(''identity_key_pair_bincode'', b64 identity_bytes),
           (''signing_public_key'', b64 (ed_pub_bytes (edkp_public_key (kb_signing_key_pair key_bundle)))),
           (''signing_private_key_bytes'', b64 (ed_priv_bytes (edkp_private_key (kb_signing_key_pair key_bundle)))),
           (''signed_pre_key_pair_bincode'', b64 signed_bytes),
           (''signed_pre_key_id'', JInt (int (unat (kb_spk_id key_bundle)))),
           (''public_bundle'', JObj
             [(''identity_key'', b64 (x_pub_bytes (pkb_identity_key (kb_bundle key_bundle)))),
              (''signing_key'', b64 (ed_pub_bytes (edkp_public_key (kb_signing_key_pair key_bundle)))),
              (''signed_pre_key'', JObj
                [(''id'', JInt (int (unat (kb_spk_id key_bundle)))),
                 (''key'', b64 (x_pub_bytes (xkp_public_key (kb_signed_pre_key_pair key_bundle))))]),
              (''signed_pre_key_signature'', b64 (sig_bytes (pkb_signed_pre_key_signature (kb_bundle key_bundle)))),
              (''one_time_pre_keys'', JArr one_time_pre_keys)]),
           (''otk_pairs'', JArr otk_pairs)])))))))"

section \<open>The raw functions\<close>

definition bridge_x3dh_initiate ::
  "crypto_lib \<Rightarrow> bridge_lib \<Rightarrow> bytes \<Rightarrow> bytes \<Rightarrow> bytes \<Rightarrow> bytes \<Rightarrow> chain + bytes"
where
  "bridge_x3dh_initiate C B ephemeral_draw ratchet_draw identity_key signed_pre_key =
     (let H = bl_host B in
      and_then (context_none ''failed to deserialize Alice's identity key'' (bc_de_key_pair H identity_key)) (\<lambda>alice.
      and_then (context_none ''failed to deserialize Bob's pre-key bundle'' (bl_de_fetch B signed_pre_key)) (\<lambda>remote.
      and_then (context_of ''X3DH initiation failed'' (x3dh_initiate C ephemeral_draw alice remote)) (\<lambda>result.
      and_then (context_of ''failed to initialize sending ratchet chain''
        (init_sending_chain C ratchet_draw (xi_root_key result) (xkp_public_key alice) (pkf_identity_key remote))) (\<lambda>state.
      and_then (context_of ''failed to serialize ratchet state'' (try_export_state (bc_ser_state H) state)) (\<lambda>state_bytes.
        context_none ''failed to serialize X3DH initiate result''
          (bl_ser_initiate B
            \<lparr>bi_state = state_bytes, bi_ephemeral_public_key = x_pub_bytes (xi_ephemeral_public_key result),
             bi_spk_id = xi_spk_id result, bi_otk_id = xi_otk_id result\<rparr>)))))))"

definition bridge_x3dh_respond ::
  "crypto_lib \<Rightarrow> bridge_lib \<Rightarrow> bytes \<Rightarrow> bytes \<Rightarrow> bytes \<Rightarrow> bytes \<Rightarrow> bytes option \<Rightarrow> chain + bytes"
where
  "bridge_x3dh_respond C B ratchet_draw identity_key ephemeral_key signed_pre_key one_time_pre_key =
     (let H = bl_host B in
      and_then (context_none ''failed to deserialize Bob's identity key'' (bc_de_key_pair H identity_key)) (\<lambda>bob.
      if length ephemeral_key \<noteq> 64
      then Inl [''ephemeral_key must be 64 bytes (identity_pk || ephemeral_pk), got '' @ show_nat (length ephemeral_key)]
      else
        let alice_identity_pk = X25519PublicKey (take 32 ephemeral_key);
            alice_ephemeral_pk = X25519PublicKey (take 32 (drop 32 ephemeral_key)) in
        and_then (context_none ''failed to deserialize Bob's signed pre-key'' (bc_de_key_pair H signed_pre_key)) (\<lambda>spk.
        and_then (case one_time_pre_key of
                    Some b \<Rightarrow> and_then (context_none ''failed to deserialize Bob's one-time pre-key'' (bc_de_key_pair H b))
                                (\<lambda>kp. Inr (Some kp))
                  | None \<Rightarrow> Inr None) (\<lambda>otk.
        and_then (context_of ''X3DH response failed''
          (x3dh_respond_with_raw_otk C bob spk otk alice_identity_pk alice_ephemeral_pk)) (\<lambda>result.
        and_then (context_of ''failed to initialize receiving ratchet chain''
          (init_receiving_chain C ratchet_draw (xr_root_key result) (xkp_public_key bob) alice_identity_pk)) (\<lambda>state.
        and_then (context_of ''failed to serialize ratchet state'' (try_export_state (bc_ser_state H) state)) (\<lambda>state_bytes.
          context_none ''failed to serialize X3DH respond result''
            (bl_ser_respond B \<lparr>br_state = state_bytes, br_otk_id = xr_otk_id result\<rparr>))))))))"

definition bridge_ratchet_encrypt ::
  "crypto_lib \<Rightarrow> host_lib \<Rightarrow> bytes option \<Rightarrow> bytes \<Rightarrow> bytes \<Rightarrow> chain + bytes \<times> bytes"
where
  "bridge_ratchet_encrypt C H nonce_draw state_bytes plaintext =
     and_then (context_of ''failed to deserialize ratchet state'' (restore_state (bc_de_state H) state_bytes)) (\<lambda>state.
       let (r, state) = ratchet_encrypt C nonce_draw state plaintext in
       and_then (context_of ''ratchet encryption failed'' r) (\<lambda>(header, ciphertext).
       and_then (context_of ''failed to serialize updated ratchet state'' (try_export_state (bc_ser_state H) state)) (\<lambda>new_state.
         Inr (new_state, encode_ratchet_header header @ ciphertext))))"

definition bridge_ratchet_decrypt ::
  "crypto_lib \<Rightarrow> host_lib \<Rightarrow> bytes \<Rightarrow> bytes \<Rightarrow> bytes \<Rightarrow> chain + bytes \<times> bytes"
where
  "bridge_ratchet_decrypt C H draw state_bytes ciphertext =
     and_then (context_of ''failed to deserialize ratchet state'' (restore_state (bc_de_state H) state_bytes)) (\<lambda>state.
       if length ciphertext < ratchet_header_len
       then Inl [''ciphertext too short: expected at least 52 bytes for header, got '' @ show_nat (length ciphertext)]
       else
         and_then (context_of ''failed to decode ratchet header''
           (decode_ratchet_header (take ratchet_header_len ciphertext))) (\<lambda>header.
         let (r, state) = ratchet_decrypt C draw state header (drop ratchet_header_len ciphertext) in
         and_then (context_of ''ratchet decryption failed'' r) (\<lambda>plaintext.
         and_then (context_of ''failed to serialize updated ratchet state'' (try_export_state (bc_ser_state H) state)) (\<lambda>new_state.
           Inr (new_state, plaintext)))))"

definition bridge_export_state :: "host_lib \<Rightarrow> bytes \<Rightarrow> chain + bytes" where
  "bridge_export_state H state_bytes =
     and_then (context_of ''failed to deserialize ratchet state'' (restore_state (bc_de_state H) state_bytes)) (\<lambda>state.
       context_of ''failed to re-export ratchet state'' (try_export_state (bc_ser_state H) state))"

definition bridge_restore_state :: "host_lib \<Rightarrow> bytes \<Rightarrow> chain + bytes" where
  "bridge_restore_state H state_bytes =
     and_then (context_of ''failed to restore ratchet state'' (restore_state (bc_de_state H) state_bytes)) (\<lambda>state.
       context_of ''failed to re-export restored ratchet state'' (try_export_state (bc_ser_state H) state))"

section \<open>The JSON functions\<close>

definition bridge_create_outbound_session ::
  "crypto_lib \<Rightarrow> bridge_lib \<Rightarrow> bytes \<Rightarrow> bytes \<Rightarrow> string \<Rightarrow> chain + string"
where
  "bridge_create_outbound_session C B ephemeral_draw ratchet_draw config_json =
     (let H = bl_host B in
      and_then (context_none ''failed to parse create_outbound_session config'' (json_parse H config_json)) (\<lambda>config.
      and_then (json_base64 H config ''local_identity_key_pair'' ''invalid local_identity_key_pair base64'') (\<lambda>identity_bytes.
      and_then (context_none ''failed to deserialize local identity key pair'' (bc_de_key_pair H identity_bytes)) (\<lambda>alice.
      and_then (context_none ''remote_bundle_json is required''
        (json_as_str (json_index config ''remote_bundle_json''))) (\<lambda>bundle_json.
      and_then (parse_remote_bundle_json H bundle_json) (\<lambda>remote.
      and_then (context_of ''X3DH initiation failed'' (x3dh_initiate C ephemeral_draw alice remote)) (\<lambda>result.
      and_then (context_of ''failed to initialize sending ratchet chain''
        (init_sending_chain C ratchet_draw (xi_root_key result) (xkp_public_key alice) (pkf_identity_key remote))) (\<lambda>state.
      and_then (context_of ''failed to serialize ratchet state'' (try_export_state (bc_ser_state H) state)) (\<lambda>state_bytes.
        let handshake = x_pub_bytes (xi_ephemeral_public_key result) @ be_bytes (xi_spk_id result) @
                        be_bytes (unwrap_or (xi_otk_id result) 0xffffffff) in
        Inr (bl_show B (JObj
          [(''state'', JStr (b64_encode H state_bytes)),
           (''handshake'', JStr (b64_encode H handshake)),
           (''otk_id'', (case xi_otk_id result of Some i \<Rightarrow> JInt (int (unat i)) | None \<Rightarrow> JNull))])))))))))))"

definition bridge_create_inbound_session ::
  "crypto_lib \<Rightarrow> bridge_lib \<Rightarrow> bytes \<Rightarrow> string \<Rightarrow> chain + string"
where
  "bridge_create_inbound_session C B ratchet_draw config_json =
     (let H = bl_host B in
      and_then (context_none ''failed to parse create_inbound_session config'' (json_parse H config_json)) (\<lambda>config.
      and_then (json_base64 H config ''local_identity_key_pair'' ''invalid local_identity_key_pair'') (\<lambda>identity_bytes.
      and_then (context_none ''failed to deserialize local identity key pair'' (bc_de_key_pair H identity_bytes)) (\<lambda>bob.
      and_then (json_base64 H config ''local_spk_pair'' ''invalid local_spk_pair'') (\<lambda>spk_bytes.
      and_then (context_none ''failed to deserialize local SPK pair'' (bc_de_key_pair H spk_bytes)) (\<lambda>spk.
      and_then (case json_get config ''local_otk_pair'' of
                  Some v \<Rightarrow>
                    if json_is_string v
                    then and_then (context_none ''invalid local_otk_pair'' (b64_decode H (unwrap_or (json_as_str v) []))) (\<lambda>b.
                         and_then (context_none ''failed to deserialize OTK pair'' (bc_de_key_pair H b)) (\<lambda>kp. Inr (Some kp)))
                    else Inr None
                | None \<Rightarrow> Inr None) (\<lambda>otk.
      and_then (json_base64 H config ''remote_identity_key'' ''invalid remote_identity_key'') (\<lambda>remote_id_bytes.
      if length remote_id_bytes \<noteq> 32
      then Inl [''remote_identity_key must be 32 bytes, got '' @ show_nat (length remote_id_bytes)]
      else
        and_then (json_base64 H config ''remote_handshake'' ''invalid remote_handshake'') (\<lambda>handshake.
        if length handshake \<noteq> 40 then Inl [''handshake must be 40 bytes, got '' @ show_nat (length handshake)]
        else
          and_then (context_of ''X3DH response failed''
            (x3dh_respond_with_raw_otk C bob spk otk (X25519PublicKey remote_id_bytes)
              (X25519PublicKey (take 32 handshake)))) (\<lambda>result.
          and_then (context_of ''failed to initialize receiving ratchet chain''
            (init_receiving_chain C ratchet_draw (xr_root_key result) (xkp_public_key bob)
              (X25519PublicKey remote_id_bytes))) (\<lambda>state.
          and_then (context_of ''failed to serialize ratchet state'' (try_export_state (bc_ser_state H) state)) (\<lambda>state_bytes.
            Inr (bl_show B (JObj
              [(''state'', JStr (b64_encode H state_bytes)),
               (''otk_id'', (case xr_otk_id result of Some i \<Rightarrow> JInt (int (unat i)) | None \<Rightarrow> JNull))]))))))))))))))"

definition bridge_encrypt_message ::
  "crypto_lib \<Rightarrow> bridge_lib \<Rightarrow> bytes option \<Rightarrow> string \<Rightarrow> chain + string"
where
  "bridge_encrypt_message C B nonce_draw config_json =
     (let H = bl_host B in
      and_then (context_none ''failed to parse encrypt_message config'' (json_parse H config_json)) (\<lambda>config.
      and_then (json_base64 H config ''state'' ''invalid state base64'') (\<lambda>state_bytes.
      and_then (json_base64 H config ''plaintext'' ''invalid plaintext base64'') (\<lambda>plaintext_bytes.
      and_then (bridge_ratchet_encrypt C H nonce_draw state_bytes plaintext_bytes) (\<lambda>(new_state, header_and_ciphertext).
      and_then (encode_wire header_and_ciphertext) (\<lambda>wire_bytes.
        let envelope =
              [(''version'', JInt 2), (''algorithm'', JStr ''rust-x25519-x3dh-dr-v1''),
               (''sender_device_id'', json_index config ''sender_device_id''),
               (''recipient_device_id'', json_index config ''recipient_device_id''),
               (''session_id'', json_index config ''session_id''),
               (''wire'', JStr (b64_encode H wire_bytes)),
               (''new_state'', JStr (b64_encode H new_state))];
            envelope =
              (case json_get config ''handshake'' of
                 Some handshake \<Rightarrow>
                   if json_is_string handshake \<and> unwrap_or (json_as_str handshake) [] \<noteq> []
                   then envelope @ [(''handshake'', handshake)] else envelope
               | None \<Rightarrow> envelope) in
        Inr (bl_show B (JObj envelope))))))))"

definition bridge_decrypt_message :: "crypto_lib \<Rightarrow> bridge_lib \<Rightarrow> bytes \<Rightarrow> string \<Rightarrow> chain + string" where
  "bridge_decrypt_message C B draw config_json =
     (let H = bl_host B in
      and_then (context_none ''failed to parse decrypt_message config'' (json_parse H config_json)) (\<lambda>config.
      and_then (json_base64 H config ''state'' ''invalid state base64'') (\<lambda>state_bytes.
      and_then (context_none ''envelope.wire is required''
        (json_as_str (json_index (json_index config ''envelope'') ''wire''))) (\<lambda>wire_b64.
      and_then (context_none ''invalid wire base64'' (b64_decode H wire_b64)) (\<lambda>wire_bytes.
      and_then (decode_wire wire_bytes) (\<lambda>header_and_ciphertext.
      and_then (bridge_ratchet_decrypt C H draw state_bytes header_and_ciphertext) (\<lambda>(new_state, plaintext).
        Inr (bl_show B (JObj
          [(''plaintext'', JStr (b64_encode H plaintext)),
           (''new_state'', JStr (b64_encode H new_state))])))))))))"

text \<open>The context a stored session is bound to.\<close>

definition session_context :: "json \<Rightarrow> string" where
  "session_context config =
     json_text config ''user_id'' @ '':'' @ json_text config ''device_id'' @ '':'' @
     json_text config ''session_id'' @ '':'' @ json_text config ''remote_user_id'' @ '':'' @
     json_text config ''remote_device_id''"

definition context_hash :: "host_lib \<Rightarrow> json \<Rightarrow> bytes" where
  "context_hash H config = take 16 (sha256 H (ascii (session_context config)))"

text \<open>The message has an em dash, three bytes in UTF-8.\<close>

definition context_mismatch :: string where
  "context_mismatch = ''session context mismatch '' @ map char_of [226, 128, 148 :: nat] @
     '' possible cross-account restore attack''"

definition bridge_export_session_envelope :: "bridge_lib \<Rightarrow> string \<Rightarrow> chain + string" where
  "bridge_export_session_envelope B config_json =
     (let H = bl_host B in
      and_then (context_none ''failed to parse export_session_envelope config'' (json_parse H config_json)) (\<lambda>config.
      and_then (json_base64 H config ''state'' ''invalid state base64'') (\<lambda>state_bytes.
        Inr (bl_show B (JObj
          [(''envelope'', JStr (b64_encode H (3 # context_hash H config @ state_bytes)))])))))"

definition bridge_restore_session_envelope :: "bridge_lib \<Rightarrow> string \<Rightarrow> chain + string" where
  "bridge_restore_session_envelope B config_json =
     (let H = bl_host B in
      and_then (context_none ''failed to parse restore_session_envelope config'' (json_parse H config_json)) (\<lambda>config.
      and_then (json_base64 H config ''envelope'' ''invalid envelope base64'') (\<lambda>envelope_bytes.
      if length envelope_bytes < 17
      then Inl [''envelope too short: expected at least 17 bytes, got '' @ show_nat (length envelope_bytes)]
      else
        let version = envelope_bytes ! 0 in
        if version \<noteq> 3 then Inl [''unsupported envelope version: '' @ show_nat (unat version)]
        else
          let stored_hash = take 16 (drop 1 envelope_bytes); state_bytes = drop 17 envelope_bytes in
          if stored_hash \<noteq> context_hash H config
          then Inl [context_mismatch]
          else
            and_then (context_of ''failed to deserialize ratchet state from envelope''
              (restore_state (bc_de_state H) state_bytes)) (\<lambda>state.
            and_then (context_of ''failed to re-export ratchet state from envelope''
              (try_export_state (bc_ser_state H) state)) (\<lambda>canonical.
              Inr (bl_show B (JObj [(''state'', JStr (b64_encode H canonical))])))))))"

end
