(* ===== verification/Bridge_Properties.thy ===== *)
theory Bridge_Properties
  imports Bridge Ffi_Properties Prelude
begin

text \<open>
  The Flutter bridge: its agreement with the UniFFI manager on encryption and decryption, the wire
  with its legacy form, the values it accepts as keys, and the envelopes that bind a stored state to
  its context.
\<close>

section \<open>Keys\<close>

lemma json_as_str_Some [simp]: "json_as_str v = Some s \<longleftrightarrow> v = JStr s"
  by (cases v) auto

lemma json_as_array_Some [simp]: "json_as_array v = Some vs \<longleftrightarrow> v = JArr vs"
  by (cases v) auto

lemma json_as_u64_uint: "json_as_u64 (JInt (uint (b :: byte))) = Some (unat b)"
  using uint_bounded[of b] by simp

lemma json_byte_only:
  assumes "json_as_u64 v = Some n" "n \<le> 255"
  shows "v = JInt (uint (word_of_nat n :: byte))"
proof -
  from assms(1) have "v = JInt (int n)" by (cases v) (auto split: if_splits)
  moreover have "uint (word_of_nat n :: byte) = int n"
    using assms(2) by (simp add: unsigned_of_nat take_bit_nat_eq_self)
  ultimately show ?thesis by simp
qed

lemma json_bytes_from_Inr: "json_bytes_from label i vs = Inr bs \<longleftrightarrow> vs = map (\<lambda>b. JInt (uint b)) bs"
proof (induction label i vs arbitrary: bs rule: json_bytes_from.induct)
  case (1 label idx)
  then show ?case by auto
next
  case (2 label idx item items)
  show ?case
  proof
    assume "json_bytes_from label idx (item # items) = Inr bs"
    then obtain n bs' where "json_as_u64 item = Some n" "n \<le> 255" "bs = word_of_nat n # bs'"
      and rest: "json_bytes_from label (idx + 1) items = Inr bs'"
      by (auto simp: and_then_Inr_iff context_none_def split: if_splits)
    with json_byte_only[of item n] 2[of n bs'] show "item # items = map (\<lambda>b. JInt (uint b)) bs"
      by (simp add: not_less)
  next
    assume *: "item # items = map (\<lambda>b. JInt (uint b)) bs"
    then obtain b bs' where bs: "bs = b # bs'" "item = JInt (uint b)" "items = map (\<lambda>b. JInt (uint b)) bs'"
      by (cases bs) auto
    have "\<not> 255 < unat b" using unat_byte[of b] by simp
    with bs 2[of "unat b" bs'] show "json_bytes_from label idx (item # items) = Inr bs"
      by (simp add: context_none_def json_as_u64_uint del: json_as_u64.simps)
  qed
qed

lemma decode_base64_32_Inr: "decode_base64_32 H s label = Inr b \<longleftrightarrow> b64_decode H s = Some b \<and> length b = 32"
  by (auto simp: decode_base64_32_def and_then_Inr_iff context_none_def)

lemma json_key_bytes_Inr:
  "json_key_bytes H v label = Inr b \<longleftrightarrow>
     length b = 32 \<and> (v = JArr (map (\<lambda>x. JInt (uint x)) b) \<or> (\<exists>s. v = JStr s \<and> b64_decode H s = Some b))"
  by (cases v)
    (auto simp: json_key_bytes_def context_none_def decode_base64_32_Inr json_bytes_from_Inr)

lemma json_pre_key_Inr:
  "json_pre_key H v label = Inr k \<Longrightarrow> wf_pub (pk_key k) \<and>
     json_as_u64 (json_index v ''id'') = Some (unat (pk_id k))"
  by (auto simp: json_pre_key_def and_then_Inr_iff context_none_def json_key_bytes_Inr unat_of_nat_u32
      split: if_splits)

text \<open>
  C39: Types at the boundary. A JSON value is accepted as a 32-byte key exactly when it is base64
  text of 32 bytes or an array of 32 integers between 0 and 255, with the key it denotes; and a
  bundle that parses has keys of 32 bytes, a signature of 64 bytes and identifiers as they were
  written, so the fixed-size arrays of the core are always filled.
\<close>

theorem bridge_bundle_typed:
  "(json_key_bytes H v label = Inr b \<longleftrightarrow>
     length b = 32 \<and> (v = JArr (map (\<lambda>x. JInt (uint x)) b) \<or> (\<exists>s. v = JStr s \<and> b64_decode H s = Some b))) \<and>
   (parse_remote_bundle_json H str = Inr f \<longrightarrow>
     wf_pub (pkf_identity_key f) \<and> length (ed_pub_bytes (pkf_signing_key f)) = 32 \<and>
     wf_pub (pk_key (pkf_signed_pre_key f)) \<and> length (sig_bytes (pkf_signed_pre_key_signature f)) = 64 \<and>
     (\<exists>doc. json_parse H str = Some doc \<and>
        json_as_u64 (json_index (json_index doc ''signed_pre_key'') ''id'') = Some (unat (pk_id (pkf_signed_pre_key f))) \<and>
        (case pkf_one_time_pre_key f of
           None \<Rightarrow> json_index doc ''one_time_pre_key'' = JNull
         | Some k \<Rightarrow> wf_pub (pk_key k) \<and>
             json_as_u64 (json_index (json_index doc ''one_time_pre_key'') ''id'') = Some (unat (pk_id k)))))"
proof (intro conjI impI)
  assume "parse_remote_bundle_json H str = Inr f"
  then obtain doc otk sig ik sk spk where doc: "json_parse H str = Some doc"
    and otk: "(case json_get doc ''one_time_pre_key'' of
                 Some v \<Rightarrow> if v \<noteq> JNull
                           then and_then (json_pre_key H v ''one_time_pre_key'') (\<lambda>k. Inr (Some k))
                           else Inr None
               | None \<Rightarrow> Inr None) = Inr otk"
    and "length sig = 64" "json_key_bytes H (json_index doc ''identity_key'') ''identity_key'' = Inr ik"
      "json_key_bytes H (json_index doc ''signing_key'') ''signing_key'' = Inr sk"
    and spk: "json_pre_key H (json_index doc ''signed_pre_key'') ''signed_pre_key'' = Inr spk"
    and f: "f = \<lparr>pkf_identity_key = X25519PublicKey ik, pkf_signing_key = Ed25519PublicKey sk,
      pkf_signed_pre_key = spk, pkf_signed_pre_key_signature = Ed25519Signature sig, pkf_one_time_pre_key = otk\<rparr>"
    by (auto simp: parse_remote_bundle_json_def and_then_Inr_iff context_none_def split: if_splits)
  then show "wf_pub (pkf_identity_key f)" "length (ed_pub_bytes (pkf_signing_key f)) = 32"
    "wf_pub (pk_key (pkf_signed_pre_key f))" "length (sig_bytes (pkf_signed_pre_key_signature f)) = 64"
    using json_pre_key_Inr[OF spk] by (simp_all add: json_key_bytes_Inr)
  have "case otk of None \<Rightarrow> json_index doc ''one_time_pre_key'' = JNull
         | Some k \<Rightarrow> wf_pub (pk_key k) \<and>
             json_as_u64 (json_index (json_index doc ''one_time_pre_key'') ''id'') = Some (unat (pk_id k))"
    using otk json_pre_key_Inr[of H "json_index doc ''one_time_pre_key''" "''one_time_pre_key''"]
    by (auto simp: json_index_def and_then_Inr_iff split: option.splits if_splits)
  with doc json_pre_key_Inr[OF spk] show "\<exists>doc. json_parse H str = Some doc \<and>
        json_as_u64 (json_index (json_index doc ''signed_pre_key'') ''id'') = Some (unat (pk_id (pkf_signed_pre_key f))) \<and>
        (case pkf_one_time_pre_key f of
           None \<Rightarrow> json_index doc ''one_time_pre_key'' = JNull
         | Some k \<Rightarrow> wf_pub (pk_key k) \<and>
             json_as_u64 (json_index (json_index doc ''one_time_pre_key'') ''id'') = Some (unat (pk_id k)))"
    by (auto simp: f)
qed (rule json_key_bytes_Inr)

theorem bridge_bundle_typed_witness:
  "json_key_bytes sample_host (JArr (replicate 32 (JInt 7))) ''k'' = Inr (replicate 32 7) \<and>
   \<not> is_ok (json_key_bytes sample_host (JArr (replicate 32 (JInt 256))) ''k'')"
proof
  show "json_key_bytes sample_host (JArr (replicate 32 (JInt 7))) ''k'' = Inr (replicate 32 7)"
    using bridge_bundle_typed[of sample_host "JArr (replicate 32 (JInt 7))" "''k''" "replicate 32 7"] by simp
  have "JArr (replicate 32 (JInt 256)) \<noteq> JArr (map (\<lambda>x. JInt (uint x)) (b :: bytes))" for b
  proof
    assume "JArr (replicate 32 (JInt 256)) = JArr (map (\<lambda>x. JInt (uint x)) b)"
    then have "map (\<lambda>x. JInt (uint x)) b = replicate 32 (JInt 256)" by simp
    then have "JInt 256 \<in> (\<lambda>x. JInt (uint x)) ` set b" by (metis in_set_replicate list.set_map zero_neq_numeral)
    then obtain x :: byte where "uint x = 256" by auto
    then show False using uint_bounded[of x] by simp
  qed
  then have "json_key_bytes sample_host (JArr (replicate 32 (JInt 256))) ''k'' \<noteq> Inr b" for b
    using bridge_bundle_typed[of sample_host "JArr (replicate 32 (JInt 256))" "''k''" b] by blast
  then show "\<not> is_ok (json_key_bytes sample_host (JArr (replicate 32 (JInt 256))) ''k'')"
    by (auto simp: is_ok_iff)
qed

section \<open>The wire\<close>

text \<open>
  The bridge writes the same frames as the other hosts and reads them; a payload of at least a
  header that does not begin with the prefix is read as the older form without one. An older
  payload is therefore read correctly unless it is long enough and its ratchet key begins with the
  bytes 0, 0, 0, 52: then its first four bytes are taken away as if they were a prefix.
\<close>

theorem bridge_wire_format:
  assumes "wf_header h"
  shows "encode_wire (encode_ratchet_header h @ ct) = Inr (wire_frame h ct) \<and>
    decode_wire (wire_frame h ct) = Inr (encode_ratchet_header h @ ct) \<and>
    (decode_wire (encode_ratchet_header h @ ct) = Inr (encode_ratchet_header h @ ct) \<longleftrightarrow>
       \<not> (4 \<le> length ct \<and> take 4 (x_pub_bytes (hdr_ratchet_public_key h)) = be_bytes 52)) \<and>
    (4 \<le> length ct \<and> take 4 (x_pub_bytes (hdr_ratchet_public_key h)) = be_bytes 52 \<longrightarrow>
       decode_wire (encode_ratchet_header h @ ct) = Inr (drop 4 (encode_ratchet_header h @ ct)))"
proof -
  have width: "length (encode_ratchet_header h) = 52" by (rule header_codec.enc_width[OF assms])
  have key: "take 4 (encode_ratchet_header h) = take 4 (x_pub_bytes (hdr_ratchet_public_key h))"
    using assms by (simp add: encode_ratchet_header_def wf_header_def)
  have prefix: "unat (of_be_bytes (take 4 (encode_ratchet_header h))) = 52 \<longleftrightarrow>
      take 4 (encode_ratchet_header h) = be_bytes 52"
  proof
    assume "unat (of_be_bytes (take 4 (encode_ratchet_header h))) = 52"
    then have "of_be_bytes (take 4 (encode_ratchet_header h)) = 52" by (simp add: word_unat_eq_iff)
    then show "take 4 (encode_ratchet_header h) = be_bytes 52"
      using be_bytes_of_be_bytes[of "take 4 (encode_ratchet_header h)"] width by simp
  qed simp
  have "drop 4 (encode_ratchet_header h @ ct) \<noteq> encode_ratchet_header h @ ct"
  proof
    assume eq: "drop 4 (encode_ratchet_header h @ ct) = encode_ratchet_header h @ ct"
    have "length (drop 4 (encode_ratchet_header h @ ct)) = length (encode_ratchet_header h @ ct)"
      by (simp only: eq)
    then show False using width by simp
  qed
  then show ?thesis
    using width prefix[unfolded key]
    by (auto simp: key encode_wire_def decode_wire_def wire_frame_def ratchet_header_len_def wire_prefix_size_def)
qed

text \<open>A header whose ratchet key begins with the bytes of the prefix.\<close>

definition unlucky_header :: ratchet_header where
  "unlucky_header = (sample_header 0)\<lparr>hdr_ratchet_public_key := X25519PublicKey (be_bytes 52 @ replicate 28 1)\<rparr>"

theorem bridge_wire_format_witness:
  "decode_wire (encode_ratchet_header unlucky_header @ [1, 2, 3, 4]) \<noteq>
     Inr (encode_ratchet_header unlucky_header @ [1, 2, 3, 4]) \<and>
   decode_wire (wire_frame (sample_header 0) [1, 2, 3, 4]) = Inr (encode_ratchet_header (sample_header 0) @ [1, 2, 3, 4])"
proof
  have wf: "wf_header unlucky_header" "wf_header (sample_header 0)"
    by (simp_all add: unlucky_header_def sample_header_def wf_header_def)
  have "take 4 (x_pub_bytes (hdr_ratchet_public_key unlucky_header)) = be_bytes 52"
    by (simp add: unlucky_header_def)
  with bridge_wire_format[OF wf(1), of "[1, 2, 3, 4]"]
  show "decode_wire (encode_ratchet_header unlucky_header @ [1, 2, 3, 4]) \<noteq>
     Inr (encode_ratchet_header unlucky_header @ [1, 2, 3, 4])"
    by auto
  show "decode_wire (wire_frame (sample_header 0) [1, 2, 3, 4]) =
     Inr (encode_ratchet_header (sample_header 0) @ [1, 2, 3, 4])"
    using bridge_wire_format[OF wf(2)] by blast
qed

section \<open>Agreement with the UniFFI manager\<close>

lemma context_of_simps [simp]:
  "context_of msg (Inr x) = Inr x" "context_of msg (Inl e) = Inl [msg, display_e2ee_error e]"
  by (simp_all add: context_of_def)

lemma bincode_exported:
  assumes "bincode_inverse (bc_ser_state H) (bc_de_state H) st"
  obtains b where "try_export_state (bc_ser_state H) st = Inr b" "restore_state (bc_de_state H) b = Inr st"
  using assms by (auto simp: bincode_inverse_def try_export_state_def restore_versioned)

lemma encrypt_header:
  assumes "ratchet_encrypt C nonce st pt = (Inr (hdr, body), st')" "wf_ratchet_state st"
    and "\<forall>n. nonce = Some n \<longrightarrow> length n = 12"
  shows "wf_header hdr"
  using assms
  by (auto simp: ratchet_encrypt_def Let_def generate_nonce_def ok_or_def wf_header_def wf_ratchet_state_def
      wf_key_pair_def split: sum.splits option.splits if_splits prod.splits)

text \<open>
  C22: The bridge and the UniFFI manager compute the same messages. When the manager's session holds
  the state the bridge was given, both encrypt to the same frame and leave the same state, or both
  fail; both decrypt a frame to the same plaintext and leave the same state, or both fail, and then
  the bridge's caller still has the state from before.
\<close>

theorem bridge_matches_ffi:
  assumes "sm_lock m k = Inr st" "restore_state (bc_de_state H) sb = Inr st"
    and "bincode_inverse (bc_ser_state H) (bc_de_state H) (snd (ratchet_encrypt C nonce st pt))"
    and "wf_ratchet_state st" "\<forall>n. nonce = Some n \<longrightarrow> length n = 12" "wf_header h"
    and "bincode_inverse (bc_ser_state H) (bc_de_state H) (snd (ratchet_decrypt C draw st h ct))"
  shows "(case ffi_encrypt C nonce m k pt of
      (Inl e, _) \<Rightarrow> \<not> is_ok (bridge_ratchet_encrypt C H nonce sb pt)
    | (Inr w, m') \<Rightarrow> \<exists>sb' hc st'. bridge_ratchet_encrypt C H nonce sb pt = Inr (sb', hc) \<and>
        encode_wire hc = Inr w \<and> sm_lock m' k = Inr st' \<and> restore_state (bc_de_state H) sb' = Inr st') \<and>
    (case ffi_decrypt C draw m k (wire_frame h ct) of
      (Inl e, _) \<Rightarrow> \<not> is_ok (and_then (decode_wire (wire_frame h ct)) (bridge_ratchet_decrypt C H draw sb))
    | (Inr pt, m') \<Rightarrow> \<exists>sb' st'.
        and_then (decode_wire (wire_frame h ct)) (bridge_ratchet_decrypt C H draw sb) = Inr (sb', pt) \<and>
        sm_lock m' k = Inr st' \<and> restore_state (bc_de_state H) sb' = Inr st')" (is "?E \<and> ?D")
proof
  have wb: "sm_lock (sm_write_back m k st') k = Inr st'" for st'
    using assms(1) by (auto simp: sm_lock_def sm_write_back_def split: if_splits option.splits)
  obtain r st1 where enc: "ratchet_encrypt C nonce st pt = (r, st1)" by fastforce
  obtain b1 where b1: "try_export_state (bc_ser_state H) st1 = Inr b1" "restore_state (bc_de_state H) b1 = Inr st1"
    using assms(3) unfolding enc snd_conv by (rule bincode_exported)
  show ?E
  proof (cases r)
    case (Inl e)
    with assms(1,2) enc show ?thesis by (simp add: ffi_encrypt_def bridge_ratchet_encrypt_def)
  next
    case (Inr hct)
    obtain hdr body where hct: "hct = (hdr, body)" by fastforce
    have "length (encode_ratchet_header hdr) = 52"
      using encrypt_header[OF enc[unfolded Inr hct] assms(4,5)] by (rule header_codec.enc_width)
    with Inr hct assms(1,2) enc b1 wb show ?thesis
      by (simp add: ffi_encrypt_def bridge_ratchet_encrypt_def encode_wire_def ratchet_header_len_def)
  qed
  obtain r st2 where dec: "ratchet_decrypt C draw st h ct = (r, st2)" by fastforce
  obtain b2 where b2: "try_export_state (bc_ser_state H) st2 = Inr b2" "restore_state (bc_de_state H) b2 = Inr st2"
    using assms(7) unfolding dec snd_conv by (rule bincode_exported)
  have split: "bridge_ratchet_decrypt C H draw sb (encode_ratchet_header h @ ct) =
      and_then (context_of ''ratchet decryption failed'' r) (\<lambda>plaintext. Inr (b2, plaintext))"
    using assms(2) dec b2 header_codec.enc_width[OF assms(6)] header_codec.dec_enc[OF assms(6)]
    by (simp add: bridge_ratchet_decrypt_def ratchet_header_len_def)
  have "decode_wire (wire_frame h ct) = Inr (encode_ratchet_header h @ ct)"
    using wire_frame_parts[OF assms(6), of ct]
    by (simp add: decode_wire_def ratchet_header_len_def wire_prefix_size_def) (simp add: wire_frame_def)
  with split show ?D
    using assms(1) dec b2 wb
    by (cases r) (simp_all add: ffi_decrypt_def ffi_parse_wire_frame[OF assms(6)])
qed

text \<open>A \<open>bincode\<close> that knows three states.\<close>

definition table_host :: "ratchet_state \<Rightarrow> ratchet_state \<Rightarrow> ratchet_state \<Rightarrow> host_lib" where
  "table_host x y z = sample_host\<lparr>
     bc_ser_state := (\<lambda>st. Some [if st = x then 1 else if st = y then 2 else 3]),
     bc_de_state := (\<lambda>b. if b = [1] then Some x else if b = [2] then Some y else if b = [3] then Some z else None)\<rparr>"

lemma table_host_inverse:
  "st \<in> {x, y, z} \<Longrightarrow> bincode_inverse (bc_ser_state (table_host x y z)) (bc_de_state (table_host x y z)) st"
  by (auto simp: bincode_inverse_def table_host_def)

theorem bridge_matches_ffi_witness:
  "\<exists>H sb' hc. bridge_ratchet_encrypt sample_crypto H sample_nonce [1, 1] [1, 2, 3] = Inr (sb', hc) \<and>
     encode_wire hc = Inr (wire_frame (fst (fst sample_sent)) (snd (fst sample_sent)))"
proof -
  let ?m = "sm_write_back sm_new ''a'' sample_alice"
  define st2 where "st2 = snd (ratchet_decrypt sample_crypto [] sample_alice (sample_header 0) [])"
  define H where "H = table_host sample_alice (snd sample_sent) st2"
  have lock: "sm_lock ?m ''a'' = Inr sample_alice" by (simp add: sm_lock_def sm_write_back_def sm_new_def)
  have sb: "restore_state (bc_de_state H) [1, 1] = Inr sample_alice"
    using restore_versioned[of "bc_de_state H" "[1]"] by (simp add: H_def table_host_def state_version_def)
  have e: "bincode_inverse (bc_ser_state H) (bc_de_state H)
      (snd (ratchet_encrypt sample_crypto sample_nonce sample_alice [1, 2, 3]))"
    unfolding H_def sample_encrypt by (rule table_host_inverse) simp
  have d: "bincode_inverse (bc_ser_state H) (bc_de_state H)
      (snd (ratchet_decrypt sample_crypto [] sample_alice (sample_header 0) []))"
    unfolding H_def st2_def by (rule table_host_inverse) simp
  have n: "\<forall>n. sample_nonce = Some n \<longrightarrow> length n = 12" by (simp add: sample_nonce_def)
  have wf: "wf_header (sample_header 0)" by (simp add: sample_header_def wf_header_def)
  have "ffi_encrypt sample_crypto sample_nonce ?m ''a'' [1, 2, 3] =
      (Inr (wire_frame (fst (fst sample_sent)) (snd (fst sample_sent))), sm_write_back ?m ''a'' (snd sample_sent))"
    using lock sample_encrypt by (simp add: ffi_encrypt_def wire_frame_def split: prod.split)
  with bridge_matches_ffi[OF lock sb e sample_wf(1) n wf d] show ?thesis by (auto split: prod.splits)
qed

section \<open>Envelopes\<close>

text \<open>The printer and the parser of JSON, on an object whose members are strings.\<close>

definition json_object_text :: "bridge_lib \<Rightarrow> bool" where
  "json_object_text B \<longleftrightarrow> (\<forall>kvs. distinct (map fst kvs) \<and> (\<forall>kv \<in> set kvs. json_is_string (snd kv)) \<longrightarrow>
     (\<exists>v. json_parse (bl_host B) (bl_show B (JObj kvs)) = Some v \<and> (\<forall>k. json_get v k = map_of kvs k)))"

definition sha256_size :: "host_lib \<Rightarrow> bool" where
  "sha256_size H \<longleftrightarrow> (\<forall>b. length (sha256 H b) = 32)"

text \<open>The answer to a restored state: its bytes, written anew.\<close>

definition restored :: "bridge_lib \<Rightarrow> bytes \<Rightarrow> string \<Rightarrow> bool" where
  "restored B sb out \<longleftrightarrow> (\<exists>st canonical. restore_state (bc_de_state (bl_host B)) sb = Inr st \<and>
     try_export_state (bc_ser_state (bl_host B)) st = Inr canonical \<and>
     out = bl_show B (JObj [(''state'', JStr (b64_encode (bl_host B) canonical))]))"

lemma restore_envelope_ok:
  assumes "sha256_size (bl_host B)" "json_parse (bl_host B) cfg = Some config"
    and "b64_decode (bl_host B) (json_text config ''envelope'') = Some E"
  shows "bridge_restore_session_envelope B cfg = Inr out \<longleftrightarrow>
    (\<exists>sb. E = 3 # context_hash (bl_host B) config @ sb \<and> restored B sb out)"
proof -
  have len: "length (context_hash (bl_host B) config) = 16"
    using assms(1) by (simp add: context_hash_def sha256_size_def)
  have shape: "17 \<le> length E \<and> E ! 0 = 3 \<and> take 16 (drop 1 E) = context_hash (bl_host B) config \<longleftrightarrow>
      E = 3 # context_hash (bl_host B) config @ drop 17 E"
  proof
    assume "17 \<le> length E \<and> E ! 0 = 3 \<and> take 16 (drop 1 E) = context_hash (bl_host B) config"
    moreover then obtain e where "E = 3 # e" by (cases E) auto
    ultimately show "E = 3 # context_hash (bl_host B) config @ drop 17 E"
      using append_take_drop_id[of 16 e] by simp
  next
    assume *: "E = 3 # context_hash (bl_host B) config @ drop 17 E"
    show "17 \<le> length E \<and> E ! 0 = 3 \<and> take 16 (drop 1 E) = context_hash (bl_host B) config"
      by (subst (1 2 3) *) (simp add: len)
  qed
  have "bridge_restore_session_envelope B cfg = Inr out \<longleftrightarrow>
      (17 \<le> length E \<and> E ! 0 = 3 \<and> take 16 (drop 1 E) = context_hash (bl_host B) config) \<and> restored B (drop 17 E) out"
    using assms(2,3)
    by (auto simp: bridge_restore_session_envelope_def Let_def context_none_def json_base64_def context_of_def
        restored_def and_then_Inr_iff split: if_splits)
  also have "\<dots> \<longleftrightarrow> (\<exists>sb. E = 3 # context_hash (bl_host B) config @ sb \<and> restored B sb out)"
    unfolding shape using len by fastforce
  finally show ?thesis .
qed

text \<open>
  Stored sessions are bound to their context. What is exported restores in every configuration
  with the same context hash when the bytes are a state that can be written, and the answer is that state, its
  bytes written anew; it restores in no configuration whose context hash differs, whatever else that
  configuration says.
\<close>

theorem bridge_envelope_bound:
  assumes "base64_inverse (bl_host B)" "sha256_size (bl_host B)" "json_object_text B"
    and "json_parse (bl_host B) cfg = Some config" "b64_decode (bl_host B) (json_text config ''state'') = Some sb"
  shows "\<exists>out v env. bridge_export_session_envelope B cfg = Inr out \<and>
    json_parse (bl_host B) out = Some v \<and> json_get v ''envelope'' = Some (JStr env) \<and>
    (\<forall>cfg' config' answer. json_parse (bl_host B) cfg' = Some config' \<and> json_text config' ''envelope'' = env \<longrightarrow>
      (bridge_restore_session_envelope B cfg' = Inr answer \<longleftrightarrow>
         context_hash (bl_host B) config' = context_hash (bl_host B) config \<and>
         (\<exists>st canonical. restore_state (bc_de_state (bl_host B)) sb = Inr st \<and>
            try_export_state (bc_ser_state (bl_host B)) st = Inr canonical \<and>
            answer = bl_show B (JObj [(''state'', JStr (b64_encode (bl_host B) canonical))]))))"
proof -
  let ?H = "bl_host B"
  let ?E = "3 # context_hash ?H config @ sb"
  let ?out = "bl_show B (JObj [(''envelope'', JStr (b64_encode ?H ?E))])"
  have out: "bridge_export_session_envelope B cfg = Inr ?out"
    using assms(4,5) by (simp add: bridge_export_session_envelope_def context_none_def json_base64_def Let_def)
  obtain v where v: "json_parse ?H ?out = Some v" "json_get v ''envelope'' = Some (JStr (b64_encode ?H ?E))"
    using assms(3)[unfolded json_object_text_def, rule_format, of "[(''envelope'', JStr (b64_encode ?H ?E))]"]
    by (auto simp: json_is_string_def)
  have len: "length (context_hash ?H c) = 16" for c
    using assms(2) by (simp add: context_hash_def sha256_size_def)
  have "bridge_restore_session_envelope B cfg' = Inr answer \<longleftrightarrow>
         context_hash ?H config' = context_hash ?H config \<and> restored B sb answer"
    if "json_parse ?H cfg' = Some config'" "json_text config' ''envelope'' = b64_encode ?H ?E" for cfg' config' answer
  proof -
    have "b64_decode ?H (json_text config' ''envelope'') = Some ?E"
      using assms(1) that(2) by (simp add: base64_inverse_def)
    from restore_envelope_ok[OF assms(2) that(1) this] show ?thesis
      using len by (auto simp: append_eq_append_conv)
  qed
  with out v show ?thesis unfolding restored_def by blast
qed

text \<open>An executable printer and parser for objects of strings: every character is marked.\<close>

fun show_members :: "(string \<times> json) list \<Rightarrow> string" where
  "show_members ((k, JStr s) # kvs) = mark k @ mark s @ show_members kvs"
| "show_members _ = []"

fun parse_members :: "nat \<Rightarrow> string \<Rightarrow> (string \<times> json) list" where
  "parse_members 0 t = []"
| "parse_members (Suc n) t =
     (if t = [] then [] else
        let (k, t) = unmark t; (s, t) = unmark t in (k, JStr s) # parse_members n t)"

lemma parse_show_members:
  "\<forall>kv \<in> set kvs. json_is_string (snd kv) \<Longrightarrow> length kvs \<le> n \<Longrightarrow> parse_members n (show_members kvs) = kvs"
proof (induction kvs arbitrary: n)
  case Nil
  then show ?case by (cases n) simp_all
next
  case (Cons kv kvs)
  then obtain k s where "kv = (k, JStr s)" by (cases kv) (auto simp: json_is_string_def)
  with Cons show ?case by (cases n) simp_all
qed

lemma show_members_length:
  "\<forall>kv \<in> set kvs. json_is_string (snd kv) \<Longrightarrow> length kvs \<le> length (show_members kvs)"
proof (induction kvs)
  case (Cons kv kvs)
  then obtain k s where "kv = (k, JStr s)" by (cases kv) (auto simp: json_is_string_def)
  with Cons show ?case by (cases k) auto
qed simp

definition sample_bridge :: bridge_lib where
  "sample_bridge = \<lparr>
     bl_host = (table_host sample_alice sample_bob sample_bob)\<lparr>
       json_parse := (\<lambda>t. Some (JObj (parse_members (length t) t)))\<rparr>,
     bl_ser_bundle = (\<lambda>_. None), bl_de_bundle = (\<lambda>_. None), bl_de_fetch = (\<lambda>_. None),
     bl_ser_key_bundle = (\<lambda>_. None), bl_ser_initiate = (\<lambda>_. None), bl_ser_respond = (\<lambda>_. None),
     bl_show = (\<lambda>v. case v of JObj kvs \<Rightarrow> show_members kvs | _ \<Rightarrow> [])\<rparr>"

lemma sample_bridge_laws:
  "base64_inverse (bl_host sample_bridge)" "sha256_size (bl_host sample_bridge)" "json_object_text sample_bridge"
  by (simp_all add: sample_bridge_def table_host_def sample_host_def base64_inverse_def sha256_size_def
      json_object_text_def parse_show_members show_members_length)

definition sample_config :: "(string \<times> json) list" where
  "sample_config = [(''state'', JStr (text_of [1, 1])), (''user_id'', JStr ''7'')]"

text \<open>The same configuration, with the envelope in it, gives back the state \<open>[1, 1]\<close>.\<close>

theorem bridge_envelope_bound_witness:
  "\<exists>env. bridge_restore_session_envelope sample_bridge (show_members ((''envelope'', JStr env) # sample_config)) =
     Inr (show_members [(''state'', JStr (text_of [1, 1]))])"
proof -
  have parse: "json_parse (bl_host sample_bridge) (show_members kvs) = Some (JObj kvs)"
    if "\<forall>kv \<in> set kvs. json_is_string (snd kv)" for kvs
    using parse_show_members[OF that show_members_length[OF that]] by (simp add: sample_bridge_def)
  have parses: "json_parse (bl_host sample_bridge) (show_members sample_config) = Some (JObj sample_config)"
    "json_parse (bl_host sample_bridge) (show_members ((''envelope'', JStr env) # sample_config)) =
       Some (JObj ((''envelope'', JStr env) # sample_config))" for env
    by (intro parse; simp add: sample_config_def json_is_string_def)+
  have st: "b64_decode (bl_host sample_bridge) (json_text (JObj sample_config) ''state'') = Some [1, 1]"
    by (simp add: sample_bridge_def table_host_def sample_host_def sample_config_def json_text_def json_index_def)
  have same: "context_hash (bl_host sample_bridge) (JObj ((''envelope'', JStr env) # sample_config)) =
      context_hash (bl_host sample_bridge) (JObj sample_config)" for env
    by (simp add: context_hash_def session_context_def json_text_def json_index_def)
  have state: "restore_state (bc_de_state (bl_host sample_bridge)) [1, 1] = Inr sample_alice"
    "try_export_state (bc_ser_state (bl_host sample_bridge)) sample_alice = Inr [1, 1]"
    "b64_encode (bl_host sample_bridge) [1, 1] = text_of [1, 1]"
    by (simp_all add: sample_bridge_def table_host_def sample_host_def restore_state_def try_export_state_def state_version_def)
  obtain out v env where env: "\<And>cfg' config' answer. json_parse (bl_host sample_bridge) cfg' = Some config' \<Longrightarrow>
      json_text config' ''envelope'' = env \<Longrightarrow>
      context_hash (bl_host sample_bridge) config' = context_hash (bl_host sample_bridge) (JObj sample_config) \<Longrightarrow>
      answer = bl_show sample_bridge (JObj [(''state'', JStr (text_of [1, 1]))]) \<Longrightarrow>
      bridge_restore_session_envelope sample_bridge cfg' = Inr answer"
    using bridge_envelope_bound[OF sample_bridge_laws parses(1) st] state by metis
  have "bl_show sample_bridge (JObj kvs) = show_members kvs" for kvs by (simp add: sample_bridge_def)
  with env[OF parses(2) _ same, of env] show ?thesis by (auto simp: json_text_def json_index_def)
qed

fun join_colon :: "string list \<Rightarrow> string" where
  "join_colon [] = []"
| "join_colon [s] = s"
| "join_colon (s # ss) = s @ CHR '':'' # join_colon ss"

lemma join_colon_inj:
  "length ss = length ss' \<Longrightarrow> \<forall>s \<in> set ss \<union> set ss'. CHR '':'' \<notin> set s \<Longrightarrow>
   join_colon ss = join_colon ss' \<longleftrightarrow> ss = ss'"
proof (induction ss ss' rule: list_induct2)
  case Nil
  show ?case by simp
next
  case (Cons s ss s' ss')
  show ?case
  proof (cases ss)
    case Nil
    with Cons show ?thesis by simp
  next
    case (Cons t ts)
    then obtain t' ts' where ss': "ss' = t' # ts'" using \<open>length ss = length ss'\<close> by (cases ss') auto
    have "s @ CHR '':'' # join_colon ss = s' @ CHR '':'' # join_colon ss' \<longleftrightarrow> s = s' \<and> join_colon ss = join_colon ss'"
      using separator_split[of s "CHR '':''" "join_colon ss" s' "join_colon ss'"] Cons.prems by auto
    with Cons.IH Cons.prems show ?thesis by (simp add: Cons ss')
  qed
qed

definition context_fields :: "string list" where
  "context_fields = [''user_id'', ''device_id'', ''session_id'', ''remote_user_id'', ''remote_device_id'']"

lemma session_context_join: "session_context c = join_colon (map (json_text c) context_fields)"
  by (simp add: session_context_def context_fields_def)

text \<open>
  The context joins five identifiers with colons. It determines them when none of them contains
  a colon, and two contexts differ from each other only if their texts do; with colons in the
  identifiers different accounts and devices share a context, so an envelope of one restores in the
  other.
\<close>

theorem bridge_context_identifiers:
  assumes "\<forall>k \<in> set context_fields. CHR '':'' \<notin> set (json_text c k) \<and> CHR '':'' \<notin> set (json_text c' k)"
  shows "(session_context c = session_context c' \<longleftrightarrow> (\<forall>k \<in> set context_fields. json_text c k = json_text c' k)) \<and>
    session_context (JObj [(''user_id'', JStr ''1:2''), (''device_id'', JStr ''3'')]) =
    session_context (JObj [(''user_id'', JStr ''1''), (''device_id'', JStr ''2:3'')])"
proof
  show "session_context c = session_context c' \<longleftrightarrow> (\<forall>k \<in> set context_fields. json_text c k = json_text c' k)"
    using assms unfolding session_context_join
    by (subst join_colon_inj) (auto simp: context_fields_def)
  show "session_context (JObj [(''user_id'', JStr ''1:2''), (''device_id'', JStr ''3'')]) =
    session_context (JObj [(''user_id'', JStr ''1''), (''device_id'', JStr ''2:3'')])"
    by code_simp
qed

theorem bridge_context_identifiers_witness:
  "session_context (JObj [(''user_id'', JStr ''1'')]) \<noteq> session_context (JObj [(''user_id'', JStr ''2'')])"
  using bridge_context_identifiers[of "JObj [(''user_id'', JStr ''1'')]" "JObj [(''user_id'', JStr ''2'')]"]
  by (simp add: json_text_def json_index_def context_fields_def)

end
