(* ===== verification/Im_Session_Tables.thy ===== *)
theory Im_Session_Tables
  imports Im_Sessions
begin

text \<open>
  The two session tables agree: the state machine of the session service, with the removals that
  are between their two lock sections as part of its state, and the invariant every step keeps.
\<close>

section \<open>The invariant\<close>

definition ids_of :: "im_state \<Rightarrow> string \<Rightarrow> string list" where
  "ids_of s u = unwrap_or (map_of (im_user_sessions s) u) []"

definition owned :: "im_state \<Rightarrow> string \<Rightarrow> string \<Rightarrow> bool" where
  "owned s u i \<longleftrightarrow> map_option se_user_id (im_entries s i) = Some u"

text \<open>\<open>p\<close> holds the removals under way: the entry is gone, the identifier still in the user's set.\<close>

definition tables_inv :: "im_state \<Rightarrow> (string \<times> string) set \<Rightarrow> bool" where
  "tables_inv s p \<longleftrightarrow>
     distinct (im_sessions s) \<and> distinct (map fst (im_user_sessions s)) \<and>
     (\<forall>(u, ids) \<in> set (im_user_sessions s). ids \<noteq> [] \<and> distinct ids) \<and>
     (\<forall>i \<in> set (im_sessions s). \<exists>u. owned s u i) \<and>
     (\<forall>(u, i) \<in> p. i \<notin> set (im_sessions s) \<and> owned s u i) \<and>
     (\<forall>u i. i \<in> set (ids_of s u) \<longleftrightarrow> owned s u i \<and> (i \<in> set (im_sessions s) \<or> (u, i) \<in> p))"

named_theorems tables_intros

text \<open>What changes neither table nor the owner of a session is neutral.\<close>

definition same_tables :: "im_state \<Rightarrow> im_state \<Rightarrow> bool" where
  "same_tables s s' \<longleftrightarrow> im_sessions s' = im_sessions s \<and> im_user_sessions s' = im_user_sessions s \<and>
     (\<forall>u i. owned s' u i \<longleftrightarrow> owned s u i)"

lemma same_tables_refl [simp]: "same_tables s s"
  by (simp add: same_tables_def)

lemma same_tables_trans: "same_tables s s' \<Longrightarrow> same_tables s' s'' \<Longrightarrow> same_tables s s''"
  by (simp add: same_tables_def)

lemma same_tables_inv: "same_tables s s' \<Longrightarrow> tables_inv s p \<Longrightarrow> tables_inv s' p"
  by (simp add: tables_inv_def same_tables_def ids_of_def)

lemma try_send_same: "try_send i m s = Inr s' \<Longrightarrow> same_tables s s'"
  by (auto simp: try_send_def same_tables_def owned_def split: option.splits if_splits)

lemma try_send_ignored_same: "same_tables s (try_send_ignored i m s)"
  by (auto simp: try_send_ignored_def split: sum.split dest: try_send_same)

lemma deliver_same: "same_tables s (snd (snd (deliver_envelope_to_sessions is m slow s)))"
proof (induction "is" m slow s rule: deliver_envelope_to_sessions.induct)
  case (2 i "is" m slow s)
  show ?case
  proof (cases "try_send i (WText m) s")
    case (Inl e)
    with 2(1)[OF Inl] show ?thesis by simp
  next
    case (Inr s')
    with 2(2)[OF Inr] show ?thesis by (auto split: prod.split dest: try_send_same intro: same_tables_trans)
  qed
qed simp

lemma deliver_users_same: "same_tables s (snd (snd (deliver_to_users us m n slow s)))"
proof (induction us m n slow s rule: deliver_to_users.induct)
  case (2 u us m n slow s)
  obtain any slow' s' where d: "deliver_envelope_to_sessions (local_sessions s (show_int u)) m slow s = (any, slow', s')"
    by (cases "deliver_envelope_to_sessions (local_sessions s (show_int u)) m slow s")
  with deliver_same[of s "local_sessions s (show_int u)" m slow] have "same_tables s s'" by simp
  with 2 d show ?case by (auto simp: Let_def intro: same_tables_trans)
qed simp

lemma neutral_same:
  "same_tables s (refresh_route_for_user E u s)" "same_tables s (remove_route E u s)"
  "same_tables s (refresh_server_node E s)" "same_tables s (publish_presence E u st s)"
  "same_tables s (send_close i s)" "same_tables s (store_heartbeat now s i)" "same_tables s (renew_routes E s)"
  "same_tables s (s\<lparr>im_routes := r\<rparr>)"
  using try_send_ignored_same[of s i WClose]
  by (auto simp: refresh_route_for_user_def remove_route_def refresh_server_node_def publish_presence_def
      send_close_def[symmetric] store_heartbeat_def renew_routes_def same_tables_def owned_def
      Let_def option.map_comp comp_def split: option.split)

lemmas neutral_inv [tables_intros] = neutral_same[THEN same_tables_inv]

section \<open>The steps that change the tables\<close>

lemma ids_of_update: "ids_of (s\<lparr>im_user_sessions := AList.update u ids m\<rparr>) v = (if v = u then ids else unwrap_or (map_of m v) [])"
  by (simp add: ids_of_def AList.update_conv')

lemma ids_of_delete: "ids_of (s\<lparr>im_user_sessions := AList.delete u m\<rparr>) v = (if v = u then [] else unwrap_or (map_of m v) [])"
  by (simp add: ids_of_def AList.delete_conv')

lemma tables_inv_users:
  "tables_inv s p \<Longrightarrow> map_of (im_user_sessions s) u = Some ids \<Longrightarrow> ids \<noteq> [] \<and> distinct ids \<and> ids = ids_of s u"
  by (auto simp: tables_inv_def ids_of_def dest!: map_of_SomeD)

lemma user_sets_update:
  "\<forall>(u, ids) \<in> set m. P ids \<Longrightarrow> P ids \<Longrightarrow> \<forall>(u, ids) \<in> set (AList.update u ids m). P ids"
  using list_all_update[of "\<lambda>(u, ids). P ids" u ids m] by (simp add: list_all_iff)

lemma user_sets_delete: "\<forall>(u, ids) \<in> set m. P ids \<Longrightarrow> \<forall>(u, ids) \<in> set (AList.delete u m). P ids"
  using list_all_delete[of "\<lambda>(u, ids). P ids" m u] by (simp add: list_all_iff)

lemma insert_not_Nil: "List.insert x xs \<noteq> []"
  using in_set_insert[of x xs] by (cases "x \<in> set xs") auto

lemma register_local_inv:
  assumes "tables_inv s p" "im_entries s i = None"
  shows "tables_inv (snd (register_local E i u c s)) p"
proof -
  let ?s = "snd (register_local E i u c s)"
  have i: "i \<notin> set (im_sessions s)" "\<And>v. i \<notin> set (ids_of s v)" "\<And>v. (v, i) \<notin> p" "\<And>v. \<not> owned s v i"
    using assms by (auto simp: tables_inv_def owned_def)
  have ids: "distinct (ids_of s u)"
    using tables_inv_users[OF assms(1), of u] by (cases "map_of (im_user_sessions s) u") (auto simp: ids_of_def)
  have owned: "owned ?s v j \<longleftrightarrow> (if j = i then v = u else owned s v j)" for v j
    by (auto simp: register_local_def owned_def new_entry_def Let_def)
  have ids': "ids_of ?s v = (if v = u then List.insert i (ids_of s u) else ids_of s v)" for v
    by (simp add: register_local_def Let_def ids_of_def AList.update_conv')
  have users: "im_user_sessions ?s = AList.update u (List.insert i (ids_of s u)) (im_user_sessions s)"
    "im_sessions ?s = List.insert i (im_sessions s)"
    by (simp_all add: register_local_def Let_def ids_of_def)
  have "\<forall>(u, ids) \<in> set (im_user_sessions ?s). ids \<noteq> [] \<and> distinct ids"
    unfolding users using assms(1) ids
    by (intro user_sets_update) (simp_all add: tables_inv_def insert_not_Nil)
  with assms(1) i show ?thesis
    by (auto simp: tables_inv_def owned ids' users AList.distinct_update)
qed

lemma remove_entry_inv:
  assumes "tables_inv s p" "remove_entry i s = (Some u, s')"
  shows "tables_inv s' (insert (u, i) p)" "(u, i) \<notin> p"
proof -
  from assms(2) obtain e where e: "i \<in> set (im_sessions s)" "im_entries s i = Some e" "u = se_user_id e"
    "s' = s\<lparr>im_sessions := removeAll i (im_sessions s), im_entries := (im_entries s)(i \<mapsto> e\<lparr>se_shutdown := True\<rparr>)\<rparr>"
    by (auto simp: remove_entry_def split: if_splits option.splits)
  have owned: "owned s' v j \<longleftrightarrow> owned s v j" for v j using e by (auto simp: owned_def)
  have "owned s u i" using e by (simp add: owned_def)
  moreover have "owned s v i \<longleftrightarrow> v = u" for v using e by (auto simp: owned_def)
  ultimately show "tables_inv s' (insert (u, i) p)"
    using assms(1) e(1) unfolding tables_inv_def owned
    by (auto simp: e(4) ids_of_def distinct_removeAll)
  show "(u, i) \<notin> p" using assms(1) e(1) by (auto simp: tables_inv_def)
qed

lemma remove_user_id_inv:
  assumes "tables_inv s p" "(u, i) \<in> p"
  shows "tables_inv (snd (remove_user_id u i s)) (p - {(u, i)})"
proof -
  let ?s = "snd (remove_user_id u i s)"
  have i: "i \<notin> set (im_sessions s)" "owned s u i" "i \<in> set (ids_of s u)" using assms by (auto simp: tables_inv_def)
  then obtain ids where ids: "map_of (im_user_sessions s) u = Some ids" by (cases "map_of (im_user_sessions s) u") (auto simp: ids_of_def)
  note users = tables_inv_users[OF assms(1) ids]
  define ids' where "ids' = removeAll i ids"
  have s: "im_user_sessions ?s = (if ids' = [] then AList.delete u (im_user_sessions s) else AList.update u ids' (im_user_sessions s))"
    "im_sessions ?s = im_sessions s" "\<And>v j. owned ?s v j \<longleftrightarrow> owned s v j"
    by (simp_all add: remove_user_id_def ids ids'_def owned_def Let_def)
  have ids_of: "ids_of ?s v = (if v = u then ids' else ids_of s v)" for v
    unfolding ids_of_def s by (simp add: AList.delete_conv' AList.update_conv')
  have old: "\<forall>(u, ids) \<in> set (im_user_sessions s). ids \<noteq> [] \<and> distinct ids"
    using assms(1) unfolding tables_inv_def by blast
  have "distinct ids'" using users unfolding ids'_def by (intro distinct_removeAll) blast
  then have "\<forall>(u, ids) \<in> set (im_user_sessions ?s). ids \<noteq> [] \<and> distinct ids"
    using user_sets_delete[OF old, of u] user_sets_update[OF old, of ids' u] unfolding s by (cases "ids' = []") simp_all
  moreover have "distinct (map fst (im_user_sessions ?s))"
    unfolding s using assms(1) by (simp add: tables_inv_def AList.distinct_update AList.distinct_delete)
  moreover have "j \<in> set (ids_of ?s v) \<longleftrightarrow> owned ?s v j \<and> (j \<in> set (im_sessions ?s) \<or> (v, j) \<in> p - {(u, i)})" for v j
  proof (cases "v = u")
    case True
    have "j \<in> set (ids_of s u) \<longleftrightarrow> owned s u j \<and> (j \<in> set (im_sessions s) \<or> (u, j) \<in> p)"
      using assms(1) by (simp add: tables_inv_def)
    with True users i(1) show ?thesis unfolding s(2,3) ids_of by (auto simp: ids'_def)
  next
    case False
    then show ?thesis unfolding s(2,3) ids_of using assms(1) by (simp add: tables_inv_def)
  qed
  ultimately show ?thesis
    using assms(1) unfolding tables_inv_def s(2,3) by (intro conjI allI) blast+
qed

lemma remove_session_local_inv [tables_intros]:
  assumes "tables_inv s p"
  shows "tables_inv (snd (remove_session_local i s)) p"
proof (cases "remove_entry i s")
  case (Pair m s')
  show ?thesis
  proof (cases m)
    case None
    with Pair have "s' = s" by (auto simp: remove_entry_def split: if_splits option.splits)
    with None Pair assms show ?thesis by (simp add: remove_session_local_def)
  next
    case (Some u)
    note r = remove_entry_inv[OF assms Pair[unfolded Some]]
    have "insert (u, i) p - {(u, i)} = p" using r(2) by simp
    with remove_user_id_inv[OF r(1), of u i] Pair Some show ?thesis
      by (cases "remove_user_id u i s'") (simp add: remove_session_local_def)
  qed
qed

section \<open>Every operation keeps the invariant\<close>

lemma neutral_after: "tables_inv s p \<Longrightarrow> same_tables s s' \<Longrightarrow> tables_inv s' p"
  by (rule same_tables_inv)

lemma drop_session_silently_inv [tables_intros]: "tables_inv s p \<Longrightarrow> tables_inv (snd (drop_session_silently E i s)) p"
  using remove_session_local_inv[of s p i]
  by (auto simp: drop_session_silently_def Let_def intro!: tables_intros split: prod.split option.split)

lemma foldl_inv: "(\<And>s x. tables_inv s p \<Longrightarrow> tables_inv (f s x) p) \<Longrightarrow> tables_inv s p \<Longrightarrow> tables_inv (foldl f s xs) p"
  by (induction xs arbitrary: s) auto

lemma drop_all_inv [tables_intros]: "tables_inv s p \<Longrightarrow> tables_inv (drop_all E is s) p"
  unfolding drop_all_def by (rule foldl_inv) (rule drop_session_silently_inv)

lemma push_to_all_inv [tables_intros]:
  assumes "tables_inv s p"
  shows "tables_inv (snd (push_to_all E t d s)) p"
proof -
  have "tables_inv (snd (snd (deliver_envelope_to_sessions is m slow s))) p" for "is" m slow
    using assms by (rule neutral_after) (rule deliver_same)
  with assms show ?thesis
    by (auto simp: push_to_all_def intro!: drop_all_inv split: prod.split option.split) (metis snd_conv)
qed

lemma push_to_users_inv [tables_intros]:
  assumes "tables_inv s p"
  shows "tables_inv (snd (push_to_users E us t d s)) p"
proof -
  have "tables_inv (snd (snd (deliver_to_users us m n slow s))) p" for m n slow
    using assms by (rule neutral_after) (rule deliver_users_same)
  with assms show ?thesis
    by (auto simp: push_to_users_def intro!: drop_all_inv split: prod.split option.split) (metis snd_conv)
qed

lemma broadcast_inv [tables_intros]: "tables_inv s p \<Longrightarrow> tables_inv (broadcast_presence_locally E u st l s) p"
  unfolding broadcast_presence_locally_def by (rule push_to_all_inv)

lemma announce_inv [tables_intros]:
  "tables_inv s p \<Longrightarrow> tables_inv (register_announce E u first s) p"
  "tables_inv s p \<Longrightarrow> tables_inv (unregister_announce E u has s) p"
  by (auto simp: register_announce_def unregister_announce_def Let_def intro!: tables_intros)

lemma register_session_inv:
  "tables_inv s p \<Longrightarrow> im_entries s i = None \<Longrightarrow> tables_inv (register_session E i u c s) p"
  using register_local_inv[of s p i E u c] by (auto simp: register_session_def intro!: announce_inv split: prod.split)

lemma unregister_session_inv [tables_intros]: "tables_inv s p \<Longrightarrow> tables_inv (snd (unregister_session E i s)) p"
  using remove_session_local_inv[of s p i]
  by (auto simp: unregister_session_def intro!: announce_inv split: prod.split option.split)

lemma close_session_inv [tables_intros]: "tables_inv s p \<Longrightarrow> tables_inv (close_session E s i) p"
  by (auto simp: close_session_def intro!: tables_intros split: option.split)

lemma user_requests_inv [tables_intros]:
  "tables_inv s p \<Longrightarrow> tables_inv (snd (user_offline E u s)) p"
  "tables_inv s p \<Longrightarrow> tables_inv (snd (touch_user_heartbeat E u s)) p"
  "tables_inv s p \<Longrightarrow> tables_inv (snd (refresh_session_heartbeat E u i s)) p"
  "tables_inv s p \<Longrightarrow> tables_inv (cleanup_stale_sessions E s) p"
  "tables_inv s p \<Longrightarrow> tables_inv (presence_message E payload s) p"
  by (auto simp: user_offline_def touch_user_heartbeat_def refresh_session_heartbeat_def cleanup_stale_sessions_def
      presence_message_def Let_def intro!: tables_intros foldl_inv split: option.split)

lemma online_status_inv [tables_intros]:
  "tables_inv s p \<Longrightarrow> tables_inv (snd (check_users_online_status E us st s)) p"
proof (induction E us st s rule: check_users_online_status.induct)
  case (2 E raw us st s)
  have "tables_inv (s\<lparr>im_routes := r\<rparr>) p" for r using 2(4) by (rule neutral_inv)
  with 2 show ?case by (auto split: option.split prod.split)
qed simp

section \<open>The state machine\<close>

text \<open>
  Tasks interleave: besides whole operations there are the two halves of a removal. What only moves
  messages, heartbeats, routes or nodes is one rule.
\<close>

inductive im_step :: "im_env \<Rightarrow> im_state \<Rightarrow> (string \<times> string) set \<Rightarrow> im_state \<Rightarrow> (string \<times> string) set \<Rightarrow> bool" for E where
  register: "im_entries s i = None \<Longrightarrow> im_step E s p (register_session E i u c s) p"
| register_tables: "im_entries s i = None \<Longrightarrow> im_step E s p (snd (register_local E i u c s)) p"
| unregister: "im_step E s p (snd (unregister_session E i s)) p"
| unregister_entry: "remove_entry i s = (Some u, s') \<Longrightarrow> im_step E s p s' (insert (u, i) p)"
| unregister_user: "(u, i) \<in> p \<Longrightarrow> im_step E s p (snd (remove_user_id u i s)) (p - {(u, i)})"
| push: "im_step E s p (snd (push_to_users E us t d s)) p"
| broadcast: "im_step E s p (snd (push_to_all E t d s)) p"
| offline: "im_step E s p (snd (user_offline E u s)) p"
| touch: "im_step E s p (snd (touch_user_heartbeat E u s)) p"
| heartbeat: "im_step E s p (snd (refresh_session_heartbeat E u i s)) p"
| status: "im_step E s p (snd (check_users_online_status E us st s)) p"
| cleanup: "im_step E s p (cleanup_stale_sessions E s) p"
| presence: "im_step E s p (presence_message E payload s) p"
| traffic: "same_tables s s' \<Longrightarrow> im_step E s p s' p"

inductive im_reachable :: "im_env \<Rightarrow> im_state \<Rightarrow> (string \<times> string) set \<Rightarrow> bool" for E where
  start: "im_sessions s = [] \<Longrightarrow> im_user_sessions s = [] \<Longrightarrow> im_reachable E s {}"
| step: "im_reachable E s p \<Longrightarrow> im_step E s p s' p' \<Longrightarrow> im_reachable E s' p'"

lemma im_step_inv: "im_step E s p s' p' \<Longrightarrow> tables_inv s p \<Longrightarrow> tables_inv s' p'"
  by (cases rule: im_step.cases)
    (auto intro: tables_intros register_session_inv register_local_inv remove_entry_inv(1) remove_user_id_inv same_tables_inv)

lemma im_reachable_inv: "im_reachable E s p \<Longrightarrow> tables_inv s p"
proof (induction rule: im_reachable.induct)
  case (start s)
  then show ?case by (simp add: tables_inv_def ids_of_def)
next
  case (step s p s' p')
  then show ?case by (blast intro: im_step_inv)
qed

section \<open>What the invariant says when no removal is under way\<close>

lemma local_sessions_all:
  assumes "tables_inv s {}" "trim u = u"
  shows "local_sessions s u = ids_of s u" "distinct (ids_of s u)"
    "i \<in> set (ids_of s u) \<longleftrightarrow> i \<in> set (im_sessions s) \<and> owned s u i"
proof -
  show ids: "i \<in> set (ids_of s u) \<longleftrightarrow> i \<in> set (im_sessions s) \<and> owned s u i" for i
    using assms(1) by (auto simp: tables_inv_def)
  have "local_session_ids s u = ids_of s u" by (simp add: local_session_ids_def ids_of_def assms(2))
  then show "local_sessions s u = ids_of s u" using ids by (simp add: local_sessions_def filter_id_conv)
  show "distinct (ids_of s u)"
    using tables_inv_users[OF assms(1), of u] by (cases "map_of (im_user_sessions s) u") (auto simp: ids_of_def)
qed

section \<open>Delivery\<close>

text \<open>
  Closed forms of delivery and of dropping sessions: who gets a message, who is dropped, and what
  is left alone.
\<close>

section \<open>Delivery\<close>

definition has_room :: "im_state \<Rightarrow> nat \<Rightarrow> string \<Rightarrow> bool" where
  "has_room s k i \<longleftrightarrow> (case im_entries s i of Some e \<Rightarrow> se_receiver e \<and> length (se_queue e) + k \<le> se_capacity e | None \<Rightarrow> False)"

abbreviation accepts :: "im_state \<Rightarrow> string \<Rightarrow> bool" where
  "accepts s i \<equiv> has_room s 1 i"

definition with_message :: "ws_message \<Rightarrow> session_entry option \<Rightarrow> session_entry option" where
  "with_message m = map_option (\<lambda>e. e\<lparr>se_queue := se_queue e @ [m]\<rparr>)"

definition delivered_to :: "string list \<Rightarrow> string \<Rightarrow> im_state \<Rightarrow> im_state" where
  "delivered_to is m s =
     s\<lparr>im_entries := \<lambda>i. if i \<in> set is \<and> accepts s i then with_message (WText m) (im_entries s i) else im_entries s i\<rparr>"

lemma try_send_accepts:
  "accepts s i \<Longrightarrow> try_send i m s = Inr (s\<lparr>im_entries := (im_entries s)(i := with_message m (im_entries s i))\<rparr>)"
  "\<not> accepts s i \<Longrightarrow> \<exists>e. try_send i m s = Inl e"
  by (auto simp: has_room_def try_send_def with_message_def split: option.splits)

lemma deliver_closed:
  "distinct is \<Longrightarrow> deliver_envelope_to_sessions is m slow s =
     (list_ex (accepts s) is, slow @ filter (\<lambda>i. \<not> accepts s i) is, delivered_to is m s)"
proof (induction "is" m slow s rule: deliver_envelope_to_sessions.induct)
  case (1 m slow s)
  then show ?case by (simp add: delivered_to_def)
next
  case (2 i "is" m slow s)
  show ?case
  proof (cases "accepts s i")
    case True
    let ?s = "s\<lparr>im_entries := (im_entries s)(i := with_message (WText m) (im_entries s i))\<rparr>"
    note send = try_send_accepts(1)[OF True, of "WText m"]
    have other: "accepts ?s j \<longleftrightarrow> accepts s j" if "j \<in> set is" for j
      using that 2(3) by (auto simp: has_room_def)
    have "delivered_to is m ?s = delivered_to (i # is) m s"
      using 2(3) True other by (intro im_state.equality) (auto simp: delivered_to_def fun_eq_iff)
    moreover have "filter (\<lambda>j. \<not> accepts ?s j) is = filter (\<lambda>j. \<not> accepts s j) is"
      using other by (auto intro: filter_cong)
    ultimately show ?thesis using 2(2)[OF send] 2(3) True send by simp
  next
    case False
    then obtain e where e: "try_send i (WText m) s = Inl e" using try_send_accepts(2) by blast
    have "delivered_to is m s = delivered_to (i # is) m s"
      using False by (intro im_state.equality) (auto simp: delivered_to_def fun_eq_iff)
    with 2(1)[OF e] 2(3) False e show ?thesis by simp
  qed
qed

lemma delivered_frame [simp]:
  "im_sessions (delivered_to is m s) = im_sessions s" "im_user_sessions (delivered_to is m s) = im_user_sessions s"
  "im_routes (delivered_to is m s) = im_routes s" "im_published (delivered_to is m s) = im_published s"
  "im_nodes (delivered_to is m s) = im_nodes s"
  by (simp_all add: delivered_to_def)

lemma local_sessions_delivered [simp]: "local_sessions (delivered_to is m s) u = local_sessions s u"
  by (simp add: local_sessions_def local_session_ids_def)

lemma delivered_append:
  assumes "set is \<inter> set js = {}"
  shows "delivered_to js m (delivered_to is m s) = delivered_to (is @ js) m s"
proof -
  have "accepts (delivered_to is m s) j \<longleftrightarrow> accepts s j" if "j \<in> set js" for j
    using that assms by (auto simp: has_room_def delivered_to_def split: option.splits)
  then show ?thesis
    using assms by (intro im_state.equality) (auto simp: delivered_to_def fun_eq_iff)
qed

text \<open>The users of a push, each with the sessions it has here.\<close>

definition targets :: "im_state \<Rightarrow> int list \<Rightarrow> string list" where
  "targets s us = concat (map (\<lambda>u. local_sessions s (show_int u)) us)"

definition reached :: "im_state \<Rightarrow> int \<Rightarrow> bool" where
  "reached s u \<longleftrightarrow> list_ex (accepts s) (local_sessions s (show_int u))"

lemma deliver_users_closed:
  "distinct (targets s us) \<Longrightarrow> n + length us < 2 ^ 64 \<Longrightarrow>
     deliver_to_users us m n slow s =
       (n + length (filter (reached s) us), slow @ filter (\<lambda>i. \<not> accepts s i) (targets s us), delivered_to (targets s us) m s)"
proof (induction us arbitrary: n slow s)
  case Nil
  then show ?case by (simp add: targets_def delivered_to_def)
next
  case (Cons u us)
  let ?is = "local_sessions s (show_int u)" and ?s = "delivered_to (local_sessions s (show_int u)) m s"
  have split: "targets s (u # us) = ?is @ targets s us" by (simp add: targets_def)
  have d: "distinct ?is" "distinct (targets s us)" "set ?is \<inter> set (targets s us) = {}"
    using Cons.prems(1) unfolding split by simp_all
  have t: "targets ?s us = targets s us" by (simp add: targets_def)
  have same: "accepts ?s j \<longleftrightarrow> accepts s j" if "j \<in> set (targets s us)" for j
    using that d(3) by (auto simp: has_room_def delivered_to_def split: option.splits)
  have "reached ?s v \<longleftrightarrow> reached s v" if v: "v \<in> set us" for v
  proof -
    have "accepts ?s j \<longleftrightarrow> accepts s j" if "j \<in> set (local_sessions s (show_int v))" for j
      using that v by (intro same) (auto simp: targets_def)
    then show ?thesis by (auto simp: reached_def list_ex_iff)
  qed
  then have f: "filter (\<lambda>i. \<not> accepts ?s i) (targets s us) = filter (\<lambda>i. \<not> accepts s i) (targets s us)"
    "filter (reached ?s) us = filter (reached s) us"
    using same by (auto intro!: filter_cong)
  note rest = Cons.IH[of ?s, unfolded t f, OF d(2)]
  have small: "min (Suc n) 18446744073709551615 = Suc n" "n + length us < 2 ^ 64" "Suc n + length us < 2 ^ 64"
    using Cons.prems(2) by simp_all
  show ?case
  proof (cases "?is = []")
    case True
    then have "\<not> reached s u" by (simp add: reached_def)
    with True Cons.IH[OF d(2) small(2)] split show ?thesis by simp
  next
    case False
    have "reached s u = list_ex (accepts s) ?is" by (simp add: reached_def)
    with False small show ?thesis
      by (simp add: Let_def deliver_closed[OF d(1)] rest delivered_append[OF d(3)] split)
  qed
qed

section \<open>Dropping\<close>

definition shut :: "session_entry option \<Rightarrow> session_entry option" where
  "shut = map_option (se_shutdown_update (\<lambda>_. True))"

lemma remove_user_id_frame:
  "im_sessions (snd (remove_user_id u i s)) = im_sessions s" "im_entries (snd (remove_user_id u i s)) = im_entries s"
  "im_routes (snd (remove_user_id u i s)) = im_routes s" "im_published (snd (remove_user_id u i s)) = im_published s"
  by (auto simp: remove_user_id_def Let_def split: option.split)

lemma remove_local_frame:
  assumes "tables_inv s p"
  shows "im_sessions (snd (remove_session_local i s)) = removeAll i (im_sessions s)"
    "im_entries (snd (remove_session_local i s)) =
       (if i \<in> set (im_sessions s) then (im_entries s)(i := shut (im_entries s i)) else im_entries s)"
    "im_routes (snd (remove_session_local i s)) = im_routes s"
    "im_published (snd (remove_session_local i s)) = im_published s"
proof -
  have "i \<in> set (im_sessions s) \<Longrightarrow> \<exists>e. im_entries s i = Some e"
    using assms by (auto simp: tables_inv_def owned_def)
  then show
    "im_sessions (snd (remove_session_local i s)) = removeAll i (im_sessions s)"
    "im_entries (snd (remove_session_local i s)) =
       (if i \<in> set (im_sessions s) then (im_entries s)(i := shut (im_entries s i)) else im_entries s)"
    "im_routes (snd (remove_session_local i s)) = im_routes s"
    "im_published (snd (remove_session_local i s)) = im_published s"
    by (auto simp: remove_session_local_def remove_entry_def shut_def split: prod.split option.split
        dest!: arg_cong[where f = snd] simp: remove_user_id_frame[THEN sym])
      (auto simp: remove_user_id_def Let_def split: option.splits)
qed

lemma drop_frame:
  "im_sessions (snd (drop_session_silently E i s)) = im_sessions (snd (remove_session_local i s))"
  "im_entries (snd (drop_session_silently E i s)) = im_entries (snd (remove_session_local i s))"
  "im_published (snd (drop_session_silently E i s)) = im_published (snd (remove_session_local i s))"
  by (auto simp: drop_session_silently_def refresh_server_node_def refresh_route_for_user_def remove_route_def Let_def
      split: prod.split option.split)

lemma drop_all_frame:
  "tables_inv s p \<Longrightarrow> set is \<subseteq> set (im_sessions s) \<Longrightarrow> distinct is \<Longrightarrow>
     im_sessions (drop_all E is s) = filter (\<lambda>i. i \<notin> set is) (im_sessions s) \<and>
     im_entries (drop_all E is s) = (\<lambda>i. if i \<in> set is then shut (im_entries s i) else im_entries s i) \<and>
     im_published (drop_all E is s) = im_published s"
proof (induction "is" arbitrary: s)
  case Nil
  then show ?case by (simp add: drop_all_def)
next
  case (Cons i "is")
  let ?s = "snd (drop_session_silently E i s)"
  note f = drop_frame[of E i s, unfolded remove_local_frame[OF Cons.prems(1)]]
  have "drop_all E (i # is) s = drop_all E is ?s" by (simp add: drop_all_def)
  moreover have "set is \<subseteq> set (im_sessions ?s)" "distinct is" using Cons.prems f(1) by auto
  note IH = Cons.IH[OF drop_session_silently_inv[OF Cons.prems(1)] this]
  ultimately show ?case using Cons.prems IH by (auto simp: f removeAll_filter_not_eq filter_filter intro: filter_cong)
qed

text \<open>Unregistering and its announcements only ever remove sessions.\<close>

lemma remove_local_shrinks: "set (im_sessions (snd (remove_session_local i s))) \<subseteq> set (im_sessions s)"
  by (auto simp: remove_session_local_def remove_entry_def remove_user_id_def Let_def split: option.splits)

lemma drop_all_shrinks: "set (im_sessions (drop_all E is s)) \<subseteq> set (im_sessions s)"
proof (induction "is" arbitrary: s)
  case (Cons i "is")
  have "drop_all E (i # is) s = drop_all E is (snd (drop_session_silently E i s))" by (simp add: drop_all_def)
  with Cons[of "snd (drop_session_silently E i s)"] show ?case
    using remove_local_shrinks[of i s] by (auto simp: drop_frame)
qed (simp add: drop_all_def)

lemma broadcast_shrinks: "set (im_sessions (broadcast_presence_locally E u st l s)) \<subseteq> set (im_sessions s)"
proof -
  have "set (im_sessions (drop_all E slow s')) \<subseteq> set (im_sessions s)"
    if "deliver_envelope_to_sessions (im_sessions s) m [] s = (d, slow, s')" for m d slow s'
    using deliver_same[of s "im_sessions s" m "[]"] drop_all_shrinks[of E slow s'] that by (simp add: same_tables_def)
  then show ?thesis
    by (auto simp: broadcast_presence_locally_def push_to_all_def split: option.split prod.split)
qed

lemma publish_sessions: "im_sessions (publish_presence E u st s) = im_sessions s"
  using neutral_same(4) by (simp add: same_tables_def)

lemma unregister_shrinks: "set (im_sessions (snd (unregister_session E i s))) \<subseteq> set (im_sessions (snd (remove_session_local i s)))"
proof -
  have "set (im_sessions (unregister_announce E u has t)) \<subseteq> set (im_sessions t)" for u has t
    using broadcast_shrinks[of E u "''OFFLINE''" None "remove_route E u t"]
    by (simp add: unregister_announce_def refresh_server_node_def publish_sessions refresh_route_for_user_def
        remove_route_def)
  then show ?thesis by (auto simp: unregister_session_def split: prod.split option.split)
qed

end
