(* ===== verification/Im_Session_Properties.thy ===== *)
theory Im_Session_Properties
  imports Im_Session_Tables Im_Samples
begin

text \<open>
  What the sessions and the route registry guarantee: leases, the agreement of the session tables
  under interleaving, who a push reaches, and what a late unregistration does to a new session.
\<close>

section \<open>Leases\<close>

lemma upsert_normalized:
  assumes "normalize_id v = Some u"
  shows "upsert_local_route config L F replies now users v n = upsert_local_route config L F replies now users u n"
proof -
  have "normalize_id u = Some u" using normalize_id_Some[OF assms] by blast
  with assms show ?thesis by (simp only: upsert_local_route_def option.case)
qed

lemma lock_held:
  assumes "lock_set_nx now token k = (True, k')" "later < now + 3000"
  shows "lock_set_nx later token' k' = (False, k')" "token' \<noteq> token \<Longrightarrow> lock_release later token' k' = k'"
    "lock_release later token k' = None"
  using assms by (auto simp: lock_set_nx_def lock_release_def split: option.splits if_splits)

lemma lock_excludes:
  assumes "lock_set_nx now token k = (True, k')" "\<forall>(later, fails) \<in> set attempts. later < now + 3000"
  shows "\<not> locked (lock_replies token' k' attempts)"
proof (rule refused_lock)
  have "(if fails then LockFailed else if fst (lock_set_nx at token' k') then Acquired else Held) \<noteq> Acquired"
    if "(at, fails) \<in> set attempts" for at fails
    using lock_held(1)[OF assms(1), of at token'] assms(2) that by auto
  then show "list_all (\<lambda>r. r \<noteq> Acquired) (lock_replies token' k' attempts)"
    unfolding list_all_iff lock_replies_def by fastforce
qed

text \<open>
  C25: Recording a session count under the lock gives the instance exactly the lease it should have, when no command
  fails: at every later time until the lease expires the user has a lease of this instance when the count
  is positive and none when it is zero, and the live leases of the other instances are kept. They are kept too
  when the writing fails; but when the reading fails and the writing does not, the leases of all
  other instances are gone. The other users are never touched, and without the lock nothing changes. Whoever has
  been given the lock holds it for three seconds: an update whose attempts all fall into that time, of any
  instance, changes nothing, and only the token of the holder releases the lock.
\<close>

theorem route_leases:
  assumes "sound_registry config L replies" "normalize_id user_id = Some u"
    and "now \<le> t" "now < lease_expiry config now"
  shows "live_leases L (upsert_local_route config L no_faults replies now users user_id n) u t =
      (live_leases L users u t)(cfg_instance_id config :=
         (if 0 < n \<and> t < lease_expiry config now then Some (own_lease config n now) else None)) \<and>
    (\<forall>F i. \<not> rf_hget F \<and> i \<noteq> cfg_instance_id config \<longrightarrow>
       live_leases L (upsert_local_route config L F replies now users user_id n) u t i = live_leases L users u t i) \<and>
    (\<forall>F i. rf_hget F \<and> \<not> rf_hset F \<and> \<not> rf_hdel F \<and> i \<noteq> cfg_instance_id config \<longrightarrow>
       live_leases L (upsert_local_route config L F replies now users user_id n) u t i = None) \<and>
    (\<forall>v F failed. v \<noteq> u \<or> \<not> locked failed \<longrightarrow> upsert_local_route config L F failed now users user_id n v = users v) \<and>
    (\<forall>token k k'. lock_set_nx now token k = (True, k') \<longrightarrow>
       (\<forall>config' F token' attempts later user_id' n'. (\<forall>(at, fails) \<in> set attempts. at < now + 3000) \<longrightarrow>
          upsert_local_route config' L F (lock_replies token' k' attempts) later users user_id' n' = users) \<and>
       (\<forall>later token'. later < now + 3000 \<longrightarrow> lock_release later token k' = None \<and>
          (token' \<noteq> token \<longrightarrow> lock_release later token' k' = k')))"
proof (intro conjI allI impI)
  have u: "normalize_id u = Some u" using normalize_id_Some[OF assms(2)] by blast
  note L = assms(1)[unfolded sound_registry_def]
  show "live_leases L (upsert_local_route config L no_faults replies now users user_id n) u t =
      (live_leases L users u t)(cfg_instance_id config :=
         (if 0 < n \<and> t < lease_expiry config now then Some (own_lease config n now) else None))"
    unfolding upsert_normalized[OF assms(2)] using L u by (intro upsert_leases assms) simp_all
  show "live_leases L (upsert_local_route config L F replies now users user_id n) u t i = live_leases L users u t i"
    if "\<not> rf_hget F \<and> i \<noteq> cfg_instance_id config" for F i
    unfolding upsert_normalized[OF assms(2)] using L u that by (intro upsert_others_kept assms) simp_all
  show "live_leases L (upsert_local_route config L F replies now users user_id n) u t i = None"
    if "rf_hget F \<and> \<not> rf_hset F \<and> \<not> rf_hdel F \<and> i \<noteq> cfg_instance_id config" for F i
    unfolding upsert_normalized[OF assms(2)] using L u that by (intro upsert_unread assms) simp_all
  show "upsert_local_route config L F failed now users user_id n v = users v" if "v \<noteq> u \<or> \<not> locked failed" for v F failed
    unfolding upsert_normalized[OF assms(2)] using that upsert_other[OF u] upsert_unlocked by metis
  show "upsert_local_route config' L F (lock_replies token' k' attempts) later users user_id' n' = users"
    if "lock_set_nx now token k = (True, k')" "\<forall>(at, fails) \<in> set attempts. at < now + 3000"
    for token k k' config' F token' attempts later user_id' n'
    using lock_excludes[OF that] by (rule upsert_unlocked)
qed (use lock_held in blast)+

lemma sample_registry: "sound_registry sample_config sample_route_lib [Held, Acquired]"
proof -
  have "cfg_instance_id sample_config = ''im-server-rs:8083''"
    using plain_trimmed[of "''im-server-rs''"]
    by (simp add: sample_config_def config_from_env_def is_local_dev_or_test_def is_local_env_value_def plain_def
      to_ascii_lowercase_def Let_def env_string_def env_u16_def default_instance_id_def host_name_def show_nat.simps
      digit_char_def char_of_eq_iff)
  moreover have "trim ''im-server-rs:8083'' = ''im-server-rs:8083''" by (rule plain_trimmed) (simp add: plain_def)
  ultimately show ?thesis using sample_route_json
    by (simp add: sound_registry_def numeral_nat)
qed

lemma sample_user: "normalize_id ''42'' = Some ''42''" "trim ''42'' = ''42''"
proof -
  show t: "trim ''42'' = ''42''" by (rule plain_trimmed) (simp add: plain_def)
  show "normalize_id ''42'' = Some ''42''" by (simp add: normalize_id_def t)
qed

lemma sample_expiry: "lease_expiry sample_config 1700000000000 = 1700000120000"
  by (simp add: lease_expiry_def saturating_add_i64_def sample_config_fields)

theorem route_leases_witness:
  "live_leases sample_route_lib
     (upsert_local_route sample_config sample_route_lib no_faults [Held, Acquired] 1700000000000 (\<lambda>_. None) ''42'' 2)
     ''42'' 1700000119999 (cfg_instance_id sample_config) = Some (own_lease sample_config 2 1700000000000)"
proof -
  have "(1700000000000 :: int) \<le> 1700000119999" "1700000000000 < lease_expiry sample_config 1700000000000"
    by (simp_all add: sample_expiry)
  from route_leases[OF sample_registry sample_user(1) this, THEN conjunct1, of "\<lambda>_. None" 2] show ?thesis
    by (simp add: sample_expiry)
qed

section \<open>Session tables\<close>

lemma counts_sum: "sum_list (map snd (local_user_counts s)) = length (concat (map snd (im_user_sessions s)))"
  by (simp add: local_user_counts_def length_concat o_def case_prod_unfold)

text \<open>The sets of the users partition the sessions.\<close>

lemma sessions_counted:
  assumes inv: "tables_inv s {}"
  shows "length (concat (map snd (im_user_sessions s))) = total_session_count s"
proof -
  let ?m = "im_user_sessions s"
  have d: "distinct (map fst ?m)" "distinct (im_sessions s)" using inv by (simp_all add: tables_inv_def)
  have ids: "ids = ids_of s u" "distinct ids" "ids \<noteq> []" if "(u, ids) \<in> set ?m" for u ids
    using tables_inv_users[OF inv, of u ids] map_of_is_SomeI[OF d(1) that] by auto
  have mem: "i \<in> set (ids_of s u) \<longleftrightarrow> owned s u i \<and> i \<in> set (im_sessions s)" for u i
    using inv by (simp add: tables_inv_def)
  have apart: "u = v" if "i \<in> set (ids_of s u)" "i \<in> set (ids_of s v)" for u v i
    using that mem by (auto simp: owned_def)
  have "distinct (concat (map snd ?m))"
  proof (rule distinct_concat)
    show "distinct (map snd ?m)"
      unfolding distinct_map
    proof (intro conjI inj_onI)
      show "distinct ?m" using d(1) by (simp add: distinct_map)
      fix x y assume "x \<in> set ?m" "y \<in> set ?m" "snd x = snd y"
      then show "x = y" using ids[of "fst x" "snd x"] ids[of "fst y" "snd y"] apart
        by (metis last_in_set prod.collapse)
    qed
    show "distinct ids" if "ids \<in> set (map snd ?m)" for ids using that ids(2) by auto
    show "set ids \<inter> set ids' = {}" if two: "ids \<in> set (map snd ?m)" "ids' \<in> set (map snd ?m)" and "ids \<noteq> ids'" for ids ids'
    proof -
      from two obtain u v where "(u, ids) \<in> set ?m" "(v, ids') \<in> set ?m" by auto
      with ids(1) have "ids = ids_of s u" "ids' = ids_of s v" by blast+
      with apart[of _ u v] \<open>ids \<noteq> ids'\<close> show ?thesis by auto
    qed
  qed
  moreover have "set (concat (map snd ?m)) = set (im_sessions s)"
  proof (intro equalityI subsetI)
    fix i assume "i \<in> set (concat (map snd ?m))"
    then show "i \<in> set (im_sessions s)" using ids(1) mem by fastforce
  next
    fix i assume "i \<in> set (im_sessions s)"
    with inv obtain u where "i \<in> set (ids_of s u)" by (auto simp: tables_inv_def)
    then show "i \<in> set (concat (map snd ?m))"
      by (cases "map_of ?m u") (force simp: ids_of_def dest: map_of_SomeD)+
  qed
  ultimately show ?thesis
    using d(2) distinct_card[of "concat (map snd ?m)"] distinct_card[of "im_sessions s"] by (simp add: total_session_count_def)
qed

text \<open>
  C7: However the tasks of the server interleave, even between the two lock sections of a removal,
  every registered session stands in the set of its user and no user has an empty set; once no
  removal is under way, the sessions found for a user are exactly the registered ones of that user,
  each once, and the counts of the users add up to the number of sessions.
\<close>

theorem session_tables:
  assumes "im_reachable E s p"
  shows "(\<forall>i \<in> set (im_sessions s). \<exists>u. owned s u i \<and> i \<in> set (ids_of s u)) \<and>
    (\<forall>(u, ids) \<in> set (im_user_sessions s). ids \<noteq> []) \<and>
    (p = {} \<longrightarrow>
      (\<forall>u. trim u = u \<longrightarrow> distinct (local_sessions s u) \<and>
         set (local_sessions s u) = {i \<in> set (im_sessions s). owned s u i}) \<and>
      sum_list (map snd (local_user_counts s)) = total_session_count s)"
proof (intro conjI impI)
  have inv: "tables_inv s p" using assms by (rule im_reachable_inv)
  then show "\<forall>i \<in> set (im_sessions s). \<exists>u. owned s u i \<and> i \<in> set (ids_of s u)"
    and "\<forall>(u, ids) \<in> set (im_user_sessions s). ids \<noteq> []"
    unfolding tables_inv_def by blast+
  assume "p = {}"
  with inv have inv: "tables_inv s {}" by simp
  from local_sessions_all[OF inv]
  show "\<forall>u. trim u = u \<longrightarrow> distinct (local_sessions s u) \<and>
         set (local_sessions s u) = {i \<in> set (im_sessions s). owned s u i}" by auto
  show "sum_list (map snd (local_user_counts s)) = total_session_count s"
    unfolding counts_sum by (rule sessions_counted[OF inv])
qed

text \<open>A user opens two sessions and the removal of the first is between its two steps.\<close>

definition empty_state :: im_state where
  "empty_state = \<lparr>im_entries = \<lambda>_. None, im_sessions = [], im_user_sessions = [], im_routes = \<lambda>_. None,
     im_nodes = \<lambda>_. None, im_published = []\<rparr>"

definition sample_env :: im_env where
  "sample_env = \<lparr>en_config = sample_config, en_lib = sample_route_lib, en_faults = no_faults, en_locks = [Held, Acquired],
     en_node_fails = False, en_publish_fails = False, en_now_ms = 1700000000000, en_now_iso = ''now'',
     en_to_string = (\<lambda>_. Some ''envelope''), en_presence = (\<lambda>e. Some (pe_status e)), en_parse_presence = (\<lambda>_. None)\<rparr>"

definition one_session :: im_state where
  "one_session = snd (register_local sample_env ''a'' ''42'' 8 empty_state)"

definition two_sessions :: im_state where
  "two_sessions = snd (register_local sample_env ''b'' ''42'' 8 one_session)"

lemma one_session_reachable: "im_reachable sample_env one_session {}"
proof -
  have "im_reachable sample_env empty_state {}" by (rule im_reachable.start) (simp_all add: empty_state_def)
  then show ?thesis
    unfolding one_session_def by (rule im_reachable.step) (simp add: im_step.register_tables empty_state_def)
qed

lemma one_session_eq:
  "im_sessions one_session = [''a'']" "im_user_sessions one_session = [(''42'', [''a''])]"
  "im_entries one_session = [''a'' \<mapsto> new_entry sample_env ''42'' 8]" "im_published one_session = []"
  by (simp_all add: one_session_def register_local_def empty_state_def Let_def)

lemma two_sessions_reachable: "im_reachable sample_env two_sessions {}"
  using one_session_reachable unfolding two_sessions_def
  by (rule im_reachable.step) (rule im_step.register_tables, simp add: one_session_eq)

lemma two_sessions_eq:
  "im_sessions two_sessions = [''b'', ''a'']" "im_user_sessions two_sessions = [(''42'', [''b'', ''a''])]"
  "im_entries two_sessions = [''a'' \<mapsto> new_entry sample_env ''42'' 8, ''b'' \<mapsto> new_entry sample_env ''42'' 8]"
  "im_published two_sessions = []"
  by (simp_all add: two_sessions_def register_local_def one_session_eq Let_def)

theorem session_tables_witness:
  "set (local_sessions two_sessions ''42'') = {''a'', ''b''} \<and> total_session_count two_sessions = 2"
proof -
  have "{i \<in> set (im_sessions two_sessions). owned two_sessions ''42'' i} = {''a'', ''b''}"
    by (auto simp: two_sessions_eq owned_def new_entry_def)
  with session_tables[OF two_sessions_reachable, THEN conjunct2, THEN conjunct2] sample_user
  show ?thesis by (simp add: local_user_counts_def two_sessions_eq)
qed

section \<open>Pushes\<close>

lemma show_int_trim: "trim (show_int u) = show_int u"
  by (rule plain_trimmed) simp

lemma targets_registered:
  assumes inv: "tables_inv s {}"
  shows "distinct us \<Longrightarrow> distinct (targets s us)" "set (targets s us) \<subseteq> set (im_sessions s)"
    "i \<in> set (targets s us) \<longleftrightarrow> (\<exists>u \<in> set us. i \<in> set (local_sessions s (show_int u)))"
proof -
  note ids = local_sessions_all[OF inv show_int_trim]
  show *: "i \<in> set (targets s us) \<longleftrightarrow> (\<exists>u \<in> set us. i \<in> set (local_sessions s (show_int u)))" for i us
    by (simp add: targets_def)
  show "set (targets s us) \<subseteq> set (im_sessions s)" by (auto simp: targets_def local_sessions_def)
  show "distinct us \<Longrightarrow> distinct (targets s us)"
  proof (induction us)
    case Nil
    then show ?case by (simp add: targets_def)
  next
    case (Cons u us)
    have "show_int u = show_int v" if "i \<in> set (local_sessions s (show_int u))" "i \<in> set (local_sessions s (show_int v))" for v i
      using that by (auto simp: ids owned_def)
    then have "set (local_sessions s (show_int u)) \<inter> set (targets s us) = {}"
      using Cons.prems * show_int_inj by (fastforce dest: injD)
    with Cons show ?case by (simp add: targets_def ids(1,2))
  qed
qed

text \<open>
  C24: A push to distinct users puts one copy of the envelope at the end of the queue of every
  session of theirs that has room, and answers the number of users it reached that way. A session
  whose queue is full or closed is told to shut down and leaves the tables, and nothing else
  changes in them; but nothing is published either, so a user whose last session is dropped this
  way goes offline without an OFFLINE event.
\<close>

theorem push_delivery:
  assumes "im_reachable E s {}" "distinct user_ids" "length user_ids < 2 ^ 64"
    and "serialize_ws_envelope E kind data = Some envelope"
  shows "fst (push_to_users E user_ids kind data s) = length (filter (reached s) user_ids) \<and>
    im_entries (snd (push_to_users E user_ids kind data s)) =
      (\<lambda>i. if i \<notin> set (targets s user_ids) then im_entries s i
           else if accepts s i then with_message (WText envelope) (im_entries s i) else shut (im_entries s i)) \<and>
    im_sessions (snd (push_to_users E user_ids kind data s)) =
      filter (\<lambda>i. i \<in> set (targets s user_ids) \<longrightarrow> accepts s i) (im_sessions s) \<and>
    im_published (snd (push_to_users E user_ids kind data s)) = im_published s"
proof (cases "user_ids = []")
  case True
  then show ?thesis by (simp add: push_to_users_def targets_def)
next
  case False
  have inv: "tables_inv s {}" using assms(1) by (rule im_reachable_inv)
  let ?ts = "targets s user_ids" and ?slow = "filter (\<lambda>i. \<not> accepts s i) (targets s user_ids)"
  let ?s = "delivered_to ?ts envelope s"
  note ts = targets_registered[OF inv]
  have push: "push_to_users E user_ids kind data s = (length (filter (reached s) user_ids), drop_all E ?slow ?s)"
    using deliver_users_closed[OF ts(1)[OF assms(2)], of 0 envelope "[]"] assms(3,4) False by (simp add: push_to_users_def)
  have "same_tables s ?s" using deliver_users_same[of s user_ids envelope 0 "[]"]
    deliver_users_closed[OF ts(1)[OF assms(2)], of 0 envelope "[]"] assms(3) by simp
  then have "tables_inv ?s {}" using inv by (rule same_tables_inv)
  from drop_all_frame[OF this, of ?slow E] ts(1)[OF assms(2)] ts(2)[of user_ids]
  have drop: "im_sessions (drop_all E ?slow ?s) = filter (\<lambda>i. i \<notin> set ?slow) (im_sessions s)"
    "im_entries (drop_all E ?slow ?s) = (\<lambda>i. if i \<in> set ?slow then shut (im_entries ?s i) else im_entries ?s i)"
    "im_published (drop_all E ?slow ?s) = im_published s" by auto
  then show ?thesis unfolding push by (auto simp: delivered_to_def fun_eq_iff intro: filter_cong)
qed

text \<open>The receiver of the session b is gone: b is dropped, the session a is served.\<close>

definition half_closed :: im_state where
  "half_closed = two_sessions\<lparr>im_entries :=
     (im_entries two_sessions)(''b'' \<mapsto> (new_entry sample_env ''42'' 8)\<lparr>se_receiver := False\<rparr>)\<rparr>"

lemma half_closed_reachable: "im_reachable sample_env half_closed {}"
  by (rule im_reachable.step[OF two_sessions_reachable im_step.traffic])
    (auto simp: same_tables_def half_closed_def owned_def two_sessions_eq new_entry_def)

lemma half_closed_sessions: "local_sessions half_closed ''42'' = [''b'', ''a'']"
  "accepts half_closed ''a''" "\<not> accepts half_closed ''b''" "im_published half_closed = []"
  by (simp_all add: local_sessions_def local_session_ids_def sample_user half_closed_def two_sessions_eq has_room_def
      new_entry_def)

theorem push_delivery_witness:
  "fst (push_to_users sample_env [42] ''MESSAGE'' JNull half_closed) = 1 \<and>
   im_sessions (snd (push_to_users sample_env [42] ''MESSAGE'' JNull half_closed)) = [''a''] \<and>
   map_option se_queue (im_entries (snd (push_to_users sample_env [42] ''MESSAGE'' JNull half_closed)) ''a'') =
     Some [WText ''envelope''] \<and>
   im_published (snd (push_to_users sample_env [42] ''MESSAGE'' JNull half_closed)) = []"
proof -
  have "serialize_ws_envelope sample_env ''MESSAGE'' JNull = Some ''envelope''"
    by (simp add: serialize_ws_envelope_def sample_env_def)
  note push = push_delivery[OF half_closed_reachable _ _ this, of "[42]"]
  have u: "show_int 42 = ''42''" by (simp add: show_int_def show_nat.simps digit_char_def char_of_eq_iff)
  then have "targets half_closed [42] = [''b'', ''a'']" "reached half_closed 42"
    using half_closed_sessions by (simp_all add: targets_def reached_def)
  moreover have "im_sessions half_closed = [''b'', ''a'']" "im_entries half_closed ''a'' = Some (new_entry sample_env ''42'' 8)"
    by (simp_all add: half_closed_def two_sessions_eq)
  ultimately show ?thesis using push half_closed_sessions by (simp add: with_message_def new_entry_def)
qed

section \<open>A late unregistration\<close>

text \<open>With room everywhere a presence broadcast only adds a message to each queue.\<close>

lemma broadcast_roomy:
  assumes "distinct (im_sessions s)" "\<forall>i \<in> set (im_sessions s). has_room s (Suc k) i"
  shows "\<forall>i \<in> set (im_sessions s). has_room (broadcast_presence_locally E u st l s) k i"
    "im_sessions (broadcast_presence_locally E u st l s) = im_sessions s"
    "im_user_sessions (broadcast_presence_locally E u st l s) = im_user_sessions s"
    "im_routes (broadcast_presence_locally E u st l s) = im_routes s"
    "im_published (broadcast_presence_locally E u st l s) = im_published s"
proof -
  have room: "accepts s i" if "i \<in> set (im_sessions s)" for i
    using assms(2) that by (auto simp: has_room_def split: option.splits)
  then have none: "filter (\<lambda>i. \<not> accepts s i) (im_sessions s) = []" by (simp add: filter_empty_conv)
  have less: "has_room s k i" if "i \<in> set (im_sessions s)" for i
    using assms(2) that by (auto simp: has_room_def split: option.splits)
  have "has_room (delivered_to (im_sessions s) m s) k i" if "i \<in> set (im_sessions s)" for m i
    using assms(2) that room[OF that] by (auto simp: delivered_to_def has_room_def with_message_def split: option.splits)
  with less show "\<forall>i \<in> set (im_sessions s). has_room (broadcast_presence_locally E u st l s) k i"
    "im_sessions (broadcast_presence_locally E u st l s) = im_sessions s"
    "im_user_sessions (broadcast_presence_locally E u st l s) = im_user_sessions s"
    "im_routes (broadcast_presence_locally E u st l s) = im_routes s"
    "im_published (broadcast_presence_locally E u st l s) = im_published s"
    by (auto simp: broadcast_presence_locally_def push_to_all_def deliver_closed[OF assms(1)] none[simplified] drop_all_def
        split: option.split)
qed

definition healthy :: "im_env \<Rightarrow> bool" where
  "healthy E \<longleftrightarrow> en_faults E = no_faults \<and> sound_registry (en_config E) (en_lib E) (en_locks E) \<and>
     \<not> en_publish_fails E \<and> (\<forall>e. en_presence E e \<noteq> None) \<and> en_now_ms E < lease_expiry (en_config E) (en_now_ms E)"

definition presence_of :: "im_env \<Rightarrow> string \<Rightarrow> string \<Rightarrow> presence_event" where
  "presence_of E u st = \<lparr>pe_user_id = u, pe_status = st, pe_last_seen = en_now_iso E, pe_event_time = en_now_ms E,
     pe_source_instance_id = cfg_instance_id (en_config E)\<rparr>"

definition here :: "im_env \<Rightarrow> im_state \<Rightarrow> string \<Rightarrow> bool" where
  "here E s u \<longleftrightarrow> leased (en_config E) (en_lib E) (im_routes s) u (en_now_ms E)"

lemma publish_healthy:
  "healthy E \<Longrightarrow> normalize_id u = Some u \<Longrightarrow>
     publish_presence E u st s = s\<lparr>im_published := im_published s @ [presence_of E u st]\<rparr>"
  by (auto simp: publish_presence_def healthy_def presence_of_def Let_def split: option.split)

lemma present_after:
  assumes "healthy E" "normalize_id u = Some u"
  shows "leased (en_config E) (en_lib E) (upsert_local_route (en_config E) (en_lib E) (en_faults E) (en_locks E)
      (en_now_ms E) routes u n) u (en_now_ms E) \<longleftrightarrow> 0 < n"
  using registry.present_upsert[of "en_config E" "en_lib E" "en_locks E" u "en_now_ms E" "en_now_ms E" routes n] assms
  by (simp add: healthy_def)

lemma register_announce_roomy:
  assumes "healthy E" "normalize_id u = Some u" "distinct (im_sessions s)"
    "\<forall>i \<in> set (im_sessions s). has_room s (Suc k) i" "s' = register_announce E u True s"
  shows "im_sessions s' = im_sessions s" "im_user_sessions s' = im_user_sessions s"
    "\<forall>i \<in> set (im_sessions s). has_room s' k i"
    "im_published s' = im_published s @ [presence_of E u ''ONLINE'']"
    "here E s' u \<longleftrightarrow> local_sessions s u \<noteq> []"
proof -
  let ?s = "refresh_server_node E (refresh_route_for_user E u s)"
  have s: "im_sessions ?s = im_sessions s" "im_user_sessions ?s = im_user_sessions s" "im_published ?s = im_published s"
    "im_entries ?s = im_entries s"
    "im_routes ?s = upsert_local_route (en_config E) (en_lib E) (en_faults E) (en_locks E) (en_now_ms E) (im_routes s) u
       (length (local_sessions s u))"
    by (simp_all add: refresh_server_node_def refresh_route_for_user_def)
  have room: "\<forall>i \<in> set (im_sessions ?s). has_room ?s (Suc k) i" using assms(4) by (simp add: has_room_def s)
  note b = broadcast_roomy[OF _ room, of E u "''ONLINE''" None, unfolded s, OF assms(3)]
  have s': "s' = publish_presence E u ''ONLINE'' (broadcast_presence_locally E u ''ONLINE'' None ?s)"
    by (simp add: assms(5) register_announce_def Let_def)
  show "im_sessions s' = im_sessions s" "im_user_sessions s' = im_user_sessions s"
    "\<forall>i \<in> set (im_sessions s). has_room s' k i"
    "im_published s' = im_published s @ [presence_of E u ''ONLINE'']"
    "here E s' u \<longleftrightarrow> local_sessions s u \<noteq> []"
    using b present_after[OF assms(1,2)] by (simp_all add: s' publish_healthy[OF assms(1,2)] has_room_def here_def)
qed

lemma unregister_announce_roomy:
  assumes "healthy E" "normalize_id u = Some u" "distinct (im_sessions s)"
    "\<forall>i \<in> set (im_sessions s). has_room s (Suc k) i" "s' = unregister_announce E u False s"
  shows "im_sessions s' = im_sessions s" "im_user_sessions s' = im_user_sessions s"
    "\<forall>i \<in> set (im_sessions s). has_room s' k i"
    "im_published s' = im_published s @ [presence_of E u ''OFFLINE'']" "\<not> here E s' u"
proof -
  let ?s = "remove_route E u s"
  have s: "im_sessions ?s = im_sessions s" "im_user_sessions ?s = im_user_sessions s" "im_published ?s = im_published s"
    "im_entries ?s = im_entries s"
    "im_routes ?s = upsert_local_route (en_config E) (en_lib E) (en_faults E) (en_locks E) (en_now_ms E) (im_routes s) u 0"
    by (simp_all add: remove_route_def remove_local_route_def)
  have room: "\<forall>i \<in> set (im_sessions ?s). has_room ?s (Suc k) i" using assms(4) by (simp add: has_room_def s)
  note b = broadcast_roomy[OF _ room, of E u "''OFFLINE''" None, unfolded s, OF assms(3)]
  have s': "s' = refresh_server_node E (publish_presence E u ''OFFLINE'' (broadcast_presence_locally E u ''OFFLINE'' None ?s))"
    by (simp add: assms(5) unregister_announce_def)
  show "im_sessions s' = im_sessions s" "im_user_sessions s' = im_user_sessions s"
    "\<forall>i \<in> set (im_sessions s). has_room s' k i"
    "im_published s' = im_published s @ [presence_of E u ''OFFLINE'']" "\<not> here E s' u"
    using b present_after[OF assms(1,2)]
    by (simp_all add: s' publish_healthy[OF assms(1,2)] has_room_def here_def refresh_server_node_def)
qed

lemma remove_only:
  assumes inv: "tables_inv s {}" and "trim u = u" "local_sessions s u = [a]"
  shows "fst (remove_session_local a s) = Some (u, False)"
    "im_user_sessions (snd (remove_session_local a s)) = AList.delete u (im_user_sessions s)"
proof -
  note ids = local_sessions_all[OF inv assms(2)]
  have "ids_of s u = [a]" using ids(1) assms(3) by simp
  then have a: "a \<in> set (im_sessions s)" "owned s u a" using ids(3)[of a] by simp_all
  then obtain e where e: "im_entries s a = Some e" "se_user_id e = u" by (auto simp: owned_def)
  from \<open>ids_of s u = [a]\<close> have "map_of (im_user_sessions s) u = Some [a]"
    by (cases "map_of (im_user_sessions s) u") (simp_all add: ids_of_def)
  with a e show "fst (remove_session_local a s) = Some (u, False)"
    "im_user_sessions (snd (remove_session_local a s)) = AList.delete u (im_user_sessions s)"
    by (simp_all add: remove_session_local_def remove_entry_def remove_user_id_def)
qed

lemma register_after:
  assumes "distinct (im_sessions s)" "trim u = u" "map_of (im_user_sessions s) u = None" "k \<le> c"
    and "\<forall>i \<in> set (im_sessions s). has_room s k i"
  shows "fst (register_local E b u c s)" "local_sessions (snd (register_local E b u c s)) u = [b]"
    "distinct (im_sessions (snd (register_local E b u c s)))"
    "\<forall>i \<in> set (im_sessions (snd (register_local E b u c s))). has_room (snd (register_local E b u c s)) k i"
    "im_published (snd (register_local E b u c s)) = im_published s"
  using assms by (auto simp: register_local_def local_sessions_def local_session_ids_def AList.update_conv' has_room_def
      new_entry_def tables_inv_def Let_def)

lemma local_sessions_cong:
  "im_sessions s = im_sessions s' \<Longrightarrow> im_user_sessions s = im_user_sessions s' \<Longrightarrow> local_sessions s u = local_sessions s' u"
  by (simp add: local_sessions_def local_session_ids_def)

lemma renewed_here:
  assumes "healthy E" "tables_inv s {}" "\<forall>(v, ids) \<in> set (im_user_sessions s). normalize_id v = Some v"
    and "local_sessions s u \<noteq> []" "normalize_id u = Some u"
  shows "here E (renew_routes E s) u"
proof -
  let ?reg = "\<lambda>v. sound_registry (en_config E) (en_lib E) (en_locks E) \<and> normalize_id v = Some v"
  have trim: "trim u = u" using normalize_id_Some[OF assms(5)] by simp
  have "ids_of s u \<noteq> []" using assms(4) local_sessions_all(1)[OF assms(2) trim] by simp
  then obtain ids where "(u, ids) \<in> set (im_user_sessions s)" "ids \<noteq> []"
    by (cases "map_of (im_user_sessions s) u") (auto simp: ids_of_def dest: map_of_SomeD)
  then have mem: "(u, length ids) \<in> set (local_user_counts s)" "0 < length ids"
    by (force simp: local_user_counts_def)+
  have "map fst (local_user_counts s) = map fst (im_user_sessions s)" by (simp add: local_user_counts_def case_prod_unfold)
  then have "distinct (map fst (local_user_counts s))" using assms(2) by (simp add: tables_inv_def)
  moreover have "list_all (\<lambda>(v, n). ?reg v) (local_user_counts s)"
    using assms(1,3) by (auto simp: list_all_iff local_user_counts_def healthy_def)
  ultimately show ?thesis
    using registry.renewed[of "en_config E" "en_lib E" "en_locks E" "local_user_counts s" u "length ids" "en_now_ms E" "en_now_ms E"]
      mem assms(1) by (simp add: here_def renew_routes_def healthy_def)
qed

text \<open>
  C23: A user reconnects while the last old session is being unregistered. When the tables have
  been cleared, the new session registers completely, and only then the old task goes on to
  withdraw the route and announce OFFLINE, the user ends with a live session, but without a lease of
  this instance and with OFFLINE as the last published event. In the order unregister, register the
  lease is there and ONLINE is last. The next renewal of the routes restores the lease; nothing
  publishes ONLINE again.
\<close>

theorem unregister_race:
  assumes "im_reachable E s {}" "healthy E" "normalize_id u = Some u" "local_sessions s u = [a]"
    and "im_entries s b = None" "2 \<le> c" "\<forall>i \<in> set (im_sessions s). has_room s 2 i"
    and "\<forall>(v, ids) \<in> set (im_user_sessions s). normalize_id v = Some v"
    and "s1 = snd (remove_session_local a s)"
    and "late = unregister_announce E u False (register_session E b u c s1)"
    and "ordered = register_session E b u c (snd (unregister_session E a s))"
  shows "fst (remove_session_local a s) = Some (u, False) \<and>
    local_sessions late u = [b] \<and> \<not> here E late u \<and>
    im_published late = im_published s @ [presence_of E u ''ONLINE'', presence_of E u ''OFFLINE''] \<and>
    local_sessions ordered u = [b] \<and> here E ordered u \<and>
    im_published ordered = im_published s @ [presence_of E u ''OFFLINE'', presence_of E u ''ONLINE''] \<and>
    here E (renew_routes E late) u \<and> im_published (renew_routes E late) = im_published late"
proof -
  have inv: "tables_inv s {}" using assms(1) by (rule im_reachable_inv)
  have trim: "trim u = u" using normalize_id_Some[OF assms(3)] by simp
  note r = remove_only[OF inv trim assms(4), folded assms(9)] and f = remove_local_frame[OF inv, of a, folded assms(9)]
  have inv1: "tables_inv s1 {}" using inv unfolding assms(9) by (rule remove_session_local_inv)
  then have d1: "distinct (im_sessions s1)" by (simp add: tables_inv_def)
  have none: "map_of (im_user_sessions s1) u = None" by (simp add: r(2) AList.delete_conv')
  have room1: "\<forall>i \<in> set (im_sessions s1). has_room s1 2 i" using assms(7) by (auto simp: f has_room_def)
  have "ids_of s u = [a]" using local_sessions_all(1)[OF inv trim] assms(4) by simp
  then have "owned s u a" using local_sessions_all(3)[OF inv trim, of a] by simp
  then have "b \<noteq> a" using assms(5) by (auto simp: owned_def)
  then have b1: "im_entries s1 b = None" using assms(5) by (simp add: f)
  text \<open>The late order.\<close>
  define sr where "sr = snd (register_local E b u c s1)"
  define s2 where "s2 = register_announce E u True sr"
  note ra = register_after[OF d1 trim none assms(6) room1, of E b, folded sr_def]
  have s2: "register_session E b u c s1 = s2"
    using ra(1) by (cases "register_local E b u c s1") (simp add: register_session_def s2_def sr_def)
  have "\<forall>i \<in> set (im_sessions sr). has_room sr (Suc 1) i" using ra(4) by (simp add: numeral_2_eq_2)
  note a2 = register_announce_roomy[OF assms(2,3) ra(3) this s2_def]
  have d2: "distinct (im_sessions s2)" and "\<forall>i \<in> set (im_sessions s2). has_room s2 (Suc 0) i" using ra(3) a2(1,3) by simp_all
  note a3 = unregister_announce_roomy[OF assms(2,3) this assms(10)[unfolded s2]]
  have late: "local_sessions late u = [b]"
    using local_sessions_cong[of late sr u] a2(1,2) a3(1,2) ra(2) by simp
  have users: "im_user_sessions late = AList.update u [b] (AList.delete u (im_user_sessions s))"
    by (simp add: a3(2) a2(2) sr_def register_local_def none r(2) Let_def AList.delete_conv')
  have "tables_inv late {}"
    unfolding assms(10) by (intro announce_inv register_session_inv inv1 b1)
  moreover have "\<forall>(v, ids) \<in> set (im_user_sessions late). normalize_id v = Some v"
    using list_all_update[OF _ list_all_delete, of "\<lambda>(v, ids). normalize_id v = Some v" u "[b]" "im_user_sessions s" u]
      assms(3,8) by (simp add: users list_all_iff)
  ultimately have renewed: "here E (renew_routes E late) u"
    by (rule renewed_here[OF assms(2)]) (simp_all add: late assms(3))
  text \<open>One after the other.\<close>
  define t1 where "t1 = unregister_announce E u False s1"
  have "\<forall>i \<in> set (im_sessions s1). has_room s1 (Suc 1) i" using room1 by (simp add: numeral_2_eq_2)
  note o1 = unregister_announce_roomy[OF assms(2,3) d1 this t1_def]
  have t1: "snd (unregister_session E a s) = t1"
    using r(1) by (cases "remove_session_local a s") (simp add: unregister_session_def t1_def assms(9))
  have "distinct (im_sessions t1)" "map_of (im_user_sessions t1) u = None" "1 \<le> c" "\<forall>i \<in> set (im_sessions t1). has_room t1 1 i"
    using o1(1-3) d1 none assms(6) by simp_all
  note rb = register_after[OF this(1) trim this(2-4), of E b]
  have t2: "ordered = register_announce E u True (snd (register_local E b u c t1))"
    using rb(1) by (cases "register_local E b u c t1") (simp add: assms(11) t1 register_session_def)
  have "\<forall>i \<in> set (im_sessions (snd (register_local E b u c t1))). has_room (snd (register_local E b u c t1)) (Suc 0) i"
    using rb(4) by simp
  note o2 = register_announce_roomy[OF assms(2,3) rb(3) this t2]
  show ?thesis
    using r(1) late renewed a3(4,5) a2(4) ra(5) f(4) o2(4,5) o1(4) rb(2,5) local_sessions_cong[OF o2(1,2), of u]
    by (simp add: renew_routes_def)
qed

lemma sample_healthy: "healthy sample_env"
  using sample_registry by (simp add: healthy_def sample_env_def sample_expiry)

theorem unregister_race_witness:
  "map pe_status (im_published (unregister_announce sample_env ''42'' False
     (register_session sample_env ''b'' ''42'' 8 (snd (remove_session_local ''a'' one_session))))) = [''ONLINE'', ''OFFLINE'']"
proof -
  have "local_sessions one_session ''42'' = [''a'']" "im_entries one_session ''b'' = None" "(2::nat) \<le> 8"
    "\<forall>i \<in> set (im_sessions one_session). has_room one_session 2 i"
    "\<forall>(v, ids) \<in> set (im_user_sessions one_session). normalize_id v = Some v"
    by (simp_all add: local_sessions_def local_session_ids_def sample_user one_session_eq has_room_def new_entry_def)
  from unregister_race[OF one_session_reachable sample_healthy sample_user(1) this refl refl refl]
  show ?thesis by (simp add: one_session_eq presence_of_def)
qed

end
