(* ===== verification/Im_Web.thy ===== *)
theory Im_Web
  imports Im_Sessions Im_Security
begin

text \<open>
  The HTTP and websocket front of the im-server (\<open>web.rs\<close>, \<open>dto.rs\<close>, \<open>clients.rs\<close>): the internal
  requests, the opening of a websocket with a ticket, and the loop that serves an open socket.
  Reading and printing JSON bodies and the HTTP client are the record \<open>web_lib\<close>.
\<close>

section \<open>Requests and responses\<close>

record 'a api_response =
  ar_code :: int
  ar_message :: string
  ar_data :: "'a option"
  ar_timestamp :: int

definition api_success :: "int \<Rightarrow> 'a \<Rightarrow> 'a api_response" where
  "api_success now data = \<lparr>ar_code = 200, ar_message = ''OK'', ar_data = Some data, ar_timestamp = now\<rparr>"

definition api_success_message :: "int \<Rightarrow> string \<Rightarrow> 'a \<Rightarrow> 'a api_response" where
  "api_success_message now message data =
     \<lparr>ar_code = 200, ar_message = message, ar_data = Some data, ar_timestamp = now\<rparr>"

definition api_error :: "int \<Rightarrow> int \<Rightarrow> string \<Rightarrow> 'a api_response" where
  "api_error now code message = \<lparr>ar_code = code, ar_message = message, ar_data = None, ar_timestamp = now\<rparr>"

record health_response =
  hr_status :: string
  hr_service :: string
  hr_time :: string

record ready_response =
  rr_service :: string
  rr_time :: string
  rr_readiness_state :: string
  rr_status :: string

record consume_request =
  cr_ticket :: "string option"
  cr_user_id :: "int option"

record consume_result =
  cs_valid :: bool
  cs_status :: "string option"
  cs_user_id :: "int option"
  cs_username :: "string option"
  cs_error :: "string option"

record push_request =
  pr_user_id :: int
  pr_kind :: string
  pr_data :: json

record push_batch_request =
  pb_user_ids :: "int list"
  pb_kind :: string
  pb_data :: json

record push_batch_result =
  br_accepted :: nat
  br_delivered :: nat

text \<open>Identifiers arrive as numbers or as text.\<close>

fun value_to_i64 :: "json \<Rightarrow> int option" where
  "value_to_i64 (JInt i) = (if - (2 ^ 63) \<le> i \<and> i < 2 ^ 63 then Some i else None)"
| "value_to_i64 (JStr s) = parse_i64 (trim s)"
| "value_to_i64 _ = None"

definition deserialize_i64 :: "json \<Rightarrow> string + int" where
  "deserialize_i64 v = ok_or ''invalid integer'' (value_to_i64 v)"

definition deserialize_option_i64 :: "json \<Rightarrow> string + int option" where
  "deserialize_option_i64 v =
     (if v = JNull then Inr None else and_then (ok_or ''invalid integer'' (value_to_i64 v)) (\<lambda>i. Inr (Some i)))"

record web_lib =
  wl_auth :: auth_lib
  wl_value :: "string \<Rightarrow> json option"
  wl_user_ids :: "bytes \<Rightarrow> string list option"
  wl_push :: "bytes \<Rightarrow> push_request option"
  wl_push_batch :: "bytes \<Rightarrow> push_batch_request option"
  wl_print_consume :: "consume_request \<Rightarrow> bytes option"
  wl_post :: "string \<Rightarrow> (string \<times> string) list \<Rightarrow> bytes \<Rightarrow> (nat \<times> bytes) option"
  wl_status_text :: "nat \<Rightarrow> string"
  wl_read_consume :: "bytes \<Rightarrow> consume_result api_response option"

section \<open>Internal requests\<close>

definition authorized :: "web_lib \<Rightarrow> im_env \<Rightarrow> header_map \<Rightarrow> string \<Rightarrow> bytes \<Rightarrow> app_error + unit" where
  "authorized W E headers path body =
     validate_internal_signature (wl_auth W) (en_now_ms E) headers ''POST'' path body (en_config E)"

definition health :: "im_env \<Rightarrow> health_response" where
  "health E = \<lparr>hr_status = ''UP'', hr_service = ''im-server'', hr_time = en_now_iso E\<rparr>"

definition ready :: "im_env \<Rightarrow> ready_response" where
  "ready E = \<lparr>rr_service = ''im-server'', rr_time = en_now_iso E, rr_readiness_state = ''ACCEPTING_TRAFFIC'',
     rr_status = ''READY''\<rparr>"

definition offline_handler ::
  "web_lib \<Rightarrow> im_env \<Rightarrow> header_map \<Rightarrow> string \<Rightarrow> string \<Rightarrow> bytes \<Rightarrow> im_state \<Rightarrow> (app_error + string api_response) \<times> im_state"
where
  "offline_handler W E headers path user_id body s =
     (case authorized W E headers path body of
        Inl e \<Rightarrow> (Inl e, s)
      | Inr _ \<Rightarrow> (Inr (api_success (en_now_ms E) ''user offline success''), snd (user_offline E user_id s)))"

definition heartbeat_handler ::
  "web_lib \<Rightarrow> im_env \<Rightarrow> header_map \<Rightarrow> string \<Rightarrow> string \<Rightarrow> bytes \<Rightarrow> im_state \<Rightarrow> (app_error + bool api_response) \<times> im_state"
where
  "heartbeat_handler W E headers path user_id body s =
     (case authorized W E headers path body of
        Inl e \<Rightarrow> (Inl e, s)
      | Inr _ \<Rightarrow>
          (case touch_user_heartbeat E user_id s of (touched, s) \<Rightarrow>
            (Inr (if touched then api_success_message (en_now_ms E) ''heartbeat refreshed'' True
                  else api_error (en_now_ms E) 400 ''user offline or session invalid''), s)))"

definition online_status_impl ::
  "web_lib \<Rightarrow> im_env \<Rightarrow> header_map \<Rightarrow> string \<Rightarrow> bytes \<Rightarrow> im_state \<Rightarrow>
     (app_error + (string \<times> bool) list api_response) \<times> im_state"
where
  "online_status_impl W E headers path body s =
     (case authorized W E headers path body of
        Inl e \<Rightarrow> (Inl e, s)
      | Inr _ \<Rightarrow>
          (case wl_user_ids W body of
             None \<Rightarrow> (Inl JsonError, s)
           | Some user_ids \<Rightarrow>
               if user_ids = [] then (Inr (api_error (en_now_ms E) 500 ''userIds cannot be empty''), s)
               else case check_users_online_status E user_ids [] s of (status, s) \<Rightarrow>
                 (Inr (api_success_message (en_now_ms E) ''online status queried'' status), s)))"

definition internal_push ::
  "web_lib \<Rightarrow> im_env \<Rightarrow> header_map \<Rightarrow> string \<Rightarrow> bytes \<Rightarrow> im_state \<Rightarrow> (app_error + bool api_response) \<times> im_state"
where
  "internal_push W E headers path body s =
     (case authorized W E headers path body of
        Inl e \<Rightarrow> (Inl e, s)
      | Inr _ \<Rightarrow>
          (case wl_push W body of
             None \<Rightarrow> (Inl JsonError, s)
           | Some request \<Rightarrow>
               if trim (pr_kind request) = [] then (Inr (api_error (en_now_ms E) 400 ''push type cannot be empty''), s)
               else case push_to_user E (pr_user_id request) (trim (pr_kind request)) (pr_data request) s of (delivered, s) \<Rightarrow>
                 (Inr (api_success_message (en_now_ms E)
                    (if delivered then ''push delivered'' else ''user has no local websocket session'') delivered), s)))"

definition internal_push_batch ::
  "web_lib \<Rightarrow> im_env \<Rightarrow> header_map \<Rightarrow> string \<Rightarrow> bytes \<Rightarrow> im_state \<Rightarrow>
     (app_error + push_batch_result api_response) \<times> im_state"
where
  "internal_push_batch W E headers path body s =
     (case authorized W E headers path body of
        Inl e \<Rightarrow> (Inl e, s)
      | Inr _ \<Rightarrow>
          (case wl_push_batch W body of
             None \<Rightarrow> (Inl JsonError, s)
           | Some request \<Rightarrow>
               if pb_user_ids request = [] then (Inr (api_error (en_now_ms E) 400 ''userIds cannot be empty''), s)
               else if trim (pb_kind request) = []
               then (Inr (api_error (en_now_ms E) 400 ''push type cannot be empty''), s)
               else case push_to_users E (pb_user_ids request) (trim (pb_kind request)) (pb_data request) s of (delivered, s) \<Rightarrow>
                 (Inr (api_success_message (en_now_ms E) ''batch push processed''
                    \<lparr>br_accepted = length (pb_user_ids request), br_delivered = delivered\<rparr>), s)))"

section \<open>The client of the auth service\<close>

definition trim_end_slashes :: "string \<Rightarrow> string" where
  "trim_end_slashes s = rev (dropWhile (\<lambda>c. c = CHR ''/'') (rev s))"

definition is_success :: "nat \<Rightarrow> bool" where
  "is_success status \<longleftrightarrow> 200 \<le> status \<and> status < 300"

definition post_json ::
  "web_lib \<Rightarrow> im_env \<Rightarrow> string \<Rightarrow> string \<Rightarrow> string \<Rightarrow> bytes \<Rightarrow> (bytes \<Rightarrow> 'a option) \<Rightarrow> app_error + 'a"
where
  "post_json W E nonce base_url path body read =
     and_then (internal_signature_headers (wl_auth W) (en_now_ms E) nonce ''POST'' path body (en_config E)) (\<lambda>signed.
     and_then (ok_or HttpError (wl_post W (trim_end_slashes base_url @ path)
         ([(''Content-Type'', ''application/json''), (''Accept'', ''application/json'')] @ signed) body)) (\<lambda>(status, content).
       if \<not> is_success status then Inl (BadRequest (''upstream returned '' @ wl_status_text W status))
       else ok_or HttpError (read content)))"

definition consume_ws_ticket :: "web_lib \<Rightarrow> im_env \<Rightarrow> string \<Rightarrow> string \<Rightarrow> int \<Rightarrow> app_error + consume_result" where
  "consume_ws_ticket W E nonce ticket user_id =
     and_then (ok_or JsonError (wl_print_consume W \<lparr>cr_ticket = Some ticket, cr_user_id = Some user_id\<rparr>)) (\<lambda>body.
     and_then (post_json W E nonce (cfg_auth_service_url (en_config E)) ''/api/auth/internal/ws-ticket/consume'' body
         (wl_read_consume W)) (\<lambda>response.
       ok_or (BadRequest ''empty ws ticket consume response'') (ar_data response)))"

section \<open>Tickets and cookies\<close>

datatype ticket_resolution = Ticket string | RejectedQueryTicket | Missing

definition cookie_value :: "header_map \<Rightarrow> string \<Rightarrow> string option" where
  "cookie_value headers name =
     (case header_text headers ''cookie'' of
        None \<Rightarrow> None
      | Some raw \<Rightarrow> find_map (cookie_part name) (split_on CHR '';'' raw))"

definition resolve_ticket :: "header_map \<Rightarrow> (string \<Rightarrow> string option) \<Rightarrow> app_config \<Rightarrow> ticket_resolution" where
  "resolve_ticket headers query config =
     (case cookie_value headers (cfg_ws_ticket_cookie_name config) of
        Some ticket \<Rightarrow> Ticket ticket
      | None \<Rightarrow>
          let query_ticket = (case query ''ticket'' of Some v \<Rightarrow> if trim v \<noteq> [] then Some (trim v) else None | None \<Rightarrow> None) in
          if query_ticket \<noteq> None \<and> \<not> cfg_allow_query_ticket config then RejectedQueryTicket
          else case query_ticket of Some ticket \<Rightarrow> Ticket ticket | None \<Rightarrow> Missing)"

definition resolve_secure :: "header_map \<Rightarrow> string \<Rightarrow> bool" where
  "resolve_secure headers configured =
     (let c = to_ascii_lowercase (trim configured) in
      if c = ''true'' then True
      else if c = ''false'' then False
      else case header_text headers ''X-Forwarded-Proto'' of
        Some proto \<Rightarrow> eq_ignore_ascii_case proto ''https'' | None \<Rightarrow> False)"

definition normalize_cookie_path :: "string \<Rightarrow> string" where
  "normalize_cookie_path path = (if starts_with ''/'' (trim path) then trim path else ''/websocket'')"

definition normalize_same_site :: "string \<Rightarrow> string" where
  "normalize_same_site same_site = (if trim same_site = [] then ''Lax'' else trim same_site)"

definition clear_ws_ticket_cookie :: "header_map \<Rightarrow> app_config \<Rightarrow> app_error + string" where
  "clear_ws_ticket_cookie headers config =
     (let secure_attr = (if resolve_secure headers (cfg_ws_ticket_cookie_secure config) then ''; Secure'' else []);
          cookie = cfg_ws_ticket_cookie_name config @ ''=; Max-Age=0; Path='' @
            normalize_cookie_path (cfg_ws_ticket_cookie_path config) @ ''; HttpOnly; SameSite='' @
            normalize_same_site (cfg_ws_ticket_cookie_same_site config) @ secure_attr in
      if list_all visible_ascii cookie then Inr cookie else Inl (BadRequest ''invalid cookie header: ''))"

section \<open>Opening a websocket\<close>

text \<open>An upgrade carries the user of the session to come and the cookie to set.\<close>

datatype ws_response = Refused app_error | Upgraded string string "string option"

definition websocket ::
  "web_lib \<Rightarrow> im_env \<Rightarrow> string \<Rightarrow> string \<Rightarrow> (string \<Rightarrow> string option) \<Rightarrow> header_map \<Rightarrow> ws_response"
where
  "websocket W E nonce path_user_id query headers =
     (case resolve_ticket headers query (en_config E) of
        RejectedQueryTicket \<Rightarrow> Refused query_ticket_not_allowed
      | Missing \<Rightarrow> Refused ticket_invalid
      | Ticket ticket \<Rightarrow>
          let gateway_identity =
                (case validate_gateway_ws_identity (wl_auth W) (en_now_ms E) headers (en_config E) of
                   Inr identity \<Rightarrow> Some identity | Inl _ \<Rightarrow> None);
              expected = (case gateway_identity of Some (user_id, _) \<Rightarrow> Some user_id | None \<Rightarrow> parse_i64 (trim path_user_id))
          in (case expected of
                None \<Rightarrow> Refused ticket_invalid
              | Some expected_user_id \<Rightarrow>
                  (case consume_ws_ticket W E nonce ticket expected_user_id of
                     Inl _ \<Rightarrow> Refused ticket_invalid
                   | Inr result \<Rightarrow>
                       (case cs_user_id result of
                          None \<Rightarrow> Refused ticket_invalid
                        | Some consumed_user_id \<Rightarrow>
                            if \<not> cs_valid result then Refused ticket_invalid
                            else Upgraded (show_int consumed_user_id) (unwrap_or (cs_username result) [])
                              (case clear_ws_ticket_cookie headers (en_config E) of Inr cookie \<Rightarrow> Some cookie | Inl _ \<Rightarrow> None)))))"

section \<open>Serving a websocket\<close>

definition send_ws_message :: "string \<Rightarrow> ws_message \<Rightarrow> im_state \<Rightarrow> im_state" where
  "send_ws_message session_id msg s = try_send_ignored session_id msg s"

text \<open>\<open>usize\<close> counters saturate.\<close>

definition count_invalid :: "nat \<Rightarrow> nat" where
  "count_invalid n = min (n + 1) (2 ^ 64 - 1)"

definition handle_invalid_payload :: "im_env \<Rightarrow> string \<Rightarrow> nat \<Rightarrow> im_state \<Rightarrow> bool \<times> nat \<times> im_state" where
  "handle_invalid_payload E session_id n s =
     (let n = count_invalid n in
      if max (cfg_invalid_payload_threshold (en_config E)) 1 \<le> n then (False, n, send_ws_message session_id WClose s)
      else (True, n, s))"

definition pong_text :: "im_env \<Rightarrow> string" where
  "pong_text E = unwrap_or (en_to_string E (JObj [(''content'', JStr ''PONG''), (''type'', JStr ''HEARTBEAT'')])) []"

text \<open>\<open>None\<close> is text that looks like JSON and is not.\<close>

definition is_heartbeat :: "web_lib \<Rightarrow> string \<Rightarrow> bool option" where
  "is_heartbeat W payload =
     (if eq_ignore_ascii_case payload ''PING'' then Some True
      else if starts_with [CHR 0x7B] payload then
        map_option (\<lambda>v. case Option.bind (json_get v ''type'') json_as_str of
            Some kind \<Rightarrow> eq_ignore_ascii_case kind ''HEARTBEAT'' \<or> eq_ignore_ascii_case kind ''PING''
          | None \<Rightarrow> False) (wl_value W payload)
      else Some False)"

definition handle_client_text ::
  "web_lib \<Rightarrow> im_env \<Rightarrow> string \<Rightarrow> string \<Rightarrow> string \<Rightarrow> nat \<Rightarrow> im_state \<Rightarrow> bool \<times> nat \<times> im_state"
where
  "handle_client_text W E user_id session_id txt n s =
     (if max (cfg_max_payload_length (en_config E)) 1 < length txt then handle_invalid_payload E session_id n s
      else
        let payload = trim txt in
        if payload = [] then handle_invalid_payload E session_id n s
        else if is_heartbeat W payload \<noteq> Some True then handle_invalid_payload E session_id n s
        else (case refresh_session_heartbeat E user_id session_id s of
                (False, s) \<Rightarrow> (False, 0, s)
              | (True, s) \<Rightarrow> (True, 0, send_ws_message session_id (WText (pong_text E)) s)))"

text \<open>What the loop of an open socket receives; a message of the client comes with its payload.\<close>

datatype socket_event = ShutdownChanged | StreamEnded | StreamFailed | Received ws_message

definition on_socket_event ::
  "web_lib \<Rightarrow> im_env \<Rightarrow> string \<Rightarrow> string \<Rightarrow> socket_event \<Rightarrow> nat \<Rightarrow> im_state \<Rightarrow> bool \<times> nat \<times> im_state"
where
  "on_socket_event W E user_id session_id event n s =
     (case event of
        Received (WText txt) \<Rightarrow> handle_client_text W E user_id session_id txt n s
      | Received (WPing payload) \<Rightarrow>
          (case refresh_session_heartbeat E user_id session_id (send_ws_message session_id (WPong payload) s) of
             (alive, s) \<Rightarrow> (alive, n, s))
      | Received (WPong _) \<Rightarrow> (case refresh_session_heartbeat E user_id session_id s of (alive, s) \<Rightarrow> (alive, n, s))
      | Received WClose \<Rightarrow> (False, n, s)
      | Received (WBinary _) \<Rightarrow> handle_invalid_payload E session_id n s
      | _ \<Rightarrow> (False, n, s))"

definition open_socket :: "im_env \<Rightarrow> string \<Rightarrow> string \<Rightarrow> im_state \<Rightarrow> im_state" where
  "open_socket E session_id user_id s =
     register_session E session_id user_id (max (cfg_websocket_outbound_queue_size (en_config E)) 1) s"

text \<open>Aborting the writer drops the receiver of the queue.\<close>

definition close_socket :: "im_env \<Rightarrow> string \<Rightarrow> im_state \<Rightarrow> im_state" where
  "close_socket E session_id s =
     snd (unregister_session E session_id
       (s\<lparr>im_entries := (im_entries s)(session_id := map_option (se_receiver_update (\<lambda>_. False)) (im_entries s session_id))\<rparr>))"

text \<open>The loop: still open with a count when the events run out, else left and closed.\<close>

fun socket_loop :: "web_lib \<Rightarrow> im_env \<Rightarrow> string \<Rightarrow> string \<Rightarrow> socket_event list \<Rightarrow> nat \<Rightarrow> im_state \<Rightarrow> nat option \<times> im_state" where
  "socket_loop W E user_id session_id [] n s = (Some n, s)"
| "socket_loop W E user_id session_id (e # es) n s =
     (case on_socket_event W E user_id session_id e n s of
        (True, n, s) \<Rightarrow> socket_loop W E user_id session_id es n s
      | (False, n, s) \<Rightarrow> (None, close_socket E session_id s))"

end
