(* ===== verification/Im_Web_Properties.thy ===== *)
theory Im_Web_Properties
  imports Im_Web Im_Session_Properties "HOL-Library.Sublist"
begin

text \<open>How long an open websocket tolerates messages it does not understand.\<close>

section \<open>Frames\<close>

definition invalid_event :: "web_lib \<Rightarrow> im_env \<Rightarrow> socket_event \<Rightarrow> bool" where
  "invalid_event W E ev =
     (case ev of
        Received (WBinary _) \<Rightarrow> True
      | Received (WText t) \<Rightarrow> max (cfg_max_payload_length (en_config E)) 1 < length t \<or> trim t = [] \<or>
          is_heartbeat W (trim t) \<noteq> Some True
      | _ \<Rightarrow> False)"

definition heartbeat_event :: "web_lib \<Rightarrow> im_env \<Rightarrow> socket_event \<Rightarrow> bool" where
  "heartbeat_event W E ev =
     (case ev of
        Received (WText t) \<Rightarrow> length t \<le> max (cfg_max_payload_length (en_config E)) 1 \<and> trim t \<noteq> [] \<and>
          is_heartbeat W (trim t) = Some True
      | _ \<Rightarrow> False)"

text \<open>Pings and pongs keep the session alive and leave the count as it is; other frames end the loop.\<close>

definition control_event :: "socket_event \<Rightarrow> bool" where
  "control_event ev \<longleftrightarrow> (case ev of Received (WPing _) \<Rightarrow> True | Received (WPong _) \<Rightarrow> True | _ \<Rightarrow> False)"

definition ending_event :: "socket_event \<Rightarrow> bool" where
  "ending_event ev \<longleftrightarrow> ev \<in> {ShutdownChanged, StreamEnded, StreamFailed, Received WClose}"

lemma event_kinds: "invalid_event W E ev \<or> heartbeat_event W E ev \<or> control_event ev \<or> ending_event ev"
  by (auto simp: invalid_event_def heartbeat_event_def control_event_def ending_event_def not_less
      split: socket_event.splits ws_message.splits)

lemma event_kinds_apart:
  "heartbeat_event W E ev \<Longrightarrow> \<not> invalid_event W E ev \<and> \<not> control_event ev \<and> \<not> ending_event ev"
  "invalid_event W E ev \<Longrightarrow> \<not> control_event ev \<and> \<not> ending_event ev" "control_event ev \<Longrightarrow> \<not> ending_event ev"
  by (auto simp: invalid_event_def heartbeat_event_def control_event_def ending_event_def
      split: socket_event.splits ws_message.splits)

definition registered_for :: "im_state \<Rightarrow> string \<Rightarrow> string \<Rightarrow> bool" where
  "registered_for s user_id session_id \<longleftrightarrow> session_id \<in> set (im_sessions s) \<and> owned s (trim user_id) session_id"

lemma registered_same: "same_tables s s' \<Longrightarrow> registered_for s u i \<Longrightarrow> registered_for s' u i"
  by (simp add: same_tables_def registered_for_def)

lemma refresh_registered:
  assumes "registered_for s u i" "trim i = i"
  shows "fst (refresh_session_heartbeat E u i s)" "registered_for (snd (refresh_session_heartbeat E u i s)) u i"
proof -
  from assms obtain e where e: "find_session_entry s i = Some e" "se_user_id e = trim u"
    by (auto simp: registered_for_def find_session_entry_def owned_def)
  then show "fst (refresh_session_heartbeat E u i s)" by (simp add: refresh_session_heartbeat_def)
  have "same_tables s (refresh_route_for_user E (se_user_id e) (store_heartbeat (en_now_ms E) s (trim i)))"
    by (rule same_tables_trans[OF neutral_same(6) neutral_same(1)])
  then show "registered_for (snd (refresh_session_heartbeat E u i s)) u i"
    using e assms(1) by (simp add: refresh_session_heartbeat_def registered_same)
qed

lemma on_invalid: "invalid_event W E ev \<Longrightarrow> on_socket_event W E u i ev n s = handle_invalid_payload E i n s"
  by (auto simp: invalid_event_def on_socket_event_def handle_client_text_def Let_def
      split: socket_event.splits ws_message.splits)

lemma on_heartbeat:
  assumes "heartbeat_event W E ev" "registered_for s u i" "trim i = i"
  obtains s' where "on_socket_event W E u i ev n s = (True, 0, s')" "registered_for s' u i"
proof -
  from assms(1) obtain t where t: "ev = Received (WText t)" "length t \<le> max (cfg_max_payload_length (en_config E)) 1"
    "trim t \<noteq> []" "is_heartbeat W (trim t) = Some True"
    by (auto simp: heartbeat_event_def split: socket_event.splits ws_message.splits)
  obtain b s1 where r: "refresh_session_heartbeat E u i s = (b, s1)" by (cases "refresh_session_heartbeat E u i s")
  with refresh_registered[OF assms(2,3), of E] have b: "b" "registered_for s1 u i" by simp_all
  let ?s = "send_ws_message i (WText (pong_text E)) s1"
  have "registered_for ?s u i"
    unfolding send_ws_message_def by (rule registered_same[OF try_send_ignored_same b(2)])
  moreover have "on_socket_event W E u i ev n s = (True, 0, ?s)"
    using t r b(1) by (auto simp: on_socket_event_def handle_client_text_def)
  ultimately show thesis using that by blast
qed

lemma on_control:
  assumes "control_event ev" "registered_for s u i" "trim i = i"
  obtains s' where "on_socket_event W E u i ev n s = (True, n, s')" "registered_for s' u i"
proof -
  have refreshed: "\<exists>s'. refresh_session_heartbeat E u i t = (True, s') \<and> registered_for s' u i" if "registered_for t u i" for t
    using refresh_registered[OF that assms(3), of E] by (cases "refresh_session_heartbeat E u i t") auto
  have "registered_for (send_ws_message i m s) u i" for m
    unfolding send_ws_message_def by (rule registered_same[OF try_send_ignored_same assms(2)])
  note sent = refreshed[OF this] and same = refreshed[OF assms(2)]
  from assms(1) consider x where "ev = Received (WPing x)" | x where "ev = Received (WPong x)"
    by (auto simp: control_event_def split: socket_event.splits ws_message.splits)
  then show thesis
  proof cases
    case 1
    with sent[of "WPong x"] that show ?thesis by (auto simp: on_socket_event_def)
  next
    case 2
    with same that show ?thesis by (auto simp: on_socket_event_def)
  qed
qed

lemma on_ending: "ending_event ev \<Longrightarrow> on_socket_event W E u i ev n s = (False, n, s)"
  by (auto simp: ending_event_def on_socket_event_def)

text \<open>A session that is gone, or another user's, ends the loop at the next sign of life.\<close>

lemma on_unregistered:
  assumes "\<not> registered_for s u i" "trim i = i" "heartbeat_event W E ev \<or> control_event ev"
  shows "\<not> fst (on_socket_event W E u i ev n s)"
proof -
  have dead: "\<exists>t'. refresh_session_heartbeat E u i t = (False, t')" if "same_tables s t" for t
  proof -
    have "\<not> registered_for t u i" using assms(1) that by (auto simp: same_tables_def registered_for_def)
    then show ?thesis
      using assms(2) by (auto simp: refresh_session_heartbeat_def find_session_entry_def registered_for_def owned_def
          split: option.splits if_splits)
  qed
  have sent: "same_tables s (send_ws_message i m s)" for m unfolding send_ws_message_def by (rule try_send_ignored_same)
  obtain s1 where s1: "refresh_session_heartbeat E u i s = (False, s1)" using dead[of s] by (auto simp: same_tables_def)
  from assms(3) consider t where "ev = Received (WText t)" "heartbeat_event W E ev"
    | x where "ev = Received (WPing x)" | x where "ev = Received (WPong x)"
    by (auto simp: heartbeat_event_def control_event_def split: socket_event.splits ws_message.splits)
  then show ?thesis
  proof cases
    case 1
    then show ?thesis
      by (auto simp: heartbeat_event_def on_socket_event_def handle_client_text_def Let_def s1)
  next
    case 2
    with dead[OF sent, of "WPong x"] show ?thesis by (auto simp: on_socket_event_def)
  next
    case 3
    then show ?thesis by (simp add: on_socket_event_def s1)
  qed
qed

section \<open>Runs of invalid messages\<close>

lemma no_block_across:
  "0 < k \<Longrightarrow> sublist (replicate k True) (xs @ False # ys) \<longleftrightarrow> sublist (replicate k True) xs \<or> sublist (replicate k True) ys"
proof
  assume k: "0 < k" and "sublist (replicate k True) (xs @ False # ys)"
  then obtain u v where uv: "xs @ False # ys = u @ replicate k True @ v" by (auto simp: sublist_def)
  show "sublist (replicate k True) xs \<or> sublist (replicate k True) ys"
  proof (cases "length u + k \<le> length xs")
    case True
    from uv have "take (length u + k) (xs @ False # ys) = u @ replicate k True" by simp
    with True have "take (length u + k) xs = u @ replicate k True" by simp
    then have "xs = u @ replicate k True @ drop (length u + k) xs" by (metis append.assoc append_take_drop_id)
    then show ?thesis by (auto simp: sublist_def)
  next
    case False
    show ?thesis
    proof (cases "length xs < length u")
      case True
      from uv have "drop (Suc (length xs)) (xs @ False # ys) = drop (Suc (length xs)) u @ replicate k True @ v" using True by simp
      then have "ys = drop (Suc (length xs)) u @ replicate k True @ v" by simp
      then show ?thesis by (auto simp: sublist_def)
    next
      case in_block: False
      have "(xs @ False # ys) ! length xs = (u @ replicate k True @ v) ! length xs" using uv by simp
      moreover have "length xs - length u < k" using in_block False by linarith
      ultimately show ?thesis using in_block by (simp add: nth_append)
    qed
  qed
qed (auto simp: sublist_def, metis append.assoc append_Cons, metis append.assoc append_Cons)

lemma blocks_start:
  "n < k \<Longrightarrow> sublist (replicate k True) (replicate n True @ False # ys) \<longleftrightarrow> sublist (replicate k True) ys"
  using no_block_across[of k "replicate n True" ys] sublist_length_le[of "replicate k True" "replicate n True"] by fastforce

lemma replicate_more: "replicate n True @ True # xs = replicate (Suc n) True @ xs"
  by (induction n) simp_all

lemma close_socket_gone:
  assumes "tables_inv s p"
  shows "i \<notin> set (im_sessions (close_socket E i s))"
proof -
  let ?s = "s\<lparr>im_entries := (im_entries s)(i := map_option (se_receiver_update (\<lambda>_. False)) (im_entries s i))\<rparr>"
  have "same_tables s ?s" by (auto simp: same_tables_def owned_def option.map_comp comp_def)
  then have inv: "tables_inv ?s p" using assms by (rule same_tables_inv)
  show ?thesis
    using unregister_shrinks[of E i ?s] remove_local_frame(1)[OF inv, of i] by (auto simp: close_socket_def)
qed

text \<open>The loop on any events, from a count below the threshold.\<close>

lemma loop_frames:
  fixes E :: im_env
  defines "k \<equiv> max (cfg_invalid_payload_threshold (en_config E)) 1"
  assumes "k < 2 ^ 64" "trim i = i"
  shows "registered_for s u i \<Longrightarrow> n < k \<Longrightarrow>
    fst (socket_loop W E u i es n s) = None \<longleftrightarrow> list_ex ending_event es \<or>
      sublist (replicate k True) (replicate n True @ map (invalid_event W E) (filter (\<lambda>ev. \<not> control_event ev) es))"
proof (induction es arbitrary: n s)
  case Nil
  then show ?case using sublist_length_le[of "replicate k True" "replicate n True"] by auto
next
  case (Cons ev es)
  show ?case
  proof (cases "invalid_event W E ev")
    case True
    have n: "count_invalid n = Suc n" using Cons.prems(2) assms(2) by (simp add: count_invalid_def)
    show ?thesis
    proof (cases "Suc n < k")
      case less: True
      then have "on_socket_event W E u i ev n s = (True, Suc n, s)"
        using True by (simp add: on_invalid handle_invalid_payload_def n Let_def k_def)
      then show ?thesis using Cons.IH[of s "Suc n"] Cons.prems less True event_kinds_apart(2)[OF True]
        by (simp add: replicate_more del: replicate.simps)
    next
      case False
      then have k: "k = Suc n" using Cons.prems(2) by simp
      have "fst (on_socket_event W E u i ev n s) = False"
        using True False by (simp add: on_invalid handle_invalid_payload_def n Let_def k_def)
      then have "fst (socket_loop W E u i (ev # es) n s) = None" by (auto split: prod.split bool.split)
      moreover have "sublist (replicate k True) (replicate n True @
          map (invalid_event W E) (filter (\<lambda>ev. \<not> control_event ev) (ev # es)))"
        using True event_kinds_apart(2)[OF True] by (simp add: k replicate_more del: replicate.simps)
      ultimately show ?thesis by simp
    qed
  next
    case valid: False
    consider "heartbeat_event W E ev" | "control_event ev" | "ending_event ev" using event_kinds[of W E ev] valid by blast
    then show ?thesis
    proof cases
      case 1
      then obtain s' where s': "on_socket_event W E u i ev n s = (True, 0, s')" "registered_for s' u i"
        using on_heartbeat[OF _ Cons.prems(1) assms(3)] by blast
      have "0 < k" by (simp add: k_def)
      with Cons.IH[OF s'(2), of 0] Cons.prems valid event_kinds_apart(1)[OF 1] s'(1) blocks_start[of n k] show ?thesis by simp
    next
      case 2
      then obtain s' where s': "on_socket_event W E u i ev n s = (True, n, s')" "registered_for s' u i"
        using on_control[OF _ Cons.prems(1) assms(3)] by blast
      with Cons.IH[OF s'(2), of n] Cons.prems 2 event_kinds_apart(3)[OF 2] show ?thesis by simp
    next
      case 3
      then show ?thesis by (simp add: on_ending)
    qed
  qed
qed

lemma socket_event_inv:
  assumes "tables_inv s p"
  shows "tables_inv (snd (snd (on_socket_event W E u i ev n s))) p"
proof -
  have send: "tables_inv (send_ws_message i m t) p" if "tables_inv t p" for m t
    unfolding send_ws_message_def using try_send_ignored_same that by (rule same_tables_inv)
  then have invalid: "tables_inv (snd (snd (handle_invalid_payload E i n s))) p"
    using assms by (simp add: handle_invalid_payload_def Let_def)
  have refresh: "tables_inv (snd (refresh_session_heartbeat E u i t)) p" if "tables_inv t p" for t
    using that by (rule user_requests_inv)
  have client: "tables_inv (snd (snd (handle_client_text W E u i t n s))) p" for t
    using invalid send refresh[OF assms] by (auto simp: handle_client_text_def Let_def split: prod.split bool.split)
  show ?thesis
    using assms invalid client refresh[OF assms] refresh[OF send[OF assms]]
    by (auto simp: on_socket_event_def split: socket_event.split ws_message.split prod.split) (metis snd_conv)+
qed

lemma loop_closed:
  "tables_inv s p \<Longrightarrow> fst (socket_loop W E u i es n s) = None \<Longrightarrow> i \<notin> set (im_sessions (snd (socket_loop W E u i es n s)))"
proof (induction es arbitrary: n s)
  case (Cons ev es)
  obtain keep n' s' where ev: "on_socket_event W E u i ev n s = (keep, n', s')" by (cases "on_socket_event W E u i ev n s")
  with socket_event_inv[OF Cons.prems(1), of W E u i ev n] have "tables_inv s' p" by simp
  with Cons ev show ?case by (cases keep) (simp_all add: close_socket_gone)
qed simp

text \<open>
  C26: As long as its session is registered, the loop that serves a websocket leaves exactly when the client closes, the
  stream ends or fails, a shutdown is signalled, or as many invalid messages as the threshold (binary frames,
  empty, oversized or unrecognised text) come with no heartbeat between them; pings and pongs neither count nor
  reset, and invalid messages that heartbeats interrupt are tolerated without limit. When the session has been
  removed meanwhile, or belongs to another user, the next heartbeat, ping or pong ends the loop. When the loop
  leaves, the session is no longer registered.
\<close>

theorem websocket_tolerance:
  assumes "im_reachable E s p" "registered_for s user_id session_id" "trim session_id = session_id"
    and "cfg_invalid_payload_threshold (en_config E) < 2 ^ 64"
  shows "(fst (socket_loop W E user_id session_id es 0 s) = None \<longleftrightarrow>
      list_ex ending_event es \<or>
      sublist (replicate (max (cfg_invalid_payload_threshold (en_config E)) 1) True)
        (map (invalid_event W E) (filter (\<lambda>ev. \<not> control_event ev) es))) \<and>
    (\<forall>s' ev n. \<not> registered_for s' user_id session_id \<and> (heartbeat_event W E ev \<or> control_event ev) \<longrightarrow>
      fst (socket_loop W E user_id session_id (ev # es) n s') = None) \<and>
    (fst (socket_loop W E user_id session_id es 0 s) = None \<longrightarrow>
      session_id \<notin> set (im_sessions (snd (socket_loop W E user_id session_id es 0 s))))"
proof (intro conjI allI impI)
  have "max (cfg_invalid_payload_threshold (en_config E)) 1 < 2 ^ 64" using assms(4) by simp
  from loop_frames[OF this assms(3,2), of 0]
  show "fst (socket_loop W E user_id session_id es 0 s) = None \<longleftrightarrow> list_ex ending_event es \<or>
      sublist (replicate (max (cfg_invalid_payload_threshold (en_config E)) 1) True)
        (map (invalid_event W E) (filter (\<lambda>ev. \<not> control_event ev) es))"
    by simp
  show "fst (socket_loop W E user_id session_id (ev # es) n s') = None"
    if "\<not> registered_for s' user_id session_id \<and> (heartbeat_event W E ev \<or> control_event ev)" for s' ev n
    using on_unregistered[OF _ assms(3), of s' user_id W E ev n] that by (auto split: prod.split bool.split)
qed (use loop_closed[OF im_reachable_inv[OF assms(1)]] in blast)

definition sample_web :: web_lib where
  "sample_web = \<lparr>wl_auth = undefined, wl_value = (\<lambda>_. None), wl_user_ids = (\<lambda>_. None), wl_push = (\<lambda>_. None),
     wl_push_batch = (\<lambda>_. None), wl_print_consume = (\<lambda>_. None), wl_post = (\<lambda>_ _ _. None),
     wl_status_text = show_nat, wl_read_consume = (\<lambda>_. None)\<rparr>"

text \<open>With the threshold 3, an invalid message and a heartbeat do not count towards the three that follow.\<close>

theorem websocket_tolerance_witness:
  "fst (socket_loop sample_web sample_env ''42'' ''a''
     [Received (WBinary []), Received (WText ''PING''), Received (WBinary []), Received (WBinary [])] 0 one_session) \<noteq> None \<and>
   fst (socket_loop sample_web sample_env ''42'' ''a''
     [Received (WBinary []), Received (WText ''PING''), Received (WBinary []), Received (WBinary []), Received (WBinary [])]
     0 one_session) = None"
proof -
  have ping: "trim ''PING'' = ''PING''" by (rule plain_trimmed) (simp add: plain_def)
  have a: "trim ''a'' = ''a''" by (rule plain_trimmed) (simp add: plain_def)
  have limits: "cfg_invalid_payload_threshold (en_config sample_env) = 3" "cfg_max_payload_length (en_config sample_env) = 8192"
    by (simp_all add: sample_env_def sample_config_fields)
  have reg: "registered_for one_session ''42'' ''a''"
    by (simp add: registered_for_def one_session_eq owned_def sample_user new_entry_def)
  have frames: "invalid_event sample_web sample_env (Received (WBinary []))"
    "\<not> invalid_event sample_web sample_env (Received (WText ''PING''))"
    "heartbeat_event sample_web sample_env (Received (WText ''PING''))"
    by (simp_all add: invalid_event_def heartbeat_event_def limits ping is_heartbeat_def eq_ignore_ascii_case_def)
  have three: "replicate 3 True = [True, True, True]" by (simp add: numeral_3_eq_3)
  have threshold: "cfg_invalid_payload_threshold (en_config sample_env) < 2 ^ 64" by (simp add: limits)
  note tolerance = websocket_tolerance[OF one_session_reachable reg a threshold, of sample_web, THEN conjunct1, unfolded limits]
  show ?thesis
    by (subst (1 2) tolerance) (simp_all add: frames three sublist_code control_event_def ending_event_def)
qed

end
