(* ===== verification/Spec2Isabelle.thy ===== *)
theory Spec2Isabelle
  imports Api_User_Properties Api_Friend_Properties Api_Dispatcher_Properties Api_Message_Properties Api_Negotiation_Properties Api_Key_Properties Api_Group_Properties Api_Conversations Api_Token_Properties Api_Pipeline_Properties
    Ffi_Properties Wasm_Properties Bridge_Properties Common_Properties Im_Security_Properties
    Im_Session_Properties Im_Web_Properties
begin

text \<open>
  The Rust parts of an instant-messaging system: an end-to-end encryption library with its bindings
  (\<open>rust/crates\<close>), the api-server that keeps keys, sessions, groups, tokens and messages, and the im-server
  that holds the websockets (\<open>rust/apps\<close>).

  How the parts interact. A client encrypts with one of the three hosts of the library: the UniFFI session
  manager, the WebAssembly session manager, the Flutter bridge. It publishes its keys at the api-server,
  fetches the bundles of others there and agrees on encrypted sessions; it logs in with tokens that the
  api-server issues and revokes, and opens a websocket at an im-server with a ticket that the im-server
  redeems at the api-server. The im-server leases the routes of its users in Redis. A message goes to the
  Redis server of its conversation, with an event in a queue there; publishers move the events to streams, writers
  bring their messages into the database, and dispatchers read the routes and push the events to the im-servers
  over requests that both sign with a shared secret.

  Theories and sources. Every theory opens with what it holds; a theory \<open>_Rules\<close> has the rules and the guarantees of
  each operation, a theory \<open>_Properties\<close> what follows for the component.

  \<^item> \<open>Prelude\<close>, \<open>Common_Text\<close>, \<open>Host_Libs\<close>: lists, numbers as text, trimming and splitting as in the Rust standard
    library, texts with marked ends for the witnesses, JSON values.
  \<^item> \<open>Primitives\<close>, \<open>Ratchet_State\<close>, \<open>Ratchet\<close>, \<open>X3dh\<close>: the crate \<open>im-e2ee-core\<close> (errors, primitives over
    a record of cryptographic functions, the state of the Double Ratchet with its codecs, encryption and
    decryption, the handshake). \<open>Ratchet_Facts\<close>, \<open>Ratchet_Failures\<close>, \<open>Ratchet_Channel\<close>, \<open>Ratchet_Delivery\<close> and
    \<open>Ratchet_Conversation\<close> lead to \<open>E2ee_Properties\<close>: two parties over a network that delays, reorders and
    loses, and the invariant that every message in flight still decrypts.
  \<^item> \<open>Ffi_Session\<close>, \<open>Wasm_Session\<close>, \<open>Bridge\<close>: \<open>im-e2ee-ffi/src/session\<close>, \<open>im-e2ee-wasm/src/session.rs\<close>,
    \<open>im-flutter-bridge/src/api/e2ee.rs\<close>: what a manager promises and that the three hosts agree.
  \<^item> \<open>Common_Ids\<close>, \<open>Common_Keys\<close>, \<open>Common_Events\<close>: \<open>im-common/src/ids.rs\<close> with interleaved threads, \<open>keys.rs\<close>, and
    \<open>event.rs\<close>.
  \<^item> \<open>Im_Config\<close>, \<open>Im_Routes\<close>, \<open>Im_Security\<close> (with the header maps), \<open>Im_Sessions\<close>, \<open>Im_Web\<close>: the im-server, with
    \<open>Im_Session_Tables\<close> for the two session tables under every interleaving.
  \<^item> \<open>Api_Base\<close>, \<open>Api_Store\<close>, \<open>Api_Config\<close>, \<open>Api_Auth_Types\<close>, \<open>Api_Auth\<close>: errors, computations that access shared
    stores, the MySQL tables and Redis keys, configuration, who calls.
  \<^item> \<open>Api_Keys\<close>, \<open>Api_Groups\<close>, \<open>Api_Conversations\<close>, \<open>Api_Negotiation\<close>, \<open>Api_Tokens\<close>: the handlers of
    \<open>api-server/src/e2ee\<close>, \<open>access_control.rs\<close> and \<open>auth*.rs\<close>. \<open>Api_Negotiation_Rules\<close> shows that the handlers of
    the negotiation refine a machine over statuses and versions (\<open>allowed_change\<close>).
  \<^item> \<open>Api_Hot\<close>, \<open>Api_Publisher\<close>, \<open>Api_Writer\<close>, \<open>Api_Dispatcher\<close>: the Redis servers for messages and the streams
    (\<open>redis_streams.rs\<close>), the publisher (\<open>background_publisher.rs\<close>), the writer (\<open>background_writer\<close>) and the
    dispatcher (\<open>push_dispatcher.rs\<close>). \<open>Api_Pipeline_Rules\<close> has the invariant of the way from the queue to the
    database, \<open>Api_Publisher_Rules\<close> and \<open>Api_Writer_Rules\<close> that every access keeps it, \<open>Api_Pipeline_Properties\<close>
    that no event is lost, what an acknowledgement means and where the writing fails.
  \<^item> \<open>Api_Cache\<close>, \<open>Api_Message_Types\<close>, \<open>Api_Message_Send\<close>, \<open>Api_Message_Read\<close>, \<open>Api_Message_List\<close>:
    \<open>local_cache.rs\<close> and the handlers of \<open>api-server/src/message\<close>. \<open>Api_Hot_Rules\<close> follows one Redis server over
    time, \<open>Api_Message_Rules\<close> what the handlers may write there.
  \<^item> \<open>Api_Friends\<close>, \<open>Api_Im_Groups\<close>, \<open>Api_Users\<close>, \<open>Api_Settings\<close>: friends and groups (\<open>social_*.rs\<close>), accounts
    (\<open>user_*.rs\<close>), settings and devices for push notifications (\<open>push_handlers.rs\<close>). \<open>Api_Social_Views\<close> has the rules
    they share; \<open>Api_Friend_Properties\<close>, \<open>Api_Im_Group_Properties\<close> and \<open>Api_User_Properties\<close> show who can become
    friends, who changes a group, and that nothing is done to an account without its password.
  \<^item> \<open>Api_Ghost\<close>, \<open>Api_Samples\<close>, \<open>Im_Samples\<close>: histories (below), and executable instances for the witnesses.

  How a handler of the api-server is modelled. It is a resumption (\<open>act\<close> in \<open>Api_Base\<close>): it runs up to its next
  access to a store, and one access is one SQL statement, one transaction, one Redis command, script or pipeline, or
  one HTTP request. Any access may be answered, may not reach the store, or may lose its reply. Tasks are
  interleaved access by access, with changes by others in between. \<open>ensures\<close> says what each access of a task
  guarantees; \<open>Api_Ghost\<close> adds a history that the program does not keep (which claimant was given a
  pre-key, which task spent a token) and shows how tasks extend it. The Redis server of a conversation is chosen by
  its URL, apart from the server of caches and tokens. A batch is written with one time, and a \<open>DATETIME\<close>
  column rounds to seconds. What a stream drops at its limit of length is a parameter of the store (\<open>aw_trim\<close>).

  Bounds. Parsers of texts consume fuel that is the length of the text; a reader of a stream claims idle entries
  with fuel that is the number of pending ones, of which every turn takes one at least. The endless loops of the
  background tasks run for any number of rounds. The im-server's lock gives up after
  20 attempts and the claim of a pre-key after 2, as in the code; an operation of the im-server reads the
  clock once. A \<open>usize\<close> has 64 bits; the scripts' numbers are below \<open>10 ^ 14\<close>, where Lua's arithmetic is exact. Hash
  maps are lists without duplicate keys, read in row order; the
  collation of the database is a parameter; \<open>LIMIT 1\<close> takes the first row.

  Third-party code is a parameter: the records \<open>crypto_lib\<close>, \<open>auth_lib\<close>, \<open>host_lib\<close>, \<open>bridge_lib\<close>, \<open>api_lib\<close> hold the
  cryptography, the codecs of Base64, JSON and JWT, times as text. What is relied on of them is a named
  hypothesis of the theorems, with an instance in the witnesses.

  Not modelled, and why. Uploading files and avatars works on files; moments and the AI assistant are features of
  their own that no modelled part calls (the reactions of the assistant to a message are left out of sending). The route
  tables, the start-up of the servers, the spawning of tasks, logging and the locks of single keys inside a
  process are frame. The admin-server is a front over SQL. The C interface of the library (\<open>ffi.rs\<close>) handles raw
  pointers around the manager that is modelled; \<open>frb_generated.rs\<close> is generated and \<open>rust/vendor\<close> is third-party code.
  The clients in Flutter and for the web, the Python services and the scripts are in other languages.
\<close>

end
